(* ===== verification/Prelude.thy ===== *)
theory Prelude
  imports Main
begin

text \<open>
  Shared vocabulary of the development: the lemma collections, the exceptions the
  modelled Python code raises, the error monad, the states of a dictionary key, the
  SQLAlchemy result accessors and in-place row updates, and the generic lemmas on them.
\<close>

named_theorems res_simps "equations of the error monad"
named_theorems row_simps "facts about row selection and in-place row update"

section \<open>Exceptions and the error monad\<close>

text \<open>
  One constructor for each exception class that a modelled routine raises or handles.
  \<open>HTTPException\<close> carries the status code and the detail text of FastAPI's class.
\<close>

datatype exn =
    HTTPException nat string
  | ValueError string
  | TypeError
  | KeyError string
  | AttributeError
  | LookupError string
  | MultipleResultsFound
  | IntegrityError
  | DataError
  | RuntimeError string
  | MissingGreenlet
  | InvalidToken
  | TokenBlocklistUnavailable
  | ScanAuthorizationError string
  | PasswordPolicyError string
  | ServiceError string
  | AIClientError string
  | TimeoutError

type_synonym 'a result = "exn + 'a"

definition rbind :: "'a result \<Rightarrow> ('a \<Rightarrow> 'b result) \<Rightarrow> 'b result" where
  "rbind m f = (case m of Inl e \<Rightarrow> Inl e | Inr x \<Rightarrow> f x)"

lemma rbind_simps [simp, res_simps]:
  "rbind (Inl e) f = Inl e"
  "rbind (Inr x) f = f x"
  by (simp_all add: rbind_def)

lemma rbind_eq_Inr [res_simps]:
  "(rbind m f = Inr y) = (\<exists>x. m = Inr x \<and> f x = Inr y)"
  by (cases m) simp_all

lemma rbind_eq_Inl [res_simps]:
  "(rbind m f = Inl e) = (m = Inl e \<or> (\<exists>x. m = Inr x \<and> f x = Inl e))"
  by (cases m) simp_all

lemma rbind_cong [fundef_cong]:
  "m = m' \<Longrightarrow> (\<And>x. m' = Inr x \<Longrightarrow> f x = f' x) \<Longrightarrow> rbind m f = rbind m' f'"
  by (cases m') simp_all

text \<open>A loop that stops at the first exception, threading a state.\<close>

fun rfold :: "('a \<Rightarrow> 's \<Rightarrow> 's result) \<Rightarrow> 'a list \<Rightarrow> 's \<Rightarrow> 's result" where
  "rfold f [] s = Inr s"
| "rfold f (x # xs) s = rbind (f x s) (rfold f xs)"

lemma rfold_append: "rfold f (xs @ ys) s = rbind (rfold f xs s) (rfold f ys)"
  by (induction xs arbitrary: s) (auto simp: rbind_def split: sum.splits)

lemma rfold_invariant:
  assumes "P s" and "rfold f xs s = Inr t"
    and "\<And>x u v. x \<in> set xs \<Longrightarrow> P u \<Longrightarrow> f x u = Inr v \<Longrightarrow> P v"
  shows "P t"
  using assms
proof (induction xs arbitrary: s)
  case Nil
  then show ?case by simp
next
  case (Cons x xs)
  from Cons.prems(2) obtain u where u: "f x s = Inr u" "rfold f xs u = Inr t"
    by (auto simp: rbind_eq_Inr)
  have "P u" using Cons.prems(1,3) u(1) by auto
  then show ?case using Cons.IH u(2) Cons.prems(3) by auto
qed

lemma rfold_total:
  assumes "P s"
    and "\<And>x u. x \<in> set xs \<Longrightarrow> P u \<Longrightarrow> \<exists>v. f x u = Inr v \<and> P v"
  shows "\<exists>t. rfold f xs s = Inr t \<and> P t"
  using assms
proof (induction xs arbitrary: s)
  case Nil
  then show ?case by simp
next
  case (Cons x xs)
  from Cons.prems obtain u where u: "f x s = Inr u" "P u" by (metis list.set_intros(1))
  then show ?case using Cons.IH [of u] Cons.prems(2) by auto
qed

lemma rfold_fails:
  assumes "x \<in> set xs" and "\<And>s. \<exists>e. step x s = Inl e"
  shows "\<exists>e. rfold step xs s = Inl e"
  using assms(1)
proof (induction xs arbitrary: s)
  case (Cons y ys)
  show ?case
  proof (cases "y = x")
    case True
    then show ?thesis using assms(2) [of s] by auto
  next
    case False
    with Cons.prems Cons.IH show ?thesis by (cases "step y s") auto
  qed
qed simp

text \<open>A measure that only one step of a loop changes.\<close>

lemma rfold_once:
  assumes "rfold step xs s = Inr t" and "x \<in> set xs" and "distinct xs"
    and "\<And>y u v. y \<in> set xs \<Longrightarrow> y \<noteq> x \<Longrightarrow> step y u = Inr v \<Longrightarrow> m v = m u"
    and "\<And>u v. step x u = Inr v \<Longrightarrow> m v = g (m u)"
  shows "m t = g (m s)"
proof -
  from assms(2) obtain ys zs where xs: "xs = ys @ x # zs" by (auto simp: in_set_conv_decomp)
  with assms(1) obtain u v where u: "rfold step ys s = Inr u" "step x u = Inr v" "rfold step zs v = Inr t"
    by (auto simp: rfold_append rbind_eq_Inr)
  have keep: "m q = m p" if "y \<in> set (ys @ zs)" "step y p = Inr q" for y p q
    by (rule assms(4) [OF _ _ that(2)]) (use that(1) assms(3) xs in auto)
  have run: "m q = m p" if "rfold step ws p = Inr q" "set ws \<subseteq> set (ys @ zs)" for ws p q
  proof (rule rfold_invariant [OF _ that(1), where P = "\<lambda>w. m w = m p"])
    fix y p' q' assume "y \<in> set ws" "m p' = m p" "step y p' = Inr q'"
    with that(2) keep [of y p' q'] show "m q' = m p" by auto
  qed simp
  from run [OF u(1)] run [OF u(3)] have "m u = m s" "m t = m v" by simp_all
  then show ?thesis using assms(5) [OF u(2)] by simp
qed

section \<open>Dictionary keys\<close>

text \<open>
  The state of one key of a Python dictionary: not there, there with \<open>None\<close>, or there
  with a value. \<open>dget k d\<close> is \<open>d.get(k, default)\<close>; the result is \<open>None\<close> or a value.
\<close>

datatype 'a dkey = Absent | Null | Has 'a

fun dget :: "'a dkey \<Rightarrow> 'a option \<Rightarrow> 'a option" where
  "dget Absent dflt = dflt"
| "dget Null dflt = None"
| "dget (Has v) dflt = Some v"

definition opt_key :: "'a option \<Rightarrow> 'a dkey" where
  "opt_key v = (case v of None \<Rightarrow> Null | Some x \<Rightarrow> Has x)"

text \<open>Python's \<open>or\<close> on an optional value whose falsy values are given by a predicate.\<close>

definition or_else :: "('a \<Rightarrow> bool) \<Rightarrow> 'a option \<Rightarrow> 'a option \<Rightarrow> 'a option" where
  "or_else falsy a b = (case a of None \<Rightarrow> b | Some v \<Rightarrow> if falsy v then b else Some v)"

definition truthy_str :: "string option \<Rightarrow> bool" where
  "truthy_str s = (case s of None \<Rightarrow> False | Some v \<Rightarrow> v \<noteq> [])"

abbreviation str_or :: "string option \<Rightarrow> string option \<Rightarrow> string option" where
  "str_or \<equiv> or_else (\<lambda>s. s = [])"

lemma or_else_simps [simp]:
  "or_else f None b = b"
  "or_else f (Some v) b = (if f v then b else Some v)"
  by (simp_all add: or_else_def)

lemma truthy_str_simps [simp]:
  "truthy_str None = False"
  "truthy_str (Some v) = (v \<noteq> [])"
  by (simp_all add: truthy_str_def)

section \<open>Rows\<close>

text \<open>
  A table is the list of its rows in insertion order, a query is a \<open>filter\<close> over it.
  \<open>scalar_one_or_none\<close> is SQLAlchemy's accessor: no row, the row, or an exception when
  there are several.
\<close>

fun scalar_one_or_none :: "'r list \<Rightarrow> 'r option result" where
  "scalar_one_or_none [] = Inr None"
| "scalar_one_or_none [r] = Inr (Some r)"
| "scalar_one_or_none (r # r' # rs) = Inl MultipleResultsFound"

lemma scalar_one_or_none_SomeD:
  "scalar_one_or_none rs = Inr (Some r) \<Longrightarrow> rs = [r]"
  by (cases rs rule: scalar_one_or_none.cases) auto

lemma scalar_one_or_none_NoneD:
  "scalar_one_or_none rs = Inr None \<Longrightarrow> rs = []"
  by (cases rs rule: scalar_one_or_none.cases) auto

lemma scalar_one_or_none_cases:
  obtains (none) "rs = []" "scalar_one_or_none rs = Inr None"
  | (one) r where "rs = [r]" "scalar_one_or_none rs = Inr (Some r)"
  | (many) "scalar_one_or_none rs = Inl MultipleResultsFound" "2 \<le> length rs"
  by (cases rs rule: scalar_one_or_none.cases) auto

lemma scalar_filter_SomeD:
  "scalar_one_or_none (filter P rs) = Inr (Some r) \<Longrightarrow> r \<in> set rs \<and> P r"
  by (drule scalar_one_or_none_SomeD) (auto simp: filter_eq_Cons_iff)

lemma scalar_filter_NoneD:
  "scalar_one_or_none (filter P rs) = Inr None \<Longrightarrow> \<forall>r\<in>set rs. \<not> P r"
  by (drule scalar_one_or_none_NoneD) (auto simp: filter_empty_conv)

lemma filter_id_single:
  "distinct (map key rows) \<Longrightarrow> r \<in> set rows \<Longrightarrow> filter (\<lambda>x. key x = key r) rows = [r]"
proof (induction rows)
  case (Cons x xs)
  show ?case
  proof (cases "x = r")
    case True
    then have "filter (\<lambda>y. key y = key r) xs = []" using Cons.prems(1) by (auto simp: filter_empty_conv image_iff)
    with True show ?thesis by simp
  next
    case False
    with Cons.prems have "r \<in> set xs" "key x \<noteq> key r" by (auto simp: image_iff)
    with Cons.IH Cons.prems(1) show ?thesis by simp
  qed
qed simp

lemma scalar_one_or_none_two:
  assumes "x \<in> set rs" and "y \<in> set rs" and "x \<noteq> y"
  shows "scalar_one_or_none rs = Inl MultipleResultsFound"
  using assms by (cases rs rule: scalar_one_or_none.cases) auto

lemma scalar_one_or_none_total:
  "length rs \<le> 1 \<Longrightarrow> \<exists>r. scalar_one_or_none rs = Inr r"
  by (cases rs rule: scalar_one_or_none.cases) auto

text \<open>Assigning attributes of the rows a condition selects; all other rows stay.\<close>

definition update_where :: "('r \<Rightarrow> bool) \<Rightarrow> ('r \<Rightarrow> 'r) \<Rightarrow> 'r list \<Rightarrow> 'r list" where
  "update_where p f rs = map (\<lambda>r. if p r then f r else r) rs"

lemma update_where_simps [simp, row_simps]:
  "update_where p f [] = []"
  "update_where p f (r # rs) = (if p r then f r else r) # update_where p f rs"
  "update_where p f (rs @ ss) = update_where p f rs @ update_where p f ss"
  by (simp_all add: update_where_def)

lemma length_update_where [simp, row_simps]: "length (update_where p f rs) = length rs"
  by (simp add: update_where_def)

lemma set_update_where [row_simps]:
  "set (update_where p f rs) = {r \<in> set rs. \<not> p r} \<union> f ` {r \<in> set rs. p r}"
  by (auto simp: update_where_def)

lemma update_where_none [row_simps]: "\<forall>r\<in>set rs. \<not> p r \<Longrightarrow> update_where p f rs = rs"
  by (induction rs) auto

lemma map_update_where [row_simps]:
  "(\<And>r. p r \<Longrightarrow> k (f r) = k r) \<Longrightarrow> map k (update_where p f rs) = map k rs"
  by (induction rs) auto

text \<open>
  The contract of a mutation of one row: it keeps the key it was selected by. What a
  lookup returns afterwards follows once, for every table and every handler.
\<close>

locale row_mutation =
  fixes key :: "'r \<Rightarrow> 'k" and mut :: "'r \<Rightarrow> 'r"
  assumes key_mut: "key (mut r) = key r"
begin

lemma keys_kept: "map key (update_where (\<lambda>r. key r = k) mut rs) = map key rs"
  by (rule map_update_where) (simp add: key_mut)

lemma lookup_mutated:
  "filter (\<lambda>r. key r = k) (update_where (\<lambda>r. key r = k) mut rs)
    = map mut (filter (\<lambda>r. key r = k) rs)"
  by (induction rs) (auto simp: key_mut)

lemma lookup_other:
  "k' \<noteq> k \<Longrightarrow> filter (\<lambda>r. key r = k') (update_where (\<lambda>r. key r = k) mut rs)
    = filter (\<lambda>r. key r = k') rs"
  by (induction rs) (auto simp: key_mut)

lemma mutated_rows:
  "distinct (map key rs) \<Longrightarrow> r \<in> set rs \<Longrightarrow>
   set (update_where (\<lambda>x. key x = key r) mut rs) = insert (mut r) (set rs - {r})"
proof (induction rs)
  case Nil
  then show ?case by simp
next
  case (Cons x xs)
  show ?case
  proof (cases "x = r")
    case True
    with Cons.prems have "\<forall>y\<in>set xs. key y \<noteq> key r" by (auto simp: image_iff)
    moreover from this have "r \<notin> set xs" by auto
    ultimately show ?thesis using True by (simp add: update_where_none)
  next
    case False
    with Cons.prems have "r \<in> set xs" "key x \<noteq> key r" by auto
    with Cons show ?thesis using False by auto
  qed
qed

end

text \<open>Replacing rows one after the other, each found by its key.\<close>

lemma update_map_keyed:
  assumes "distinct (map key rows)" and "p \<in> set rows" and "\<And>r. r \<in> set rows \<Longrightarrow> key (g r) = key r"
  shows "update_where (\<lambda>r. key r = key p) (\<lambda>r. q) (map g rows) = map (g(p := q)) rows"
proof -
  have "r = p" if "r \<in> set rows" "key (g r) = key p" for r
    using assms that by (simp add: distinct_map inj_on_def)
  then show ?thesis using assms(2,3) by (auto simp: update_where_def)
qed

lemma fold_update_keyed:
  assumes "distinct (map key rows)" and "set xs \<subseteq> set rows" and "\<And>r. r \<in> set rows \<Longrightarrow> key (h r) = key r"
  shows "fold (\<lambda>p. update_where (\<lambda>r. key r = key p) (\<lambda>r. h p)) xs rows
    = map (\<lambda>r. if r \<in> set xs then h r else r) rows"
  using assms(2)
proof (induction xs rule: rev_induct)
  case (snoc x xs)
  then show ?case
    using update_map_keyed [OF assms(1), of x "\<lambda>r. if r \<in> set xs then h r else r" "h x"] assms(3)
    by (auto simp: fun_upd_def intro!: map_cong)
qed simp

lemma fold_update_rows:
  assumes "distinct (map key rows)" and "set xs \<subseteq> set rows" and "distinct xs" and "\<And>p r. key (g p r) = key r"
  shows "fold (\<lambda>p. update_where (\<lambda>r. key r = key p) (g p)) xs rows
    = map (\<lambda>r. if r \<in> set xs then g r r else r) rows"
  using assms(2,3)
proof (induction xs rule: rev_induct)
  case (snoc x xs)
  let ?h = "\<lambda>r. if r \<in> set xs then g r r else r"
  have "r = x" if "r \<in> set rows" "key r = key x" for r
    using assms(1) snoc.prems(1) that by (simp add: distinct_map inj_on_def)
  then have "update_where (\<lambda>r. key r = key x) (g x) (map ?h rows)
      = map (\<lambda>r. if r \<in> set (xs @ [x]) then g r r else r) rows"
    using snoc.prems assms(4) by (auto simp: update_where_def intro!: map_cong)
  with snoc show ?case by simp
qed simp

lemma rfold_projection:
  assumes "rfold step xs s = Inr t"
    and "\<And>x u v. x \<in> set xs \<Longrightarrow> step x u = Inr v \<Longrightarrow> proj v = f x (proj u)"
  shows "proj t = fold f xs (proj s)"
  using assms
proof (induction xs arbitrary: s)
  case (Cons x xs)
  from Cons.prems(1) obtain u where u: "step x s = Inr u" "rfold step xs u = Inr t"
    by (auto simp: rbind_eq_Inr)
  have "proj u = f x (proj s)" using Cons.prems(2) u(1) by simp
  moreover have "proj t = fold f xs (proj u)" by (rule Cons.IH [OF u(2)]) (simp add: Cons.prems(2))
  ultimately show ?case by simp
qed simp

section \<open>Counters that trip\<close>

text \<open>
  The contract of a counter of consecutive failures that trips at a limit: account lockout,
  webhook and integration disabling. A failure counts one; it trips the switch when the
  count reaches the limit and leaves it alone before.
\<close>

locale breaker =
  fixes failures :: "'s \<Rightarrow> int" and tripped :: "'s \<Rightarrow> bool" and fail :: "'t \<Rightarrow> 's \<Rightarrow> 's" and limit :: int
  assumes failures_fail: "failures (fail t s) = failures s + 1"
    and tripped_fail: "tripped (fail t s) = (tripped s \<or> limit \<le> failures s + 1)"
begin

lemma failures_fold: "failures (fold fail ts s) = failures s + int (length ts)"
  by (induction ts arbitrary: s) (auto simp: failures_fail)

lemma tripped_fold:
  "tripped (fold fail ts s) \<longleftrightarrow> tripped s \<or> ts \<noteq> [] \<and> limit \<le> failures s + int (length ts)"
proof (induction ts arbitrary: s)
  case (Cons t ts)
  then show ?case by (cases ts) (auto simp: failures_fail tripped_fail)
qed simp

lemma trips_at_limit:
  "\<not> tripped s \<Longrightarrow> failures s = 0 \<Longrightarrow> 0 < limit \<Longrightarrow> tripped (fold fail ts s) \<longleftrightarrow> limit \<le> int (length ts)"
  by (cases "ts = []") (auto simp: tripped_fold)

end

end
