(* ===== verification/PyFloat.thy ===== *)
theory PyFloat
  imports Complex_Main Prelude
begin

text \<open>
  Python's \<open>float\<close>: the rational value of an IEEE binary64 number, with every operation
  rounded to 53 significant bits, ties to even. Overflow, infinities, NaN and subnormals
  are outside the values the modelled code computes with and are not represented.
  \<open>py_round\<close> is \<open>round(x)\<close>, \<open>py_round2\<close> is \<open>round(x, 2)\<close>: CPython rounds the exact
  decimal expansion half to even and reads the digits back as a float.
\<close>

section \<open>Rounding to an integer, ties to even\<close>

definition py_round :: "rat \<Rightarrow> int" where
  "py_round x =
     (let n = \<lfloor>x\<rfloor>; r = x - of_int n
      in if r < 1 / 2 then n else if 1 / 2 < r then n + 1 else if even n then n else n + 1)"

lemma py_round_error: "\<bar>of_int (py_round x) - x\<bar> \<le> 1 / 2"
proof -
  define r where "r = x - of_int \<lfloor>x\<rfloor>"
  have r: "0 \<le> r" "r < 1" unfolding r_def by linarith+
  have x: "x = of_int \<lfloor>x\<rfloor> + r" by (simp add: r_def)
  have "of_int (py_round x) - x = - r \<and> r \<le> 1 / 2 \<or> of_int (py_round x) - x = 1 - r \<and> 1 / 2 \<le> r"
    using x unfolding py_round_def Let_def r_def [symmetric] by auto
  then show ?thesis using r by auto
qed

lemma py_round_unique:
  assumes "\<bar>x - of_int n\<bar> < 1 / 2"
  shows "py_round x = n"
proof -
  have "\<bar>of_int (py_round x) - (of_int n :: rat)\<bar> < 1"
    using assms py_round_error [of x] by linarith
  then show ?thesis by linarith
qed

lemma py_round_of_int [simp]: "py_round (of_int n) = n"
  by (rule py_round_unique) simp

lemma py_round_mono: "x \<le> y \<Longrightarrow> py_round x \<le> py_round y"
proof -
  assume le: "x \<le> y"
  show ?thesis
  proof (cases "\<lfloor>x\<rfloor> = \<lfloor>y\<rfloor>")
    case True
    then show ?thesis using le unfolding py_round_def Let_def by (auto; linarith)
  next
    case False
    with le have "\<lfloor>x\<rfloor> + 1 \<le> \<lfloor>y\<rfloor>" using floor_mono [OF le] by linarith
    moreover have "py_round x \<le> \<lfloor>x\<rfloor> + 1" "\<lfloor>y\<rfloor> \<le> py_round y"
      unfolding py_round_def Let_def by auto
    ultimately show ?thesis by linarith
  qed
qed

section \<open>Binary exponents\<close>

fun nbits :: "nat \<Rightarrow> nat" where
  "nbits n = (if n = 0 then 0 else Suc (nbits (n div 2)))"

declare nbits.simps [simp del]

lemma nbits_bounds: "0 < n \<Longrightarrow> 2 ^ (nbits n - 1) \<le> n \<and> n < 2 ^ nbits n"
proof (induction n rule: nbits.induct)
  case (1 n)
  show ?case
  proof (cases "n div 2 = 0")
    case True
    with 1 have "n = 1" by linarith
    then show ?thesis by (simp add: nbits.simps)
  next
    case False
    with 1 have ih: "2 ^ (nbits (n div 2) - 1) \<le> n div 2" "n div 2 < 2 ^ nbits (n div 2)" by auto
    have pos: "nbits (n div 2) = Suc (nbits (n div 2) - 1)"
      using False by (subst nbits.simps, subst (2) nbits.simps) simp
    have b: "nbits n = Suc (nbits (n div 2))" using 1 by (subst nbits.simps) simp
    have "2 ^ nbits (n div 2) = 2 * (2::nat) ^ (nbits (n div 2) - 1)"
      by (subst pos) simp
    with ih b show ?thesis by (simp; linarith)
  qed
qed

definition pow2 :: "int \<Rightarrow> rat" where
  "pow2 i = (if 0 \<le> i then 2 ^ nat i else 1 / 2 ^ nat (- i))"

lemma pow2_pos [simp]: "0 < pow2 i"
  by (simp add: pow2_def)

lemma pow2_eq: "pow2 i = 2 powi i"
  by (simp add: pow2_def power_int_def field_simps)

lemma pow2_add: "pow2 (i + j) = pow2 i * pow2 j"
  by (simp add: pow2_eq power_int_add)

lemma pow2_Suc: "pow2 (i + 1) = 2 * pow2 i"
  by (simp add: pow2_add) (simp add: pow2_def)

lemma pow2_diff: "pow2 (i - j) = pow2 i / pow2 j"
proof -
  have "pow2 (i - j) * pow2 j = pow2 i" by (simp flip: pow2_add)
  moreover have "pow2 j \<noteq> 0" using pow2_pos [of j] by linarith
  ultimately show ?thesis by (simp add: eq_divide_eq)
qed

lemma pow2_less: "i < j \<Longrightarrow> pow2 i < pow2 j"
proof -
  assume "i < j"
  then obtain n where j: "j = i + int (Suc n)" by (metis zless_iff_Suc_zadd)
  have "pow2 (int (Suc n)) = 2 ^ Suc n" by (simp only: pow2_def of_nat_0_le_iff if_True nat_int)
  then have "pow2 j = pow2 i * 2 ^ Suc n" by (simp only: j pow2_add)
  moreover have "pow2 i * 1 < pow2 i * 2 ^ Suc n"
    by (rule mult_strict_left_mono) (rule one_less_power, simp_all)
  ultimately show ?thesis by (simp only: mult_1_right)
qed

lemma pow2_le_iff: "pow2 i \<le> pow2 j \<longleftrightarrow> i \<le> j"
  using pow2_less [of i j] pow2_less [of j i] by (cases i j rule: linorder_cases) auto

text \<open>The \<open>e\<close> with \<open>2 ^ e \<le> x < 2 ^ (e + 1)\<close>, found from the bit lengths of the fraction.\<close>

definition fl_exp :: "rat \<Rightarrow> int" where
  "fl_exp x =
     (case quotient_of x of (n, d) \<Rightarrow>
        let g = int (nbits (nat n)) - int (nbits (nat d))
        in if pow2 g \<le> x then g else g - 1)"

lemma fl_exp_bounds:
  assumes "0 < x"
  shows "pow2 (fl_exp x) \<le> x \<and> x < pow2 (fl_exp x + 1)"
proof -
  obtain n d where q: "quotient_of x = (n, d)" by fastforce
  have d: "0 < d" using q by (rule quotient_of_denom_pos)
  have x: "x = of_int n / of_int d" using q by (rule quotient_of_div)
  have n: "0 < n" using assms x d by (simp add: zero_less_divide_iff)
  define a where "a = nbits (nat n)"
  define b where "b = nbits (nat d)"
  have A: "2 ^ (a - 1) \<le> n" "n < 2 ^ a"
    using nbits_bounds [of "nat n"] n unfolding a_def by (auto simp: le_nat_iff nat_less_iff)
  have B: "2 ^ (b - 1) \<le> d" "d < 2 ^ b"
    using nbits_bounds [of "nat d"] d unfolding b_def by (auto simp: le_nat_iff nat_less_iff)
  have a1: "1 \<le> a" "1 \<le> b"
    using n d unfolding a_def b_def by (subst nbits.simps, simp)+
  have up: "x < pow2 (int a - int b + 1)"
  proof -
    have "x < 2 ^ a / 2 ^ (b - 1)"
      unfolding x
    proof (rule frac_less)
      show "(of_int n :: rat) < 2 ^ a" using A(2) by (metis of_int_less_iff of_int_numeral of_int_power)
      show "(2 ^ (b - 1) :: rat) \<le> of_int d" using B(1) by (metis of_int_le_iff of_int_numeral of_int_power)
    qed (use n in auto)
    also have "\<dots> = pow2 (int a) / pow2 (int b - 1)"
      using a1 by (simp add: pow2_def nat_diff_distrib)
    also have "\<dots> = pow2 (int a - (int b - 1))"
      by (simp only: pow2_diff)
    also have "\<dots> = pow2 (int a - int b + 1)" by (simp add: algebra_simps)
    finally show ?thesis .
  qed
  have lo: "pow2 (int a - int b - 1) \<le> x"
  proof -
    have "pow2 (int a - int b - 1) = pow2 (int a - 1) / pow2 (int b)"
      by (simp add: algebra_simps flip: pow2_diff)
    also have "\<dots> = 2 ^ (a - 1) / 2 ^ b"
      using a1 by (simp add: pow2_def nat_diff_distrib)
    also have "\<dots> \<le> x"
      unfolding x
    proof (rule frac_le)
      show "(2 ^ (a - 1) :: rat) \<le> of_int n" using A(1) by (metis of_int_le_iff of_int_numeral of_int_power)
      show "(of_int d :: rat) \<le> 2 ^ b" using B(2) by (metis less_imp_le of_int_le_iff of_int_numeral of_int_power)
    qed (use n d in auto)
    finally show ?thesis .
  qed
  show ?thesis
    using up lo unfolding fl_exp_def q by (simp add: Let_def a_def [symmetric] b_def [symmetric])
qed

section \<open>Rounding to binary64\<close>

definition fl :: "rat \<Rightarrow> rat" where
  "fl x = (if x = 0 then 0
           else let u = pow2 (fl_exp \<bar>x\<bar> - 52) in of_int (py_round (x / u)) * u)"

definition fadd :: "rat \<Rightarrow> rat \<Rightarrow> rat" where "fadd x y = fl (x + y)"
definition fmul :: "rat \<Rightarrow> rat \<Rightarrow> rat" where "fmul x y = fl (x * y)"
definition fdiv :: "rat \<Rightarrow> rat \<Rightarrow> rat" where "fdiv x y = fl (x / y)"

definition py_round2 :: "rat \<Rightarrow> rat" where
  "py_round2 x = fl (of_int (py_round (x * 100)) / 100)"

lemma fl_0 [simp]: "fl 0 = 0"
  by (simp add: fl_def)

text \<open>The relative error of one rounding is at most \<open>2 ^ -53\<close>.\<close>

lemma fl_error: "\<bar>fl x - x\<bar> \<le> \<bar>x\<bar> / 2 ^ 53"
proof (cases "x = 0")
  case True
  then show ?thesis by simp
next
  case False
  define e where "e = fl_exp \<bar>x\<bar>"
  define u where "u = pow2 (e - 52)"
  have u: "0 < u" by (simp add: u_def)
  have "\<bar>of_int (py_round (x / u)) - x / u\<bar> * u \<le> 1 / 2 * u"
    using py_round_error [of "x / u"] u by (intro mult_right_mono) auto
  moreover have "\<bar>of_int (py_round (x / u)) - x / u\<bar> * u = \<bar>of_int (py_round (x / u)) * u - x\<bar>"
    using u by (simp add: abs_mult_pos left_diff_distrib)
  moreover have "fl x = of_int (py_round (x / u)) * u"
    using False by (simp add: fl_def u_def e_def Let_def)
  ultimately have "\<bar>fl x - x\<bar> \<le> u / 2" by linarith
  also have "u = pow2 e / 2 ^ 52"
    by (simp add: u_def pow2_diff) (simp add: pow2_def)
  also have "pow2 e \<le> \<bar>x\<bar>"
    using fl_exp_bounds [of "\<bar>x\<bar>"] False by (simp add: e_def)
  finally show ?thesis by (simp add: field_simps)
qed

text \<open>
  How errors add up in a calculation whose values stay below 8: one more operation adds
  \<open>2 ^ -50\<close>.
\<close>

definition ulp8 :: rat where "ulp8 = 1 / 2 ^ 50"

lemma fl_near:
  assumes "\<bar>x - y\<bar> \<le> d" and "\<bar>x\<bar> \<le> 8"
  shows "\<bar>fl x - y\<bar> \<le> d + ulp8"
proof -
  have "\<bar>x\<bar> / 2 ^ 53 \<le> 8 / 2 ^ 53" using assms(2) by (intro divide_right_mono) auto
  with fl_error [of x] have "\<bar>fl x - x\<bar> \<le> 8 / 2 ^ 53" by linarith
  moreover have "\<bar>fl x - y\<bar> \<le> \<bar>fl x - x\<bar> + \<bar>x - y\<bar>" by linarith
  ultimately show ?thesis using assms(1) by (simp add: ulp8_def)
qed

lemma fadd_near:
  assumes "\<bar>a - x\<bar> \<le> d" "\<bar>b - y\<bar> \<le> d'" "\<bar>a\<bar> + \<bar>b\<bar> \<le> 8"
  shows "\<bar>fadd a b - (x + y)\<bar> \<le> d + d' + ulp8"
proof -
  have "\<bar>(a + b) - (x + y)\<bar> \<le> d + d'" "\<bar>a + b\<bar> \<le> 8" using assms by linarith+
  then show ?thesis unfolding fadd_def by (rule fl_near)
qed

text \<open>A decimal with two digits survives \<open>round(x, 2)\<close> when the error is small.\<close>

lemma py_round2_near:
  assumes "\<bar>x - of_int k / 100\<bar> < 1 / 200"
  shows "py_round2 x = fl (of_int k / 100)"
proof -
  have "\<bar>x * 100 - of_int k\<bar> = \<bar>x - of_int k / 100\<bar> * 100" by (simp add: abs_mult_pos left_diff_distrib)
  also have "\<dots> < 1 / 2" using assms by simp
  finally have "py_round (x * 100) = k" by (rule py_round_unique)
  then show ?thesis by (simp add: py_round2_def)
qed

text \<open>Integers below \<open>2 ^ 53\<close> are floats.\<close>

lemma fl_exact:
  assumes "x = of_int m * pow2 k" and "\<bar>m\<bar> \<le> 2 ^ 52"
  shows "fl x = x"
proof (cases "x = 0")
  case True
  then show ?thesis by simp
next
  case False
  define e where "e = fl_exp \<bar>x\<bar>"
  have m: "m \<noteq> 0" using False assms(1) by auto
  have "pow2 e \<le> \<bar>x\<bar>" using fl_exp_bounds [of "\<bar>x\<bar>"] False by (simp add: e_def)
  also have "\<bar>x\<bar> = of_int \<bar>m\<bar> * pow2 k"
    by (simp add: assms(1) abs_mult abs_of_pos [OF pow2_pos])
  also have "\<dots> \<le> 2 ^ 52 * pow2 k"
    using assms(2) pow2_pos [of k]
    by (intro mult_right_mono) (metis of_int_le_iff of_int_numeral of_int_power, rule less_imp_le)
  also have "\<dots> = pow2 (52 + k)" by (simp add: pow2_add) (simp add: pow2_def)
  finally have "e \<le> 52 + k" by (simp only: pow2_le_iff)
  then obtain j :: nat where j: "k = (e - 52) + int j"
    by (metis add.commute add_diff_cancel_left' diff_add_cancel diff_le_eq zle_iff_zadd)
  have "x / pow2 (e - 52) = of_int (m * 2 ^ j)"
    by (simp add: assms(1) j pow2_add) (simp add: pow2_def)
  then have "py_round (x / pow2 (e - 52)) = m * 2 ^ j" by (simp only: py_round_of_int)
  then have "fl x = of_int (m * 2 ^ j) * pow2 (e - 52)"
    using False by (simp add: fl_def e_def [symmetric] Let_def)
  also have "\<dots> = x" by (simp add: assms(1) j pow2_add) (simp add: pow2_def)
  finally show ?thesis .
qed

lemma fl_of_int: "\<bar>n\<bar> \<le> 2 ^ 52 \<Longrightarrow> fl (of_int n) = of_int n"
  by (rule fl_exact [of _ n 0]) (simp_all add: pow2_def)

text \<open>
  Comparing a rounded two-digit decimal with a representable two-digit threshold gives
  the comparison of the decimals.
\<close>

lemma fl_cent_ge:
  assumes t: "fl (of_int t / 100) = of_int t / 100"
    and k: "\<bar>k\<bar> \<le> 1000000"
  shows "of_int t / 100 \<le> fl (of_int k / 100) \<longleftrightarrow> t \<le> k"
proof -
  have err: "\<bar>fl (of_int k / 100) - of_int k / 100\<bar> \<le> \<bar>of_int k / 100\<bar> / 2 ^ 53"
    by (rule fl_error)
  have "\<bar>of_int k / 100 :: rat\<bar> \<le> 10000" using k by (simp add: abs_le_iff field_simps)
  with err have small: "\<bar>fl (of_int k / 100) - of_int k / 100\<bar> < 1 / 100" by simp
  consider "k = t" | "t + 1 \<le> k" | "k + 1 \<le> t" by linarith
  then show ?thesis
  proof cases
    case 1
    then show ?thesis using t by simp
  next
    case 2
    then have "(of_int t + 1 :: rat) \<le> of_int k" by linarith
    then have "of_int t / 100 + 1 / 100 \<le> (of_int k / 100 :: rat)" by (simp add: field_simps)
    with small 2 show ?thesis by linarith
  next
    case 3
    then have "(of_int k + 1 :: rat) \<le> of_int t" by linarith
    then have "of_int k / 100 + 1 / 100 \<le> (of_int t / 100 :: rat)" by (simp add: field_simps)
    with small 3 show ?thesis by linarith
  qed
qed

section \<open>Rounding is monotone\<close>

lemma py_round_minus: "py_round (- x) = - py_round x"
proof (cases "x = of_int \<lfloor>x\<rfloor>")
  case True
  then show ?thesis by (metis of_int_minus py_round_of_int)
next
  case False
  then have lt: "of_int \<lfloor>x\<rfloor> < x" using of_int_floor_le [of x] by linarith
  have fl: "\<lfloor>- x\<rfloor> = - \<lfloor>x\<rfloor> - 1" using lt by linarith
  show ?thesis
    unfolding py_round_def Let_def fl
    using lt by (auto simp: not_less)
qed

lemma fl_minus: "fl (- x) = - fl x"
  by (simp add: fl_def Let_def py_round_minus)

lemma fl_mono_pos:
  assumes "0 < x" "x \<le> y"
  shows "fl x \<le> fl y"
proof -
  define u where "u z = pow2 (fl_exp z - 52)" for z
  have u: "0 < u z" for z by (simp add: u_def)
  have fl: "fl z = of_int (py_round (z / u z)) * u z" if "0 < z" for z
    using that by (simp add: fl_def u_def Let_def)
  have bx: "x < pow2 (fl_exp x + 1)" and bxl: "pow2 (fl_exp x) \<le> x"
    using fl_exp_bounds [OF assms(1)] by auto
  have by': "pow2 (fl_exp y) \<le> y" "y < pow2 (fl_exp y + 1)"
    using fl_exp_bounds [of y] assms by auto
  have "pow2 (fl_exp x) < pow2 (fl_exp y + 1)" using bxl by'(2) assms(2) by linarith
  then have le: "fl_exp x \<le> fl_exp y" by (metis not_less pow2_le_iff zle_add1_eq_le)
  show ?thesis
  proof (cases "fl_exp x = fl_exp y")
    case True
    then have "u x = u y" by (simp add: u_def)
    moreover have "py_round (x / u y) \<le> py_round (y / u y)"
      using assms(2) u [of y] by (intro py_round_mono divide_right_mono) auto
    ultimately show ?thesis
      using fl assms u [of y] by (simp add: mult_right_mono)
  next
    case False
    have "x / u x \<le> of_int (2 ^ 53)"
      using bx u [of x] by (simp add: divide_le_eq u_def pow2_diff pow2_Suc) (simp add: pow2_def)
    then have "py_round (x / u x) \<le> 2 ^ 53" by (metis py_round_mono py_round_of_int)
    then have "fl x \<le> 2 ^ 53 * u x"
      using u [of x] assms by (simp add: fl)
    also have "\<dots> = pow2 (fl_exp x + 1)" by (simp add: u_def pow2_diff pow2_Suc) (simp add: pow2_def)
    also have "\<dots> \<le> pow2 (fl_exp y)" using le False by (simp add: pow2_le_iff)
    also have "\<dots> = 2 ^ 52 * u y" by (simp add: u_def pow2_diff) (simp add: pow2_def)
    also have "\<dots> \<le> fl y"
    proof -
      have "of_int (2 ^ 52) \<le> y / u y"
        using by'(1) u [of y] by (simp add: le_divide_eq u_def pow2_diff) (simp add: pow2_def)
      then have "2 ^ 52 \<le> py_round (y / u y)" by (metis py_round_mono py_round_of_int)
      then show ?thesis
        using u [of y] assms by (simp add: fl)
    qed
    finally show ?thesis .
  qed
qed

lemma fl_nonneg: "0 \<le> x \<Longrightarrow> 0 \<le> fl x"
proof -
  assume x: "0 \<le> x"
  then have "\<bar>x\<bar> / 2 ^ 53 \<le> x" by simp
  then show "0 \<le> fl x" using fl_error [of x] by linarith
qed

lemma fl_mono: "x \<le> y \<Longrightarrow> fl x \<le> fl y"
proof -
  assume le: "x \<le> y"
  consider "0 < x" | "y < 0" | "x \<le> 0" "0 \<le> y" by linarith
  then show ?thesis
  proof cases
    case 1
    then show ?thesis using le by (rule fl_mono_pos)
  next
    case 2
    then have "fl (- y) \<le> fl (- x)" using le by (intro fl_mono_pos) auto
    then show ?thesis by (simp add: fl_minus)
  next
    case 3
    then have "0 \<le> fl (- x)" "0 \<le> fl y" by (simp_all add: fl_nonneg)
    then show ?thesis by (simp add: fl_minus)
  qed
qed

end
