(* ===== verification/RiskEngine.thy ===== *)
theory RiskEngine
  imports Complex_Main Prelude PyStr PyFloat
begin

text \<open>
  \<open>app/services/risk_engine.py\<close>: the weighted risk score of an asset. The dictionaries
  the callers pass are records of key states, the floats are binary64 values, and the
  score is the rounded sum of seven rounded products, in the order of the source.
\<close>

section \<open>Inputs and results\<close>

record risk_cve =
  rc_cvss_v3 :: "rat dkey"
  rc_cvss :: "rat dkey"
  rc_epss_score :: "rat dkey"
  rc_epss :: "rat dkey"
  rc_kev :: "bool dkey"
  rc_kev_ransomware :: "bool dkey"

record risk_asset =
  ra_cves :: "risk_cve list dkey"
  ra_control_coverage :: "string dkey"
  ra_network_exposure :: "string dkey"
  ra_auth_method :: "string dkey"
  ra_criticality :: "string dkey"
  ra_data_classification :: "string dkey"
  ra_eol_status :: "bool dkey"

record risk_breakdown =
  rb_cve :: int
  rb_kev :: int
  rb_controls :: int
  rb_exposure :: int
  rb_access :: int
  rb_criticality :: int
  rb_data_classification :: int

record risk_result =
  rr_score :: rat
  rr_tier :: string
  rr_breakdown :: risk_breakdown
  rr_recommended_action :: string
  rr_sla_days :: int

section \<open>The factor tables\<close>

definition CONTROL_MAP :: "string \<rightharpoonup> int" where
  "CONTROL_MAP = [''full'' \<mapsto> 1, ''partial'' \<mapsto> 3, ''none'' \<mapsto> 5]"

definition EXPOSURE_MAP :: "string \<rightharpoonup> int" where
  "EXPOSURE_MAP = [''isolated'' \<mapsto> 1, ''internal'' \<mapsto> 2, ''dmz'' \<mapsto> 3, ''cloud'' \<mapsto> 4,
                   ''internet-facing'' \<mapsto> 5]"

definition ACCESS_MAP :: "string \<rightharpoonup> int" where
  "ACCESS_MAP = [''mfa+pam'' \<mapsto> 1, ''mfa'' \<mapsto> 2, ''certificate'' \<mapsto> 2, ''password'' \<mapsto> 4,
                 ''password-only'' \<mapsto> 5, ''none'' \<mapsto> 5]"

definition CRITICALITY_MAP :: "string \<rightharpoonup> int" where
  "CRITICALITY_MAP = [''low'' \<mapsto> 1, ''medium'' \<mapsto> 2, ''high'' \<mapsto> 3, ''critical'' \<mapsto> 4, ''tier-1'' \<mapsto> 5]"

definition DATA_CLASSIFICATION_MAP :: "string \<rightharpoonup> int" where
  "DATA_CLASSIFICATION_MAP = [''public'' \<mapsto> 1, ''internal'' \<mapsto> 2, ''confidential'' \<mapsto> 4,
                              ''restricted'' \<mapsto> 5]"

text \<open>\<open>WEIGHTS\<close>: the decimal literals as the floats Python reads them as.\<close>

definition WEIGHTS :: "string \<Rightarrow> rat" where
  "WEIGHTS k =
     (if k = ''cve'' then fl (23 / 100)
      else if k = ''kev'' then fl (18 / 100)
      else if k = ''controls'' then fl (18 / 100)
      else if k = ''exposure'' then fl (14 / 100)
      else if k = ''access'' then fl (9 / 100)
      else if k = ''criticality'' then fl (10 / 100)
      else fl (8 / 100))"

text \<open>\<open>TABLE.get(asset.get(key, dflt), 3)\<close>; a key holding \<open>None\<close> misses the table.\<close>

definition table_get :: "(string \<rightharpoonup> int) \<Rightarrow> string dkey \<Rightarrow> string \<Rightarrow> int" where
  "table_get tab k dflt =
     (case dget k (Some dflt) of None \<Rightarrow> 3 | Some v \<Rightarrow> (case tab v of None \<Rightarrow> 3 | Some n \<Rightarrow> n))"

section \<open>Normalisation, tiers and actions\<close>

definition norm_cvss :: "rat \<Rightarrow> int" where
  "norm_cvss cvss = min 5 (max 1 (py_round (fmul (fdiv cvss 10) 5)))"

definition norm_epss :: "rat \<Rightarrow> int" where
  "norm_epss epss = min 5 (max 1 (py_round (fmul epss 5)))"

definition tier_of :: "rat \<Rightarrow> string" where
  "tier_of score =
     (if 4 \<le> score then ''Critical''
      else if 3 \<le> score then ''High''
      else if 2 \<le> score then ''Medium''
      else if 3 / 2 \<le> score then ''Low''
      else ''Informational'')"

text \<open>The em dash of the second action text is given by its three UTF-8 bytes.\<close>

definition action_and_sla :: "string \<Rightarrow> bool \<Rightarrow> bool \<Rightarrow> string \<times> int" where
  "action_and_sla tier eol has_kev =
     (if tier = ''Critical'' then (''Immediate patch / isolate / compensating control'', 7)
      else if tier = ''High'' then (''Priority patch cycle '' @ [char_of (226::nat), char_of (128::nat), char_of (148::nat)]
                                   @ '' patch or compensate'', 30)
      else if tier = ''Medium'' then (''Standard remediation track'', 90)
      else if eol then (''Plan replacement / EOL migration'', 180)
      else if has_kev then (''Apply KEV remediation'', 14)
      else (''Monitor'', 365))"

section \<open>The score\<close>

definition num_or :: "rat dkey \<Rightarrow> rat dkey \<Rightarrow> rat" where
  "num_or a b =
     (case or_else (\<lambda>x. x = 0) (dget a None) (or_else (\<lambda>x. x = 0) (dget b None) (Some 0)) of
        None \<Rightarrow> 0 | Some v \<Rightarrow> v)"

definition key_true :: "bool dkey \<Rightarrow> bool" where
  "key_true k = (dget k None = Some True)"

text \<open>\<open>max(..., default=0)\<close>\<close>

fun max_default :: "rat list \<Rightarrow> rat" where
  "max_default [] = 0"
| "max_default (x # xs) = foldl max x xs"

definition asset_cves :: "risk_asset \<Rightarrow> risk_cve list" where
  "asset_cves a = (case dget (ra_cves a) None of None \<Rightarrow> [] | Some cs \<Rightarrow> cs)"

definition has_kev :: "risk_cve list \<Rightarrow> bool" where
  "has_kev cves = list_ex (\<lambda>c. key_true (rc_kev c)) cves"

definition has_ransomware_kev :: "risk_cve list \<Rightarrow> bool" where
  "has_ransomware_kev cves = list_ex (\<lambda>c. key_true (rc_kev c) \<and> key_true (rc_kev_ransomware c)) cves"

text \<open>The CVE factor, with its boost for ransomware exploitation.\<close>

definition cve_factor :: "risk_cve list \<Rightarrow> int" where
  "cve_factor cves =
     (let max_cvss = max_default (map (\<lambda>c. num_or (rc_cvss_v3 c) (rc_cvss c)) cves);
          max_epss = max_default (map (\<lambda>c. num_or (rc_epss_score c) (rc_epss c)) cves);
          cve_score = (if cves \<noteq> [] then max (norm_cvss max_cvss) (norm_epss max_epss) else 1)
      in if has_ransomware_kev cves then min 5 (cve_score + 1) else cve_score)"

definition risk_factors :: "risk_asset \<Rightarrow> risk_breakdown" where
  "risk_factors a =
     (let cves = asset_cves a;
          cls = lower (case dget (ra_data_classification a) (Some ''internal'') of
                         None \<Rightarrow> ''None'' | Some s \<Rightarrow> s)
      in \<lparr> rb_cve = cve_factor cves,
           rb_kev = (if has_kev cves then 5 else 1),
           rb_controls = table_get CONTROL_MAP (ra_control_coverage a) ''none'',
           rb_exposure = table_get EXPOSURE_MAP (ra_network_exposure a) ''internal'',
           rb_access = table_get ACCESS_MAP (ra_auth_method a) ''password'',
           rb_criticality = table_get CRITICALITY_MAP (ra_criticality a) ''medium'',
           rb_data_classification =
             (case DATA_CLASSIFICATION_MAP cls of None \<Rightarrow> 2 | Some n \<Rightarrow> n) \<rparr>)"

definition weighted_sum :: "risk_breakdown \<Rightarrow> rat" where
  "weighted_sum b =
     fadd (fadd (fadd (fadd (fadd (fadd
       (fmul (of_int (rb_cve b)) (WEIGHTS ''cve''))
       (fmul (of_int (rb_kev b)) (WEIGHTS ''kev'')))
       (fmul (of_int (rb_controls b)) (WEIGHTS ''controls'')))
       (fmul (of_int (rb_exposure b)) (WEIGHTS ''exposure'')))
       (fmul (of_int (rb_access b)) (WEIGHTS ''access'')))
       (fmul (of_int (rb_criticality b)) (WEIGHTS ''criticality'')))
       (fmul (of_int (rb_data_classification b)) (WEIGHTS ''data_classification''))"

definition compute_risk :: "risk_asset \<Rightarrow> risk_result" where
  "compute_risk a =
     (let b = risk_factors a;
          score = py_round2 (weighted_sum b);
          tier = tier_of score;
          (action, sla) = action_and_sla tier (key_true (ra_eol_status a)) (has_kev (asset_cves a))
      in \<lparr> rr_score = score, rr_tier = tier, rr_breakdown = b,
           rr_recommended_action = action, rr_sla_days = sla \<rparr>)"

section \<open>Factor bounds\<close>

definition cents :: "risk_breakdown \<Rightarrow> int" where
  "cents b = 23 * rb_cve b + 18 * rb_kev b + 18 * rb_controls b + 14 * rb_exposure b
             + 9 * rb_access b + 10 * rb_criticality b + 8 * rb_data_classification b"

definition factors_ok :: "risk_breakdown \<Rightarrow> bool" where
  "factors_ok b = list_all (\<lambda>n. 1 \<le> n \<and> n \<le> 5)
     [rb_cve b, rb_kev b, rb_controls b, rb_exposure b, rb_access b, rb_criticality b,
      rb_data_classification b]"

lemma table_range:
  "\<lbrakk>\<And>v n. tab v = Some n \<Longrightarrow> 1 \<le> n \<and> n \<le> 5\<rbrakk> \<Longrightarrow> 1 \<le> table_get tab k d \<and> table_get tab k d \<le> 5"
  by (auto simp: table_get_def split: option.splits)

lemma maps_range:
  "CONTROL_MAP v = Some n \<Longrightarrow> 1 \<le> n \<and> n \<le> 5"
  "EXPOSURE_MAP v = Some n \<Longrightarrow> 1 \<le> n \<and> n \<le> 5"
  "ACCESS_MAP v = Some n \<Longrightarrow> 1 \<le> n \<and> n \<le> 5"
  "CRITICALITY_MAP v = Some n \<Longrightarrow> 1 \<le> n \<and> n \<le> 5"
  "DATA_CLASSIFICATION_MAP v = Some n \<Longrightarrow> 1 \<le> n \<and> n \<le> 5"
  unfolding CONTROL_MAP_def EXPOSURE_MAP_def ACCESS_MAP_def CRITICALITY_MAP_def
    DATA_CLASSIFICATION_MAP_def
  by (auto split: if_splits)

lemma norm_range [simp]:
  "1 \<le> norm_cvss x" "norm_cvss x \<le> 5" "1 \<le> norm_epss x" "norm_epss x \<le> 5"
  by (auto simp: norm_cvss_def norm_epss_def)

lemma boost_range:
  "1 \<le> m \<and> m \<le> 5 \<Longrightarrow>
   1 \<le> (if r then min 5 (m + 1) else m) \<and> (if r then min 5 (m + 1) else m) \<le> (5::int)"
  by auto

lemma cve_factor_range: "1 \<le> cve_factor cves \<and> cve_factor cves \<le> 5"
  unfolding cve_factor_def Let_def by (rule boost_range) (simp add: max_def)

lemma factors_ok_risk_factors: "factors_ok (risk_factors a)"
proof -
  have "1 \<le> table_get CONTROL_MAP k d \<and> table_get CONTROL_MAP k d \<le> 5"
    "1 \<le> table_get EXPOSURE_MAP k d \<and> table_get EXPOSURE_MAP k d \<le> 5"
    "1 \<le> table_get ACCESS_MAP k d \<and> table_get ACCESS_MAP k d \<le> 5"
    "1 \<le> table_get CRITICALITY_MAP k d \<and> table_get CRITICALITY_MAP k d \<le> 5" for k d
    by (rule table_range, erule maps_range)+
  then show ?thesis
    using maps_range(5) cve_factor_range
    by (auto simp: factors_ok_def risk_factors_def Let_def split: option.splits)
qed

lemma factors_okD:
  assumes "factors_ok b"
  shows "1 \<le> rb_cve b" "rb_cve b \<le> 5" "1 \<le> rb_kev b" "rb_kev b \<le> 5"
    "1 \<le> rb_controls b" "rb_controls b \<le> 5" "1 \<le> rb_exposure b" "rb_exposure b \<le> 5"
    "1 \<le> rb_access b" "rb_access b \<le> 5" "1 \<le> rb_criticality b" "rb_criticality b \<le> 5"
    "1 \<le> rb_data_classification b" "rb_data_classification b \<le> 5"
  using assms by (auto simp: factors_ok_def)

lemma cents_bounds: "factors_ok b \<Longrightarrow> 100 \<le> cents b \<and> cents b \<le> 500"
  using factors_okD [of b] by (auto simp: cents_def)

section \<open>The float sum is the decimal sum\<close>

lemma product_near:
  assumes "1 \<le> n" "n \<le> 5" and "\<bar>w\<bar> \<le> 1"
  shows "\<bar>fmul (of_int n) (fl w) - of_int n * w\<bar> \<le> 6 * ulp8"
proof -
  have w: "\<bar>fl w - w\<bar> \<le> ulp8" using fl_near [of w w 0] assms(3) by simp
  have "\<bar>of_int n * fl w - of_int n * w\<bar> = of_int n * \<bar>fl w - w\<bar>"
    using assms(1) by (simp add: abs_mult flip: right_diff_distrib)
  also have "\<dots> \<le> 5 * ulp8"
    using w assms(1,2) by (intro mult_mono) (auto simp: ulp8_def)
  finally have d: "\<bar>of_int n * fl w - of_int n * w\<bar> \<le> 5 * ulp8" .
  have "\<bar>fl w\<bar> \<le> 1 + ulp8" using w assms(3) by linarith
  then have "of_int n * \<bar>fl w\<bar> \<le> 5 * (1 + ulp8)"
    using assms(1,2) by (intro mult_mono) (auto simp: ulp8_def)
  then have "\<bar>of_int n * fl w\<bar> \<le> 5 * (1 + ulp8)" using assms(1) by (simp add: abs_mult)
  then have "\<bar>of_int n * fl w\<bar> \<le> 8" by (simp add: ulp8_def)
  from fl_near [OF d this] show ?thesis by (simp add: fmul_def)
qed

lemma sum_near:
  assumes "\<bar>a - x\<bar> \<le> d" "\<bar>p - q\<bar> \<le> 6 * ulp8" "0 \<le> x" "0 \<le> q" "x + q \<le> 7" "d \<le> 49 * ulp8"
  shows "\<bar>fadd a p - (x + q)\<bar> \<le> d + 7 * ulp8"
proof -
  have "\<bar>a\<bar> + \<bar>p\<bar> \<le> x + q + 55 * ulp8" using assms by linarith
  also have "\<dots> \<le> 8" using assms(5) by (simp add: ulp8_def)
  finally have "\<bar>a\<bar> + \<bar>p\<bar> \<le> 8" .
  from fadd_near [OF assms(1,2) this] show ?thesis by simp
qed

lemma weighted_sum_near:
  assumes "factors_ok b"
  shows "\<bar>weighted_sum b - of_int (cents b) / 100\<bar> < 1 / 200"
proof -
  note b = factors_okD [OF assms]
  define q where "q w n = of_int n * (w / 100 :: rat)" for w and n :: int
  have q: "0 \<le> q w n" "q w n \<le> w / 20" if "1 \<le> n" "n \<le> 5" "0 \<le> w" for w n
    using that by (auto simp: q_def field_simps) (metis mult_right_mono of_int_le_iff of_int_numeral mult.commute)
  have p: "\<bar>fmul (of_int n) (fl (w / 100)) - q w n\<bar> \<le> 6 * ulp8"
    if "1 \<le> n" "n \<le> 5" "0 \<le> w" "w \<le> 100" for w n
    unfolding q_def using that by (intro product_near) (auto simp: field_simps)
  have W: "WEIGHTS ''cve'' = fl (23 / 100)" "WEIGHTS ''kev'' = fl (18 / 100)"
    "WEIGHTS ''controls'' = fl (18 / 100)" "WEIGHTS ''exposure'' = fl (14 / 100)"
    "WEIGHTS ''access'' = fl (9 / 100)" "WEIGHTS ''criticality'' = fl (10 / 100)"
    "WEIGHTS ''data_classification'' = fl (8 / 100)"
    by (simp_all add: WEIGHTS_def)
  define s where "s = q 23 (rb_cve b)"
  define s1 where "s1 = s + q 18 (rb_kev b)"
  define s2 where "s2 = s1 + q 18 (rb_controls b)"
  define s3 where "s3 = s2 + q 14 (rb_exposure b)"
  define s4 where "s4 = s3 + q 9 (rb_access b)"
  define s5 where "s5 = s4 + q 10 (rb_criticality b)"
  define s6 where "s6 = s5 + q 8 (rb_data_classification b)"
  have r: "0 \<le> q 23 (rb_cve b)" "q 23 (rb_cve b) \<le> 23/20" "0 \<le> q 18 (rb_kev b)" "q 18 (rb_kev b) \<le> 18/20"
    "0 \<le> q 18 (rb_controls b)" "q 18 (rb_controls b) \<le> 18/20" "0 \<le> q 14 (rb_exposure b)"
    "q 14 (rb_exposure b) \<le> 14/20" "0 \<le> q 9 (rb_access b)" "q 9 (rb_access b) \<le> 9/20"
    "0 \<le> q 10 (rb_criticality b)" "q 10 (rb_criticality b) \<le> 10/20"
    "0 \<le> q 8 (rb_data_classification b)" "q 8 (rb_data_classification b) \<le> 8/20"
    using b by (intro q; simp)+
  note B = s_def s1_def s2_def s3_def s4_def s5_def s6_def
  have "\<bar>weighted_sum b - s6\<bar> \<le> 6 * ulp8 + 7 * ulp8 + 7 * ulp8 + 7 * ulp8 + 7 * ulp8 + 7 * ulp8 + 7 * ulp8"
    unfolding weighted_sum_def W B
    by (intro sum_near p b) (use r in \<open>simp_all add: ulp8_def\<close>)
  also have "\<dots> < 1 / 200" by (simp add: ulp8_def)
  also have "s6 = of_int (cents b) / 100"
    by (simp add: B q_def cents_def add_divide_distrib)
  finally show ?thesis .
qed

section \<open>What a change of the evidence does to the score\<close>

lemma max_default_Max: "xs \<noteq> [] \<Longrightarrow> max_default xs = Max (set xs)"
proof (cases xs)
  case (Cons x ys)
  have "foldl max x ys = Max (set (x # ys))"
  proof (induction ys arbitrary: x)
    case (Cons y ys)
    have "foldl max x (y # ys) = Max (set (max x y # ys))" by (simp add: Cons.IH del: list.set)
    also have "\<dots> = max x (Max (set (y # ys)))"
      by (cases "ys = []") (simp_all add: max.assoc)
    finally show ?case by simp
  qed simp
  then show ?thesis using Cons by simp
qed simp

lemma max_default_mono:
  "xs \<noteq> [] \<Longrightarrow> set xs \<subseteq> set ys \<Longrightarrow> max_default xs \<le> max_default ys"
  by (subst (1 2) max_default_Max) (auto intro!: Max_mono)

lemma clamp_mono: "m \<le> n \<Longrightarrow> min 5 (max 1 m) \<le> min 5 (max 1 (n::int))"
  by auto

lemma norm_mono: "x \<le> y \<Longrightarrow> norm_cvss x \<le> norm_cvss y" "x \<le> y \<Longrightarrow> norm_epss x \<le> norm_epss y"
proof -
  assume "x \<le> y"
  then have "fmul (fdiv x 10) 5 \<le> fmul (fdiv y 10) 5" "fmul x 5 \<le> fmul y 5"
    unfolding fmul_def fdiv_def by (intro fl_mono mult_right_mono divide_right_mono; simp)+
  then show "norm_cvss x \<le> norm_cvss y" "norm_epss x \<le> norm_epss y"
    unfolding norm_cvss_def norm_epss_def
    by (simp_all only: clamp_mono py_round_mono)
qed

lemma cve_factor_mono:
  assumes "set cs \<subseteq> set cs'"
  shows "cve_factor cs \<le> cve_factor cs'"
proof (cases "cs = []")
  case True
  then have "cve_factor cs = 1" by (simp add: cve_factor_def has_ransomware_kev_def)
  then show ?thesis using cve_factor_range [of cs'] by simp
next
  case False
  with assms have ne: "cs' \<noteq> []" by auto
  have "has_ransomware_kev cs \<longrightarrow> has_ransomware_kev cs'"
    using assms by (auto simp: has_ransomware_kev_def list_ex_iff)
  moreover have "norm_cvss (max_default (map f cs)) \<le> norm_cvss (max_default (map f cs'))"
    "norm_epss (max_default (map f cs)) \<le> norm_epss (max_default (map f cs'))" for f
    using False assms by (intro norm_mono max_default_mono; auto)+
  then have "max (norm_cvss (max_default (map f cs))) (norm_epss (max_default (map g cs)))
      \<le> max (norm_cvss (max_default (map f cs'))) (norm_epss (max_default (map g cs')))" for f g
    by (rule max.mono)
  moreover have "(if r then min 5 (m + 1) else m) \<le> (if r' then min 5 (m' + 1) else m')"
    if "r \<longrightarrow> r'" "m \<le> m'" "m \<le> 5" for r r' and m m' :: int
    using that by auto
  moreover have "max (norm_cvss x) (norm_epss y) \<le> 5" for x y by (simp add: max_def)
  ultimately show ?thesis
    using False ne unfolding cve_factor_def Let_def by simp
qed

lemma has_kev_mono: "set cs \<subseteq> set cs' \<Longrightarrow> has_kev cs \<Longrightarrow> has_kev cs'"
  by (auto simp: has_kev_def list_ex_iff)

lemma asset_cves_update [simp]: "asset_cves (a\<lparr>ra_cves := Has cs\<rparr>) = cs"
  by (simp add: asset_cves_def)

lemma cents_cves_mono:
  assumes "set (asset_cves a) \<subseteq> set cs"
  shows "cents (risk_factors a) \<le> cents (risk_factors (a\<lparr>ra_cves := Has cs\<rparr>))"
  using cve_factor_mono [OF assms] has_kev_mono [OF assms]
  by (auto simp: cents_def risk_factors_def Let_def)

section \<open>Properties\<close>

text \<open>
  C7: The score of every asset is the float nearest to a decimal with two digits: the sum
  of the seven factors with the weights 23, 18, 18, 14, 9, 10 and 8 in hundredths. None of
  the thirteen roundings of the float sum ever shows in the result.
\<close>

theorem compute_risk_score_exact:
  "rr_score (compute_risk a) = fl (of_int (cents (rr_breakdown (compute_risk a))) / 100)"
proof -
  have "rr_breakdown (compute_risk a) = risk_factors a"
    "rr_score (compute_risk a) = py_round2 (weighted_sum (risk_factors a))"
    by (simp_all add: compute_risk_def Let_def split: prod.splits)
  then show ?thesis
    using py_round2_near [OF weighted_sum_near [OF factors_ok_risk_factors]] by simp
qed

lemma score_cents: "rr_score (compute_risk a) = fl (of_int (cents (risk_factors a)) / 100)"
proof -
  have "rr_score (compute_risk a) = py_round2 (weighted_sum (risk_factors a))"
    by (simp add: compute_risk_def Let_def split: prod.splits)
  then show ?thesis
    using py_round2_near [OF weighted_sum_near [OF factors_ok_risk_factors]] by simp
qed

lemma fl_quarters: "fl (of_int t / 100) = of_int t / 100" if "t \<in> {100, 150, 200, 300, 400, 500}"
proof -
  have "of_int t / 100 = of_int (t div 50) * pow2 (- 1)" using that by (auto simp: pow2_def)
  moreover have "\<bar>t div 50\<bar> \<le> 2 ^ 52" using that by auto
  ultimately show ?thesis by (metis fl_exact)
qed

lemma score_ge:
  "t \<in> {100, 150, 200, 300, 400, 500} \<Longrightarrow>
   of_int t / 100 \<le> rr_score (compute_risk a) \<longleftrightarrow> t \<le> cents (risk_factors a)"
  unfolding score_cents
  by (rule fl_cent_ge [OF fl_quarters]) (use cents_bounds [OF factors_ok_risk_factors [of a]] in auto)

text \<open>
  The tier is decided by the exact weighted sum: 4.00, 3.00, 2.00 and 1.50 are never
  missed by a rounding error, in either direction.
\<close>

theorem compute_risk_tier:
  "rr_tier (compute_risk a) =
     (let k = cents (risk_factors a)
      in if 400 \<le> k then ''Critical'' else if 300 \<le> k then ''High''
         else if 200 \<le> k then ''Medium'' else if 150 \<le> k then ''Low'' else ''Informational'')"
proof -
  have "rr_tier (compute_risk a) = tier_of (rr_score (compute_risk a))"
    by (simp add: compute_risk_def Let_def split: prod.splits)
  then show ?thesis
    using score_ge [of 400 a] score_ge [of 300 a] score_ge [of 200 a] score_ge [of 150 a]
    by (simp add: tier_of_def Let_def)
qed

text \<open>
  Every factor lies between 1 and 5 and so does the score, whatever keys, values or
  CVE records the caller passes.
\<close>

theorem compute_risk_bounds:
  "factors_ok (rr_breakdown (compute_risk a)) \<and>
   1 \<le> rr_score (compute_risk a) \<and> rr_score (compute_risk a) \<le> 5"
proof -
  have k: "100 \<le> cents (risk_factors a)" "cents (risk_factors a) \<le> 500"
    using cents_bounds [OF factors_ok_risk_factors [of a]] by auto
  have "rr_breakdown (compute_risk a) = risk_factors a"
    by (simp add: compute_risk_def Let_def split: prod.splits)
  moreover have "1 \<le> rr_score (compute_risk a)" using score_ge [of 100 a] k by simp
  moreover have "rr_score (compute_risk a) \<le> fl (of_int 500 / 100)"
    unfolding score_cents using k(2) by (intro fl_mono) (simp add: field_simps)
  ultimately show ?thesis using factors_ok_risk_factors fl_quarters [of 500] by simp
qed

text \<open>
  New CVE evidence never lowers a score: an asset whose CVE records include all it had
  before scores at least as high as before.
\<close>

theorem compute_risk_cve_monotone:
  assumes "set (asset_cves a) \<subseteq> set cs"
  shows "rr_score (compute_risk a) \<le> rr_score (compute_risk (a\<lparr>ra_cves := Has cs\<rparr>))"
  unfolding score_cents using cents_cves_mono [OF assms]
  by (intro fl_mono) (simp add: divide_right_mono)

definition sample_cve :: risk_cve where
  "sample_cve = \<lparr> rc_cvss_v3 = Has (98 / 10), rc_cvss = Absent, rc_epss_score = Has (1 / 2),
                  rc_epss = Absent, rc_kev = Has True, rc_kev_ransomware = Has True \<rparr>"

definition sample_asset :: risk_asset where
  "sample_asset = \<lparr> ra_cves = Absent, ra_control_coverage = Has ''full'',
     ra_network_exposure = Has ''isolated'', ra_auth_method = Has ''mfa+pam'',
     ra_criticality = Has ''low'', ra_data_classification = Has ''Public'',
     ra_eol_status = Has True \<rparr>"

theorem compute_risk_cve_monotone_witness:
  "rr_score (compute_risk sample_asset)
    \<le> rr_score (compute_risk (sample_asset\<lparr>ra_cves := Has [sample_cve]\<rparr>))"
  by (rule compute_risk_cve_monotone) (simp add: sample_asset_def asset_cves_def)

text \<open>
  A hardened asset with a vulnerability known to be exploited is rated low. When it also is at the
  end of its life, it gets half a year instead of the fourteen days of the vulnerability.
\<close>

lemma sla_of_tier: "rr_tier (compute_risk a) = ''Low'' \<Longrightarrow>
   rr_sla_days (compute_risk a) = snd (action_and_sla ''Low'' (key_true (ra_eol_status a)) (has_kev (asset_cves a)))"
  by (simp add: compute_risk_def Let_def split: prod.splits)

definition exploited_cve :: risk_cve where
  "exploited_cve = \<lparr> rc_cvss_v3 = Absent, rc_cvss = Absent, rc_epss_score = Absent, rc_epss = Absent,
     rc_kev = Has True, rc_kev_ransomware = Has False \<rparr>"

lemma eol_hides_kev:
  "rr_sla_days (compute_risk (sample_asset\<lparr>ra_cves := Has [exploited_cve]\<rparr>)) = 180
   \<and> rr_sla_days (compute_risk (sample_asset\<lparr>ra_cves := Has [exploited_cve], ra_eol_status := Has False\<rparr>)) = 14"
proof -
  let ?a = "\<lambda>e. sample_asset\<lparr>ra_cves := Has [exploited_cve], ra_eol_status := Has e\<rparr>"
  have public: "lower ''Public'' = ''public''" by code_simp
  have "cents (risk_factors (?a e)) = 172" for e
    by (simp add: risk_factors_def cve_factor_def asset_cves_def exploited_cve_def sample_asset_def has_kev_def has_ransomware_kev_def
        key_true_def num_or_def norm_cvss_def norm_epss_def fmul_def fdiv_def fl_0 py_round_of_int [of 0, simplified] table_get_def
        CONTROL_MAP_def EXPOSURE_MAP_def ACCESS_MAP_def CRITICALITY_MAP_def DATA_CLASSIFICATION_MAP_def
        public cents_def Let_def)
  then have "rr_tier (compute_risk (?a e)) = ''Low''" for e by (simp add: compute_risk_tier)
  from sla_of_tier [OF this [of True]] sla_of_tier [OF this [of False]] show ?thesis
    by (simp add: sample_asset_def exploited_cve_def asset_cves_def has_kev_def key_true_def action_and_sla_def)
qed

end
