(* ===== verification/Models.thy ===== *)
theory Models
  imports Complex_Main Prelude PyStr
begin

text \<open>
  The ORM models (\<open>app/models/__init__.py\<close>, \<open>app/models/self_security.py\<close>): one record for
  each table with its columns, \<open>new_...\<close> for an instance with the column defaults, and the
  database as the record of its tables. Identifiers are drawn from a counter (\<open>uuid4\<close> never
  returns an identifier twice), times are microseconds. The theory also has the parts of
  the schema that act on their own: \<open>onupdate\<close> columns, unique constraints and the
  referential actions of a deletion; and the session of \<open>app/core/database.py\<close>.
\<close>

section \<open>JSON values\<close>

datatype pyval =
    PNone
  | PBool bool
  | PInt int
  | PFloat rat
  | PStr string
  | PList "pyval list"
  | PDict "(string \<times> pyval) list"

type_synonym jdict = "(string \<times> pyval) list"

text \<open>\<open>d.get(k)\<close>, \<open>d[k] = v\<close> and truth of a value.\<close>

definition jget :: "jdict \<Rightarrow> string \<Rightarrow> pyval" where
  "jget d k = (case map_of d k of None \<Rightarrow> PNone | Some v \<Rightarrow> v)"

fun jset :: "string \<Rightarrow> pyval \<Rightarrow> jdict \<Rightarrow> jdict" where
  "jset k v [] = [(k, v)]"
| "jset k v ((k', v') # d) = (if k' = k then (k, v) # d else (k', v') # jset k v d)"

fun py_truthy :: "pyval \<Rightarrow> bool" where
  "py_truthy PNone = False"
| "py_truthy (PBool b) = b"
| "py_truthy (PInt i) = (i \<noteq> 0)"
| "py_truthy (PFloat x) = (x \<noteq> 0)"
| "py_truthy (PStr s) = (s \<noteq> [])"
| "py_truthy (PList xs) = (xs \<noteq> [])"
| "py_truthy (PDict d) = (d \<noteq> [])"

definition opt_str :: "string option \<Rightarrow> pyval" where
  "opt_str s = (case s of None \<Rightarrow> PNone | Some v \<Rightarrow> PStr v)"

lemma map_of_jset: "map_of (jset k v d) = (map_of d)(k \<mapsto> v)"
  by (induction d) auto

lemma jget_jset [simp]: "jget (jset k v d) k' = (if k' = k then v else jget d k')"
  by (simp add: jget_def map_of_jset)

lemma jset_keys: "fst ` set (jset k v d) = insert k (fst ` set d)"
  by (simp add: dom_map_of_conv_image_fst [symmetric] map_of_jset)

section \<open>Identity, assets and vulnerabilities\<close>

record user =
  u_id :: "nat"
  u_username :: "string"
  u_email :: "string"
  u_password_hash :: "string"
  u_role :: "string"
  u_mfa_secret :: "string option"
  u_mfa_enabled :: "bool"
  u_failed_attempts :: "int"
  u_locked_until :: "int option"
  u_last_login :: "int option"
  u_is_active :: "bool"
  u_created_at :: "int"

definition new_user :: "nat \<Rightarrow> int \<Rightarrow> user" where
  "new_user i now = \<lparr>
     u_id = i, u_username = [], u_email = [], u_password_hash = [], u_role = ''viewer'',
     u_mfa_secret = None, u_mfa_enabled = False, u_failed_attempts = 0,
     u_locked_until = None, u_last_login = None, u_is_active = True, u_created_at = now \<rparr>"

record asset =
  a_id :: "nat"
  a_name :: "string"
  a_type :: "string"
  a_os :: "string option"
  a_ip :: "string option"
  a_mac :: "string option"
  a_segment :: "string option"
  a_edr_status :: "string option"
  a_control_coverage :: "string"
  a_network_exposure :: "string"
  a_auth_method :: "string"
  a_criticality :: "string"
  a_data_classification :: "string"
  a_dependencies :: "string list"
  a_software_stack :: "string list"
  a_cpe :: "string list"
  a_last_patch :: "string option"
  a_eol_status :: "bool"
  a_risk_score :: "rat"
  a_risk_tier :: "string"
  a_risk_breakdown :: "jdict"
  a_sources :: "string list"
  a_first_seen :: "int"
  a_last_seen :: "int"
  a_is_shadow :: "bool"
  a_is_stale :: "bool"
  a_tags :: "string list"
  a_attrs :: "jdict"

definition new_asset :: "nat \<Rightarrow> int \<Rightarrow> asset" where
  "new_asset i now = \<lparr>
     a_id = i, a_name = [], a_type = [], a_os = None, a_ip = None, a_mac = None,
     a_segment = None, a_edr_status = None, a_control_coverage = ''none'',
     a_network_exposure = ''internal'', a_auth_method = ''password'',
     a_criticality = ''medium'', a_data_classification = ''Internal'', a_dependencies = [],
     a_software_stack = [], a_cpe = [], a_last_patch = None, a_eol_status = False,
     a_risk_score = 0, a_risk_tier = ''Informational'', a_risk_breakdown = [],
     a_sources = [], a_first_seen = now, a_last_seen = now, a_is_shadow = False,
     a_is_stale = False, a_tags = [], a_attrs = [] \<rparr>"

record cve =
  cv_id :: "string"
  cv_cvss_v3 :: "rat option"
  cv_cvss_vector :: "string option"
  cv_epss_score :: "rat option"
  cv_epss_percentile :: "rat option"
  cv_kev :: "bool"
  cv_kev_date_added :: "int option"
  cv_description :: "string option"
  cv_affected_cpes :: "string list"
  cv_published :: "int option"
  cv_modified :: "int option"
  cv_last_synced :: "int"

definition new_cve :: "int \<Rightarrow> cve" where
  "new_cve now = \<lparr>
     cv_id = [], cv_cvss_v3 = None, cv_cvss_vector = None, cv_epss_score = None,
     cv_epss_percentile = None, cv_kev = False, cv_kev_date_added = None,
     cv_description = None, cv_affected_cpes = [], cv_published = None, cv_modified = None,
     cv_last_synced = now \<rparr>"

record asset_cve =
  ac_asset_id :: "nat"
  ac_cve_id :: "string"
  ac_matched_cpe :: "string option"
  ac_discovered_at :: "int"
  ac_suppressed :: "bool"
  ac_remediated :: "bool"

definition new_asset_cve :: "int \<Rightarrow> asset_cve" where
  "new_asset_cve now = \<lparr>
     ac_asset_id = 0, ac_cve_id = [], ac_matched_cpe = None, ac_discovered_at = now,
     ac_suppressed = False, ac_remediated = False \<rparr>"

section \<open>Scans, alerts, audit, tokens, webhooks and integrations\<close>

record scan =
  sc_id :: "nat"
  sc_scan_type :: "string"
  sc_target :: "string"
  sc_status :: "string"
  sc_started_at :: "int option"
  sc_completed_at :: "int option"
  sc_hosts_found :: "int"
  sc_raw_output :: "string option"
  sc_error :: "string option"
  sc_triggered_by :: "string"
  sc_created_at :: "int"

definition new_scan :: "nat \<Rightarrow> int \<Rightarrow> scan" where
  "new_scan i now = \<lparr>
     sc_id = i, sc_scan_type = [], sc_target = [], sc_status = ''pending'',
     sc_started_at = None, sc_completed_at = None, sc_hosts_found = 0, sc_raw_output = None,
     sc_error = None, sc_triggered_by = ''scheduler'', sc_created_at = now \<rparr>"

record alert =
  al_id :: "nat"
  al_alert_type :: "string"
  al_severity :: "string"
  al_title :: "string"
  al_description :: "string"
  al_asset_id :: "nat option"
  al_details :: "jdict"
  al_status :: "string"
  al_notified :: "bool"
  al_notification_channels :: "string list"
  al_created_at :: "int"
  al_resolved_at :: "int option"
  al_resolved_by :: "string option"

definition new_alert :: "nat \<Rightarrow> int \<Rightarrow> alert" where
  "new_alert i now = \<lparr>
     al_id = i, al_alert_type = [], al_severity = [], al_title = [], al_description = [],
     al_asset_id = None, al_details = [], al_status = ''open'', al_notified = False,
     al_notification_channels = [], al_created_at = now, al_resolved_at = None,
     al_resolved_by = None \<rparr>"

record audit_log =
  lg_id :: "nat"
  lg_timestamp :: "int"
  lg_user_id :: "nat option"
  lg_username :: "string option"
  lg_action :: "string"
  lg_resource_type :: "string option"
  lg_resource_id :: "string option"
  lg_ip_address :: "string option"
  lg_user_agent :: "string option"
  lg_severity :: "string"
  lg_details :: "jdict"
  lg_archived :: "bool"

definition new_audit_log :: "nat \<Rightarrow> int \<Rightarrow> audit_log" where
  "new_audit_log i now = \<lparr>
     lg_id = i, lg_timestamp = now, lg_user_id = None, lg_username = None, lg_action = [],
     lg_resource_type = None, lg_resource_id = None, lg_ip_address = None,
     lg_user_agent = None, lg_severity = ''info'', lg_details = [], lg_archived = False \<rparr>"

record api_token =
  tk_id :: "nat"
  tk_name :: "string"
  tk_token_hash :: "string"
  tk_token_prefix :: "string"
  tk_scopes :: "string list"
  tk_created_by :: "string"
  tk_created_at :: "int"
  tk_expires_at :: "int option"
  tk_last_used :: "int option"
  tk_revoked :: "bool"
  tk_usage_count :: "int"

definition new_api_token :: "nat \<Rightarrow> int \<Rightarrow> api_token" where
  "new_api_token i now = \<lparr>
     tk_id = i, tk_name = [], tk_token_hash = [], tk_token_prefix = [], tk_scopes = [],
     tk_created_by = [], tk_created_at = now, tk_expires_at = None, tk_last_used = None,
     tk_revoked = False, tk_usage_count = 0 \<rparr>"

record webhook =
  wh_id :: "nat"
  wh_name :: "string"
  wh_url :: "string"
  wh_secret_hash :: "string"
  wh_secret_prefix :: "string"
  wh_secret_encrypted :: "string"
  wh_secret_salt :: "string"
  wh_event_types :: "string list"
  wh_severity_filter :: "string list"
  wh_enabled :: "bool"
  wh_created_at :: "int"
  wh_last_delivery :: "int option"
  wh_delivery_count :: "int"
  wh_failure_count :: "int"
  wh_last_status :: "string option"

definition new_webhook :: "nat \<Rightarrow> int \<Rightarrow> webhook" where
  "new_webhook i now = \<lparr>
     wh_id = i, wh_name = [], wh_url = [], wh_secret_hash = [], wh_secret_prefix = [],
     wh_secret_encrypted = [], wh_secret_salt = [], wh_event_types = [],
     wh_severity_filter = [], wh_enabled = True, wh_created_at = now,
     wh_last_delivery = None, wh_delivery_count = 0, wh_failure_count = 0,
     wh_last_status = None \<rparr>"

record integration =
  ig_id :: "nat"
  ig_name :: "string"
  ig_connector_type :: "string"
  ig_enabled :: "bool"
  ig_config :: "jdict"
  ig_schedule_cron :: "string"
  ig_last_run :: "int option"
  ig_last_status :: "string option"
  ig_assets_reported :: "int"
  ig_priority :: "int"
  ig_failure_count :: "int"
  ig_created_at :: "int"

definition new_integration :: "nat \<Rightarrow> int \<Rightarrow> integration" where
  "new_integration i now = \<lparr>
     ig_id = i, ig_name = [], ig_connector_type = [], ig_enabled = True, ig_config = [],
     ig_schedule_cron = ''0 */6 * * *'', ig_last_run = None, ig_last_status = None,
     ig_assets_reported = 0, ig_priority = 5, ig_failure_count = 0, ig_created_at = now \<rparr>"

record scan_network =
  sn_id :: "nat"
  sn_cidr :: "string"
  sn_name :: "string"
  sn_enabled :: "bool"
  sn_scan_type :: "string"
  sn_excluded_ips :: "string list"
  sn_created_at :: "int"

definition new_scan_network :: "nat \<Rightarrow> int \<Rightarrow> scan_network" where
  "new_scan_network i now = \<lparr>
     sn_id = i, sn_cidr = [], sn_name = [], sn_enabled = True, sn_scan_type = ''discovery'',
     sn_excluded_ips = [], sn_created_at = now \<rparr>"

section \<open>Compliance evidence\<close>

record compliance_mapping =
  cm_id :: "nat"
  cm_framework :: "string"
  cm_control_id :: "string"
  cm_asset_id :: "nat"
  cm_status :: "string"
  cm_evidence :: "jdict"
  cm_assessed_at :: "int"

definition new_compliance_mapping :: "nat \<Rightarrow> int \<Rightarrow> compliance_mapping" where
  "new_compliance_mapping i now = \<lparr>
     cm_id = i, cm_framework = [], cm_control_id = [], cm_asset_id = 0,
     cm_status = ''unknown'', cm_evidence = [], cm_assessed_at = now \<rparr>"

record framework_catalog =
  fc_id :: "nat"
  fc_code :: "string"
  fc_version :: "string"
  fc_name :: "string"
  fc_source_url :: "string option"
  fc_active :: "bool"
  fc_metadata :: "jdict"
  fc_created_at :: "int"

definition new_framework_catalog :: "nat \<Rightarrow> int \<Rightarrow> framework_catalog" where
  "new_framework_catalog i now = \<lparr>
     fc_id = i, fc_code = [], fc_version = [], fc_name = [], fc_source_url = None,
     fc_active = True, fc_metadata = [], fc_created_at = now \<rparr>"

record framework_control =
  fk_id :: "nat"
  fk_catalog_id :: "nat"
  fk_control_id :: "string"
  fk_title :: "string"
  fk_objective :: "string"
  fk_family :: "string option"
  fk_rule_key :: "string"
  fk_assessment_method :: "string"
  fk_evidence_requirements :: "string list"
  fk_sort_order :: "int"
  fk_metadata :: "jdict"

definition new_framework_control :: "nat \<Rightarrow> framework_control" where
  "new_framework_control i = \<lparr>
     fk_id = i, fk_catalog_id = 0, fk_control_id = [], fk_title = [], fk_objective = [],
     fk_family = None, fk_rule_key = [], fk_assessment_method = ''asset_observation'',
     fk_evidence_requirements = [], fk_sort_order = 0, fk_metadata = [] \<rparr>"

record assessment_run =
  ar_id :: "nat"
  ar_framework_code :: "string"
  ar_framework_version :: "string"
  ar_status :: "string"
  ar_scope :: "jdict"
  ar_methodology :: "jdict"
  ar_summary :: "jdict"
  ar_started_at :: "int option"
  ar_completed_at :: "int option"
  ar_initiated_by :: "string"
  ar_created_at :: "int"

definition new_assessment_run :: "nat \<Rightarrow> int \<Rightarrow> assessment_run" where
  "new_assessment_run i now = \<lparr>
     ar_id = i, ar_framework_code = [], ar_framework_version = [], ar_status = ''queued'',
     ar_scope = [], ar_methodology = [], ar_summary = [], ar_started_at = None,
     ar_completed_at = None, ar_initiated_by = ''scheduler'', ar_created_at = now \<rparr>"

record assessment_result =
  as_id :: "nat"
  as_run_id :: "nat"
  as_control_id :: "nat"
  as_asset_id :: "nat option"
  as_status :: "string"
  as_score :: "rat option"
  as_confidence :: "rat"
  as_rationale :: "string"
  as_rule_key :: "string"
  as_assessed_at :: "int"
  as_expires_at :: "int option"

definition new_assessment_result :: "nat \<Rightarrow> int \<Rightarrow> assessment_result" where
  "new_assessment_result i now = \<lparr>
     as_id = i, as_run_id = 0, as_control_id = 0, as_asset_id = None,
     as_status = ''not_assessed'', as_score = None, as_confidence = 1, as_rationale = '''',
     as_rule_key = [], as_assessed_at = now, as_expires_at = None \<rparr>"

record evidence_item =
  ev_id :: "nat"
  ev_source_type :: "string"
  ev_source_ref :: "string"
  ev_title :: "string"
  ev_description :: "string"
  ev_observed :: "jdict"
  ev_captured_at :: "int"
  ev_observed_at :: "int option"
  ev_expires_at :: "int option"
  ev_integrity_sha256 :: "string"
  ev_collector :: "string"
  ev_classification :: "string"
  ev_metadata :: "jdict"
  ev_created_at :: "int"

definition new_evidence_item :: "nat \<Rightarrow> int \<Rightarrow> evidence_item" where
  "new_evidence_item i now = \<lparr>
     ev_id = i, ev_source_type = [], ev_source_ref = [], ev_title = [],
     ev_description = '''', ev_observed = [], ev_captured_at = now, ev_observed_at = None,
     ev_expires_at = None, ev_integrity_sha256 = [], ev_collector = [],
     ev_classification = ''internal'', ev_metadata = [], ev_created_at = now \<rparr>"

record assessment_evidence =
  ae_result_id :: "nat"
  ae_evidence_id :: "nat"
  ae_relation :: "string"
  ae_role :: "string"
  ae_extracted_by :: "string"
  ae_created_at :: "int"

definition new_assessment_evidence :: "int \<Rightarrow> assessment_evidence" where
  "new_assessment_evidence now = \<lparr>
     ae_result_id = 0, ae_evidence_id = 0, ae_relation = ''supports'', ae_role = ''primary'',
     ae_extracted_by = ''deterministic_rule'', ae_created_at = now \<rparr>"

section \<open>Self-security\<close>

record platform_dependency =
  pd_id :: "nat"
  pd_component :: "string"
  pd_package_type :: "string"
  pd_name :: "string"
  pd_version :: "string"
  pd_latest_version :: "string option"
  pd_purl :: "string option"
  pd_license :: "string option"
  pd_direct :: "bool"
  pd_last_checked :: "int"
  pd_cve_count :: "int"
  pd_kev_count :: "int"
  pd_max_cvss :: "rat option"
  pd_update_available :: "bool"
  pd_update_blocked_reason :: "string option"

definition new_platform_dependency :: "nat \<Rightarrow> int \<Rightarrow> platform_dependency" where
  "new_platform_dependency i now = \<lparr>
     pd_id = i, pd_component = [], pd_package_type = [], pd_name = [], pd_version = [],
     pd_latest_version = None, pd_purl = None, pd_license = None, pd_direct = True,
     pd_last_checked = now, pd_cve_count = 0, pd_kev_count = 0, pd_max_cvss = None,
     pd_update_available = False, pd_update_blocked_reason = None \<rparr>"

record dependency_finding =
  df_id :: "nat"
  df_dependency_id :: "nat"
  df_cve_id :: "string"
  df_cvss :: "rat option"
  df_epss :: "rat option"
  df_kev :: "bool"
  df_description :: "string option"
  df_fixed_version :: "string option"
  df_severity :: "string"
  df_discovered_at :: "int"
  df_suppressed :: "bool"
  df_suppressed_reason :: "string option"
  df_suppressed_by :: "string option"
  df_suppressed_until :: "int option"

definition new_dependency_finding :: "nat \<Rightarrow> int \<Rightarrow> dependency_finding" where
  "new_dependency_finding i now = \<lparr>
     df_id = i, df_dependency_id = 0, df_cve_id = [], df_cvss = None, df_epss = None,
     df_kev = False, df_description = None, df_fixed_version = None,
     df_severity = ''medium'', df_discovered_at = now, df_suppressed = False,
     df_suppressed_reason = None, df_suppressed_by = None, df_suppressed_until = None \<rparr>"

record update_proposal =
  up_id :: "nat"
  up_dependency_id :: "nat"
  up_component :: "string"
  up_package_name :: "string"
  up_current_version :: "string"
  up_target_version :: "string"
  up_reason :: "string"
  up_cves_fixed :: "string list"
  up_ai_assessment :: "jdict"
  up_ai_recommendation :: "string option"
  up_ai_risk_score :: "rat option"
  up_breaking_changes_detected :: "bool"
  up_compatibility_notes :: "string option"
  up_status :: "string"
  up_approved_by :: "string option"
  up_approved_at :: "int option"
  up_applied_at :: "int option"
  up_rollback_snapshot :: "jdict"
  up_error_message :: "string option"
  up_created_at :: "int"

definition new_update_proposal :: "nat \<Rightarrow> int \<Rightarrow> update_proposal" where
  "new_update_proposal i now = \<lparr>
     up_id = i, up_dependency_id = 0, up_component = [], up_package_name = [],
     up_current_version = [], up_target_version = [], up_reason = [], up_cves_fixed = [],
     up_ai_assessment = [], up_ai_recommendation = None, up_ai_risk_score = None,
     up_breaking_changes_detected = False, up_compatibility_notes = None,
     up_status = ''proposed'', up_approved_by = None, up_approved_at = None,
     up_applied_at = None, up_rollback_snapshot = [], up_error_message = None,
     up_created_at = now \<rparr>"

record self_security_settings =
  ss_id :: "int"
  ss_auto_scan_enabled :: "bool"
  ss_scan_cron :: "string"
  ss_auto_update_enabled :: "bool"
  ss_auto_update_severity_threshold :: "string"
  ss_auto_update_only_patch :: "bool"
  ss_auto_update_only_kev :: "bool"
  ss_require_ai_validation :: "bool"
  ss_require_admin_approval :: "bool"
  ss_auto_rollback_on_failure :: "bool"
  ss_maintenance_window_cron :: "string option"
  ss_notify_channels :: "string list"
  ss_ai_model :: "string"
  ss_excluded_packages :: "string list"
  ss_last_scan_status :: "string"
  ss_last_scan_error :: "string option"
  ss_last_scan_at :: "int option"
  ss_last_successful_scan_at :: "int option"
  ss_packages_scanned :: "int"
  ss_updated_at :: "int"
  ss_updated_by :: "string option"

definition new_self_security_settings :: "int \<Rightarrow> self_security_settings" where
  "new_self_security_settings now = \<lparr>
     ss_id = 1, ss_auto_scan_enabled = True, ss_scan_cron = ''0 1 * * *'',
     ss_auto_update_enabled = False, ss_auto_update_severity_threshold = ''critical'',
     ss_auto_update_only_patch = True, ss_auto_update_only_kev = True,
     ss_require_ai_validation = True, ss_require_admin_approval = True,
     ss_auto_rollback_on_failure = True, ss_maintenance_window_cron = Some ''0 2 * * 0'',
     ss_notify_channels = [''slack'', ''email''], ss_ai_model = ''claude-sonnet-4-20250514'',
     ss_excluded_packages = [], ss_last_scan_status = ''never'', ss_last_scan_error = None,
     ss_last_scan_at = None, ss_last_successful_scan_at = None, ss_packages_scanned = 0,
     ss_updated_at = now, ss_updated_by = None \<rparr>"

section \<open>Partial updates\<close>

text \<open>
  \<open>setattr\<close> of a key that was sent. \<open>None\<close> in a column that may not be null is refused by the
  database; in a JSON column it is stored as a JSON null, which every reader treats as no list.
\<close>

fun set_col :: "'a dkey \<Rightarrow> 'a \<Rightarrow> 'a result" where
  "set_col Absent old = Inr old"
| "set_col Null old = Inl IntegrityError"
| "set_col (Has v) old = Inr v"

fun set_nullable :: "'a dkey \<Rightarrow> 'a option \<Rightarrow> 'a option" where
  "set_nullable Absent old = old"
| "set_nullable Null old = None"
| "set_nullable (Has v) old = Some v"

fun set_json :: "'a list dkey \<Rightarrow> 'a list \<Rightarrow> 'a list" where
  "set_json Absent old = old"
| "set_json Null old = []"
| "set_json (Has v) old = v"

definition change_of :: "string \<Rightarrow> ('a \<Rightarrow> pyval) \<Rightarrow> 'a dkey \<Rightarrow> jdict" where
  "change_of name f k = (case k of Absent \<Rightarrow> [] | Null \<Rightarrow> [(name, PNone)] | Has v \<Rightarrow> [(name, f v)])"

section \<open>The database\<close>

record db =
  next_id :: nat
  users :: "user list"
  assets :: "asset list"
  cves :: "cve list"
  asset_cves :: "asset_cve list"
  scans :: "scan list"
  alerts :: "alert list"
  audit_log_rows :: "audit_log list"
  api_tokens :: "api_token list"
  webhooks :: "webhook list"
  integrations :: "integration list"
  scan_networks :: "scan_network list"
  compliance_mappings :: "compliance_mapping list"
  framework_catalogs :: "framework_catalog list"
  framework_controls :: "framework_control list"
  assessment_runs :: "assessment_run list"
  assessment_results :: "assessment_result list"
  evidence_items :: "evidence_item list"
  assessment_evidences :: "assessment_evidence list"
  platform_dependencies :: "platform_dependency list"
  dependency_findings :: "dependency_finding list"
  update_proposals :: "update_proposal list"
  settings_rows :: "self_security_settings list"

definition empty_db :: db where
  "empty_db = \<lparr> next_id = 1, users = [], assets = [], cves = [], asset_cves = [],
     scans = [], alerts = [], audit_log_rows = [], api_tokens = [],
     webhooks = [], integrations = [], scan_networks = [], compliance_mappings = [],
     framework_catalogs = [], framework_controls = [], assessment_runs = [], assessment_results = [],
     evidence_items = [], assessment_evidences = [], platform_dependencies = [], dependency_findings = [],
     update_proposals = [], settings_rows = [] \<rparr>"

definition fresh_id :: "db \<Rightarrow> nat \<times> db" where
  "fresh_id d = (next_id d, d\<lparr>next_id := next_id d + 1\<rparr>)"

text \<open>
  The columns with \<open>onupdate=func.now()\<close>: an UPDATE of the row that does not set the column
  itself sets it to the time of the statement. A flush without changes sends no UPDATE.
\<close>

definition asset_flush :: "int \<Rightarrow> asset \<Rightarrow> asset \<Rightarrow> asset" where
  "asset_flush now stored a =
     (if a \<noteq> stored \<and> a_last_seen a = a_last_seen stored then a\<lparr>a_last_seen := now\<rparr> else a)"

definition settings_flush :: "int \<Rightarrow> self_security_settings \<Rightarrow> self_security_settings \<Rightarrow> self_security_settings" where
  "settings_flush now stored s =
     (if s \<noteq> stored \<and> ss_updated_at s = ss_updated_at stored then s\<lparr>ss_updated_at := now\<rparr> else s)"

definition update_asset_row :: "int \<Rightarrow> nat \<Rightarrow> (asset \<Rightarrow> asset) \<Rightarrow> db \<Rightarrow> db" where
  "update_asset_row now i f d =
     d\<lparr>assets := update_where (\<lambda>a. a_id a = i) (\<lambda>a. asset_flush now a (f a)) (assets d)\<rparr>"

text \<open>Unique columns and constraints.\<close>

definition unique_ok :: "db \<Rightarrow> bool" where
  "unique_ok d =
     (distinct (map u_username (users d)) \<and> distinct (map u_email (users d))
      \<and> distinct (map ig_name (integrations d)) \<and> distinct (map sn_cidr (scan_networks d))
      \<and> distinct (map (\<lambda>c. (fc_code c, fc_version c)) (framework_catalogs d))
      \<and> distinct (map (\<lambda>c. (fk_catalog_id c, fk_control_id c)) (framework_controls d))
      \<and> distinct (map (\<lambda>f. (df_dependency_id f, df_cve_id f)) (dependency_findings d))
      \<and> distinct (map (\<lambda>l. (ac_asset_id l, ac_cve_id l)) (asset_cves d)))"

text \<open>The referential actions when an asset, or a dependency, is deleted.\<close>

definition delete_asset :: "nat \<Rightarrow> db \<Rightarrow> db" where
  "delete_asset i d =
     d\<lparr>assets := filter (\<lambda>a. a_id a \<noteq> i) (assets d),
       asset_cves := filter (\<lambda>l. ac_asset_id l \<noteq> i) (asset_cves d),
       alerts := update_where (\<lambda>a. al_asset_id a = Some i) (\<lambda>a. a\<lparr>al_asset_id := None\<rparr>) (alerts d),
       compliance_mappings := filter (\<lambda>m. cm_asset_id m \<noteq> i) (compliance_mappings d),
       assessment_evidences := filter (\<lambda>e. ae_result_id e \<notin>
          set (map as_id (filter (\<lambda>r. as_asset_id r = Some i) (assessment_results d))))
          (assessment_evidences d),
       assessment_results := filter (\<lambda>r. as_asset_id r \<noteq> Some i) (assessment_results d)\<rparr>"

definition delete_dependency :: "nat \<Rightarrow> db \<Rightarrow> db" where
  "delete_dependency i d =
     d\<lparr>platform_dependencies := filter (\<lambda>p. pd_id p \<noteq> i) (platform_dependencies d),
       dependency_findings := filter (\<lambda>f. df_dependency_id f \<noteq> i) (dependency_findings d),
       update_proposals := filter (\<lambda>p. up_dependency_id p \<noteq> i) (update_proposals d)\<rparr>"

text \<open>
  \<open>get_db\<close>: the request's session is committed when the handler returns and rolled back to
  the last commit when it raises. A body yields its result, the state of its last commit
  and its uncommitted state.
\<close>

definition get_db :: "'a result \<times> db \<times> db \<Rightarrow> 'a result \<times> db" where
  "get_db b = (case b of (r, committed, work) \<Rightarrow>
     (case r of Inl e \<Rightarrow> (Inl e, committed) | Inr x \<Rightarrow> (Inr x, work)))"

lemma get_db_simps [simp, res_simps]:
  "get_db (Inl e, c, w) = (Inl e, c)"
  "get_db (Inr x, c, w) = (Inr x, w)"
  by (simp_all add: get_db_def)

end
