(* ===== verification/NetAddr.thy ===== *)
theory NetAddr
  imports "HOL-Library.Word" Prelude PyStr
begin

text \<open>
  Internet addresses and networks as Python's \<open>ipaddress\<close> module has them: the textual
  forms of both families, networks with their prefix length or IPv4 netmask, containment
  and the registry of addresses that are not globally reachable (CPython 3.12). Addresses
  are words of their width, 32 and 128 bits; an IPv6 address may carry a scope id.
\<close>

unbundle bit_operations_syntax

section \<open>Networks over words\<close>

definition hostmask :: "nat \<Rightarrow> 'a::len word" where
  "hostmask p = mask (LENGTH('a) - p)"

definition netmask :: "nat \<Rightarrow> 'a::len word" where
  "netmask p = NOT (hostmask p)"

definition addr_in :: "'a::len word \<Rightarrow> 'a word \<Rightarrow> nat \<Rightarrow> bool" where
  "addr_in x n p = (x AND netmask p = n)"

definition broadcast :: "'a::len word \<Rightarrow> nat \<Rightarrow> 'a word" where
  "broadcast n p = n OR hostmask p"

text \<open>A network address has no host bits.\<close>

definition net_ok :: "'a::len word \<Rightarrow> nat \<Rightarrow> bool" where
  "net_ok n p = (p \<le> LENGTH('a) \<and> n AND netmask p = n)"

lemma and_not_mask_iff:
  fixes x n :: "'a::len word"
  assumes "n AND NOT (mask k) = n"
  shows "x AND NOT (mask k) = n \<longleftrightarrow> drop_bit k x = drop_bit k n"
proof
  assume "x AND NOT (mask k) = n"
  then have "drop_bit k n = drop_bit k (x AND NOT (mask k))" by simp
  also have "\<dots> = drop_bit k x"
    by (rule bit_eqI) (auto simp: bit_simps dest: bit_imp_le_length)
  finally show "drop_bit k x = drop_bit k n" by simp
next
  assume eq: "drop_bit k x = drop_bit k n"
  have "bit x i = bit n i" if "k \<le> i" for i
  proof -
    have "bit (drop_bit k x) (i - k) = bit (drop_bit k n) (i - k)" using eq by simp
    then show ?thesis using that by (simp add: bit_drop_bit_eq)
  qed
  then have "x AND NOT (mask k) = n AND NOT (mask k)"
    by (intro bit_eqI) (auto simp: bit_simps not_less)
  with assms show "x AND NOT (mask k) = n" by simp
qed

lemma not_mask_mod:
  fixes n :: "'a::len word"
  assumes "n AND NOT (mask k) = n"
  shows "unat n mod 2 ^ k = 0" "n AND mask k = 0"
proof -
  have "take_bit k n = take_bit k (n AND NOT (mask k))" using assms by simp
  also have "\<dots> = 0" by (rule bit_eqI) (simp add: bit_simps)
  finally have t: "take_bit k n = 0" .
  then show "n AND mask k = 0" by (simp add: take_bit_eq_mask)
  have "unat (take_bit k n) = take_bit k (unat n)" by (rule unsigned_take_bit_eq)
  also have "\<dots> = unat n mod 2 ^ k" by (rule take_bit_eq_mod)
  finally have "unat (take_bit k n) = unat n mod 2 ^ k" .
  with t show "unat n mod 2 ^ k = 0" by simp
qed

lemma unat_or_mask:
  fixes n :: "'a::len word"
  assumes "n AND NOT (mask k) = n" "k \<le> LENGTH('a)"
  shows "unat (n OR mask k) = unat n + (2 ^ k - 1)"
proof -
  have "unat (n OR mask k) = unat n OR unat (mask k :: 'a word)" by (simp add: unsigned_or_eq)
  also have "unat (mask k :: 'a word) = 2 ^ k - 1"
    unfolding mask_eq_exp_minus_1 [symmetric]
    by (rule bit_eqI) (use assms(2) in \<open>auto simp: bit_simps\<close>)
  also have "unat n OR (2 ^ k - 1) = unat n + (2 ^ k - 1)"
  proof (rule disjunctive_add [symmetric])
    fix i
    have "n AND mask k = 0" using not_mask_mod(2) [OF assms(1)] .
    then have "i < k \<Longrightarrow> \<not> bit n i"
      using bit_and_iff [of n "mask k" i] assms(2) by (auto simp: bit_simps)
    then show "\<not> bit (unat n) i \<or> \<not> bit (2 ^ k - 1 :: nat) i"
      unfolding mask_eq_exp_minus_1 [symmetric] by (auto simp: bit_simps)
  qed
  finally show ?thesis .
qed

lemma div_eq_iff_range: "0 < b \<Longrightarrow> a div b = q \<longleftrightarrow> b * q \<le> a \<and> a < b * q + (b::nat)"
proof -
  assume b: "0 < b"
  have "a = b * (a div b) + a mod b" "a mod b < b" using b by simp_all
  then show "a div b = q \<longleftrightarrow> b * q \<le> a \<and> a < b * q + b"
    by (metis add.commute add_less_cancel_left div_nat_eqI le_add1 mult_Suc_right)
qed

lemma addr_in_iff_range:
  fixes x n :: "'a::len word"
  assumes "net_ok n p"
  shows "addr_in x n p \<longleftrightarrow> n \<le> x \<and> x \<le> broadcast n p"
proof -
  define k where "k = LENGTH('a) - p"
  have n: "n AND NOT (mask k) = n" and k: "k \<le> LENGTH('a)"
    using assms by (simp_all add: net_ok_def netmask_def hostmask_def k_def)
  have "addr_in x n p \<longleftrightarrow> drop_bit k x = drop_bit k n"
    using and_not_mask_iff [OF n] by (simp add: addr_in_def netmask_def hostmask_def k_def)
  also have "\<dots> \<longleftrightarrow> unat x div 2 ^ k = unat n div 2 ^ k"
    by (simp only: word_unat_eq_iff unat_drop_bit_eq) (simp only: drop_bit_eq_div)
  also have "\<dots> \<longleftrightarrow> unat n \<le> unat x \<and> unat x \<le> unat n + (2 ^ k - 1)"
  proof -
    obtain q where q: "unat n = 2 ^ k * q" using not_mask_mod(1) [OF n] by (auto simp: mod_eq_0_iff_dvd)
    have "unat x div 2 ^ k = q \<longleftrightarrow> 2 ^ k * q \<le> unat x \<and> unat x < 2 ^ k * q + 2 ^ k"
      by (rule div_eq_iff_range) simp
    moreover have "unat n div 2 ^ k = q" using q by simp
    moreover have "(1::nat) \<le> 2 ^ k" by simp
    ultimately show ?thesis using q by linarith
  qed
  also have "\<dots> \<longleftrightarrow> n \<le> x \<and> x \<le> broadcast n p"
    using unat_or_mask [OF n k]
    by (simp add: word_le_nat_alt broadcast_def hostmask_def k_def)
  finally show ?thesis .
qed

lemma net_addr_in: "net_ok n p \<Longrightarrow> addr_in n n p"
  by (simp add: net_ok_def addr_in_def)

lemma broadcast_ge: "n \<le> broadcast (n :: 'a::len word) p"
  unfolding broadcast_def by (rule le_word_or2)

lemma broadcast_in: "net_ok n p \<Longrightarrow> addr_in (broadcast n p) n p"
  using broadcast_ge by (simp add: addr_in_iff_range)

text \<open>Comparing the two ends of the ranges is set inclusion.\<close>

lemma ends_iff_subset:
  fixes n m :: "'a::len word"
  assumes "net_ok n p" "net_ok m q"
  shows "m \<le> n \<and> broadcast n p \<le> broadcast m q \<longleftrightarrow> {x. addr_in x n p} \<subseteq> {x. addr_in x m q}"
proof
  assume "m \<le> n \<and> broadcast n p \<le> broadcast m q"
  then show "{x. addr_in x n p} \<subseteq> {x. addr_in x m q}"
    by (auto simp: addr_in_iff_range [OF assms(1)] addr_in_iff_range [OF assms(2)])
next
  assume sub: "{x. addr_in x n p} \<subseteq> {x. addr_in x m q}"
  then have "addr_in n m q" "addr_in (broadcast n p) m q"
    using net_addr_in [OF assms(1)] broadcast_in [OF assms(1)] by auto
  then show "m \<le> n \<and> broadcast n p \<le> broadcast m q"
    by (simp add: addr_in_iff_range [OF assms(2)])
qed

section \<open>Textual form of IPv4\<close>

definition parse_octet :: "string \<Rightarrow> nat option" where
  "parse_octet s =
     (if s = [] then None
      else if \<not> list_all is_digit s then None
      else if 3 < length s then None
      else if s \<noteq> ''0'' \<and> hd s = CHR ''0'' then None
      else if 255 < digits_val s then None
      else Some (digits_val s))"

definition word_of_octets :: "nat \<Rightarrow> nat \<Rightarrow> nat \<Rightarrow> nat \<Rightarrow> 32 word" where
  "word_of_octets a b c d = word_of_int (((int a * 256 + int b) * 256 + int c) * 256 + int d)"

definition parse_v4 :: "string \<Rightarrow> 32 word option" where
  "parse_v4 s =
     (case split_on (CHR ''.'') s of
        [a, b, c, d] \<Rightarrow>
          (case (parse_octet a, parse_octet b, parse_octet c, parse_octet d) of
             (Some a, Some b, Some c, Some d) \<Rightarrow> Some (word_of_octets a b c d)
           | _ \<Rightarrow> None)
      | _ \<Rightarrow> None)"

definition octets_of :: "32 word \<Rightarrow> nat list" where
  "octets_of w = (let n = uint w in
     map nat [n div 16777216, n div 65536 mod 256, n div 256 mod 256, n mod 256])"

definition show_v4 :: "32 word \<Rightarrow> string" where
  "show_v4 w = join ''.'' (map show_nat (octets_of w))"

lemma show_nat_len: "n < 10 ^ Suc k \<Longrightarrow> length (show_nat n) \<le> Suc k"
proof (induction k arbitrary: n)
  case 0
  then show ?case by (subst show_nat.simps) simp
next
  case (Suc k)
  then have "n div 10 < 10 ^ Suc k" by (simp add: div_less_iff_less_mult)
  from Suc.IH [OF this] show ?case by (subst show_nat.simps) simp
qed

lemma show_nat_lead: "0 < n \<Longrightarrow> hd (show_nat n) \<noteq> CHR ''0''"
proof (induction n rule: show_nat.induct)
  case (1 n)
  show ?case
  proof (cases "n < 10")
    case True
    then have "char_code (digit_char n) \<noteq> char_code (CHR ''0'')"
      using 1 by (simp add: digit_char_code) (simp add: char_code_def)
    then show ?thesis using True by (subst show_nat.simps) auto
  next
    case False
    then show ?thesis using 1 by (subst show_nat.simps) simp
  qed
qed

lemma parse_octet_show [simp]: "n < 256 \<Longrightarrow> parse_octet (show_nat n) = Some n"
proof -
  assume n: "n < 256"
  have "show_nat n \<noteq> ''0'' \<Longrightarrow> hd (show_nat n) \<noteq> CHR ''0''"
  proof (cases "n = 0")
    case True
    assume "show_nat n \<noteq> ''0''"
    moreover have "show_nat 0 = ''0''" by code_simp
    ultimately show ?thesis using True by simp
  qed (simp add: show_nat_lead)
  then show ?thesis
    using n show_nat_len [of n 2] show_nat_digits [of _ n]
    by (auto simp: parse_octet_def list_all_iff)
qed

lemma dot_not_digit: "is_digit c \<Longrightarrow> c \<noteq> CHR ''.'' \<and> c \<noteq> CHR ''/'' \<and> c \<noteq> CHR '':''"
  by (auto simp: is_digit_def char_code_def)

lemma show_nat_free: "CHR ''.'' \<notin> set (show_nat n)" "CHR ''/'' \<notin> set (show_nat n)"
  "CHR '':'' \<notin> set (show_nat n)"
  using show_nat_digits dot_not_digit by blast+

lemma octets_of_bound: "n \<in> set (octets_of w) \<Longrightarrow> n < 256"
proof -
  have "uint w < 4294967296" "0 \<le> uint w" using unsigned_less [of w] by simp_all
  then show "n \<in> set (octets_of w) \<Longrightarrow> n < 256" by (auto simp: octets_of_def Let_def nat_less_iff)
qed

lemma octets_compose:
  "((n div 16777216 * 256 + n div 65536 mod 256) * 256 + n div 256 mod 256) * 256 + n mod 256 = (n::int)"
proof -
  have "n div 65536 = n div 16777216 * 256 + n div 65536 mod 256"
    using div_mult_mod_eq [of "n div 65536" 256] by (simp add: zdiv_zmult2_eq [symmetric])
  moreover have "n div 256 = n div 65536 * 256 + n div 256 mod 256"
    using div_mult_mod_eq [of "n div 256" 256] by (simp add: zdiv_zmult2_eq [symmetric])
  moreover have "n = n div 256 * 256 + n mod 256" by simp
  ultimately show ?thesis by simp
qed

theorem parse_show_v4 [simp]: "parse_v4 (show_v4 w) = Some w"
proof -
  obtain a b c d where o: "octets_of w = [a, b, c, d]" by (simp add: octets_of_def Let_def)
  then have lt: "a < 256" "b < 256" "c < 256" "d < 256"
    using octets_of_bound [of _ w] by auto
  have "split_on (CHR ''.'') (show_v4 w) = map show_nat [a, b, c, d]"
    unfolding show_v4_def o by (rule split_on_join) (simp_all add: show_nat_free)
  moreover have "word_of_octets a b c d = w"
  proof -
    have eq: "a = nat (uint w div 16777216)" "b = nat (uint w div 65536 mod 256)"
      "c = nat (uint w div 256 mod 256)" "d = nat (uint w mod 256)"
      using o by (simp_all add: octets_of_def Let_def)
    have "0 \<le> uint w" by simp
    then have "0 \<le> uint w div 16777216" by (simp only: pos_imp_zdiv_nonneg_iff)
    then have "int a = uint w div 16777216" "int b = uint w div 65536 mod 256"
      "int c = uint w div 256 mod 256" "int d = uint w mod 256"
      by (simp_all only: eq nat_0_le pos_mod_sign)
    then show ?thesis by (simp only: word_of_octets_def octets_compose word_of_int_uint)
  qed
  ultimately show ?thesis using lt by (simp add: parse_v4_def)
qed

section \<open>Textual form of IPv6\<close>

definition is_hex :: "char \<Rightarrow> bool" where
  "is_hex c = (is_digit c \<or> 97 \<le> char_code c \<and> char_code c \<le> 102
               \<or> 65 \<le> char_code c \<and> char_code c \<le> 70)"

definition hex_val :: "char \<Rightarrow> int" where
  "hex_val c = (let n = int (char_code c) in
     if n < 65 then n - 48 else if n < 97 then n - 55 else n - 87)"

definition parse_hextet :: "string \<Rightarrow> int option" where
  "parse_hextet s =
     (if \<not> list_all is_hex s then None
      else if 4 < length s then None
      else if s = [] then None
      else Some (foldl (\<lambda>a c. a * 16 + hex_val c) 0 s))"

definition hex_digit :: "int \<Rightarrow> char" where
  "hex_digit d = char_of (nat (if d < 10 then 48 + d else 87 + d))"

function show_hex :: "int \<Rightarrow> string" where
  "show_hex n = (if n < 16 then [hex_digit n] else show_hex (n div 16) @ [hex_digit (n mod 16)])"
  by pat_completeness auto
termination
  by (relation "measure nat") auto

declare show_hex.simps [simp del]

fun parse_hextets :: "string list \<Rightarrow> int \<Rightarrow> int option" where
  "parse_hextets [] acc = Some acc"
| "parse_hextets (h # hs) acc =
     (case parse_hextet h of None \<Rightarrow> None | Some v \<Rightarrow> parse_hextets hs (acc * 65536 + v))"

text \<open>The positions, first and last excepted, of empty parts.\<close>

definition skip_indices :: "string list \<Rightarrow> nat list" where
  "skip_indices parts = filter (\<lambda>i. parts ! i = []) [1 ..< length parts - 1]"

definition v6_parts :: "string \<Rightarrow> string list option" where
  "v6_parts s =
     (if s = [] then None
      else let parts = split_on (CHR '':'') s
      in if length parts < 3 then None
         else let parts = (if CHR ''.'' \<in> set (last parts)
                then (case parse_v4 (last parts) of
                        None \<Rightarrow> None
                      | Some w \<Rightarrow> Some (butlast parts
                          @ [show_hex (uint w div 65536), show_hex (uint w mod 65536)]))
                else Some parts)
         in case parts of None \<Rightarrow> None | Some ps \<Rightarrow> if 9 < length ps then None else Some ps)"

definition parse_v6_int :: "string \<Rightarrow> int option" where
  "parse_v6_int s =
     (case v6_parts s of
        None \<Rightarrow> None
      | Some parts \<Rightarrow>
          (case skip_indices parts of
             [] \<Rightarrow> if length parts \<noteq> 8 then None
                   else if hd parts = [] \<or> last parts = [] then None
                   else parse_hextets parts 0
           | [i] \<Rightarrow>
               let hi = (if hd parts = [] then i - 1 else i);
                   lo0 = length parts - i - 1;
                   lo = (if last parts = [] then lo0 - 1 else lo0)
               in if hd parts = [] \<and> hi \<noteq> 0 then None
                  else if last parts = [] \<and> lo \<noteq> 0 then None
                  else if 8 < hi + lo + 1 then None
                  else (case parse_hextets (take hi parts) 0 of
                          None \<Rightarrow> None
                        | Some h \<Rightarrow> parse_hextets (drop (length parts - lo) parts)
                                      (h * 65536 ^ (8 - (hi + lo))))
           | _ \<Rightarrow> None))"

text \<open>\<open>_split_scope_id\<close> and the constructor of \<open>IPv6Address\<close>.\<close>

definition parse_v6 :: "string \<Rightarrow> (128 word \<times> string option) option" where
  "parse_v6 s =
     (if CHR ''/'' \<in> set s then None
      else case split_on (CHR ''%'') s of
        [a] \<Rightarrow> map_option (\<lambda>n. (word_of_int n, None)) (parse_v6_int a)
      | [a, sc] \<Rightarrow> if sc = [] then None
                   else map_option (\<lambda>n. (word_of_int n, Some sc)) (parse_v6_int a)
      | _ \<Rightarrow> None)"

definition hextets_of :: "128 word \<Rightarrow> string list" where
  "hextets_of w = map (\<lambda>i. show_hex (uint w div 65536 ^ (7 - i) mod 65536)) [0 ..< 8]"

text \<open>The longest run of zero hextets: its start and length, leftmost first.\<close>

fun zero_run :: "string list \<Rightarrow> nat \<Rightarrow> nat \<Rightarrow> nat \<Rightarrow> nat \<times> nat \<Rightarrow> nat \<times> nat" where
  "zero_run [] i start len best = best"
| "zero_run (h # hs) i start len best =
     (if h = ''0''
      then let start' = (if len = 0 then i else start); len' = len + 1
           in zero_run hs (i + 1) start' len' (if snd best < len' then (start', len') else best)
      else zero_run hs (i + 1) 0 0 best)"

definition compress_hextets :: "string list \<Rightarrow> string list" where
  "compress_hextets hs =
     (case zero_run hs 0 0 0 (0, 0) of
        (s, l) \<Rightarrow>
          if 1 < l
          then (if s = 0 then [[]] else []) @ take s hs @ [[]] @ drop (s + l) hs
               @ (if s + l = length hs then [[]] else [])
          else hs)"

definition show_v6 :: "128 word \<Rightarrow> string option \<Rightarrow> string" where
  "show_v6 w sc = join '':'' (compress_hextets (hextets_of w))
                  @ (case sc of None \<Rightarrow> [] | Some s \<Rightarrow> ''%'' @ s)"

section \<open>Addresses and networks of either family\<close>

datatype ip_addr = V4 "32 word" | V6 "128 word" "string option"

datatype ip_net = Net4 "32 word" nat | Net6 "128 word" "string option" nat

definition ip_address :: "string \<Rightarrow> ip_addr option" where
  "ip_address s =
     (case parse_v4 s of
        Some w \<Rightarrow> Some (V4 w)
      | None \<Rightarrow> map_option (\<lambda>(w, sc). V6 w sc) (parse_v6 s))"

fun show_addr :: "ip_addr \<Rightarrow> string" where
  "show_addr (V4 w) = show_v4 w"
| "show_addr (V6 w sc) = show_v6 w sc"

fun addr_version :: "ip_addr \<Rightarrow> nat" where
  "addr_version (V4 w) = 4"
| "addr_version (V6 w sc) = 6"

fun net_version :: "ip_net \<Rightarrow> nat" where
  "net_version (Net4 n p) = 4"
| "net_version (Net6 n sc p) = 6"

definition prefix_of_string :: "nat \<Rightarrow> string \<Rightarrow> nat option" where
  "prefix_of_string maxlen s =
     (if s = [] \<or> \<not> list_all is_digit s then None
      else if maxlen < digits_val s then None
      else Some (digits_val s))"

text \<open>\<open>_prefix_from_ip_int\<close>: the prefix length whose netmask the address is.\<close>

definition prefix_of_mask :: "32 word \<Rightarrow> nat option" where
  "prefix_of_mask w = find (\<lambda>p. netmask p = w) [0 ..< 33]"

definition make_netmask4 :: "string \<Rightarrow> nat option" where
  "make_netmask4 s =
     (case prefix_of_string 32 s of
        Some p \<Rightarrow> Some p
      | None \<Rightarrow>
          (case parse_v4 s of
             None \<Rightarrow> None
           | Some w \<Rightarrow> (case prefix_of_mask w of
                          Some p \<Rightarrow> Some p
                        | None \<Rightarrow> prefix_of_mask (NOT w))))"

definition split_prefix :: "string \<Rightarrow> (string \<times> string option) option" where
  "split_prefix s =
     (case split_on (CHR ''/'') s of
        [a] \<Rightarrow> Some (a, None)
      | [a, m] \<Rightarrow> Some (a, Some m)
      | _ \<Rightarrow> None)"

definition network4 :: "bool \<Rightarrow> string \<Rightarrow> ip_net option" where
  "network4 strict s =
     (case split_prefix s of
        None \<Rightarrow> None
      | Some (a, m) \<Rightarrow>
          (case (parse_v4 a, case m of None \<Rightarrow> Some 32 | Some m \<Rightarrow> make_netmask4 m) of
             (Some w, Some p) \<Rightarrow>
               if w AND netmask p \<noteq> w
               then if strict then None else Some (Net4 (w AND netmask p) p)
               else Some (Net4 w p)
           | _ \<Rightarrow> None))"

definition network6 :: "bool \<Rightarrow> string \<Rightarrow> ip_net option" where
  "network6 strict s =
     (case split_prefix s of
        None \<Rightarrow> None
      | Some (a, m) \<Rightarrow>
          (case (parse_v6 a, case m of None \<Rightarrow> Some 128 | Some m \<Rightarrow> prefix_of_string 128 m) of
             (Some (w, sc), Some p) \<Rightarrow>
               if w AND netmask p \<noteq> w
               then if strict then None else Some (Net6 (w AND netmask p) None p)
               else Some (Net6 w sc p)
           | _ \<Rightarrow> None))"

text \<open>
  \<open>ip_network(s, strict=...)\<close>: an IPv4 text with host bits is a \<open>ValueError\<close> of the IPv4
  constructor itself, not a reason to try IPv6; no text is both.
\<close>

definition ip_network :: "bool \<Rightarrow> string \<Rightarrow> ip_net option" where
  "ip_network strict s =
     (case network4 strict s of Some n \<Rightarrow> Some n | None \<Rightarrow> network6 strict s)"

fun show_net :: "ip_net \<Rightarrow> string" where
  "show_net (Net4 n p) = show_v4 n @ ''/'' @ show_nat p"
| "show_net (Net6 n sc p) = show_v6 n sc @ ''/'' @ show_nat p"

fun num_addresses :: "ip_net \<Rightarrow> int" where
  "num_addresses (Net4 n p) = uint (broadcast n p) - uint n + 1"
| "num_addresses (Net6 n sc p) = uint (broadcast n p) - uint n + 1"

fun addr_in_net :: "ip_addr \<Rightarrow> ip_net \<Rightarrow> bool" where
  "addr_in_net (V4 x) (Net4 n p) = addr_in x n p"
| "addr_in_net (V6 x sc) (Net6 n sc' p) = addr_in x n p"
| "addr_in_net _ _ = False"

text \<open>
  \<open>a.subnet_of(b)\<close> for networks of one family. The comparison of the network addresses is
  \<open>functools.total_ordering\<close>'s: smaller or equal, where IPv6 equality includes the scope.
\<close>

fun subnet_of :: "ip_net \<Rightarrow> ip_net \<Rightarrow> bool" where
  "subnet_of (Net4 n p) (Net4 m q) = (m \<le> n \<and> broadcast n p \<le> broadcast m q)"
| "subnet_of (Net6 n sc p) (Net6 m sc' q) =
     ((m < n \<or> m = n \<and> sc' = sc) \<and> broadcast n p \<le> broadcast m q)"
| "subnet_of _ _ = False"

fun valid_net :: "ip_net \<Rightarrow> bool" where
  "valid_net (Net4 n p) = net_ok n p"
| "valid_net (Net6 n sc p) = net_ok n p"

section \<open>Validity and containment\<close>

lemma and_netmask_ok: "p \<le> LENGTH('a) \<Longrightarrow> net_ok ((w :: 'a::len word) AND netmask p) p"
  by (simp add: net_ok_def and.assoc)

lemma and_netmask_ok': "p \<le> LENGTH('a) \<Longrightarrow> (w :: 'a::len word) AND netmask p = w \<Longrightarrow> net_ok w p"
  by (simp add: net_ok_def)

lemma prefix_of_string_le: "prefix_of_string m s = Some p \<Longrightarrow> p \<le> m"
  by (auto simp: prefix_of_string_def split: if_splits)

lemma prefix_of_mask_le: "prefix_of_mask w = Some p \<Longrightarrow> p \<le> 32"
  by (auto simp: prefix_of_mask_def find_Some_iff)

lemma make_netmask4_le: "make_netmask4 s = Some p \<Longrightarrow> p \<le> 32"
  by (auto simp: make_netmask4_def dest: prefix_of_string_le prefix_of_mask_le split: option.splits)

lemma network4_valid: "network4 strict s = Some n \<Longrightarrow> valid_net n"
  using make_netmask4_le
  by (simp add: network4_def split: option.splits prod.splits if_splits)
     (fastforce intro: and_netmask_ok and_netmask_ok')+

lemma network6_valid: "network6 strict s = Some n \<Longrightarrow> valid_net n"
  using prefix_of_string_le [of 128]
  by (simp add: network6_def split: option.splits prod.splits if_splits)
     (fastforce intro: and_netmask_ok and_netmask_ok')+

lemma ip_network_valid: "ip_network strict s = Some n \<Longrightarrow> valid_net n"
  by (auto simp: ip_network_def dest: network4_valid network6_valid split: option.splits)

text \<open>
  The contract of an address family: comparing networks is comparing the sets of their
  addresses. Both families are instances, and what a boundary check means follows from it.
\<close>

locale address_family =
  fixes member :: "'x \<Rightarrow> 'n \<Rightarrow> bool" and within :: "'n \<Rightarrow> 'n \<Rightarrow> bool" and valid :: "'n \<Rightarrow> bool"
  assumes within_subset: "valid n \<Longrightarrow> valid m \<Longrightarrow> within n m \<longleftrightarrow> {x. member x n} \<subseteq> {x. member x m}"
begin

lemma within_member: "valid n \<Longrightarrow> valid m \<Longrightarrow> within n m \<Longrightarrow> member x n \<Longrightarrow> member x m"
  using within_subset by blast

lemma within_refl: "valid n \<Longrightarrow> within n n"
  by (simp add: within_subset)

lemma within_trans:
  "valid n \<Longrightarrow> valid m \<Longrightarrow> valid k \<Longrightarrow> within n m \<Longrightarrow> within m k \<Longrightarrow> within n k"
  by (simp add: within_subset)

end

definition member_of :: "'a::len word \<Rightarrow> 'a word \<times> nat \<Rightarrow> bool" where
  "member_of x n = addr_in x (fst n) (snd n)"

definition range_within :: "'a::len word \<times> nat \<Rightarrow> 'a word \<times> nat \<Rightarrow> bool" where
  "range_within n m = (fst m \<le> fst n \<and> broadcast (fst n) (snd n) \<le> broadcast (fst m) (snd m))"

definition valid_range :: "'a::len word \<times> nat \<Rightarrow> bool" where
  "valid_range n = net_ok (fst n) (snd n)"

lemma range_within_subset:
  "valid_range n \<Longrightarrow> valid_range m \<Longrightarrow>
   range_within n m \<longleftrightarrow> {x. member_of x n} \<subseteq> {x. member_of x m}"
  unfolding valid_range_def range_within_def member_of_def by (rule ends_iff_subset)

interpretation v4: address_family "member_of :: 32 word \<Rightarrow> _" range_within valid_range
  by unfold_locales (rule range_within_subset)

interpretation v6: address_family "member_of :: 128 word \<Rightarrow> _" range_within valid_range
  by unfold_locales (rule range_within_subset)

lemma subnet_of_member:
  assumes "subnet_of t a" "valid_net t" "valid_net a" "addr_in_net x t"
  shows "addr_in_net x a"
  using assms
proof (induction t a rule: subnet_of.induct)
  case (1 n p m q)
  then obtain w where "x = V4 w" by (cases x) auto
  with 1 show ?case
    using v4.within_member [of "(n, p)" "(m, q)" w]
    by (simp add: member_of_def range_within_def valid_range_def)
next
  case (2 n sc p m sc' q)
  then obtain w s where "x = V6 w s" by (cases x) auto
  with 2 show ?case
    using v6.within_member [of "(n, p)" "(m, q)" w]
    by (auto simp: member_of_def range_within_def valid_range_def)
qed auto

lemma range_size:
  fixes n :: "'a::len word"
  assumes "net_ok n p"
  shows "uint (broadcast n p) - uint n + 1 = 2 ^ (LENGTH('a) - p)"
proof -
  have "unat (broadcast n p) = unat n + (2 ^ (LENGTH('a) - p) - 1)"
    unfolding broadcast_def hostmask_def using assms
    by (intro unat_or_mask) (simp_all add: net_ok_def netmask_def hostmask_def)
  then have "int (unat (broadcast n p)) = int (unat n) + (2 ^ (LENGTH('a) - p) - 1)"
    by (simp only: of_nat_add of_nat_diff one_le_power one_le_numeral of_nat_power of_nat_numeral of_nat_1)
  then show ?thesis by (simp only: uint_nat)
qed

lemma num_addresses_pow:
  "valid_net n \<Longrightarrow>
   num_addresses n = (case n of Net4 a p \<Rightarrow> 2 ^ (32 - p) | Net6 a sc p \<Rightarrow> 2 ^ (128 - p))"
  by (cases n) (simp_all add: range_size del: uint_nat)

lemma split_prefix_show:
  "CHR ''/'' \<notin> set a \<Longrightarrow> split_prefix (a @ ''/'' @ show_nat p) = Some (a, Some (show_nat p))"
  by (simp add: split_prefix_def split_on_append split_on_no_sep show_nat_free)

lemma show_v4_free: "CHR ''/'' \<notin> set (show_v4 w)" "CHR '':'' \<notin> set (show_v4 w)"
  by (simp_all add: show_v4_def octets_of_def Let_def show_nat_free)

lemma prefix_of_string_show: "p \<le> m \<Longrightarrow> prefix_of_string m (show_nat p) = Some p"
  using show_nat_digits by (auto simp: prefix_of_string_def list_all_iff)

text \<open>Printing an IPv4 network and reading it back strictly gives the network.\<close>

lemma ip_network_show_net4:
  assumes "net_ok n p"
  shows "ip_network strict (show_net (Net4 n p)) = Some (Net4 n p)"
  using assms split_prefix_show [OF show_v4_free(1), of n p]
  by (simp add: ip_network_def network4_def make_netmask4_def prefix_of_string_show net_ok_def)

lemma ip_address_show_v4: "ip_address (show_v4 w) = Some (V4 w)"
  by (simp add: ip_address_def)

section \<open>Global reachability\<close>

definition private4 :: "(32 word \<times> nat) list" where
  "private4 =
    [(0x0, 8), (0xA000000, 8), (0x7F000000, 8), (0xA9FE0000, 16), (0xAC100000, 12), 
     (0xC0000000, 24), (0xC00000AA, 31), (0xC0000200, 24), (0xC0A80000, 16), 
     (0xC6120000, 15), (0xC6336400, 24), (0xCB007100, 24), (0xF0000000, 4), 
     (0xFFFFFFFF, 32)]"

definition private4_exceptions :: "(32 word \<times> nat) list" where
  "private4_exceptions = [(0xC0000009, 32), (0xC000000A, 32)]"

definition private6 :: "(128 word \<times> nat) list" where
  "private6 =
    [(0x1, 128), (0x0, 128), (0xFFFF00000000, 96), (0x64FF9B000100000000000000000000, 48), 
     (0x1000000000000000000000000000000, 64), (0x20010000000000000000000000000000, 23), 
     (0x20010DB8000000000000000000000000, 32), (0x20020000000000000000000000000000, 16), 
     (0x3FFF0000000000000000000000000000, 20),
     (0xFC000000000000000000000000000000, 7), (0xFE800000000000000000000000000000, 10)]"

definition private6_exceptions :: "(128 word \<times> nat) list" where
  "private6_exceptions =
    [(0x20010001000000000000000000000001, 128), (0x20010001000000000000000000000002, 128), 
     (0x20010003000000000000000000000000, 32), (0x20010004011200000000000000000000, 48), 
     (0x20010020000000000000000000000000, 28), (0x20010030000000000000000000000000, 28)]"

definition listed :: "'a::len word \<Rightarrow> ('a word \<times> nat) list \<Rightarrow> bool" where
  "listed x ns = list_ex (\<lambda>(n, p). addr_in x n p) ns"

definition is_private4 :: "32 word \<Rightarrow> bool" where
  "is_private4 w = (listed w private4 \<and> \<not> listed w private4_exceptions)"

fun is_global :: "ip_addr \<Rightarrow> bool" where
  "is_global (V4 w) = (\<not> addr_in w 0x64400000 10 \<and> \<not> is_private4 w)"
| "is_global (V6 w sc) =
     (if drop_bit 32 w = 0xFFFF then \<not> is_private4 (ucast w)
      else \<not> (listed w private6 \<and> \<not> listed w private6_exceptions))"

end
