(* ===== verification/Config.thy ===== *)
theory Config
  imports NetAddr
begin

text \<open>
  \<open>app/core/config.py\<close>: the settings the modelled components read, with their defaults,
  and the validation a process must pass before it starts. Limits declared with
  \<open>Field(ge=..., le=...)\<close> are \<open>field_limits_ok\<close>.
\<close>

record settings =
  ENVIRONMENT :: string
  SECRET_KEY :: string
  JWT_SECRET :: string
  ENCRYPTION_KEY :: string
  JWT_ALGORITHM :: string
  JWT_ISSUER :: string
  JWT_AUDIENCE :: string
  JWT_ACCESS_TTL_MIN :: int
  JWT_REFRESH_TTL_DAYS :: int
  PASSWORD_MIN_LEN :: int
  MAX_LOGIN_ATTEMPTS :: int
  LOCKOUT_DURATION_MIN :: int
  SESSION_TIMEOUT_MIN :: int
  TRUSTED_PROXY_CIDRS :: "string list"
  MANAGEMENT_CIDRS :: "string list"
  ALLOW_INSECURE_CONNECTORS :: bool
  CONNECTOR_ALLOWED_CIDRS :: "string list"
  SCAN_NETWORKS :: "string list"
  MAX_SCAN_HOSTS :: int
  RETENTION_DELETE_ENABLED :: bool
  AUDIT_LOG_RETENTION_DAYS :: int
  AUDIT_LOG_ARCHIVE_DAYS :: int
  INACTIVE_ASSET_DAYS :: int
  INACTIVE_USER_FLAG_DAYS :: int

definition default_settings :: "string \<Rightarrow> string \<Rightarrow> string \<Rightarrow> settings" where
  "default_settings secret jwt enc = \<lparr>
     ENVIRONMENT = ''production'', SECRET_KEY = secret, JWT_SECRET = jwt, ENCRYPTION_KEY = enc,
     JWT_ALGORITHM = ''HS256'', JWT_ISSUER = ''kepryx'', JWT_AUDIENCE = ''kepryx-api'',
     JWT_ACCESS_TTL_MIN = 30, JWT_REFRESH_TTL_DAYS = 7, PASSWORD_MIN_LEN = 14,
     MAX_LOGIN_ATTEMPTS = 5, LOCKOUT_DURATION_MIN = 15, SESSION_TIMEOUT_MIN = 30,
     TRUSTED_PROXY_CIDRS = [''127.0.0.1/32'', ''::1/128''],
     MANAGEMENT_CIDRS = [''127.0.0.1/32'', ''::1/128'', ''172.29.0.0/24''],
     ALLOW_INSECURE_CONNECTORS = False, CONNECTOR_ALLOWED_CIDRS = [],
     SCAN_NETWORKS = [], MAX_SCAN_HOSTS = 4096,
     RETENTION_DELETE_ENABLED = False, AUDIT_LOG_RETENTION_DAYS = 2555,
     AUDIT_LOG_ARCHIVE_DAYS = 365, INACTIVE_ASSET_DAYS = 90, INACTIVE_USER_FLAG_DAYS = 365 \<rparr>"

definition field_limits_ok :: "settings \<Rightarrow> bool" where
  "field_limits_ok s =
     (1 \<le> MAX_SCAN_HOSTS s \<and> MAX_SCAN_HOSTS s \<le> 1048576
      \<and> 1 \<le> AUDIT_LOG_RETENTION_DAYS s \<and> 1 \<le> AUDIT_LOG_ARCHIVE_DAYS s
      \<and> 1 \<le> INACTIVE_ASSET_DAYS s \<and> 1 \<le> INACTIVE_USER_FLAG_DAYS s)"

text \<open>Rendering of a list of names inside an f-string.\<close>

definition repr_names :: "string list \<Rightarrow> string" where
  "repr_names ns = ''['' @ join '', '' (map (\<lambda>n. CHR 0x27 # n @ [CHR 0x27]) ns) @ '']''"

fun check_cidrs :: "string \<Rightarrow> string list \<Rightarrow> unit result" where
  "check_cidrs field [] = Inr ()"
| "check_cidrs field (c # cs) =
     (case ip_network False c of
        None \<Rightarrow> Inl (ValueError (field @ '' contains an invalid CIDR: '' @ c))
      | Some n \<Rightarrow> check_cidrs field cs)"

definition validate_security_settings :: "settings \<Rightarrow> settings result" where
  "validate_security_settings s =
     (if AUDIT_LOG_RETENTION_DAYS s \<le> AUDIT_LOG_ARCHIVE_DAYS s
      then Inl (ValueError ''AUDIT_LOG_ARCHIVE_DAYS must be less than retention days'')
      else
        let values = [(''SECRET_KEY'', SECRET_KEY s), (''JWT_SECRET'', JWT_SECRET s),
                      (''ENCRYPTION_KEY'', ENCRYPTION_KEY s)];
            weak = map fst (filter (\<lambda>(name, v). length v < 32) values)
        in if lower (ENVIRONMENT s) = ''production'' \<and> weak \<noteq> []
           then Inl (ValueError (''Production security keys must be at least 32 characters: ''
                                 @ repr_names weak))
           else if lower (ENVIRONMENT s) = ''production'' \<and> length (remdups (map snd values)) \<noteq> length values
           then Inl (ValueError ''SECRET_KEY, JWT_SECRET, and ENCRYPTION_KEY must be distinct'')
           else if lower (ENVIRONMENT s) = ''production'' \<and> JWT_ALGORITHM s \<noteq> ''HS256''
           then Inl (ValueError ''Production currently supports JWT_ALGORITHM=HS256 only'')
           else rbind (check_cidrs ''TRUSTED_PROXY_CIDRS'' (TRUSTED_PROXY_CIDRS s))
             (\<lambda>_. rbind (check_cidrs ''MANAGEMENT_CIDRS'' (MANAGEMENT_CIDRS s))
             (\<lambda>_. rbind (check_cidrs ''CONNECTOR_ALLOWED_CIDRS'' (CONNECTOR_ALLOWED_CIDRS s))
             (\<lambda>_. rbind (check_cidrs ''SCAN_NETWORKS'' (SCAN_NETWORKS s)) (\<lambda>_. Inr s)))))"

definition cidrs_ok :: "string list \<Rightarrow> bool" where
  "cidrs_ok cs = list_all (\<lambda>c. ip_network False c \<noteq> None) cs"

lemma check_cidrs_iff: "check_cidrs f cs = Inr u \<longleftrightarrow> cidrs_ok cs"
  by (induction cs) (auto simp: cidrs_ok_def split: option.splits)

lemma check_cidrs_ok: "cidrs_ok cs \<Longrightarrow> check_cidrs f cs = Inr ()"
  by (simp add: check_cidrs_iff)

text \<open>
  A configuration is accepted exactly when the audit archive horizon lies before
  deletion, every network list holds valid CIDRs only, and, in production, the three keys
  have 32 characters, are pairwise distinct and the token algorithm is HS256. An accepted
  configuration is not changed.
\<close>

theorem validate_security_settings_iff:
  "(\<exists>s'. validate_security_settings s = Inr s' \<and> s' = s) \<longleftrightarrow>
   AUDIT_LOG_ARCHIVE_DAYS s < AUDIT_LOG_RETENTION_DAYS s
   \<and> cidrs_ok (TRUSTED_PROXY_CIDRS s) \<and> cidrs_ok (MANAGEMENT_CIDRS s)
   \<and> cidrs_ok (CONNECTOR_ALLOWED_CIDRS s) \<and> cidrs_ok (SCAN_NETWORKS s)
   \<and> (if lower (ENVIRONMENT s) = ''production'' then
      32 \<le> length (SECRET_KEY s) \<and> 32 \<le> length (JWT_SECRET s) \<and> 32 \<le> length (ENCRYPTION_KEY s)
      \<and> SECRET_KEY s \<noteq> JWT_SECRET s \<and> SECRET_KEY s \<noteq> ENCRYPTION_KEY s
      \<and> JWT_SECRET s \<noteq> ENCRYPTION_KEY s \<and> JWT_ALGORITHM s = ''HS256'' else True)"
  unfolding validate_security_settings_def Let_def
  by (auto simp: check_cidrs_ok rbind_eq_Inr check_cidrs_iff not_less not_le split: if_splits)

end
