(* ===== verification/NetPolicy.thy ===== *)
theory NetPolicy
  imports Config "HOL-Library.List_Lexorder" "HOL-Library.Char_ord"
begin

text \<open>
  The network boundaries: \<open>app/core/network_policy.py\<close>, \<open>app/core/scan_authorization.py\<close>,
  \<open>get_request_ip\<close> of \<open>app/core/rate_limit.py\<close>, \<open>ensure_management_network\<close> of
  \<open>app/api/deps.py\<close> and the request body of \<open>POST /scans/networks\<close>.
\<close>

section \<open>Searching a list of networks\<close>

text \<open>
  The loop all boundary checks share: values are parsed one after another and the search
  stops at the first network that fits. \<open>None\<close> is a \<open>ValueError\<close> met on the way.
\<close>

fun any_network :: "(ip_net \<Rightarrow> bool) \<Rightarrow> string list \<Rightarrow> bool option" where
  "any_network fits [] = Some False"
| "any_network fits (v # vs) =
     (case ip_network False v of
        None \<Rightarrow> None
      | Some n \<Rightarrow> if fits n then Some True else any_network fits vs)"

lemma any_network_TrueD:
  "any_network fits vs = Some True \<Longrightarrow> \<exists>v\<in>set vs. \<exists>n. ip_network False v = Some n \<and> valid_net n \<and> fits n"
  by (induction vs) (auto dest: ip_network_valid split: option.splits if_splits)

lemma any_network_False:
  "any_network fits vs = Some False \<longleftrightarrow>
   (\<forall>v\<in>set vs. \<exists>n. ip_network False v = Some n \<and> \<not> fits n)"
  by (induction vs) (auto split: option.splits)

lemma any_network_ok:
  "cidrs_ok vs \<Longrightarrow>
   any_network fits vs = Some (\<exists>v\<in>set vs. \<exists>n. ip_network False v = Some n \<and> fits n)"
  by (induction vs) (auto simp: cidrs_ok_def)

section \<open>Outbound destinations\<close>

definition is_public_ip :: "ip_addr \<Rightarrow> bool" where
  "is_public_ip a = is_global a"

section \<open>Scan authorization\<close>

definition normalize_scan_network :: "string \<Rightarrow> string result" where
  "normalize_scan_network cidr =
     (case ip_network False cidr of
        None \<Rightarrow> Inl (ScanAuthorizationError ''invalid scan CIDR'')
      | Some n \<Rightarrow> Inr (show_net n))"

definition authorize_scan_network :: "settings \<Rightarrow> string \<Rightarrow> string list option \<Rightarrow> int option \<Rightarrow> string result" where
  "authorize_scan_network cfg cidr allowed_cidrs max_hosts =
     rbind (normalize_scan_network cidr) (\<lambda>canonical.
       case ip_network True canonical of
         None \<Rightarrow> Inl (ValueError canonical)
       | Some target \<Rightarrow>
           let allowed_values = (case allowed_cidrs of None \<Rightarrow> SCAN_NETWORKS cfg | Some vs \<Rightarrow> vs);
               host_limit = (case max_hosts of None \<Rightarrow> MAX_SCAN_HOSTS cfg | Some n \<Rightarrow> n)
           in if host_limit < num_addresses target
              then Inl (ScanAuthorizationError (''scan target contains '' @ show_int (num_addresses target)
                     @ '' addresses; limit is '' @ show_int host_limit))
              else if allowed_values = []
              then Inl (ScanAuthorizationError ''network scanning is disabled; SCAN_NETWORKS is empty'')
              else case any_network (subnet_of target) allowed_values of
                None \<Rightarrow> Inl (ScanAuthorizationError ''SCAN_NETWORKS contains an invalid CIDR'')
              | Some True \<Rightarrow> Inr (show_net target)
              | Some False \<Rightarrow> Inl (ScanAuthorizationError
                  ''scan target is outside the authorized SCAN_NETWORKS boundary''))"

definition authorize_scan_host :: "settings \<Rightarrow> string \<Rightarrow> string list option \<Rightarrow> string result" where
  "authorize_scan_host cfg target allowed_cidrs =
     (case ip_address target of
        None \<Rightarrow> Inl (ScanAuthorizationError ''service scan target must be a single IP address'')
      | Some host \<Rightarrow>
          let allowed_values = (case allowed_cidrs of None \<Rightarrow> SCAN_NETWORKS cfg | Some vs \<Rightarrow> vs)
          in if allowed_values = []
             then Inl (ScanAuthorizationError ''network scanning is disabled; SCAN_NETWORKS is empty'')
             else case any_network (\<lambda>n. addr_version host = net_version n \<and> addr_in_net host n)
                         allowed_values of
               None \<Rightarrow> Inl (ScanAuthorizationError ''SCAN_NETWORKS contains an invalid CIDR'')
             | Some True \<Rightarrow> Inr (show_addr host)
             | Some False \<Rightarrow> Inl (ScanAuthorizationError ''service scan target is outside SCAN_NETWORKS''))"

text \<open>\<open>_is_authorized_network\<close> of \<open>app/api/scans.py\<close>; only the authorization error is caught.\<close>

definition is_authorized_network :: "settings \<Rightarrow> string \<Rightarrow> bool result" where
  "is_authorized_network cfg cidr =
     (case authorize_scan_network cfg cidr None None of
        Inr s \<Rightarrow> Inr True
      | Inl (ScanAuthorizationError m) \<Rightarrow> Inr False
      | Inl e \<Rightarrow> Inl e)"

section \<open>The body of a new scan network\<close>

record scan_network_create =
  snc_cidr :: string
  snc_name :: string
  snc_scan_type :: string
  snc_excluded_ips :: "string list"

definition validate_cidr :: "string \<Rightarrow> string result" where
  "validate_cidr value =
     (case ip_network False value of
        None \<Rightarrow> Inl (ValueError ''invalid scan CIDR'')
      | Some n \<Rightarrow> Inr (show_net n))"

fun normalize_exclusions :: "ip_net \<Rightarrow> string list \<Rightarrow> string list result" where
  "normalize_exclusions network [] = Inr []"
| "normalize_exclusions network (v # vs) =
     (case ip_address v of
        None \<Rightarrow> Inl (ValueError ''excluded_ips must contain IP addresses'')
      | Some a \<Rightarrow>
          if addr_version a \<noteq> net_version network \<or> \<not> addr_in_net a network
          then Inl (ValueError ''excluded IP must belong to the scan CIDR'')
          else rbind (normalize_exclusions network vs) (\<lambda>ns. Inr (show_addr a # ns)))"

definition validate_exclusions :: "scan_network_create \<Rightarrow> scan_network_create result" where
  "validate_exclusions b =
     (case ip_network True (snc_cidr b) of
        None \<Rightarrow> Inl (ValueError (snc_cidr b))
      | Some network \<Rightarrow> rbind (normalize_exclusions network (snc_excluded_ips b))
          (\<lambda>ns. Inr (b\<lparr>snc_excluded_ips := sort (remdups ns)\<rparr>)))"

text \<open>The field limits, then the field validator of \<open>cidr\<close>, then the model validator.\<close>

definition parse_scan_network_create :: "string \<Rightarrow> string \<Rightarrow> string \<Rightarrow> string list \<Rightarrow> scan_network_create result" where
  "parse_scan_network_create cidr name scan_type excluded =
     (if length name < 1 \<or> 128 < length name then Inl (ValueError ''name'')
      else if scan_type \<noteq> ''discovery'' then Inl (ValueError ''scan_type'')
      else if 4096 < length excluded then Inl (ValueError ''excluded_ips'')
      else rbind (validate_cidr cidr) (\<lambda>c.
        validate_exclusions \<lparr> snc_cidr = c, snc_name = name, snc_scan_type = scan_type,
                              snc_excluded_ips = excluded \<rparr>))"

section \<open>The client address of a request\<close>

record http_request =
  rq_client_host :: "string option"
  rq_x_real_ip :: "string option"
  rq_x_forwarded_for :: "string option"
  rq_user_agent :: "string option"

definition get_request_ip :: "settings \<Rightarrow> http_request \<Rightarrow> string" where
  "get_request_ip cfg rq =
     (let peer = (case rq_client_host rq of None \<Rightarrow> ''unknown'' | Some h \<Rightarrow> h)
      in case str_or (rq_x_real_ip rq) (rq_x_forwarded_for rq) of
           None \<Rightarrow> peer
         | Some forwarded \<Rightarrow>
             if forwarded = [] \<or> peer = ''unknown'' then peer
             else
               let peer_addr = ip_address peer;
                   trusted = (if TRUSTED_PROXY_CIDRS cfg = [] then Some False
                              else case peer_addr of
                                None \<Rightarrow> None
                              | Some a \<Rightarrow> any_network (addr_in_net a) (TRUSTED_PROXY_CIDRS cfg))
               in case trusted of
                    None \<Rightarrow> peer
                  | Some False \<Rightarrow> peer
                  | Some True \<Rightarrow>
                      (case ip_address (strip (hd (split_on (CHR '','') forwarded))) of
                         None \<Rightarrow> peer
                       | Some a \<Rightarrow> show_addr a))"

definition ensure_management_network :: "settings \<Rightarrow> http_request \<Rightarrow> unit result" where
  "ensure_management_network cfg rq =
     (case ip_address (get_request_ip cfg rq) of
        None \<Rightarrow> Inl (HTTPException 403 ''Management network access required'')
      | Some a \<Rightarrow>
          (case any_network (\<lambda>n. addr_version a = net_version n \<and> addr_in_net a n)
                  (MANAGEMENT_CIDRS cfg) of
             None \<Rightarrow> Inl (HTTPException 503 ''Management network policy unavailable'')
           | Some True \<Rightarrow> Inr ()
           | Some False \<Rightarrow> Inl (HTTPException 403 ''Management network access required'')))"

section \<open>What the boundaries guarantee\<close>

text \<open>All addresses of one network are addresses of the other.\<close>

definition covered_by :: "ip_net \<Rightarrow> ip_net \<Rightarrow> bool" where
  "covered_by t a = ({x. addr_in_net x t} \<subseteq> {x. addr_in_net x a})"

lemma subnet_of_covered: "valid_net t \<Longrightarrow> valid_net a \<Longrightarrow> subnet_of t a \<Longrightarrow> covered_by t a"
  using subnet_of_member by (auto simp: covered_by_def)

lemma covered_by_net4:
  assumes "net_ok n p" "valid_net a"
  shows "covered_by (Net4 n p) a \<longleftrightarrow> subnet_of (Net4 n p) a"
proof
  assume cov: "covered_by (Net4 n p) a"
  have "addr_in_net (V4 n) a"
    using cov net_addr_in [OF assms(1)] unfolding covered_by_def
    by (metis addr_in_net.simps(1) mem_Collect_eq subsetD)
  then obtain m q where a: "a = Net4 m q" by (cases a) auto
  have "{x. addr_in x n p} \<subseteq> {x. addr_in x m q}"
  proof
    fix x assume "x \<in> {x. addr_in x n p}"
    then have "addr_in_net (V4 x) a" using cov unfolding covered_by_def
      by (metis addr_in_net.simps(1) mem_Collect_eq subsetD)
    then show "x \<in> {x. addr_in x m q}" by (simp add: a)
  qed
  then show "subnet_of (Net4 n p) a"
    using ends_iff_subset [OF assms(1), of m q] assms(2) by (simp add: a)
qed (use assms subnet_of_covered in auto)

lemma any_network_subnet4:
  assumes "net_ok n p" "cidrs_ok vs"
  shows "any_network (subnet_of (Net4 n p)) vs
    = Some (\<exists>v\<in>set vs. \<exists>a. ip_network False v = Some a \<and> covered_by (Net4 n p) a)"
  using covered_by_net4 [OF assms(1)] ip_network_valid
  by (simp add: any_network_ok [OF assms(2)]) (metis option.inject)

lemma authorize_scan_network_within:
  assumes "authorize_scan_network cfg cidr allowed limit = Inr s"
  shows "\<exists>target a. s = show_net target
    \<and> num_addresses target \<le> (case limit of None \<Rightarrow> MAX_SCAN_HOSTS cfg | Some n \<Rightarrow> n)
    \<and> (\<exists>v\<in>set (case allowed of None \<Rightarrow> SCAN_NETWORKS cfg | Some vs \<Rightarrow> vs). ip_network False v = Some a)
    \<and> covered_by target a"
proof -
  define vs where "vs = (case allowed of None \<Rightarrow> SCAN_NETWORKS cfg | Some vs \<Rightarrow> vs)"
  define lim where "lim = (case limit of None \<Rightarrow> MAX_SCAN_HOSTS cfg | Some n \<Rightarrow> n)"
  note A = assms [unfolded authorize_scan_network_def Let_def, folded vs_def lim_def]
  from A obtain canonical where c: "normalize_scan_network cidr = Inr canonical"
    by (auto simp: rbind_eq_Inr)
  from A c obtain target where t1: "ip_network True canonical = Some target"
    by (cases "ip_network True canonical") auto
  from A c t1 have t: "ip_network True canonical = Some target" "s = show_net target"
       "num_addresses target \<le> lim" "any_network (subnet_of target) vs = Some True"
    by (auto split: option.split_asm if_split_asm bool.split_asm)
  from any_network_TrueD [OF t(4)] obtain v a where
    a: "v \<in> set vs" "ip_network False v = Some a" "valid_net a" "subnet_of target a" by blast
  have "covered_by target a"
    using subnet_of_covered [OF ip_network_valid [OF t(1)] a(3,4)] .
  then show ?thesis using t a unfolding vs_def lim_def by blast
qed

text \<open>
  C2: A scan target is authorized only inside the boundary: the network whose text is
  returned has at most the permitted number of addresses, and there is an approved range
  that contains every one of them. Without approved ranges nothing is authorized.
\<close>

theorem authorize_scan_network_contained:
  assumes "authorize_scan_network cfg cidr allowed limit = Inr s"
  shows "\<exists>target a. s = show_net target
    \<and> num_addresses target \<le> (case limit of None \<Rightarrow> MAX_SCAN_HOSTS cfg | Some n \<Rightarrow> n)
    \<and> (\<exists>v\<in>set (case allowed of None \<Rightarrow> SCAN_NETWORKS cfg | Some vs \<Rightarrow> vs). ip_network False v = Some a)
    \<and> covered_by target a"
  using assms by (rule authorize_scan_network_within)

definition lab_settings :: settings where
  "lab_settings = (default_settings [] [] [])\<lparr>SCAN_NETWORKS := [''10.0.0.0/8'']\<rparr>"

theorem authorize_scan_network_contained_witness:
  "\<exists>target a. ''10.1.2.0/24'' = show_net target
    \<and> num_addresses target \<le> 4096
    \<and> (\<exists>v\<in>set [''10.0.0.0/8'']. ip_network False v = Some a)
    \<and> covered_by target a"
proof -
  have "authorize_scan_network lab_settings ''10.1.2.7/24'' None None = Inr ''10.1.2.0/24''"
    by code_simp
  from authorize_scan_network_contained [OF this] show ?thesis
    by (simp add: lab_settings_def default_settings_def)
qed

text \<open>
  For an IPv4 target and well-formed approved ranges the outcome is exact: too large,
  disabled, the text of the canonical network when one approved range contains all its
  addresses, or outside the boundary, in this order.
\<close>

theorem authorize_scan_network_exact:
  assumes "ip_network False cidr = Some (Net4 n p)" and "cidrs_ok vs"
  shows "authorize_scan_network cfg cidr (Some vs) (Some lim) =
    (if lim < 2 ^ (32 - p)
     then Inl (ScanAuthorizationError (''scan target contains '' @ show_int (2 ^ (32 - p))
            @ '' addresses; limit is '' @ show_int lim))
     else if vs = []
     then Inl (ScanAuthorizationError ''network scanning is disabled; SCAN_NETWORKS is empty'')
     else if \<exists>v\<in>set vs. \<exists>a. ip_network False v = Some a \<and> covered_by (Net4 n p) a
     then Inr (show_net (Net4 n p))
     else Inl (ScanAuthorizationError
                 ''scan target is outside the authorized SCAN_NETWORKS boundary''))"
proof -
  have ok: "net_ok n p" using ip_network_valid [OF assms(1)] by simp
  have num: "num_addresses (Net4 n p) = 2 ^ (32 - p)"
    using num_addresses_pow [of "Net4 n p"] ok by simp
  have c: "normalize_scan_network cidr = Inr (show_net (Net4 n p))"
    using assms(1) by (simp add: normalize_scan_network_def)
  show ?thesis
    unfolding authorize_scan_network_def c Let_def
    using any_network_subnet4 [OF ok assms(2)]
    by (cases "\<exists>v\<in>set vs. \<exists>a. ip_network False v = Some a \<and> covered_by (Net4 n p) a")
       (simp_all only: ip_network_show_net4 [OF ok] num rbind_simps option.case bool.case if_True
          if_False)
qed

theorem authorize_scan_network_exact_witness:
  "authorize_scan_network lab_settings ''10.1.2.7/24'' (Some []) (Some 4096) =
     Inl (ScanAuthorizationError ''network scanning is disabled; SCAN_NETWORKS is empty'')"
proof -
  have "ip_network False ''10.1.2.7/24'' = Some (Net4 0x0A010200 24)" by code_simp
  from authorize_scan_network_exact [OF this, of "[]" lab_settings 4096]
  show ?thesis by (simp add: cidrs_ok_def)
qed

text \<open>
  With well-formed approved ranges a single-host target is authorized exactly when it
  is an address of one of them; the returned text is that address.
\<close>

theorem authorize_scan_host_iff:
  assumes "cidrs_ok vs"
  shows "authorize_scan_host cfg target (Some vs) = Inr s \<longleftrightarrow>
    (\<exists>host v n. ip_address target = Some host \<and> s = show_addr host \<and> v \<in> set vs
       \<and> ip_network False v = Some n \<and> addr_in_net host n)"
proof -
  have ver: "addr_version h = net_version n \<and> addr_in_net h n \<longleftrightarrow> addr_in_net h n" for h n
    by (cases h; cases n) auto
  show ?thesis
    unfolding authorize_scan_host_def Let_def ver
    by (cases "ip_address target")
       (auto simp: any_network_ok [OF assms] split: bool.split)
qed

theorem authorize_scan_host_iff_witness:
  "\<exists>host v n. ip_address ''10.1.2.3'' = Some host \<and> ''10.1.2.3'' = show_addr host
     \<and> v \<in> set [''10.0.0.0/8''] \<and> ip_network False v = Some n \<and> addr_in_net host n"
proof -
  have "authorize_scan_host lab_settings ''10.1.2.3'' (Some [''10.0.0.0/8'']) = Inr ''10.1.2.3''"
    by code_simp
  moreover have "cidrs_ok [''10.0.0.0/8'']" by code_simp
  ultimately show ?thesis using authorize_scan_host_iff by blast
qed

text \<open>A peer is a trusted proxy when its address lies in a configured proxy network.\<close>

definition trusted_peer :: "settings \<Rightarrow> string \<Rightarrow> bool" where
  "trusted_peer cfg peer =
     (case ip_address peer of
        None \<Rightarrow> False
      | Some a \<Rightarrow> list_ex (\<lambda>v. case ip_network False v of None \<Rightarrow> False | Some n \<Rightarrow> addr_in_net a n)
                     (TRUSTED_PROXY_CIDRS cfg))"

lemma any_network_trusted:
  "ip_address peer = Some a \<Longrightarrow> any_network (addr_in_net a) (TRUSTED_PROXY_CIDRS cfg) = Some True
    \<Longrightarrow> trusted_peer cfg peer"
  by (drule any_network_TrueD) (force simp: trusted_peer_def list_ex_iff)

lemma get_request_ip_untrusted:
  "\<not> trusted_peer cfg peer \<Longrightarrow> rq_client_host rq = Some peer \<Longrightarrow> get_request_ip cfg rq = peer"
  using any_network_trusted
  by (auto simp: get_request_ip_def Let_def split: option.split bool.split)

text \<open>
  C15: A direct peer outside the trusted proxy networks cannot choose the address it is
  judged by: the management check of its request does not depend on the forwarding headers,
  and it passes only when the peer's own address belongs to a management network.
\<close>

theorem ensure_management_network_unspoofable:
  assumes "rq_client_host rq = Some peer" and "\<not> trusted_peer cfg peer"
  shows "ensure_management_network cfg rq
      = ensure_management_network cfg (rq\<lparr>rq_x_real_ip := hdr, rq_x_forwarded_for := hdr'\<rparr>)
    \<and> (if ensure_management_network cfg rq = Inr ()
       then \<exists>a n. ip_address peer = Some a \<and> addr_in_net a n
              \<and> (\<exists>v\<in>set (MANAGEMENT_CIDRS cfg). ip_network False v = Some n)
       else True)"
proof -
  let ?rq = "rq\<lparr>rq_x_real_ip := hdr, rq_x_forwarded_for := hdr'\<rparr>"
  have ip: "get_request_ip cfg rq = peer" "get_request_ip cfg ?rq = peer"
    using assms get_request_ip_untrusted by auto
  have "\<exists>a n. ip_address peer = Some a \<and> addr_in_net a n
          \<and> (\<exists>v\<in>set (MANAGEMENT_CIDRS cfg). ip_network False v = Some n)"
    if ok: "ensure_management_network cfg rq = Inr ()"
  proof -
    obtain a where a: "ip_address peer = Some a"
      "any_network (\<lambda>n. addr_version a = net_version n \<and> addr_in_net a n) (MANAGEMENT_CIDRS cfg)
        = Some True"
      using ok unfolding ensure_management_network_def ip
      by (auto split: option.split_asm bool.split_asm)
    from any_network_TrueD [OF a(2)] a(1) show ?thesis by auto
  qed
  then show ?thesis by (simp add: ensure_management_network_def ip)
qed

theorem ensure_management_network_unspoofable_witness:
  "ensure_management_network (default_settings [] [] [])
     \<lparr> rq_client_host = Some ''203.0.113.9'', rq_x_real_ip = None, rq_x_forwarded_for = None,
       rq_user_agent = None \<rparr>
   = ensure_management_network (default_settings [] [] [])
     \<lparr> rq_client_host = Some ''203.0.113.9'', rq_x_real_ip = Some ''127.0.0.1'',
       rq_x_forwarded_for = Some ''127.0.0.1'', rq_user_agent = None \<rparr>"
proof -
  have "\<not> trusted_peer (default_settings [] [] []) ''203.0.113.9''" by code_simp
  from ensure_management_network_unspoofable [where
      rq = "\<lparr> rq_client_host = Some ''203.0.113.9'', rq_x_real_ip = None,
              rq_x_forwarded_for = None, rq_user_agent = None \<rparr>", OF _ this,
      of "Some ''127.0.0.1''" "Some ''127.0.0.1''"]
  show ?thesis by simp
qed

text \<open>
  The exclusions of an accepted scan network are sorted, have no duplicates, and each
  is the canonical text of an address that the network's own CIDR contains.
\<close>

theorem validate_exclusions_inside:
  assumes "validate_exclusions b = Inr b'"
  shows "sorted (snc_excluded_ips b') \<and> distinct (snc_excluded_ips b') \<and> snc_cidr b' = snc_cidr b
    \<and> (\<exists>n. ip_network True (snc_cidr b) = Some n
        \<and> (\<forall>s\<in>set (snc_excluded_ips b'). \<exists>a. s = show_addr a \<and> addr_in_net a n))"
proof -
  obtain n ns where n: "ip_network True (snc_cidr b) = Some n"
    "normalize_exclusions n (snc_excluded_ips b) = Inr ns"
    "b' = b\<lparr>snc_excluded_ips := sort (remdups ns)\<rparr>"
    using assms by (auto simp: validate_exclusions_def rbind_eq_Inr split: option.splits)
  have "\<exists>a. s = show_addr a \<and> addr_in_net a n"
    if "normalize_exclusions n vs = Inr ms" "s \<in> set ms" for vs ms s
    using that
    by (induction vs arbitrary: ms) (auto simp: rbind_eq_Inr split: option.splits if_splits)
  then show ?thesis using n by auto
qed

theorem validate_exclusions_inside_witness:
  "sorted [''10.1.2.7'', ''10.1.2.9''] \<and> (\<exists>n. ip_network True ''10.1.2.0/24'' = Some n
    \<and> (\<forall>s\<in>set [''10.1.2.7'', ''10.1.2.9'']. \<exists>a. s = show_addr a \<and> addr_in_net a n))"
proof -
  have "validate_exclusions \<lparr> snc_cidr = ''10.1.2.0/24'', snc_name = ''lab'',
      snc_scan_type = ''discovery'', snc_excluded_ips = [''10.1.2.9'', ''10.1.2.7'', ''10.1.2.9''] \<rparr>
    = Inr \<lparr> snc_cidr = ''10.1.2.0/24'', snc_name = ''lab'', snc_scan_type = ''discovery'',
      snc_excluded_ips = [''10.1.2.7'', ''10.1.2.9''] \<rparr>" by code_simp
  from validate_exclusions_inside [OF this] show ?thesis by simp
qed

section \<open>Global reachability\<close>

text \<open>
  The destination policy rejects private, loopback, link-local and shared addresses, also
  when they are written as IPv4-mapped IPv6 addresses. It does not reject IPv4 multicast,
  which its documentation lists among the rejected ranges.
\<close>

lemma listed_Cons: "listed x ((n, p) # ns) \<longleftrightarrow> addr_in x n p \<or> listed x ns"
  by (simp add: listed_def)

definition internal4 :: "32 word \<Rightarrow> bool" where
  "internal4 w = listed w [(0x0A000000, 8), (0x7F000000, 8), (0xA9FE0000, 16), (0xAC100000, 12),
     (0xC0A80000, 16), (0x64400000, 10)]"

text \<open>The exceptions of the registry lie outside the internal ranges.\<close>

lemma internal4_exceptions: "internal4 w \<Longrightarrow> \<not> listed w private4_exceptions"
proof
  assume "internal4 w" "listed w private4_exceptions"
  then have "w = 0xC0000009 \<or> w = 0xC000000A" "internal4 w"
    by (auto simp: private4_exceptions_def listed_def addr_in_def netmask_def hostmask_def)
  then show False
    by (auto simp: internal4_def listed_def addr_in_def netmask_def hostmask_def mask_numeral)
qed

lemma is_public_ip_not_internal4: "is_public_ip (V4 w) \<Longrightarrow> \<not> internal4 w"
  using internal4_exceptions [of w]
  by (auto simp: is_public_ip_def is_private4_def private4_def internal4_def listed_def)

lemma is_public_ip_mapped:
  "drop_bit 32 w = 0xFFFF \<Longrightarrow> is_public_ip (V6 w sc) \<Longrightarrow> \<not> is_private4 (ucast w)"
  by (simp add: is_public_ip_def)

lemma multicast_is_public: "is_public_ip (V4 0xE0000001)"
  by code_simp

end
