(* ===== verification/PyRegex.thy ===== *)
theory PyRegex
  imports PyStr
begin

text \<open>
  The regular expressions the program uses with \<open>re\<close>: sequences of fixed words and of
  runs of a character class with bounds, greedy or lazy. \<open>rmatch\<close> is the backtracking
  search at one position, \<open>rlang\<close> the strings an expression matches, \<open>rsub\<close> is
  \<open>pattern.sub(rep, s)\<close>. The last section shows that scrubbing a text leaves no match of
  the scrubbed patterns, whatever other patterns are scrubbed after them.
\<close>

section \<open>Expressions and matching\<close>

datatype rxi =
    Word "(char \<Rightarrow> bool) list"
  | Run "char \<Rightarrow> bool" nat "nat option" bool

type_synonym rx = "rxi list"

fun word_at :: "(char \<Rightarrow> bool) list \<Rightarrow> string \<Rightarrow> bool" where
  "word_at [] s = True"
| "word_at (p # ps) [] = False"
| "word_at (p # ps) (c # s) = (p c \<and> word_at ps s)"

definition lit :: "string \<Rightarrow> rxi" where
  "lit w = Word (map (\<lambda>c d. d = c) w)"

fun first_some :: "('a \<Rightarrow> 'b option) \<Rightarrow> 'a list \<Rightarrow> 'b option" where
  "first_some f [] = None"
| "first_some f (x # xs) = (case f x of None \<Rightarrow> first_some f xs | Some y \<Rightarrow> Some y)"

text \<open>The numbers of repetitions in the order they are tried.\<close>

definition counts :: "(char \<Rightarrow> bool) \<Rightarrow> nat \<Rightarrow> nat option \<Rightarrow> bool \<Rightarrow> string \<Rightarrow> nat list" where
  "counts p lo hi greedy s =
     (let n = length (takeWhile p s);
          m = (case hi of None \<Rightarrow> n | Some h \<Rightarrow> min h n);
          ks = [lo ..< Suc m]
      in if greedy then rev ks else ks)"

fun rmatch :: "rx \<Rightarrow> string \<Rightarrow> string option" where
  "rmatch [] s = Some s"
| "rmatch (Word ps # rs) s = (if word_at ps s then rmatch rs (drop (length ps) s) else None)"
| "rmatch (Run p lo hi g # rs) s = first_some (\<lambda>k. rmatch rs (drop k s)) (counts p lo hi g s)"

fun rlang :: "rx \<Rightarrow> string \<Rightarrow> bool" where
  "rlang [] m = (m = [])"
| "rlang (Word ps # rs) m = (word_at ps m \<and> rlang rs (drop (length ps) m))"
| "rlang (Run p lo hi g # rs) m =
     (\<exists>k. lo \<le> k \<and> (case hi of None \<Rightarrow> True | Some h \<Rightarrow> k \<le> h) \<and> k \<le> length m
        \<and> list_all p (take k m) \<and> rlang rs (drop k m))"

lemma first_some_Some: "first_some f xs = Some y \<Longrightarrow> \<exists>x\<in>set xs. f x = Some y"
  by (induction xs) (auto split: option.splits)

lemma first_some_None: "first_some f xs = None \<longleftrightarrow> (\<forall>x\<in>set xs. f x = None)"
  by (induction xs) (auto split: option.splits)

lemma word_at_append: "word_at ps s \<Longrightarrow> word_at ps (s @ t)"
  by (induction ps s rule: word_at.induct) auto

lemma word_at_length: "word_at ps s \<Longrightarrow> length ps \<le> length s"
  by (induction ps s rule: word_at.induct) auto

lemma word_at_take: "word_at ps s \<longleftrightarrow> length ps \<le> length s \<and> word_at ps (take (length ps) s)"
  by (induction ps s rule: word_at.induct) auto

lemma list_all_take_iff:
  "k \<le> length (takeWhile p s) \<longleftrightarrow> k \<le> length s \<and> list_all p (take k s)"
proof (induction s arbitrary: k)
  case (Cons c s)
  then show ?case by (cases k) auto
qed simp

lemma set_counts:
  "k \<in> set (counts p lo hi g s) \<longleftrightarrow>
   lo \<le> k \<and> (case hi of None \<Rightarrow> True | Some h \<Rightarrow> k \<le> h) \<and> k \<le> length s \<and> list_all p (take k s)"
  using list_all_take_iff [of k p s] by (auto simp: counts_def Let_def split: option.splits)

lemma rmatch_Some: "rmatch rs s = Some t \<Longrightarrow> \<exists>m. s = m @ t \<and> rlang rs m"
proof (induction rs s arbitrary: t rule: rmatch.induct)
  case (2 ps rs s)
  then have w: "word_at ps s" and r: "rmatch rs (drop (length ps) s) = Some t"
    by (auto split: if_splits)
  then obtain m where m: "drop (length ps) s = m @ t" "rlang rs m" using 2 by blast
  have "s = (take (length ps) s @ m) @ t" using m(1) by (metis append.assoc append_take_drop_id)
  moreover have "rlang (Word ps # rs) (take (length ps) s @ m)"
    using w m(2) word_at_take [of ps s] word_at_length [OF w] by (simp add: word_at_append)
  ultimately show ?case by blast
next
  case (3 p lo hi g rs s)
  then obtain k where k: "k \<in> set (counts p lo hi g s)" "rmatch rs (drop k s) = Some t"
    using first_some_Some by fastforce
  then obtain m where m: "drop k s = m @ t" "rlang rs m" using 3 by blast
  have "s = (take k s @ m) @ t" using m(1) by (metis append.assoc append_take_drop_id)
  moreover have "rlang (Run p lo hi g # rs) (take k s @ m)"
    using k(1) m(2) by (auto simp: set_counts intro!: exI [of _ k])
  ultimately show ?case by blast
qed auto

lemma rmatch_None: "rmatch rs s = None \<Longrightarrow> s = m @ t \<Longrightarrow> \<not> rlang rs m"
proof (induction rs s arbitrary: m t rule: rmatch.induct)
  case (2 ps rs s)
  show ?case
  proof
    assume "rlang (Word ps # rs) m"
    then have m: "word_at ps m" "rlang rs (drop (length ps) m)" by auto
    then have "drop (length ps) s = drop (length ps) m @ t"
      using word_at_length 2(3) by fastforce
    moreover have "word_at ps s" using m(1) 2(3) word_at_append by blast
    ultimately show False using 2 m(2) by auto
  qed
next
  case (3 p lo hi g rs s)
  show ?case
  proof
    assume "rlang (Run p lo hi g # rs) m"
    then obtain k where k: "lo \<le> k" "case hi of None \<Rightarrow> True | Some h \<Rightarrow> k \<le> h" "k \<le> length m"
      "list_all p (take k m)" "rlang rs (drop k m)" by auto
    then have "k \<in> set (counts p lo hi g s)" "drop k s = drop k m @ t"
      using 3(3) by (auto simp: set_counts)
    moreover have "rmatch rs (drop k s) = None"
      using 3(2) calculation(1) by (auto simp: first_some_None)
    ultimately show False using 3(1) k(5) by blast
  qed
qed auto

text \<open>\<open>pattern.search(s)\<close> as a condition, \<open>fullmatch\<close>, and \<open>sub\<close> for non-empty matches.\<close>

fun rsearch :: "rx \<Rightarrow> string \<Rightarrow> bool" where
  "rsearch rs [] = (rmatch rs [] \<noteq> None)"
| "rsearch rs (c # s) = (rmatch rs (c # s) \<noteq> None \<or> rsearch rs s)"

function rsub :: "rx \<Rightarrow> string \<Rightarrow> string \<Rightarrow> string" where
  "rsub rs rep [] = []"
| "rsub rs rep (c # s) =
     (case rmatch rs (c # s) of
        Some t \<Rightarrow> if length t \<le> length s then rep @ rsub rs rep t else c # rsub rs rep s
      | None \<Rightarrow> c # rsub rs rep s)"
  by pat_completeness auto
termination
  by (relation "measure (\<lambda>(rs, rep, s). length s)") auto

section \<open>Scrubbing\<close>

definition occurs :: "string \<Rightarrow> string \<Rightarrow> bool" where
  "occurs w s = (\<exists>a b. s = a @ w @ b)"

definition has_match :: "rx \<Rightarrow> string \<Rightarrow> bool" where
  "has_match rs s = (\<exists>m. rlang rs m \<and> occurs m s)"

lemma occurs_Cons: "occurs w (c # s) \<longleftrightarrow> (\<exists>b. c # s = w @ b) \<or> occurs w s"
proof
  assume "occurs w (c # s)"
  then obtain a b where ab: "c # s = a @ w @ b" by (auto simp: occurs_def)
  show "(\<exists>b. c # s = w @ b) \<or> occurs w s"
    using ab by (cases a) (auto simp: occurs_def)
next
  assume "(\<exists>b. c # s = w @ b) \<or> occurs w s"
  then show "occurs w (c # s)"
    unfolding occurs_def by (metis append_Cons append_Nil)
qed

lemma occurs_appendI: "occurs w s \<Longrightarrow> occurs w (a @ s)" "occurs w s \<Longrightarrow> occurs w (s @ a)"
  unfolding occurs_def by (metis append.assoc)+

text \<open>A word without the separator \<open>c\<close> lies on one side of it.\<close>

lemma occurs_split:
  assumes "occurs w (u @ c # v)" "c \<notin> set w"
  shows "occurs w u \<or> occurs w v"
  using assms(1)
proof (induction u)
  case Nil
  then have "(\<exists>b. c # v = w @ b) \<or> occurs w v" by (simp add: occurs_Cons)
  then show ?case using assms(2) by (cases w) (auto simp: occurs_def)
next
  case (Cons x u)
  consider b where "x # u @ c # v = w @ b" | "occurs w (u @ c # v)"
    using Cons.prems by (auto simp: occurs_Cons)
  then show ?case
  proof cases
    case 1
    have "length w \<le> length (x # u)"
    proof (rule ccontr)
      assume "\<not> length w \<le> length (x # u)"
      then have "c = w ! length (x # u)"
        using arg_cong [OF 1, of "\<lambda>s. s ! length (x # u)"] by (simp add: nth_append)
      then show False using assms(2) \<open>\<not> length w \<le> length (x # u)\<close> by (metis not_le nth_mem)
    qed
    then have "x # u = w @ drop (length w) (x # u)"
      using arg_cong [OF 1, of "take (length w)"] by (metis append_Cons append_eq_conv_conj append_take_drop_id take_append diff_is_0_eq take0 append_Nil2)
    then have "\<exists>b. x # u = w @ b" ..
    then show ?thesis by (auto simp: occurs_def intro: exI [of _ "[]"])
  next
    case 2
    then show ?thesis using Cons.IH by (auto simp: occurs_Cons)
  qed
qed

lemma rsub_cases:
  obtains (hit) t m where "rmatch rs (x # s) = Some t" "length t \<le> length s" "x # s = m @ t"
      "rsub rs rep (x # s) = rep @ rsub rs rep t"
  | (keep) "rsub rs rep (x # s) = x # rsub rs rep s"
      "\<And>m b. x # s = m @ b \<Longrightarrow> rlang rs m \<Longrightarrow> \<exists>t. rmatch rs (x # s) = Some t \<and> length s < length t"
proof (cases "rmatch rs (x # s)")
  case None
  then have "rsub rs rep (x # s) = x # rsub rs rep s" by simp
  moreover have "\<And>m b. x # s = m @ b \<Longrightarrow> \<not> rlang rs m" using rmatch_None [OF None] by blast
  ultimately show thesis using keep by blast
next
  case (Some t)
  then obtain m where m: "x # s = m @ t" using rmatch_Some by blast
  show thesis
  proof (cases "length t \<le> length s")
    case True
    then show thesis using hit [OF Some True m] Some by simp
  next
    case False
    show thesis
    proof (rule keep)
      show "rsub rs rep (x # s) = x # rsub rs rep s" using False Some by simp
      show "\<exists>t. rmatch rs (x # s) = Some t \<and> length s < length t" using Some False by simp
    qed
  qed
qed

lemma rsub_prefix:
  assumes "rsub rs (c # rep) s = w @ b" "c \<notin> set w"
  shows "\<exists>b. s = w @ b"
  using assms
proof (induction s arbitrary: w b)
  case (Cons x s)
  show ?case
  proof (cases w)
    case (Cons y ys)
    note w = this
    show ?thesis
    proof (cases rule: rsub_cases [of rs x s "c # rep"])
      case hit
      then show ?thesis using Cons.prems w by auto
    next
      case keep
      then have "rsub rs (c # rep) s = ys @ b" "x = y" using Cons.prems w by auto
      then show ?thesis using Cons.IH [of ys b] Cons.prems(2) w by auto
    qed
  qed simp
qed simp

text \<open>
  The contract of a replacement text: it begins and ends with a character that the matches
  of the scrubbed patterns never contain.
\<close>

locale scrub_mark =
  fixes c :: char and mark :: string
  assumes mark_ends: "\<exists>u. mark = c # u" "\<exists>u. mark = u @ [c]"
begin

text \<open>Patterns whose matches are not empty, avoid the character and are not in the mark.\<close>

definition markable :: "rx \<Rightarrow> bool" where
  "markable rs = ((\<forall>m. rlang rs m \<longrightarrow> m \<noteq> [] \<and> c \<notin> set m) \<and> \<not> has_match rs mark)"

lemma occurs_mark_app:
  assumes "occurs w (mark @ s)" "c \<notin> set w"
  shows "occurs w mark \<or> occurs w s"
proof -
  obtain u where u: "mark = u @ [c]" using mark_ends(2) by blast
  then have "occurs w (u @ c # s)" using assms(1) by simp
  then have "occurs w u \<or> occurs w s" using occurs_split assms(2) by blast
  then show ?thesis using u occurs_appendI(2) by blast
qed

lemma mark_prefix: "rsub rs mark s = w @ b \<Longrightarrow> c \<notin> set w \<Longrightarrow> \<exists>b. s = w @ b"
  using mark_ends(1) rsub_prefix by blast

lemma rsub_occurs:
  assumes "occurs w (rsub rs mark s)" "c \<notin> set w" "w \<noteq> []"
  shows "occurs w mark \<or> occurs w s"
  using assms(1)
proof (induction s rule: length_induct)
  case (1 s)
  show ?case
  proof (cases s)
    case Nil
    then show ?thesis using 1(2) by simp
  next
    case (Cons x s')
    show ?thesis
    proof (cases rule: rsub_cases [of rs x s' mark])
      case (hit t m)
      then have "occurs w mark \<or> occurs w (rsub rs mark t)"
        using 1(2) occurs_mark_app assms(2) Cons by metis
      then have "occurs w mark \<or> occurs w t" using 1(1) hit(2) Cons by (auto simp: less_Suc_eq_le)
      then show ?thesis using hit(3) Cons occurs_appendI(1) by metis
    next
      case keep
      then consider b where "rsub rs mark s = w @ b" | "occurs w (rsub rs mark s')"
        using 1(2) Cons by (metis occurs_Cons)
      then show ?thesis
      proof cases
        case 1
        then have "\<exists>b. s = w @ b" using mark_prefix assms(2) by blast
        then show ?thesis using Cons by (auto simp: occurs_Cons)
      next
        case 2
        then show ?thesis using 1(1) Cons by (auto simp: occurs_Cons)
      qed
    qed
  qed
qed

lemma rsub_clean:
  assumes "markable rs"
  shows "\<not> has_match rs (rsub rs mark s)"
proof -
  have no: False if "rlang rs m" "occurs m (rsub rs mark s)" for m
    using that(2)
  proof (induction s rule: length_induct)
    case (1 s)
    have m: "c \<notin> set m" "m \<noteq> []" "\<not> occurs m mark"
      using assms that(1) by (auto simp: markable_def has_match_def)
    show ?case
    proof (cases s)
      case Nil
      then show ?thesis using 1(2) m(2) by (simp add: occurs_def)
    next
      case (Cons x s')
      show ?thesis
      proof (cases rule: rsub_cases [of rs x s' mark])
        case (hit t u)
        then have "occurs m (rsub rs mark t)" using 1(2) occurs_mark_app m(1,3) Cons by metis
        then show ?thesis using 1(1) hit(2) Cons by (auto simp: less_Suc_eq_le)
      next
        case keep
        then consider b where "rsub rs mark s = m @ b" | "occurs m (rsub rs mark s')"
          using 1(2) Cons by (metis occurs_Cons)
        then show ?thesis
        proof cases
          case 1
          then obtain b where b: "x # s' = m @ b" using mark_prefix m(1) Cons by blast
          from keep(2) [OF b that(1)] obtain t where t: "rmatch rs (x # s') = Some t" "length s' < length t"
            by blast
          from rmatch_Some [OF t(1)] obtain u where u: "x # s' = u @ t" "rlang rs u" by blast
          have "length u + length t = Suc (length s')" using arg_cong [OF u(1), of length] by simp
          then have "length u = 0" using t(2) by linarith
          then have "u = []" by simp
          then show False using u(2) assms by (auto simp: markable_def)
        next
          case 2
          then show ?thesis using 1(1) Cons by auto
        qed
      qed
    qed
  qed
  then show ?thesis by (auto simp: has_match_def)
qed

text \<open>Scrubbing another pattern makes no new match of a markable pattern.\<close>

lemma rsub_keeps_clean:
  assumes "markable rs" "\<not> has_match rs s"
  shows "\<not> has_match rs (rsub rs' mark s)"
  using assms rsub_occurs unfolding markable_def has_match_def by blast

lemma scrub_clean:
  assumes "markable rs" "rs \<in> set ps"
  shows "\<not> has_match rs (foldl (\<lambda>s r. rsub r mark s) s ps)"
  using assms(2)
proof (induction ps rule: rev_induct)
  case (snoc r ps)
  then show ?case using rsub_clean [OF assms(1)] rsub_keeps_clean [OF assms(1)] by (cases "rs = r") auto
qed simp

end

end
