(* ===== verification/Pii.thy ===== *)
theory Pii
  imports PyRegex Models
begin

text \<open>
  \<open>app/core/pii.py\<close>: redaction of audit details and log text. The SHA-256 hex digest of a
  text is the parameter \<open>sha\<close>. The values are the JSON values of the data model.
\<close>

section \<open>The secret patterns\<close>

definition token_char :: "char \<Rightarrow> bool" where
  "token_char c = (let n = char_code c in
     48 \<le> n \<and> n \<le> 57 \<or> 65 \<le> n \<and> n \<le> 90 \<or> 97 \<le> n \<and> n \<le> 122 \<or> n = 95 \<or> n = 45)"

definition upper_digit :: "char \<Rightarrow> bool" where
  "upper_digit c = (let n = char_code c in 48 \<le> n \<and> n \<le> 57 \<or> 65 \<le> n \<and> n \<le> 90)"

definition upper_space :: "char \<Rightarrow> bool" where
  "upper_space c = (let n = char_code c in 65 \<le> n \<and> n \<le> 90 \<or> n = 32)"

definition ignore_case :: "string \<Rightarrow> rxi" where
  "ignore_case w = Word (map (\<lambda>c d. lower_char d = lower_char c) w)"

definition KPX_PATTERN :: rx where
  "KPX_PATTERN = [lit ''kpx_'', Run token_char 32 None True]"

definition ANTHROPIC_PATTERN :: rx where
  "ANTHROPIC_PATTERN = [lit ''sk-ant-'', Run token_char 20 None True]"

definition AWS_PATTERN :: rx where
  "AWS_PATTERN = [lit ''AKIA'', Run upper_digit 16 (Some 16) True]"

definition PEM_PATTERN :: rx where
  "PEM_PATTERN =
     [lit ''-----BEGIN '', Run upper_space 1 None True, lit ''PRIVATE KEY-----'',
      Run (\<lambda>_. True) 1 None False,
      lit ''-----END '', Run upper_space 1 None True, lit ''PRIVATE KEY-----'']"

definition JWT_PATTERN :: rx where
  "JWT_PATTERN =
     [lit ''eyJ'', Run token_char 20 None True, lit ''.'', Run token_char 20 None True,
      lit ''.'', Run token_char 20 None True]"

definition BEARER_PATTERN :: rx where
  "BEARER_PATTERN =
     [ignore_case ''Bearer'', Run is_space 1 None True,
      Run (\<lambda>c. token_char c \<or> char_code c = 46) 20 None True]"

definition SECRET_PATTERNS :: "rx list" where
  "SECRET_PATTERNS =
     [KPX_PATTERN, ANTHROPIC_PATTERN, AWS_PATTERN, PEM_PATTERN, JWT_PATTERN, BEARER_PATTERN]"

definition REDACTED :: string where "REDACTED = ''***REDACTED***''"

definition redact_string :: "string \<Rightarrow> string" where
  "redact_string text =
     (if length text < 8 then text
      else foldl (\<lambda>result pattern. rsub pattern REDACTED result) text SECRET_PATTERNS)"

section \<open>Masks\<close>

definition hash_value :: "(string \<Rightarrow> string) \<Rightarrow> string \<Rightarrow> string \<Rightarrow> string" where
  "hash_value sha value salt_suffix = ''h_'' @ take 16 (sha (value @ '':'' @ salt_suffix))"

definition mask_email :: "(string \<Rightarrow> string) \<Rightarrow> string \<Rightarrow> string" where
  "mask_email sha email =
     (if CHR ''@'' \<notin> set email then hash_value sha email ''kepryx''
      else
        let domain = rev (takeWhile (\<lambda>c. c \<noteq> CHR ''@'') (rev email));
            local = take (length email - length domain - 1) email
        in if local \<noteq> [] then take 1 local @ ''***@'' @ domain else ''***@'' @ domain)"

definition mask_ip :: "(string \<Rightarrow> string) \<Rightarrow> string \<Rightarrow> string" where
  "mask_ip sha ip =
     (if CHR ''.'' \<in> set ip \<and> length (split_on (CHR ''.'') ip) = 4
      then join ''.'' (take 3 (split_on (CHR ''.'') ip)) @ ''.x''
      else if CHR '':'' \<in> set ip \<and> 3 < length (split_on (CHR '':'') ip)
      then join '':'' (take 3 (split_on (CHR '':'') ip)) @ ''::x''
      else hash_value sha ip ''kepryx'')"

definition mask_user_agent :: "string \<Rightarrow> string" where
  "mask_user_agent ua =
     (if ua = [] then []
      else
        let family =
              (if contains ''Firefox'' ua then ''Firefox''
               else if contains ''Edg/'' ua \<or> contains ''Edge'' ua then ''Edge''
               else if contains ''Chrome'' ua then ''Chrome''
               else if contains ''Safari'' ua then ''Safari''
               else if contains ''curl'' (lower ua) then ''curl''
               else if contains ''python'' (lower ua) then ''python''
               else ''Unknown'');
            os_family =
              (if contains ''Windows'' ua then ''Windows''
               else if contains ''Mac OS'' ua \<or> contains ''Macintosh'' ua then ''macOS''
               else if contains ''Linux'' ua then ''Linux''
               else if contains ''Android'' ua then ''Android''
               else if contains ''iPhone'' ua \<or> contains ''iPad'' ua then ''iOS''
               else ''Unknown'')
        in family @ ''/'' @ os_family)"

section \<open>Recursive redaction\<close>

text \<open>
  \<open>_redact_field\<close>: what a field name decides. The branches for the remaining dictionaries,
  lists, strings and other values are \<open>redact_pii\<close> of the value, which is the last argument.
\<close>

fun redact_field :: "(string \<Rightarrow> string) \<Rightarrow> string \<Rightarrow> pyval \<Rightarrow> pyval \<Rightarrow> pyval" where
  "redact_field sha name v rest =
     (let l = lower name; str = (case v of PStr s \<Rightarrow> Some s | _ \<Rightarrow> None)
      in if l = ''email'' \<and> str \<noteq> None then PStr (mask_email sha (the str))
         else if l \<in> {''ip'', ''ip_address'', ''remote_addr'', ''x-forwarded-for''} \<and> str \<noteq> None
         then PStr (mask_ip sha (the str))
         else if l \<in> {''user_agent'', ''user-agent'', ''useragent''} \<and> str \<noteq> None
         then PStr (mask_user_agent (the str))
         else if l \<in> {''password'', ''passwd'', ''secret'', ''token'', ''api_key'', ''private_key''}
         then PStr REDACTED
         else if l \<in> {''ssn'', ''social_security_number'', ''credit_card'', ''card_number'', ''cvv''}
         then PStr REDACTED
         else if l \<in> {''mac'', ''mac_address''} \<and> str \<noteq> None
         then PStr (hash_value sha (the str) ''mac'')
         else rest)"

declare redact_field.simps [simp del]

fun redact_pii :: "(string \<Rightarrow> string) \<Rightarrow> pyval \<Rightarrow> pyval" where
  "redact_pii sha (PDict d) = PDict (map (\<lambda>(k, v). (k, redact_field sha k v (redact_pii sha v))) d)"
| "redact_pii sha (PList xs) = PList (map (redact_pii sha) xs)"
| "redact_pii sha (PStr s) = PStr (redact_string s)"
| "redact_pii sha v = v"

definition redact_dict :: "(string \<Rightarrow> string) \<Rightarrow> jdict \<Rightarrow> jdict" where
  "redact_dict sha d = map (\<lambda>(k, v). (k, redact_field sha k v (redact_pii sha v))) d"

section \<open>What a pattern matches\<close>

fun item_avoids :: "char \<Rightarrow> rxi \<Rightarrow> bool" where
  "item_avoids c (Word ps) = list_all (\<lambda>p. \<not> p c) ps"
| "item_avoids c (Run p lo hi g) = (\<not> p c)"

fun item_min :: "rxi \<Rightarrow> nat" where
  "item_min (Word ps) = length ps"
| "item_min (Run p lo hi g) = lo"

lemma word_at_avoids:
  "word_at ps s \<Longrightarrow> list_all (\<lambda>p. \<not> p c) ps \<Longrightarrow> c \<notin> set (take (length ps) s)"
  by (induction ps s rule: word_at.induct) auto

lemma rlang_avoids: "rlang rs m \<Longrightarrow> list_all (item_avoids c) rs \<Longrightarrow> c \<notin> set m"
proof (induction rs m rule: rlang.induct)
  case (2 ps rs m)
  then have "c \<notin> set (take (length ps) m)" "c \<notin> set (drop (length ps) m)"
    using word_at_avoids by auto
  then show ?case by (metis Un_iff append_take_drop_id set_append)
next
  case (3 p lo hi g rs m)
  then obtain k where k: "list_all p (take k m)" "rlang rs (drop k m)" by auto
  then have "c \<notin> set (take k m)" "c \<notin> set (drop k m)"
    using 3 by (auto simp: list_all_iff)
  then show ?case by (metis Un_iff append_take_drop_id set_append)
qed simp

lemma rlang_length: "rlang rs m \<Longrightarrow> sum_list (map item_min rs) \<le> length m"
proof (induction rs m rule: rlang.induct)
  case (2 ps rs m)
  then show ?case using word_at_length [of ps m] by fastforce
next
  case (3 p lo hi g rs m)
  then show ?case by fastforce
qed simp

lemma rsearch_iff: "rsearch rs s \<longleftrightarrow> has_match rs s"
proof (induction s)
  case Nil
  show ?case
    using rmatch_Some [of rs "[]"] rmatch_None [of rs "[]" "[]" "[]"]
    by (auto simp: has_match_def occurs_def)
next
  case (Cons c s)
  have "rmatch rs (c # s) \<noteq> None \<longleftrightarrow> (\<exists>m b. c # s = m @ b \<and> rlang rs m)"
    using rmatch_Some [of rs "c # s"] rmatch_None [of rs "c # s"] by (metis not_None_eq)
  then show ?case using Cons by (auto simp: has_match_def occurs_Cons)
qed

lemma has_match_length: "has_match rs s \<Longrightarrow> sum_list (map item_min rs) \<le> length s"
  using rlang_length by (fastforce simp: has_match_def occurs_def)

interpretation star: scrub_mark "CHR ''*''" REDACTED
  by unfold_locales (auto simp: REDACTED_def)

lemma star_markable:
  assumes "list_all (item_avoids (CHR ''*'')) rs" "0 < sum_list (map item_min rs)"
    and "\<not> rsearch rs REDACTED"
  shows "star.markable rs"
  unfolding star.markable_def rsearch_iff [symmetric]
proof (intro conjI allI impI)
  fix m assume m: "rlang rs m"
  show "m \<noteq> []"
    using rlang_length [OF m] assms(2) by (metis le_zero_eq less_irrefl list.size(3))
  from rlang_avoids [OF m assms(1)] show "CHR ''*'' \<notin> set m" .
qed (rule assms(3))

lemma secret_markable:
  "star.markable KPX_PATTERN" "star.markable ANTHROPIC_PATTERN" "star.markable AWS_PATTERN"
  "star.markable JWT_PATTERN" "star.markable BEARER_PATTERN"
  by (rule star_markable; code_simp)+

lemma secret_min:
  "8 \<le> sum_list (map item_min KPX_PATTERN)" "8 \<le> sum_list (map item_min ANTHROPIC_PATTERN)"
  "8 \<le> sum_list (map item_min AWS_PATTERN)" "8 \<le> sum_list (map item_min JWT_PATTERN)"
  "8 \<le> sum_list (map item_min BEARER_PATTERN)"
  by code_simp+

definition token_patterns :: "rx list" where
  "token_patterns = [KPX_PATTERN, ANTHROPIC_PATTERN, AWS_PATTERN, JWT_PATTERN, BEARER_PATTERN]"

lemma token_patterns_markable:
  "p \<in> set token_patterns \<Longrightarrow>
   star.markable p \<and> p \<in> set SECRET_PATTERNS \<and> 8 \<le> sum_list (map item_min p)"
  using secret_markable secret_min by (auto simp: token_patterns_def SECRET_PATTERNS_def)

lemma redact_string_no_secret:
  assumes "p \<in> set token_patterns"
  shows "\<not> has_match p (redact_string s)"
proof (cases "length s < 8")
  case True
  then show ?thesis
    using token_patterns_markable [OF assms] has_match_length [of p s]
    by (auto simp: redact_string_def)
next
  case False
  then show ?thesis
    using star.scrub_clean [of p SECRET_PATTERNS s] token_patterns_markable [OF assms]
    by (simp add: redact_string_def)
qed

section \<open>Properties\<close>

text \<open>
  C9: Redacted text holds no credential: whatever the input, no part of the output is an
  API token, an Anthropic key, an AWS key id, a JWT or a bearer header, and no later
  replacement makes one again.
\<close>

theorem redact_string_scrubs:
  "list_all (\<lambda>p. \<not> has_match p (redact_string s))
     [KPX_PATTERN, ANTHROPIC_PATTERN, AWS_PATTERN, JWT_PATTERN, BEARER_PATTERN]"
  using redact_string_no_secret [of _ s] unfolding token_patterns_def list_all_iff by blast

text \<open>
  A value is clean when sensitive fields hold the replacement text, and every other string,
  at any depth, is free of credentials. The fields that are masked instead (mail address,
  network address, user agent, hardware address) are masked strings.
\<close>

definition masked_names :: "string set" where
  "masked_names = {''email'', ''ip'', ''ip_address'', ''remote_addr'', ''x-forwarded-for'',
     ''user_agent'', ''user-agent'', ''useragent'', ''mac'', ''mac_address''}"

definition sensitive_names :: "string set" where
  "sensitive_names = {''password'', ''passwd'', ''secret'', ''token'', ''api_key'', ''private_key'',
     ''ssn'', ''social_security_number'', ''credit_card'', ''card_number'', ''cvv''}"

fun is_str :: "pyval \<Rightarrow> bool" where
  "is_str (PStr s) = True"
| "is_str _ = False"

fun clean :: "pyval \<Rightarrow> bool" where
  "clean (PDict d) = list_all (\<lambda>(k, v).
     if lower k \<in> sensitive_names then v = PStr REDACTED
     else if lower k \<in> masked_names \<and> is_str v then True
     else clean v) d"
| "clean (PList xs) = list_all clean xs"
| "clean (PStr s) = list_all (\<lambda>p. \<not> has_match p s) token_patterns"
| "clean v = True"

lemma clean_redact_field:
  assumes "clean (redact_pii sha v)"
  shows "case redact_field sha k v (redact_pii sha v) of r \<Rightarrow>
    (if lower k \<in> sensitive_names then r = PStr REDACTED
     else if lower k \<in> masked_names \<and> is_str r then True else clean r)"
proof (cases "lower k \<in> sensitive_names")
  case True
  then show ?thesis by (auto simp: redact_field.simps Let_def sensitive_names_def)
next
  case False
  show ?thesis
  proof (cases "lower k \<in> masked_names \<and> is_str v")
    case True
    then obtain s where "v = PStr s" by (cases v) auto
    then show ?thesis
      using True False by (auto simp: redact_field.simps Let_def masked_names_def)
  next
    case nm: False
    have "redact_field sha k v (redact_pii sha v) = redact_pii sha v"
      using False nm
      by (cases v) (auto simp: redact_field.simps Let_def masked_names_def sensitive_names_def)
    then show ?thesis using assms False by simp
  qed
qed

text \<open>
  Redaction of audit details is complete: for every JSON value, nested to any depth,
  each field with a sensitive name becomes the replacement text, whatever its value was,
  and every string outside the masked fields is free of credentials.
\<close>

theorem redact_pii_clean: "clean (redact_pii sha v)"
proof (induction sha v rule: redact_pii.induct)
  case (1 sha d)
  have "list_all (\<lambda>(k, v). if lower k \<in> sensitive_names then v = PStr REDACTED
      else if lower k \<in> masked_names \<and> is_str v then True else clean v)
    (map (\<lambda>(k, v). (k, redact_field sha k v (redact_pii sha v))) d)"
    unfolding list_all_iff
  proof
    fix kv assume "kv \<in> set (map (\<lambda>(k, v). (k, redact_field sha k v (redact_pii sha v))) d)"
    then obtain k v where kv: "(k, v) \<in> set d" "kv = (k, redact_field sha k v (redact_pii sha v))"
      by auto
    have "clean (redact_pii sha v)" using 1 kv(1) by blast
    from clean_redact_field [OF this, of k] show "case kv of (k, v) \<Rightarrow>
        if lower k \<in> sensitive_names then v = PStr REDACTED
        else if lower k \<in> masked_names \<and> is_str v then True else clean v"
      by (simp add: kv(2))
  qed
  then show ?case by simp
next
  case (3 sha s)
  then show ?case using redact_string_no_secret [of _ s] by (simp add: list_all_iff)
qed (auto simp: list_all_iff)

text \<open>Redaction keeps the structure: the same keys in the same order, lists of equal length.\<close>

fun same_shape :: "pyval \<Rightarrow> pyval \<Rightarrow> bool" where
  "same_shape (PList xs) (PList ys) = (length xs = length ys)"
| "same_shape (PDict d) (PDict e) = (map fst d = map fst e)"
| "same_shape (PStr s) (PStr t) = True"
| "same_shape v w = (v = w)"

lemma redact_pii_shape: "same_shape v (redact_pii sha v)"
  by (cases v) (auto simp: case_prod_unfold comp_def)

text \<open>
  The field table of the module names the telephone number as personal data, yet no rule
  of \<open>_redact_field\<close> covers it: the value is stored as it is.
\<close>

lemma phone_not_masked:
  "redact_pii sha (PDict [(''phone'', PStr ''+49 30 1234567'')]) = PDict [(''phone'', PStr ''+49 30 1234567'')]"
proof -
  have "redact_string ''+49 30 1234567'' = ''+49 30 1234567''" by code_simp
  moreover have "lower ''phone'' = ''phone''" by code_simp
  ultimately show ?thesis by (simp add: redact_field.simps Let_def)
qed

end
