(* ===== verification/RedisStore.thy ===== *)
theory RedisStore
  imports Main Prelude PyStr
begin

text \<open>
  The Redis commands the program sends. The server is not part of the program: the
  commands are the fields of a record, \<open>redis_ok\<close> states their documented behaviour over
  the entries of a store (value and expiry in seconds), and the last section shows with a
  store in memory that the statement can hold. A command fails with an exception.
\<close>

record 'r redis_ops =
  rd_mget :: "int \<Rightarrow> string list \<Rightarrow> 'r \<Rightarrow> string option list result"
  rd_setex :: "int \<Rightarrow> string \<Rightarrow> int \<Rightarrow> string \<Rightarrow> 'r \<Rightarrow> 'r result"
  rd_set_nx :: "int \<Rightarrow> string \<Rightarrow> string \<Rightarrow> int \<Rightarrow> 'r \<Rightarrow> (bool \<times> 'r) result"
  rd_incr :: "int \<Rightarrow> string \<Rightarrow> 'r \<Rightarrow> (nat \<times> 'r) result"
  rd_expire :: "int \<Rightarrow> string \<Rightarrow> int \<Rightarrow> 'r \<Rightarrow> 'r result"
  rd_ttl :: "int \<Rightarrow> string \<Rightarrow> 'r \<Rightarrow> int result"
  rd_getdel :: "int \<Rightarrow> string \<Rightarrow> 'r \<Rightarrow> (string option \<times> 'r) result"

type_synonym entry = "string \<times> int option"

definition live :: "(string \<rightharpoonup> entry) \<Rightarrow> int \<Rightarrow> string \<Rightarrow> string option" where
  "live m t k =
     (case m k of
        None \<Rightarrow> None
      | Some (v, None) \<Rightarrow> Some v
      | Some (v, Some e) \<Rightarrow> if t < e then Some v else None)"

definition expiry :: "(string \<rightharpoonup> entry) \<Rightarrow> string \<Rightarrow> int option" where
  "expiry m k = (case m k of None \<Rightarrow> None | Some (v, e) \<Rightarrow> e)"

definition redis_ok :: "'r redis_ops \<Rightarrow> ('r \<Rightarrow> string \<rightharpoonup> entry) \<Rightarrow> bool" where
  "redis_ok ops ent =
    ((\<forall>t ks r vs. rd_mget ops t ks r = Inr vs \<longrightarrow> vs = map (live (ent r) t) ks)
   \<and> (\<forall>t k e v r r'. rd_setex ops t k e v r = Inr r' \<longrightarrow> ent r' = (ent r)(k \<mapsto> (v, Some (t + e))))
   \<and> (\<forall>t k v e r b r'. rd_set_nx ops t k v e r = Inr (b, r') \<longrightarrow>
        (if live (ent r) t k = None then b \<and> ent r' = (ent r)(k \<mapsto> (v, Some (t + e)))
         else \<not> b \<and> ent r' = ent r))
   \<and> (\<forall>t k r n r'. rd_incr ops t k r = Inr (n, r') \<longrightarrow>
        (case live (ent r) t k of
           None \<Rightarrow> n = 1 \<and> ent r' = (ent r)(k \<mapsto> (show_nat 1, None))
         | Some v \<Rightarrow> n = digits_val v + 1 \<and> ent r' = (ent r)(k \<mapsto> (show_nat n, expiry (ent r) k))))
   \<and> (\<forall>t k e r r'. rd_expire ops t k e r = Inr r' \<longrightarrow>
        ent r' = (case live (ent r) t k of None \<Rightarrow> ent r | Some v \<Rightarrow> (ent r)(k \<mapsto> (v, Some (t + e)))))
   \<and> (\<forall>t k r v r'. rd_getdel ops t k r = Inr (v, r') \<longrightarrow>
        v = live (ent r) t k \<and> ent r' = (ent r)(k := None)))"

lemma redis_mget: "redis_ok ops ent \<Longrightarrow> rd_mget ops t ks r = Inr vs \<Longrightarrow> vs = map (live (ent r) t) ks"
  by (simp add: redis_ok_def)

lemma redis_setex:
  "redis_ok ops ent \<Longrightarrow> rd_setex ops t k e v r = Inr r' \<Longrightarrow> ent r' = (ent r)(k \<mapsto> (v, Some (t + e)))"
  by (simp add: redis_ok_def)

lemma redis_set_nx:
  assumes "redis_ok ops ent" "rd_set_nx ops t k v e r = Inr (b, r')"
  shows "(if live (ent r) t k = None then b \<and> ent r' = (ent r)(k \<mapsto> (v, Some (t + e))) else \<not> b \<and> ent r' = ent r)"
proof -
  have "\<forall>t k v e r b r'. rd_set_nx ops t k v e r = Inr (b, r') \<longrightarrow>
        (if live (ent r) t k = None then b \<and> ent r' = (ent r)(k \<mapsto> (v, Some (t + e)))
         else \<not> b \<and> ent r' = ent r)"
    using assms(1) unfolding redis_ok_def by (elim conjE) assumption
  from this [rule_format, OF assms(2)] show ?thesis .
qed

lemma redis_incr:
  assumes "redis_ok ops ent" "rd_incr ops t k r = Inr (n, r')"
  shows "(case live (ent r) t k of
      None \<Rightarrow> n = 1 \<and> ent r' = (ent r)(k \<mapsto> (show_nat 1, None))
    | Some v \<Rightarrow> n = digits_val v + 1 \<and> ent r' = (ent r)(k \<mapsto> (show_nat n, expiry (ent r) k)))"
proof -
  have "\<forall>t k r n r'. rd_incr ops t k r = Inr (n, r') \<longrightarrow>
        (case live (ent r) t k of
           None \<Rightarrow> n = 1 \<and> ent r' = (ent r)(k \<mapsto> (show_nat 1, None))
         | Some v \<Rightarrow> n = digits_val v + 1 \<and> ent r' = (ent r)(k \<mapsto> (show_nat n, expiry (ent r) k)))"
    using assms(1) unfolding redis_ok_def by (elim conjE) assumption
  from this [rule_format, OF assms(2)] show ?thesis .
qed

lemma redis_expire:
  "redis_ok ops ent \<Longrightarrow> rd_expire ops t k e r = Inr r' \<Longrightarrow>
   ent r' = (case live (ent r) t k of None \<Rightarrow> ent r | Some v \<Rightarrow> (ent r)(k \<mapsto> (v, Some (t + e))))"
  by (simp add: redis_ok_def)

lemma redis_getdel:
  assumes "redis_ok ops ent" "rd_getdel ops t k r = Inr (v, r')"
  shows "v = live (ent r) t k \<and> ent r' = (ent r)(k := None)"
proof -
  have "\<forall>t k r v r'. rd_getdel ops t k r = Inr (v, r') \<longrightarrow>
        v = live (ent r) t k \<and> ent r' = (ent r)(k := None)"
    using assms(1) unfolding redis_ok_def by (elim conjE) assumption
  from this [rule_format, OF assms(2)] show ?thesis .
qed

lemma live_upd: "live (m(k \<mapsto> (v, Some e))) t k' =
    (if k' = k then if t < e then Some v else None else live m t k')"
  by (simp add: live_def)

lemma live_upd_None: "live (m(k := None)) t k' = (if k' = k then None else live m t k')"
  by (simp add: live_def)

section \<open>A store in memory\<close>

definition mem_ops :: "(string \<rightharpoonup> entry) redis_ops" where
  "mem_ops = \<lparr>
     rd_mget = (\<lambda>t ks m. Inr (map (live m t) ks)),
     rd_setex = (\<lambda>t k e v m. Inr (m(k \<mapsto> (v, Some (t + e))))),
     rd_set_nx = (\<lambda>t k v e m. Inr (case live m t k of
         None \<Rightarrow> (True, m(k \<mapsto> (v, Some (t + e)))) | Some w \<Rightarrow> (False, m))),
     rd_incr = (\<lambda>t k m. Inr (case live m t k of
         None \<Rightarrow> (1, m(k \<mapsto> (show_nat 1, None)))
       | Some v \<Rightarrow> (digits_val v + 1, m(k \<mapsto> (show_nat (digits_val v + 1), expiry m k))))),
     rd_expire = (\<lambda>t k e m. Inr (case live m t k of
         None \<Rightarrow> m | Some v \<Rightarrow> m(k \<mapsto> (v, Some (t + e))))),
     rd_ttl = (\<lambda>t k m. Inr (case expiry m k of None \<Rightarrow> -1 | Some e \<Rightarrow> e - t)),
     rd_getdel = (\<lambda>t k m. Inr (live m t k, m(k := None))) \<rparr>"

lemma mem_ops_ok: "redis_ok mem_ops (\<lambda>m. m)"
  by (auto simp: redis_ok_def mem_ops_def split: option.splits)

lemma mem_ops_total:
  "\<exists>v. rd_mget mem_ops t ks m = Inr v" "\<exists>m'. rd_setex mem_ops t k e v m = Inr m'"
  "\<exists>b. rd_set_nx mem_ops t k v e m = Inr b" "\<exists>n. rd_incr mem_ops t k m = Inr n"
  "\<exists>m'. rd_expire mem_ops t k e m = Inr m'" "\<exists>n. rd_ttl mem_ops t k m = Inr n"
  "\<exists>v. rd_getdel mem_ops t k m = Inr v"
  by (simp_all add: mem_ops_def)

end
