(* ===== verification/Tokens.thy ===== *)
theory Tokens
  imports Models Config RedisStore
begin

text \<open>
  Token claims and their revocation: the token functions of \<open>app/core/security.py\<close> and
  \<open>app/core/token_blocklist.py\<close>. The JWT library, the secret cipher and the random source
  are parameters; Redis is the record of \<open>RedisStore\<close>. Times of claims and of Redis are
  seconds, \<open>iat_ms\<close> is milliseconds.
\<close>

section \<open>Numbers from claims\<close>

text \<open>
  \<open>int(v)\<close>; a decimal text is read with its sign, surrounding white space ignored.
  Underscores between digits, which \<open>int\<close> also accepts, do not occur in claims.
\<close>

definition parse_int :: "string \<Rightarrow> int option" where
  "parse_int s =
     (let t = strip s;
          (neg, d) = (if starts_with ''-'' t then (True, drop 1 t)
                      else if starts_with ''+'' t then (False, drop 1 t) else (False, t))
      in if d = [] \<or> \<not> list_all is_digit d then None
         else Some (if neg then - int (digits_val d) else int (digits_val d)))"

definition rat_trunc :: "rat \<Rightarrow> int" where
  "rat_trunc x = (if 0 \<le> x then \<lfloor>x\<rfloor> else \<lceil>x\<rceil>)"

fun py_int :: "pyval \<Rightarrow> int result" where
  "py_int (PInt i) = Inr i"
| "py_int (PBool b) = Inr (if b then 1 else 0)"
| "py_int (PFloat x) = Inr (rat_trunc x)"
| "py_int (PStr s) = (case parse_int s of None \<Rightarrow> Inl (ValueError s) | Some i \<Rightarrow> Inr i)"
| "py_int _ = Inl TypeError"

text \<open>\<open>float(v)\<close> of a claim, scaled to milliseconds; claims written as text are not floats here.\<close>

fun py_float :: "pyval \<Rightarrow> rat result" where
  "py_float (PInt i) = Inr (of_int i)"
| "py_float (PBool b) = Inr (if b then 1 else 0)"
| "py_float (PFloat x) = Inr x"
| "py_float (PStr s) = (case parse_int s of None \<Rightarrow> Inl (ValueError s) | Some i \<Rightarrow> Inr (of_int i))"
| "py_float _ = Inl TypeError"

definition item :: "jdict \<Rightarrow> string \<Rightarrow> pyval result" where
  "item d k = (case map_of d k of None \<Rightarrow> Inl (KeyError k) | Some v \<Rightarrow> Inr v)"

section \<open>Claims\<close>

record clock =
  ck_sec :: int
  ck_ms :: int

definition reserved_claims :: "string set" where
  "reserved_claims = {''sub'', ''scopes'', ''iat'', ''iat_ms'', ''exp'', ''jti'', ''type'', ''iss'', ''aud''}"

definition access_claims :: "settings \<Rightarrow> clock \<Rightarrow> string \<Rightarrow> string \<Rightarrow> string list \<Rightarrow> jdict \<Rightarrow> jdict result" where
  "access_claims cfg now jti subject scopes extra =
     (if \<exists>k\<in>set (map fst extra). k \<in> reserved_claims
      then Inl (ValueError ''Extra JWT claims cannot override reserved claims'')
      else Inr ([(''sub'', PStr subject), (''scopes'', PList (map PStr scopes)),
        (''iat'', PInt (ck_sec now)), (''iat_ms'', PInt (ck_ms now)),
        (''exp'', PInt (ck_sec now + JWT_ACCESS_TTL_MIN cfg * 60)), (''jti'', PStr jti),
        (''type'', PStr ''access''), (''iss'', PStr (JWT_ISSUER cfg)),
        (''aud'', PStr (JWT_AUDIENCE cfg))] @ extra))"

definition refresh_claims :: "settings \<Rightarrow> clock \<Rightarrow> string \<Rightarrow> string \<Rightarrow> jdict" where
  "refresh_claims cfg now jti subject =
     [(''sub'', PStr subject), (''iat'', PInt (ck_sec now)), (''iat_ms'', PInt (ck_ms now)),
      (''exp'', PInt (ck_sec now + JWT_REFRESH_TTL_DAYS cfg * 86400)), (''jti'', PStr jti),
      (''type'', PStr ''refresh''), (''iss'', PStr (JWT_ISSUER cfg)),
      (''aud'', PStr (JWT_AUDIENCE cfg))]"

text \<open>The JWT library: signing a payload, and verifying a token at a time of the clock.\<close>

record jwt_lib =
  jwt_encode :: "jdict \<Rightarrow> string"
  jwt_decode :: "clock \<Rightarrow> string \<Rightarrow> jdict option"

definition create_access_token :: "jwt_lib \<Rightarrow> settings \<Rightarrow> clock \<Rightarrow> string \<Rightarrow> string \<Rightarrow> string list \<Rightarrow> jdict \<Rightarrow> string result" where
  "create_access_token jwt cfg now jti subject scopes extra =
     rbind (access_claims cfg now jti subject scopes extra) (\<lambda>p. Inr (jwt_encode jwt p))"

definition create_refresh_token :: "jwt_lib \<Rightarrow> settings \<Rightarrow> clock \<Rightarrow> string \<Rightarrow> string \<Rightarrow> string" where
  "create_refresh_token jwt cfg now jti subject = jwt_encode jwt (refresh_claims cfg now jti subject)"

definition decode_token :: "jwt_lib \<Rightarrow> clock \<Rightarrow> string \<Rightarrow> jdict result" where
  "decode_token jwt now token =
     (case jwt_decode jwt now token of None \<Rightarrow> Inl (ValueError ''Invalid token'') | Some p \<Rightarrow> Inr p)"

section \<open>Protected MFA secrets\<close>

record cipher =
  encrypt_secret :: "string \<Rightarrow> string \<Rightarrow> string result"
  decrypt_secret :: "string \<Rightarrow> string \<Rightarrow> string result"

text \<open>
  The promise of the cipher module: what was encrypted with a salt decrypts with it, and
  Fernet's text is URL-safe base64, so it has no colon, as the generated salts have none.
\<close>

definition cipher_ok :: "cipher \<Rightarrow> bool" where
  "cipher_ok c = (\<forall>p s ct. encrypt_secret c p s = Inr ct \<longrightarrow> decrypt_secret c ct s = Inr p)"

definition protect_mfa_secret :: "cipher \<Rightarrow> string \<Rightarrow> string \<Rightarrow> string result" where
  "protect_mfa_secret c salt secret =
     rbind (encrypt_secret c secret salt) (\<lambda>ct. Inr (''v1:'' @ salt @ '':'' @ ct))"

definition mfa_secret_is_protected :: "string \<Rightarrow> bool" where
  "mfa_secret_is_protected s = starts_with ''v1:'' s"

text \<open>\<open>s.split(":", 2)\<close>: at most two cuts; fewer than three parts do not unpack.\<close>

definition reveal_mfa_secret :: "cipher \<Rightarrow> string \<Rightarrow> string result" where
  "reveal_mfa_secret c s =
     (if \<not> mfa_secret_is_protected s then Inr s
      else case split_on (CHR '':'') s of
        v # salt # p # ps \<Rightarrow> decrypt_secret c (join '':'' (p # ps)) salt
      | _ \<Rightarrow> Inl (ValueError ''not enough values to unpack''))"

text \<open>\<open>verify_mfa\<close> with the TOTP check of the authenticator library as a parameter.\<close>

definition verify_mfa :: "cipher \<Rightarrow> (string \<Rightarrow> string \<Rightarrow> bool) \<Rightarrow> string \<Rightarrow> string \<Rightarrow> bool result" where
  "verify_mfa c totp secret code = rbind (reveal_mfa_secret c secret) (\<lambda>s. Inr (totp s code))"

lemma reveal_protect:
  assumes "cipher_ok c" "CHR '':'' \<notin> set salt" "protect_mfa_secret c salt secret = Inr p"
  shows "reveal_mfa_secret c p = Inr secret"
proof -
  obtain ct where ct: "encrypt_secret c secret salt = Inr ct" "p = ''v1:'' @ salt @ '':'' @ ct"
    using assms(3) by (auto simp: protect_mfa_secret_def rbind_eq_Inr)
  have "CHR '':'' \<notin> set ''v1''" by simp
  then have "split_on (CHR '':'') p = ''v1'' # salt # split_on (CHR '':'') ct"
    using split_on_append [of "CHR '':''" "''v1''" "salt @ CHR '':'' # ct"]
      split_on_append [OF assms(2), of ct] ct(2) by simp
  moreover obtain w ws where "split_on (CHR '':'') ct = w # ws" by (cases "split_on (CHR '':'') ct") auto
  moreover have "join '':'' (split_on (CHR '':'') ct) = ct" by (rule join_split_on)
  ultimately show ?thesis
    using assms(1) ct by (simp add: reveal_mfa_secret_def mfa_secret_is_protected_def
        starts_with_def cipher_ok_def)
qed

section \<open>Revocation\<close>

definition ttl_of :: "clock \<Rightarrow> jdict \<Rightarrow> int" where
  "ttl_of now payload =
     (case rbind (item payload ''exp'') py_int of
        Inr e \<Rightarrow> max 1 (e - ck_sec now)
      | Inl (KeyError k) \<Rightarrow> 1 | Inl TypeError \<Rightarrow> 1 | Inl (ValueError s) \<Rightarrow> 1
      | Inl _ \<Rightarrow> 1)"

definition issued_at_ms :: "jdict \<Rightarrow> int" where
  "issued_at_ms payload =
     (case (if py_truthy (jget payload ''iat_ms'') then py_int (jget payload ''iat_ms'')
            else rbind (item payload ''iat'') (\<lambda>v. rbind (py_float v) (\<lambda>x. Inr (rat_trunc (x * 1000)))))
      of Inr n \<Rightarrow> n | Inl e \<Rightarrow> 0)"

text \<open>A claim inside an f-string; the JWT library only accepts texts as \<open>sub\<close> and \<open>jti\<close>.\<close>

fun claim_str :: "pyval \<Rightarrow> string" where
  "claim_str (PStr s) = s"
| "claim_str (PInt i) = show_int i"
| "claim_str (PBool b) = (if b then ''True'' else ''False'')"
| "claim_str _ = []"

definition revoked_key :: "string \<Rightarrow> string" where "revoked_key jti = ''token:revoked:'' @ jti"

definition revoked_after_key :: "string \<Rightarrow> string" where
  "revoked_after_key subject = ''token:revoked_after:'' @ subject"

definition is_token_revoked :: "'r redis_ops \<Rightarrow> clock \<Rightarrow> jdict \<Rightarrow> 'r \<Rightarrow> bool result" where
  "is_token_revoked ops now payload r =
     (let jti = jget payload ''jti''; subject = jget payload ''sub''
      in if \<not> py_truthy jti \<or> \<not> py_truthy subject then Inr True
         else case rd_mget ops (ck_sec now)
                [revoked_key (claim_str jti), revoked_after_key (claim_str subject)] r of
           Inr [revoked_jti, revoked_after] \<Rightarrow>
             if truthy_str revoked_jti then Inr True
             else if truthy_str revoked_after
             then (case parse_int (the revoked_after) of
                     None \<Rightarrow> Inl TokenBlocklistUnavailable
                   | Some ms \<Rightarrow> Inr (issued_at_ms payload \<le> ms))
             else Inr False
         | _ \<Rightarrow> Inl TokenBlocklistUnavailable)"

definition revoke_token :: "'r redis_ops \<Rightarrow> clock \<Rightarrow> jdict \<Rightarrow> 'r \<Rightarrow> 'r result" where
  "revoke_token ops now payload r =
     (let jti = jget payload ''jti''
      in if \<not> py_truthy jti then Inr r
         else case rd_setex ops (ck_sec now) (revoked_key (claim_str jti)) (ttl_of now payload) ''1'' r of
           Inr r' \<Rightarrow> Inr r' | Inl e \<Rightarrow> Inl TokenBlocklistUnavailable)"

definition consume_refresh_token :: "'r redis_ops \<Rightarrow> clock \<Rightarrow> jdict \<Rightarrow> 'r \<Rightarrow> (bool \<times> 'r) result" where
  "consume_refresh_token ops now payload r =
     rbind (is_token_revoked ops now payload r) (\<lambda>revoked.
       if revoked then Inr (False, r)
       else
         let jti = jget payload ''jti''
         in if \<not> py_truthy jti then Inr (False, r)
            else case rd_set_nx ops (ck_sec now) (revoked_key (claim_str jti)) ''refresh_consumed''
                        (ttl_of now payload) r of
              Inr (b, r') \<Rightarrow> Inr (b, r') | Inl e \<Rightarrow> Inl TokenBlocklistUnavailable)"

definition revoke_user_tokens :: "'r redis_ops \<Rightarrow> settings \<Rightarrow> clock \<Rightarrow> string \<Rightarrow> 'r \<Rightarrow> 'r result" where
  "revoke_user_tokens ops cfg now user_id r =
     (let retention = JWT_REFRESH_TTL_DAYS cfg * 24 * 60 * 60 + 60
      in case rd_setex ops (ck_sec now) (revoked_after_key user_id) retention (show_int (ck_ms now)) r of
           Inr r' \<Rightarrow> Inr r' | Inl e \<Rightarrow> Inl TokenBlocklistUnavailable)"

section \<open>Runs of the blocklist\<close>

text \<open>
  The operations of the module as steps of the clock and the store. Clocks do not run
  backwards. The payloads come from a set of issued tokens.
\<close>

inductive bl_step :: "'r redis_ops \<Rightarrow> settings \<Rightarrow> jdict set \<Rightarrow> clock \<times> 'r \<Rightarrow> clock \<times> 'r \<Rightarrow> bool"
  for ops cfg T where
  tick: "ck_sec now \<le> ck_sec now' \<Longrightarrow> ck_ms now \<le> ck_ms now' \<Longrightarrow> bl_step ops cfg T (now, r) (now', r)"
| revoke: "p \<in> T \<Longrightarrow> revoke_token ops now p r = Inr r' \<Longrightarrow> bl_step ops cfg T (now, r) (now, r')"
| consume: "p \<in> T \<Longrightarrow> consume_refresh_token ops now p r = Inr (b, r') \<Longrightarrow>
    bl_step ops cfg T (now, r) (now, r')"
| revoke_all: "revoke_user_tokens ops cfg now u r = Inr r' \<Longrightarrow> bl_step ops cfg T (now, r) (now, r')"

inductive bl_run :: "'r redis_ops \<Rightarrow> settings \<Rightarrow> jdict set \<Rightarrow> clock \<times> 'r \<Rightarrow> clock \<times> 'r \<Rightarrow> bool"
  for ops cfg T where
  refl: "bl_run ops cfg T s s"
| step: "bl_run ops cfg T s s' \<Longrightarrow> bl_step ops cfg T s' s'' \<Longrightarrow> bl_run ops cfg T s s''"

inductive_cases bl_stepE: "bl_step ops cfg T (now, r) (now', r')"

lemma bl_run_invariant:
  assumes "bl_run ops cfg T s s'" "P s" "\<And>u v. P u \<Longrightarrow> bl_step ops cfg T u v \<Longrightarrow> P v"
  shows "P s'"
  using assms by (induction rule: bl_run.induct) auto

lemma revoke_token_cases:
  assumes "revoke_token ops now p r = Inr r'"
  shows "r' = r \<or> rd_setex ops (ck_sec now) (revoked_key (claim_str (jget p ''jti''))) (ttl_of now p) ''1'' r = Inr r'"
  using assms by (auto simp: revoke_token_def Let_def split: if_splits sum.splits)

lemma consume_cases:
  assumes "consume_refresh_token ops now p r = Inr (b, r')"
  shows "(r' = r \<and> \<not> b) \<or>
    rd_set_nx ops (ck_sec now) (revoked_key (claim_str (jget p ''jti''))) ''refresh_consumed''
      (ttl_of now p) r = Inr (b, r')"
  using assms
  by (auto simp: consume_refresh_token_def Let_def rbind_eq_Inr split: if_splits sum.splits)

lemma revoke_user_setex:
  "revoke_user_tokens ops cfg now u r = Inr r' \<Longrightarrow>
   rd_setex ops (ck_sec now) (revoked_after_key u) (JWT_REFRESH_TTL_DAYS cfg * 24 * 60 * 60 + 60)
     (show_int (ck_ms now)) r = Inr r'"
  by (auto simp: revoke_user_tokens_def Let_def split: sum.splits)

lemma keys_apart: "revoked_key a \<noteq> revoked_after_key b"
  by (simp add: revoked_key_def revoked_after_key_def)

lemma keys_inj: "revoked_key a = revoked_key b \<longleftrightarrow> a = b" "revoked_after_key a = revoked_after_key b \<longleftrightarrow> a = b"
  by (simp_all add: revoked_key_def revoked_after_key_def)

text \<open>The expiry claim of a token, as \<open>ttl_of\<close> reads it.\<close>

definition exp_claim :: "jdict \<Rightarrow> int result" where
  "exp_claim p = rbind (item p ''exp'') py_int"

lemma ttl_of_covers: "exp_claim p = Inr e \<Longrightarrow> e \<le> ck_sec now + ttl_of now p \<and> 1 \<le> ttl_of now p"
  by (simp add: exp_claim_def ttl_of_def)

lemma ttl_of_pos: "1 \<le> ttl_of now p"
  by (auto simp: ttl_of_def split: sum.splits exn.splits)

text \<open>The mark of a used or revoked token stays at least until the token expires.\<close>

definition marked_until :: "('r \<Rightarrow> string \<rightharpoonup> entry) \<Rightarrow> string \<Rightarrow> int \<Rightarrow> 'r \<Rightarrow> bool" where
  "marked_until ent jti e r =
     (\<exists>v x. ent r (revoked_key jti) = Some (v, Some x) \<and> v \<noteq> [] \<and> e \<le> x)"

lemma marked_setex:
  assumes "redis_ok ops ent" "rd_setex ops t k d v r = Inr r'" "marked_until ent jti e r"
    and "k = revoked_key jti \<Longrightarrow> v \<noteq> [] \<and> e \<le> t + d"
  shows "marked_until ent jti e r'"
  using redis_setex [OF assms(1,2)] assms(3,4) by (auto simp: marked_until_def)

lemma marked_set_nx:
  assumes "redis_ok ops ent" "rd_set_nx ops t k v d r = Inr (b, r')" "marked_until ent jti e r"
    and "v \<noteq> []" "1 \<le> d"
  shows "marked_until ent jti e r'"
proof (cases "k = revoked_key jti \<and> live (ent r) t k = None")
  case True
  then have "ent r' = (ent r)(k \<mapsto> (v, Some (t + d)))" using redis_set_nx [OF assms(1,2)] by auto
  moreover obtain w x where "ent r k = Some (w, Some x)" "e \<le> x"
    using assms(3) True by (auto simp: marked_until_def)
  moreover have "x \<le> t" using calculation(2) True by (auto simp: live_def split: if_splits)
  ultimately show ?thesis using True assms(4,5) by (auto simp: marked_until_def)
next
  case False
  then show ?thesis using redis_set_nx [OF assms(1,2)] assms(3)
    by (auto simp: marked_until_def split: if_splits)
qed

lemma marked_step:
  assumes ok: "redis_ok ops ent" and "bl_step ops cfg T (now, r) (now', r')"
    and "marked_until ent jti e r"
    and T: "\<And>p. p \<in> T \<Longrightarrow> claim_str (jget p ''jti'') = jti \<Longrightarrow> exp_claim p = Inr e"
  shows "marked_until ent jti e r'"
  using assms(2)
proof (cases rule: bl_stepE [consumes 1, case_names tick revoke consume revoke_all])
  case (revoke p)
  from revoke_token_cases [OF revoke(3)] show ?thesis
  proof
    assume "rd_setex ops (ck_sec now) (revoked_key (claim_str (jget p ''jti''))) (ttl_of now p) ''1'' r = Inr r'"
    then show ?thesis
    proof (rule marked_setex [OF ok _ assms(3)])
      assume "revoked_key (claim_str (jget p ''jti'')) = revoked_key jti"
      then have "exp_claim p = Inr e" using T [OF revoke(2)] by (simp add: keys_inj)
      from ttl_of_covers [OF this] show "''1'' \<noteq> [] \<and> e \<le> ck_sec now + ttl_of now p" by simp
    qed
  qed (use assms(3) in simp)
next
  case (consume p b)
  from consume_cases [OF consume(3)] show ?thesis
    using marked_set_nx [OF ok _ assms(3) _ ttl_of_pos] assms(3) by auto
next
  case (revoke_all u)
  from revoke_user_setex [OF revoke_all(2)] show ?thesis
    using marked_setex [OF ok _ assms(3)] keys_apart by metis
qed (use assms(3) in simp)

lemma consume_once:
  assumes "redis_ok ops ent"
    and "consume_refresh_token ops now p r = Inr (True, r1)"
    and "bl_run ops cfg T (now, r1) (now2, r2)"
    and "exp_claim p = Inr e" and "ck_sec now2 < e"
    and "\<And>q. q \<in> T \<Longrightarrow> claim_str (jget q ''jti'') = claim_str (jget p ''jti'') \<Longrightarrow> exp_claim q = Inr e"
  shows "consume_refresh_token ops now2 p r2 \<noteq> Inr (True, r3)"
proof -
  let ?jti = "claim_str (jget p ''jti'')"
  have nx: "rd_set_nx ops (ck_sec now) (revoked_key ?jti) ''refresh_consumed'' (ttl_of now p) r = Inr (True, r1)"
    using consume_cases [OF assms(2)] by simp
  have "marked_until ent ?jti e r1"
    using redis_set_nx [OF assms(1) nx] ttl_of_covers [OF assms(4), of now]
    by (auto simp: marked_until_def split: if_splits)
  then have "marked_until ent ?jti e (snd (now2, r2))"
    using bl_run_invariant [OF assms(3), of "\<lambda>s. marked_until ent ?jti e (snd s)"]
      marked_step [OF assms(1) _ _ assms(6)] by (metis prod.collapse snd_conv)
  then have "live (ent r2) (ck_sec now2) (revoked_key ?jti) \<noteq> None"
    using assms(5) by (auto simp: marked_until_def live_def)
  then show ?thesis
    using consume_cases [of ops now2 p r2 True r3] redis_set_nx [OF assms(1)] by fastforce
qed

text \<open>
  C1: A refresh token works once. After it has been consumed, no sequence of revocations,
  consumptions and clock ticks leads to a state in which it could be consumed again before
  it expires, provided no other token bears its identifier with another expiry.
\<close>

theorem refresh_token_single_use:
  assumes "redis_ok ops ent"
    and "consume_refresh_token ops now p r = Inr (True, r1)"
    and "bl_run ops cfg T (now, r1) (now2, r2)"
    and "exp_claim p = Inr e" and "ck_sec now2 < e"
    and "\<And>q. q \<in> T \<Longrightarrow> claim_str (jget q ''jti'') = claim_str (jget p ''jti'') \<Longrightarrow> exp_claim q = Inr e"
  shows "consume_refresh_token ops now2 p r2 \<noteq> Inr (True, r3)"
  using assms by (rule consume_once)

definition clock0 :: clock where "clock0 = \<lparr> ck_sec = 1000, ck_ms = 1000000 \<rparr>"

definition clock1 :: clock where "clock1 = \<lparr> ck_sec = 2000, ck_ms = 2000000 \<rparr>"

definition sample_refresh :: jdict where
  "sample_refresh = refresh_claims (default_settings [] [] []) clock0 ''j1'' ''7''"

definition sample_store :: "string \<rightharpoonup> entry" where
  "sample_store = [revoked_key ''j1'' \<mapsto> (''refresh_consumed'', Some 605800)]"

lemmas sample_token_simps =
  sample_refresh_def sample_store_def refresh_claims_def default_settings_def clock0_def clock1_def
  jget_def item_def exp_claim_def ttl_of_def

theorem refresh_token_single_use_witness:
  "consume_refresh_token mem_ops clock1 sample_refresh sample_store \<noteq> Inr (True, sample_store)"
proof (rule refresh_token_single_use [where ent = "\<lambda>m. m" and T = "{sample_refresh}" and e = 605800])
  show "redis_ok mem_ops (\<lambda>m. m)" by (rule mem_ops_ok)
  show "consume_refresh_token mem_ops clock0 sample_refresh Map.empty = Inr (True, sample_store)"
    by (simp add: consume_refresh_token_def is_token_revoked_def mem_ops_def live_def sample_token_simps)
  have "bl_step mem_ops (default_settings [] [] []) {sample_refresh} (clock0, sample_store) (clock1, sample_store)"
    by (rule bl_step.tick) (simp_all add: clock0_def clock1_def)
  then show "bl_run mem_ops (default_settings [] [] []) {sample_refresh} (clock0, sample_store) (clock1, sample_store)"
    by (rule bl_run.step [OF bl_run.refl])
  show "exp_claim sample_refresh = Inr 605800" by (simp add: sample_token_simps)
  show "ck_sec clock1 < 605800" by (simp add: clock1_def)
qed (simp add: sample_token_simps)

text \<open>Reading back a printed integer.\<close>

lemma digit_not_space: "is_digit c \<Longrightarrow> \<not> is_space c \<and> c \<noteq> CHR ''-'' \<and> c \<noteq> CHR ''+''"
  by (auto simp: is_digit_def is_space_def Let_def char_code_def)

lemma parse_int_show_nat: "parse_int (show_nat n) = Some (int n)"
proof -
  have d: "\<forall>c\<in>set (show_nat n). is_digit c" using show_nat_digits by blast
  then have "is_digit (hd (show_nat n))" "is_digit (last (show_nat n))" by simp_all
  then have s: "strip (show_nat n) = show_nat n" using digit_not_space by (intro strip_id) blast
  have "\<not> starts_with ''-'' (show_nat n)" "\<not> starts_with ''+'' (show_nat n)"
    using \<open>is_digit (hd (show_nat n))\<close> digit_not_space by (fastforce simp: starts_with_iff)+
  then show ?thesis using d by (simp add: parse_int_def s list_all_iff)
qed

lemma parse_int_show_int: "parse_int (show_int i) = Some i"
proof (cases "i < 0")
  case True
  let ?d = "show_nat (nat (- i))"
  have d: "\<forall>c\<in>set ?d. is_digit c" using show_nat_digits by blast
  then have "is_digit (last ?d)" by simp
  then have s: "strip (CHR ''-'' # ?d) = CHR ''-'' # ?d"
    using digit_not_space by (intro strip_id) (auto simp: is_space_def char_code_def)
  show ?thesis using True d
    by (simp add: parse_int_def show_int_def s starts_with_def list_all_iff)
qed (simp add: show_int_def parse_int_show_nat)

lemma show_int_not_Nil: "show_int i \<noteq> []"
  by (simp add: show_int_def)

text \<open>The revocation instant of a user is kept, or moved forward, for the retention time.\<close>

definition retention :: "settings \<Rightarrow> int" where
  "retention cfg = JWT_REFRESH_TTL_DAYS cfg * 24 * 60 * 60 + 60"

definition revoked_from :: "('r \<Rightarrow> string \<rightharpoonup> entry) \<Rightarrow> settings \<Rightarrow> string \<Rightarrow> clock \<Rightarrow> clock \<times> 'r \<Rightarrow> bool" where
  "revoked_from ent cfg u now0 s =
     (ck_ms now0 \<le> ck_ms (fst s) \<and> ck_sec now0 \<le> ck_sec (fst s)
      \<and> (\<exists>ms x. ent (snd s) (revoked_after_key u) = Some (show_int ms, Some x)
             \<and> ck_ms now0 \<le> ms \<and> ck_sec now0 + retention cfg \<le> x))"

lemma revoked_from_other:
  assumes "revoked_from ent cfg u now0 (now, r)" "ent r' (revoked_after_key u) = ent r (revoked_after_key u)"
  shows "revoked_from ent cfg u now0 (now, r')"
  using assms by (simp add: revoked_from_def)

lemma revoked_from_step:
  assumes ok: "redis_ok ops ent" and "bl_step ops cfg T (now, r) (now', r')"
    and inv: "revoked_from ent cfg u now0 (now, r)"
  shows "revoked_from ent cfg u now0 (now', r')"
  using assms(2)
proof (cases rule: bl_stepE [consumes 1, case_names tick revoke consume revoke_all])
  case tick
  then show ?thesis using inv by (auto simp: revoked_from_def)
next
  case (revoke p)
  have "ent r' (revoked_after_key u) = ent r (revoked_after_key u)"
    using revoke_token_cases [OF revoke(3)]
    by (auto dest!: redis_setex [OF ok] simp: keys_apart [symmetric])
  with revoked_from_other [OF inv this] show ?thesis using revoke(1) by simp
next
  case (consume p b)
  have "ent r' (revoked_after_key u) = ent r (revoked_after_key u)"
    using consume_cases [OF consume(3)]
    by (auto dest!: redis_set_nx [OF ok] simp: keys_apart [symmetric] split: if_splits)
  with revoked_from_other [OF inv this] show ?thesis using consume(1) by simp
next
  case (revoke_all v)
  have e: "ent r' = (ent r)(revoked_after_key v \<mapsto> (show_int (ck_ms now), Some (ck_sec now + retention cfg)))"
    using redis_setex [OF ok revoke_user_setex [OF revoke_all(2)]] by (simp add: retention_def)
  show ?thesis
  proof (cases "v = u")
    case True
    then show ?thesis using inv e revoke_all(1) by (auto simp: revoked_from_def)
  next
    case False
    then show ?thesis using inv e revoke_all(1) by (auto simp: revoked_from_def keys_inj)
  qed
qed

lemma revoked_after_run:
  assumes "redis_ok ops ent"
    and "revoke_user_tokens ops cfg now u r = Inr r1"
    and "bl_run ops cfg T (now, r1) (now2, r2)"
    and "ck_sec now2 < ck_sec now + retention cfg"
    and "jget p ''sub'' = PStr u" and "issued_at_ms p \<le> ck_ms now"
  shows "is_token_revoked ops now2 p r2 \<noteq> Inr False"
proof
  assume res: "is_token_revoked ops now2 p r2 = Inr False"
  have "ent r1 = (ent r)(revoked_after_key u \<mapsto> (show_int (ck_ms now), Some (ck_sec now + retention cfg)))"
    using redis_setex [OF assms(1) revoke_user_setex [OF assms(2)]] by (simp add: retention_def)
  then have "revoked_from ent cfg u now (now, r1)" by (auto simp: revoked_from_def)
  then have "revoked_from ent cfg u now (now2, r2)"
    using bl_run_invariant [OF assms(3), of "revoked_from ent cfg u now"] revoked_from_step [OF assms(1)]
    by (metis prod.collapse)
  then obtain ms where ms: "live (ent r2) (ck_sec now2) (revoked_after_key u) = Some (show_int ms)"
    "ck_ms now \<le> ms"
    using assms(4) by (auto simp: revoked_from_def live_def)
  show False
  proof (cases "py_truthy (jget p ''jti'') \<and> py_truthy (jget p ''sub'')")
    case False
    then show ?thesis using res by (auto simp: is_token_revoked_def Let_def)
  next
    case True
    let ?ks = "[revoked_key (claim_str (jget p ''jti'')), revoked_after_key u]"
    show ?thesis
    proof (cases "rd_mget ops (ck_sec now2) ?ks r2")
      case (Inr vs)
      with redis_mget [OF assms(1) this] ms res True assms(5,6) show ?thesis
        by (auto simp: is_token_revoked_def Let_def show_int_not_Nil parse_int_show_int
            split: if_splits)
    qed (use res True assms(5) in \<open>auto simp: is_token_revoked_def Let_def\<close>)
  qed
qed

text \<open>
  C10: Invalidating a user's sessions reaches every token. In every state that follows,
  until the retention time is over, each token of the user issued up to that instant is
  either reported as revoked or cannot be checked, which callers refuse.
\<close>

theorem revoke_user_tokens_final:
  assumes "redis_ok ops ent"
    and "revoke_user_tokens ops cfg now u r = Inr r1"
    and "bl_run ops cfg T (now, r1) (now2, r2)"
    and "ck_sec now2 < ck_sec now + retention cfg"
    and "jget p ''sub'' = PStr u" and "issued_at_ms p \<le> ck_ms now"
  shows "is_token_revoked ops now2 p r2 \<noteq> Inr False"
  using assms by (rule revoked_after_run)

theorem revoke_user_tokens_final_witness:
  "is_token_revoked mem_ops clock1 sample_refresh
     [revoked_after_key ''7'' \<mapsto> (show_int 1000000, Some 605860)] \<noteq> Inr False"
proof (rule revoke_user_tokens_final [where ent = "\<lambda>m. m" and T = "{}" and u = "''7''" and now = clock0
      and cfg = "default_settings [] [] []" and r = Map.empty])
  show "redis_ok mem_ops (\<lambda>m. m)" by (rule mem_ops_ok)
  show "revoke_user_tokens mem_ops (default_settings [] [] []) clock0 ''7'' Map.empty
    = Inr [revoked_after_key ''7'' \<mapsto> (show_int 1000000, Some 605860)]"
    by (simp add: revoke_user_tokens_def mem_ops_def sample_token_simps)
  show "bl_run mem_ops (default_settings [] [] []) {}
      (clock0, [revoked_after_key ''7'' \<mapsto> (show_int 1000000, Some 605860)])
      (clock1, [revoked_after_key ''7'' \<mapsto> (show_int 1000000, Some 605860)])"
    by (rule bl_run.step [OF bl_run.refl bl_step.tick]) (simp_all add: clock0_def clock1_def)
qed (simp_all add: retention_def issued_at_ms_def sample_token_simps)

end
