(* ===== verification/Access.thy ===== *)
theory Access
  imports NetPolicy Pii Tokens
begin

text \<open>
  Who may do what: the audit entry, the principals and the guards of \<open>app/api/deps.py\<close>,
  \<open>app/core/api_token_auth.py\<close>, the rate limits of \<open>app/core/rate_limit.py\<close> and
  \<open>app/core/password_policy.py\<close>. A guard returns the principal or the exception that ends
  the request, with the database it leaves. Identifiers are rendered in decimal, times are
  microseconds, and a request reads the clock once.
\<close>

section \<open>The services a request uses\<close>

record 'r env =
  env_cfg :: settings
  env_sha :: "string \<Rightarrow> string"
  env_verify :: "string \<Rightarrow> string \<Rightarrow> bool"
  env_hash :: "string \<Rightarrow> string"
  env_totp :: "string \<Rightarrow> string \<Rightarrow> bool"
  env_cipher :: cipher
  env_jwt :: jwt_lib
  env_redis :: "'r redis_ops"

definition clock_of :: "int \<Rightarrow> clock" where
  "clock_of now = \<lparr> ck_sec = now div 1000000, ck_ms = now div 1000 \<rparr>"

definition uuid_str :: "nat \<Rightarrow> string" where "uuid_str i = show_nat i"

lemma uuid_str_inj [simp]: "uuid_str i = uuid_str j \<longleftrightarrow> i = j"
  by (simp add: uuid_str_def show_nat_inj)

section \<open>Principals and the audit entry\<close>

datatype principal =
    JwtUser user
  | ServiceToken string nat

text \<open>The \<open>username\<close> and \<open>id\<close> attributes of a principal; a service token has no user id.\<close>

fun p_username :: "principal \<Rightarrow> string" where
  "p_username (JwtUser u) = u_username u"
| "p_username (ServiceToken name i) = ''api_token:'' @ name"

fun p_id :: "principal \<Rightarrow> nat option" where
  "p_id (JwtUser u) = Some (u_id u)"
| "p_id (ServiceToken name i) = None"

definition audit_details :: "(string \<Rightarrow> string) \<Rightarrow> http_request \<Rightarrow> jdict \<Rightarrow> jdict" where
  "audit_details sha rq details =
     redact_dict sha (jset ''source_ip_hash''
       (case rq_client_host rq of None \<Rightarrow> PNone | Some h \<Rightarrow> PStr (hash_value sha h ''audit-ip''))
       details)"

definition audit :: "(string \<Rightarrow> string) \<Rightarrow> int \<Rightarrow> http_request \<Rightarrow> string \<Rightarrow> principal option \<Rightarrow>
    string option \<Rightarrow> string option \<Rightarrow> string \<Rightarrow> jdict \<Rightarrow> db \<Rightarrow> db" where
  "audit sha now rq action who resource_type resource_id severity details d =
     (let (i, d) = fresh_id d;
          entry = (new_audit_log i now)\<lparr>
            lg_username := map_option p_username who,
            lg_user_id := (case who of None \<Rightarrow> None | Some p \<Rightarrow> p_id p),
            lg_action := action, lg_resource_type := resource_type, lg_resource_id := resource_id,
            lg_ip_address := None,
            lg_user_agent := Some (take 512 (mask_user_agent
              (case rq_user_agent rq of None \<Rightarrow> [] | Some ua \<Rightarrow> ua))),
            lg_severity := severity,
            lg_details := audit_details sha rq details \<rparr>
      in d\<lparr>audit_log_rows := audit_log_rows d @ [entry]\<rparr>)"

text \<open>Auditing touches the audit table and the identifier supply only.\<close>

lemma audit_frame [simp]:
  "users (audit sha now rq ac who rt ri sv dt d) = users d"
  "assets (audit sha now rq ac who rt ri sv dt d) = assets d"
  "alerts (audit sha now rq ac who rt ri sv dt d) = alerts d"
  "api_tokens (audit sha now rq ac who rt ri sv dt d) = api_tokens d"
  "webhooks (audit sha now rq ac who rt ri sv dt d) = webhooks d"
  "integrations (audit sha now rq ac who rt ri sv dt d) = integrations d"
  "scan_networks (audit sha now rq ac who rt ri sv dt d) = scan_networks d"
  "update_proposals (audit sha now rq ac who rt ri sv dt d) = update_proposals d"
  "dependency_findings (audit sha now rq ac who rt ri sv dt d) = dependency_findings d"
  "platform_dependencies (audit sha now rq ac who rt ri sv dt d) = platform_dependencies d"
  "settings_rows (audit sha now rq ac who rt ri sv dt d) = settings_rows d"
  "asset_cves (audit sha now rq ac who rt ri sv dt d) = asset_cves d"
  "cves (audit sha now rq ac who rt ri sv dt d) = cves d"
  "scans (audit sha now rq ac who rt ri sv dt d) = scans d"
  "compliance_mappings (audit sha now rq ac who rt ri sv dt d) = compliance_mappings d"
  "framework_catalogs (audit sha now rq ac who rt ri sv dt d) = framework_catalogs d"
  "framework_controls (audit sha now rq ac who rt ri sv dt d) = framework_controls d"
  "assessment_runs (audit sha now rq ac who rt ri sv dt d) = assessment_runs d"
  "assessment_results (audit sha now rq ac who rt ri sv dt d) = assessment_results d"
  "evidence_items (audit sha now rq ac who rt ri sv dt d) = evidence_items d"
  "assessment_evidences (audit sha now rq ac who rt ri sv dt d) = assessment_evidences d"
  by (simp_all add: audit_def fresh_id_def Let_def)

lemma audit_rows:
  "\<exists>e. audit_log_rows (audit sha now rq ac who rt ri sv dt d) = audit_log_rows d @ [e]
     \<and> lg_action e = ac \<and> lg_username e = map_option p_username who \<and> lg_severity e = sv
     \<and> lg_ip_address e = None \<and> lg_timestamp e = now \<and> lg_id e = next_id d
     \<and> clean (PDict (lg_details e))"
proof -
  have "clean (PDict (audit_details sha rq dt))"
    using redact_pii_clean [of sha "PDict (jset ''source_ip_hash'' (case rq_client_host rq of
        None \<Rightarrow> PNone | Some h \<Rightarrow> PStr (hash_value sha h ''audit-ip'')) dt)"]
    by (simp add: audit_details_def redact_dict_def)
  then show ?thesis by (simp add: audit_def fresh_id_def Let_def new_audit_log_def)
qed

section \<open>Service tokens\<close>

fun try_candidates :: "(string \<Rightarrow> string \<Rightarrow> bool) \<Rightarrow> int \<Rightarrow> string \<Rightarrow> api_token list \<Rightarrow> api_token option" where
  "try_candidates verify now token [] = None"
| "try_candidates verify now token (c # cs) =
     (if (case tk_expires_at c of None \<Rightarrow> False | Some e \<Rightarrow> e < now)
      then try_candidates verify now token cs
      else if verify token (tk_token_hash c) then Some c
      else try_candidates verify now token cs)"

definition touch_token :: "int \<Rightarrow> api_token \<Rightarrow> api_token" where
  "touch_token now t = t\<lparr>tk_last_used := Some now, tk_usage_count := tk_usage_count t + 1\<rparr>"

definition verify_api_token :: "(string \<Rightarrow> string \<Rightarrow> bool) \<Rightarrow> int \<Rightarrow> string \<Rightarrow> db \<Rightarrow> api_token option \<times> db" where
  "verify_api_token verify now token d =
     (if token = [] \<or> \<not> starts_with ''kpx_'' token then (None, d)
      else
        case try_candidates verify now token
               (filter (\<lambda>t. tk_token_prefix t = take 12 token \<and> \<not> tk_revoked t) (api_tokens d)) of
          None \<Rightarrow> (None, d)
        | Some c \<Rightarrow>
            (Some (touch_token now c),
             d\<lparr>api_tokens := update_where (\<lambda>t. tk_id t = tk_id c) (touch_token now) (api_tokens d)\<rparr>))"

lemma try_candidates_Some:
  "try_candidates verify now token cs = Some c \<Longrightarrow>
   c \<in> set cs \<and> verify token (tk_token_hash c)
   \<and> (case tk_expires_at c of None \<Rightarrow> True | Some e \<Rightarrow> now \<le> e)"
  by (induction cs) (auto split: if_splits option.splits)

section \<open>Users of access tokens\<close>

definition jwt_user :: "'r env \<Rightarrow> int \<Rightarrow> string \<Rightarrow> 'r \<Rightarrow> db \<Rightarrow> user result" where
  "jwt_user env now token r d =
     (case decode_token (env_jwt env) (clock_of now) token of
        Inl (ValueError m) \<Rightarrow> Inl (HTTPException 401 m)
      | Inl e \<Rightarrow> Inl e
      | Inr payload \<Rightarrow>
          if jget payload ''type'' \<noteq> PStr ''access'' then Inl (HTTPException 401 ''Invalid token type'')
          else if \<not> py_truthy (jget payload ''sub'') then Inl (HTTPException 401 ''Invalid token'')
          else case is_token_revoked (env_redis env) (clock_of now) payload r of
            Inl TokenBlocklistUnavailable \<Rightarrow> Inl (HTTPException 503 ''Authentication service unavailable'')
          | Inl e \<Rightarrow> Inl e
          | Inr True \<Rightarrow> Inl (HTTPException 401 ''Token revoked'')
          | Inr False \<Rightarrow>
              rbind (scalar_one_or_none
                  (filter (\<lambda>u. PStr (uuid_str (u_id u)) = jget payload ''sub'') (users d)))
                (\<lambda>u. case u of
                   None \<Rightarrow> Inl (HTTPException 401 ''User inactive'')
                 | Some u \<Rightarrow> if u_is_active u then Inr u else Inl (HTTPException 401 ''User inactive'')))"

lemma jwt_user_Inr:
  assumes "jwt_user env now token r d = Inr u"
  shows "u \<in> set (users d) \<and> u_is_active u \<and> (\<exists>p. jwt_decode (env_jwt env) (clock_of now) token = Some p
    \<and> jget p ''type'' = PStr ''access'' \<and> jget p ''sub'' = PStr (uuid_str (u_id u))
    \<and> is_token_revoked (env_redis env) (clock_of now) p r = Inr False)"
proof -
  obtain p where p: "jwt_decode (env_jwt env) (clock_of now) token = Some p"
    using assms by (cases "jwt_decode (env_jwt env) (clock_of now) token")
      (auto simp: jwt_user_def decode_token_def)
  from assms p have t: "jget p ''type'' = PStr ''access''" "py_truthy (jget p ''sub'')"
    by (auto simp: jwt_user_def decode_token_def split: if_splits)
  from assms p t have rv: "is_token_revoked (env_redis env) (clock_of now) p r = Inr False"
    by (auto simp: jwt_user_def decode_token_def split: sum.splits bool.splits exn.splits)
  from assms p t rv
  have "scalar_one_or_none (filter (\<lambda>u. PStr (uuid_str (u_id u)) = jget p ''sub'') (users d)) = Inr (Some u)"
    "u_is_active u"
    by (auto simp: jwt_user_def decode_token_def rbind_eq_Inr split: option.splits if_splits)
  then show ?thesis using p t rv scalar_filter_SomeD by fastforce
qed

section \<open>Guards\<close>

definition MANAGEMENT_SCOPES :: "string list" where
  "MANAGEMENT_SCOPES = [''scans:trigger'', ''alerts:resolve'', ''audit:read'', ''integrations:read'', ''*'']"

definition scope_requires_management :: "string \<Rightarrow> bool" where
  "scope_requires_management scope = (scope \<in> set MANAGEMENT_SCOPES)"

text \<open>The credentials of a request: the bearer token and the API key header.\<close>

definition require_scope :: "'r env \<Rightarrow> int \<Rightarrow> string \<Rightarrow> string list \<Rightarrow> http_request \<Rightarrow>
    string option \<Rightarrow> string option \<Rightarrow> 'r \<Rightarrow> db \<Rightarrow> principal result \<times> db" where
  "require_scope env now scope user_roles rq bearer api_key r d =
     (if truthy_str bearer \<and> truthy_str api_key
      then (Inl (HTTPException 400 ''Use one authentication method''), d)
      else if truthy_str api_key
      then case verify_api_token (env_verify env) now (the api_key) d of
        (None, d') \<Rightarrow> (Inl (HTTPException 401 ''Invalid API token''), d)
      | (Some token, d') \<Rightarrow>
          if ''*'' \<notin> set (tk_scopes token) \<and> scope \<notin> set (tk_scopes token)
          then (Inl (HTTPException 403 (''Missing scope: '' @ scope)), d)
          else
            (case (if ''*'' \<in> set (tk_scopes token) \<or> scope_requires_management scope
                   then ensure_management_network (env_cfg env) rq else Inr ()) of
               Inl e \<Rightarrow> (Inl e, d)
             | Inr u \<Rightarrow> (Inr (ServiceToken (tk_name token) (tk_id token)), d'))
      else if \<not> truthy_str bearer
      then (Inl (HTTPException 401 ''Authentication required''), d)
      else case jwt_user env now (the bearer) r d of
        Inl e \<Rightarrow> (Inl e, d)
      | Inr u \<Rightarrow>
          if u_role u \<notin> set user_roles \<and> u_role u \<noteq> ''admin''
          then (Inl (HTTPException 403 ''Insufficient role''), d)
          else (case (if u_role u = ''admin'' then ensure_management_network (env_cfg env) rq else Inr ()) of
                  Inl e \<Rightarrow> (Inl e, d)
                | Inr v \<Rightarrow> (Inr (JwtUser u), d)))"

text \<open>The role list is rendered as Python renders a tuple of strings.\<close>

definition repr_tuple :: "string list \<Rightarrow> string" where
  "repr_tuple ns = ''('' @ join '', '' (map (\<lambda>n. CHR 0x27 # n @ [CHR 0x27]) ns)
     @ (if length ns = 1 then '','' else []) @ '')''"

definition require_role :: "'r env \<Rightarrow> int \<Rightarrow> string list \<Rightarrow> bool \<Rightarrow> http_request \<Rightarrow> string \<Rightarrow> 'r \<Rightarrow> db \<Rightarrow> user result" where
  "require_role env now roles management_only rq bearer r d =
     rbind (jwt_user env now bearer r d) (\<lambda>u.
       if u_role u \<notin> set roles \<and> u_role u \<noteq> ''admin''
       then Inl (HTTPException 403 (''Requires role: '' @ repr_tuple roles @ '', have: '' @ u_role u))
       else rbind (if management_only \<or> u_role u = ''admin''
                   then ensure_management_network (env_cfg env) rq else Inr ())
              (\<lambda>_. Inr u))"

definition require_admin :: "'r env \<Rightarrow> int \<Rightarrow> http_request \<Rightarrow> string \<Rightarrow> 'r \<Rightarrow> db \<Rightarrow> user result" where
  "require_admin env now = require_role env now [''admin''] True"

definition require_analyst :: "'r env \<Rightarrow> int \<Rightarrow> http_request \<Rightarrow> string \<Rightarrow> 'r \<Rightarrow> db \<Rightarrow> user result" where
  "require_analyst env now = require_role env now [''admin'', ''analyst''] False"

definition require_viewer :: "'r env \<Rightarrow> int \<Rightarrow> http_request \<Rightarrow> string \<Rightarrow> 'r \<Rightarrow> db \<Rightarrow> user result" where
  "require_viewer env now = require_role env now [''admin'', ''analyst'', ''viewer''] False"

section \<open>Rate limits\<close>

text \<open>
  The dependencies made by \<open>per_user_rate_limit\<close> and \<open>per_ip_rate_limit\<close>: the exception they
  raise, if any, and the store they leave. The detail dictionary is given by its \<open>error\<close>.
\<close>

definition hit_bucket :: "'r redis_ops \<Rightarrow> int \<Rightarrow> string \<Rightarrow> nat \<Rightarrow> int \<Rightarrow> string \<Rightarrow> 'r \<Rightarrow> unit result \<times> 'r" where
  "hit_bucket ops now key limit window error r =
     (case rd_incr ops now key r of
        Inl e \<Rightarrow> (Inl (HTTPException 503 ''rate_limit_service_unavailable''), r)
      | Inr (count, r1) \<Rightarrow>
          (case (if count = 1 then rd_expire ops now key window r1 else Inr r1) of
             Inl e \<Rightarrow> (Inl (HTTPException 503 ''rate_limit_service_unavailable''), r1)
           | Inr r2 \<Rightarrow>
               if limit < count
               then (case rd_ttl ops now key r2 of
                       Inl e \<Rightarrow> (Inl (HTTPException 503 ''rate_limit_service_unavailable''), r2)
                     | Inr ttl \<Rightarrow> (Inl (HTTPException 429 error), r2))
               else (Inr (), r2)))"

definition per_user_rate_limit :: "'r env \<Rightarrow> int \<Rightarrow> string \<Rightarrow> nat \<Rightarrow> int \<Rightarrow> nat option \<Rightarrow> http_request \<Rightarrow> 'r \<Rightarrow> unit result \<times> 'r" where
  "per_user_rate_limit env now key limit window state_user rq r =
     (let user_id = (case state_user of Some i \<Rightarrow> uuid_str i | None \<Rightarrow> get_request_ip (env_cfg env) rq)
      in hit_bucket (env_redis env) (now div 1000000) (''ratelimit:'' @ key @ '':'' @ user_id)
           limit window ''rate_limit_exceeded'' r)"

definition per_ip_rate_limit :: "'r env \<Rightarrow> int \<Rightarrow> string \<Rightarrow> nat \<Rightarrow> int \<Rightarrow> http_request \<Rightarrow> 'r \<Rightarrow> unit result \<times> 'r" where
  "per_ip_rate_limit env now key limit window rq r =
     hit_bucket (env_redis env) (now div 1000000)
       (''ratelimit:ip:'' @ key @ '':'' @ get_request_ip (env_cfg env) rq) limit window ''ip_rate_limit'' r"

text \<open>A sequence of requests for one bucket at given times, with the outcome of each.\<close>

fun hits :: "'r redis_ops \<Rightarrow> string \<Rightarrow> nat \<Rightarrow> int \<Rightarrow> string \<Rightarrow> int list \<Rightarrow> 'r \<Rightarrow> unit result list \<times> 'r" where
  "hits ops key limit window error [] r = ([], r)"
| "hits ops key limit window error (t # ts) r =
     (let (x, r1) = hit_bucket ops t key limit window error r;
          (xs, r2) = hits ops key limit window error ts r1
      in (x # xs, r2))"

text \<open>The bucket after \<open>n\<close> hits of a window that began at \<open>t0\<close>.\<close>

definition bucket_at :: "('r \<Rightarrow> string \<rightharpoonup> entry) \<Rightarrow> string \<Rightarrow> nat \<Rightarrow> int \<Rightarrow> 'r \<Rightarrow> bool" where
  "bucket_at ent key n e r = (ent r key = Some (show_nat n, Some e))"

lemma hit_first:
  assumes "redis_ok ops ent" "live (ent r) t key = None" "hit_bucket ops t key limit window error r = (Inr u, r')"
  shows "bucket_at ent key 1 (t + window) r' \<and> 1 \<le> limit"
proof -
  obtain n r1 where inc: "rd_incr ops t key r = Inr (n, r1)"
    using assms(3) by (auto simp: hit_bucket_def split: sum.splits prod.splits)
  have r1: "n = 1" "ent r1 = (ent r)(key \<mapsto> (show_nat 1, None))"
    using redis_incr [OF assms(1) inc] assms(2) by simp_all
  from assms(3) inc r1(1) have ex: "rd_expire ops t key window r1 = Inr r'" and "1 \<le> limit"
    by (auto simp: hit_bucket_def split: sum.splits if_splits)
  with redis_expire [OF assms(1) ex] r1(2) show ?thesis
    by (auto simp: bucket_at_def live_def)
qed

lemma hit_next:
  assumes "redis_ok ops ent" "bucket_at ent key n e r" "t < e" "1 \<le> n"
    and "hit_bucket ops t key limit window error r = (x, r')" "\<And>m. x \<noteq> Inl (HTTPException 503 m)"
  shows "bucket_at ent key (n + 1) e r' \<and> (x = Inr () \<longleftrightarrow> n + 1 \<le> limit)"
proof -
  have l: "live (ent r) t key = Some (show_nat n)" using assms(2,3) by (simp add: bucket_at_def live_def)
  obtain m r1 where inc: "rd_incr ops t key r = Inr (m, r1)"
    using assms(5,6) by (cases "rd_incr ops t key r") (auto simp: hit_bucket_def)
  have m: "m = n + 1" "ent r1 = (ent r)(key \<mapsto> (show_nat m, expiry (ent r) key))"
    using redis_incr [OF assms(1) inc] l by simp_all
  then have b: "bucket_at ent key (n + 1) e r1" using assms(2) by (simp add: bucket_at_def expiry_def)
  have "m \<noteq> 1" using m(1) assms(4) by simp
  then show ?thesis using assms(5,6) inc m b
    by (auto simp: hit_bucket_def split: if_splits sum.splits)
qed

lemma hits_window:
  assumes "redis_ok ops ent" "bucket_at ent key n e r" "1 \<le> n" "\<forall>t\<in>set ts. t < e"
    and "hits ops key limit window error ts r = (xs, r')" "\<forall>x\<in>set xs. \<forall>m. x \<noteq> Inl (HTTPException 503 m)"
  shows "\<forall>i<length ts. (xs ! i = Inr ()) = (n + i + 1 \<le> limit)"
  using assms(2-)
proof (induction ts arbitrary: n r xs)
  case (Cons t ts)
  obtain x r1 where h: "hit_bucket ops t key limit window error r = (x, r1)" by fastforce
  obtain ys r2 where hs: "hits ops key limit window error ts r1 = (ys, r2)" by fastforce
  have xs: "xs = x # ys" "r' = r2" using Cons.prems(4) h hs by simp_all
  have 1: "bucket_at ent key (n + 1) e r1 \<and> (x = Inr () \<longleftrightarrow> n + 1 \<le> limit)"
    using hit_next [OF assms(1) Cons.prems(1) _ Cons.prems(2) h] Cons.prems(3,5) xs by auto
  have 2: "\<forall>i<length ts. (ys ! i = Inr ()) = (n + 1 + i + 1 \<le> limit)"
    using Cons.IH [of "n + 1" r1 ys] 1 Cons.prems hs xs by auto
  show ?case
  proof (intro allI impI)
    fix i assume "i < length (t # ts)"
    then show "(xs ! i = Inr ()) = (n + i + 1 \<le> limit)"
      using 1 2 xs by (cases i) auto
  qed
qed simp

text \<open>
  Within one window exactly the first \<open>limit\<close> requests of a bucket pass: when the store
  answers, the first request opens the window, and of the requests before its end the
  \<open>i\<close>-th is let through when \<open>i\<close> is at most the limit.
\<close>

theorem rate_limit_exact:
  assumes "redis_ok ops ent" and "live (ent r) t key = None"
    and "\<forall>s\<in>set ts. s < t + window" and "1 \<le> limit"
    and "hits ops key limit window error (t # ts) r = (xs, r')"
    and "\<forall>x\<in>set xs. \<forall>m. x \<noteq> Inl (HTTPException 503 m)"
  shows "\<forall>i<length (t # ts). (xs ! i = Inr ()) = (i + 1 \<le> limit)"
proof -
  obtain x r1 where h: "hit_bucket ops t key limit window error r = (x, r1)" by fastforce
  obtain ys r2 where hs: "hits ops key limit window error ts r1 = (ys, r2)" by fastforce
  have xs: "xs = x # ys" using assms(5) h hs by simp
  have no: "\<forall>m. x \<noteq> Inl (HTTPException 503 m)" using assms(6) xs by simp
  have x: "x = Inr ()"
  proof -
    obtain n q where inc: "rd_incr ops t key r = Inr (n, q)"
      using h no by (cases "rd_incr ops t key r") (auto simp: hit_bucket_def)
    then have "n = 1" using redis_incr [OF assms(1) inc] assms(2) by simp
    then show ?thesis using h no inc assms(4) by (auto simp: hit_bucket_def split: sum.splits)
  qed
  have "bucket_at ent key 1 (t + window) r1"
    using hit_first [OF assms(1,2)] h x by blast
  then have "\<forall>i<length ts. (ys ! i = Inr ()) = (1 + i + 1 \<le> limit)"
    using hits_window [OF assms(1) _ _ assms(3) hs] assms(6) xs by auto
  then show ?thesis using x xs assms(4) by (auto simp: nth_Cons split: nat.splits)
qed

lemma mem_hit_up: "fst (hit_bucket mem_ops t key limit window error r) \<noteq> Inl (HTTPException 503 m)"
proof -
  obtain n r1 where inc: "rd_incr mem_ops t key r = Inr (n, r1)" using mem_ops_total(4) by fast
  obtain r2 where ex: "rd_expire mem_ops t key window r1 = Inr r2" using mem_ops_total(5) by blast
  obtain ttl1 ttl2 where "rd_ttl mem_ops t key r2 = Inr ttl1" "rd_ttl mem_ops t key r1 = Inr ttl2"
    using mem_ops_total(6) by metis
  with inc ex show ?thesis by (simp add: hit_bucket_def)
qed

lemma mem_hits_up:
  "hits mem_ops key limit window error ts r = (xs, r') \<Longrightarrow>
   \<forall>x\<in>set xs. \<forall>m. x \<noteq> Inl (HTTPException 503 m)"
proof (induction ts arbitrary: r xs r')
  case (Cons t ts)
  obtain x r1 where h: "hit_bucket mem_ops t key limit window error r = (x, r1)" by fastforce
  obtain ys r2 where hs: "hits mem_ops key limit window error ts r1 = (ys, r2)" by fastforce
  have "xs = x # ys" using Cons.prems h hs by simp
  then show ?case using Cons.IH [OF hs] mem_hit_up [of t key limit window error r] h by simp
qed simp

theorem rate_limit_exact_witness:
  "fst (hits mem_ops ''b'' 2 60 ''e'' [100, 110, 120] Map.empty) ! 1 = Inr ()
   \<and> fst (hits mem_ops ''b'' 2 60 ''e'' [100, 110, 120] Map.empty) ! 2 \<noteq> Inr ()"
proof -
  obtain xs r' where h: "hits mem_ops ''b'' 2 60 ''e'' (100 # [110, 120]) Map.empty = (xs, r')" by fastforce
  have up: "\<forall>x\<in>set xs. \<forall>m. x \<noteq> Inl (HTTPException 503 m)" by (rule mem_hits_up [OF h])
  have all: "\<forall>i<length [100::int, 110, 120]. (xs ! i = Inr ()) = (i + 1 \<le> 2)"
    by (rule rate_limit_exact [OF mem_ops_ok _ _ _ h up]) (simp_all add: live_def)
  from all [rule_format, of 1] all [rule_format, of 2] h show ?thesis by simp
qed

section \<open>Password policy\<close>

definition COMMON_PASSWORDS :: "string list" where
  "COMMON_PASSWORDS =
     [''password'', ''12345678'', ''qwerty'', ''admin'', ''letmein'', ''welcome'', ''monkey'', ''1234567890'',
      ''password1'', ''abc123'', ''iloveyou'', ''111111'']"

definition ascii_upper :: "char \<Rightarrow> bool" where "ascii_upper c = (65 \<le> char_code c \<and> char_code c \<le> 90)"

definition ascii_lower :: "char \<Rightarrow> bool" where "ascii_lower c = (97 \<le> char_code c \<and> char_code c \<le> 122)"

text \<open>\<open>re.search(r"(.)\1{3,}", s)\<close>: four equal characters in a row, not line feeds.\<close>

fun four_in_row :: "string \<Rightarrow> bool" where
  "four_in_row (a # b # c # d # s) =
     (a \<noteq> CHR 0x0A \<and> b = a \<and> c = a \<and> d = a \<or> four_in_row (b # c # d # s))"
| "four_in_row _ = False"

definition validate_password :: "settings \<Rightarrow> string \<Rightarrow> string option \<Rightarrow> unit result" where
  "validate_password cfg password username =
     (if int (length password) < PASSWORD_MIN_LEN cfg
      then Inl (PasswordPolicyError (''Min length: '' @ show_int (PASSWORD_MIN_LEN cfg)))
      else if 128 < length password then Inl (PasswordPolicyError ''Max length: 128'')
      else if lower password \<in> set COMMON_PASSWORDS
      then Inl (PasswordPolicyError ''Password is in common-password list'')
      else if truthy_str username \<and> contains (lower (the username)) (lower password)
      then Inl (PasswordPolicyError ''Password contains username'')
      else if \<not> list_ex ascii_upper password then Inl (PasswordPolicyError ''Must contain uppercase'')
      else if \<not> list_ex ascii_lower password then Inl (PasswordPolicyError ''Must contain lowercase'')
      else if \<not> list_ex is_digit password then Inl (PasswordPolicyError ''Must contain digit'')
      else if \<not> list_ex (\<lambda>c. \<not> (ascii_upper c \<or> ascii_lower c \<or> is_digit c)) password
      then Inl (PasswordPolicyError ''Must contain special character'')
      else if four_in_row password
      then Inl (PasswordPolicyError ''No 4+ consecutive identical characters'')
      else Inr ())"

lemma four_in_row_iff: "four_in_row s \<longleftrightarrow> (\<exists>c. c \<noteq> CHR 0x0A \<and> occurs [c, c, c, c] s)"
proof (induction s rule: four_in_row.induct)
  case (1 a b c d s)
  then show ?case by (auto simp: occurs_Cons)
qed (auto simp: occurs_def Cons_eq_append_conv append_eq_Cons_conv)

text \<open>
  A password is accepted exactly when it satisfies every clause of the policy: length
  between the configured minimum and 128, not a common password in any case, no user name
  in it, the four character classes, and no character four times in a row.
\<close>

theorem validate_password_iff:
  "validate_password cfg pw name = Inr () \<longleftrightarrow>
   PASSWORD_MIN_LEN cfg \<le> int (length pw) \<and> length pw \<le> 128
   \<and> lower pw \<notin> set COMMON_PASSWORDS
   \<and> (if truthy_str name then \<not> occurs (lower (the name)) (lower pw) else True)
   \<and> (\<exists>c\<in>set pw. ascii_upper c) \<and> (\<exists>c\<in>set pw. ascii_lower c) \<and> (\<exists>c\<in>set pw. is_digit c)
   \<and> (\<exists>c\<in>set pw. \<not> ascii_upper c \<and> \<not> ascii_lower c \<and> \<not> is_digit c)
   \<and> (\<nexists>c. c \<noteq> CHR 0x0A \<and> occurs [c, c, c, c] pw)"
proof -
  have c: "contains u v \<longleftrightarrow> occurs u v" for u v by (simp add: contains_iff occurs_def)
  show ?thesis
    unfolding validate_password_def four_in_row_iff [symmetric] c list_ex_iff
    by (simp add: not_less not_le Bex_def conj_ac split del: if_split) (auto split: if_splits)
qed

section \<open>What the guards guarantee\<close>

lemma verify_api_token_Some:
  assumes "verify_api_token verify now token d = (Some c', d')"
  shows "\<exists>c\<in>set (api_tokens d). c' = touch_token now c \<and> \<not> tk_revoked c
    \<and> verify token (tk_token_hash c) \<and> (case tk_expires_at c of None \<Rightarrow> True | Some e \<Rightarrow> now \<le> e)
    \<and> d' = d\<lparr>api_tokens := update_where (\<lambda>t. tk_id t = tk_id c) (touch_token now) (api_tokens d)\<rparr>"
  using assms try_candidates_Some
  by (auto simp: verify_api_token_def split: if_splits option.splits dest!: try_candidates_Some)

lemma ensure_management_Inr:
  "ensure_management_network cfg rq = Inr u \<Longrightarrow>
   \<exists>a n. ip_address (get_request_ip cfg rq) = Some a \<and> addr_in_net a n
     \<and> (\<exists>v\<in>set (MANAGEMENT_CIDRS cfg). ip_network False v = Some n)"
  by (auto simp: ensure_management_network_def split: option.split_asm bool.split_asm
      dest!: any_network_TrueD)

text \<open>
  C3: Every principal a scoped endpoint admits is entitled. A service token is not revoked,
  not expired, matches its hash and bears the scope; a user is active and has an admitted
  role or is an administrator. Wildcard tokens, management scopes and administrators are
  admitted from the management network only. Besides the use mark of the token, admission
  changes nothing.
\<close>

theorem require_scope_sound:
  assumes "require_scope env now scope roles rq bearer key r d = (Inr p, d')"
  shows "case p of
      ServiceToken name i \<Rightarrow>
        \<exists>t\<in>set (api_tokens d). tk_id t = i \<and> tk_name t = name \<and> \<not> tk_revoked t
          \<and> (case tk_expires_at t of None \<Rightarrow> True | Some e \<Rightarrow> now \<le> e)
          \<and> env_verify env (the key) (tk_token_hash t)
          \<and> (''*'' \<in> set (tk_scopes t) \<or> scope \<in> set (tk_scopes t))
          \<and> (if ''*'' \<in> set (tk_scopes t) \<or> scope_requires_management scope
             then ensure_management_network (env_cfg env) rq = Inr () else True)
          \<and> d' = d\<lparr>api_tokens := update_where (\<lambda>u. tk_id u = i) (touch_token now) (api_tokens d)\<rparr>
    | JwtUser u \<Rightarrow>
        u \<in> set (users d) \<and> u_is_active u \<and> (u_role u \<in> set roles \<or> u_role u = ''admin'') \<and> d' = d
          \<and> (if u_role u = ''admin'' then ensure_management_network (env_cfg env) rq = Inr () else True)"
proof (cases "truthy_str key")
  case True
  then obtain t' d1 where v: "verify_api_token (env_verify env) now (the key) d = (Some t', d1)"
    using assms by (cases "verify_api_token (env_verify env) now (the key) d"; cases "fst (verify_api_token (env_verify env) now (the key) d)")
      (auto simp: require_scope_def split: if_splits)
  from verify_api_token_Some [OF v] obtain t where t: "t \<in> set (api_tokens d)" "t' = touch_token now t"
    "\<not> tk_revoked t" "env_verify env (the key) (tk_token_hash t)"
    "case tk_expires_at t of None \<Rightarrow> True | Some e \<Rightarrow> now \<le> e"
    "d1 = d\<lparr>api_tokens := update_where (\<lambda>u. tk_id u = tk_id t) (touch_token now) (api_tokens d)\<rparr>" by blast
  have same: "tk_scopes t' = tk_scopes t" "tk_id t' = tk_id t" "tk_name t' = tk_name t"
    by (simp_all add: t(2) touch_token_def)
  have p: "p = ServiceToken (tk_name t) (tk_id t)" "d' = d1"
    "''*'' \<in> set (tk_scopes t) \<or> scope \<in> set (tk_scopes t)"
    "if ''*'' \<in> set (tk_scopes t) \<or> scope_requires_management scope
     then ensure_management_network (env_cfg env) rq = Inr () else True"
    using assms True v same by (auto simp: require_scope_def split: if_splits sum.splits)
  then show ?thesis using t by auto
next
  case False
  then obtain u where u: "jwt_user env now (the bearer) r d = Inr u"
    using assms by (cases "jwt_user env now (the bearer) r d") (auto simp: require_scope_def split: if_splits)
  have "p = JwtUser u" "d' = d" "u_role u \<in> set roles \<or> u_role u = ''admin''"
    "if u_role u = ''admin'' then ensure_management_network (env_cfg env) rq = Inr () else True"
    using assms False u by (auto simp: require_scope_def split: if_splits sum.splits)
  then show ?thesis using jwt_user_Inr [OF u] by auto
qed

text \<open>A service token of a monitoring script, and the request it is used in.\<close>

definition sample_env :: "(string \<rightharpoonup> entry) env" where
  "sample_env = \<lparr> env_cfg = default_settings [] [] [], env_sha = (\<lambda>s. s),
     env_verify = (\<lambda>p h. h = ''#'' @ p), env_hash = (\<lambda>p. ''#'' @ p), env_totp = (\<lambda>s c. c = s),
     env_cipher = \<lparr> encrypt_secret = (\<lambda>p s. Inr p), decrypt_secret = (\<lambda>c s. Inr c) \<rparr>,
     env_jwt = \<lparr> jwt_encode = (\<lambda>p. ''t''), jwt_decode = (\<lambda>n t. None) \<rparr>, env_redis = mem_ops \<rparr>"

definition sample_request :: http_request where
  "sample_request = \<lparr> rq_client_host = Some ''203.0.113.9'', rq_x_real_ip = None,
     rq_x_forwarded_for = None, rq_user_agent = None \<rparr>"

definition sample_token :: api_token where
  "sample_token = (new_api_token 5 0)\<lparr>tk_name := ''ci'', tk_token_hash := ''#kpx_abcdefgh1'',
     tk_token_prefix := ''kpx_abcdefgh'', tk_scopes := [''assets:read'']\<rparr>"

definition sample_token_db :: db where
  "sample_token_db = empty_db\<lparr>api_tokens := [sample_token]\<rparr>"

theorem require_scope_sound_witness:
  "\<exists>t\<in>set (api_tokens sample_token_db). tk_id t = 5 \<and> \<not> tk_revoked t
     \<and> (''*'' \<in> set (tk_scopes t) \<or> ''assets:read'' \<in> set (tk_scopes t))"
proof -
  have "require_scope sample_env 10 ''assets:read'' [] sample_request None (Some ''kpx_abcdefgh1'')
      Map.empty sample_token_db = (Inr (ServiceToken ''ci'' 5),
        sample_token_db\<lparr>api_tokens := [touch_token 10 sample_token]\<rparr>)"
    by (simp add: require_scope_def verify_api_token_def sample_env_def sample_token_db_def
        sample_token_def new_api_token_def starts_with_def touch_token_def scope_requires_management_def
        MANAGEMENT_SCOPES_def eval_nat_numeral)
  from require_scope_sound [OF this] show ?thesis by auto
qed

text \<open>
  A role-guarded endpoint admits active users with one of its roles and administrators,
  and the privileged ones from the management network only.
\<close>

theorem require_role_sound:
  assumes "require_role env now roles management_only rq bearer r d = Inr u"
  shows "u \<in> set (users d) \<and> u_is_active u \<and> (u_role u \<in> set roles \<or> u_role u = ''admin'')
    \<and> (if management_only \<or> u_role u = ''admin''
       then \<exists>a n. ip_address (get_request_ip (env_cfg env) rq) = Some a \<and> addr_in_net a n
         \<and> (\<exists>v\<in>set (MANAGEMENT_CIDRS (env_cfg env)). ip_network False v = Some n) else True)"
proof -
  from assms have j: "jwt_user env now bearer r d = Inr u"
    "u_role u \<in> set roles \<or> u_role u = ''admin''"
    and m: "management_only \<or> u_role u = ''admin'' \<Longrightarrow>
      \<exists>v. ensure_management_network (env_cfg env) rq = Inr v"
    by (auto simp: require_role_def rbind_eq_Inr split: if_splits)
  then show ?thesis using jwt_user_Inr [OF j(1)] ensure_management_Inr by auto
qed

definition sample_claims :: jdict where
  "sample_claims = [(''type'', PStr ''access''), (''sub'', PStr (uuid_str 7)), (''jti'', PStr ''j''),
     (''iat_ms'', PInt 1)]"

definition sample_jwt_env :: "(string \<rightharpoonup> entry) env" where
  "sample_jwt_env = sample_env\<lparr>env_jwt := \<lparr> jwt_encode = (\<lambda>p. ''t''), jwt_decode = (\<lambda>n t. Some sample_claims) \<rparr>\<rparr>"

definition sample_user :: user where
  "sample_user = (new_user 7 0)\<lparr>u_username := ''ana'', u_role := ''analyst'', u_password_hash := ''#pw''\<rparr>"

definition sample_user_db :: db where
  "sample_user_db = empty_db\<lparr>users := [sample_user]\<rparr>"

lemma sample_jwt_user:
  "jwt_user sample_jwt_env 10 ''t'' Map.empty sample_user_db = Inr sample_user"
proof -
  have "is_token_revoked mem_ops (clock_of 10) sample_claims Map.empty = Inr False"
    by (simp add: is_token_revoked_def sample_claims_def jget_def mem_ops_def live_def uuid_str_def)
  then show ?thesis
    by (simp add: jwt_user_def decode_token_def sample_jwt_env_def sample_env_def sample_user_db_def
        sample_user_def new_user_def) (simp add: sample_claims_def jget_def uuid_str_def)
qed

theorem require_role_sound_witness:
  "sample_user \<in> set (users sample_user_db) \<and> u_is_active sample_user"
proof -
  have "require_role sample_jwt_env 10 [''analyst''] False sample_request ''t'' Map.empty sample_user_db
      = Inr sample_user"
    by (simp add: require_role_def sample_jwt_user) (simp add: sample_user_def)
  from require_role_sound [OF this] show ?thesis by auto
qed

end
