(* ===== verification/AuthApi.thy ===== *)
theory AuthApi
  imports Access
begin

text \<open>
  \<open>app/api/auth.py\<close>: login, token refresh, MFA enrolment and confirmation, password change.
  A handler returns its response or the exception, with the database that stays committed
  and the store. Random values a request draws are its arguments.
\<close>

record login_request =
  lr_username :: string
  lr_password :: string
  lr_mfa_code :: "string option"

record token_response =
  tr_access_token :: string
  tr_refresh_token :: string
  tr_token_type :: string
  tr_expires_in :: int

definition update_user :: "nat \<Rightarrow> (user \<Rightarrow> user) \<Rightarrow> db \<Rightarrow> db" where
  "update_user i f d = d\<lparr>users := update_where (\<lambda>u. u_id u = i) f (users d)\<rparr>"

section \<open>Login\<close>

definition minutes :: "int \<Rightarrow> int" where "minutes m = m * 60000000"

text \<open>A wrong password or MFA code: the counter, and the lock at the limit.\<close>

definition record_failure :: "settings \<Rightarrow> int \<Rightarrow> user \<Rightarrow> user" where
  "record_failure cfg now u =
     (let u = u\<lparr>u_failed_attempts := u_failed_attempts u + 1\<rparr>
      in if MAX_LOGIN_ATTEMPTS cfg \<le> u_failed_attempts u
         then u\<lparr>u_locked_until := Some (now + minutes (LOCKOUT_DURATION_MIN cfg))\<rparr> else u)"

definition record_success :: "int \<Rightarrow> user \<Rightarrow> user" where
  "record_success now u = u\<lparr>u_failed_attempts := 0, u_locked_until := None, u_last_login := Some now\<rparr>"

definition issue_tokens :: "'r env \<Rightarrow> int \<Rightarrow> string \<Rightarrow> string \<Rightarrow> user \<Rightarrow> token_response result" where
  "issue_tokens env now jti jti' u =
     rbind (create_access_token (env_jwt env) (env_cfg env) (clock_of now) jti (uuid_str (u_id u)) [u_role u] [])
       (\<lambda>access. Inr \<lparr> tr_access_token = access,
          tr_refresh_token = create_refresh_token (env_jwt env) (env_cfg env) (clock_of now) jti' (uuid_str (u_id u)),
          tr_token_type = ''bearer'', tr_expires_in = JWT_ACCESS_TTL_MIN (env_cfg env) * 60 \<rparr>)"

text \<open>The MFA part of a login: whether the code is right, and the secret to store.\<close>

definition check_login_mfa :: "'r env \<Rightarrow> string \<Rightarrow> login_request \<Rightarrow> user \<Rightarrow> (bool \<times> string option) result" where
  "check_login_mfa env salt body u =
     (if \<not> u_mfa_enabled u then Inr (True, u_mfa_secret u)
      else if \<not> truthy_str (lr_mfa_code body) then Inr (False, u_mfa_secret u)
      else case u_mfa_secret u of
        None \<Rightarrow> Inl AttributeError
      | Some s \<Rightarrow>
          rbind (verify_mfa (env_cipher env) (env_totp env) s (the (lr_mfa_code body))) (\<lambda>ok.
            if \<not> ok then Inr (False, Some s)
            else if mfa_secret_is_protected s then Inr (True, Some s)
            else rbind (protect_mfa_secret (env_cipher env) salt s) (\<lambda>p. Inr (True, Some p))))"

definition login :: "'r env \<Rightarrow> int \<Rightarrow> string \<Rightarrow> string \<Rightarrow> string \<Rightarrow> http_request \<Rightarrow> login_request \<Rightarrow> db \<Rightarrow>
    token_response result \<times> db" where
  "login env now salt jti jti' rq body d =
     (case scalar_one_or_none (filter (\<lambda>u. u_username u = lr_username body) (users d)) of
        Inl e \<Rightarrow> (Inl e, d)
      | Inr None \<Rightarrow> (Inl (HTTPException 401 ''Invalid credentials''), d)
      | Inr (Some u) \<Rightarrow>
          let log = (\<lambda>action u severity details. audit (env_sha env) now rq action (Some (JwtUser u)) None None severity details);
              i = u_id u
          in if (case u_locked_until u of None \<Rightarrow> False | Some l \<Rightarrow> now < l)
             then (Inl (HTTPException 423 (''Account locked for ''
                     @ show_int ((the (u_locked_until u) - now) div 60000000) @ ''m'')),
                   log ''login_blocked_lockout'' u ''warning'' [] d)
             else if \<not> env_verify env (lr_password body) (u_password_hash u)
             then
               let u' = record_failure (env_cfg env) now u;
                   d' = update_user i (record_failure (env_cfg env) now) d;
                   attempts = [(''attempts'', PInt (u_failed_attempts u'))]
               in (Inl (HTTPException 401 ''Invalid credentials''),
                   if MAX_LOGIN_ATTEMPTS (env_cfg env) \<le> u_failed_attempts u'
                   then log ''account_locked'' u' ''critical'' attempts d'
                   else log ''login_failed'' u' ''warning'' attempts d')
             else
               (case check_login_mfa env salt body u of
                  Inl e \<Rightarrow> (Inl e, d)
                | Inr (False, s) \<Rightarrow>
                    (Inl (HTTPException 401 ''MFA required or invalid''),
                     log ''mfa_failed'' (record_failure (env_cfg env) now u) ''warning'' []
                       (update_user i (record_failure (env_cfg env) now) d))
                | Inr (True, s) \<Rightarrow>
                    let u' = (record_success now u)\<lparr>u_mfa_secret := s\<rparr>
                    in (case issue_tokens env now jti jti' u' of
                          Inl e \<Rightarrow> (Inl e, d)
                        | Inr resp \<Rightarrow>
                            (Inr resp, log ''login_success'' u' ''info'' []
                               (update_user i (\<lambda>u. (record_success now u)\<lparr>u_mfa_secret := s\<rparr>) d)))))"

section \<open>Token refresh\<close>

definition refresh :: "'r env \<Rightarrow> int \<Rightarrow> string \<Rightarrow> string \<Rightarrow> string \<Rightarrow> 'r \<Rightarrow> db \<Rightarrow> token_response result \<times> 'r" where
  "refresh env now jti jti' token r d =
     (case decode_token (env_jwt env) (clock_of now) token of
        Inl (ValueError m) \<Rightarrow> (Inl (HTTPException 401 m), r)
      | Inl e \<Rightarrow> (Inl e, r)
      | Inr payload \<Rightarrow>
          if jget payload ''type'' \<noteq> PStr ''refresh''
          then (Inl (HTTPException 401 ''Invalid token type''), r)
          else case consume_refresh_token (env_redis env) (clock_of now) payload r of
            Inl TokenBlocklistUnavailable \<Rightarrow> (Inl (HTTPException 503 ''Authentication service unavailable''), r)
          | Inl e \<Rightarrow> (Inl e, r)
          | Inr (False, r') \<Rightarrow> (Inl (HTTPException 401 ''Refresh token revoked or reused''), r')
          | Inr (True, r') \<Rightarrow>
              (rbind (item payload ''sub'') (\<lambda>sub.
                 rbind (scalar_one_or_none (filter (\<lambda>u. PStr (uuid_str (u_id u)) = sub) (users d)))
                   (\<lambda>u. case u of
                      None \<Rightarrow> Inl (HTTPException 401 ''User inactive'')
                    | Some u \<Rightarrow>
                        if \<not> u_is_active u then Inl (HTTPException 401 ''User inactive'')
                        else issue_tokens env now jti jti' u)), r'))"

section \<open>MFA\<close>

text \<open>The secret and the provisioning URI are shown; the URI is rendered by the library.\<close>

definition mfa_enroll :: "'r env \<Rightarrow> int \<Rightarrow> string \<Rightarrow> string \<Rightarrow> http_request \<Rightarrow> user \<Rightarrow> string \<Rightarrow> db \<Rightarrow> string result \<times> db" where
  "mfa_enroll env now salt secret rq u current_password d =
     (if u_mfa_enabled u then (Inl (HTTPException 400 ''MFA already enabled''), d)
      else if \<not> env_verify env current_password (u_password_hash u)
      then (Inl (HTTPException 401 ''Current password is incorrect''),
            audit (env_sha env) now rq ''mfa_enroll_failed'' (Some (JwtUser u)) None None ''warning'' [] d)
      else case protect_mfa_secret (env_cipher env) salt secret of
        Inl e \<Rightarrow> (Inl e, d)
      | Inr p \<Rightarrow>
          (Inr secret, audit (env_sha env) now rq ''mfa_enrolled'' (Some (JwtUser u)) None None ''info'' []
             (update_user (u_id u) (\<lambda>u. u\<lparr>u_mfa_secret := Some p\<rparr>) d)))"

definition mfa_confirm :: "'r env \<Rightarrow> int \<Rightarrow> http_request \<Rightarrow> user \<Rightarrow> string \<Rightarrow> string \<Rightarrow> db \<Rightarrow> bool result \<times> db" where
  "mfa_confirm env now rq u current_password code d =
     (if \<not> truthy_str (u_mfa_secret u) then (Inl (HTTPException 400 ''Run mfa/enroll first''), d)
      else if \<not> env_verify env current_password (u_password_hash u)
      then (Inl (HTTPException 401 ''Current password is incorrect''),
            audit (env_sha env) now rq ''mfa_confirm_failed'' (Some (JwtUser u)) None None ''warning'' [] d)
      else case verify_mfa (env_cipher env) (env_totp env) (the (u_mfa_secret u)) code of
        Inl e \<Rightarrow> (Inl e, d)
      | Inr False \<Rightarrow> (Inl (HTTPException 400 ''Invalid MFA code''), d)
      | Inr True \<Rightarrow>
          (Inr True, audit (env_sha env) now rq ''mfa_confirmed'' (Some (JwtUser u)) None None ''info'' []
             (update_user (u_id u) (\<lambda>u. u\<lparr>u_mfa_enabled := True\<rparr>) d)))"

section \<open>Password change\<close>

definition change_password :: "'r env \<Rightarrow> int \<Rightarrow> http_request \<Rightarrow> user \<Rightarrow> string \<Rightarrow> string \<Rightarrow> 'r \<Rightarrow> db \<Rightarrow>
    bool result \<times> 'r \<times> db" where
  "change_password env now rq u current_password new_password r d =
     (if \<not> env_verify env current_password (u_password_hash u)
      then (Inl (HTTPException 401 ''Current password wrong''), r, d)
      else case validate_password (env_cfg env) new_password (Some (u_username u)) of
        Inl (PasswordPolicyError m) \<Rightarrow> (Inl (HTTPException 400 m), r, d)
      | Inl e \<Rightarrow> (Inl e, r, d)
      | Inr v \<Rightarrow>
          let work = update_user (u_id u) (\<lambda>u. u\<lparr>u_password_hash := env_hash env new_password\<rparr>) d
          in case revoke_user_tokens (env_redis env) (env_cfg env) (clock_of now) (uuid_str (u_id u)) r of
               Inl TokenBlocklistUnavailable \<Rightarrow>
                 (case get_db (Inl (HTTPException 503
                     ''Could not revoke active sessions; password was not changed''), d, work) of
                    (x, d') \<Rightarrow> (x, r, d'))
             | Inl e \<Rightarrow> (Inl e, r, d)
             | Inr r' \<Rightarrow>
                 (Inr True, r', audit (env_sha env) now rq ''password_changed''
                    (Some (JwtUser (u\<lparr>u_password_hash := env_hash env new_password\<rparr>))) None None ''info'' [] work))"

section \<open>The user row of a request\<close>

text \<open>A row that no other row of the table shares its identifier or name with.\<close>

definition sole :: "user \<Rightarrow> user list \<Rightarrow> bool" where
  "sole u us = (\<exists>pre post. us = pre @ u # post
     \<and> (\<forall>v\<in>set (pre @ post). u_id v \<noteq> u_id u \<and> u_username v \<noteq> u_username u))"

lemma sole_filter: "sole u us \<Longrightarrow> filter (\<lambda>v. u_username v = u_username u) us = [u]"
  by (auto simp: sole_def filter_empty_conv)

lemma sole_update:
  assumes "sole u us" "u_id (f u) = u_id u" "u_username (f u) = u_username u"
  shows "sole (f u) (update_where (\<lambda>v. u_id v = u_id u) f us)"
proof -
  obtain pre post where us: "us = pre @ u # post"
    "\<forall>v\<in>set (pre @ post). u_id v \<noteq> u_id u \<and> u_username v \<noteq> u_username u"
    using assms(1) by (auto simp: sole_def)
  then have "update_where (\<lambda>v. u_id v = u_id u) f us = pre @ f u # post"
    by (simp add: update_where_none)
  then show ?thesis using us(2) assms(2,3) by (auto simp: sole_def)
qed

lemma sole_distinct:
  assumes "distinct (map u_username us)" "distinct (map u_id us)" "u \<in> set us"
  shows "sole u us"
proof -
  obtain pre post where "us = pre @ u # post" using assms(3) by (metis split_list)
  moreover from this assms(1,2)
  have "\<forall>v\<in>set (pre @ post). u_id v \<noteq> u_id u \<and> u_username v \<noteq> u_username u"
    by (auto simp: image_iff)
  ultimately show ?thesis unfolding sole_def by blast
qed

interpretation user_failure: row_mutation u_id "record_failure cfg now" for cfg now
  by unfold_locales (simp add: record_failure_def Let_def)

interpretation user_success: row_mutation u_id "\<lambda>u. (record_success now u)\<lparr>u_mfa_secret := s\<rparr>" for now s
  by unfold_locales (simp add: record_success_def)

interpretation login_lock: breaker u_failed_attempts "\<lambda>u. u_locked_until u \<noteq> None"
  "record_failure cfg" "MAX_LOGIN_ATTEMPTS cfg" for cfg
  by unfold_locales (simp_all add: record_failure_def Let_def)

lemma record_failure_keeps [simp]:
  "u_id (record_failure cfg now u) = u_id u"
  "u_username (record_failure cfg now u) = u_username u"
  "u_password_hash (record_failure cfg now u) = u_password_hash u"
  by (simp_all add: record_failure_def Let_def)

lemma record_failure_locked:
  "MAX_LOGIN_ATTEMPTS cfg \<le> u_failed_attempts u + 1 \<Longrightarrow>
   u_locked_until (record_failure cfg now u) = Some (now + minutes (LOCKOUT_DURATION_MIN cfg))"
  by (simp add: record_failure_def)

lemma login_wrong_password:
  assumes "sole u (users d)" "lr_username body = u_username u" "u_locked_until u = None"
    and "\<not> env_verify env (lr_password body) (u_password_hash u)"
  shows "fst (login env now salt jti jti' rq body d) = Inl (HTTPException 401 ''Invalid credentials'')"
    and "users (snd (login env now salt jti jti' rq body d))
      = update_where (\<lambda>v. u_id v = u_id u) (record_failure (env_cfg env) now) (users d)"
  using sole_filter [OF assms(1)] assms(2-)
  by (simp_all add: login_def Let_def update_user_def)

lemma login_locked:
  assumes "sole u (users d)" "lr_username body = u_username u" "u_locked_until u = Some l" "now < l"
  shows "fst (login env now salt jti jti' rq body d)
      = Inl (HTTPException 423 (''Account locked for '' @ show_int ((l - now) div 60000000) @ ''m''))"
    and "users (snd (login env now salt jti jti' rq body d)) = users d"
  using sole_filter [OF assms(1)] assms(2-) by (simp_all add: login_def Let_def)

text \<open>A list of logins by time, credentials and drawn values; each leaves its database.\<close>

record attempt =
  at_now :: int
  at_salt :: string
  at_jti :: string
  at_jti' :: string
  at_request :: http_request
  at_body :: login_request

definition login_at :: "'r env \<Rightarrow> attempt \<Rightarrow> db \<Rightarrow> token_response result \<times> db" where
  "login_at env a d = login env (at_now a) (at_salt a) (at_jti a) (at_jti' a) (at_request a) (at_body a) d"

definition logins :: "'r env \<Rightarrow> attempt list \<Rightarrow> db \<Rightarrow> db" where
  "logins env as d = fold (\<lambda>a d. snd (login_at env a d)) as d"

lemma logins_wrong:
  assumes "sole u (users d)" "u_locked_until u = None"
    and "u_failed_attempts u + int (length as) \<le> MAX_LOGIN_ATTEMPTS (env_cfg env)"
    and "\<forall>a\<in>set as. lr_username (at_body a) = u_username u
           \<and> \<not> env_verify env (lr_password (at_body a)) (u_password_hash u)"
  shows "sole (fold (\<lambda>a. record_failure (env_cfg env) (at_now a)) as u) (users (logins env as d))"
  using assms
proof (induction as arbitrary: u d)
  case (Cons a as)
  let ?u = "record_failure (env_cfg env) (at_now a) u"
  let ?d = "snd (login_at env a d)"
  have "sole ?u (users ?d)"
    using sole_update [OF Cons.prems(1), of "record_failure (env_cfg env) (at_now a)"]
      login_wrong_password(2) [OF Cons.prems(1) _ Cons.prems(2), where env = env] Cons.prems(4)
    by (simp add: login_at_def)
  moreover have "as \<noteq> [] \<Longrightarrow> u_locked_until ?u = None"
    using Cons.prems(2,3) by (cases as) (auto simp: record_failure_def Let_def)
  moreover have "u_failed_attempts ?u + int (length as) \<le> MAX_LOGIN_ATTEMPTS (env_cfg env)"
    using Cons.prems(3) by (simp add: login_lock.failures_fail)
  ultimately show ?case
    using Cons.IH [of ?u ?d] Cons.prems(4)
    by (cases "as = []") (auto simp: logins_def)
qed (simp add: logins_def)

text \<open>
  C8: The account lock closes after exactly the configured number of wrong passwords. From
  a reset account, while fewer have been given the account is open; after the last of them
  it answers every login, also one with the right password and MFA code, with 423 until
  the lockout time is over, and such a login changes no user.
\<close>

theorem login_lockout:
  assumes "sole u (users d)" "u_locked_until u = None" "u_failed_attempts u = 0"
    and "\<forall>a\<in>set (as @ [z]). lr_username (at_body a) = u_username u
           \<and> \<not> env_verify env (lr_password (at_body a)) (u_password_hash u)"
    and "int (length (as @ [z])) = MAX_LOGIN_ATTEMPTS (env_cfg env)"
    and "lr_username (at_body b) = u_username u"
    and "at_now b < at_now z + minutes (LOCKOUT_DURATION_MIN (env_cfg env))"
  shows "(\<exists>v. sole v (users (logins env as d)) \<and> u_id v = u_id u \<and> u_locked_until v = None)
    \<and> (\<exists>m. fst (login_at env b (logins env (as @ [z]) d)) = Inl (HTTPException 423 m))
    \<and> users (snd (login_at env b (logins env (as @ [z]) d))) = users (logins env (as @ [z]) d)"
proof -
  let ?f = "\<lambda>a. record_failure (env_cfg env) (at_now a)"
  define v where "v = fold ?f as u"
  have fv: "v = fold (record_failure (env_cfg env)) (map at_now as) u"
    by (simp add: v_def fold_map comp_def)
  have s1: "sole v (users (logins env as d))"
    unfolding v_def using logins_wrong [OF assms(1,2), of as env] assms(3,4,5) by simp
  have open_v: "u_locked_until v = None"
    using login_lock.tripped_fold [of "env_cfg env" "map at_now as" u] assms(2,3,5) fv by auto
  have cnt: "u_failed_attempts v + 1 = MAX_LOGIN_ATTEMPTS (env_cfg env)"
    using login_lock.failures_fold [of "env_cfg env" "map at_now as" u] assms(3,5) fv by simp
  have keep: "u_id (fold ?f as u) = u_id u" "u_username (fold ?f as u) = u_username u" for as
    by (induction as arbitrary: u) auto
  have s2: "sole (?f z v) (users (logins env (as @ [z]) d))"
    using logins_wrong [OF assms(1,2), of "as @ [z]" env] assms(3,4,5) by (simp add: v_def)
  have l: "u_locked_until (?f z v) = Some (at_now z + minutes (LOCKOUT_DURATION_MIN (env_cfg env)))"
    using record_failure_locked cnt by simp
  have "lr_username (at_body b) = u_username (?f z v)" using keep(2) [of as] assms(6) by (simp add: v_def)
  note L = login_locked [OF s2 this l assms(7), where env = env]
  show ?thesis using s1 open_v keep(1) [of as] L by (auto simp: login_at_def v_def)
qed

definition bad_attempt :: "int \<Rightarrow> attempt" where
  "bad_attempt now = \<lparr> at_now = now, at_salt = ''s'', at_jti = ''j'', at_jti' = ''k'', at_request = sample_request,
     at_body = \<lparr> lr_username = ''ana'', lr_password = ''wrong'', lr_mfa_code = None \<rparr> \<rparr>"

definition good_attempt :: "int \<Rightarrow> attempt" where
  "good_attempt now = (bad_attempt now)\<lparr>at_body :=
     \<lparr> lr_username = ''ana'', lr_password = ''pw'', lr_mfa_code = None \<rparr>\<rparr>"

theorem login_lockout_witness:
  "\<exists>m. fst (login_at sample_env (good_attempt 100)
     (logins sample_env ([bad_attempt 1, bad_attempt 2, bad_attempt 3, bad_attempt 4] @ [bad_attempt 5])
        sample_user_db)) = Inl (HTTPException 423 m)"
proof -
  have "sole sample_user (users sample_user_db)"
    by (auto simp: sole_def sample_user_db_def intro: exI [of _ "[]"])
  moreover have "u_locked_until sample_user = None" "u_failed_attempts sample_user = 0"
    "u_username sample_user = ''ana''" "u_password_hash sample_user = ''#pw''"
    by (simp_all add: sample_user_def new_user_def)
  ultimately show ?thesis
    using login_lockout [of sample_user sample_user_db
        "[bad_attempt 1, bad_attempt 2, bad_attempt 3, bad_attempt 4]" "bad_attempt 5" sample_env "good_attempt 100"]
    by (simp add: bad_attempt_def good_attempt_def sample_env_def default_settings_def minutes_def)
qed

text \<open>
  Tokens are issued only to a caller who knows the credentials: the account exists and
  is not locked, the password verifies, and with MFA enabled the code verifies against the
  stored secret. The response resets the failure counter and the lock of that account and
  changes no other account; any other outcome leaves passwords, roles and MFA as they were.
\<close>

theorem login_grants:
  assumes "login env now salt jti jti' rq body d = (Inr resp, d')"
  shows "\<exists>u s. u \<in> set (users d) \<and> u_username u = lr_username body
    \<and> (case u_locked_until u of None \<Rightarrow> True | Some l \<Rightarrow> l \<le> now)
    \<and> env_verify env (lr_password body) (u_password_hash u)
    \<and> (if u_mfa_enabled u
       then \<exists>c m. lr_mfa_code body = Some c \<and> u_mfa_secret u = Some m
              \<and> verify_mfa (env_cipher env) (env_totp env) m c = Inr True
       else s = u_mfa_secret u)
    \<and> issue_tokens env now jti jti' u = Inr resp
    \<and> users d' = update_where (\<lambda>v. u_id v = u_id u)
         (\<lambda>v. (record_success now v)\<lparr>u_mfa_secret := s\<rparr>) (users d)"
proof -
  obtain u where u: "scalar_one_or_none (filter (\<lambda>u. u_username u = lr_username body) (users d)) = Inr (Some u)"
    using assms by (auto simp: login_def split: sum.splits option.splits)
  then have mem: "u \<in> set (users d)" "u_username u = lr_username body"
    using scalar_filter_SomeD by fastforce+
  have lock: "\<not> (case u_locked_until u of None \<Rightarrow> False | Some l \<Rightarrow> now < l)"
    using assms u by (auto simp: login_def Let_def split: if_splits)
  have pw: "env_verify env (lr_password body) (u_password_hash u)"
    using assms u lock by (auto simp: login_def Let_def split: if_splits)
  obtain s where s: "check_login_mfa env salt body u = Inr (True, s)"
    using assms u lock pw by (auto simp: login_def Let_def split: sum.splits prod.splits bool.splits)
  have r: "issue_tokens env now jti jti' ((record_success now u)\<lparr>u_mfa_secret := s\<rparr>) = Inr resp"
    "users d' = update_where (\<lambda>v. u_id v = u_id u) (\<lambda>v. (record_success now v)\<lparr>u_mfa_secret := s\<rparr>) (users d)"
    using assms u lock pw s by (auto simp: login_def Let_def update_user_def split: sum.splits)
  have "issue_tokens env now jti jti' u = Inr resp"
    using r(1) by (simp add: issue_tokens_def record_success_def)
  moreover have "if u_mfa_enabled u
       then \<exists>c m. lr_mfa_code body = Some c \<and> u_mfa_secret u = Some m
              \<and> verify_mfa (env_cipher env) (env_totp env) m c = Inr True
       else s = u_mfa_secret u"
    using s by (cases "lr_mfa_code body")
      (auto simp: check_login_mfa_def rbind_eq_Inr split: if_splits option.splits)
  moreover have "case u_locked_until u of None \<Rightarrow> True | Some l \<Rightarrow> l \<le> now"
    using lock by (auto split: option.splits)
  ultimately show ?thesis
    by (intro exI [of _ u] exI [of _ s] conjI mem pw r(2))
qed

theorem login_grants_witness:
  "\<exists>u. u \<in> set (users sample_user_db) \<and> u_username u = ''ana''
     \<and> env_verify sample_env ''pw'' (u_password_hash u)"
proof -
  have "\<exists>resp d'. login sample_env 100 ''s'' ''j'' ''k'' sample_request
      \<lparr> lr_username = ''ana'', lr_password = ''pw'', lr_mfa_code = None \<rparr> sample_user_db = (Inr resp, d')"
    by (simp add: login_def Let_def sample_user_db_def sample_user_def new_user_def sample_env_def
        check_login_mfa_def issue_tokens_def create_access_token_def access_claims_def)
  then obtain resp d' where "login sample_env 100 ''s'' ''j'' ''k'' sample_request
      \<lparr> lr_username = ''ana'', lr_password = ''pw'', lr_mfa_code = None \<rparr> sample_user_db = (Inr resp, d')"
    by blast
  from login_grants [OF this] show ?thesis by auto
qed

text \<open>
  When the sessions cannot be revoked the password is not changed: the answer 503
  leaves the database as it was. A success means the old password verified, the new one
  satisfies the policy, only the caller's password hash changed, and the instant before
  which all his tokens are void is recorded.
\<close>

theorem change_password_atomic:
  assumes "change_password env now rq u cur new r d = (x, r', d')"
  shows "(if x = Inr True
     then env_verify env cur (u_password_hash u)
       \<and> validate_password (env_cfg env) new (Some (u_username u)) = Inr ()
       \<and> revoke_user_tokens (env_redis env) (env_cfg env) (clock_of now) (uuid_str (u_id u)) r = Inr r'
       \<and> users d' = update_where (\<lambda>v. u_id v = u_id u) (\<lambda>v. v\<lparr>u_password_hash := env_hash env new\<rparr>) (users d)
     else d' = d \<and> r' = r)"
  using assms
  by (auto simp: change_password_def update_user_def Let_def split: if_splits sum.splits exn.splits)

theorem change_password_atomic_witness:
  "change_password sample_env 5 sample_request sample_user ''wrong'' ''new'' Map.empty sample_user_db
    = (Inl (HTTPException 401 ''Current password wrong''), Map.empty, sample_user_db)
  \<and> sample_user_db = sample_user_db \<and> (Map.empty :: string \<rightharpoonup> entry) = Map.empty"
proof -
  have eq: "change_password sample_env 5 sample_request sample_user ''wrong'' ''new'' Map.empty sample_user_db
    = (Inl (HTTPException 401 ''Current password wrong''), Map.empty, sample_user_db)"
    by (simp add: change_password_def sample_env_def sample_user_def)
  from change_password_atomic [OF eq] eq show ?thesis by simp
qed

lemma refresh_Inr:
  assumes "refresh env now jti jti' token r d = (Inr resp, r')"
  shows "\<exists>p. jwt_decode (env_jwt env) (clock_of now) token = Some p
    \<and> consume_refresh_token (env_redis env) (clock_of now) p r = Inr (True, r')"
proof -
  obtain p where p: "jwt_decode (env_jwt env) (clock_of now) token = Some p"
    using assms by (cases "jwt_decode (env_jwt env) (clock_of now) token")
      (auto simp: refresh_def decode_token_def)
  moreover have "jget p ''type'' = PStr ''refresh''"
    using assms p by (auto simp: refresh_def decode_token_def split: if_splits)
  ultimately have "consume_refresh_token (env_redis env) (clock_of now) p r = Inr (True, r')"
    using assms
    by (auto simp: refresh_def decode_token_def split: sum.splits exn.splits prod.splits bool.splits)
  with p show ?thesis by blast
qed

text \<open>
  The refresh endpoint rotates: the token it accepted is used up, and from then on,
  whatever the blocklist is asked to do in between, the endpoint grants nothing for it
  before it expires, provided identifiers are not shared by tokens of different expiry.
\<close>

theorem refresh_rotates:
  assumes "redis_ok (env_redis env) ent"
    and "refresh env now ja jb token r d = (Inr resp, ra)"
    and "bl_run (env_redis env) (env_cfg env) T (clock_of now, ra) (clock_of now2, r2)"
    and "\<And>t q. jwt_decode (env_jwt env) t token = Some q \<Longrightarrow> q = p"
    and "exp_claim p = Inr e" and "ck_sec (clock_of now2) < e"
    and "\<And>q. q \<in> T \<Longrightarrow> claim_str (jget q ''jti'') = claim_str (jget p ''jti'') \<Longrightarrow> exp_claim q = Inr e"
  shows "fst (refresh env now2 jc jd token r2 d2) \<noteq> Inr resp2"
proof
  assume "fst (refresh env now2 jc jd token r2 d2) = Inr resp2"
  then obtain r3 where "refresh env now2 jc jd token r2 d2 = (Inr resp2, r3)" by (metis prod.collapse)
  from refresh_Inr [OF this] assms(4)
  have again: "consume_refresh_token (env_redis env) (clock_of now2) p r2 = Inr (True, r3)" by blast
  from refresh_Inr [OF assms(2)] assms(4)
  have "consume_refresh_token (env_redis env) (clock_of now) p r = Inr (True, ra)" by blast
  from consume_once [OF assms(1) this assms(3,5,6,7)] again show False by blast
qed

definition sample_refresh_env :: "(string \<rightharpoonup> entry) env" where
  "sample_refresh_env = sample_env\<lparr>env_jwt :=
     \<lparr> jwt_encode = (\<lambda>p. ''t''), jwt_decode = (\<lambda>n t. Some sample_refresh) \<rparr>\<rparr>"

lemma sample_clocks: "clock_of 1000000000 = clock0" "clock_of 2000000000 = clock1"
  by (simp_all add: clock_of_def clock0_def clock1_def)

definition sample_tokens :: token_response where
  "sample_tokens = \<lparr> tr_access_token = ''t'', tr_refresh_token = ''t'', tr_token_type = ''bearer'',
     tr_expires_in = 1800 \<rparr>"

lemma sample_issue: "issue_tokens sample_refresh_env now ja jb u = Inr sample_tokens"
  by (simp add: issue_tokens_def create_access_token_def create_refresh_token_def access_claims_def
      sample_refresh_env_def sample_env_def default_settings_def sample_tokens_def)

lemma sample_consume: "consume_refresh_token mem_ops clock0 sample_refresh Map.empty = Inr (True, sample_store)"
  by (simp add: consume_refresh_token_def is_token_revoked_def mem_ops_def live_def sample_token_simps)

lemma sample_refresh_claims:
  "jget sample_refresh ''type'' = PStr ''refresh''" "item sample_refresh ''sub'' = Inr (PStr ''7'')"
  by (simp_all add: sample_refresh_def refresh_claims_def jget_def item_def)

lemma sample_refresh_env_fields:
  "env_jwt sample_refresh_env = \<lparr> jwt_encode = (\<lambda>p. ''t''), jwt_decode = (\<lambda>n t. Some sample_refresh) \<rparr>"
  "env_redis sample_refresh_env = mem_ops"
  by (simp_all add: sample_refresh_env_def sample_env_def)

lemma sample_refresh_ok:
  "refresh sample_refresh_env 1000000000 ''a'' ''b'' ''t'' Map.empty sample_user_db
    = (Inr sample_tokens, sample_store)"
proof -
  have "show_nat 7 = ''7''" by code_simp
  then have "filter (\<lambda>u. PStr (uuid_str (u_id u)) = PStr ''7'') (users sample_user_db) = [sample_user]"
    by (simp add: sample_user_db_def sample_user_def new_user_def uuid_str_def)
  moreover have "u_is_active sample_user" by (simp add: sample_user_def new_user_def)
  ultimately show ?thesis
    by (simp add: refresh_def decode_token_def sample_refresh_env_fields sample_clocks
        sample_refresh_claims sample_consume sample_issue)
qed

theorem refresh_rotates_witness:
  "fst (refresh sample_refresh_env 2000000000 ''a'' ''b'' ''t'' sample_store sample_user_db)
     \<noteq> Inr sample_tokens"
proof (rule refresh_rotates [where ent = "\<lambda>m. m" and T = "{sample_refresh}" and e = 605800 and p = sample_refresh])
  show "redis_ok (env_redis sample_refresh_env) (\<lambda>m. m)"
    by (simp add: sample_refresh_env_fields mem_ops_ok)
  show "refresh sample_refresh_env 1000000000 ''a'' ''b'' ''t'' Map.empty sample_user_db
    = (Inr sample_tokens, sample_store)" by (rule sample_refresh_ok)
  have "bl_step (env_redis sample_refresh_env) (env_cfg sample_refresh_env) {sample_refresh}
      (clock0, sample_store) (clock1, sample_store)"
    by (rule bl_step.tick) (simp_all add: clock0_def clock1_def)
  then show "bl_run (env_redis sample_refresh_env) (env_cfg sample_refresh_env) {sample_refresh}
      (clock_of 1000000000, sample_store) (clock_of 2000000000, sample_store)"
    unfolding sample_clocks by (rule bl_run.step [OF bl_run.refl])
  show "exp_claim sample_refresh = Inr 605800" by (simp add: sample_token_simps)
  show "ck_sec (clock_of 2000000000) < 605800" by (simp add: clock_of_def)
qed (simp_all add: sample_refresh_env_fields, simp add: sample_token_simps)

end
