(* ===== verification/Reconciler.thy ===== *)
theory Reconciler
  imports Models NetAddr
begin

text \<open>
  \<open>app/services/reconciler.py\<close>: merging what the sources report into the asset inventory,
  shadow-IT detection, stale and unprotected assets, and alerts without repetition.
  Parameters: \<open>set_order\<close> is the order in which \<open>list(set(xs))\<close> lists a set of strings and
  \<open>show_set\<close> the rendering of a set in an f-string, both of which depend on the hash seed;
  \<open>iso\<close> renders a time. The input checks of the database on addresses are not modelled.
\<close>

section \<open>What a source reports\<close>

record host_data =
  hd_name :: "string dkey"
  hd_hostname :: "string dkey"
  hd_ip :: "string dkey"
  hd_mac :: "string dkey"
  hd_type :: "string dkey"
  hd_os :: "string dkey"
  hd_os_guess :: "string dkey"
  hd_segment :: "string dkey"
  hd_edr_status :: "string dkey"
  hd_control_coverage :: "string dkey"
  hd_network_exposure :: "string dkey"
  hd_auth_method :: "string dkey"
  hd_criticality :: "string dkey"
  hd_data_classification :: "string dkey"
  hd_software_stack :: "string list dkey"
  hd_cpe :: "string list dkey"
  hd_dependencies :: "string list dkey"
  hd_services :: "pyval dkey"

record py_env =
  set_order :: "string list \<Rightarrow> string list"
  show_set :: "pyval list \<Rightarrow> string"
  iso :: "int \<Rightarrow> string"

definition set_order_ok :: "py_env \<Rightarrow> bool" where
  "set_order_ok py = (\<forall>xs. set (set_order py xs) = set xs \<and> distinct (set_order py xs))"

definition SOURCE_PRIORITY :: "string \<rightharpoonup> int" where
  "SOURCE_PRIORITY = map_of
    [(''edr_crowdstrike'', 10), (''edr_sentinelone'', 10), (''edr_defender'', 10), (''nac_cisco_ise'', 9),
     (''nac_aruba'', 9), (''ad_ldap'', 8), (''azure_ad'', 8), (''cmdb_servicenow'', 7), (''cmdb_jira'', 7),
     (''vuln_nessus'', 6), (''vuln_qualys'', 6), (''vuln_rapid7'', 6), (''dhcp_dns'', 5), (''infoblox'', 5),
     (''cloud_aws'', 8), (''cloud_azure'', 8), (''cloud_gcp'', 8), (''nmap_scan'', 4), (''manual'', 3),
     (''asset_api'', 7)]"

definition priority_of :: "int \<Rightarrow> string \<Rightarrow> int" where
  "priority_of dflt s = (case SOURCE_PRIORITY s of None \<Rightarrow> dflt | Some p \<Rightarrow> p)"

definition existing_priority :: "string list \<Rightarrow> int" where
  "existing_priority sources = foldr max (map (priority_of 0) sources) 0"

definition authoritative :: "string list" where
  "authoritative = [''ad_ldap'', ''azure_ad'', ''cmdb_servicenow'', ''cmdb_jira'', ''edr_crowdstrike'',
     ''edr_sentinelone'', ''edr_defender'', ''cloud_aws'', ''cloud_azure'', ''cloud_gcp'', ''asset_api'']"

definition is_shadow :: "string list \<Rightarrow> bool" where
  "is_shadow sources = (\<not> list_ex (\<lambda>s. s \<in> set authoritative) sources)"

section \<open>Alerts without repetition\<close>

text \<open>The session's database and the alerts a reconciler object has generated.\<close>

record rstate =
  r_db :: db
  r_generated :: "alert list"

definition day :: int where "day = 86400000000"

definition recent_alerts :: "int \<Rightarrow> string \<Rightarrow> nat option \<Rightarrow> alert list \<Rightarrow> alert list" where
  "recent_alerts now alert_type asset_id rows =
     filter (\<lambda>a. al_alert_type a = alert_type \<and> al_asset_id a = asset_id
                 \<and> now - day < al_created_at a \<and> al_status a = ''open'') rows"

definition raise_alert :: "int \<Rightarrow> string \<Rightarrow> string \<Rightarrow> string \<Rightarrow> string \<Rightarrow> nat option \<Rightarrow> jdict \<Rightarrow> rstate \<Rightarrow> rstate result" where
  "raise_alert now alert_type severity title description asset_id details st =
     rbind (scalar_one_or_none (recent_alerts now alert_type asset_id (alerts (r_db st)))) (\<lambda>found.
       if found \<noteq> None then Inr st
       else
         let (i, d) = fresh_id (r_db st);
             a = (new_alert i now)\<lparr>al_alert_type := alert_type, al_severity := severity,
                   al_title := title, al_description := description, al_asset_id := asset_id,
                   al_details := details\<rparr>
         in Inr \<lparr> r_db = d\<lparr>alerts := alerts d @ [a]\<rparr>, r_generated = r_generated st @ [a] \<rparr>)"

section \<open>Merging\<close>

fun service_names :: "pyval list \<Rightarrow> pyval list result" where
  "service_names [] = Inr []"
| "service_names (s # ss) =
     (if \<not> py_truthy s then service_names ss
      else case s of
        PDict d \<Rightarrow>
          (case jget d ''service'' of
             PList xs \<Rightarrow> Inl TypeError
           | PDict e \<Rightarrow> Inl TypeError
           | v \<Rightarrow> rbind (service_names ss) (\<lambda>vs. Inr (v # vs)))
      | _ \<Rightarrow> Inl AttributeError)"

text \<open>The set of service names of \<open>v or []\<close>, as a list; iterating a dictionary yields its keys.\<close>

definition iter_services :: "pyval \<Rightarrow> pyval list result" where
  "iter_services v =
     (if \<not> py_truthy v then Inr []
      else case v of
        PList xs \<Rightarrow> service_names xs
      | PDict d \<Rightarrow> service_names (map (\<lambda>(k, w). PStr k) d)
      | PStr s \<Rightarrow> service_names (map (\<lambda>c. PStr [c]) s)
      | _ \<Rightarrow> Inl TypeError)"

definition opt_val :: "pyval option \<Rightarrow> pyval" where
  "opt_val v = (case v of None \<Rightarrow> PNone | Some w \<Rightarrow> w)"

text \<open>\<open>if data.get(field): setattr(asset, field, data[field])\<close>\<close>

definition set_opt :: "string dkey \<Rightarrow> string option \<Rightarrow> string option" where
  "set_opt k old = (case dget k None of None \<Rightarrow> old | Some v \<Rightarrow> if v = [] then old else Some v)"

definition set_str :: "string dkey \<Rightarrow> string \<Rightarrow> string" where
  "set_str k old = (case dget k None of None \<Rightarrow> old | Some v \<Rightarrow> if v = [] then old else v)"

definition overwrite_fields :: "host_data \<Rightarrow> asset \<Rightarrow> asset" where
  "overwrite_fields h a = a\<lparr>
     a_name := set_str (hd_name h) (a_name a),
     a_os := set_opt (hd_os h) (a_os a),
     a_ip := set_opt (hd_ip h) (a_ip a),
     a_mac := set_opt (hd_mac h) (a_mac a),
     a_segment := set_opt (hd_segment h) (a_segment a),
     a_edr_status := set_opt (hd_edr_status h) (a_edr_status a),
     a_control_coverage := set_str (hd_control_coverage h) (a_control_coverage a),
     a_network_exposure := set_str (hd_network_exposure h) (a_network_exposure a),
     a_auth_method := set_str (hd_auth_method h) (a_auth_method a),
     a_criticality := set_str (hd_criticality h) (a_criticality a),
     a_data_classification := set_str (hd_data_classification h) (a_data_classification a)\<rparr>"

definition enrich :: "py_env \<Rightarrow> string list dkey \<Rightarrow> string list \<Rightarrow> string list" where
  "enrich py k old =
     (case dget k None of None \<Rightarrow> old | Some xs \<Rightarrow> if xs = [] then old else set_order py (old @ xs))"

definition merge_fields :: "py_env \<Rightarrow> int \<Rightarrow> string \<Rightarrow> host_data \<Rightarrow> asset \<Rightarrow> asset" where
  "merge_fields py now source h a =
     (let a1 = (if existing_priority (a_sources a) \<le> priority_of 1 source then overwrite_fields h a else a);
          sources = (if source \<in> set (a_sources a) then a_sources a else a_sources a @ [source])
      in a1\<lparr>a_software_stack := enrich py (hd_software_stack h) (a_software_stack a1),
            a_cpe := enrich py (hd_cpe h) (a_cpe a1),
            a_dependencies := enrich py (hd_dependencies h) (a_dependencies a1),
            a_sources := sources, a_last_seen := now, a_is_stale := False,
            a_is_shadow := is_shadow sources,
            a_attrs := jset ''services'' (opt_val (dget (hd_services h) (Some (PList [])))) (a_attrs a1)\<rparr>)"

definition merge_source :: "py_env \<Rightarrow> int \<Rightarrow> asset \<Rightarrow> string \<Rightarrow> host_data \<Rightarrow> rstate \<Rightarrow> (asset \<times> rstate) result" where
  "merge_source py now a source h st =
     rbind (iter_services (jget (a_attrs a) ''services'')) (\<lambda>old.
     rbind (iter_services (opt_val (dget (hd_services h) None))) (\<lambda>new.
     rbind (if old \<noteq> [] \<and> new \<noteq> [] \<and> set old \<noteq> set new
            then raise_alert now ''drift'' ''medium'' (''Service drift on '' @ a_name a)
                   (''Services changed: added='' @ show_set py (filter (\<lambda>v. v \<notin> set old) new)
                    @ '', removed='' @ show_set py (filter (\<lambda>v. v \<notin> set new) old))
                   (Some (a_id a)) [] st
            else Inr st) (\<lambda>st.
       let a' = merge_fields py now source h a;
           d = r_db st
       in Inr (a', st\<lparr>r_db := d\<lparr>assets := update_where (\<lambda>x. a_id x = a_id a) (\<lambda>x. a') (assets d)\<rparr>\<rparr>))))"

section \<open>New assets\<close>

definition get_or :: "string dkey \<Rightarrow> string \<Rightarrow> string option" where
  "get_or k dflt = dget k (Some dflt)"

definition list_or :: "string list dkey \<Rightarrow> string list" where
  "list_or k = (case dget k (Some []) of None \<Rightarrow> [] | Some xs \<Rightarrow> xs)"

definition opt_text :: "string option \<Rightarrow> string" where
  "opt_text s = (case s of None \<Rightarrow> ''None'' | Some v \<Rightarrow> v)"

text \<open>A column that may not be null refuses \<open>None\<close> when the row is flushed.\<close>

definition build_asset :: "int \<Rightarrow> nat \<Rightarrow> string \<Rightarrow> host_data \<Rightarrow> asset result" where
  "build_asset now i source h =
     (case (str_or (dget (hd_name h) None) (str_or (dget (hd_hostname h) None) (get_or (hd_ip h) ''unknown'')),
            get_or (hd_type h) ''Unknown'', get_or (hd_control_coverage h) ''none'',
            get_or (hd_network_exposure h) ''internal'', get_or (hd_auth_method h) ''password'',
            get_or (hd_criticality h) ''medium'', get_or (hd_data_classification h) ''Internal'') of
        (Some name, Some type, Some coverage, Some exposure, Some auth, Some crit, Some cls) \<Rightarrow>
          Inr ((new_asset i now)\<lparr>a_name := name, a_type := type,
            a_os := str_or (dget (hd_os h) None) (dget (hd_os_guess h) None),
            a_ip := dget (hd_ip h) None, a_mac := dget (hd_mac h) None,
            a_segment := get_or (hd_segment h) ''Unknown'',
            a_edr_status := get_or (hd_edr_status h) ''None'',
            a_control_coverage := coverage, a_network_exposure := exposure, a_auth_method := auth,
            a_criticality := crit, a_data_classification := cls,
            a_software_stack := list_or (hd_software_stack h), a_cpe := list_or (hd_cpe h),
            a_dependencies := list_or (hd_dependencies h), a_sources := [source],
            a_is_shadow := is_shadow [source]\<rparr>)
      | _ \<Rightarrow> Inl IntegrityError)"

definition shadow_alert :: "int \<Rightarrow> string \<Rightarrow> asset \<Rightarrow> rstate \<Rightarrow> rstate result" where
  "shadow_alert now source a =
     raise_alert now ''shadow_it'' ''high'' (''Shadow IT detected: '' @ a_name a)
       (''Asset discovered by '' @ source @ '' only, not present in AD/CMDB/EDR. IP='' @ opt_text (a_ip a)
        @ '', MAC='' @ opt_text (a_mac a))
       (Some (a_id a))
       [(''source'', PStr source), (''ip'', if truthy_str (a_ip a) then opt_str (a_ip a) else PNone)]"

definition create_from_source :: "int \<Rightarrow> string \<Rightarrow> host_data \<Rightarrow> rstate \<Rightarrow> (asset \<times> rstate) result" where
  "create_from_source now source h st =
     (let (i, d) = fresh_id (r_db st)
      in rbind (build_asset now i source h) (\<lambda>a.
         let st1 = st\<lparr>r_db := d\<lparr>assets := assets d @ [a]\<rparr>\<rparr>
         in rbind (if a_is_shadow a then shadow_alert now source a st1 else Inr st1)
                (\<lambda>st2. Inr (a, st2))))"

section \<open>Reconciling a host\<close>

text \<open>Hardware addresses are equal when their hexadecimal digits are.\<close>

definition mac_key :: "string \<Rightarrow> string" where
  "mac_key s = filter is_hex (map lower_char s)"

definition same_mac :: "string \<Rightarrow> asset \<Rightarrow> bool" where
  "same_mac m a = (case a_mac a of None \<Rightarrow> False | Some n \<Rightarrow> mac_key n = mac_key m)"

definition same_ip :: "ip_addr \<Rightarrow> asset \<Rightarrow> bool" where
  "same_ip v a = (case a_ip a of None \<Rightarrow> False | Some s \<Rightarrow> ip_address s = Some v)"

definition find_existing :: "host_data \<Rightarrow> asset list \<Rightarrow> asset option result" where
  "find_existing h rows =
     (let ip = dget (hd_ip h) None; mac = dget (hd_mac h) None;
          hostname = str_or (dget (hd_name h) None) (dget (hd_hostname h) None);
          ip_value = (if truthy_str ip then ip_address (the ip) else None)
      in rbind (if truthy_str mac then scalar_one_or_none (filter (same_mac (the mac)) rows) else Inr None)
         (\<lambda>e1. rbind (if e1 = None \<and> ip_value \<noteq> None
                      then scalar_one_or_none (filter (same_ip (the ip_value)) rows) else Inr e1)
         (\<lambda>e2. if e2 = None \<and> truthy_str hostname
               then scalar_one_or_none (filter (\<lambda>a. a_name a = the hostname) rows) else Inr e2)))"

definition reconcile_host :: "py_env \<Rightarrow> int \<Rightarrow> string \<Rightarrow> host_data \<Rightarrow> rstate \<Rightarrow> (asset \<times> rstate) result" where
  "reconcile_host py now source h st =
     rbind (find_existing h (assets (r_db st))) (\<lambda>e.
       case e of
         Some a \<Rightarrow> merge_source py now a source h st
       | None \<Rightarrow> create_from_source now source h st)"

section \<open>Stale and unprotected assets\<close>

definition mark_stale :: "int \<Rightarrow> asset \<Rightarrow> asset" where
  "mark_stale now a = asset_flush now a (a\<lparr>a_is_stale := True\<rparr>)"

definition stale_step :: "py_env \<Rightarrow> int \<Rightarrow> int \<Rightarrow> asset \<Rightarrow> rstate \<Rightarrow> rstate result" where
  "stale_step py now threshold_days a st =
     (let d = r_db st;
          st1 = st\<lparr>r_db := d\<lparr>assets := update_where (\<lambda>x. a_id x = a_id a) (mark_stale now) (assets d)\<rparr>\<rparr>
      in raise_alert now ''stale_asset'' ''low'' (''Stale asset: '' @ a_name a)
           (''Last seen '' @ iso py (a_last_seen a) @ '' '' @ [char_of (226::nat), char_of (128::nat), char_of (148::nat)]
            @ '' exceeds '' @ show_int threshold_days @ ''d threshold'')
           (Some (a_id a)) [] st1)"

definition detect_stale_assets :: "py_env \<Rightarrow> int \<Rightarrow> int \<Rightarrow> rstate \<Rightarrow> (nat \<times> rstate) result" where
  "detect_stale_assets py now threshold_days st =
     (let stale = filter (\<lambda>a. a_last_seen a < now - threshold_days * day \<and> \<not> a_is_stale a) (assets (r_db st))
      in rbind (rfold (stale_step py now threshold_days) stale st) (\<lambda>st'. Inr (length stale, st')))"

definition edr_types :: "string list" where
  "edr_types = [''Server'', ''Endpoint'', ''Workstation'', ''Database Server'']"

definition edr_gap :: "asset \<Rightarrow> bool" where
  "edr_gap a = ((a_edr_status a = Some ''None'' \<or> a_edr_status a = None) \<and> a_type a \<in> set edr_types)"

definition detect_edr_gaps :: "int \<Rightarrow> rstate \<Rightarrow> (nat \<times> rstate) result" where
  "detect_edr_gaps now st =
     (let gaps = filter edr_gap (assets (r_db st))
      in rbind (rfold (\<lambda>a. raise_alert now ''edr_gap'' ''high'' (''EDR coverage gap: '' @ a_name a)
              (''No EDR agent detected on '' @ a_type a @ '' asset'') (Some (a_id a)) []) gaps st)
          (\<lambda>st'. Inr (length gaps, st')))"

text \<open>The periodic task of \<open>workers/reconcile_tasks.py\<close>.\<close>

definition detect_stale_and_gaps :: "py_env \<Rightarrow> int \<Rightarrow> rstate \<Rightarrow> ((nat \<times> nat) \<times> rstate) result" where
  "detect_stale_and_gaps py now st =
     rbind (detect_stale_assets py now 30 st) (\<lambda>(stale, st).
     rbind (detect_edr_gaps now st) (\<lambda>(gaps, st). Inr ((stale, gaps), st)))"

section \<open>Alerts are spaced\<close>

text \<open>
  No two open alerts of one kind on one asset lie less than a day apart. \<open>same_issue\<close> is
  the dedup key of \<open>_raise_alert\<close>, the rows are in the order of their creation.
\<close>

definition same_issue :: "alert \<Rightarrow> alert \<Rightarrow> bool" where
  "same_issue a b = (al_alert_type a = al_alert_type b \<and> al_asset_id a = al_asset_id b)"

definition open_alert :: "alert \<Rightarrow> bool" where
  "open_alert a = (al_status a = ''open'' \<and> al_asset_id a \<noteq> None)"

fun spaced :: "alert list \<Rightarrow> bool" where
  "spaced [] = True"
| "spaced (a # rows) =
     (list_all (\<lambda>b. open_alert a \<and> open_alert b \<and> same_issue a b \<longrightarrow> al_created_at a + day \<le> al_created_at b) rows
      \<and> spaced rows)"

definition alerts_ok :: "int \<Rightarrow> alert list \<Rightarrow> bool" where
  "alerts_ok now rows = (spaced rows \<and> list_all (\<lambda>a. al_created_at a \<le> now) rows)"

lemma spaced_append:
  "spaced (rows @ [b]) = (spaced rows
     \<and> list_all (\<lambda>a. open_alert a \<and> open_alert b \<and> same_issue a b \<longrightarrow> al_created_at a + day \<le> al_created_at b) rows)"
  by (induction rows) auto

lemma spaced_filter: "spaced rows \<Longrightarrow> spaced (filter P rows)"
  by (induction rows) (auto simp: list_all_iff)

lemma recent_at_most_one:
  assumes "alerts_ok now rows" and "aid \<noteq> None"
  shows "length (recent_alerts now ty aid rows) \<le> 1"
proof (rule ccontr)
  assume "\<not> ?thesis"
  then obtain a b rest where r: "recent_alerts now ty aid rows = a # b # rest"
    by (cases "recent_alerts now ty aid rows" rule: scalar_one_or_none.cases) auto
  have "spaced (a # b # rest)"
    using assms(1) by (simp add: alerts_ok_def r [symmetric] recent_alerts_def spaced_filter del: spaced.simps)
  moreover have m: "a \<in> set (recent_alerts now ty aid rows)" "b \<in> set (recent_alerts now ty aid rows)"
    by (simp_all add: r)
  moreover have "al_created_at b \<le> now"
    using assms(1) m by (auto simp: alerts_ok_def list_all_iff recent_alerts_def)
  ultimately show False
    using assms(2) by (auto simp: recent_alerts_def open_alert_def same_issue_def)
qed

text \<open>What \<open>_raise_alert\<close> does when the alerts are spaced: it returns, keeps them spaced, and leaves a recent one.\<close>

lemma raise_alert_ok:
  fixes st :: rstate
  assumes "alerts_ok now (alerts (r_db st))" and "aid \<noteq> None"
  obtains st' where "raise_alert now ty sev ti de aid dt st = Inr st'"
    and "alerts_ok now (alerts (r_db st'))"
    and "length (recent_alerts now ty aid (alerts (r_db st'))) = 1"
    and "\<exists>new. alerts (r_db st') = alerts (r_db st) @ new \<and> length new \<le> 1"
    and "assets (r_db st') = assets (r_db st)" and "next_id (r_db st) \<le> next_id (r_db st')"
proof (cases "recent_alerts now ty aid (alerts (r_db st))" rule: scalar_one_or_none_cases)
  case none
  let ?a = "(new_alert (next_id (r_db st)) now)\<lparr>al_alert_type := ty, al_severity := sev,
                   al_title := ti, al_description := de, al_asset_id := aid, al_details := dt\<rparr>"
  let ?st = "\<lparr> r_db = (r_db st)\<lparr>next_id := next_id (r_db st) + 1, alerts := alerts (r_db st) @ [?a]\<rparr>,
               r_generated = r_generated st @ [?a] \<rparr>"
  have new: "recent_alerts now ty aid [?a] = [?a]"
    by (simp add: recent_alerts_def new_alert_def day_def)
  have app: "recent_alerts now ty aid (xs @ ys) = recent_alerts now ty aid xs @ recent_alerts now ty aid ys" for xs ys
    by (simp add: recent_alerts_def)
  have far: "al_created_at a + day \<le> now"
    if "a \<in> set (alerts (r_db st))" "open_alert a" "same_issue a ?a" for a
  proof -
    have "a \<notin> set (recent_alerts now ty aid (alerts (r_db st)))" by (simp add: none)
    then show ?thesis using that by (auto simp: recent_alerts_def open_alert_def same_issue_def)
  qed
  have "alerts_ok now (alerts (r_db ?st))"
    using assms(1) far by (auto simp: alerts_ok_def spaced_append list_all_iff new_alert_def)
  then show ?thesis
    using none new by (intro that [of ?st]) (simp_all add: raise_alert_def fresh_id_def app Let_def)
next
  case (one r)
  then show ?thesis using assms by (intro that [of st]) (simp_all add: raise_alert_def)
next
  case many
  then show ?thesis using recent_at_most_one [OF assms, of ty] by simp
qed

lemma rfold_alerts_ok:
  fixes st :: rstate
  assumes "alerts_ok now (alerts (r_db st))"
    and "\<And>x u. x \<in> set xs \<Longrightarrow> alerts_ok now (alerts (r_db u)) \<Longrightarrow>
           \<exists>v. f x u = Inr v \<and> alerts_ok now (alerts (r_db v))
               \<and> (\<exists>new. alerts (r_db v) = alerts (r_db u) @ new)
               \<and> length (recent_alerts now ty (k x) (alerts (r_db v))) = 1"
  shows "\<exists>t. rfold f xs st = Inr t \<and> alerts_ok now (alerts (r_db t))
             \<and> (\<exists>new. alerts (r_db t) = alerts (r_db st) @ new)
             \<and> (\<forall>x\<in>set xs. recent_alerts now ty (k x) (alerts (r_db t)) \<noteq> [])"
  using assms
proof (induction xs arbitrary: st)
  case Nil
  then show ?case by simp
next
  case (Cons x xs)
  from Cons.prems(2) [of x st] Cons.prems(1) obtain v where v: "f x st = Inr v" "alerts_ok now (alerts (r_db v))"
    "\<exists>new. alerts (r_db v) = alerts (r_db st) @ new" "length (recent_alerts now ty (k x) (alerts (r_db v))) = 1"
    by auto
  from Cons.IH [OF v(2)] Cons.prems(2) obtain t where t: "rfold f xs v = Inr t" "alerts_ok now (alerts (r_db t))"
    "\<exists>new. alerts (r_db t) = alerts (r_db v) @ new" "\<forall>y\<in>set xs. recent_alerts now ty (k y) (alerts (r_db t)) \<noteq> []"
    by auto
  from v(3,4) t(3) have "recent_alerts now ty (k x) (alerts (r_db t)) \<noteq> []"
    by (auto simp: recent_alerts_def)
  with v(1,3) t show ?case by fastforce
qed

lemma detect_edr_gaps_ok:
  fixes st :: rstate
  assumes "alerts_ok now (alerts (r_db st))"
  shows "\<exists>st'. detect_edr_gaps now st = Inr (length (filter edr_gap (assets (r_db st))), st')
     \<and> alerts_ok now (alerts (r_db st'))
     \<and> (\<exists>new. alerts (r_db st') = alerts (r_db st) @ new)
     \<and> (\<forall>a\<in>set (assets (r_db st)). edr_gap a \<longrightarrow>
          recent_alerts now ''edr_gap'' (Some (a_id a)) (alerts (r_db st')) \<noteq> [])"
proof -
  let ?f = "\<lambda>a. raise_alert now ''edr_gap'' ''high'' (''EDR coverage gap: '' @ a_name a)
              (''No EDR agent detected on '' @ a_type a @ '' asset'') (Some (a_id a)) []"
  have "\<exists>t. rfold ?f (filter edr_gap (assets (r_db st))) st = Inr t \<and> alerts_ok now (alerts (r_db t))
             \<and> (\<exists>new. alerts (r_db t) = alerts (r_db st) @ new)
             \<and> (\<forall>x\<in>set (filter edr_gap (assets (r_db st))).
                  recent_alerts now ''edr_gap'' (Some (a_id x)) (alerts (r_db t)) \<noteq> [])"
  proof (rule rfold_alerts_ok [OF assms])
    fix x :: asset and u :: rstate assume "alerts_ok now (alerts (r_db u))"
    then show "\<exists>v. ?f x u = Inr v \<and> alerts_ok now (alerts (r_db v))
               \<and> (\<exists>new. alerts (r_db v) = alerts (r_db u) @ new)
               \<and> length (recent_alerts now ''edr_gap'' (Some (a_id x)) (alerts (r_db v))) = 1"
      by (rule raise_alert_ok [of now u "Some (a_id x)"]) auto
  qed
  then show ?thesis by (auto simp: detect_edr_gaps_def)
qed

lemma a_id_mark_stale [simp]: "a_id (mark_stale now a) = a_id a"
  by (simp add: mark_stale_def asset_flush_def)

interpretation stale_row: row_mutation a_id "mark_stale now" for now
  by unfold_locales simp

lemma detect_stale_assets_ok:
  fixes st :: rstate
  assumes "alerts_ok now (alerts (r_db st))"
  shows "\<exists>st'. detect_stale_assets py now n st
            = Inr (length (filter (\<lambda>a. a_last_seen a < now - n * day \<and> \<not> a_is_stale a) (assets (r_db st))), st')
     \<and> alerts_ok now (alerts (r_db st'))
     \<and> (\<exists>new. alerts (r_db st') = alerts (r_db st) @ new)
     \<and> (\<forall>a\<in>set (assets (r_db st)). a_last_seen a < now - n * day \<and> \<not> a_is_stale a \<longrightarrow>
          recent_alerts now ''stale_asset'' (Some (a_id a)) (alerts (r_db st')) \<noteq> [])"
proof -
  let ?xs = "filter (\<lambda>a. a_last_seen a < now - n * day \<and> \<not> a_is_stale a) (assets (r_db st))"
  have "\<exists>t. rfold (stale_step py now n) ?xs st = Inr t \<and> alerts_ok now (alerts (r_db t))
             \<and> (\<exists>new. alerts (r_db t) = alerts (r_db st) @ new)
             \<and> (\<forall>x\<in>set ?xs. recent_alerts now ''stale_asset'' (Some (a_id x)) (alerts (r_db t)) \<noteq> [])"
  proof (rule rfold_alerts_ok [OF assms])
    fix x :: asset and u :: rstate assume u: "alerts_ok now (alerts (r_db u))"
    let ?u = "u\<lparr>r_db := (r_db u)\<lparr>assets := update_where (\<lambda>y. a_id y = a_id x) (mark_stale now) (assets (r_db u))\<rparr>\<rparr>"
    have "alerts_ok now (alerts (r_db ?u))" using u by simp
    then show "\<exists>v. stale_step py now n x u = Inr v \<and> alerts_ok now (alerts (r_db v))
               \<and> (\<exists>new. alerts (r_db v) = alerts (r_db u) @ new)
               \<and> length (recent_alerts now ''stale_asset'' (Some (a_id x)) (alerts (r_db v))) = 1"
      by (rule raise_alert_ok [of now ?u "Some (a_id x)"]) (auto simp: stale_step_def Let_def)
  qed
  then show ?thesis by (auto simp: detect_stale_assets_def)
qed

section \<open>Precedence of the sources\<close>

definition authoritative_view :: "asset \<Rightarrow> string \<times> string option list \<times> string list" where
  "authoritative_view a = (a_name a, [a_os a, a_ip a, a_mac a, a_segment a, a_edr_status a],
     [a_control_coverage a, a_network_exposure a, a_auth_method a, a_criticality a, a_data_classification a])"

text \<open>The reports of several sources on one asset, merged one after the other.\<close>

definition merge_all :: "py_env \<Rightarrow> int \<Rightarrow> (string \<times> host_data) list \<Rightarrow> asset \<times> rstate \<Rightarrow> (asset \<times> rstate) result" where
  "merge_all py now reports s =
     rfold (\<lambda>(source, h) (a, st). merge_source py now a source h st) reports s"

lemma existing_priority_member: "s \<in> set xs \<Longrightarrow> priority_of 0 s \<le> existing_priority xs"
  by (induction xs) (auto simp: existing_priority_def)

lemma existing_priority_snoc: "existing_priority xs \<le> existing_priority (xs @ [s])"
  by (induction xs) (auto simp: existing_priority_def)

lemma merge_source_asset:
  "merge_source py now a source h st = Inr (a', st') \<Longrightarrow> a' = merge_fields py now source h a"
  by (auto simp: merge_source_def rbind_eq_Inr Let_def)

lemma merge_fields_lower:
  "priority_of 1 source < existing_priority (a_sources a) \<Longrightarrow>
   authoritative_view (merge_fields py now source h a) = authoritative_view a"
  by (simp add: merge_fields_def authoritative_view_def Let_def)

lemma merge_fields_priority:
  "existing_priority (a_sources a) \<le> existing_priority (a_sources (merge_fields py now source h a))"
  by (simp add: merge_fields_def Let_def existing_priority_snoc)

lemma merge_fields_sources:
  "set (a_sources (merge_fields py now source h a)) = insert source (set (a_sources a))"
  by (auto simp: merge_fields_def Let_def)

lemma overwrite_sets [simp]:
  "a_software_stack (overwrite_fields h a) = a_software_stack a"
  "a_cpe (overwrite_fields h a) = a_cpe a"
  "a_dependencies (overwrite_fields h a) = a_dependencies a"
  "a_sources (overwrite_fields h a) = a_sources a"
  "a_id (overwrite_fields h a) = a_id a"
  by (simp_all add: overwrite_fields_def)

definition listed :: "string list dkey \<Rightarrow> string set" where
  "listed k = (case dget k None of None \<Rightarrow> {} | Some xs \<Rightarrow> set xs)"

lemma enrich_union: "set_order_ok py \<Longrightarrow> set (enrich py k old) = set old \<union> listed k"
  by (auto simp: enrich_def listed_def set_order_ok_def split: option.splits)

lemma merge_fields_enriches:
  assumes "set_order_ok py"
  shows "set (a_software_stack (merge_fields py now source h a)) = set (a_software_stack a) \<union> listed (hd_software_stack h)"
    and "set (a_cpe (merge_fields py now source h a)) = set (a_cpe a) \<union> listed (hd_cpe h)"
    and "set (a_dependencies (merge_fields py now source h a)) = set (a_dependencies a) \<union> listed (hd_dependencies h)"
  by (simp_all add: merge_fields_def Let_def enrich_union [OF assms])

text \<open>
  C13: source precedence. However many sources report on an asset within a session, in whatever
  order: as long as each ranks below the most authoritative source the asset already has, none
  of the eleven authoritative fields changes; meanwhile the software, CPE and dependency lists
  grow to exactly the union of all reports, every reporting source is recorded, and the shadow
  flag says whether an authoritative source is among them.
\<close>

theorem merge_all_precedence:
  assumes "set_order_ok py"
    and "merge_all py now reports (a, st) = Inr (a', st')"
    and "\<forall>(s, h)\<in>set reports. priority_of 1 s < existing_priority (a_sources a)"
  shows "authoritative_view a' = authoritative_view a
     \<and> set (a_software_stack a') = set (a_software_stack a) \<union> (\<Union>(s, h)\<in>set reports. listed (hd_software_stack h))
     \<and> set (a_cpe a') = set (a_cpe a) \<union> (\<Union>(s, h)\<in>set reports. listed (hd_cpe h))
     \<and> set (a_dependencies a') = set (a_dependencies a) \<union> (\<Union>(s, h)\<in>set reports. listed (hd_dependencies h))
     \<and> set (a_sources a') = set (a_sources a) \<union> fst ` set reports
     \<and> (reports = [] \<or> a_is_shadow a' = (set (a_sources a') \<inter> set authoritative = {}))"
  using assms(2,3)
proof (induction reports arbitrary: a st)
  case Nil
  then show ?case by (simp add: merge_all_def)
next
  case (Cons r reports)
  obtain s h where r: "r = (s, h)" by (cases r)
  from Cons.prems(1) obtain b u where m: "merge_source py now a s h st = Inr (b, u)"
    and rest: "merge_all py now reports (b, u) = Inr (a', st')"
    by (auto simp: merge_all_def r rbind_eq_Inr)
  note b = merge_source_asset [OF m]
  have shadow: "a_is_shadow b = (set (a_sources b) \<inter> set authoritative = {})"
    by (auto simp: b merge_fields_def Let_def is_shadow_def list_ex_iff)
  have low: "\<forall>(s, h)\<in>set reports. priority_of 1 s < existing_priority (a_sources b)"
    using Cons.prems(2) merge_fields_priority [of a py now s h] by (fastforce simp: b)
  have "authoritative_view b = authoritative_view a"
    using Cons.prems(2) by (simp add: b r merge_fields_lower)
  with Cons.IH [OF rest low] shadow show ?case
    using rest by (cases "reports = []")
      (auto simp: b r merge_fields_enriches [OF assms(1)] merge_fields_sources merge_all_def)
qed

text \<open>
  What a flush writes of a merged asset. \<open>sources = asset.sources or []\<close> is the loaded list
  itself unless that is empty; appending changes it in place and the assignment stores the same
  object, so the ORM, which does not track changes inside a JSON value, finds the column
  unchanged and leaves it out of the UPDATE.
\<close>

definition flushed_asset :: "asset \<Rightarrow> asset \<Rightarrow> asset" where
  "flushed_asset loaded a = a\<lparr>a_sources := if a_sources loaded = [] then a_sources a else a_sources loaded\<rparr>"

lemma priority_incoming: "priority_of 0 s \<le> priority_of 1 s"
  by (simp add: priority_of_def split: option.splits)

lemma priority_of_nonneg: "0 \<le> priority_of 0 s"
proof (cases "SOURCE_PRIORITY s")
  case (Some p)
  then have "(s, p) \<in> set [(''edr_crowdstrike'', 10), (''edr_sentinelone'', 10), (''edr_defender'', 10), (''nac_cisco_ise'', 9),
     (''nac_aruba'', 9), (''ad_ldap'', 8), (''azure_ad'', 8), (''cmdb_servicenow'', 7), (''cmdb_jira'', 7),
     (''vuln_nessus'', 6), (''vuln_qualys'', 6), (''vuln_rapid7'', 6), (''dhcp_dns'', 5), (''infoblox'', 5),
     (''cloud_aws'', 8), (''cloud_azure'', 8), (''cloud_gcp'', 8), (''nmap_scan'', 4), (''manual'', 3),
     (''asset_api'', 7::int)]"
    unfolding SOURCE_PRIORITY_def by (rule map_of_SomeD)
  then have "0 \<le> p" by auto
  with Some show ?thesis by (simp add: priority_of_def)
qed (simp add: priority_of_def)

text \<open>
  what a session merges into a stored asset is forgotten with the session. An asset known
  from a single source and merged with any other, however authoritative, is stored with its old
  list of sources: when the first source reports again in a later session, its values overwrite
  the authoritative fields and the shadow flag is computed as if the other had never reported.
\<close>

theorem merged_source_forgotten:
  assumes "a_sources a = [s]"
    and "merge_source py now a t h st = Inr (b, u)"
    and "merge_source py later (flushed_asset a b) s h' st' = Inr (d, u')"
  shows "a_sources (flushed_asset a b) = [s]
     \<and> a_sources d = [s] \<and> a_is_shadow d = is_shadow [s]
     \<and> authoritative_view d = authoritative_view (overwrite_fields h' (flushed_asset a b))"
proof -
  have src: "a_sources (flushed_asset a b) = [s]" using assms(1) by (simp add: flushed_asset_def)
  have "existing_priority (a_sources (flushed_asset a b)) \<le> priority_of 1 s"
    using priority_incoming [of s] priority_of_nonneg [of s] by (simp add: src existing_priority_def)
  with src show ?thesis
    by (simp add: merge_source_asset [OF assms(3)] merge_fields_def Let_def authoritative_view_def)
qed

section \<open>Identification of a host\<close>

lemma raise_alert_frame:
  assumes "raise_alert now ty sev ti de aid dt st = Inr st'"
  shows "assets (r_db st') = assets (r_db st)"
    and "\<exists>al\<in>set (alerts (r_db st')). al_alert_type al = ty \<and> al_asset_id al = aid \<and> al_status al = ''open''"
proof -
  from assms obtain found where
    f: "scalar_one_or_none (recent_alerts now ty aid (alerts (r_db st))) = Inr found"
    by (auto simp: raise_alert_def rbind_eq_Inr)
  show "assets (r_db st') = assets (r_db st)"
    using assms f by (auto simp: raise_alert_def fresh_id_def Let_def split: if_splits)
  show "\<exists>al\<in>set (alerts (r_db st')). al_alert_type al = ty \<and> al_asset_id al = aid \<and> al_status al = ''open''"
  proof (cases found)
    case None
    then show ?thesis using assms f by (auto simp: raise_alert_def fresh_id_def Let_def new_alert_def)
  next
    case (Some r)
    then have "r \<in> set (recent_alerts now ty aid (alerts (r_db st)))"
      using scalar_one_or_none_SomeD [of "recent_alerts now ty aid (alerts (r_db st))" r] f by simp
    then show ?thesis using assms f Some by (auto simp: raise_alert_def recent_alerts_def)
  qed
qed

definition by_mac :: "host_data \<Rightarrow> asset \<Rightarrow> bool" where
  "by_mac h a = (truthy_str (dget (hd_mac h) None) \<and> same_mac (the (dget (hd_mac h) None)) a)"

definition by_ip :: "host_data \<Rightarrow> asset \<Rightarrow> bool" where
  "by_ip h a = (truthy_str (dget (hd_ip h) None) \<and> ip_address (the (dget (hd_ip h) None)) \<noteq> None
     \<and> same_ip (the (ip_address (the (dget (hd_ip h) None)))) a)"

definition by_name :: "host_data \<Rightarrow> asset \<Rightarrow> bool" where
  "by_name h a = (let n = str_or (dget (hd_name h) None) (dget (hd_hostname h) None)
     in truthy_str n \<and> a_name a = the n)"

text \<open>A row the report identifies: by hardware address, else by address, else by name.\<close>

definition identified :: "host_data \<Rightarrow> asset list \<Rightarrow> asset \<Rightarrow> bool" where
  "identified h rows a =
     (by_mac h a \<or> (\<not> list_ex (by_mac h) rows \<and> (by_ip h a \<or> (\<not> list_ex (by_ip h) rows \<and> by_name h a))))"

lemma find_existing_found:
  assumes "find_existing h rows = Inr (Some e)"
  shows "e \<in> set rows \<and> identified h rows e"
  using assms
  by (auto simp: find_existing_def Let_def rbind_eq_Inr identified_def by_mac_def by_ip_def by_name_def list_ex_iff
      split: if_splits dest!: scalar_filter_SomeD scalar_filter_NoneD)

lemma find_existing_not_found:
  assumes "find_existing h rows = Inr None"
  shows "\<forall>e\<in>set rows. \<not> by_mac h e \<and> \<not> by_ip h e \<and> \<not> by_name h e"
  using assms
  by (auto simp: find_existing_def Let_def rbind_eq_Inr by_mac_def by_ip_def by_name_def
      split: if_splits dest!: scalar_filter_SomeD scalar_filter_NoneD)

lemma merge_source_rows:
  "merge_source py now a source h st = Inr (b, st') \<Longrightarrow>
   assets (r_db st') = update_where (\<lambda>x. a_id x = a_id a) (\<lambda>x. b) (assets (r_db st)) \<and> a_id b = a_id a"
  by (auto simp: merge_source_def rbind_eq_Inr Let_def merge_fields_def dest!: raise_alert_frame(1) split: if_splits)

lemma create_from_source_rows:
  assumes "create_from_source now source h st = Inr (b, st')"
  shows "assets (r_db st') = assets (r_db st) @ [b] \<and> a_id b = next_id (r_db st) \<and> a_sources b = [source]
     \<and> a_is_shadow b = is_shadow [source]
     \<and> (\<not> a_is_shadow b \<or> list_ex (\<lambda>al. al_alert_type al = ''shadow_it'' \<and> al_asset_id al = Some (a_id b)
                                      \<and> al_status al = ''open'') (alerts (r_db st')))"
proof -
  from assms have b: "build_asset now (next_id (r_db st)) source h = Inr b"
    by (auto simp: create_from_source_def fresh_id_def rbind_eq_Inr Let_def)
  then have "a_id b = next_id (r_db st) \<and> a_sources b = [source] \<and> a_is_shadow b = is_shadow [source]"
    by (auto simp: build_asset_def new_asset_def split: option.splits prod.splits)
  moreover have "assets (r_db st') = assets (r_db st) @ [b]
     \<and> (\<not> a_is_shadow b \<or> list_ex (\<lambda>al. al_alert_type al = ''shadow_it'' \<and> al_asset_id al = Some (a_id b)
                                      \<and> al_status al = ''open'') (alerts (r_db st')))"
  proof (cases "a_is_shadow b")
    case True
    let ?st1 = "st\<lparr>r_db := (r_db st)\<lparr>next_id := Suc (next_id (r_db st)), assets := assets (r_db st) @ [b]\<rparr>\<rparr>"
    from True assms b have al: "shadow_alert now source b ?st1 = Inr st'"
      by (auto simp: create_from_source_def fresh_id_def rbind_eq_Inr Let_def)
    note al = al [unfolded shadow_alert_def]
    from raise_alert_frame [OF al] show ?thesis by (auto simp: list_ex_iff)
  next
    case False
    with assms b show ?thesis
      by (auto simp: create_from_source_def fresh_id_def rbind_eq_Inr Let_def)
  qed
  ultimately show ?thesis by blast
qed

text \<open>
  what a report does to the inventory. It either updates exactly the row it identifies (by
  hardware address, else by address, else by name) and no other, or, only when no row matches
  in any of the three ways, appends exactly one row with a fresh identifier; a new asset that
  no authoritative source reported is flagged as shadow IT and has an open alert.
\<close>

theorem reconcile_host_effect:
  assumes "reconcile_host py now source h st = Inr (b, st')"
  shows "(\<exists>e. e \<in> set (assets (r_db st)) \<and> identified h (assets (r_db st)) e \<and> a_id b = a_id e
             \<and> b = merge_fields py now source h e
             \<and> assets (r_db st') = update_where (\<lambda>x. a_id x = a_id e) (\<lambda>x. b) (assets (r_db st)))
     \<or> (\<not> list_ex (\<lambda>e. by_mac h e \<or> by_ip h e \<or> by_name h e) (assets (r_db st))
             \<and> a_id b = next_id (r_db st) \<and> assets (r_db st') = assets (r_db st) @ [b]
             \<and> a_is_shadow b = is_shadow [source]
             \<and> (if a_is_shadow b then list_ex (\<lambda>al. al_alert_type al = ''shadow_it''
                    \<and> al_asset_id al = Some (a_id b) \<and> al_status al = ''open'') (alerts (r_db st')) else True))"
proof -
  from assms obtain e where e: "find_existing h (assets (r_db st)) = Inr e"
    and r: "(case e of Some a \<Rightarrow> merge_source py now a source h st
             | None \<Rightarrow> create_from_source now source h st) = Inr (b, st')"
    by (auto simp: reconcile_host_def rbind_eq_Inr)
  show ?thesis
  proof (cases e)
    case None
    then have "create_from_source now source h st = Inr (b, st')" using r by simp
    from create_from_source_rows [OF this] show ?thesis
      using find_existing_not_found e None by (intro disjI2) (auto simp: list_ex_iff)
  next
    case (Some a)
    then have m: "merge_source py now a source h st = Inr (b, st')" using r by simp
    from merge_source_rows [OF m] merge_source_asset [OF m] show ?thesis
      using find_existing_found [of h "assets (r_db st)" a] e Some by (intro disjI1) auto
  qed
qed

lemma detect_stale_assets_rows:
  assumes "detect_stale_assets py now n st = Inr (k, st')"
  shows "map (\<lambda>a. (a_id a, edr_gap a)) (assets (r_db st')) = map (\<lambda>a. (a_id a, edr_gap a)) (assets (r_db st))"
proof -
  have g: "edr_gap (mark_stale now a) = edr_gap a" for a
    by (simp add: edr_gap_def mark_stale_def asset_flush_def)
  let ?P = "\<lambda>u. map (\<lambda>a. (a_id a, edr_gap a)) (assets (r_db u)) = map (\<lambda>a. (a_id a, edr_gap a)) (assets (r_db st))"
  from assms obtain xs where f: "rfold (stale_step py now n) xs st = Inr st'"
    by (auto simp: detect_stale_assets_def rbind_eq_Inr Let_def)
  show ?thesis
  proof (rule rfold_invariant [of ?P, OF _ f])
    show "\<And>x u v. x \<in> set xs \<Longrightarrow> ?P u \<Longrightarrow> stale_step py now n x u = Inr v \<Longrightarrow> ?P v"
      by (auto simp: stale_step_def Let_def map_update_where g dest!: raise_alert_frame(1))
  qed simp
qed

text \<open>
  alerts do not repeat and detection always completes. Whenever the open alerts are spaced
  (no two of one kind on one asset within a day), the stale and EDR-gap detection never raises,
  leaves the alerts spaced and all earlier alerts in place, reports exactly the stale assets and
  the gaps, and afterwards each of them has an open alert of the last day.
\<close>

theorem detection_complete:
  fixes st :: rstate
  assumes "alerts_ok now (alerts (r_db st))"
  shows "\<exists>st'. detect_stale_and_gaps py now st = Inr
       ((length (filter (\<lambda>a. a_last_seen a < now - 30 * day \<and> \<not> a_is_stale a) (assets (r_db st))),
         length (filter edr_gap (assets (r_db st)))), st')
     \<and> alerts_ok now (alerts (r_db st'))
     \<and> (\<exists>new. alerts (r_db st') = alerts (r_db st) @ new)
     \<and> list_all (\<lambda>a. \<not> (a_last_seen a < now - 30 * day \<and> \<not> a_is_stale a) \<or>
          recent_alerts now ''stale_asset'' (Some (a_id a)) (alerts (r_db st')) \<noteq> []) (assets (r_db st))
     \<and> list_all (\<lambda>a. \<not> edr_gap a \<or>
          recent_alerts now ''edr_gap'' (Some (a_id a)) (alerts (r_db st')) \<noteq> []) (assets (r_db st))"
proof -
  let ?g = "\<lambda>a. (a_id a, edr_gap a)"
  obtain u where u: "detect_stale_assets py now 30 st
      = Inr (length (filter (\<lambda>a. a_last_seen a < now - 30 * day \<and> \<not> a_is_stale a) (assets (r_db st))), u)"
    "alerts_ok now (alerts (r_db u))" "\<exists>new. alerts (r_db u) = alerts (r_db st) @ new"
    "\<forall>a\<in>set (assets (r_db st)). a_last_seen a < now - 30 * day \<and> \<not> a_is_stale a \<longrightarrow>
          recent_alerts now ''stale_asset'' (Some (a_id a)) (alerts (r_db u)) \<noteq> []"
    using detect_stale_assets_ok [OF assms, of py 30] by blast
  obtain v where v: "detect_edr_gaps now u = Inr (length (filter edr_gap (assets (r_db u))), v)"
    "alerts_ok now (alerts (r_db v))" "\<exists>new. alerts (r_db v) = alerts (r_db u) @ new"
    "\<forall>a\<in>set (assets (r_db u)). edr_gap a \<longrightarrow>
          recent_alerts now ''edr_gap'' (Some (a_id a)) (alerts (r_db v)) \<noteq> []"
    using detect_edr_gaps_ok [OF u(2)] by blast
  note rows = detect_stale_assets_rows [OF u(1)]
  have len: "length (filter edr_gap (assets (r_db u))) = length (filter edr_gap (assets (r_db st)))"
    using arg_cong [OF rows, of "\<lambda>l. length (filter snd l)"] by (simp add: filter_map comp_def)
  have gaps: "recent_alerts now ''edr_gap'' (Some (a_id a)) (alerts (r_db v)) \<noteq> []"
    if "a \<in> set (assets (r_db st))" "edr_gap a" for a
  proof -
    have "(a_id a, True) \<in> set (map ?g (assets (r_db u)))" using that by (force simp: rows)
    then obtain b where "b \<in> set (assets (r_db u))" "a_id b = a_id a" "edr_gap b" by force
    with v(4) show ?thesis by metis
  qed
  have stale: "recent_alerts now ''stale_asset'' (Some (a_id a)) (alerts (r_db v)) \<noteq> []"
    if "a \<in> set (assets (r_db st))" "a_last_seen a < now - 30 * day" "\<not> a_is_stale a" for a
    using u(4) v(3) that by (auto simp: recent_alerts_def)
  show ?thesis
    using u(1,3) v(1,2,3) len gaps stale by (auto simp: detect_stale_and_gaps_def list_all_iff)
qed

section \<open>Witnesses\<close>

definition sample_py :: py_env where
  "sample_py = \<lparr> set_order = remdups, show_set = (\<lambda>vs. ''{...}''), iso = (\<lambda>n. ''then'') \<rparr>"

definition sample_report :: host_data where
  "sample_report = \<lparr> hd_name = Has ''db1'', hd_hostname = Absent, hd_ip = Absent, hd_mac = Absent, hd_type = Has ''Server'',
     hd_os = Has ''Linux'', hd_os_guess = Absent, hd_segment = Absent, hd_edr_status = Absent,
     hd_control_coverage = Absent, hd_network_exposure = Absent, hd_auth_method = Absent, hd_criticality = Has ''low'',
     hd_data_classification = Absent, hd_software_stack = Has [''nginx'', ''redis''], hd_cpe = Absent,
     hd_dependencies = Absent, hd_services = Has (PList [PDict [(''service'', PStr ''ssh'')]]) \<rparr>"

definition sample_asset :: asset where
  "sample_asset = (new_asset 1 0)\<lparr>a_name := ''db1'', a_type := ''Server'', a_sources := [''nmap_scan''],
     a_os := Some ''BSD'', a_software_stack := [''nginx'']\<rparr>"

definition sample_rstate :: rstate where
  "sample_rstate = \<lparr> r_db = empty_db\<lparr>next_id := 2, assets := [sample_asset]\<rparr>, r_generated = [] \<rparr>"

lemma sample_py_ok: "set_order_ok sample_py"
  by (simp add: set_order_ok_def sample_py_def)

lemmas sample_defs = sample_py_def sample_report_def sample_asset_def sample_rstate_def new_asset_def empty_db_def

lemma sample_merge:
  "merge_source sample_py now a source sample_report sample_rstate
     = Inr (merge_fields sample_py now source sample_report a,
         sample_rstate\<lparr>r_db := (r_db sample_rstate)\<lparr>assets := update_where (\<lambda>x. a_id x = a_id a)
            (\<lambda>x. merge_fields sample_py now source sample_report a) [sample_asset]\<rparr>\<rparr>)"
  if "a_attrs a = []" for a
  using that by (simp add: merge_source_def iter_services_def jget_def opt_val_def sample_report_def
      sample_rstate_def Let_def)

theorem merge_all_precedence_witness:
  "let a = sample_asset\<lparr>a_sources := [''ad_ldap'']\<rparr> in
   \<exists>a' st'. merge_all sample_py 5 [(''nmap_scan'', sample_report)] (a, sample_rstate) = Inr (a', st')
     \<and> authoritative_view a' = authoritative_view a \<and> set (a_software_stack a') = {''nginx'', ''redis''}
     \<and> \<not> a_is_shadow a'"
proof -
  let ?a = "sample_asset\<lparr>a_sources := [''ad_ldap'']\<rparr>"
  have attrs: "a_attrs ?a = []" by (simp add: sample_asset_def new_asset_def)
  obtain b u where m: "merge_all sample_py 5 [(''nmap_scan'', sample_report)] (?a, sample_rstate) = Inr (b, u)"
    by (simp add: merge_all_def sample_merge [OF attrs])
  have "priority_of 1 ''nmap_scan'' < existing_priority (a_sources ?a)"
    by (simp add: priority_of_def existing_priority_def SOURCE_PRIORITY_def)
  with merge_all_precedence [OF sample_py_ok m] show ?thesis
    using m by (auto simp: Let_def listed_def sample_report_def sample_asset_def authoritative_def)
qed

theorem merged_source_forgotten_witness:
  "let b = merge_fields sample_py 5 ''ad_ldap'' (sample_report\<lparr>hd_os := Has ''Windows''\<rparr>) sample_asset;
       c = flushed_asset sample_asset b;
       d = merge_fields sample_py 9 ''nmap_scan'' sample_report c
   in a_sources b = [''nmap_scan'', ''ad_ldap''] \<and> \<not> a_is_shadow b \<and> a_os b = Some ''Windows''
      \<and> a_sources d = [''nmap_scan''] \<and> a_is_shadow d \<and> a_os d = Some ''Linux''"
proof -
  let ?r = "sample_report\<lparr>hd_os := Has ''Windows''\<rparr>"
  let ?b = "merge_fields sample_py 5 ''ad_ldap'' ?r sample_asset"
  let ?c = "flushed_asset sample_asset ?b"
  let ?d = "merge_fields sample_py 9 ''nmap_scan'' sample_report ?c"
  have one: "a_sources sample_asset = [''nmap_scan'']" by (simp add: sample_asset_def)
  obtain u where u: "merge_source sample_py 5 sample_asset ''ad_ldap'' ?r sample_rstate = Inr (?b, u)"
    by (simp add: merge_source_def iter_services_def jget_def opt_val_def Let_def sample_asset_def new_asset_def sample_report_def)
  obtain v where v: "merge_source sample_py 9 ?c ''nmap_scan'' sample_report sample_rstate = Inr (?d, v)"
    by (simp add: merge_source_def iter_services_def jget_def opt_val_def Let_def flushed_asset_def merge_fields_def
        sample_asset_def new_asset_def sample_report_def overwrite_fields_def)
  have b: "a_sources ?b = [''nmap_scan'', ''ad_ldap''] \<and> \<not> a_is_shadow ?b \<and> a_os ?b = Some ''Windows''"
    by (simp add: merge_fields_def Let_def sample_asset_def sample_report_def is_shadow_def authoritative_def
        overwrite_fields_def set_opt_def existing_priority_def priority_of_def SOURCE_PRIORITY_def)
  show ?thesis
    using b merged_source_forgotten [OF one u v]
    by (simp add: Let_def is_shadow_def authoritative_def authoritative_view_def overwrite_fields_def set_opt_def sample_report_def)
qed

theorem reconcile_host_effect_witness:
  "\<exists>b st'. reconcile_host sample_py 5 ''nmap_scan'' (sample_report\<lparr>hd_name := Has ''new''\<rparr>) sample_rstate = Inr (b, st')
     \<and> assets (r_db st') = [sample_asset, b] \<and> a_id b = 2 \<and> a_is_shadow b
     \<and> list_ex (\<lambda>al. al_alert_type al = ''shadow_it'' \<and> al_asset_id al = Some 2) (alerts (r_db st'))"
proof -
  let ?h = "sample_report\<lparr>hd_name := Has ''new''\<rparr>"
  obtain b st' where r: "reconcile_host sample_py 5 ''nmap_scan'' ?h sample_rstate = Inr (b, st')"
    by (simp add: reconcile_host_def find_existing_def create_from_source_def build_asset_def raise_alert_def get_or_def
        shadow_alert_def recent_alerts_def fresh_id_def Let_def sample_defs is_shadow_def authoritative_def)
  have no: "\<not> identified ?h (assets (r_db sample_rstate)) e"
    if "e \<in> set (assets (r_db sample_rstate))" for e
    using that by (simp add: identified_def by_mac_def by_ip_def by_name_def sample_defs Let_def)
  show ?thesis
    using r no reconcile_host_effect [OF r]
    by (auto simp: sample_rstate_def is_shadow_def authoritative_def list_ex_iff)
qed

theorem detection_complete_witness:
  "\<exists>st'. detect_stale_and_gaps sample_py (40 * day) sample_rstate = Inr ((1, 1), st')
     \<and> recent_alerts (40 * day) ''stale_asset'' (Some 1) (alerts (r_db st')) \<noteq> []"
proof -
  have "alerts_ok (40 * day) (alerts (r_db sample_rstate))"
    by (simp add: alerts_ok_def sample_rstate_def empty_db_def)
  from detection_complete [OF this, of sample_py] show ?thesis
    by (auto simp: sample_rstate_def sample_asset_def new_asset_def edr_gap_def edr_types_def day_def)
qed

end
