(* ===== verification/OsvScan.thy ===== *)
theory OsvScan
  imports Models PyFloat "HOL-Library.List_Lexorder" "HOL-Library.Char_ord"
begin

text \<open>
  \<open>app/services/self_security_scanner.py\<close>: the inventory of the platform's own packages and
  the advisories on them. An OSV answer is a record with the fields the source reads; the
  PEP 440 versions of the \<open>packaging\<close> library are a parameter with their order as hypothesis.
\<close>

section \<open>Versions\<close>

record 'v versions =
  ver_parse :: "string \<Rightarrow> 'v option"
  ver_lt :: "'v \<Rightarrow> 'v \<Rightarrow> bool"
  ver_str :: "'v \<Rightarrow> string"

text \<open>
  What the code relies on. The order is a weak one: versions such as 1.0 and 1.0.0 are
  neither above nor below each other, though \<open>str\<close> keeps them apart, so a value of \<open>'v\<close> stands for a
  version with its normalized spelling, which parses back to it.
\<close>

definition weak_order :: "('v \<Rightarrow> 'v \<Rightarrow> bool) \<Rightarrow> bool" where
  "weak_order lt = ((\<forall>x. \<not> lt x x) \<and> (\<forall>x y z. lt x y \<longrightarrow> lt y z \<longrightarrow> lt x z)
     \<and> (\<forall>x y z. lt x z \<longrightarrow> lt x y \<or> lt y z))"

definition versions_ok :: "'v versions \<Rightarrow> bool" where
  "versions_ok V = (weak_order (ver_lt V) \<and> (\<forall>x. ver_parse V (ver_str V x) = Some x))"

lemma weak_order_key: "weak_order (\<lambda>x y. (key x :: 'k::linorder) < key y)"
  by (auto simp: weak_order_def)

text \<open>\<open>min\<close> and \<open>max\<close> of a list that is not empty keep the first of equal elements.\<close>

definition least :: "('v \<Rightarrow> 'v \<Rightarrow> bool) \<Rightarrow> 'v \<Rightarrow> 'v list \<Rightarrow> 'v" where
  "least lt x xs = fold (\<lambda>c m. if lt c m then c else m) xs x"

lemma least_member: "least lt x xs \<in> set (x # xs)"
proof (induction xs arbitrary: x)
  case (Cons c xs)
  show ?case using Cons.IH [of "if lt c x then c else x"] by (auto simp: least_def split: if_splits)
qed (simp add: least_def)

lemma least_lower:
  assumes "weak_order lt"
  shows "y \<in> set (x # xs) \<Longrightarrow> \<not> lt y (least lt x xs)"
proof (induction xs arbitrary: x y)
  case Nil
  then show ?case using assms by (simp add: least_def weak_order_def)
next
  case (Cons c xs)
  have irrefl: "\<not> lt u u" and trans: "lt u v \<Longrightarrow> lt v w \<Longrightarrow> lt u w" and split: "lt u w \<Longrightarrow> lt u v \<or> lt v w" for u v w
    using assms unfolding weak_order_def by blast+
  let ?m = "if lt c x then c else x"
  have eq: "least lt x (c # xs) = least lt ?m xs" by (simp add: least_def)
  have m: "\<not> lt ?m (least lt ?m xs)" using Cons.IH [of ?m ?m] by simp
  have up: "\<not> lt z (least lt ?m xs)" if "\<not> lt z ?m" for z
    using m that split [of z "least lt ?m xs" ?m] by blast
  show ?case
  proof (cases "y \<in> set xs")
    case True
    then show ?thesis using Cons.IH [of y ?m] by (simp add: eq)
  next
    case False
    with Cons.prems have "y = x \<or> y = c" by simp
    then have "\<not> lt y ?m" using irrefl trans [of x c x] by (cases "lt c x") auto
    then show ?thesis using up by (simp add: eq)
  qed
qed

lemma weak_order_flip: "weak_order lt \<Longrightarrow> weak_order (\<lambda>x y. lt y x)"
  unfolding weak_order_def by blast

lemma fold_least:
  "versions_ok V \<Longrightarrow> \<forall>y\<in>set (x # xs). \<not> ver_lt V y (least (ver_lt V) x xs)"
  using least_lower [of "ver_lt V"] unfolding versions_ok_def by blast

lemma fold_greatest:
  "versions_ok V \<Longrightarrow> \<forall>y\<in>set (x # xs). \<not> ver_lt V (least (\<lambda>x y. ver_lt V y x) x xs) y"
  using least_lower [of "\<lambda>x y. ver_lt V y x"] weak_order_flip [of "ver_lt V"] unfolding versions_ok_def by blast

section \<open>The package inventory\<close>

record dep_record =
  dr_component :: string
  dr_package_type :: string
  dr_name :: string
  dr_version :: string
  dr_purl :: "string option"

definition pip_dep :: "string \<Rightarrow> string \<Rightarrow> string \<Rightarrow> dep_record" where
  "pip_dep component name version = \<lparr> dr_component = component, dr_package_type = ''pip'', dr_name = name,
     dr_version = version, dr_purl = Some (''pkg:pypi/'' @ name @ ''@'' @ version) \<rparr>"

text \<open>
  The pattern of an exact pin. Its two classes exclude the characters that follow them, so the
  longest match is the only one.
\<close>

definition pin_char :: "char \<Rightarrow> bool" where
  "pin_char c = (is_upper c \<or> is_lower c \<or> is_digit c \<or> c \<in> set ''_-.[]'')"

definition match_pin :: "string \<Rightarrow> (string \<times> string) option" where
  "match_pin line =
     (let name = takeWhile pin_char line; rest = dropWhile pin_char line;
          version = takeWhile (\<lambda>c. \<not> is_space c \<and> c \<noteq> CHR '';'') (drop 2 rest)
      in if name \<noteq> [] \<and> starts_with ''=='' rest \<and> version \<noteq> [] then Some (name, version) else None)"

definition scan_line :: "string \<Rightarrow> string \<Rightarrow> dep_record option" where
  "scan_line component line0 =
     (let line = strip line0
      in if line = [] \<or> starts_with ''#'' line \<or> starts_with ''-'' line then None
         else case match_pin line of
           None \<Rightarrow> None
         | Some (name, version) \<Rightarrow> Some (pip_dep component (lower (hd (split_on CHR ''['' name))) version))"

definition scan_python_deps :: "string \<Rightarrow> string \<Rightarrow> dep_record list" where
  "scan_python_deps requirements_text component =
     List.map_filter (scan_line component) (split_on CHR ''\<newline>'' requirements_text)"

text \<open>The installed distributions, as (name, version) pairs; later ones replace earlier ones.\<close>

definition normalize_name :: "string option \<Rightarrow> string" where
  "normalize_name n = map (\<lambda>c. if c = CHR ''_'' then CHR ''-'' else c)
     (lower (strip (case n of None \<Rightarrow> [] | Some s \<Rightarrow> s)))"

fun put_dep :: "dep_record \<Rightarrow> dep_record list \<Rightarrow> dep_record list" where
  "put_dep r [] = [r]"
| "put_dep r (q # qs) = (if dr_name q = dr_name r then r # qs else q # put_dep r qs)"

definition resolved_deps :: "string \<Rightarrow> (string option \<times> string) list \<Rightarrow> dep_record list" where
  "resolved_deps component dists = fold (\<lambda>(n, v) acc.
     if normalize_name n = [] \<or> v = [] then acc else put_dep (pip_dep component (normalize_name n) v) acc) dists []"

definition scan_installed_python_deps :: "string \<Rightarrow> (string option \<times> string) list \<Rightarrow> dep_record list" where
  "scan_installed_python_deps component dists = sort_key dr_name (resolved_deps component dists)"

section \<open>Advisories\<close>

record osv_affected =
  oa_name :: string
  oa_fixed :: "string list"

record osv_vuln =
  ov_id :: string
  ov_aliases :: "string list"
  ov_severity :: "(string \<times> string) list"
  ov_affected :: "osv_affected list"
  ov_source_severity :: string
  ov_summary :: "string option"
  ov_details :: "string option"

record finding =
  fd_cve_id :: string
  fd_cvss :: "rat option"
  fd_description :: string
  fd_fixed_version :: "string option"
  fd_severity :: string
  fd_aliases :: "string list"

text \<open>\<open>10\<close>, \<open>10.0\<close>, a digit, or a digit with decimals.\<close>

definition numeric_score :: "string \<Rightarrow> bool" where
  "numeric_score s = (s = ''10'' \<or> s = ''10.0'' \<or>
     (case s of [] \<Rightarrow> False
      | c # t \<Rightarrow> is_digit c \<and> (t = [] \<or> (hd t = CHR ''.'' \<and> tl t \<noteq> [] \<and> list_all is_digit (tl t)))))"

definition py_float :: "string \<Rightarrow> rat" where
  "py_float s =
     (let ip = takeWhile is_digit s; fp = drop 1 (dropWhile is_digit s)
      in fl (of_nat (digits_val ip) + of_nat (digits_val fp) / 10 ^ length fp))"

fun cvss_of :: "(string \<times> string) list \<Rightarrow> rat option" where
  "cvss_of [] = None"
| "cvss_of ((ty, score) # sevs) =
     (if ty \<in> {''CVSS_V3'', ''CVSS_V31''} \<and> numeric_score score then Some (py_float score) else cvss_of sevs)"

definition fixed_candidates :: "string \<Rightarrow> osv_affected list \<Rightarrow> string list" where
  "fixed_candidates name affected = concat (map oa_fixed (filter (\<lambda>a. lower (oa_name a) = lower name) affected))"

definition fixed_version :: "'v versions \<Rightarrow> string \<Rightarrow> string list \<Rightarrow> string option" where
  "fixed_version V installed candidates =
     (case ver_parse V installed of
        None \<Rightarrow> None
      | Some current \<Rightarrow>
          (case filter (\<lambda>c. ver_lt V current c) (List.map_filter (ver_parse V) candidates) of
             [] \<Rightarrow> None
           | x # xs \<Rightarrow> Some (ver_str V (least (ver_lt V) x xs))))"

definition severity_label :: "rat option \<Rightarrow> string \<Rightarrow> string" where
  "severity_label cvss source =
     (case cvss of
        Some x \<Rightarrow> if 9 \<le> x then ''critical'' else if 7 \<le> x then ''high'' else if 4 \<le> x then ''medium'' else ''low''
      | None \<Rightarrow>
          (let l = lower source
           in if l \<in> {''critical'', ''high'', ''medium'', ''moderate'', ''low''}
              then if l = ''moderate'' then ''medium'' else l
              else ''unknown''))"

definition finding_of :: "'v versions \<Rightarrow> dep_record \<Rightarrow> osv_vuln \<Rightarrow> finding" where
  "finding_of V dep v =
     (let cvss = cvss_of (ov_severity v)
      in \<lparr> fd_cve_id = (case filter (starts_with ''CVE-'') (ov_aliases v) of [] \<Rightarrow> ov_id v | a # as \<Rightarrow> a),
           fd_cvss = cvss,
           fd_description = take 1000 (case str_or (ov_summary v) (str_or (ov_details v) (Some [])) of None \<Rightarrow> [] | Some s \<Rightarrow> s),
           fd_fixed_version = fixed_version V (dr_version dep) (fixed_candidates (dr_name dep) (ov_affected v)),
           fd_severity = severity_label cvss (ov_source_severity v),
           fd_aliases = ov_aliases v \<rparr>)"

definition find_vulns :: "'v versions \<Rightarrow> dep_record \<Rightarrow> osv_vuln list \<Rightarrow> finding list" where
  "find_vulns V dep vulns = map (finding_of V dep) vulns"

section \<open>Properties\<close>

lemma put_dep_names: "dr_name ` set (put_dep r qs) = insert (dr_name r) (dr_name ` set qs)"
  by (induction qs) auto

lemma put_dep_distinct: "distinct (map dr_name qs) \<Longrightarrow> distinct (map dr_name (put_dep r qs))"
proof (induction qs)
  case (Cons q qs)
  then show ?case using put_dep_names [of r qs] by (auto simp: image_iff)
qed simp

lemma scan_installed_distinct: "distinct (map dr_name (scan_installed_python_deps component dists))"
proof -
  have "distinct (map dr_name (fold (\<lambda>(n, v) acc.
     if normalize_name n = [] \<or> v = [] then acc else put_dep (pip_dep component (normalize_name n) v) acc) dists acc))"
    if "distinct (map dr_name acc)" for acc
    using that by (induction dists arbitrary: acc) (auto simp: put_dep_distinct)
  then have "distinct (map dr_name (resolved_deps component dists))" by (simp add: resolved_deps_def)
  then show ?thesis by (simp add: scan_installed_python_deps_def distinct_map)
qed

lemma mem_map_filter: "x \<in> set (List.map_filter f ys) \<longleftrightarrow> (\<exists>y\<in>set ys. f y = Some x)"
  by (auto simp: List.map_filter_def) force

text \<open>
  the fix an advisory proposes. It is one of the versions the advisory names for this very
  package, newer than the installed one, and no other newer version it names is below it; no fix
  is proposed only if the installed version cannot be read or none of the named versions is newer.
\<close>

theorem fixed_version_minimal:
  assumes "versions_ok V"
  shows "case fd_fixed_version (finding_of V dep v) of
     Some f \<Rightarrow> (\<exists>cur fix a s. ver_parse V (dr_version dep) = Some cur \<and> f = ver_str V fix \<and> ver_lt V cur fix
        \<and> a \<in> set (ov_affected v) \<and> lower (oa_name a) = lower (dr_name dep) \<and> s \<in> set (oa_fixed a) \<and> ver_parse V s = Some fix
        \<and> (\<forall>b\<in>set (ov_affected v). lower (oa_name b) = lower (dr_name dep) \<longrightarrow>
             (\<forall>t\<in>set (oa_fixed b). \<forall>w. ver_parse V t = Some w \<and> ver_lt V cur w \<longrightarrow> \<not> ver_lt V w fix)))
   | None \<Rightarrow> (\<forall>cur. ver_parse V (dr_version dep) = Some cur \<longrightarrow>
        (\<forall>b\<in>set (ov_affected v). lower (oa_name b) = lower (dr_name dep) \<longrightarrow>
             (\<forall>t\<in>set (oa_fixed b). \<forall>w. ver_parse V t = Some w \<longrightarrow> \<not> ver_lt V cur w)))"
proof (cases "ver_parse V (dr_version dep)")
  case None
  then show ?thesis by (simp add: finding_of_def fixed_version_def Let_def)
next
  case (Some cur)
  let ?cands = "fixed_candidates (dr_name dep) (ov_affected v)"
  have mem: "s \<in> set ?cands \<longleftrightarrow> (\<exists>a\<in>set (ov_affected v). lower (oa_name a) = lower (dr_name dep) \<and> s \<in> set (oa_fixed a))" for s
    by (auto simp: fixed_candidates_def)
  let ?new = "filter (\<lambda>c. ver_lt V cur c) (List.map_filter (ver_parse V) ?cands)"
  have new: "w \<in> set ?new \<longleftrightarrow> ver_lt V cur w \<and> (\<exists>t\<in>set ?cands. ver_parse V t = Some w)" for w
    by (auto simp: mem_map_filter)
  show ?thesis
  proof (cases ?new)
    case Nil
    then have none: "fd_fixed_version (finding_of V dep v) = None"
      using Some by (simp add: finding_of_def fixed_version_def Let_def)
    show ?thesis using new mem Some Nil by (auto simp: none)
  next
    case (Cons x xs)
    let ?m = "least (ver_lt V) x xs"
    have f: "fd_fixed_version (finding_of V dep v) = Some (ver_str V ?m)"
      using Some Cons by (simp add: finding_of_def fixed_version_def Let_def)
    have m: "?m \<in> set ?new" "\<forall>w\<in>set ?new. \<not> ver_lt V w ?m"
      unfolding Cons by (rule least_member, rule fold_least [OF assms])
    from m(1) obtain t where t: "t \<in> set ?cands" "ver_parse V t = Some ?m" "ver_lt V cur ?m"
      unfolding new by blast
    from t(1) obtain a where a: "a \<in> set (ov_affected v)" "lower (oa_name a) = lower (dr_name dep)" "t \<in> set (oa_fixed a)"
      by (auto simp: mem)
    have "\<not> ver_lt V w ?m" if "b \<in> set (ov_affected v)" "lower (oa_name b) = lower (dr_name dep)" "s \<in> set (oa_fixed b)"
      "ver_parse V s = Some w" "ver_lt V cur w" for b s w
      using that m(2) new mem by blast
    with t a Some show ?thesis
      unfolding f option.case by (intro exI [of _ cur] exI [of _ ?m] exI [of _ a] exI [of _ t]) blast
  qed
qed

definition nat_versions :: "nat versions" where
  "nat_versions = \<lparr> ver_parse = (\<lambda>s. if s \<noteq> [] \<and> list_all is_digit s then Some (digits_val s) else None),
     ver_lt = (\<lambda>x y. x < y), ver_str = show_nat \<rparr>"

lemma nat_versions_ok: "versions_ok nat_versions"
  by (auto simp: versions_ok_def weak_order_def nat_versions_def list_all_iff show_nat_digits)

text \<open>Releases, ordered without their trailing zeros: different spellings can be ties.\<close>

definition release_key :: "nat \<times> nat list \<Rightarrow> nat list" where
  "release_key v = rev (dropWhile (\<lambda>n. n = 0) (rev (fst v # snd v)))"

definition release_versions :: "(nat \<times> nat list) versions" where
  "release_versions = \<lparr>
     ver_parse = (\<lambda>s. let ws = split_on CHR ''.'' s in
       if list_all (\<lambda>w. w \<noteq> [] \<and> list_all is_digit w) ws
       then case map digits_val ws of [] \<Rightarrow> None | n # ns \<Rightarrow> Some (n, ns) else None),
     ver_lt = (\<lambda>x y. release_key x < release_key y),
     ver_str = (\<lambda>v. join ''.'' (map show_nat (fst v # snd v))) \<rparr>"

lemma release_versions_ok: "versions_ok release_versions"
proof -
  have "\<not> is_digit CHR ''.''" by (simp add: is_digit_def char_code_def)
  then have dot: "CHR ''.'' \<notin> set (show_nat n)" for n using show_nat_digits by blast
  have "ver_parse release_versions (ver_str release_versions (n, ns)) = Some (n, ns)" for n ns
  proof -
    have "split_on CHR ''.'' (join ''.'' (map show_nat (n # ns))) = map show_nat (n # ns)"
      by (rule split_on_join) (use dot in auto)
    then show ?thesis by (simp add: release_versions_def Let_def list_all_iff show_nat_digits comp_def)
  qed
  moreover have "weak_order (ver_lt release_versions)"
    by (simp add: release_versions_def weak_order_key)
  ultimately show ?thesis by (auto simp: versions_ok_def)
qed

lemma tied_releases:
  "\<not> ver_lt release_versions (1, [0]) (1, [0, 0]) \<and> \<not> ver_lt release_versions (1, [0, 0]) (1, [0])
   \<and> ver_str release_versions (1, [0]) = ''1.0'' \<and> ver_str release_versions (1, [0, 0]) = ''1.0.0''"
  by (simp add: release_versions_def release_key_def) code_simp

definition sample_vuln :: osv_vuln where
  "sample_vuln = \<lparr> ov_id = ''PYSEC-1'', ov_aliases = [''CVE-2024-1''], ov_severity = [(''CVSS_V3'', ''9.8'')],
     ov_affected = [\<lparr> oa_name = ''Flask'', oa_fixed = [''3'', ''7'', ''5''] \<rparr>], ov_source_severity = [],
     ov_summary = None, ov_details = None \<rparr>"

theorem fixed_version_minimal_witness:
  "fd_fixed_version (finding_of nat_versions (pip_dep ''api'' ''flask'' ''4'') sample_vuln) = Some ''5''
   \<and> (\<exists>fix. ver_parse nat_versions ''5'' = Some fix \<and> ver_lt nat_versions 4 fix)"
proof -
  have "fd_fixed_version (finding_of nat_versions (pip_dep ''api'' ''flask'' ''4'') sample_vuln) = Some ''5''"
    by code_simp
  with fixed_version_minimal [OF nat_versions_ok, of "pip_dep ''api'' ''flask'' ''4''" sample_vuln] show ?thesis
    by (auto simp: nat_versions_def pip_dep_def is_digit_def digits_val_def char_code_def)
qed

end
