(* ===== verification/SelfSecurity.thy ===== *)
theory SelfSecurity
  imports Access OsvScan
begin

text \<open>
  The self-security pipeline: \<open>app/workers/self_security_tasks.py\<close>,
  \<open>app/services/ai_update_validator.py\<close> and \<open>app/api/self_security.py\<close>. A task yields its
  result and the database as last committed: what raises before the commit leaves it alone.
  The answers of OSV, PyPI and the model, the JSON and number parsers, the text of the prompt,
  of an exception and of a unified diff, and the installed packages are fields of the
  environment. Text columns take any length.
\<close>

record 'v ss_env =
  se_versions :: "'v versions"
  se_dists :: "(string option \<times> string) list"
  se_osv :: "dep_record \<Rightarrow> osv_vuln list result"
  se_latest :: "string \<Rightarrow> string option result"
  se_prompt :: "string \<Rightarrow> string \<Rightarrow> string \<Rightarrow> string \<Rightarrow> string \<Rightarrow> string"
  se_ai :: "string \<Rightarrow> string result"
  se_json :: "string \<Rightarrow> pyval option"
  se_float :: "string \<Rightarrow> rat option"
  se_str_exn :: "exn \<Rightarrow> string"
  se_requirements :: "string result option"
  se_diff :: "string list \<Rightarrow> string list \<Rightarrow> string list"

fun exn_class :: "exn \<Rightarrow> string" where
  "exn_class (HTTPException c m) = ''HTTPException''"
| "exn_class (ValueError m) = ''ValueError''"
| "exn_class TypeError = ''TypeError''"
| "exn_class (KeyError m) = ''KeyError''"
| "exn_class AttributeError = ''AttributeError''"
| "exn_class (LookupError m) = ''LookupError''"
| "exn_class MultipleResultsFound = ''MultipleResultsFound''"
| "exn_class IntegrityError = ''IntegrityError''"
| "exn_class InvalidToken = ''InvalidToken''"
| "exn_class TokenBlocklistUnavailable = ''TokenBlocklistUnavailable''"
| "exn_class (ScanAuthorizationError m) = ''ScanAuthorizationError''"
| "exn_class (PasswordPolicyError m) = ''PasswordPolicyError''"
| "exn_class (ServiceError n) = n"

section \<open>The settings row\<close>

definition put_settings :: "int \<Rightarrow> (self_security_settings \<Rightarrow> self_security_settings) \<Rightarrow> db \<Rightarrow> db" where
  "put_settings now f d =
     d\<lparr>settings_rows := update_where (\<lambda>s. ss_id s = 1) (\<lambda>s. settings_flush now s (f s)) (settings_rows d)\<rparr>"

definition lock_down :: "self_security_settings \<Rightarrow> self_security_settings" where
  "lock_down s = s\<lparr>ss_auto_update_enabled := False, ss_require_admin_approval := True\<rparr>"

text \<open>\<open>_get_settings\<close>: the row, made if there is none, with in-place updates off and approval on.\<close>

definition get_settings :: "int \<Rightarrow> db \<Rightarrow> (self_security_settings \<times> db) result" where
  "get_settings now d =
     rbind (scalar_one_or_none (filter (\<lambda>s. ss_id s = 1) (settings_rows d))) (\<lambda>found.
       let s = (case found of None \<Rightarrow> new_self_security_settings now | Some s \<Rightarrow> s);
           d' = (if found = None then d\<lparr>settings_rows := settings_rows d @ [s]\<rparr> else d)
       in Inr (lock_down s, put_settings now lock_down d'))"

section \<open>Scanning the resolved runtime\<close>

definition scan_running :: "int \<Rightarrow> self_security_settings \<Rightarrow> self_security_settings" where
  "scan_running now s = s\<lparr>ss_last_scan_status := ''running'', ss_last_scan_error := None, ss_last_scan_at := Some now\<rparr>"

definition scan_failed :: "int \<Rightarrow> exn \<Rightarrow> self_security_settings \<Rightarrow> self_security_settings" where
  "scan_failed now e s = s\<lparr>ss_last_scan_status := ''failed'', ss_last_scan_error := Some (exn_class e), ss_last_scan_at := Some now\<rparr>"

definition scan_succeeded :: "int \<Rightarrow> nat \<Rightarrow> self_security_settings \<Rightarrow> self_security_settings" where
  "scan_succeeded now n s = s\<lparr>ss_last_scan_status := ''success'', ss_last_scan_error := None, ss_last_scan_at := Some now,
     ss_last_successful_scan_at := Some now, ss_packages_scanned := int n\<rparr>"

text \<open>What the services say on each package: its findings and the latest release.\<close>

type_synonym scan_entry = "dep_record \<times> finding list \<times> string option"

fun query_deps :: "'v ss_env \<Rightarrow> string list \<Rightarrow> dep_record list \<Rightarrow> scan_entry list result" where
  "query_deps env excluded [] = Inr []"
| "query_deps env excluded (dep # deps) =
     (if dr_name dep \<in> set excluded
      then rbind (query_deps env excluded deps) (\<lambda>es. Inr ((dep, [], None) # es))
      else rbind (se_osv env dep) (\<lambda>vulns. rbind (se_latest env (dr_name dep)) (\<lambda>latest.
           rbind (query_deps env excluded deps) (\<lambda>es.
             Inr ((dep, find_vulns (se_versions env) dep vulns, latest) # es)))))"

definition run_scanner :: "'v ss_env \<Rightarrow> string list \<Rightarrow> scan_entry list result" where
  "run_scanner env excluded =
     (let deps = scan_installed_python_deps ''api'' (se_dists env)
      in if deps = [] then Inl (ServiceError ''RuntimeError'') else query_deps env excluded deps)"

definition identifiers :: "finding \<Rightarrow> string list" where
  "identifiers f = fd_cve_id f # fd_aliases f"

definition cve_candidates :: "scan_entry list \<Rightarrow> string list" where
  "cve_candidates es = filter (starts_with ''CVE-'') (concat (map (\<lambda>(dep, fs, latest). concat (map identifiers fs)) es))"

definition kev_ids :: "scan_entry list \<Rightarrow> db \<Rightarrow> string list" where
  "kev_ids es d = map cv_id (filter (\<lambda>c. cv_kev c \<and> cv_id c \<in> set (cve_candidates es)) (cves d))"

definition finding_is_kev :: "string list \<Rightarrow> finding \<Rightarrow> bool" where
  "finding_is_kev kevs f = list_ex (\<lambda>i. i \<in> set kevs) (identifiers f)"

definition fill_finding :: "string list \<Rightarrow> finding \<Rightarrow> dependency_finding \<Rightarrow> dependency_finding" where
  "fill_finding kevs f r = r\<lparr>df_cvss := fd_cvss f, df_description := Some (fd_description f),
     df_fixed_version := fd_fixed_version f, df_severity := fd_severity f, df_kev := finding_is_kev kevs f\<rparr>"

text \<open>
  One finding of a package: the row \<open>existing\<close> had before the loop is refreshed, any other
  finding is a new row. \<open>existing\<close> does not learn of rows the loop itself adds.
\<close>

definition store_finding :: "int \<Rightarrow> string list \<Rightarrow> nat \<Rightarrow> string list \<Rightarrow> finding \<Rightarrow> db \<Rightarrow> db" where
  "store_finding now kevs pid existing f d =
     (if fd_cve_id f \<in> set existing
      then d\<lparr>dependency_findings := update_where (\<lambda>r. df_dependency_id r = pid \<and> df_cve_id r = fd_cve_id f)
               (fill_finding kevs f) (dependency_findings d)\<rparr>
      else let (i, d) = fresh_id d;
               r = fill_finding kevs f ((new_dependency_finding i now)\<lparr>df_dependency_id := pid, df_cve_id := fd_cve_id f\<rparr>)
           in d\<lparr>dependency_findings := dependency_findings d @ [r]\<rparr>)"

definition findings_unique :: "db \<Rightarrow> bool" where
  "findings_unique d = distinct (map (\<lambda>r. (df_dependency_id r, df_cve_id r)) (dependency_findings d))"

definition prune_findings :: "nat \<Rightarrow> string list \<Rightarrow> db \<Rightarrow> db" where
  "prune_findings pid observed d =
     d\<lparr>dependency_findings := filter (\<lambda>r. \<not> (df_dependency_id r = pid \<and> df_cve_id r \<notin> set observed))
         (dependency_findings d)\<rparr>"

definition max_cvss :: "finding list \<Rightarrow> rat option" where
  "max_cvss fs = (case List.map_filter fd_cvss fs of [] \<Rightarrow> None | x # xs \<Rightarrow> Some (fold max xs x))"

definition dep_checked :: "int \<Rightarrow> string list \<Rightarrow> scan_entry \<Rightarrow> platform_dependency \<Rightarrow> platform_dependency" where
  "dep_checked now kevs e p = (case e of (dep, fs, latest) \<Rightarrow>
     p\<lparr>pd_version := dr_version dep, pd_purl := dr_purl dep, pd_latest_version := latest,
       pd_cve_count := int (length fs), pd_kev_count := int (length (filter (finding_is_kev kevs) fs)),
       pd_max_cvss := max_cvss fs,
       pd_update_available := (case latest of None \<Rightarrow> False | Some v \<Rightarrow> v \<noteq> [] \<and> v \<noteq> dr_version dep),
       pd_last_checked := now\<rparr>)"

definition find_dep :: "dep_record \<Rightarrow> db \<Rightarrow> platform_dependency option result" where
  "find_dep dep d = scalar_one_or_none
     (filter (\<lambda>p. pd_name p = dr_name dep \<and> pd_component p = dr_component dep) (platform_dependencies d))"

definition add_dep :: "int \<Rightarrow> dep_record \<Rightarrow> db \<Rightarrow> nat \<times> db" where
  "add_dep now dep d =
     (let (i, d) = fresh_id d;
          p = (new_platform_dependency i now)\<lparr>pd_component := dr_component dep, pd_package_type := dr_package_type dep,
                pd_name := dr_name dep, pd_version := dr_version dep, pd_purl := dr_purl dep\<rparr>
      in (i, d\<lparr>platform_dependencies := platform_dependencies d @ [p]\<rparr>))"

text \<open>\<open>dependency_state\<close> maps the identifier of a package to its version and number of findings.\<close>

type_synonym dep_state = "(nat \<times> string \<times> nat) list"

definition scan_dep :: "int \<Rightarrow> string list \<Rightarrow> scan_entry \<Rightarrow> db \<times> dep_state \<Rightarrow> (db \<times> dep_state) result" where
  "scan_dep now kevs e st = (case (e, st) of ((dep, fs, latest), (d, ds)) \<Rightarrow>
     rbind (find_dep dep d) (\<lambda>found.
       let (pid, d) = (case found of None \<Rightarrow> add_dep now dep d | Some p \<Rightarrow> (pd_id p, d));
           existing = map df_cve_id (filter (\<lambda>r. df_dependency_id r = pid) (dependency_findings d));
           d = fold (store_finding now kevs pid existing) fs d
       in if \<not> findings_unique d then Inl IntegrityError
          else let d = prune_findings pid (map fd_cve_id fs) d;
                   d = d\<lparr>platform_dependencies := update_where (\<lambda>p. pd_id p = pid) (dep_checked now kevs e)
                           (platform_dependencies d)\<rparr>
               in Inr (d, (pid, dr_version dep, length fs) # ds)))"

definition pending_statuses :: "string list" where
  "pending_statuses = [''proposed'', ''ai_validated'', ''approved'', ''applying'']"

definition supersede :: "dep_state \<Rightarrow> update_proposal \<Rightarrow> update_proposal" where
  "supersede ds p =
     (if up_status p \<in> set pending_statuses
         \<and> (case map_of ds (up_dependency_id p) of None \<Rightarrow> False | Some (v, n) \<Rightarrow> n = 0 \<or> up_current_version p \<noteq> v)
      then p\<lparr>up_status := ''rejected'', up_error_message := Some ''Superseded by a fresh resolved-runtime scan''\<rparr>
      else p)"

definition drop_uninstalled :: "string list \<Rightarrow> db \<Rightarrow> db" where
  "drop_uninstalled installed d =
     fold (\<lambda>p. delete_dependency (pd_id p))
       (filter (\<lambda>p. pd_component p = ''api'' \<and> pd_name p \<notin> set installed) (platform_dependencies d)) d"

definition close_scan_alert :: "int \<Rightarrow> alert \<Rightarrow> alert" where
  "close_scan_alert now a = a\<lparr>al_status := ''resolved'', al_resolved_at := Some now, al_resolved_by := Some ''self-security-scan''\<rparr>"

definition scan_alert :: "int \<Rightarrow> int \<Rightarrow> int \<Rightarrow> int \<Rightarrow> nat \<Rightarrow> string list \<Rightarrow> db \<Rightarrow> db" where
  "scan_alert now n_total critical kev packages channels d =
     (if 0 < critical \<or> 0 < kev then
        let (i, d) = fresh_id d;
            a = (new_alert i now)\<lparr>al_alert_type := ''self_security'',
                  al_severity := (if 0 < kev then ''critical'' else ''high''),
                  al_title := ''Platform dependency vulnerabilities: '' @ show_int n_total @ '' advisories'',
                  al_description := ''The resolved runtime scan found '' @ show_int n_total @ '' advisories across ''
                    @ show_nat packages @ '' packages: '' @ show_int critical @ '' critical and ''
                    @ show_int kev @ '' confirmed in the synchronized CISA KEV catalog.'',
                  al_details := [(''total'', PInt n_total), (''critical'', PInt critical), (''kev'', PInt kev),
                    (''packages_scanned'', PInt (int packages))],
                  al_notification_channels := (if channels = [] then [''slack''] else channels)\<rparr>
        in d\<lparr>alerts := alerts d @ [a]\<rparr>
      else d\<lparr>alerts := update_where (\<lambda>a. al_alert_type a = ''self_security'' \<and> al_status a = ''open'') (close_scan_alert now) (alerts d)\<rparr>)"

definition count_findings :: "(finding \<Rightarrow> bool) \<Rightarrow> scan_entry list \<Rightarrow> int" where
  "count_findings p es = int (length (filter p (concat (map (\<lambda>(dep, fs, latest). fs) es))))"

text \<open>The transaction that stores a complete scan.\<close>

definition store_scan :: "int \<Rightarrow> scan_entry list \<Rightarrow> db \<Rightarrow> db result" where
  "store_scan now es d0 =
     (let kevs = kev_ids es d0
      in rbind (rfold (scan_dep now kevs) es (d0, [])) (\<lambda>(d, ds).
         let d = drop_uninstalled (map (\<lambda>(dep, fs, latest). dr_name dep) es) d;
             d = d\<lparr>update_proposals := map (supersede ds) (update_proposals d)\<rparr>
         in rbind (get_settings now d) (\<lambda>(s, d).
            let d = put_settings now (scan_succeeded now (length es)) d
            in Inr (scan_alert now (count_findings (\<lambda>f. True) es) (count_findings (\<lambda>f. fd_severity f = ''critical'') es)
                      (count_findings (finding_is_kev kevs) es) (length es) (ss_notify_channels s) d))))"

datatype scan_outcome =
    ScanFailed string
  | ScanSucceeded nat int int int

definition scan_platform_deps :: "'v ss_env \<Rightarrow> int \<Rightarrow> db \<Rightarrow> scan_outcome result \<times> db" where
  "scan_platform_deps env now d =
     (case get_settings now d of
        Inl e \<Rightarrow> (Inl e, d)
      | Inr (s, d1) \<Rightarrow>
          (let d1 = put_settings now (scan_running now) d1
           in case run_scanner env (ss_excluded_packages s) of
                Inl e \<Rightarrow>
                  (case get_settings now d1 of
                     Inl e' \<Rightarrow> (Inl e', d1)
                   | Inr (s', d2) \<Rightarrow> (Inr (ScanFailed (exn_class e)), put_settings now (scan_failed now e) d2))
              | Inr es \<Rightarrow>
                  (case store_scan now es d1 of
                     Inl e \<Rightarrow> (Inl e, d1)
                   | Inr d2 \<Rightarrow> (Inr (ScanSucceeded (length es) (count_findings (\<lambda>f. True) es)
                        (count_findings (\<lambda>f. fd_severity f = ''critical'') es)
                        (count_findings (finding_is_kev (kev_ids es d1)) es)), d2))))"

section \<open>Proposals\<close>

definition hour :: int where "hour = 3600000000"

definition scan_is_recent :: "int \<Rightarrow> self_security_settings \<Rightarrow> bool" where
  "scan_is_recent now s = (ss_last_scan_status s = ''success''
     \<and> (case ss_last_successful_scan_at s of None \<Rightarrow> False | Some t \<Rightarrow> now - 26 * hour \<le> t))"

definition block_dep :: "string \<Rightarrow> platform_dependency \<Rightarrow> db \<Rightarrow> db" where
  "block_dep reason p d = d\<lparr>platform_dependencies :=
     update_where (\<lambda>q. pd_id q = pd_id p) (\<lambda>q. q\<lparr>pd_update_blocked_reason := Some reason\<rparr>) (platform_dependencies d)\<rparr>"

definition active_findings :: "platform_dependency \<Rightarrow> db \<Rightarrow> dependency_finding list" where
  "active_findings p d = filter (\<lambda>f. df_dependency_id f = pd_id p \<and> \<not> df_suppressed f) (dependency_findings d)"

definition fixed_of :: "dependency_finding list \<Rightarrow> string list" where
  "fixed_of fs = map (the \<circ> df_fixed_version) (filter (truthy_str \<circ> df_fixed_version) fs)"

definition target_version :: "'v versions \<Rightarrow> string list \<Rightarrow> string option" where
  "target_version V vs =
     (if list_ex (\<lambda>s. ver_parse V s = None) vs then None
      else case List.map_filter (ver_parse V) vs of
        [] \<Rightarrow> None
      | x # xs \<Rightarrow> Some (ver_str V (least (\<lambda>x y. ver_lt V y x) x xs)))"

definition pending_for :: "nat \<Rightarrow> string \<Rightarrow> update_proposal \<Rightarrow> bool" where
  "pending_for pid target u = (up_dependency_id u = pid \<and> up_target_version u = target \<and> up_status u \<in> set pending_statuses)"

definition propose_dep :: "'v versions \<Rightarrow> int \<Rightarrow> string list \<Rightarrow> platform_dependency \<Rightarrow> db \<times> nat \<Rightarrow> (db \<times> nat) result" where
  "propose_dep V now excluded p st = (case st of (d, created) \<Rightarrow>
     (let fs = active_findings p d
      in if pd_name p \<in> set excluded then Inr (d, created)
         else if fixed_of fs = [] then Inr (block_dep ''No fixed version available upstream'' p d, created)
         else case target_version V (fixed_of fs) of
           None \<Rightarrow> Inr (block_dep ''Upstream fixed version is not valid PEP 440'' p d, created)
         | Some target \<Rightarrow>
             rbind (scalar_one_or_none (filter (pending_for (pd_id p) target) (update_proposals d))) (\<lambda>found.
               if found \<noteq> None then Inr (d, created)
               else let (i, d) = fresh_id d;
                        u = (new_update_proposal i now)\<lparr>up_dependency_id := pd_id p, up_component := pd_component p,
                              up_package_name := pd_name p, up_current_version := pd_version p,
                              up_target_version := target,
                              up_reason := (if list_ex df_kev fs then ''kev_fix'' else ''cve_fix''),
                              up_cves_fixed := map df_cve_id (filter (truthy_str \<circ> df_fixed_version) fs),
                              up_status := ''proposed''\<rparr>
                    in Inr (d\<lparr>update_proposals := update_proposals d @ [u]\<rparr>, created + 1))))"

text \<open>\<open>None\<close> is the answer of a skipped run, which commits nothing.\<close>

definition propose_updates :: "'v ss_env \<Rightarrow> int \<Rightarrow> db \<Rightarrow> nat option result \<times> db" where
  "propose_updates env now d =
     (case get_settings now d of
        Inl e \<Rightarrow> (Inl e, d)
      | Inr (s, d1) \<Rightarrow>
          if \<not> scan_is_recent now s then (Inr None, d)
          else case rfold (propose_dep (se_versions env) now (ss_excluded_packages s))
                      (filter (\<lambda>p. 0 < pd_cve_count p) (platform_dependencies d1)) (d1, 0) of
                 Inl e \<Rightarrow> (Inl e, d)
               | Inr (d2, created) \<Rightarrow> (Inr (Some created), d2))"

section \<open>The assessment by the model\<close>

definition unavailable_assessment :: "string \<Rightarrow> jdict" where
  "unavailable_assessment msg =
     [(''recommendation'', PStr ''manual_review''), (''risk_score'', PInt 10), (''version_jump_type'', PStr ''unknown''),
      (''breaking_changes_detected'', PBool True), (''breaking_changes'', PList []),
      (''compatibility_concerns'', PList [PStr (''AI validation unavailable: '' @ msg)]),
      (''security_improvement'', PStr ''unknown''), (''test_recommendations'', PList [PStr ''full regression test required'']),
      (''summary'', PStr (''AI validation failed '' @ [char_of (226::nat), char_of (128::nat), char_of (148::nat)]
         @ '' manual review required.'')),
      (''_error'', PStr msg)]"

definition malformed_assessment :: "string \<Rightarrow> jdict" where
  "malformed_assessment text =
     [(''recommendation'', PStr ''manual_review''), (''risk_score'', PInt 10),
      (''summary'', PStr (''AI returned malformed response '' @ [char_of (226::nat), char_of (128::nat), char_of (148::nat)]
         @ '' manual review required.'')),
      (''_raw'', PStr (take 500 text))]"

fun to_float :: "'v ss_env \<Rightarrow> pyval \<Rightarrow> rat result" where
  "to_float env (PInt i) = Inr (fl (of_int i))"
| "to_float env (PFloat x) = Inr x"
| "to_float env (PBool b) = Inr (if b then 1 else 0)"
| "to_float env (PStr s) = (case se_float env s of None \<Rightarrow> Inl (ValueError ''could not convert string to float'') | Some x \<Rightarrow> Inr x)"
| "to_float env v = Inl TypeError"

definition jget_or :: "jdict \<Rightarrow> string \<Rightarrow> pyval \<Rightarrow> pyval" where
  "jget_or d k dflt = (case map_of d k of None \<Rightarrow> dflt | Some v \<Rightarrow> v)"

definition recommendations :: "pyval list" where
  "recommendations = [PStr ''approve'', PStr ''reject'', PStr ''manual_review'']"

definition normalize_assessment :: "'v ss_env \<Rightarrow> jdict \<Rightarrow> jdict result" where
  "normalize_assessment env r =
     (let r1 = (if map_of r ''recommendation'' = None then jset ''recommendation'' (PStr ''manual_review'') r else r);
          r2 = (if jget r1 ''recommendation'' \<notin> set recommendations then jset ''recommendation'' (PStr ''manual_review'') r1 else r1)
      in rbind (to_float env (jget_or r2 ''risk_score'' (PInt 10))) (\<lambda>x.
           let r3 = jset ''risk_score'' (PFloat x) r2
           in Inr (jset ''breaking_changes_detected''
                     (PBool (py_truthy (jget_or r3 ''breaking_changes_detected'' (PBool True)))) r3)))"

definition assess_update :: "'v ss_env \<Rightarrow> string \<Rightarrow> string \<Rightarrow> string \<Rightarrow> string \<Rightarrow> string list \<Rightarrow> jdict result" where
  "assess_update env package current target reason ids =
     (case se_ai env (se_prompt env package current target reason (if ids = [] then ''none'' else join '', '' ids)) of
        Inl e \<Rightarrow> Inr (unavailable_assessment (se_str_exn env e))
      | Inr answer \<Rightarrow>
          (let text = clean_answer answer
           in case se_json env text of
                None \<Rightarrow> Inr (malformed_assessment text)
              | Some (PDict r) \<Rightarrow> normalize_assessment env r
              | Some v \<Rightarrow> Inl AttributeError))"

text \<open>A summary that is not a text fails when the row is flushed.\<close>

fun text_column :: "pyval \<Rightarrow> string option result" where
  "text_column PNone = Inr None"
| "text_column (PStr s) = Inr (Some s)"
| "text_column v = Inl (ServiceError ''StatementError'')"

definition record_assessment :: "'v ss_env \<Rightarrow> jdict \<Rightarrow> update_proposal \<Rightarrow> update_proposal result result" where
  "record_assessment env a p =
     rbind (to_float env (jget_or a ''risk_score'' (PInt 10))) (\<lambda>x. Inr (
       rbind (text_column (jget_or a ''recommendation'' (PStr ''manual_review''))) (\<lambda>rec.
       rbind (text_column (jget_or a ''summary'' (PStr []))) (\<lambda>notes.
         Inr (p\<lparr>up_ai_assessment := a, up_ai_recommendation := rec, up_ai_risk_score := Some x,
                up_breaking_changes_detected := py_truthy (jget a ''breaking_changes_detected''),
                up_compatibility_notes := notes, up_status := ''ai_validated''\<rparr>)))))"

text \<open>The outer result is the \<open>try\<close> block, the inner one the flush; the flag counts validated ones.\<close>

definition validate_one :: "'v ss_env \<Rightarrow> update_proposal \<Rightarrow> (update_proposal \<times> bool) result" where
  "validate_one env p =
     (case rbind (assess_update env (up_package_name p) (up_current_version p) (up_target_version p) (up_reason p) (up_cves_fixed p))
             (\<lambda>a. record_assessment env a p) of
        Inr r \<Rightarrow> rbind r (\<lambda>q. Inr (q, True))
      | Inl e \<Rightarrow> Inr (p\<lparr>up_ai_recommendation := Some ''manual_review'',
           up_ai_assessment := [(''_error'', PStr (se_str_exn env e))], up_status := ''ai_validated''\<rparr>, False))"

definition validate_step :: "'v ss_env \<Rightarrow> update_proposal \<Rightarrow> db \<times> nat \<Rightarrow> (db \<times> nat) result" where
  "validate_step env p st = (case st of (d, n) \<Rightarrow>
     rbind (validate_one env p) (\<lambda>(q, ok).
       Inr (d\<lparr>update_proposals := update_where (\<lambda>r. up_id r = up_id p) (\<lambda>r. q) (update_proposals d)\<rparr>,
            if ok then n + 1 else n)))"

definition ai_validate_proposals :: "'v ss_env \<Rightarrow> int \<Rightarrow> db \<Rightarrow> nat option result \<times> db" where
  "ai_validate_proposals env now d =
     (case get_settings now d of
        Inl e \<Rightarrow> (Inl e, d)
      | Inr (s, d1) \<Rightarrow>
          if \<not> ss_require_ai_validation s then (Inr None, d)
          else case rfold (validate_step env)
                      (take 50 (filter (\<lambda>u. up_status u = ''proposed'') (update_proposals d1))) (d1, 0) of
                 Inl e \<Rightarrow> (Inl e, d)
               | Inr (d2, n) \<Rightarrow> (Inr (Some n), d2))"

section \<open>Patches\<close>

text \<open>\<open>str.splitlines\<close>.\<close>

definition is_line_break :: "char \<Rightarrow> bool" where
  "is_line_break c = (char_code c \<in> {10, 11, 12, 13, 28, 29, 30, 133})"

fun splitlines_from :: "string \<Rightarrow> string \<Rightarrow> string list" where
  "splitlines_from acc [] = (if acc = [] then [] else [rev acc])"
| "splitlines_from acc (c # s) =
     (if is_line_break c
      then rev acc # splitlines_from [] (if char_code c = 13 \<and> s \<noteq> [] \<and> char_code (hd s) = 10 then tl s else s)
      else splitlines_from (c # acc) s)"

definition splitlines :: "string \<Rightarrow> string list" where "splitlines s = splitlines_from [] s"

definition requirement_of :: "string \<Rightarrow> string \<Rightarrow> bool" where
  "requirement_of package line =
     list_ex (\<lambda>op. starts_with (lower package @ op) (lower (strip line))) [''=='', ''>='', ''~='', ''<='', ''>'', ''<'']"

definition newline :: char where "newline = CHR ''\<newline>''"

definition patched_lines :: "string \<Rightarrow> string \<Rightarrow> string \<Rightarrow> string list" where
  "patched_lines package target original =
     map (\<lambda>line. if requirement_of package line then package @ ''=='' @ target else line) (split_on newline original)"

text \<open>The requirements file may be absent, unreadable (an exception) or a text.\<close>

definition prepare :: "'v ss_env \<Rightarrow> update_proposal \<Rightarrow> (update_proposal \<times> bool) result" where
  "prepare env p =
     (case se_requirements env of
        None \<Rightarrow> Inr (p\<lparr>up_status := ''failed'',
          up_error_message := Some ''requirements.in is not available for patch generation''\<rparr>, False)
      | Some (Inl e) \<Rightarrow> Inl e
      | Some (Inr original) \<Rightarrow>
          if \<not> list_ex (requirement_of (up_package_name p)) (split_on newline original)
          then Inr (p\<lparr>up_status := ''failed'', up_error_message := Some (up_package_name p
                  @ '' is transitive or absent from requirements.in; regenerate the dependency lock in a review branch'')\<rparr>, False)
          else
            let proposed = join [newline] (patched_lines (up_package_name p) (up_target_version p) original);
                patch_text = join [newline] (se_diff env (splitlines original) (splitlines proposed))
            in Inr (p\<lparr>up_rollback_snapshot := [(''proposal_patch'', PStr patch_text),
                    (''previous_version'', PStr (up_current_version p)),
                    (''requires_lock_regeneration'', PBool True), (''requires_ci'', PBool True)],
                  up_status := ''ready_for_pr'', up_error_message := None\<rparr>, True))"

definition patch_alert :: "int \<Rightarrow> update_proposal \<Rightarrow> db \<Rightarrow> db" where
  "patch_alert now p d =
     (let (i, d) = fresh_id d;
          a = (new_alert i now)\<lparr>al_alert_type := ''self_security_update_proposal'', al_severity := ''medium'',
                al_title := ''Dependency patch ready: '' @ up_package_name p @ '' '' @ up_target_version p,
                al_description := ''A non-mutating patch proposal is ready for a review branch. Regenerate the dependency lock, run CI and image scans, then merge through normal approval.'',
                al_details := [(''package'', PStr (up_package_name p)), (''from'', PStr (up_current_version p)),
                  (''to'', PStr (up_target_version p)), (''cves_fixed'', PList (map PStr (up_cves_fixed p)))]\<rparr>
      in d\<lparr>alerts := alerts d @ [a]\<rparr>)"

definition put_proposal :: "nat \<Rightarrow> (update_proposal \<Rightarrow> update_proposal) \<Rightarrow> db \<Rightarrow> db" where
  "put_proposal i f d = d\<lparr>update_proposals := update_where (\<lambda>u. up_id u = i) f (update_proposals d)\<rparr>"

definition prepare_one_update :: "'v ss_env \<Rightarrow> int \<Rightarrow> update_proposal \<Rightarrow> db \<Rightarrow> bool result \<times> db" where
  "prepare_one_update env now p d = (case prepare env p of
     Inl e \<Rightarrow> (Inl e, d)
   | Inr (q, ok) \<Rightarrow> (Inr ok, if ok then patch_alert now p (put_proposal (up_id p) (\<lambda>r. q) d) else put_proposal (up_id p) (\<lambda>r. q) d))"

definition crashed :: "'v ss_env \<Rightarrow> exn \<Rightarrow> update_proposal \<Rightarrow> update_proposal" where
  "crashed env e p = p\<lparr>up_status := ''failed'', up_error_message := Some (take 1000 (se_str_exn env e))\<rparr>"

definition apply_step :: "'v ss_env \<Rightarrow> int \<Rightarrow> update_proposal \<Rightarrow> (nat \<times> nat) \<times> db \<Rightarrow> (nat \<times> nat) \<times> db" where
  "apply_step env now p st = (case st of ((prepared, failed), d) \<Rightarrow>
     (case prepare_one_update env now p d of
        (Inl e, d) \<Rightarrow> ((prepared, failed + 1), put_proposal (up_id p) (\<lambda>r. crashed env e p) d)
      | (Inr ok, d) \<Rightarrow> (if ok then (prepared + 1, failed) else (prepared, failed + 1), d)))"

definition apply_approved_updates :: "'v ss_env \<Rightarrow> int \<Rightarrow> nat option \<Rightarrow> db \<Rightarrow> (nat \<times> nat) \<times> db" where
  "apply_approved_updates env now proposal d =
     (let approved = filter (\<lambda>u. up_status u = ''approved'' \<and> (proposal = None \<or> proposal = Some (up_id u))) (update_proposals d)
      in fold (apply_step env now) approved ((0, 0), d))"

definition cancel_patch :: "update_proposal \<Rightarrow> update_proposal" where
  "cancel_patch p = p\<lparr>up_rollback_snapshot := [], up_status := ''approved''\<rparr>"

definition rollback_proposal :: "nat \<Rightarrow> db \<Rightarrow> bool result \<times> db" where
  "rollback_proposal i d =
     (case scalar_one_or_none (filter (\<lambda>u. up_id u = i) (update_proposals d)) of
        Inl e \<Rightarrow> (Inl e, d)
      | Inr None \<Rightarrow> (Inr False, d)
      | Inr (Some p) \<Rightarrow>
          if up_status p \<noteq> ''ready_for_pr'' then (Inr False, d)
          else (Inr True, d\<lparr>update_proposals := update_where (\<lambda>u. up_id u = i) cancel_patch (update_proposals d)\<rparr>))"

section \<open>The endpoints\<close>

record settings_update =
  su_auto_scan_enabled :: "bool dkey"
  su_scan_cron :: "string dkey"
  su_auto_update_enabled :: "bool dkey"
  su_auto_update_severity_threshold :: "string dkey"
  su_auto_update_only_patch :: "bool dkey"
  su_auto_update_only_kev :: "bool dkey"
  su_require_ai_validation :: "bool dkey"
  su_require_admin_approval :: "bool dkey"
  su_auto_rollback_on_failure :: "bool dkey"
  su_maintenance_window_cron :: "string dkey"
  su_notify_channels :: "string list dkey"
  su_ai_model :: "string dkey"
  su_excluded_packages :: "string list dkey"

text \<open>\<open>body.model_dump(exclude_unset=True)\<close>\<close>

definition changes_of :: "settings_update \<Rightarrow> jdict" where
  "changes_of b =
     change_of ''auto_scan_enabled'' PBool (su_auto_scan_enabled b) @ change_of ''scan_cron'' PStr (su_scan_cron b)
     @ change_of ''auto_update_enabled'' PBool (su_auto_update_enabled b)
     @ change_of ''auto_update_severity_threshold'' PStr (su_auto_update_severity_threshold b)
     @ change_of ''auto_update_only_patch'' PBool (su_auto_update_only_patch b)
     @ change_of ''auto_update_only_kev'' PBool (su_auto_update_only_kev b)
     @ change_of ''require_ai_validation'' PBool (su_require_ai_validation b)
     @ change_of ''require_admin_approval'' PBool (su_require_admin_approval b)
     @ change_of ''auto_rollback_on_failure'' PBool (su_auto_rollback_on_failure b)
     @ change_of ''maintenance_window_cron'' PStr (su_maintenance_window_cron b)
     @ change_of ''notify_channels'' (\<lambda>xs. PList (map PStr xs)) (su_notify_channels b)
     @ change_of ''ai_model'' PStr (su_ai_model b)
     @ change_of ''excluded_packages'' (\<lambda>xs. PList (map PStr xs)) (su_excluded_packages b)"

definition change_settings :: "settings_update \<Rightarrow> self_security_settings \<Rightarrow> self_security_settings result" where
  "change_settings b s =
     rbind (set_col (su_auto_scan_enabled b) (ss_auto_scan_enabled s)) (\<lambda>auto_scan.
     rbind (set_col (su_scan_cron b) (ss_scan_cron s)) (\<lambda>cron.
     rbind (set_col (su_auto_update_enabled b) (ss_auto_update_enabled s)) (\<lambda>auto_update.
     rbind (set_col (su_auto_update_severity_threshold b) (ss_auto_update_severity_threshold s)) (\<lambda>threshold.
     rbind (set_col (su_auto_update_only_patch b) (ss_auto_update_only_patch s)) (\<lambda>only_patch.
     rbind (set_col (su_auto_update_only_kev b) (ss_auto_update_only_kev s)) (\<lambda>only_kev.
     rbind (set_col (su_require_ai_validation b) (ss_require_ai_validation s)) (\<lambda>ai.
     rbind (set_col (su_require_admin_approval b) (ss_require_admin_approval s)) (\<lambda>approval.
     rbind (set_col (su_auto_rollback_on_failure b) (ss_auto_rollback_on_failure s)) (\<lambda>rollback.
     rbind (set_col (su_ai_model b) (ss_ai_model s)) (\<lambda>model.
       Inr (s\<lparr>ss_auto_scan_enabled := auto_scan, ss_scan_cron := cron, ss_auto_update_enabled := auto_update,
          ss_auto_update_severity_threshold := threshold, ss_auto_update_only_patch := only_patch,
          ss_auto_update_only_kev := only_kev, ss_require_ai_validation := ai, ss_require_admin_approval := approval,
          ss_auto_rollback_on_failure := rollback,
          ss_maintenance_window_cron := set_nullable (su_maintenance_window_cron b) (ss_maintenance_window_cron s),
          ss_notify_channels := set_json (su_notify_channels b) (ss_notify_channels s), ss_ai_model := model,
          ss_excluded_packages := set_json (su_excluded_packages b) (ss_excluded_packages s)\<rparr>)))))))))))"

definition update_settings :: "(string \<Rightarrow> string) \<Rightarrow> int \<Rightarrow> http_request \<Rightarrow> principal \<Rightarrow> settings_update \<Rightarrow> db \<Rightarrow> jdict result \<times> db" where
  "update_settings sha now rq who b d =
     (if su_auto_update_enabled b = Has True
      then (Inl (HTTPException 400 ''In-place source updates are disabled; use reviewed dependency PRs''), d)
      else if su_require_admin_approval b = Has False
      then (Inl (HTTPException 400 ''Administrator approval is mandatory for dependency changes''), d)
      else
        case scalar_one_or_none (filter (\<lambda>s. ss_id s = 1) (settings_rows d)) of
          Inl e \<Rightarrow> (Inl e, d)
        | Inr found \<Rightarrow>
            (let s = (case found of None \<Rightarrow> new_self_security_settings now | Some s \<Rightarrow> s);
                 d1 = (if found = None then d\<lparr>settings_rows := settings_rows d @ [s]\<rparr> else d)
             in case change_settings b s of
                  Inl e \<Rightarrow> (Inl e, d)
                | Inr s' \<Rightarrow>
                    (Inr (changes_of b),
                     audit sha now rq ''self_security_settings_updated'' (Some who) (Some ''settings'') None ''info'' (changes_of b)
                       (put_settings now (\<lambda>r. s'\<lparr>ss_updated_by := Some (p_username who)\<rparr>) d1))))"

text \<open>The row with a given identifier, or 404.\<close>

definition or_404 :: "'r option result \<Rightarrow> 'r result" where
  "or_404 r = rbind r (\<lambda>found. case found of None \<Rightarrow> Inl (HTTPException 404 ''Not Found'') | Some x \<Rightarrow> Inr x)"

definition the_proposal :: "nat \<Rightarrow> db \<Rightarrow> update_proposal result" where
  "the_proposal i d = or_404 (scalar_one_or_none (filter (\<lambda>u. up_id u = i) (update_proposals d)))"

definition suppress_mut :: "principal \<Rightarrow> string \<Rightarrow> dependency_finding \<Rightarrow> dependency_finding" where
  "suppress_mut who reason f = f\<lparr>df_suppressed := True, df_suppressed_reason := Some (take 255 reason),
     df_suppressed_by := Some (p_username who)\<rparr>"

definition suppress_finding :: "(string \<Rightarrow> string) \<Rightarrow> int \<Rightarrow> http_request \<Rightarrow> principal \<Rightarrow> nat \<Rightarrow> string \<Rightarrow> db \<Rightarrow> bool result \<times> db" where
  "suppress_finding sha now rq who i reason d =
     (case or_404 (scalar_one_or_none (filter (\<lambda>f. df_id f = i) (dependency_findings d))) of
        Inl e \<Rightarrow> (Inl e, d)
      | Inr f \<Rightarrow> (Inr True,
          audit sha now rq ''finding_suppressed'' (Some who) (Some ''finding'') (Some (uuid_str i)) ''info'' [(''reason'', PStr reason)]
            (d\<lparr>dependency_findings := update_where (\<lambda>f. df_id f = i) (suppress_mut who reason) (dependency_findings d)\<rparr>)))"

definition approve_mut :: "int \<Rightarrow> principal \<Rightarrow> update_proposal \<Rightarrow> update_proposal" where
  "approve_mut now who p = p\<lparr>up_status := ''approved'', up_approved_by := Some (p_username who), up_approved_at := Some now\<rparr>"

definition approve_proposal :: "(string \<Rightarrow> string) \<Rightarrow> int \<Rightarrow> http_request \<Rightarrow> principal \<Rightarrow> nat \<Rightarrow> db \<Rightarrow> bool result \<times> db" where
  "approve_proposal sha now rq who i d =
     (case the_proposal i d of
        Inl e \<Rightarrow> (Inl e, d)
      | Inr p \<Rightarrow>
          if up_status p \<notin> {''proposed'', ''ai_validated''}
          then (Inl (HTTPException 400 (''Cannot approve in status: '' @ up_status p)), d)
          else (Inr True, audit sha now rq ''update_approved'' (Some who) (Some ''update_proposal'') (Some (uuid_str i)) ''info''
                 [(''package'', PStr (up_package_name p)), (''version'', PStr (up_target_version p))]
                 (put_proposal i (approve_mut now who) d)))"

definition reject_mut :: "string \<Rightarrow> update_proposal \<Rightarrow> update_proposal" where
  "reject_mut reason p = p\<lparr>up_status := ''rejected'', up_error_message := Some (take 1000 reason)\<rparr>"

definition reject_proposal :: "(string \<Rightarrow> string) \<Rightarrow> int \<Rightarrow> http_request \<Rightarrow> principal \<Rightarrow> nat \<Rightarrow> string \<Rightarrow> db \<Rightarrow> bool result \<times> db" where
  "reject_proposal sha now rq who i reason d =
     (case the_proposal i d of
        Inl e \<Rightarrow> (Inl e, d)
      | Inr p \<Rightarrow> (Inr True, audit sha now rq ''update_rejected'' (Some who) (Some ''update_proposal'') (Some (uuid_str i)) ''info''
                 [(''reason'', PStr reason)] (put_proposal i (reject_mut reason) d)))"

text \<open>The answer is the identifier the worker is asked to prepare.\<close>

definition apply_now :: "(string \<Rightarrow> string) \<Rightarrow> int \<Rightarrow> http_request \<Rightarrow> principal \<Rightarrow> nat \<Rightarrow> db \<Rightarrow> nat result \<times> db" where
  "apply_now sha now rq who i d =
     (case the_proposal i d of
        Inl e \<Rightarrow> (Inl e, d)
      | Inr p \<Rightarrow>
          if up_status p \<noteq> ''approved'' then (Inl (HTTPException 400 ''Proposal must be approved first''), d)
          else (Inr i, audit sha now rq ''manual_update_apply'' (Some who) (Some ''update_proposal'') (Some (uuid_str i)) ''info'' [] d))"

definition rollback :: "(string \<Rightarrow> string) \<Rightarrow> int \<Rightarrow> http_request \<Rightarrow> principal \<Rightarrow> nat \<Rightarrow> db \<Rightarrow> nat result \<times> db" where
  "rollback sha now rq who i d =
     (Inr i, audit sha now rq ''update_rollback'' (Some who) (Some ''update_proposal'') (Some (uuid_str i)) ''info'' [] d)"

record security_summary =
  sm_scan_status :: string
  sm_scan_stale :: bool
  sm_total_dependencies :: nat
  sm_vulnerable_dependencies :: nat
  sm_total_findings :: nat
  sm_critical_findings :: nat
  sm_proposals_pending :: nat

definition summary :: "int \<Rightarrow> db \<Rightarrow> security_summary result" where
  "summary now d =
     rbind (scalar_one_or_none (filter (\<lambda>s. ss_id s = 1) (settings_rows d))) (\<lambda>s.
       let last = (case s of None \<Rightarrow> None | Some s \<Rightarrow> ss_last_successful_scan_at s)
       in Inr \<lparr> sm_scan_status = (case s of None \<Rightarrow> ''never'' | Some s \<Rightarrow> ss_last_scan_status s),
            sm_scan_stale = (case last of None \<Rightarrow> True | Some t \<Rightarrow> t < now - 26 * hour),
            sm_total_dependencies = length (platform_dependencies d),
            sm_vulnerable_dependencies = length (filter (\<lambda>p. 0 < pd_cve_count p) (platform_dependencies d)),
            sm_total_findings = length (filter (\<lambda>f. \<not> df_suppressed f) (dependency_findings d)),
            sm_critical_findings = length (filter (\<lambda>f. df_severity f = ''critical'' \<and> \<not> df_suppressed f) (dependency_findings d)),
            sm_proposals_pending =
              length (filter (\<lambda>u. up_status u \<in> {''proposed'', ''ai_validated'', ''approved''}) (update_proposals d)) \<rparr>)"

end
