(* ===== verification/SelfSecurityFlow.thy ===== *)
theory SelfSecurityFlow
  imports SelfSecurity
begin

text \<open>
  The life of an update proposal over every order of worker tasks and administrator requests:
  the step relation of the pipeline, the stages a proposal moves through, and the invariant
  that nothing is prepared without an administrator's approval.
\<close>

section \<open>Steps\<close>

text \<open>
  One step is one task or request, with any answers of the outside services; only the order of
  versions is the same in all steps.
\<close>

inductive ss_step :: "'v versions \<Rightarrow> db \<Rightarrow> db \<Rightarrow> bool" for V where
  s_scan: "se_versions env = V \<Longrightarrow> ss_step V d (snd (scan_platform_deps env now d))"
| s_propose: "se_versions env = V \<Longrightarrow> ss_step V d (snd (propose_updates env now d))"
| s_validate: "se_versions env = V \<Longrightarrow> ss_step V d (snd (ai_validate_proposals env now d))"
| s_apply: "se_versions env = V \<Longrightarrow> ss_step V d (snd (apply_approved_updates env now who_id d))"
| s_cancel: "ss_step V d (snd (rollback_proposal i d))"
| s_approve: "ss_step V d (snd (approve_proposal sha now rq who i d))"
| s_reject: "ss_step V d (snd (reject_proposal sha now rq who i reason d))"
| s_apply_request: "ss_step V d (snd (apply_now sha now rq who i d))"
| s_cancel_request: "ss_step V d (snd (rollback sha now rq who i d))"
| s_suppress: "ss_step V d (snd (suppress_finding sha now rq who i reason d))"
| s_settings: "ss_step V d (snd (update_settings sha now rq who b d))"

section \<open>The stages of a proposal\<close>

text \<open>The abstract workflow: the edges a proposal may take.\<close>

definition flow :: "(string \<times> string) set" where
  "flow = {(''proposed'', ''ai_validated''), (''proposed'', ''approved''), (''ai_validated'', ''approved''),
     (''approved'', ''ready_for_pr''), (''approved'', ''failed''), (''ready_for_pr'', ''approved'')}
   \<union> {(s, ''rejected'') | s. True}"

definition reviewed :: "update_proposal \<Rightarrow> bool" where
  "reviewed p = (up_status p \<in> {''approved'', ''ready_for_pr'', ''failed''} \<longrightarrow> up_approved_by p \<noteq> None \<and> up_approved_at p \<noteq> None)"

text \<open>A proposal after a step: the same update, moved along at most one edge, still reviewed.\<close>

definition moved :: "update_proposal \<Rightarrow> update_proposal \<Rightarrow> bool" where
  "moved p q = (up_id q = up_id p \<and> up_dependency_id q = up_dependency_id p \<and> up_package_name q = up_package_name p
     \<and> up_current_version q = up_current_version p \<and> up_target_version q = up_target_version p
     \<and> (up_status p, up_status q) \<in> flow\<^sup>= \<and> (reviewed p \<longrightarrow> reviewed q))"

text \<open>
  A step of the abstract workflow on the whole table: proposals move along an edge, some are
  deleted with their package, and new ones are proposed under fresh identifiers.
\<close>

definition evolves :: "db \<Rightarrow> db \<Rightarrow> bool" where
  "evolves d d' = (\<exists>f keep new. update_proposals d' = map f (filter keep (update_proposals d)) @ new
     \<and> (\<forall>p\<in>set (update_proposals d). moved p (f p))
     \<and> (\<forall>u\<in>set new. up_status u = ''proposed'' \<and> next_id d \<le> up_id u \<and> up_id u < next_id d')
     \<and> distinct (map up_id new) \<and> next_id d \<le> next_id d')"

definition proposals_ok :: "db \<Rightarrow> bool" where
  "proposals_ok d = (distinct (map up_id (update_proposals d)) \<and> (\<forall>u\<in>set (update_proposals d). up_id u < next_id d)
     \<and> (\<forall>u\<in>set (update_proposals d). reviewed u))"

definition locked :: "db \<Rightarrow> bool" where
  "locked d = (\<forall>s\<in>set (settings_rows d). \<not> ss_auto_update_enabled s \<and> ss_require_admin_approval s)"

lemma moved_refl [simp]: "moved p p"
  by (simp add: moved_def)

lemma evolves_map:
  assumes "update_proposals d' = map f (filter keep (update_proposals d))" and "next_id d \<le> next_id d'"
    and "\<And>p. p \<in> set (update_proposals d) \<Longrightarrow> moved p (f p)"
  shows "evolves d d'"
  unfolding evolves_def using assms by (intro exI [of _ f] exI [of _ keep] exI [of _ "[]"]) simp

lemma evolves_same:
  "update_proposals d' = update_proposals d \<Longrightarrow> next_id d \<le> next_id d' \<Longrightarrow> evolves d d'"
  by (rule evolves_map [of _ "\<lambda>p. p" "\<lambda>p. True"]) simp_all

lemma evolves_refl [simp]: "evolves d d"
  by (rule evolves_same) simp_all

lemma evolves_update:
  assumes "update_proposals d' = update_where c f (update_proposals d)" and "next_id d \<le> next_id d'"
    and "\<And>p. p \<in> set (update_proposals d) \<Longrightarrow> c p \<Longrightarrow> moved p (f p)"
  shows "evolves d d'"
  by (rule evolves_map [of _ "\<lambda>p. if c p then f p else p" "\<lambda>p. True"]) (use assms in \<open>auto simp: update_where_def\<close>)

lemma evolves_ok:
  assumes ok: "proposals_ok d" and ev: "evolves d d'"
  shows "proposals_ok d'"
proof -
  from ev obtain f keep new where d': "update_proposals d' = map f (filter keep (update_proposals d)) @ new"
    and f: "\<And>p. p \<in> set (update_proposals d) \<Longrightarrow> moved p (f p)"
    and new: "\<And>u. u \<in> set new \<Longrightarrow> up_status u = ''proposed'' \<and> next_id d \<le> up_id u \<and> up_id u < next_id d'"
    and dist: "distinct (map up_id new)" and le: "next_id d \<le> next_id d'"
    unfolding evolves_def by blast
  have ids: "map up_id (update_proposals d') = map up_id (filter keep (update_proposals d)) @ map up_id new"
    using f by (simp add: d' moved_def)
  have old: "up_id u < next_id d" if "u \<in> set (update_proposals d)" for u
    using ok that by (simp add: proposals_ok_def)
  have rev: "reviewed u" if "u \<in> set (update_proposals d')" for u
    using that ok f new by (auto simp: d' proposals_ok_def moved_def reviewed_def)
  have below: "up_id u < next_id d'" if "u \<in> set (update_proposals d')" for u
  proof -
    from that have "up_id u \<in> set (map up_id (filter keep (update_proposals d)) @ map up_id new)"
      by (simp add: ids [symmetric])
    then show ?thesis using old new le by fastforce
  qed
  have "distinct (map up_id (filter keep (update_proposals d)) @ map up_id new)"
    using ok dist old new by (fastforce simp: proposals_ok_def distinct_map_filter)
  then show ?thesis using rev below by (simp add: proposals_ok_def ids)
qed

section \<open>Frames\<close>

lemma put_settings_frame [simp]:
  "update_proposals (put_settings now f d) = update_proposals d"
  "next_id (put_settings now f d) = next_id d"
  "platform_dependencies (put_settings now f d) = platform_dependencies d"
  "dependency_findings (put_settings now f d) = dependency_findings d"
  "alerts (put_settings now f d) = alerts d"
  "cves (put_settings now f d) = cves d"
  by (simp_all add: put_settings_def)

lemma get_settings_cases:
  assumes "get_settings now d = Inr (s, d')"
  obtains "d' = put_settings now lock_down d"
  | "d' = put_settings now lock_down (d\<lparr>settings_rows := settings_rows d @ [new_self_security_settings now]\<rparr>)"
proof (cases "filter (\<lambda>s. ss_id s = 1) (settings_rows d)" rule: scalar_one_or_none_cases)
  case none
  then show thesis using assms by (intro that(2)) (simp add: get_settings_def Let_def)
next
  case (one r)
  then show thesis using assms by (intro that(1)) (simp add: get_settings_def Let_def)
next
  case many
  then show thesis using assms by (simp add: get_settings_def)
qed

lemma get_settings_frame:
  assumes "get_settings now d = Inr (s, d')"
  shows "update_proposals d' = update_proposals d" and "next_id d' = next_id d"
    and "platform_dependencies d' = platform_dependencies d" and "dependency_findings d' = dependency_findings d"
    and "alerts d' = alerts d" and "cves d' = cves d"
  by (rule get_settings_cases [OF assms]; simp)+

lemma locked_put_settings:
  assumes "locked d" "\<And>s. s \<in> set (settings_rows d) \<Longrightarrow> \<not> ss_auto_update_enabled (f s) \<and> ss_require_admin_approval (f s)"
  shows "locked (put_settings now f d)"
  using assms by (auto simp: locked_def put_settings_def set_update_where settings_flush_def)

lemma locked_get_settings:
  assumes "get_settings now d = Inr (s, d')" "locked d"
  shows "locked d'"
proof -
  let ?e = "d\<lparr>settings_rows := settings_rows d @ [new_self_security_settings now]\<rparr>"
  have "locked (put_settings now lock_down e)" if "locked e" for e
    by (rule locked_put_settings [OF that]) (simp add: lock_down_def)
  moreover have "locked ?e" using assms(2) by (simp add: locked_def new_self_security_settings_def)
  ultimately show ?thesis using assms(2) by (metis get_settings_cases [OF assms(1)])
qed

lemma next_id_audit [simp]: "next_id (audit sha now rq ac who rt ri sv dt d) = next_id d + 1"
  by (simp add: audit_def fresh_id_def Let_def)

lemma locked_audit [simp]: "locked (audit sha now rq ac who rt ri sv dt d) = locked d"
  by (simp add: locked_def)

section \<open>Every request follows the workflow\<close>

lemma the_proposalD:
  assumes "the_proposal i d = Inr p"
  shows "p \<in> set (update_proposals d)" and "up_id p = i" and "\<And>r. r \<in> set (update_proposals d) \<Longrightarrow> up_id r = i \<Longrightarrow> r = p"
proof -
  from assms have "scalar_one_or_none (filter (\<lambda>u. up_id u = i) (update_proposals d)) = Inr (Some p)"
    by (auto simp: the_proposal_def or_404_def rbind_eq_Inr split: option.splits)
  then have f: "filter (\<lambda>u. up_id u = i) (update_proposals d) = [p]" by (rule scalar_one_or_none_SomeD)
  have "r \<in> set (filter (\<lambda>u. up_id u = i) (update_proposals d)) \<longleftrightarrow> r = p" for r
    by (simp add: f)
  then show "p \<in> set (update_proposals d)" "up_id p = i" "\<And>r. r \<in> set (update_proposals d) \<Longrightarrow> up_id r = i \<Longrightarrow> r = p"
    by auto
qed

lemma put_proposal_frame [simp]:
  "update_proposals (put_proposal i f d) = update_where (\<lambda>u. up_id u = i) f (update_proposals d)"
  "next_id (put_proposal i f d) = next_id d" "settings_rows (put_proposal i f d) = settings_rows d"
  by (simp_all add: put_proposal_def)

lemma approve_evolves: "evolves d (snd (approve_proposal sha now rq who i d))"
proof (cases "the_proposal i d")
  case (Inr p)
  show ?thesis
  proof (cases "up_status p \<in> {''proposed'', ''ai_validated''}")
    case True
    have "moved r (approve_mut now who r)" if "r \<in> set (update_proposals d)" "up_id r = i" for r
      using that True the_proposalD(3) [OF Inr] by (auto simp: moved_def approve_mut_def flow_def reviewed_def)
    then show ?thesis
      using True by (intro evolves_update [of _ "\<lambda>u. up_id u = i" "approve_mut now who"])
        (auto simp: approve_proposal_def Inr)
  qed (simp add: approve_proposal_def Inr)
qed (simp add: approve_proposal_def)

lemma reject_evolves: "evolves d (snd (reject_proposal sha now rq who i reason d))"
proof (cases "the_proposal i d")
  case (Inr p)
  have "moved r (reject_mut reason r)" for r
    by (simp add: moved_def reject_mut_def flow_def reviewed_def)
  then show ?thesis
    by (intro evolves_update [of _ "\<lambda>u. up_id u = i" "reject_mut reason"]) (auto simp: reject_proposal_def Inr)
qed (simp add: reject_proposal_def)

lemma apply_now_evolves: "evolves d (snd (apply_now sha now rq who i d))"
  by (rule evolves_same) (auto simp: apply_now_def split: sum.splits)

lemma rollback_request_evolves: "evolves d (snd (rollback sha now rq who i d))"
  by (rule evolves_same) (simp_all add: rollback_def)

lemma suppress_evolves: "evolves d (snd (suppress_finding sha now rq who i reason d))"
  by (rule evolves_same) (auto simp: suppress_finding_def split: sum.splits)

lemma update_settings_cases:
  obtains (same) "snd (update_settings sha now rq who b d) = d"
  | (changed) s s' rows where "change_settings b s = Inr s'" and "su_auto_update_enabled b \<noteq> Has True"
      and "su_require_admin_approval b \<noteq> Has False"
      and "s \<in> set rows" and "rows = settings_rows d \<or> rows = settings_rows d @ [new_self_security_settings now]"
      and "snd (update_settings sha now rq who b d) = audit sha now rq ''self_security_settings_updated'' (Some who)
          (Some ''settings'') None ''info'' (changes_of b)
          (put_settings now (\<lambda>r. s'\<lparr>ss_updated_by := Some (p_username who)\<rparr>) (d\<lparr>settings_rows := rows\<rparr>))"
proof (cases "su_auto_update_enabled b = Has True \<or> su_require_admin_approval b = Has False")
  case True
  then show thesis by (intro same) (auto simp: update_settings_def)
next
  case False
  show thesis
  proof (cases "filter (\<lambda>s. ss_id s = 1) (settings_rows d)" rule: scalar_one_or_none_cases)
    case none
    show thesis
    proof (cases "change_settings b (new_self_security_settings now)")
      case (Inr s')
      show thesis
        by (rule changed [OF Inr, of "settings_rows d @ [new_self_security_settings now]"])
          (use False none Inr in \<open>simp_all add: update_settings_def Let_def\<close>)
    qed (use False none in \<open>intro same, simp add: update_settings_def Let_def\<close>)
  next
    case (one r)
    show thesis
    proof (cases "change_settings b r")
      case (Inr s')
      have "r \<in> set (settings_rows d)"
        using scalar_filter_SomeD [of "\<lambda>s. ss_id s = 1" "settings_rows d" r] one by simp
      then show thesis
        by (intro changed [OF Inr, of "settings_rows d"])
          (use False one Inr in \<open>simp_all add: update_settings_def Let_def\<close>)
    qed (use False one in \<open>intro same, simp add: update_settings_def Let_def\<close>)
  qed (use False in \<open>intro same, simp add: update_settings_def\<close>)
qed

lemma update_settings_evolves: "evolves d (snd (update_settings sha now rq who b d))"
  by (cases rule: update_settings_cases [of sha now rq who b d]) (auto intro!: evolves_same)

lemma change_settings_locked:
  assumes "change_settings b s = Inr s'" and "su_auto_update_enabled b \<noteq> Has True" and "su_require_admin_approval b \<noteq> Has False"
    and "\<not> ss_auto_update_enabled s \<and> ss_require_admin_approval s"
  shows "\<not> ss_auto_update_enabled s' \<and> ss_require_admin_approval s'"
proof -
  from assms(1) obtain u a where "set_col (su_auto_update_enabled b) (ss_auto_update_enabled s) = Inr u"
    "set_col (su_require_admin_approval b) (ss_require_admin_approval s) = Inr a"
    "ss_auto_update_enabled s' = u" "ss_require_admin_approval s' = a"
    by (auto simp: change_settings_def rbind_eq_Inr)
  then show ?thesis
    using assms(2-4) by (cases "su_auto_update_enabled b"; cases "su_require_admin_approval b") auto
qed

lemma update_settings_locked:
  assumes "locked d" shows "locked (snd (update_settings sha now rq who b d))"
proof (cases rule: update_settings_cases [of sha now rq who b d])
  case same
  then show ?thesis using assms by simp
next
  case (changed s s' rows)
  from changed(5) have rows: "locked (d\<lparr>settings_rows := rows\<rparr>)"
    using assms by (auto simp: locked_def new_self_security_settings_def)
  then have "\<not> ss_auto_update_enabled s \<and> ss_require_admin_approval s"
    using changed(4) by (simp add: locked_def)
  from change_settings_locked [OF changed(1-3) this] rows show ?thesis
    unfolding changed(6) by (simp add: locked_put_settings)
qed

section \<open>Every worker task follows the workflow\<close>

lemma cancel_evolves: "evolves d (snd (rollback_proposal i d))"
proof (cases "filter (\<lambda>u. up_id u = i) (update_proposals d)" rule: scalar_one_or_none_cases)
  case (one p)
  show ?thesis
  proof (cases "up_status p = ''ready_for_pr''")
    case True
    have "r = p" if "r \<in> set (update_proposals d)" "up_id r = i" for r
    proof -
      have "r \<in> set (filter (\<lambda>u. up_id u = i) (update_proposals d))" using that by simp
      then show ?thesis by (simp add: one)
    qed
    then have "moved r (cancel_patch r)" if "r \<in> set (update_proposals d)" "up_id r = i" for r
      using that True by (auto simp: moved_def cancel_patch_def flow_def reviewed_def)
    then show ?thesis
      using one True by (intro evolves_update [of _ "\<lambda>u. up_id u = i" cancel_patch]) (simp_all add: rollback_proposal_def)
  qed (simp add: rollback_proposal_def one)
qed (simp_all add: rollback_proposal_def)

lemma fold_same [simp]: "fold (\<lambda>x s. s) xs s = s"
  by (induction xs) auto

text \<open>What the model may answer changes the assessment, never the way to approval.\<close>

definition assessed :: "'v ss_env \<Rightarrow> update_proposal \<Rightarrow> update_proposal" where
  "assessed env p = (case validate_one env p of Inr (q, ok) \<Rightarrow> q | Inl e \<Rightarrow> p)"

lemma record_assessment_cases:
  assumes "record_assessment env a p = Inr (Inr q)"
  shows "up_status q = ''ai_validated'' \<and> up_id q = up_id p \<and> up_dependency_id q = up_dependency_id p
     \<and> up_package_name q = up_package_name p \<and> up_current_version q = up_current_version p
     \<and> up_target_version q = up_target_version p \<and> up_approved_by q = up_approved_by p"
  using assms by (auto simp: record_assessment_def rbind_eq_Inr)

lemma validate_one_status:
  assumes "validate_one env p = Inr (q, ok)"
  shows "up_status q = ''ai_validated'' \<and> up_id q = up_id p \<and> up_dependency_id q = up_dependency_id p
     \<and> up_package_name q = up_package_name p \<and> up_current_version q = up_current_version p
     \<and> up_target_version q = up_target_version p \<and> up_approved_by q = up_approved_by p"
proof (cases "rbind (assess_update env (up_package_name p) (up_current_version p) (up_target_version p) (up_reason p) (up_cves_fixed p))
             (\<lambda>a. record_assessment env a p)")
  case (Inl e)
  then show ?thesis using assms by (auto simp: validate_one_def)
next
  case (Inr r)
  then obtain a where "record_assessment env a p = Inr r" by (auto simp: rbind_eq_Inr)
  moreover have "r = Inr q" using assms Inr by (auto simp: validate_one_def rbind_eq_Inr)
  ultimately show ?thesis using record_assessment_cases by simp
qed

lemma assessed_keeps [simp]: "up_id (assessed env p) = up_id p"
proof (cases "validate_one env p")
  case (Inr r)
  then obtain q ok where v: "validate_one env p = Inr (q, ok)" by (cases r) auto
  show ?thesis using validate_one_status [OF v] by (simp add: assessed_def v)
qed (simp add: assessed_def)

lemma assessed_moved:
  assumes "up_status p = ''proposed''" shows "moved p (assessed env p)"
proof (cases "validate_one env p")
  case (Inr r)
  then obtain q ok where v: "validate_one env p = Inr (q, ok)" by (cases r) auto
  have "(''proposed'', ''ai_validated'') \<in> flow\<^sup>=" by (simp add: flow_def)
  then show ?thesis
    using validate_one_status [OF v] by (simp add: assessed_def v moved_def assms reviewed_def)
qed (simp add: assessed_def)

lemma validate_stepD:
  assumes "validate_step env x u = Inr v"
  shows "fst v = (fst u)\<lparr>update_proposals :=
    update_where (\<lambda>r. up_id r = up_id x) (\<lambda>r. assessed env x) (update_proposals (fst u))\<rparr>"
proof -
  obtain d n where u: "u = (d, n)" by (cases u)
  from assms obtain q ok where "validate_one env x = Inr (q, ok)"
    "fst v = d\<lparr>update_proposals := update_where (\<lambda>r. up_id r = up_id x) (\<lambda>r. q) (update_proposals d)\<rparr>"
    by (auto simp: validate_step_def u rbind_eq_Inr)
  then show ?thesis by (simp add: u assessed_def)
qed

lemma validate_rows:
  assumes "rfold (validate_step env) xs (d, n) = Inr (d', n')"
  shows "update_proposals d' = fold (\<lambda>p. update_where (\<lambda>r. up_id r = up_id p) (\<lambda>r. assessed env p)) xs (update_proposals d)"
    and "next_id d' = next_id d" and "settings_rows d' = settings_rows d"
proof -
  have "update_proposals (fst (d', n')) = fold (\<lambda>p. update_where (\<lambda>r. up_id r = up_id p) (\<lambda>r. assessed env p)) xs
      (update_proposals (fst (d, n)))"
    using assms by (rule rfold_projection) (drule validate_stepD, simp)
  moreover have "next_id (fst (d', n')) = fold (\<lambda>p m. m) xs (next_id (fst (d, n)))"
    using assms by (rule rfold_projection) (drule validate_stepD, simp)
  moreover have "settings_rows (fst (d', n')) = fold (\<lambda>p m. m) xs (settings_rows (fst (d, n)))"
    using assms by (rule rfold_projection) (drule validate_stepD, simp)
  ultimately show "update_proposals d' = fold (\<lambda>p. update_where (\<lambda>r. up_id r = up_id p) (\<lambda>r. assessed env p)) xs (update_proposals d)"
    "next_id d' = next_id d" "settings_rows d' = settings_rows d" by simp_all
qed

lemma validate_evolves:
  assumes "proposals_ok d" shows "evolves d (snd (ai_validate_proposals env now d))"
proof (cases "get_settings now d")
  case (Inr sd)
  then obtain s d1 where g: "get_settings now d = Inr (s, d1)" by (cases sd) auto
  let ?xs = "take 50 (filter (\<lambda>u. up_status u = ''proposed'') (update_proposals d1))"
  show ?thesis
  proof (cases "rfold (validate_step env) ?xs (d1, 0)")
    case (Inr r)
    then obtain d2 n where r: "rfold (validate_step env) ?xs (d1, 0) = Inr (d2, n)" by (cases r) auto
    note rows = validate_rows [OF r]
    have xs: "set ?xs \<subseteq> {u \<in> set (update_proposals d). up_status u = ''proposed''}"
      using get_settings_frame(1) [OF g] by (auto dest: in_set_takeD)
    have "update_proposals d2 = map (\<lambda>u. if u \<in> set ?xs then assessed env u else u) (update_proposals d)"
      unfolding rows(1) get_settings_frame(1) [OF g]
      by (rule fold_update_keyed) (use assms xs get_settings_frame(1) [OF g] in \<open>auto simp: proposals_ok_def\<close>)
    then have "evolves d d2"
      by (intro evolves_map [of _ "\<lambda>u. if u \<in> set ?xs then assessed env u else u" "\<lambda>u. True"])
        (use xs in \<open>auto simp: rows(2) get_settings_frame(2) [OF g] intro!: assessed_moved\<close>)
    then show ?thesis using g r by (simp add: ai_validate_proposals_def)
  qed (simp add: ai_validate_proposals_def g)
qed (simp add: ai_validate_proposals_def)

lemma validate_locked:
  assumes "locked d" shows "locked (snd (ai_validate_proposals env now d))"
proof (cases "get_settings now d")
  case (Inr sd)
  then obtain s d1 where g: "get_settings now d = Inr (s, d1)" by (cases sd) auto
  show ?thesis
    using assms locked_get_settings [OF g assms] validate_rows(3)
    by (fastforce simp: ai_validate_proposals_def g locked_def split: sum.splits)
qed (simp add: ai_validate_proposals_def assms)

text \<open>Preparing patches.\<close>

definition attempted :: "'v ss_env \<Rightarrow> update_proposal \<Rightarrow> update_proposal" where
  "attempted env p = (case prepare env p of Inl e \<Rightarrow> crashed env e p | Inr r \<Rightarrow> fst r)"

lemma attempted_keeps:
  "up_id (attempted env p) = up_id p" "up_dependency_id (attempted env p) = up_dependency_id p"
  "up_package_name (attempted env p) = up_package_name p" "up_current_version (attempted env p) = up_current_version p"
  "up_target_version (attempted env p) = up_target_version p" "up_approved_by (attempted env p) = up_approved_by p"
  "up_approved_at (attempted env p) = up_approved_at p"
  "up_status (attempted env p) = ''ready_for_pr'' \<or> up_status (attempted env p) = ''failed''"
  by (simp_all add: attempted_def crashed_def prepare_def Let_def split: option.split sum.split)

lemma attempted_moved: "up_status p = ''approved'' \<Longrightarrow> moved p (attempted env p)"
  using attempted_keeps [of env p] by (auto simp: moved_def flow_def reviewed_def)

lemma patch_alert_frame [simp]:
  "update_proposals (patch_alert now p d) = update_proposals d" "next_id (patch_alert now p d) = next_id d + 1"
  "settings_rows (patch_alert now p d) = settings_rows d"
  by (simp_all add: patch_alert_def fresh_id_def Let_def)

lemma apply_step_frame:
  "update_proposals (snd (apply_step env now p (c, d)))
     = update_where (\<lambda>r. up_id r = up_id p) (\<lambda>r. attempted env p) (update_proposals d)"
  "next_id d \<le> next_id (snd (apply_step env now p (c, d)))"
  "settings_rows (snd (apply_step env now p (c, d))) = settings_rows d"
  by (simp_all add: apply_step_def prepare_one_update_def put_proposal_def attempted_def split: prod.split sum.split)

lemma apply_fold:
  "update_proposals (snd (fold (apply_step env now) xs (c, d)))
      = fold (\<lambda>p. update_where (\<lambda>r. up_id r = up_id p) (\<lambda>r. attempted env p)) xs (update_proposals d)
    \<and> next_id d \<le> next_id (snd (fold (apply_step env now) xs (c, d)))
    \<and> settings_rows (snd (fold (apply_step env now) xs (c, d))) = settings_rows d"
proof (induction xs arbitrary: c d)
  case (Cons x xs)
  obtain c' d' where c': "apply_step env now x (c, d) = (c', d')" by (rule prod.exhaust)
  note frame = apply_step_frame [where env = env and now = now and p = x and c = c and d = d, unfolded c' snd_conv]
  show ?case using Cons.IH [of c' d'] frame by (simp add: c')
qed simp

lemma apply_evolves:
  assumes "proposals_ok d" shows "evolves d (snd (apply_approved_updates env now who d))"
proof -
  let ?xs = "filter (\<lambda>u. up_status u = ''approved'' \<and> (who = None \<or> who = Some (up_id u))) (update_proposals d)"
  let ?d = "snd (apply_approved_updates env now who d)"
  have le: "next_id d \<le> next_id ?d"
    and "update_proposals ?d = fold (\<lambda>p. update_where (\<lambda>r. up_id r = up_id p) (\<lambda>r. attempted env p)) ?xs (update_proposals d)"
    using apply_fold [of env now ?xs "(0, 0)" d] by (simp_all add: apply_approved_updates_def Let_def)
  note this(2)
  also have "fold (\<lambda>p. update_where (\<lambda>r. up_id r = up_id p) (\<lambda>r. attempted env p)) ?xs (update_proposals d)
      = map (\<lambda>u. if u \<in> set ?xs then attempted env u else u) (update_proposals d)"
    by (rule fold_update_keyed) (use assms in \<open>auto simp: proposals_ok_def attempted_keeps\<close>)
  finally show ?thesis
    using le by (intro evolves_map [of _ "\<lambda>u. if u \<in> set ?xs then attempted env u else u" "\<lambda>u. True"])
      (auto intro!: attempted_moved)
qed

lemma apply_locked: "locked d \<Longrightarrow> locked (snd (apply_approved_updates env now who d))"
  using apply_fold [of env now _ "(0, 0)" d] by (simp add: apply_approved_updates_def Let_def locked_def)

text \<open>Proposing updates.\<close>

definition proposes :: "db \<Rightarrow> db \<Rightarrow> bool" where
  "proposes d d' = (\<exists>new. update_proposals d' = update_proposals d @ new
     \<and> (\<forall>u\<in>set new. up_status u = ''proposed'' \<and> next_id d \<le> up_id u \<and> up_id u < next_id d')
     \<and> distinct (map up_id new) \<and> next_id d \<le> next_id d' \<and> settings_rows d' = settings_rows d)"

lemma proposes_refl: "proposes d d"
  unfolding proposes_def by (intro exI [of _ "[]"]) simp

lemma proposes_block: "proposes d (block_dep reason p d)"
  unfolding proposes_def by (intro exI [of _ "[]"]) (simp add: block_dep_def)

lemma proposes_trans: "proposes d e \<Longrightarrow> proposes e f \<Longrightarrow> proposes d f"
proof -
  assume "proposes d e" "proposes e f"
  then obtain m n where m: "update_proposals e = update_proposals d @ m" "distinct (map up_id m)"
      "\<forall>u\<in>set m. up_status u = ''proposed'' \<and> next_id d \<le> up_id u \<and> up_id u < next_id e"
      "next_id d \<le> next_id e" "settings_rows e = settings_rows d"
    and n: "update_proposals f = update_proposals e @ n" "distinct (map up_id n)"
      "\<forall>u\<in>set n. up_status u = ''proposed'' \<and> next_id e \<le> up_id u \<and> up_id u < next_id f"
      "next_id e \<le> next_id f" "settings_rows f = settings_rows e"
    unfolding proposes_def by blast
  have "distinct (map up_id (m @ n))" using m(2,3) n(2,3) by fastforce
  moreover have "\<forall>u\<in>set (m @ n). up_status u = ''proposed'' \<and> next_id d \<le> up_id u \<and> up_id u < next_id f"
    using m(3,4) n(3,4) by fastforce
  ultimately show ?thesis
    unfolding proposes_def using m(1,4,5) n(1,4,5) by (intro exI [of _ "m @ n"]) simp
qed

lemma propose_dep_proposes:
  assumes "propose_dep V now ex p u = Inr v" shows "proposes (fst u) (fst v)"
proof -
  obtain d n where u: "u = (d, n)" by (cases u)
  consider "fst v = d" | reason where "fst v = block_dep reason p d"
    | q where "fst v = d\<lparr>next_id := next_id d + 1, update_proposals := update_proposals d @ [q]\<rparr>"
        "up_status q = ''proposed''" "up_id q = next_id d"
    using assms
    by (auto simp: propose_dep_def u Let_def rbind_eq_Inr fresh_id_def new_update_proposal_def split: if_splits option.splits)
  then show ?thesis
  proof cases
    case (3 q)
    then show ?thesis unfolding proposes_def by (intro exI [of _ "[q]"]) (simp add: u)
  qed (simp_all add: u proposes_refl proposes_block)
qed

lemma propose_run:
  assumes "rfold (propose_dep V now ex) ps s = Inr t" shows "proposes (fst s) (fst t)"
  by (rule rfold_invariant [of "\<lambda>u. proposes (fst s) (fst u)", OF _ assms])
    (auto intro: proposes_refl proposes_trans dest: propose_dep_proposes)

lemma propose_evolves: "evolves d (snd (propose_updates env now d))"
  and propose_locked: "locked d \<Longrightarrow> locked (snd (propose_updates env now d))"
proof -
  consider "snd (propose_updates env now d) = d"
    | s d1 where "get_settings now d = Inr (s, d1)" "proposes d1 (snd (propose_updates env now d))"
  proof (cases "get_settings now d")
    case (Inr sd)
    then obtain s d1 where g: "get_settings now d = Inr (s, d1)" by (cases sd) auto
    let ?run = "rfold (propose_dep (se_versions env) now (ss_excluded_packages s))
              (filter (\<lambda>p. 0 < pd_cve_count p) (platform_dependencies d1)) (d1, 0)"
    show thesis
    proof (cases "scan_is_recent now s \<and> (\<exists>d2 n. ?run = Inr (d2, n))")
      case True
      then obtain d2 n where r: "scan_is_recent now s" "?run = Inr (d2, n)" by blast
      show thesis by (rule that(2) [OF g]) (use propose_run [OF r(2)] r g in \<open>simp add: propose_updates_def\<close>)
    next
      case False
      then show thesis by (intro that(1)) (auto simp: propose_updates_def g split: sum.split)
    qed
  qed (simp add: propose_updates_def)
  note cases = this
  from cases show "evolves d (snd (propose_updates env now d))"
  proof cases
    case (2 s d1)
    note g = get_settings_frame(1,2) [OF 2(1)]
    from 2(2) show ?thesis
      unfolding proposes_def evolves_def g by (elim exE, intro exI [of _ "\<lambda>p. p"] exI [of _ "\<lambda>p. True"]) auto
  qed simp
  show "locked (snd (propose_updates env now d))" if "locked d"
    using cases
  proof cases
    case (2 s d1)
    with locked_get_settings [OF 2(1) that] show ?thesis by (auto simp: proposes_def locked_def)
  qed (simp add: that)
qed

text \<open>Scanning.\<close>

definition scan_frame :: "db \<Rightarrow> db \<Rightarrow> bool" where
  "scan_frame d d' = (update_proposals d' = update_proposals d \<and> settings_rows d' = settings_rows d
     \<and> alerts d' = alerts d \<and> next_id d \<le> next_id d')"

lemma scan_frame_refl: "scan_frame d d" and scan_frame_trans: "scan_frame d e \<Longrightarrow> scan_frame e f \<Longrightarrow> scan_frame d f"
  by (simp_all add: scan_frame_def)

lemma store_finding_frame: "scan_frame d (store_finding now kevs pid ex f d)"
  by (simp add: scan_frame_def store_finding_def fresh_id_def Let_def)

lemma store_findings_frame: "scan_frame d (fold (store_finding now kevs pid ex) fs d)"
proof (induction fs arbitrary: d)
  case (Cons f fs)
  show ?case using scan_frame_trans [OF store_finding_frame Cons.IH] by simp
qed (simp add: scan_frame_refl)

lemma scan_dep_cases:
  assumes "scan_dep now kevs (dep, fs, latest) (d, ds) = Inr (d', ds')"
  obtains pid d1 d2 where "find_dep dep d = Inr None \<and> (pid, d1) = add_dep now dep d
        \<or> (\<exists>p. find_dep dep d = Inr (Some p) \<and> pid = pd_id p \<and> d1 = d)"
    and "d2 = fold (store_finding now kevs pid (map df_cve_id (filter (\<lambda>r. df_dependency_id r = pid) (dependency_findings d1)))) fs d1"
    and "findings_unique d2" and "ds' = (pid, dr_version dep, length fs) # ds"
    and "d' = (prune_findings pid (map fd_cve_id fs) d2)\<lparr>platform_dependencies :=
           update_where (\<lambda>p. pd_id p = pid) (dep_checked now kevs (dep, fs, latest)) (platform_dependencies d2)\<rparr>"
proof -
  from assms obtain found where f: "find_dep dep d = Inr found"
    by (auto simp: scan_dep_def rbind_eq_Inr)
  obtain pid d1 where p: "(case found of None \<Rightarrow> add_dep now dep d | Some p \<Rightarrow> (pd_id p, d)) = (pid, d1)"
    by (cases "case found of None \<Rightarrow> add_dep now dep d | Some p \<Rightarrow> (pd_id p, d)") auto
  let ?d2 = "fold (store_finding now kevs pid (map df_cve_id (filter (\<lambda>r. df_dependency_id r = pid) (dependency_findings d1)))) fs d1"
  from assms have "findings_unique ?d2"
    by (simp add: scan_dep_def f p Let_def split: if_splits)
  moreover from this assms have "ds' = (pid, dr_version dep, length fs) # ds \<and>
    d' = (prune_findings pid (map fd_cve_id fs) ?d2)\<lparr>platform_dependencies :=
           update_where (\<lambda>p. pd_id p = pid) (dep_checked now kevs (dep, fs, latest)) (platform_dependencies ?d2)\<rparr>"
    by (simp add: scan_dep_def f p Let_def prune_findings_def)
  moreover have "find_dep dep d = Inr None \<and> (pid, d1) = add_dep now dep d
        \<or> (\<exists>p. find_dep dep d = Inr (Some p) \<and> pid = pd_id p \<and> d1 = d)"
    using f p by (cases found) auto
  ultimately show thesis by (intro that [of pid d1 ?d2]) auto
qed

lemma scan_dep_frame:
  assumes "scan_dep now kevs e u = Inr v" shows "scan_frame (fst u) (fst v)"
proof -
  obtain dep fs latest where e: "e = (dep, fs, latest)" by (cases e)
  obtain d ds d' ds' where uv: "u = (d, ds)" "v = (d', ds')" by (cases u, cases v)
  show ?thesis
  proof (rule scan_dep_cases [OF assms [unfolded e uv]])
    fix pid d1 d2
    assume p: "find_dep dep d = Inr None \<and> (pid, d1) = add_dep now dep d
        \<or> (\<exists>p. find_dep dep d = Inr (Some p) \<and> pid = pd_id p \<and> d1 = d)"
      and d2: "d2 = fold (store_finding now kevs pid (map df_cve_id (filter (\<lambda>r. df_dependency_id r = pid) (dependency_findings d1)))) fs d1"
      and d': "d' = (prune_findings pid (map fd_cve_id fs) d2)\<lparr>platform_dependencies :=
           update_where (\<lambda>p. pd_id p = pid) (dep_checked now kevs (dep, fs, latest)) (platform_dependencies d2)\<rparr>"
    have "scan_frame d d1" using p by (auto simp: scan_frame_def add_dep_def fresh_id_def Let_def)
    moreover have "scan_frame d1 d2" unfolding d2 by (rule store_findings_frame)
    moreover have "scan_frame d2 d'" unfolding d' by (simp add: scan_frame_def prune_findings_def)
    ultimately show ?thesis unfolding uv fst_conv by (metis scan_frame_trans)
  qed
qed

lemma scan_deps_frame:
  assumes "rfold (scan_dep now kevs) es s = Inr t" shows "scan_frame (fst s) (fst t)"
  by (rule rfold_invariant [of "\<lambda>u. scan_frame (fst s) (fst u)", OF _ assms])
    (auto intro: scan_frame_refl scan_frame_trans dest: scan_dep_frame)

lemma delete_dependency_frame [simp]:
  "update_proposals (delete_dependency i d) = filter (\<lambda>p. up_dependency_id p \<noteq> i) (update_proposals d)"
  "settings_rows (delete_dependency i d) = settings_rows d" "next_id (delete_dependency i d) = next_id d"
  "alerts (delete_dependency i d) = alerts d"
  by (simp_all add: delete_dependency_def)

lemma delete_dependencies:
  "(\<exists>keep. update_proposals (fold (\<lambda>p. delete_dependency (pd_id p)) ps d) = filter keep (update_proposals d))
   \<and> settings_rows (fold (\<lambda>p. delete_dependency (pd_id p)) ps d) = settings_rows d
   \<and> next_id (fold (\<lambda>p. delete_dependency (pd_id p)) ps d) = next_id d"
proof (induction ps arbitrary: d)
  case Nil
  then show ?case by (auto intro: exI [of _ "\<lambda>u. True"])
next
  case (Cons p ps)
  from Cons.IH [of "delete_dependency (pd_id p) d"] show ?case by auto
qed

lemma supersede_moved: "moved p (supersede ds p)"
  by (simp add: supersede_def moved_def flow_def reviewed_def)

lemma scan_alert_frame [simp]:
  "update_proposals (scan_alert now n c k m ch d) = update_proposals d"
  "settings_rows (scan_alert now n c k m ch d) = settings_rows d" "next_id d \<le> next_id (scan_alert now n c k m ch d)"
  by (simp_all add: scan_alert_def fresh_id_def Let_def)

lemma store_scan_evolves:
  assumes "store_scan now es d = Inr d'" shows "evolves d d'" and "locked d \<Longrightarrow> locked d'"
proof -
  let ?names = "map (\<lambda>(dep, fs, latest). dr_name dep) es"
  from assms obtain d1 ds s d3 where run: "rfold (scan_dep now (kev_ids es d)) es (d, []) = Inr (d1, ds)"
    and g: "get_settings now ((drop_uninstalled ?names d1)\<lparr>update_proposals :=
          map (supersede ds) (update_proposals (drop_uninstalled ?names d1))\<rparr>) = Inr (s, d3)"
    and d': "d' = scan_alert now (count_findings (\<lambda>f. True) es) (count_findings (\<lambda>f. fd_severity f = ''critical'') es)
                      (count_findings (finding_is_kev (kev_ids es d)) es) (length es) (ss_notify_channels s)
                      (put_settings now (scan_succeeded now (length es)) d3)"
    by (auto simp: store_scan_def rbind_eq_Inr Let_def)
  have f: "scan_frame d d1" using scan_deps_frame [OF run] by simp
  obtain keep where k: "update_proposals (drop_uninstalled ?names d1) = filter keep (update_proposals d1)"
    "settings_rows (drop_uninstalled ?names d1) = settings_rows d1" "next_id (drop_uninstalled ?names d1) = next_id d1"
    using delete_dependencies [of _ d1] unfolding drop_uninstalled_def by blast
  note g1 = get_settings_frame(1,2) [OF g]
  show "evolves d d'"
  proof (rule evolves_map [of _ "supersede ds" keep])
    show "update_proposals d' = map (supersede ds) (filter keep (update_proposals d))"
      using f k(1) g1 by (simp add: d' scan_frame_def)
    have "next_id d \<le> next_id (put_settings now (scan_succeeded now (length es)) d3)"
      using f k(3) g1 by (simp add: scan_frame_def)
    then show "next_id d \<le> next_id d'" unfolding d' by (rule order_trans) (rule scan_alert_frame)
  qed (rule supersede_moved)
  show "locked d'" if l: "locked d"
  proof -
    have "locked d3"
      by (rule locked_get_settings [OF g]) (use l f k(2) in \<open>simp add: locked_def scan_frame_def\<close>)
    then have "locked (put_settings now (scan_succeeded now (length es)) d3)"
      by (rule locked_put_settings) (use \<open>locked d3\<close> in \<open>simp add: locked_def scan_succeeded_def\<close>)
    then show ?thesis by (simp add: d' locked_def)
  qed
qed

lemma evolves_from:
  "evolves e d' \<Longrightarrow> update_proposals e = update_proposals d \<Longrightarrow> next_id e = next_id d \<Longrightarrow> evolves d d'"
  by (simp add: evolves_def)

text \<open>The four ends of a scan.\<close>

lemma scan_cases:
  obtains (unread) e where "scan_platform_deps env now d = (Inl e, d)"
  | (unreported) s d1 e e' where "get_settings now d = Inr (s, d1)"
      and "scan_platform_deps env now d = (Inl e', put_settings now (scan_running now) d1)"
      and "run_scanner env (ss_excluded_packages s) = Inl e"
  | (failed) s d1 e s' d2 where "get_settings now d = Inr (s, d1)" and "run_scanner env (ss_excluded_packages s) = Inl e"
      and "get_settings now (put_settings now (scan_running now) d1) = Inr (s', d2)"
      and "scan_platform_deps env now d = (Inr (ScanFailed (exn_class e)), put_settings now (scan_failed now e) d2)"
  | (aborted) s d1 es e where "get_settings now d = Inr (s, d1)" and "run_scanner env (ss_excluded_packages s) = Inr es"
      and "store_scan now es (put_settings now (scan_running now) d1) = Inl e"
      and "scan_platform_deps env now d = (Inl e, put_settings now (scan_running now) d1)"
  | (stored) s d1 es d2 out where "get_settings now d = Inr (s, d1)" and "run_scanner env (ss_excluded_packages s) = Inr es"
      and "store_scan now es (put_settings now (scan_running now) d1) = Inr d2"
      and "scan_platform_deps env now d = (Inr out, d2)"
proof (cases "get_settings now d")
  case (Inl e)
  then show thesis by (intro unread [of e]) (simp add: scan_platform_deps_def)
next
  case (Inr sd)
  then obtain s d1 where g: "get_settings now d = Inr (s, d1)" by (cases sd) auto
  let ?d1 = "put_settings now (scan_running now) d1"
  show thesis
  proof (cases "run_scanner env (ss_excluded_packages s)")
    case (Inl e)
    show thesis
    proof (cases "get_settings now ?d1")
      case e': (Inl e')
      show thesis by (rule unreported [OF g _ Inl, of e']) (simp add: scan_platform_deps_def g Inl e')
    next
      case (Inr sd')
      then obtain s' d2 where g': "get_settings now ?d1 = Inr (s', d2)" by (cases sd') auto
      show thesis by (rule failed [OF g Inl g']) (simp add: scan_platform_deps_def g Inl g')
    qed
  next
    case (Inr es)
    show thesis
    proof (cases "store_scan now es ?d1")
      case (Inl e)
      show thesis by (rule aborted [OF g Inr Inl]) (simp add: scan_platform_deps_def g Inr Inl)
    next
      case d2: (Inr d2)
      show thesis by (rule stored [OF g Inr d2]) (simp add: scan_platform_deps_def g Inr d2)
    qed
  qed
qed

lemma locked_running: "locked d \<Longrightarrow> locked (put_settings now (scan_running now) d)"
  by (rule locked_put_settings) (auto simp: locked_def scan_running_def)

lemma scan_evolves: "evolves d (snd (scan_platform_deps env now d))"
proof (cases rule: scan_cases [of env now d])
  case (unreported s d1 e e')
  then show ?thesis by (intro evolves_same) (simp_all add: get_settings_frame [OF unreported(1)])
next
  case (failed s d1 e s' d2)
  show ?thesis
    by (rule evolves_same) (simp_all add: failed(4) get_settings_frame [OF failed(3)] get_settings_frame [OF failed(1)])
next
  case (aborted s d1 es e)
  then show ?thesis by (intro evolves_same) (simp_all add: get_settings_frame [OF aborted(1)])
next
  case (stored s d1 es d2 out)
  show ?thesis
    unfolding stored(4) snd_conv
    by (rule evolves_from [OF store_scan_evolves(1) [OF stored(3)]]) (simp_all add: get_settings_frame [OF stored(1)])
qed simp

lemma scan_locked: assumes "locked d" shows "locked (snd (scan_platform_deps env now d))"
proof (cases rule: scan_cases [of env now d])
  case (unreported s d1 e e')
  then show ?thesis using locked_running locked_get_settings assms by simp
next
  case (failed s d1 e s' d2)
  have "locked d2" using locked_get_settings [OF failed(3)] locked_running locked_get_settings [OF failed(1) assms] by blast
  then have "locked (put_settings now (scan_failed now e) d2)"
    by (rule locked_put_settings) (use \<open>locked d2\<close> in \<open>simp add: locked_def scan_failed_def\<close>)
  then show ?thesis by (simp add: failed(4))
next
  case (aborted s d1 es e)
  then show ?thesis using locked_running locked_get_settings assms by simp
next
  case (stored s d1 es d2 out)
  then show ?thesis using store_scan_evolves(2) [OF stored(3)] locked_running locked_get_settings [OF stored(1) assms] by simp
qed (simp add: assms)

section \<open>The workflow over all runs\<close>

lemmas step_evolves = scan_evolves propose_evolves validate_evolves apply_evolves cancel_evolves approve_evolves
  reject_evolves apply_now_evolves rollback_request_evolves suppress_evolves update_settings_evolves

lemma ss_step_evolves: "ss_step V d d' \<Longrightarrow> proposals_ok d \<Longrightarrow> evolves d d'"
  by (induction rule: ss_step.induct) (auto intro: step_evolves)

lemma same_settings_locked:
  "locked d \<Longrightarrow> locked (snd (rollback_proposal i d))" "locked d \<Longrightarrow> locked (snd (approve_proposal sha now rq who i d))"
  "locked d \<Longrightarrow> locked (snd (reject_proposal sha now rq who i reason d))" "locked d \<Longrightarrow> locked (snd (apply_now sha now rq who i d))"
  "locked d \<Longrightarrow> locked (snd (rollback sha now rq who i d))" "locked d \<Longrightarrow> locked (snd (suppress_finding sha now rq who i reason d))"
  by (auto simp: rollback_proposal_def approve_proposal_def reject_proposal_def apply_now_def rollback_def
      suppress_finding_def locked_def split: sum.split option.split)

lemmas step_locked = scan_locked propose_locked validate_locked apply_locked same_settings_locked update_settings_locked

lemma ss_step_locked: "ss_step V d d' \<Longrightarrow> locked d \<Longrightarrow> locked d'"
  by (induction rule: ss_step.induct) (auto intro: step_locked)

lemma ss_run_ok:
  "(ss_step V)\<^sup>*\<^sup>* d d' \<Longrightarrow> proposals_ok d \<Longrightarrow> locked d \<Longrightarrow> proposals_ok d' \<and> locked d'"
proof (induction rule: rtranclp_induct)
  case (step e f)
  then show ?case using ss_step_evolves [of V e f] evolves_ok ss_step_locked [of V e f] by blast
qed simp

text \<open>
  C6: refinement of the proposal workflow. Whatever task or request runs next, and whatever the
  outside services answer, the table of proposals takes one step of the abstract workflow: every
  proposal keeps its package and versions and moves along at most one edge of it, deleted ones
  go with their package, and new ones start as proposed under a fresh identifier.
\<close>

theorem ss_step_refines_workflow:
  assumes "ss_step V d d'" and "proposals_ok d"
  shows "evolves d d' \<and> proposals_ok d'"
  using ss_step_evolves [OF assms] evolves_ok [OF assms(2)] by blast

text \<open>
  C5: nothing is prepared without an administrator. From a deployment without proposals, after
  any sequence of scans, proposals, assessments, approvals, rejections, preparations,
  cancellations and settings changes, every proposal that is approved, ready for a pull request
  or failed in preparation carries who approved it and when; and the stored settings never
  enable in-place updates or waive the approval.
\<close>

theorem no_patch_without_approval:
  assumes "(ss_step V)\<^sup>*\<^sup>* d d'" and "update_proposals d = []" and "settings_rows d = []"
  shows "(\<forall>p\<in>set (update_proposals d'). up_status p \<in> {''approved'', ''ready_for_pr'', ''failed''} \<longrightarrow>
            up_approved_by p \<noteq> None \<and> up_approved_at p \<noteq> None)
     \<and> (\<forall>s\<in>set (settings_rows d'). \<not> ss_auto_update_enabled s \<and> ss_require_admin_approval s)"
proof -
  have "proposals_ok d" "locked d" using assms(2,3) by (simp_all add: proposals_ok_def locked_def)
  from ss_run_ok [OF assms(1) this] show ?thesis
    by (auto simp: proposals_ok_def reviewed_def locked_def)
qed

end
