(* ===== verification/SelfSecurityScan.thy ===== *)
theory SelfSecurityScan
  imports SelfSecurityFlow
begin

text \<open>
  What a scan of the platform's own packages leaves behind, what a proposal targets, and the
  patch that is prepared from it.
\<close>

section \<open>A scan that does not complete\<close>

text \<open>
  a scan is all or nothing. Unless it reports success, whatever failed and wherever, it
  leaves packages, findings, proposals and alerts as they were; if a service failed, the outcome
  carries the class of the exception.
\<close>

theorem scan_atomic:
  "case scan_platform_deps env now d of (out, d') \<Rightarrow>
     (case out of Inr (ScanSucceeded n a b c) \<Rightarrow> True
      | _ \<Rightarrow> platform_dependencies d' = platform_dependencies d \<and> dependency_findings d' = dependency_findings d
            \<and> update_proposals d' = update_proposals d \<and> alerts d' = alerts d)"
proof (cases rule: scan_cases [of env now d])
  case (unreported s d1 e e')
  then show ?thesis by (simp add: get_settings_frame [OF unreported(1)])
next
  case (failed s d1 e s' d2)
  show ?thesis by (simp add: failed(4) get_settings_frame [OF failed(3)] get_settings_frame [OF failed(1)])
next
  case (aborted s d1 es e)
  then show ?thesis by (simp add: get_settings_frame [OF aborted(1)])
next
  case (stored s d1 es d2 out)
  then have "\<exists>n a b c. out = ScanSucceeded n a b c"
    by (auto simp: scan_platform_deps_def split: sum.splits)
  with stored(4) show ?thesis by auto
qed simp

section \<open>A scan that completes\<close>

definition ids_of :: "nat \<Rightarrow> db \<Rightarrow> string set" where
  "ids_of pid d = df_cve_id ` {r \<in> set (dependency_findings d). df_dependency_id r = pid}"

definition deps_ok :: "db \<Rightarrow> bool" where
  "deps_ok d = (distinct (map pd_id (platform_dependencies d))
     \<and> (\<forall>p\<in>set (platform_dependencies d). pd_id p < next_id d)
     \<and> (\<forall>r\<in>set (dependency_findings d). df_dependency_id r < next_id d))"

definition recorded :: "scan_entry \<Rightarrow> db \<Rightarrow> dep_state \<Rightarrow> bool" where
  "recorded e d ds = (case e of (dep, fs, latest) \<Rightarrow>
     \<exists>p\<in>set (platform_dependencies d). pd_name p = dr_name dep \<and> pd_component p = dr_component dep
       \<and> pd_version p = dr_version dep \<and> pd_cve_count p = int (length fs) \<and> ids_of (pd_id p) d = fd_cve_id ` set fs
       \<and> map_of ds (pd_id p) = Some (dr_version dep, length fs))"

lemma fill_finding_keys [simp]:
  "df_dependency_id (fill_finding kevs f r) = df_dependency_id r" "df_cve_id (fill_finding kevs f r) = df_cve_id r"
  by (simp_all add: fill_finding_def)

lemma ids_of_alt: "ids_of q d = {c. (q, c) \<in> set (map (\<lambda>r. (df_dependency_id r, df_cve_id r)) (dependency_findings d))}"
  by (auto simp: ids_of_def)

lemma store_finding_ids:
  assumes "set ex \<subseteq> ids_of pid d"
  shows "ids_of q (store_finding now kevs pid ex f d) = (if q = pid then insert (fd_cve_id f) (ids_of q d) else ids_of q d)"
proof (cases "fd_cve_id f \<in> set ex")
  case True
  then have "fd_cve_id f \<in> ids_of pid d" using assms by blast
  moreover have "ids_of q (store_finding now kevs pid ex f d) = ids_of q d"
    using True by (simp add: store_finding_def ids_of_alt map_update_where del: set_map)
  ultimately show ?thesis by auto
next
  case False
  then show ?thesis
    by (auto simp: store_finding_def ids_of_alt fresh_id_def Let_def)
qed

lemma store_findings_ids:
  assumes "set ex \<subseteq> ids_of pid d"
  shows "ids_of q (fold (store_finding now kevs pid ex) fs d) = (if q = pid then fd_cve_id ` set fs \<union> ids_of q d else ids_of q d)"
  using assms
proof (induction fs arbitrary: d)
  case (Cons f fs)
  have "set ex \<subseteq> ids_of pid (store_finding now kevs pid ex f d)"
    using Cons.prems by (auto simp: store_finding_ids)
  from Cons.IH [OF this] show ?case using Cons.prems by (auto simp: store_finding_ids)
qed simp

lemma prune_ids:
  "ids_of q (prune_findings pid obs d) = (if q = pid then ids_of q d \<inter> set obs else ids_of q d)"
  by (auto simp: ids_of_def prune_findings_def)

lemma store_findings_deps:
  "platform_dependencies (fold (store_finding now kevs pid ex) fs d) = platform_dependencies d"
  by (induction fs arbitrary: d) (simp_all add: store_finding_def fresh_id_def Let_def)

lemma store_findings_below:
  assumes "\<forall>r\<in>set (dependency_findings d). df_dependency_id r < n" and "pid < n"
  shows "\<forall>r\<in>set (dependency_findings (fold (store_finding now kevs pid ex) fs d)). df_dependency_id r < n"
  using assms
proof (induction fs arbitrary: d)
  case (Cons f fs)
  have "\<forall>r\<in>set (dependency_findings (store_finding now kevs pid ex f d)). df_dependency_id r < n"
    using Cons.prems by (auto simp: store_finding_def fresh_id_def Let_def set_update_where)
  from Cons.IH [OF this Cons.prems(2)] show ?case by simp
qed simp

lemma dep_checked_keys [simp]:
  "pd_id (dep_checked now kevs e p) = pd_id p" "pd_name (dep_checked now kevs e p) = pd_name p"
  "pd_component (dep_checked now kevs e p) = pd_component p"
  by (simp_all add: dep_checked_def split: prod.split)

interpretation checked_dep: row_mutation pd_id "dep_checked now kevs e" for now kevs e
  by unfold_locales simp

text \<open>The row a scan finds or adds for a package.\<close>

lemma dep_row:
  assumes "find_dep dep d = Inr None \<and> (pid, d1) = add_dep now dep d
        \<or> (\<exists>p. find_dep dep d = Inr (Some p) \<and> pid = pd_id p \<and> d1 = d)"
    and "deps_ok d"
  shows "deps_ok d1 \<and> pid < next_id d1 \<and> dependency_findings d1 = dependency_findings d
     \<and> set (platform_dependencies d) \<subseteq> set (platform_dependencies d1)
     \<and> (\<exists>p\<in>set (platform_dependencies d1). pd_id p = pid \<and> pd_name p = dr_name dep \<and> pd_component p = dr_component dep)"
  using assms(1)
proof
  assume a: "find_dep dep d = Inr None \<and> (pid, d1) = add_dep now dep d"
  then have d1: "pid = next_id d" "next_id d1 = next_id d + 1" "dependency_findings d1 = dependency_findings d"
    "platform_dependencies d1 = platform_dependencies d @ [(new_platform_dependency (next_id d) now)\<lparr>pd_component := dr_component dep,
       pd_package_type := dr_package_type dep, pd_name := dr_name dep, pd_version := dr_version dep, pd_purl := dr_purl dep\<rparr>]"
    by (simp_all add: add_dep_def fresh_id_def Let_def)
  show ?thesis
    using assms(2) by (fastforce simp: deps_ok_def d1 new_platform_dependency_def)
next
  assume "\<exists>p. find_dep dep d = Inr (Some p) \<and> pid = pd_id p \<and> d1 = d"
  then obtain p where p: "find_dep dep d = Inr (Some p)" "pid = pd_id p" "d1 = d" by blast
  from scalar_filter_SomeD [OF p(1) [unfolded find_dep_def]] show ?thesis
    using assms(2) p(2,3) by (auto simp: deps_ok_def)
qed

lemma scan_dep_records:
  assumes "scan_dep now kevs e (d, ds) = Inr (d', ds')" and "deps_ok d"
  shows "deps_ok d' \<and> recorded e d' ds'
     \<and> (\<forall>e'. recorded e' d ds \<and> dr_name (fst e') \<noteq> dr_name (fst e) \<longrightarrow> recorded e' d' ds')"
proof -
  obtain dep fs latest where e: "e = (dep, fs, latest)" by (cases e)
  show ?thesis
  proof (rule scan_dep_cases [OF assms(1) [unfolded e]])
    fix pid d1 d2
    assume p: "find_dep dep d = Inr None \<and> (pid, d1) = add_dep now dep d
        \<or> (\<exists>p. find_dep dep d = Inr (Some p) \<and> pid = pd_id p \<and> d1 = d)"
      and d2: "d2 = fold (store_finding now kevs pid (map df_cve_id (filter (\<lambda>r. df_dependency_id r = pid) (dependency_findings d1)))) fs d1"
      and ds': "ds' = (pid, dr_version dep, length fs) # ds"
      and d': "d' = (prune_findings pid (map fd_cve_id fs) d2)\<lparr>platform_dependencies :=
           update_where (\<lambda>p. pd_id p = pid) (dep_checked now kevs (dep, fs, latest)) (platform_dependencies d2)\<rparr>"
    let ?ex = "map df_cve_id (filter (\<lambda>r. df_dependency_id r = pid) (dependency_findings d1))"
    note row = dep_row [OF p assms(2)]
    have deps2: "platform_dependencies d2 = platform_dependencies d1" unfolding d2 by (rule store_findings_deps)
    have ex: "set ?ex \<subseteq> ids_of pid d1" by (auto simp: ids_of_def)
    have ids: "ids_of q d' = (if q = pid then fd_cve_id ` set fs else ids_of q d1)" for q
    proof -
      have "ids_of q d' = ids_of q (prune_findings pid (map fd_cve_id fs) d2)" by (simp add: d' ids_of_def)
      then show ?thesis unfolding prune_ids d2 store_findings_ids [OF ex] by auto
    qed
    have n2: "next_id d1 \<le> next_id d2" using store_findings_frame by (simp add: d2 scan_frame_def)
    have "\<forall>r\<in>set (dependency_findings d2). df_dependency_id r < next_id d1"
      unfolding d2 using row by (intro store_findings_below) (auto simp: deps_ok_def)
    then have below: "\<forall>r\<in>set (dependency_findings d2). df_dependency_id r < next_id d2"
      using n2 by fastforce
    have "deps_ok d'"
      unfolding deps_ok_def
    proof (intro conjI)
      show "distinct (map pd_id (platform_dependencies d'))"
        using row by (simp add: d' deps2 checked_dep.keys_kept deps_ok_def)
      show "\<forall>p\<in>set (platform_dependencies d'). pd_id p < next_id d'"
        using row n2 by (auto simp: d' deps2 set_update_where deps_ok_def prune_findings_def intro: order_less_le_trans)
      show "\<forall>r\<in>set (dependency_findings d'). df_dependency_id r < next_id d'"
        using below by (simp add: d' prune_findings_def)
    qed
    moreover have "recorded e d' ds'"
    proof -
      from row obtain p where "p \<in> set (platform_dependencies d1)" "pd_id p = pid" "pd_name p = dr_name dep"
        "pd_component p = dr_component dep" by blast
      moreover from this have "dep_checked now kevs (dep, fs, latest) p \<in> set (platform_dependencies d')"
        by (auto simp: d' deps2 set_update_where)
      ultimately show ?thesis
        by (auto simp: recorded_def e ids ds' dep_checked_def intro!: bexI [of _ "dep_checked now kevs (dep, fs, latest) p"])
    qed
    moreover have "recorded e' d' ds'" if r: "recorded e' d ds" and ne: "dr_name (fst e') \<noteq> dr_name (fst e)" for e'
    proof -
      obtain dep' fs' l' where e': "e' = (dep', fs', l')" by (cases e')
      from r obtain p where p: "p \<in> set (platform_dependencies d)" "pd_name p = dr_name dep'" "pd_component p = dr_component dep'"
        "pd_version p = dr_version dep'" "pd_cve_count p = int (length fs')" "ids_of (pd_id p) d = fd_cve_id ` set fs'"
        "map_of ds (pd_id p) = Some (dr_version dep', length fs')" by (auto simp: recorded_def e')
      from row obtain p0 where p0: "p0 \<in> set (platform_dependencies d1)" "pd_id p0 = pid" "pd_name p0 = dr_name dep" by blast
      have "pd_id p \<noteq> pid"
      proof
        assume "pd_id p = pid"
        then have "p = p0" using p(1) p0 row by (auto simp: deps_ok_def distinct_map inj_on_def)
        then show False using p(2) p0(3) ne by (simp add: e e')
      qed
      then have "p \<in> set (platform_dependencies d')"
        using p(1) row by (auto simp: d' deps2 set_update_where)
      moreover have "dependency_findings d1 = dependency_findings d" using row by blast
      then have "ids_of (pd_id p) d' = ids_of (pd_id p) d"
        unfolding ids using \<open>pd_id p \<noteq> pid\<close> by (simp add: ids_of_def)
      ultimately show ?thesis using p \<open>pd_id p \<noteq> pid\<close> by (auto simp: recorded_def e' ds' intro!: bexI [of _ p])
    qed
    ultimately show ?thesis by blast
  qed
qed

lemma scan_deps_record:
  assumes "rfold (scan_dep now kevs) es (d, ds) = Inr (d', ds')" and "deps_ok d" and "distinct (map (\<lambda>e. dr_name (fst e)) es)"
  shows "deps_ok d' \<and> (\<forall>e\<in>set es. recorded e d' ds')
     \<and> (\<forall>e. recorded e d ds \<and> dr_name (fst e) \<notin> (\<lambda>e. dr_name (fst e)) ` set es \<longrightarrow> recorded e d' ds')"
  using assms
proof (induction es arbitrary: d ds)
  case (Cons e es)
  from Cons.prems(1) obtain d1 ds1 where s: "scan_dep now kevs e (d, ds) = Inr (d1, ds1)"
    and rest: "rfold (scan_dep now kevs) es (d1, ds1) = Inr (d', ds')"
    by (auto simp: rbind_eq_Inr)
  note r = scan_dep_records [OF s Cons.prems(2)]
  have "deps_ok d1" "distinct (map (\<lambda>e. dr_name (fst e)) es)" using r Cons.prems(3) by auto
  note ih = Cons.IH [OF rest this]
  have "recorded e d' ds'" using ih r Cons.prems(3) by (simp del: split_paired_All)
  then show ?case using ih r by (simp del: split_paired_All)
qed simp

text \<open>Deleting other packages, and what else the transaction does, keeps what is recorded.\<close>

lemma recorded_delete:
  assumes "recorded e d ds"
    and "\<And>p. p \<in> set (platform_dependencies d) \<Longrightarrow> pd_name p = dr_name (fst e) \<Longrightarrow> pd_component p = dr_component (fst e) \<Longrightarrow> pd_id p \<noteq> i"
  shows "recorded e (delete_dependency i d) ds"
proof -
  obtain dep fs l where e: "e = (dep, fs, l)" by (cases e)
  from assms obtain p where p: "p \<in> set (platform_dependencies d)" "pd_id p \<noteq> i" "pd_name p = dr_name dep"
    "pd_component p = dr_component dep" "pd_version p = dr_version dep" "pd_cve_count p = int (length fs)"
    "ids_of (pd_id p) d = fd_cve_id ` set fs" "map_of ds (pd_id p) = Some (dr_version dep, length fs)"
    by (auto simp: recorded_def e)
  moreover have "ids_of (pd_id p) (delete_dependency i d) = ids_of (pd_id p) d"
    using p(2) by (auto simp: ids_of_def delete_dependency_def)
  ultimately show ?thesis
    by (auto simp: recorded_def e delete_dependency_def intro!: bexI [of _ p])
qed

lemma drop_deps:
  "platform_dependencies (fold (\<lambda>p. delete_dependency (pd_id p)) ps d)
     = filter (\<lambda>q. pd_id q \<notin> pd_id ` set ps) (platform_dependencies d)"
proof (induction ps arbitrary: d)
  case (Cons p ps)
  have "platform_dependencies (fold (\<lambda>p. delete_dependency (pd_id p)) (p # ps) d)
      = filter (\<lambda>q. pd_id q \<notin> pd_id ` set ps) (platform_dependencies (delete_dependency (pd_id p) d))"
    by (simp add: Cons.IH)
  also have "\<dots> = filter (\<lambda>q. pd_id q \<notin> pd_id ` set (p # ps)) (platform_dependencies d)"
    by (simp add: delete_dependency_def conj_commute)
  finally show ?case .
qed simp

lemma recorded_drop:
  assumes "recorded e d ds" and "deps_ok d" and "dr_name (fst e) \<in> set names"
  shows "recorded e (drop_uninstalled names d) ds"
proof -
  have keep: "recorded e (fold (\<lambda>p. delete_dependency (pd_id p)) ps d) ds"
    if "recorded e d ds" and "\<And>p q. p \<in> set ps \<Longrightarrow> q \<in> set (platform_dependencies d) \<Longrightarrow> pd_name q = dr_name (fst e) \<Longrightarrow> pd_id q \<noteq> pd_id p"
    for ps d
    using that
  proof (induction ps arbitrary: d)
    case (Cons p ps)
    have "recorded e (delete_dependency (pd_id p) d) ds"
      using Cons.prems by (intro recorded_delete) auto
    then show ?case using Cons.prems(2) by (simp, intro Cons.IH) (auto simp: delete_dependency_def)
  qed simp
  show ?thesis
    unfolding drop_uninstalled_def
    using assms by (intro keep) (auto simp: deps_ok_def distinct_map inj_on_def)
qed

definition answers :: "'v ss_env \<Rightarrow> string list \<Rightarrow> dep_record \<Rightarrow> finding list \<Rightarrow> bool" where
  "answers env excluded dep fs =
     (if dr_name dep \<in> set excluded then fs = []
      else \<exists>vulns. se_osv env dep = Inr vulns \<and> fs = find_vulns (se_versions env) dep vulns)"

lemma query_deps_entries:
  "query_deps env excluded deps = Inr es \<Longrightarrow> map fst es = deps
   \<and> (\<forall>e\<in>set es. answers env excluded (fst e) (fst (snd e)))"
proof (induction deps arbitrary: es)
  case (Cons dep deps)
  show ?case
  proof (cases "dr_name dep \<in> set excluded")
    case True
    with Cons.prems obtain es' where "query_deps env excluded deps = Inr es'" "es = (dep, [], None) # es'"
      by (auto simp: rbind_eq_Inr)
    with Cons.IH [of es'] True show ?thesis by (simp add: answers_def)
  next
    case False
    with Cons.prems obtain vulns latest es' where "query_deps env excluded deps = Inr es'" "se_osv env dep = Inr vulns"
      "es = (dep, find_vulns (se_versions env) dep vulns, latest) # es'"
      by (auto simp: rbind_eq_Inr)
    with Cons.IH [of es'] False show ?thesis by (simp add: answers_def)
  qed
qed simp

lemma superseded_consistent:
  assumes "q = supersede ds u" and "up_status q \<in> set pending_statuses" and "map_of ds (up_dependency_id q) = Some (v, n)"
  shows "up_current_version q = v \<and> n \<noteq> 0"
  using assms by (auto simp: supersede_def pending_statuses_def split: if_splits)

lemma scan_alert_tables [simp]:
  "platform_dependencies (scan_alert now n c k m ch d) = platform_dependencies d"
  "dependency_findings (scan_alert now n c k m ch d) = dependency_findings d"
  by (simp_all add: scan_alert_def fresh_id_def Let_def)

lemma recorded_cong:
  "platform_dependencies d' = platform_dependencies d \<Longrightarrow> dependency_findings d' = dependency_findings d \<Longrightarrow>
   recorded e d ds \<Longrightarrow> recorded e d' ds"
  by (auto simp: recorded_def ids_of_def)

lemma store_scan_records:
  assumes "store_scan now es d = Inr d'" and "deps_ok d" and "distinct (map (\<lambda>e. dr_name (fst e)) es)"
  obtains ds where "\<forall>e\<in>set es. recorded e d' ds"
    and "\<forall>q\<in>set (update_proposals d'). \<exists>u. q = supersede ds u"
    and "\<forall>p\<in>set (platform_dependencies d'). pd_component p = ''api'' \<longrightarrow> pd_name p \<in> (\<lambda>e. dr_name (fst e)) ` set es"
proof -
  let ?names = "map (\<lambda>(dep, fs, latest). dr_name dep) es"
  from assms(1) obtain d1 ds s d3 where run: "rfold (scan_dep now (kev_ids es d)) es (d, []) = Inr (d1, ds)"
    and g: "get_settings now ((drop_uninstalled ?names d1)\<lparr>update_proposals :=
          map (supersede ds) (update_proposals (drop_uninstalled ?names d1))\<rparr>) = Inr (s, d3)"
    and d': "d' = scan_alert now (count_findings (\<lambda>f. True) es) (count_findings (\<lambda>f. fd_severity f = ''critical'') es)
                      (count_findings (finding_is_kev (kev_ids es d)) es) (length es) (ss_notify_channels s)
                      (put_settings now (scan_succeeded now (length es)) d3)"
    by (auto simp: store_scan_def rbind_eq_Inr Let_def)
  note r = scan_deps_record [OF run assms(2,3)]
  have names: "set ?names = (\<lambda>e. dr_name (fst e)) ` set es" by (simp add: case_prod_unfold)
  have deps: "platform_dependencies d' = platform_dependencies (drop_uninstalled ?names d1)"
    and finds: "dependency_findings d' = dependency_findings (drop_uninstalled ?names d1)"
    by (simp_all add: d' get_settings_frame [OF g])
  show thesis
  proof (rule that [of ds])
    show "\<forall>e\<in>set es. recorded e d' ds"
    proof
      fix e assume e: "e \<in> set es"
      have "recorded e (drop_uninstalled ?names d1) ds"
        using r e names by (intro recorded_drop) (simp_all del: split_paired_All)
      then show "recorded e d' ds" by (rule recorded_cong [OF deps finds])
    qed
    show "\<forall>q\<in>set (update_proposals d'). \<exists>u. q = supersede ds u"
      by (auto simp: d' get_settings_frame [OF g])
    show "\<forall>p\<in>set (platform_dependencies d'). pd_component p = ''api'' \<longrightarrow> pd_name p \<in> (\<lambda>e. dr_name (fst e)) ` set es"
      unfolding deps drop_uninstalled_def drop_deps names [symmetric] by auto
  qed
qed

text \<open>
  a completed scan makes the inventory true. For every installed package there is a row with
  the installed version whose stored findings are exactly the advisories reported for it (none
  for an excluded package) and counted as such; no row of the component is left for a package
  that is gone; and every proposal still pending for a package is for its installed version and
  backed by a finding.
\<close>

theorem scan_refreshes_inventory:
  assumes "scan_platform_deps env now d = (Inr (ScanSucceeded n a b c), d')" and "get_settings now d = Inr (s, d0)"
    and "deps_ok d"
  shows "(\<forall>dep\<in>set (scan_installed_python_deps ''api'' (se_dists env)).
            \<exists>fs. answers env (ss_excluded_packages s) dep fs \<and>
              (\<exists>p\<in>set (platform_dependencies d'). pd_name p = dr_name dep \<and> pd_version p = dr_version dep
                 \<and> pd_cve_count p = int (length fs) \<and> ids_of (pd_id p) d' = fd_cve_id ` set fs
                 \<and> (\<forall>u\<in>set (update_proposals d'). up_dependency_id u = pd_id p \<and> up_status u \<in> set pending_statuses \<longrightarrow>
                       up_current_version u = pd_version p \<and> fs \<noteq> [])))
     \<and> (\<forall>p\<in>set (platform_dependencies d'). pd_component p = ''api'' \<longrightarrow>
            pd_name p \<in> dr_name ` set (scan_installed_python_deps ''api'' (se_dists env)))"
proof (cases rule: scan_cases [of env now d])
  case (stored s1 d1 es d2 out)
  let ?deps = "scan_installed_python_deps ''api'' (se_dists env)"
  have s1: "s1 = s" and d2: "d2 = d'" using stored(1,4) assms(1,2) by simp_all
  have q: "query_deps env (ss_excluded_packages s) ?deps = Inr es"
    using stored(2) by (simp add: run_scanner_def s1 Let_def split: if_splits)
  have es: "map fst es = ?deps" and ans: "\<forall>e\<in>set es. answers env (ss_excluded_packages s) (fst e) (fst (snd e))"
    using query_deps_entries [OF q] by blast+
  have names: "map (\<lambda>e. dr_name (fst e)) es = map dr_name ?deps" by (simp flip: es)
  then have dist: "distinct (map (\<lambda>e. dr_name (fst e)) es)" using scan_installed_distinct by simp
  have ok: "deps_ok (put_settings now (scan_running now) d1)"
    using assms(3) by (simp add: deps_ok_def get_settings_frame [OF stored(1)])
  obtain ds where rec: "\<forall>e\<in>set es. recorded e d' ds"
    and sup: "\<forall>q\<in>set (update_proposals d'). \<exists>u. q = supersede ds u"
    and gone: "\<forall>p\<in>set (platform_dependencies d'). pd_component p = ''api'' \<longrightarrow> pd_name p \<in> (\<lambda>e. dr_name (fst e)) ` set es"
    by (rule store_scan_records [OF stored(3) ok dist]) (simp add: d2)
  have "\<exists>fs. answers env (ss_excluded_packages s) dep fs \<and>
              (\<exists>p\<in>set (platform_dependencies d'). pd_name p = dr_name dep \<and> pd_version p = dr_version dep
                 \<and> pd_cve_count p = int (length fs) \<and> ids_of (pd_id p) d' = fd_cve_id ` set fs
                 \<and> (\<forall>u\<in>set (update_proposals d'). up_dependency_id u = pd_id p \<and> up_status u \<in> set pending_statuses \<longrightarrow>
                       up_current_version u = pd_version p \<and> fs \<noteq> []))" if dep: "dep \<in> set ?deps" for dep
  proof -
    from dep have "dep \<in> fst ` set es" unfolding es [symmetric] by simp
    then obtain e where e: "e \<in> set es" "fst e = dep" by blast
    obtain fs l where "e = (dep, fs, l)" using e(2) by (cases e) auto
    with rec e(1) obtain p where p: "p \<in> set (platform_dependencies d')" "pd_name p = dr_name dep" "pd_version p = dr_version dep"
      "pd_cve_count p = int (length fs)" "ids_of (pd_id p) d' = fd_cve_id ` set fs"
      "map_of ds (pd_id p) = Some (dr_version dep, length fs)"
      by (fastforce simp: recorded_def)
    have "up_current_version u = pd_version p \<and> fs \<noteq> []"
      if "u \<in> set (update_proposals d')" "up_dependency_id u = pd_id p" "up_status u \<in> set pending_statuses" for u
      using superseded_consistent [of u ds _ "dr_version dep" "length fs"] sup that p(3,6) by fastforce
    moreover have "answers env (ss_excluded_packages s) dep fs"
      using bspec [OF ans e(1)] \<open>e = (dep, fs, l)\<close> by simp
    ultimately show ?thesis using p by blast
  qed
  moreover have "(\<lambda>e. dr_name (fst e)) ` set es = dr_name ` set ?deps"
    using arg_cong [OF names, of set] by simp
  ultimately show ?thesis using gone by simp
qed (use assms(1) in simp_all)

section \<open>Two advisories with one CVE\<close>

lemma store_new_findings:
  "map (\<lambda>r. (df_dependency_id r, df_cve_id r)) (dependency_findings (fold (store_finding now kevs pid []) fs d))
     = map (\<lambda>r. (df_dependency_id r, df_cve_id r)) (dependency_findings d) @ map (\<lambda>f. (pid, fd_cve_id f)) fs"
  by (induction fs arbitrary: d) (simp_all add: store_finding_def fresh_id_def Let_def)

lemma get_settings_row:
  assumes "get_settings now d = Inr (s, d')"
  shows "list_ex (\<lambda>r. ss_id r = 1) (settings_rows d')"
proof -
  have put: "list_ex (\<lambda>r. ss_id r = 1) (settings_rows (put_settings now lock_down e))"
    if "list_ex (\<lambda>r. ss_id r = 1) (settings_rows e)" for e
  proof -
    have "map ss_id (settings_rows (put_settings now lock_down e)) = map ss_id (settings_rows e)"
      unfolding put_settings_def by (simp add: map_update_where lock_down_def settings_flush_def)
    from arg_cong [OF this, of "\<lambda>l. 1 \<in> set l"] that show ?thesis by (auto simp: list_ex_iff image_iff)
  qed
  show ?thesis
  proof (cases "filter (\<lambda>s. ss_id s = 1) (settings_rows d)" rule: scalar_one_or_none_cases)
    case none
    then have "d' = put_settings now lock_down (d\<lparr>settings_rows := settings_rows d @ [new_self_security_settings now]\<rparr>)"
      using assms by (simp add: get_settings_def Let_def)
    then show ?thesis by (simp only:, intro put) (simp add: new_self_security_settings_def)
  next
    case (one r)
    then have "d' = put_settings now lock_down d" using assms by (simp add: get_settings_def Let_def)
    moreover have "list_ex (\<lambda>r. ss_id r = 1) (settings_rows d)"
      using scalar_filter_SomeD [OF one(2)] by (auto simp: list_ex_iff)
    ultimately show ?thesis by (simp only:, intro put)
  next
    case many
    then show ?thesis using assms by (simp add: get_settings_def)
  qed
qed

lemma put_settings_member:
  "r \<in> set (settings_rows d) \<Longrightarrow> ss_id r = 1 \<Longrightarrow> settings_flush now r (f r) \<in> set (settings_rows (put_settings now f d))"
  by (auto simp: put_settings_def set_update_where)

text \<open>
  what happens when the scanner reports two advisories under one CVE identifier for a
  package that is new to the inventory (two databases publishing the same CVE). The second row
  violates the unique constraint, the whole refresh is lost with an exception no handler
  catches, and the stored status stays at running.
\<close>

theorem duplicate_advisory_aborts_scan:
  assumes "get_settings now d = Inr (s, d1)" and "run_scanner env (ss_excluded_packages s) = Inr ((dep, fs, latest) # es)"
    and "deps_ok d" and "find_dep dep d = Inr None" and "\<not> distinct (map fd_cve_id fs)"
  shows "fst (scan_platform_deps env now d) = Inl IntegrityError
     \<and> dependency_findings (snd (scan_platform_deps env now d)) = dependency_findings d
     \<and> list_ex (\<lambda>r. ss_id r = 1 \<and> ss_last_scan_status r = ''running'') (settings_rows (snd (scan_platform_deps env now d)))"
proof -
  let ?d = "put_settings now (scan_running now) d1"
  obtain pid e where a: "add_dep now dep ?d = (pid, e)" by (cases "add_dep now dep ?d")
  then have pid: "pid = next_id d" and e: "dependency_findings e = dependency_findings d"
    by (auto simp: add_dep_def fresh_id_def Let_def get_settings_frame [OF assms(1)])
  have none: "find_dep dep ?d = Inr None"
    using assms(4) by (simp add: find_dep_def get_settings_frame [OF assms(1)])
  have "filter (\<lambda>r. df_dependency_id r = pid) (dependency_findings e) = []"
    using assms(3) by (auto simp: e pid deps_ok_def filter_empty_conv)
  moreover have "\<not> distinct (map (\<lambda>f. (pid, fd_cve_id f)) fs)"
    using assms(5) by (simp add: distinct_map inj_on_def)
  then have "\<not> findings_unique (fold (store_finding now kevs pid []) fs e)" for kevs
    unfolding findings_unique_def store_new_findings by simp
  ultimately have "scan_dep now kevs (dep, fs, latest) (?d, []) = Inl IntegrityError" for kevs
    by (simp add: scan_dep_def none a)
  then have "store_scan now ((dep, fs, latest) # es) ?d = Inl IntegrityError"
    by (simp add: store_scan_def Let_def)
  then have scan: "scan_platform_deps env now d = (Inl IntegrityError, ?d)"
    by (simp add: scan_platform_deps_def assms(1,2))
  have "list_ex (\<lambda>r. ss_id r = 1 \<and> ss_last_scan_status r = ''running'') (settings_rows ?d)"
  proof -
    from get_settings_row [OF assms(1)] obtain r where r: "r \<in> set (settings_rows d1)" "ss_id r = 1"
      by (auto simp: list_ex_iff)
    have "ss_id (settings_flush now r s) = ss_id s" "ss_last_scan_status (settings_flush now r s) = ss_last_scan_status s" for s
      by (simp_all add: settings_flush_def)
    then have "ss_id (settings_flush now r (scan_running now r)) = 1"
      "ss_last_scan_status (settings_flush now r (scan_running now r)) = ''running''"
      using r(2) by (simp_all add: scan_running_def)
    then show ?thesis using put_settings_member [OF r] unfolding list_ex_iff by blast
  qed
  then show ?thesis by (simp add: scan get_settings_frame [OF assms(1)])
qed

section \<open>What a proposal targets\<close>

text \<open>The target is one of the fixes, and none of the others is above it.\<close>

lemma target_version_greatest:
  assumes "target_version V vs = Some t" and "versions_ok V"
  shows "\<exists>w. t = ver_str V w \<and> (\<exists>s\<in>set vs. ver_parse V s = Some w)
    \<and> (\<forall>s\<in>set vs. \<exists>v. ver_parse V s = Some v \<and> \<not> ver_lt V w v)"
proof -
  have all: "\<not> list_ex (\<lambda>s. ver_parse V s = None) vs"
    using assms(1) by (auto simp: target_version_def split: if_splits)
  with assms(1) obtain x xs where x: "List.map_filter (ver_parse V) vs = x # xs"
    and t: "t = ver_str V (least (\<lambda>x y. ver_lt V y x) x xs)"
    by (auto simp: target_version_def split: list.splits)
  let ?w = "least (\<lambda>x y. ver_lt V y x) x xs"
  have parsed: "v \<in> set (x # xs) \<longleftrightarrow> (\<exists>s\<in>set vs. ver_parse V s = Some v)" for v
    unfolding x [symmetric] by (rule mem_map_filter)
  have "\<exists>v. ver_parse V s = Some v \<and> \<not> ver_lt V ?w v" if s: "s \<in> set vs" for s
  proof -
    from all s obtain v where v: "ver_parse V s = Some v" by (auto simp: list_ex_iff)
    with parsed s have "v \<in> set (x # xs)" by blast
    with fold_greatest [OF assms(2), of x xs] v show ?thesis by blast
  qed
  moreover have "?w \<in> set (x # xs)" by (rule least_member)
  ultimately show ?thesis using parsed t by blast
qed

lemma propose_dep_new:
  assumes "propose_dep V now excluded p (d, n) = Inr (d', n')" and "u \<in> set (update_proposals d')" and "u \<notin> set (update_proposals d)"
  shows "pd_name p \<notin> set excluded \<and> target_version V (fixed_of (active_findings p d)) = Some (up_target_version u)
     \<and> up_dependency_id u = pd_id p \<and> up_current_version u = pd_version p
     \<and> up_reason u = (if list_ex df_kev (active_findings p d) then ''kev_fix'' else ''cve_fix'')
     \<and> up_cves_fixed u = map df_cve_id (filter (truthy_str \<circ> df_fixed_version) (active_findings p d))
     \<and> list_all (\<lambda>q. \<not> pending_for (pd_id p) (up_target_version u) q) (update_proposals d)"
  using assms
  by (auto simp: propose_dep_def Let_def rbind_eq_Inr fresh_id_def block_dep_def new_update_proposal_def list_all_iff
      split: if_splits option.splits dest!: scalar_filter_NoneD)

lemma active_findings_set:
  "set (active_findings p d) = {f \<in> set (dependency_findings d). df_dependency_id f = pd_id p \<and> \<not> df_suppressed f}"
  by (auto simp: active_findings_def)

lemma fixed_of_set: "set (fixed_of fs) = (the \<circ> df_fixed_version) ` {f \<in> set fs. truthy_str (df_fixed_version f)}"
  by (auto simp: fixed_of_def)

text \<open>
  C14: What an update proposal targets. It is raised for a package that is not excluded; its target is
  the text of the highest of the versions that fix a finding of the package that is not suppressed, so no
  fix is above it; it lists the identifiers of exactly these findings; it is marked as the fix
  of an exploited vulnerability if one of the findings is in the KEV catalog; and no proposal for
  the package that is pending names the same text.
\<close>

theorem proposal_covers_findings:
  assumes "propose_dep V now excluded p (d, n) = Inr (d', n')" and "versions_ok V"
    and "u \<in> set (update_proposals d')" and "u \<notin> set (update_proposals d)"
    and "fs = {f \<in> set (dependency_findings d). df_dependency_id f = pd_id p \<and> \<not> df_suppressed f}"
    and "fixes = {f \<in> fs. truthy_str (df_fixed_version f)}"
  shows "pd_name p \<notin> set excluded \<and> up_dependency_id u = pd_id p
     \<and> (\<exists>w. up_target_version u = ver_str V w
          \<and> (\<exists>f\<in>fixes. ver_parse V (the (df_fixed_version f)) = Some w)
          \<and> (\<forall>f\<in>fixes. \<exists>v. ver_parse V (the (df_fixed_version f)) = Some v \<and> \<not> ver_lt V w v))
     \<and> set (up_cves_fixed u) = df_cve_id ` fixes
     \<and> (up_reason u = ''kev_fix'') = (\<exists>f\<in>fs. df_kev f)
     \<and> (\<forall>q\<in>set (update_proposals d). up_dependency_id q = pd_id p \<and> up_status q \<in> {''proposed'', ''ai_validated'', ''approved'', ''applying''}
          \<longrightarrow> up_target_version q \<noteq> up_target_version u)"
proof -
  note new = propose_dep_new [OF assms(1,3,4)]
  have fs: "set (active_findings p d) = fs" by (simp add: active_findings_set assms(5))
  have fixed: "set (fixed_of (active_findings p d)) = (the \<circ> df_fixed_version) ` fixes"
    by (simp add: fixed_of_set fs assms(6))
  from new have "target_version V (fixed_of (active_findings p d)) = Some (up_target_version u)" by blast
  from target_version_greatest [OF this assms(2)] have "\<exists>w. up_target_version u = ver_str V w
      \<and> (\<exists>f\<in>fixes. ver_parse V (the (df_fixed_version f)) = Some w)
      \<and> (\<forall>f\<in>fixes. \<exists>v. ver_parse V (the (df_fixed_version f)) = Some v \<and> \<not> ver_lt V w v)"
    unfolding fixed by auto
  moreover from new have "set (up_cves_fixed u) = df_cve_id ` fixes" by (auto simp: fs assms(6))
  moreover from new have "(up_reason u = ''kev_fix'') = (\<exists>f\<in>fs. df_kev f)" by (auto simp: list_ex_iff fs)
  moreover from new have "\<forall>q\<in>set (update_proposals d). up_dependency_id q = pd_id p
        \<and> up_status q \<in> {''proposed'', ''ai_validated'', ''approved'', ''applying''} \<longrightarrow> up_target_version q \<noteq> up_target_version u"
    by (auto simp: list_all_iff pending_for_def pending_statuses_def)
  ultimately show ?thesis using new by blast
qed

text \<open>
  a prepared patch that is cancelled can stop the proposals for good. While a proposal is
  ready for a pull request it does not count as pending, so the next run proposes the same
  target again; cancelling the patch makes the first one approved again, two pending proposals
  match, and from then on every run that meets the package ends in an exception.
\<close>

theorem cancelled_patch_blocks_proposals:
  assumes "propose_dep V now excluded p (d, n) = Inr (d1, n')" and "u' \<in> set (update_proposals d1)" and "u' \<notin> set (update_proposals d)"
    and "u \<in> set (update_proposals d)" and "up_status u = ''ready_for_pr''" and "up_dependency_id u = pd_id p"
    and "up_target_version u = up_target_version u'" and "proposals_ok d1"
  shows "fst (rollback_proposal (up_id u) d1) = Inr True
     \<and> propose_dep V later excluded p (snd (rollback_proposal (up_id u) d1), m) = Inl MultipleResultsFound"
proof -
  note new = propose_dep_new [OF assms(1-3)]
  let ?d2 = "snd (rollback_proposal (up_id u) d1)"
  let ?pending = "pending_for (pd_id p) (up_target_version u')"
  have keep: "active_findings p d1 = active_findings p d" and old: "set (update_proposals d) \<subseteq> set (update_proposals d1)"
    and fresh: "up_status u' = ''proposed''"
    using assms(1-3)
    by (auto simp: propose_dep_def Let_def rbind_eq_Inr fresh_id_def block_dep_def active_findings_def new_update_proposal_def
        split: if_splits option.splits)
  have sole: "r = u" if "r \<in> set (update_proposals d1)" "up_id r = up_id u" for r
    using that assms(4,8) old by (auto simp: proposals_ok_def distinct_map inj_on_def)
  have "filter (\<lambda>r. up_id r = up_id u) (update_proposals d1) = [u]"
    using assms(4,8) old by (intro filter_id_single) (auto simp: proposals_ok_def)
  then have d2: "rollback_proposal (up_id u) d1 = (Inr True, d1\<lparr>update_proposals :=
      update_where (\<lambda>r. up_id r = up_id u) cancel_patch (update_proposals d1)\<rparr>)"
    by (simp add: rollback_proposal_def assms(5))
  have "cancel_patch u \<in> set (update_proposals ?d2)" "?pending (cancel_patch u)"
    using assms(4,6,7) old by (auto simp: d2 set_update_where cancel_patch_def pending_for_def pending_statuses_def)
  moreover have "u' \<noteq> u" using assms(5) fresh by auto
  then have "up_id u' \<noteq> up_id u" using sole assms(2) by blast
  then have "u' \<in> set (update_proposals ?d2)" "?pending u'" "u' \<noteq> cancel_patch u"
    using assms(2) new fresh by (auto simp: d2 set_update_where cancel_patch_def pending_for_def pending_statuses_def)
  ultimately have "scalar_one_or_none (filter ?pending (update_proposals ?d2)) = Inl MultipleResultsFound"
    by (intro scalar_one_or_none_two [of "cancel_patch u" _ u']) auto
  moreover have "active_findings p ?d2 = active_findings p d" using keep by (simp add: d2 active_findings_def)
  moreover from new have "target_version V (fixed_of (active_findings p d)) = Some (up_target_version u')" by blast
  moreover from this have "fixed_of (active_findings p d) \<noteq> []" by (auto simp: target_version_def)
  ultimately show ?thesis using new by (simp add: d2 propose_dep_def Let_def)
qed

section \<open>The patch and the assessment\<close>

lemma patched_no_newline:
  assumes "newline \<notin> set package" and "newline \<notin> set target" and "l \<in> set (patched_lines package target original)"
  shows "newline \<notin> set l"
  using assms split_on_free [of _ newline original] by (auto simp: patched_lines_def newline_def split: if_splits)

text \<open>
  what a prepared patch changes. It is the difference between the requirements file and a
  file with the same number of lines in which exactly the lines that require the package are
  replaced by a pin to the target version, at least one line being such a line.
\<close>

theorem patch_pins_exactly:
  assumes "se_requirements env = Some (Inr original)" and "prepare env p = Inr (q, True)"
    and "newline \<notin> set (up_package_name p)" and "newline \<notin> set (up_target_version p)"
  shows "\<exists>proposed. jget (up_rollback_snapshot q) ''proposal_patch''
        = PStr (join [newline] (se_diff env (splitlines original) (splitlines proposed)))
     \<and> list_all2 (\<lambda>old new. new = (if requirement_of (up_package_name p) old
                                   then up_package_name p @ ''=='' @ up_target_version p else old))
         (split_on newline original) (split_on newline proposed)
     \<and> list_ex (requirement_of (up_package_name p)) (split_on newline original)"
proof -
  let ?lines = "patched_lines (up_package_name p) (up_target_version p) original"
  let ?proposed = "join [newline] ?lines"
  have ne: "?lines \<noteq> []" by (simp add: patched_lines_def)
  have round: "split_on newline ?proposed = ?lines"
    using patched_no_newline [OF assms(3,4)] ne by (intro split_on_join) auto
  have q: "list_ex (requirement_of (up_package_name p)) (split_on newline original)"
    "jget (up_rollback_snapshot q) ''proposal_patch''
        = PStr (join [newline] (se_diff env (splitlines original) (splitlines ?proposed)))"
    using assms(1,2) by (auto simp: prepare_def Let_def jget_def split: if_splits)
  have pins: "list_all2 (\<lambda>old new. new = (if requirement_of (up_package_name p) old
                                   then up_package_name p @ ''=='' @ up_target_version p else old))
         (split_on newline original) (split_on newline ?proposed)"
    unfolding round by (simp add: patched_lines_def list_all2_map2 list_all2_same)
  from q(2) pins q(1) show ?thesis by blast
qed

lemma normalized_recommendation:
  assumes "normalize_assessment env r = Inr a"
  shows "jget_or a ''recommendation'' dflt \<in> set recommendations"
proof -
  let ?r1 = "if map_of r ''recommendation'' = None then jset ''recommendation'' (PStr ''manual_review'') r else r"
  let ?r2 = "if jget ?r1 ''recommendation'' \<notin> set recommendations then jset ''recommendation'' (PStr ''manual_review'') ?r1 else ?r1"
  have some: "map_of ?r2 ''recommendation'' \<noteq> None" by (auto simp: map_of_jset)
  have rec: "jget ?r2 ''recommendation'' \<in> set recommendations" by (auto simp: recommendations_def)
  have "map_of a ''recommendation'' = map_of ?r2 ''recommendation''"
    using assms by (auto simp: normalize_assessment_def Let_def rbind_eq_Inr map_of_jset)
  with some rec show ?thesis by (auto simp: jget_or_def jget_def split: option.splits)
qed

lemma assess_update_recommendation:
  assumes "assess_update env package current target reason ids = Inr a"
  shows "jget_or a ''recommendation'' dflt \<in> set recommendations"
proof -
  consider r where "normalize_assessment env r = Inr a" | e where "a = unavailable_assessment e" | w where "a = malformed_assessment w"
    using assms by (auto simp: assess_update_def Let_def split: sum.splits option.splits pyval.splits)
  then show ?thesis
  proof cases
    case (1 r)
    then show ?thesis by (rule normalized_recommendation)
  qed (simp_all add: unavailable_assessment_def malformed_assessment_def jget_or_def recommendations_def)
qed

lemma record_assessment_recommendation:
  assumes "record_assessment env a p = Inr (Inr q)" and "jget_or a ''recommendation'' (PStr ''manual_review'') \<in> set recommendations"
  shows "up_ai_recommendation q \<in> {Some ''approve'', Some ''reject'', Some ''manual_review''}"
  using assms by (auto simp: record_assessment_def rbind_eq_Inr recommendations_def)

text \<open>
  the model only advises. Whatever it answers (nothing, text that is not JSON, JSON of any
  shape), an assessed proposal is exactly that: its status is ai_validated, the recommendation
  is one of approve, reject and manual review, it is manual review when assessing raised an
  exception, and who approved it is unchanged; only a summary that is not a text fails, when the
  row is written.
\<close>

theorem assessment_only_advises:
  "case validate_one env p of
     Inr (q, ok) \<Rightarrow> up_status q = ''ai_validated'' \<and> up_approved_by q = up_approved_by p
        \<and> up_ai_recommendation q \<in> {Some ''approve'', Some ''reject'', Some ''manual_review''}
        \<and> (if ok then True else up_ai_recommendation q = Some ''manual_review'')
   | Inl e \<Rightarrow> e = ServiceError ''StatementError''"
proof (cases "validate_one env p")
  case (Inl e)
  have "text_column v = Inl e' \<Longrightarrow> e' = ServiceError ''StatementError''" for v e'
    by (cases v) auto
  with Inl show ?thesis
    by (auto simp: validate_one_def rbind_eq_Inr rbind_eq_Inl record_assessment_def split: sum.splits)
next
  case (Inr r)
  obtain q ok where r: "r = (q, ok)" by (cases r)
  note v = Inr [unfolded r]
  show ?thesis
  proof (cases "rbind (assess_update env (up_package_name p) (up_current_version p) (up_target_version p) (up_reason p) (up_cves_fixed p))
             (\<lambda>a. record_assessment env a p)")
    case (Inl e)
    then have "q = p\<lparr>up_ai_recommendation := Some ''manual_review'',
           up_ai_assessment := [(''_error'', PStr (se_str_exn env e))], up_status := ''ai_validated''\<rparr>"
      using v by (simp add: validate_one_def)
    then show ?thesis by (simp add: v)
  next
    case a: (Inr s)
    then obtain a where "assess_update env (up_package_name p) (up_current_version p) (up_target_version p) (up_reason p) (up_cves_fixed p) = Inr a"
      "record_assessment env a p = Inr s" by (auto simp: rbind_eq_Inr)
    moreover have "s = Inr q \<and> ok" using v a by (auto simp: validate_one_def rbind_eq_Inr)
    ultimately show ?thesis
      using validate_one_status [OF v] record_assessment_recommendation assess_update_recommendation by (simp add: v) blast
  qed
qed

section \<open>Witnesses\<close>

definition sample_ss :: "nat ss_env" where
  "sample_ss = \<lparr> se_versions = nat_versions, se_dists = [(Some ''flask'', ''4'')],
     se_osv = (\<lambda>dep. Inr [sample_vuln]), se_latest = (\<lambda>n. Inr (Some ''7'')),
     se_prompt = (\<lambda>a b c d e. a), se_ai = (\<lambda>p. Inl (ServiceError ''ConnectError'')), se_json = (\<lambda>s. None),
     se_float = (\<lambda>s. None), se_str_exn = exn_class, se_requirements = Some (Inr (''fastapi==1'' @ [newline] @ ''flask>=3'')),
     se_diff = (\<lambda>a b. b) \<rparr>"

definition sample_proposal :: update_proposal where
  "sample_proposal = (new_update_proposal 3 0)\<lparr>up_dependency_id := 1, up_package_name := ''flask'',
     up_current_version := ''4'', up_target_version := ''5'', up_status := ''approved'',
     up_approved_by := Some ''ana'', up_approved_at := Some 2\<rparr>"

definition sample_dep :: platform_dependency where
  "sample_dep = (new_platform_dependency 1 0)\<lparr>pd_component := ''api'', pd_package_type := ''pip'', pd_name := ''flask'',
     pd_version := ''4'', pd_cve_count := 1\<rparr>"

definition sample_finding :: dependency_finding where
  "sample_finding = (new_dependency_finding 2 0)\<lparr>df_dependency_id := 1, df_cve_id := ''CVE-2024-1'', df_fixed_version := Some ''5''\<rparr>"

definition sample_ss_db :: db where
  "sample_ss_db = empty_db\<lparr>next_id := 10, platform_dependencies := [sample_dep], dependency_findings := [sample_finding],
     update_proposals := [sample_proposal]\<rparr>"

lemmas sample_ss_defs = sample_ss_def sample_proposal_def sample_dep_def sample_finding_def sample_ss_db_def
  new_update_proposal_def new_platform_dependency_def new_dependency_finding_def empty_db_def

lemma sample_ss_ok: "proposals_ok sample_ss_db"
  by (simp add: proposals_ok_def reviewed_def sample_ss_defs)

theorem ss_step_refines_workflow_witness:
  "evolves sample_ss_db (snd (apply_approved_updates sample_ss 5 None sample_ss_db))
   \<and> map up_status (update_proposals (snd (apply_approved_updates sample_ss 5 None sample_ss_db))) = [''ready_for_pr'']"
proof -
  have "ss_step nat_versions sample_ss_db (snd (apply_approved_updates sample_ss 5 None sample_ss_db))"
    by (rule s_apply) (simp add: sample_ss_def)
  from ss_step_refines_workflow [OF this sample_ss_ok]
  have "evolves sample_ss_db (snd (apply_approved_updates sample_ss 5 None sample_ss_db))" by blast
  moreover have "map up_status (update_proposals (snd (apply_approved_updates sample_ss 5 None sample_ss_db))) = [''ready_for_pr'']"
    by code_simp
  ultimately show ?thesis by blast
qed

definition sample_run :: db where
  "sample_run = snd (propose_updates sample_ss 5 (snd (scan_platform_deps sample_ss 4 empty_db)))"

lemma sample_run_rows:
  "map (\<lambda>u. (up_id u, up_status u, up_package_name u, up_target_version u)) (update_proposals sample_run)
     = [(4, ''proposed'', ''flask'', ''5'')]"
  by code_simp

theorem no_patch_without_approval_witness:
  "let d = snd (approve_proposal (\<lambda>s. s) 6 sample_request (JwtUser sample_user) 4 sample_run)
   in map up_status (update_proposals d) = [''approved''] \<and> map up_approved_by (update_proposals d) = [Some ''ana'']
      \<and> list_all (\<lambda>p. up_approved_at p \<noteq> None) (update_proposals d)"
proof -
  let ?d = "snd (approve_proposal (\<lambda>s. s) 6 sample_request (JwtUser sample_user) 4 sample_run)"
  have "ss_step nat_versions empty_db (snd (scan_platform_deps sample_ss 4 empty_db))"
    by (rule s_scan) (simp add: sample_ss_def)
  moreover have "ss_step nat_versions (snd (scan_platform_deps sample_ss 4 empty_db)) sample_run"
    unfolding sample_run_def by (rule s_propose) (simp add: sample_ss_def)
  moreover have "ss_step nat_versions sample_run ?d" by (rule s_approve)
  ultimately have run: "(ss_step nat_versions)\<^sup>*\<^sup>* empty_db ?d"
    by (meson converse_rtranclp_into_rtranclp r_into_rtranclp)
  obtain u where u: "update_proposals sample_run = [u]" "up_id u = 4" "up_status u = ''proposed''"
    using sample_run_rows by (auto simp: map_eq_Cons_conv)
  then have rows: "update_proposals ?d = [approve_mut 6 (JwtUser sample_user) u]"
    by (simp add: approve_proposal_def the_proposal_def or_404_def)
  then have "\<forall>p\<in>set (update_proposals ?d). up_status p = ''approved''" by (simp add: approve_mut_def)
  moreover have "(\<forall>p\<in>set (update_proposals ?d). up_status p \<in> {''approved'', ''ready_for_pr'', ''failed''} \<longrightarrow>
            up_approved_by p \<noteq> None \<and> up_approved_at p \<noteq> None)"
    using no_patch_without_approval [OF run] by (simp add: empty_db_def)
  ultimately have "\<forall>p\<in>set (update_proposals ?d). up_approved_at p \<noteq> None" by blast
  then show ?thesis
    unfolding Let_def rows by (simp add: approve_mut_def sample_user_def new_user_def)
qed

lemma succeeded_outcome:
  assumes "case fst r of Inr (ScanSucceeded n a b c) \<Rightarrow> True | _ \<Rightarrow> False"
  obtains n a b c d' where "r = (Inr (ScanSucceeded n a b c), d')"
  using assms by (cases r) (auto split: sum.splits scan_outcome.splits)

lemma sample_scan_outcome:
  "case fst (scan_platform_deps sample_ss 4 empty_db) of Inr (ScanSucceeded n a b c) \<Rightarrow> True | _ \<Rightarrow> False"
  by code_simp

lemma sample_scan_settings:
  obtains s d0 where "get_settings 4 empty_db = Inr (s, d0)" and "ss_excluded_packages s = []"
  by (simp add: get_settings_def empty_db_def Let_def lock_down_def new_self_security_settings_def)

lemma sample_scan_deps: "scan_installed_python_deps ''api'' (se_dists sample_ss) = [pip_dep ''api'' ''flask'' ''4'']"
  by code_simp

lemma sample_scan_ids:
  "map fd_cve_id (find_vulns nat_versions (pip_dep ''api'' ''flask'' ''4'') [sample_vuln]) = [''CVE-2024-1'']"
  by code_simp

lemma sample_answer: "answers sample_ss [] dep fs \<Longrightarrow> fs = find_vulns nat_versions dep [sample_vuln]"
  by (simp add: answers_def sample_ss_def)

theorem scan_refreshes_inventory_witness:
  "\<exists>n a b c d'. scan_platform_deps sample_ss 4 empty_db = (Inr (ScanSucceeded n a b c), d')
     \<and> (\<exists>p\<in>set (platform_dependencies d'). pd_name p = ''flask'' \<and> ids_of (pd_id p) d' = {''CVE-2024-1''})"
proof -
  let ?dep = "pip_dep ''api'' ''flask'' ''4''"
  obtain n a b c d' where s: "scan_platform_deps sample_ss 4 empty_db = (Inr (ScanSucceeded n a b c), d')"
    using sample_scan_outcome by (rule succeeded_outcome)
  obtain s d0 where g: "get_settings 4 empty_db = Inr (s, d0)" and ex: "ss_excluded_packages s = []"
    by (rule sample_scan_settings)
  have ok: "deps_ok empty_db" by (simp add: deps_ok_def empty_db_def)
  have "?dep \<in> set (scan_installed_python_deps ''api'' (se_dists sample_ss))" by (simp only: sample_scan_deps, simp)
  from bspec [OF conjunct1 [OF scan_refreshes_inventory [OF s g ok]] this]
  obtain fs p where f: "answers sample_ss [] ?dep fs" "p \<in> set (platform_dependencies d')" "pd_name p = dr_name ?dep"
    "ids_of (pd_id p) d' = fd_cve_id ` set fs"
    unfolding ex by (elim exE conjE bexE)
  have "fs = find_vulns nat_versions ?dep [sample_vuln]" by (rule sample_answer [OF f(1)])
  then have "fd_cve_id ` set fs = {''CVE-2024-1''}" using arg_cong [OF sample_scan_ids, of set] by simp
  with f(4) have ids: "ids_of (pd_id p) d' = {''CVE-2024-1''}" by (rule trans)
  have name: "pd_name p = ''flask''" using f(3) by (simp add: pip_dep_def)
  show ?thesis
    by (intro exI conjI bexI) (rule s, rule name, rule ids, rule f(2))
qed

theorem duplicate_advisory_aborts_scan_witness:
  "let env = sample_ss\<lparr>se_osv := (\<lambda>dep. Inr [sample_vuln, sample_vuln\<lparr>ov_id := ''GHSA-1''\<rparr>])\<rparr>
   in fst (scan_platform_deps env 4 empty_db) = Inl IntegrityError
      \<and> list_ex (\<lambda>r. ss_last_scan_status r = ''running'') (settings_rows (snd (scan_platform_deps env 4 empty_db)))"
proof -
  let ?env = "sample_ss\<lparr>se_osv := (\<lambda>dep. Inr [sample_vuln, sample_vuln\<lparr>ov_id := ''GHSA-1''\<rparr>])\<rparr>"
  let ?fs = "find_vulns nat_versions (pip_dep ''api'' ''flask'' ''4'') [sample_vuln, sample_vuln\<lparr>ov_id := ''GHSA-1''\<rparr>]"
  obtain s d1 where g: "get_settings 4 empty_db = Inr (s, d1)" and ex: "ss_excluded_packages s = []"
    by (simp add: get_settings_def empty_db_def Let_def lock_down_def new_self_security_settings_def)
  have dep: "scan_installed_python_deps ''api'' (se_dists ?env) = [pip_dep ''api'' ''flask'' ''4'']" by code_simp
  then have run: "run_scanner ?env (ss_excluded_packages s) = Inr [(pip_dep ''api'' ''flask'' ''4'', ?fs, Some ''7'')]"
    by (simp add: run_scanner_def ex Let_def) (simp add: sample_ss_def)
  have ok: "deps_ok empty_db" and none: "find_dep (pip_dep ''api'' ''flask'' ''4'') empty_db = Inr None"
    by (simp_all add: deps_ok_def find_dep_def empty_db_def)
  have "\<not> distinct (map fd_cve_id ?fs)" by code_simp
  from duplicate_advisory_aborts_scan [OF g run ok none this] show ?thesis
    by (auto simp: Let_def list_ex_iff)
qed

text \<open>
  The highest of the fixes 1.2 and 1.10 is proposed. Whether a target is pending is decided by its text:
  where 1.0 is approved, a new advisory fixed in 1.0.0, the same release, is proposed again.
\<close>

definition fixed_in :: "string list \<Rightarrow> db" where
  "fixed_in vs = sample_ss_db\<lparr>dependency_findings := map (\<lambda>v. sample_finding\<lparr>df_fixed_version := Some v\<rparr>) vs, update_proposals := []\<rparr>"

theorem proposal_covers_findings_witness:
  "\<exists>d' n' u w. propose_dep release_versions 5 [] sample_dep (fixed_in [''1.2'', ''1.10''], 0) = Inr (d', n')
     \<and> update_proposals d' = [u] \<and> up_dependency_id u = 1 \<and> set (up_cves_fixed u) = {''CVE-2024-1''}
     \<and> up_target_version u = ver_str release_versions w \<and> \<not> ver_lt release_versions w (1, [10])"
proof -
  let ?d = "fixed_in [''1.2'', ''1.10'']"
  let ?f = "\<lambda>v. sample_finding\<lparr>df_fixed_version := Some v\<rparr>"
  have act: "active_findings sample_dep ?d = [?f ''1.2'', ?f ''1.10'']"
    by (simp add: active_findings_def fixed_in_def sample_ss_defs)
  have fixed: "fixed_of [?f ''1.2'', ?f ''1.10''] = [''1.2'', ''1.10'']" by (simp add: fixed_of_def)
  have t: "target_version release_versions [''1.2'', ''1.10''] = Some ''1.10''" by code_simp
  have none: "update_proposals ?d = []" by (simp add: fixed_in_def)
  obtain d' n' u where p: "propose_dep release_versions 5 [] sample_dep (?d, 0) = Inr (d', n')" and u: "update_proposals d' = [u]"
    by (simp add: propose_dep_def Let_def act t fresh_id_def fixed none)
  have new: "u \<in> set (update_proposals d')" "u \<notin> set (update_proposals ?d)" by (simp_all add: u none)
  note covers = proposal_covers_findings [OF p release_versions_ok new HOL.refl HOL.refl]
  have "{f \<in> {f \<in> set (dependency_findings ?d). df_dependency_id f = pd_id sample_dep \<and> \<not> df_suppressed f}. truthy_str (df_fixed_version f)}
      = {?f ''1.2'', ?f ''1.10''}"
    unfolding active_findings_set [symmetric] act by auto
  note covers [unfolded this]
  moreover have "ver_parse release_versions ''1.10'' = Some (1, [10])" by code_simp
  moreover have "pd_id sample_dep = 1" by (simp add: sample_dep_def new_platform_dependency_def)
  moreover have "df_cve_id sample_finding = ''CVE-2024-1''" by (simp add: sample_finding_def)
  ultimately show ?thesis using p u by (intro exI [of _ d'] exI [of _ n'] exI [of _ u]) auto
qed

lemma respelled_fix_proposed_again:
  "\<exists>d'. propose_dep release_versions 5 [] sample_dep
       ((fixed_in [''1.0.0''])\<lparr>update_proposals := [sample_proposal\<lparr>up_target_version := ''1.0''\<rparr>]\<rparr>, 0) = Inr (d', 1)
     \<and> map up_target_version (update_proposals d') = [''1.0'', ''1.0.0'']"
proof -
  let ?d = "(fixed_in [''1.0.0''])\<lparr>update_proposals := [sample_proposal\<lparr>up_target_version := ''1.0''\<rparr>]\<rparr>"
  let ?f = "sample_finding\<lparr>df_fixed_version := Some ''1.0.0''\<rparr>"
  have act: "active_findings sample_dep ?d = [?f]"
    by (simp add: active_findings_def fixed_in_def sample_ss_defs)
  have fixed: "fixed_of [?f] = [''1.0.0'']" by (simp add: fixed_of_def)
  have t: "target_version release_versions [''1.0.0''] = Some ''1.0.0''" by code_simp
  show ?thesis
    by (simp add: propose_dep_def Let_def act t fresh_id_def fixed pending_for_def)
qed

theorem cancelled_patch_blocks_proposals_witness:
  "let d = sample_ss_db\<lparr>update_proposals := [sample_proposal\<lparr>up_status := ''ready_for_pr''\<rparr>]\<rparr>
   in \<exists>d1. propose_dep nat_versions 5 [] sample_dep (d, 0) = Inr (d1, 1)
        \<and> propose_dep nat_versions 9 [] sample_dep (snd (rollback_proposal 3 d1), 0) = Inl MultipleResultsFound"
proof -
  let ?u = "sample_proposal\<lparr>up_status := ''ready_for_pr''\<rparr>"
  let ?d = "sample_ss_db\<lparr>update_proposals := [?u]\<rparr>"
  have t: "target_version nat_versions [''5''] = Some ''5''" by code_simp
  have act: "active_findings sample_dep ?d = [sample_finding]"
    by (simp add: active_findings_def sample_ss_defs)
  have fix5: "fixed_of [sample_finding] = [''5'']" by code_simp
  have none: "\<not> pending_for (pd_id sample_dep) ''5'' ?u"
    by (simp add: pending_for_def pending_statuses_def)
  obtain d1 u where p: "propose_dep nat_versions 5 [] sample_dep (?d, 0) = Inr (d1, 1)"
    and u: "update_proposals d1 = [?u, u]" "up_id u = 10" "up_status u = ''proposed''" "up_target_version u = ''5''"
      "next_id d1 = 11"
    using none by (simp add: propose_dep_def Let_def act t fresh_id_def fix5)
      (simp add: sample_ss_db_def new_update_proposal_def)
  have ne: "u \<noteq> ?u" using u(3) by auto
  have ok: "proposals_ok d1"
    using u by (simp add: proposals_ok_def reviewed_def) (simp add: sample_proposal_def new_update_proposal_def)
  have keys: "up_dependency_id ?u = pd_id sample_dep" "up_target_version ?u = up_target_version u" "up_id ?u = 3"
    by (simp_all add: u(4) sample_proposal_def new_update_proposal_def sample_dep_def new_platform_dependency_def)
  have new: "u \<in> set (update_proposals d1)" "u \<notin> set (update_proposals ?d)" "?u \<in> set (update_proposals ?d)"
    using ne by (simp_all add: u(1))
  from cancelled_patch_blocks_proposals [OF p new _ keys(1,2) ok, of 9 0] show ?thesis
    using p by (simp add: Let_def keys(3))
qed

theorem patch_pins_exactly_witness:
  "\<exists>q. prepare sample_ss sample_proposal = Inr (q, True)
     \<and> list_ex (requirement_of ''flask'') (split_on newline (''fastapi==1'' @ [newline] @ ''flask>=3''))"
proof -
  obtain q where q: "prepare sample_ss sample_proposal = Inr (q, True)"
  proof -
    have "(case prepare sample_ss sample_proposal of Inl e \<Rightarrow> False | Inr r \<Rightarrow> snd r)" by code_simp
    then show thesis using that by (cases "prepare sample_ss sample_proposal") (auto simp: prod_eq_iff)
  qed
  have se: "se_requirements sample_ss = Some (Inr (''fastapi==1'' @ [newline] @ ''flask>=3''))" by (simp add: sample_ss_def)
  have name: "up_package_name sample_proposal = ''flask''" "up_target_version sample_proposal = ''5''"
    by (simp_all add: sample_proposal_def)
  have "newline \<notin> set (up_package_name sample_proposal)" "newline \<notin> set (up_target_version sample_proposal)"
    unfolding name newline_def by simp_all
  from patch_pins_exactly [OF se q this] have "list_ex (requirement_of ''flask'') (split_on newline (''fastapi==1'' @ [newline] @ ''flask>=3''))"
    unfolding name by (elim exE conjE)
  with q show ?thesis by blast
qed

end
