(* ===== verification/PyJson.thy ===== *)
theory PyJson
  imports Models "HOL-Library.List_Lexorder" "HOL-Library.Char_ord"
begin

text \<open>
  \<open>json.dumps\<close> with \<open>ensure_ascii\<close>, for the separators and the key order the program asks
  for. How a float is printed (its \<open>repr\<close>) is a parameter.
\<close>

definition json_hex :: "nat \<Rightarrow> char" where
  "json_hex d = (if d < 10 then char_of (48 + d) else char_of (87 + d))"

definition json_char :: "char \<Rightarrow> string" where
  "json_char c = (let n = char_code c in
     if n = 92 then [CHR 92, CHR 92]
     else if n = 34 then [CHR 92, CHR 34]
     else if n = 8 then [CHR 92, CHR ''b'']
     else if n = 9 then [CHR 92, CHR ''t'']
     else if n = 10 then [CHR 92, CHR ''n'']
     else if n = 12 then [CHR 92, CHR ''f'']
     else if n = 13 then [CHR 92, CHR ''r'']
     else if 32 \<le> n \<and> n \<le> 126 then [c]
     else CHR 92 # ''u00'' @ [json_hex (n div 16), json_hex (n mod 16)])"

definition json_str :: "string \<Rightarrow> string" where
  "json_str s = CHR 34 # concat (map json_char s) @ [CHR 34]"

text \<open>\<open>sort_keys=True\<close>: every dictionary in the order of its keys.\<close>

fun sort_keys :: "pyval \<Rightarrow> pyval" where
  "sort_keys (PList xs) = PList (map sort_keys xs)"
| "sort_keys (PDict d) = PDict (sort_key fst (map (\<lambda>(k, v). (k, sort_keys v)) d))"
| "sort_keys v = v"

fun dumps :: "(rat \<Rightarrow> string) \<Rightarrow> string \<Rightarrow> string \<Rightarrow> pyval \<Rightarrow> string" where
  "dumps fl isep ksep PNone = ''null''"
| "dumps fl isep ksep (PBool b) = (if b then ''true'' else ''false'')"
| "dumps fl isep ksep (PInt i) = show_int i"
| "dumps fl isep ksep (PFloat x) = fl x"
| "dumps fl isep ksep (PStr s) = json_str s"
| "dumps fl isep ksep (PList xs) = ''['' @ join isep (map (dumps fl isep ksep) xs) @ '']''"
| "dumps fl isep ksep (PDict d) =
     ''{'' @ join isep (map (\<lambda>(k, v). json_str k @ ksep @ dumps fl isep ksep v) d) @ ''}''"

text \<open>\<open>json.dumps(v, sort_keys=True, separators=(",", ":"))\<close> and \<open>json.dumps(v)\<close>\<close>

definition canonical_json :: "(rat \<Rightarrow> string) \<Rightarrow> jdict \<Rightarrow> string" where
  "canonical_json fl d = dumps fl '','' '':'' (sort_keys (PDict d))"

definition plain_json :: "(rat \<Rightarrow> string) \<Rightarrow> jdict \<Rightarrow> string" where
  "plain_json fl d = dumps fl '', '' '': '' (PDict d)"

text \<open>The canonical text does not depend on the order in which a dictionary was filled.\<close>

lemma sort_key_fst_unique:
  fixes xs ys :: "('k::linorder \<times> 'v) list"
  assumes "set xs = set ys" "distinct (map fst xs)" "distinct (map fst ys)"
  shows "sort_key fst xs = sort_key fst ys"
proof (rule map_sorted_distinct_set_unique)
  show "inj_on fst (set (sort_key fst xs) \<union> set (sort_key fst ys))"
    using assms by (simp add: distinct_map)
qed (use assms in \<open>auto simp: distinct_map inj_on_def\<close>)

lemma canonical_json_order:
  assumes "set c = set d" "distinct (map fst c)" "distinct (map fst d)"
  shows "canonical_json fl c = canonical_json fl d"
proof -
  let ?f = "\<lambda>(k, v). (k :: string, sort_keys v)"
  have keys: "map fst (map ?f e) = map fst e" for e by (simp add: case_prod_beta)
  have "sort_key fst (map ?f c) = sort_key fst (map ?f d)"
    by (rule sort_key_fst_unique) (simp_all only: keys assms set_map)
  then show ?thesis by (simp add: canonical_json_def)
qed

end
