(* ===== verification/UrlParse.thy ===== *)
theory UrlParse
  imports NetAddr
begin

text \<open>
  What the source uses of \<open>urllib.parse.urlparse\<close> (Python 3.12): the scheme, the host name and
  the credentials of a URL. A malformed bracketed host raises \<open>ValueError\<close>; the text of the
  one that \<open>ip_address\<close> raises begins with the quoted host, which is left out here.
\<close>

text \<open>\<open>s.partition(c)\<close> and \<open>s.rpartition(c)\<close>: \<open>None\<close> when the separator does not occur.\<close>

definition cut_first :: "char \<Rightarrow> string \<Rightarrow> string \<times> string option" where
  "cut_first c s = (takeWhile (\<lambda>x. x \<noteq> c) s,
     if c \<in> set s then Some (drop 1 (dropWhile (\<lambda>x. x \<noteq> c) s)) else None)"

definition cut_last :: "char \<Rightarrow> string \<Rightarrow> string option \<times> string" where
  "cut_last c s = (if c \<in> set s then Some (rev (drop 1 (dropWhile (\<lambda>x. x \<noteq> c) (rev s)))) else None,
     rev (takeWhile (\<lambda>x. x \<noteq> c) (rev s)))"

definition opt_text :: "string option \<Rightarrow> string" where
  "opt_text s = (case s of None \<Rightarrow> [] | Some t \<Rightarrow> t)"

definition ascii_alpha :: "char \<Rightarrow> bool" where
  "ascii_alpha c = (let n = char_code c in 65 \<le> n \<and> n \<le> 90 \<or> 97 \<le> n \<and> n \<le> 122)"

definition scheme_char :: "char \<Rightarrow> bool" where
  "scheme_char c = (ascii_alpha c \<or> is_digit c \<or> c \<in> set ''+-.'')"

definition clean_url :: "string \<Rightarrow> string" where
  "clean_url url = filter (\<lambda>c. char_code c \<notin> {9, 10, 13}) (dropWhile (\<lambda>c. char_code c \<le> 32) url)"

definition split_scheme :: "string \<Rightarrow> string \<times> string" where
  "split_scheme url = (case cut_first (CHR '':'') url of
     (s, Some rest) \<Rightarrow> if s \<noteq> [] \<and> ascii_alpha (hd s) \<and> list_all scheme_char s then (lower s, rest) else ([], url)
   | _ \<Rightarrow> ([], url))"

definition netloc_of :: "string \<Rightarrow> string" where
  "netloc_of rest = (if starts_with ''//'' rest then takeWhile (\<lambda>c. c \<notin> set ''/?#'') (drop 2 rest) else [])"

definition ip_future :: "string \<Rightarrow> bool" where
  "ip_future h = (case cut_first (CHR ''.'') h of
     (v, Some t) \<Rightarrow> 2 \<le> length v \<and> list_all is_hex (tl v) \<and> t \<noteq> []
   | _ \<Rightarrow> False)"

definition check_bracketed_host :: "string \<Rightarrow> unit result" where
  "check_bracketed_host h =
     (if starts_with ''v'' h
      then if ip_future h then Inr () else Inl (ValueError ''IPvFuture address is invalid'')
      else case ip_address h of
        None \<Rightarrow> Inl (ValueError ''does not appear to be an IPv4 or IPv6 address'')
      | Some (V4 w) \<Rightarrow> Inl (ValueError ''An IPv4 address cannot be in brackets'')
      | Some (V6 w sc) \<Rightarrow> Inr ())"

text \<open>Host and port of a network location: between brackets, or up to the first colon.\<close>

definition host_of :: "string \<Rightarrow> string" where
  "host_of netloc = (let hp = snd (cut_last (CHR ''@'') netloc) in
     case cut_first (CHR ''['') hp of
       (pre, Some bracketed) \<Rightarrow> fst (cut_first (CHR '']'') bracketed)
     | (pre, None) \<Rightarrow> fst (cut_first (CHR '':'') hp))"

definition check_netloc :: "string \<Rightarrow> unit result" where
  "check_netloc netloc =
     (let lb = CHR ''['' \<in> set netloc; rb = CHR '']'' \<in> set netloc
      in if lb \<noteq> rb then Inl (ValueError ''Invalid IPv6 URL'')
         else if \<not> lb then Inr ()
         else case cut_first (CHR ''['') (snd (cut_last (CHR ''@'') netloc)) of
           (pre, None) \<Rightarrow> check_bracketed_host (host_of netloc)
         | (pre, Some bracketed) \<Rightarrow>
             if pre \<noteq> [] then Inl (ValueError ''Invalid IPv6 URL'')
             else let port = opt_text (snd (cut_first (CHR '']'') bracketed))
                  in if port \<noteq> [] \<and> \<not> starts_with '':'' port then Inl (ValueError ''Invalid IPv6 URL'')
                     else check_bracketed_host (host_of netloc))"

record parsed_url =
  pu_scheme :: string
  pu_netloc :: string

definition urlparse :: "string \<Rightarrow> parsed_url result" where
  "urlparse url =
     (let (scheme, rest) = split_scheme (clean_url url); netloc = netloc_of rest
      in rbind (check_netloc netloc) (\<lambda>_. Inr \<lparr> pu_scheme = scheme, pu_netloc = netloc \<rparr>))"

text \<open>The attributes; a missing host name is \<open>None\<close>, its zone keeps its case.\<close>

definition pu_hostname :: "parsed_url \<Rightarrow> string option" where
  "pu_hostname p = (let h = host_of (pu_netloc p) in
     if h = [] then None
     else case cut_first (CHR ''%'') h of
       (name, Some zone) \<Rightarrow> Some (lower name @ ''%'' @ zone)
     | (name, None) \<Rightarrow> Some (lower name))"

definition pu_username :: "parsed_url \<Rightarrow> string option" where
  "pu_username p = map_option (\<lambda>info. fst (cut_first (CHR '':'') info)) (fst (cut_last (CHR ''@'') (pu_netloc p)))"

definition pu_password :: "parsed_url \<Rightarrow> string option" where
  "pu_password p = (case fst (cut_last (CHR ''@'') (pu_netloc p)) of
     None \<Rightarrow> None | Some info \<Rightarrow> snd (cut_first (CHR '':'') info))"

lemma pu_hostname_not_Nil: "pu_hostname p = Some h \<Longrightarrow> h \<noteq> []"
  by (auto simp: pu_hostname_def cut_first_def Let_def takeWhile_eq_Nil_iff split: if_splits)
    (metis (mono_tags, lifting) hd_in_set)

end
