(* ===== verification/Webhooks.thy ===== *)
theory Webhooks
  imports AuthApi UrlParse PyJson
begin

text \<open>
  Outgoing webhooks: registration, rotation and removal (\<open>app/api/webhooks.py\<close>) and delivery
  with its address check, signature and retries (\<open>app/services/webhook_dispatcher.py\<close>). The
  resolver, HMAC, the HTTP client and the text of a \<open>RetryError\<close> are parameters.
\<close>

section \<open>Which URLs may be registered\<close>

definition blocked_hosts :: "string list" where
  "blocked_hosts = [''localhost'', ''metadata.google.internal'', ''metadata'']"

definition is_safe_webhook_url :: "string \<Rightarrow> bool \<times> string" where
  "is_safe_webhook_url url =
     (case urlparse url of
        Inl (ValueError m) \<Rightarrow> (False, ''Invalid URL: '' @ m)
      | Inl e \<Rightarrow> (False, ''Invalid URL: '')
      | Inr parsed \<Rightarrow>
          if pu_scheme parsed \<notin> {''http'', ''https''} then (False, ''Only http/https allowed, got '' @ pu_scheme parsed)
          else case pu_hostname parsed of
            None \<Rightarrow> (False, ''Missing hostname'')
          | Some host \<Rightarrow>
              if truthy_str (pu_username parsed) \<or> truthy_str (pu_password parsed)
              then (False, ''Webhook URLs must not contain username or password credentials'')
              else if lower host \<in> set blocked_hosts then (False, ''Blocked hostname: '' @ host)
              else case ip_address host of
                Some ip \<Rightarrow> if \<not> is_public_ip ip then (False, ''Webhook URL resolves to non-routable IP: '' @ show_addr ip)
                           else (True, [])
              | None \<Rightarrow> (True, []))"

text \<open>
  The request body after validation; the URL is the text of pydantic's \<open>HttpUrl\<close>. What a
  caller leaves out has the default.
\<close>

record webhook_create =
  wc_name :: string
  wc_url :: string
  wc_event_types :: "string list"
  wc_severity_filter :: "string list"

definition parse_webhook_create :: "(string \<Rightarrow> string option) \<Rightarrow> string \<Rightarrow> string \<Rightarrow> string list option \<Rightarrow>
    string list option \<Rightarrow> webhook_create result" where
  "parse_webhook_create http_url name url events severities =
     (if length name < 3 \<or> 128 < length name then Inl (HTTPException 422 ''name'')
      else case http_url url of
        None \<Rightarrow> Inl (HTTPException 422 ''url'')
      | Some v \<Rightarrow>
          (case is_safe_webhook_url v of
             (False, reason) \<Rightarrow> Inl (HTTPException 422 reason)
           | (True, _) \<Rightarrow> Inr \<lparr> wc_name = name, wc_url = v,
               wc_event_types = (case events of None \<Rightarrow> [''alert.created''] | Some e \<Rightarrow> e),
               wc_severity_filter = (case severities of None \<Rightarrow> [''critical'', ''high''] | Some s \<Rightarrow> s) \<rparr>))"

definition KNOWN_EVENTS :: "string list" where
  "KNOWN_EVENTS =
     [''alert.created'', ''alert.resolved'', ''asset.created'', ''asset.updated'', ''asset.shadow_detected'',
      ''scan.completed'', ''scan.failed'', ''self_security.cve_found'', ''self_security.update_proposed'',
      ''compliance.audit_complete'', ''integration.failed'']"

text \<open>What the declared column widths admit; PostgreSQL refuses a longer text at the flush.\<close>

definition webhook_fits :: "webhook \<Rightarrow> bool" where
  "webhook_fits w =
     (length (wh_name w) \<le> 128 \<and> length (wh_url w) \<le> 512 \<and> length (wh_secret_hash w) \<le> 256
      \<and> length (wh_secret_prefix w) \<le> 16 \<and> length (wh_secret_encrypted w) \<le> 1024
      \<and> length (wh_secret_salt w) \<le> 64
      \<and> (case wh_last_status w of None \<Rightarrow> True | Some s \<Rightarrow> length s \<le> 32))"

definition commit_webhooks :: "'a \<Rightarrow> db \<Rightarrow> db \<Rightarrow> 'a result \<times> db" where
  "commit_webhooks x work d =
     (if list_all webhook_fits (webhooks work) then (Inr x, work) else (Inl DataError, d))"

section \<open>Management\<close>

record created_webhook =
  cw_id :: nat
  cw_name :: string
  cw_url :: string
  cw_secret :: string
  cw_event_types :: "string list"

definition create_webhook :: "'r env \<Rightarrow> int \<Rightarrow> string \<Rightarrow> string \<Rightarrow> http_request \<Rightarrow> principal \<Rightarrow> webhook_create \<Rightarrow> db \<Rightarrow>
    created_webhook result \<times> db" where
  "create_webhook env now secret salt rq who b d =
     (let invalid = filter (\<lambda>e. e \<notin> set KNOWN_EVENTS) (wc_event_types b)
      in if invalid \<noteq> []
         then (Inl (HTTPException 400 (''Unknown events: '' @ repr_names (sort (remdups invalid))
                 @ ''. Known: '' @ repr_names (sort KNOWN_EVENTS))), d)
         else case encrypt_secret (env_cipher env) secret salt of
           Inl e \<Rightarrow> (Inl e, d)
         | Inr encrypted \<Rightarrow>
           (case urlparse (wc_url b) of
              Inl e \<Rightarrow> (Inl e, d)
            | Inr parsed \<Rightarrow>
              let (i, d1) = fresh_id d;
                  w = (new_webhook i now)\<lparr>wh_name := wc_name b, wh_url := wc_url b,
                        wh_secret_hash := env_hash env secret, wh_secret_prefix := take 8 secret,
                        wh_secret_encrypted := encrypted, wh_secret_salt := salt,
                        wh_event_types := wc_event_types b, wh_severity_filter := wc_severity_filter b\<rparr>;
                  d2 = audit (env_sha env) now rq ''webhook_created'' (Some who) (Some ''webhook'') (Some ''None'') ''info''
                        [(''name'', PStr (wc_name b)), (''events'', PList (map PStr (wc_event_types b))),
                         (''url_host'', opt_str (pu_hostname parsed))]
                        (d1\<lparr>webhooks := webhooks d1 @ [w]\<rparr>)
              in commit_webhooks \<lparr> cw_id = i, cw_name = wh_name w, cw_url = wh_url w, cw_secret = secret,
                   cw_event_types = wh_event_types w \<rparr> d2 d))"

definition the_webhook :: "nat \<Rightarrow> db \<Rightarrow> webhook result" where
  "the_webhook i d = rbind (scalar_one_or_none (filter (\<lambda>w. wh_id w = i) (webhooks d)))
     (\<lambda>found. case found of None \<Rightarrow> Inl (HTTPException 404 ''Not Found'') | Some w \<Rightarrow> Inr w)"

definition put_webhook :: "webhook \<Rightarrow> db \<Rightarrow> db" where
  "put_webhook w d = d\<lparr>webhooks := update_where (\<lambda>x. wh_id x = wh_id w) (\<lambda>x. w) (webhooks d)\<rparr>"

definition rotate_secret :: "'r env \<Rightarrow> int \<Rightarrow> string \<Rightarrow> string \<Rightarrow> http_request \<Rightarrow> principal \<Rightarrow> nat \<Rightarrow> db \<Rightarrow>
    string result \<times> db" where
  "rotate_secret env now secret salt rq who i d =
     (case the_webhook i d of
        Inl e \<Rightarrow> (Inl e, d)
      | Inr w \<Rightarrow>
          (case encrypt_secret (env_cipher env) secret salt of
             Inl e \<Rightarrow> (Inl e, d)
           | Inr encrypted \<Rightarrow>
               commit_webhooks secret
                 (audit (env_sha env) now rq ''webhook_secret_rotated'' (Some who) (Some ''webhook'') (Some (uuid_str i)) ''info'' []
                   (put_webhook (w\<lparr>wh_secret_hash := env_hash env secret, wh_secret_prefix := take 8 secret,
                      wh_secret_encrypted := encrypted, wh_secret_salt := salt\<rparr>) d)) d))"

definition delete_webhook :: "'r env \<Rightarrow> int \<Rightarrow> http_request \<Rightarrow> principal \<Rightarrow> nat \<Rightarrow> db \<Rightarrow> bool result \<times> db" where
  "delete_webhook env now rq who i d =
     (case the_webhook i d of
        Inl e \<Rightarrow> (Inl e, d)
      | Inr w \<Rightarrow> (Inr True,
          audit (env_sha env) now rq ''webhook_deleted'' (Some who) (Some ''webhook'') (Some (uuid_str i)) ''info'' []
            (d\<lparr>webhooks := filter (\<lambda>x. wh_id x \<noteq> i) (webhooks d)\<rparr>)))"

definition webhook_row :: "webhook \<Rightarrow> jdict" where
  "webhook_row w =
     [(''id'', PStr (uuid_str (wh_id w))), (''name'', PStr (wh_name w)), (''url'', PStr (wh_url w)),
      (''secret_prefix'', PStr (wh_secret_prefix w @ ''...'')),
      (''event_types'', PList (map PStr (wh_event_types w))),
      (''severity_filter'', PList (map PStr (wh_severity_filter w))), (''enabled'', PBool (wh_enabled w)),
      (''created_at'', PInt (wh_created_at w)),
      (''last_delivery'', (case wh_last_delivery w of None \<Rightarrow> PNone | Some t \<Rightarrow> PInt t)),
      (''delivery_count'', PInt (wh_delivery_count w)), (''failure_count'', PInt (wh_failure_count w)),
      (''last_status'', opt_str (wh_last_status w))]"

text \<open>Newest first; times are shown as they are stored.\<close>

definition list_webhooks :: "db \<Rightarrow> jdict list" where
  "list_webhooks d = map webhook_row (sort_key (\<lambda>w. - wh_created_at w) (webhooks d))"

section \<open>Delivery\<close>

record httpx_url =
  hx_scheme :: string
  hx_host :: string
  hx_port :: "nat option"

record pinned_request =
  pr_url :: string
  pr_connect_host :: string
  pr_host_header :: string
  pr_sni :: "string option"
  pr_headers :: "(string \<times> string) list"
  pr_body :: string

text \<open>
  The outcome of one request: a status, an \<open>httpx.HTTPError\<close> (time-outs are some of them), or
  another exception with its text.
\<close>

datatype reply = Reply nat | HttpError | OtherError string

record wh_env =
  we_dns :: "string \<Rightarrow> string list result"
  we_cipher :: cipher
  we_hmac :: "string \<Rightarrow> string \<Rightarrow> string"
  we_float :: "rat \<Rightarrow> string"
  we_httpx :: "string \<Rightarrow> httpx_url"
  we_send :: "nat \<Rightarrow> pinned_request \<Rightarrow> reply"
  we_retry_error :: string

text \<open>A \<open>gaierror\<close> of the resolver is a \<open>ServiceError\<close>; its other exceptions are not caught.\<close>

fun pick_public :: "string list \<Rightarrow> string option \<Rightarrow> string option \<times> string" where
  "pick_public [] resolved =
     (case resolved of
        None \<Rightarrow> (None, ''Hostname did not resolve to a usable IP address'')
      | Some ip \<Rightarrow> if ip = [] then (None, ''Hostname did not resolve to a usable IP address'') else (Some ip, []))"
| "pick_public (ip # ips) resolved =
     (case ip_address ip of
        None \<Rightarrow> pick_public ips resolved
      | Some a \<Rightarrow>
          if \<not> is_public_ip a then (None, ''Hostname resolves to non-routable IP: '' @ ip)
          else pick_public ips (str_or resolved (Some ip)))"

definition resolve_public_ip :: "wh_env \<Rightarrow> string \<Rightarrow> (string option \<times> string) result" where
  "resolve_public_ip env host =
     (case we_dns env host of
        Inl (ServiceError m) \<Rightarrow> Inr (None, ''DNS resolution failed: '' @ m)
      | Inl e \<Rightarrow> Inl e
      | Inr addresses \<Rightarrow> Inr (pick_public addresses None))"

definition resolve_and_check :: "wh_env \<Rightarrow> string \<Rightarrow> (bool \<times> string) result" where
  "resolve_and_check env host =
     rbind (resolve_public_ip env host) (\<lambda>(ip, reason). Inr (ip \<noteq> None, reason))"

definition host_header :: "string \<Rightarrow> string \<Rightarrow> nat option \<Rightarrow> string" where
  "host_header hostname scheme port =
     (let host = (if CHR '':'' \<in> set hostname \<and> \<not> starts_with ''['' hostname then ''['' @ hostname @ '']'' else hostname);
          default_port = (if scheme = ''https'' then 443 else 80)
      in case port of
           None \<Rightarrow> host
         | Some p \<Rightarrow> if p \<noteq> 0 \<and> p \<noteq> default_port then host @ '':'' @ show_nat p else host)"

definition pin_request :: "wh_env \<Rightarrow> string \<Rightarrow> string \<Rightarrow> string \<Rightarrow> (string \<times> string) list \<Rightarrow> string \<Rightarrow> pinned_request" where
  "pin_request env hostname resolved_ip url headers body =
     (let u = we_httpx env url
      in \<lparr> pr_url = url, pr_connect_host = resolved_ip,
           pr_host_header = host_header (hx_host u) (hx_scheme u) (hx_port u),
           pr_sni = (if hx_scheme u = ''https'' then Some hostname else None),
           pr_headers = headers, pr_body = body \<rparr>)"

definition signed_text :: "wh_env \<Rightarrow> string \<Rightarrow> jdict \<Rightarrow> string" where
  "signed_text env ts payload = ts @ ''.'' @ canonical_json (we_float env) payload"

definition sign_payload :: "wh_env \<Rightarrow> int \<Rightarrow> string \<Rightarrow> jdict \<Rightarrow> string \<times> string" where
  "sign_payload env now secret payload =
     (let ts = show_int (now div 1000000)
      in (ts, we_hmac env secret (signed_text env ts payload)))"

text \<open>
  The attempts of one delivery, with the requests made: a 2xx status ends them, any other
  status and every \<open>HTTPError\<close> is tried again, another exception goes through, and after the
  last attempt \<open>tenacity\<close> raises its \<open>RetryError\<close>.
\<close>

fun attempts :: "(nat \<Rightarrow> pinned_request \<Rightarrow> reply) \<Rightarrow> string \<Rightarrow> pinned_request \<Rightarrow> nat \<Rightarrow> nat \<Rightarrow>
    nat result \<times> pinned_request list" where
  "attempts send exhausted rq n 0 = (Inl (ServiceError exhausted), [])"
| "attempts send exhausted rq n (Suc left) =
     (case send n rq of
        OtherError m \<Rightarrow> (Inl (ServiceError m), [rq])
      | HttpError \<Rightarrow> (case attempts send exhausted rq (n + 1) left of (r, sent) \<Rightarrow> (r, rq # sent))
      | Reply s \<Rightarrow>
          if 300 \<le> s \<and> s < 400 \<or> \<not> (200 \<le> s \<and> s < 300)
          then (case attempts send exhausted rq (n + 1) left of (r, sent) \<Rightarrow> (r, rq # sent))
          else (Inr s, [rq]))"

definition post_with_retry :: "wh_env \<Rightarrow> string \<Rightarrow> string \<Rightarrow> string \<Rightarrow> jdict \<Rightarrow> (string \<times> string) list \<Rightarrow>
    nat result \<times> pinned_request list" where
  "post_with_retry env url hostname resolved_ip payload headers =
     attempts (we_send env) (we_retry_error env)
       (pin_request env hostname resolved_ip url headers (plain_json (we_float env) payload)) 1 3"

record delivery =
  dv_delivered :: bool
  dv_status :: "nat option"
  dv_error :: "string option"

definition undelivered :: "string \<Rightarrow> delivery" where
  "undelivered m = \<lparr> dv_delivered = False, dv_status = None, dv_error = Some m \<rparr>"

definition record_delivery_success :: "int \<Rightarrow> nat \<Rightarrow> webhook \<Rightarrow> webhook" where
  "record_delivery_success now s w = w\<lparr>wh_last_delivery := Some now, wh_delivery_count := wh_delivery_count w + 1,
     wh_last_status := Some (''success_'' @ show_nat s), wh_failure_count := 0\<rparr>"

definition record_delivery_failure :: "string \<Rightarrow> webhook \<Rightarrow> webhook" where
  "record_delivery_failure m w =
     (let w = w\<lparr>wh_failure_count := wh_failure_count w + 1, wh_last_status := Some (''failed: '' @ take 60 m)\<rparr>
      in if 10 \<le> wh_failure_count w then w\<lparr>wh_enabled := False\<rparr> else w)"

text \<open>Where a delivery goes: an address literal, or the resolved and checked address.\<close>

definition choose_address :: "wh_env \<Rightarrow> string \<Rightarrow> string result result" where
  "choose_address env host =
     (case ip_address host of
        Some a \<Rightarrow> Inr (if \<not> is_public_ip a then Inl (ServiceError (''Webhook URL resolves to non-routable IP: '' @ show_addr a))
                       else Inr (show_addr a))
      | None \<Rightarrow> rbind (resolve_public_ip env host) (\<lambda>(ip, reason).
          Inr (case ip of None \<Rightarrow> Inl (ServiceError reason) | Some a \<Rightarrow> Inr a)))"

definition error_text :: "exn \<Rightarrow> string" where
  "error_text e = (case e of ServiceError m \<Rightarrow> m | _ \<Rightarrow> [])"

definition delivery_headers :: "string \<Rightarrow> string \<Rightarrow> string \<Rightarrow> (string \<times> string) list" where
  "delivery_headers event ts sig =
     [(''Content-Type'', ''application/json''), (''X-Kepryx-Event'', event), (''X-Kepryx-Timestamp'', ts),
      (''X-Kepryx-Signature'', ''sha256='' @ sig), (''User-Agent'', ''Kepryx-Webhook/1.0'')]"

definition dispatch_one :: "wh_env \<Rightarrow> int \<Rightarrow> string \<Rightarrow> webhook \<Rightarrow> string \<Rightarrow> jdict \<Rightarrow>
    delivery result \<times> webhook \<times> pinned_request list" where
  "dispatch_one env now stamp w event data =
     (case urlparse (wh_url w) of
        Inl e \<Rightarrow> (Inl e, w, [])
      | Inr parsed \<Rightarrow>
        (case pu_hostname parsed of
           None \<Rightarrow> (Inr (undelivered ''missing hostname''), w\<lparr>wh_last_status := Some ''invalid_url''\<rparr>, [])
         | Some host \<Rightarrow>
           if pu_scheme parsed \<notin> {''http'', ''https''} \<or> truthy_str (pu_username parsed) \<or> truthy_str (pu_password parsed)
           then (Inr (undelivered ''invalid webhook URL''), w\<lparr>wh_last_status := Some ''invalid_url''\<rparr>, [])
           else (case choose_address env host of
             Inl e \<Rightarrow> (Inl e, w, [])
           | Inr (Inl e) \<Rightarrow> (Inr (undelivered (error_text e)), w\<lparr>wh_last_status := Some ''ssrf_blocked''\<rparr>, [])
           | Inr (Inr ip) \<Rightarrow>
             let payload = [(''event'', PStr event), (''timestamp'', PStr stamp), (''data'', PDict data)]
             in (case decrypt_secret (we_cipher env) (wh_secret_encrypted w) (wh_secret_salt w) of
                Inl e \<Rightarrow> (Inr (undelivered ''secret decryption failed''), w\<lparr>wh_last_status := Some ''decrypt_error''\<rparr>, [])
              | Inr secret \<Rightarrow>
                (case sign_payload env now secret payload of (ts, sig) \<Rightarrow>
                  (case post_with_retry env (wh_url w) host ip payload (delivery_headers event ts sig) of
                     (Inr s, sent) \<Rightarrow>
                       (Inr \<lparr> dv_delivered = True, dv_status = Some s, dv_error = None \<rparr>, record_delivery_success now s w, sent)
                   | (Inl e, sent) \<Rightarrow>
                       (Inr (undelivered (take 200 (error_text e))), record_delivery_failure (error_text e) w, sent)))))))"

definition wants :: "webhook \<Rightarrow> string \<Rightarrow> string \<Rightarrow> bool" where
  "wants w event severity =
     (\<not> (wh_event_types w \<noteq> [] \<and> event \<notin> set (wh_event_types w))
      \<and> \<not> (wh_severity_filter w \<noteq> [] \<and> severity \<notin> set (wh_severity_filter w)))"

fun deliver_all :: "wh_env \<Rightarrow> int \<Rightarrow> string \<Rightarrow> string \<Rightarrow> string \<Rightarrow> jdict \<Rightarrow> webhook list \<Rightarrow> db \<Rightarrow>
    unit result \<times> db \<times> pinned_request list" where
  "deliver_all env now stamp event severity data [] d = (Inr (), d, [])"
| "deliver_all env now stamp event severity data (w # ws) d =
     (if \<not> wants w event severity then deliver_all env now stamp event severity data ws d
      else case dispatch_one env now stamp w event data of
        (Inl e, w', sent) \<Rightarrow> (Inl e, put_webhook w' d, sent)
      | (Inr v, w', sent) \<Rightarrow>
          (case deliver_all env now stamp event severity data ws (put_webhook w' d) of
             (r, d', sent') \<Rightarrow> (r, d', sent @ sent')))"

text \<open>The session is its own: what the final commit does not keep is rolled back.\<close>

definition fire_event :: "wh_env \<Rightarrow> int \<Rightarrow> string \<Rightarrow> string \<Rightarrow> string \<Rightarrow> jdict \<Rightarrow> db \<Rightarrow>
    unit result \<times> db \<times> pinned_request list" where
  "fire_event env now stamp event severity data d =
     (case deliver_all env now stamp event severity data (filter wh_enabled (webhooks d)) d of
        (Inl e, work, sent) \<Rightarrow> (Inl e, d, sent)
      | (Inr u, work, sent) \<Rightarrow> (case commit_webhooks () work d of (r, d') \<Rightarrow> (r, d', sent)))"

definition test_webhook :: "wh_env \<Rightarrow> int \<Rightarrow> string \<Rightarrow> nat \<Rightarrow> db \<Rightarrow> delivery result \<times> db \<times> pinned_request list" where
  "test_webhook env now stamp i d =
     (case the_webhook i d of
        Inl e \<Rightarrow> (Inl e, d, [])
      | Inr w \<Rightarrow>
          (case dispatch_one env now stamp w ''test.ping''
              [(''message'', PStr ''Test ping from Kepryx''), (''timestamp'', PStr stamp)] of
             (Inl e, w', sent) \<Rightarrow> (Inl e, d, sent)
           | (Inr v, w', sent) \<Rightarrow> (case commit_webhooks v (put_webhook w' d) d of (r, d') \<Rightarrow> (r, d', sent))))"

section \<open>Addresses\<close>

lemma ip_address_Nil: "ip_address [] = None"
  by code_simp

lemma pick_public_Some:
  assumes "pick_public ips acc = (Some ip, m)" "acc \<noteq> Some []"
  shows "(acc = Some ip \<or> ip \<in> set ips \<and> (\<exists>a. ip_address ip = Some a \<and> is_public_ip a))
    \<and> (\<forall>x\<in>set ips. case ip_address x of None \<Rightarrow> True | Some a \<Rightarrow> is_public_ip a)"
  using assms
proof (induction ips acc rule: pick_public.induct)
  case (1 acc)
  then show ?case by (auto split: option.splits if_splits)
next
  case (2 x xs acc)
  show ?case
  proof (cases "ip_address x")
    case None
    with 2 show ?thesis by auto
  next
    case (Some a)
    have pub: "is_public_ip a" using 2(3) Some by (auto split: if_splits)
    have ne: "str_or acc (Some x) \<noteq> Some []"
      using 2(4) Some ip_address_Nil by (cases acc) auto
    have "pick_public xs (str_or acc (Some x)) = (Some ip, m)" using 2(3) Some pub by simp
    from 2(2) [OF Some _ this ne] pub
    have ih: "(str_or acc (Some x) = Some ip \<or> ip \<in> set xs \<and> (\<exists>a. ip_address ip = Some a \<and> is_public_ip a))
      \<and> (\<forall>x\<in>set xs. case ip_address x of None \<Rightarrow> True | Some a \<Rightarrow> is_public_ip a)" by simp
    then show ?thesis using Some pub 2(4) by (cases acc) (auto split: if_splits)
  qed
qed

text \<open>An address the delivery may connect to: public, and the one its host stands for.\<close>

definition target_of :: "wh_env \<Rightarrow> string \<Rightarrow> string \<Rightarrow> bool" where
  "target_of env host ip =
     (case ip_address host of
        Some a \<Rightarrow> is_public_ip a \<and> ip = show_addr a
      | None \<Rightarrow> (case we_dns env host of
          Inl e \<Rightarrow> False
        | Inr ips \<Rightarrow> ip \<in> set ips \<and> (case ip_address ip of None \<Rightarrow> False | Some a \<Rightarrow> is_public_ip a)
            \<and> list_all (\<lambda>x. case ip_address x of None \<Rightarrow> True | Some a \<Rightarrow> is_public_ip a) ips))"

lemma choose_address_target:
  assumes "choose_address env host = Inr (Inr ip)"
  shows "target_of env host ip"
proof (cases "ip_address host")
  case (Some a)
  with assms show ?thesis by (auto simp: choose_address_def target_of_def split: if_splits)
next
  case None
  with assms obtain m where r: "resolve_public_ip env host = Inr (Some ip, m)"
    by (cases "resolve_public_ip env host") (auto simp: choose_address_def split: option.split_asm)
  then obtain ips where ips: "we_dns env host = Inr ips"
    by (cases "we_dns env host") (auto simp: resolve_public_ip_def split: exn.split_asm)
  with r have "pick_public ips None = (Some ip, m)" by (simp add: resolve_public_ip_def)
  from pick_public_Some [OF this] ips(1) None show ?thesis
    by (auto simp: target_of_def list_all_iff)
qed

lemma attempts_sent: "attempts send ex rq n k = (r, sent) \<Longrightarrow> set sent \<subseteq> {rq} \<and> length sent \<le> k"
  by (induction k arbitrary: n r sent) (auto split: reply.splits prod.splits if_splits, fastforce+)

text \<open>Everything a delivery that sends something has gone through.\<close>

lemma dispatch_sent:
  assumes "dispatch_one env now stamp w event data = (r, w', sent)" "rq \<in> set sent"
  obtains parsed host ip secret ts sig where
    "urlparse (wh_url w) = Inr parsed" "pu_hostname parsed = Some host"
    "pu_scheme parsed \<in> {''http'', ''https''}" "\<not> truthy_str (pu_username parsed)" "\<not> truthy_str (pu_password parsed)"
    "target_of env host ip"
    "decrypt_secret (we_cipher env) (wh_secret_encrypted w) (wh_secret_salt w) = Inr secret"
    "sign_payload env now secret [(''event'', PStr event), (''timestamp'', PStr stamp), (''data'', PDict data)] = (ts, sig)"
    "rq = pin_request env host ip (wh_url w) (delivery_headers event ts sig)
       (plain_json (we_float env) [(''event'', PStr event), (''timestamp'', PStr stamp), (''data'', PDict data)])"
    "length sent \<le> 3"
proof -
  obtain parsed where p: "urlparse (wh_url w) = Inr parsed"
    using assms by (cases "urlparse (wh_url w)") (auto simp: dispatch_one_def)
  obtain host where h: "pu_hostname parsed = Some host"
    using assms p by (cases "pu_hostname parsed") (auto simp: dispatch_one_def)
  have ok: "pu_scheme parsed \<in> {''http'', ''https''}" "\<not> truthy_str (pu_username parsed)" "\<not> truthy_str (pu_password parsed)"
    using assms p h by (auto simp: dispatch_one_def split: if_splits)
  obtain ip where c: "choose_address env host = Inr (Inr ip)"
    using assms p h ok by (auto simp: dispatch_one_def split: if_splits sum.splits)
  obtain secret where s: "decrypt_secret (we_cipher env) (wh_secret_encrypted w) (wh_secret_salt w) = Inr secret"
    using assms p h ok c
    by (cases "decrypt_secret (we_cipher env) (wh_secret_encrypted w) (wh_secret_salt w)") (auto simp: dispatch_one_def)
  let ?pl = "[(''event'', PStr event), (''timestamp'', PStr stamp), (''data'', PDict data)]"
  obtain ts sig where sg: "sign_payload env now secret ?pl = (ts, sig)" by fastforce
  obtain r' where po: "post_with_retry env (wh_url w) host ip ?pl (delivery_headers event ts sig) = (r', sent)"
    using assms p h ok c s sg by (auto simp: dispatch_one_def Let_def split: sum.splits prod.splits)
  have "rq = pin_request env host ip (wh_url w) (delivery_headers event ts sig) (plain_json (we_float env) ?pl)"
    "length sent \<le> 3"
    using attempts_sent [OF po [unfolded post_with_retry_def]] assms(2) by auto
  then show thesis using that p h ok choose_address_target [OF c] s sg by blast
qed

text \<open>
  C16: Whatever a stored URL says and the resolver answers, a delivery connects only to a
  globally reachable address: the address literal of the URL, or one of the resolved
  addresses when all of them are global. The URL is plain http or https without
  credentials, and at most three requests are made.
\<close>

theorem dispatch_only_public:
  assumes "dispatch_one env now stamp w event data = (r, w', sent)" "rq \<in> set sent"
  shows "\<exists>parsed host. urlparse (wh_url w) = Inr parsed \<and> pu_hostname parsed = Some host
    \<and> pu_scheme parsed \<in> {''http'', ''https''} \<and> \<not> truthy_str (pu_username parsed) \<and> \<not> truthy_str (pu_password parsed)
    \<and> pr_url rq = wh_url w \<and> target_of env host (pr_connect_host rq) \<and> length sent \<le> 3"
  by (rule dispatch_sent [OF assms]) (simp add: pin_request_def Let_def)

definition sample_wh_env :: wh_env where
  "sample_wh_env = \<lparr> we_dns = (\<lambda>h. Inr [''93.184.216.34'']),
     we_cipher = \<lparr> encrypt_secret = (\<lambda>p s. Inr p), decrypt_secret = (\<lambda>c s. Inr c) \<rparr>,
     we_hmac = (\<lambda>k m. k @ m), we_float = (\<lambda>x. []),
     we_httpx = (\<lambda>u. \<lparr> hx_scheme = ''https'', hx_host = ''hooks.example.com'', hx_port = None \<rparr>),
     we_send = (\<lambda>n rq. if n < 2 then Reply 503 else Reply 204), we_retry_error = replicate 60 (CHR ''R'') \<rparr>"

definition sample_webhook :: webhook where
  "sample_webhook = (new_webhook 4 0)\<lparr>wh_name := ''siem'', wh_url := ''https://hooks.example.com/in'',
     wh_secret_encrypted := ''s'', wh_event_types := [''alert.created'']\<rparr>"

lemma sample_dispatch:
  "map pr_connect_host (snd (snd (dispatch_one sample_wh_env 5 ''t'' sample_webhook ''alert.created'' [])))
    = [''93.184.216.34'', ''93.184.216.34'']"
  by code_simp

theorem dispatch_only_public_witness:
  "\<exists>parsed host. urlparse (wh_url sample_webhook) = Inr parsed \<and> pu_hostname parsed = Some host
    \<and> target_of sample_wh_env host ''93.184.216.34''"
proof -
  obtain r w' sent where d: "dispatch_one sample_wh_env 5 ''t'' sample_webhook ''alert.created'' [] = (r, w', sent)"
    by (cases "dispatch_one sample_wh_env 5 ''t'' sample_webhook ''alert.created'' []") auto
  with sample_dispatch obtain rq where "rq \<in> set sent" "pr_connect_host rq = ''93.184.216.34''"
    by (cases sent) auto
  with dispatch_only_public [OF d, of rq] show ?thesis by auto
qed

section \<open>Signatures\<close>

lemma payload_order:
  "sort_keys (PDict [(''event'', e), (''timestamp'', t), (''data'', v)])
   = PDict [(''data'', sort_keys v), (''event'', sort_keys e), (''timestamp'', sort_keys t)]"
  by (simp add: less_eq_char_def less_char_def)

lemma bodies_differ:
  "plain_json fl [(''event'', e), (''timestamp'', t), (''data'', v)]
   \<noteq> canonical_json fl [(''event'', e), (''timestamp'', t), (''data'', v)]"
  by (simp add: plain_json_def canonical_json_def payload_order json_str_def json_char_def char_code_def del: sort_keys.simps)

text \<open>
  A delivery is signed with the secret of its webhook over the time of sending and the
  canonical text of the payload. The bytes sent are another rendering of the payload, in
  another key order: a receiver cannot check the signature on the body as it arrives.
\<close>

theorem delivery_signature:
  assumes "dispatch_one env now stamp w event data = (r, w', sent)" "rq \<in> set sent"
    and "decrypt_secret (we_cipher env) (wh_secret_encrypted w) (wh_secret_salt w) = Inr secret"
  shows "\<exists>payload. payload = [(''event'', PStr event), (''timestamp'', PStr stamp), (''data'', PDict data)]
    \<and> (''X-Kepryx-Timestamp'', show_int (now div 1000000)) \<in> set (pr_headers rq)
    \<and> (''X-Kepryx-Signature'', ''sha256='' @ we_hmac env secret
          (show_int (now div 1000000) @ ''.'' @ canonical_json (we_float env) payload)) \<in> set (pr_headers rq)
    \<and> pr_body rq = plain_json (we_float env) payload \<and> pr_body rq \<noteq> canonical_json (we_float env) payload"
  by (rule dispatch_sent [OF assms(1,2)])
    (use assms(3) bodies_differ in \<open>auto simp: sign_payload_def signed_text_def pin_request_def delivery_headers_def Let_def\<close>)

theorem delivery_signature_witness:
  "\<exists>rq\<in>set (snd (snd (dispatch_one sample_wh_env 5000000 ''t'' sample_webhook ''alert.created'' []))).
     (''X-Kepryx-Timestamp'', show_int 5) \<in> set (pr_headers rq)"
proof -
  obtain r w' sent where d: "dispatch_one sample_wh_env 5000000 ''t'' sample_webhook ''alert.created'' [] = (r, w', sent)"
    by (cases "dispatch_one sample_wh_env 5000000 ''t'' sample_webhook ''alert.created'' []") auto
  moreover have "length (snd (snd (dispatch_one sample_wh_env 5000000 ''t'' sample_webhook ''alert.created'' []))) = 2"
    by code_simp
  ultimately obtain rq where rq: "rq \<in> set sent" by (cases sent) auto
  have s: "decrypt_secret (we_cipher sample_wh_env) (wh_secret_encrypted sample_webhook) (wh_secret_salt sample_webhook) = Inr ''s''"
    by code_simp
  from delivery_signature [OF d rq s] rq d show ?thesis by auto
qed

section \<open>Failures\<close>

text \<open>Ten failures in a row would disable a webhook, as the counter is meant to.\<close>

interpretation webhook_breaker: breaker wh_failure_count "\<lambda>w. \<not> wh_enabled w" record_delivery_failure 10
  by unfold_locales (simp_all add: record_delivery_failure_def Let_def)

lemma attempts_error:
  "attempts send ex rq n k = (Inl e, sent) \<Longrightarrow>
   e = ServiceError ex \<or> (\<exists>j m. send j rq = OtherError m \<and> e = ServiceError m)"
  by (induction k arbitrary: n sent) (auto split: reply.splits prod.splits if_splits)

lemma dispatch_outcome:
  assumes "dispatch_one env now stamp w event data = (Inr v, w', sent)"
  obtains (blocked) s where "w' = w\<lparr>wh_last_status := Some s\<rparr>"
  | (sent) n where "w' = record_delivery_success now n w"
  | (failed) m where "w' = record_delivery_failure m w" "m = we_retry_error env \<or> (\<exists>j rq. we_send env j rq = OtherError m)"
proof -
  obtain parsed where p: "urlparse (wh_url w) = Inr parsed"
    using assms by (cases "urlparse (wh_url w)") (auto simp: dispatch_one_def)
  show thesis
  proof (cases "pu_hostname parsed")
    case None
    with assms p show thesis by (intro blocked) (auto simp: dispatch_one_def)
  next
    case (Some host)
    show thesis
    proof (cases "pu_scheme parsed \<notin> {''http'', ''https''} \<or> truthy_str (pu_username parsed) \<or> truthy_str (pu_password parsed)")
      case True
      with assms p Some show thesis by (intro blocked) (auto simp: dispatch_one_def)
    next
      case False
      note d = assms [unfolded dispatch_one_def p Some sum.case option.case if_not_P [OF False]]
      obtain c where c: "choose_address env host = Inr c" using d by (cases "choose_address env host") auto
      show thesis
      proof (cases c)
        case (Inl e)
        with d c show thesis by (intro blocked) auto
      next
        case (Inr ip)
        let ?pl = "[(''event'', PStr event), (''timestamp'', PStr stamp), (''data'', PDict data)]"
        show thesis
        proof (cases "decrypt_secret (we_cipher env) (wh_secret_encrypted w) (wh_secret_salt w)")
          case (Inl e)
          with d c Inr show thesis by (intro blocked) auto
        next
          case s: (Inr secret)
          obtain ts sig where sg: "sign_payload env now secret ?pl = (ts, sig)" by fastforce
          obtain r' sent' where po: "post_with_retry env (wh_url w) host ip ?pl (delivery_headers event ts sig) = (r', sent')" by fastforce
          show thesis
          proof (cases r')
            case (Inr n)
            with d c \<open>c = Inr ip\<close> s sg po show thesis by (intro sent) auto
          next
            case (Inl e)
            have "w' = record_delivery_failure (error_text e) w" using d c \<open>c = Inr ip\<close> s sg po Inl by auto
            moreover have "error_text e = we_retry_error env \<or> (\<exists>j rq. we_send env j rq = OtherError (error_text e))"
              using attempts_error po Inl by (fastforce simp: post_with_retry_def error_text_def)
            ultimately show thesis by (rule failed)
          qed
        qed
      qed
    qed
  qed
qed

lemma failure_does_not_fit: "25 \<le> length m \<Longrightarrow> \<not> webhook_fits (record_delivery_failure m w)"
  by (auto simp: webhook_fits_def record_delivery_failure_def Let_def min_def)

text \<open>A row that records no failure: its switch is as before, its counter as before or reset.\<close>

definition no_failure_of :: "webhook list \<Rightarrow> webhook \<Rightarrow> bool" where
  "no_failure_of ws w = (\<exists>v\<in>set ws. wh_id w = wh_id v \<and> wh_enabled w = wh_enabled v
     \<and> wh_failure_count w \<in> {0, wh_failure_count v})"

lemma dispatch_no_failure:
  assumes "dispatch_one env now stamp w event data = (Inr v, w', sent)" "w \<in> set ws"
    and "25 \<le> length (we_retry_error env)" "\<And>n rq m. we_send env n rq = OtherError m \<Longrightarrow> 25 \<le> length m"
  shows "no_failure_of ws w' \<or> \<not> webhook_fits w'"
  using assms(1)
proof (cases rule: dispatch_outcome)
  case (blocked s)
  then show ?thesis using assms(2) by (auto simp: no_failure_of_def)
next
  case (sent n)
  then show ?thesis using assms(2) by (auto simp: no_failure_of_def record_delivery_success_def)
next
  case (failed m)
  then show ?thesis using assms(3,4) failure_does_not_fit by auto
qed

lemma deliver_all_no_failure:
  assumes "deliver_all env now stamp event severity data us d = (Inr u, d', sent)" "set us \<subseteq> set ws"
    and "\<forall>x\<in>set (webhooks d). no_failure_of ws x \<or> \<not> webhook_fits x"
    and long: "25 \<le> length (we_retry_error env)" "\<And>n rq m. we_send env n rq = OtherError m \<Longrightarrow> 25 \<le> length m"
  shows "\<forall>x\<in>set (webhooks d'). no_failure_of ws x \<or> \<not> webhook_fits x"
  using assms(1-3)
proof (induction us arbitrary: d sent)
  case (Cons w us)
  show ?case
  proof (cases "wants w event severity")
    case False
    with Cons show ?thesis by auto
  next
    case True
    obtain v w' s where di: "dispatch_one env now stamp w event data = (Inr v, w', s)"
      using Cons.prems(1) True by (auto split: prod.splits sum.splits)
    then obtain s' where rest: "deliver_all env now stamp event severity data us (put_webhook w' d) = (Inr u, d', s')"
      using Cons.prems(1) True by (auto split: prod.splits)
    have "no_failure_of ws w' \<or> \<not> webhook_fits w'"
      using dispatch_no_failure [OF di _ long] Cons.prems(2) by auto
    then have "\<forall>x\<in>set (webhooks (put_webhook w' d)). no_failure_of ws x \<or> \<not> webhook_fits x"
      using Cons.prems(3) by (auto simp: put_webhook_def update_where_def)
    with Cons.IH [OF rest] Cons.prems(2) show ?thesis by auto
  qed
qed simp

text \<open>
  A delivery that fails is never recorded. The status text \<open>failed: ...\<close> of an error text
  of 25 characters or more, as every \<open>RetryError\<close> has, does not fit its column, and the
  commit is refused. No event raises a failure counter or disables a webhook, so the limit
  of ten failures is never reached.
\<close>

theorem failed_delivery_never_recorded:
  assumes "25 \<le> length (we_retry_error env)" "\<And>n rq m. we_send env n rq = OtherError m \<Longrightarrow> 25 \<le> length m"
    and "fire_event env now stamp event severity data d = (r, d', sent)" "w \<in> set (webhooks d')"
  shows "\<exists>v\<in>set (webhooks d). wh_id w = wh_id v \<and> wh_enabled w = wh_enabled v
    \<and> wh_failure_count w \<in> {0, wh_failure_count v}"
proof -
  obtain r1 work s where da: "deliver_all env now stamp event severity data (filter wh_enabled (webhooks d)) d = (r1, work, s)"
    by (cases "deliver_all env now stamp event severity data (filter wh_enabled (webhooks d)) d") auto
  have self: "\<forall>x\<in>set (webhooks d). no_failure_of (webhooks d) x \<or> \<not> webhook_fits x"
    by (auto simp: no_failure_of_def)
  show ?thesis
  proof (cases "\<exists>u. r1 = Inr u \<and> list_all webhook_fits (webhooks work)")
    case True
    then obtain u where "r1 = Inr u" and fits: "list_all webhook_fits (webhooks work)" by blast
    with assms(3) da have "d' = work" by (simp add: fire_event_def commit_webhooks_def)
    with deliver_all_no_failure [OF da [unfolded \<open>r1 = Inr u\<close>] _ self assms(1,2)] fits assms(4)
    show ?thesis by (fastforce simp: no_failure_of_def list_all_iff)
  next
    case False
    with assms(3) da have "d' = d" by (cases r1) (auto simp: fire_event_def commit_webhooks_def)
    with assms(4) show ?thesis by auto
  qed
qed

definition down_wh_env :: wh_env where
  "down_wh_env = sample_wh_env\<lparr>we_send := \<lambda>n rq. HttpError\<rparr>"

definition sample_webhook_db :: db where
  "sample_webhook_db = empty_db\<lparr>webhooks := [sample_webhook\<lparr>wh_failure_count := 9\<rparr>]\<rparr>"

lemma down_event:
  "case fire_event down_wh_env 5 ''t'' ''alert.created'' ''high'' [] sample_webhook_db of
     (r, d', sent) \<Rightarrow> r = Inl DataError \<and> length (webhooks d') = 1 \<and> length sent = 3"
  by code_simp

theorem failed_delivery_never_recorded_witness:
  "case fire_event down_wh_env 5 ''t'' ''alert.created'' ''high'' [] sample_webhook_db of
     (r, d', sent) \<Rightarrow> \<exists>w\<in>set (webhooks d'). wh_enabled w \<and> wh_failure_count w \<le> 9"
proof -
  obtain r d' sent where f: "fire_event down_wh_env 5 ''t'' ''alert.created'' ''high'' [] sample_webhook_db = (r, d', sent)"
    by (cases "fire_event down_wh_env 5 ''t'' ''alert.created'' ''high'' [] sample_webhook_db") auto
  with down_event obtain w where w: "w \<in> set (webhooks d')" by (cases "webhooks d'") auto
  have "25 \<le> length (we_retry_error down_wh_env)" by (simp add: down_wh_env_def sample_wh_env_def)
  from failed_delivery_never_recorded [OF this _ f w] w f show ?thesis
    by (auto simp: down_wh_env_def sample_webhook_db_def sample_webhook_def new_webhook_def)
qed

end
