(* ===== verification/Encryption.thy ===== *)
theory Encryption
  imports Tokens
begin

text \<open>
  \<open>app/core/encryption.py\<close>: encryption of stored secrets under a key derived from the
  configured key and a salt of the record. Key derivation, base64 and Fernet are parameters;
  \<open>fernet_ok\<close> states what Fernet promises.
\<close>

record crypto_lib =
  b64_salt :: "string \<Rightarrow> string result"
  pbkdf2 :: "string \<Rightarrow> string \<Rightarrow> nat \<Rightarrow> string"
  fernet_encrypt :: "string \<Rightarrow> string \<Rightarrow> string"
  fernet_decrypt :: "string \<Rightarrow> string \<Rightarrow> string option"

definition PBKDF2_ITERATIONS :: nat where "PBKDF2_ITERATIONS = 480000"

definition kek :: "settings \<Rightarrow> string result" where
  "kek cfg =
     (if ENCRYPTION_KEY cfg = [] \<and> ENVIRONMENT cfg = ''production''
      then Inl (RuntimeError ''ENCRYPTION_KEY env var is required in production. Generate one with: openssl rand -hex 32'')
      else let key = (if ENCRYPTION_KEY cfg = [] then SECRET_KEY cfg else ENCRYPTION_KEY cfg)
           in if length key < 32
              then Inl (RuntimeError (''ENCRYPTION_KEY too short ('' @ show_nat (length key) @ '' chars). Minimum 32.''))
              else Inr key)"

text \<open>The salt is padded to whole base64 quanta before it is decoded.\<close>

definition derive_fernet_key :: "crypto_lib \<Rightarrow> settings \<Rightarrow> string \<Rightarrow> string result" where
  "derive_fernet_key lib cfg salt_b64 =
     rbind (b64_salt lib (salt_b64 @ replicate ((4 - length salt_b64 mod 4) mod 4) (CHR ''=''))) (\<lambda>salt.
     rbind (kek cfg) (\<lambda>key. Inr (pbkdf2 lib key salt PBKDF2_ITERATIONS)))"

definition encrypt_secret_with :: "crypto_lib \<Rightarrow> settings \<Rightarrow> string \<Rightarrow> string \<Rightarrow> string result" where
  "encrypt_secret_with lib cfg plaintext salt =
     (if plaintext = [] then Inl (ValueError ''Cannot encrypt empty plaintext'')
      else if length salt < 16 then Inl (ValueError ''Salt must be at least 16 chars'')
      else rbind (derive_fernet_key lib cfg salt) (\<lambda>key. Inr (fernet_encrypt lib key plaintext)))"

definition decrypt_secret_with :: "crypto_lib \<Rightarrow> settings \<Rightarrow> string \<Rightarrow> string \<Rightarrow> string result" where
  "decrypt_secret_with lib cfg ciphertext salt =
     (if ciphertext = [] then Inl (ValueError ''Cannot decrypt empty ciphertext'')
      else rbind (derive_fernet_key lib cfg salt) (\<lambda>key.
        case fernet_decrypt lib key ciphertext of None \<Rightarrow> Inl InvalidToken | Some p \<Rightarrow> Inr p))"

definition app_cipher :: "crypto_lib \<Rightarrow> settings \<Rightarrow> cipher" where
  "app_cipher lib cfg = \<lparr> encrypt_secret = encrypt_secret_with lib cfg, decrypt_secret = decrypt_secret_with lib cfg \<rparr>"

definition fernet_ok :: "crypto_lib \<Rightarrow> bool" where
  "fernet_ok lib = (\<forall>k p. fernet_decrypt lib k (fernet_encrypt lib k p) = Some p \<and> fernet_encrypt lib k p \<noteq> [])"

text \<open>The contract the callers rely on holds for the module under every configuration.\<close>

lemma app_cipher_ok: "fernet_ok lib \<Longrightarrow> cipher_ok (app_cipher lib cfg)"
  by (auto simp: cipher_ok_def app_cipher_def encrypt_secret_with_def decrypt_secret_with_def
      fernet_ok_def rbind_eq_Inr split: if_splits)

lemma encrypted_under_strong_key:
  "encrypt_secret_with lib cfg p salt = Inr ct \<Longrightarrow> p \<noteq> [] \<and> 16 \<le> length salt \<and> (\<exists>k. kek cfg = Inr k \<and> 32 \<le> length k)"
  by (auto simp: encrypt_secret_with_def derive_fernet_key_def kek_def Let_def rbind_eq_Inr split: if_splits)

definition toy_crypto :: crypto_lib where
  "toy_crypto = \<lparr> b64_salt = (\<lambda>s. Inr s), pbkdf2 = (\<lambda>k s n. k @ s), fernet_encrypt = (\<lambda>k p. CHR ''g'' # p),
     fernet_decrypt = (\<lambda>k c. Some (tl c)) \<rparr>"

lemma toy_crypto_ok: "fernet_ok toy_crypto"
  by (simp add: fernet_ok_def toy_crypto_def)

end
