(* ===== verification/ConnectorSecrets.thy ===== *)
theory ConnectorSecrets
  imports Encryption NetPolicy UrlParse
begin

text \<open>
  \<open>app/core/connector_secrets.py\<close>: which connector configurations are accepted, how their
  secret fields are stored and how a worker gets them back. \<open>cron_ok\<close> is croniter's check,
  \<open>show\<close> the \<open>str()\<close> of values that are neither texts nor numbers, \<open>salts\<close> the salt drawn
  for a field.
\<close>

section \<open>The schemas\<close>

record connector_schema =
  cs_required :: "string list"
  cs_optional :: "string list"
  cs_secret :: "string list"
  cs_urls :: "string list"

definition SCHEMAS :: "(string \<times> connector_schema) list" where
  "SCHEMAS =
    [(''edr_crowdstrike'', \<lparr> cs_required = [''base_url'', ''client_id'', ''client_secret''], cs_optional = [],
        cs_secret = [''client_secret''], cs_urls = [''base_url''] \<rparr>),
     (''vuln_nessus'', \<lparr> cs_required = [''base_url'', ''access_key'', ''secret_key''], cs_optional = [''verify_ssl''],
        cs_secret = [''access_key'', ''secret_key''], cs_urls = [''base_url''] \<rparr>),
     (''ad_ldap'', \<lparr> cs_required = [''server'', ''base_dn'', ''bind_dn'', ''bind_password''],
        cs_optional = [''ca_certs_file'', ''filter''], cs_secret = [''bind_password''], cs_urls = [''server''] \<rparr>),
     (''cloud_aws'', \<lparr> cs_required = [''regions''],
        cs_optional = [''access_key_id'', ''secret_access_key'', ''role_arn'', ''use_assume_role''],
        cs_secret = [''access_key_id'', ''secret_access_key''], cs_urls = [] \<rparr>),
     (''dhcp_dns'', \<lparr> cs_required = [''provider'', ''base_url''], cs_optional = [''username'', ''password'', ''verify_ssl''],
        cs_secret = [''username'', ''password''], cs_urls = [''base_url''] \<rparr>),
     (''asset_api'', \<lparr> cs_required = [''base_url'', ''api_token''], cs_optional = [''inventory_path'', ''timeout_sec''],
        cs_secret = [''api_token''], cs_urls = [''base_url''] \<rparr>)]"

definition BLOCKED_HOSTS :: "string list" where
  "BLOCKED_HOSTS = [''169.254.169.254'', ''metadata.google.internal'', ''metadata.azure.internal'']"

text \<open>\<open>str(v)\<close>\<close>

definition py_str :: "(pyval \<Rightarrow> string) \<Rightarrow> pyval \<Rightarrow> string" where
  "py_str show v = (case v of PStr s \<Rightarrow> s | PInt i \<Rightarrow> show_int i | PBool b \<Rightarrow> if b then ''True'' else ''False''
     | PNone \<Rightarrow> ''None'' | _ \<Rightarrow> show v)"

section \<open>Validation\<close>

definition validate_schedule :: "(string \<Rightarrow> bool) \<Rightarrow> string \<Rightarrow> string result" where
  "validate_schedule cron_ok schedule =
     (if \<not> cron_ok schedule then Inl (ValueError ''schedule_cron must be a valid five-field cron expression'')
      else Inr schedule)"

definition allowed_schemes :: "settings \<Rightarrow> string \<Rightarrow> string list" where
  "allowed_schemes cfg field =
     (if field = ''server'' then [''ldaps''] else [''https''])
     @ (if ALLOW_INSECURE_CONNECTORS cfg then [''http'', ''ldap''] else [])"

definition validate_url :: "settings \<Rightarrow> string \<Rightarrow> string \<Rightarrow> unit result" where
  "validate_url cfg field url =
     rbind (urlparse url) (\<lambda>parsed.
       case pu_hostname parsed of
         None \<Rightarrow> Inl (ValueError (field @ '' must use one of '' @ repr_names (sort (allowed_schemes cfg field)) @ '' and include a host''))
       | Some hostname \<Rightarrow>
         if pu_scheme parsed \<notin> set (allowed_schemes cfg field)
         then Inl (ValueError (field @ '' must use one of '' @ repr_names (sort (allowed_schemes cfg field)) @ '' and include a host''))
         else let host = lower hostname
              in if host \<in> set BLOCKED_HOSTS then Inl (ValueError (field @ '' targets a blocked metadata endpoint''))
                 else case ip_address host of
                   None \<Rightarrow> Inr ()
                 | Some address \<Rightarrow>
                     if is_global address then Inr ()
                     else case any_network (addr_in_net address) (CONNECTOR_ALLOWED_CIDRS cfg) of
                       None \<Rightarrow> Inl (ValueError ''CONNECTOR_ALLOWED_CIDRS contains an invalid CIDR'')
                     | Some True \<Rightarrow> Inr ()
                     | Some False \<Rightarrow> Inl (ValueError (field @ '' cannot target a private, loopback, link-local, reserved, or other non-global address unless its CIDR is in CONNECTOR_ALLOWED_CIDRS'')))"

definition regions_ok :: "pyval \<Rightarrow> bool" where
  "regions_ok v = (case v of
     PList rs \<Rightarrow> rs \<noteq> [] \<and> list_all (\<lambda>r. case r of PStr s \<Rightarrow> s \<noteq> [] | _ \<Rightarrow> False) rs
   | _ \<Rightarrow> False)"

definition check_aws :: "jdict \<Rightarrow> jdict result" where
  "check_aws config =
     (if \<not> regions_ok (jget config ''regions'')
      then Inl (ValueError ''AWS regions must be a non-empty list of region names'')
      else if py_truthy (jget config ''access_key_id'') \<noteq> py_truthy (jget config ''secret_access_key'')
      then Inl (ValueError ''AWS access_key_id and secret_access_key must be supplied together'')
      else if \<not> py_truthy (jget config ''role_arn'') \<and> \<not> py_truthy (jget config ''access_key_id'')
      then Inr (jset ''use_assume_role'' (PBool False) config)
      else Inr config)"

definition check_dhcp :: "jdict \<Rightarrow> unit result" where
  "check_dhcp config =
     (if jget config ''provider'' \<notin> {PStr ''infoblox'', PStr ''kea''}
      then Inl (ValueError ''provider must be infoblox or kea'')
      else if jget config ''provider'' = PStr ''infoblox''
              \<and> \<not> (py_truthy (jget config ''username'') \<and> py_truthy (jget config ''password''))
      then Inl (ValueError ''Infoblox requires username and password'')
      else Inr ())"

definition validate_connector_config :: "settings \<Rightarrow> (pyval \<Rightarrow> string) \<Rightarrow> string \<Rightarrow> jdict \<Rightarrow> jdict result" where
  "validate_connector_config cfg show ctype config =
     (case map_of SCHEMAS ctype of
        None \<Rightarrow> Inl (ValueError ''Unknown connector type'')
      | Some schema \<Rightarrow>
          let supplied = map fst config;
              missing = filter (\<lambda>k. k \<notin> set supplied) (cs_required schema);
              unknown = filter (\<lambda>k. k \<notin> set (cs_required schema) \<and> k \<notin> set (cs_optional schema)) (remdups supplied)
          in if missing \<noteq> [] then Inl (ValueError (''Missing connector fields: '' @ repr_names (sort missing)))
             else if unknown \<noteq> [] then Inl (ValueError (''Unknown connector fields: '' @ repr_names (sort unknown)))
             else
               rbind (rfold (\<lambda>field u. validate_url cfg field (py_str show (jget config field))) (cs_urls schema) ()) (\<lambda>_.
               rbind (if ctype = ''cloud_aws'' then check_aws config else Inr config) (\<lambda>config'.
                 if jget config' ''verify_ssl'' = PBool False \<and> \<not> ALLOW_INSECURE_CONNECTORS cfg
                 then Inl (ValueError ''verify_ssl=false requires ALLOW_INSECURE_CONNECTORS=true'')
                 else rbind (if ctype = ''dhcp_dns'' then check_dhcp config' else Inr ()) (\<lambda>_. Inr config'))))"

section \<open>Storing and reading back\<close>

definition blank :: "pyval \<Rightarrow> bool" where "blank v = (v = PNone \<or> v = PStr [])"

definition sealed :: "string \<Rightarrow> string \<Rightarrow> pyval" where
  "sealed ct salt = PDict [(''_kepryx_encrypted'', PBool True), (''ciphertext'', PStr ct), (''salt'', PStr salt)]"

definition protect_field :: "cipher \<Rightarrow> (pyval \<Rightarrow> string) \<Rightarrow> (string \<Rightarrow> string) \<Rightarrow> string \<Rightarrow> jdict \<Rightarrow> jdict result" where
  "protect_field c show salts field config =
     (let v = jget config field
      in if blank v then Inr config
         else rbind (encrypt_secret c (py_str show v) (salts field)) (\<lambda>ct. Inr (jset field (sealed ct (salts field)) config)))"

definition secret_fields :: "string \<Rightarrow> string list result" where
  "secret_fields ctype = (case map_of SCHEMAS ctype of None \<Rightarrow> Inl (KeyError ctype) | Some s \<Rightarrow> Inr (cs_secret s))"

definition protect_connector_config :: "settings \<Rightarrow> cipher \<Rightarrow> (pyval \<Rightarrow> string) \<Rightarrow> (string \<Rightarrow> string) \<Rightarrow> string \<Rightarrow> jdict \<Rightarrow> jdict result" where
  "protect_connector_config cfg c show salts ctype config =
     rbind (validate_connector_config cfg show ctype config) (\<lambda>valid.
     rbind (secret_fields ctype) (\<lambda>fields. rfold (protect_field c show salts) fields valid))"

definition text_item :: "jdict \<Rightarrow> string \<Rightarrow> string result" where
  "text_item d k = rbind (item d k) (\<lambda>v. case v of PStr s \<Rightarrow> Inr s | _ \<Rightarrow> Inl TypeError)"

definition resolve_field :: "cipher \<Rightarrow> string \<Rightarrow> jdict \<Rightarrow> jdict result" where
  "resolve_field c field config =
     (let v = jget config field
      in if blank v then Inr config
         else case v of
           PDict d \<Rightarrow>
             if jget d ''_kepryx_encrypted'' \<noteq> PBool True
             then Inl (ValueError (''Connector secret '' @ field @ '' is not encrypted; rotate the integration''))
             else rbind (text_item d ''ciphertext'') (\<lambda>ct. rbind (text_item d ''salt'') (\<lambda>salt.
                  rbind (decrypt_secret c ct salt) (\<lambda>p. Inr (jset field (PStr p) config))))
         | _ \<Rightarrow> Inl (ValueError (''Connector secret '' @ field @ '' is not encrypted; rotate the integration'')))"

definition resolve_connector_config :: "cipher \<Rightarrow> string \<Rightarrow> jdict \<Rightarrow> jdict result" where
  "resolve_connector_config c ctype config =
     rbind (secret_fields ctype) (\<lambda>fields. rfold (resolve_field c) fields config)"

section \<open>Stored configurations\<close>

lemma protect_field_effect:
  assumes "protect_field c show salts f u = Inr v"
  shows "if blank (jget u f) then v = u
    else \<exists>ct. encrypt_secret c (py_str show (jget u f)) (salts f) = Inr ct \<and> v = jset f (sealed ct (salts f)) u"
  using assms by (auto simp: protect_field_def Let_def rbind_eq_Inr split: if_splits)

lemma protect_fields_effect:
  assumes "rfold (protect_field c show salts) fs u = Inr v" "distinct fs"
  shows "if k \<in> set fs \<and> \<not> blank (jget u k)
    then \<exists>ct. encrypt_secret c (py_str show (jget u k)) (salts k) = Inr ct \<and> jget v k = sealed ct (salts k)
    else jget v k = jget u k"
  using assms
proof (induction fs arbitrary: u)
  case (Cons f fs)
  then obtain w where w: "protect_field c show salts f u = Inr w" "rfold (protect_field c show salts) fs w = Inr v"
    by (auto simp: rbind_eq_Inr)
  show ?case
    using Cons.IH [OF w(2)] Cons.prems(2) protect_field_effect [OF w(1)]
    by (auto split: if_splits)
qed simp

lemma not_blank_sealed [simp]: "\<not> blank (sealed ct s)"
  by (simp add: blank_def sealed_def)

lemma sealed_eq [simp]: "sealed ct s = sealed ct' s' \<longleftrightarrow> ct = ct' \<and> s = s'"
  by (simp add: sealed_def)

lemma resolve_sealed:
  "jget u f = sealed ct s \<Longrightarrow> resolve_field c f u = rbind (decrypt_secret c ct s) (\<lambda>p. Inr (jset f (PStr p) u))"
  by (simp add: resolve_field_def sealed_def blank_def text_item_def item_def jget_def)

lemma resolve_blank: "blank (jget u f) \<Longrightarrow> resolve_field c f u = Inr u"
  by (simp add: resolve_field_def)

text \<open>Reading back a stored configuration gives the texts of the secrets and the other fields.\<close>

lemma resolve_fields_total:
  assumes "distinct fs"
    and "\<And>f. f \<in> set fs \<Longrightarrow> blank (jget u f) \<or> (\<exists>ct s p. jget u f = sealed ct s \<and> decrypt_secret c ct s = Inr p)"
  shows "\<exists>v. rfold (resolve_field c) fs u = Inr v
    \<and> (\<forall>k. if k \<in> set fs \<and> \<not> blank (jget u k)
         then \<exists>ct s p. jget u k = sealed ct s \<and> decrypt_secret c ct s = Inr p \<and> jget v k = PStr p
         else jget v k = jget u k)"
  using assms
proof (induction fs arbitrary: u)
  case (Cons f fs)
  have ok: "blank (jget u f) \<or> (\<exists>ct s p. jget u f = sealed ct s \<and> decrypt_secret c ct s = Inr p)"
    by (rule Cons.prems(2)) simp
  then obtain w where w: "resolve_field c f u = Inr w"
    "if blank (jget u f) then w = u
     else \<exists>ct s p. jget u f = sealed ct s \<and> decrypt_secret c ct s = Inr p \<and> w = jset f (PStr p) u"
  proof
    assume "blank (jget u f)"
    then show thesis using that [of u] by (simp add: resolve_blank)
  next
    assume "\<exists>ct s p. jget u f = sealed ct s \<and> decrypt_secret c ct s = Inr p"
    then obtain ct s p where e: "jget u f = sealed ct s" "decrypt_secret c ct s = Inr p" by blast
    then show thesis using that [of "jset f (PStr p) u"] by (simp add: resolve_sealed)
  qed
  have other: "jget w k = jget u k" if "k \<noteq> f" for k
    using w(2) that by (auto split: if_splits)
  have "blank (jget w g) \<or> (\<exists>ct s p. jget w g = sealed ct s \<and> decrypt_secret c ct s = Inr p)" if "g \<in> set fs" for g
  proof -
    from Cons.prems(1) that have "g \<noteq> f" by auto
    then have "jget w g = jget u g" by (rule other)
    then show ?thesis using Cons.prems(2) [of g] that by auto
  qed
  then obtain v where v: "rfold (resolve_field c) fs w = Inr v"
    "\<forall>k. if k \<in> set fs \<and> \<not> blank (jget w k)
       then \<exists>ct s p. jget w k = sealed ct s \<and> decrypt_secret c ct s = Inr p \<and> jget v k = PStr p
       else jget v k = jget w k"
    using Cons.IH [of w] Cons.prems(1) by auto
  have "if k \<in> set (f # fs) \<and> \<not> blank (jget u k)
       then \<exists>ct s p. jget u k = sealed ct s \<and> decrypt_secret c ct s = Inr p \<and> jget v k = PStr p
       else jget v k = jget u k" for k
  proof (cases "k = f")
    case True
    then have "jget v k = jget w k" using v(2) [rule_format, of k] Cons.prems(1) by simp
    with True w(2) show ?thesis by (auto split: if_splits)
  next
    case False
    then show ?thesis using v(2) [rule_format, of k] other [of k] by auto
  qed
  moreover have "rfold (resolve_field c) (f # fs) u = Inr v" using w(1) v(1) by simp
  ultimately show ?case by blast
qed simp

lemma secret_fields_distinct: "secret_fields ctype = Inr fs \<Longrightarrow> distinct fs"
  by (auto simp: secret_fields_def SCHEMAS_def split: option.splits if_splits)

text \<open>
  C17: What an administrator configures reaches the connector, and no secret is stored in
  the clear. A stored configuration holds for every secret field that is set its encryption
  under a salt of its own, and the worker that resolves it gets exactly the validated
  values, the secrets as texts.
\<close>

theorem connector_config_roundtrip:
  assumes "cipher_ok c" "protect_connector_config cfg c show salts ctype config = Inr stored"
  shows "\<exists>valid fields resolved. validate_connector_config cfg show ctype config = Inr valid
    \<and> secret_fields ctype = Inr fields \<and> resolve_connector_config c ctype stored = Inr resolved
    \<and> (\<forall>k. if k \<in> set fields \<and> \<not> blank (jget valid k)
         then (\<exists>ct. encrypt_secret c (py_str show (jget valid k)) (salts k) = Inr ct \<and> jget stored k = sealed ct (salts k))
              \<and> jget resolved k = PStr (py_str show (jget valid k))
         else jget stored k = jget valid k \<and> jget resolved k = jget valid k)"
proof -
  from assms(2) obtain valid fields where v: "validate_connector_config cfg show ctype config = Inr valid"
    and f: "secret_fields ctype = Inr fields" and st: "rfold (protect_field c show salts) fields valid = Inr stored"
    by (auto simp: protect_connector_config_def rbind_eq_Inr)
  note d = secret_fields_distinct [OF f]
  note eff = protect_fields_effect [OF st d]
  have "blank (jget stored k) \<or> (\<exists>ct s p. jget stored k = sealed ct s \<and> decrypt_secret c ct s = Inr p)"
    if "k \<in> set fields" for k
    using eff [of k] assms(1) that by (auto simp: cipher_ok_def split: if_splits)
  from resolve_fields_total [OF d this] obtain resolved where r: "rfold (resolve_field c) fields stored = Inr resolved"
    "\<forall>k. if k \<in> set fields \<and> \<not> blank (jget stored k)
       then \<exists>ct s p. jget stored k = sealed ct s \<and> decrypt_secret c ct s = Inr p \<and> jget resolved k = PStr p
       else jget resolved k = jget stored k" by blast
  have "if k \<in> set fields \<and> \<not> blank (jget valid k)
         then (\<exists>ct. encrypt_secret c (py_str show (jget valid k)) (salts k) = Inr ct \<and> jget stored k = sealed ct (salts k))
              \<and> jget resolved k = PStr (py_str show (jget valid k))
         else jget stored k = jget valid k \<and> jget resolved k = jget valid k" for k
    using eff [of k] r(2) [rule_format, of k] assms(1)
    by (auto simp: cipher_ok_def split: if_splits)
  with v f r(1) show ?thesis by (auto simp: resolve_connector_config_def)
qed

definition sample_key_settings :: settings where
  "sample_key_settings = default_settings [] [] (replicate 32 (CHR ''k''))"

definition sample_connector :: jdict where
  "sample_connector = [(''base_url'', PStr ''https://assets.example.com''), (''api_token'', PStr ''secret-token'')]"

definition sample_salt :: string where "sample_salt = replicate 32 (CHR ''s'')"

lemma sample_url: "validate_url sample_key_settings ''base_url'' ''https://assets.example.com'' = Inr ()"
  by code_simp

lemma sample_encrypt:
  "encrypt_secret (app_cipher toy_crypto sample_key_settings) ''secret-token'' sample_salt
   = Inr (CHR ''g'' # ''secret-token'')"
  by (simp add: app_cipher_def encrypt_secret_with_def derive_fernet_key_def toy_crypto_def kek_def
      sample_key_settings_def default_settings_def sample_salt_def Let_def)

lemma sample_protected:
  "\<exists>d. protect_connector_config sample_key_settings (app_cipher toy_crypto sample_key_settings)
     (\<lambda>v. []) (\<lambda>f. sample_salt) ''asset_api'' sample_connector = Inr d"
  using sample_url sample_encrypt
  by (simp add: protect_connector_config_def validate_connector_config_def secret_fields_def SCHEMAS_def
      sample_connector_def jget_def py_str_def protect_field_def blank_def Let_def)

theorem connector_config_roundtrip_witness:
  "\<exists>stored resolved. protect_connector_config sample_key_settings (app_cipher toy_crypto sample_key_settings)
       (\<lambda>v. []) (\<lambda>f. sample_salt) ''asset_api'' sample_connector = Inr stored
     \<and> resolve_connector_config (app_cipher toy_crypto sample_key_settings) ''asset_api'' stored = Inr resolved"
proof -
  obtain stored where s: "protect_connector_config sample_key_settings (app_cipher toy_crypto sample_key_settings)
     (\<lambda>v. []) (\<lambda>f. sample_salt) ''asset_api'' sample_connector = Inr stored"
    using sample_protected by blast
  from connector_config_roundtrip [OF app_cipher_ok [OF toy_crypto_ok] s] s show ?thesis by blast
qed

end
