(* ===== verification/Integrations.thy ===== *)
theory Integrations
  imports AuthApi ConnectorSecrets Reconciler
begin

text \<open>
  Integrations: their management (\<open>app/api/integrations.py\<close>) and the periodic synchronisation
  that reads each source and reconciles what it reports (\<open>_sync_all\<close> of
  \<open>app/workers/reconcile_tasks.py\<close>). What a connector fetches is a parameter.
\<close>

section \<open>Connectors\<close>

definition list_connectors :: "string list" where
  "list_connectors = [''ad_ldap'', ''asset_api'', ''cloud_aws'', ''dhcp_dns'', ''edr_crowdstrike'', ''vuln_nessus'']"

definition get_connector :: "string \<Rightarrow> bool" where "get_connector name = (name \<in> set list_connectors)"

record connector_env =
  ce_cipher :: cipher
  ce_show :: "pyval \<Rightarrow> string"
  ce_salts :: "string \<Rightarrow> string"
  ce_cron_ok :: "string \<Rightarrow> bool"
  ce_fetch :: "string \<Rightarrow> jdict \<Rightarrow> host_data list result"
  ce_test :: "string \<Rightarrow> jdict \<Rightarrow> bool result"

section \<open>Management\<close>

record integration_create =
  ic_name :: string
  ic_connector_type :: string
  ic_config :: jdict
  ic_schedule_cron :: string
  ic_priority :: int

record integration_update =
  iu_config :: "jdict dkey"
  iu_schedule_cron :: "string dkey"
  iu_priority :: "int dkey"
  iu_enabled :: "bool dkey"

definition integration_create_ok :: "integration_create \<Rightarrow> bool" where
  "integration_create_ok b =
     (3 \<le> length (ic_name b) \<and> length (ic_name b) \<le> 64 \<and> 1 \<le> ic_priority b \<and> ic_priority b \<le> 10)"

definition integration_update_ok :: "integration_update \<Rightarrow> bool" where
  "integration_update_ok b = (case iu_priority b of Has p \<Rightarrow> 1 \<le> p \<and> p \<le> 10 | _ \<Rightarrow> True)"

definition first_row :: "'a list \<Rightarrow> 'a option" where
  "first_row rows = (case rows of [] \<Rightarrow> None | r # rs \<Rightarrow> Some r)"

definition integration_fits :: "integration \<Rightarrow> bool" where
  "integration_fits g = (length (ig_name g) \<le> 64 \<and> length (ig_connector_type g) \<le> 32 \<and> length (ig_schedule_cron g) \<le> 64)"

text \<open>\<open>except ValueError as exc: raise HTTPException(422, str(exc))\<close>\<close>

definition or_422 :: "'a result \<Rightarrow> 'a result" where
  "or_422 r = (case r of Inl (ValueError m) \<Rightarrow> Inl (HTTPException 422 m) | _ \<Rightarrow> r)"

definition create_integration :: "'r env \<Rightarrow> connector_env \<Rightarrow> int \<Rightarrow> http_request \<Rightarrow> principal \<Rightarrow> integration_create \<Rightarrow> db \<Rightarrow>
    nat result \<times> db" where
  "create_integration env ce now rq who b d =
     (if \<not> get_connector (ic_connector_type b)
      then (Inl (HTTPException 400 (''Unknown connector: '' @ ic_connector_type b)), d)
      else if filter (\<lambda>g. ig_name g = ic_name b) (integrations d) \<noteq> []
      then (Inl (HTTPException 409 ''Integration name already exists''), d)
      else case or_422
          (rbind (protect_connector_config (env_cfg env) (ce_cipher ce) (ce_show ce) (ce_salts ce) (ic_connector_type b) (ic_config b))
             (\<lambda>stored. rbind (validate_schedule (ce_cron_ok ce) (ic_schedule_cron b)) (\<lambda>schedule. Inr (stored, schedule)))) of
        Inl e \<Rightarrow> (Inl e, d)
      | Inr (stored, schedule) \<Rightarrow>
          let (i, d1) = fresh_id d;
              g = (new_integration i now)\<lparr>ig_name := ic_name b, ig_connector_type := ic_connector_type b,
                    ig_config := stored, ig_schedule_cron := schedule, ig_priority := ic_priority b\<rparr>
          in if \<not> integration_fits g then (Inl DataError, d)
             else (Inr i, audit (env_sha env) now rq ''integration_created'' (Some who) (Some ''integration'') None ''info''
                    [(''name'', PStr (ic_name b))] (d1\<lparr>integrations := integrations d1 @ [g]\<rparr>)))"

definition fields_set :: "integration_update \<Rightarrow> string list" where
  "fields_set b =
     (if iu_config b = Absent then [] else [''config'']) @ (if iu_enabled b = Absent then [] else [''enabled''])
     @ (if iu_priority b = Absent then [] else [''priority''])
     @ (if iu_schedule_cron b = Absent then [] else [''schedule_cron''])"

definition change_integration :: "settings \<Rightarrow> connector_env \<Rightarrow> integration_update \<Rightarrow> integration \<Rightarrow> integration result" where
  "change_integration cfg ce b g =
     rbind (case iu_config b of
         Has config \<Rightarrow> rbind (protect_connector_config cfg (ce_cipher ce) (ce_show ce) (ce_salts ce) (ig_connector_type g) config)
                       (\<lambda>stored. Inr (g\<lparr>ig_config := stored\<rparr>))
       | _ \<Rightarrow> Inr g) (\<lambda>g.
     rbind (case iu_schedule_cron b of
         Has s \<Rightarrow> rbind (validate_schedule (ce_cron_ok ce) s) (\<lambda>s. Inr (g\<lparr>ig_schedule_cron := s\<rparr>))
       | _ \<Rightarrow> Inr g) (\<lambda>g.
     Inr (g\<lparr>ig_priority := (case iu_priority b of Has p \<Rightarrow> p | _ \<Rightarrow> ig_priority g),
            ig_enabled := (case iu_enabled b of Has e \<Rightarrow> e | _ \<Rightarrow> ig_enabled g)\<rparr>)))"

definition put_integration :: "integration \<Rightarrow> db \<Rightarrow> db" where
  "put_integration g d = d\<lparr>integrations := update_where (\<lambda>x. ig_id x = ig_id g) (\<lambda>x. g) (integrations d)\<rparr>"

definition update_integration :: "'r env \<Rightarrow> connector_env \<Rightarrow> int \<Rightarrow> http_request \<Rightarrow> principal \<Rightarrow> nat \<Rightarrow> integration_update \<Rightarrow> db \<Rightarrow>
    bool result \<times> db" where
  "update_integration env ce now rq who i b d =
     (case first_row (filter (\<lambda>g. ig_id g = i) (integrations d)) of
        None \<Rightarrow> (Inl (HTTPException 404 ''Not Found''), d)
      | Some g \<Rightarrow>
          (case or_422 (change_integration (env_cfg env) ce b g) of
             Inl e \<Rightarrow> (Inl e, d)
           | Inr g' \<Rightarrow>
               if \<not> integration_fits g' then (Inl DataError, d)
               else (Inr True, audit (env_sha env) now rq ''integration_updated'' (Some who) (Some ''integration'') (Some (uuid_str i)) ''info''
                      [(''fields'', PList (map PStr (fields_set b)))] (put_integration g' d))))"

text \<open>
  A stored type without a connector fails in the secrets' schema first; connectors and
  schemas have the same names.
\<close>

definition test_integration :: "'r env \<Rightarrow> connector_env \<Rightarrow> int \<Rightarrow> http_request \<Rightarrow> principal \<Rightarrow> nat \<Rightarrow> db \<Rightarrow> bool result \<times> db" where
  "test_integration env ce now rq who i d =
     (case scalar_one_or_none (filter (\<lambda>g. ig_id g = i) (integrations d)) of
        Inl e \<Rightarrow> (Inl e, d)
      | Inr None \<Rightarrow> (Inl (HTTPException 404 ''Not Found''), d)
      | Inr (Some g) \<Rightarrow>
          (case resolve_connector_config (ce_cipher ce) (ig_connector_type g) (ig_config g) of
             Inl (ValueError m) \<Rightarrow> (Inl (HTTPException 409 m), d)
           | Inl e \<Rightarrow> (Inl e, d)
           | Inr config \<Rightarrow>
               if \<not> get_connector (ig_connector_type g) then (Inl TypeError, d)
               else case ce_test ce (ig_connector_type g) config of
                 Inl e \<Rightarrow> (Inl e, d)
               | Inr ok \<Rightarrow> (Inr ok,
                   audit (env_sha env) now rq ''integration_tested'' (Some who) (Some ''integration'') (Some (uuid_str i)) ''info''
                     [(''success'', PBool ok)] d)))"

text \<open>The answer is the integration the worker is asked to synchronise.\<close>

definition run_integration_now :: "'r env \<Rightarrow> int \<Rightarrow> http_request \<Rightarrow> principal \<Rightarrow> nat \<Rightarrow> db \<Rightarrow> nat result \<times> db" where
  "run_integration_now env now rq who i d =
     (Inr i, audit (env_sha env) now rq ''integration_manual_run'' (Some who) None (Some (uuid_str i)) ''info'' [] d)"

definition integration_row :: "integration \<Rightarrow> jdict" where
  "integration_row g =
     [(''id'', PStr (uuid_str (ig_id g))), (''name'', PStr (ig_name g)), (''connector_type'', PStr (ig_connector_type g)),
      (''enabled'', PBool (ig_enabled g)), (''priority'', PInt (ig_priority g)), (''schedule_cron'', PStr (ig_schedule_cron g)),
      (''last_run'', (case ig_last_run g of None \<Rightarrow> PNone | Some t \<Rightarrow> PInt t)), (''last_status'', opt_str (ig_last_status g)),
      (''assets_reported'', PInt (ig_assets_reported g))]"

definition list_integrations :: "db \<Rightarrow> jdict list" where
  "list_integrations d = map integration_row (integrations d)"

section \<open>Synchronisation\<close>

text \<open>
  A host that fails leaves nothing of its own behind. What a failed run had reconciled before
  stays in the session. After a failed flush the session is unusable: the handler of the
  failure itself raises, and nothing since the last commit is kept.
\<close>

fun reconcile_hosts :: "py_env \<Rightarrow> int \<Rightarrow> string \<Rightarrow> host_data list \<Rightarrow> rstate \<Rightarrow> unit result \<times> rstate" where
  "reconcile_hosts py now source [] st = (Inr (), st)"
| "reconcile_hosts py now source (h # hs) st =
     (case reconcile_host py now source h st of
        Inl e \<Rightarrow> (Inl e, st)
      | Inr (a, st') \<Rightarrow> reconcile_hosts py now source hs st')"

definition flush_error :: "exn \<Rightarrow> bool" where
  "flush_error e = (e = IntegrityError \<or> e = DataError)"

definition sync_succeeded :: "int \<Rightarrow> nat \<Rightarrow> integration \<Rightarrow> integration" where
  "sync_succeeded now n g = g\<lparr>ig_last_run := Some now, ig_last_status := Some ''success'',
     ig_assets_reported := int n, ig_failure_count := 0\<rparr>"

definition sync_failed :: "integration \<Rightarrow> integration" where
  "sync_failed g = (let g = g\<lparr>ig_failure_count := ig_failure_count g + 1, ig_last_status := Some ''failed''\<rparr>
     in if 5 \<le> ig_failure_count g then g\<lparr>ig_enabled := False\<rparr> else g)"

text \<open>One source: the number of its hosts or what stopped it, and the session's database.\<close>

definition run_source :: "py_env \<Rightarrow> connector_env \<Rightarrow> int \<Rightarrow> integration \<Rightarrow> db \<Rightarrow> nat result \<times> db" where
  "run_source py ce now g d =
     (case rbind (resolve_connector_config (ce_cipher ce) (ig_connector_type g) (ig_config g)) (ce_fetch ce (ig_connector_type g)) of
        Inl e \<Rightarrow> (Inl e, d)
      | Inr hosts \<Rightarrow>
          (case reconcile_hosts py now (ig_connector_type g) hosts \<lparr> r_db = d, r_generated = [] \<rparr> of
             (Inl e, st) \<Rightarrow> (Inl e, r_db st)
           | (Inr u, st) \<Rightarrow> (Inr (length hosts), r_db st)))"

text \<open>The database a task leaves is the one of its last commit.\<close>

fun sync_each :: "py_env \<Rightarrow> connector_env \<Rightarrow> int \<Rightarrow> integration list \<Rightarrow> (string \<times> nat) list \<Rightarrow> db \<Rightarrow>
    (string \<times> nat) list result \<times> db" where
  "sync_each py ce now [] results d = (Inr results, d)"
| "sync_each py ce now (g # gs) results d =
     (if \<not> get_connector (ig_connector_type g) then sync_each py ce now gs results d
      else case run_source py ce now g d of
        (Inr n, work) \<Rightarrow> sync_each py ce now gs (results @ [(ig_name g, n)]) (put_integration (sync_succeeded now n g) work)
      | (Inl e, work) \<Rightarrow>
          if flush_error e then (Inl MissingGreenlet, d)
          else sync_each py ce now gs results (put_integration (sync_failed g) work))"

text \<open>
  What the session writes of its assets: \<open>sources\<close> is changed in place and keeps the value the
  row had when it was loaded, or first flushed.
\<close>

definition written_row :: "asset list \<Rightarrow> asset \<Rightarrow> asset" where
  "written_row loaded a = (case find (\<lambda>o1. a_id o1 = a_id a) loaded of
     None \<Rightarrow> a\<lparr>a_sources := take 1 (a_sources a)\<rparr>
   | Some o1 \<Rightarrow> flushed_asset o1 a)"

definition written :: "db \<Rightarrow> db \<Rightarrow> db" where
  "written loaded d = d\<lparr>assets := map (written_row (assets loaded)) (assets d)\<rparr>"

definition sync_all :: "py_env \<Rightarrow> connector_env \<Rightarrow> int \<Rightarrow> nat option \<Rightarrow> db \<Rightarrow> (string \<times> nat) list result \<times> db" where
  "sync_all py ce now only d =
     (case sync_each py ce now
        (filter (\<lambda>g. ig_enabled g \<and> (only = None \<or> only = Some (ig_id g))) (integrations d)) [] d of
      (r, d') \<Rightarrow> (r, written d d'))"

section \<open>Failing sources\<close>



lemma written_frame [simp]:
  "integrations (written d0 d) = integrations d" "alerts (written d0 d) = alerts d"
  "map a_id (assets (written d0 d)) = map a_id (assets d)"
  by (auto simp: written_def written_row_def flushed_asset_def comp_def split: option.splits)

lemma find_key: "distinct (map key rows) \<Longrightarrow> r \<in> set rows \<Longrightarrow> find (\<lambda>x. key x = key r) rows = Some r"
  by (induction rows) auto

lemma written_same: "distinct (map a_id (assets d)) \<Longrightarrow> written d d = d"
proof -
  assume "distinct (map a_id (assets d))"
  then have "map (written_row (assets d)) (assets d) = assets d"
    by (intro map_idI) (simp add: written_row_def find_key flushed_asset_def)
  then show ?thesis by (simp add: written_def)
qed




text \<open>What a source without a value for a required column does to a run.\<close>

lemma reconcile_hosts_append:
  "reconcile_hosts py now source pre st = (Inr (), st') \<Longrightarrow>
   reconcile_hosts py now source (pre @ hs) st = reconcile_hosts py now source hs st'"
  by (induction pre arbitrary: st) (auto split: sum.splits prod.splits)

lemma build_asset_null: "hd_control_coverage h = Null \<Longrightarrow> build_asset now i source h = Inl IntegrityError"
  by (simp add: build_asset_def get_or_def split: option.splits)

text \<open>
  One report with a null in a required field stops the whole synchronisation. Whatever
  came before it in the run is lost, the sources after it are not read, and the failure is
  not counted against the source: the run ends as if it had not happened, and so will the
  next one.
\<close>

theorem null_field_stops_sync:
  assumes "filter ig_enabled (integrations d) = g # gs" "get_connector (ig_connector_type g)"
    and "resolve_connector_config (ce_cipher ce) (ig_connector_type g) (ig_config g) = Inr config"
    and "ce_fetch ce (ig_connector_type g) config = Inr (pre @ h # post)"
    and "reconcile_hosts py now (ig_connector_type g) pre \<lparr> r_db = d, r_generated = [] \<rparr> = (Inr (), st)"
    and "find_existing h (assets (r_db st)) = Inr None" "hd_control_coverage h = Null"
    and "distinct (map a_id (assets d))"
  shows "sync_all py ce now None d = (Inl MissingGreenlet, d)"
proof -
  have "reconcile_host py now (ig_connector_type g) h st = Inl IntegrityError"
    using assms(6) build_asset_null [OF assms(7)]
    by (simp add: reconcile_host_def create_from_source_def fresh_id_def)
  then have "run_source py ce now g d = (Inl IntegrityError, r_db st)"
    using assms(3,4) reconcile_hosts_append [OF assms(5), of "h # post"] by (simp add: run_source_def)
  with assms(1,2) show ?thesis by (simp add: sync_all_def flush_error_def written_same [OF assms(8)])
qed

text \<open>
  Any other failing report leaves what came before it in the inventory: the session is
  committed with the failure.
\<close>

lemma failed_source_keeps_prefix:
  assumes "get_connector (ig_connector_type g)"
    and "resolve_connector_config (ce_cipher ce) (ig_connector_type g) (ig_config g) = Inr config"
    and "ce_fetch ce (ig_connector_type g) config = Inr (pre @ h # post)"
    and "reconcile_hosts py now (ig_connector_type g) pre \<lparr> r_db = d, r_generated = [] \<rparr> = (Inr (), st)"
    and "reconcile_host py now (ig_connector_type g) h st = Inl e" "\<not> flush_error e"
  shows "sync_each py ce now (g # gs) results d
    = sync_each py ce now gs results (put_integration (sync_failed g) (r_db st))"
  using assms reconcile_hosts_append [OF assms(4), of "h # post"] by (simp add: run_source_def)

section \<open>Witnesses\<close>

definition sample_integration :: integration where
  "sample_integration = (new_integration 3 0)\<lparr>ig_name := ''cmdb'', ig_connector_type := ''asset_api'',
     ig_config := [(''base_url'', PStr ''https://assets.example.com'')]\<rparr>"

definition sample_integration_db :: db where
  "sample_integration_db = empty_db\<lparr>next_id := 9, integrations := [sample_integration]\<rparr>"

definition sample_connectors :: "host_data list result \<Rightarrow> connector_env" where
  "sample_connectors r = \<lparr> ce_cipher = app_cipher toy_crypto sample_key_settings, ce_show = (\<lambda>v. []), ce_salts = (\<lambda>f. sample_salt),
     ce_cron_ok = (\<lambda>s. True), ce_fetch = (\<lambda>t c. r), ce_test = (\<lambda>t c. Inr True) \<rparr>"

lemma sample_integration_resolved:
  "get_connector (ig_connector_type sample_integration)"
  "resolve_connector_config (ce_cipher (sample_connectors r)) (ig_connector_type sample_integration) (ig_config sample_integration)
    = Inr [(''base_url'', PStr ''https://assets.example.com'')]"
  by (simp_all add: get_connector_def list_connectors_def sample_integration_def resolve_connector_config_def
      secret_fields_def SCHEMAS_def resolve_field_def jget_def blank_def)


theorem null_field_stops_sync_witness:
  "sync_all sample_py (sample_connectors (Inr [sample_report\<lparr>hd_control_coverage := Null\<rparr>])) 5 None sample_integration_db
    = (Inl MissingGreenlet, sample_integration_db)"
proof (rule null_field_stops_sync [where g = sample_integration and gs = "[]" and pre = "[]" and post = "[]"
      and h = "sample_report\<lparr>hd_control_coverage := Null\<rparr>" and st = "\<lparr> r_db = sample_integration_db, r_generated = [] \<rparr>"])
  show "find_existing (sample_report\<lparr>hd_control_coverage := Null\<rparr>) (assets (r_db \<lparr> r_db = sample_integration_db, r_generated = [] \<rparr>)) = Inr None"
    by (simp add: find_existing_def sample_report_def sample_integration_db_def empty_db_def Let_def)
qed (rule sample_integration_resolved | simp add: sample_integration_db_def sample_integration_def new_integration_def
      sample_connectors_def empty_db_def)+

end
