(* ===== verification/Scanner.thy ===== *)
theory Scanner
  imports NetPolicy Tokens
begin

text \<open>
  \<open>app/services/scanner.py\<close>: the nmap commands of a scan and the reading of nmap's XML. The
  XML parser and the execution of a command are parameters. An element's text is never
  missing here; nmap writes no empty \<open>cpe\<close> elements.
\<close>

section \<open>XML\<close>

datatype xml = Xml (xml_tag: string) (xml_attrs: "(string \<times> string) list") (xml_children: "xml list") (xml_text: string)

definition get_attr :: "xml \<Rightarrow> string \<Rightarrow> string option" where "get_attr x k = map_of (xml_attrs x) k"

definition findall :: "string \<Rightarrow> xml \<Rightarrow> xml list" where
  "findall tag x = filter (\<lambda>c. xml_tag c = tag) (xml_children x)"

definition find_elem :: "string \<Rightarrow> xml \<Rightarrow> xml option" where
  "find_elem tag x = find (\<lambda>c. xml_tag c = tag) (xml_children x)"

section \<open>Hosts\<close>

record service =
  sv_port :: int
  sv_protocol :: "string option"
  sv_service :: "string option"
  sv_product :: "string option"
  sv_version :: "string option"
  sv_cpe :: "string list"

record discovered_host =
  dh_ip :: string
  dh_mac :: "string option"
  dh_mac_vendor :: "string option"
  dh_hostname :: "string option"
  dh_os_guess :: "string option"
  dh_state :: string
  dh_services :: "service list"
  dh_last_seen :: string

text \<open>The addresses of a host: the last of each kind counts.\<close>

definition take_address :: "xml \<Rightarrow> string option \<times> string option \<times> string option \<Rightarrow> string option \<times> string option \<times> string option" where
  "take_address addr acc = (case acc of (ip, mac, vendor) \<Rightarrow>
     if get_attr addr ''addrtype'' = Some ''ipv4'' then (get_attr addr ''addr'', mac, vendor)
     else if get_attr addr ''addrtype'' = Some ''mac'' then (ip, get_attr addr ''addr'', get_attr addr ''vendor'')
     else acc)"

definition addresses_of :: "xml \<Rightarrow> string option \<times> string option \<times> string option" where
  "addresses_of host = fold take_address (findall ''address'' host) (None, None, None)"

definition opt_bind :: "'a option \<Rightarrow> ('a \<Rightarrow> 'b option) \<Rightarrow> 'b option" where
  "opt_bind m f = (case m of None \<Rightarrow> None | Some x \<Rightarrow> f x)"

definition hostname_of :: "xml \<Rightarrow> string option" where
  "hostname_of host = opt_bind (find_elem ''hostnames'' host) (\<lambda>hs. opt_bind (find_elem ''hostname'' hs) (\<lambda>h. get_attr h ''name''))"

definition os_guess_of :: "xml \<Rightarrow> string option" where
  "os_guess_of host = opt_bind (find_elem ''os'' host) (\<lambda>e. opt_bind (find_elem ''osmatch'' e) (\<lambda>m. get_attr m ''name''))"

definition is_open :: "xml \<Rightarrow> bool" where
  "is_open port = (case find_elem ''state'' port of None \<Rightarrow> False | Some s \<Rightarrow> get_attr s ''state'' = Some ''open'')"

definition service_of :: "xml \<Rightarrow> service result" where
  "service_of port =
     (let svc = find_elem ''service'' port
      in case (case get_attr port ''portid'' of None \<Rightarrow> Some 0 | Some s \<Rightarrow> parse_int s) of
           None \<Rightarrow> Inl (ValueError ''invalid literal for int()'')
         | Some p \<Rightarrow> Inr \<lparr> sv_port = p, sv_protocol = get_attr port ''protocol'',
             sv_service = opt_bind svc (\<lambda>s. get_attr s ''name''), sv_product = opt_bind svc (\<lambda>s. get_attr s ''product''),
             sv_version = opt_bind svc (\<lambda>s. get_attr s ''version''),
             sv_cpe = (case svc of None \<Rightarrow> [] | Some s \<Rightarrow> map xml_text (findall ''cpe'' s)) \<rparr>)"

fun services_of :: "xml list \<Rightarrow> service list result" where
  "services_of [] = Inr []"
| "services_of (p # ps) =
     (if is_open p then rbind (service_of p) (\<lambda>s. rbind (services_of ps) (\<lambda>ss. Inr (s # ss))) else services_of ps)"

definition host_of_xml :: "xml \<Rightarrow> discovered_host option result" where
  "host_of_xml host =
     (if (case find_elem ''status'' host of None \<Rightarrow> True | Some s \<Rightarrow> get_attr s ''state'' \<noteq> Some ''up'') then Inr None
      else case addresses_of host of (ip, mac, vendor) \<Rightarrow>
        if \<not> truthy_str ip then Inr None
        else rbind (services_of (case find_elem ''ports'' host of None \<Rightarrow> [] | Some ps \<Rightarrow> findall ''port'' ps)) (\<lambda>services.
          Inr (Some \<lparr> dh_ip = the ip, dh_mac = mac, dh_mac_vendor = vendor, dh_hostname = hostname_of host,
            dh_os_guess = os_guess_of host, dh_state = ''up'', dh_services = services,
            dh_last_seen = (case get_attr host ''endtime'' of None \<Rightarrow> [] | Some t \<Rightarrow> t) \<rparr>)))"

fun hosts_of :: "xml list \<Rightarrow> discovered_host list result" where
  "hosts_of [] = Inr []"
| "hosts_of (x # xs) =
     rbind (host_of_xml x) (\<lambda>h. rbind (hosts_of xs) (\<lambda>hs. Inr (case h of None \<Rightarrow> hs | Some h \<Rightarrow> h # hs)))"

definition parse_xml :: "(string \<Rightarrow> xml option) \<Rightarrow> string \<Rightarrow> discovered_host list result" where
  "parse_xml fromstring text =
     (case fromstring text of
        None \<Rightarrow> Inl (ServiceError ''nmap returned invalid XML'')
      | Some doc \<Rightarrow> hosts_of (findall ''host'' doc))"

section \<open>Commands\<close>

datatype nmap_outcome = Exited int string string | TimedOut | BinaryMissing

record scanner_env =
  se_cfg :: settings
  se_timing :: int
  se_timeout_sec :: int
  se_fromstring :: "string \<Rightarrow> xml option"
  se_exec :: "string list \<Rightarrow> nmap_outcome"

definition run_nmap :: "scanner_env \<Rightarrow> string list \<Rightarrow> discovered_host list result" where
  "run_nmap env args =
     (case se_exec env args of
        TimedOut \<Rightarrow> Inl (ServiceError ''nmap execution timed out'')
      | BinaryMissing \<Rightarrow> Inl (ServiceError ''nmap binary not found'')
      | Exited code out err \<Rightarrow>
          if code \<noteq> 0
          then Inl (ServiceError (if take 500 err = [] then ''nmap exited unsuccessfully'' else take 500 err))
          else parse_xml (se_fromstring env) out)"

definition timing_arg :: "scanner_env \<Rightarrow> string" where "timing_arg env = ''-T'' @ show_int (se_timing env)"

definition discover_args :: "scanner_env \<Rightarrow> string \<Rightarrow> string list \<Rightarrow> string list" where
  "discover_args env cidr excluded =
     [''nmap'', ''-sn'', ''-PR'', ''-PE'', ''-PA21,22,23,80,443,3389'', timing_arg env, ''-oX'', ''-'']
     @ (if excluded = [] then [] else [''--exclude'', join '','' excluded]) @ [cidr]"

definition service_args :: "scanner_env \<Rightarrow> string \<Rightarrow> string list" where
  "service_args env target =
     [''nmap'', ''-sV'', ''-p'', ''22,80,135,139,443,445,3389,5985,8080,8443'', timing_arg env, ''-oX'', ''-'', target]"

text \<open>A scan returns what it found with the commands it executed.\<close>

definition discover :: "scanner_env \<Rightarrow> string \<Rightarrow> string list \<Rightarrow> discovered_host list result \<times> string list list" where
  "discover env cidr excluded =
     (case authorize_scan_network (se_cfg env) cidr None None of
        Inl e \<Rightarrow> (Inl e, [])
      | Inr c \<Rightarrow> (run_nmap env (discover_args env c excluded), [discover_args env c excluded]))"

definition service_scan :: "scanner_env \<Rightarrow> string \<Rightarrow> discovered_host list result \<times> string list list" where
  "service_scan env target =
     (case authorize_scan_host (se_cfg env) target None of
        Inl e \<Rightarrow> (Inl e, [])
      | Inr t \<Rightarrow> (run_nmap env (service_args env t), [service_args env t]))"

section \<open>What is read from nmap\<close>

lemma host_of_xml_ok:
  "host_of_xml x = Inr (Some h) \<Longrightarrow> dh_ip h \<noteq> [] \<and> dh_state h = ''up''"
  by (auto simp: host_of_xml_def rbind_eq_Inr truthy_str_def split: if_splits prod.splits option.splits)

lemma hosts_of_ok: "hosts_of xs = Inr hs \<Longrightarrow> h \<in> set hs \<Longrightarrow> dh_ip h \<noteq> [] \<and> dh_state h = ''up''"
  by (induction xs arbitrary: hs) (auto simp: rbind_eq_Inr dest: host_of_xml_ok split: option.splits)

lemma run_nmap_hosts: "run_nmap env args = Inr hs \<Longrightarrow> h \<in> set hs \<Longrightarrow> dh_ip h \<noteq> []"
  by (auto simp: run_nmap_def parse_xml_def dest: hosts_of_ok split: nmap_outcome.splits if_splits option.splits)

end
