(* ===== verification/ScanTasks.thy ===== *)
theory ScanTasks
  imports Integrations Scanner
begin

text \<open>
  Network scans: the worker's run over the stored networks and the scan of one host
  (\<open>app/workers/scan_tasks.py\<close>), and the requests that add networks and trigger scans
  (\<open>app/api/scans.py\<close>). \<open>exn_str\<close> is \<open>str()\<close> of an exception.
\<close>

section \<open>What a discovered host reports\<close>

definition service_dict :: "service \<Rightarrow> pyval" where
  "service_dict s = PDict [(''port'', PInt (sv_port s)), (''protocol'', opt_str (sv_protocol s)),
     (''service'', opt_str (sv_service s)), (''product'', opt_str (sv_product s)),
     (''version'', opt_str (sv_version s)), (''cpe'', PList (map PStr (sv_cpe s)))]"

definition products_of :: "service list \<Rightarrow> string list" where
  "products_of ss = map (\<lambda>s. the (sv_product s)) (filter (\<lambda>s. truthy_str (sv_product s)) ss)"

definition service_report :: "discovered_host \<Rightarrow> host_data" where
  "service_report h = \<lparr> hd_name = opt_key (str_or (dh_hostname h) (Some (dh_ip h))), hd_hostname = opt_key (dh_hostname h),
     hd_ip = Has (dh_ip h), hd_mac = opt_key (dh_mac h), hd_type = Absent, hd_os = Absent, hd_os_guess = opt_key (dh_os_guess h),
     hd_segment = Absent, hd_edr_status = Absent, hd_control_coverage = Absent, hd_network_exposure = Absent,
     hd_auth_method = Absent, hd_criticality = Absent, hd_data_classification = Absent,
     hd_software_stack = Has (products_of (dh_services h)), hd_cpe = Has (concat (map sv_cpe (dh_services h))),
     hd_dependencies = Absent, hd_services = Has (PList (map service_dict (dh_services h))) \<rparr>"

definition network_report :: "scan_network \<Rightarrow> discovered_host \<Rightarrow> host_data" where
  "network_report n h = (service_report h)\<lparr>hd_type := Has ''Unknown'', hd_segment := Has (sn_name n)\<rparr>"

section \<open>The scan of all networks\<close>

record scan_env =
  sv_scanner :: scanner_env
  sv_py :: py_env
  exn_str :: "exn \<Rightarrow> string"

definition recover_scan :: "int \<Rightarrow> int \<Rightarrow> scan \<Rightarrow> scan" where
  "recover_scan now cutoff s =
     s\<lparr>sc_status := ''failed'', sc_error := Some ''recovered stale scan after worker interruption'', sc_completed_at := Some now\<rparr>"

definition is_stale_scan :: "int \<Rightarrow> scan \<Rightarrow> bool" where
  "is_stale_scan cutoff s = (sc_status s = ''running'' \<and> (case sc_started_at s of None \<Rightarrow> False | Some t \<Rightarrow> t < cutoff))"

definition start_scan :: "int \<Rightarrow> scan_network \<Rightarrow> db \<Rightarrow> nat \<times> db" where
  "start_scan now n d =
     (let (i, d) = fresh_id d;
          s = (new_scan i now)\<lparr>sc_scan_type := ''discovery'', sc_target := sn_cidr n, sc_status := ''running'',
                sc_started_at := Some now, sc_triggered_by := ''scheduler''\<rparr>
      in (i, d\<lparr>scans := scans d @ [s]\<rparr>))"

definition update_scan :: "nat \<Rightarrow> (scan \<Rightarrow> scan) \<Rightarrow> db \<Rightarrow> db" where
  "update_scan i f d = d\<lparr>scans := update_where (\<lambda>s. sc_id s = i) f (scans d)\<rparr>"

definition complete_scan :: "int \<Rightarrow> nat \<Rightarrow> scan \<Rightarrow> scan" where
  "complete_scan now n s = s\<lparr>sc_status := ''completed'', sc_hosts_found := int n, sc_completed_at := Some now\<rparr>"

definition fail_scan :: "int \<Rightarrow> string \<Rightarrow> scan \<Rightarrow> scan" where
  "fail_scan now m s = s\<lparr>sc_status := ''failed'', sc_error := Some (take 1000 m), sc_completed_at := Some now\<rparr>"

text \<open>
  One network: the number of its hosts or the exception, with the session's database and
  the commands. Reconciliation works on the session after the commit of the scan row.
\<close>

definition scan_network_once :: "scan_env \<Rightarrow> int \<Rightarrow> scan_network \<Rightarrow> db \<Rightarrow> nat result \<times> db \<times> string list list" where
  "scan_network_once env now n d =
     (case discover (sv_scanner env) (sn_cidr n) (sn_excluded_ips n) of
        (Inl e, cmds) \<Rightarrow> (Inl e, d, cmds)
      | (Inr hosts, cmds) \<Rightarrow>
          (case reconcile_hosts (sv_py env) now ''nmap_scan'' (map (network_report n) hosts) \<lparr> r_db = d, r_generated = [] \<rparr> of
             (Inl e, st) \<Rightarrow> (Inl e, r_db st, cmds)
           | (Inr u, st) \<Rightarrow> (Inr (length hosts), r_db st, cmds)))"

text \<open>
  The rollback after a failure expires every object of the session; the failed scan is
  stored, and then the log line that names the network needs a read the asynchronous
  session does not allow.
\<close>

fun scan_each :: "scan_env \<Rightarrow> int \<Rightarrow> scan_network list \<Rightarrow> nat \<times> nat \<times> nat \<Rightarrow> db \<Rightarrow>
    (nat \<times> nat \<times> nat) result \<times> db \<times> string list list" where
  "scan_each env now [] acc d = (Inr acc, d, [])"
| "scan_each env now (n # ns) (scanned, failed, hosts) d =
     (case authorize_scan_network (se_cfg (sv_scanner env)) (sn_cidr n) None None of
        Inl (ScanAuthorizationError m) \<Rightarrow> scan_each env now ns (scanned, failed, hosts) d
      | Inl e \<Rightarrow> (Inl e, d, [])
      | Inr c \<Rightarrow>
          (case start_scan now n d of (i, d1) \<Rightarrow>
             (case scan_network_once env now n d1 of
                (Inl e, work, cmds) \<Rightarrow> (Inl MissingGreenlet, update_scan i (fail_scan now (exn_str env e)) d1, cmds)
              | (Inr k, work, cmds) \<Rightarrow>
                  (case scan_each env now ns (scanned + 1, failed, hosts + k) (update_scan i (complete_scan now k) work) of
                     (r, d', cmds') \<Rightarrow> (r, d', cmds @ cmds')))))"

record scan_report =
  sr_status :: string
  sr_networks_scanned :: nat
  sr_failed_networks :: nat
  sr_total_hosts :: nat
  sr_recovered_stale :: nat

definition run_all_network_scans :: "scan_env \<Rightarrow> int \<Rightarrow> db \<Rightarrow> scan_report result \<times> db \<times> string list list" where
  "run_all_network_scans env now d =
     (let cutoff = now - se_timeout_sec (sv_scanner env) * 2 * 1000000;
          recovered = length (filter (is_stale_scan cutoff) (scans d));
          d1 = d\<lparr>scans := update_where (is_stale_scan cutoff) (recover_scan now cutoff) (scans d)\<rparr>
      in case scan_each env now (filter sn_enabled (scan_networks d1)) (0, 0, 0) d1 of
           (Inl e, d', cmds) \<Rightarrow> (Inl e, written d d', cmds)
         | (Inr (scanned, failed, hosts), d', cmds) \<Rightarrow>
             (Inr \<lparr> sr_status = (if scanned = 0 then ''blocked'' else if failed = 0 then ''completed''
                       else if failed = scanned then ''failed'' else ''partial''),
                    sr_networks_scanned = scanned, sr_failed_networks = failed, sr_total_hosts = hosts,
                    sr_recovered_stale = recovered \<rparr>, written d d', cmds))"

text \<open>The scan of one host: its number of services; a failure keeps nothing.\<close>

definition service_scan_host :: "scan_env \<Rightarrow> int \<Rightarrow> string \<Rightarrow> db \<Rightarrow> nat option result \<times> db \<times> string list list" where
  "service_scan_host env now ip d =
     (case service_scan (sv_scanner env) ip of
        (Inl e, cmds) \<Rightarrow> (Inl e, d, cmds)
      | (Inr [], cmds) \<Rightarrow> (Inr None, d, cmds)
      | (Inr (h # hs), cmds) \<Rightarrow>
          (case reconcile_hosts (sv_py env) now ''nmap_scan'' (map service_report (h # hs)) \<lparr> r_db = d, r_generated = [] \<rparr> of
             (Inl e, st) \<Rightarrow> (Inl e, d, cmds)
           | (Inr u, st) \<Rightarrow> (Inr (Some (length (dh_services h))), written d (r_db st), cmds)))"

section \<open>Requests\<close>

definition add_network :: "'r env \<Rightarrow> int \<Rightarrow> http_request \<Rightarrow> principal \<Rightarrow> scan_network_create \<Rightarrow> db \<Rightarrow> nat result \<times> db" where
  "add_network env now rq who b d =
     (case authorize_scan_network (env_cfg env) (snc_cidr b) None None of
        Inl (ScanAuthorizationError m) \<Rightarrow> (Inl (HTTPException 403 m), d)
      | Inl e \<Rightarrow> (Inl e, d)
      | Inr cidr \<Rightarrow>
          let (i, d1) = fresh_id d;
              n = (new_scan_network i now)\<lparr>sn_cidr := cidr, sn_name := snc_name b, sn_scan_type := snc_scan_type b,
                    sn_excluded_ips := snc_excluded_ips b\<rparr>
          in if cidr \<in> set (map sn_cidr (scan_networks d)) then (Inl IntegrityError, d)
             else (Inr i, audit (env_sha env) now rq ''scan_network_added'' (Some who) None None ''info''
                    [(''cidr'', PStr cidr)] (d1\<lparr>scan_networks := scan_networks d1 @ [n]\<rparr>)))"

definition trigger_scan_now :: "'r env \<Rightarrow> int \<Rightarrow> http_request \<Rightarrow> principal \<Rightarrow> db \<Rightarrow> bool result \<times> db" where
  "trigger_scan_now env now rq who d =
     (if SCAN_NETWORKS (env_cfg env) = []
      then (Inl (HTTPException 409 ''Network scanning is disabled until SCAN_NETWORKS contains an authorized CIDR''), d)
      else (Inr True, audit (env_sha env) now rq ''manual_scan_trigger'' (Some who) None None ''info'' [] d))"

definition parse_service_scan :: "settings \<Rightarrow> string \<Rightarrow> string result" where
  "parse_service_scan cfg ip =
     (case authorize_scan_host cfg ip None of
        Inl (ScanAuthorizationError m) \<Rightarrow> Inl (HTTPException 422 m) | r \<Rightarrow> r)"

definition trigger_service_scan :: "'r env \<Rightarrow> int \<Rightarrow> http_request \<Rightarrow> principal \<Rightarrow> string \<Rightarrow> db \<Rightarrow> string result \<times> db" where
  "trigger_service_scan env now rq who ip d =
     (Inr ip, audit (env_sha env) now rq ''manual_service_scan'' (Some who) None None ''info'' [(''ip'', PStr ip)] d)"

definition scan_row :: "scan \<Rightarrow> jdict" where
  "scan_row s =
     [(''id'', PStr (uuid_str (sc_id s))), (''scan_type'', PStr (sc_scan_type s)), (''target'', PStr (sc_target s)),
      (''status'', PStr (sc_status s)), (''started_at'', (case sc_started_at s of None \<Rightarrow> PNone | Some t \<Rightarrow> PInt t)),
      (''completed_at'', (case sc_completed_at s of None \<Rightarrow> PNone | Some t \<Rightarrow> PInt t)),
      (''hosts_found'', PInt (sc_hosts_found s)), (''error'', opt_str (sc_error s))]"

definition list_scans :: "nat \<Rightarrow> db \<Rightarrow> jdict list" where
  "list_scans limit d = map scan_row (take limit (sort_key (\<lambda>s. - sc_created_at s) (scans d)))"

fun list_networks :: "settings \<Rightarrow> scan_network list \<Rightarrow> jdict list result" where
  "list_networks cfg [] = Inr []"
| "list_networks cfg (n # ns) =
     rbind (is_authorized_network cfg (sn_cidr n)) (\<lambda>ok. rbind (list_networks cfg ns) (\<lambda>rows.
       Inr ([(''id'', PStr (uuid_str (sn_id n))), (''cidr'', PStr (sn_cidr n)), (''name'', PStr (sn_name n)),
             (''enabled'', PBool (sn_enabled n)), (''scan_type'', PStr (sn_scan_type n)),
             (''excluded_ips'', PList (map PStr (sn_excluded_ips n))), (''authorized'', PBool ok)] # rows)))"

section \<open>What is executed\<close>

definition contained_target :: "settings \<Rightarrow> string \<Rightarrow> bool" where
  "contained_target cfg s = (\<exists>target a v. s = show_net target \<and> num_addresses target \<le> MAX_SCAN_HOSTS cfg
     \<and> v \<in> set (SCAN_NETWORKS cfg) \<and> ip_network False v = Some a \<and> covered_by target a)"

lemma discover_cmds:
  assumes "discover env cidr excluded = (r, cmds)" "cmd \<in> set cmds"
  shows "\<exists>t. cmd = discover_args env t excluded \<and> contained_target (se_cfg env) t"
proof -
  obtain t where t: "authorize_scan_network (se_cfg env) cidr None None = Inr t" "cmd = discover_args env t excluded"
    using assms by (cases "authorize_scan_network (se_cfg env) cidr None None") (auto simp: discover_def)
  then have "contained_target (se_cfg env) t"
    using authorize_scan_network_within [OF t(1)] by (auto simp: contained_target_def)
  with t show ?thesis by blast
qed

lemma scan_network_once_cmds:
  assumes "scan_network_once env now n d = (r, d', cmds)" "cmd \<in> set cmds"
  shows "\<exists>t. cmd = discover_args (sv_scanner env) t (sn_excluded_ips n) \<and> contained_target (se_cfg (sv_scanner env)) t"
proof -
  obtain r' where "discover (sv_scanner env) (sn_cidr n) (sn_excluded_ips n) = (r', cmds)"
    using assms(1) by (cases "discover (sv_scanner env) (sn_cidr n) (sn_excluded_ips n)")
      (auto simp: scan_network_once_def split: sum.splits prod.splits)
  then show ?thesis using assms(2) by (rule discover_cmds)
qed

lemma scan_each_cmds:
  assumes "scan_each env now ns acc d = (r, d', cmds)" "cmd \<in> set cmds"
  shows "\<exists>n\<in>set ns. \<exists>t. cmd = discover_args (sv_scanner env) t (sn_excluded_ips n) \<and> contained_target (se_cfg (sv_scanner env)) t"
  using assms
proof (induction ns arbitrary: acc d cmds)
  case Nil
  then show ?case by simp
next
  case (Cons n ns)
  obtain scanned failed hosts where acc: "acc = (scanned, failed, hosts)" by (cases acc) auto
  show ?case
  proof (cases "authorize_scan_network (se_cfg (sv_scanner env)) (sn_cidr n) None None")
    case (Inl e)
    with Cons acc show ?thesis by (cases e) auto
  next
    case a: (Inr c)
    obtain i d1 where s: "start_scan now n d = (i, d1)" by fastforce
    obtain o1 work cmds1 where o: "scan_network_once env now n d1 = (o1, work, cmds1)" by (cases "scan_network_once env now n d1") auto
    show ?thesis
    proof (cases o1)
      case (Inl e)
      with Cons.prems acc a s o have "cmd \<in> set cmds1" by auto
      from scan_network_once_cmds [OF o this] show ?thesis by auto
    next
      case (Inr k)
      obtain r2 d2 cmds2 where rest: "scan_each env now ns (scanned + 1, failed, hosts + k) (update_scan i (complete_scan now k) work) = (r2, d2, cmds2)"
        by (cases "scan_each env now ns (scanned + 1, failed, hosts + k) (update_scan i (complete_scan now k) work)") auto
      then have all: "cmds = cmds1 @ cmds2" "r = r2" "d' = d2" using Cons.prems(1) acc a s o Inr by auto
      then consider "cmd \<in> set cmds1" | "cmd \<in> set cmds2" using Cons.prems(2) by auto
      then show ?thesis
      proof cases
        case 1
        from scan_network_once_cmds [OF o this] show ?thesis by auto
      next
        case 2
        from Cons.IH [OF rest [folded all(2,3)] this] show ?thesis by auto
      qed
    qed
  qed
qed

text \<open>
  C19: Whatever networks the database lists, a scan run executes nmap only on approved
  targets. The last argument of every command is a network no larger than the limit whose
  addresses all lie in one of the configured \<open>SCAN_NETWORKS\<close>; the rest is fixed but for the
  exclusions of an enabled stored network.
\<close>

theorem scan_commands_contained:
  assumes "run_all_network_scans env now d = (r, d', cmds)" "cmd \<in> set cmds"
  shows "\<exists>n\<in>set (scan_networks d). \<exists>target a v. sn_enabled n
    \<and> cmd = discover_args (sv_scanner env) (show_net target) (sn_excluded_ips n)
    \<and> num_addresses target \<le> MAX_SCAN_HOSTS (se_cfg (sv_scanner env))
    \<and> v \<in> set (SCAN_NETWORKS (se_cfg (sv_scanner env))) \<and> ip_network False v = Some a \<and> covered_by target a"
proof -
  let ?cut = "now - se_timeout_sec (sv_scanner env) * 2 * 1000000"
  let ?d1 = "d\<lparr>scans := update_where (is_stale_scan ?cut) (recover_scan now ?cut) (scans d)\<rparr>"
  obtain r1 d2 c1 where e: "scan_each env now (filter sn_enabled (scan_networks ?d1)) (0, 0, 0) ?d1 = (r1, d2, c1)"
    by (cases "scan_each env now (filter sn_enabled (scan_networks ?d1)) (0, 0, 0) ?d1") auto
  have "c1 = cmds" using assms(1) e by (cases r1) (auto simp: run_all_network_scans_def Let_def)
  with scan_each_cmds [OF e] assms(2) show ?thesis by (auto simp: contained_target_def) blast
qed

section \<open>Failing scans\<close>

lemma scan_each_no_failures:
  "scan_each env now ns acc d = (Inr acc', d', cmds) \<Longrightarrow> fst (snd acc') = fst (snd acc)"
proof (induction ns arbitrary: acc d cmds)
  case (Cons n ns)
  obtain scanned failed hosts where acc: "acc = (scanned, failed, hosts)" by (cases acc) auto
  show ?case
  proof (cases "authorize_scan_network (se_cfg (sv_scanner env)) (sn_cidr n) None None")
    case (Inl e)
    with Cons acc show ?thesis by (cases e) auto
  next
    case a: (Inr c)
    obtain i d1 where s: "start_scan now n d = (i, d1)" by fastforce
    obtain o1 work cmds1 where o: "scan_network_once env now n d1 = (o1, work, cmds1)" by (cases "scan_network_once env now n d1") auto
    with Cons.prems acc a s obtain k cmds2 where
      "scan_each env now ns (scanned + 1, failed, hosts + k) (update_scan i (complete_scan now k) work) = (Inr acc', d', cmds2)"
      by (cases o1) (auto split: prod.splits)
    from Cons.IH [OF this] acc show ?thesis by simp
  qed
qed simp

text \<open>A run that returns has seen no failure: it never reports \<open>failed\<close> or \<open>partial\<close>.\<close>

lemma scan_run_status:
  assumes "run_all_network_scans env now d = (Inr rep, d', cmds)"
  shows "sr_failed_networks rep = 0 \<and> sr_status rep \<in> {''blocked'', ''completed''}"
proof -
  let ?cut = "now - se_timeout_sec (sv_scanner env) * 2 * 1000000"
  let ?d1 = "d\<lparr>scans := update_where (is_stale_scan ?cut) (recover_scan now ?cut) (scans d)\<rparr>"
  obtain r d2 c where e: "scan_each env now (filter sn_enabled (scan_networks ?d1)) (0, 0, 0) ?d1 = (r, d2, c)"
    by (cases "scan_each env now (filter sn_enabled (scan_networks ?d1)) (0, 0, 0) ?d1") auto
  with assms obtain s f h where r: "r = Inr (s, f, h)" by (cases r) (auto simp: run_all_network_scans_def Let_def)
  with scan_each_no_failures [OF e [unfolded r]] have f: "f = 0" by simp
  show ?thesis
    using assms e unfolding r f by (cases "s = 0") (auto simp: run_all_network_scans_def Let_def)
qed

lemma start_scan_frame:
  "start_scan now n d = (i, d1) \<Longrightarrow> assets d1 = assets d \<and> alerts d1 = alerts d \<and> scan_networks d1 = scan_networks d
     \<and> i = next_id d \<and> (\<exists>s. scans d1 = scans d @ [s] \<and> sc_id s = i \<and> sc_target s = sn_cidr n)"
  by (auto simp: start_scan_def fresh_id_def Let_def new_scan_def)

text \<open>
  A failing scan leaves the inventory as it was, is stored as failed, and ends the run:
  the networks after it are not scanned, and the task raises instead of reporting the
  \<open>partial\<close> outcome it computes.
\<close>

theorem failed_scan_stops_run:
  assumes "filter sn_enabled (scan_networks d) = n # ns" "filter (\<lambda>s. sc_status s = ''running'') (scans d) = []"
    and "authorize_scan_network (se_cfg (sv_scanner env)) (sn_cidr n) None None = Inr c"
    and "start_scan now n d = (i, d1)" "scan_network_once env now n d1 = (Inl e, work, cmds1)"
    and "distinct (map a_id (assets d))" "\<forall>s\<in>set (scans d). sc_id s \<noteq> i"
  shows "\<exists>d' s. run_all_network_scans env now d = (Inl MissingGreenlet, d', cmds1)
    \<and> assets d' = assets d \<and> alerts d' = alerts d
    \<and> scans d' = scans d @ [s] \<and> sc_target s = sn_cidr n \<and> sc_status s = ''failed''
    \<and> sc_error s = Some (take 1000 (exn_str env e))"
proof -
  let ?cut = "now - se_timeout_sec (sv_scanner env) * 2 * 1000000"
  have "update_where (is_stale_scan ?cut) (recover_scan now ?cut) (scans d) = scans d"
    using assms(2) by (intro update_where_none) (auto simp: is_stale_scan_def filter_empty_conv)
  then have d: "d\<lparr>scans := update_where (is_stale_scan ?cut) (recover_scan now ?cut) (scans d)\<rparr> = d" by simp
  from start_scan_frame [OF assms(4)] obtain s where fr: "assets d1 = assets d" "alerts d1 = alerts d"
    "scans d1 = scans d @ [s]" "sc_id s = i" "sc_target s = sn_cidr n" by blast
  let ?d2 = "update_scan i (fail_scan now (exn_str env e)) d1"
  have "scan_each env now (n # ns) (0, 0, 0) d = (Inl MissingGreenlet, ?d2, cmds1)"
    using assms(3-5) by simp
  then have "run_all_network_scans env now d = (Inl MissingGreenlet, written d ?d2, cmds1)"
    by (simp only: run_all_network_scans_def Let_def d assms(1) prod.case sum.case)
  moreover have "assets (written d ?d2) = assets d"
    using written_same [OF assms(6)] fr(1) by (simp add: written_def update_scan_def)
      (metis db.select_convs(3) db.surjective db.update_convs(3))
  moreover have "scans (written d ?d2) = scans d @ [fail_scan now (exn_str env e) s]"
    using assms(7) fr(3,4) by (simp add: written_def update_scan_def update_where_none)
  ultimately show ?thesis using fr by (auto simp: fail_scan_def update_scan_def)
qed

section \<open>Witnesses\<close>

definition sample_scan_env :: scan_env where
  "sample_scan_env = \<lparr> sv_scanner = \<lparr> se_cfg = lab_settings, se_timing = 3, se_timeout_sec = 600,
       se_fromstring = (\<lambda>s. None), se_exec = (\<lambda>args. TimedOut) \<rparr>, sv_py = sample_py, exn_str = (\<lambda>e. ''down'') \<rparr>"

definition sample_network :: scan_network where
  "sample_network = (new_scan_network 4 0)\<lparr>sn_cidr := ''10.1.2.0/24'', sn_name := ''lab''\<rparr>"

definition sample_network_db :: db where
  "sample_network_db = empty_db\<lparr>next_id := 9, scan_networks := [sample_network]\<rparr>"

lemma sample_authorized: "authorize_scan_network lab_settings ''10.1.2.0/24'' None None = Inr ''10.1.2.0/24''"
  by code_simp

lemma sample_scan_once:
  "scan_network_once sample_scan_env 5 sample_network d
    = (Inl (ServiceError ''nmap execution timed out''), d, [discover_args (sv_scanner sample_scan_env) ''10.1.2.0/24'' []])"
  using sample_authorized
  by (simp add: scan_network_once_def discover_def run_nmap_def sample_scan_env_def sample_network_def new_scan_network_def)

theorem failed_scan_stops_run_witness:
  "\<exists>d' s. run_all_network_scans sample_scan_env 5 sample_network_db
      = (Inl MissingGreenlet, d', [discover_args (sv_scanner sample_scan_env) ''10.1.2.0/24'' []])
    \<and> scans d' = [s] \<and> sc_status s = ''failed'' \<and> sc_error s = Some ''down''"
proof -
  have n: "filter sn_enabled (scan_networks sample_network_db) = [sample_network]"
    and r: "filter (\<lambda>s. sc_status s = ''running'') (scans sample_network_db) = []"
    and dis: "distinct (map a_id (assets sample_network_db))"
    and a: "authorize_scan_network (se_cfg (sv_scanner sample_scan_env)) (sn_cidr sample_network) None None = Inr ''10.1.2.0/24''"
    using sample_authorized
    by (simp_all add: sample_network_db_def sample_network_def new_scan_network_def empty_db_def sample_scan_env_def)
  obtain i d1 where s: "start_scan 5 sample_network sample_network_db = (i, d1)" by fastforce
  have "\<forall>s\<in>set (scans sample_network_db). sc_id s \<noteq> i" by (simp add: sample_network_db_def empty_db_def)
  from failed_scan_stops_run [OF n r a s sample_scan_once dis this]
  show ?thesis by (simp add: sample_network_db_def empty_db_def sample_scan_env_def) blast
qed

theorem scan_commands_contained_witness:
  "\<exists>target a. ''10.1.2.0/24'' = show_net target \<and> num_addresses target \<le> 4096
     \<and> ip_network False ''10.0.0.0/8'' = Some a \<and> covered_by target a"
proof -
  have a: "authorize_scan_network (se_cfg (sv_scanner sample_scan_env)) (sn_cidr sample_network) None None = Inr ''10.1.2.0/24''"
    using sample_authorized by (simp add: sample_scan_env_def sample_network_def)
  obtain i d1 where s: "start_scan 5 sample_network sample_network_db = (i, d1)" by fastforce
  have "filter sn_enabled (scan_networks sample_network_db) = [sample_network]"
    by (simp add: sample_network_db_def sample_network_def new_scan_network_def empty_db_def)
  then obtain r d' where run: "run_all_network_scans sample_scan_env 5 sample_network_db
      = (r, d', [discover_args (sv_scanner sample_scan_env) ''10.1.2.0/24'' []])"
    using a s sample_scan_once by (simp add: run_all_network_scans_def Let_def start_scan_def sample_network_db_def empty_db_def)
  from scan_commands_contained [OF run, of "discover_args (sv_scanner sample_scan_env) ''10.1.2.0/24'' []"]
  show ?thesis by (auto simp: discover_args_def sample_scan_env_def lab_settings_def default_settings_def)
qed

end
