(* ===== verification/Retention.thy ===== *)
theory Retention
  imports AuthApi Reconciler
begin

text \<open>
  Retention: archiving and deletion of audit entries, deletion of inactive assets, review
  alerts for inactive users (\<open>app/workers/retention_tasks.py\<close>) and the pruning of resolved
  alerts (\<open>_cleanup_old_data\<close> of \<open>app/workers/reconcile_tasks.py\<close>). Each pass has a session
  of its own that it commits. Rows come in table order where a query names none.
\<close>

definition days :: "int \<Rightarrow> int" where "days n = n * day"

section \<open>Audit entries\<close>

definition archive_old_audit_logs :: "settings \<Rightarrow> int \<Rightarrow> db \<Rightarrow> nat \<times> db" where
  "archive_old_audit_logs cfg now d =
     (let cutoff = now - days (AUDIT_LOG_ARCHIVE_DAYS cfg);
          old_logs = take 10000 (filter (\<lambda>l. lg_timestamp l < cutoff \<and> \<not> lg_archived l) (audit_log_rows d));
          ids = map lg_id old_logs
      in if old_logs = [] then (0, d)
         else (length old_logs, d\<lparr>audit_log_rows :=
                 update_where (\<lambda>l. lg_id l \<in> set ids) (\<lambda>l. l\<lparr>lg_archived := True\<rparr>) (audit_log_rows d)\<rparr>))"

definition delete_expired_audit_logs :: "settings \<Rightarrow> int \<Rightarrow> db \<Rightarrow> nat \<times> db" where
  "delete_expired_audit_logs cfg now d =
     (if \<not> RETENTION_DELETE_ENABLED cfg then (0, d)
      else let cutoff = now - days (AUDIT_LOG_RETENTION_DAYS cfg)
           in (length (filter (\<lambda>l. lg_timestamp l < cutoff) (audit_log_rows d)),
               d\<lparr>audit_log_rows := filter (\<lambda>l. \<not> lg_timestamp l < cutoff) (audit_log_rows d)\<rparr>))"

section \<open>Assets\<close>

definition is_expired_asset :: "settings \<Rightarrow> int \<Rightarrow> asset \<Rightarrow> bool" where
  "is_expired_asset cfg now a =
     (a_last_seen a < now - days (INACTIVE_ASSET_DAYS cfg) \<and> a_criticality a \<notin> {''tier-1'', ''critical''})"

definition delete_stale_assets :: "settings \<Rightarrow> int \<Rightarrow> db \<Rightarrow> nat \<times> db" where
  "delete_stale_assets cfg now d =
     (if \<not> RETENTION_DELETE_ENABLED cfg then (0, d)
      else let expired = filter (is_expired_asset cfg now) (assets d)
           in (length expired, fold (\<lambda>a. delete_asset (a_id a)) expired d))"

section \<open>Users\<close>

text \<open>
  SQL's \<open>LIKE\<close>: an underscore stands for any one character, a per cent sign for any text, and
  a backslash takes the next character literally.
\<close>

fun like :: "string \<Rightarrow> string \<Rightarrow> bool" where
  "like [] s = (s = [])"
| "like (p # ps) s =
     (if p = CHR ''%'' then list_ex (like ps) (map (\<lambda>i. drop i s) [0 ..< length s + 1])
      else if p = CHR 0x5C then (case ps of [] \<Rightarrow> False | q # qs \<Rightarrow>
        (case s of [] \<Rightarrow> False | c # cs \<Rightarrow> q = c \<and> like qs cs))
      else case s of [] \<Rightarrow> False | c # cs \<Rightarrow> (p = CHR ''_'' \<or> p = c) \<and> like ps cs)"

definition inactive_user :: "settings \<Rightarrow> int \<Rightarrow> user \<Rightarrow> bool" where
  "inactive_user cfg now u =
     (u_is_active u \<and> (case u_last_login u of None \<Rightarrow> False | Some t \<Rightarrow> t < now - days (INACTIVE_USER_FLAG_DAYS cfg))
      \<and> \<not> like ''deleted_user_%'' (u_username u))"

definition user_alerts :: "nat \<Rightarrow> db \<Rightarrow> alert list" where
  "user_alerts i d = filter (\<lambda>a. al_alert_type a = ''inactive_user'' \<and> al_status a = ''open''
     \<and> jget (al_details a) ''user_id'' = PStr (uuid_str i)) (alerts d)"

definition flag_user :: "settings \<Rightarrow> py_env \<Rightarrow> int \<Rightarrow> user \<Rightarrow> db \<Rightarrow> db result" where
  "flag_user cfg py now u d =
     rbind (scalar_one_or_none (user_alerts (u_id u) d)) (\<lambda>existing.
       if existing \<noteq> None then Inr d
       else let (i, d) = fresh_id d;
                a = (new_alert i now)\<lparr>al_alert_type := ''inactive_user'', al_severity := ''medium'',
                  al_title := ''Inactive user account: '' @ u_username u,
                  al_description := ''User '' @ u_username u @ '' has not logged in for >'' @ show_int (INACTIVE_USER_FLAG_DAYS cfg)
                    @ '' days. Consider disabling per NIST 800-53 AC-2 (Account Management).'',
                  al_details := [(''user_id'', PStr (uuid_str (u_id u))), (''username'', PStr (u_username u)),
                    (''last_login'', (case u_last_login u of None \<Rightarrow> PNone | Some t \<Rightarrow> PStr (iso py t)))]\<rparr>
            in Inr (d\<lparr>alerts := alerts d @ [a]\<rparr>))"

definition flag_inactive_users :: "settings \<Rightarrow> py_env \<Rightarrow> int \<Rightarrow> db \<Rightarrow> nat result \<times> db" where
  "flag_inactive_users cfg py now d =
     (let inactive = filter (inactive_user cfg now) (users d)
      in case rfold (flag_user cfg py now) inactive d of
           Inl e \<Rightarrow> (Inl e, d)
         | Inr d' \<Rightarrow> (Inr (length inactive), d'))"

section \<open>The daily run and the pruning of alerts\<close>

record retention_report =
  rt_audit_archived :: nat
  rt_audit_deleted :: nat
  rt_assets_deleted :: nat
  rt_users_flagged :: nat

definition enforce_all :: "settings \<Rightarrow> py_env \<Rightarrow> int \<Rightarrow> db \<Rightarrow> retention_report result \<times> db" where
  "enforce_all cfg py now d =
     (let (archived, d1) = archive_old_audit_logs cfg now d;
          (deleted, d2) = delete_expired_audit_logs cfg now d1;
          (gone, d3) = delete_stale_assets cfg now d2;
          (flagged, d4) = flag_inactive_users cfg py now d3
      in (rbind flagged (\<lambda>n. Inr \<lparr> rt_audit_archived = archived, rt_audit_deleted = deleted,
            rt_assets_deleted = gone, rt_users_flagged = n \<rparr>), d4))"

definition ALERT_RETENTION_DAYS :: int where "ALERT_RETENTION_DAYS = 180"

definition cleanup_old_data :: "int \<Rightarrow> db \<Rightarrow> nat \<times> db" where
  "cleanup_old_data now d =
     (let cutoff = now - days ALERT_RETENTION_DAYS;
          old = (\<lambda>a. al_status a = ''resolved'' \<and> (case al_resolved_at a of None \<Rightarrow> False | Some t \<Rightarrow> t < cutoff))
      in (length (filter old (alerts d)), d\<lparr>alerts := filter (\<lambda>a. \<not> old a) (alerts d)\<rparr>))"

section \<open>What a run keeps\<close>

lemma fold_delete_assets:
  "assets (fold (\<lambda>a. delete_asset (a_id a)) xs d) = filter (\<lambda>a. a_id a \<notin> a_id ` set xs) (assets d)"
  "users (fold (\<lambda>a. delete_asset (a_id a)) xs d) = users d"
  "audit_log_rows (fold (\<lambda>a. delete_asset (a_id a)) xs d) = audit_log_rows d"
  by (induction xs arbitrary: d) (auto simp: delete_asset_def intro: filter_cong)

lemma filter_other_ids:
  "distinct (map a_id rows) \<Longrightarrow>
   filter (\<lambda>a. a_id a \<notin> a_id ` set (filter P rows)) rows = filter (\<lambda>a. \<not> P a) rows"
proof (rule filter_cong [OF HOL.refl])
  fix a assume "distinct (map a_id rows)" "a \<in> set rows"
  then show "(a_id a \<notin> a_id ` set (filter P rows)) = (\<not> P a)"
    by (auto simp: distinct_map inj_on_def)
qed

lemma flag_user_frame:
  "flag_user cfg py now u d = Inr d' \<Longrightarrow> users d' = users d \<and> assets d' = assets d \<and> audit_log_rows d' = audit_log_rows d"
  by (auto simp: flag_user_def rbind_eq_Inr fresh_id_def Let_def split: if_splits)

lemma flag_inactive_frame:
  assumes "flag_inactive_users cfg py now d = (r, d')"
  shows "users d' = users d \<and> assets d' = assets d \<and> audit_log_rows d' = audit_log_rows d"
proof (cases "rfold (flag_user cfg py now) (filter (inactive_user cfg now) (users d)) d")
  case (Inl e)
  with assms show ?thesis by (auto simp: flag_inactive_users_def Let_def)
next
  case (Inr w)
  have "users w = users d \<and> assets w = assets d \<and> audit_log_rows w = audit_log_rows d"
    by (rule rfold_invariant [OF _ Inr, of "\<lambda>w. users w = users d \<and> assets w = assets d \<and> audit_log_rows w = audit_log_rows d"])
      (auto dest: flag_user_frame)
  with assms Inr show ?thesis by (auto simp: flag_inactive_users_def Let_def)
qed

text \<open>
  C20: What the daily retention run removes. Without the operator's switch it removes nothing.
  With it, it removes exactly the audit entries past the full retention period and exactly
  the assets not seen for the configured time that are neither \<open>tier-1\<close> nor \<open>critical\<close>;
  users are never touched, and no entry is lost by archiving.
\<close>

theorem retention_removes_exactly:
  assumes "enforce_all cfg py now d = (r, d')" "distinct (map a_id (assets d))"
  shows "assets d' = (if RETENTION_DELETE_ENABLED cfg
      then filter (\<lambda>a. now - days (INACTIVE_ASSET_DAYS cfg) \<le> a_last_seen a \<or> a_criticality a \<in> {''tier-1'', ''critical''}) (assets d)
      else assets d)
    \<and> map lg_id (audit_log_rows d') = map lg_id (if RETENTION_DELETE_ENABLED cfg
      then filter (\<lambda>l. now - days (AUDIT_LOG_RETENTION_DAYS cfg) \<le> lg_timestamp l) (audit_log_rows d) else audit_log_rows d)
    \<and> users d' = users d"
proof -
  obtain n1 d1 where a: "archive_old_audit_logs cfg now d = (n1, d1)" by fastforce
  obtain n2 d2 where b: "delete_expired_audit_logs cfg now d1 = (n2, d2)" by fastforce
  obtain n3 d3 where c: "delete_stale_assets cfg now d2 = (n3, d3)" by fastforce
  obtain f d4 where e: "flag_inactive_users cfg py now d3 = (f, d4)" by fastforce
  have d4: "d' = d4" using assms(1) a b c e by (simp add: enforce_all_def)
  have fr: "users d' = users d3 \<and> assets d' = assets d3 \<and> audit_log_rows d' = audit_log_rows d3"
    using flag_inactive_frame [OF e] d4 by simp
  have arch: "users d1 = users d \<and> assets d1 = assets d
      \<and> map (\<lambda>l. (lg_id l, lg_timestamp l)) (audit_log_rows d1) = map (\<lambda>l. (lg_id l, lg_timestamp l)) (audit_log_rows d)"
    using a by (auto simp: archive_old_audit_logs_def Let_def update_where_def split: if_splits)
  then have kept: "map lg_id (filter (\<lambda>l. t \<le> lg_timestamp l) (audit_log_rows d1))
      = map lg_id (filter (\<lambda>l. t \<le> lg_timestamp l) (audit_log_rows d))"
    and ids: "map lg_id (audit_log_rows d1) = map lg_id (audit_log_rows d)" for t
  proof -
    have m: "map fst (filter (\<lambda>p. t \<le> snd p) (map (\<lambda>l. (lg_id l, lg_timestamp l)) rows))
        = map lg_id (filter (\<lambda>l. t \<le> lg_timestamp l) rows)" for rows
      by (induction rows) auto
    have i: "map fst (map (\<lambda>l. (lg_id l, lg_timestamp l)) rows) = map lg_id rows" for rows by simp
    show "map lg_id (filter (\<lambda>l. t \<le> lg_timestamp l) (audit_log_rows d1))
      = map lg_id (filter (\<lambda>l. t \<le> lg_timestamp l) (audit_log_rows d))"
      using arch m [of "audit_log_rows d1"] m [of "audit_log_rows d"] by simp
    show "map lg_id (audit_log_rows d1) = map lg_id (audit_log_rows d)"
      using arch i [of "audit_log_rows d1"] i [of "audit_log_rows d"] by simp
  qed
  show ?thesis
  proof (cases "RETENTION_DELETE_ENABLED cfg")
    case True
    have d2: "d2 = d1\<lparr>audit_log_rows := filter (\<lambda>l. \<not> lg_timestamp l < now - days (AUDIT_LOG_RETENTION_DAYS cfg)) (audit_log_rows d1)\<rparr>"
      using b True by (simp add: delete_expired_audit_logs_def Let_def)
    have d3: "d3 = fold (\<lambda>a. delete_asset (a_id a)) (filter (is_expired_asset cfg now) (assets d2)) d2"
      using c True by (simp add: delete_stale_assets_def Let_def)
    have "assets d3 = filter (\<lambda>a. \<not> is_expired_asset cfg now a) (assets d)"
      unfolding d3 fold_delete_assets(1) using filter_other_ids [of "assets d2" "is_expired_asset cfg now"] assms(2) arch
      by (simp add: d2)
    moreover have "audit_log_rows d3 = audit_log_rows d2" "users d3 = users d2"
      by (simp_all only: d3 fold_delete_assets)
    ultimately show ?thesis
      using fr arch kept True by (simp add: d2 not_less is_expired_asset_def)
  next
    case False
    then have "d3 = d1" using b c by (simp add: delete_expired_audit_logs_def delete_stale_assets_def)
    then show ?thesis using fr arch ids False by simp
  qed
qed

definition sample_retention :: settings where
  "sample_retention = (default_settings [] [] [])\<lparr>RETENTION_DELETE_ENABLED := True\<rparr>"

definition sample_retention_db :: db where
  "sample_retention_db = empty_db\<lparr>assets := [new_asset 1 0, (new_asset 2 0)\<lparr>a_criticality := ''critical''\<rparr>]\<rparr>"

theorem retention_removes_exactly_witness:
  "map a_id (assets (snd (enforce_all sample_retention sample_py (days 91) sample_retention_db))) = [2]"
proof -
  obtain r d' where e: "enforce_all sample_retention sample_py (days 91) sample_retention_db = (r, d')" by fastforce
  have "distinct (map a_id (assets sample_retention_db))"
    by (simp add: sample_retention_db_def new_asset_def)
  from retention_removes_exactly [OF e this] e show ?thesis
    by (simp add: sample_retention_def sample_retention_db_def default_settings_def new_asset_def days_def day_def)
qed

text \<open>A live account is exempt from the review when its name only resembles an erased one.\<close>

lemma like_exempts: "like ''deleted_user_%'' ''deleted-user.admin''"
  by code_simp

end
