(* ===== verification/Notify.thy ===== *)
theory Notify
  imports Webhooks ConnectorSecrets
begin

text \<open>
  Alerts on their way out: the channels and the SIEM line of \<open>app/services/notifications.py\<close>,
  the flush of pending alerts (\<open>app/workers/notification_tasks.py\<close>) and the alert requests of
  \<open>app/api/alerts.py\<close>. The Slack and mail texts, and sending, are parameters.
\<close>

record notify_env =
  ne_slack_webhook_url :: string
  ne_smtp_host :: string
  ne_pagerduty_key :: string
  ne_show :: "pyval \<Rightarrow> string"
  ne_slack :: "jdict \<Rightarrow> unit result"
  ne_email :: "jdict \<Rightarrow> unit result"
  ne_enqueue :: "jdict \<Rightarrow> unit result"
  ne_syslog :: "string \<Rightarrow> unit result"

section \<open>Channels\<close>

definition default_channels :: "string \<Rightarrow> string list" where
  "default_channels severity =
     (if severity = ''critical'' then [''slack'', ''email'', ''pagerduty'', ''syslog'']
      else if severity = ''high'' then [''slack'', ''email'', ''syslog'']
      else if severity = ''medium'' then [''slack'', ''syslog'']
      else [''syslog''])"

text \<open>\<open>str(d.get(k, default))\<close>\<close>

definition text_or :: "notify_env \<Rightarrow> jdict \<Rightarrow> string \<Rightarrow> string \<Rightarrow> string" where
  "text_or env d k dflt = (case map_of d k of None \<Rightarrow> dflt | Some v \<Rightarrow> py_str (ne_show env) v)"

definition cef_severity :: "string \<Rightarrow> string" where
  "cef_severity s =
     (if s = ''critical'' then ''10'' else if s = ''high'' then ''8'' else if s = ''medium'' then ''5''
      else if s = ''low'' then ''3'' else ''1'')"

definition details_of :: "jdict \<Rightarrow> jdict result" where
  "details_of alert = (case map_of alert ''details'' of
     None \<Rightarrow> Inr [] | Some (PDict d) \<Rightarrow> Inr d | Some v \<Rightarrow> Inl AttributeError)"

definition description_of :: "jdict \<Rightarrow> string result" where
  "description_of alert = (case map_of alert ''description'' of
     None \<Rightarrow> Inr [] | Some (PStr s) \<Rightarrow> Inr s | Some v \<Rightarrow> Inl AttributeError)"

definition cef_line :: "notify_env \<Rightarrow> jdict \<Rightarrow> string result" where
  "cef_line env alert =
     rbind (details_of alert) (\<lambda>details.
     rbind (description_of alert) (\<lambda>description.
       Inr (''CEF:0|Anthropic|KEPRYX|1.0|'' @ text_or env alert ''alert_type'' ''None'' @ ''|'' @ text_or env alert ''title'' ''None'' @ ''|''
         @ cef_severity (text_or env alert ''severity'' ''info'') @ ''|''
         @ ''src='' @ text_or env details ''ip'' ''unknown'' @ '' ''
         @ ''msg='' @ replace ''|'' ''_'' description @ '' ''
         @ ''cs1='' @ text_or env alert ''asset_name'' [] @ '' cs1Label=AssetName'')))"

text \<open>An \<open>OSError\<close> of the datagram socket is logged.\<close>

definition syslog_cef :: "notify_env \<Rightarrow> jdict \<Rightarrow> unit result" where
  "syslog_cef env alert = rbind (cef_line env alert) (\<lambda>line.
     case ne_syslog env line of Inl (ServiceError m) \<Rightarrow> Inr () | r \<Rightarrow> r)"

definition pagerduty_event :: "notify_env \<Rightarrow> jdict \<Rightarrow> jdict" where
  "pagerduty_event env alert =
     [(''routing_key'', PStr (ne_pagerduty_key env)), (''event_action'', PStr ''trigger''),
      (''dedup_key'', PStr (''kepryx-'' @ text_or env alert ''alert_type'' ''None'' @ ''-'' @ text_or env alert ''asset_id'' ''None'')),
      (''payload'', PDict [(''summary'', jget alert ''title''),
         (''severity'', PStr (if jget alert ''severity'' = PStr ''critical'' then ''critical'' else ''error'')),
         (''source'', PStr ''KEPRYX''),
         (''custom_details'', (case map_of alert ''details'' of None \<Rightarrow> PDict [] | Some v \<Rightarrow> v))])]"

definition pagerduty :: "notify_env \<Rightarrow> jdict \<Rightarrow> unit result" where
  "pagerduty env alert =
     (if jget alert ''severity'' \<notin> {PStr ''critical'', PStr ''high''} then Inr () else ne_enqueue env (pagerduty_event env alert))"

text \<open>Whether a channel is tried and does not fail: then it counts as notified.\<close>

definition channel_sent :: "notify_env \<Rightarrow> jdict \<Rightarrow> string \<Rightarrow> bool" where
  "channel_sent env alert channel =
     (if channel = ''slack'' \<and> ne_slack_webhook_url env \<noteq> [] then ne_slack env alert = Inr ()
      else if channel = ''email'' \<and> ne_smtp_host env \<noteq> [] then ne_email env alert = Inr ()
      else if channel = ''pagerduty'' \<and> ne_pagerduty_key env \<noteq> [] then pagerduty env alert = Inr ()
      else if channel = ''syslog'' then syslog_cef env alert = Inr ()
      else False)"

definition notifier_dispatch :: "notify_env \<Rightarrow> jdict \<Rightarrow> string list option \<Rightarrow> string list" where
  "notifier_dispatch env alert channels =
     (let chosen = (case channels of None \<Rightarrow> default_channels (text_or env alert ''severity'' ''info'')
        | Some [] \<Rightarrow> default_channels (text_or env alert ''severity'' ''info'') | Some cs \<Rightarrow> cs)
      in filter (channel_sent env alert) chosen)"

section \<open>The flush of pending alerts\<close>

definition alert_payload :: "alert \<Rightarrow> asset option \<Rightarrow> jdict" where
  "alert_payload al a =
     [(''id'', PStr (uuid_str (al_id al))), (''alert_type'', PStr (al_alert_type al)), (''severity'', PStr (al_severity al)),
      (''title'', PStr (al_title al)), (''description'', PStr (al_description al)),
      (''asset_id'', (case al_asset_id al of None \<Rightarrow> PNone | Some i \<Rightarrow> PStr (uuid_str i))),
      (''asset_name'', (case a of None \<Rightarrow> PNone | Some a \<Rightarrow> PStr (a_name a))), (''details'', PDict (al_details al))]"

definition joined_asset :: "db \<Rightarrow> alert \<Rightarrow> asset option" where
  "joined_asset d al = (case al_asset_id al of None \<Rightarrow> None | Some i \<Rightarrow> find (\<lambda>a. a_id a = i) (assets d))"

definition mark_notified :: "string list \<Rightarrow> alert \<Rightarrow> alert" where
  "mark_notified channels al = al\<lparr>al_notified := True, al_notification_channels := channels\<rparr>"

text \<open>The webhooks are fired in a session of their own; what that raises is logged.\<close>

definition notify_one :: "notify_env \<Rightarrow> wh_env \<Rightarrow> int \<Rightarrow> string \<Rightarrow> alert \<times> asset option \<Rightarrow> db \<Rightarrow> db" where
  "notify_one env we now stamp row d =
     (let payload = alert_payload (fst row) (snd row);
          channels = notifier_dispatch env payload None;
          d1 = fst (snd (fire_event we now stamp ''alert.created'' (al_severity (fst row)) payload d))
      in d1\<lparr>alerts := update_where (\<lambda>x. al_id x = al_id (fst row)) (mark_notified channels) (alerts d1)\<rparr>)"

definition is_pending :: "alert \<Rightarrow> bool" where
  "is_pending al = (\<not> al_notified al \<and> al_status al = ''open'')"

definition dispatch_pending :: "notify_env \<Rightarrow> wh_env \<Rightarrow> int \<Rightarrow> string \<Rightarrow> db \<Rightarrow> nat \<times> db" where
  "dispatch_pending env we now stamp d =
     (let rows = map (\<lambda>al. (al, joined_asset d al)) (take 100 (filter is_pending (alerts d)))
      in (length rows, fold (notify_one env we now stamp) rows d))"

section \<open>Requests\<close>

record alert_query =
  aq_status :: "string option"
  aq_severity :: "string option"
  aq_alert_type :: "string option"
  aq_page :: nat
  aq_page_size :: nat

definition alert_query_ok :: "alert_query \<Rightarrow> bool" where
  "alert_query_ok q = (1 \<le> aq_page q \<and> 1 \<le> aq_page_size q \<and> aq_page_size q \<le> 200)"

definition keeps :: "string option \<Rightarrow> string \<Rightarrow> bool" where
  "keeps f v = (if truthy_str f then f = Some v else True)"

definition alert_row :: "alert \<Rightarrow> jdict" where
  "alert_row al =
     [(''id'', PStr (uuid_str (al_id al))), (''type'', PStr (al_alert_type al)), (''severity'', PStr (al_severity al)),
      (''title'', PStr (al_title al)), (''description'', PStr (al_description al)),
      (''asset_id'', (case al_asset_id al of None \<Rightarrow> PNone | Some i \<Rightarrow> PStr (uuid_str i))), (''details'', PDict (al_details al)),
      (''status'', PStr (al_status al)), (''notified'', PBool (al_notified al)),
      (''channels'', PList (map PStr (al_notification_channels al))), (''created_at'', PInt (al_created_at al)),
      (''resolved_at'', (case al_resolved_at al of None \<Rightarrow> PNone | Some t \<Rightarrow> PInt t))]"

definition list_alerts :: "alert_query \<Rightarrow> db \<Rightarrow> jdict list \<times> nat" where
  "list_alerts q d =
     (let rows = filter (\<lambda>al. keeps (aq_status q) (al_status al) \<and> keeps (aq_severity q) (al_severity al)
                   \<and> keeps (aq_alert_type q) (al_alert_type al)) (alerts d)
      in (map alert_row (take (aq_page_size q) (drop ((aq_page q - 1) * aq_page_size q) (sort_key (\<lambda>al. - al_created_at al) rows))),
          length rows))"

definition resolve_mut :: "int \<Rightarrow> principal \<Rightarrow> alert \<Rightarrow> alert" where
  "resolve_mut now who al = al\<lparr>al_status := ''resolved'', al_resolved_at := Some now, al_resolved_by := Some (p_username who)\<rparr>"

text \<open>The answer comes with the event that is then fired: its severity and data.\<close>

definition resolve_alert :: "'r env \<Rightarrow> int \<Rightarrow> http_request \<Rightarrow> principal \<Rightarrow> nat \<Rightarrow> db \<Rightarrow> (string \<times> jdict) result \<times> db" where
  "resolve_alert env now rq who i d =
     (case scalar_one_or_none (filter (\<lambda>al. al_id al = i) (alerts d)) of
        Inl e \<Rightarrow> (Inl e, d)
      | Inr None \<Rightarrow> (Inl (HTTPException 404 ''Not Found''), d)
      | Inr (Some al) \<Rightarrow>
          (Inr (al_severity al,
             [(''id'', PStr (uuid_str (al_id al))), (''alert_type'', PStr (al_alert_type al)), (''severity'', PStr (al_severity al)),
              (''title'', PStr (al_title al)), (''description'', PStr (al_description al)),
              (''asset_id'', (case al_asset_id al of None \<Rightarrow> PNone | Some j \<Rightarrow> PStr (uuid_str j))), (''details'', PDict (al_details al)),
              (''resolved_by'', PStr (p_username who))]),
           audit (env_sha env) now rq ''alert_resolved'' (Some who) (Some ''alert'') (Some (uuid_str i)) ''info'' []
             (d\<lparr>alerts := update_where (\<lambda>x. al_id x = i) (resolve_mut now who) (alerts d)\<rparr>)))"

section \<open>What a flush does\<close>

lemma put_webhook_frame [simp]: "alerts (put_webhook w d) = alerts d" "assets (put_webhook w d) = assets d"
  by (simp_all add: put_webhook_def)

lemma deliver_all_frame:
  "deliver_all env now stamp ev sev data ws d = (r, d', sent) \<Longrightarrow> alerts d' = alerts d \<and> assets d' = assets d"
proof (induction ws arbitrary: d r d' sent)
  case (Cons w ws)
  show ?case
  proof (cases "wants w ev sev")
    case False
    with Cons show ?thesis by simp
  next
    case True
    obtain o1 w' s where di: "dispatch_one env now stamp w ev data = (o1, w', s)" by (cases "dispatch_one env now stamp w ev data") auto
    obtain r2 d2 s2 where rest: "deliver_all env now stamp ev sev data ws (put_webhook w' d) = (r2, d2, s2)"
      by (cases "deliver_all env now stamp ev sev data ws (put_webhook w' d)") auto
    from Cons.IH [OF rest] Cons.prems True di rest show ?thesis
      by (cases o1) auto
  qed
qed simp

lemma fire_event_frame:
  "fire_event env now stamp ev sev data d = (r, d', sent) \<Longrightarrow> alerts d' = alerts d \<and> assets d' = assets d"
  by (auto simp: fire_event_def commit_webhooks_def dest!: deliver_all_frame split: prod.splits sum.splits if_splits)

lemma notify_one_alerts:
  "alerts (notify_one env we now stamp row d) =
     update_where (\<lambda>x. al_id x = al_id (fst row))
       (mark_notified (notifier_dispatch env (alert_payload (fst row) (snd row)) None)) (alerts d)"
proof -
  obtain r d1 s where f: "fire_event we now stamp ''alert.created'' (al_severity (fst row)) (alert_payload (fst row) (snd row)) d = (r, d1, s)"
    by (cases "fire_event we now stamp ''alert.created'' (al_severity (fst row)) (alert_payload (fst row) (snd row)) d") auto
  from fire_event_frame [OF f] show ?thesis by (simp add: notify_one_def f)
qed

lemma fold_notify_alerts:
  "alerts (fold (notify_one env we now stamp) (map (\<lambda>al. (al, k al)) xs) d) =
   fold (\<lambda>al. update_where (\<lambda>x. al_id x = al_id al)
     (mark_notified (notifier_dispatch env (alert_payload al (k al)) None))) xs (alerts d)"
  by (induction xs arbitrary: d) (simp_all add: notify_one_alerts)

text \<open>
  A flush takes at most a hundred open alerts that were not notified and marks each of
  them, with the channels that did not fail, even when that is none; no other alert
  changes, whatever channels and webhooks do.
\<close>

theorem flush_marks_batch:
  assumes "distinct (map al_id (alerts d))"
  shows "let batch = take 100 (filter is_pending (alerts d)) in
    fst (dispatch_pending env we now stamp d) = length batch
    \<and> alerts (snd (dispatch_pending env we now stamp d)) = map (\<lambda>al. if al \<in> set batch
        then al\<lparr>al_notified := True, al_notification_channels :=
               filter (channel_sent env (alert_payload al (joined_asset d al))) (default_channels (al_severity al))\<rparr>
        else al) (alerts d)"
proof -
  let ?batch = "take 100 (filter is_pending (alerts d))"
  have sub: "set ?batch \<subseteq> set (alerts d)" by (metis filter_is_subset order_trans set_take_subset)
  have dis: "distinct ?batch"
    using assms by (intro distinct_take distinct_filter) (simp add: distinct_map)
  have sev: "text_or env (alert_payload al a) ''severity'' ''info'' = al_severity al" for al a
    by (simp add: text_or_def alert_payload_def py_str_def)
  have "alerts (snd (dispatch_pending env we now stamp d)) = map (\<lambda>al. if al \<in> set ?batch
        then mark_notified (notifier_dispatch env (alert_payload al (joined_asset d al)) None) al else al) (alerts d)"
    unfolding dispatch_pending_def Let_def snd_conv fold_notify_alerts
    by (rule fold_update_rows [OF assms sub dis]) (simp add: mark_notified_def)
  then show ?thesis
    by (simp add: Let_def dispatch_pending_def notifier_dispatch_def sev mark_notified_def cong: map_cong if_cong)
qed

section \<open>The SIEM line\<close>

text \<open>
  The severity of a line is read from its seventh field; a bar in the type or title, both
  of which carry names that hosts report, moves it.
\<close>

definition cef_field :: "nat \<Rightarrow> string \<Rightarrow> string" where "cef_field n line = split_on (CHR ''|'') line ! n"

lemma cef_severity_field:
  assumes "cef_line env (alert_payload al a) = Inr line"
    and "CHR ''|'' \<notin> set (al_alert_type al)" "CHR ''|'' \<notin> set (al_title al)"
  shows "cef_field 6 line = cef_severity (al_severity al)"
proof -
  have f: "text_or env (alert_payload al a) ''alert_type'' ''None'' = al_alert_type al"
    "text_or env (alert_payload al a) ''title'' ''None'' = al_title al"
    "text_or env (alert_payload al a) ''severity'' ''info'' = al_severity al"
    by (simp_all add: text_or_def alert_payload_def py_str_def)
  obtain rest where l: "line = ''CEF:0'' @ CHR ''|'' # ''Anthropic'' @ CHR ''|'' # ''KEPRYX'' @ CHR ''|'' # ''1.0'' @ CHR ''|''
      # al_alert_type al @ CHR ''|'' # al_title al @ CHR ''|'' # cef_severity (al_severity al) @ CHR ''|'' # rest"
    using assms(1) by (auto simp: cef_line_def rbind_eq_Inr f)
  have s: "CHR ''|'' \<notin> set (cef_severity (al_severity al))" by (simp add: cef_severity_def)
  have "split_on (CHR ''|'') line = [''CEF:0'', ''Anthropic'', ''KEPRYX'', ''1.0'', al_alert_type al, al_title al,
      cef_severity (al_severity al)] @ split_on (CHR ''|'') rest"
    unfolding l by (subst split_on_append, simp)+ (simp add: split_on_append assms(2,3) s)
  then show ?thesis by (simp add: cef_field_def)
qed

lemma cef_injection:
  "let al = (new_alert 1 0)\<lparr>al_alert_type := ''shadow_it'', al_severity := ''high'', al_title := ''Shadow IT detected: a|1|x''\<rparr>
   in \<exists>line. cef_line env (alert_payload al None) = Inr line \<and> cef_field 6 line = ''1''"
  by (simp add: cef_line_def details_of_def description_of_def alert_payload_def text_or_def py_str_def cef_field_def new_alert_def
      eval_nat_numeral)

section \<open>Witness\<close>

definition quiet_notifier :: notify_env where
  "quiet_notifier = \<lparr> ne_slack_webhook_url = ''https://hooks'', ne_smtp_host = [], ne_pagerduty_key = [], ne_show = (\<lambda>v. []),
     ne_slack = (\<lambda>a. Inl (ServiceError ''down'')), ne_email = (\<lambda>a. Inr ()), ne_enqueue = (\<lambda>a. Inr ()), ne_syslog = (\<lambda>s. Inl TypeError) \<rparr>"

definition sample_alert_db :: db where
  "sample_alert_db = empty_db\<lparr>alerts := [(new_alert 1 0)\<lparr>al_severity := ''medium''\<rparr>]\<rparr>"

theorem flush_marks_batch_witness:
  "map (\<lambda>al. (al_notified al, al_notification_channels al))
     (alerts (snd (dispatch_pending quiet_notifier sample_wh_env 5 ''t'' sample_alert_db))) = [(True, [])]"
proof -
  have "distinct (map al_id (alerts sample_alert_db))" by (simp add: sample_alert_db_def)
  from flush_marks_batch [OF this, of quiet_notifier sample_wh_env 5 "''t''"] show ?thesis
    by (simp add: Let_def sample_alert_db_def is_pending_def new_alert_def default_channels_def channel_sent_def
        quiet_notifier_def syslog_cef_def cef_line_def details_of_def description_of_def alert_payload_def rbind_def)
qed

end
