(* ===== verification/AssetRisk.thy ===== *)
theory AssetRisk
  imports RiskEngine Models Reconciler
begin

text \<open>
  The stored risk of an asset: the dictionaries the callers of \<open>compute_risk\<close> build from a
  row and its CVE records, and the rescoring of the inventory (\<open>_rescore_assets\<close> of
  \<open>app/workers/reconcile_tasks.py\<close>).
\<close>

definition breakdown_dict :: "risk_breakdown \<Rightarrow> jdict" where
  "breakdown_dict b =
     [(''cve'', PInt (rb_cve b)), (''kev'', PInt (rb_kev b)), (''controls'', PInt (rb_controls b)),
      (''exposure'', PInt (rb_exposure b)), (''access'', PInt (rb_access b)), (''criticality'', PInt (rb_criticality b)),
      (''data_classification'', PInt (rb_data_classification b))]"

definition set_risk :: "risk_result \<Rightarrow> asset \<Rightarrow> asset" where
  "set_risk r a = a\<lparr>a_risk_score := rr_score r, a_risk_tier := rr_tier r, a_risk_breakdown := breakdown_dict (rr_breakdown r)\<rparr>"

definition risk_input :: "asset \<Rightarrow> risk_cve list \<Rightarrow> risk_asset" where
  "risk_input a cs = \<lparr> ra_cves = Has cs, ra_control_coverage = Has (a_control_coverage a),
     ra_network_exposure = Has (a_network_exposure a), ra_auth_method = Has (a_auth_method a),
     ra_criticality = Has (a_criticality a), ra_data_classification = Has (a_data_classification a),
     ra_eol_status = Has (a_eol_status a) \<rparr>"

definition no_cve_keys :: risk_cve where
  "no_cve_keys = \<lparr> rc_cvss_v3 = Absent, rc_cvss = Absent, rc_epss_score = Absent, rc_epss = Absent, rc_kev = Absent,
     rc_kev_ransomware = Absent \<rparr>"

text \<open>The CVE records an asset is linked to, with their links.\<close>

definition linked_cves :: "nat \<Rightarrow> db \<Rightarrow> (asset_cve \<times> cve) list" where
  "linked_cves i d = concat (map (\<lambda>l. map (Pair l) (filter (\<lambda>c. cv_id c = ac_cve_id l) (cves d)))
     (filter (\<lambda>l. ac_asset_id l = i) (db.asset_cves d)))"

section \<open>Rescoring\<close>

definition rescore_cve :: "cve \<Rightarrow> risk_cve" where
  "rescore_cve c = no_cve_keys\<lparr>rc_cvss_v3 := opt_key (cv_cvss_v3 c),
     rc_epss := Has (case cv_epss_score c of None \<Rightarrow> 0 | Some e \<Rightarrow> e), rc_kev := Has (cv_kev c)\<rparr>"

definition active_link :: "asset_cve \<Rightarrow> bool" where
  "active_link l = (\<not> ac_suppressed l \<and> \<not> ac_remediated l)"

definition rescored :: "db \<Rightarrow> asset \<Rightarrow> risk_result" where
  "rescored d a = compute_risk (risk_input a
     (map (\<lambda>(l, c). rescore_cve c) (filter (\<lambda>(l, c). active_link l) (linked_cves (a_id a) d))))"

definition rescore_assets :: "int \<Rightarrow> db \<Rightarrow> nat \<times> db" where
  "rescore_assets now d = (length (assets d), d\<lparr>assets := map (\<lambda>a. asset_flush now a (set_risk (rescored d a) a)) (assets d)\<rparr>)"

lemma set_risk_frame [simp]:
  "a_id (set_risk r a) = a_id a" "a_criticality (set_risk r a) = a_criticality a" "a_control_coverage (set_risk r a) = a_control_coverage a"
  "a_network_exposure (set_risk r a) = a_network_exposure a" "a_auth_method (set_risk r a) = a_auth_method a"
  "a_data_classification (set_risk r a) = a_data_classification a" "a_eol_status (set_risk r a) = a_eol_status a"
  "a_last_seen (set_risk r a) = a_last_seen a" "risk_input (set_risk r a) cs = risk_input a cs"
  "set_risk r (set_risk q a) = set_risk r a"
  by (simp_all add: set_risk_def risk_input_def)

lemma asset_flush_risk [simp]:
  "a_id (asset_flush now a b) = a_id b" "risk_input (asset_flush now a b) cs = risk_input b cs"
  "a_risk_score (asset_flush now a b) = a_risk_score b" "a_risk_tier (asset_flush now a b) = a_risk_tier b"
  "a_risk_breakdown (asset_flush now a b) = a_risk_breakdown b"
  by (simp_all add: asset_flush_def risk_input_def)

lemma asset_flush_same [simp]: "asset_flush now a a = a"
  by (simp add: asset_flush_def)

lemma set_risk_flush: "set_risk r (asset_flush now x (set_risk r a)) = asset_flush now x (set_risk r a)"
  by (simp add: asset_flush_def set_risk_def)

lemma linked_cves_assets [simp]: "linked_cves i (d\<lparr>assets := xs\<rparr>) = linked_cves i d"
  by (simp add: linked_cves_def)

text \<open>The rescoring is stable: a second run computes the same risks and changes no row.\<close>

lemma rescore_stable: "rescore_assets later (snd (rescore_assets now d)) = rescore_assets now d"
proof -
  have "rescored (d\<lparr>assets := xs\<rparr>) (asset_flush now a (set_risk (rescored d a) a)) = rescored d a" for xs a
    by (simp add: rescored_def)
  then show ?thesis by (simp add: rescore_assets_def set_risk_flush comp_def)
qed

text \<open>A row whose risk changes counts as seen at the time of the run.\<close>

lemma rescore_last_seen:
  assumes "set_risk (rescored d a) a \<noteq> a"
  shows "a_last_seen (asset_flush now a (set_risk (rescored d a) a)) = now"
  using assms by (simp add: asset_flush_def)

end
