(* ===== verification/PyDyn.thy ===== *)
theory PyDyn
  imports Models
begin

text \<open>
  Operations on values whose type is not known, as parsed JSON is: attribute, item and
  iteration with the exceptions Python raises. Dictionary keys are texts.
\<close>

definition dyn_get :: "pyval \<Rightarrow> string \<Rightarrow> pyval \<Rightarrow> pyval result" where
  "dyn_get v k dflt = (case v of PDict d \<Rightarrow> Inr (case map_of d k of None \<Rightarrow> dflt | Some w \<Rightarrow> w) | _ \<Rightarrow> Inl AttributeError)"

definition dyn_item :: "pyval \<Rightarrow> string \<Rightarrow> pyval result" where
  "dyn_item v k = (case v of PDict d \<Rightarrow> (case map_of d k of None \<Rightarrow> Inl (KeyError k) | Some w \<Rightarrow> Inr w) | _ \<Rightarrow> Inl TypeError)"

definition dyn_iter :: "pyval \<Rightarrow> pyval list result" where
  "dyn_iter v = (case v of
     PList xs \<Rightarrow> Inr xs | PDict d \<Rightarrow> Inr (map (\<lambda>(k, w). PStr k) d) | PStr s \<Rightarrow> Inr (map (\<lambda>c. PStr [c]) s)
   | _ \<Rightarrow> Inl TypeError)"

text \<open>\<open>v[0]\<close>\<close>

definition dyn_first :: "pyval \<Rightarrow> pyval result" where
  "dyn_first v = (case v of
     PList (x # xs) \<Rightarrow> Inr x | PList [] \<Rightarrow> Inl (LookupError ''list index out of range'')
   | PStr (c # s) \<Rightarrow> Inr (PStr [c]) | PStr [] \<Rightarrow> Inl (LookupError ''string index out of range'')
   | PDict d \<Rightarrow> Inl (KeyError ''0'') | _ \<Rightarrow> Inl TypeError)"

text \<open>\<open>v[:n]\<close>\<close>

definition dyn_take :: "nat \<Rightarrow> pyval \<Rightarrow> pyval result" where
  "dyn_take n v = (case v of PStr s \<Rightarrow> Inr (PStr (take n s)) | PList xs \<Rightarrow> Inr (PList (take n xs)) | _ \<Rightarrow> Inl TypeError)"

definition py_or :: "pyval \<Rightarrow> pyval \<Rightarrow> pyval" where
  "py_or a b = (if py_truthy a then a else b)"

text \<open>A comprehension: the results of all elements, or the first exception.\<close>

fun rmap :: "('a \<Rightarrow> 'b result) \<Rightarrow> 'a list \<Rightarrow> 'b list result" where
  "rmap f [] = Inr []"
| "rmap f (x # xs) = rbind (f x) (\<lambda>y. rbind (rmap f xs) (\<lambda>ys. Inr (y # ys)))"

text \<open>One that keeps only some elements.\<close>

definition rcollect :: "('a \<Rightarrow> 'b list result) \<Rightarrow> 'a list \<Rightarrow> 'b list result" where
  "rcollect f xs = rbind (rmap f xs) (\<lambda>yss. Inr (concat yss))"

lemma rmap_length: "rmap f xs = Inr ys \<Longrightarrow> length ys = length xs"
  by (induction xs arbitrary: ys) (auto simp: rbind_eq_Inr)

lemma rmap_set: "rmap f xs = Inr ys \<Longrightarrow> y \<in> set ys \<Longrightarrow> \<exists>x\<in>set xs. f x = Inr y"
  by (induction xs arbitrary: ys) (auto simp: rbind_eq_Inr)

lemma rcollect_Nil [simp]: "rcollect f [] = Inr []"
  by (simp add: rcollect_def)

lemma rcollect_empty: "(\<And>x. x \<in> set xs \<Longrightarrow> f x = Inr []) \<Longrightarrow> rcollect f xs = Inr []"
proof (induction xs)
  case (Cons x xs)
  then have "rcollect f xs = Inr []" "f x = Inr []" by simp_all
  then show ?case by (auto simp: rcollect_def rbind_eq_Inr)
qed simp

end
