(* ===== verification/Enrichment.thy ===== *)
theory Enrichment
  imports AssetRisk PyDyn
begin

text \<open>
  CVE enrichment: the NVD, EPSS and KEV clients (\<open>app/services/cve_enrichment.py\<close>) and the
  tasks that store what they find (\<open>app/workers/enrichment_tasks.py\<close>). The services are
  parameters: an answer, or the exception left after the retries; a \<open>ServiceError\<close> stands
  for \<open>httpx.HTTPError\<close>. Identifiers are texts; \<open>to_float\<close> is \<open>float()\<close> and \<open>parse_date\<close> is
  \<open>datetime.fromisoformat\<close> with its two handled exceptions as \<open>None\<close>.
\<close>

record feed_env =
  fe_nvd :: "string \<Rightarrow> pyval result"
  fe_epss :: "string list \<Rightarrow> pyval result"
  fe_kev :: "pyval result"
  fe_to_float :: "pyval \<Rightarrow> rat result"
  fe_parse_date :: "pyval \<Rightarrow> int option"

text \<open>An enricher: its KEV cache and the time it was filled.\<close>

record enricher =
  en_kev_cache :: jdict
  en_kev_cached_at :: "int option"

definition new_enricher :: enricher where "new_enricher = \<lparr> en_kev_cache = [], en_kev_cached_at = None \<rparr>"

section \<open>NVD\<close>

fun english :: "pyval list \<Rightarrow> pyval result" where
  "english [] = Inr (PStr [])"
| "english (d # ds) = rbind (dyn_get d ''lang'' PNone) (\<lambda>l. if l = PStr ''en'' then dyn_item d ''value'' else english ds)"

definition affected_cpe :: "pyval \<Rightarrow> pyval list result" where
  "affected_cpe m =
     rbind (dyn_get m ''vulnerable'' PNone) (\<lambda>v. if \<not> py_truthy v then Inr [] else
     rbind (dyn_get m ''criteria'' PNone) (\<lambda>c. if py_truthy c then Inr [c] else Inr []))"

definition affected_cpes :: "pyval \<Rightarrow> pyval list result" where
  "affected_cpes cve =
     rbind (dyn_get cve ''configurations'' (PList [])) (\<lambda>v. rbind (dyn_iter v) (rcollect (\<lambda>cfg.
     rbind (dyn_get cfg ''nodes'' (PList [])) (\<lambda>v. rbind (dyn_iter v) (rcollect (\<lambda>node.
     rbind (dyn_get node ''cpeMatch'' (PList [])) (\<lambda>v. rbind (dyn_iter v) (rcollect affected_cpe))))))))"

definition cvss_data :: "pyval \<Rightarrow> pyval result" where
  "cvss_data cve =
     rbind (dyn_get cve ''metrics'' (PDict [])) (\<lambda>metrics.
     rbind (dyn_get metrics ''cvssMetricV31'' PNone) (\<lambda>v31.
     rbind (dyn_get metrics ''cvssMetricV30'' PNone) (\<lambda>v30.
     rbind (dyn_first (py_or v31 (py_or v30 (PList [PDict []])))) (\<lambda>metric.
       if py_truthy metric then dyn_get metric ''cvssData'' (PDict []) else Inr (PDict [])))))"

text \<open>One vulnerability of an answer; those without an identifier are skipped.\<close>

definition cve_of_item :: "pyval \<Rightarrow> (string \<times> jdict) list result" where
  "cve_of_item entry =
     rbind (dyn_get entry ''cve'' (PDict [])) (\<lambda>cve.
     rbind (dyn_get cve ''id'' PNone) (\<lambda>cid.
       if \<not> py_truthy cid then Inr []
       else case cid of
         PStr i \<Rightarrow>
           rbind (cvss_data cve) (\<lambda>cvss.
           rbind (dyn_get cve ''descriptions'' (PList [])) (\<lambda>ds. rbind (dyn_iter ds) (\<lambda>ds. rbind (english ds) (\<lambda>desc.
           rbind (affected_cpes cve) (\<lambda>affected.
           rbind (dyn_get cvss ''baseScore'' PNone) (\<lambda>score.
           rbind (dyn_get cvss ''vectorString'' PNone) (\<lambda>vector.
           rbind (dyn_take 1000 desc) (\<lambda>desc.
           rbind (dyn_get cve ''published'' PNone) (\<lambda>published.
           rbind (dyn_get cve ''lastModified'' PNone) (\<lambda>modified.
             Inr [(i, [(''id'', PStr i), (''cvss_v3'', score), (''cvss_vector'', vector), (''description'', desc),
               (''published'', published), (''modified'', modified), (''affected_cpes'', PList affected)])]))))))))))
       | _ \<Rightarrow> Inl TypeError))"

definition get_cves_for_cpe :: "feed_env \<Rightarrow> string \<Rightarrow> (string \<times> jdict) list result" where
  "get_cves_for_cpe env cpe =
     (case fe_nvd env cpe of
        Inl e \<Rightarrow> Inr []
      | Inr data \<Rightarrow>
          if \<not> py_truthy data then Inr []
          else rbind (dyn_get data ''vulnerabilities'' (PList [])) (\<lambda>v. rbind (dyn_iter v) (rcollect cve_of_item)))"

section \<open>EPSS and KEV\<close>

text \<open>Scores and percentiles by CVE; a later entry replaces an earlier one.\<close>

type_synonym epss_map = "string \<rightharpoonup> rat \<times> rat"

fun read_epss :: "feed_env \<Rightarrow> pyval list \<Rightarrow> epss_map \<Rightarrow> epss_map" where
  "read_epss env [] m = m"
| "read_epss env (x # xs) m =
     (case rbind (dyn_item x ''cve'') (\<lambda>c.
           rbind (dyn_get x ''epss'' (PInt 0)) (\<lambda>s. rbind (fe_to_float env s) (\<lambda>score.
           rbind (dyn_get x ''percentile'' (PInt 0)) (\<lambda>p. rbind (fe_to_float env p) (\<lambda>perc. Inr (c, score, perc)))))) of
        Inl e \<Rightarrow> m
      | Inr (c, score, perc) \<Rightarrow>
          (case c of
             PStr i \<Rightarrow> read_epss env xs (m(i \<mapsto> (score, perc)))
           | PList ys \<Rightarrow> m
           | PDict d \<Rightarrow> m
           | _ \<Rightarrow> read_epss env xs m))"

definition epss_batch :: "feed_env \<Rightarrow> string list \<Rightarrow> epss_map \<Rightarrow> epss_map" where
  "epss_batch env batch m =
     (case rbind (fe_epss env batch) (\<lambda>data. if \<not> py_truthy data then Inr []
             else rbind (dyn_get data ''data'' (PList [])) dyn_iter) of
        Inl e \<Rightarrow> m | Inr xs \<Rightarrow> read_epss env xs m)"

fun batches :: "nat \<Rightarrow> 'a list \<Rightarrow> 'a list list" where
  "batches n [] = []"
| "batches n (x # xs) = (x # take n xs) # batches n (drop n xs)"

definition get_epss_scores :: "feed_env \<Rightarrow> string list \<Rightarrow> epss_map" where
  "get_epss_scores env ids = fold (epss_batch env) (batches 99 ids) Map.empty"

definition kev_entry :: "pyval \<Rightarrow> (string \<times> pyval) result" where
  "kev_entry v =
     rbind (dyn_item v ''cveID'') (\<lambda>c.
     rbind (dyn_get v ''dateAdded'' PNone) (\<lambda>added. rbind (dyn_get v ''vendorProject'' PNone) (\<lambda>vendor.
     rbind (dyn_get v ''product'' PNone) (\<lambda>product. rbind (dyn_get v ''vulnerabilityName'' PNone) (\<lambda>name.
     rbind (dyn_get v ''dueDate'' PNone) (\<lambda>due. rbind (dyn_get v ''knownRansomwareCampaignUse'' (PStr ''Unknown'')) (\<lambda>use.
       case c of
         PStr i \<Rightarrow> Inr (i, PDict [(''date_added'', added), (''vendor'', vendor), (''product'', product),
           (''vulnerability_name'', name), (''due_date'', due), (''ransomware'', PBool (use = PStr ''Known''))])
       | _ \<Rightarrow> Inl TypeError)))))))"

definition six_hours :: int where "six_hours = 6 * 3600000000"

definition load_kev_catalog :: "feed_env \<Rightarrow> int \<Rightarrow> bool \<Rightarrow> enricher \<Rightarrow> enricher result" where
  "load_kev_catalog env now force en =
     (if \<not> force \<and> (case en_kev_cached_at en of None \<Rightarrow> False | Some t \<Rightarrow> now - t < six_hours) then Inr en
      else case rbind (fe_kev env) (\<lambda>data. rbind (dyn_get data ''vulnerabilities'' (PList [])) (\<lambda>v. rbind (dyn_iter v) (rmap kev_entry))) of
        Inl (ServiceError m) \<Rightarrow> Inr en
      | Inl e \<Rightarrow> Inl e
      | Inr entries \<Rightarrow> Inr (en\<lparr>en_kev_cache := fold (\<lambda>(k, v). jset k v) entries [], en_kev_cached_at := Some now\<rparr>))"

section \<open>The CVEs of an asset\<close>

definition add_cves :: "string \<Rightarrow> (string \<times> jdict) list \<Rightarrow> (string \<times> jdict) list \<Rightarrow> (string \<times> jdict) list" where
  "add_cves cpe found known =
     fold (\<lambda>(i, d) m. if i \<in> set (map fst m) then m else m @ [(i, jset ''matched_cpe'' (PStr cpe) d)]) found known"

definition add_scores :: "epss_map \<Rightarrow> jdict \<Rightarrow> string \<times> jdict \<Rightarrow> jdict" where
  "add_scores epss kev entry = (case entry of (i, d) \<Rightarrow>
     (let (score, perc) = (case epss i of None \<Rightarrow> (0, 0) | Some sp \<Rightarrow> sp);
          known = jget kev i;
          d = jset ''kev'' (PBool (py_truthy known)) (jset ''epss_percentile'' (PFloat perc) (jset ''epss_score'' (PFloat score) d))
      in if py_truthy known
         then jset ''kev_ransomware'' (jget (case known of PDict k \<Rightarrow> k | _ \<Rightarrow> []) ''ransomware'')
               (jset ''kev_date_added'' (jget (case known of PDict k \<Rightarrow> k | _ \<Rightarrow> []) ''date_added'') d)
         else d))"

definition enrich_asset :: "feed_env \<Rightarrow> int \<Rightarrow> string list \<Rightarrow> enricher \<Rightarrow> (jdict list \<times> enricher) result" where
  "enrich_asset env now cpes en =
     rbind (load_kev_catalog env now False en) (\<lambda>en.
     rbind (rfold (\<lambda>cpe known. rbind (get_cves_for_cpe env cpe) (\<lambda>found. Inr (add_cves cpe found known))) cpes []) (\<lambda>all_cves.
       let epss = get_epss_scores env (map fst all_cves)
       in Inr (map (add_scores epss (en_kev_cache en)) all_cves, en)))"

section \<open>Storing\<close>

text \<open>A value for a float column; anything else is refused at the flush.\<close>

definition num_col :: "pyval \<Rightarrow> rat option result" where
  "num_col v = (case v of PNone \<Rightarrow> Inr None | PInt i \<Rightarrow> Inr (Some (of_int i)) | PFloat x \<Rightarrow> Inr (Some x) | _ \<Rightarrow> Inl DataError)"

definition str_col :: "pyval \<Rightarrow> string option result" where
  "str_col v = (case v of PNone \<Rightarrow> Inr None | PStr s \<Rightarrow> Inr (Some s) | _ \<Rightarrow> Inl DataError)"

definition strs_of :: "pyval \<Rightarrow> string list" where
  "strs_of v = (case v of PList xs \<Rightarrow> concat (map (\<lambda>x. case x of PStr s \<Rightarrow> [s] | _ \<Rightarrow> []) xs) | _ \<Rightarrow> [])"

definition cve_id_of :: "jdict \<Rightarrow> string" where
  "cve_id_of d = (case jget d ''id'' of PStr s \<Rightarrow> s | _ \<Rightarrow> [])"

definition insert_cve :: "int \<Rightarrow> jdict \<Rightarrow> cve result" where
  "insert_cve now d =
     rbind (num_col (jget d ''cvss_v3'')) (\<lambda>cvss. rbind (str_col (jget d ''cvss_vector'')) (\<lambda>vector.
     rbind (num_col (jget d ''epss_score'')) (\<lambda>score. rbind (num_col (jget d ''epss_percentile'')) (\<lambda>perc.
     rbind (str_col (jget d ''description'')) (\<lambda>desc.
       if 32 < length (cve_id_of d) \<or> (case vector of None \<Rightarrow> False | Some v \<Rightarrow> 128 < length v) then Inl DataError
       else Inr ((new_cve now)\<lparr>cv_id := cve_id_of d, cv_cvss_v3 := cvss, cv_cvss_vector := vector, cv_epss_score := score,
         cv_epss_percentile := perc, cv_kev := py_truthy (jget d ''kev''), cv_description := desc,
         cv_affected_cpes := strs_of (jget d ''affected_cpes'')\<rparr>))))))"

definition refresh_cve :: "int \<Rightarrow> jdict \<Rightarrow> cve \<Rightarrow> cve result" where
  "refresh_cve now d c =
     rbind (num_col (jget d ''cvss_v3'')) (\<lambda>cvss. rbind (num_col (jget d ''epss_score'')) (\<lambda>score.
     rbind (num_col (jget d ''epss_percentile'')) (\<lambda>perc.
       Inr (c\<lparr>cv_cvss_v3 := (case cvss of Some x \<Rightarrow> if x = 0 then cv_cvss_v3 c else Some x | None \<Rightarrow> cv_cvss_v3 c),
              cv_epss_score := score, cv_epss_percentile := perc, cv_kev := py_truthy (jget d ''kev''), cv_last_synced := now\<rparr>))))"

definition upsert_cve :: "int \<Rightarrow> nat \<Rightarrow> jdict \<Rightarrow> db \<Rightarrow> db result" where
  "upsert_cve now i data d =
     rbind (scalar_one_or_none (filter (\<lambda>c. cv_id c = cve_id_of data) (cves d))) (\<lambda>found.
     rbind (case found of
         None \<Rightarrow> rbind (insert_cve now data) (\<lambda>c. Inr (d\<lparr>cves := cves d @ [c]\<rparr>))
       | Some c \<Rightarrow> rbind (refresh_cve now data c) (\<lambda>c'. Inr (d\<lparr>cves := update_where (\<lambda>x. cv_id x = cv_id c) (\<lambda>x. c') (cves d)\<rparr>))) (\<lambda>d.
     rbind (scalar_one_or_none (filter (\<lambda>l. ac_asset_id l = i \<and> ac_cve_id l = cve_id_of data) (db.asset_cves d))) (\<lambda>link.
     rbind (str_col (jget data ''matched_cpe'')) (\<lambda>cpe.
       Inr (if link \<noteq> None then d
            else d\<lparr>asset_cves := db.asset_cves d @
              [(new_asset_cve now)\<lparr>ac_asset_id := i, ac_cve_id := cve_id_of data, ac_matched_cpe := cpe\<rparr>]\<rparr>)))))"

definition key_of :: "pyval \<Rightarrow> rat dkey" where
  "key_of v = (case v of PInt i \<Rightarrow> Has (of_int i) | PFloat x \<Rightarrow> Has x | _ \<Rightarrow> Null)"

definition enrich_cve :: "jdict \<Rightarrow> risk_cve" where
  "enrich_cve d = no_cve_keys\<lparr>rc_cvss_v3 := key_of (jget d ''cvss_v3''), rc_epss := key_of (jget d ''epss_score''),
     rc_kev := Has (py_truthy (jget d ''kev''))\<rparr>"

definition enrich_one_asset :: "feed_env \<Rightarrow> int \<Rightarrow> asset \<Rightarrow> enricher \<Rightarrow> db \<Rightarrow> (nat \<times> enricher \<times> db) result" where
  "enrich_one_asset env now a en d =
     (if a_cpe a = [] then Inr (0, en, d)
      else rbind (enrich_asset env now (a_cpe a) en) (\<lambda>(found, en).
           rbind (rfold (upsert_cve now (a_id a)) found d) (\<lambda>d.
             Inr (length found, en,
               update_asset_row now (a_id a) (set_risk (compute_risk (risk_input a (map enrich_cve found)))) d))))"

section \<open>Tasks\<close>

text \<open>The database a task leaves is the one of its last commit.\<close>

definition enrich_single :: "feed_env \<Rightarrow> int \<Rightarrow> nat \<Rightarrow> db \<Rightarrow> nat option result \<times> db" where
  "enrich_single env now i d =
     (case scalar_one_or_none (filter (\<lambda>a. a_id a = i) (assets d)) of
        Inl e \<Rightarrow> (Inl e, d)
      | Inr None \<Rightarrow> (Inr None, d)
      | Inr (Some a) \<Rightarrow>
          (case enrich_one_asset env now a new_enricher d of
             Inl e \<Rightarrow> (Inl e, d) | Inr (n, en, d') \<Rightarrow> (Inr (Some n), d')))"

fun enrich_each :: "feed_env \<Rightarrow> int \<Rightarrow> asset list \<Rightarrow> enricher \<Rightarrow> db \<Rightarrow> unit result \<times> db" where
  "enrich_each env now [] en d = (Inr (), d)"
| "enrich_each env now (a # rest) en d =
     (case enrich_one_asset env now a en d of
        Inl e \<Rightarrow> (Inl e, d) | Inr (n, en', d') \<Rightarrow> enrich_each env now rest en' d')"

definition enrich_pending_assets :: "feed_env \<Rightarrow> int \<Rightarrow> db \<Rightarrow> nat result \<times> db" where
  "enrich_pending_assets env now d =
     (let chosen = take 50 (filter (\<lambda>a. a_cpe a \<noteq> [] \<and> (now - day < a_last_seen a
                     \<or> filter (\<lambda>l. ac_asset_id l = a_id a) (db.asset_cves d) = [])) (assets d))
      in case enrich_each env now chosen new_enricher d of
           (Inl e, d') \<Rightarrow> (Inl e, d') | (Inr u, d') \<Rightarrow> (Inr (length chosen), d'))"

definition sync_kev :: "feed_env \<Rightarrow> int \<Rightarrow> string \<times> pyval \<Rightarrow> db \<Rightarrow> db result" where
  "sync_kev env now entry d = (case entry of (i, data) \<Rightarrow>
     rbind (scalar_one_or_none (filter (\<lambda>c. cv_id c = i) (cves d))) (\<lambda>found.
       case found of
         Some c \<Rightarrow>
           rbind (dyn_get data ''date_added'' PNone) (\<lambda>added.
             let c' = c\<lparr>cv_kev := True\<rparr>;
                 c'' = (if py_truthy added then (case fe_parse_date env added of None \<Rightarrow> c' | Some t \<Rightarrow> c'\<lparr>cv_kev_date_added := Some t\<rparr>) else c')
             in Inr (d\<lparr>cves := update_where (\<lambda>x. cv_id x = i) (\<lambda>x. c'') (cves d)\<rparr>))
       | None \<Rightarrow>
           rbind (dyn_get data ''vulnerability_name'' (PStr [])) (\<lambda>name. rbind (str_col name) (\<lambda>desc.
             Inr (d\<lparr>cves := cves d @ [(new_cve now)\<lparr>cv_id := i, cv_kev := True, cv_description := desc\<rparr>]\<rparr>)))))"

definition sync_cve_feeds :: "feed_env \<Rightarrow> int \<Rightarrow> db \<Rightarrow> nat result \<times> db" where
  "sync_cve_feeds env now d =
     (case load_kev_catalog env now True new_enricher of
        Inl e \<Rightarrow> (Inl e, d)
      | Inr en \<Rightarrow>
          (case rfold (sync_kev env now) (en_kev_cache en) d of
             Inl e \<Rightarrow> (Inl e, d) | Inr d' \<Rightarrow> (Inr (length (en_kev_cache en)), d')))"

section \<open>When a service is down\<close>

lemma no_answer_no_cves:
  assumes "\<forall>cpe\<in>set cpes. \<exists>e. fe_nvd env cpe = Inl e"
  shows "rfold (\<lambda>cpe known. rbind (get_cves_for_cpe env cpe) (\<lambda>found. Inr (add_cves cpe found known))) cpes known = Inr known"
  using assms
proof (induction cpes)
  case (Cons cpe cpes)
  then obtain e where "fe_nvd env cpe = Inl e" by auto
  with Cons show ?case by (simp add: get_cves_for_cpe_def add_cves_def)
qed simp

lemma update_asset_row_lookup:
  assumes "a \<in> set (assets d)" "a_id a = i"
  shows "asset_flush now a (f a) \<in> set (assets (update_asset_row now i f d))"
    "db.asset_cves (update_asset_row now i f d) = db.asset_cves d" "cves (update_asset_row now i f d) = cves d"
  using assms by (auto simp: update_asset_row_def set_update_where)

lemma risk_without_cves:
  "rb_cve (rr_breakdown (compute_risk (risk_input a []))) = 1" "rb_kev (rr_breakdown (compute_risk (risk_input a []))) = 1"
  by (simp_all add: compute_risk_def Let_def risk_factors_def RiskEngine.asset_cves_def risk_input_def cve_factor_def
      has_kev_def has_ransomware_kev_def split: prod.splits)

text \<open>
  An outage of the NVD lowers risk scores. When the NVD does not answer, the enrichment
  of an asset succeeds with no CVEs and stores a risk with the lowest CVE and KEV factors,
  while the CVEs recorded for the asset, whatever their severity, stay recorded.
\<close>

theorem nvd_outage_lowers_risk:
  assumes "filter (\<lambda>a. a_id a = i) (assets d) = [a]" "a_cpe a \<noteq> []"
    and "\<forall>cpe\<in>set (a_cpe a). \<exists>e. fe_nvd env cpe = Inl e" "load_kev_catalog env now False new_enricher = Inr en"
  shows "\<exists>d' a'. enrich_single env now i d = (Inr (Some 0), d') \<and> a' \<in> set (assets d') \<and> a_id a' = i
    \<and> jget (a_risk_breakdown a') ''cve'' = PInt 1 \<and> jget (a_risk_breakdown a') ''kev'' = PInt 1
    \<and> db.asset_cves d' = db.asset_cves d \<and> cves d' = cves d"
proof -
  let ?r = "compute_risk (risk_input a [])"
  let ?d = "update_asset_row now (a_id a) (set_risk ?r) d"
  have a: "a \<in> set (assets d)" "a_id a = i"
    using assms(1) by (metis (mono_tags, lifting) filter_eq_ConsD list.set_intros(1) filter_is_subset subsetD)+
  have "enrich_asset env now (a_cpe a) new_enricher = Inr ([], en)"
    using no_answer_no_cves [OF assms(3), of "[]"] assms(4) by (simp add: enrich_asset_def)
  then have "enrich_single env now i d = (Inr (Some 0), ?d)"
    using assms(1,2) by (simp add: enrich_single_def enrich_one_asset_def)
  moreover have "asset_flush now a (set_risk ?r a) \<in> set (assets ?d)"
    by (rule update_asset_row_lookup(1)) (use a in simp_all)
  moreover have "jget (a_risk_breakdown (set_risk ?r a)) ''cve'' = PInt 1" "jget (a_risk_breakdown (set_risk ?r a)) ''kev'' = PInt 1"
    by (simp_all add: set_risk_def breakdown_dict_def jget_def risk_without_cves)
  ultimately show ?thesis
    using a by (intro exI [of _ ?d] exI [of _ "asset_flush now a (set_risk ?r a)"]) (simp add: update_asset_row_def)
qed

lemma upsert_clears_kev:
  assumes "upsert_cve now i data d = Inr d'" "\<not> py_truthy (jget data ''kev'')" "\<forall>c\<in>set (cves d). cv_id c \<in> I \<longrightarrow> \<not> cv_kev c"
  shows "\<forall>c\<in>set (cves d'). cv_id c \<in> insert (cve_id_of data) I \<longrightarrow> \<not> cv_kev c"
proof (cases "filter (\<lambda>c. cv_id c = cve_id_of data) (cves d)" rule: scalar_one_or_none_cases)
  case none
  then obtain c where c: "insert_cve now data = Inr c" "cves d' = cves d @ [c]"
    using assms(1) by (auto simp: upsert_cve_def rbind_eq_Inr split: if_splits)
  have "\<not> cv_kev c" using c(1) assms(2) by (auto simp: insert_cve_def rbind_eq_Inr split: if_splits)
  moreover have "\<forall>x\<in>set (cves d). cv_id x \<noteq> cve_id_of data" using none(1) by (simp add: filter_empty_conv)
  ultimately show ?thesis using assms(3) c(2) by auto
next
  case (one c)
  then obtain c' where c: "refresh_cve now data c = Inr c'" "cves d' = update_where (\<lambda>x. cv_id x = cv_id c) (\<lambda>x. c') (cves d)"
    using assms(1) by (auto simp: upsert_cve_def rbind_eq_Inr split: if_splits)
  have k: "\<not> cv_kev c'" using c(1) assms(2) by (auto simp: refresh_cve_def rbind_eq_Inr)
  have "cv_id c = cve_id_of data" using one(1) by (metis (mono_tags, lifting) filter_eq_ConsD)
  with k assms(3) c(2) show ?thesis by (auto simp: set_update_where)
next
  case many
  with assms(1) show ?thesis by (simp add: upsert_cve_def)
qed

lemma upserts_clear_kev:
  assumes "rfold (upsert_cve now i) xs d = Inr d'" "\<forall>x\<in>set xs. \<not> py_truthy (jget x ''kev'')"
    and "\<forall>c\<in>set (cves d). cv_id c \<in> I \<longrightarrow> \<not> cv_kev c"
  shows "\<forall>c\<in>set (cves d'). cv_id c \<in> I \<union> cve_id_of ` set xs \<longrightarrow> \<not> cv_kev c"
  using assms
proof (induction xs arbitrary: d I)
  case (Cons x xs)
  then obtain w where w: "upsert_cve now i x d = Inr w" "rfold (upsert_cve now i) xs w = Inr d'"
    by (auto simp: rbind_eq_Inr)
  have "\<forall>c\<in>set (cves w). cv_id c \<in> insert (cve_id_of x) I \<longrightarrow> \<not> cv_kev c"
    by (rule upsert_clears_kev [OF w(1)]) (use Cons.prems in auto)
  from Cons.IH [OF w(2) _ this] Cons.prems(2) show ?case by auto
qed simp

text \<open>
  An outage of the KEV feed clears recorded exploitation. Every task has an empty KEV
  cache of its own; when the feed does not answer, each CVE that the enrichment of an asset
  finds is stored as not exploited, even if it was known to be.
\<close>

theorem kev_outage_clears_flags:
  assumes "fe_kev env = Inl (ServiceError m)" "filter (\<lambda>a. a_id a = i) (assets d) = [a]"
    and "enrich_asset env now (a_cpe a) new_enricher = Inr (found, en)" "a_cpe a \<noteq> []"
    and "enrich_single env now i d = (Inr n, d')" "x \<in> set found" "c \<in> set (cves d')" "cv_id c = cve_id_of x"
  shows "\<not> cv_kev c"
proof -
  have en: "load_kev_catalog env now False new_enricher = Inr new_enricher"
    using assms(1) by (simp add: load_kev_catalog_def new_enricher_def)
  have "\<not> py_truthy (jget y ''kev'')" if "y \<in> set found" for y
    using assms(3) that en by (auto simp: enrich_asset_def rbind_eq_Inr Let_def add_scores_def jget_def new_enricher_def
        map_of_jset split: option.splits prod.splits)
  moreover obtain w where "rfold (upsert_cve now (a_id a)) found d = Inr w" "cves d' = cves w"
    using assms(2-5) by (cases "rfold (upsert_cve now (a_id a)) found d")
      (auto simp: enrich_single_def enrich_one_asset_def update_asset_row_def)
  ultimately have "\<forall>c\<in>set (cves d'). cv_id c \<in> {} \<union> cve_id_of ` set found \<longrightarrow> \<not> cv_kev c"
    using upserts_clear_kev [of now "a_id a" found d w "{}"] by auto
  with assms(6-8) show ?thesis by auto
qed

section \<open>Witnesses\<close>

definition sample_vulnerability :: pyval where
  "sample_vulnerability = PDict [(''cve'', PDict [(''id'', PStr ''CVE-2024-1'')])]"

definition sample_feeds :: "pyval result \<Rightarrow> feed_env" where
  "sample_feeds nvd = \<lparr> fe_nvd = (\<lambda>cpe. nvd), fe_epss = (\<lambda>ids. Inl (ServiceError ''down'')), fe_kev = Inl (ServiceError ''down''),
     fe_to_float = (\<lambda>v. Inr 0), fe_parse_date = (\<lambda>v. None) \<rparr>"

lemma sample_feeds_sel:
  "fe_nvd (sample_feeds r) c = r" "fe_kev (sample_feeds r) = Inl (ServiceError ''down'')"
  by (simp_all add: sample_feeds_def)

definition sample_enriched_db :: db where
  "sample_enriched_db = empty_db\<lparr>assets := [(new_asset 1 0)\<lparr>a_cpe := [''cpe:2.3:a:x'']\<rparr>],
     cves := [(new_cve 0)\<lparr>cv_id := ''CVE-2024-1'', cv_kev := True\<rparr>],
     asset_cves := [(new_asset_cve 0)\<lparr>ac_asset_id := 1, ac_cve_id := ''CVE-2024-1''\<rparr>]\<rparr>"

lemma sample_enriched_asset:
  "filter (\<lambda>a. a_id a = 1) (assets sample_enriched_db) = [(new_asset 1 0)\<lparr>a_cpe := [''cpe:2.3:a:x'']\<rparr>]"
  by (simp add: sample_enriched_db_def new_asset_def)

lemma new_asset_id: "a_id (new_asset i n) = i"
  by (simp add: new_asset_def)

lemma sample_enriched_rows:
  "cves sample_enriched_db = [(new_cve 0)\<lparr>cv_id := ''CVE-2024-1'', cv_kev := True\<rparr>]"
  "db.asset_cves sample_enriched_db = [(new_asset_cve 0)\<lparr>ac_asset_id := 1, ac_cve_id := ''CVE-2024-1''\<rparr>]"
  by (simp_all add: sample_enriched_db_def)

theorem nvd_outage_lowers_risk_witness:
  "\<exists>d' a'. enrich_single (sample_feeds (Inl (ServiceError ''down''))) 5 1 sample_enriched_db = (Inr (Some 0), d')
    \<and> a' \<in> set (assets d') \<and> jget (a_risk_breakdown a') ''kev'' = PInt 1 \<and> map cv_kev (cves d') = [True]"
proof -
  have "load_kev_catalog (sample_feeds (Inl (ServiceError ''down''))) 5 False new_enricher = Inr new_enricher"
    by (simp add: load_kev_catalog_def sample_feeds_def new_enricher_def)
  then obtain d' a' where "enrich_single (sample_feeds (Inl (ServiceError ''down''))) 5 1 sample_enriched_db = (Inr (Some 0), d')"
    "a' \<in> set (assets d')" "jget (a_risk_breakdown a') ''kev'' = PInt 1" "cves d' = cves sample_enriched_db"
    using nvd_outage_lowers_risk [OF sample_enriched_asset, of "sample_feeds (Inl (ServiceError ''down''))" 5 new_enricher]
    by (auto simp: sample_feeds_def)
  then show ?thesis by (auto simp: sample_enriched_db_def)
qed

lemma sample_no_scores: "get_epss_scores (sample_feeds r) [i] = Map.empty"
  by (simp add: get_epss_scores_def epss_batch_def sample_feeds_def)

theorem kev_outage_clears_flags_witness:
  "\<exists>d'. enrich_single (sample_feeds (Inr (PDict [(''vulnerabilities'', PList [sample_vulnerability])]))) 5 1 sample_enriched_db
      = (Inr (Some 1), d') \<and> (\<forall>c\<in>set (cves d'). cv_id c = ''CVE-2024-1'' \<longrightarrow> \<not> cv_kev c)"
proof -
  let ?f = "sample_feeds (Inr (PDict [(''vulnerabilities'', PList [sample_vulnerability])]))"
  obtain x where e: "enrich_asset ?f 5 (a_cpe ((new_asset 1 0)\<lparr>a_cpe := [''cpe:2.3:a:x'']\<rparr>)) new_enricher = Inr ([x], new_enricher)"
    "cve_id_of x = ''CVE-2024-1'' \<and> num_col (jget x ''cvss_v3'') = Inr None \<and> num_col (jget x ''epss_score'') = Inr (Some 0)
     \<and> num_col (jget x ''epss_percentile'') = Inr (Some 0) \<and> str_col (jget x ''matched_cpe'') = Inr (Some ''cpe:2.3:a:x'')"
    by (simp add: enrich_asset_def load_kev_catalog_def sample_feeds_sel new_enricher_def get_cves_for_cpe_def dyn_get_def dyn_iter_def sample_no_scores
        rcollect_def cve_of_item_def sample_vulnerability_def cvss_data_def dyn_first_def py_or_def affected_cpes_def dyn_take_def
        add_cves_def add_scores_def Let_def jget_def cve_id_of_def num_col_def str_col_def)
  obtain d' where s: "enrich_single ?f 5 1 sample_enriched_db = (Inr (Some 1), d')"
    using e by (simp add: enrich_single_def sample_enriched_asset [simplified] enrich_one_asset_def upsert_cve_def refresh_cve_def sample_enriched_rows new_asset_id)
  have "\<not> cv_kev c" if "c \<in> set (cves d')" "cv_id c = ''CVE-2024-1''" for c
    by (rule kev_outage_clears_flags [OF _ sample_enriched_asset e(1) _ s, of _ x c]) (use e(2) that in \<open>simp_all add: sample_feeds_def\<close>)
  with s show ?thesis by blast
qed

end
