(* ===== verification/Http.thy ===== *)
theory Http
  imports Models
begin

text \<open>
  HTTP clients and retried calls. A client of \<open>httpx\<close> is a parameter that is given the number of
  requests made before and the request, and answers with a response or an exception; and
  \<open>retry\<close> of tenacity, which several services decorate their calls with, is a parameter with the
  documented law \<open>retry_ok\<close>. What a retried call does to its state (the log of its requests) is
  derived here once for all of them.
\<close>

section \<open>Clients\<close>

datatype http_exc = NetworkError | TimeoutException | HTTPStatusError nat | OtherHTTPError | OtherExc exn

record http_response =
  hr_status :: nat
  hr_json :: "pyval result"

text \<open>\<open>ServiceError\<close> stands for the exceptions below \<open>httpx.HTTPError\<close>.\<close>

fun as_exn :: "http_exc \<Rightarrow> exn" where
  "as_exn NetworkError = ServiceError ''NetworkError''"
| "as_exn TimeoutException = ServiceError ''TimeoutException''"
| "as_exn (HTTPStatusError n) = ServiceError ''HTTPStatusError''"
| "as_exn OtherHTTPError = ServiceError ''HTTPError''"
| "as_exn (OtherExc e) = e"

text \<open>\<open>retry_if_exception_type((httpx.HTTPError, httpx.TimeoutException))\<close>\<close>

definition is_http_error :: "http_exc \<Rightarrow> bool" where
  "is_http_error e = (case e of OtherExc x \<Rightarrow> False | _ \<Rightarrow> True)"

text \<open>What \<open>raise_for_status\<close> accepts.\<close>

definition is_success :: "http_response \<Rightarrow> bool" where
  "is_success r = (200 \<le> hr_status r \<and> hr_status r \<le> 299)"

text \<open>An attempt: the answer to a request, refused unless it is a success.\<close>

definition checked_answer :: "http_exc + http_response \<Rightarrow> http_exc + http_response" where
  "checked_answer a = (case a of
     Inl e \<Rightarrow> Inl e
   | Inr r \<Rightarrow> if is_success r then Inr r else Inl (HTTPStatusError (hr_status r)))"

definition or_exc :: "'a result \<Rightarrow> http_exc + 'a" where
  "or_exc r = (case r of Inl e \<Rightarrow> Inl (OtherExc e) | Inr x \<Rightarrow> Inr x)"

definition answered :: "(http_response \<Rightarrow> 'a result) \<Rightarrow> http_exc + http_response \<Rightarrow> http_exc + 'a" where
  "answered f a = (case checked_answer a of Inl e \<Rightarrow> Inl e | Inr r \<Rightarrow> or_exc (f r))"

text \<open>\<open>reraise\<close>: the last failure itself leaves the call.\<close>

definition reraised :: "http_exc + 'a \<Rightarrow> 'a result" where
  "reraised r = (case r of Inl e \<Rightarrow> Inl (as_exn e) | Inr v \<Rightarrow> Inr v)"

text \<open>The request that is logged, and the client's answer to it.\<close>

definition logged :: "(nat \<Rightarrow> 'c \<Rightarrow> http_exc + http_response) \<Rightarrow> 'c \<Rightarrow> (http_response \<Rightarrow> 'a result) \<Rightarrow> 'c list \<Rightarrow>
    (http_exc + 'a) \<times> 'c list" where
  "logged net c f sent = (answered f (net (length sent) c), sent @ [c])"

lemma checked_answer_simps:
  "(checked_answer a = Inr r) = (a = Inr r \<and> is_success r)"
  "(checked_answer a = Inl e) = (a = Inl e \<or> (\<exists>r. a = Inr r \<and> \<not> is_success r \<and> e = HTTPStatusError (hr_status r)))"
  by (auto simp: checked_answer_def split: sum.splits)

lemma or_exc_simps [simp]:
  "(or_exc r = Inr x) = (r = Inr x)"
  "(or_exc r = Inl e) = (\<exists>x. r = Inl x \<and> e = OtherExc x)"
  by (auto simp: or_exc_def split: sum.splits)

lemma answered_Inr: "(answered f a = Inr x) = (\<exists>r. a = Inr r \<and> is_success r \<and> f r = Inr x)"
  by (auto simp: answered_def checked_answer_simps split: sum.splits)

lemma answered_error:
  "(\<exists>e. answered f a = Inl e \<and> is_http_error e)
   = ((\<exists>e. a = Inl e \<and> is_http_error e) \<or> (\<exists>r. a = Inr r \<and> \<not> is_success r))"
  by (auto simp: answered_def checked_answer_def or_exc_def is_http_error_def split: sum.splits)

section \<open>Retries\<close>

text \<open>
  \<open>retry(stop=stop_after_attempt(n), retry=..., reraise=True)\<close> around a call that changes a state:
  the number of attempts, the failures that are tried again and the call. Its law is what
  tenacity documents: an attempt is made; its value is the result; a failure that is not tried
  again and the failure of the last attempt leave the call; otherwise the call is made again. The
  time waited between the attempts is not modelled.
\<close>

type_synonym ('e, 'a, 's) retrier = "nat \<Rightarrow> ('e \<Rightarrow> bool) \<Rightarrow> ('s \<Rightarrow> ('e + 'a) \<times> 's) \<Rightarrow> 's \<Rightarrow> ('e + 'a) \<times> 's"

definition retry_ok :: "('e, 'a, 's) retrier \<Rightarrow> bool" where
  "retry_ok R \<longleftrightarrow> (\<forall>n again f s. R (Suc n) again f s =
     (case f s of
        (Inl e, s') \<Rightarrow> if again e \<and> n \<noteq> 0 then R n again f s' else (Inl e, s')
      | (Inr x, s') \<Rightarrow> (Inr x, s')))"

primrec retry_loop :: "('e, 'a, 's) retrier" where
  "retry_loop 0 again f s = f s"
| "retry_loop (Suc n) again f s =
     (case f s of
        (Inl e, s') \<Rightarrow> if again e \<and> n \<noteq> 0 then retry_loop n again f s' else (Inl e, s')
      | (Inr x, s') \<Rightarrow> (Inr x, s'))"

lemma retry_loop_ok: "retry_ok retry_loop"
  by (simp add: retry_ok_def)

text \<open>The state before each attempt.\<close>

fun after :: "('s \<Rightarrow> 'r \<times> 's) \<Rightarrow> nat \<Rightarrow> 's \<Rightarrow> 's" where
  "after f 0 s = s"
| "after f (Suc k) s = after f k (snd (f s))"

definition tried_again :: "('e \<Rightarrow> bool) \<Rightarrow> ('s \<Rightarrow> ('e + 'a) \<times> 's) \<Rightarrow> 's \<Rightarrow> bool" where
  "tried_again again f s = (\<exists>e. fst (f s) = Inl e \<and> again e)"

text \<open>The result of a retried call is that of its last attempt, and says why no other was made.\<close>

lemma retry_result:
  assumes "retry_ok R"
  shows "\<exists>k\<le>n. R (Suc n) again f s = f (after f k s) \<and> (\<forall>j<k. tried_again again f (after f j s))
    \<and> (k = n \<or> \<not> tried_again again f (after f k s))"
proof (induction n arbitrary: s)
  case 0
  have "R (Suc 0) again f s = f s"
    using assms unfolding retry_ok_def by (cases "f s"; cases "fst (f s)") auto
  then show ?case by simp
next
  case (Suc n)
  obtain r s' where f: "f s = (r, s')" by (cases "f s")
  show ?case
  proof (cases "tried_again again f s")
    case True
    then obtain e where e: "r = Inl e" "again e" using f by (auto simp: tried_again_def)
    then have "R (Suc (Suc n)) again f s = R (Suc n) again f s'" using assms f by (simp add: retry_ok_def)
    moreover obtain k where k: "k \<le> n" "R (Suc n) again f s' = f (after f k s')"
      "\<forall>j<k. tried_again again f (after f j s')" "k = n \<or> \<not> tried_again again f (after f k s')"
      using Suc.IH by blast
    moreover have "tried_again again f (after f j s)" if "j < Suc k" for j
      using that True k(3) f by (cases j) auto
    ultimately show ?thesis using f by (intro exI [of _ "Suc k"]) auto
  next
    case False
    then have "R (Suc (Suc n)) again f s = f s"
      using assms f by (cases r) (auto simp: retry_ok_def tried_again_def)
    with False show ?thesis by (intro exI [of _ 0]) simp
  qed
qed

lemma after_logged: "after (logged net c f) k sent = sent @ replicate k c"
  by (induction k arbitrary: sent) (simp_all add: logged_def replicate_app_Cons_same)

text \<open>A retried request is sent again as it is; the log holds one entry for each attempt.\<close>

lemma retried_request:
  assumes "retry_ok R" and "R (Suc n) again (logged net c f) [] = (r, sent)"
  obtains k where "k \<le> n" "sent = replicate (Suc k) c" "r = answered f (net k c)"
    "\<forall>j<k. \<exists>e. answered f (net j c) = Inl e \<and> again e"
    "k = n \<or> \<not> (\<exists>e. answered f (net k c) = Inl e \<and> again e)"
proof -
  let ?f = "logged net c f"
  have a: "after ?f j [] = replicate j c" for j by (simp add: after_logged)
  obtain k where k: "k \<le> n" "?f (replicate k c) = (r, sent)" "\<forall>j<k. tried_again again ?f (replicate j c)"
    "k = n \<or> \<not> tried_again again ?f (replicate k c)"
    using retry_result [OF assms(1), of n again ?f "[]"] unfolding a assms(2) by metis
  have "tried_again again (logged net c f) (replicate j c) = (\<exists>e. answered f (net j c) = Inl e \<and> again e)" for j
    by (simp add: tried_again_def logged_def)
  with k that [of k] show thesis by (simp add: logged_def replicate_append_same)
qed

end
