(* ===== verification/AiClient.thy ===== *)
theory AiClient
  imports PyDyn PyStr Http
begin

text \<open>
  The client of the language model (\<open>app/services/ai_client.py\<close>): the choice of the provider,
  the requests, their retries and what is taken from an answer. The HTTP client and the retries of
  tenacity are parameters, see \<open>Http\<close>. A completion is returned with the log of its requests.
\<close>

record ai_settings =
  AI_PROVIDER :: string
  AI_BASE_URL :: string
  AI_API_KEY :: string
  AI_MODEL :: string
  AI_TIMEOUT_SEC :: int
  AI_CONTEXT_LENGTH :: int
  AI_THINKING :: bool
  ANTHROPIC_API_KEY :: string
  ANTHROPIC_MODEL :: string

definition default_ai_settings :: ai_settings where
  "default_ai_settings = \<lparr> AI_PROVIDER = ''disabled'', AI_BASE_URL = ''http://host.docker.internal:11434'',
     AI_API_KEY = ''ollama'', AI_MODEL = ''qwen3:14b'', AI_TIMEOUT_SEC = 180, AI_CONTEXT_LENGTH = 8192,
     AI_THINKING = False, ANTHROPIC_API_KEY = [], ANTHROPIC_MODEL = ''claude-sonnet-4-20250514'' \<rparr>"

text \<open>A request: its address, its headers and its JSON body.\<close>

record ai_post =
  ap_url :: string
  ap_headers :: "(string \<times> string) list"
  ap_json :: jdict

text \<open>The HTTP client, given the number of the requests made before, and the retries around a call.\<close>

record transport =
  tr_post :: "nat \<Rightarrow> ai_post \<Rightarrow> http_exc + http_response"
  tr_retry :: "(http_exc, string, ai_post list) retrier"

section \<open>Answers\<close>

definition require_provider :: "string \<Rightarrow> unit result" where
  "require_provider p =
     (if p = ''disabled'' then Inl (AIClientError ''AI provider is disabled'')
      else if p \<notin> {''ollama'', ''anthropic'', ''openai'', ''openai_compatible'', ''deepseek''}
      then Inl (AIClientError (''Unsupported AI_PROVIDER: '' @ p)) else Inr ())"

definition text_content :: "string \<Rightarrow> pyval \<Rightarrow> string result" where
  "text_content msg v = (case v of PStr s \<Rightarrow> if strip s = [] then Inl (AIClientError msg) else Inr s | _ \<Rightarrow> Inl (AIClientError msg))"

definition content_from_ollama :: "pyval \<Rightarrow> string result" where
  "content_from_ollama data =
     rbind (dyn_get data ''message'' PNone) (\<lambda>m. rbind (dyn_get (py_or m (PDict [])) ''content'' PNone)
       (text_content ''Local AI returned no final content; disable thinking for JSON tasks''))"

definition content_from_openai :: "pyval \<Rightarrow> string result" where
  "content_from_openai data =
     rbind (dyn_get data ''choices'' PNone) (\<lambda>v.
     rbind (if py_truthy v then rbind (dyn_first v) (\<lambda>c. dyn_get c ''message'' PNone) else Inr PNone) (\<lambda>m.
       text_content ''OpenAI-compatible AI returned no final content'' (case m of PDict d \<Rightarrow> jget d ''content'' | _ \<Rightarrow> PNone)))"

definition block_text :: "pyval \<Rightarrow> string list result" where
  "block_text b = (case b of
     PDict d \<Rightarrow> (case map_of d ''text'' of None \<Rightarrow> Inr [[]] | Some (PStr s) \<Rightarrow> Inr [s] | Some v \<Rightarrow> Inl TypeError)
   | _ \<Rightarrow> Inr [])"

definition content_from_anthropic :: "pyval \<Rightarrow> string result" where
  "content_from_anthropic data =
     rbind (dyn_get data ''content'' (PList [])) (\<lambda>v. rbind (dyn_iter v) (\<lambda>blocks. rbind (rcollect block_text blocks) (\<lambda>ts.
       if strip (concat ts) = [] then Inl (AIClientError ''Anthropic returned no final content'') else Inr (concat ts))))"

section \<open>Requests\<close>

definition message_of :: "string \<Rightarrow> string \<Rightarrow> pyval" where
  "message_of role content = PDict [(''role'', PStr role), (''content'', PStr content)]"

definition messages :: "string option \<Rightarrow> string \<Rightarrow> pyval" where
  "messages system prompt =
     PList ((if truthy_str system then [message_of ''system'' (the system)] else []) @ [message_of ''user'' prompt])"

definition base_url :: "ai_settings \<Rightarrow> string" where
  "base_url s = rstrip_chars (\<lambda>c. c = CHR ''/'') (AI_BASE_URL s)"

definition ollama_post :: "ai_settings \<Rightarrow> string \<Rightarrow> pyval \<Rightarrow> int \<Rightarrow> string option \<Rightarrow> ai_post" where
  "ollama_post s prompt schema max_tokens system = \<lparr> ap_url = base_url s @ ''/api/chat'', ap_headers = [],
     ap_json = [(''model'', PStr (AI_MODEL s)), (''messages'', messages system prompt), (''stream'', PBool False),
       (''think'', PBool (AI_THINKING s)), (''format'', schema),
       (''options'', PDict [(''temperature'', PInt 0), (''num_ctx'', PInt (AI_CONTEXT_LENGTH s)), (''num_predict'', PInt max_tokens)]),
       (''keep_alive'', PStr ''10m'')] \<rparr>"

definition anthropic_post :: "ai_settings \<Rightarrow> string \<Rightarrow> int \<Rightarrow> string option \<Rightarrow> ai_post" where
  "anthropic_post s prompt max_tokens system = \<lparr> ap_url = ''https://api.anthropic.com/v1/messages'',
     ap_headers = [(''x-api-key'', ANTHROPIC_API_KEY s), (''anthropic-version'', ''2023-06-01''), (''content-type'', ''application/json'')],
     ap_json = [(''model'', PStr (ANTHROPIC_MODEL s)), (''max_tokens'', PInt max_tokens), (''messages'', PList [message_of ''user'' prompt])]
       @ (if truthy_str system then [(''system'', PStr (the system))] else []) \<rparr>"

definition openai_post :: "ai_settings \<Rightarrow> string \<Rightarrow> pyval \<Rightarrow> int \<Rightarrow> string option \<Rightarrow> ai_post" where
  "openai_post s prompt schema max_tokens system = \<lparr> ap_url = base_url s @ ''/chat/completions'',
     ap_headers = [(''content-type'', ''application/json'')]
       @ (if AI_API_KEY s \<noteq> [] then [(''authorization'', ''Bearer '' @ AI_API_KEY s)] else []),
     ap_json = [(''model'', PStr (AI_MODEL s)), (''messages'', messages system prompt), (''temperature'', PInt 0),
       (''max_tokens'', PInt max_tokens), (''stream'', PBool False),
       (''response_format'', PDict [(''type'', PStr ''json_schema''),
          (''json_schema'', PDict [(''name'', PStr ''kepryx_response''), (''strict'', PBool True), (''schema'', schema)])])] \<rparr>"

section \<open>Calls\<close>

text \<open>
  Each call is decorated: three attempts, and only the exceptions of \<open>httpx\<close> are tried again. The
  configuration is looked at within an attempt.
\<close>

definition call_ollama :: "ai_settings \<Rightarrow> transport \<Rightarrow> string \<Rightarrow> pyval \<Rightarrow> int \<Rightarrow> string option \<Rightarrow> (http_exc + string) \<times> ai_post list" where
  "call_ollama s net prompt schema max_tokens system = tr_retry net 3 is_http_error (\<lambda>sent.
     if AI_BASE_URL s = [] then (Inl (OtherExc (AIClientError ''AI_BASE_URL is not configured'')), sent)
     else logged (tr_post net) (ollama_post s prompt schema max_tokens system) (\<lambda>r. rbind (hr_json r) content_from_ollama) sent) []"

definition call_anthropic :: "ai_settings \<Rightarrow> transport \<Rightarrow> string \<Rightarrow> int \<Rightarrow> string option \<Rightarrow> (http_exc + string) \<times> ai_post list" where
  "call_anthropic s net prompt max_tokens system = tr_retry net 3 is_http_error (\<lambda>sent.
     if ANTHROPIC_API_KEY s = [] then (Inl (OtherExc (AIClientError ''ANTHROPIC_API_KEY not configured'')), sent)
     else logged (tr_post net) (anthropic_post s prompt max_tokens system) (\<lambda>r. rbind (hr_json r) content_from_anthropic) sent) []"

definition call_openai_compatible :: "ai_settings \<Rightarrow> transport \<Rightarrow> string \<Rightarrow> pyval \<Rightarrow> int \<Rightarrow> string option \<Rightarrow> (http_exc + string) \<times> ai_post list" where
  "call_openai_compatible s net prompt schema max_tokens system = tr_retry net 3 is_http_error (\<lambda>sent.
     if AI_BASE_URL s = [] then (Inl (OtherExc (AIClientError ''AI_BASE_URL is not configured'')), sent)
     else logged (tr_post net) (openai_post s prompt schema max_tokens system) (\<lambda>r. rbind (hr_json r) content_from_openai) sent) []"

text \<open>The text a completion returns, with the requests it made.\<close>

definition completion :: "ai_settings \<Rightarrow> transport \<Rightarrow> string \<Rightarrow> pyval \<Rightarrow> int \<Rightarrow> string option \<Rightarrow> string result \<times> ai_post list" where
  "completion s net prompt schema max_tokens system =
     (let provider = lower (strip (AI_PROVIDER s))
      in case require_provider provider of
           Inl e \<Rightarrow> (Inl e, [])
         | Inr u \<Rightarrow> apfst reraised
             (if provider = ''ollama'' then call_ollama s net prompt schema max_tokens system
              else if provider = ''anthropic'' then call_anthropic s net prompt max_tokens system
              else call_openai_compatible s net prompt schema max_tokens system))"

definition complete_json :: "ai_settings \<Rightarrow> transport \<Rightarrow> string \<Rightarrow> pyval \<Rightarrow> int \<Rightarrow> string option \<Rightarrow> string result" where
  "complete_json s net prompt schema max_tokens system = fst (completion s net prompt schema max_tokens system)"

section \<open>What a provider is asked and how often\<close>

text \<open>A request that failed below \<open>httpx.HTTPError\<close>: no answer, or one that is no success.\<close>

definition http_failure :: "http_exc + http_response \<Rightarrow> bool" where
  "http_failure a = (case a of
     Inl e \<Rightarrow> (\<forall>x. e \<noteq> OtherExc x) | Inr r \<Rightarrow> hr_status r < 200 \<or> 300 \<le> hr_status r)"

text \<open>The provider's configuration is complete; its request; what is read from a good answer.\<close>

definition provider_ready :: "ai_settings \<Rightarrow> string \<Rightarrow> bool" where
  "provider_ready s provider =
     ((provider \<in> {''ollama'', ''openai'', ''openai_compatible'', ''deepseek''} \<and> AI_BASE_URL s \<noteq> [])
      \<or> (provider = ''anthropic'' \<and> ANTHROPIC_API_KEY s \<noteq> []))"

definition provider_post :: "ai_settings \<Rightarrow> string \<Rightarrow> string \<Rightarrow> pyval \<Rightarrow> int \<Rightarrow> string option \<Rightarrow> ai_post" where
  "provider_post s provider prompt schema max_tokens system =
     (if provider = ''ollama'' then ollama_post s prompt schema max_tokens system
      else if provider = ''anthropic'' then anthropic_post s prompt max_tokens system
      else openai_post s prompt schema max_tokens system)"

definition provider_content :: "string \<Rightarrow> http_exc + http_response \<Rightarrow> string result" where
  "provider_content provider a = (case a of
     Inl e \<Rightarrow> Inl (as_exn e)
   | Inr r \<Rightarrow> rbind (hr_json r)
       (if provider = ''ollama'' then content_from_ollama
        else if provider = ''anthropic'' then content_from_anthropic else content_from_openai))"

lemma retried_error: "(\<exists>e. answered f a = Inl e \<and> is_http_error e) = http_failure a"
  unfolding answered_error
  by (cases a) (auto simp: http_failure_def is_http_error_def is_success_def split: http_exc.splits)

lemma failure_raised: "http_failure a \<Longrightarrow> \<exists>m. reraised (answered f a) = Inl (ServiceError m)"
  by (cases a; cases "projl a")
    (auto simp: http_failure_def answered_def checked_answer_def is_success_def reraised_def)

lemma answer_read: "\<not> http_failure a \<Longrightarrow> reraised (answered f a) = (case a of Inl e \<Rightarrow> Inl (as_exn e) | Inr r \<Rightarrow> f r)"
  by (auto simp: http_failure_def answered_def checked_answer_def is_success_def reraised_def or_exc_def split: sum.splits)

text \<open>A decorated call that sends one request in each attempt.\<close>

lemma retried_post:
  assumes "retry_ok (tr_retry net)" and "tr_retry net 3 is_http_error (logged (tr_post net) p f) [] = (r, sent)"
  shows "\<exists>k<3. sent = replicate (Suc k) p \<and> (\<forall>j<k. http_failure (tr_post net j p))
    \<and> (if http_failure (tr_post net k p) then k = 2 \<and> (\<exists>m. reraised r = Inl (ServiceError m))
       else reraised r = (case tr_post net k p of Inl e \<Rightarrow> Inl (as_exn e) | Inr r \<Rightarrow> f r))"
proof -
  from assms(2) have "tr_retry net (Suc 2) is_http_error (logged (tr_post net) p f) [] = (r, sent)" by simp
  from retried_request [OF assms(1) this] obtain k where k: "k \<le> 2" "sent = replicate (Suc k) p"
    "r = answered f (tr_post net k p)" "\<forall>j<k. http_failure (tr_post net j p)" "k = 2 \<or> \<not> http_failure (tr_post net k p)"
    unfolding retried_error by blast
  then show ?thesis
    by (intro exI [of _ k]) (auto simp: failure_raised answer_read)
qed

text \<open>A failure that is not tried again leaves a decorated call at once.\<close>

lemma unretried_error: "retry_ok R \<Longrightarrow> R 3 is_http_error (\<lambda>sent. (Inl (OtherExc e), sent)) s = (Inl (OtherExc e), s)"
  by (simp add: retry_ok_def numeral_3_eq_3 is_http_error_def)

lemma unsupported_provider:
  "require_provider provider = Inl e \<Longrightarrow> \<not> provider_ready s provider \<and> (\<exists>m. e = AIClientError m)"
  by (auto simp: require_provider_def provider_ready_def split: if_splits)

lemma supported_provider:
  "require_provider provider = Inr u \<Longrightarrow> provider \<in> {''ollama'', ''anthropic'', ''openai'', ''openai_compatible'', ''deepseek''}"
  by (auto simp: require_provider_def split: if_splits)

text \<open>The call of the provider: ready, it is a retried request; otherwise an error without one.\<close>

definition provider_call :: "ai_settings \<Rightarrow> transport \<Rightarrow> string \<Rightarrow> string \<Rightarrow> pyval \<Rightarrow> int \<Rightarrow> string option \<Rightarrow> (http_exc + string) \<times> ai_post list" where
  "provider_call s net provider prompt schema max_tokens system =
     (if provider = ''ollama'' then call_ollama s net prompt schema max_tokens system
      else if provider = ''anthropic'' then call_anthropic s net prompt max_tokens system
      else call_openai_compatible s net prompt schema max_tokens system)"

lemma call_unready:
  assumes "retry_ok (tr_retry net)" "require_provider provider = Inr u" "\<not> provider_ready s provider"
  shows "\<exists>m. provider_call s net provider prompt schema max_tokens system = (Inl (OtherExc (AIClientError m)), [])"
proof (cases "provider = ''anthropic''")
  case True
  with assms(3) have "ANTHROPIC_API_KEY s = []" by (simp add: provider_ready_def)
  with True show ?thesis by (simp add: provider_call_def call_anthropic_def unretried_error [OF assms(1)])
next
  case False
  with assms(3) supported_provider [OF assms(2)] have "AI_BASE_URL s = []" by (auto simp: provider_ready_def)
  with False show ?thesis
    by (simp add: provider_call_def call_ollama_def call_openai_compatible_def unretried_error [OF assms(1)])
qed

lemma call_ready:
  assumes "provider_ready s provider"
  shows "provider_call s net provider prompt schema max_tokens system
    = tr_retry net 3 is_http_error (logged (tr_post net) (provider_post s provider prompt schema max_tokens system)
        (\<lambda>r. provider_content provider (Inr r))) []"
proof (cases "provider = ''anthropic''")
  case True
  with assms have "ANTHROPIC_API_KEY s \<noteq> []" by (simp add: provider_ready_def)
  with True show ?thesis by (simp add: provider_call_def call_anthropic_def provider_post_def provider_content_def)
next
  case False
  with assms have "AI_BASE_URL s \<noteq> []" by (simp add: provider_ready_def)
  with False show ?thesis
    by (simp add: provider_call_def call_ollama_def call_openai_compatible_def provider_post_def provider_content_def)
qed

lemma content_cases:
  "(case a of Inl e \<Rightarrow> Inl (as_exn e) | Inr r \<Rightarrow> provider_content provider (Inr r)) = provider_content provider a"
  by (cases a) (simp_all add: provider_content_def)

text \<open>
  C37: A completion sends at most three requests, and the log says which: none, and an error of the
  client, when the provider is unsupported or not configured; otherwise the provider's one
  request, sent again only after a failure of the transport or an answer that is no success,
  and no further once three were sent. The result is what is read from the answer to
  the last request, whatever the provider would have answered later; when that too is a failure of the
  transport, three were sent and the completion ends with this failure.
\<close>

theorem completion_requests:
  assumes "retry_ok (tr_retry net)"
    and "provider = lower (strip (AI_PROVIDER s))"
    and "p = provider_post s provider prompt schema max_tokens system"
    and "completion s net prompt schema max_tokens system = (r, sent)"
  shows "(\<not> provider_ready s provider \<longrightarrow> sent = [] \<and> (\<exists>m. r = Inl (AIClientError m)))
    \<and> (provider_ready s provider \<longrightarrow> (\<exists>k<3. sent = replicate (Suc k) p \<and> (\<forall>j<k. http_failure (tr_post net j p))
        \<and> (if http_failure (tr_post net k p) then k = 2 \<and> (\<exists>m. r = Inl (ServiceError m))
           else r = provider_content provider (tr_post net k p))))"
proof (cases "require_provider provider")
  case (Inl e)
  with assms(2,4) have "(r, sent) = (Inl e, [])" by (simp add: completion_def Let_def)
  with unsupported_provider [OF Inl] show ?thesis by blast
next
  case (Inr u)
  let ?call = "provider_call s net provider prompt schema max_tokens system"
  from Inr assms(2,4) have c: "(r, sent) = apfst reraised ?call" by (simp add: completion_def provider_call_def Let_def)
  show ?thesis
  proof (cases "provider_ready s provider")
    case True
    obtain raw where raw: "?call = (raw, sent)" "r = reraised raw" using c by (cases ?call) auto
    from raw(1) have "tr_retry net 3 is_http_error (logged (tr_post net) p (\<lambda>r. provider_content provider (Inr r))) [] = (raw, sent)"
      unfolding call_ready [OF True] assms(3) .
    from retried_post [OF assms(1) this] True show ?thesis unfolding content_cases raw(2) by simp
  next
    case False
    with call_unready [OF assms(1) Inr False, of prompt schema max_tokens system] c show ?thesis by (auto simp: reraised_def)
  qed
qed

text \<open>What the client returns is never blank, whichever provider answers.\<close>

lemma text_content_Inr: "(text_content m v = Inr s) = (v = PStr s \<and> strip s \<noteq> [])"
  by (auto simp: text_content_def split: pyval.splits if_splits)

lemma content_not_blank: "provider_content provider a = Inr answer \<Longrightarrow> strip answer \<noteq> []"
  by (auto simp: provider_content_def rbind_eq_Inr text_content_Inr content_from_ollama_def content_from_openai_def
      content_from_anthropic_def split: sum.splits if_splits)

lemma complete_json_not_blank:
  assumes "retry_ok (tr_retry net)" "complete_json s net prompt schema n system = Inr answer"
  shows "strip answer \<noteq> []"
proof -
  let ?provider = "lower (strip (AI_PROVIDER s))"
  let ?call = "provider_call s net ?provider prompt schema n system"
  from assms(2) obtain u raw sent where u: "require_provider ?provider = Inr u" and raw: "?call = (raw, sent)" "reraised raw = Inr answer"
    by (cases "require_provider ?provider"; cases ?call) (simp_all add: complete_json_def completion_def provider_call_def Let_def)
  have ready: "provider_ready s ?provider"
    using call_unready [OF assms(1) u, of s prompt schema n system] raw by (auto simp: reraised_def split: sum.splits)
  let ?p = "provider_post s ?provider prompt schema n system"
  from raw(1) have "tr_retry net 3 is_http_error (logged (tr_post net) ?p (\<lambda>r. provider_content ?provider (Inr r))) [] = (raw, sent)"
    unfolding call_ready [OF ready] .
  from retried_post [OF assms(1) this] raw(2) have "\<exists>k. provider_content ?provider (tr_post net k ?p) = Inr answer"
    unfolding content_cases by (metis sum.distinct(1))
  with content_not_blank show ?thesis by blast
qed

text \<open>When three requests fail in the transport, so does the completion.\<close>

lemma complete_json_down:
  assumes "retry_ok (tr_retry net)" "provider_ready s (lower (strip (AI_PROVIDER s)))" "\<And>k p. http_failure (tr_post net k p)"
  shows "\<exists>m. complete_json s net prompt schema n system = Inl (ServiceError m)"
proof -
  let ?provider = "lower (strip (AI_PROVIDER s))"
  obtain u where u: "require_provider ?provider = Inr u"
    using unsupported_provider assms(2) by (cases "require_provider ?provider") blast+
  let ?p = "provider_post s ?provider prompt schema n system"
  obtain raw sent where raw: "tr_retry net 3 is_http_error (logged (tr_post net) ?p (\<lambda>r. provider_content ?provider (Inr r))) [] = (raw, sent)"
    by (rule prod.exhaust)
  from retried_post [OF assms(1) this] assms(3) have "\<exists>m. reraised raw = Inl (ServiceError m)" by auto
  with u raw call_ready [OF assms(2), of net prompt schema n system] show ?thesis
    by (simp add: complete_json_def completion_def provider_call_def [symmetric] Let_def)
qed

text \<open>A client that answers every request with the same text, for the samples.\<close>

definition answering :: "string \<Rightarrow> transport" where
  "answering t = \<lparr> tr_post = (\<lambda>k p. Inr \<lparr> hr_status = 200, hr_json = Inr (PDict [(''message'', PDict [(''content'', PStr t)])]) \<rparr>),
     tr_retry = retry_loop \<rparr>"

lemma provider_ollama: "lower (strip ''ollama'') = ''ollama''" "AI_BASE_URL default_ai_settings \<noteq> []"
  by code_simp+

lemma complete_json_answering:
  assumes "lower (strip (AI_PROVIDER s)) = ''ollama''" "AI_BASE_URL s \<noteq> []" "strip t \<noteq> []"
  shows "complete_json s (answering t) prompt schema n system = Inr t"
  using assms
  by (simp add: complete_json_def completion_def Let_def require_provider_def call_ollama_def answering_def numeral_3_eq_3
      logged_def answered_def checked_answer_def is_success_def or_exc_def reraised_def content_from_ollama_def dyn_get_def py_or_def
      text_content_def)

text \<open>A provider whose third answer is good: two failures go unnoticed, and it is asked three times.\<close>

definition recovering :: transport where
  "recovering = \<lparr> tr_post = (\<lambda>k p. if k = 0 then Inl TimeoutException else Inr \<lparr> hr_status = (if k = 1 then 529 else 200),
     hr_json = Inr (PDict [(''message'', PDict [(''content'', PStr ''x'')])]) \<rparr>), tr_retry = retry_loop \<rparr>"

theorem completion_requests_witness:
  "length (snd (completion (default_ai_settings\<lparr>AI_PROVIDER := ''ollama''\<rparr>) recovering ''q'' PNone 10 None)) = 3
   \<and> fst (completion (default_ai_settings\<lparr>AI_PROVIDER := ''ollama''\<rparr>) recovering ''q'' PNone 10 None) = Inr ''x''"
proof -
  let ?s = "default_ai_settings\<lparr>AI_PROVIDER := ''ollama''\<rparr>"
  have o: "lower (strip (AI_PROVIDER ?s)) = ''ollama''" by code_simp
  obtain r sent where c: "completion ?s recovering ''q'' PNone 10 None = (r, sent)" by (rule prod.exhaust)
  have ready: "provider_ready ?s ''ollama''" by code_simp
  let ?p = "provider_post ?s ''ollama'' ''q'' PNone 10 None"
  have ok: "retry_ok (tr_retry recovering)" by (simp add: recovering_def retry_loop_ok)
  obtain k where k: "k < 3" "sent = replicate (Suc k) ?p"
    "if http_failure (tr_post recovering k ?p) then k = 2 \<and> (\<exists>m. r = Inl (ServiceError m)) else r = provider_content ''ollama'' (tr_post recovering k ?p)"
    using mp [OF conjunct2 [OF completion_requests [OF ok o [symmetric] HOL.refl c]] ready] by blast
  have f: "http_failure (tr_post recovering j ?p) = (j < 2)" for j
    by (simp add: recovering_def http_failure_def less_2_cases_iff)
  have "\<not> k < 2" using k(3) by (auto simp: f)
  with k(1) have k2: "k = 2" by simp
  have "provider_content ''ollama'' (tr_post recovering 2 ?p) = Inr ''x''"
    by (simp add: recovering_def provider_content_def content_from_ollama_def dyn_get_def py_or_def text_content_def strip_def
      lstrip_chars_def rstrip_chars_def is_space_def char_code_def)
  moreover have "r = provider_content ''ollama'' (tr_post recovering 2 ?p)" using k(3) unfolding k2 f by simp
  ultimately have "r = Inr ''x''" by simp
  moreover have "length sent = 3" unfolding k(2) k2 by simp
  ultimately show ?thesis unfolding c by simp
qed

end
