(* ===== verification/AiParser.thy ===== *)
theory AiParser
  imports AiClient Reconciler
begin

text \<open>
  Reading an inventory out of free text with the language model (\<open>app/services/ai_parser.py\<close>):
  the schema of a record, its validators, and the parsing of the answer. Parameters: the JSON
  parser, the schema text of the library, and the library's reading of a truth value.
\<close>

record parser_env =
  pe_ai :: ai_settings
  pe_net :: transport
  pe_timed_out :: "string \<Rightarrow> bool"
  pe_schema :: pyval
  pe_json :: "string \<Rightarrow> pyval option"
  pe_bool :: "pyval \<Rightarrow> bool option"
  pe_str_exn :: "exn \<Rightarrow> string"

section \<open>The schema\<close>

definition ALLOWED_CRITICALITY :: "string list" where
  "ALLOWED_CRITICALITY = [''low'', ''medium'', ''high'', ''critical'', ''tier-1'']"

definition ALLOWED_CONTROL :: "string list" where "ALLOWED_CONTROL = [''full'', ''partial'', ''none'']"

definition ALLOWED_EXPOSURE :: "string list" where
  "ALLOWED_EXPOSURE = [''isolated'', ''internal'', ''dmz'', ''cloud'', ''internet-facing'']"

definition ALLOWED_AUTH :: "string list" where
  "ALLOWED_AUTH = [''mfa+pam'', ''mfa'', ''certificate'', ''password'', ''password-only'', ''none'']"

definition ALLOWED_CLASSIFICATION :: "string list" where
  "ALLOWED_CLASSIFICATION = [''Public'', ''Internal'', ''Confidential'', ''Restricted'']"

record parsed_asset =
  pa_name :: string
  pa_type :: string
  pa_os :: "string option"
  pa_ip :: "string option"
  pa_mac :: "string option"
  pa_segment :: "string option"
  pa_edr_status :: "string option"
  pa_control_coverage :: string
  pa_network_exposure :: string
  pa_auth_method :: string
  pa_criticality :: string
  pa_data_classification :: string
  pa_dependencies :: "string list"
  pa_software_stack :: "string list"
  pa_cpe :: "string list"
  pa_last_patch :: "string option"
  pa_eol_status :: bool

text \<open>Fields of the schema; \<open>None\<close> is a validation error.\<close>

definition text_field :: "jdict \<Rightarrow> string \<Rightarrow> string \<Rightarrow> nat option \<Rightarrow> string option" where
  "text_field r k dflt m = (case map_of r k of
     None \<Rightarrow> Some dflt
   | Some (PStr s) \<Rightarrow> (if case m of None \<Rightarrow> False | Some n \<Rightarrow> n < length s then None else Some s)
   | Some v \<Rightarrow> None)"

definition opt_field :: "jdict \<Rightarrow> string \<Rightarrow> string option \<Rightarrow> nat option \<Rightarrow> string option option" where
  "opt_field r k dflt m = (case map_of r k of
     None \<Rightarrow> Some dflt
   | Some PNone \<Rightarrow> Some None
   | Some (PStr s) \<Rightarrow> (if case m of None \<Rightarrow> False | Some n \<Rightarrow> n < length s then None else Some (Some s))
   | Some v \<Rightarrow> None)"

fun str_items :: "pyval list \<Rightarrow> string list option" where
  "str_items [] = Some []"
| "str_items (PStr s # xs) = map_option ((#) s) (str_items xs)"
| "str_items (x # xs) = None"

definition list_field :: "jdict \<Rightarrow> string \<Rightarrow> nat \<Rightarrow> string list option" where
  "list_field r k n = (case map_of r k of
     None \<Rightarrow> Some []
   | Some (PList xs) \<Rightarrow> (if n < length xs then None else str_items xs)
   | Some v \<Rightarrow> None)"

definition one_of :: "string list \<Rightarrow> string \<Rightarrow> string \<Rightarrow> string" where
  "one_of allowed dflt v = (if v \<in> set allowed then v else dflt)"

definition v_cpe :: "string list \<Rightarrow> string list" where
  "v_cpe cs = filter (\<lambda>c. starts_with ''cpe:2.3:'' c \<and> length c < 512) cs"

definition name_field :: "jdict \<Rightarrow> string option" where
  "name_field r = (case map_of r ''name'' of
     Some (PStr s) \<Rightarrow> (if 1 \<le> length s \<and> length s \<le> 255 then Some s else None) | _ \<Rightarrow> None)"

definition parse_asset :: "(pyval \<Rightarrow> bool option) \<Rightarrow> jdict \<Rightarrow> parsed_asset option" where
  "parse_asset to_bool r =
     (case (name_field r, text_field r ''type'' ''Unknown'' (Some 64), opt_field r ''os'' None (Some 255),
            opt_field r ''ip'' None (Some 45), opt_field r ''mac'' None (Some 17), opt_field r ''segment'' (Some ''Unknown'') (Some 64),
            opt_field r ''edr_status'' (Some ''None'') (Some 128)) of
        (Some name, Some type, Some os, Some ip, Some mac, Some segment, Some edr) \<Rightarrow>
     (case (text_field r ''control_coverage'' ''none'' None, text_field r ''network_exposure'' ''internal'' None,
            text_field r ''auth_method'' ''password'' None, text_field r ''criticality'' ''medium'' None,
            text_field r ''data_classification'' ''Internal'' None) of
        (Some control, Some exposure, Some auth, Some crit, Some cls) \<Rightarrow>
     (case (list_field r ''dependencies'' 50, list_field r ''software_stack'' 100, list_field r ''cpe'' 100,
            opt_field r ''last_patch'' None None, case map_of r ''eol_status'' of None \<Rightarrow> Some False | Some v \<Rightarrow> to_bool v) of
        (Some deps, Some stack, Some cpes, Some patch, Some eol) \<Rightarrow>
          Some \<lparr> pa_name = name, pa_type = type, pa_os = os, pa_ip = ip, pa_mac = mac, pa_segment = segment, pa_edr_status = edr,
            pa_control_coverage = one_of ALLOWED_CONTROL ''none'' control,
            pa_network_exposure = one_of ALLOWED_EXPOSURE ''internal'' exposure,
            pa_auth_method = one_of ALLOWED_AUTH ''password'' auth,
            pa_criticality = one_of ALLOWED_CRITICALITY ''medium'' crit,
            pa_data_classification = one_of ALLOWED_CLASSIFICATION ''Internal'' cls,
            pa_dependencies = deps, pa_software_stack = stack, pa_cpe = v_cpe cpes, pa_last_patch = patch, pa_eol_status = eol \<rparr>
      | _ \<Rightarrow> None)
      | _ \<Rightarrow> None)
      | _ \<Rightarrow> None)"

section \<open>Parsing an answer\<close>

text \<open>An answer's records: those that are dictionaries and validate, without their \<open>cves\<close>.\<close>

definition valid_records :: "(pyval \<Rightarrow> bool option) \<Rightarrow> pyval list \<Rightarrow> parsed_asset list" where
  "valid_records to_bool xs =
     List.map_filter (\<lambda>x. case x of PDict r \<Rightarrow> parse_asset to_bool (filter (\<lambda>(k, v). k \<noteq> ''cves'') r) | _ \<Rightarrow> None) xs"

definition read_answer :: "parser_env \<Rightarrow> string \<Rightarrow> string + parsed_asset list" where
  "read_answer env text = (case pe_json env (clean_answer text) of
     None \<Rightarrow> Inl ''AI returned invalid JSON''
   | Some v \<Rightarrow> (case (case v of PDict d \<Rightarrow> jget d ''assets'' | _ \<Rightarrow> v) of
        PList xs \<Rightarrow> Inr (valid_records (pe_bool env) xs)
      | _ \<Rightarrow> Inl ''AI did not return an assets array''))"

definition ask :: "parser_env \<Rightarrow> string \<Rightarrow> string result" where
  "ask env prompt = (if pe_timed_out env prompt then Inl TimeoutError
     else complete_json (pe_ai env) (pe_net env) prompt (pe_schema env) 8000 None)"

text \<open>The text of an \<open>AIParserError\<close>, or the records.\<close>

definition parse_assets_from_text :: "parser_env \<Rightarrow> string \<Rightarrow> string \<Rightarrow> string + parsed_asset list" where
  "parse_assets_from_text env PROMPT raw =
     (if raw = [] \<or> 200000 < length raw then Inl ''Input too short or too long''
      else case ask env (PROMPT @ raw) of
        Inl e \<Rightarrow> Inl (if e = TimeoutError then ''AI provider timed out''
                      else case e of AIClientError m \<Rightarrow> m | _ \<Rightarrow> ''AI provider failed: '' @ pe_str_exn env e)
      | Inr text \<Rightarrow> read_answer env text)"

text \<open>\<open>parsed.model_dump()\<close> as the report the reconciler reads.\<close>

definition report_of :: "parsed_asset \<Rightarrow> host_data" where
  "report_of p = \<lparr> hd_name = Has (pa_name p), hd_hostname = Absent, hd_ip = opt_key (pa_ip p), hd_mac = opt_key (pa_mac p),
     hd_type = Has (pa_type p), hd_os = opt_key (pa_os p), hd_os_guess = Absent, hd_segment = opt_key (pa_segment p),
     hd_edr_status = opt_key (pa_edr_status p), hd_control_coverage = Has (pa_control_coverage p),
     hd_network_exposure = Has (pa_network_exposure p), hd_auth_method = Has (pa_auth_method p),
     hd_criticality = Has (pa_criticality p), hd_data_classification = Has (pa_data_classification p),
     hd_software_stack = Has (pa_software_stack p), hd_cpe = Has (pa_cpe p), hd_dependencies = Has (pa_dependencies p),
     hd_services = Absent \<rparr>"

section \<open>What a validated record holds\<close>

definition parsed_ok :: "parsed_asset \<Rightarrow> bool" where
  "parsed_ok p =
     (1 \<le> length (pa_name p) \<and> length (pa_name p) \<le> 255 \<and> length (pa_type p) \<le> 64
      \<and> pa_control_coverage p \<in> set ALLOWED_CONTROL \<and> pa_network_exposure p \<in> set ALLOWED_EXPOSURE
      \<and> pa_auth_method p \<in> set ALLOWED_AUTH \<and> pa_criticality p \<in> set ALLOWED_CRITICALITY
      \<and> pa_data_classification p \<in> set ALLOWED_CLASSIFICATION
      \<and> (\<forall>c\<in>set (pa_cpe p). starts_with ''cpe:2.3:'' c \<and> length c < 512))"

lemma one_of_allowed: "dflt \<in> set allowed \<Longrightarrow> one_of allowed dflt v \<in> set allowed"
  by (simp add: one_of_def)

lemma text_field_length: "text_field r k dflt (Some n) = Some s \<Longrightarrow> length dflt \<le> n \<Longrightarrow> length s \<le> n"
  by (auto simp: text_field_def split: option.splits pyval.splits if_splits)

lemma name_field_length: "name_field r = Some s \<Longrightarrow> 1 \<le> length s \<and> length s \<le> 255"
  by (auto simp: name_field_def split: option.splits pyval.splits if_splits)

lemma parse_asset_fields:
  assumes "parse_asset to_bool r = Some p"
  shows "name_field r = Some (pa_name p) \<and> text_field r ''type'' ''Unknown'' (Some 64) = Some (pa_type p)
    \<and> (\<exists>c e a k d xs. pa_control_coverage p = one_of ALLOWED_CONTROL ''none'' c
         \<and> pa_network_exposure p = one_of ALLOWED_EXPOSURE ''internal'' e \<and> pa_auth_method p = one_of ALLOWED_AUTH ''password'' a
         \<and> pa_criticality p = one_of ALLOWED_CRITICALITY ''medium'' k
         \<and> pa_data_classification p = one_of ALLOWED_CLASSIFICATION ''Internal'' d \<and> pa_cpe p = v_cpe xs)"
  using assms by (auto simp: parse_asset_def split: option.splits)

lemma allowed_defaults:
  "''none'' \<in> set ALLOWED_CONTROL" "''internal'' \<in> set ALLOWED_EXPOSURE" "''password'' \<in> set ALLOWED_AUTH"
  "''medium'' \<in> set ALLOWED_CRITICALITY" "''Internal'' \<in> set ALLOWED_CLASSIFICATION"
  by (simp_all add: ALLOWED_CONTROL_def ALLOWED_EXPOSURE_def ALLOWED_AUTH_def ALLOWED_CRITICALITY_def ALLOWED_CLASSIFICATION_def)

lemma parse_asset_ok:
  assumes "parse_asset to_bool r = Some p"
  shows "parsed_ok p"
  using parse_asset_fields [OF assms] name_field_length [of r "pa_name p"]
    text_field_length [of r "''type''" "''Unknown''" 64 "pa_type p"]
  by (auto simp: parsed_ok_def v_cpe_def allowed_defaults intro!: one_of_allowed)

lemma valid_records_ok: "p \<in> set (valid_records to_bool xs) \<Longrightarrow> parsed_ok p"
  by (auto simp: valid_records_def List.map_filter_def parse_asset_ok split: pyval.splits option.splits)

lemma parsed_records_ok:
  "parse_assets_from_text env PROMPT raw = Inr ps \<Longrightarrow> \<forall>p\<in>set ps. parsed_ok p"
  by (auto simp: parse_assets_from_text_def read_answer_def valid_records_ok split: if_splits sum.splits option.splits pyval.splits)

end
