(* ===== verification/Assets.thy ===== *)
theory Assets
  imports AiParser AssetRisk Access Retention Notify
begin

text \<open>
  The asset endpoints (\<open>app/api/assets.py\<close>): listing, reading, changing, creating, counting,
  the request for an enrichment and the ingestion of free text. Each body runs after its
  guard. \<open>pg_ok\<close> is the database's reading of network and hardware addresses.
\<close>

record pg_ok =
  pg_inet :: "string \<Rightarrow> bool"
  pg_mac :: "string \<Rightarrow> bool"

definition opt_all :: "('a \<Rightarrow> bool) \<Rightarrow> 'a option \<Rightarrow> bool" where
  "opt_all p v = (case v of None \<Rightarrow> True | Some x \<Rightarrow> p x)"

abbreviation fits :: "nat \<Rightarrow> string \<Rightarrow> bool" where "fits n s \<equiv> length s \<le> n"

text \<open>The columns of a row accept its values.\<close>

definition asset_fits :: "pg_ok \<Rightarrow> asset \<Rightarrow> bool" where
  "asset_fits pg a =
     (fits 255 (a_name a) \<and> fits 64 (a_type a) \<and> opt_all (fits 255) (a_os a) \<and> opt_all (pg_inet pg) (a_ip a)
      \<and> opt_all (pg_mac pg) (a_mac a) \<and> opt_all (fits 64) (a_segment a) \<and> opt_all (fits 128) (a_edr_status a)
      \<and> fits 16 (a_control_coverage a) \<and> fits 32 (a_network_exposure a) \<and> fits 32 (a_auth_method a)
      \<and> fits 16 (a_criticality a) \<and> fits 32 (a_data_classification a) \<and> opt_all (fits 32) (a_last_patch a))"

section \<open>Reading\<close>

record asset_query =
  sq_risk_tier :: "string option"
  sq_segment :: "string option"
  sq_is_shadow :: "bool option"
  sq_search :: "string option"
  sq_page :: nat
  sq_page_size :: nat

definition ilike :: "string \<Rightarrow> string \<Rightarrow> bool" where "ilike p s = like (lower p) (lower s)"

definition opt_keeps :: "string option \<Rightarrow> string option \<Rightarrow> bool" where
  "opt_keeps f v = (if truthy_str f then f = v else True)"

definition asset_matches :: "asset_query \<Rightarrow> asset \<Rightarrow> bool" where
  "asset_matches q a =
     (keeps (sq_risk_tier q) (a_risk_tier a) \<and> opt_keeps (sq_segment q) (a_segment a)
      \<and> (case sq_is_shadow q of None \<Rightarrow> True | Some b \<Rightarrow> a_is_shadow a = b)
      \<and> (case sq_search q of None \<Rightarrow> True | Some s \<Rightarrow> if s = [] then True
           else let p = ''%'' @ s @ ''%'' in ilike p (a_name a) \<or> (case a_os a of None \<Rightarrow> False | Some os \<Rightarrow> ilike p os)))"

definition truthy_or_none :: "string option \<Rightarrow> pyval" where
  "truthy_or_none s = (if truthy_str s then PStr (the s) else PNone)"

definition opt_py :: "string option \<Rightarrow> pyval" where
  "opt_py s = (case s of None \<Rightarrow> PNone | Some v \<Rightarrow> PStr v)"

definition asset_row :: "db \<Rightarrow> asset \<Rightarrow> jdict" where
  "asset_row d a =
     (let cs = linked_cves (a_id a) d
      in [(''id'', PStr (uuid_str (a_id a))), (''name'', PStr (a_name a)), (''type'', PStr (a_type a)), (''os'', opt_py (a_os a)),
          (''ip'', truthy_or_none (a_ip a)), (''mac'', truthy_or_none (a_mac a)), (''segment'', opt_py (a_segment a)),
          (''edr_status'', opt_py (a_edr_status a)), (''control_coverage'', PStr (a_control_coverage a)),
          (''network_exposure'', PStr (a_network_exposure a)), (''auth_method'', PStr (a_auth_method a)),
          (''criticality'', PStr (a_criticality a)), (''risk_score'', PFloat (a_risk_score a)), (''risk_tier'', PStr (a_risk_tier a)),
          (''risk_breakdown'', PDict (a_risk_breakdown a)), (''cve_count'', PInt (int (length cs))),
          (''kev_count'', PInt (int (length (filter (\<lambda>(l, c). cv_kev c) cs)))), (''is_shadow'', PBool (a_is_shadow a)),
          (''is_stale'', PBool (a_is_stale a)), (''sources'', PList (map PStr (a_sources a))), (''last_seen'', PInt (a_last_seen a))])"

definition list_assets :: "asset_query \<Rightarrow> db \<Rightarrow> jdict list \<times> nat" where
  "list_assets q d =
     (let rows = filter (asset_matches q) (assets d);
          page = take (sq_page_size q) (drop ((sq_page q - 1) * sq_page_size q) (sort_key (\<lambda>a. - a_risk_score a) rows))
      in (map (asset_row d) page, length rows))"

definition opt_num :: "rat option \<Rightarrow> pyval" where
  "opt_num v = (case v of None \<Rightarrow> PNone | Some x \<Rightarrow> PFloat x)"

definition cve_row :: "asset_cve \<times> cve \<Rightarrow> jdict" where
  "cve_row lc = (case lc of (l, c) \<Rightarrow>
     [(''id'', PStr (cv_id c)), (''cvss_v3'', opt_num (cv_cvss_v3 c)), (''cvss_vector'', opt_py (cv_cvss_vector c)),
      (''epss_score'', opt_num (cv_epss_score c)), (''epss_percentile'', opt_num (cv_epss_percentile c)), (''kev'', PBool (cv_kev c)),
      (''kev_date_added'', (case cv_kev_date_added c of None \<Rightarrow> PNone | Some t \<Rightarrow> PInt t)), (''description'', opt_py (cv_description c)),
      (''matched_cpe'', opt_py (ac_matched_cpe l)), (''suppressed'', PBool (ac_suppressed l)), (''remediated'', PBool (ac_remediated l))])"

definition asset_detail :: "db \<Rightarrow> asset \<Rightarrow> jdict" where
  "asset_detail d a =
     [(''id'', PStr (uuid_str (a_id a))), (''name'', PStr (a_name a)), (''type'', PStr (a_type a)), (''os'', opt_py (a_os a)),
      (''ip'', truthy_or_none (a_ip a)), (''mac'', truthy_or_none (a_mac a)), (''segment'', opt_py (a_segment a)),
      (''edr_status'', opt_py (a_edr_status a)), (''control_coverage'', PStr (a_control_coverage a)),
      (''network_exposure'', PStr (a_network_exposure a)), (''auth_method'', PStr (a_auth_method a)),
      (''criticality'', PStr (a_criticality a)), (''data_classification'', PStr (a_data_classification a)),
      (''dependencies'', PList (map PStr (a_dependencies a))), (''software_stack'', PList (map PStr (a_software_stack a))),
      (''cpe'', PList (map PStr (a_cpe a))), (''last_patch'', opt_py (a_last_patch a)), (''eol_status'', PBool (a_eol_status a)),
      (''risk_score'', PFloat (a_risk_score a)), (''risk_tier'', PStr (a_risk_tier a)), (''risk_breakdown'', PDict (a_risk_breakdown a)),
      (''is_shadow'', PBool (a_is_shadow a)), (''is_stale'', PBool (a_is_stale a)), (''sources'', PList (map PStr (a_sources a))),
      (''first_seen'', PInt (a_first_seen a)), (''last_seen'', PInt (a_last_seen a)),
      (''cves'', PList (map (\<lambda>lc. PDict (cve_row lc)) (linked_cves (a_id a) d))), (''tags'', PList (map PStr (a_tags a))),
      (''attrs'', PDict (a_attrs a))]"

definition the_asset :: "nat \<Rightarrow> db \<Rightarrow> asset result" where
  "the_asset i d = rbind (scalar_one_or_none (filter (\<lambda>a. a_id a = i) (assets d)))
     (\<lambda>a. case a of None \<Rightarrow> Inl (HTTPException 404 ''Not Found'') | Some a \<Rightarrow> Inr a)"

definition get_asset :: "nat \<Rightarrow> db \<Rightarrow> jdict result" where
  "get_asset i d = rbind (the_asset i d) (\<lambda>a. Inr (asset_detail d a))"

record asset_stats =
  st_total :: nat
  st_critical :: nat
  st_high :: nat
  st_shadow :: nat
  st_stale :: nat
  st_no_edr :: nat
  st_eol :: nat
  st_kev :: nat

definition stats_summary :: "db \<Rightarrow> asset_stats" where
  "stats_summary d =
     (let n = (\<lambda>p. length (filter p (assets d)))
      in \<lparr> st_total = n (\<lambda>a. True), st_critical = n (\<lambda>a. a_risk_tier a = ''Critical''), st_high = n (\<lambda>a. a_risk_tier a = ''High''),
           st_shadow = n a_is_shadow, st_stale = n a_is_stale,
           st_no_edr = n (\<lambda>a. a_edr_status a = Some ''None'' \<or> a_edr_status a = None), st_eol = n a_eol_status,
           st_kev = length (filter cv_kev (cves d)) \<rparr>)"

section \<open>Changing and creating\<close>

record asset_update =
  au_criticality :: "string dkey"
  au_data_classification :: "string dkey"
  au_control_coverage :: "string dkey"
  au_auth_method :: "string dkey"
  au_tags :: "string list dkey"

definition update_changes :: "asset_update \<Rightarrow> jdict" where
  "update_changes b =
     change_of ''criticality'' PStr (au_criticality b) @ change_of ''data_classification'' PStr (au_data_classification b)
     @ change_of ''control_coverage'' PStr (au_control_coverage b) @ change_of ''auth_method'' PStr (au_auth_method b)
     @ change_of ''tags'' (\<lambda>xs. PList (map PStr xs)) (au_tags b)"

text \<open>The assignments, as the flush before the next query writes them.\<close>

definition fit_col :: "nat \<Rightarrow> string dkey \<Rightarrow> string \<Rightarrow> string result" where
  "fit_col n k old = rbind (set_col k old) (\<lambda>v. if k \<noteq> Absent \<and> \<not> fits n v then Inl DataError else Inr v)"

definition apply_update :: "asset_update \<Rightarrow> asset \<Rightarrow> asset result" where
  "apply_update b a =
     rbind (fit_col 16 (au_criticality b) (a_criticality a)) (\<lambda>crit.
     rbind (fit_col 32 (au_data_classification b) (a_data_classification a)) (\<lambda>cls.
     rbind (fit_col 16 (au_control_coverage b) (a_control_coverage a)) (\<lambda>control.
     rbind (fit_col 32 (au_auth_method b) (a_auth_method a)) (\<lambda>auth.
       Inr (a\<lparr>a_criticality := crit, a_data_classification := cls, a_control_coverage := control, a_auth_method := auth,
              a_tags := set_json (au_tags b) (a_tags a)\<rparr>)))))"

definition update_cve :: "cve \<Rightarrow> risk_cve" where
  "update_cve c = no_cve_keys\<lparr>rc_cvss_v3 := opt_key (cv_cvss_v3 c), rc_epss_score := opt_key (cv_epss_score c), rc_kev := Has (cv_kev c)\<rparr>"

definition updated_risk :: "db \<Rightarrow> asset \<Rightarrow> risk_result" where
  "updated_risk d a = compute_risk (risk_input a (map (\<lambda>(l, c). update_cve c) (linked_cves (a_id a) d)))"

definition update_asset :: "'r env \<Rightarrow> int \<Rightarrow> http_request \<Rightarrow> principal \<Rightarrow> nat \<Rightarrow> asset_update \<Rightarrow> db \<Rightarrow> jdict result \<times> db" where
  "update_asset env now rq who i b d =
     (case rbind (the_asset i d) (apply_update b) of
        Inl e \<Rightarrow> (Inl e, d)
      | Inr a \<Rightarrow> (Inr (update_changes b),
          audit (env_sha env) now rq ''asset_updated'' (Some who) (Some ''asset'') (Some (uuid_str i)) ''info'' (update_changes b)
            (update_asset_row now i (\<lambda>x. set_risk (updated_risk d a) a) d)))"

text \<open>The answer comes with the queued task's argument.\<close>

definition trigger_enrichment :: "'r env \<Rightarrow> int \<Rightarrow> http_request \<Rightarrow> principal \<Rightarrow> nat \<Rightarrow> db \<Rightarrow> string \<times> db" where
  "trigger_enrichment env now rq who i d = (uuid_str i,
     audit (env_sha env) now rq ''enrich_triggered'' (Some who) (Some ''asset'') (Some (uuid_str i)) ''info'' [] d)"

record asset_create =
  an_name :: string
  an_type :: string
  an_os :: "string option"
  an_ip :: "string option"
  an_mac :: "string option"
  an_segment :: "string option"
  an_edr_status :: "string option"
  an_control_coverage :: string
  an_network_exposure :: string
  an_auth_method :: string
  an_criticality :: string
  an_data_classification :: string
  an_last_patch :: "string option"
  an_eol_status :: bool
  an_software_stack :: "string list"
  an_cpe :: "string list"
  an_dependencies :: "string list"
  an_tags :: "string list"

definition asset_create_ok :: "asset_create \<Rightarrow> bool" where
  "asset_create_ok b =
     (1 \<le> length (an_name b) \<and> fits 255 (an_name b) \<and> fits 64 (an_type b) \<and> opt_all (fits 255) (an_os b) \<and> opt_all (fits 64) (an_ip b)
      \<and> opt_all (fits 64) (an_mac b) \<and> opt_all (fits 64) (an_segment b) \<and> opt_all (fits 128) (an_edr_status b))"

definition create_risk :: "asset_create \<Rightarrow> risk_result" where
  "create_risk b = compute_risk \<lparr> ra_cves = Absent, ra_control_coverage = Has (an_control_coverage b),
     ra_network_exposure = Has (an_network_exposure b), ra_auth_method = Has (an_auth_method b),
     ra_criticality = Has (an_criticality b), ra_data_classification = Has (an_data_classification b),
     ra_eol_status = Has (an_eol_status b) \<rparr>"

definition created_asset :: "int \<Rightarrow> nat \<Rightarrow> asset_create \<Rightarrow> asset" where
  "created_asset now i b = set_risk (create_risk b) ((new_asset i now)\<lparr>a_name := an_name b, a_type := an_type b, a_os := an_os b,
     a_ip := an_ip b, a_mac := an_mac b, a_segment := an_segment b, a_edr_status := an_edr_status b,
     a_control_coverage := an_control_coverage b, a_network_exposure := an_network_exposure b, a_auth_method := an_auth_method b,
     a_criticality := an_criticality b, a_data_classification := an_data_classification b, a_last_patch := an_last_patch b,
     a_eol_status := an_eol_status b, a_software_stack := an_software_stack b, a_cpe := an_cpe b,
     a_dependencies := an_dependencies b, a_tags := an_tags b, a_sources := [''manual''], a_attrs := [],
     a_is_shadow := False, a_is_stale := False\<rparr>)"

definition create_asset :: "'r env \<Rightarrow> pg_ok \<Rightarrow> int \<Rightarrow> http_request \<Rightarrow> principal \<Rightarrow> asset_create \<Rightarrow> db \<Rightarrow>
    (string \<times> rat \<times> string) result \<times> db" where
  "create_asset env pg now rq who b d =
     (let (i, d1) = fresh_id d; a = created_asset now i b
      in if \<not> asset_fits pg a then (Inl DataError, d)
         else (Inr (uuid_str i, rr_score (create_risk b), rr_tier (create_risk b)),
               audit (env_sha env) now rq ''asset_created'' (Some who) (Some ''asset'') (Some (uuid_str i)) ''info''
                 [(''source'', PStr ''manual'')] (d1\<lparr>assets := assets d1 @ [a]\<rparr>)))"

section \<open>Ingestion of free text\<close>

text \<open>Each record is stored and its enrichment queued before the next one; the second component is the queue.\<close>

fun ingest_each :: "pg_ok \<Rightarrow> int \<Rightarrow> parsed_asset list \<Rightarrow> string list \<Rightarrow> rstate \<Rightarrow> rstate result \<times> string list" where
  "ingest_each pg now [] queued st = (Inr st, queued)"
| "ingest_each pg now (p # ps) queued st =
     (case rbind (create_from_source now ''manual'' (report_of p) st) (\<lambda>(a, st'). if asset_fits pg a then Inr (a, st') else Inl DataError) of
        Inl e \<Rightarrow> (Inl e, queued)
      | Inr (a, st') \<Rightarrow> ingest_each pg now ps (queued @ [uuid_str (a_id a)]) st')"

text \<open>The identifiers of the answer are those queued; a failure leaves them queued and stores nothing.\<close>

definition ai_ingest :: "'r env \<Rightarrow> parser_env \<Rightarrow> pg_ok \<Rightarrow> int \<Rightarrow> string \<Rightarrow> http_request \<Rightarrow> principal \<Rightarrow> string \<Rightarrow> db \<Rightarrow>
    nat result \<times> string list \<times> db" where
  "ai_ingest env pe pg now PROMPT rq who raw d =
     (case parse_assets_from_text pe PROMPT raw of
        Inl m \<Rightarrow> (Inl (HTTPException 503 m), [], d)
      | Inr parsed \<Rightarrow>
          (case ingest_each pg now parsed [] \<lparr> r_db = d, r_generated = [] \<rparr> of
             (Inl e, queued) \<Rightarrow> (Inl e, queued, d)
           | (Inr st, queued) \<Rightarrow> (Inr (length parsed), queued,
               audit (env_sha env) now rq ''ai_ingest'' (Some who) None None ''info'' [(''count'', PInt (int (length parsed)))] (r_db st))))"

section \<open>Two ways to the same risk\<close>

text \<open>The risk engine sees a CVE through four values only.\<close>

definition cve_view :: "risk_cve \<Rightarrow> rat \<times> rat \<times> bool \<times> bool" where
  "cve_view c = (num_or (rc_cvss_v3 c) (rc_cvss c), num_or (rc_epss_score c) (rc_epss c), key_true (rc_kev c), key_true (rc_kev_ransomware c))"

lemma cve_factor_view: "map cve_view cs = map cve_view cs' \<Longrightarrow> cve_factor cs = cve_factor cs' \<and> has_kev cs = has_kev cs'"
proof -
  assume v: "map cve_view cs = map cve_view cs'"
  have "map (\<lambda>c. num_or (rc_cvss_v3 c) (rc_cvss c)) cs = map (\<lambda>c. num_or (rc_cvss_v3 c) (rc_cvss c)) cs'"
    "map (\<lambda>c. num_or (rc_epss_score c) (rc_epss c)) cs = map (\<lambda>c. num_or (rc_epss_score c) (rc_epss c)) cs'"
    "map (\<lambda>c. key_true (rc_kev c)) cs = map (\<lambda>c. key_true (rc_kev c)) cs'"
    "map (\<lambda>c. key_true (rc_kev c) \<and> key_true (rc_kev_ransomware c)) cs = map (\<lambda>c. key_true (rc_kev c) \<and> key_true (rc_kev_ransomware c)) cs'"
    using arg_cong [OF v, of "map fst"] arg_cong [OF v, of "map (\<lambda>x. fst (snd x))"]
      arg_cong [OF v, of "map (\<lambda>x. fst (snd (snd x)))"] arg_cong [OF v, of "map (\<lambda>x. fst (snd (snd x)) \<and> snd (snd (snd x)))"]
    by (simp_all add: cve_view_def comp_def)
  moreover have "list_ex p xs = list_ex id (map p xs)" for p and xs :: "risk_cve list" by (simp add: list_ex_iff)
  moreover have "(cs = []) = (cs' = [])" using v by auto
  ultimately show ?thesis by (simp add: cve_factor_def has_kev_def has_ransomware_kev_def)
qed

lemma compute_risk_view:
  "map cve_view cs = map cve_view cs' \<Longrightarrow> compute_risk (risk_input a cs) = compute_risk (risk_input a cs')"
  using cve_factor_view [of cs cs']
  by (simp add: compute_risk_def risk_factors_def RiskEngine.asset_cves_def risk_input_def Let_def)

lemma update_cve_view: "cve_view (update_cve c) = cve_view (rescore_cve c)"
  by (simp add: cve_view_def update_cve_def rescore_cve_def no_cve_keys_def num_or_def opt_key_def split: option.splits)

lemma the_asset_Inr: "(the_asset i d = Inr a) = (filter (\<lambda>a. a_id a = i) (assets d) = [a])"
  by (cases "filter (\<lambda>a. a_id a = i) (assets d)" rule: scalar_one_or_none_cases) (auto simp: the_asset_def)

lemma apply_update_id: "apply_update b a = Inr a' \<Longrightarrow> a_id a' = a_id a"
  by (auto simp: apply_update_def rbind_eq_Inr)

lemma update_asset_Inr:
  assumes "update_asset env now rq who i b d = (Inr ch, d')"
  obtains a a' where "filter (\<lambda>a. a_id a = i) (assets d) = [a]" "apply_update b a = Inr a'" "a_id a' = i"
    "ch = update_changes b"
    "assets d' = update_where (\<lambda>x. a_id x = i) (\<lambda>x. asset_flush now x (set_risk (updated_risk d a') a')) (assets d)"
    "cves d' = cves d" "db.asset_cves d' = db.asset_cves d"
proof -
  from assms obtain a a' where a: "the_asset i d = Inr a" "apply_update b a = Inr a'"
    by (auto simp: update_asset_def rbind_eq_Inr split: sum.splits)
  then have f: "filter (\<lambda>a. a_id a = i) (assets d) = [a]" by (simp add: the_asset_Inr)
  then have "a_id a = i" by (metis (mono_tags, lifting) filter_eq_ConsD)
  with a(2) have "a_id a' = i" using apply_update_id by simp
  with f a assms show ?thesis by (intro that [of a a']) (auto simp: update_asset_def update_asset_row_def)
qed

lemma update_asset_row_of:
  assumes "update_asset env now rq who i b d = (Inr ch, d')" "a \<in> set (assets d')" "a_id a = i"
  shows "set_risk (updated_risk d' a) a = a"
  using assms(1)
proof (rule update_asset_Inr)
  fix x a' assume r: "filter (\<lambda>a. a_id a = i) (assets d) = [x]" "apply_update b x = Inr a'" "a_id a' = i"
    "assets d' = update_where (\<lambda>x. a_id x = i) (\<lambda>x. asset_flush now x (set_risk (updated_risk d a') a')) (assets d)"
    "cves d' = cves d" "db.asset_cves d' = db.asset_cves d"
  with assms(2,3) obtain y where a: "a = asset_flush now y (set_risk (updated_risk d a') a')" by (auto simp: set_update_where)
  have "linked_cves j d' = linked_cves j d" for j using r by (simp add: linked_cves_def)
  with a have "updated_risk d' a = updated_risk d a'" by (simp add: updated_risk_def)
  with a show ?thesis by (simp add: set_risk_flush)
qed

text \<open>
  The endpoint that changes an asset and the periodic rescoring agree: when no link of the
  asset to a CVE is suppressed or remediated, rescoring the inventory right after a change
  leaves the asset's row exactly as the change stored it, its time of last sight included.
\<close>

theorem update_rescore_agree:
  assumes "update_asset env now rq who i b d = (Inr ch, d')"
    and "\<forall>l\<in>set (db.asset_cves d). ac_asset_id l = i \<longrightarrow> active_link l"
  shows "filter (\<lambda>a. a_id a = i) (assets (snd (rescore_assets later d'))) = filter (\<lambda>a. a_id a = i) (assets d')"
proof -
  have same: "asset_flush later a (set_risk (rescored d' a) a) = a" if a: "a \<in> set (assets d')" "a_id a = i" for a
  proof -
    have "db.asset_cves d' = db.asset_cves d" using assms(1) by (rule update_asset_Inr)
    then have "filter (\<lambda>(l, c). active_link l) (linked_cves (a_id a) d') = linked_cves (a_id a) d'"
      using assms(2) a(2) by (auto simp: linked_cves_def intro!: filter_True)
    moreover have "map cve_view (map (\<lambda>(l, c). rescore_cve c) xs) = map cve_view (map (\<lambda>(l, c). update_cve c) xs)" for xs :: "(asset_cve \<times> cve) list"
      by (simp add: update_cve_view split: prod.splits)
    ultimately have "rescored d' a = updated_risk d' a"
      using compute_risk_view by (simp add: rescored_def updated_risk_def)
    with update_asset_row_of [OF assms(1) a] show ?thesis by simp
  qed
  have "filter (\<lambda>a. a_id a = i) (map f xs) = filter (\<lambda>a. a_id a = i) xs"
    if "\<forall>a\<in>set xs. a_id (f a) = a_id a \<and> (a_id a = i \<longrightarrow> f a = a)" for f and xs :: "asset list"
    using that by (induction xs) auto
  from this [of "assets d'" "\<lambda>a. asset_flush later a (set_risk (rescored d' a) a)"] show ?thesis
    using same by (simp add: rescore_assets_def)
qed

lemma kev_factor:
  "jget (a_risk_breakdown (set_risk (compute_risk (risk_input b cs)) a)) ''kev'' = PInt (if has_kev cs then 5 else 1)"
  by (simp add: set_risk_def breakdown_dict_def jget_def compute_risk_def Let_def risk_factors_def RiskEngine.asset_cves_def
      risk_input_def split: prod.splits)

lemma has_kev_map:
  "(\<And>c. rc_kev (f c) = Has (cv_kev c)) \<Longrightarrow> has_kev (map (\<lambda>(l, c). f c) xs) = (\<exists>(l, c)\<in>set xs. cv_kev c)"
  by (induction xs) (auto simp: has_kev_def key_true_def)

text \<open>
  A change of an asset ignores suppression. When every exploited CVE of an asset is
  suppressed or remediated, any change, even an empty one, stores the highest KEV factor, and
  the next rescoring stores the lowest.
\<close>

theorem suppressed_kev_flips:
  assumes "update_asset env now rq who i b d = (Inr ch, d')" "(l, c) \<in> set (linked_cves i d)" "cv_kev c"
    and "\<forall>(l, c)\<in>set (linked_cves i d). cv_kev c \<longrightarrow> \<not> active_link l"
  shows "(\<forall>a\<in>set (assets d'). a_id a = i \<longrightarrow> jget (a_risk_breakdown a) ''kev'' = PInt 5)
    \<and> (\<forall>a\<in>set (assets (snd (rescore_assets later d'))). a_id a = i \<longrightarrow> jget (a_risk_breakdown a) ''kev'' = PInt 1)"
proof (intro conjI ballI impI)
  have l: "linked_cves i d' = linked_cves i d"
    using assms(1) by (rule update_asset_Inr) (simp add: linked_cves_def)
  show "jget (a_risk_breakdown a) ''kev'' = PInt 5" if "a \<in> set (assets d')" "a_id a = i" for a
  proof -
    have "\<exists>(l, c)\<in>set (linked_cves i d'). cv_kev c" using assms(2,3) l by (intro bexI [of _ "(l, c)"]) simp_all
    then have "has_kev (map (\<lambda>(l, c). update_cve c) (linked_cves i d'))"
      by (simp add: has_kev_map update_cve_def)
    with kev_factor [of a "map (\<lambda>(l, c). update_cve c) (linked_cves i d')" a] update_asset_row_of [OF assms(1) that] that(2)
    show ?thesis by (simp add: updated_risk_def)
  qed
  have no: "\<not> has_kev (map (\<lambda>(l, c). rescore_cve c) (filter (\<lambda>(l, c). active_link l) (linked_cves i d')))"
  proof
    assume "has_kev (map (\<lambda>(l, c). rescore_cve c) (filter (\<lambda>(l, c). active_link l) (linked_cves i d')))"
    then have "\<exists>(l, c)\<in>set (filter (\<lambda>(l, c). active_link l) (linked_cves i d')). cv_kev c"
      by (subst (asm) has_kev_map) (simp_all add: rescore_cve_def)
    then obtain m e where "(m, e) \<in> set (linked_cves i d)" "active_link m" "cv_kev e" using l by auto
    with assms(4) show False by (metis (mono_tags, lifting) case_prodD)
  qed
  show "jget (a_risk_breakdown a) ''kev'' = PInt 1" if "a \<in> set (assets (snd (rescore_assets later d')))" "a_id a = i" for a
  proof -
    from that(1) have "a \<in> (\<lambda>x. asset_flush later x (set_risk (rescored d' x) x)) ` set (assets d')"
      by (simp add: rescore_assets_def)
    then obtain x where x: "a = asset_flush later x (set_risk (rescored d' x) x)" by (rule imageE)
    with that(2) have "a_id x = i" by simp
    with x no show ?thesis by (simp add: rescored_def kev_factor)
  qed
qed

section \<open>Ingestion\<close>

lemma raise_alert_keeps:
  "raise_alert now ty sev ti de aid dt st = Inr st' \<Longrightarrow> set (alerts (r_db st)) \<subseteq> set (alerts (r_db st'))"
  by (auto simp: raise_alert_def rbind_eq_Inr fresh_id_def Let_def split: if_splits)

lemma create_from_source_alerts:
  "create_from_source now s h st = Inr (b, st') \<Longrightarrow> set (alerts (r_db st)) \<subseteq> set (alerts (r_db st'))"
  by (auto simp: create_from_source_def rbind_eq_Inr fresh_id_def Let_def shadow_alert_def dest!: raise_alert_keeps split: if_splits)

definition shadowed :: "alert list \<Rightarrow> asset \<Rightarrow> bool" where
  "shadowed als a = (a_sources a = [''manual''] \<and> a_is_shadow a
     \<and> (\<exists>al\<in>set als. al_alert_type al = ''shadow_it'' \<and> al_asset_id al = Some (a_id a) \<and> al_status al = ''open''))"

lemma manual_is_shadow: "is_shadow [''manual'']"
  by (simp add: is_shadow_def authoritative_def)

lemma ingest_each_rows:
  assumes "ingest_each pg now ps q st = (Inr st', q')"
  shows "\<exists>new. assets (r_db st') = assets (r_db st) @ new \<and> length new = length ps
    \<and> q' = q @ map (\<lambda>a. uuid_str (a_id a)) new \<and> (\<forall>a\<in>set new. shadowed (alerts (r_db st')) a)
    \<and> set (alerts (r_db st)) \<subseteq> set (alerts (r_db st'))"
  using assms
proof (induction ps arbitrary: q st)
  case (Cons p ps)
  then obtain a st1 where a: "create_from_source now ''manual'' (report_of p) st = Inr (a, st1)" "asset_fits pg a"
    "ingest_each pg now ps (q @ [uuid_str (a_id a)]) st1 = (Inr st', q')"
    by (auto simp: rbind_eq_Inr split: sum.splits prod.splits if_splits)
  from Cons.IH [OF a(3)] obtain new where new: "assets (r_db st') = assets (r_db st1) @ new" "length new = length ps"
    "q' = (q @ [uuid_str (a_id a)]) @ map (\<lambda>a. uuid_str (a_id a)) new" "\<forall>a\<in>set new. shadowed (alerts (r_db st')) a"
    "set (alerts (r_db st1)) \<subseteq> set (alerts (r_db st'))" by blast
  note r = create_from_source_rows [OF a(1)]
  have "shadowed (alerts (r_db st')) a"
    using r manual_is_shadow new(5) by (auto simp: shadowed_def list_ex_iff)
  with r new create_from_source_alerts [OF a(1)] show ?case
    by (intro exI [of _ "a # new"]) auto
qed simp

text \<open>
  Ingested assets are reported as shadow IT. Every asset that an operator ingests as free
  text is stored as a shadow asset with an open alert that no authoritative source knows it,
  while an asset created through the form never is; and a failing ingestion stores nothing.
\<close>

theorem ingested_assets_are_shadow:
  assumes "ai_ingest env pe pg now PROMPT rq who raw d = (r, queued, d')"
  shows "case r of Inl e \<Rightarrow> d' = d
    | Inr n \<Rightarrow> \<exists>new. assets d' = assets d @ new \<and> length new = n \<and> queued = map (\<lambda>a. uuid_str (a_id a)) new
        \<and> list_all (shadowed (alerts d')) new"
proof (cases r)
  case (Inl e)
  with assms show ?thesis by (auto simp: ai_ingest_def split: sum.splits prod.splits)
next
  case (Inr n)
  with assms obtain ps st where s: "ingest_each pg now ps [] \<lparr> r_db = d, r_generated = [] \<rparr> = (Inr st, queued)" "n = length ps"
    "assets d' = assets (r_db st)" "alerts d' = alerts (r_db st)"
    by (auto simp: ai_ingest_def split: sum.splits prod.splits)
  from ingest_each_rows [OF s(1)] show ?thesis using Inr s(2-4) by (auto simp: list_all_iff)
qed

section \<open>Witnesses\<close>

definition sample_risk_db :: "bool \<Rightarrow> db" where
  "sample_risk_db suppressed = empty_db\<lparr>assets := [new_asset 1 0], cves := [(new_cve 0)\<lparr>cv_id := ''CVE-2024-1'', cv_kev := True\<rparr>],
     asset_cves := [(new_asset_cve 0)\<lparr>ac_asset_id := 1, ac_cve_id := ''CVE-2024-1'', ac_suppressed := suppressed\<rparr>]\<rparr>"

definition sample_update :: asset_update where
  "sample_update = \<lparr> au_criticality = Has ''tier-1'', au_data_classification = Absent, au_control_coverage = Absent,
     au_auth_method = Absent, au_tags = Absent \<rparr>"

definition sample_updater :: principal where "sample_updater = ServiceToken ''ci'' 9"

lemma sample_update_answer:
  "\<exists>d'. update_asset sample_env 7 sample_request sample_updater 1 sample_update (sample_risk_db s) = (Inr [(''criticality'', PStr ''tier-1'')], d')"
  by (simp add: update_asset_def the_asset_def sample_risk_db_def new_asset_def apply_update_def fit_col_def sample_update_def
      update_changes_def change_of_def)

lemma sample_risk_links:
  "linked_cves 1 (sample_risk_db s) = [((new_asset_cve 0)\<lparr>ac_asset_id := 1, ac_cve_id := ''CVE-2024-1'', ac_suppressed := s\<rparr>,
      (new_cve 0)\<lparr>cv_id := ''CVE-2024-1'', cv_kev := True\<rparr>)]"
  by (simp add: linked_cves_def sample_risk_db_def)

theorem update_rescore_agree_witness:
  "\<exists>ch d'. update_asset sample_env 7 sample_request sample_updater 1 sample_update (sample_risk_db False) = (Inr ch, d')
     \<and> filter (\<lambda>a. a_id a = 1) (assets (snd (rescore_assets 9 d'))) = filter (\<lambda>a. a_id a = 1) (assets d')"
proof -
  obtain ch d' where u: "update_asset sample_env 7 sample_request sample_updater 1 sample_update (sample_risk_db False) = (Inr ch, d')"
    using sample_update_answer by blast
  have "\<forall>l\<in>set (db.asset_cves (sample_risk_db False)). ac_asset_id l = 1 \<longrightarrow> active_link l"
    by (simp add: sample_risk_db_def active_link_def new_asset_cve_def)
  from u update_rescore_agree [OF u this] show ?thesis by blast
qed

theorem suppressed_kev_flips_witness:
  "\<exists>ch d'. update_asset sample_env 7 sample_request sample_updater 1 sample_update (sample_risk_db True) = (Inr ch, d')
     \<and> (\<forall>a\<in>set (assets d'). a_id a = 1 \<longrightarrow> jget (a_risk_breakdown a) ''kev'' = PInt 5)
     \<and> (\<forall>a\<in>set (assets (snd (rescore_assets 9 d'))). a_id a = 1 \<longrightarrow> jget (a_risk_breakdown a) ''kev'' = PInt 1)"
proof -
  obtain ch d' where u: "update_asset sample_env 7 sample_request sample_updater 1 sample_update (sample_risk_db True) = (Inr ch, d')"
    using sample_update_answer by blast
  let ?l = "(new_asset_cve 0)\<lparr>ac_asset_id := 1, ac_cve_id := ''CVE-2024-1'', ac_suppressed := True\<rparr>"
  let ?c = "(new_cve 0)\<lparr>cv_id := ''CVE-2024-1'', cv_kev := True\<rparr>"
  have l: "(?l, ?c) \<in> set (linked_cves 1 (sample_risk_db True))" "cv_kev ?c"
    "\<forall>(l, c)\<in>set (linked_cves 1 (sample_risk_db True)). cv_kev c \<longrightarrow> \<not> active_link l"
    unfolding sample_risk_links by (simp_all add: active_link_def)
  from u suppressed_kev_flips [OF u l] show ?thesis by blast
qed

definition sample_parser :: parser_env where
  "sample_parser = \<lparr> pe_ai = default_ai_settings\<lparr>AI_PROVIDER := ''ollama''\<rparr>,
     pe_net = answering ''web1'', pe_timed_out = (\<lambda>p. False), pe_schema = PNone,
     pe_json = (\<lambda>t. Some (PDict [(''assets'', PList [PDict [(''name'', PStr ''web1''), (''criticality'', PStr ''urgent'')], PInt 3])])),
     pe_bool = (\<lambda>v. None), pe_str_exn = (\<lambda>e. []) \<rparr>"

lemma sample_ask: "ask sample_parser prompt = Inr ''web1''"
proof -
  have "strip ''web1'' \<noteq> []" by code_simp
  then show ?thesis by (simp add: ask_def sample_parser_def complete_json_answering provider_ollama)
qed

definition sample_parsed_asset :: parsed_asset where
  "sample_parsed_asset = \<lparr> pa_name = ''web1'', pa_type = ''Unknown'', pa_os = None, pa_ip = None, pa_mac = None,
     pa_segment = Some ''Unknown'', pa_edr_status = Some ''None'', pa_control_coverage = ''none'', pa_network_exposure = ''internal'',
     pa_auth_method = ''password'', pa_criticality = ''medium'', pa_data_classification = ''Internal'', pa_dependencies = [],
     pa_software_stack = [], pa_cpe = [], pa_last_patch = None, pa_eol_status = False \<rparr>"

lemma sample_parsed: "parse_assets_from_text sample_parser ''parse: '' ''web1'' = Inr [sample_parsed_asset]"
  by (simp add: parse_assets_from_text_def sample_ask read_answer_def)
     (simp add: sample_parser_def jget_def valid_records_def List.map_filter_def parse_asset_def name_field_def text_field_def
       opt_field_def list_field_def one_of_def v_cpe_def ALLOWED_CONTROL_def ALLOWED_EXPOSURE_def ALLOWED_AUTH_def
       ALLOWED_CRITICALITY_def ALLOWED_CLASSIFICATION_def sample_parsed_asset_def)

definition no_addresses :: pg_ok where "no_addresses = \<lparr> pg_inet = (\<lambda>s. False), pg_mac = (\<lambda>s. False) \<rparr>"

lemma sample_ingested:
  "\<exists>st q. ingest_each no_addresses 5 [sample_parsed_asset] [] \<lparr> r_db = empty_db, r_generated = [] \<rparr> = (Inr st, q)"
  by (simp add: create_from_source_def fresh_id_def build_asset_def report_of_def sample_parsed_asset_def get_or_def list_or_def
      opt_key_def manual_is_shadow shadow_alert_def raise_alert_def recent_alerts_def empty_db_def Let_def asset_fits_def opt_all_def new_asset_def)

theorem ingested_assets_are_shadow_witness:
  "\<exists>q d'. ai_ingest sample_env sample_parser no_addresses 5 ''parse: '' sample_request sample_updater ''web1'' empty_db = (Inr 1, q, d')
     \<and> (\<exists>new. assets d' = new \<and> length new = 1 \<and> list_all (shadowed (alerts d')) new)"
proof -
  obtain q d' where r: "ai_ingest sample_env sample_parser no_addresses 5 ''parse: '' sample_request sample_updater ''web1'' empty_db = (Inr 1, q, d')"
    using sample_ingested by (auto simp: ai_ingest_def sample_parsed)
  from r ingested_assets_are_shadow [OF r] show ?thesis by (auto simp: empty_db_def)
qed

text \<open>
  C38: Whatever the model answers, the records taken from it are well typed: a name and a type
  that fit their columns, the rated fields within their enumerations, and platform names only.
\<close>

theorem ai_records_well_typed:
  assumes "parse_assets_from_text env prompt_text raw = Inr ps" "p \<in> set ps"
  shows "1 \<le> length (pa_name p) \<and> length (pa_name p) \<le> 255 \<and> length (pa_type p) \<le> 64
    \<and> pa_control_coverage p \<in> {''full'', ''partial'', ''none''} \<and> pa_criticality p \<in> {''low'', ''medium'', ''high'', ''critical'', ''tier-1''}
    \<and> pa_network_exposure p \<in> set ALLOWED_EXPOSURE \<and> pa_auth_method p \<in> set ALLOWED_AUTH
    \<and> pa_data_classification p \<in> set ALLOWED_CLASSIFICATION \<and> (\<forall>c\<in>set (pa_cpe p). starts_with ''cpe:2.3:'' c \<and> length c < 512)"
  using parsed_records_ok [OF assms(1)] assms(2) by (simp add: parsed_ok_def ALLOWED_CONTROL_def ALLOWED_CRITICALITY_def)

theorem ai_records_well_typed_witness:
  "parse_assets_from_text sample_parser ''parse: '' ''web1'' = Inr [sample_parsed_asset]
   \<and> pa_criticality sample_parsed_asset \<in> {''low'', ''medium'', ''high'', ''critical'', ''tier-1''}"
  using ai_records_well_typed [OF sample_parsed, of sample_parsed_asset] sample_parsed by simp

end
