(* ===== verification/Admin.thy ===== *)
theory Admin
  imports AuthApi Assets
begin

text \<open>
  Administration: users, the audit log and the system status (\<open>app/api/admin.py\<close>), and the
  service tokens (\<open>app/api/api_tokens.py\<close>). A body runs for the user that \<open>require_admin\<close>
  returned. A unique or too long value is refused when the session is flushed, which the
  audit entry does. Parameters: the rendering of a sorted list and the drawn token.
\<close>

section \<open>Users\<close>

record user_create =
  uc_username :: string
  uc_email :: string
  uc_password :: string
  uc_role :: string

definition user_fits :: "user \<Rightarrow> bool" where
  "user_fits u = (fits 64 (u_username u) \<and> fits 255 (u_email u) \<and> fits 512 (u_password_hash u) \<and> fits 32 (u_role u))"

definition user_taken :: "user \<Rightarrow> db \<Rightarrow> bool" where
  "user_taken u d = list_ex (\<lambda>v. u_id v \<noteq> u_id u \<and> (u_username v = u_username u \<or> u_email v = u_email u)) (users d)"

definition time_py :: "int option \<Rightarrow> pyval" where
  "time_py t = (case t of None \<Rightarrow> PNone | Some n \<Rightarrow> PInt n)"

definition user_row :: "user \<Rightarrow> jdict" where
  "user_row u = [(''id'', PStr (uuid_str (u_id u))), (''username'', PStr (u_username u)), (''email'', PStr (u_email u)),
     (''role'', PStr (u_role u)), (''mfa_enabled'', PBool (u_mfa_enabled u)), (''is_active'', PBool (u_is_active u)),
     (''last_login'', time_py (u_last_login u)), (''locked_until'', time_py (u_locked_until u))]"

definition list_users :: "db \<Rightarrow> jdict list" where "list_users d = map user_row (users d)"

definition create_user :: "'r env \<Rightarrow> int \<Rightarrow> http_request \<Rightarrow> user \<Rightarrow> user_create \<Rightarrow> db \<Rightarrow> string result \<times> db" where
  "create_user env now rq who b d =
     (case validate_password (env_cfg env) (uc_password b) (Some (uc_username b)) of
        Inl (PasswordPolicyError m) \<Rightarrow> (Inl (HTTPException 400 m), d)
      | Inl e \<Rightarrow> (Inl e, d)
      | Inr v \<Rightarrow>
          if uc_role b \<notin> {''admin'', ''analyst'', ''viewer''} then (Inl (HTTPException 400 ''Invalid role''), d)
          else
            let (i, d1) = fresh_id d;
                u = (new_user i now)\<lparr>u_username := uc_username b, u_email := uc_email b,
                      u_password_hash := env_hash env (uc_password b), u_role := uc_role b\<rparr>
            in if \<not> user_fits u then (Inl DataError, d)
               else if user_taken u d then (Inl IntegrityError, d)
               else (Inr (uuid_str i), audit (env_sha env) now rq ''user_created'' (Some (JwtUser who)) (Some ''user'') None ''info''
                      [(''username'', PStr (uc_username b)), (''role'', PStr (uc_role b))] (d1\<lparr>users := users d1 @ [u]\<rparr>)))"

definition deactivate :: "user \<Rightarrow> user" where "deactivate u = u\<lparr>u_is_active := False\<rparr>"

definition delete_user :: "'r env \<Rightarrow> int \<Rightarrow> http_request \<Rightarrow> user \<Rightarrow> nat \<Rightarrow> db \<Rightarrow> bool result \<times> db" where
  "delete_user env now rq who i d =
     (if u_id who = i then (Inl (HTTPException 400 ''Cannot delete self''), d)
      else case scalar_one_or_none (filter (\<lambda>u. u_id u = i) (users d)) of
        Inl e \<Rightarrow> (Inl e, d)
      | Inr None \<Rightarrow> (Inl (HTTPException 404 ''Not Found''), d)
      | Inr (Some u) \<Rightarrow> (Inr True,
          audit (env_sha env) now rq ''user_deactivated'' (Some (JwtUser who)) (Some ''user'') (Some (uuid_str i)) ''info'' []
            (update_user i deactivate d)))"

section \<open>The audit log and the status\<close>

definition audit_row :: "audit_log \<Rightarrow> jdict" where
  "audit_row a = [(''id'', PStr (uuid_str (lg_id a))), (''timestamp'', PInt (lg_timestamp a)), (''username'', opt_py (lg_username a)),
     (''action'', PStr (lg_action a)), (''resource_type'', opt_py (lg_resource_type a)), (''resource_id'', opt_py (lg_resource_id a)),
     (''ip_address'', truthy_or_none (lg_ip_address a)), (''severity'', PStr (lg_severity a)), (''details'', PDict (lg_details a))]"

text \<open>A negative limit is refused by the database.\<close>

definition audit_log_page :: "int \<Rightarrow> string option \<Rightarrow> string option \<Rightarrow> db \<Rightarrow> jdict list result" where
  "audit_log_page limit severity action d =
     (if limit < 0 then Inl DataError
      else Inr (map audit_row (take (nat limit) (sort_key (\<lambda>a. - lg_timestamp a)
        (filter (\<lambda>a. keeps severity (lg_severity a) \<and> keeps action (lg_action a)) (audit_log_rows d))))))"

definition system_status :: "settings \<Rightarrow> db \<Rightarrow> jdict" where
  "system_status cfg d =
     [(''environment'', PStr (ENVIRONMENT cfg)), (''version'', PStr ''0.9.0''),
      (''stats'', PDict [(''assets'', PInt (int (length (assets d)))),
         (''open_alerts'', PInt (int (length (filter (\<lambda>al. al_status al = ''open'') (alerts d))))),
         (''integrations_enabled'', PInt (int (length (filter ig_enabled (integrations d))))),
         (''scans_24h'', PInt (int (length (scans d)))),
         (''users_active'', PInt (int (length (filter u_is_active (users d)))))]),
      (''security'', PDict [(''session_timeout_min'', PInt (SESSION_TIMEOUT_MIN cfg)), (''max_login_attempts'', PInt (MAX_LOGIN_ATTEMPTS cfg)),
         (''lockout_duration_min'', PInt (LOCKOUT_DURATION_MIN cfg)), (''jwt_access_ttl_min'', PInt (JWT_ACCESS_TTL_MIN cfg)),
         (''password_min_len'', PInt (PASSWORD_MIN_LEN cfg))])]"

section \<open>Service tokens\<close>

record token_create =
  tc_name :: string
  tc_scopes :: "string list"
  tc_expires_in_days :: "int option"

definition token_create_ok :: "token_create \<Rightarrow> bool" where
  "token_create_ok b = (3 \<le> length (tc_name b) \<and> fits 128 (tc_name b)
     \<and> opt_all (\<lambda>n. 1 \<le> n \<and> n \<le> 3650) (tc_expires_in_days b))"

definition ALLOWED_SCOPES :: "string list" where
  "ALLOWED_SCOPES = [''assets:read'', ''assets:write'', ''alerts:read'', ''alerts:resolve'', ''scans:trigger'', ''scans:read'',
     ''compliance:read'', ''integrations:read'', ''self_security:read'', ''audit:read'', ''exports:read'', ''*'']"

definition token_expiry :: "int \<Rightarrow> int option \<Rightarrow> int option" where
  "token_expiry now n = (case n of None \<Rightarrow> None | Some k \<Rightarrow> if k = 0 then None else Some (now + days k))"

text \<open>The answer: the identifier and the plaintext. The audit entry is written before the row has its identifier.\<close>

definition create_token :: "'r env \<Rightarrow> (string list \<Rightarrow> string) \<Rightarrow> int \<Rightarrow> string \<Rightarrow> http_request \<Rightarrow> user \<Rightarrow> token_create \<Rightarrow> db \<Rightarrow>
    (nat \<times> string) result \<times> db" where
  "create_token env show_sorted now drawn rq who b d =
     (let invalid = filter (\<lambda>s. s \<notin> set ALLOWED_SCOPES) (tc_scopes b)
      in if invalid \<noteq> [] then (Inl (HTTPException 400 (''Invalid scopes: '' @ show_sorted (remdups invalid)
             @ ''. Allowed: '' @ show_sorted ALLOWED_SCOPES)), d)
         else
           let plaintext = ''kpx_'' @ drawn;
               (i, d1) = fresh_id d;
               t = (new_api_token i now)\<lparr>tk_name := tc_name b, tk_token_hash := env_hash env plaintext, tk_token_prefix := take 12 plaintext,
                     tk_scopes := tc_scopes b, tk_created_by := u_username who, tk_expires_at := token_expiry now (tc_expires_in_days b)\<rparr>
           in (Inr (i, plaintext), audit (env_sha env) now rq ''api_token_created'' (Some (JwtUser who)) (Some ''api_token'') (Some ''None'') ''info''
                 [(''name'', PStr (tc_name b)), (''scopes'', PList (map PStr (tc_scopes b)))] (d1\<lparr>api_tokens := api_tokens d1 @ [t]\<rparr>)))"

definition token_row :: "api_token \<Rightarrow> jdict" where
  "token_row t = [(''id'', PStr (uuid_str (tk_id t))), (''name'', PStr (tk_name t)), (''token_prefix'', PStr (tk_token_prefix t)),
     (''scopes'', PList (map PStr (tk_scopes t))), (''created_by'', PStr (tk_created_by t)), (''created_at'', PInt (tk_created_at t)),
     (''expires_at'', time_py (tk_expires_at t)), (''last_used'', time_py (tk_last_used t)), (''revoked'', PBool (tk_revoked t)),
     (''usage_count'', PInt (tk_usage_count t))]"

definition list_tokens :: "db \<Rightarrow> jdict list" where
  "list_tokens d = map token_row (sort_key (\<lambda>t. - tk_created_at t) (api_tokens d))"

definition revoke_api_token :: "'r env \<Rightarrow> int \<Rightarrow> http_request \<Rightarrow> user \<Rightarrow> nat \<Rightarrow> db \<Rightarrow> bool result \<times> db" where
  "revoke_api_token env now rq who i d =
     (case scalar_one_or_none (filter (\<lambda>t. tk_id t = i) (api_tokens d)) of
        Inl e \<Rightarrow> (Inl e, d)
      | Inr None \<Rightarrow> (Inl (HTTPException 404 ''Not Found''), d)
      | Inr (Some t) \<Rightarrow> (Inr True,
          audit (env_sha env) now rq ''api_token_revoked'' (Some (JwtUser who)) (Some ''api_token'') (Some (uuid_str i)) ''info'' []
            (d\<lparr>api_tokens := update_where (\<lambda>t. tk_id t = i) (\<lambda>t. t\<lparr>tk_revoked := True\<rparr>) (api_tokens d)\<rparr>)))"

section \<open>The life of a service token\<close>

text \<open>
  The answer to a duplicate user: the audit entry flushes the session before the commit whose
  refusal the handler turns into a conflict, so the refusal leaves the handler as it is.
\<close>

lemma create_user_conflict:
  assumes "validate_password (env_cfg env) (uc_password b) (Some (uc_username b)) = Inr v" "uc_role b \<in> {''admin'', ''analyst'', ''viewer''}"
    and "u \<in> set (users d)" "u_username u = uc_username b" "u_id u \<noteq> next_id d"
  shows "\<exists>e. create_user env now rq who b d = (Inl e, d) \<and> e \<in> {IntegrityError, DataError}"
  using assms by (auto simp: create_user_def fresh_id_def Let_def user_taken_def list_ex_iff new_user_def)

lemma create_token_Inr:
  assumes "create_token env show_sorted now drawn rq who b d = (Inr (i, plaintext), d')"
  obtains t where "plaintext = ''kpx_'' @ drawn" "i = next_id d" "set (tc_scopes b) \<subseteq> set ALLOWED_SCOPES" "api_tokens d' = api_tokens d @ [t]"
    "tk_id t = i" "tk_token_hash t = env_hash env plaintext" "tk_token_prefix t = take 12 plaintext" "tk_scopes t = tc_scopes b"
    "tk_expires_at t = token_expiry now (tc_expires_in_days b)" "\<not> tk_revoked t"
proof -
  let ?p = "''kpx_'' @ drawn"
  let ?t = "(new_api_token (next_id d) now)\<lparr>tk_name := tc_name b, tk_token_hash := env_hash env ?p, tk_token_prefix := take 12 ?p,
     tk_scopes := tc_scopes b, tk_created_by := u_username who, tk_expires_at := token_expiry now (tc_expires_in_days b)\<rparr>"
  from assms have "filter (\<lambda>s. s \<notin> set ALLOWED_SCOPES) (tc_scopes b) = []"
    by (auto simp: create_token_def Let_def fresh_id_def simp del: filter_False split: if_splits)
  then have s: "set (tc_scopes b) \<subseteq> set ALLOWED_SCOPES" by (auto simp: filter_empty_conv)
  with assms have "plaintext = ?p" "i = next_id d" "api_tokens d' = api_tokens d @ [?t]"
    by (auto simp: create_token_def Let_def fresh_id_def split: if_splits)
  with s show ?thesis by (intro that [of ?t]) (simp_all add: new_api_token_def)
qed

lemma try_candidates_none:
  "\<forall>t\<in>set cs. \<not> verify token (tk_token_hash t) \<Longrightarrow> try_candidates verify now token (cs @ ds) = try_candidates verify now token ds"
  by (induction cs) (auto split: option.splits)

lemma try_candidates_no_match:
  "\<forall>t\<in>set cs. \<not> verify token (tk_token_hash t) \<Longrightarrow> try_candidates verify now token cs = None"
  by (induction cs) (auto split: option.splits)

text \<open>
  C24: The life of a service token. The plaintext shown at creation authenticates, with exactly
  the scopes asked for, all of them allowed ones, until the token expires and never after; once
  the token is revoked, the plaintext authenticates nobody at any time.
\<close>

theorem token_life:
  assumes "create_token env show_sorted now drawn rq who b d = (Inr (i, plaintext), d1)"
    and "\<And>p. env_verify env p (env_hash env p)"
    and "\<forall>t\<in>set (api_tokens d). \<not> env_verify env plaintext (tk_token_hash t) \<and> tk_id t \<noteq> next_id d"
    and "revoke_api_token env later rq' who' i d1 = (Inr ok, d2)"
  shows "set (tc_scopes b) \<subseteq> set ALLOWED_SCOPES
    \<and> map_option tk_scopes (fst (verify_api_token (env_verify env) time plaintext d1))
        = (if case token_expiry now (tc_expires_in_days b) of None \<Rightarrow> True | Some e \<Rightarrow> time \<le> e then Some (tc_scopes b) else None)
    \<and> fst (verify_api_token (env_verify env) time plaintext d2) = None"
proof -
  from assms(1) obtain t where t: "plaintext = ''kpx_'' @ drawn" "i = next_id d" "set (tc_scopes b) \<subseteq> set ALLOWED_SCOPES"
    "api_tokens d1 = api_tokens d @ [t]" "tk_id t = i" "tk_token_hash t = env_hash env plaintext"
    "tk_token_prefix t = take 12 plaintext" "tk_scopes t = tc_scopes b"
    "tk_expires_at t = token_expiry now (tc_expires_in_days b)" "\<not> tk_revoked t"
    by (rule create_token_Inr)
  let ?live = "\<lambda>t. tk_token_prefix t = take 12 plaintext \<and> \<not> tk_revoked t"
  have old: "\<forall>t\<in>set (filter ?live (api_tokens d)). \<not> env_verify env plaintext (tk_token_hash t)" using assms(3) by simp
  have p: "plaintext \<noteq> []" "starts_with ''kpx_'' plaintext" using t(1) by (simp_all add: starts_with_def)
  have "try_candidates (env_verify env) time plaintext (filter ?live (api_tokens d1))
      = try_candidates (env_verify env) time plaintext [t]"
    using try_candidates_none [where verify = "env_verify env", OF old] t(4,7,10) by simp
  also have "\<dots> = (if case tk_expires_at t of None \<Rightarrow> True | Some e \<Rightarrow> time \<le> e then Some t else None)"
    using assms(2) t(6) by (simp split: option.splits)
  finally have valid: "map_option tk_scopes (fst (verify_api_token (env_verify env) time plaintext d1))
      = (if case token_expiry now (tc_expires_in_days b) of None \<Rightarrow> True | Some e \<Rightarrow> time \<le> e then Some (tc_scopes b) else None)"
    using p t(8,9) by (simp add: verify_api_token_def touch_token_def)
  have "api_tokens d2 = update_where (\<lambda>t. tk_id t = i) (\<lambda>t. t\<lparr>tk_revoked := True\<rparr>) (api_tokens d1)"
    using assms(4) by (cases "scalar_one_or_none (filter (\<lambda>t. tk_id t = i) (api_tokens d1))")
      (auto simp: revoke_api_token_def split: option.splits)
  moreover have "update_where (\<lambda>t. tk_id t = i) (\<lambda>t. t\<lparr>tk_revoked := True\<rparr>) (api_tokens d) = api_tokens d"
    using assms(3) t(2) by (simp add: update_where_none)
  ultimately have "filter ?live (api_tokens d2) = filter ?live (api_tokens d)"
    using t(4,5) by simp
  with try_candidates_no_match [where verify = "env_verify env", OF old] p have "fst (verify_api_token (env_verify env) time plaintext d2) = None"
    by (simp add: verify_api_token_def)
  with valid t(3) show ?thesis by blast
qed

text \<open>A creation with a lifetime of a day.\<close>

definition sample_admin :: user where
  "sample_admin = (new_user 1 0)\<lparr>u_username := ''root'', u_email := ''r@x'', u_role := ''admin''\<rparr>"

definition sample_token_create :: token_create where
  "sample_token_create = \<lparr> tc_name = ''backup'', tc_scopes = [''assets:read''], tc_expires_in_days = Some 1 \<rparr>"

definition plain_env :: "(string \<rightharpoonup> entry) env" where
  "plain_env = sample_env\<lparr>env_hash := (\<lambda>p. p), env_verify := (\<lambda>p h. p = h)\<rparr>"

theorem token_life_witness:
  "\<exists>d1 d2. create_token plain_env (\<lambda>xs. []) 0 ''secret-of-token'' sample_request sample_admin sample_token_create empty_db
       = (Inr (1, ''kpx_secret-of-token''), d1)
     \<and> revoke_api_token plain_env 9 sample_request sample_admin 1 d1 = (Inr True, d2)
     \<and> map_option tk_scopes (fst (verify_api_token (env_verify plain_env) 5 ''kpx_secret-of-token'' d1)) = Some [''assets:read'']
     \<and> fst (verify_api_token (env_verify plain_env) 5 ''kpx_secret-of-token'' d2) = None"
proof -
  obtain d1 where c: "create_token plain_env (\<lambda>xs. []) 0 ''secret-of-token'' sample_request sample_admin sample_token_create empty_db
       = (Inr (1, ''kpx_secret-of-token''), d1)" "map tk_id (api_tokens d1) = [1]"
    by (simp add: create_token_def sample_token_create_def ALLOWED_SCOPES_def fresh_id_def empty_db_def new_api_token_def Let_def)
  then obtain t where t: "api_tokens d1 = [t]" "tk_id t = 1" by auto
  obtain d2 where r: "revoke_api_token plain_env 9 sample_request sample_admin 1 d1 = (Inr True, d2)"
    using t by (simp add: revoke_api_token_def)
  have v: "\<And>p. env_verify plain_env p (env_hash plain_env p)" by (simp add: plain_env_def)
  have n: "\<forall>t\<in>set (api_tokens empty_db). \<not> env_verify plain_env ''kpx_secret-of-token'' (tk_token_hash t) \<and> tk_id t \<noteq> next_id empty_db"
    by (simp add: empty_db_def)
  from token_life [OF c(1) v n r, of 5] c(1) r show ?thesis
    by (simp add: sample_token_create_def token_expiry_def days_def day_def)
qed

end
