(* ===== verification/Gdpr.thy ===== *)
theory Gdpr
  imports Admin
begin

text \<open>
  The rights of data subjects (\<open>app/api/gdpr.py\<close>): export, erasure and the retention notice.
  A body runs for the user that \<open>get_current_user\<close> returned; that object and the row an
  erasure changes are the same when the identifiers are, so the audit entry of an erasure of
  one's own data already carries the new name. \<open>fmt\<close> renders a time.
\<close>

section \<open>Export\<close>

definition subject_py :: "(int \<Rightarrow> string) \<Rightarrow> user \<Rightarrow> jdict" where
  "subject_py fmt u = [(''id'', PStr (uuid_str (u_id u))), (''username'', PStr (u_username u)), (''email'', PStr (u_email u)),
     (''role'', PStr (u_role u)), (''mfa_enabled'', PBool (u_mfa_enabled u)), (''is_active'', PBool (u_is_active u)),
     (''created_at'', PStr (fmt (u_created_at u))), (''last_login'', opt_py (map_option fmt (u_last_login u))),
     (''password_changed_at'', PNone)]"

definition export_entry :: "(int \<Rightarrow> string) \<Rightarrow> audit_log \<Rightarrow> jdict" where
  "export_entry fmt a = [(''timestamp'', PStr (fmt (lg_timestamp a))), (''action'', PStr (lg_action a)),
     (''resource_type'', opt_py (lg_resource_type a)), (''resource_id'', opt_py (lg_resource_id a)),
     (''ip_address'', truthy_or_none (lg_ip_address a)), (''user_agent'', opt_py (lg_user_agent a)),
     (''severity'', PStr (lg_severity a)), (''details'', PDict (lg_details a))]"

definition subject_entries :: "nat \<Rightarrow> db \<Rightarrow> audit_log list" where
  "subject_entries i d = take 10000 (sort_key (\<lambda>a. - lg_timestamp a) (filter (\<lambda>a. lg_user_id a = Some i) (audit_log_rows d)))"

definition export_notes :: string where
  "export_notes = ''This export contains all personal data Kepryx holds about you. Some operational data (asset records, alerts) may reference your user_id internally but contain no other PII.''"

definition may_act :: "'r env \<Rightarrow> http_request \<Rightarrow> user \<Rightarrow> nat \<Rightarrow> string \<Rightarrow> unit result" where
  "may_act env rq who i refusal =
     (if u_role who \<noteq> ''admin'' \<and> u_id who \<noteq> i then Inl (HTTPException 403 refusal)
      else if u_role who = ''admin'' then ensure_management_network (env_cfg env) rq else Inr ())"

definition the_user :: "nat \<Rightarrow> db \<Rightarrow> user result" where
  "the_user i d = rbind (scalar_one_or_none (filter (\<lambda>u. u_id u = i) (users d)))
     (\<lambda>u. case u of None \<Rightarrow> Inl (HTTPException 404 ''Not Found'') | Some u \<Rightarrow> Inr u)"

definition export_user_data :: "'r env \<Rightarrow> (int \<Rightarrow> string) \<Rightarrow> int \<Rightarrow> http_request \<Rightarrow> user \<Rightarrow> nat \<Rightarrow> db \<Rightarrow> jdict result \<times> db" where
  "export_user_data env fmt now rq who i d =
     (case rbind (may_act env rq who i ''Can only export your own data'') (\<lambda>_. the_user i d) of
        Inl e \<Rightarrow> (Inl e, d)
      | Inr u \<Rightarrow>
          let es = subject_entries i d
          in (Inr [(''exported_at'', PStr (fmt now)), (''export_format_version'', PStr ''1.0''), (''user'', PDict (subject_py fmt u)),
                (''audit_log_entries'', PList (map (\<lambda>a. PDict (export_entry fmt a)) es)), (''notes'', PStr export_notes)],
              audit (env_sha env) now rq ''gdpr_data_export'' (Some (JwtUser who)) (Some ''user'') (Some (uuid_str i)) ''info''
                [(''requested_by'', PStr (u_username who)), (''subject_user'', PStr (u_username u)), (''audit_records'', PInt (int (length es)))] d))"

section \<open>Erasure\<close>

definition erased_name :: "'r env \<Rightarrow> nat \<Rightarrow> string" where
  "erased_name env i = hash_value (env_sha env) (uuid_str i) ''anonymize''"

definition erased_user :: "'r env \<Rightarrow> string \<Rightarrow> user \<Rightarrow> user" where
  "erased_user env h u = u\<lparr>u_username := ''deleted_user_'' @ h, u_email := ''deleted-'' @ h @ ''@invalid.kepryx'',
     u_password_hash := env_hash env (''erased:'' @ h), u_mfa_secret := None, u_mfa_enabled := False, u_is_active := False,
     u_failed_attempts := 0, u_locked_until := None\<rparr>"

definition erased_entry :: "string \<Rightarrow> audit_log \<Rightarrow> audit_log" where
  "erased_entry h a = a\<lparr>lg_username := Some (''deleted_user_'' @ h), lg_ip_address := Some ''redacted'', lg_user_agent := Some ''redacted''\<rparr>"

definition active_admin :: "user \<Rightarrow> bool" where "active_admin u = (u_role u = ''admin'' \<and> u_is_active u)"

definition erasable :: "string \<Rightarrow> user \<Rightarrow> db \<Rightarrow> unit result" where
  "erasable confirmation u d =
     (if starts_with ''deleted_user_'' (u_username u) then Inl (HTTPException 409 ''User data already erased'')
      else if active_admin u \<and> length (filter active_admin (users d)) \<le> 1
      then Inl (HTTPException 409 ''Cannot erase the last active administrator'') else Inr ())"

definition erase_user_data :: "'r env \<Rightarrow> int \<Rightarrow> http_request \<Rightarrow> user \<Rightarrow> nat \<Rightarrow> string \<Rightarrow> 'r \<Rightarrow> db \<Rightarrow> string result \<times> 'r \<times> db" where
  "erase_user_data env now rq who i confirmation r d =
     (case rbind (may_act env rq who i ''Can only erase your own data'') (\<lambda>_.
           if confirmation \<noteq> ''ERASE MY DATA'' then Inl (HTTPException 400 ''Set confirmation to \"ERASE MY DATA\"'')
           else rbind (the_user i d) (\<lambda>u. rbind (erasable confirmation u d) (\<lambda>_. Inr u))) of
        Inl e \<Rightarrow> (Inl e, r, d)
      | Inr u \<Rightarrow>
          let h = erased_name env (u_id u);
              u' = erased_user env h u;
              work = d\<lparr>users := update_where (\<lambda>x. u_id x = i) (erased_user env h) (users d),
                       audit_log_rows := update_where (\<lambda>a. lg_user_id a = Some i) (erased_entry h) (audit_log_rows d)\<rparr>
          in if \<not> user_fits u' then (Inl DataError, r, d)
             else if user_taken u' d then (Inl IntegrityError, r, d)
             else case revoke_user_tokens (env_redis env) (env_cfg env) (clock_of now) (uuid_str i) r of
               Inl TokenBlocklistUnavailable \<Rightarrow>
                 (Inl (HTTPException 503 ''Could not revoke active sessions; erasure was rolled back''), r, d)
             | Inl e \<Rightarrow> (Inl e, r, d)
             | Inr r' \<Rightarrow>
                 (Inr (u_username u'), r', audit (env_sha env) now rq ''gdpr_data_erasure''
                    (Some (JwtUser (if u_id who = i then u' else who))) (Some ''user'') (Some (uuid_str i)) ''warning''
                    [(''requested_by'', PStr (u_username who)), (''anonymized_to'', PStr (u_username u'))] work))"

definition retention_notice :: jdict where
  "retention_notice =
     [(''user_data'', PDict [(''retained_while'', PStr ''Account is active''),
         (''after_deletion'', PStr ''Anonymized within 24h; audit trail kept for 7 years'')]),
      (''audit_logs'', PDict [(''retention_period_days'', PInt 2555),
         (''anonymization'', PStr ''PII (IP, User-Agent, username) replaced with hashes on deletion'')]),
      (''asset_data'', PDict [(''retained_while'', PStr ''Active asset is in inventory''),
         (''after_removal'', PStr ''Deleted within 90 days of last_seen''),
         (''exceptions'', PStr ''Tier-1 / critical assets retained for full audit history'')]),
      (''notes'', PStr (''To export your data: GET /api/v1/gdpr/{user_id}/export. ''
         @ ''To erase your data: POST /api/v1/gdpr/{user_id}/erase. '' @ ''Erasure cannot be undone.''))]"

definition retention_info :: "user \<Rightarrow> nat \<Rightarrow> jdict result" where
  "retention_info who i =
     (if u_role who \<noteq> ''admin'' \<and> u_id who \<noteq> i then Inl (HTTPException 403 ''Forbidden'') else Inr retention_notice)"

section \<open>What an erasure leaves\<close>

lemma the_user_Inr: "(the_user i d = Inr u) = (filter (\<lambda>u. u_id u = i) (users d) = [u])"
  by (cases "filter (\<lambda>u. u_id u = i) (users d)" rule: scalar_one_or_none_cases) (auto simp: the_user_def)

lemma audited_by:
  "d' = audit sha now rq ac (Some who) rt ri sv dt d \<Longrightarrow>
   \<exists>e. audit_log_rows d' = audit_log_rows d @ [e] \<and> lg_username e = Some (p_username who) \<and> lg_user_id e = p_id who"
  by (simp add: audit_def Let_def fresh_id_def)

lemma erase_Inr:
  assumes "erase_user_data env now rq who i confirmation r d = (Inr name, r', d')"
  obtains u h e where "filter (\<lambda>u. u_id u = i) (users d) = [u]" "u_id u = i" "h = erased_name env i" "name = ''deleted_user_'' @ h"
    "may_act env rq who i ''Can only erase your own data'' = Inr ()" "erasable confirmation u d = Inr ()"
    "\<not> user_taken (erased_user env h u) d"
    "revoke_user_tokens (env_redis env) (env_cfg env) (clock_of now) (uuid_str i) r = Inr r'"
    "users d' = update_where (\<lambda>x. u_id x = i) (erased_user env h) (users d)"
    "audit_log_rows d' = update_where (\<lambda>a. lg_user_id a = Some i) (erased_entry h) (audit_log_rows d) @ [e]"
    "lg_username e = Some (if u_id who = i then ''deleted_user_'' @ h else u_username who)" "lg_user_id e = Some (u_id who)"
proof -
  from assms obtain u where u: "the_user i d = Inr u" "erasable confirmation u d = Inr ()"
    "may_act env rq who i ''Can only erase your own data'' = Inr ()"
    by (auto simp: erase_user_data_def rbind_eq_Inr Let_def split: sum.splits if_splits)
  from u(1) have f: "filter (\<lambda>u. u_id u = i) (users d) = [u]" by (simp add: the_user_Inr)
  then have i: "u_id u = i" by (metis (mono_tags, lifting) filter_eq_ConsD)
  let ?h = "erased_name env i"
  let ?work = "d\<lparr>users := update_where (\<lambda>x. u_id x = i) (erased_user env ?h) (users d),
     audit_log_rows := update_where (\<lambda>a. lg_user_id a = Some i) (erased_entry ?h) (audit_log_rows d)\<rparr>"
  have c: "confirmation = ''ERASE MY DATA''" using assms u by (auto simp: erase_user_data_def split: if_splits)
  have t: "\<not> user_taken (erased_user env ?h u) d" "user_fits (erased_user env ?h u)"
    using assms u i c by (auto simp: erase_user_data_def Let_def split: if_splits)
  have rv: "revoke_user_tokens (env_redis env) (env_cfg env) (clock_of now) (uuid_str i) r = Inr r'"
    using assms u i c t by (cases "revoke_user_tokens (env_redis env) (env_cfg env) (clock_of now) (uuid_str i) r")
      (auto simp: erase_user_data_def Let_def split: exn.splits)
  from assms u i c t rv have d': "name = ''deleted_user_'' @ ?h" "d' = audit (env_sha env) now rq ''gdpr_data_erasure''
      (Some (JwtUser (if u_id who = i then erased_user env ?h u else who))) (Some ''user'') (Some (uuid_str i)) ''warning''
      [(''requested_by'', PStr (u_username who)), (''anonymized_to'', PStr (''deleted_user_'' @ ?h))] ?work"
    by (auto simp: erase_user_data_def Let_def erased_user_def)
  obtain e where "audit_log_rows d' = audit_log_rows ?work @ [e]"
    "lg_username e = Some (p_username (JwtUser (if u_id who = i then erased_user env ?h u else who)))"
    "lg_user_id e = p_id (JwtUser (if u_id who = i then erased_user env ?h u else who))"
    using audited_by [OF d'(2)] by blast
  with f i u t rv d' show ?thesis by (intro that [of u ?h e]) (auto simp: erased_user_def)
qed

lemma only_row:
  assumes "filter p xs = [x]" "y \<in> set xs" "p y"
  shows "y = x"
proof -
  have "y \<in> set (filter p xs)" using assms(2,3) by simp
  with assms(1) show ?thesis by simp
qed

interpretation user_erasure: row_mutation u_id "erased_user env h" for env h
  by unfold_locales (simp add: erased_user_def)

lemma filter_update_other:
  "(\<And>x. k (f x) = k x) \<Longrightarrow> filter (\<lambda>x. k x \<noteq> i) (update_where (\<lambda>x. k x = i) f xs) = filter (\<lambda>x. k x \<noteq> i) xs"
  by (induction xs) auto

text \<open>The guards return a user for a bearer token only if \<open>jwt_user\<close> does.\<close>

lemma role_of_bearer:
  "(case jwt_user env now token r d of Inl e \<Rightarrow> True | Inr u \<Rightarrow> P u) \<Longrightarrow>
   (case require_role env now roles management rq token r d of Inl e \<Rightarrow> True | Inr u \<Rightarrow> P u)"
  by (cases "jwt_user env now token r d")
    (auto simp: require_role_def rbind_def split: sum.split)

lemma scope_of_bearer:
  "(case jwt_user env now token r d of Inl e \<Rightarrow> True | Inr u \<Rightarrow> P u) \<Longrightarrow>
   (case fst (require_scope env now scope roles rq (Some token) key r d) of Inr (JwtUser u) \<Rightarrow> P u | _ \<Rightarrow> True)"
  by (cases "jwt_user env now token r d")
    (auto simp: require_scope_def split: sum.split prod.split option.split principal.split)

text \<open>
  C25: What an erasure removes. Afterwards exactly one row has the subject's identifier, with
  the pseudonym for a name and an address derived from it, no second factor and inactive;
  every other user is as before; every audit entry of the subject, past or the erasure's own,
  carries the pseudonym, the past ones without address and client; and no bearer token, whatever
  the state of the token store, makes any of the guards of the endpoints return the subject.
  The erasure does not end everything: a login with the pseudonym still succeeds
  (\<open>erased_account_logs_in\<close>), service tokens are not touched, and an event stream that was open goes
  on (\<open>revoked_account_keeps_stream\<close> of \<open>EventStream\<close>).
\<close>

theorem erasure_effect:
  assumes "erase_user_data env now rq who i confirmation r d = (Inr name, r', d')"
  shows "(\<exists>u. filter (\<lambda>u. u_id u = i) (users d') = [u] \<and> u_username u = name \<and> u_email u = ''deleted-'' @ erased_name env i @ ''@invalid.kepryx''
        \<and> u_mfa_secret u = None \<and> \<not> u_is_active u)
    \<and> filter (\<lambda>u. u_id u \<noteq> i) (users d') = filter (\<lambda>u. u_id u \<noteq> i) (users d)
    \<and> list_all (\<lambda>a. lg_username a = Some name) (filter (\<lambda>a. lg_user_id a = Some i) (audit_log_rows d'))
    \<and> list_all (\<lambda>a. lg_ip_address a = Some ''redacted'' \<and> lg_user_agent a = Some ''redacted'')
        (filter (\<lambda>a. lg_user_id a = Some i) (butlast (audit_log_rows d')))
    \<and> (case jwt_user env later token store d' of Inl e \<Rightarrow> True | Inr u \<Rightarrow> u_id u \<noteq> i)
    \<and> (case require_role env later roles management rq' token store d' of Inl e \<Rightarrow> True | Inr u \<Rightarrow> u_id u \<noteq> i)
    \<and> (case fst (require_scope env later scope roles rq' (Some token) key store d') of Inr (JwtUser u) \<Rightarrow> u_id u \<noteq> i | _ \<Rightarrow> True)"
  using assms
proof (rule erase_Inr)
  fix u h e
  assume f: "filter (\<lambda>u. u_id u = i) (users d) = [u]" and i: "u_id u = i" and h: "h = erased_name env i" "name = ''deleted_user_'' @ h"
    and us: "users d' = update_where (\<lambda>x. u_id x = i) (erased_user env h) (users d)"
    and al: "audit_log_rows d' = update_where (\<lambda>a. lg_user_id a = Some i) (erased_entry h) (audit_log_rows d) @ [e]"
    and e: "lg_username e = Some (if u_id who = i then ''deleted_user_'' @ h else u_username who)" "lg_user_id e = Some (u_id who)"
  have row: "filter (\<lambda>u. u_id u = i) (users d') = [erased_user env h u]"
    using user_erasure.lookup_mutated [of i env h "users d"] f us by simp
  have others: "filter (\<lambda>u. u_id u \<noteq> i) (users d') = filter (\<lambda>u. u_id u \<noteq> i) (users d)"
    unfolding us by (rule filter_update_other) (simp add: erased_user_def)
  have names: "list_all (\<lambda>a. lg_username a = Some name) (filter (\<lambda>a. lg_user_id a = Some i) (audit_log_rows d'))"
    unfolding al using e h by (auto simp: list_all_iff set_update_where erased_entry_def)
  have past: "list_all (\<lambda>a. lg_ip_address a = Some ''redacted'' \<and> lg_user_agent a = Some ''redacted'')
      (filter (\<lambda>a. lg_user_id a = Some i) (butlast (audit_log_rows d')))"
    unfolding al by (auto simp: list_all_iff set_update_where erased_entry_def)
  have out: "case jwt_user env later token store d' of Inl e \<Rightarrow> True | Inr v \<Rightarrow> u_id v \<noteq> i"
  proof (cases "jwt_user env later token store d'")
    case (Inr v)
    from jwt_user_Inr [OF this] have "v \<in> set (users d')" "u_is_active v" by auto
    moreover from this only_row [OF row, of v] have "u_id v = i \<Longrightarrow> \<not> u_is_active v" by (auto simp: erased_user_def)
    ultimately show ?thesis using Inr by auto
  qed simp
  moreover have "case require_role env later roles management rq' token store d' of Inl e \<Rightarrow> True | Inr v \<Rightarrow> u_id v \<noteq> i"
    using out by (rule role_of_bearer)
  moreover have "case fst (require_scope env later scope roles rq' (Some token) key store d') of Inr (JwtUser v) \<Rightarrow> u_id v \<noteq> i | _ \<Rightarrow> True"
    using out by (rule scope_of_bearer)
  ultimately show ?thesis using row others names past out h by (simp add: erased_user_def)
qed

text \<open>
  An erased account still logs in. Its password is derived from its name, which the answer
  and the audit log show, its second factor is gone, and the login does not look whether the
  account is active: whoever knows the pseudonym is issued tokens and a successful login is
  recorded for the subject. The tokens are refused wherever they are used.
\<close>

theorem erased_account_logs_in:
  assumes "erase_user_data env now rq who i confirmation r d = (Inr name, r', d')" "\<And>p. env_verify env p (env_hash env p)"
  shows "\<exists>u pw. u_id u = i \<and> pw = ''erased:'' @ drop (length ''deleted_user_'') name
    \<and> fst (login env later salt jti jti' rq' \<lparr> lr_username = name, lr_password = pw, lr_mfa_code = None \<rparr> d')
      = issue_tokens env later jti jti' u"
  using assms(1)
proof (rule erase_Inr)
  fix u h e
  assume f: "filter (\<lambda>u. u_id u = i) (users d) = [u]" and i: "u_id u = i" and h: "h = erased_name env i" "name = ''deleted_user_'' @ h"
    and free: "\<not> user_taken (erased_user env h u) d" and us: "users d' = update_where (\<lambda>x. u_id x = i) (erased_user env h) (users d)"
  let ?u = "erased_user env h u"
  have row: "filter (\<lambda>u. u_id u = i) (users d') = [?u]"
    using user_erasure.lookup_mutated [of i env h "users d"] f us by simp
  have "filter (\<lambda>u. u_username u = name) (users d') = filter (\<lambda>u. u_id u = i) (users d')"
  proof (rule filter_cong [OF HOL.refl])
    fix v assume v: "v \<in> set (users d')"
    show "(u_username v = name) = (u_id v = i)"
    proof (cases "u_id v = i")
      case True
      with only_row [OF row v] h show ?thesis by (simp add: erased_user_def)
    next
      case False
      with v us i have "v \<in> set (users d)" by (auto simp: set_update_where erased_user_def)
      with free False i h show ?thesis by (auto simp: user_taken_def list_ex_iff erased_user_def)
    qed
  qed
  with row have one: "filter (\<lambda>u. u_username u = name) (users d') = [?u]" by simp
  have pw: "''erased:'' @ drop (length ''deleted_user_'') name = ''erased:'' @ h" using h by simp
  let ?b = "\<lparr> lr_username = name, lr_password = ''erased:'' @ h, lr_mfa_code = None \<rparr>"
  let ?v = "(record_success later ?u)\<lparr>u_mfa_secret := u_mfa_secret ?u\<rparr>"
  have "\<not> u_mfa_enabled ?u" "u_locked_until ?u = None" "u_password_hash ?u = env_hash env (''erased:'' @ h)"
    by (simp_all add: erased_user_def)
  then have "fst (login env later salt jti jti' rq' ?b d') = issue_tokens env later jti jti' ?v"
    using one assms(2) by (cases "issue_tokens env later jti jti' ?v") (simp_all add: login_def Let_def check_login_mfa_def del: append_Cons)
  moreover have "u_id ?v = i" using i by (simp add: record_success_def erased_user_def)
  ultimately show ?thesis unfolding pw by blast
qed

section \<open>An administrator always remains\<close>

text \<open>
  The requests that change users, by users that the guards let in, and everything else that
  the user table sees: logins, MFA, password changes and the retention run.
\<close>

inductive user_step :: "'r env \<Rightarrow> db \<Rightarrow> db \<Rightarrow> bool" for env where
  create: "next_id d \<notin> u_id ` set (users d) \<Longrightarrow> user_step env d (snd (create_user env now rq who b d))"
| delete: "who \<in> set (users d) \<Longrightarrow> active_admin who \<Longrightarrow> user_step env d (snd (delete_user env now rq who i d))"
| erase: "user_step env d (snd (snd (erase_user_data env now rq who i confirmation r d)))"
| login: "user_step env d (snd (login env now salt jti jti' rq body d))"
| enroll: "user_step env d (snd (mfa_enroll env now salt secret rq who pw d))"
| confirm: "user_step env d (snd (mfa_confirm env now rq who pw code d))"
| password: "user_step env d (snd (snd (change_password env now rq who old new r d)))"
| retention: "user_step env d (snd (enforce_all (env_cfg env) py now d))"

definition users_ok :: "db \<Rightarrow> bool" where
  "users_ok d = (distinct (map u_id (users d)) \<and> list_ex active_admin (users d))"

text \<open>A change of rows that keeps identifiers, roles and activity.\<close>

definition same_standing :: "db \<Rightarrow> db \<Rightarrow> bool" where
  "same_standing d d' = (map (\<lambda>u. (u_id u, active_admin u)) (users d') = map (\<lambda>u. (u_id u, active_admin u)) (users d))"

lemma same_standing_ok: "same_standing d d' \<Longrightarrow> users_ok d \<Longrightarrow> users_ok d'"
proof -
  assume s: "same_standing d d'" and ok: "users_ok d"
  have "map u_id (users d') = map u_id (users d)" "map active_admin (users d') = map active_admin (users d)"
    using arg_cong [OF s [unfolded same_standing_def], of "map fst"] arg_cong [OF s [unfolded same_standing_def], of "map snd"]
    by (simp_all add: comp_def)
  moreover have "list_ex active_admin us = list_ex id (map active_admin us)" for us by (induction us) simp_all
  ultimately show ?thesis using ok by (simp add: users_ok_def)
qed

lemma standing_refl: "users d' = users d \<Longrightarrow> same_standing d d'"
  by (simp add: same_standing_def)

lemma standing_update:
  assumes "users d' = users (update_user i f d)" "\<And>u. u_id (f u) = u_id u \<and> active_admin (f u) = active_admin u"
  shows "same_standing d d'"
  unfolding same_standing_def assms(1) update_user_def by (simp add: map_update_where assms(2))

lemma record_standing:
  "active_admin (record_failure cfg now u) = active_admin u" "active_admin ((record_success now u)\<lparr>u_mfa_secret := s\<rparr>) = active_admin u"
  "u_id ((record_success now u)\<lparr>u_mfa_secret := s\<rparr>) = u_id u"
  by (simp_all add: active_admin_def record_failure_def record_success_def Let_def)

lemma login_standing: "same_standing d (snd (login env now salt jti jti' rq body d))"
proof (cases "filter (\<lambda>u. u_username u = lr_username body) (users d)" rule: scalar_one_or_none_cases)
  case (one u)
  have "users (snd (login env now salt jti jti' rq body d)) = users d
    \<or> users (snd (login env now salt jti jti' rq body d)) = users (update_user (u_id u) (record_failure (env_cfg env) now) d)
    \<or> (\<exists>s. users (snd (login env now salt jti jti' rq body d))
          = users (update_user (u_id u) (\<lambda>u. (record_success now u)\<lparr>u_mfa_secret := s\<rparr>) d))"
    using one by (auto simp: login_def Let_def split: option.split sum.split prod.split bool.split)
  then show ?thesis
  proof (elim disjE exE)
    assume "users (snd (login env now salt jti jti' rq body d)) = users (update_user (u_id u) (record_failure (env_cfg env) now) d)"
    then show ?thesis by (rule standing_update) (simp add: record_standing)
  next
    fix s assume "users (snd (login env now salt jti jti' rq body d))
        = users (update_user (u_id u) (\<lambda>u. (record_success now u)\<lparr>u_mfa_secret := s\<rparr>) d)"
    then show ?thesis by (rule standing_update) (simp add: record_standing)
  qed (rule standing_refl)
qed (simp_all add: login_def standing_refl)

lemma mfa_standing:
  "same_standing d (snd (mfa_enroll env now salt secret rq who pw d))"
  "same_standing d (snd (mfa_confirm env now rq who pw code d))"
proof -
  have "users (snd (mfa_enroll env now salt secret rq who pw d)) = users d
      \<or> (\<exists>p. users (snd (mfa_enroll env now salt secret rq who pw d)) = users (update_user (u_id who) (\<lambda>u. u\<lparr>u_mfa_secret := Some p\<rparr>) d))"
    by (auto simp: mfa_enroll_def split: sum.split)
  then show "same_standing d (snd (mfa_enroll env now salt secret rq who pw d))"
  proof (elim disjE exE)
    fix p assume "users (snd (mfa_enroll env now salt secret rq who pw d)) = users (update_user (u_id who) (\<lambda>u. u\<lparr>u_mfa_secret := Some p\<rparr>) d)"
    then show ?thesis by (rule standing_update) (simp add: active_admin_def)
  qed (rule standing_refl)
  have "users (snd (mfa_confirm env now rq who pw code d)) = users d
      \<or> users (snd (mfa_confirm env now rq who pw code d)) = users (update_user (u_id who) (\<lambda>u. u\<lparr>u_mfa_enabled := True\<rparr>) d)"
    by (auto simp: mfa_confirm_def split: sum.split bool.split)
  then show "same_standing d (snd (mfa_confirm env now rq who pw code d))"
  proof
    assume "users (snd (mfa_confirm env now rq who pw code d)) = users (update_user (u_id who) (\<lambda>u. u\<lparr>u_mfa_enabled := True\<rparr>) d)"
    then show ?thesis by (rule standing_update) (simp add: active_admin_def)
  qed (rule standing_refl)
qed

lemma password_standing: "same_standing d (snd (snd (change_password env now rq who old new r d)))"
proof -
  have "users (snd (snd (change_password env now rq who old new r d))) = users d
      \<or> users (snd (snd (change_password env now rq who old new r d)))
        = users (update_user (u_id who) (\<lambda>u. u\<lparr>u_password_hash := env_hash env new\<rparr>) d)"
    by (auto simp: change_password_def Let_def split: sum.split exn.split)
  then show ?thesis
  proof
    assume "users (snd (snd (change_password env now rq who old new r d)))
        = users (update_user (u_id who) (\<lambda>u. u\<lparr>u_password_hash := env_hash env new\<rparr>) d)"
    then show ?thesis by (rule standing_update) (simp add: active_admin_def)
  qed (rule standing_refl)
qed

lemma create_user_ok:
  assumes "users_ok d" "next_id d \<notin> u_id ` set (users d)"
  shows "users_ok (snd (create_user env now rq who b d))"
proof -
  have "users (snd (create_user env now rq who b d)) = users d
    \<or> (\<exists>u. users (snd (create_user env now rq who b d)) = users d @ [u] \<and> u_id u = next_id d)"
    by (auto simp: create_user_def Let_def fresh_id_def new_user_def split: sum.split exn.split)
  with assms show ?thesis by (auto simp: users_ok_def)
qed

lemma delete_user_ok:
  assumes "users_ok d" "who \<in> set (users d)" "active_admin who"
  shows "users_ok (snd (delete_user env now rq who i d))"
proof -
  have "users (snd (delete_user env now rq who i d)) = users d
    \<or> u_id who \<noteq> i \<and> users (snd (delete_user env now rq who i d)) = update_where (\<lambda>u. u_id u = i) deactivate (users d)"
    by (cases "filter (\<lambda>u. u_id u = i) (users d)" rule: scalar_one_or_none_cases) (simp_all add: delete_user_def update_user_def)
  moreover have "map u_id (update_where (\<lambda>u. u_id u = i) deactivate (users d)) = map u_id (users d)"
    by (rule map_update_where) (simp add: deactivate_def)
  ultimately show ?thesis using assms by (auto simp: users_ok_def list_ex_iff set_update_where)
qed

lemma erase_user_ok:
  assumes "users_ok d"
  shows "users_ok (snd (snd (erase_user_data env now rq who i confirmation r d)))"
proof (cases "erase_user_data env now rq who i confirmation r d")
  case (fields x r' d')
  show ?thesis
  proof (cases x)
    case (Inl e)
    with fields have "d' = d"
      by (auto simp: erase_user_data_def Let_def split: sum.splits if_splits exn.splits)
    with fields assms show ?thesis by simp
  next
    case (Inr name)
    with fields have "erase_user_data env now rq who i confirmation r d = (Inr name, r', d')" by simp
    then show ?thesis
    proof (rule erase_Inr)
      fix u h e
      assume f: "filter (\<lambda>u. u_id u = i) (users d) = [u]" and ok: "erasable confirmation u d = Inr ()"
        and us: "users d' = update_where (\<lambda>x. u_id x = i) (erased_user env h) (users d)"
      have "map u_id (users d') = map u_id (users d)"
        unfolding us by (rule map_update_where) (simp add: erased_user_def)
      moreover have "\<exists>v\<in>set (users d). active_admin v \<and> u_id v \<noteq> i"
      proof (rule ccontr)
        assume no: "\<not> (\<exists>v\<in>set (users d). active_admin v \<and> u_id v \<noteq> i)"
        then have "filter active_admin (users d) = filter active_admin (filter (\<lambda>u. u_id u = i) (users d))"
          by (auto intro!: filter_cong)
        with f have l: "filter active_admin (users d) = filter active_admin [u]" by simp
        moreover have "filter active_admin (users d) \<noteq> []"
          using assms by (auto simp: users_ok_def list_ex_iff filter_empty_conv)
        ultimately have "active_admin u" by (auto split: if_splits)
        with l ok show False by (auto simp: erasable_def split: if_splits)
      qed
      then obtain v where "v \<in> set (users d')" "active_admin v" using us by (auto simp: set_update_where)
      ultimately show ?thesis using assms fields by (auto simp: users_ok_def list_ex_iff)
    qed
  qed
qed

lemma enforce_all_users: "users (snd (enforce_all cfg py now d)) = users d"
proof -
  obtain n1 d1 where a: "archive_old_audit_logs cfg now d = (n1, d1)" by fastforce
  obtain n2 d2 where b: "delete_expired_audit_logs cfg now d1 = (n2, d2)" by fastforce
  obtain n3 d3 where c: "delete_stale_assets cfg now d2 = (n3, d3)" by fastforce
  obtain f d4 where e: "flag_inactive_users cfg py now d3 = (f, d4)" by fastforce
  have "users d1 = users d" using a by (auto simp: archive_old_audit_logs_def Let_def split: if_splits)
  moreover have "users d2 = users d1" using b by (auto simp: delete_expired_audit_logs_def Let_def split: if_splits)
  moreover have "users d3 = users d2" using c fold_delete_assets by (auto simp: delete_stale_assets_def Let_def split: if_splits)
  moreover have "users d4 = users d3" using flag_inactive_frame [OF e] by simp
  ultimately show ?thesis using a b c e by (simp add: enforce_all_def)
qed

lemma user_run_ok:
  assumes "(user_step env)\<^sup>*\<^sup>* d d'" "users_ok d"
  shows "users_ok d'"
  using assms
proof (induction rule: rtranclp_induct)
  case (step y z)
  then have ok: "users_ok y" by simp
  from step(2) show ?case
  proof cases
    case (retention py now)
    then have "users z = users y" using enforce_all_users by metis
    with ok show ?thesis by (simp add: users_ok_def)
  qed (use ok in \<open>simp_all add: create_user_ok delete_user_ok erase_user_ok same_standing_ok [OF login_standing]
        same_standing_ok [OF mfa_standing(1)] same_standing_ok [OF mfa_standing(2)] same_standing_ok [OF password_standing]\<close>)
qed simp

text \<open>
  There is always an administrator. From a state with unique user identifiers and an
  active administrator, no sequence of user requests, logins and retention runs leads to a
  state without one: the guards of deactivation and erasure suffice.
\<close>

theorem active_admin_remains:
  assumes "(user_step env)\<^sup>*\<^sup>* d d'" "users_ok d"
  shows "users_ok d'"
  using user_run_ok assms by blast

section \<open>Witnesses\<close>

definition alice :: user where
  "alice = (new_user 2 0)\<lparr>u_username := ''alice'', u_email := ''alice@x''\<rparr>"

definition sample_people :: db where
  "sample_people = empty_db\<lparr>next_id := 3, users := [sample_admin, alice],
     audit_log_rows := [(new_audit_log 1 0)\<lparr>lg_user_id := Some 2, lg_username := Some ''alice''\<rparr>]\<rparr>"

definition hex_env :: "(string \<rightharpoonup> entry) env" where "hex_env = plain_env\<lparr>env_sha := (\<lambda>s. ''0123456789abcdef'')\<rparr>"

lemma sample_erasure:
  "\<exists>r' d'. erase_user_data hex_env 5 sample_request alice 2 ''ERASE MY DATA'' Map.empty sample_people
     = (Inr ''deleted_user_h_0123456789abcdef'', r', d')"
proof -
  obtain r' where rv: "revoke_user_tokens (env_redis hex_env) (env_cfg hex_env) (clock_of 5) (uuid_str 2) Map.empty = Inr r'"
    by (simp add: revoke_user_tokens_def hex_env_def plain_env_def sample_env_def mem_ops_def Let_def)
  have n: "erased_name hex_env 2 = ''h_0123456789abcdef''" by (simp add: erased_name_def hash_value_def hex_env_def)
  have u: "the_user 2 sample_people = Inr alice"
    by (simp add: the_user_def sample_people_def sample_admin_def alice_def new_user_def)
  have f: "user_fits (erased_user hex_env ''h_0123456789abcdef'' alice)"
    by (simp add: user_fits_def erased_user_def hex_env_def plain_env_def alice_def new_user_def)
  have t: "\<not> user_taken (erased_user hex_env ''h_0123456789abcdef'' alice) sample_people"
    by (simp add: user_taken_def erased_user_def sample_people_def sample_admin_def alice_def new_user_def)
  have a: "may_act hex_env sample_request alice 2 m = Inr ()" for m by (simp add: may_act_def alice_def new_user_def)
  have e: "erasable c alice sample_people = Inr ()" for c
    by (simp add: erasable_def starts_with_def alice_def new_user_def active_admin_def)
  have i: "u_id alice = 2" by (simp add: alice_def new_user_def)
  show ?thesis using rv n u f t a e i by (simp add: erase_user_data_def erased_user_def Let_def)
qed

theorem erasure_effect_witness:
  "\<exists>r' d'. erase_user_data hex_env 5 sample_request alice 2 ''ERASE MY DATA'' Map.empty sample_people
       = (Inr ''deleted_user_h_0123456789abcdef'', r', d')
     \<and> (\<exists>u. filter (\<lambda>u. u_id u = 2) (users d') = [u] \<and> \<not> u_is_active u)
     \<and> filter (\<lambda>u. u_id u \<noteq> 2) (users d') = [sample_admin]"
proof -
  obtain r' d' where e: "erase_user_data hex_env 5 sample_request alice 2 ''ERASE MY DATA'' Map.empty sample_people
       = (Inr ''deleted_user_h_0123456789abcdef'', r', d')" using sample_erasure by blast
  have "filter (\<lambda>u. u_id u \<noteq> 2) (users sample_people) = [sample_admin]"
    by (simp add: sample_people_def sample_admin_def alice_def new_user_def)
  with e erasure_effect [OF e, of 9 "[]" Map.empty "[]" False sample_request "[]" None] show ?thesis by auto
qed

theorem erased_account_logs_in_witness:
  "\<exists>r' d' u. erase_user_data hex_env 5 sample_request alice 2 ''ERASE MY DATA'' Map.empty sample_people
       = (Inr ''deleted_user_h_0123456789abcdef'', r', d') \<and> u_id u = 2
     \<and> fst (login hex_env 9 [] ''j'' ''k'' sample_request \<lparr> lr_username = ''deleted_user_h_0123456789abcdef'',
          lr_password = ''erased:h_0123456789abcdef'', lr_mfa_code = None \<rparr> d') = issue_tokens hex_env 9 ''j'' ''k'' u"
proof -
  obtain r' d' where e: "erase_user_data hex_env 5 sample_request alice 2 ''ERASE MY DATA'' Map.empty sample_people
       = (Inr ''deleted_user_h_0123456789abcdef'', r', d')" using sample_erasure by blast
  have "env_verify hex_env p (env_hash hex_env p)" for p by (simp add: hex_env_def plain_env_def)
  from erased_account_logs_in [OF e this, of 9 "[]" "''j''" "''k''" sample_request] e show ?thesis by auto
qed

theorem active_admin_remains_witness:
  "\<exists>d'. (user_step hex_env)\<^sup>*\<^sup>* sample_people d' \<and> map u_is_active (users d') = [True, False] \<and> users_ok d'"
proof -
  let ?d = "snd (delete_user hex_env 5 sample_request sample_admin 2 sample_people)"
  have "user_step hex_env sample_people ?d"
    by (rule user_step.delete) (simp_all add: sample_people_def sample_admin_def active_admin_def new_user_def)
  then have s: "(user_step hex_env)\<^sup>*\<^sup>* sample_people ?d" by (rule r_into_rtranclp)
  have ok: "users_ok sample_people"
    by (simp add: users_ok_def sample_people_def sample_admin_def alice_def active_admin_def new_user_def)
  have "map u_is_active (users ?d) = [True, False]"
    by (simp add: delete_user_def update_user_def deactivate_def sample_people_def sample_admin_def alice_def new_user_def)
  with s active_admin_remains [OF s ok] show ?thesis by (intro exI [of _ ?d] conjI)
qed

text \<open>The name of a user who erases their own data stays in the details of the erasure's audit entry.\<close>

lemma erasure_records_name:
  "jget (audit_details (\<lambda>s. ''0123456789abcdef'') sample_request [(''requested_by'', PStr ''alice''), (''anonymized_to'', PStr ''deleted_user_h'')])
     ''requested_by'' = PStr ''alice''"
  by code_simp

end
