(* ===== verification/ComplianceCatalog.thy ===== *)
theory ComplianceCatalog
  imports Models PyStr
begin

text \<open>
  The framework catalogs: the rules of \<open>app/services/compliance_catalog.py\<close>, and the catalogs
  that the migration \<open>alembic/versions/0007_evidence_compliance.py\<close> stores.
\<close>

record control_rule =
  kr_title :: string
  kr_objective :: string
  kr_family :: string
  kr_rule_key :: string
  kr_desc :: string
  kr_check :: "asset \<Rightarrow> bool"
  kr_evidence_fields :: "string list"
  kr_requirements :: "string list"

record catalog_rules =
  kc_version :: string
  kc_name :: string
  kc_source_url :: string
  kc_controls :: "(string \<times> control_rule) list"

text \<open>Conditions that several rules share.\<close>

definition patched :: "asset \<Rightarrow> bool" where
  "patched a = (truthy_str (a_last_patch a) \<and> a_last_patch a \<noteq> Some ''Never'')"

definition monitored :: "asset \<Rightarrow> bool" where
  "monitored a = (truthy_str (a_edr_status a) \<and> a_edr_status a \<notin> {Some ''None'', Some ''N/A''})"

definition cis_controls :: "(string \<times> control_rule) list" where
  "cis_controls =
    [(''1.1'', \<lparr> kr_title = ''Enterprise asset inventory'',
       kr_objective = ''Maintain a current record of enterprise assets.'',
       kr_family = ''Inventory'', kr_rule_key = ''asset_inventory'', kr_desc = ''Detailed asset inventory exists'',
       kr_check = (\<lambda>a. a_name a \<noteq> [] \<and> truthy_str (a_ip a) \<and> truthy_str (a_os a)),
       kr_evidence_fields = [''name'', ''ip'', ''os''], kr_requirements = [''name'', ''ip'', ''os''] \<rparr>),
     (''2.1'', \<lparr> kr_title = ''Software inventory'',
       kr_objective = ''Track software installed on enterprise assets.'',
       kr_family = ''Inventory'', kr_rule_key = ''software_inventory'', kr_desc = ''Software inventory tracked'',
       kr_check = (\<lambda>a. a_software_stack a \<noteq> []),
       kr_evidence_fields = [''software_stack''], kr_requirements = [''software_stack''] \<rparr>),
     (''4.1'', \<lparr> kr_title = ''Secure configuration'',
       kr_objective = ''Apply secure configuration and hardening controls.'',
       kr_family = ''Configuration'', kr_rule_key = ''secure_configuration'', kr_desc = ''Encryption and hardening applied'',
       kr_check = (\<lambda>a. a_control_coverage a \<in> {''partial'', ''full''}),
       kr_evidence_fields = [''control_coverage''], kr_requirements = [''control_coverage''] \<rparr>),
     (''6.1'', \<lparr> kr_title = ''Access control'',
       kr_objective = ''Use strong authentication for asset access.'',
       kr_family = ''Access'', kr_rule_key = ''strong_authentication'', kr_desc = ''MFA enforced'',
       kr_check = (\<lambda>a. contains ''mfa'' (lower (a_auth_method a))),
       kr_evidence_fields = [''auth_method''], kr_requirements = [''auth_method''] \<rparr>),
     (''7.1'', \<lparr> kr_title = ''Vulnerability management'',
       kr_objective = ''Maintain evidence of vulnerability scanning and patching.'',
       kr_family = ''Vulnerability'', kr_rule_key = ''vulnerability_management'', kr_desc = ''Vulnerability scanning + patching'',
       kr_check = (\<lambda>a. patched a),
       kr_evidence_fields = [''last_patch''], kr_requirements = [''last_patch''] \<rparr>),
     (''10.1'', \<lparr> kr_title = ''Malware defenses'',
       kr_objective = ''Deploy and monitor endpoint malware defenses.'',
       kr_family = ''Defense'', kr_rule_key = ''endpoint_defense'', kr_desc = ''EDR/antimalware deployed'',
       kr_check = (\<lambda>a. monitored a),
       kr_evidence_fields = [''edr_status''], kr_requirements = [''edr_status''] \<rparr>)]"

definition nist_controls :: "(string \<times> control_rule) list" where
  "nist_controls =
    [(''CM-8'', \<lparr> kr_title = ''System component inventory'',
       kr_objective = ''Maintain an inventory of system components.'',
       kr_family = ''Configuration Management'', kr_rule_key = ''system_component_inventory'', kr_desc = ''System component inventory'',
       kr_check = (\<lambda>a. a_name a \<noteq> [] \<and> a_type a \<noteq> [] \<and> truthy_str (a_os a)),
       kr_evidence_fields = [''name'', ''type'', ''os''], kr_requirements = [''name'', ''type'', ''os''] \<rparr>),
     (''AC-2'', \<lparr> kr_title = ''Account management'',
       kr_objective = ''Use strong authentication controls for accounts.'',
       kr_family = ''Access Control'', kr_rule_key = ''account_management'', kr_desc = ''Strong auth controls'',
       kr_check = (\<lambda>a. a_auth_method a \<in> {''mfa'', ''mfa+pam'', ''certificate''}),
       kr_evidence_fields = [''auth_method''], kr_requirements = [''auth_method''] \<rparr>),
     (''SI-2'', \<lparr> kr_title = ''Flaw remediation'',
       kr_objective = ''Track timely remediation and avoid end-of-life assets.'',
       kr_family = ''System and Information Integrity'', kr_rule_key = ''flaw_remediation'', kr_desc = ''Timely patching'',
       kr_check = (\<lambda>a. patched a \<and> \<not> a_eol_status a),
       kr_evidence_fields = [''last_patch'', ''eol_status''], kr_requirements = [''last_patch'', ''eol_status''] \<rparr>),
     (''SI-4'', \<lparr> kr_title = ''System monitoring'',
       kr_objective = ''Deploy continuous monitoring on system components.'',
       kr_family = ''System and Information Integrity'', kr_rule_key = ''system_monitoring'', kr_desc = ''Continuous monitoring deployed'',
       kr_check = (\<lambda>a. monitored a),
       kr_evidence_fields = [''edr_status''], kr_requirements = [''edr_status''] \<rparr>)]"

definition iso_controls :: "(string \<times> control_rule) list" where
  "iso_controls =
    [(''A.8.1'', \<lparr> kr_title = ''Asset inventory'',
       kr_objective = ''Maintain an inventory of information assets.'',
       kr_family = ''Technological controls'', kr_rule_key = ''asset_inventory'', kr_desc = ''Asset inventory maintained'',
       kr_check = (\<lambda>a. a_name a \<noteq> [] \<and> a_type a \<noteq> []),
       kr_evidence_fields = [''name'', ''type''], kr_requirements = [''name'', ''type''] \<rparr>),
     (''A.8.9'', \<lparr> kr_title = ''Configuration management'',
       kr_objective = ''Manage and document secure configuration baselines.'',
       kr_family = ''Technological controls'', kr_rule_key = ''configuration_management'', kr_desc = ''Configuration management'',
       kr_check = (\<lambda>a. a_control_coverage a \<noteq> ''none''),
       kr_evidence_fields = [''control_coverage''], kr_requirements = [''control_coverage''] \<rparr>),
     (''A.12.6'', \<lparr> kr_title = ''Technical vulnerability management'',
       kr_objective = ''Identify and manage technical vulnerabilities.'',
       kr_family = ''Operations security'', kr_rule_key = ''technical_vulnerability_management'', kr_desc = ''Technical vuln management'',
       kr_check = (\<lambda>a. patched a),
       kr_evidence_fields = [''last_patch''], kr_requirements = [''last_patch''] \<rparr>)]"

definition FRAMEWORK_CATALOGS :: "(string \<times> catalog_rules) list" where
  "FRAMEWORK_CATALOGS =
    [(''cis-v8'', \<lparr> kc_version = ''8.1'', kc_name = ''CIS Controls'',
       kc_source_url = ''https://www.cisecurity.org/controls'', kc_controls = cis_controls \<rparr>),
     (''nist-800-53'', \<lparr> kc_version = ''Rev. 5'', kc_name = ''NIST SP 800-53 Security and Privacy Controls'',
       kc_source_url = ''https://csrc.nist.gov/pubs/sp/800/53/r5/upd1/final'', kc_controls = nist_controls \<rparr>),
     (''iso-27001'', \<lparr> kc_version = ''2022'', kc_name = ''ISO/IEC 27001 Information Security Management Systems'',
       kc_source_url = ''https://www.iso.org/standard/27001'', kc_controls = iso_controls \<rparr>)]"

definition CONTROL_RULES :: "string \<Rightarrow> string \<Rightarrow> control_rule option" where
  "CONTROL_RULES framework control = (case map_of FRAMEWORK_CATALOGS framework of
     None \<Rightarrow> None | Some c \<Rightarrow> map_of (kc_controls c) control)"

section \<open>The stored catalogs\<close>

type_synonym seed_control = "string \<times> string \<times> string \<times> string \<times> string \<times> string list"

definition CATALOGS :: "(string \<times> string \<times> string \<times> string \<times> seed_control list) list" where
  "CATALOGS =
   [(''cis-v8'', ''8.1'', ''CIS Controls'', ''https://www.cisecurity.org/controls'',
     [(''1.1'', ''Enterprise asset inventory'', ''Maintain a current record of enterprise assets.'', ''Inventory'', ''asset_inventory'', [''name'', ''ip'', ''os'']),
      (''2.1'', ''Software inventory'', ''Track software installed on enterprise assets.'', ''Inventory'', ''software_inventory'', [''software_stack'']),
      (''4.1'', ''Secure configuration'', ''Apply secure configuration and hardening controls.'', ''Configuration'', ''secure_configuration'', [''control_coverage'']),
      (''6.1'', ''Access control'', ''Use strong authentication for asset access.'', ''Access'', ''strong_authentication'', [''auth_method'']),
      (''7.1'', ''Vulnerability management'', ''Maintain evidence of vulnerability scanning and patching.'', ''Vulnerability'', ''vulnerability_management'', [''last_patch'']),
      (''10.1'', ''Malware defenses'', ''Deploy and monitor endpoint malware defenses.'', ''Defense'', ''endpoint_defense'', [''edr_status''])]),
    (''nist-800-53'', ''Rev. 5'', ''NIST SP 800-53 Security and Privacy Controls'', ''https://csrc.nist.gov/pubs/sp/800/53/r5/upd1/final'',
     [(''CM-8'', ''System component inventory'', ''Maintain an inventory of system components.'', ''Configuration Management'', ''system_component_inventory'', [''name'', ''type'', ''os'']),
      (''AC-2'', ''Account management'', ''Use strong authentication controls for accounts.'', ''Access Control'', ''account_management'', [''auth_method'']),
      (''SI-2'', ''Flaw remediation'', ''Track timely remediation and avoid end-of-life assets.'', ''System and Information Integrity'', ''flaw_remediation'', [''last_patch'', ''eol_status'']),
      (''SI-4'', ''System monitoring'', ''Deploy continuous monitoring on system components.'', ''System and Information Integrity'', ''system_monitoring'', [''edr_status''])]),
    (''iso-27001'', ''2022'', ''ISO/IEC 27001 Information Security Management Systems'', ''https://www.iso.org/standard/27001'',
     [(''A.8.1'', ''Asset inventory'', ''Maintain an inventory of information assets.'', ''Technological controls'', ''asset_inventory'', [''name'', ''type'']),
      (''A.8.9'', ''Configuration management'', ''Manage and document secure configuration baselines.'', ''Technological controls'', ''configuration_management'', [''control_coverage'']),
      (''A.12.6'', ''Technical vulnerability management'', ''Identify and manage technical vulnerabilities.'', ''Operations security'', ''technical_vulnerability_management'', [''last_patch''])])]"


fun seed_controls :: "nat \<Rightarrow> int \<Rightarrow> seed_control list \<Rightarrow> db \<Rightarrow> db" where
  "seed_controls cat n [] d = d"
| "seed_controls cat n ((cid, title, objective, family, key, reqs) # cs) d =
     (let (i, d) = fresh_id d
      in seed_controls cat (n + 1) cs (d\<lparr>framework_controls := framework_controls d @
           [(new_framework_control i)\<lparr>fk_catalog_id := cat, fk_control_id := cid, fk_title := title, fk_objective := objective,
              fk_family := Some family, fk_rule_key := key, fk_evidence_requirements := reqs, fk_sort_order := n\<rparr>]\<rparr>))"

definition seed_catalogs :: "int \<Rightarrow> db \<Rightarrow> db" where
  "seed_catalogs now d = fold (\<lambda>(code, version, name, url, controls) d.
     let (i, d) = fresh_id d;
         c = (new_framework_catalog i now)\<lparr>fc_code := code, fc_version := version, fc_name := name, fc_source_url := Some url,
               fc_metadata := [(''content_scope'', PStr ''identifiers_and_engineering_objectives'')]\<rparr>
     in seed_controls i 1 controls (d\<lparr>framework_catalogs := framework_catalogs d @ [c]\<rparr>)) CATALOGS d"

text \<open>What a rule says in the terms of the stored catalogs.\<close>

definition seed_of :: "string \<times> control_rule \<Rightarrow> seed_control" where
  "seed_of c = (case c of (cid, r) \<Rightarrow> (cid, kr_title r, kr_objective r, kr_family r, kr_rule_key r, kr_requirements r))"

text \<open>The migration stores exactly the catalogs the rules come from.\<close>

lemma catalogs_agree:
  "CATALOGS = map (\<lambda>(code, c). (code, kc_version c, kc_name c, kc_source_url c, map seed_of (kc_controls c))) FRAMEWORK_CATALOGS"
  by (simp add: CATALOGS_def FRAMEWORK_CATALOGS_def cis_controls_def nist_controls_def iso_controls_def seed_of_def)

text \<open>Every rule asks for the evidence it observes.\<close>

lemma rules_ask_for_fields:
  "list_all (\<lambda>(code, c). list_all (\<lambda>(cid, r). kr_requirements r = kr_evidence_fields r) (kc_controls c)) FRAMEWORK_CATALOGS"
  by (simp add: FRAMEWORK_CATALOGS_def cis_controls_def nist_controls_def iso_controls_def)

end
