(* ===== verification/ComplianceAudit.thy ===== *)
theory ComplianceAudit
  imports ComplianceCatalog PyJson Assets
begin

text \<open>
  The compliance assessment (\<open>app/workers/compliance_tasks.py\<close>): every rule of the framework
  catalogs against every asset, the stored results with their evidence and lineage, the
  compatibility mappings, the gap alerts and the summary of the run. The run is one
  transaction: an exception leaves the database as it was. Parameters: SHA-256, the printing
  of floats inside JSON and the two readings of the clock.
\<close>

section \<open>Observations\<close>

text \<open>
  \<open>getattr\<close> and \<open>_json_value\<close> for the columns that the rules name; an address is rendered as text.
\<close>

definition field_value :: "asset \<Rightarrow> string \<Rightarrow> pyval" where
  "field_value a f =
     (if f = ''name'' then PStr (a_name a) else if f = ''type'' then PStr (a_type a)
      else if f = ''ip'' then opt_str (a_ip a) else if f = ''os'' then opt_str (a_os a)
      else if f = ''software_stack'' then PList (map PStr (a_software_stack a))
      else if f = ''control_coverage'' then PStr (a_control_coverage a) else if f = ''auth_method'' then PStr (a_auth_method a)
      else if f = ''last_patch'' then opt_str (a_last_patch a) else if f = ''edr_status'' then opt_str (a_edr_status a)
      else if f = ''eol_status'' then PBool (a_eol_status a) else PNone)"

definition has_observation :: "pyval \<Rightarrow> bool" where
  "has_observation v = (case v of
     PNone \<Rightarrow> False | PStr s \<Rightarrow> strip s \<noteq> [] | PList xs \<Rightarrow> xs \<noteq> [] | PDict d \<Rightarrow> d \<noteq> [] | _ \<Rightarrow> True)"

definition observed :: "control_rule \<Rightarrow> asset \<Rightarrow> jdict" where
  "observed r a = map (\<lambda>f. (f, field_value a f)) (kr_evidence_fields r)"

definition evidence :: "control_rule \<Rightarrow> asset \<Rightarrow> jdict" where
  "evidence r a = [(''description'', PStr (kr_desc r)), (''source'', PStr ''asset_record''), (''observed'', PDict (observed r a))]"

definition integrity_hash :: "(string \<Rightarrow> string) \<Rightarrow> (rat \<Rightarrow> string) \<Rightarrow> jdict \<Rightarrow> string" where
  "integrity_hash sha ff d = sha (canonical_json ff d)"

section \<open>The assessment of one rule\<close>

definition present :: "control_rule \<Rightarrow> asset \<Rightarrow> nat" where
  "present r a = length (filter (\<lambda>(f, v). has_observation v) (observed r a))"

definition rationale :: "control_rule \<Rightarrow> asset \<Rightarrow> string" where
  "rationale r a = ''Deterministic asset-observation rule: '' @ kr_desc r @ ''. Evidence availability: ''
     @ join '', '' (map (\<lambda>(f, v). f @ ''='' @ (if has_observation v then ''present'' else ''missing'')) (observed r a)) @ ''.''"

definition assess :: "control_rule \<Rightarrow> asset \<Rightarrow> string \<times> rat \<times> rat \<times> string" where
  "assess r a =
     (let p = present r a; total = length (observed r a);
          (status, score) = (if kr_check r a then (''compliant'', 1)
             else if 1 < total \<and> 0 < p \<and> p < total then (''partial'', py_round2 (fdiv (of_nat p) (of_nat total)))
             else (''gap'', 0))
      in (status, score, 1, rationale r a))"

abbreviation status_of :: "control_rule \<Rightarrow> asset \<Rightarrow> string" where "status_of r a \<equiv> fst (assess r a)"

section \<open>Counters\<close>

type_synonym counter = "(string \<times> int) list"

fun count_up :: "string \<Rightarrow> counter \<Rightarrow> counter" where
  "count_up k [] = [(k, 1)]"
| "count_up k ((k', n) # c) = (if k' = k then (k', n + 1) # c else (k', n) # count_up k c)"

fun count_in :: "string \<Rightarrow> string \<Rightarrow> (string \<times> counter) list \<Rightarrow> (string \<times> counter) list" where
  "count_in f k [] = [(f, count_up k [])]"
| "count_in f k ((f', c) # cs) = (if f' = f then (f', count_up k c) # cs else (f', c) # count_in f k cs)"

definition count_of :: "string \<Rightarrow> counter \<Rightarrow> int" where
  "count_of k c = (case map_of c k of None \<Rightarrow> 0 | Some n \<Rightarrow> n)"

definition counter_dict :: "counter \<Rightarrow> jdict" where "counter_dict c = map (\<lambda>(k, n). (k, PInt n)) c"

definition percentage :: "int \<Rightarrow> int \<Rightarrow> pyval" where
  "percentage n applicable =
     (if applicable = 0 then PInt 0 else PFloat (py_round2 (fmul (fdiv (of_int n) (of_int applicable)) 100)))"

definition framework_summary :: "counter \<Rightarrow> jdict" where
  "framework_summary c =
     (let total = sum_list (map snd c); applicable = total - count_of ''not_applicable'' c
      in jset ''compliance_pct'' (percentage (count_of ''compliant'' c) applicable) (jset ''total'' (PInt total) (counter_dict c)))"

section \<open>The run\<close>

text \<open>The controls of the active catalogs; a later row of the ordered join replaces an earlier one.\<close>

definition active_controls :: "db \<Rightarrow> (framework_control \<times> framework_catalog) list" where
  "active_controls d = sort_key (\<lambda>(k, c). fc_code c) (sort_key (\<lambda>(k, c). fk_sort_order k)
     (concat (map (\<lambda>k. map (Pair k) (filter (\<lambda>c. fc_id c = fk_catalog_id k \<and> fc_active c) (framework_catalogs d))) (framework_controls d))))"

definition control_record :: "db \<Rightarrow> string \<Rightarrow> string \<Rightarrow> (framework_control \<times> framework_catalog) option" where
  "control_record d f cid = find (\<lambda>(k, c). fc_code c = f \<and> fk_control_id k = cid) (rev (active_controls d))"

record audit_env =
  av_sha :: "string \<Rightarrow> string"
  av_float :: "rat \<Rightarrow> string"
  av_now :: int
  av_run :: nat

record audit_state =
  au_db :: db
  au_statuses :: counter
  au_frameworks :: "(string \<times> counter) list"
  au_noncompliant :: int
  au_evidence :: int

definition evidence_title :: "string \<Rightarrow> string \<Rightarrow> asset \<Rightarrow> string" where
  "evidence_title f cid a = f @ '' '' @ cid @ '' evidence for '' @ a_name a"

definition gap_title :: "string \<Rightarrow> string \<Rightarrow> asset \<Rightarrow> string" where
  "gap_title f cid a = ''Compliance gap: '' @ f @ '' '' @ cid @ '' on '' @ a_name a"

definition result_row :: "audit_env \<Rightarrow> asset \<Rightarrow> control_rule \<Rightarrow> framework_control \<Rightarrow> nat \<Rightarrow> assessment_result" where
  "result_row env a r k i = (case assess r a of (status, score, confidence, why) \<Rightarrow>
     (new_assessment_result i (av_now env))\<lparr>as_run_id := av_run env, as_control_id := fk_id k, as_asset_id := Some (a_id a),
       as_status := status, as_score := Some score, as_confidence := confidence, as_rationale := why, as_rule_key := kr_rule_key r\<rparr>)"

definition evidence_row :: "audit_env \<Rightarrow> asset \<Rightarrow> string \<Rightarrow> string \<Rightarrow> control_rule \<Rightarrow> nat \<Rightarrow> evidence_item" where
  "evidence_row env a f cid r i =
     (new_evidence_item i (av_now env))\<lparr>ev_source_type := ''asset_record'', ev_source_ref := ''asset:'' @ uuid_str (a_id a),
       ev_title := evidence_title f cid a, ev_description := kr_desc r, ev_observed := observed r a,
       ev_observed_at := Some (a_last_seen a), ev_integrity_sha256 := integrity_hash (av_sha env) (av_float env) (observed r a),
       ev_collector := ''app.workers.compliance_tasks'', ev_classification := ''internal'',
       ev_metadata := [(''framework'', PStr f), (''control_id'', PStr cid)]\<rparr>"

definition lineage_row :: "audit_env \<Rightarrow> nat \<Rightarrow> nat \<Rightarrow> assessment_evidence" where
  "lineage_row env ri ei = (new_assessment_evidence (av_now env))\<lparr>ae_result_id := ri, ae_evidence_id := ei,
     ae_relation := ''supports'', ae_role := ''primary'', ae_extracted_by := ''deterministic_rule''\<rparr>"

text \<open>The identifiers of the result and of the evidence, and the database after the flush.\<close>

definition store_result :: "audit_env \<Rightarrow> asset \<Rightarrow> string \<Rightarrow> string \<Rightarrow> control_rule \<Rightarrow> framework_control \<Rightarrow> db \<Rightarrow> (nat \<times> nat \<times> db) result" where
  "store_result env a f cid r k d =
     (let (ri, d) = fresh_id d; (ei, d) = fresh_id d
      in if 255 < length (evidence_title f cid a) then Inl DataError
         else Inr (ri, ei, d\<lparr>assessment_results := assessment_results d @ [result_row env a r k ri],
                evidence_items := evidence_items d @ [evidence_row env a f cid r ei],
                assessment_evidences := assessment_evidences d @ [lineage_row env ri ei]\<rparr>))"

definition lineage_keys :: "audit_env \<Rightarrow> nat \<Rightarrow> nat \<Rightarrow> jdict" where
  "lineage_keys env ri ei = [(''assessment_run_id'', PStr (uuid_str (av_run env))), (''assessment_result_id'', PStr (uuid_str ri)),
     (''evidence_id'', PStr (uuid_str ei))]"

definition mapping_evidence :: "audit_env \<Rightarrow> asset \<Rightarrow> control_rule \<Rightarrow> framework_catalog \<Rightarrow> nat \<Rightarrow> nat \<Rightarrow> jdict" where
  "mapping_evidence env a r c ri ei = evidence r a @ [(''framework_version'', PStr (fc_version c))] @ lineage_keys env ri ei
     @ [(''integrity_sha256'', PStr (integrity_hash (av_sha env) (av_float env) (observed r a)))]"

definition mapping_key :: "string \<Rightarrow> string \<Rightarrow> nat \<Rightarrow> compliance_mapping \<Rightarrow> bool" where
  "mapping_key f cid i m = (cm_framework m = f \<and> cm_control_id m = cid \<and> cm_asset_id m = i)"

definition store_mapping :: "audit_env \<Rightarrow> asset \<Rightarrow> string \<Rightarrow> string \<Rightarrow> string \<Rightarrow> jdict \<Rightarrow> db \<Rightarrow> db" where
  "store_mapping env a f cid status ev d =
     (case find (mapping_key f cid (a_id a)) (rev (compliance_mappings d)) of
        Some m \<Rightarrow> d\<lparr>compliance_mappings := update_where (\<lambda>x. cm_id x = cm_id m)
          (\<lambda>x. x\<lparr>cm_status := status, cm_evidence := ev, cm_assessed_at := av_now env\<rparr>) (compliance_mappings d)\<rparr>
      | None \<Rightarrow> let (i, d) = fresh_id d
          in d\<lparr>compliance_mappings := compliance_mappings d @ [(new_compliance_mapping i (av_now env))\<lparr>cm_framework := f, cm_control_id := cid,
               cm_asset_id := a_id a, cm_status := status, cm_evidence := ev, cm_assessed_at := av_now env\<rparr>]\<rparr>)"

definition gap_alert :: "asset \<Rightarrow> string \<Rightarrow> alert \<Rightarrow> bool" where
  "gap_alert a title al = (al_alert_type al = ''compliance_gap'' \<and> al_asset_id al = Some (a_id a) \<and> al_title al = title \<and> al_status al = ''open'')"

definition close_gap :: "int \<Rightarrow> alert \<Rightarrow> alert" where
  "close_gap now al = al\<lparr>al_status := ''resolved'', al_resolved_at := Some now, al_resolved_by := Some ''compliance_audit''\<rparr>"

definition critical_asset :: "asset \<Rightarrow> bool" where
  "critical_asset a = (a_criticality a \<in> {''critical'', ''tier-1'', ''high''})"

text \<open>The em dash of the description is given by its three UTF-8 bytes.\<close>

definition gap_description :: "control_rule \<Rightarrow> string \<Rightarrow> string" where
  "gap_description r status = kr_desc r @ '' '' @ [char_of (226::nat), char_of (128::nat), char_of (148::nat)] @ '' '' @ status"

definition raise_gap :: "audit_env \<Rightarrow> asset \<Rightarrow> string \<Rightarrow> string \<Rightarrow> jdict \<Rightarrow> db \<Rightarrow> db result" where
  "raise_gap env a title description details d =
     (case filter (gap_alert a title) (alerts d) of
        al # als \<Rightarrow> Inr (d\<lparr>alerts := update_where (\<lambda>x. al_id x = al_id al)
          (\<lambda>x. x\<lparr>al_description := description, al_details := details\<rparr>) (alerts d)\<rparr>)
      | [] \<Rightarrow> if 255 < length title then Inl DataError
          else let (i, d) = fresh_id d
               in Inr (d\<lparr>alerts := alerts d @ [(new_alert i (av_now env))\<lparr>al_alert_type := ''compliance_gap'', al_severity := ''medium'',
                    al_title := title, al_description := description, al_asset_id := Some (a_id a), al_details := details\<rparr>]\<rparr>))"

definition update_alerts :: "audit_env \<Rightarrow> asset \<Rightarrow> string \<Rightarrow> string \<Rightarrow> string \<Rightarrow> jdict \<Rightarrow> db \<Rightarrow> db result" where
  "update_alerts env a title status description details d =
     (if status = ''compliant'' then Inr (d\<lparr>alerts := update_where (gap_alert a title) (close_gap (av_now env)) (alerts d)\<rparr>)
      else if critical_asset a then raise_gap env a title description details d
      else Inr d)"

definition gap_details :: "audit_env \<Rightarrow> asset \<Rightarrow> string \<Rightarrow> string \<Rightarrow> control_rule \<Rightarrow> framework_catalog \<Rightarrow> nat \<Rightarrow> nat \<Rightarrow> jdict" where
  "gap_details env a f cid r c ri ei = [(''framework'', PStr f), (''framework_version'', PStr (fc_version c)), (''control'', PStr cid),
     (''status'', PStr (status_of r a))] @ lineage_keys env ri ei @ [(''evidence'', PDict (evidence r a))]"

text \<open>One rule on one asset, with everything the body of the inner loop stores.\<close>

definition store_assessment :: "audit_env \<Rightarrow> asset \<Rightarrow> string \<Rightarrow> string \<Rightarrow> control_rule \<Rightarrow> framework_control \<Rightarrow> framework_catalog \<Rightarrow> db \<Rightarrow> db result" where
  "store_assessment env a f cid r k c d =
     rbind (store_result env a f cid r k d) (\<lambda>(ri, ei, d).
       update_alerts env a (gap_title f cid a) (status_of r a) (gap_description r (status_of r a)) (gap_details env a f cid r c ri ei)
         (store_mapping env a f cid (status_of r a) (mapping_evidence env a r c ri ei) d))"

definition audit_control :: "audit_env \<Rightarrow> (string \<Rightarrow> string \<Rightarrow> (framework_control \<times> framework_catalog) option) \<Rightarrow>
    asset \<times> string \<times> string \<Rightarrow> audit_state \<Rightarrow> audit_state result" where
  "audit_control env controls x s = (case x of (a, f, cid) \<Rightarrow>
     case controls f cid of
       None \<Rightarrow> Inr s
     | Some (k, c) \<Rightarrow>
         (case CONTROL_RULES f cid of
            None \<Rightarrow> Inl (KeyError cid)
          | Some r \<Rightarrow>
              rbind (store_assessment env a f cid r k c (au_db s)) (\<lambda>d.
                Inr \<lparr> au_db = d, au_statuses = count_up (status_of r a) (au_statuses s),
                      au_frameworks = count_in f (status_of r a) (au_frameworks s),
                      au_noncompliant = au_noncompliant s + (if status_of r a = ''compliant'' then 0 else 1),
                      au_evidence = au_evidence s + 1 \<rparr>)))"

text \<open>What the three nested loops visit, in their order.\<close>

definition rule_keys :: "(string \<times> string) list" where
  "rule_keys = concat (map (\<lambda>(f, c). map (\<lambda>(cid, r). (f, cid)) (kc_controls c)) FRAMEWORK_CATALOGS)"

definition audit_plan :: "asset list \<Rightarrow> (asset \<times> string \<times> string) list" where
  "audit_plan xs = concat (map (\<lambda>a. map (\<lambda>(f, cid). (a, f, cid)) rule_keys) xs)"

definition run_scope :: "asset list \<Rightarrow> jdict" where
  "run_scope xs = [(''asset_count'', PInt (int (length xs))), (''frameworks'', PList (map (\<lambda>(f, c). PStr f) FRAMEWORK_CATALOGS)),
     (''control_count'', PInt (sum_list (map (\<lambda>(f, c). int (length (kc_controls c))) FRAMEWORK_CATALOGS)))]"

definition run_methodology :: jdict where
  "run_methodology = [(''type'', PStr ''deterministic_asset_observation''), (''version'', PStr ''1.0''),
     (''authoritative_input'', PStr ''Kepryx asset records and source-labelled evidence''),
     (''limitations'', PList [PStr ''This is an engineering posture assessment, not a certification or audit opinion.'',
        PStr ''Controls are a small licensed-safe subset and require organization-specific evidence for assurance.''])]"

definition new_run :: "nat \<Rightarrow> int \<Rightarrow> string \<Rightarrow> asset list \<Rightarrow> assessment_run" where
  "new_run i now initiated_by xs = (new_assessment_run i now)\<lparr>ar_framework_code := ''kepryx-control-bundle'', ar_framework_version := ''1.0'',
     ar_status := ''running'', ar_scope := run_scope xs, ar_methodology := run_methodology, ar_started_at := Some now,
     ar_initiated_by := take 64 initiated_by\<rparr>"

definition run_summary :: "asset list \<Rightarrow> audit_state \<Rightarrow> jdict" where
  "run_summary xs s = [(''assets'', PInt (int (length xs))), (''results'', PInt (sum_list (map snd (au_statuses s)))),
     (''evidence_items'', PInt (au_evidence s)), (''noncompliant_results'', PInt (au_noncompliant s)),
     (''status_counts'', PDict (counter_dict (au_statuses s))),
     (''frameworks'', PDict (map (\<lambda>(f, c). (f, PDict (framework_summary c))) (au_frameworks s)))]"

definition complete_run :: "nat \<Rightarrow> int \<Rightarrow> jdict \<Rightarrow> db \<Rightarrow> db" where
  "complete_run i finish summary d = d\<lparr>assessment_runs := update_where (\<lambda>r. ar_id r = i)
     (\<lambda>r. r\<lparr>ar_summary := summary, ar_status := ''completed'', ar_completed_at := Some finish\<rparr>) (assessment_runs d)\<rparr>"

record audit_outcome =
  ao_run_id :: nat
  ao_audited :: nat
  ao_results :: int
  ao_critical_gaps :: int

definition begin_run :: "(string \<Rightarrow> string) \<Rightarrow> (rat \<Rightarrow> string) \<Rightarrow> int \<Rightarrow> string \<Rightarrow> db \<Rightarrow> audit_env \<times> audit_state" where
  "begin_run sha ff now initiated_by d =
     (let (i, d1) = fresh_id d
      in (\<lparr> av_sha = sha, av_float = ff, av_now = now, av_run = i \<rparr>,
          \<lparr> au_db = d1\<lparr>assessment_runs := assessment_runs d1 @ [new_run i now initiated_by (assets d)]\<rparr>, au_statuses = [], au_frameworks = [],
            au_noncompliant = 0, au_evidence = 0 \<rparr>))"

definition run_audit :: "(string \<Rightarrow> string) \<Rightarrow> (rat \<Rightarrow> string) \<Rightarrow> int \<Rightarrow> int \<Rightarrow> string \<Rightarrow> db \<Rightarrow> audit_outcome result \<times> db" where
  "run_audit sha ff now finish initiated_by d =
     (let (env, s) = begin_run sha ff now initiated_by d
      in case rfold (audit_control env (control_record d)) (audit_plan (assets d)) s of
           Inl e \<Rightarrow> (Inl e, d)
         | Inr s \<Rightarrow> (Inr \<lparr> ao_run_id = av_run env, ao_audited = length (assets d), ao_results = sum_list (map snd (au_statuses s)),
                         ao_critical_gaps = au_noncompliant s \<rparr>,
                     complete_run (av_run env) finish (run_summary (assets d) s) (au_db s)))"

section \<open>What one assessment changes\<close>

lemma update_alerts_frame:
  assumes "update_alerts env a title status description details d = Inr d'"
  shows "next_id d \<le> next_id d'" "d'\<lparr>next_id := next_id d, alerts := alerts d\<rparr> = d"
  using assms by (auto simp: update_alerts_def raise_gap_def fresh_id_def Let_def split: list.splits if_splits)

lemma store_mapping_frame:
  "next_id d \<le> next_id (store_mapping env a f cid status ev d)"
  "(store_mapping env a f cid status ev d)\<lparr>next_id := next_id d, compliance_mappings := compliance_mappings d\<rparr> = d"
  by (auto simp: store_mapping_def fresh_id_def Let_def split: option.splits)

lemma alerts_frameD:
  assumes "d'\<lparr>next_id := n, alerts := al\<rparr> = d"
  shows "assessment_results d' = assessment_results d" "evidence_items d' = evidence_items d"
    "assessment_evidences d' = assessment_evidences d" "assessment_runs d' = assessment_runs d"
    "compliance_mappings d' = compliance_mappings d" "assets d' = assets d"
    "framework_controls d' = framework_controls d" "framework_catalogs d' = framework_catalogs d"
  using assms by auto

lemma mapping_frameD:
  assumes "d'\<lparr>next_id := n, compliance_mappings := ms\<rparr> = d"
  shows "assessment_results d' = assessment_results d" "evidence_items d' = evidence_items d"
    "assessment_evidences d' = assessment_evidences d" "assessment_runs d' = assessment_runs d"
    "alerts d' = alerts d" "assets d' = assets d"
    "framework_controls d' = framework_controls d" "framework_catalogs d' = framework_catalogs d"
  using assms by auto

lemma store_assessment_Inr:
  assumes "store_assessment env a f cid r k c d = Inr d'"
  obtains e where "assessment_results d' = assessment_results d @ [result_row env a r k (next_id d)]"
    "evidence_items d' = evidence_items d @ [evidence_row env a f cid r (Suc (next_id d))]"
    "assessment_evidences d' = assessment_evidences d @ [lineage_row env (next_id d) (Suc (next_id d))]"
    "assessment_runs d' = assessment_runs d" "assets d' = assets d" "framework_controls d' = framework_controls d"
    "framework_catalogs d' = framework_catalogs d" "Suc (next_id d) < next_id d'" "length (evidence_title f cid a) \<le> 255"
    "alerts e = alerts d"
    "update_alerts env a (gap_title f cid a) (status_of r a) (gap_description r (status_of r a))
       (gap_details env a f cid r c (next_id d) (Suc (next_id d))) e = Inr d'"
proof -
  let ?stored = "d\<lparr>next_id := next_id d + 2, assessment_results := assessment_results d @ [result_row env a r k (next_id d)],
     evidence_items := evidence_items d @ [evidence_row env a f cid r (Suc (next_id d))],
     assessment_evidences := assessment_evidences d @ [lineage_row env (next_id d) (Suc (next_id d))]\<rparr>"
  let ?e = "store_mapping env a f cid (status_of r a) (mapping_evidence env a r c (next_id d) (Suc (next_id d))) ?stored"
  from assms have len: "length (evidence_title f cid a) \<le> 255"
    and e: "update_alerts env a (gap_title f cid a) (status_of r a) (gap_description r (status_of r a))
       (gap_details env a f cid r c (next_id d) (Suc (next_id d))) ?e = Inr d'"
    by (auto simp: store_assessment_def store_result_def fresh_id_def Let_def split: if_splits)
  note m = mapping_frameD [OF store_mapping_frame(2) [where env = env and a = a and f = f and cid = cid and status = "status_of r a" and
    ev = "mapping_evidence env a r c (next_id d) (Suc (next_id d))" and d = ?stored]]
  note al = alerts_frameD [OF update_alerts_frame(2) [OF e]]
  have "Suc (next_id d) < next_id ?stored" by simp
  also have "\<dots> \<le> next_id ?e" by (rule store_mapping_frame(1))
  also have "\<dots> \<le> next_id d'" by (rule update_alerts_frame(1) [OF e])
  finally show ?thesis using len e m al by (intro that [of ?e]) simp_all
qed

text \<open>The assessments that a plan asks for, with the rule and the stored control.\<close>

definition dues :: "(string \<Rightarrow> string \<Rightarrow> (framework_control \<times> framework_catalog) option) \<Rightarrow> (asset \<times> string \<times> string) list \<Rightarrow>
    (asset \<times> string \<times> string \<times> control_rule \<times> framework_control \<times> framework_catalog) list" where
  "dues controls xs = concat (map (\<lambda>(a, f, cid). case controls f cid of None \<Rightarrow> []
     | Some (k, c) \<Rightarrow> (case CONTROL_RULES f cid of None \<Rightarrow> [] | Some r \<Rightarrow> [(a, f, cid, r, k, c)])) xs)"

definition due_result :: "audit_env \<Rightarrow> asset \<times> string \<times> string \<times> control_rule \<times> framework_control \<times> framework_catalog \<Rightarrow> nat \<times> nat \<Rightarrow> assessment_result" where
  "due_result env x j = (case x of (a, f, cid, r, k, c) \<Rightarrow> result_row env a r k (fst j))"

definition due_evidence :: "audit_env \<Rightarrow> asset \<times> string \<times> string \<times> control_rule \<times> framework_control \<times> framework_catalog \<Rightarrow> nat \<times> nat \<Rightarrow> evidence_item" where
  "due_evidence env x j = (case x of (a, f, cid, r, k, c) \<Rightarrow> evidence_row env a f cid r (snd j))"

lemma dues_simps [simp]:
  "dues controls [] = []"
  "dues controls ((a, f, cid) # xs) = (case controls f cid of None \<Rightarrow> []
     | Some (k, c) \<Rightarrow> (case CONTROL_RULES f cid of None \<Rightarrow> [] | Some r \<Rightarrow> [(a, f, cid, r, k, c)])) @ dues controls xs"
  by (simp_all add: dues_def)

lemma audit_control_Inr:
  assumes "audit_control env controls (a, f, cid) s = Inr t"
  obtains (skipped) "controls f cid = None" "t = s"
  | (stored) k c r where "controls f cid = Some (k, c)" "CONTROL_RULES f cid = Some r"
      "store_assessment env a f cid r k c (au_db s) = Inr (au_db t)" "au_statuses t = count_up (status_of r a) (au_statuses s)"
      "au_frameworks t = count_in f (status_of r a) (au_frameworks s)"
      "au_noncompliant t = au_noncompliant s + (if status_of r a = ''compliant'' then 0 else 1)" "au_evidence t = au_evidence s + 1"
  using assms by (auto simp: audit_control_def rbind_eq_Inr split: option.splits prod.splits)

text \<open>The rows a plan stores; the pairs are the identifiers of the results and of their evidence.\<close>

lemma assessment_tables:
  assumes "rfold (audit_control env controls) xs s = Inr t"
  shows "\<exists>js. length js = length (dues controls xs)
    \<and> assessment_results (au_db t) = assessment_results (au_db s) @ map2 (due_result env) (dues controls xs) js
    \<and> evidence_items (au_db t) = evidence_items (au_db s) @ map2 (due_evidence env) (dues controls xs) js
    \<and> assessment_evidences (au_db t) = assessment_evidences (au_db s) @ map (\<lambda>(i, j). lineage_row env i j) js
    \<and> distinct (map fst js) \<and> distinct (map snd js) \<and> (\<forall>(i, j)\<in>set js. next_id (au_db s) \<le> i \<and> i < j \<and> j < next_id (au_db t))
    \<and> next_id (au_db s) \<le> next_id (au_db t)"
  using assms
proof (induction xs arbitrary: s)
  case Nil
  then show ?case by (intro exI [of _ "[]"]) simp
next
  case (Cons x xs)
  obtain a f cid where x: "x = (a, f, cid)" by (cases x)
  from Cons.prems obtain u where u: "audit_control env controls (a, f, cid) s = Inr u" "rfold (audit_control env controls) xs u = Inr t"
    by (auto simp: rbind_eq_Inr x)
  from Cons.IH [OF u(2)] obtain js where js: "length js = length (dues controls xs)"
    "assessment_results (au_db t) = assessment_results (au_db u) @ map2 (due_result env) (dues controls xs) js"
    "evidence_items (au_db t) = evidence_items (au_db u) @ map2 (due_evidence env) (dues controls xs) js"
    "assessment_evidences (au_db t) = assessment_evidences (au_db u) @ map (\<lambda>(i, j). lineage_row env i j) js"
    "distinct (map fst js)" "distinct (map snd js)" "\<forall>(i, j)\<in>set js. next_id (au_db u) \<le> i \<and> i < j \<and> j < next_id (au_db t)"
    "next_id (au_db u) \<le> next_id (au_db t)" by blast
  from u(1) show ?case
  proof (cases rule: audit_control_Inr)
    case skipped
    with js show ?thesis by (intro exI [of _ js]) (simp add: x)
  next
    case (stored k c r)
    let ?i = "next_id (au_db s)"
    from stored(3) show ?thesis
    proof (rule store_assessment_Inr)
      assume new: "assessment_results (au_db u) = assessment_results (au_db s) @ [result_row env a r k ?i]"
        "evidence_items (au_db u) = evidence_items (au_db s) @ [evidence_row env a f cid r (Suc ?i)]"
        "assessment_evidences (au_db u) = assessment_evidences (au_db s) @ [lineage_row env ?i (Suc ?i)]" "Suc ?i < next_id (au_db u)"
      with js(5-8) have "distinct (map fst ((?i, Suc ?i) # js)) \<and> distinct (map snd ((?i, Suc ?i) # js))
          \<and> (\<forall>(i, j)\<in>set ((?i, Suc ?i) # js). ?i \<le> i \<and> i < j \<and> j < next_id (au_db t)) \<and> ?i \<le> next_id (au_db t)"
        by fastforce
      with new js(1-4) stored(1,2) show ?thesis by (intro exI [of _ "(?i, Suc ?i) # js"]) (simp add: x due_result_def due_evidence_def)
    qed
  qed
qed

section \<open>What a run stores\<close>

definition due :: "db \<Rightarrow> (asset \<times> string \<times> string \<times> control_rule \<times> framework_control \<times> framework_catalog) list" where
  "due d = dues (control_record d) (audit_plan (assets d))"

definition due_status :: "asset \<times> string \<times> string \<times> control_rule \<times> framework_control \<times> framework_catalog \<Rightarrow> string" where
  "due_status x = (case x of (a, f, cid, r, k, c) \<Rightarrow> status_of r a)"

lemma sum_count_up [simp]: "sum_list (map snd (count_up k c)) = sum_list (map snd c) + 1"
  by (induction c) auto

lemma count_of_count_up [simp]: "count_of x (count_up k c) = count_of x c + (if x = k then 1 else 0)"
  by (induction c) (auto simp: count_of_def split: if_splits)

lemma sum_count_fold: "sum_list (map snd (fold count_up ks c)) = sum_list (map snd c) + int (length ks)"
  by (induction ks arbitrary: c) simp_all

lemma audit_counts:
  assumes "rfold (audit_control env controls) xs s = Inr t"
  shows "au_statuses t = fold count_up (map due_status (dues controls xs)) (au_statuses s)
    \<and> au_frameworks t = fold (\<lambda>x. count_in (fst (snd x)) (due_status x)) (dues controls xs) (au_frameworks s)
    \<and> au_noncompliant t = au_noncompliant s + int (length (filter (\<lambda>x. due_status x \<noteq> ''compliant'') (dues controls xs)))
    \<and> au_evidence t = au_evidence s + int (length (dues controls xs))"
  using assms
proof (induction xs arbitrary: s)
  case (Cons x xs)
  obtain a f cid where x: "x = (a, f, cid)" by (cases x)
  from Cons.prems obtain u where u: "audit_control env controls (a, f, cid) s = Inr u" "rfold (audit_control env controls) xs u = Inr t"
    by (auto simp: rbind_eq_Inr x)
  from u(1) Cons.IH [OF u(2)] show ?case
    by (cases rule: audit_control_Inr) (simp_all add: x due_status_def)
qed simp

lemma run_audit_Inr:
  assumes "run_audit sha ff now finish initiated_by d = (Inr ao, d')"
  obtains env s t where "env = \<lparr> av_sha = sha, av_float = ff, av_now = now, av_run = next_id d \<rparr>"
    "au_db s = d\<lparr>next_id := Suc (next_id d), assessment_runs := assessment_runs d @ [new_run (next_id d) now initiated_by (assets d)]\<rparr>"
    "au_statuses s = []" "au_frameworks s = []" "au_noncompliant s = 0" "au_evidence s = 0"
    "rfold (audit_control env (control_record d)) (audit_plan (assets d)) s = Inr t"
    "ao = \<lparr> ao_run_id = next_id d, ao_audited = length (assets d), ao_results = sum_list (map snd (au_statuses t)),
       ao_critical_gaps = au_noncompliant t \<rparr>" "d' = complete_run (next_id d) finish (run_summary (assets d) t) (au_db t)"
proof -
  let ?env = "\<lparr> av_sha = sha, av_float = ff, av_now = now, av_run = next_id d \<rparr>"
  let ?s = "\<lparr> au_db = d\<lparr>next_id := Suc (next_id d), assessment_runs := assessment_runs d @ [new_run (next_id d) now initiated_by (assets d)]\<rparr>,
     au_statuses = [], au_frameworks = [], au_noncompliant = 0, au_evidence = 0 \<rparr>"
  have b: "begin_run sha ff now initiated_by d = (?env, ?s)" by (simp add: begin_run_def fresh_id_def Let_def)
  from assms obtain t where "rfold (audit_control ?env (control_record d)) (audit_plan (assets d)) ?s = Inr t"
    "ao = \<lparr> ao_run_id = next_id d, ao_audited = length (assets d), ao_results = sum_list (map snd (au_statuses t)),
       ao_critical_gaps = au_noncompliant t \<rparr>" "d' = complete_run (next_id d) finish (run_summary (assets d) t) (au_db t)"
    unfolding run_audit_def b by (auto split: sum.splits)
  then show ?thesis by (intro that [of ?env ?s t]) simp_all
qed

lemma complete_run_frame [simp]:
  "assessment_results (complete_run i finish sm d) = assessment_results d" "evidence_items (complete_run i finish sm d) = evidence_items d"
  "assessment_evidences (complete_run i finish sm d) = assessment_evidences d" "alerts (complete_run i finish sm d) = alerts d"
  "compliance_mappings (complete_run i finish sm d) = compliance_mappings d" "next_id (complete_run i finish sm d) = next_id d"
  by (simp_all add: complete_run_def)

lemma run_audit_rows:
  assumes "run_audit sha ff now finish initiated_by d = (Inr ao, d')"
  obtains env js where "env = \<lparr> av_sha = sha, av_float = ff, av_now = now, av_run = next_id d \<rparr>" "ao_run_id ao = next_id d"
    "length js = length (due d)" "assessment_results d' = assessment_results d @ map2 (due_result env) (due d) js"
    "evidence_items d' = evidence_items d @ map2 (due_evidence env) (due d) js"
    "assessment_evidences d' = assessment_evidences d @ map (\<lambda>(i, j). lineage_row env i j) js"
    "distinct (map fst js)" "distinct (map snd js)" "\<forall>(i, j)\<in>set js. next_id d < i \<and> i < j \<and> j < next_id d'"
    "ao_results ao = int (length (due d))"
    "ao_critical_gaps ao = int (length (filter (\<lambda>x. due_status x \<noteq> ''compliant'') (due d)))"
  using assms
proof (rule run_audit_Inr)
  fix env s t
  assume env: "env = \<lparr> av_sha = sha, av_float = ff, av_now = now, av_run = next_id d \<rparr>"
    and s: "au_db s = d\<lparr>next_id := Suc (next_id d), assessment_runs := assessment_runs d @ [new_run (next_id d) now initiated_by (assets d)]\<rparr>"
      "au_statuses s = []" "au_noncompliant s = 0"
    and r: "rfold (audit_control env (control_record d)) (audit_plan (assets d)) s = Inr t"
    and ao: "ao = \<lparr> ao_run_id = next_id d, ao_audited = length (assets d), ao_results = sum_list (map snd (au_statuses t)),
       ao_critical_gaps = au_noncompliant t \<rparr>" and d': "d' = complete_run (next_id d) finish (run_summary (assets d) t) (au_db t)"
  from assessment_tables [OF r] obtain js where js: "length js = length (due d)"
    "assessment_results (au_db t) = assessment_results d @ map2 (due_result env) (due d) js"
    "evidence_items (au_db t) = evidence_items d @ map2 (due_evidence env) (due d) js"
    "assessment_evidences (au_db t) = assessment_evidences d @ map (\<lambda>(i, j). lineage_row env i j) js"
    "distinct (map fst js)" "distinct (map snd js)" "\<forall>(i, j)\<in>set js. next_id (au_db s) \<le> i \<and> i < j \<and> j < next_id (au_db t)"
    unfolding due_def s(1) by auto
  have fresh: "\<forall>(i, j)\<in>set js. next_id d < i \<and> i < j \<and> j < next_id (au_db t)"
    using js(7) s(1) by fastforce
  from audit_counts [OF r] s(2,3) have n: "ao_results ao = int (length (due d))"
    "ao_critical_gaps ao = int (length (filter (\<lambda>x. due_status x \<noteq> ''compliant'') (due d)))"
    by (simp_all add: ao due_def sum_count_fold)
  show ?thesis by (rule that [OF env _ js(1)]) (use js fresh n in \<open>simp_all add: d' ao\<close>)
qed

text \<open>
  C26: What an assessment run records. One result for every asset and every rule whose control is
  stored in an active catalog, in the order of the loops, with the status, score and rationale
  the rule gives for the asset as it is, all under the identifier the run reports; the reported
  numbers are the number of results and of those that are not compliant.
\<close>

theorem audit_results_exact:
  assumes "run_audit sha ff now finish initiated_by d = (Inr ao, d')"
  shows "\<exists>new. assessment_results d' = assessment_results d @ new
    \<and> map (\<lambda>x. (as_asset_id x, as_control_id x, as_rule_key x)) new
        = map (\<lambda>(a, f, cid, r, k, c). (Some (a_id a), fk_id k, kr_rule_key r)) (due d)
    \<and> map (\<lambda>x. (as_status x, the (as_score x), as_confidence x, as_rationale x)) new = map (\<lambda>(a, f, cid, r, k, c). assess r a) (due d)
    \<and> (\<forall>x\<in>set new. as_run_id x = ao_run_id ao \<and> as_assessed_at x = now)
    \<and> ao_results ao = int (length new)
    \<and> ao_critical_gaps ao = int (length (filter (\<lambda>x. as_status x \<noteq> ''compliant'') new))"
  using assms
proof (rule run_audit_rows)
  fix env js
  assume env: "env = \<lparr> av_sha = sha, av_float = ff, av_now = now, av_run = next_id d \<rparr>" "ao_run_id ao = next_id d"
    and js: "length js = length (due d)" and rows: "assessment_results d' = assessment_results d @ map2 (due_result env) (due d) js"
    and n: "ao_results ao = int (length (due d))"
      "ao_critical_gaps ao = int (length (filter (\<lambda>x. due_status x \<noteq> ''compliant'') (due d)))"
  let ?new = "map2 (due_result env) (due d) js"
  note row = due_result_def result_row_def new_assessment_result_def
  have keys: "map (\<lambda>x. (as_asset_id x, as_control_id x, as_rule_key x)) ?new
      = map (\<lambda>(a, f, cid, r, k, c). (Some (a_id a), fk_id k, kr_rule_key r)) (due d)"
    using js by (intro nth_equalityI) (auto simp: row split: prod.splits)
  have content: "map (\<lambda>x. (as_status x, the (as_score x), as_confidence x, as_rationale x)) ?new = map (\<lambda>(a, f, cid, r, k, c). assess r a) (due d)"
    using js by (intro nth_equalityI) (auto simp: row split: prod.splits)
  have "map as_status ?new = map due_status (due d)"
    using js by (intro nth_equalityI) (auto simp: row due_status_def split: prod.splits)
  then have "filter (\<lambda>x. x \<noteq> ''compliant'') (map as_status ?new) = filter (\<lambda>x. x \<noteq> ''compliant'') (map due_status (due d))" by simp
  from arg_cong [OF this, of length] have gaps: "length (filter (\<lambda>x. as_status x \<noteq> ''compliant'') ?new)
      = length (filter (\<lambda>x. due_status x \<noteq> ''compliant'') (due d))"
    by (simp add: filter_map comp_def)
  have run: "\<forall>x\<in>set ?new. as_run_id x = next_id d \<and> as_assessed_at x = now"
    using env(1) by (auto simp: row set_zip split: prod.splits)
  show ?thesis using rows keys content run gaps n env(2) js by (intro exI [of _ ?new]) simp
qed

section \<open>Evidence\<close>

lemma rule_keys_known: "list_all (\<lambda>(f, cid). case CONTROL_RULES f cid of None \<Rightarrow> False
    | Some r \<Rightarrow> distinct (kr_evidence_fields r) \<and> kr_evidence_fields r \<noteq> [] \<and> length (kr_evidence_fields r) \<le> 3) rule_keys"
  by (simp add: rule_keys_def CONTROL_RULES_def FRAMEWORK_CATALOGS_def cis_controls_def nist_controls_def iso_controls_def)

lemma in_plan: "((a, f, cid) \<in> set (audit_plan xs)) = (a \<in> set xs \<and> (f, cid) \<in> set rule_keys)"
  by (auto simp: audit_plan_def)

lemma in_dues:
  "((a, f, cid, r, k, c) \<in> set (dues controls xs)) = ((a, f, cid) \<in> set xs \<and> controls f cid = Some (k, c) \<and> CONTROL_RULES f cid = Some r)"
  by (induction xs) (auto split: option.splits)

lemma dueD:
  assumes "(a, f, cid, r, k, c) \<in> set (due d)"
  shows "a \<in> set (assets d)" "(f, cid) \<in> set rule_keys" "control_record d f cid = Some (k, c)" "CONTROL_RULES f cid = Some r"
    "distinct (kr_evidence_fields r)" "kr_evidence_fields r \<noteq> []" "length (kr_evidence_fields r) \<le> 3"
proof -
  show "a \<in> set (assets d)" and key: "(f, cid) \<in> set rule_keys" and "control_record d f cid = Some (k, c)"
    and rule: "CONTROL_RULES f cid = Some r"
    using assms by (simp_all add: due_def in_dues in_plan)
  from key rule rule_keys_known show "distinct (kr_evidence_fields r)" "kr_evidence_fields r \<noteq> []" "length (kr_evidence_fields r) \<le> 3"
    by (auto simp: list_all_iff)
qed

text \<open>
  C27: Evidence is traceable and its hash can be recomputed. Every result of a run is linked to
  exactly one new evidence item, by position and with identifiers no other row has; the item
  names the asset and holds what the rule observed on it, and its hash is the hash of that
  content in whatever order the stored dictionary is read back.
\<close>

theorem evidence_lineage:
  assumes "run_audit sha ff now finish initiated_by d = (Inr ao, d')"
  shows "\<exists>new evs ls. assessment_results d' = assessment_results d @ new \<and> evidence_items d' = evidence_items d @ evs
    \<and> assessment_evidences d' = assessment_evidences d @ ls
    \<and> map ae_result_id ls = map as_id new \<and> map ae_evidence_id ls = map ev_id evs
    \<and> distinct (map as_id new) \<and> distinct (map ev_id evs)
    \<and> map (\<lambda>e. (ev_source_ref e, ev_observed e)) evs = map (\<lambda>(a, f, cid, r, k, c). (''asset:'' @ uuid_str (a_id a), observed r a)) (due d)
    \<and> (\<forall>e\<in>set evs. \<forall>stored. set stored = set (ev_observed e) \<and> distinct (map fst stored)
         \<longrightarrow> integrity_hash sha ff stored = ev_integrity_sha256 e)"
  using assms
proof (rule run_audit_rows)
  fix env js
  assume env: "env = \<lparr> av_sha = sha, av_float = ff, av_now = now, av_run = next_id d \<rparr>" and js: "length js = length (due d)"
    and rows: "assessment_results d' = assessment_results d @ map2 (due_result env) (due d) js"
      "evidence_items d' = evidence_items d @ map2 (due_evidence env) (due d) js"
      "assessment_evidences d' = assessment_evidences d @ map (\<lambda>(i, j). lineage_row env i j) js"
    and ids: "distinct (map fst js)" "distinct (map snd js)"
  let ?new = "map2 (due_result env) (due d) js" and ?evs = "map2 (due_evidence env) (due d) js" and ?ls = "map (\<lambda>(i, j). lineage_row env i j) js"
  note row = due_result_def result_row_def new_assessment_result_def due_evidence_def evidence_row_def new_evidence_item_def
  have keys: "map as_id ?new = map fst js" "map ev_id ?evs = map snd js" "map ae_result_id ?ls = map fst js" "map ae_evidence_id ?ls = map snd js"
    using js by (intro nth_equalityI; auto simp: row lineage_row_def split: prod.splits)+
  have content: "map (\<lambda>e. (ev_source_ref e, ev_observed e)) ?evs
      = map (\<lambda>(a, f, cid, r, k, c). (''asset:'' @ uuid_str (a_id a), observed r a)) (due d)"
    using js by (intro nth_equalityI) (auto simp: row split: prod.splits)
  have hash: "integrity_hash sha ff stored = ev_integrity_sha256 e"
    if e: "e \<in> set ?evs" and st: "set stored = set (ev_observed e)" "distinct (map fst stored)" for e stored
  proof -
    from e obtain a f cid r k c j where x: "(a, f, cid, r, k, c) \<in> set (due d)" and ev: "e = evidence_row env a f cid r j"
      by (auto simp: due_evidence_def set_zip split: prod.splits dest: nth_mem) (metis nth_mem)
    then have "ev_observed e = observed r a" "ev_integrity_sha256 e = integrity_hash sha ff (observed r a)"
      by (simp_all add: evidence_row_def env)
    moreover have "distinct (map fst (observed r a))" using dueD(5) [OF x] by (simp add: observed_def comp_def)
    ultimately show ?thesis using canonical_json_order [of stored "observed r a" ff] st by (simp add: integrity_hash_def)
  qed
  show ?thesis using rows keys ids content hash by (intro exI [of _ ?new] exI [of _ ?evs] exI [of _ ?ls]) auto
qed

section \<open>Gap alerts\<close>

definition open_gaps :: "asset \<Rightarrow> string \<Rightarrow> db \<Rightarrow> nat" where
  "open_gaps a title d = length (filter (gap_alert a title) (alerts d))"

lemma filter_update_same:
  "(\<And>x. P (f x) = P x) \<Longrightarrow> length (filter P (update_where Q f xs)) = length (filter P xs)"
  by (induction xs) auto

lemma gap_alert_details [simp]: "gap_alert a title (x\<lparr>al_description := s, al_details := v\<rparr>) = gap_alert a title x"
  by (simp add: gap_alert_def)

lemma gap_alert_closed [simp]: "\<not> gap_alert a title (close_gap now x)"
  by (simp add: gap_alert_def close_gap_def)

lemma gap_alert_key: "gap_alert a' title' x \<Longrightarrow> gap_alert a title x = (a_id a' = a_id a \<and> title' = title)"
  by (auto simp: gap_alert_def)

lemma gap_alert_same: "a_id a' = a_id a \<Longrightarrow> gap_alert a' = gap_alert a"
  by (simp add: gap_alert_def fun_eq_iff)

lemma raise_gap_count:
  assumes "raise_gap env a' title' description details d = Inr d'"
  shows "open_gaps a title d' = (if a_id a' = a_id a \<and> title' = title then max 1 (open_gaps a title d) else open_gaps a title d)"
proof (cases "filter (gap_alert a' title') (alerts d)")
  case Nil
  with assms obtain x where x: "alerts d' = alerts d @ [x]" "gap_alert a' title' x"
    by (auto simp: raise_gap_def fresh_id_def new_alert_def gap_alert_def split: if_splits)
  moreover have "open_gaps a title d = 0" if "a_id a' = a_id a" "title' = title"
    using Nil gap_alert_same [OF that(1)] that(2) by (simp add: open_gaps_def)
  ultimately show ?thesis using gap_alert_key [OF x(2), of a title] by (auto simp: open_gaps_def)
next
  case (Cons al als)
  with assms have "open_gaps a title d' = open_gaps a title d"
    by (auto simp: raise_gap_def open_gaps_def filter_update_same)
  moreover have "1 \<le> open_gaps a title d" if "a_id a' = a_id a" "title' = title"
    using Cons gap_alert_same [OF that(1)] that(2) by (simp add: open_gaps_def)
  ultimately show ?thesis by auto
qed

lemma close_gap_count:
  "open_gaps a title (d\<lparr>alerts := update_where (gap_alert a' title') (close_gap now) (alerts d)\<rparr>)
    = (if a_id a' = a_id a \<and> title' = title then 0 else open_gaps a title d)"
proof (cases "a_id a' = a_id a \<and> title' = title")
  case True
  have "filter (gap_alert a title) (update_where (gap_alert a title) (close_gap now) xs) = []" for xs
    by (induction xs) simp_all
  with True gap_alert_same [of a' a] show ?thesis by (simp add: open_gaps_def)
next
  case False
  have no: "\<not> gap_alert a title x" if "gap_alert a' title' x" for x using gap_alert_key [OF that] False by simp
  have "length (filter (gap_alert a title) (update_where (gap_alert a' title') (close_gap now) xs)) = length (filter (gap_alert a title) xs)" for xs
    by (induction xs) (auto dest: no)
  then show ?thesis using False unfolding open_gaps_def by auto
qed

definition gaps_after :: "asset \<Rightarrow> string \<Rightarrow> nat \<Rightarrow> nat" where
  "gaps_after a status n = (if status = ''compliant'' then 0 else if critical_asset a then max 1 n else n)"

lemma update_alerts_count:
  assumes "update_alerts env a' title' status description details d = Inr d'"
  shows "open_gaps a title d' = (if a_id a' = a_id a \<and> title' = title then gaps_after a' status (open_gaps a title d) else open_gaps a title d)"
  using assms raise_gap_count close_gap_count by (auto simp: update_alerts_def gaps_after_def split: if_splits)

lemma titles_distinct: "distinct (map (\<lambda>(f, cid). f @ '' '' @ cid) rule_keys)"
  by (simp add: rule_keys_def FRAMEWORK_CATALOGS_def cis_controls_def nist_controls_def iso_controls_def)

lemma gap_title_inj:
  assumes "(f, cid) \<in> set rule_keys" "(f', cid') \<in> set rule_keys" "gap_title f cid a = gap_title f' cid' a"
  shows "(f, cid) = (f', cid')"
proof -
  have "f @ '' '' @ cid = f' @ '' '' @ cid'" using assms(3) by (simp add: gap_title_def flip: append_assoc)
  with assms(1,2) titles_distinct show ?thesis by (auto simp: distinct_map inj_on_def)
qed

lemma distinct_plan:
  assumes "distinct (map a_id xs)"
  shows "distinct (audit_plan xs)"
proof -
  have k: "distinct rule_keys" using titles_distinct by (simp add: distinct_map)
  have m: "distinct (map (\<lambda>(f, cid). (a, f, cid)) rule_keys)" for a :: asset
    using k by (simp add: distinct_map inj_on_def)
  show ?thesis using assms
  proof (induction xs)
    case (Cons a xs)
    then have "a \<notin> set xs" by auto
    then have "set (map (\<lambda>(f, cid). (a, f, cid)) rule_keys) \<inter> set (audit_plan xs) = {}" by (auto simp: audit_plan_def)
    with Cons m show ?case by (simp add: audit_plan_def)
  qed (simp add: audit_plan_def)
qed

lemma audit_control_gaps:
  assumes "audit_control env controls (a', f', cid') s = Inr t"
  shows "open_gaps a title (au_db t) = (if a_id a' = a_id a \<and> gap_title f' cid' a' = title \<and> controls f' cid' \<noteq> None
      then gaps_after a' (case CONTROL_RULES f' cid' of Some r \<Rightarrow> status_of r a' | None \<Rightarrow> []) (open_gaps a title (au_db s))
      else open_gaps a title (au_db s))"
  using assms
proof (cases rule: audit_control_Inr)
  case (stored k c r)
  from stored(3) show ?thesis
  proof (rule store_assessment_Inr)
    fix e
    assume "alerts e = alerts (au_db s)" and u: "update_alerts env a' (gap_title f' cid' a') (status_of r a')
      (gap_description r (status_of r a')) (gap_details env a' f' cid' r c (next_id (au_db s)) (Suc (next_id (au_db s)))) e = Inr (au_db t)"
    then show ?thesis using update_alerts_count [OF u, of a title] stored(1,2) by (simp add: open_gaps_def)
  qed
qed simp

text \<open>
  C28: The open gap alerts after a run. For every assessment of a run, with distinct asset
  identifiers: a compliant one leaves no open gap alert with its title; one that is not, on a
  critical, tier-1 or high asset, leaves at least one and adds one only if there was none; on
  any other asset the open alerts stay as they were, none is raised.
\<close>

theorem gap_alerts_exact:
  assumes "run_audit sha ff now finish initiated_by d = (Inr ao, d')" "distinct (map a_id (assets d))"
    and "(a, f, cid, r, k, c) \<in> set (due d)"
  shows "open_gaps a (gap_title f cid a) d'
    = (if status_of r a = ''compliant'' then 0
       else if a_criticality a \<in> {''critical'', ''tier-1'', ''high''} then max 1 (open_gaps a (gap_title f cid a) d)
       else open_gaps a (gap_title f cid a) d)"
  using assms(1)
proof (rule run_audit_Inr)
  fix env s t
  assume s: "au_db s = d\<lparr>next_id := Suc (next_id d), assessment_runs := assessment_runs d @ [new_run (next_id d) now initiated_by (assets d)]\<rparr>"
    and run: "rfold (audit_control env (control_record d)) (audit_plan (assets d)) s = Inr t"
    and d': "d' = complete_run (next_id d) finish (run_summary (assets d) t) (au_db t)"
  note x = dueD [OF assms(3)]
  let ?m = "\<lambda>s. open_gaps a (gap_title f cid a) (au_db s)"
  have "?m t = gaps_after a (status_of r a) (?m s)"
  proof (rule rfold_once [OF run, where x = "(a, f, cid)" and m = ?m and g = "gaps_after a (status_of r a)"])
    show "(a, f, cid) \<in> set (audit_plan (assets d))" using x by (simp add: in_plan)
    show "distinct (audit_plan (assets d))" by (rule distinct_plan [OF assms(2)])
    show "?m v = gaps_after a (status_of r a) (?m u)" if "audit_control env (control_record d) (a, f, cid) u = Inr v" for u v
      using audit_control_gaps [OF that] x by simp
    fix y u v
    assume y: "y \<in> set (audit_plan (assets d))" "y \<noteq> (a, f, cid)" and v: "audit_control env (control_record d) y u = Inr v"
    obtain a' f' cid' where y': "y = (a', f', cid')" by (cases y)
    have "\<not> (a_id a' = a_id a \<and> gap_title f' cid' a' = gap_title f cid a)"
    proof
      assume eq: "a_id a' = a_id a \<and> gap_title f' cid' a' = gap_title f cid a"
      then have "a' = a" using assms(2) x(1) y(1) by (auto simp: y' in_plan distinct_map inj_on_def)
      with eq gap_title_inj [of f' cid' f cid a] x(2) y show False by (auto simp: y' in_plan)
    qed
    with audit_control_gaps [OF v [unfolded y']] show "?m v = ?m u" by auto
  qed
  then show ?thesis by (simp add: s d' gaps_after_def critical_asset_def open_gaps_def)
qed

section \<open>Names that stop a run\<close>

lemma store_assessment_DataError:
  "255 < length (evidence_title f cid a) \<Longrightarrow> store_assessment env a f cid r k c d = Inl DataError"
  by (simp add: store_assessment_def store_result_def fresh_id_def Let_def)

lemma store_assessment_error: "store_assessment env a f cid r k c d = Inl e \<Longrightarrow> e = DataError"
  by (auto simp: store_assessment_def store_result_def update_alerts_def raise_gap_def fresh_id_def Let_def
      split: if_splits list.splits)

lemma store_assessment_ok:
  "length (gap_title f cid a) \<le> 255 \<Longrightarrow> \<exists>d'. store_assessment env a f cid r k c d = Inr d'"
  by (auto simp: store_assessment_def store_result_def update_alerts_def raise_gap_def fresh_id_def Let_def
      evidence_title_def gap_title_def split: if_splits list.splits)

lemma audit_control_error:
  assumes "(a, f, cid) \<in> set (audit_plan xs)" "audit_control env controls (a, f, cid) s = Inl e"
  shows "e = DataError"
proof -
  have "CONTROL_RULES f cid \<noteq> None" using assms(1) rule_keys_known by (auto simp: in_plan list_all_iff split: option.splits)
  with assms(2) store_assessment_error show ?thesis
    by (auto simp: audit_control_def rbind_eq_Inl split: option.splits prod.splits)
qed

lemma rfold_error:
  "rfold step xs s = Inl e \<Longrightarrow> (\<And>x u e. x \<in> set xs \<Longrightarrow> step x u = Inl e \<Longrightarrow> P e) \<Longrightarrow> P e"
  by (induction xs arbitrary: s) (auto simp: rbind_eq_Inl)

lemma run_stopped:
  assumes x: "(a, f, cid, r, k, c) \<in> set (due d)" and long: "255 < length (evidence_title f cid a)"
  shows "run_audit sha ff now finish initiated_by d = (Inl DataError, d)"
proof -
  obtain env s where b: "begin_run sha ff now initiated_by d = (env, s)" by fastforce
  have "\<exists>e. rfold (audit_control env (control_record d)) (audit_plan (assets d)) s = Inl e"
  proof (rule rfold_fails)
    show "(a, f, cid) \<in> set (audit_plan (assets d))" using dueD [OF x] by (simp add: in_plan)
    show "\<exists>e. audit_control env (control_record d) (a, f, cid) s = Inl e" for s
      using dueD [OF x] long by (simp add: audit_control_def store_assessment_DataError)
  qed
  then obtain e where e: "rfold (audit_control env (control_record d)) (audit_plan (assets d)) s = Inl e" by blast
  then have "e = DataError"
  proof (rule rfold_error)
    fix y u e assume "y \<in> set (audit_plan (assets d))" "audit_control env (control_record d) y u = Inl e"
    then show "e = DataError" using audit_control_error [of "fst y" "fst (snd y)" "snd (snd y)"] by simp
  qed
  with e show ?thesis by (simp add: run_audit_def b)
qed

lemma run_completes:
  assumes short: "\<forall>(a, f, cid, r, k, c)\<in>set (due d). length (gap_title f cid a) \<le> 255"
  shows "\<exists>ao d'. run_audit sha ff now finish initiated_by d = (Inr ao, d')"
proof -
  obtain env s where b: "begin_run sha ff now initiated_by d = (env, s)" by fastforce
  have "\<exists>t. rfold (audit_control env (control_record d)) (audit_plan (assets d)) s = Inr t \<and> True"
  proof (rule rfold_total)
    fix y u assume y: "y \<in> set (audit_plan (assets d))"
    obtain a f cid where y': "y = (a, f, cid)" by (cases y)
    show "\<exists>v. audit_control env (control_record d) y u = Inr v \<and> True"
    proof (cases "control_record d f cid")
      case None
      then show ?thesis by (simp add: audit_control_def y')
    next
      case (Some kc)
      obtain k c where kc: "kc = (k, c)" by (cases kc)
      obtain r where r: "CONTROL_RULES f cid = Some r"
        using y rule_keys_known by (auto simp: y' in_plan list_all_iff split: option.splits)
      have "(a, f, cid, r, k, c) \<in> set (due d)" using y Some kc r by (simp add: due_def in_dues y')
      with short have "length (gap_title f cid a) \<le> 255" by auto
      from store_assessment_ok [OF this, of env r k c "au_db u"] Some kc r show ?thesis by (auto simp: audit_control_def y')
    qed
  qed simp
  then show ?thesis by (auto simp: run_audit_def b)
qed

text \<open>
  A long name stops every assessment. Names of 255 characters are stored, but the title of
  an evidence item adds the framework and the control to the name: one asset whose title does
  not fit makes each run fail and record nothing, for all assets. A run in which every alert
  title fits always completes.
\<close>

theorem long_name_stops_audit:
  "((\<exists>(a, f, cid, r, k, c)\<in>set (due d). 255 < length (evidence_title f cid a))
      \<longrightarrow> run_audit sha ff now finish initiated_by d = (Inl DataError, d))
   \<and> ((\<forall>(a, f, cid, r, k, c)\<in>set (due d). length (gap_title f cid a) \<le> 255)
      \<longrightarrow> (\<exists>ao d'. run_audit sha ff now finish initiated_by d = (Inr ao, d')))"
  by (intro conjI impI) (auto intro: run_stopped run_completes)

section \<open>Bounds\<close>

lemma fl_one: "fl 1 = 1" "fl 100 = 100"
  using fl_of_int [of 1] fl_of_int [of 100] by simp_all

lemma py_round2_range:
  assumes "0 \<le> x" "x \<le> of_int n" "\<bar>n\<bar> \<le> 100"
  shows "0 \<le> py_round2 x" "py_round2 x \<le> of_int n"
proof -
  have z: "py_round 0 = 0" using py_round_of_int [of 0] by simp
  have n: "py_round (of_int (n * 100)) = n * 100" by (rule py_round_of_int)
  have "py_round 0 \<le> py_round (x * 100)" "py_round (x * 100) \<le> py_round (of_int (n * 100))"
    by (rule py_round_mono; use assms in simp)+
  with z n have b: "0 \<le> py_round (x * 100)" "py_round (x * 100) \<le> n * 100" by simp_all
  then show "0 \<le> py_round2 x" by (simp add: py_round2_def fl_nonneg)
  from b(2) have "(of_int (py_round (x * 100)) :: rat) \<le> of_int (n * 100)" by (simp only: of_int_le_iff)
  then have "fl (of_int (py_round (x * 100)) / 100) \<le> fl (of_int n)" by (intro fl_mono) simp
  then show "py_round2 x \<le> of_int n" using fl_of_int [of n] assms(3) by (simp add: py_round2_def)
qed

definition pct_ok :: "pyval \<Rightarrow> bool" where
  "pct_ok v = (case v of PInt n \<Rightarrow> n = 0 | PFloat x \<Rightarrow> 0 \<le> x \<and> x \<le> 100 | _ \<Rightarrow> False)"

lemma percentage_ok:
  assumes "0 \<le> n" "n \<le> m"
  shows "pct_ok (percentage n m)"
proof (cases "m = 0")
  case False
  with assms have q: "0 \<le> of_int n / (of_int m :: rat)" "of_int n / (of_int m :: rat) \<le> 1" by simp_all
  then have d: "0 \<le> fdiv (of_int n) (of_int m)" "fdiv (of_int n) (of_int m) \<le> 1"
    using fl_mono [OF q(2)] fl_one by (simp_all add: fdiv_def fl_nonneg)
  then have "0 \<le> fmul (fdiv (of_int n) (of_int m)) 100" "fmul (fdiv (of_int n) (of_int m)) 100 \<le> of_int 100"
    using fl_mono [of "fdiv (of_int n) (of_int m) * 100" 100] fl_one by (simp_all add: fmul_def fl_nonneg)
  from py_round2_range [OF this] False show ?thesis by (simp add: pct_ok_def percentage_def)
qed (simp add: pct_ok_def percentage_def)

lemma count_of_fold: "count_of k (fold count_up ks c) = count_of k c + int (length (filter (\<lambda>x. x = k) ks))"
  by (induction ks arbitrary: c) simp_all

lemma map_of_count_in:
  "map_of (count_in f k cs) g = (if g = f then Some (count_up k (case map_of cs f of None \<Rightarrow> [] | Some c \<Rightarrow> c)) else map_of cs g)"
  by (induction cs) auto

lemma count_in_keys: "map fst (count_in f k cs) = (if f \<in> set (map fst cs) then map fst cs else map fst cs @ [f])"
  by (induction cs) force+

lemma fold_count_in:
  "map_of (fold (\<lambda>x. count_in (F x) (K x)) xs cs) g = (let ks = map K (filter (\<lambda>x. F x = g) xs)
     in if ks = [] then map_of cs g else Some (fold count_up ks (case map_of cs g of None \<Rightarrow> [] | Some c \<Rightarrow> c)))"
  by (induction xs arbitrary: cs) (auto simp: map_of_count_in Let_def)

lemma fold_count_in_distinct: "distinct (map fst cs) \<Longrightarrow> distinct (map fst (fold (\<lambda>x. count_in (F x) (K x)) xs cs))"
  by (induction xs arbitrary: cs) (simp_all add: count_in_keys)

text \<open>The summary of a framework over the statuses of its results.\<close>

lemma framework_summary_counts:
  "jget (framework_summary (fold count_up ks [])) ''compliance_pct''
    = percentage (int (length (filter (\<lambda>x. x = ''compliant'') ks))) (int (length (filter (\<lambda>x. x \<noteq> ''not_applicable'') ks)))"
proof -
  have "int (length ks) - int (length (filter (\<lambda>x. x = ''not_applicable'') ks)) = int (length (filter (\<lambda>x. x \<noteq> ''not_applicable'') ks))"
    using sum_length_filter_compl [of "\<lambda>x. x = ''not_applicable''" ks] by simp
  then show ?thesis by (simp add: framework_summary_def Let_def sum_count_fold count_of_fold) (simp add: count_of_def)
qed

lemma framework_summary_ok: "pct_ok (jget (framework_summary (fold count_up ks [])) ''compliance_pct'')"
proof -
  have "length (filter (\<lambda>x. x = ''compliant'') ks) \<le> length (filter (\<lambda>x. x \<noteq> ''not_applicable'') ks)"
    by (induction ks) auto
  then show ?thesis unfolding framework_summary_counts by (intro percentage_ok) simp_all
qed

text \<open>The scores that the catalogs' rules can give.\<close>

lemma partial_score:
  assumes "0 < p" "p < q" "q \<le> 3"
  shows "0 < py_round2 (fdiv (of_nat p) (of_nat q))" "py_round2 (fdiv (of_nat p) (of_nat q)) < 1"
proof -
  from assms consider "p = 1" "q = 2" | "p = 1" "q = 3" | "p = 2" "q = 3" by linarith
  then have "0 < py_round2 (fdiv (of_nat p) (of_nat q)) \<and> py_round2 (fdiv (of_nat p) (of_nat q)) < 1"
  proof cases
    case 1
    have "0 < py_round2 (fdiv 1 2) \<and> py_round2 (fdiv 1 2) < 1" by code_simp
    with 1 show ?thesis by simp
  next
    case 2
    have "0 < py_round2 (fdiv 1 3) \<and> py_round2 (fdiv 1 3) < 1" by code_simp
    with 2 show ?thesis by simp
  next
    case 3
    have "0 < py_round2 (fdiv 2 3) \<and> py_round2 (fdiv 2 3) < 1" by code_simp
    with 3 show ?thesis by simp
  qed
  then show "0 < py_round2 (fdiv (of_nat p) (of_nat q))" "py_round2 (fdiv (of_nat p) (of_nat q)) < 1" by simp_all
qed

definition score_ok :: "string \<Rightarrow> rat \<Rightarrow> bool" where
  "score_ok status s = (status \<in> {''compliant'', ''partial'', ''gap''} \<and> 0 \<le> s \<and> s \<le> 1
     \<and> (s = 1) = (status = ''compliant'') \<and> (s = 0) = (status = ''gap''))"

lemma assess_score_ok:
  assumes "length (kr_evidence_fields r) \<le> 3"
  shows "score_ok (status_of r a) (fst (snd (assess r a)))"
proof -
  have "length (observed r a) \<le> 3" using assms by (simp add: observed_def)
  with partial_score [of "present r a" "length (observed r a)"] show ?thesis
    by (auto simp: assess_def score_ok_def Let_def)
qed

text \<open>
  The numbers of a run are in range. Every recorded status is one of three, its score lies
  between 0 and 1 and is 1 exactly for compliant and 0 exactly for gap; the gaps counted are at
  most the results; the run is stored as completed and every framework in its summary has a
  percentage between 0 and 100.
\<close>

theorem assessment_bounds:
  assumes "run_audit sha ff now finish initiated_by d = (Inr ao, d')"
  shows "\<exists>new row fws. assessment_results d' = assessment_results d @ new \<and> (\<forall>x\<in>set new. score_ok (as_status x) (the (as_score x)))
    \<and> 0 \<le> ao_critical_gaps ao \<and> ao_critical_gaps ao \<le> ao_results ao
    \<and> row \<in> set (assessment_runs d') \<and> ar_id row = ao_run_id ao \<and> ar_status row = ''completed''
    \<and> jget (ar_summary row) ''frameworks'' = PDict fws
    \<and> (\<forall>(f, v)\<in>set fws. \<exists>s. v = PDict s \<and> pct_ok (jget s ''compliance_pct''))"
  using assms
proof (rule run_audit_Inr)
  fix env s t
  assume s: "au_db s = d\<lparr>next_id := Suc (next_id d), assessment_runs := assessment_runs d @ [new_run (next_id d) now initiated_by (assets d)]\<rparr>"
      "au_frameworks s = []"
    and run: "rfold (audit_control env (control_record d)) (audit_plan (assets d)) s = Inr t"
    and ao: "ao = \<lparr> ao_run_id = next_id d, ao_audited = length (assets d), ao_results = sum_list (map snd (au_statuses t)),
       ao_critical_gaps = au_noncompliant t \<rparr>" and d': "d' = complete_run (next_id d) finish (run_summary (assets d) t) (au_db t)"
  have runs: "assessment_runs (au_db t) = assessment_runs (au_db s)"
    by (rule rfold_invariant [OF _ run, where P = "\<lambda>u. assessment_runs (au_db u) = assessment_runs (au_db s)"])
      (auto elim!: audit_control_Inr store_assessment_Inr)
  let ?fin = "\<lambda>r. r\<lparr>ar_summary := run_summary (assets d) t, ar_status := ''completed'', ar_completed_at := Some finish\<rparr>"
  let ?row = "?fin (new_run (next_id d) now initiated_by (assets d))"
  let ?fws = "map (\<lambda>(f, c). (f, PDict (framework_summary c))) (au_frameworks t)"
  have row: "?row \<in> set (assessment_runs d')" "ar_id ?row = ao_run_id ao" "jget (ar_summary ?row) ''frameworks'' = PDict ?fws"
    by (simp_all add: d' ao complete_run_def runs s new_run_def new_assessment_run_def run_summary_def jget_def)
  have pct: "\<exists>s. v = PDict s \<and> pct_ok (jget s ''compliance_pct'')" if fv: "(f, v) \<in> set ?fws" for f v
  proof -
    from fv obtain c where c: "(f, c) \<in> set (au_frameworks t)" "v = PDict (framework_summary c)" by auto
    have fw: "au_frameworks t = fold (\<lambda>x. count_in (fst (snd x)) (due_status x)) (due d) []"
      using audit_counts [OF run] s(2) by (simp add: due_def)
    have "distinct (map fst (au_frameworks t))" unfolding fw by (rule fold_count_in_distinct) simp
    with c(1) have "map_of (au_frameworks t) f = Some c" by simp
    then obtain ks where "c = fold count_up ks []" by (auto simp: fw fold_count_in Let_def split: if_splits)
    with c(2) framework_summary_ok show ?thesis by auto
  qed
  have scores: "\<exists>new. assessment_results d' = assessment_results d @ new \<and> (\<forall>x\<in>set new. score_ok (as_status x) (the (as_score x)))
      \<and> 0 \<le> ao_critical_gaps ao \<and> ao_critical_gaps ao \<le> ao_results ao"
    using assms
  proof (rule run_audit_rows)
    fix env js
    assume js: "assessment_results d' = assessment_results d @ map2 (due_result env) (due d) js"
      and n: "ao_results ao = int (length (due d))"
        "ao_critical_gaps ao = int (length (filter (\<lambda>x. due_status x \<noteq> ''compliant'') (due d)))"
    have "score_ok (as_status x) (the (as_score x))" if "x \<in> set (map2 (due_result env) (due d) js)" for x
    proof -
      from that obtain a f cid r k c i where x: "(a, f, cid, r, k, c) \<in> set (due d)" "x = result_row env a r k i"
        by (auto simp: due_result_def set_zip split: prod.splits) (metis nth_mem)
      then show ?thesis using assess_score_ok [OF dueD(7) [OF x(1)], of a]
        by (simp add: result_row_def new_assessment_result_def case_prod_beta)
    qed
    with js n show ?thesis by (intro exI [of _ "map2 (due_result env) (due d) js"]) simp
  qed
  from scores obtain new where new: "assessment_results d' = assessment_results d @ new"
    "\<forall>x\<in>set new. score_ok (as_status x) (the (as_score x))" "0 \<le> ao_critical_gaps ao" "ao_critical_gaps ao \<le> ao_results ao" by blast
  have st: "ar_status ?row = ''completed''" by simp
  have all: "\<forall>(f, v)\<in>set ?fws. \<exists>s. v = PDict s \<and> pct_ok (jget s ''compliance_pct'')" using pct by blast
  show ?thesis by (intro exI conjI) (rule new row st all)+
qed

section \<open>A run on one asset\<close>

definition sample_critical :: asset where
  "sample_critical = (new_asset 3 0)\<lparr>a_name := ''srv'', a_criticality := ''critical''\<rparr>"

definition sample_control :: framework_control where
  "sample_control = (new_framework_control 2)\<lparr>fk_catalog_id := 1, fk_control_id := ''1.1'', fk_title := ''Enterprise asset inventory''\<rparr>"

definition sample_catalog :: framework_catalog where
  "sample_catalog = (new_framework_catalog 1 0)\<lparr>fc_code := ''cis-v8'', fc_version := ''8.1''\<rparr>"

definition sample_estate :: "asset \<Rightarrow> db" where
  "sample_estate a = empty_db\<lparr>next_id := 10, assets := [a], framework_catalogs := [sample_catalog], framework_controls := [sample_control]\<rparr>"

definition sample_rule :: control_rule where "sample_rule = the (CONTROL_RULES ''cis-v8'' ''1.1'')"

lemma sample_rules: "CONTROL_RULES ''cis-v8'' ''1.1'' = Some sample_rule"
  "sample_rule = snd (hd cis_controls)"
  by (simp_all add: sample_rule_def CONTROL_RULES_def FRAMEWORK_CATALOGS_def cis_controls_def)

lemma sample_assets: "assets (sample_estate a) = [a]"
  by (simp add: sample_estate_def)

lemma sample_record: "control_record (sample_estate a) f cid = (if f = ''cis-v8'' \<and> cid = ''1.1'' then Some (sample_control, sample_catalog) else None)"
  by (auto simp: control_record_def active_controls_def sample_estate_def sample_catalog_def sample_control_def
      new_framework_catalog_def new_framework_control_def)

lemma sample_due: "due (sample_estate a) = [(a, ''cis-v8'', ''1.1'', sample_rule, sample_control, sample_catalog)]"
proof -
  have "due (sample_estate a) = concat (map (\<lambda>(f, cid). if f = ''cis-v8'' \<and> cid = ''1.1''
      then [(a, f, cid, sample_rule, sample_control, sample_catalog)] else []) rule_keys)"
    by (auto simp: due_def dues_def audit_plan_def sample_record sample_rules(1) comp_def sample_assets
        intro!: arg_cong [where f = concat])
  then show ?thesis
    by (simp add: rule_keys_def FRAMEWORK_CATALOGS_def cis_controls_def nist_controls_def iso_controls_def)
qed

lemma sample_status: "status_of sample_rule sample_critical = ''partial''"
  unfolding sample_rules(2) by code_simp

lemma sample_run: "\<exists>ao d'. run_audit sha ff 5 6 ''root'' (sample_estate sample_critical) = (Inr ao, d')"
  by (rule run_completes) (simp add: sample_due gap_title_def sample_critical_def)

theorem audit_results_exact_witness:
  "\<exists>ao d'. run_audit (\<lambda>s. s) (\<lambda>x. []) 5 6 ''root'' (sample_estate sample_critical) = (Inr ao, d')
     \<and> map as_status (assessment_results d') = [''partial''] \<and> ao_critical_gaps ao = 1"
proof -
  obtain ao d' where r: "run_audit (\<lambda>s. s) (\<lambda>x. []) 5 6 ''root'' (sample_estate sample_critical) = (Inr ao, d')" using sample_run by blast
  from audit_results_exact [OF r] obtain new where new: "assessment_results d' = assessment_results (sample_estate sample_critical) @ new"
    "map (\<lambda>x. (as_status x, the (as_score x), as_confidence x, as_rationale x)) new = [assess sample_rule sample_critical]"
    "ao_critical_gaps ao = int (length (filter (\<lambda>x. as_status x \<noteq> ''compliant'') new))"
    by (auto simp: sample_due)
  then obtain x where x: "new = [x]" "(as_status x, the (as_score x), as_confidence x, as_rationale x) = assess sample_rule sample_critical"
    by auto
  then have "as_status x = ''partial''" using sample_status by (metis fst_conv)
  with r x new show ?thesis by (simp add: sample_estate_def empty_db_def)
qed

theorem evidence_lineage_witness:
  "\<exists>ao d'. run_audit (\<lambda>s. s) (\<lambda>x. []) 5 6 ''root'' (sample_estate sample_critical) = (Inr ao, d')
     \<and> map ev_source_ref (evidence_items d') = [''asset:3'']"
proof -
  obtain ao d' where r: "run_audit (\<lambda>s. s) (\<lambda>x. []) 5 6 ''root'' (sample_estate sample_critical) = (Inr ao, d')" using sample_run by blast
  from evidence_lineage [OF r] obtain evs where new: "evidence_items d' = evidence_items (sample_estate sample_critical) @ evs"
    "map (\<lambda>e. (ev_source_ref e, ev_observed e)) evs = [(''asset:'' @ uuid_str 3, observed sample_rule sample_critical)]"
    by (auto simp: sample_due sample_critical_def new_asset_def)
  moreover have "uuid_str 3 = ''3''" by code_simp
  ultimately obtain e where "evs = [e]" "ev_source_ref e = ''asset:3''" by (auto simp: map_eq_Cons_conv)
  with r new show ?thesis by (simp add: sample_estate_def empty_db_def)
qed

theorem gap_alerts_exact_witness:
  "\<exists>ao d'. run_audit (\<lambda>s. s) (\<lambda>x. []) 5 6 ''root'' (sample_estate sample_critical) = (Inr ao, d')
     \<and> open_gaps sample_critical ''Compliance gap: cis-v8 1.1 on srv'' d' = 1"
proof -
  obtain ao d' where r: "run_audit (\<lambda>s. s) (\<lambda>x. []) 5 6 ''root'' (sample_estate sample_critical) = (Inr ao, d')" using sample_run by blast
  have "open_gaps sample_critical (gap_title ''cis-v8'' ''1.1'' sample_critical) d' = 1"
    using gap_alerts_exact [OF r, of sample_critical "''cis-v8''" "''1.1''" sample_rule sample_control sample_catalog]
    by (simp add: sample_due sample_status) (simp add: sample_estate_def empty_db_def open_gaps_def sample_critical_def)
  moreover have "gap_title ''cis-v8'' ''1.1'' sample_critical = ''Compliance gap: cis-v8 1.1 on srv''"
    by (simp add: gap_title_def sample_critical_def)
  ultimately show ?thesis using r by auto
qed

definition long_named :: asset where
  "long_named = (new_asset 3 0)\<lparr>a_name := replicate 250 CHR ''x''\<rparr>"

theorem long_name_stops_audit_witness:
  "run_audit (\<lambda>s. s) (\<lambda>x. []) 5 6 ''root'' (sample_estate long_named) = (Inl DataError, sample_estate long_named)
   \<and> length (a_name long_named) \<le> 255
   \<and> (\<exists>ao d'. run_audit (\<lambda>s. s) (\<lambda>x. []) 5 6 ''root'' (sample_estate sample_critical) = (Inr ao, d'))"
proof -
  have n: "length (a_name long_named) = 250" by (simp add: long_named_def)
  have "255 < length (evidence_title ''cis-v8'' ''1.1'' long_named)" by (simp add: evidence_title_def n)
  then have "run_audit (\<lambda>s. s) (\<lambda>x. []) 5 6 ''root'' (sample_estate long_named) = (Inl DataError, sample_estate long_named)"
    using long_name_stops_audit [of "sample_estate long_named" "\<lambda>s. s" "\<lambda>x. []" 5 6 "''root''"] by (auto simp: sample_due)
  moreover have "length (gap_title ''cis-v8'' ''1.1'' sample_critical) \<le> 255" by (simp add: gap_title_def sample_critical_def)
  then have "\<exists>ao d'. run_audit (\<lambda>s. s) (\<lambda>x. []) 5 6 ''root'' (sample_estate sample_critical) = (Inr ao, d')"
    using long_name_stops_audit [of "sample_estate sample_critical" "\<lambda>s. s" "\<lambda>x. []" 5 6 "''root''"] by (auto simp: sample_due)
  ultimately show ?thesis using n by simp
qed

theorem assessment_bounds_witness:
  "\<exists>ao d'. run_audit (\<lambda>s. s) (\<lambda>x. []) 5 6 ''root'' (sample_estate sample_critical) = (Inr ao, d')
     \<and> 0 \<le> ao_critical_gaps ao \<and> ao_critical_gaps ao \<le> ao_results ao"
proof -
  obtain ao d' where r: "run_audit (\<lambda>s. s) (\<lambda>x. []) 5 6 ''root'' (sample_estate sample_critical) = (Inr ao, d')" using sample_run by blast
  from assessment_bounds [OF r] r show ?thesis by auto
qed

end
