(* ===== verification/ComplianceApi.thy ===== *)
theory ComplianceApi
  imports ComplianceAudit Admin
begin

text \<open>
  The compliance endpoints (\<open>app/api/compliance.py\<close>), after the guards: the summaries, the
  list of mappings with their latest results, the catalogs, the runs and the lineage of a
  result. Times are rendered as numbers. Rows that SQL leaves unordered come in table order;
  text is ordered by its bytes.
\<close>

section \<open>Counts\<close>

definition empty_counts :: jdict where
  "empty_counts = [(''compliant'', PInt 0), (''partial'', PInt 0), (''gap'', PInt 0), (''exception'', PInt 0),
     (''not_assessed'', PInt 0), (''not_applicable'', PInt 0), (''na'', PInt 0), (''unknown'', PInt 0)]"

definition numeric_count :: "jdict \<Rightarrow> string \<Rightarrow> int" where
  "numeric_count target key = (case map_of target key of
     Some (PInt n) \<Rightarrow> n | Some (PBool b) \<Rightarrow> (if b then 1 else 0)
   | Some (PFloat x) \<Rightarrow> (if x < 0 then - \<lfloor>- x\<rfloor> else \<lfloor>x\<rfloor>) | _ \<Rightarrow> 0)"

definition add_count :: "string \<Rightarrow> int \<Rightarrow> jdict \<Rightarrow> jdict" where
  "add_count status n target =
     (let key = (if status = ''na'' then ''not_applicable'' else status);
          target = jset key (PInt (numeric_count target key + n)) target
      in if status = ''na'' then jset ''na'' (PInt (numeric_count target ''na'' + n)) target else target)"

definition finalize_counts :: "jdict \<Rightarrow> jdict" where
  "finalize_counts target =
     (let total = sum_list (map (numeric_count target)
            [''compliant'', ''partial'', ''gap'', ''exception'', ''not_assessed'', ''not_applicable'', ''unknown'']);
          applicable = total - numeric_count target ''not_applicable'';
          target = jset ''total'' (PInt total) target;
          target = jset ''assessed'' (PInt (applicable - numeric_count target ''not_assessed'')) target
      in jset ''compliance_pct'' (percentage (numeric_count target ''compliant'') applicable) target)"

section \<open>Summaries\<close>

text \<open>\<open>completed_at DESC NULLS LAST, created_at DESC LIMIT 1\<close>\<close>

definition latest_first :: "('a \<Rightarrow> int option) \<Rightarrow> 'a list \<Rightarrow> 'a list" where
  "latest_first t xs = sort_key (\<lambda>x. - the (t x)) (filter (\<lambda>x. t x \<noteq> None) xs) @ filter (\<lambda>x. t x = None) xs"

definition latest_completed_run :: "db \<Rightarrow> assessment_run option" where
  "latest_completed_run d = (case latest_first ar_completed_at (sort_key (\<lambda>r. - ar_created_at r)
       (filter (\<lambda>r. ar_status r = ''completed'') (assessment_runs d))) of [] \<Rightarrow> None | r # rs \<Rightarrow> Some r)"

text \<open>The results with their control and its catalog.\<close>

definition joined :: "db \<Rightarrow> assessment_result list \<Rightarrow> (assessment_result \<times> framework_control \<times> framework_catalog) list" where
  "joined d xs = concat (map (\<lambda>x. concat (map (\<lambda>k. map (\<lambda>c. (x, k, c)) (filter (\<lambda>c. fc_id c = fk_catalog_id k) (framework_catalogs d)))
     (filter (\<lambda>k. fk_id k = as_control_id x) (framework_controls d)))) xs)"

text \<open>\<open>GROUP BY\<close> with a count, the groups in the order their first row is met.\<close>

definition grouped :: "'k list \<Rightarrow> ('k \<times> int) list" where
  "grouped ks = map (\<lambda>k. (k, int (length (filter (\<lambda>x. x = k) ks)))) (remdups ks)"

fun upsert :: "string \<Rightarrow> 'a \<Rightarrow> ('a \<Rightarrow> 'a) \<Rightarrow> (string \<times> 'a) list \<Rightarrow> (string \<times> 'a) list" where
  "upsert k v f [] = [(k, f v)]"
| "upsert k v f ((k', w) # s) = (if k' = k then (k', f w) # s else (k', w) # upsert k v f s)"

definition new_summary :: "db \<Rightarrow> assessment_run \<Rightarrow> (string \<times> jdict) list" where
  "new_summary d run =
     (let groups = grouped (map (\<lambda>(x, k, c). (fc_code c, fc_name c, fc_version c, as_status x))
            (joined d (filter (\<lambda>x. as_run_id x = ar_id run) (assessment_results d))));
          when = PInt (case ar_completed_at run of None \<Rightarrow> ar_created_at run | Some t \<Rightarrow> t);
          summary = fold (\<lambda>((f, name, version, status), n). upsert f
            (empty_counts @ [(''name'', PStr name), (''version'', PStr version), (''last_assessed_at'', when)]) (add_count status n)) groups []
      in map (\<lambda>(f, v). (f, finalize_counts v)) summary)"

definition legacy_summary :: "db \<Rightarrow> (string \<times> jdict) list" where
  "legacy_summary d = map (\<lambda>(f, v). (f, finalize_counts v))
     (fold (\<lambda>((f, status), n). upsert f empty_counts (add_count status n))
        (grouped (map (\<lambda>m. (cm_framework m, cm_status m)) (compliance_mappings d))) [])"

definition compliance_summary :: "db \<Rightarrow> (string \<times> jdict) list" where
  "compliance_summary d = (case latest_completed_run d of Some run \<Rightarrow> new_summary d run | None \<Rightarrow> legacy_summary d)"

section \<open>Mappings\<close>

definition key_get :: "jdict \<Rightarrow> string \<Rightarrow> pyval \<Rightarrow> pyval" where
  "key_get d k v = (case map_of d k of Some w \<Rightarrow> w | None \<Rightarrow> v)"

definition score_py :: "rat option \<Rightarrow> pyval" where
  "score_py s = (case s of None \<Rightarrow> PNone | Some x \<Rightarrow> PFloat x)"

definition latest_entry :: "assessment_result \<Rightarrow> framework_catalog \<Rightarrow> jdict" where
  "latest_entry x c = [(''result_id'', PStr (uuid_str (as_id x))), (''run_id'', PStr (uuid_str (as_run_id x))),
     (''framework_version'', PStr (fc_version c)), (''status'', PStr (as_status x)), (''score'', score_py (as_score x)),
     (''confidence'', PFloat (as_confidence x)), (''rationale'', PStr (as_rationale x)), (''evidence_ids'', PList [])]"

definition add_evidence_id :: "nat option \<Rightarrow> jdict \<Rightarrow> jdict" where
  "add_evidence_id ev entry = (case (ev, jget entry ''evidence_ids'') of
     (Some i, PList ids) \<Rightarrow> if PStr (uuid_str i) \<in> set ids then entry else jset ''evidence_ids'' (PList (ids @ [PStr (uuid_str i)])) entry
   | _ \<Rightarrow> entry)"

text \<open>The outer join with the evidence links; a row without link appears once.\<close>

definition with_links :: "db \<Rightarrow> (assessment_result \<times> framework_control \<times> framework_catalog) list \<Rightarrow>
    (assessment_result \<times> framework_control \<times> framework_catalog \<times> nat option) list" where
  "with_links d rows = concat (map (\<lambda>(x, k, c).
     case filter (\<lambda>l. ae_result_id l = as_id x) (assessment_evidences d) of
       [] \<Rightarrow> [(x, k, c, None)] | ls \<Rightarrow> map (\<lambda>l. (x, k, c, Some (ae_evidence_id l))) ls) rows)"

type_synonym lineage_key = "string \<times> string \<times> string"

fun add_latest :: "lineage_key \<Rightarrow> jdict \<Rightarrow> nat option \<Rightarrow> (lineage_key \<times> jdict) list \<Rightarrow> (lineage_key \<times> jdict) list" where
  "add_latest key entry ev [] = [(key, add_evidence_id ev entry)]"
| "add_latest key entry ev ((k, e) # es) = (if k = key then (k, add_evidence_id ev e) # es else (k, e) # add_latest key entry ev es)"

definition latest_by_key :: "db \<Rightarrow> (lineage_key \<times> jdict) list" where
  "latest_by_key d = fold (\<lambda>(x, k, c, ev).
       add_latest (case as_asset_id x of None \<Rightarrow> ''None'' | Some i \<Rightarrow> uuid_str i, fc_code c, fk_control_id k) (latest_entry x c) ev)
     (take 10000 (sort_key (\<lambda>(x, k, c, ev). - as_assessed_at x) (with_links d (joined d (assessment_results d))))) []"

definition mapping_rows :: "string option \<Rightarrow> string option \<Rightarrow> db \<Rightarrow> (compliance_mapping \<times> string) list" where
  "mapping_rows framework status d = take 1000 (concat (map (\<lambda>m. map (\<lambda>a. (m, a_name a)) (filter (\<lambda>a. a_id a = cm_asset_id m) (assets d)))
     (filter (\<lambda>m. keeps framework (cm_framework m) \<and> keeps status (cm_status m)) (compliance_mappings d))))"

definition mapping_item :: "jdict \<Rightarrow> compliance_mapping \<Rightarrow> string \<Rightarrow> jdict" where
  "mapping_item lineage m name =
     (let ev = cm_evidence m in
      [(''id'', PStr (uuid_str (cm_id m))), (''framework'', PStr (cm_framework m)),
       (''framework_version'', key_get lineage ''framework_version'' (jget ev ''framework_version'')),
       (''control_id'', PStr (cm_control_id m)), (''asset_id'', PStr (uuid_str (cm_asset_id m))), (''asset_name'', PStr name),
       (''status'', PStr (cm_status m)), (''score'', jget lineage ''score''), (''confidence'', jget lineage ''confidence''),
       (''rationale'', jget lineage ''rationale''), (''run_id'', key_get lineage ''run_id'' (jget ev ''assessment_run_id'')),
       (''result_id'', key_get lineage ''result_id'' (jget ev ''assessment_result_id'')),
       (''evidence_ids'', key_get lineage ''evidence_ids'' (PList [jget ev ''evidence_id''])),
       (''evidence'', PDict ev), (''assessed_at'', PInt (cm_assessed_at m))])"

definition list_compliance :: "string option \<Rightarrow> string option \<Rightarrow> db \<Rightarrow> jdict list" where
  "list_compliance framework status d =
     (let latest = latest_by_key d in map (\<lambda>(m, name).
        mapping_item (case map_of latest (uuid_str (cm_asset_id m), cm_framework m, cm_control_id m) of None \<Rightarrow> [] | Some e \<Rightarrow> e) m name)
        (mapping_rows framework status d))"

section \<open>Catalogs and runs\<close>

definition control_item :: "framework_control \<Rightarrow> jdict" where
  "control_item k = [(''id'', PStr (uuid_str (fk_id k))), (''control_id'', PStr (fk_control_id k)), (''title'', PStr (fk_title k)),
     (''objective'', PStr (fk_objective k)), (''family'', opt_py (fk_family k)), (''rule_key'', PStr (fk_rule_key k)),
     (''assessment_method'', PStr (fk_assessment_method k)), (''evidence_requirements'', PList (map PStr (fk_evidence_requirements k)))]"

definition list_frameworks :: "db \<Rightarrow> jdict list" where
  "list_frameworks d = map (\<lambda>c.
     [(''id'', PStr (uuid_str (fc_id c))), (''code'', PStr (fc_code c)), (''version'', PStr (fc_version c)), (''name'', PStr (fc_name c)),
      (''source_url'', opt_py (fc_source_url c)), (''active'', PBool (fc_active c)),
      (''controls'', PList (map (\<lambda>k. PDict (control_item k))
         (sort_key fk_sort_order (filter (\<lambda>k. fk_catalog_id k = fc_id c) (framework_controls d)))))])
     (sort_key fc_code (sort_key fc_version (framework_catalogs d)))"

definition run_row :: "assessment_run \<Rightarrow> jdict" where
  "run_row r = [(''id'', PStr (uuid_str (ar_id r))), (''framework_code'', PStr (ar_framework_code r)),
     (''framework_version'', PStr (ar_framework_version r)), (''status'', PStr (ar_status r)), (''scope'', PDict (ar_scope r)),
     (''methodology'', PDict (ar_methodology r)), (''summary'', PDict (ar_summary r)), (''started_at'', time_py (ar_started_at r)),
     (''completed_at'', time_py (ar_completed_at r)), (''initiated_by'', PStr (ar_initiated_by r)), (''created_at'', PInt (ar_created_at r))]"

text \<open>The limits outside which the request is refused before the handler runs.\<close>

definition list_assessment_runs :: "int \<Rightarrow> db \<Rightarrow> (jdict list \<times> nat) result" where
  "list_assessment_runs limit d =
     (if limit < 1 \<or> 200 < limit then Inl (HTTPException 422 ''limit'')
      else let runs = take (nat limit) (sort_key (\<lambda>r. - ar_created_at r) (assessment_runs d))
           in Inr (map run_row runs, length runs))"

definition asset_name :: "db \<Rightarrow> nat option \<Rightarrow> string option" where
  "asset_name d i = (case i of None \<Rightarrow> None | Some i \<Rightarrow> map_option a_name (find (\<lambda>a. a_id a = i) (assets d)))"

definition result_row_of :: "db \<Rightarrow> assessment_result \<times> framework_control \<times> framework_catalog \<Rightarrow> jdict" where
  "result_row_of d row = (case row of (x, k, c) \<Rightarrow>
     [(''id'', PStr (uuid_str (as_id x))), (''framework'', PStr (fc_code c)), (''framework_version'', PStr (fc_version c)),
      (''control_id'', PStr (fk_control_id k)), (''control_title'', PStr (fk_title k)),
      (''asset_id'', opt_py (map_option uuid_str (as_asset_id x))), (''asset_name'', opt_py (asset_name d (as_asset_id x))),
      (''status'', PStr (as_status x)), (''score'', score_py (as_score x)), (''confidence'', PFloat (as_confidence x)),
      (''rationale'', PStr (as_rationale x)), (''rule_key'', PStr (as_rule_key x)),
      (''evidence_count'', PInt (int (length (filter (\<lambda>l. ae_result_id l = as_id x) (assessment_evidences d))))),
      (''assessed_at'', PInt (as_assessed_at x))])"

definition assessment_run_detail :: "nat \<Rightarrow> int \<Rightarrow> db \<Rightarrow> (jdict \<times> jdict list) result" where
  "assessment_run_detail i limit d =
     (if limit < 1 \<or> 10000 < limit then Inl (HTTPException 422 ''limit'')
      else case find (\<lambda>r. ar_id r = i) (assessment_runs d) of
        None \<Rightarrow> Inl (HTTPException 404 ''Assessment run not found'')
      | Some r \<Rightarrow>
          let rows = joined d (filter (\<lambda>x. as_run_id x = i) (assessment_results d));
              named = filter (\<lambda>(x, k, c). asset_name d (as_asset_id x) \<noteq> None) rows;
              nameless = filter (\<lambda>(x, k, c). asset_name d (as_asset_id x) = None) rows;
              by_name = sort_key (\<lambda>(x, k, c). the (asset_name d (as_asset_id x))) named @ nameless;
              ordered = sort_key (\<lambda>(x, k, c). fc_code c) (sort_key (\<lambda>(x, k, c). fk_sort_order k) by_name)
          in Inr (run_row r, map (result_row_of d) (take (nat limit) ordered)))"

definition evidence_item_row :: "assessment_evidence \<times> evidence_item \<Rightarrow> jdict" where
  "evidence_item_row row = (case row of (l, e) \<Rightarrow>
     [(''id'', PStr (uuid_str (ev_id e))), (''relation'', PStr (ae_relation l)), (''role'', PStr (ae_role l)),
      (''extracted_by'', PStr (ae_extracted_by l)), (''source_type'', PStr (ev_source_type e)), (''source_ref'', PStr (ev_source_ref e)),
      (''title'', PStr (ev_title e)), (''description'', PStr (ev_description e)), (''observed'', PDict (ev_observed e)),
      (''observed_at'', time_py (ev_observed_at e)), (''captured_at'', PInt (ev_captured_at e)),
      (''integrity_sha256'', PStr (ev_integrity_sha256 e)), (''collector'', PStr (ev_collector e)), (''classification'', PStr (ev_classification e))])"

text \<open>The evidence of a result with its links.\<close>

definition linked_evidence :: "db \<Rightarrow> nat \<Rightarrow> (assessment_evidence \<times> evidence_item) list" where
  "linked_evidence d i = concat (map (\<lambda>l. map (Pair l) (filter (\<lambda>e. ev_id e = ae_evidence_id l) (evidence_items d)))
     (filter (\<lambda>l. ae_result_id l = i) (assessment_evidences d)))"

definition the_result :: "db \<Rightarrow> nat \<Rightarrow> (assessment_result \<times> framework_control \<times> framework_catalog \<times> assessment_run) option" where
  "the_result d i = (case concat (map (\<lambda>(x, k, c). map (\<lambda>r. (x, k, c, r)) (filter (\<lambda>r. ar_id r = as_run_id x) (assessment_runs d)))
       (joined d (filter (\<lambda>x. as_id x = i) (assessment_results d)))) of [] \<Rightarrow> None | row # rows \<Rightarrow> Some row)"

definition assessment_result_lineage :: "nat \<Rightarrow> db \<Rightarrow> (jdict \<times> jdict \<times> jdict list) result" where
  "assessment_result_lineage i d = (case the_result d i of
     None \<Rightarrow> Inl (HTTPException 404 ''Assessment result not found'')
   | Some (x, k, c, r) \<Rightarrow> Inr
       ([(''id'', PStr (uuid_str (as_id x))), (''framework'', PStr (fc_code c)), (''framework_version'', PStr (fc_version c)),
         (''control_id'', PStr (fk_control_id k)), (''control_title'', PStr (fk_title k)), (''control_objective'', PStr (fk_objective k)),
         (''asset_id'', opt_py (map_option uuid_str (as_asset_id x))), (''asset_name'', opt_py (asset_name d (as_asset_id x))),
         (''status'', PStr (as_status x)), (''score'', score_py (as_score x)), (''confidence'', PFloat (as_confidence x)),
         (''rationale'', PStr (as_rationale x)), (''rule_key'', PStr (as_rule_key x)), (''assessed_at'', PInt (as_assessed_at x))],
        [(''id'', PStr (uuid_str (ar_id r))), (''status'', PStr (ar_status r)), (''started_at'', time_py (ar_started_at r)),
         (''completed_at'', time_py (ar_completed_at r)), (''initiated_by'', PStr (ar_initiated_by r)), (''methodology'', PDict (ar_methodology r))],
        map evidence_item_row (latest_first (\<lambda>(l, e). ev_observed_at e) (sort_key (\<lambda>(l, e). - ev_created_at e) (linked_evidence d i)))))"

text \<open>The queued task with its argument.\<close>

definition trigger_audit :: "user \<Rightarrow> string \<times> string" where
  "trigger_audit who = (''app.workers.compliance_tasks.run_compliance_audit'', u_username who)"

section \<open>Counting by group\<close>

lemma map_of_upsert:
  "map_of (upsert k v f s) g = (if g = k then Some (f (case map_of s k of None \<Rightarrow> v | Some w \<Rightarrow> w)) else map_of s g)"
  by (induction s) auto

lemma map_of_second: "map_of (map (\<lambda>(k, v). (k, f v)) xs) k = map_option f (map_of xs k)"
  by (induction xs) auto

lemma sum_groups:
  fixes ks :: "'k list"
  assumes "finite A" "set ks \<subseteq> A"
  shows "(\<Sum>k\<in>{k\<in>A. P k}. int (length (filter (\<lambda>x. x = k) ks))) = int (length (filter P ks))"
  using assms(2)
proof (induction ks)
  case (Cons y ys)
  have "(\<Sum>k\<in>{k\<in>A. P k}. int (length (filter (\<lambda>x. x = k) (y # ys))))
      = (\<Sum>k\<in>{k\<in>A. P k}. int (length (filter (\<lambda>x. x = k) ys)) + (if k = y then 1 else 0))"
    by (rule sum.cong) auto
  also have "\<dots> = int (length (filter P ys)) + (if P y then 1 else 0)"
    using Cons assms(1) by (simp add: sum.distrib)
  finally show ?case by simp
qed simp

lemma sum_grouped: "sum_list (map snd (filter (\<lambda>(k, n). P k) (grouped ks))) = int (length (filter P ks))"
proof -
  have "filter (\<lambda>(k, n). P k) (grouped ks) = map (\<lambda>k. (k, int (length (filter (\<lambda>x. x = k) ks)))) (filter P (remdups ks))"
    by (simp add: grouped_def filter_map comp_def)
  then have "sum_list (map snd (filter (\<lambda>(k, n). P k) (grouped ks)))
      = (\<Sum>k\<in>set (filter P (remdups ks)). int (length (filter (\<lambda>x. x = k) ks)))"
    by (simp add: comp_def sum_list_distinct_conv_sum_set)
  moreover have "set (filter P (remdups ks)) = {k \<in> set ks. P k}" by auto
  ultimately show ?thesis using sum_groups [of "set ks" ks P] by simp
qed

lemma numeric_count_jset [simp]: "numeric_count (jset k v t) k' = (if k' = k then numeric_count [(k, v)] k else numeric_count t k')"
  by (simp add: numeric_count_def map_of_jset)

lemma numeric_count_one [simp]: "numeric_count [(k, PInt n)] k = n"
  by (simp add: numeric_count_def)

lemma numeric_add_count: "s \<noteq> ''na'' \<Longrightarrow> numeric_count (add_count s n t) k = numeric_count t k + (if k = s then n else 0)"
  by (simp add: add_count_def)

definition counted :: "string \<Rightarrow> string \<Rightarrow> (string \<times> jdict) list \<Rightarrow> int" where
  "counted f k s = (case map_of s f of None \<Rightarrow> 0 | Some v \<Rightarrow> numeric_count v k)"

text \<open>The count of a status after the groups of a summary, whatever the base entries.\<close>

lemma counted_fold:
  assumes "\<forall>(g, n)\<in>set gs. S g \<noteq> ''na''" "\<And>g. numeric_count (B g) k = 0"
  shows "counted f k (fold (\<lambda>(g, n). upsert (F g) (B g) (add_count (S g) n)) gs s)
    = counted f k s + sum_list (map snd (filter (\<lambda>(g, n). F g = f \<and> S g = k) gs))"
  using assms(1)
proof (induction gs arbitrary: s)
  case (Cons x gs)
  obtain g n where x: "x = (g, n)" by (cases x)
  have "counted f k (upsert (F g) (B g) (add_count (S g) n) s) = counted f k s + (if F g = f \<and> S g = k then n else 0)"
    using Cons.prems assms(2) [of g] by (auto simp: counted_def map_of_upsert numeric_add_count x split: option.splits)
  with Cons x show ?case by simp
qed simp

lemma fold_upsert_keys:
  "(map_of (fold (\<lambda>(g, n). upsert (F g) (B g) (U g n)) gs s) f \<noteq> None) = (f \<in> F ` fst ` set gs \<or> map_of s f \<noteq> None)"
proof (induction gs arbitrary: s)
  case (Cons x gs)
  then show ?case by (cases x) (auto simp: map_of_upsert)
qed simp

lemma set_grouped: "fst ` set (grouped ks) = set ks"
  by (auto simp: grouped_def image_image)

lemma finalize_get:
  "jget (finalize_counts v) ''total'' = PInt (numeric_count v ''compliant'' + numeric_count v ''partial'' + numeric_count v ''gap''
     + numeric_count v ''exception'' + numeric_count v ''not_assessed'' + numeric_count v ''not_applicable'' + numeric_count v ''unknown'')"
  "jget (finalize_counts v) ''compliance_pct'' = percentage (numeric_count v ''compliant'')
     (numeric_count v ''compliant'' + numeric_count v ''partial'' + numeric_count v ''gap''
     + numeric_count v ''exception'' + numeric_count v ''not_assessed'' + numeric_count v ''unknown'')"
  "k \<in> {''compliant'', ''partial'', ''gap''} \<Longrightarrow> numeric_count (finalize_counts v) k = numeric_count v k"
  by (auto simp: finalize_counts_def Let_def add.assoc)

section \<open>The summary of the last run\<close>

lemma find_SomeD: "find P xs = Some x \<Longrightarrow> x \<in> set xs \<and> P x"
  by (induction xs) (auto split: if_splits)

lemma latest_first_head:
  assumes y: "y \<in> set xs" "t y = Some m" and less: "\<forall>x\<in>set xs. x \<noteq> y \<longrightarrow> (case t x of None \<Rightarrow> True | Some n \<Rightarrow> n < m)"
  shows "\<exists>ys. latest_first t xs = y # ys"
proof -
  define zs where "zs = sort_key (\<lambda>x. - the (t x)) (filter (\<lambda>x. t x \<noteq> None) xs)"
  have mem: "set zs = {x \<in> set xs. t x \<noteq> None}" by (simp add: zs_def)
  have srt: "sorted (map (\<lambda>x. - the (t x)) zs)" by (simp add: zs_def)
  have "y \<in> set zs" using y by (simp add: mem)
  then obtain x ws where x: "zs = x # ws" by (cases zs) auto
  have "x = y"
  proof (rule ccontr)
    assume "x \<noteq> y"
    moreover have "x \<in> set xs" "t x \<noteq> None" using mem x by auto
    ultimately obtain n where n: "t x = Some n" "n < m" using less by force
    have "- the (t x) \<le> - the (t y)" using srt x \<open>y \<in> set zs\<close> \<open>x \<noteq> y\<close> by auto
    with n y(2) show False by simp
  qed
  with x show ?thesis by (simp add: latest_first_def zs_def)
qed

lemma record_joined:
  assumes "control_record d f cid = Some (k, c)"
  shows "k \<in> set (framework_controls d)" "c \<in> set (framework_catalogs d)" "fc_id c = fk_catalog_id k" "fc_code c = f"
proof -
  from assms have "(k, c) \<in> set (rev (active_controls d)) \<and> fc_code c = f"
    by (auto simp: control_record_def dest!: find_SomeD)
  then show "k \<in> set (framework_controls d)" "c \<in> set (framework_catalogs d)" "fc_id c = fk_catalog_id k" "fc_code c = f"
    by (auto simp: active_controls_def)
qed

text \<open>The tables a run only reads, and what it adds to the runs.\<close>

lemma run_audit_frame:
  assumes "run_audit sha ff now finish initiated_by d = (Inr ao, d')"
  shows "framework_controls d' = framework_controls d" "framework_catalogs d' = framework_catalogs d" "assets d' = assets d"
    "\<exists>t. assessment_runs d' = update_where (\<lambda>r. ar_id r = next_id d)
        (\<lambda>r. r\<lparr>ar_summary := run_summary (assets d) t, ar_status := ''completed'', ar_completed_at := Some finish\<rparr>)
        (assessment_runs d @ [new_run (next_id d) now initiated_by (assets d)])
      \<and> au_frameworks t = fold (\<lambda>x. count_in (fst (snd x)) (due_status x)) (due d) []"
proof -
  obtain env s t where s: "au_db s = d\<lparr>next_id := Suc (next_id d), assessment_runs := assessment_runs d @ [new_run (next_id d) now initiated_by (assets d)]\<rparr>"
      "au_frameworks s = []"
    and run: "rfold (audit_control env (control_record d)) (audit_plan (assets d)) s = Inr t"
    and d': "d' = complete_run (next_id d) finish (run_summary (assets d) t) (au_db t)"
    using assms by (rule run_audit_Inr)
  let ?P = "\<lambda>u. framework_controls (au_db u) = framework_controls d \<and> framework_catalogs (au_db u) = framework_catalogs d
    \<and> assets (au_db u) = assets d \<and> assessment_runs (au_db u) = assessment_runs (au_db s)"
  have "?P t" by (rule rfold_invariant [OF _ run, where P = ?P]) (auto simp: s elim!: audit_control_Inr store_assessment_Inr)
  then show "framework_controls d' = framework_controls d" "framework_catalogs d' = framework_catalogs d" "assets d' = assets d"
    "\<exists>t. assessment_runs d' = update_where (\<lambda>r. ar_id r = next_id d)
        (\<lambda>r. r\<lparr>ar_summary := run_summary (assets d) t, ar_status := ''completed'', ar_completed_at := Some finish\<rparr>)
        (assessment_runs d @ [new_run (next_id d) now initiated_by (assets d)])
      \<and> au_frameworks t = fold (\<lambda>x. count_in (fst (snd x)) (due_status x)) (due d) []"
    using audit_counts [OF run] s(2) by (auto simp: d' complete_run_def s(1) due_def)
qed

definition due_group :: "asset \<times> string \<times> string \<times> control_rule \<times> framework_control \<times> framework_catalog \<Rightarrow> string \<times> string \<times> string \<times> string" where
  "due_group x = (case x of (a, f, cid, r, k, c) \<Rightarrow> (f, fc_name c, fc_version c, status_of r a))"

text \<open>What the summary query sees of a run: one row for every assessment.\<close>

lemma run_groups:
  assumes "run_audit sha ff now finish initiated_by d = (Inr ao, d')"
    and "distinct (map fk_id (framework_controls d))" "distinct (map fc_id (framework_catalogs d))"
    and "\<forall>x\<in>set (assessment_results d). as_run_id x \<noteq> next_id d"
  shows "map (\<lambda>(x, k, c). (fc_code c, fc_name c, fc_version c, as_status x))
      (joined d' (filter (\<lambda>x. as_run_id x = next_id d) (assessment_results d'))) = map due_group (due d)"
  using assms(1)
proof (rule run_audit_rows)
  fix env js
  assume env: "env = \<lparr> av_sha = sha, av_float = ff, av_now = now, av_run = next_id d \<rparr>" and js: "length js = length (due d)"
    and rows: "assessment_results d' = assessment_results d @ map2 (due_result env) (due d) js"
  note frame = run_audit_frame [OF assms(1)]
  have "filter (\<lambda>x. as_run_id x = next_id d) (map2 (due_result env) (due d) js) = map2 (due_result env) (due d) js"
    by (auto simp: filter_id_conv due_result_def result_row_def env split: prod.splits)
  with assms(4) have run: "filter (\<lambda>x. as_run_id x = next_id d) (assessment_results d') = map2 (due_result env) (due d) js"
    by (simp add: rows)
  have one: "joined d' [due_result env (a, f, cid, r, k, c) j] = [(due_result env (a, f, cid, r, k, c) j, k, c)]
      \<and> (fc_code c, fc_name c, fc_version c, as_status (due_result env (a, f, cid, r, k, c) j)) = due_group (a, f, cid, r, k, c)"
    if x: "(a, f, cid, r, k, c) \<in> set (due d)" for a f cid r k c j
  proof -
    note kc = record_joined [OF dueD(3) [OF x]]
    have "filter (\<lambda>k'. fk_id k' = fk_id k) (framework_controls d') = [k]" "filter (\<lambda>c'. fc_id c' = fk_catalog_id k) (framework_catalogs d') = [c]"
      using filter_id_single [OF assms(2) kc(1)] filter_id_single [OF assms(3) kc(2)] kc(3) frame by simp_all
    with kc(4) show ?thesis by (simp add: joined_def due_result_def result_row_def due_group_def case_prod_beta)
  qed
  have app: "joined d' (x # xs) = joined d' [x] @ joined d' xs" for x xs by (simp add: joined_def)
  have "map (\<lambda>(x, k, c). (fc_code c, fc_name c, fc_version c, as_status x)) (joined d' (map2 (due_result env) ys zs)) = map due_group ys"
    if "set ys \<subseteq> set (due d)" "length ys = length zs" for ys zs
    using that(2,1)
  proof (induction ys zs rule: list_induct2)
    case (Cons y ys z zs)
    obtain a f cid r k c where y: "y = (a, f, cid, r, k, c)" by (cases y)
    with Cons.prems one [of a f cid r k c z] Cons.IH show ?case
      by (simp add: app [of _ "map2 (due_result env) ys zs"])
  qed (simp add: joined_def)
  with js run show ?thesis by simp
qed

lemma latest_run:
  assumes "run_audit sha ff now finish initiated_by d = (Inr ao, d')"
    and "\<forall>r\<in>set (assessment_runs d). ar_id r \<noteq> next_id d \<and> (case ar_completed_at r of None \<Rightarrow> True | Some t \<Rightarrow> t < finish)"
  obtains t row where "latest_completed_run d' = Some row" "ar_id row = next_id d"
    "ar_summary row = run_summary (assets d) t" "au_frameworks t = fold (\<lambda>x. count_in (fst (snd x)) (due_status x)) (due d) []"
proof -
  from run_audit_frame(4) [OF assms(1)] obtain t where t: "assessment_runs d' = update_where (\<lambda>r. ar_id r = next_id d)
        (\<lambda>r. r\<lparr>ar_summary := run_summary (assets d) t, ar_status := ''completed'', ar_completed_at := Some finish\<rparr>)
        (assessment_runs d @ [new_run (next_id d) now initiated_by (assets d)])"
    "au_frameworks t = fold (\<lambda>x. count_in (fst (snd x)) (due_status x)) (due d) []" by blast
  let ?row = "(new_run (next_id d) now initiated_by (assets d))\<lparr>ar_summary := run_summary (assets d) t, ar_status := ''completed'',
     ar_completed_at := Some finish\<rparr>"
  have runs: "assessment_runs d' = assessment_runs d @ [?row]"
    using assms(2) by (simp add: t(1) update_where_none new_run_def new_assessment_run_def)
  have "\<exists>ys. latest_first ar_completed_at (sort_key (\<lambda>r. - ar_created_at r) (filter (\<lambda>r. ar_status r = ''completed'') (assessment_runs d')))
      = ?row # ys"
    by (rule latest_first_head [where m = finish]) (use assms(2) in \<open>auto simp: runs\<close>)
  then have "latest_completed_run d' = Some ?row" by (auto simp: latest_completed_run_def)
  with t(2) show ?thesis by (intro that [of ?row t]) (simp_all add: new_run_def new_assessment_run_def)
qed

lemma filter_mapped: "length (filter P (map g xs)) = length (filter (\<lambda>x. P (g x)) xs)"
  by (simp add: filter_map comp_def)

lemma due_group_simps: "fst (due_group x) = fst (snd x)" "snd (snd (snd (due_group x))) = due_status x"
  by (simp_all add: due_group_def due_status_def split: prod.splits)

lemma due_statuses: "x \<in> set (due d) \<Longrightarrow> due_status x \<in> {''compliant'', ''partial'', ''gap''}"
proof -
  assume x: "x \<in> set (due d)"
  obtain a f cid r k c where "x = (a, f, cid, r, k, c)" by (cases x)
  with x assess_score_ok [OF dueD(7), of a f cid r k c d a] show ?thesis by (auto simp: due_status_def score_ok_def)
qed

text \<open>The entries of the summary endpoint for a run, in terms of its assessments.\<close>

lemma new_summary_entries:
  assumes run: "run_audit sha ff now finish initiated_by d = (Inr ao, d')"
    and keys: "distinct (map fk_id (framework_controls d))" "distinct (map fc_id (framework_catalogs d))"
      "\<forall>x\<in>set (assessment_results d). as_run_id x \<noteq> next_id d" and row: "ar_id row = next_id d"
  shows "fst ` set (new_summary d' row) = (\<lambda>x. fst (snd x)) ` set (due d)"
    and "map_of (new_summary d' row) f = Some v \<Longrightarrow> k \<in> {''compliant'', ''partial'', ''gap''} \<Longrightarrow>
      numeric_count v k = int (length (filter (\<lambda>x. fst (snd x) = f \<and> due_status x = k) (due d)))"
    and "map_of (new_summary d' row) f = Some v \<Longrightarrow>
      jget v ''total'' = PInt (int (length (filter (\<lambda>x. fst (snd x) = f) (due d))))"
    and "map_of (new_summary d' row) f = Some v \<Longrightarrow> jget v ''compliance_pct''
      = percentage (int (length (filter (\<lambda>x. fst (snd x) = f \<and> due_status x = ''compliant'') (due d)))) (int (length (filter (\<lambda>x. fst (snd x) = f) (due d))))"
proof -
  define gs where "gs = grouped (map due_group (due d))"
  define B where "B = (\<lambda>g :: string \<times> string \<times> string \<times> string. empty_counts @ [(''name'', PStr (fst (snd g))), (''version'', PStr (fst (snd (snd g)))),
     (''last_assessed_at'', PInt (case ar_completed_at row of None \<Rightarrow> ar_created_at row | Some t \<Rightarrow> t))])"
  define sm where "sm = fold (\<lambda>(g, n). upsert (fst g) (B g) (add_count (snd (snd (snd g))) n)) gs []"
  have ns: "new_summary d' row = map (\<lambda>(f, v). (f, finalize_counts v)) sm"
    unfolding new_summary_def row run_groups [OF run keys] Let_def sm_def gs_def B_def
    by (simp add: case_prod_unfold)
  have st: "due_status x \<notin> {''na'', ''exception'', ''not_assessed'', ''not_applicable'', ''unknown''}" if "x \<in> set (due d)" for x
    using due_statuses [OF that] by auto
  have na: "\<forall>(g, n)\<in>set gs. snd (snd (snd g)) \<noteq> ''na''"
  proof clarify
    fix g n assume "(g, n) \<in> set gs" and g: "snd (snd (snd g)) = ''na''"
    then obtain x where "x \<in> set (due d)" "g = due_group x" by (auto simp only: gs_def grouped_def set_map set_remdups)
    with st [of x] g show False by (simp add: due_group_simps)
  qed
  have c: "counted f k sm = int (length (filter (\<lambda>x. fst (snd x) = f \<and> due_status x = k) (due d)))"
    if "k \<in> {''compliant'', ''partial'', ''gap'', ''exception'', ''not_assessed'', ''not_applicable'', ''unknown''}" for f k
  proof -
    have "numeric_count (B g) k = 0" for g using that by (auto simp: numeric_count_def B_def empty_counts_def)
    from counted_fold [OF na this, where F = fst and f = f and s = "[]"]
    have "counted f k sm = sum_list (map snd (filter (\<lambda>(g, n). fst g = f \<and> snd (snd (snd g)) = k) gs))"
      by (simp add: sm_def counted_def)
    then show ?thesis by (simp add: gs_def sum_grouped filter_map comp_def due_group_simps)
  qed
  have zero: "counted f k sm = 0" if "k \<in> {''exception'', ''not_assessed'', ''not_applicable'', ''unknown''}" for f k
  proof -
    have "filter (\<lambda>x. fst (snd x) = f \<and> due_status x = k) (due d) = []"
      unfolding filter_empty_conv using st that by blast
    with c [of k f] that show ?thesis by auto
  qed
  have three: "counted f ''compliant'' sm + counted f ''partial'' sm + counted f ''gap'' sm
      = int (length (filter (\<lambda>x. fst (snd x) = f) (due d)))" for f
  proof -
    have "length (filter (\<lambda>x. fst (snd x) = f \<and> due_status x = ''compliant'') xs) + length (filter (\<lambda>x. fst (snd x) = f \<and> due_status x = ''partial'') xs)
        + length (filter (\<lambda>x. fst (snd x) = f \<and> due_status x = ''gap'') xs) = length (filter (\<lambda>x. fst (snd x) = f) xs)"
      if "\<forall>x\<in>set xs. due_status x \<in> {''compliant'', ''partial'', ''gap''}" for xs
      using that by (induction xs) auto
    from this [of "due d"] due_statuses c show ?thesis by (simp flip: of_nat_add)
  qed
  have dom: "(map_of sm f \<noteq> None) = (f \<in> fst ` fst ` set gs)" for f
    unfolding sm_def fold_upsert_keys by simp
  have "fst ` set (new_summary d' row) = {f. map_of sm f \<noteq> None}"
    by (simp add: ns map_of_eq_None_iff image_image case_prod_beta)
  also have "\<dots> = fst ` fst ` set gs" unfolding dom by simp
  also have "\<dots> = (\<lambda>x. fst (snd x)) ` set (due d)" by (simp add: gs_def set_grouped image_image due_group_simps)
  finally show "fst ` set (new_summary d' row) = (\<lambda>x. fst (snd x)) ` set (due d)" .
  fix f v k assume "map_of (new_summary d' row) f = Some v"
  then obtain w where w: "map_of sm f = Some w" "v = finalize_counts w" by (auto simp: ns map_of_second)
  then have n: "numeric_count w k = counted f k sm" for k by (simp add: counted_def)
  show "k \<in> {''compliant'', ''partial'', ''gap''} \<Longrightarrow>
      numeric_count v k = int (length (filter (\<lambda>x. fst (snd x) = f \<and> due_status x = k) (due d)))"
    using c [of k f] by (auto simp: w(2) finalize_get(3) n)
  show "jget v ''total'' = PInt (int (length (filter (\<lambda>x. fst (snd x) = f) (due d))))"
    by (simp add: w(2) finalize_get(1) n zero three)
  show "jget v ''compliance_pct''
      = percentage (int (length (filter (\<lambda>x. fst (snd x) = f \<and> due_status x = ''compliant'') (due d)))) (int (length (filter (\<lambda>x. fst (snd x) = f) (due d))))"
    by (simp add: w(2) finalize_get(2) n zero three) (simp add: c)
qed

lemma stored_summary:
  assumes "au_frameworks t = fold (\<lambda>x. count_in (fst (snd x)) (due_status x)) (due d) []"
  shows "fst ` set (au_frameworks t) = (\<lambda>x. fst (snd x)) ` set (due d)"
    and "map_of (au_frameworks t) f = Some w \<Longrightarrow> k \<in> {''compliant'', ''partial'', ''gap''} \<Longrightarrow>
      numeric_count (framework_summary w) k = int (length (filter (\<lambda>x. fst (snd x) = f \<and> due_status x = k) (due d)))"
    and "map_of (au_frameworks t) f = Some w \<Longrightarrow>
      jget (framework_summary w) ''total'' = PInt (int (length (filter (\<lambda>x. fst (snd x) = f) (due d))))"
    and "map_of (au_frameworks t) f = Some w \<Longrightarrow> jget (framework_summary w) ''compliance_pct''
      = percentage (int (length (filter (\<lambda>x. fst (snd x) = f \<and> due_status x = ''compliant'') (due d)))) (int (length (filter (\<lambda>x. fst (snd x) = f) (due d))))"
proof -
  note at = fold_count_in [where F = "\<lambda>x. fst (snd x)" and K = due_status and xs = "due d" and cs = "[]", folded assms]
  have "fst ` set (au_frameworks t) = {f. map_of (au_frameworks t) f \<noteq> None}" by (simp add: map_of_eq_None_iff)
  also have "\<dots> = {f. filter (\<lambda>x. fst (snd x) = f) (due d) \<noteq> []}" by (simp add: at Let_def)
  also have "\<dots> = (\<lambda>x. fst (snd x)) ` set (due d)" by (auto simp only: filter_empty_conv)
  finally show "fst ` set (au_frameworks t) = (\<lambda>x. fst (snd x)) ` set (due d)" .
  assume w: "map_of (au_frameworks t) f = Some w"
  let ?ks = "map due_status (filter (\<lambda>x. fst (snd x) = f) (due d))"
  have c: "w = fold count_up ?ks []" using w by (auto simp: at Let_def split: if_splits)
  have num: "numeric_count (counter_dict e) k = count_of k e" for e
    by (simp add: numeric_count_def counter_dict_def map_of_second count_of_def split: option.splits)
  have len: "length (filter (\<lambda>x. x = k) ?ks) = length (filter (\<lambda>x. fst (snd x) = f \<and> due_status x = k) (due d))" for k
    by (simp add: filter_map comp_def conj_commute)
  show "k \<in> {''compliant'', ''partial'', ''gap''} \<Longrightarrow>
      numeric_count (framework_summary w) k = int (length (filter (\<lambda>x. fst (snd x) = f \<and> due_status x = k) (due d)))"
  proof -
    assume "k \<in> {''compliant'', ''partial'', ''gap''}"
    then have "numeric_count (framework_summary w) k = count_of k w" by (auto simp: framework_summary_def Let_def num)
    then show ?thesis unfolding c count_of_fold len by (simp add: count_of_def)
  qed
  show "jget (framework_summary w) ''total'' = PInt (int (length (filter (\<lambda>x. fst (snd x) = f) (due d))))"
    by (simp add: framework_summary_def Let_def c sum_count_fold)
  have "filter (\<lambda>x. x \<noteq> ''not_applicable'') ?ks = ?ks" using due_statuses by (fastforce simp: filter_id_conv)
  then show "jget (framework_summary w) ''compliance_pct''
      = percentage (int (length (filter (\<lambda>x. fst (snd x) = f \<and> due_status x = ''compliant'') (due d)))) (int (length (filter (\<lambda>x. fst (snd x) = f) (due d))))"
    unfolding c framework_summary_counts len by simp
qed

text \<open>
  C29: The summary a run stores and the one the endpoint computes agree. Right after a run, with
  unique keys and no older row under the new identifier, the endpoint reports this run, for
  exactly the frameworks of the stored summary, with the same totals, the same number of
  compliant, partial and missing controls and the same percentage.
\<close>

theorem summaries_agree:
  assumes "run_audit sha ff now finish initiated_by d = (Inr ao, d')"
    and "distinct (map fk_id (framework_controls d))" "distinct (map fc_id (framework_catalogs d))"
    and "\<forall>x\<in>set (assessment_results d). as_run_id x \<noteq> next_id d"
    and "\<forall>r\<in>set (assessment_runs d). ar_id r \<noteq> next_id d \<and> (case ar_completed_at r of None \<Rightarrow> True | Some t \<Rightarrow> t < finish)"
  shows "\<exists>row fws. latest_completed_run d' = Some row \<and> ar_id row = ao_run_id ao
    \<and> jget (ar_summary row) ''frameworks'' = PDict (map (\<lambda>(f, s). (f, PDict s)) fws)
    \<and> fst ` set (compliance_summary d') = fst ` set fws
    \<and> (\<forall>f v s. map_of (compliance_summary d') f = Some v \<and> map_of fws f = Some s \<longrightarrow>
         jget v ''total'' = jget s ''total'' \<and> jget v ''compliance_pct'' = jget s ''compliance_pct''
         \<and> (\<forall>k\<in>{''compliant'', ''partial'', ''gap''}. numeric_count v k = numeric_count s k))"
  using assms(1) assms(5)
proof (rule latest_run)
  fix t row
  assume row: "latest_completed_run d' = Some row" "ar_id row = next_id d" "ar_summary row = run_summary (assets d) t"
    and fw: "au_frameworks t = fold (\<lambda>x. count_in (fst (snd x)) (due_status x)) (due d) []"
  let ?fws = "map (\<lambda>(f, c). (f, framework_summary c)) (au_frameworks t)"
  note new = new_summary_entries [OF assms(1-4) row(2)] and old = stored_summary [OF fw]
  have api: "compliance_summary d' = new_summary d' row" by (simp add: compliance_summary_def row)
  have run: "ao_run_id ao = next_id d" using assms(1) by (rule run_audit_rows)
  have stored: "jget (ar_summary row) ''frameworks'' = PDict (map (\<lambda>(f, s). (f, PDict s)) ?fws)"
    by (simp add: row run_summary_def jget_def comp_def case_prod_unfold)
  have dom: "fst ` set (compliance_summary d') = fst ` set ?fws"
    using new(1) old(1) by (simp add: api image_image case_prod_unfold)
  have same: "jget v ''total'' = jget s ''total'' \<and> jget v ''compliance_pct'' = jget s ''compliance_pct''
      \<and> (\<forall>k\<in>{''compliant'', ''partial'', ''gap''}. numeric_count v k = numeric_count s k)"
    if v: "map_of (compliance_summary d') f = Some v" and s: "map_of ?fws f = Some s" for f v s
  proof -
    from s obtain w where w: "map_of (au_frameworks t) f = Some w" "s = framework_summary w" by (auto simp: map_of_second)
    note v' = new(2-4) [OF v [unfolded api]]
    show ?thesis unfolding w(2) using v' old(2-4) [OF w(1)] by simp
  qed
  have ident: "ar_id row = ao_run_id ao" using row(2) run by simp
  have all: "\<forall>f v s. map_of (compliance_summary d') f = Some v \<and> map_of ?fws f = Some s \<longrightarrow>
      jget v ''total'' = jget s ''total'' \<and> jget v ''compliance_pct'' = jget s ''compliance_pct''
      \<and> (\<forall>k\<in>{''compliant'', ''partial'', ''gap''}. numeric_count v k = numeric_count s k)"
    using same by blast
  show ?thesis by (intro exI conjI) (rule row(1) ident stored dom all)+
qed

theorem summaries_agree_witness:
  "\<exists>ao d' row. run_audit (\<lambda>s. s) (\<lambda>x. []) 5 6 ''root'' (sample_estate sample_critical) = (Inr ao, d')
     \<and> latest_completed_run d' = Some row \<and> ar_id row = ao_run_id ao"
proof -
  obtain ao d' where r: "run_audit (\<lambda>s. s) (\<lambda>x. []) 5 6 ''root'' (sample_estate sample_critical) = (Inr ao, d')" using sample_run by blast
  have "distinct (map fk_id (framework_controls (sample_estate sample_critical)))" "distinct (map fc_id (framework_catalogs (sample_estate sample_critical)))"
    "assessment_results (sample_estate sample_critical) = []" "assessment_runs (sample_estate sample_critical) = []"
    by (simp_all add: sample_estate_def empty_db_def)
  with summaries_agree [OF r] r show ?thesis by auto
qed

end
