(* ===== verification/CsvFormat.thy ===== *)
theory CsvFormat
  imports Prelude PyStr
begin

text \<open>
  The \<open>csv\<close> module with its default dialect, as \<open>app/api/bulk_import.py\<close> and
  \<open>app/api/exports.py\<close> use it: the parser of \<open>csv.reader\<close> on a text read without newline
  translation, \<open>DictReader\<close>, and \<open>csv.writer\<close>. The last section shows that what is written
  is read back.
\<close>

definition CR :: char where "CR = CHR 0x0D"
definition LF :: char where "LF = CHR 0x0A"
definition QUOTE :: char where "QUOTE = CHR 0x22"

definition FIELD_LIMIT :: nat where "FIELD_LIMIT = 131072"

section \<open>Reading\<close>

datatype csv_state = StartRecord | StartField | InField | InQuoted | QuoteInQuoted | EatCrnl

record csv_parser =
  cp_state :: csv_state
  cp_field :: string
  cp_fields :: "string list"

definition fresh_parser :: csv_parser where
  "fresh_parser = \<lparr> cp_state = StartRecord, cp_field = [], cp_fields = [] \<rparr>"

definition save_field :: "csv_state \<Rightarrow> csv_parser \<Rightarrow> csv_parser" where
  "save_field st p = \<lparr> cp_state = st, cp_field = [], cp_fields = cp_fields p @ [cp_field p] \<rparr>"

definition add_char :: "csv_state \<Rightarrow> char \<Rightarrow> csv_parser \<Rightarrow> csv_parser option" where
  "add_char st c p = (if FIELD_LIMIT \<le> length (cp_field p) then None
     else Some (p\<lparr>cp_state := st, cp_field := cp_field p @ [c]\<rparr>))"

definition start_field :: "char \<Rightarrow> csv_parser \<Rightarrow> csv_parser option" where
  "start_field c p =
     (if c = CR \<or> c = LF then Some (save_field EatCrnl p)
      else if c = QUOTE then Some (p\<lparr>cp_state := InQuoted\<rparr>)
      else if c = CHR '','' then Some (save_field StartField p)
      else add_char InField c p)"

text \<open>One character; \<open>None\<close> is \<open>csv.Error\<close>.\<close>

definition csv_char :: "char \<Rightarrow> csv_parser \<Rightarrow> csv_parser option" where
  "csv_char c p = (case cp_state p of
     StartRecord \<Rightarrow> if c = CR \<or> c = LF then Some (p\<lparr>cp_state := EatCrnl\<rparr>) else start_field c p
   | StartField \<Rightarrow> start_field c p
   | InField \<Rightarrow> if c = CR \<or> c = LF then Some (save_field EatCrnl p)
       else if c = CHR '','' then Some (save_field StartField p) else add_char InField c p
   | InQuoted \<Rightarrow> if c = QUOTE then Some (p\<lparr>cp_state := QuoteInQuoted\<rparr>) else add_char InQuoted c p
   | QuoteInQuoted \<Rightarrow> if c = QUOTE then add_char InQuoted c p
       else if c = CHR '','' then Some (save_field StartField p)
       else if c = CR \<or> c = LF then Some (save_field EatCrnl p) else add_char InField c p
   | EatCrnl \<Rightarrow> if c = CR \<or> c = LF then Some p else None)"

text \<open>The end of a line.\<close>

definition csv_eol :: "csv_parser \<Rightarrow> csv_parser" where
  "csv_eol p = (case cp_state p of
     StartRecord \<Rightarrow> p | InQuoted \<Rightarrow> p | EatCrnl \<Rightarrow> p\<lparr>cp_state := StartRecord\<rparr> | _ \<Rightarrow> save_field StartRecord p)"

text \<open>A line ends after a line feed, or after a carriage return that no line feed follows, or with the text.\<close>

definition ends_line :: "char \<Rightarrow> string \<Rightarrow> bool" where
  "ends_line c s = (s = [] \<or> c = LF \<or> c = CR \<and> hd s \<noteq> LF)"

text \<open>The records in order, and whether the parser then raised an error.\<close>

fun csv_read :: "string \<Rightarrow> csv_parser \<Rightarrow> string list list \<times> bool" where
  "csv_read [] p = (if cp_state p = InQuoted then [cp_fields p @ [cp_field p]] else [], False)"
| "csv_read (c # s) p = (case csv_char c p of
     None \<Rightarrow> ([], True)
   | Some q \<Rightarrow>
       if ends_line c s then
         (if cp_state (csv_eol q) = StartRecord
          then (case csv_read s fresh_parser of (rows, e) \<Rightarrow> (cp_fields (csv_eol q) # rows, e))
          else csv_read s (csv_eol q))
       else csv_read s q)"

definition csv_reader :: "string \<Rightarrow> string list list \<times> bool" where
  "csv_reader s = csv_read s fresh_parser"

section \<open>\<open>DictReader\<close>\<close>

text \<open>
  A row as a dictionary: the header's names with the cells, \<open>None\<close> for missing ones; the cells
  beyond the header are under the key \<open>None\<close>. A repeated name keeps its first place and its
  last value.
\<close>

record dict_row =
  dr_cells :: "(string \<times> string option) list"
  dr_rest :: "string list"

fun assign :: "'k \<Rightarrow> 'v \<Rightarrow> ('k \<times> 'v) list \<Rightarrow> ('k \<times> 'v) list" where
  "assign k v [] = [(k, v)]"
| "assign k v ((k', w) # d) = (if k' = k then (k, v) # d else (k', w) # assign k v d)"

definition dict_row_of :: "string list \<Rightarrow> string list \<Rightarrow> dict_row" where
  "dict_row_of header row = \<lparr> dr_cells = fold (\<lambda>(k, v). assign k v)
       (zip header (map Some row) @ map (\<lambda>k. (k, None)) (drop (length row) header)) [],
     dr_rest = drop (length header) row \<rparr>"

text \<open>The header and the rows that are not blank, and whether the parser then raised an error.\<close>

definition dict_reader :: "string \<Rightarrow> string list option \<times> dict_row list \<times> bool" where
  "dict_reader s = (case csv_reader s of
     ([], e) \<Rightarrow> (None, [], e)
   | (header # rows, e) \<Rightarrow> (Some header, map (dict_row_of header) (filter (\<lambda>r. r \<noteq> []) rows), e))"

section \<open>Writing\<close>

definition special :: "char \<Rightarrow> bool" where
  "special c = (c = CHR '','' \<or> c = QUOTE \<or> c = CR \<or> c = LF)"

definition csv_field :: "bool \<Rightarrow> string \<Rightarrow> string" where
  "csv_field alone s =
     (if list_ex special s \<or> alone \<and> s = []
      then QUOTE # concat (map (\<lambda>c. if c = QUOTE then [QUOTE, QUOTE] else [c]) s) @ [QUOTE] else s)"

definition csv_row :: "string list \<Rightarrow> string" where
  "csv_row fs = join '','' (map (csv_field (length fs = 1)) fs) @ [CR, LF]"

section \<open>What is written is read back\<close>

lemma csv_chars [simp]: "CR \<noteq> LF" "LF \<noteq> CR" "CR \<noteq> QUOTE" "QUOTE \<noteq> CR" "LF \<noteq> QUOTE" "QUOTE \<noteq> LF"
  "CHR '','' \<noteq> CR" "CHR '','' \<noteq> LF" "CHR '','' \<noteq> QUOTE" "CR \<noteq> CHR '',''" "LF \<noteq> CHR '',''" "QUOTE \<noteq> CHR '',''"
  by (simp_all add: CR_def LF_def QUOTE_def)

lemma read_step:
  "csv_char c p = Some q \<Longrightarrow> c \<noteq> CR \<Longrightarrow> c \<noteq> LF \<Longrightarrow> s \<noteq> [] \<Longrightarrow> csv_read (c # s) p = csv_read s q"
  by (simp add: ends_line_def)

lemma same_state: "cp_state p = st \<Longrightarrow> p\<lparr>cp_state := st, cp_field := v\<rparr> = p\<lparr>cp_field := v\<rparr>"
  by (cases p) simp

text \<open>Inside quotes nothing but the quote is special.\<close>

lemma read_quoted_char:
  assumes "cp_state p = InQuoted" "c \<noteq> QUOTE" "length (cp_field p) < FIELD_LIMIT" "s \<noteq> []"
  shows "csv_read (c # s) p = csv_read s (p\<lparr>cp_field := cp_field p @ [c]\<rparr>)"
  using assms by (simp add: csv_char_def add_char_def csv_eol_def same_state)

lemma read_double_quote:
  assumes "cp_state p = InQuoted" "length (cp_field p) < FIELD_LIMIT" "s \<noteq> []"
  shows "csv_read (QUOTE # QUOTE # s) p = csv_read s (p\<lparr>cp_field := cp_field p @ [QUOTE]\<rparr>)"
  using assms by (simp add: csv_char_def add_char_def csv_eol_def ends_line_def same_state)

lemma read_quoted:
  assumes "cp_state p = InQuoted" "length (cp_field p) + length v \<le> FIELD_LIMIT" "s \<noteq> []"
  shows "csv_read (concat (map (\<lambda>c. if c = QUOTE then [QUOTE, QUOTE] else [c]) v) @ s) p
    = csv_read s (p\<lparr>cp_field := cp_field p @ v\<rparr>)"
  using assms(1,2)
proof (induction v arbitrary: p)
  case (Cons c v)
  let ?rest = "concat (map (\<lambda>c. if c = QUOTE then [QUOTE, QUOTE] else [c]) v) @ s"
  have "?rest \<noteq> []" using assms(3) by simp
  then have "csv_read (concat (map (\<lambda>c. if c = QUOTE then [QUOTE, QUOTE] else [c]) (c # v)) @ s) p
      = csv_read ?rest (p\<lparr>cp_field := cp_field p @ [c]\<rparr>)"
    using Cons.prems read_double_quote [of p ?rest] read_quoted_char [of p c ?rest] by (cases "c = QUOTE") simp_all
  also have "\<dots> = csv_read s (p\<lparr>cp_field := cp_field p @ c # v\<rparr>)" using Cons.IH [of "p\<lparr>cp_field := cp_field p @ [c]\<rparr>"] Cons.prems by simp
  finally show ?case .
qed simp

lemma read_plain:
  assumes "cp_state p = InField" "\<not> list_ex special v" "length (cp_field p) + length v \<le> FIELD_LIMIT" "s \<noteq> []"
  shows "csv_read (v @ s) p = csv_read s (p\<lparr>cp_field := cp_field p @ v\<rparr>)"
  using assms(1-3)
proof (induction v arbitrary: p)
  case (Cons c v)
  have "csv_read (c # v @ s) p = csv_read (v @ s) (p\<lparr>cp_field := cp_field p @ [c]\<rparr>)"
    by (rule read_step) (use Cons.prems assms(4) in \<open>simp_all add: special_def csv_char_def add_char_def\<close>)
  with Cons.IH [of "p\<lparr>cp_field := cp_field p @ [c]\<rparr>"] Cons.prems show ?case by simp
qed simp

lemma read_start_plain:
  assumes "cp_state p \<in> {StartRecord, StartField}" "cp_field p = []" "\<not> list_ex special v" "v \<noteq> []" "length v \<le> FIELD_LIMIT" "s \<noteq> []"
  shows "csv_read (v @ s) p = csv_read s (p\<lparr>cp_state := InField, cp_field := v\<rparr>)"
proof -
  obtain c w where v: "v = c # w" using assms(4) by (cases v) auto
  have "csv_read (c # w @ s) p = csv_read (w @ s) (p\<lparr>cp_state := InField, cp_field := [c]\<rparr>)"
    by (rule read_step) (use assms v in \<open>auto simp: special_def csv_char_def start_field_def add_char_def\<close>)
  with read_plain [of "p\<lparr>cp_state := InField, cp_field := [c]\<rparr>" w s] assms v show ?thesis by simp
qed

lemma read_start_quoted:
  assumes "cp_state p \<in> {StartRecord, StartField}" "cp_field p = []" "length v \<le> FIELD_LIMIT" "s \<noteq> []"
  shows "csv_read (QUOTE # concat (map (\<lambda>c. if c = QUOTE then [QUOTE, QUOTE] else [c]) v) @ [QUOTE] @ s) p
    = csv_read s (p\<lparr>cp_state := QuoteInQuoted, cp_field := v\<rparr>)"
proof -
  let ?body = "concat (map (\<lambda>c. if c = QUOTE then [QUOTE, QUOTE] else [c]) v) @ [QUOTE] @ s"
  have "csv_read (QUOTE # ?body) p = csv_read ?body (p\<lparr>cp_state := InQuoted\<rparr>)"
    by (rule read_step) (use assms in \<open>auto simp: csv_char_def start_field_def\<close>)
  also have "\<dots> = csv_read ([QUOTE] @ s) (p\<lparr>cp_state := InQuoted, cp_field := v\<rparr>)"
    using read_quoted [of "p\<lparr>cp_state := InQuoted\<rparr>" v "[QUOTE] @ s"] assms by simp
  also have "\<dots> = csv_read s (p\<lparr>cp_state := QuoteInQuoted, cp_field := v\<rparr>)"
    using read_step [of QUOTE "p\<lparr>cp_state := InQuoted, cp_field := v\<rparr>" "p\<lparr>cp_state := QuoteInQuoted, cp_field := v\<rparr>" s] assms(4)
    by (simp add: csv_char_def)
  finally show ?thesis by simp
qed

text \<open>After a written field the parser holds its value, whatever follows.\<close>

lemma read_field:
  assumes "cp_state p \<in> {StartRecord, StartField}" "cp_field p = []" "length v \<le> FIELD_LIMIT" "s \<noteq> []" "v = [] \<Longrightarrow> \<not> alone \<Longrightarrow> cp_state p = StartField \<or> hd s = CHR '',''"
  shows "\<exists>st. csv_read (csv_field alone v @ s) p = csv_read s (p\<lparr>cp_state := st, cp_field := v\<rparr>)
    \<and> (st \<in> {InField, QuoteInQuoted} \<or> v = [] \<and> \<not> alone \<and> st = cp_state p)"
proof (cases "list_ex special v \<or> alone \<and> v = []")
  case True
  with read_start_quoted [OF assms(1-4)] show ?thesis by (auto simp: csv_field_def intro!: exI [of _ QuoteInQuoted])
next
  case False
  show ?thesis
  proof (cases "v = []")
    case True
    with False assms(1,2) show ?thesis by (intro exI [of _ "cp_state p"]) (cases p, auto simp: csv_field_def)
  next
    case nonempty: False
    with False read_start_plain [OF assms(1,2) _ nonempty assms(3,4)] show ?thesis
      by (auto simp: csv_field_def intro!: exI [of _ InField])
  qed
qed

lemma read_comma:
  assumes "cp_state p \<in> {StartRecord, StartField, InField, QuoteInQuoted}" "s \<noteq> []"
  shows "csv_read (CHR '','' # s) p = csv_read s (save_field StartField p)"
  by (rule read_step) (use assms in \<open>auto simp: csv_char_def start_field_def\<close>)

lemma read_crlf:
  assumes "cp_state p \<in> {StartField, InField, QuoteInQuoted}"
  shows "csv_read (CR # LF # s) p = (case csv_read s fresh_parser of (rows, e) \<Rightarrow> ((cp_fields p @ [cp_field p]) # rows, e))"
  using assms by (auto simp: csv_char_def start_field_def save_field_def csv_eol_def ends_line_def)

lemma read_fields:
  assumes "fs \<noteq> []" "\<forall>f\<in>set fs. length f \<le> FIELD_LIMIT" "cp_state p = StartField \<or> cp_state p = StartRecord \<and> (2 \<le> length fs \<or> alone)"
    and "cp_field p = []" "alone \<Longrightarrow> length fs = 1"
  shows "csv_read (join '','' (map (csv_field alone) fs) @ [CR, LF] @ s) p
    = (case csv_read s fresh_parser of (rows, e) \<Rightarrow> ((cp_fields p @ fs) # rows, e))"
  using assms
proof (induction fs arbitrary: p)
  case (Cons f fs)
  show ?case
  proof (cases fs)
    case Nil
    with Cons.prems read_field [of p f "[CR, LF] @ s" alone] obtain st where
      st: "csv_read (csv_field alone f @ [CR, LF] @ s) p = csv_read ([CR, LF] @ s) (p\<lparr>cp_state := st, cp_field := f\<rparr>)"
        "st \<in> {InField, QuoteInQuoted} \<or> f = [] \<and> \<not> alone \<and> st = cp_state p" by auto
    then have "st \<in> {StartField, InField, QuoteInQuoted}" using Cons.prems(3) Nil by auto
    with st read_crlf [of "p\<lparr>cp_state := st, cp_field := f\<rparr>" s] Nil show ?thesis by simp
  next
    case (Cons g gs)
    have alone: "\<not> alone" using Cons.prems(5) Cons by auto
    let ?s = "join '','' (map (csv_field alone) fs) @ [CR, LF] @ s"
    from Cons.prems read_field [of p f "CHR '','' # ?s" alone] obtain st where
      st: "csv_read (csv_field alone f @ CHR '','' # ?s) p = csv_read (CHR '','' # ?s) (p\<lparr>cp_state := st, cp_field := f\<rparr>)"
        "st \<in> {InField, QuoteInQuoted} \<or> f = [] \<and> \<not> alone \<and> st = cp_state p" by auto
    have "csv_read (CHR '','' # ?s) (p\<lparr>cp_state := st, cp_field := f\<rparr>) = csv_read ?s (save_field StartField (p\<lparr>cp_state := st, cp_field := f\<rparr>))"
      by (rule read_comma) (use st(2) Cons.prems(3) in auto)
    also have "\<dots> = (case csv_read s fresh_parser of (rows, e) \<Rightarrow> ((cp_fields p @ f # fs) # rows, e))"
      using Cons.IH [of "save_field StartField (p\<lparr>cp_state := st, cp_field := f\<rparr>)"] Cons.prems Cons alone by (simp add: save_field_def)
    finally show ?thesis using st(1) Cons by simp
  qed
qed simp

text \<open>A written row is read back as it was, and the reader goes on after it.\<close>

lemma read_row:
  assumes "fs \<noteq> []" "\<forall>f\<in>set fs. length f \<le> FIELD_LIMIT"
  shows "csv_reader (csv_row fs @ s) = (case csv_reader s of (rows, e) \<Rightarrow> (fs # rows, e))"
  using read_fields [OF assms, of fresh_parser "length fs = 1" s] assms(1)
  by (cases fs; cases "tl fs") (auto simp: csv_reader_def csv_row_def fresh_parser_def)

lemma read_rows:
  assumes "\<forall>fs\<in>set rows. fs \<noteq> [] \<and> (\<forall>f\<in>set fs. length f \<le> FIELD_LIMIT)"
  shows "csv_reader (concat (map csv_row rows)) = (rows, False)"
  using assms
proof (induction rows)
  case Nil
  show ?case by (simp add: csv_reader_def fresh_parser_def)
next
  case (Cons fs rows)
  with read_row [of fs "concat (map csv_row rows)"] show ?case by simp
qed

end
