(* ===== verification/BulkImport.thy ===== *)
theory BulkImport
  imports CsvFormat Assets PyJson
begin

text \<open>
  The import of assets from a CSV file (\<open>app/api/bulk_import.py\<close>), after the guards. A file is
  decoded before it is read, and a decoded text is kept as its bytes: for a file beyond ASCII
  case and blanks are those of the bytes. \<open>csv.Error\<close> is given as \<open>ServiceError\<close> with its name, a detail that is a dictionary
  as its JSON text. A value the columns refuse is found when the audit entry flushes the
  session.
\<close>

definition MAX_UPLOAD_BYTES :: nat where "MAX_UPLOAD_BYTES = 52428800"
definition MAX_ROWS_PER_IMPORT :: nat where "MAX_ROWS_PER_IMPORT = 10000"

definition REQUIRED_FIELDS :: "string list" where "REQUIRED_FIELDS = [''name'', ''type'']"

definition DEFAULTS :: "(string \<times> string) list" where
  "DEFAULTS = [(''control_coverage'', ''partial''), (''network_exposure'', ''internal''), (''auth_method'', ''password''),
     (''criticality'', ''medium''), (''data_classification'', ''Internal''), (''segment'', ''Internal''), (''edr_status'', ''None''),
     (''type'', ''Unknown'')]"

section \<open>The upload\<close>

record upload =
  up_filename :: "string option"
  up_chunks :: "string list"

text \<open>Reading until an empty chunk, with the number of bytes.\<close>

fun read_upload :: "nat \<Rightarrow> string \<Rightarrow> string list \<Rightarrow> (nat \<times> string) result" where
  "read_upload n acc [] = Inr (n, acc)"
| "read_upload n acc (c # cs) =
     (if c = [] then Inr (n, acc)
      else if MAX_UPLOAD_BYTES < n + length c then Inl (HTTPException 413 ''File exceeds 50MB limit'')
      else read_upload (n + length c) (acc @ c) cs)"

definition csv_name :: "string option \<Rightarrow> bool" where
  "csv_name f = (case f of None \<Rightarrow> False | Some n \<Rightarrow> n \<noteq> [] \<and> ends_with ''.csv'' (lower n))"

text \<open>Well-formed UTF-8.\<close>

definition tail_byte :: "char \<Rightarrow> bool" where "tail_byte c = (128 \<le> char_code c \<and> char_code c \<le> 191)"

fun utf8_ok :: "string \<Rightarrow> bool" where
  "utf8_ok [] = True"
| "utf8_ok (c # s) = (let n = char_code c in
     if n < 128 then utf8_ok s
     else if 194 \<le> n \<and> n \<le> 223 then (case s of c1 # s \<Rightarrow> tail_byte c1 \<and> utf8_ok s | _ \<Rightarrow> False)
     else if 224 \<le> n \<and> n \<le> 239 then
       (case s of c1 # c2 # s \<Rightarrow> tail_byte c1 \<and> tail_byte c2 \<and> (n = 224 \<longrightarrow> 160 \<le> char_code c1) \<and> (n = 237 \<longrightarrow> char_code c1 \<le> 159) \<and> utf8_ok s
        | _ \<Rightarrow> False)
     else if 240 \<le> n \<and> n \<le> 244 then
       (case s of c1 # c2 # c3 # s \<Rightarrow> tail_byte c1 \<and> tail_byte c2 \<and> tail_byte c3 \<and> (n = 240 \<longrightarrow> 144 \<le> char_code c1)
          \<and> (n = 244 \<longrightarrow> char_code c1 \<le> 143) \<and> utf8_ok s
        | _ \<Rightarrow> False)
     else False)"

definition BOM :: string where "BOM = [CHR 0xEF, CHR 0xBB, CHR 0xBF]"

definition decode_sig :: "string \<Rightarrow> string option" where
  "decode_sig s = (if \<not> utf8_ok s then None else Some (if starts_with BOM s then drop 3 s else s))"

section \<open>The scan before the import\<close>

definition header_of :: "string list option \<Rightarrow> string list result" where
  "header_of header = (case header of
     None \<Rightarrow> Inl (HTTPException 400 ''Empty CSV'')
   | Some hs \<Rightarrow>
       let missing = filter (\<lambda>f. f \<notin> (\<lambda>h. lower (strip h)) ` set hs) REQUIRED_FIELDS
       in if hs = [] then Inl (HTTPException 400 ''Empty CSV'')
          else if missing \<noteq> [] then Inl (HTTPException 400 (''Missing required CSV columns: '' @ repr_names (sort missing)))
          else Inr hs)"

definition cell :: "string \<Rightarrow> dict_row \<Rightarrow> string option" where
  "cell k r = (case map_of (dr_cells r) k of None \<Rightarrow> None | Some v \<Rightarrow> v)"

definition scanned_name :: "dict_row \<Rightarrow> string" where
  "scanned_name r = strip (case str_or (str_or (cell ''name'' r) (cell ''Name'' r)) (Some []) of None \<Rightarrow> [] | Some s \<Rightarrow> s)"

record duplicate =
  du_row :: nat
  du_name :: string
  du_first_seen :: nat

text \<open>The names with the row they were first seen in, and the duplicates; \<open>bad\<close> is an error of the reader after the last row.\<close>

fun prescan :: "bool \<Rightarrow> dict_row list \<Rightarrow> nat \<Rightarrow> (string \<times> nat) list \<Rightarrow> duplicate list \<Rightarrow> ((string \<times> nat) list \<times> duplicate list) result" where
  "prescan bad [] n seen dups = (if bad then Inl (ServiceError ''csv.Error'') else Inr (seen, dups))"
| "prescan bad (r # rs) n seen dups =
     (if MAX_ROWS_PER_IMPORT < n + 1
      then Inl (HTTPException 400 (''CSV has more than '' @ show_nat MAX_ROWS_PER_IMPORT @ '' rows, max allowed is '' @ show_nat MAX_ROWS_PER_IMPORT))
      else let name = scanned_name r in
        if name = [] then prescan bad rs (n + 1) seen dups
        else case map_of seen name of
          Some k \<Rightarrow> prescan bad rs (n + 1) seen (dups @ [\<lparr> du_row = n + 2, du_name = name, du_first_seen = k \<rparr>])
        | None \<Rightarrow> prescan bad rs (n + 1) (seen @ [(name, n + 2)]) dups)"

definition duplicates_detail :: "duplicate list \<Rightarrow> jdict" where
  "duplicates_detail ds = [(''error'', PStr ''Duplicate asset names in CSV''),
     (''duplicates'', PList (map (\<lambda>u. PDict [(''row'', PInt (int (du_row u))), (''name'', PStr (du_name u)),
        (''first_seen'', PInt (int (du_first_seen u)))]) (take 10 ds)))]"

definition existing_detail :: "string list \<Rightarrow> jdict" where
  "existing_detail names = [(''error'', PStr ''Asset names already exist in database''), (''existing'', PList (map PStr (take 20 (sort names)))),
     (''hint'', PStr ''Update via PATCH or use unique names'')]"

definition checked_names :: "bool \<Rightarrow> (string \<times> nat) list \<Rightarrow> duplicate list \<Rightarrow> db \<Rightarrow> unit result" where
  "checked_names dry_run seen dups d =
     (let existing = remdups (filter (\<lambda>n. n \<in> fst ` set seen) (map a_name (assets d)))
      in if dups \<noteq> [] then Inl (HTTPException 400 (plain_json (\<lambda>x. []) (duplicates_detail dups)))
         else if \<not> dry_run \<and> existing \<noteq> [] then Inl (HTTPException 409 (plain_json (\<lambda>x. []) (existing_detail existing)))
         else Inr ())"

section \<open>Rows\<close>

type_synonym row_data = "(string \<times> string) list"

definition normal_row :: "dict_row \<Rightarrow> row_data" where
  "normal_row r = fold (\<lambda>(k, v). assign (lower (strip k)) (strip (case v of None \<Rightarrow> [] | Some s \<Rightarrow> s))) (dr_cells r) []"

definition field_of :: "row_data \<Rightarrow> string \<Rightarrow> string" where
  "field_of data k = (case map_of data k of Some v \<Rightarrow> if v = [] then (case map_of DEFAULTS k of None \<Rightarrow> [] | Some w \<Rightarrow> w) else v
     | None \<Rightarrow> (case map_of DEFAULTS k of None \<Rightarrow> [] | Some w \<Rightarrow> w))"

definition items_of :: "row_data \<Rightarrow> string \<Rightarrow> string list" where
  "items_of data k = (if field_of data k = [] then [] else filter (\<lambda>s. s \<noteq> []) (map strip (split_on CHR '';'' (field_of data k))))"

definition address_of :: "row_data \<Rightarrow> string \<Rightarrow> string option" where
  "address_of data k = (let v = field_of data k in if v \<in> {''N/A'', ''DHCP'', ''Unknown'', []} then None else Some v)"

definition eol_of :: "row_data \<Rightarrow> bool" where
  "eol_of data = (lower (field_of data ''eol_status'') \<in> {''true'', ''1'', ''yes'', ''y''})"

definition row_risk :: "row_data \<Rightarrow> risk_result" where
  "row_risk data = compute_risk \<lparr> ra_cves = Has [], ra_control_coverage = Has (field_of data ''control_coverage''),
     ra_network_exposure = Has (field_of data ''network_exposure''), ra_auth_method = Has (field_of data ''auth_method''),
     ra_criticality = Has (field_of data ''criticality''), ra_data_classification = Has (field_of data ''data_classification''),
     ra_eol_status = Has (eol_of data) \<rparr>"

definition optional :: "string \<Rightarrow> string option" where "optional s = (if s = [] then None else Some s)"

definition row_asset :: "int \<Rightarrow> nat \<Rightarrow> row_data \<Rightarrow> asset" where
  "row_asset now i data = set_risk (row_risk data) ((new_asset i now)\<lparr>a_name := field_of data ''name'', a_type := field_of data ''type'',
     a_os := optional (field_of data ''os''), a_ip := address_of data ''ip'', a_mac := address_of data ''mac'',
     a_segment := Some (field_of data ''segment''), a_edr_status := Some (field_of data ''edr_status''),
     a_control_coverage := field_of data ''control_coverage'', a_network_exposure := field_of data ''network_exposure'',
     a_auth_method := field_of data ''auth_method'', a_criticality := field_of data ''criticality'',
     a_data_classification := field_of data ''data_classification'', a_last_patch := optional (field_of data ''last_patch''),
     a_eol_status := eol_of data, a_software_stack := items_of data ''software_stack'', a_cpe := items_of data ''cpe'',
     a_dependencies := items_of data ''dependencies'', a_sources := [''csv_import''],
     a_is_shadow := (field_of data ''edr_status'' \<in> {''None'', []} \<or> field_of data ''control_coverage'' = ''none''),
     a_tags := items_of data ''tags'', a_attrs := []\<rparr>)"

text \<open>A row's error text, or its values; a cell beyond the header has no name to normalise.\<close>

definition read_row_data :: "dict_row \<Rightarrow> string + row_data" where
  "read_row_data r =
     (if dr_rest r \<noteq> [] then Inl (CHR 0x27 # ''NoneType'' @ CHR 0x27 # '' object has no attribute '' @ CHR 0x27 # ''strip'' @ [CHR 0x27])
      else let data = normal_row r in if field_of data ''name'' = [] then Inl ''name is required'' else Inr data)"

section \<open>The import\<close>

record import_results =
  ir_created :: nat
  ir_errors :: "(nat \<times> string) list"
  ir_preview :: "jdict list"
  ir_dry_run :: bool

definition preview_item :: "asset \<Rightarrow> jdict" where
  "preview_item a = [(''name'', PStr (a_name a)), (''type'', PStr (a_type a)), (''risk_tier'', PStr (a_risk_tier a)),
     (''risk_score'', PFloat (a_risk_score a))]"

text \<open>The rows from row number \<open>n\<close> on; the pending assets are in the session.\<close>

fun import_rows :: "int \<Rightarrow> bool \<Rightarrow> dict_row list \<Rightarrow> nat \<Rightarrow> import_results \<Rightarrow> db \<Rightarrow> import_results \<times> db" where
  "import_rows now dry_run [] n res d = (res, d)"
| "import_rows now dry_run (r # rs) n res d = (case read_row_data r of
     Inl m \<Rightarrow> import_rows now dry_run rs (n + 1) (res\<lparr>ir_errors := ir_errors res @ [(n, take 200 m)]\<rparr>) d
   | Inr data \<Rightarrow>
       let (i, d1) = fresh_id d; a = row_asset now i data;
           res = res\<lparr>ir_created := ir_created res + 1, ir_preview := (if dry_run \<and> length (ir_preview res) < 10
             then ir_preview res @ [preview_item a] else ir_preview res)\<rparr>
       in import_rows now dry_run rs (n + 1) res (if dry_run then d1 else d1\<lparr>assets := assets d1 @ [a]\<rparr>))"

definition read_csv :: "upload \<Rightarrow> (nat \<times> string list \<times> dict_row list \<times> bool) result" where
  "read_csv up =
     (if \<not> csv_name (up_filename up) then Inl (HTTPException 400 ''File must be .csv'')
      else rbind (read_upload 0 [] (up_chunks up)) (\<lambda>(bytes, content).
        case decode_sig content of
          None \<Rightarrow> Inl (HTTPException 400 ''File must be UTF-8 encoded'')
        | Some text \<Rightarrow> (case dict_reader text of (header, rows, bad) \<Rightarrow>
            if header = None \<and> bad then Inl (ServiceError ''csv.Error'')
            else rbind (header_of header) (\<lambda>hs. Inr (bytes, hs, rows, bad)))))"

definition import_assets_csv :: "'r env \<Rightarrow> pg_ok \<Rightarrow> int \<Rightarrow> http_request \<Rightarrow> user \<Rightarrow> upload \<Rightarrow> bool \<Rightarrow> db \<Rightarrow> import_results result \<times> db" where
  "import_assets_csv env pg now rq who up dry_run d =
     (case rbind (read_csv up) (\<lambda>(bytes, hs, rows, bad). rbind (prescan bad rows 0 [] []) (\<lambda>(seen, dups).
             rbind (checked_names dry_run seen dups d) (\<lambda>_. Inr (bytes, rows)))) of
        Inl e \<Rightarrow> (Inl e, d)
      | Inr (bytes, rows) \<Rightarrow>
          (case import_rows now dry_run rows 2 \<lparr> ir_created = 0, ir_errors = [], ir_preview = [], ir_dry_run = dry_run \<rparr> d of (res, work) \<Rightarrow>
             if dry_run then (Inr res, d)
             else if \<not> list_all (asset_fits pg) (drop (length (assets d)) (assets work)) then (Inl DataError, d)
             else (Inr res, audit (env_sha env) now rq ''bulk_import_csv'' (Some (JwtUser who)) (Some ''asset'') None ''info''
                     [(''rows_processed'', PInt (int (ir_created res + length (ir_errors res)))), (''created'', PInt (int (ir_created res))),
                      (''errors'', PInt (int (length (ir_errors res)))), (''filename'', opt_py (up_filename up)),
                      (''file_size_bytes'', PInt (int bytes))] work)))"

section \<open>What an import adds\<close>

text \<open>The values of the rows that can be imported.\<close>

definition importable :: "dict_row list \<Rightarrow> row_data list" where
  "importable rows = concat (map (\<lambda>r. case read_row_data r of Inl m \<Rightarrow> [] | Inr data \<Rightarrow> [data]) rows)"

lemma import_rows_effect:
  assumes "import_rows now dry_run rows n res d = (res', d')"
  shows "ir_created res' = ir_created res + length (importable rows)
    \<and> ir_created res' + length (ir_errors res') = ir_created res + length (ir_errors res) + length rows
    \<and> ir_dry_run res' = ir_dry_run res
    \<and> d'\<lparr>next_id := next_id d, assets := assets d\<rparr> = d
    \<and> next_id d' = next_id d + length (importable rows)
    \<and> (\<not> dry_run \<longrightarrow> assets d' = assets d @ map2 (row_asset now) [next_id d..<next_id d'] (importable rows))"
  using assms
proof (induction rows arbitrary: n res d)
  case Nil
  then show ?case by (simp add: importable_def)
next
  case (Cons r rows)
  show ?case
  proof (cases "read_row_data r")
    case (Inl m)
    have imp: "importable (r # rows) = importable rows" using Inl by (simp add: importable_def)
    from Cons.prems Inl have "import_rows now dry_run rows (n + 1) (res\<lparr>ir_errors := ir_errors res @ [(n, take 200 m)]\<rparr>) d = (res', d')" by simp
    from Cons.IH [OF this] show ?thesis by (simp add: imp)
  next
    case (Inr data)
    let ?a = "row_asset now (next_id d) data"
    let ?d = "if dry_run then d\<lparr>next_id := next_id d + 1\<rparr> else d\<lparr>next_id := next_id d + 1, assets := assets d @ [?a]\<rparr>"
    let ?res = "res\<lparr>ir_created := ir_created res + 1, ir_preview := (if dry_run \<and> length (ir_preview res) < 10
             then ir_preview res @ [preview_item ?a] else ir_preview res)\<rparr>"
    from Cons.prems Inr have "import_rows now dry_run rows (n + 1) ?res ?d = (res', d')"
      by (simp add: fresh_id_def Let_def split: if_splits)
    note IH = Cons.IH [OF this]
    have imp: "importable (r # rows) = data # importable rows" using Inr by (simp add: importable_def)
    have frame: "d'\<lparr>next_id := next_id d, assets := assets d\<rparr> = d"
      using arg_cong [OF IH [THEN conjunct2, THEN conjunct2, THEN conjunct2, THEN conjunct1], of "\<lambda>e. e\<lparr>next_id := next_id d, assets := assets d\<rparr>"]
      by (cases dry_run) simp_all
    have ids: "next_id d' = next_id d + length (importable (r # rows))" using IH imp by (cases dry_run) simp_all
    have rows: "assets d' = assets d @ map2 (row_asset now) [next_id d..<next_id d'] (importable (r # rows))" if "\<not> dry_run"
    proof -
      have "[next_id d..<next_id d'] = next_id d # [next_id d + 1..<next_id d']" using ids imp by (simp add: upt_rec)
      moreover have "assets d' = assets d @ ?a # map2 (row_asset now) [next_id d + 1..<next_id d'] (importable rows)" using IH that by simp
      ultimately show ?thesis by (simp add: imp)
    qed
    from IH frame ids rows show ?thesis by (simp add: imp)
  qed
qed

text \<open>What a successful scan has seen.\<close>

lemma prescan_seen:
  assumes "prescan bad rows n seen dups = Inr (seen', [])"
  shows "\<not> bad \<and> dups = [] \<and> map fst seen' = map fst seen @ filter (\<lambda>s. s \<noteq> []) (map scanned_name rows)
    \<and> (rows \<noteq> [] \<longrightarrow> n + length rows \<le> MAX_ROWS_PER_IMPORT)"
  using assms
proof (induction rows arbitrary: n seen dups)
  case Nil
  then show ?case by (simp split: if_splits)
next
  case (Cons r rows)
  let ?name = "scanned_name r"
  have limit: "n + 1 \<le> MAX_ROWS_PER_IMPORT" using Cons.prems by (simp split: if_splits)
  consider "?name = []" | k where "?name \<noteq> []" "map_of seen ?name = Some k" | "?name \<noteq> []" "map_of seen ?name = None"
    by (cases "map_of seen ?name") auto
  then show ?case
  proof cases
    case 1
    with Cons.prems limit have "prescan bad rows (n + 1) seen dups = Inr (seen', [])" by simp
    from Cons.IH [OF this] 1 limit show ?thesis by (cases rows) simp_all
  next
    case 2
    with Cons.prems limit have "prescan bad rows (n + 1) seen (dups @ [\<lparr> du_row = n + 2, du_name = ?name, du_first_seen = k \<rparr>]) = Inr (seen', [])"
      by simp
    from Cons.IH [OF this] show ?thesis by simp
  next
    case 3
    with Cons.prems limit have "prescan bad rows (n + 1) (seen @ [(?name, n + 2)]) dups = Inr (seen', [])" by simp
    from Cons.IH [OF this] 3 limit show ?thesis by (cases rows) (simp_all add: map_of_eq_None_iff)
  qed
qed

lemma prescan_distinct:
  "prescan bad rows n seen dups = Inr (seen', dups') \<Longrightarrow> distinct (map fst seen) \<Longrightarrow> distinct (map fst seen')"
proof (induction rows arbitrary: n seen dups)
  case (Cons r rows)
  have step: "distinct (map fst (seen @ [(scanned_name r, k)]))" if "map_of seen (scanned_name r) = None" for k
    using that Cons.prems(2) by (simp add: map_of_eq_None_iff)
  from Cons.prems Cons.IH step show ?case
    by (auto simp del: map_append simp: Let_def split: if_splits option.splits)
qed (simp split: if_splits)

lemma read_csv_reads:
  assumes "read_csv up = Inr (bytes, hs, rows, bad)"
  shows "\<exists>content s. read_upload 0 [] (up_chunks up) = Inr (bytes, content) \<and> decode_sig content = Some s \<and> dict_reader s = (Some hs, rows, bad)"
proof -
  from assms obtain b content s where u: "read_upload 0 [] (up_chunks up) = Inr (b, content)" and s: "decode_sig content = Some s"
    and r: "(case dict_reader s of (header, rows, bad) \<Rightarrow>
      if header = None \<and> bad then Inl (ServiceError ''csv.Error'') else rbind (header_of header) (\<lambda>hs. Inr (b, hs, rows, bad)))
      = Inr (bytes, hs, rows, bad)"
    by (auto simp: read_csv_def res_simps split: if_splits option.splits)
  obtain header rows' bad' where d': "dict_reader s = (header, rows', bad')" by (cases "dict_reader s")
  with r have d: "dict_reader s = (header, rows, bad)" "b = bytes" and h: "header_of header = Inr hs" by (auto simp: res_simps split: if_splits)
  from h have "header = Some hs" by (auto simp: header_of_def Let_def split: option.splits if_splits)
  with d u s show ?thesis by auto
qed

lemma dict_reader_rows:
  assumes "dict_reader s = (Some hs, rows, bad)"
  shows "\<exists>rs. csv_reader s = (hs # rs, bad) \<and> rows = map (dict_row_of hs) (filter (\<lambda>r. r \<noteq> []) rs)"
proof -
  obtain rs e where "csv_reader s = (rs, e)" by (cases "csv_reader s")
  with assms show ?thesis by (cases rs) (simp_all add: dict_reader_def)
qed

lemma read_csv_rows:
  assumes "read_csv up = Inr (bytes, hs, rows, bad)" shows "set rows \<subseteq> range (dict_row_of hs)"
  using read_csv_reads [OF assms] dict_reader_rows by fastforce

text \<open>A completed import, by its steps.\<close>

lemma import_completed:
  assumes "import_assets_csv env pg now rq who up dry_run d = (Inr res, d')"
  shows "\<exists>bytes hs rows seen work. read_csv up = Inr (bytes, hs, rows, False) \<and> prescan False rows 0 [] [] = Inr (seen, [])
    \<and> checked_names dry_run seen [] d = Inr ()
    \<and> import_rows now dry_run rows 2 \<lparr> ir_created = 0, ir_errors = [], ir_preview = [], ir_dry_run = dry_run \<rparr> d = (res, work)
    \<and> (dry_run \<longrightarrow> d' = d)
    \<and> (\<not> dry_run \<longrightarrow> (\<exists>dt. d' = audit (env_sha env) now rq ''bulk_import_csv'' (Some (JwtUser who)) (Some ''asset'') None ''info'' dt work))"
proof -
  from assms obtain bytes hs rows bad seen dups where r: "read_csv up = Inr (bytes, hs, rows, bad)"
    and s: "prescan bad rows 0 [] [] = Inr (seen, dups)" and c: "checked_names dry_run seen dups d = Inr ()"
    by (auto simp: import_assets_csv_def res_simps split: sum.splits)
  from c have dups: "dups = []" by (simp add: checked_names_def Let_def split: if_splits)
  with s prescan_seen have bad: "\<not> bad" by blast
  obtain res1 work where w: "import_rows now dry_run rows 2 \<lparr> ir_created = 0, ir_errors = [], ir_preview = [], ir_dry_run = dry_run \<rparr> d
    = (res1, work)" by (metis surj_pair)
  from assms r s c dups bad w show ?thesis
    by (intro exI [of _ bytes] exI [of _ hs] exI [of _ rows] exI [of _ seen] exI [of _ work])
       (auto simp: import_assets_csv_def split: if_splits)
qed

lemma import_stopped:
  assumes "import_assets_csv env pg now rq who up dry_run d = (Inl e, d')" shows "d' = d"
  using assms by (auto simp: import_assets_csv_def split: sum.splits prod.splits if_splits)

lemma row_asset_name: "a_name (row_asset now i data) = field_of data ''name''"
  by (simp add: row_asset_def set_risk_def)

lemma row_names:
  "length ids = length datas \<Longrightarrow> map a_name (map2 (row_asset now) ids datas) = map (\<lambda>data. field_of data ''name'') datas"
  by (induction ids datas rule: list_induct2) (simp_all add: row_asset_name)

section \<open>The name of a row\<close>

lemma map_of_assign: "map_of (assign k v d) x = (if x = k then Some v else map_of d x)"
  by (induction d) auto

lemma keys_assign: "fst ` set (assign k v d) = insert k (fst ` set d)"
proof (induction d)
  case (Cons a d)
  then show ?case by (cases a) (simp add: insert_commute)
qed simp

lemma distinct_assign: "distinct (map fst d) \<Longrightarrow> distinct (map fst (assign k v d))"
proof (induction d)
  case (Cons a d)
  then show ?case using keys_assign [of k v d] by (cases a) auto
qed simp

lemma fold_assign:
  assumes "distinct (map fst acc)"
  shows "distinct (map fst (fold (\<lambda>(k, v). assign k v) kvs acc)) \<and> fst ` set (fold (\<lambda>(k, v). assign k v) kvs acc) = fst ` set acc \<union> fst ` set kvs"
  using assms
proof (induction kvs arbitrary: acc)
  case (Cons a kvs)
  obtain k v where a: "a = (k, v)" by (cases a)
  from Cons.IH [OF distinct_assign [OF Cons.prems, of k v]] show ?case by (auto simp: a keys_assign)
qed simp

lemma row_cells:
  "distinct (map fst (dr_cells (dict_row_of hs row))) \<and> fst ` set (dr_cells (dict_row_of hs row)) \<subseteq> set hs"
proof -
  let ?kvs = "zip hs (map Some row) @ map (\<lambda>k. (k, None)) (drop (length row) hs)"
  have "fst ` set ?kvs \<subseteq> set hs" by (auto dest: set_zip_leftD in_set_dropD)
  with fold_assign [of "[]" ?kvs] show ?thesis by (simp add: dict_row_of_def)
qed

text \<open>Renaming the keys: a name that one key alone becomes has that key's value.\<close>

lemma fold_renamed:
  assumes "distinct (map fst kvs)" "\<And>k. k \<in> fst ` set kvs \<Longrightarrow> f k = x \<longleftrightarrow> k = key"
  shows "map_of (fold (\<lambda>(k, v). assign (f k) (g v)) kvs acc) x = (case map_of kvs key of None \<Rightarrow> map_of acc x | Some v \<Rightarrow> Some (g v))"
  using assms
proof (induction kvs arbitrary: acc)
  case (Cons a kvs)
  obtain k v where a: "a = (k, v)" by (cases a)
  have IH: "map_of (fold (\<lambda>(k, v). assign (f k) (g v)) kvs (assign (f k) (g v) acc)) x
      = (case map_of kvs key of None \<Rightarrow> map_of (assign (f k) (g v) acc) x | Some v \<Rightarrow> Some (g v))"
    by (rule Cons.IH) (use Cons.prems in auto)
  have fk: "f k = x \<longleftrightarrow> k = key" using Cons.prems(2) [of k] a by simp
  show ?case
  proof (cases "k = key")
    case True
    then have "map_of kvs key = None" using Cons.prems(1) a by (auto simp: map_of_eq_None_iff)
    with IH True fk show ?thesis by (simp add: a map_of_assign)
  next
    case False
    with IH fk show ?thesis by (simp add: a map_of_assign cong: option.case_cong)
  qed
qed simp

text \<open>With one name column, spelled as the scan expects it, scan and import read the same name.\<close>

definition one_name_column :: "string list \<Rightarrow> bool" where
  "one_name_column hs = (\<exists>key\<in>{''name'', ''Name''}. \<forall>h\<in>set hs. lower (strip h) = ''name'' \<longrightarrow> h = key)"

lemma lowered_names: "lower (strip ''name'') = ''name''" "lower (strip ''Name'') = ''name''"
  by code_simp+

lemma cell_missing: "k \<notin> fst ` set (dr_cells r) \<Longrightarrow> cell k r = None"
proof -
  assume "k \<notin> fst ` set (dr_cells r)"
  then have "map_of (dr_cells r) k = None" by (simp add: map_of_eq_None_iff)
  then show ?thesis by (simp add: cell_def)
qed

definition cell_text :: "string option \<Rightarrow> string" where
  "cell_text v = strip (case v of None \<Rightarrow> [] | Some s \<Rightarrow> s)"

lemma cell_text_nil: "cell_text None = []" "cell_text (Some []) = []"
  by (simp_all add: cell_text_def strip_def lstrip_chars_def rstrip_chars_def)

lemma scanned_text:
  "cell ''Name'' r = None \<Longrightarrow> scanned_name r = cell_text (cell ''name'' r)"
  "cell ''name'' r = None \<Longrightarrow> scanned_name r = cell_text (cell ''Name'' r)"
  unfolding scanned_name_def cell_text_def by (cases "cell ''name'' r"; cases "cell ''Name'' r"; simp add: or_else_def)+

lemma name_field:
  assumes "map_of data ''name'' = (case v of None \<Rightarrow> None | Some w \<Rightarrow> Some (cell_text w))"
  shows "field_of data ''name'' = cell_text (case v of None \<Rightarrow> None | Some w \<Rightarrow> w)"
proof -
  have "map_of DEFAULTS ''name'' = None" by (simp add: DEFAULTS_def)
  with assms show ?thesis by (cases v) (simp_all add: field_of_def cell_text_nil)
qed

lemma name_read:
  assumes "one_name_column hs" "fst ` set (dr_cells r) \<subseteq> set hs" "distinct (map fst (dr_cells r))"
  shows "field_of (normal_row r) ''name'' = scanned_name r"
proof -
  obtain key where key: "key = ''name'' \<or> key = ''Name''" "\<forall>h\<in>set hs. lower (strip h) = ''name'' \<longrightarrow> h = key"
    using assms(1) unfolding one_name_column_def by blast
  have named: "lower (strip key) = ''name''" using key(1) lowered_names by (elim disjE) simp_all
  have other: "cell k r = None" if "lower (strip k) = ''name''" "k \<noteq> key" for k
    by (rule cell_missing) (use key(2) that assms(2) in blast)
  have only: "(lower (strip k) = ''name'') = (k = key)" if "k \<in> fst ` set (dr_cells r)" for k
    using that assms(2) key(2) named by blast
  have "map_of (normal_row r) ''name'' = (case map_of (dr_cells r) key of None \<Rightarrow> None | Some v \<Rightarrow> Some (cell_text v))"
    using fold_renamed [OF assms(3) only, of cell_text "[]"] by (simp add: normal_row_def cell_text_def cong: option.case_cong)
  from name_field [OF this] have "field_of (normal_row r) ''name'' = cell_text (cell key r)" by (simp only: cell_def)
  moreover have "scanned_name r = cell_text (cell key r)"
    using key(1)
  proof
    assume k: "key = ''name''"
    then have "cell ''Name'' r = None" using other [of "''Name''"] lowered_names by simp
    with k show ?thesis by (simp only: scanned_text(1))
  next
    assume k: "key = ''Name''"
    then have "cell ''name'' r = None" using other [of "''name''"] lowered_names by simp
    with k show ?thesis by (simp only: scanned_text(2))
  qed
  ultimately show ?thesis by simp
qed

lemma importable_names:
  assumes "\<forall>r\<in>set rows. field_of (normal_row r) ''name'' = scanned_name r"
  shows "map (\<lambda>data. field_of data ''name'') (importable rows)
    = map scanned_name (filter (\<lambda>r. dr_rest r = []) (filter (\<lambda>r. scanned_name r \<noteq> []) rows))"
  using assms by (induction rows) (auto simp: importable_def read_row_data_def Let_def)

lemma names_seen_distinct:
  assumes "distinct (filter (\<lambda>s. s \<noteq> []) (map f rows))"
  shows "distinct (map f (filter P (filter (\<lambda>r. f r \<noteq> []) rows)))"
proof -
  have "filter (\<lambda>s. s \<noteq> []) (map f rows) = map f (filter (\<lambda>r. f r \<noteq> []) rows)" by (simp add: filter_map comp_def)
  then show ?thesis using assms distinct_map_filter by metis
qed

lemma checked_fresh:
  assumes "checked_names False seen [] d = Inr ()" shows "fst ` set seen \<inter> a_name ` set (assets d) = {}"
proof -
  from assms have "filter (\<lambda>n. n \<in> fst ` set seen) (map a_name (assets d)) = []" by (simp add: checked_names_def Let_def split: if_splits)
  then have "\<forall>x\<in>a_name ` set (assets d). x \<notin> fst ` set seen" by (simp add: filter_empty_conv)
  then show ?thesis unfolding disjoint_iff by blast
qed

lemma import_succeeds:
  assumes "read_csv up = Inr (bytes, hs, rows, False)" "prescan False rows 0 [] [] = Inr (seen, [])" "checked_names False seen [] d = Inr ()"
    and "list_all (asset_fits pg) (map2 (row_asset now) [next_id d..<next_id d + length (importable rows)] (importable rows))"
  shows "\<exists>res d'. import_assets_csv env pg now rq who up False d = (Inr res, d')
    \<and> assets d' = assets d @ map2 (row_asset now) [next_id d..<next_id d + length (importable rows)] (importable rows)"
proof -
  let ?start = "\<lparr> ir_created = 0, ir_errors = [], ir_preview = [], ir_dry_run = False \<rparr>"
  obtain res work where w: "import_rows now False rows 2 ?start d = (res, work)" by (metis surj_pair)
  from import_rows_effect [OF w] have a: "assets work = assets d @ map2 (row_asset now) [next_id d..<next_id d + length (importable rows)] (importable rows)"
    by simp
  show ?thesis using assms(4) by (simp add: import_assets_csv_def assms(1-3) w a)
qed

text \<open>With any other spelling of the name column the scan sees no name, and nothing is refused.\<close>

lemma prescan_blind:
  "\<forall>r\<in>set rows. scanned_name r = [] \<Longrightarrow> n + length rows \<le> MAX_ROWS_PER_IMPORT \<Longrightarrow> prescan False rows n [] [] = Inr ([], [])"
  by (induction rows arbitrary: n) simp_all

lemma other_spelling_unchecked:
  assumes "read_csv up = Inr (bytes, hs, rows, False)" "''name'' \<notin> set hs" "''Name'' \<notin> set hs"
    and "length rows \<le> MAX_ROWS_PER_IMPORT"
    and "list_all (asset_fits pg) (map2 (row_asset now) [next_id d..<next_id d + length (importable rows)] (importable rows))"
  shows "\<exists>res d'. import_assets_csv env pg now rq who up False d = (Inr res, d')
    \<and> assets d' = assets d @ map2 (row_asset now) [next_id d..<next_id d + length (importable rows)] (importable rows)"
proof -
  have "scanned_name r = []" if "r \<in> set rows" for r
  proof -
    from that obtain row where r: "r = dict_row_of hs row" using read_csv_rows [OF assms(1)] by auto
    have "cell k r = None" if "k \<notin> set hs" for k
      by (rule cell_missing) (use row_cells [of hs row] that in \<open>auto simp: r\<close>)
    with assms(2,3) show ?thesis by (simp add: scanned_text cell_text_nil)
  qed
  with prescan_blind [of rows 0] assms(4) have s: "prescan False rows 0 [] [] = Inr ([], [])" by simp
  have "checked_names False [] [] d = Inr ()" by (simp add: checked_names_def)
  with import_succeeds [OF assms(1) s _ assms(5)] show ?thesis by blast
qed

section \<open>Properties\<close>

text \<open>
  C30: An import that succeeds adds exactly one asset for each row with a usable name, in order
  and with the values of the row, counts each row as created or as an error and writes one audit
  entry; a dry run and every failure change nothing.
\<close>

theorem import_adds_rows:
  "case import_assets_csv env pg now rq who up dry_run d of
     (Inl e, d') \<Rightarrow> d' = d
   | (Inr res, d') \<Rightarrow> \<exists>bytes hs rows. read_csv up = Inr (bytes, hs, rows, False) \<and> length rows \<le> MAX_ROWS_PER_IMPORT
       \<and> ir_created res = length (importable rows) \<and> ir_created res + length (ir_errors res) = length rows
       \<and> (if dry_run then d' = d
          else assets d' = assets d @ map2 (row_asset now) [next_id d..<next_id d + ir_created res] (importable rows)
            \<and> (\<exists>l. audit_log_rows d' = audit_log_rows d @ [l] \<and> lg_action l = ''bulk_import_csv'')
            \<and> d'\<lparr>assets := assets d, audit_log_rows := audit_log_rows d, next_id := next_id d\<rparr> = d)"
proof (cases "import_assets_csv env pg now rq who up dry_run d")
  case (Pair r d')
  show ?thesis
  proof (cases r)
    case (Inl e)
    with Pair import_stopped [of env pg now rq who up dry_run d e d'] show ?thesis by simp
  next
    case (Inr res)
    let ?start = "\<lparr> ir_created = 0, ir_errors = [], ir_preview = [], ir_dry_run = dry_run \<rparr>"
    have call: "import_assets_csv env pg now rq who up dry_run d = (Inr res, d')" using Pair Inr by simp
    obtain bytes hs rows seen work where
      r: "read_csv up = Inr (bytes, hs, rows, False)" and s: "prescan False rows 0 [] [] = Inr (seen, [])"
      and w: "import_rows now dry_run rows 2 ?start d = (res, work)" and d': "dry_run \<longrightarrow> d' = d"
        "\<not> dry_run \<longrightarrow> (\<exists>dt. d' = audit (env_sha env) now rq ''bulk_import_csv'' (Some (JwtUser who)) (Some ''asset'') None ''info'' dt work)"
      using import_completed [OF call] by blast
    have effect: "ir_created res = length (importable rows)" "ir_created res + length (ir_errors res) = length rows"
      "work\<lparr>next_id := next_id d, assets := assets d\<rparr> = d" "next_id work = next_id d + length (importable rows)"
      "\<not> dry_run \<Longrightarrow> assets work = assets d @ map2 (row_asset now) [next_id d..<next_id work] (importable rows)"
      using import_rows_effect [OF w] by simp_all
    have count: "length rows \<le> MAX_ROWS_PER_IMPORT" using prescan_seen [OF s] by (cases rows) simp_all
    have "assets d' = assets d @ map2 (row_asset now) [next_id d..<next_id d + ir_created res] (importable rows)
        \<and> (\<exists>l. audit_log_rows d' = audit_log_rows d @ [l] \<and> lg_action l = ''bulk_import_csv'')
        \<and> d'\<lparr>assets := assets d, audit_log_rows := audit_log_rows d, next_id := next_id d\<rparr> = d" if live: "\<not> dry_run"
    proof -
      from d'(2) live obtain dt where a: "d' = audit (env_sha env) now rq ''bulk_import_csv'' (Some (JwtUser who)) (Some ''asset'') None ''info'' dt work"
        by blast
      have logs: "audit_log_rows work = audit_log_rows d" using arg_cong [OF effect(3), of audit_log_rows] by simp
      have rest: "d'\<lparr>assets := assets d, audit_log_rows := audit_log_rows d, next_id := next_id d\<rparr>
          = work\<lparr>next_id := next_id d, assets := assets d\<rparr>\<lparr>audit_log_rows := audit_log_rows d\<rparr>"
        by (simp add: a audit_def fresh_id_def Let_def)
      have "d'\<lparr>assets := assets d, audit_log_rows := audit_log_rows d, next_id := next_id d\<rparr> = d" unfolding rest effect(3) by simp
      moreover have "assets d' = assets d @ map2 (row_asset now) [next_id d..<next_id d + ir_created res] (importable rows)"
        using effect live by (simp add: a)
      moreover from audit_rows [of "env_sha env" now rq "''bulk_import_csv''" "Some (JwtUser who)" "Some ''asset''" None "''info''" dt work]
      have "\<exists>l. audit_log_rows d' = audit_log_rows d @ [l] \<and> lg_action l = ''bulk_import_csv''" unfolding a logs by blast
      ultimately show ?thesis by blast
    qed
    with r count effect(1,2) d'(1) have "\<exists>bytes hs rows. read_csv up = Inr (bytes, hs, rows, False) \<and> length rows \<le> MAX_ROWS_PER_IMPORT
       \<and> ir_created res = length (importable rows) \<and> ir_created res + length (ir_errors res) = length rows
       \<and> (if dry_run then d' = d
          else assets d' = assets d @ map2 (row_asset now) [next_id d..<next_id d + ir_created res] (importable rows)
            \<and> (\<exists>l. audit_log_rows d' = audit_log_rows d @ [l] \<and> lg_action l = ''bulk_import_csv'')
            \<and> d'\<lparr>assets := assets d, audit_log_rows := audit_log_rows d, next_id := next_id d\<rparr> = d)"
      by (intro exI [of _ bytes] exI [of _ hs] exI [of _ rows]) simp
    then show ?thesis unfolding Pair Inr prod.case sum.case .
  qed
qed

text \<open>
  Where one header column alone reads as the name and is spelled \<open>name\<close> or \<open>Name\<close>, the
  assets an import adds have names that differ from each other and from every name before.
\<close>

theorem imported_names_fresh:
  assumes "import_assets_csv env pg now rq who up False d = (Inr res, d')"
    and "read_csv up = Inr (bytes, hs, rows, bad)" "one_name_column hs"
  shows "\<exists>new. assets d' = assets d @ new \<and> distinct (map a_name new) \<and> a_name ` set new \<inter> a_name ` set (assets d) = {}
    \<and> [] \<notin> a_name ` set new"
proof -
  let ?start = "\<lparr> ir_created = 0, ir_errors = [], ir_preview = [], ir_dry_run = False \<rparr>"
  obtain seen work dt where s: "prescan False rows 0 [] [] = Inr (seen, [])"
    and c: "checked_names False seen [] d = Inr ()" and w: "import_rows now False rows 2 ?start d = (res, work)"
    and d': "d' = audit (env_sha env) now rq ''bulk_import_csv'' (Some (JwtUser who)) (Some ''asset'') None ''info'' dt work"
    using import_completed [OF assms(1)] unfolding assms(2) sum.inject prod.inject by blast
  let ?new = "map2 (row_asset now) [next_id d..<next_id work] (importable rows)"
  have new: "assets d' = assets d @ ?new" "length [next_id d..<next_id work] = length (importable rows)"
    using import_rows_effect [OF w] by (simp_all add: d')
  have "map a_name ?new = map (\<lambda>data. field_of data ''name'') (importable rows)"
    by (rule row_names) (rule new(2))
  moreover have "field_of (normal_row r) ''name'' = scanned_name r" if "r \<in> set rows" for r
  proof -
    from that obtain row where "r = dict_row_of hs row" using read_csv_rows [OF assms(2)] by auto
    with name_read [OF assms(3)] row_cells show ?thesis by blast
  qed
  ultimately have names: "map a_name ?new = map scanned_name (filter (\<lambda>r. dr_rest r = []) (filter (\<lambda>r. scanned_name r \<noteq> []) rows))"
    using importable_names by simp
  have seen: "map fst seen = filter (\<lambda>s. s \<noteq> []) (map scanned_name rows)" "distinct (map fst seen)" using prescan_seen [OF s] prescan_distinct [OF s] by simp_all
  have fresh: "n \<notin> a_name ` set (assets d)" if "n \<in> fst ` set seen" for n
    using checked_fresh [OF c] that by blast
  have distinct: "distinct (map a_name ?new)" unfolding names by (rule names_seen_distinct) (use seen in simp)
  have "a_name ` set ?new = set (map a_name ?new)" by (rule set_map [symmetric])
  also have "\<dots> \<subseteq> set (map fst seen) - {[]}" unfolding names seen(1) by auto
  finally have "a_name ` set ?new \<inter> a_name ` set (assets d) = {} \<and> [] \<notin> a_name ` set ?new" using fresh by auto
  with new(1) distinct show ?thesis by blast
qed

section \<open>Samples\<close>

text \<open>An upload written by \<open>csv.writer\<close>.\<close>

definition written_upload :: "string list list \<Rightarrow> upload" where
  "written_upload rows = \<lparr> up_filename = Some ''Assets.CSV'', up_chunks = [concat (map csv_row rows)] \<rparr>"

lemma written_read:
  assumes "concat (map csv_row (hs # rows)) = text" "text \<noteq> []" "utf8_ok text" "\<not> starts_with BOM text" "length text \<le> MAX_UPLOAD_BYTES"
    and "\<forall>fs\<in>set (hs # rows). fs \<noteq> [] \<and> (\<forall>f\<in>set fs. length f \<le> FIELD_LIMIT)" "header_of (Some hs) = Inr hs"
  shows "read_csv (written_upload (hs # rows)) = Inr (length text, hs, map (dict_row_of hs) rows, False)"
proof -
  have "csv_name (Some ''Assets.CSV'')" by code_simp
  moreover have "dict_reader text = (Some hs, map (dict_row_of hs) rows, False)"
    using read_rows [OF assms(6)] assms(1,6) by (simp add: dict_reader_def)
  ultimately show ?thesis using assms(1-5,7) by (simp add: read_csv_def written_upload_def decode_sig_def)
qed

definition sample_header :: "string list" where "sample_header = [''Name'', ''type'', ''edr_status'']"
definition sample_rows :: "string list list" where "sample_rows = [['' web2 '', ''Server'', ''Falcon''], [[], ''Server'', ''None'']]"

definition one_asset_db :: db where
  "one_asset_db = empty_db\<lparr>next_id := 2, assets := [(new_asset 1 0)\<lparr>a_name := ''web1''\<rparr>]\<rparr>"

lemma sample_read: "\<exists>n. read_csv (written_upload (sample_header # sample_rows)) = Inr (n, sample_header, map (dict_row_of sample_header) sample_rows, False)"
proof -
  let ?text = "concat (map csv_row (sample_header # sample_rows))"
  have "?text \<noteq> [] \<and> utf8_ok ?text \<and> \<not> starts_with BOM ?text \<and> header_of (Some sample_header) = Inr sample_header" by code_simp
  moreover have "length ?text \<le> MAX_UPLOAD_BYTES"
    by (simp add: sample_header_def sample_rows_def csv_row_def csv_field_def special_def CR_def LF_def QUOTE_def MAX_UPLOAD_BYTES_def)
  moreover have "\<forall>fs\<in>set (sample_header # sample_rows). fs \<noteq> [] \<and> (\<forall>f\<in>set fs. length f \<le> FIELD_LIMIT)"
    by (simp add: sample_header_def sample_rows_def FIELD_LIMIT_def)
  ultimately show ?thesis using written_read [OF HOL.refl] by blast
qed

lemma sample_importable: "importable (map (dict_row_of sample_header) sample_rows) = [[(''name'', ''web2''), (''type'', ''Server''), (''edr_status'', ''Falcon'')]]"
  by code_simp

lemma sample_names: "map scanned_name (map (dict_row_of sample_header) sample_rows) = [''web2'', []]"
  by code_simp

lemma plain_row_fits:
  "fits 255 name \<Longrightarrow> fits 128 edr \<Longrightarrow> name \<noteq> [] \<Longrightarrow>
   asset_fits no_addresses (row_asset now i [(''name'', name), (''type'', ''Server''), (''edr_status'', edr)])"
  by (simp add: asset_fits_def row_asset_def set_risk_def field_of_def DEFAULTS_def address_of_def optional_def opt_all_def)

lemma sample_scan: "prescan False (map (dict_row_of sample_header) sample_rows) 0 [] [] = Inr ([(''web2'', 2)], [])"
  using sample_names by (simp add: sample_rows_def MAX_ROWS_PER_IMPORT_def)

lemma sample_import:
  "\<exists>res d'. import_assets_csv env no_addresses now rq who (written_upload (sample_header # sample_rows)) False one_asset_db = (Inr res, d')"
proof -
  have "checked_names False [(''web2'', 2)] [] one_asset_db = Inr ()" by (simp add: checked_names_def one_asset_db_def)
  moreover have "list_all (asset_fits no_addresses) (map2 (row_asset now) [next_id one_asset_db..<next_id one_asset_db
      + length (importable (map (dict_row_of sample_header) sample_rows))] (importable (map (dict_row_of sample_header) sample_rows)))"
    unfolding sample_importable by (simp add: one_asset_db_def upt_rec plain_row_fits)
  ultimately show ?thesis using sample_read import_succeeds [OF _ sample_scan] by blast
qed

theorem imported_names_fresh_witness:
  "\<exists>res d' new. import_assets_csv sample_env no_addresses 5 sample_request (new_user 3 0) (written_upload (sample_header # sample_rows)) False one_asset_db = (Inr res, d')
     \<and> assets d' = assets one_asset_db @ new \<and> ''web1'' \<notin> a_name ` set new"
proof -
  obtain res d' where i: "import_assets_csv sample_env no_addresses 5 sample_request (new_user 3 0) (written_upload (sample_header # sample_rows)) False one_asset_db
    = (Inr res, d')" using sample_import by blast
  obtain n where r: "read_csv (written_upload (sample_header # sample_rows)) = Inr (n, sample_header, map (dict_row_of sample_header) sample_rows, False)"
    using sample_read by blast
  have "one_name_column sample_header" by code_simp
  from i imported_names_fresh [OF i r this] show ?thesis by (auto simp: one_asset_db_def)
qed

text \<open>Two rows named as an existing asset go through when the header says \<open>NAME\<close>.\<close>

definition upper_rows :: "string list list" where "upper_rows = [[''web1'', ''Server'', ''Falcon''], [''web1'', ''Server'', ''None'']]"

lemma upper_name_duplicates:
  "\<exists>res d'. import_assets_csv env no_addresses now rq who (written_upload ([''NAME'', ''type'', ''edr_status''] # upper_rows)) False one_asset_db = (Inr res, d')
     \<and> map a_name (assets d') = [''web1'', ''web1'', ''web1'']"
proof -
  let ?h = "[''NAME'', ''type'', ''edr_status'']" and ?rows = "map (dict_row_of [''NAME'', ''type'', ''edr_status'']) upper_rows"
  let ?text = "concat (map csv_row (?h # upper_rows))"
  have "?text \<noteq> [] \<and> utf8_ok ?text \<and> \<not> starts_with BOM ?text \<and> header_of (Some ?h) = Inr ?h" by code_simp
  moreover have "length ?text \<le> MAX_UPLOAD_BYTES"
    by (simp add: upper_rows_def csv_row_def csv_field_def special_def CR_def LF_def QUOTE_def MAX_UPLOAD_BYTES_def)
  moreover have "\<forall>fs\<in>set (?h # upper_rows). fs \<noteq> [] \<and> (\<forall>f\<in>set fs. length f \<le> FIELD_LIMIT)"
    by (simp add: upper_rows_def FIELD_LIMIT_def)
  ultimately have r: "read_csv (written_upload (?h # upper_rows)) = Inr (length ?text, ?h, ?rows, False)"
    using written_read [OF HOL.refl] by blast
  have i: "importable ?rows = map (\<lambda>e. [(''name'', ''web1''), (''type'', ''Server''), (''edr_status'', e)]) [''Falcon'', ''None'']" by code_simp
  have n: "[next_id one_asset_db..<next_id one_asset_db + length (importable ?rows)] = [2, 3]"
    unfolding i by (simp add: one_asset_db_def upt_rec)
  have "list_all (asset_fits no_addresses) (map2 (row_asset now) [2, 3] (importable ?rows))"
    unfolding i by (simp add: plain_row_fits)
  moreover have "length ?rows \<le> MAX_ROWS_PER_IMPORT" by (simp add: upper_rows_def MAX_ROWS_PER_IMPORT_def)
  moreover have "''name'' \<notin> set ?h" "''Name'' \<notin> set ?h" by simp_all
  ultimately obtain res d' where "import_assets_csv env no_addresses now rq who (written_upload (?h # upper_rows)) False one_asset_db = (Inr res, d')"
      "assets d' = assets one_asset_db @ map2 (row_asset now) [2, 3] (importable ?rows)"
    using other_spelling_unchecked [OF r, of no_addresses now one_asset_db env rq who] unfolding n by blast
  then show ?thesis unfolding i by (auto simp: one_asset_db_def row_asset_name field_of_def)
qed

end
