(* ===== verification/Exports.thy ===== *)
theory Exports
  imports BulkImport ComplianceApi
begin

text \<open>
  The exports (\<open>app/api/exports.py\<close>), after the guards: the CSV texts as \<open>csv.writer\<close> writes
  them, and the tables of the PDF report; the layout of the PDF is not modelled. How a time and a
  float are printed is a parameter. Rows that SQL leaves unordered come in table order; text is
  ordered by its bytes.
\<close>

record printing =
  iso_time :: "int \<Rightarrow> string"
  float_repr :: "rat \<Rightarrow> string"

section \<open>CSV\<close>

definition formula_start :: "char list" where
  "formula_start = [CHR ''='', CHR ''+'', CHR ''-'', CHR ''@'', CHR 0x09, CR]"

definition csv_safe :: "pyval \<Rightarrow> pyval" where
  "csv_safe v = (case v of PStr (c # s) \<Rightarrow> if c \<in> set formula_start then PStr (CHR 0x27 # c # s) else v | _ \<Rightarrow> v)"

text \<open>What the writer prints for a value.\<close>

definition cell_str :: "printing \<Rightarrow> pyval \<Rightarrow> string" where
  "cell_str pr v = (case v of PStr s \<Rightarrow> s | PFloat x \<Rightarrow> float_repr pr x | PInt i \<Rightarrow> show_int i | _ \<Rightarrow> [])"

definition stream_csv :: "printing \<Rightarrow> string list \<Rightarrow> pyval list list \<Rightarrow> string" where
  "stream_csv pr headers rows = csv_row headers @ concat (map (\<lambda>row. csv_row (map (\<lambda>v. cell_str pr (csv_safe v)) row)) rows)"

definition limited :: "int \<Rightarrow> 'a list \<Rightarrow> 'a list result" where
  "limited limit xs = (if limit < 1 \<or> 50000 < limit then Inl (HTTPException 422 ''limit'') else Inr (take (nat limit) xs))"

definition or_empty :: "string option \<Rightarrow> string" where
  "or_empty v = (case v of None \<Rightarrow> [] | Some s \<Rightarrow> s)"

definition yes_no :: "bool \<Rightarrow> pyval" where
  "yes_no b = PStr (if b then ''YES'' else ''no'')"

definition INVENTORY_HEADERS :: "string list" where
  "INVENTORY_HEADERS = [''ID'', ''Name'', ''Type'', ''OS'', ''IP'', ''MAC'', ''Segment'', ''EDR Status'', ''Control Coverage'',
     ''Network Exposure'', ''Auth Method'', ''Criticality'', ''Data Classification'', ''Risk Score'', ''Risk Tier'', ''CVE Count'',
     ''KEV Count'', ''EOL'', ''Shadow IT'', ''Last Seen'', ''Sources'']"

definition inventory_row :: "printing \<Rightarrow> db \<Rightarrow> asset \<Rightarrow> pyval list" where
  "inventory_row pr d a =
     (let active = filter (\<lambda>(l, c). active_link l) (linked_cves (a_id a) d)
      in [PStr (uuid_str (a_id a)), PStr (a_name a), PStr (a_type a), PStr (or_empty (a_os a)), PStr (or_empty (a_ip a)),
          PStr (or_empty (a_mac a)), PStr (or_empty (a_segment a)), PStr (or_empty (a_edr_status a)), PStr (a_control_coverage a),
          PStr (a_network_exposure a), PStr (a_auth_method a), PStr (a_criticality a), PStr (a_data_classification a),
          PFloat (a_risk_score a), PStr (a_risk_tier a), PInt (int (length active)),
          PInt (int (length (filter (\<lambda>(l, c). cv_kev c) active))), yes_no (a_eol_status a), yes_no (a_is_shadow a),
          PStr (iso_time pr (a_last_seen a)), PStr (join '', '' (a_sources a))])"

definition export_inventory :: "printing \<Rightarrow> int \<Rightarrow> db \<Rightarrow> string result" where
  "export_inventory pr limit d = rbind (limited limit (assets d)) (\<lambda>xs. Inr (stream_csv pr INVENTORY_HEADERS (map (inventory_row pr d) xs)))"

definition ALERT_HEADERS :: "string list" where
  "ALERT_HEADERS = [''ID'', ''Created'', ''Severity'', ''Type'', ''Title'', ''Status'', ''Asset ID'', ''Resolved At'', ''Resolved By'']"

definition alert_cells :: "printing \<Rightarrow> alert \<Rightarrow> pyval list" where
  "alert_cells pr a = map PStr [uuid_str (al_id a), iso_time pr (al_created_at a), al_severity a, al_alert_type a, al_title a, al_status a,
     (case al_asset_id a of None \<Rightarrow> [] | Some i \<Rightarrow> uuid_str i), (case al_resolved_at a of None \<Rightarrow> [] | Some t \<Rightarrow> iso_time pr t),
     or_empty (al_resolved_by a)]"

definition export_alerts :: "printing \<Rightarrow> int \<Rightarrow> db \<Rightarrow> string result" where
  "export_alerts pr limit d = rbind (limited limit (sort_key (\<lambda>a. - al_created_at a) (alerts d)))
     (\<lambda>xs. Inr (stream_csv pr ALERT_HEADERS (map (alert_cells pr) xs)))"

definition AUDIT_HEADERS :: "string list" where
  "AUDIT_HEADERS = [''Timestamp'', ''Username'', ''Action'', ''Resource Type'', ''Resource ID'', ''IP Address'', ''Severity'', ''User Agent'']"

definition audit_cells :: "printing \<Rightarrow> audit_log \<Rightarrow> pyval list" where
  "audit_cells pr e = map PStr [iso_time pr (lg_timestamp e), (if or_empty (lg_username e) = [] then ''system'' else or_empty (lg_username e)),
     lg_action e, or_empty (lg_resource_type e), or_empty (lg_resource_id e), or_empty (lg_ip_address e), lg_severity e,
     take 200 (or_empty (lg_user_agent e))]"

definition export_audit :: "printing \<Rightarrow> int \<Rightarrow> db \<Rightarrow> string result" where
  "export_audit pr limit d = rbind (limited limit (sort_key (\<lambda>e. - lg_timestamp e) (audit_log_rows d)))
     (\<lambda>xs. Inr (stream_csv pr AUDIT_HEADERS (map (audit_cells pr) xs)))"

section \<open>The compliance report\<close>

definition py_round1 :: "rat \<Rightarrow> rat" where
  "py_round1 x = fl (of_int (py_round (x * 10)) / 10)"

text \<open>\<open>completed_at DESC NULLS LAST LIMIT 1\<close>\<close>

definition reported_run :: "db \<Rightarrow> assessment_run option" where
  "reported_run d = (case latest_first ar_completed_at (filter (\<lambda>r. ar_status r = ''completed'') (assessment_runs d)) of
     [] \<Rightarrow> None | r # rs \<Rightarrow> Some r)"

text \<open>The counts of each framework; a status that a later group has again replaces the count.\<close>

definition run_counts :: "db \<Rightarrow> assessment_run \<Rightarrow> (string \<times> jdict) list" where
  "run_counts d run = fold (\<lambda>((code, version, status), n). upsert code
       [(''version'', PStr version), (''compliant'', PInt 0), (''partial'', PInt 0), (''gap'', PInt 0), (''exception'', PInt 0),
        (''not_applicable'', PInt 0), (''not_assessed'', PInt 0)] (jset status (PInt n)))
     (grouped (map (\<lambda>(x, k, c). (fc_code c, fc_version c, as_status x))
        (joined d (filter (\<lambda>x. as_run_id x = ar_id run) (assessment_results d))))) []"

definition mapping_counts :: "db \<Rightarrow> (string \<times> jdict) list" where
  "mapping_counts d = fold (\<lambda>((f, status), n). upsert f [] (jset status (PInt n)))
     (grouped (map (\<lambda>m. (cm_framework m, cm_status m)) (compliance_mappings d))) []"

definition evidence_linked :: "db \<Rightarrow> assessment_run \<Rightarrow> nat" where
  "evidence_linked d run = card (set (map ae_result_id (filter (\<lambda>l. \<exists>x\<in>set (assessment_results d). as_id x = ae_result_id l \<and> as_run_id x = ar_id run)
     (assessment_evidences d))))"

record trace_row =
  tr_code :: string
  tr_control :: string
  tr_asset :: "string option"
  tr_status :: string
  tr_source :: "string option"
  tr_sha256 :: "string option"

definition evidence_of :: "db \<Rightarrow> nat option \<Rightarrow> evidence_item option" where
  "evidence_of d i = (case i of None \<Rightarrow> None | Some i \<Rightarrow> find (\<lambda>e. ev_id e = i) (evidence_items d))"

definition trace_rows :: "db \<Rightarrow> assessment_run \<Rightarrow> trace_row list" where
  "trace_rows d run =
     (let rows = map (\<lambda>(x, k, c, ev). \<lparr> tr_code = fc_code c, tr_control = fk_control_id k, tr_asset = asset_name d (as_asset_id x),
            tr_status = as_status x, tr_source = map_option ev_source_type (evidence_of d ev),
            tr_sha256 = map_option ev_integrity_sha256 (evidence_of d ev) \<rparr>)
            (with_links d (joined d (filter (\<lambda>x. as_run_id x = ar_id run) (assessment_results d))));
          named = sort_key (\<lambda>r. or_empty (tr_asset r)) (filter (\<lambda>r. tr_asset r \<noteq> None) rows) @ filter (\<lambda>r. tr_asset r = None) rows
      in take 100 (sort_key tr_code (sort_key tr_control named)))"

definition count_at :: "jdict \<Rightarrow> string \<Rightarrow> int" where
  "count_at s k = (case map_of s k of Some (PInt n) \<Rightarrow> n | _ \<Rightarrow> 0)"

definition str_at :: "jdict \<Rightarrow> string \<Rightarrow> string \<Rightarrow> string" where
  "str_at s k v = (case map_of s k of Some (PStr t) \<Rightarrow> t | Some (PInt n) \<Rightarrow> show_int n | _ \<Rightarrow> v)"

definition pct_str :: "printing \<Rightarrow> int \<Rightarrow> int \<Rightarrow> string" where
  "pct_str pr compliant applicable =
     (if 0 < applicable then float_repr pr (py_round1 (fmul (fdiv (of_int compliant) (of_int applicable)) 100)) else ''0'') @ ''%''"

definition summary_line :: "printing \<Rightarrow> string \<Rightarrow> jdict \<Rightarrow> string list" where
  "summary_line pr fw s =
     (let compliant = count_at s ''compliant''; partial = count_at s ''partial''; gap = count_at s ''gap'';
          na = (if map_of s ''not_applicable'' = None then count_at s ''na'' else count_at s ''not_applicable'');
          total = compliant + partial + gap + na + count_at s ''exception'' + count_at s ''not_assessed''
      in [replace ''-'' '' '' (upper fw) @ '' v'' @ str_at s ''version'' ''legacy'', show_int compliant, show_int partial, show_int gap,
          show_int na, show_int total, pct_str pr compliant (total - na)])"

definition trace_line :: "(string \<times> jdict) list \<Rightarrow> trace_row \<Rightarrow> string list" where
  "trace_line summary r = [tr_code r @ '' v'' @ (case map_of summary (tr_code r) of None \<Rightarrow> ''n/a'' | Some s \<Rightarrow> str_at s ''version'' ''n/a''),
     tr_control r, (if or_empty (tr_asset r) = [] then ''organization scope'' else or_empty (tr_asset r)), tr_status r,
     (if or_empty (tr_source r) = [] then ''unlinked'' else or_empty (tr_source r)),
     take 16 (if or_empty (tr_sha256 r) = [] then ''unavailable'' else or_empty (tr_sha256 r))]"

definition SLA_MAP :: "(string \<times> string) list" where
  "SLA_MAP = [(''Critical'', ''7 days''), (''High'', ''30 days''), (''Medium'', ''90 days''), (''Low'', ''180 days''),
     (''Informational'', ''monitor only'')]"

definition risk_line :: "string \<times> int \<Rightarrow> string list" where
  "risk_line g = [(if fst g = [] then ''Unknown'' else fst g), show_int (snd g), (case map_of SLA_MAP (fst g) of None \<Rightarrow> ''n/a'' | Some t \<Rightarrow> t)]"

record pdf_report =
  rp_total_assets :: nat
  rp_run :: string
  rp_evidence_linked :: nat
  rp_summary :: "string list list"
  rp_trace :: "string list list option"
  rp_risk :: "string list list"

definition compliance_report :: "printing \<Rightarrow> db \<Rightarrow> pdf_report" where
  "compliance_report pr d =
     (let run = reported_run d;
          summary = (case run of Some r \<Rightarrow> run_counts d r | None \<Rightarrow> mapping_counts d)
      in \<lparr> rp_total_assets = length (assets d), rp_run = (case run of Some r \<Rightarrow> take 12 (uuid_str (ar_id r)) | None \<Rightarrow> ''legacy mapping''),
           rp_evidence_linked = (case run of Some r \<Rightarrow> evidence_linked d r | None \<Rightarrow> 0),
           rp_summary = [''Framework'', ''Compliant'', ''Partial'', ''Gaps'', ''N/A'', ''Total'', ''Compliance %'']
             # map (\<lambda>(f, s). summary_line pr f s) (sort_key fst summary),
           rp_trace = map_option (\<lambda>r. [''Framework'', ''Control'', ''Asset'', ''Result'', ''Source'', ''SHA-256'']
             # map (trace_line summary) (trace_rows d r)) run,
           rp_risk = [''Risk Tier'', ''Asset Count'', ''Recommended SLA''] # map risk_line (grouped (map a_risk_tier (assets d))) \<rparr>)"

section \<open>What is exported is read back\<close>

lemma csv_safe_text:
  "\<exists>t. csv_safe (PStr s) = PStr t \<and> (t = s \<or> t = CHR 0x27 # s) \<and> (t = [] \<or> hd t \<notin> set formula_start)"
proof (cases s)
  case (Cons c u)
  have "CHR 0x27 \<notin> set formula_start" by (simp add: formula_start_def CR_def)
  with Cons show ?thesis by (simp add: csv_safe_def)
qed (simp add: csv_safe_def)

lemma safe_length: "length (cell_str pr v) < FIELD_LIMIT \<Longrightarrow> length (cell_str pr (csv_safe v)) \<le> FIELD_LIMIT"
  by (auto simp: csv_safe_def cell_str_def split: pyval.splits list.splits)

lemma stream_reads_back:
  assumes "headers \<noteq> []" "\<forall>h\<in>set headers. length h \<le> FIELD_LIMIT" "[] \<notin> set rows"
    and "\<forall>row\<in>set rows. \<forall>v\<in>set row. length (cell_str pr v) < FIELD_LIMIT"
  shows "csv_reader (stream_csv pr headers rows) = (headers # map (map (\<lambda>v. cell_str pr (csv_safe v))) rows, False)"
proof -
  let ?rows = "headers # map (map (\<lambda>v. cell_str pr (csv_safe v))) rows"
  have "\<forall>fs\<in>set ?rows. fs \<noteq> [] \<and> (\<forall>f\<in>set fs. length f \<le> FIELD_LIMIT)"
    using assms safe_length by auto
  from read_rows [OF this] show ?thesis by (simp add: stream_csv_def comp_def)
qed

lemma export_headers:
  "INVENTORY_HEADERS \<noteq> [] \<and> (\<forall>h\<in>set INVENTORY_HEADERS. length h \<le> FIELD_LIMIT)"
  "ALERT_HEADERS \<noteq> [] \<and> (\<forall>h\<in>set ALERT_HEADERS. length h \<le> FIELD_LIMIT)"
  "AUDIT_HEADERS \<noteq> [] \<and> (\<forall>h\<in>set AUDIT_HEADERS. length h \<le> FIELD_LIMIT)"
  by (simp_all add: INVENTORY_HEADERS_def ALERT_HEADERS_def AUDIT_HEADERS_def FIELD_LIMIT_def)

lemma export_rows:
  "[] \<notin> inventory_row pr d ` A" "[] \<notin> alert_cells pr ` B" "[] \<notin> audit_cells pr ` C"
  by (auto simp: inventory_row_def alert_cells_def audit_cells_def Let_def)

lemma limited_Inr: "limited limit xs = Inr ys \<longleftrightarrow> 1 \<le> limit \<and> limit \<le> 50000 \<and> ys = take (nat limit) xs"
  by (auto simp: limited_def)

section \<open>An exported inventory as an import\<close>

lemma read_upload_concat: "[] \<notin> set cs \<Longrightarrow> read_upload n acc cs = Inr (m, t) \<Longrightarrow> t = acc @ concat cs"
proof (induction cs arbitrary: n acc)
  case (Cons c cs)
  from Cons.prems have "read_upload (n + length c) (acc @ c) cs = Inr (m, t)" by (auto split: if_splits)
  from Cons.IH [OF _ this] Cons.prems(1) show ?case by simp
qed simp

lemma keys_fold_assign: "fst ` set (fold (\<lambda>(k, v). assign (f k) (g v)) kvs acc) = fst ` set acc \<union> f ` fst ` set kvs"
proof (induction kvs arbitrary: acc)
  case (Cons a kvs)
  then show ?case by (cases a) (auto simp: keys_assign)
qed simp

lemma normal_row_keys: "fst ` set (normal_row (dict_row_of hs row)) \<subseteq> (\<lambda>h. lower (strip h)) ` set hs"
  unfolding normal_row_def keys_fold_assign using row_cells [of hs row] by auto

lemma field_missing:
  assumes "k \<notin> (\<lambda>h. lower (strip h)) ` set hs"
  shows "field_of (normal_row (dict_row_of hs row)) k = (case map_of DEFAULTS k of None \<Rightarrow> [] | Some w \<Rightarrow> w)"
proof -
  have "map_of (normal_row (dict_row_of hs row)) k = None"
    using assms normal_row_keys [of hs row] unfolding map_of_eq_None_iff by blast
  then show ?thesis by (simp add: field_of_def)
qed

lemma inventory_names: "(\<lambda>h. lower (strip h)) ` set INVENTORY_HEADERS = set [''id'', ''name'', ''type'', ''os'', ''ip'', ''mac'',
   ''segment'', ''edr status'', ''control coverage'', ''network exposure'', ''auth method'', ''criticality'', ''data classification'',
   ''risk score'', ''risk tier'', ''cve count'', ''kev count'', ''eol'', ''shadow it'', ''last seen'', ''sources'']"
proof -
  have "map (\<lambda>h. lower (strip h)) INVENTORY_HEADERS = [''id'', ''name'', ''type'', ''os'', ''ip'', ''mac'',
   ''segment'', ''edr status'', ''control coverage'', ''network exposure'', ''auth method'', ''criticality'', ''data classification'',
   ''risk score'', ''risk tier'', ''cve count'', ''kev count'', ''eol'', ''shadow it'', ''last seen'', ''sources'']" by code_simp
  then show ?thesis by (metis set_map)
qed

lemma inventory_fields:
  "field_of (normal_row (dict_row_of INVENTORY_HEADERS row)) ''edr_status'' = ''None''"
  "field_of (normal_row (dict_row_of INVENTORY_HEADERS row)) ''control_coverage'' = ''partial''"
  "field_of (normal_row (dict_row_of INVENTORY_HEADERS row)) ''eol_status'' = []"
  by (simp_all add: field_missing inventory_names DEFAULTS_def)

lemma importable_data: "data \<in> set (importable rows) \<Longrightarrow> \<exists>r\<in>set rows. data = normal_row r"
  by (auto simp: importable_def read_row_data_def Let_def split: sum.splits if_splits)

lemma reimported_asset:
  assumes "data \<in> set (importable (map (dict_row_of INVENTORY_HEADERS) rows))"
  shows "a_is_shadow (row_asset now i data) \<and> a_edr_status (row_asset now i data) = Some ''None''
    \<and> a_control_coverage (row_asset now i data) = ''partial'' \<and> \<not> a_eol_status (row_asset now i data)"
proof -
  from importable_data [OF assms] obtain row where "data = normal_row (dict_row_of INVENTORY_HEADERS row)" by auto
  then show ?thesis by (simp add: row_asset_def set_risk_def inventory_fields eol_of_def lower_def)
qed

section \<open>Properties\<close>

text \<open>
  C31: A CSV reader reads every export back as its header and its rows: each text cell is the
  exported text, with an apostrophe before it when a spreadsheet would take it for a formula, and
  no text cell starts as a formula.
\<close>

theorem exports_read_back:
  assumes "export_inventory pr limit d = Inr text \<and> headers = INVENTORY_HEADERS \<and> rows = map (inventory_row pr d) (take (nat limit) (assets d))
    \<or> export_alerts pr limit d = Inr text \<and> headers = ALERT_HEADERS \<and> rows = map (alert_cells pr) (take (nat limit) (sort_key (\<lambda>a. - al_created_at a) (alerts d)))
    \<or> export_audit pr limit d = Inr text \<and> headers = AUDIT_HEADERS \<and> rows = map (audit_cells pr) (take (nat limit) (sort_key (\<lambda>e. - lg_timestamp e) (audit_log_rows d)))"
    and "\<forall>row\<in>set rows. \<forall>v\<in>set row. length (cell_str pr v) < FIELD_LIMIT"
  shows "csv_reader text = (headers # map (map (\<lambda>v. cell_str pr (csv_safe v))) rows, False)
    \<and> (\<forall>row\<in>set rows. \<forall>s. PStr s \<in> set row \<longrightarrow> cell_str pr (csv_safe (PStr s)) \<in> {s, CHR 0x27 # s}
         \<and> (cell_str pr (csv_safe (PStr s)) = [] \<or> hd (cell_str pr (csv_safe (PStr s))) \<notin> set formula_start))"
proof
  have "text = stream_csv pr headers rows \<and> headers \<noteq> [] \<and> (\<forall>h\<in>set headers. length h \<le> FIELD_LIMIT) \<and> [] \<notin> set rows"
    using assms(1) export_headers export_rows
    by (elim disjE) (simp_all add: export_inventory_def export_alerts_def export_audit_def limited_Inr res_simps)
  then show "csv_reader text = (headers # map (map (\<lambda>v. cell_str pr (csv_safe v))) rows, False)"
    using stream_reads_back [of headers rows pr] assms(2) by simp
next
  have "cell_str pr (csv_safe (PStr s)) \<in> {s, CHR 0x27 # s}
      \<and> (cell_str pr (csv_safe (PStr s)) = [] \<or> hd (cell_str pr (csv_safe (PStr s))) \<notin> set formula_start)" for s
    using csv_safe_text [of s] by (auto simp: cell_str_def)
  then show "\<forall>row\<in>set rows. \<forall>s. PStr s \<in> set row \<longrightarrow> cell_str pr (csv_safe (PStr s)) \<in> {s, CHR 0x27 # s}
      \<and> (cell_str pr (csv_safe (PStr s)) = [] \<or> hd (cell_str pr (csv_safe (PStr s))) \<notin> set formula_start)" by blast
qed

text \<open>
  An exported inventory is no backup: the import accepts the file, but does not know the
  columns for the EDR status, the coverage and the end of life, so every asset comes back without
  EDR, with partial coverage, supported, and as shadow IT.
\<close>

theorem reimport_resets:
  assumes "export_inventory pr limit source = Inr text" "[] \<notin> set (up_chunks up)" "concat (up_chunks up) = text"
    and "\<forall>a\<in>set (assets source). \<forall>v\<in>set (inventory_row pr source a). length (cell_str pr v) < FIELD_LIMIT"
    and "import_assets_csv env pg now rq who up False d = (Inr res, d')"
  shows "\<exists>new. assets d' = assets d @ new \<and> length new + length (ir_errors res) = length (take (nat limit) (assets source))
    \<and> (\<forall>a\<in>set new. a_is_shadow a \<and> a_edr_status a = Some ''None'' \<and> a_control_coverage a = ''partial'' \<and> \<not> a_eol_status a)"
proof -
  let ?xs = "take (nat limit) (assets source)"
  let ?rows = "map (map (\<lambda>v. cell_str pr (csv_safe v))) (map (inventory_row pr source) ?xs)"
  have written: "text = stream_csv pr INVENTORY_HEADERS (map (inventory_row pr source) ?xs)"
    using assms(1) by (auto simp: export_inventory_def limited_Inr res_simps)
  have nonempty: "[] \<notin> set (map (inventory_row pr source) ?xs)" using export_rows by simp
  have lengths: "\<forall>row\<in>set (map (inventory_row pr source) ?xs). \<forall>v\<in>set row. length (cell_str pr v) < FIELD_LIMIT"
    using assms(4) by (auto dest: in_set_takeD)
  have reader: "csv_reader text = (INVENTORY_HEADERS # ?rows, False)"
    unfolding written by (rule stream_reads_back) (use export_headers nonempty lengths in simp_all)
  obtain bytes hs rows seen work where r: "read_csv up = Inr (bytes, hs, rows, False)"
    and w: "import_rows now False rows 2 \<lparr> ir_created = 0, ir_errors = [], ir_preview = [], ir_dry_run = False \<rparr> d = (res, work)"
    and d': "\<exists>dt. d' = audit (env_sha env) now rq ''bulk_import_csv'' (Some (JwtUser who)) (Some ''asset'') None ''info'' dt work"
    using import_completed [OF assms(5)] by blast
  have "\<not> starts_with BOM text"
    by (simp add: written stream_csv_def INVENTORY_HEADERS_def csv_row_def csv_field_def special_def starts_with_def BOM_def CR_def LF_def QUOTE_def)
  then have "decode_sig text \<noteq> None \<Longrightarrow> decode_sig text = Some text" by (simp add: decode_sig_def split: if_splits)
  with read_csv_reads [OF r] assms(2,3) read_upload_concat have "dict_reader text = (Some hs, rows, False)" by fastforce
  then have rows: "hs = INVENTORY_HEADERS" "rows = map (dict_row_of INVENTORY_HEADERS) ?rows"
    using reader nonempty by (auto simp: dict_reader_def inventory_row_def Let_def filter_map comp_def)
  let ?new = "map2 (row_asset now) [next_id d..<next_id work] (importable rows)"
  note effect = import_rows_effect [OF w]
  from d' effect have "assets d' = assets d @ ?new" by auto
  moreover have "length ?new + length (ir_errors res) = length ?xs" using effect by (simp add: rows)
  moreover have "a_is_shadow a \<and> a_edr_status a = Some ''None'' \<and> a_control_coverage a = ''partial'' \<and> \<not> a_eol_status a" if "a \<in> set ?new" for a
  proof -
    from that obtain i data where "a = row_asset now i data" "data \<in> set (importable rows)" by (auto dest: set_zip_rightD)
    with reimported_asset rows show ?thesis by blast
  qed
  ultimately show ?thesis by blast
qed

section \<open>Samples\<close>

definition plain_printing :: printing where
  "plain_printing = \<lparr> iso_time = show_int, float_repr = (\<lambda>x. ''0.0'') \<rparr>"

definition sample_source :: db where
  "sample_source = empty_db\<lparr>assets := [(new_asset 1 0)\<lparr>a_name := ''=web1'', a_type := ''Server'', a_edr_status := Some ''Falcon'',
     a_control_coverage := ''full'', a_eol_status := True\<rparr>]\<rparr>"

definition sample_cells :: "string list" where
  "sample_cells = [''1'', CHR 0x27 # ''=web1'', ''Server'', [], [], [], [], ''Falcon'', ''full'', ''internal'', ''password'', ''medium'', ''Internal'',
     ''0.0'', ''Informational'', ''0'', ''0'', ''YES'', ''no'', ''0'', []]"

lemma sample_row: "inventory_row plain_printing sample_source ((new_asset 1 0)\<lparr>a_name := ''=web1'', a_type := ''Server'', a_edr_status := Some ''Falcon'',
     a_control_coverage := ''full'', a_eol_status := True\<rparr>) = [PStr ''1'', PStr ''=web1'', PStr ''Server'', PStr [], PStr [], PStr [], PStr [],
     PStr ''Falcon'', PStr ''full'', PStr ''internal'', PStr ''password'', PStr ''medium'', PStr ''Internal'', PFloat 0, PStr ''Informational'',
     PInt 0, PInt 0, PStr ''YES'', PStr ''no'', PStr ''0'', PStr []]"
  by code_simp

lemma sample_export: "export_inventory plain_printing 10 sample_source = Inr (concat (map csv_row [INVENTORY_HEADERS, sample_cells]))"
proof -
  have "map (\<lambda>v. cell_str plain_printing (csv_safe v)) (inventory_row plain_printing sample_source (hd (assets sample_source))) = sample_cells"
    by code_simp
  then show ?thesis by (simp add: export_inventory_def limited_Inr limited_def stream_csv_def sample_source_def)
qed

lemma sample_short: "\<forall>a\<in>set (assets sample_source). \<forall>v\<in>set (inventory_row plain_printing sample_source a). length (cell_str plain_printing v) < FIELD_LIMIT"
proof -
  have "show_nat 0 = ''0''" by code_simp
  with sample_row show ?thesis by (simp add: sample_source_def cell_str_def plain_printing_def FIELD_LIMIT_def show_int_def)
qed

theorem exports_read_back_witness:
  "\<exists>text cells. export_inventory plain_printing 10 sample_source = Inr text \<and> csv_reader text = ([INVENTORY_HEADERS, cells], False)"
proof -
  let ?rows = "map (inventory_row plain_printing sample_source) (take (nat 10) (assets sample_source))"
  have one: "take (nat 10) (assets sample_source) = assets sample_source" "length (assets sample_source) = 1" by (simp_all add: sample_source_def)
  have short: "\<forall>row\<in>set ?rows. \<forall>v\<in>set row. length (cell_str plain_printing v) < FIELD_LIMIT" unfolding one using sample_short by simp
  from exports_read_back [OF disjI1 short, of 10 sample_source _ INVENTORY_HEADERS] sample_export
  have "csv_reader (concat (map csv_row [INVENTORY_HEADERS, sample_cells]))
      = (INVENTORY_HEADERS # map (map (\<lambda>v. cell_str plain_printing (csv_safe v))) ?rows, False)" by blast
  moreover obtain a where "assets sample_source = [a]" using one(2) by (auto simp: length_Suc_conv)
  ultimately show ?thesis using sample_export by auto
qed

text \<open>The exported row as the upload reads it.\<close>

definition sample_fields :: row_data where
  "sample_fields = [(''id'', ''1''), (''name'', CHR 0x27 # ''=web1''), (''type'', ''Server''), (''os'', []), (''ip'', []), (''mac'', []),
     (''segment'', []), (''edr status'', ''Falcon''), (''control coverage'', ''full''), (''network exposure'', ''internal''),
     (''auth method'', ''password''), (''criticality'', ''medium''), (''data classification'', ''Internal''), (''risk score'', ''0.0''),
     (''risk tier'', ''Informational''), (''cve count'', ''0''), (''kev count'', ''0''), (''eol'', ''YES''), (''shadow it'', ''no''),
     (''last seen'', ''0''), (''sources'', [])]"

lemma sample_rest: "dr_rest (dict_row_of INVENTORY_HEADERS sample_cells) = []"
  by code_simp

lemma sample_normal: "normal_row (dict_row_of INVENTORY_HEADERS sample_cells) = sample_fields"
  by code_simp

lemma sample_reimport:
  "\<exists>res d'. import_assets_csv env no_addresses now rq who (written_upload [INVENTORY_HEADERS, sample_cells]) False empty_db = (Inr res, d')"
proof -
  let ?text = "concat (map csv_row [INVENTORY_HEADERS, sample_cells])" and ?rows = "map (dict_row_of INVENTORY_HEADERS) [sample_cells]"
  have "?text \<noteq> [] \<and> utf8_ok ?text \<and> \<not> starts_with BOM ?text \<and> header_of (Some INVENTORY_HEADERS) = Inr INVENTORY_HEADERS" by code_simp
  moreover have "length ?text \<le> MAX_UPLOAD_BYTES"
    by (simp add: INVENTORY_HEADERS_def sample_cells_def csv_row_def csv_field_def special_def CR_def LF_def QUOTE_def MAX_UPLOAD_BYTES_def)
  moreover have "\<forall>fs\<in>set [INVENTORY_HEADERS, sample_cells]. fs \<noteq> [] \<and> (\<forall>f\<in>set fs. length f \<le> FIELD_LIMIT)"
    by (simp add: INVENTORY_HEADERS_def sample_cells_def FIELD_LIMIT_def)
  ultimately have r: "read_csv (written_upload [INVENTORY_HEADERS, sample_cells]) = Inr (length ?text, INVENTORY_HEADERS, ?rows, False)"
    using written_read [OF HOL.refl] by blast
  have n: "map scanned_name ?rows = [CHR 0x27 # ''=web1'']" by code_simp
  have s: "prescan False ?rows 0 [] [] = Inr ([(CHR 0x27 # ''=web1'', 2)], [])" using n by (simp add: MAX_ROWS_PER_IMPORT_def)
  have c: "checked_names False [(CHR 0x27 # ''=web1'', 2)] [] empty_db = Inr ()" by (simp add: checked_names_def empty_db_def)
  let ?data = "sample_fields"
  have i: "importable ?rows = [?data]" by (simp add: importable_def read_row_data_def Let_def sample_normal sample_rest field_of_def)
      (simp add: sample_fields_def)
  have f: "list_all (\<lambda>k. length (field_of ?data k) \<le> 16) [''name'', ''type'', ''os'', ''segment'', ''edr_status'', ''control_coverage'',
      ''network_exposure'', ''auth_method'', ''criticality'', ''data_classification'', ''last_patch'']
      \<and> address_of ?data ''ip'' = None \<and> address_of ?data ''mac'' = None"
    by (simp add: sample_fields_def field_of_def address_of_def DEFAULTS_def)
  then have "asset_fits no_addresses (row_asset now (next_id empty_db) ?data)"
    by (simp add: asset_fits_def row_asset_def set_risk_def optional_def opt_all_def)
  then have "list_all (asset_fits no_addresses) (map2 (row_asset now) [next_id empty_db..<next_id empty_db + length (importable ?rows)] (importable ?rows))"
    unfolding i by simp
  with import_succeeds [OF r s c] show ?thesis by blast
qed

theorem reimport_resets_witness:
  "\<exists>text res d'. export_inventory plain_printing 10 sample_source = Inr text
     \<and> import_assets_csv sample_env no_addresses 5 sample_request sample_user \<lparr> up_filename = Some ''Assets.CSV'', up_chunks = [text] \<rparr> False empty_db = (Inr res, d')
     \<and> (\<forall>a\<in>set (assets d'). a_is_shadow a)"
proof -
  let ?text = "concat (map csv_row [INVENTORY_HEADERS, sample_cells])"
  obtain res d' where i: "import_assets_csv sample_env no_addresses 5 sample_request sample_user \<lparr> up_filename = Some ''Assets.CSV'', up_chunks = [?text] \<rparr> False empty_db
    = (Inr res, d')" using sample_reimport unfolding written_upload_def by blast
  have "?text \<noteq> []" by code_simp
  then have "[] \<notin> set (up_chunks \<lparr> up_filename = Some ''Assets.CSV'', up_chunks = [?text] \<rparr>)" by simp
  from reimport_resets [OF sample_export this _ sample_short i] obtain new where "assets d' = assets empty_db @ new" "\<forall>a\<in>set new. a_is_shadow a"
    by auto
  with i sample_export show ?thesis by (auto simp: empty_db_def)
qed

end
