(* ===== verification/Dashboard.thy ===== *)
theory Dashboard
  imports ComplianceApi
begin

text \<open>
  The dashboard (\<open>app/api/dashboard.py\<close>), after the guards: the overview and the inventory graph,
  whose node and edge sets are read off the lists. Times are rendered as numbers; rows that SQL
  leaves unordered come in table order. Graph identifiers are built from the texts of the model's
  identifiers.
\<close>

section \<open>The overview\<close>

definition count_rows :: "('a \<Rightarrow> bool) \<Rightarrow> 'a list \<Rightarrow> pyval" where
  "count_rows p xs = PInt (int (length (filter p xs)))"

definition activity :: "nat \<Rightarrow> db \<Rightarrow> jdict list" where
  "activity n d = map (\<lambda>l. [(''id'', PStr (uuid_str (lg_id l))), (''timestamp'', PInt (lg_timestamp l)), (''action'', PStr (lg_action l)),
       (''resource_type'', opt_py (lg_resource_type l)), (''resource_id'', opt_py (lg_resource_id l)), (''severity'', PStr (lg_severity l))])
     (take n (sort_key (\<lambda>l. - lg_timestamp l) (filter (\<lambda>l. \<not> lg_archived l) (audit_log_rows d))))"

definition first_row :: "'a list \<Rightarrow> 'a option" where
  "first_row xs = (case xs of [] \<Rightarrow> None | x # _ \<Rightarrow> Some x)"

definition scan_card :: "db \<Rightarrow> jdict" where
  "scan_card d = (case first_row (sort_key (\<lambda>s. - sc_created_at s) (scans d)) of
     None \<Rightarrow> [(''id'', PNone), (''type'', PNone), (''target'', PNone), (''status'', PStr ''never''), (''hosts_found'', PInt 0),
       (''started_at'', PNone), (''completed_at'', PNone), (''error'', PNone)]
   | Some s \<Rightarrow> [(''id'', PStr (uuid_str (sc_id s))), (''type'', PStr (sc_scan_type s)), (''target'', PStr (sc_target s)),
       (''status'', PStr (sc_status s)), (''hosts_found'', PInt (sc_hosts_found s)), (''started_at'', time_py (sc_started_at s)),
       (''completed_at'', time_py (sc_completed_at s)), (''error'', opt_py (sc_error s))])"

text \<open>The counts by framework, summed over every status before the total is added.\<close>

definition compliance_values :: "jdict \<Rightarrow> jdict" where
  "compliance_values v =
     (let total = sum_list (map (numeric_count v) (map fst v));
          v = jset ''total'' (PInt total) v
      in jset ''compliance_pct'' (percentage (numeric_count v ''compliant'') total) v)"

definition compliance_card :: "db \<Rightarrow> (string \<times> jdict) list" where
  "compliance_card d = map (\<lambda>(f, v). (f, compliance_values v))
     (fold (\<lambda>((f, status), n). upsert f [(''compliant'', PInt 0), (''gap'', PInt 0), (''na'', PInt 0), (''unknown'', PInt 0)] (jset status (PInt n)))
        (grouped (map (\<lambda>m. (cm_framework m, cm_status m)) (compliance_mappings d))) [])"

definition alert_card :: "alert \<Rightarrow> jdict" where
  "alert_card a = [(''id'', PStr (uuid_str (al_id a))), (''type'', PStr (al_alert_type a)), (''severity'', PStr (al_severity a)),
     (''title'', PStr (al_title a)), (''asset_id'', (case al_asset_id a of None \<Rightarrow> PNone | Some i \<Rightarrow> PStr (uuid_str i))),
     (''status'', PStr (al_status a)), (''created_at'', PInt (al_created_at a))]"

definition open_alerts :: "db \<Rightarrow> alert list" where
  "open_alerts d = sort_key (\<lambda>a. - al_created_at a) (filter (\<lambda>a. al_status a = ''open'') (alerts d))"

definition self_security_card :: "db \<Rightarrow> jdict result" where
  "self_security_card d = rbind (scalar_one_or_none (filter (\<lambda>s. ss_id s = 1) (settings_rows d))) (\<lambda>s. Inr
     [(''status'', PStr (case s of None \<Rightarrow> ''never'' | Some s \<Rightarrow> ss_last_scan_status s)),
      (''last_successful_scan_at'', (case s of None \<Rightarrow> PNone | Some s \<Rightarrow> time_py (ss_last_successful_scan_at s))),
      (''packages_scanned'', PInt (case s of None \<Rightarrow> 0 | Some s \<Rightarrow> ss_packages_scanned s)),
      (''findings'', count_rows (\<lambda>f. \<not> df_suppressed f) (dependency_findings d)),
      (''dependencies'', count_rows (\<lambda>p. True) (platform_dependencies d))])"

definition inventory_counts :: "int \<Rightarrow> db \<Rightarrow> jdict" where
  "inventory_counts now d =
     [(''total_assets'', count_rows (\<lambda>a. True) (assets d)), (''critical_assets'', count_rows (\<lambda>a. a_risk_tier a = ''Critical'') (assets d)),
      (''high_assets'', count_rows (\<lambda>a. a_risk_tier a = ''High'') (assets d)), (''shadow_assets'', count_rows a_is_shadow (assets d)),
      (''open_alerts'', count_rows (\<lambda>a. al_status a = ''open'') (alerts d)), (''kev_cves'', count_rows cv_kev (cves d)),
      (''enabled_integrations'', count_rows ig_enabled (integrations d)),
      (''stale_assets'', count_rows (\<lambda>a. a_last_seen a < now - 30 * day) (assets d)),
      (''eol_assets'', count_rows a_eol_status (assets d))]"

record overview =
  ov_summary :: jdict
  ov_scan :: jdict
  ov_self_security :: jdict
  ov_compliance :: "(string \<times> jdict) list"
  ov_alerts :: "jdict list"
  ov_activity :: "jdict list"

definition dashboard_overview :: "int \<Rightarrow> db \<Rightarrow> overview result" where
  "dashboard_overview now d = rbind (self_security_card d) (\<lambda>s. Inr \<lparr> ov_summary = inventory_counts now d, ov_scan = scan_card d,
     ov_self_security = s, ov_compliance = compliance_card d, ov_alerts = map alert_card (take 8 (open_alerts d)), ov_activity = activity 12 d \<rparr>)"

section \<open>The graph\<close>

record graph_node =
  gn_id :: string
  gn_type :: string
  gn_label :: string
  gn_extra :: jdict

record graph_edge =
  ge_source :: string
  ge_target :: string
  ge_relation :: string
  ge_extra :: jdict

record graph =
  gr_nodes :: "graph_node list"
  gr_edges :: "graph_edge list"
  gr_truncated :: bool

definition node_ids :: "graph \<Rightarrow> string set" where
  "node_ids g = gn_id ` set (gr_nodes g)"

definition edge_key :: "graph_edge \<Rightarrow> string \<times> string \<times> string" where
  "edge_key e = (ge_source e, ge_target e, ge_relation e)"

definition add_node :: "nat \<Rightarrow> graph_node \<Rightarrow> graph \<Rightarrow> bool \<times> graph" where
  "add_node limit n g =
     (if gn_id n \<in> node_ids g then (True, g)
      else if limit \<le> length (gr_nodes g) then (False, g\<lparr>gr_truncated := True\<rparr>)
      else (True, g\<lparr>gr_nodes := gr_nodes g @ [n]\<rparr>))"

definition add_edge :: "graph_edge \<Rightarrow> graph \<Rightarrow> graph" where
  "add_edge e g =
     (if ge_source e \<notin> node_ids g \<or> ge_target e \<notin> node_ids g then g
      else if edge_key e \<in> edge_key ` set (gr_edges g) then g
      else g\<lparr>gr_edges := gr_edges g @ [e]\<rparr>)"

text \<open>A node and, where it is there, the edge to it.\<close>

definition attach :: "nat \<Rightarrow> graph_node \<Rightarrow> graph_edge \<Rightarrow> graph \<Rightarrow> bool \<times> graph" where
  "attach limit n e g = (case add_node limit n g of (ok, g) \<Rightarrow> (ok, if ok then add_edge e g else g))"

definition asset_node_id :: "nat \<Rightarrow> string" where "asset_node_id i = ''asset:'' @ uuid_str i"

definition plain_node :: "string \<Rightarrow> string \<Rightarrow> string \<Rightarrow> graph_node" where
  "plain_node i t l = \<lparr> gn_id = i, gn_type = t, gn_label = l, gn_extra = [] \<rparr>"

definition observed_edge :: "asset \<Rightarrow> string \<Rightarrow> string \<Rightarrow> string \<Rightarrow> graph_edge" where
  "observed_edge a target relation src = \<lparr> ge_source = asset_node_id (a_id a), ge_target = target, ge_relation = relation,
     ge_extra = [(''evidence_source'', PStr src), (''observed_at'', PInt (a_last_seen a))] \<rparr>"

definition asset_node :: "asset \<Rightarrow> graph_node" where
  "asset_node a = \<lparr> gn_id = asset_node_id (a_id a), gn_type = ''asset'', gn_label = a_name a,
     gn_extra = [(''risk_tier'', PStr (a_risk_tier a)), (''risk_score'', PFloat (a_risk_score a)),
       (''status'', PStr (if a_is_shadow a then ''shadow'' else ''managed'')), (''segment'', opt_py (a_segment a)),
       (''source_count'', PInt (int (length (a_sources a)))), (''updated_at'', PInt (a_last_seen a))] \<rparr>"

definition segment_step :: "nat \<Rightarrow> asset \<Rightarrow> graph \<Rightarrow> graph" where
  "segment_step limit a g = (let segment = (case a_segment a of None \<Rightarrow> ''Unassigned'' | Some s \<Rightarrow> if s = [] then ''Unassigned'' else s);
       i = ''segment:'' @ segment
     in snd (attach limit (plain_node i ''segment'' segment) (observed_edge a i ''member_of'' ''asset.segment'') g))"

definition source_step :: "nat \<Rightarrow> asset \<Rightarrow> string \<Rightarrow> graph \<Rightarrow> graph" where
  "source_step limit a s g = (let label = take 96 s; i = ''source:'' @ label
     in snd (attach limit (plain_node i ''source'' label) (observed_edge a i ''reported_by'' ''asset.sources'') g))"

definition dependency_step :: "nat \<Rightarrow> asset \<Rightarrow> string \<Rightarrow> graph \<Rightarrow> graph" where
  "dependency_step limit a s g = (let label = take 128 s; i = ''dependency:'' @ uuid_str (a_id a) @ '':'' @ label
     in snd (attach limit (plain_node i ''dependency'' label) (observed_edge a i ''declares'' ''asset.dependencies'') g))"

definition asset_step :: "nat \<Rightarrow> asset \<Rightarrow> graph \<Rightarrow> graph" where
  "asset_step limit a g = fold (dependency_step limit a) (take 3 (a_dependencies a))
     (fold (source_step limit a) (take 5 (a_sources a)) (segment_step limit a g))"

fun add_assets :: "nat \<Rightarrow> asset list \<Rightarrow> graph \<Rightarrow> graph" where
  "add_assets limit [] g = g"
| "add_assets limit (a # xs) g = (case add_node limit (asset_node a) g of
     (ok, g) \<Rightarrow> if ok then add_assets limit xs (asset_step limit a g) else g)"

section \<open>Alerts and vulnerabilities of the graph\<close>

definition alert_node :: "alert \<Rightarrow> graph_node" where
  "alert_node a = \<lparr> gn_id = ''alert:'' @ uuid_str (al_id a), gn_type = ''alert'', gn_label = al_title a,
     gn_extra = [(''severity'', PStr (al_severity a)), (''status'', PStr (al_status a)), (''updated_at'', PInt (al_created_at a))] \<rparr>"

definition alert_edge :: "nat \<Rightarrow> alert \<Rightarrow> graph_edge" where
  "alert_edge i a = \<lparr> ge_source = asset_node_id i, ge_target = ''alert:'' @ uuid_str (al_id a), ge_relation = ''has_alert'',
     ge_extra = [(''evidence_source'', PStr ''alerts''), (''observed_at'', PInt (al_created_at a))] \<rparr>"

text \<open>The graph with the number drawn for each asset so far.\<close>

definition draw :: "nat \<Rightarrow> nat \<Rightarrow> nat \<Rightarrow> graph_node \<Rightarrow> graph_edge \<Rightarrow> graph \<times> (nat \<Rightarrow> nat) \<Rightarrow> graph \<times> (nat \<Rightarrow> nat)" where
  "draw limit most i n e st = (case st of (g, drawn) \<Rightarrow>
     if most \<le> drawn i then st
     else (case attach limit n e g of (ok, g) \<Rightarrow> (g, if ok then drawn(i := drawn i + 1) else drawn)))"

definition draw_alert :: "nat \<Rightarrow> alert \<Rightarrow> graph \<times> (nat \<Rightarrow> nat) \<Rightarrow> graph \<times> (nat \<Rightarrow> nat)" where
  "draw_alert limit a st = (case al_asset_id a of None \<Rightarrow> st | Some i \<Rightarrow> draw limit 2 i (alert_node a) (alert_edge i a) st)"

definition graph_alerts :: "nat \<Rightarrow> nat list \<Rightarrow> db \<Rightarrow> alert list" where
  "graph_alerts limit ids d = take (limit * 2) (filter (\<lambda>a. case al_asset_id a of None \<Rightarrow> False | Some i \<Rightarrow> i \<in> set ids) (open_alerts d))"

definition float_py :: "rat option \<Rightarrow> pyval" where
  "float_py v = (case v of None \<Rightarrow> PNone | Some x \<Rightarrow> PFloat x)"

definition cve_node :: "cve \<Rightarrow> graph_node" where
  "cve_node c = \<lparr> gn_id = ''cve:'' @ cv_id c, gn_type = ''cve'', gn_label = cv_id c,
     gn_extra = [(''cvss'', float_py (cv_cvss_v3 c)), (''epss'', float_py (cv_epss_score c)), (''kev'', PBool (cv_kev c)),
       (''evidence_source'', PStr ''NVD/EPSS/KEV''), (''updated_at'', PInt (cv_last_synced c))] \<rparr>"

definition cve_edge :: "asset_cve \<Rightarrow> cve \<Rightarrow> graph_edge" where
  "cve_edge l c = \<lparr> ge_source = asset_node_id (ac_asset_id l), ge_target = ''cve:'' @ cv_id c, ge_relation = ''affected_by'',
     ge_extra = [(''matched_cpe'', opt_py (ac_matched_cpe l)), (''evidence_source'', PStr ''NVD/EPSS/KEV''),
       (''observed_at'', PInt (ac_discovered_at l))] \<rparr>"

definition draw_cve :: "nat \<Rightarrow> asset_cve \<times> cve \<Rightarrow> graph \<times> (nat \<Rightarrow> nat) \<Rightarrow> graph \<times> (nat \<Rightarrow> nat)" where
  "draw_cve limit lc st = draw limit 4 (ac_asset_id (fst lc)) (cve_node (snd lc)) (cve_edge (fst lc) (snd lc)) st"

definition nulls_last :: "('a \<Rightarrow> rat option) \<Rightarrow> 'a list \<Rightarrow> 'a list" where
  "nulls_last t xs = sort_key (\<lambda>x. - the (t x)) (filter (\<lambda>x. t x \<noteq> None) xs) @ filter (\<lambda>x. t x = None) xs"

definition graph_cves :: "nat \<Rightarrow> nat list \<Rightarrow> db \<Rightarrow> (asset_cve \<times> cve) list" where
  "graph_cves limit ids d =
     (let rows = concat (map (\<lambda>l. map (Pair l) (filter (\<lambda>c. cv_id c = ac_cve_id l) (cves d)))
            (filter (\<lambda>l. ac_asset_id l \<in> set ids) (db.asset_cves d)))
      in take (limit * 4) (sort_key (\<lambda>(l, c). if cv_kev c then 0 else 1 :: nat)
           (nulls_last (\<lambda>(l, c). cv_cvss_v3 c) (nulls_last (\<lambda>(l, c). cv_epss_score c) rows))))"

record graph_answer =
  ga_graph :: graph
  ga_asset_count :: nat

definition graph_assets :: "nat \<Rightarrow> db \<Rightarrow> asset list" where
  "graph_assets limit d = take limit (sort_key (\<lambda>a. - a_risk_score a) (sort_key (\<lambda>a. - a_last_seen a) (assets d)))"

definition graph_of :: "nat \<Rightarrow> bool \<Rightarrow> db \<Rightarrow> graph" where
  "graph_of limit include_vulnerabilities d =
     (let xs = graph_assets limit d; ids = map a_id xs;
          g = add_assets limit xs \<lparr> gr_nodes = [], gr_edges = [], gr_truncated = False \<rparr>
      in if ids = [] \<or> gr_nodes g = [] then g
         else let g = fst (fold (draw_alert limit) (graph_alerts limit ids d) (g, \<lambda>i. 0))
              in if include_vulnerabilities then fst (fold (draw_cve limit) (graph_cves limit ids d) (g, \<lambda>i. 0)) else g)"

definition inventory_graph :: "int \<Rightarrow> bool \<Rightarrow> db \<Rightarrow> graph_answer result" where
  "inventory_graph limit include_vulnerabilities d =
     (if limit < 1 \<or> 500 < limit then Inl (HTTPException 422 ''limit'')
      else Inr \<lparr> ga_graph = graph_of (nat limit) include_vulnerabilities d, ga_asset_count = length (graph_assets (nat limit) d) \<rparr>)"

section \<open>The graph is well formed\<close>

definition graph_ok :: "nat \<Rightarrow> graph \<Rightarrow> bool" where
  "graph_ok limit g = (length (gr_nodes g) \<le> limit \<and> distinct (map gn_id (gr_nodes g)) \<and> distinct (map edge_key (gr_edges g))
     \<and> (\<forall>e\<in>set (gr_edges g). ge_source e \<in> node_ids g \<and> ge_target e \<in> node_ids g))"

text \<open>Every node outside \<open>A\<close> has an edge from \<open>A\<close>.\<close>

definition linked :: "string set \<Rightarrow> graph \<Rightarrow> bool" where
  "linked A g = (\<forall>n\<in>set (gr_nodes g). gn_id n \<in> A \<or> (\<exists>e\<in>set (gr_edges g). ge_target e = gn_id n \<and> ge_source e \<in> A))"

definition sound :: "string set \<Rightarrow> nat \<Rightarrow> graph \<Rightarrow> bool" where
  "sound A limit g = (graph_ok limit g \<and> linked A g)"

definition edge_count :: "string \<Rightarrow> nat \<Rightarrow> graph \<Rightarrow> nat" where
  "edge_count r i g = length (filter (\<lambda>e. ge_relation e = r \<and> ge_source e = asset_node_id i) (gr_edges g))"

lemma asset_node_id_inj [simp]: "asset_node_id i = asset_node_id j \<longleftrightarrow> i = j"
  by (simp add: asset_node_id_def)

lemma add_node_cases:
  obtains "gn_id n \<in> node_ids g" "add_node limit n g = (True, g)"
  | "gn_id n \<notin> node_ids g" "limit \<le> length (gr_nodes g)" "add_node limit n g = (False, g\<lparr>gr_truncated := True\<rparr>)"
  | "gn_id n \<notin> node_ids g" "length (gr_nodes g) < limit" "add_node limit n g = (True, g\<lparr>gr_nodes := gr_nodes g @ [n]\<rparr>)"
  unfolding add_node_def by (cases "gn_id n \<in> node_ids g"; cases "limit \<le> length (gr_nodes g)") auto

lemma node_ids_simps [simp]:
  "node_ids (g\<lparr>gr_truncated := b\<rparr>) = node_ids g"
  "node_ids (g\<lparr>gr_edges := es\<rparr>) = node_ids g"
  "node_ids (g\<lparr>gr_nodes := gr_nodes g @ [n]\<rparr>) = insert (gn_id n) (node_ids g)"
  by (auto simp: node_ids_def)

lemma add_edge_frame [simp]:
  "gr_nodes (add_edge e g) = gr_nodes g" "node_ids (add_edge e g) = node_ids g" "gr_truncated (add_edge e g) = gr_truncated g"
  by (auto simp: add_edge_def node_ids_def)

lemma add_edge_there:
  assumes "ge_source e \<in> node_ids g" "ge_target e \<in> node_ids g"
  shows "\<exists>f\<in>set (gr_edges (add_edge e g)). edge_key f = edge_key e"
  using assms by (auto simp: add_edge_def)

lemma add_edge_mono: "set (gr_edges g) \<subseteq> set (gr_edges (add_edge e g))"
  by (auto simp: add_edge_def)

lemma add_edge_ok: "graph_ok limit g \<Longrightarrow> graph_ok limit (add_edge e g)"
  by (auto simp: graph_ok_def add_edge_def)

lemma add_edge_count:
  "edge_count r i (add_edge e g) \<le> edge_count r i g + (if ge_relation e = r \<and> ge_source e = asset_node_id i then 1 else 0)"
  by (auto simp: edge_count_def add_edge_def)

text \<open>Attaching a node keeps the graph sound where the edge comes from a drawn node of \<open>A\<close>, or there is no room left.\<close>

lemma attach_sound:
  assumes "sound A limit g" "ge_target e = gn_id n" "ge_source e \<in> A" "ge_source e \<in> node_ids g \<or> limit \<le> length (gr_nodes g)"
  shows "sound A limit (snd (attach limit n e g))"
proof (cases rule: add_node_cases [of n g limit])
  case 1
  with assms(1) add_edge_ok [of limit g e] add_edge_mono [of g e] show ?thesis
    by (auto simp: attach_def sound_def linked_def)
next
  case 2
  with assms(1) show ?thesis by (simp add: attach_def sound_def linked_def graph_ok_def)
next
  case 3
  let ?g = "g\<lparr>gr_nodes := gr_nodes g @ [n]\<rparr>"
  have ok: "graph_ok limit ?g" using assms(1) 3 by (auto simp: sound_def graph_ok_def node_ids_def)
  have src: "ge_source e \<in> node_ids g" using assms(4) 3(2) by simp
  have "\<exists>f\<in>set (gr_edges (add_edge e ?g)). edge_key f = edge_key e"
    by (rule add_edge_there) (use src assms(2) in simp_all)
  then have "\<exists>f\<in>set (gr_edges (add_edge e ?g)). ge_target f = gn_id n \<and> ge_source f \<in> A"
    using assms(2,3) by (auto simp: edge_key_def)
  with assms(1) add_edge_mono [of ?g e] have "linked A (add_edge e ?g)" by (auto simp: sound_def linked_def)
  with 3(3) add_edge_ok [OF ok] show ?thesis by (simp add: attach_def sound_def)
qed

text \<open>What a step may do: nodes and edges only come, and a cut is remembered.\<close>

definition grows :: "graph \<Rightarrow> graph \<Rightarrow> bool" where
  "grows g h = (node_ids g \<subseteq> node_ids h \<and> length (gr_nodes g) \<le> length (gr_nodes h) \<and> (gr_truncated g \<longrightarrow> gr_truncated h))"

lemma grows_refl [simp]: "grows g g"
  by (simp add: grows_def)

lemma grows_trans: "grows g h \<Longrightarrow> grows h k \<Longrightarrow> grows g k"
  by (auto simp: grows_def)

lemma attach_grows: "grows g (snd (attach limit n e g))"
  by (cases rule: add_node_cases [of n g limit]) (auto simp: attach_def grows_def)

lemma attach_count:
  "edge_count r i (snd (attach limit n e g)) \<le> edge_count r i g
     + (if fst (attach limit n e g) \<and> ge_relation e = r \<and> ge_source e = asset_node_id i then 1 else 0)"
proof (cases rule: add_node_cases [of n g limit])
  case 1
  with add_edge_count [of r i e g] show ?thesis by (simp add: attach_def)
next
  case 2
  then show ?thesis by (simp add: attach_def edge_count_def)
next
  case 3
  with add_edge_count [of r i e "g\<lparr>gr_nodes := gr_nodes g @ [n]\<rparr>"] show ?thesis by (simp add: attach_def edge_count_def)
qed

text \<open>A fold of steps that grow the graph and keep \<open>P\<close>, in the presence of what growing keeps.\<close>

lemma fold_steps:
  assumes "P g" "Q g" "\<And>x g. x \<in> set xs \<Longrightarrow> P g \<Longrightarrow> Q g \<Longrightarrow> P (f x g) \<and> grows g (f x g)" "\<And>g h. grows g h \<Longrightarrow> Q g \<Longrightarrow> Q h"
  shows "P (fold f xs g) \<and> grows g (fold f xs g)"
  using assms(1-3)
proof (induction xs arbitrary: g)
  case (Cons x xs)
  from Cons.prems have s: "P (f x g)" "grows g (f x g)" by auto
  have "P (fold f xs (f x g)) \<and> grows (f x g) (fold f xs (f x g))"
    by (rule Cons.IH) (use Cons.prems(3) s assms(4) [OF s(2) Cons.prems(2)] in auto)
  with s(2) grows_trans show ?case by auto
qed simp

text \<open>No edge to an alert or a vulnerability yet.\<close>

definition calm :: "graph \<Rightarrow> bool" where
  "calm g = (\<forall>i. edge_count ''has_alert'' i g = 0 \<and> edge_count ''affected_by'' i g = 0)"

definition inventory :: "string set \<Rightarrow> nat \<Rightarrow> graph \<Rightarrow> bool" where
  "inventory A limit g = (sound A limit g \<and> calm g)"

lemma attach_calm:
  assumes "calm g" "ge_relation e \<noteq> ''has_alert''" "ge_relation e \<noteq> ''affected_by''"
  shows "calm (snd (attach limit n e g))"
proof -
  have "edge_count r i (snd (attach limit n e g)) = 0" if "r = ''has_alert'' \<or> r = ''affected_by''" for r i
    using attach_count [of r i limit n e g] that assms by (auto simp: calm_def)
  then show ?thesis by (simp add: calm_def)
qed

lemma observed_attach:
  assumes "inventory A limit g" "asset_node_id (a_id a) \<in> node_ids g" "asset_node_id (a_id a) \<in> A"
    and "rel \<noteq> ''has_alert''" "rel \<noteq> ''affected_by''"
  shows "inventory A limit (snd (attach limit (plain_node i t l) (observed_edge a i rel src) g))
    \<and> grows g (snd (attach limit (plain_node i t l) (observed_edge a i rel src) g))"
  using assms attach_sound [of A limit g "observed_edge a i rel src" "plain_node i t l"] attach_calm [of g "observed_edge a i rel src"]
  by (simp add: inventory_def observed_edge_def plain_node_def attach_grows)

lemma asset_steps:
  assumes "inventory A limit g" "asset_node_id (a_id a) \<in> node_ids g" "asset_node_id (a_id a) \<in> A"
  shows "inventory A limit (segment_step limit a g) \<and> grows g (segment_step limit a g)"
    and "inventory A limit (source_step limit a s g) \<and> grows g (source_step limit a s g)"
    and "inventory A limit (dependency_step limit a s g) \<and> grows g (dependency_step limit a s g)"
  using observed_attach [OF assms] by (simp_all add: segment_step_def source_step_def dependency_step_def Let_def)

lemma asset_step_sound:
  assumes "inventory A limit g" "asset_node_id (a_id a) \<in> node_ids g" "asset_node_id (a_id a) \<in> A"
  shows "inventory A limit (asset_step limit a g) \<and> grows g (asset_step limit a g)"
proof -
  let ?Q = "\<lambda>g. asset_node_id (a_id a) \<in> node_ids g"
  have up: "grows g h \<Longrightarrow> ?Q g \<Longrightarrow> ?Q h" for g h by (auto simp: grows_def)
  let ?g1 = "segment_step limit a g" and ?g2 = "fold (source_step limit a) (take 5 (a_sources a)) (segment_step limit a g)"
  have s1: "inventory A limit ?g1" "grows g ?g1" using asset_steps(1) [OF assms] by auto
  have s2: "inventory A limit ?g2 \<and> grows ?g1 ?g2"
    by (rule fold_steps [where P = "inventory A limit" and Q = ?Q]) (use s1 up [OF s1(2) assms(2)] asset_steps(2) assms(3) up in blast)+
  have s3: "inventory A limit (asset_step limit a g) \<and> grows ?g2 (asset_step limit a g)"
    unfolding asset_step_def
    by (rule fold_steps [where P = "inventory A limit" and Q = ?Q])
       (use s2 up [OF _ up [OF s1(2) assms(2)]] asset_steps(3) assms(3) up in blast)+
  from s1 s2 s3 grows_trans show ?thesis by blast
qed

definition placed :: "string set \<Rightarrow> nat \<Rightarrow> graph \<Rightarrow> bool" where
  "placed A limit g = (A \<subseteq> node_ids g \<or> limit \<le> length (gr_nodes g) \<and> gr_truncated g)"

lemma placed_grows: "placed A limit g \<Longrightarrow> grows g h \<Longrightarrow> placed A limit h"
  by (auto simp: placed_def grows_def)

lemma new_asset_node:
  assumes "inventory A limit g" "gn_id n \<in> A" "fst (add_node limit n g)"
  shows "inventory A limit (snd (add_node limit n g)) \<and> grows g (snd (add_node limit n g)) \<and> gn_id n \<in> node_ids (snd (add_node limit n g))"
  using assms
  by (cases rule: add_node_cases [of n g limit])
     (auto simp: inventory_def sound_def graph_ok_def linked_def calm_def edge_count_def grows_def node_ids_def)

lemma add_assets_sound:
  assumes "inventory A limit g" "(\<lambda>a. asset_node_id (a_id a)) ` set xs \<subseteq> A"
  shows "inventory A limit (add_assets limit xs g) \<and> grows g (add_assets limit xs g)
    \<and> placed ((\<lambda>a. asset_node_id (a_id a)) ` set xs) limit (add_assets limit xs g)"
  using assms
proof (induction xs arbitrary: g)
  case Nil
  then show ?case by (simp add: placed_def)
next
  case (Cons a xs)
  let ?n = "asset_node a" and ?g = "snd (add_node limit (asset_node a) g)"
  have id: "gn_id ?n = asset_node_id (a_id a)" by (simp add: asset_node_def)
  show ?case
  proof (cases "fst (add_node limit ?n g)")
    case True
    from new_asset_node [OF Cons.prems(1) _ True] Cons.prems(2) id
    have g: "inventory A limit ?g" "grows g ?g" "asset_node_id (a_id a) \<in> node_ids ?g" by auto
    note step = asset_step_sound [OF g(1,3)]
    let ?h = "asset_step limit a ?g"
    from step Cons.prems(2) have h: "inventory A limit ?h" "grows ?g ?h" by auto
    from Cons.IH [OF h(1)] Cons.prems(2)
    have IH: "inventory A limit (add_assets limit xs ?h)" "grows ?h (add_assets limit xs ?h)"
      "placed ((\<lambda>a. asset_node_id (a_id a)) ` set xs) limit (add_assets limit xs ?h)" by auto
    have eq: "add_assets limit (a # xs) g = add_assets limit xs ?h" using True by (simp add: case_prod_unfold)
    have "asset_node_id (a_id a) \<in> node_ids (add_assets limit xs ?h)" using g(3) h(2) IH(2) by (auto simp: grows_def)
    moreover have "grows g (add_assets limit xs ?h)" using grows_trans [OF g(2) grows_trans [OF h(2) IH(2)]] .
    ultimately show ?thesis using IH(1,3) unfolding eq placed_def by auto
  next
    case False
    then have "add_assets limit (a # xs) g = g\<lparr>gr_truncated := True\<rparr> \<and> limit \<le> length (gr_nodes g)"
      by (cases rule: add_node_cases [of ?n g limit]) auto
    with Cons.prems(1) show ?thesis
      by (simp add: placed_def grows_def inventory_def sound_def graph_ok_def linked_def calm_def edge_count_def)
  qed
qed

section \<open>Alerts and vulnerabilities keep it well formed\<close>

definition drawn_ok :: "string set \<Rightarrow> nat \<Rightarrow> string \<Rightarrow> nat \<Rightarrow> graph \<times> (nat \<Rightarrow> nat) \<Rightarrow> bool" where
  "drawn_ok A limit r most st = (case st of (g, drawn) \<Rightarrow> sound A limit g \<and> placed A limit g
     \<and> (\<forall>i. edge_count r i g \<le> drawn i \<and> drawn i \<le> most))"

lemma draw_ok:
  assumes "drawn_ok A limit r most st" "ge_target e = gn_id n" "ge_source e = asset_node_id i" "asset_node_id i \<in> A" "ge_relation e = r"
  shows "drawn_ok A limit r most (draw limit most i n e st) \<and> grows (fst st) (fst (draw limit most i n e st))
    \<and> (\<forall>s j. s \<noteq> r \<longrightarrow> edge_count s j (fst (draw limit most i n e st)) \<le> edge_count s j (fst st))"
proof (cases st)
  case (Pair g drawn)
  show ?thesis
  proof (cases "most \<le> drawn i")
    case True
    with Pair assms(1) show ?thesis by (simp add: draw_def)
  next
    case False
    let ?g = "snd (attach limit n e g)"
    from assms(1) Pair have g: "sound A limit g" "placed A limit g" "\<forall>i. edge_count r i g \<le> drawn i \<and> drawn i \<le> most"
      by (simp_all add: drawn_ok_def)
    have "sound A limit ?g" by (rule attach_sound) (use g assms(2-4) in \<open>auto simp: placed_def\<close>)
    moreover have "placed A limit ?g" using placed_grows [OF g(2) attach_grows] .
    moreover have "edge_count r j ?g \<le> (if fst (attach limit n e g) then drawn(i := drawn i + 1) else drawn) j
        \<and> (if fst (attach limit n e g) then drawn(i := drawn i + 1) else drawn) j \<le> most" for j
      using attach_count [of r j limit n e g] g(3) [rule_format, of j] False assms(3,5) by (auto split: if_splits)
    moreover have "edge_count s j ?g \<le> edge_count s j g" if "s \<noteq> r" for s j
      using attach_count [of s j limit n e g] that assms(5) by auto
    moreover have "draw limit most i n e st = (?g, if fst (attach limit n e g) then drawn(i := drawn i + 1) else drawn)"
      using False Pair by (simp add: draw_def case_prod_unfold)
    ultimately show ?thesis using Pair by (simp add: drawn_ok_def attach_grows)
  qed
qed

lemma draws_ok:
  assumes "drawn_ok A limit r most st" "\<And>x st. x \<in> set xs \<Longrightarrow> drawn_ok A limit r most st \<Longrightarrow> drawn_ok A limit r most (f x st)
      \<and> grows (fst st) (fst (f x st)) \<and> (\<forall>s j. s \<noteq> r \<longrightarrow> edge_count s j (fst (f x st)) \<le> edge_count s j (fst st))"
  shows "drawn_ok A limit r most (fold f xs st) \<and> grows (fst st) (fst (fold f xs st))
    \<and> (\<forall>s j. s \<noteq> r \<longrightarrow> edge_count s j (fst (fold f xs st)) \<le> edge_count s j (fst st))"
  using assms
proof (induction xs arbitrary: st)
  case (Cons x xs)
  from Cons.prems(2) [of x st] Cons.prems(1) have s: "drawn_ok A limit r most (f x st)" "grows (fst st) (fst (f x st))"
    "\<forall>s j. s \<noteq> r \<longrightarrow> edge_count s j (fst (f x st)) \<le> edge_count s j (fst st)" by auto
  from Cons.IH [OF s(1)] Cons.prems(2) have IH: "drawn_ok A limit r most (fold f xs (f x st))" "grows (fst (f x st)) (fst (fold f xs (f x st)))"
    "\<forall>s j. s \<noteq> r \<longrightarrow> edge_count s j (fst (fold f xs (f x st))) \<le> edge_count s j (fst (f x st))" by auto
  from s IH grows_trans order_trans show ?case by (fastforce)
qed simp

lemma graph_alerts_in: "a \<in> set (graph_alerts limit ids d) \<Longrightarrow> \<exists>i. al_asset_id a = Some i \<and> i \<in> set ids"
  by (auto simp: graph_alerts_def dest!: in_set_takeD split: option.splits)

lemma nulls_last_set: "set (nulls_last t xs) = set xs"
  by (auto simp: nulls_last_def)

lemma graph_cves_in: "lc \<in> set (graph_cves limit ids d) \<Longrightarrow> ac_asset_id (fst lc) \<in> set ids"
  by (auto simp: graph_cves_def Let_def nulls_last_set dest!: in_set_takeD)

definition drawn_assets :: "nat \<Rightarrow> db \<Rightarrow> string set" where
  "drawn_assets limit d = (\<lambda>a. asset_node_id (a_id a)) ` set (graph_assets limit d)"

lemma graph_of_sound:
  assumes "g = graph_of limit vulns d"
  shows "sound (drawn_assets limit d) limit g \<and> placed (drawn_assets limit d) limit g
    \<and> (\<forall>i. edge_count ''has_alert'' i g \<le> 2 \<and> edge_count ''affected_by'' i g \<le> 4)"
proof -
  let ?A = "drawn_assets limit d" and ?xs = "graph_assets limit d" and ?ids = "map a_id (graph_assets limit d)"
  let ?empty = "\<lparr> gr_nodes = [], gr_edges = [], gr_truncated = False \<rparr>"
  let ?g0 = "add_assets limit ?xs ?empty"
  have ids: "i \<in> set ?ids \<Longrightarrow> asset_node_id i \<in> ?A" for i by (auto simp: drawn_assets_def)
  have "inventory ?A limit ?empty" by (simp add: inventory_def sound_def graph_ok_def linked_def calm_def edge_count_def)
  from add_assets_sound [OF this, of ?xs] have g0: "sound ?A limit ?g0" "placed ?A limit ?g0" "calm ?g0"
    by (auto simp: drawn_assets_def inventory_def)
  let ?st = "fold (draw_alert limit) (graph_alerts limit ?ids d) (?g0, \<lambda>i. 0)"
  have start: "drawn_ok ?A limit ''has_alert'' 2 (?g0, \<lambda>i. 0)" using g0 by (simp add: drawn_ok_def calm_def)
  have alerts: "drawn_ok ?A limit ''has_alert'' 2 ?st \<and> grows ?g0 (fst ?st)
      \<and> (\<forall>s j. s \<noteq> ''has_alert'' \<longrightarrow> edge_count s j (fst ?st) \<le> edge_count s j ?g0)"
  proof (rule draws_ok [OF start, unfolded fst_conv])
    fix a st assume a: "a \<in> set (graph_alerts limit ?ids d)" and st: "drawn_ok ?A limit ''has_alert'' 2 st"
    from graph_alerts_in [OF a] obtain i where i: "al_asset_id a = Some i" "asset_node_id i \<in> ?A" using ids by blast
    show "drawn_ok ?A limit ''has_alert'' 2 (draw_alert limit a st) \<and> grows (fst st) (fst (draw_alert limit a st))
      \<and> (\<forall>s j. s \<noteq> ''has_alert'' \<longrightarrow> edge_count s j (fst (draw_alert limit a st)) \<le> edge_count s j (fst st))"
      using draw_ok [OF st, of "alert_edge i a" "alert_node a" i] i by (simp add: draw_alert_def alert_edge_def alert_node_def)
  qed
  obtain g1 drawn where st: "?st = (g1, drawn)" by (cases ?st)
  have g1: "sound ?A limit g1" "placed ?A limit g1" "\<forall>i. edge_count ''has_alert'' i g1 \<le> 2"
    using alerts unfolding st by (auto simp: drawn_ok_def intro: order_trans)
  have quiet: "\<forall>i. edge_count ''affected_by'' i g1 = 0"
    using alerts [THEN conjunct2, THEN conjunct2, rule_format, of "''affected_by''"] g0(3) by (simp add: st calm_def)
  have start2: "drawn_ok ?A limit ''affected_by'' 4 (g1, \<lambda>i. 0)" using g1 quiet by (simp add: drawn_ok_def)
  let ?st2 = "fold (draw_cve limit) (graph_cves limit ?ids d) (g1, \<lambda>i. 0)"
  have cves: "drawn_ok ?A limit ''affected_by'' 4 ?st2 \<and> grows g1 (fst ?st2)
      \<and> (\<forall>s j. s \<noteq> ''affected_by'' \<longrightarrow> edge_count s j (fst ?st2) \<le> edge_count s j g1)"
  proof (rule draws_ok [OF start2, unfolded fst_conv])
    fix lc st assume lc: "lc \<in> set (graph_cves limit ?ids d)" and st: "drawn_ok ?A limit ''affected_by'' 4 st"
    show "drawn_ok ?A limit ''affected_by'' 4 (draw_cve limit lc st) \<and> grows (fst st) (fst (draw_cve limit lc st))
      \<and> (\<forall>s j. s \<noteq> ''affected_by'' \<longrightarrow> edge_count s j (fst (draw_cve limit lc st)) \<le> edge_count s j (fst st))"
      using draw_ok [OF st, of "cve_edge (fst lc) (snd lc)" "cve_node (snd lc)" "ac_asset_id (fst lc)"] ids [OF graph_cves_in [OF lc]]
      by (simp add: draw_cve_def cve_edge_def cve_node_def)
  qed
  obtain g2 drawn2 where st2: "?st2 = (g2, drawn2)" by (cases ?st2)
  have g2: "sound ?A limit g2" "\<forall>i. edge_count ''affected_by'' i g2 \<le> 4" "placed ?A limit g2"
    using cves unfolding st2 by (auto simp: drawn_ok_def intro: order_trans)
  have kept: "edge_count ''has_alert'' i g2 \<le> 2" for i
    using cves [THEN conjunct2, THEN conjunct2, rule_format, of "''has_alert''" i] g1(3) order_trans by (force simp: st2)
  have "g = (if ?ids = [] \<or> gr_nodes ?g0 = [] then ?g0 else if vulns then g2 else g1)"
    using st st2 assms by (simp add: graph_of_def Let_def)
  then show ?thesis using g0 g1 quiet g2 kept by (simp add: calm_def)
qed

section \<open>Properties\<close>

text \<open>
  C32: The inventory graph keeps its bounds and is well formed: at most \<open>limit\<close> nodes with
  distinct identifiers, distinct edges between drawn nodes, no node without an edge from an asset
  but the assets themselves, at most two alerts and four vulnerabilities for an asset, and every
  selected asset is drawn unless the answer says that it was cut.
\<close>

theorem graph_well_formed:
  assumes "inventory_graph limit vulns d = Inr ans"
  shows "length (gr_nodes (ga_graph ans)) \<le> nat limit \<and> distinct (map gn_id (gr_nodes (ga_graph ans)))
    \<and> distinct (map edge_key (gr_edges (ga_graph ans)))
    \<and> (\<forall>e\<in>set (gr_edges (ga_graph ans)). ge_source e \<in> node_ids (ga_graph ans) \<and> ge_target e \<in> node_ids (ga_graph ans))
    \<and> (\<forall>n\<in>set (gr_nodes (ga_graph ans)). gn_id n \<in> drawn_assets (nat limit) d
         \<or> (\<exists>e\<in>set (gr_edges (ga_graph ans)). ge_target e = gn_id n \<and> ge_source e \<in> drawn_assets (nat limit) d))
    \<and> (\<forall>i. edge_count ''has_alert'' i (ga_graph ans) \<le> 2 \<and> edge_count ''affected_by'' i (ga_graph ans) \<le> 4)
    \<and> (\<not> gr_truncated (ga_graph ans) \<longrightarrow> drawn_assets (nat limit) d \<subseteq> node_ids (ga_graph ans))"
proof -
  have "ga_graph ans = graph_of (nat limit) vulns d" using assms by (auto simp: inventory_graph_def split: if_splits)
  from graph_of_sound [OF this] show ?thesis by (auto simp: sound_def graph_ok_def linked_def placed_def)
qed

definition graph_sample :: db where
  "graph_sample = empty_db\<lparr>assets := [(new_asset 1 0)\<lparr>a_name := ''web1'', a_sources := [''manual'']\<rparr>],
     alerts := [(new_alert 3 5)\<lparr>al_asset_id := Some 1, al_title := ''gap''\<rparr>]\<rparr>"

theorem graph_well_formed_witness:
  "\<exists>ans. inventory_graph 3 True graph_sample = Inr ans \<and> length (gr_nodes (ga_graph ans)) \<le> 3"
proof -
  obtain ans where "inventory_graph 3 True graph_sample = Inr ans" by (simp add: inventory_graph_def)
  with graph_well_formed [OF this] show ?thesis by auto
qed

text \<open>A cut graph: the fourth node, the alert, has no room; and the two percentages of one database.\<close>

lemma graph_cut: "gr_truncated (graph_of 3 True graph_sample) \<and> \<not> gr_truncated (graph_of 4 True graph_sample)
   \<and> map gn_id (gr_nodes (graph_of 4 True graph_sample)) = [''asset:1'', ''segment:Unassigned'', ''source:manual'', ''alert:3'']"
  by code_simp

definition two_mappings :: db where
  "two_mappings = empty_db\<lparr>compliance_mappings := map (\<lambda>(i, s). (new_compliance_mapping i 0)\<lparr>cm_framework := ''iso27001'', cm_status := s\<rparr>)
     [(1, ''compliant''), (2, ''na'')]\<rparr>"

lemma percentages_differ:
  "map (\<lambda>(f, v). (f, jget v ''compliance_pct'')) (compliance_card two_mappings) = [(''iso27001'', PFloat 50)]"
  "map (\<lambda>(f, v). (f, jget v ''compliance_pct'')) (compliance_summary two_mappings) = [(''iso27001'', PFloat 100)]"
  by code_simp+

end
