(* ===== verification/PyPattern.thy ===== *)
theory PyPattern
  imports PyRegex
begin

text \<open>
  Regular expressions with alternatives, optional parts and word boundaries, as the assistant
  uses them with \<open>re.sub\<close> and \<open>re.findall\<close>; none of its patterns matches the empty text. A
  position is the character before it, if any, and the rest of the text.
\<close>

datatype pat =
    Txt "(char \<Rightarrow> bool) list"
  | Many "char \<Rightarrow> bool" nat "nat option"
  | Cat pat pat
  | Or pat pat
  | Opt pat
  | Edge

type_synonym place = "char option \<times> string"

definition skip :: "nat \<Rightarrow> place \<Rightarrow> place" where
  "skip k st = (if k = 0 then fst st else Some (snd st ! (k - 1)), drop k (snd st))"

definition word_char :: "char \<Rightarrow> bool" where
  "word_char c = (is_alnum c \<or> c = CHR ''_'')"

definition at_edge :: "place \<Rightarrow> bool" where
  "at_edge st = ((case fst st of None \<Rightarrow> False | Some c \<Rightarrow> word_char c) \<noteq> (case snd st of [] \<Rightarrow> False | c # _ \<Rightarrow> word_char c))"

text \<open>The places where a match can end, in the order the backtracking search tries them.\<close>

fun ends :: "pat \<Rightarrow> place \<Rightarrow> place list" where
  "ends (Txt ps) st = (if word_at ps (snd st) then [skip (length ps) st] else [])"
| "ends (Many p lo hi) st = map (\<lambda>k. skip k st) (counts p lo hi True (snd st))"
| "ends (Cat a b) st = concat (map (ends b) (ends a st))"
| "ends (Or a b) st = ends a st @ ends b st"
| "ends (Opt a) st = ends a st @ [st]"
| "ends Edge st = (if at_edge st then [st] else [])"

definition match_end :: "pat \<Rightarrow> place \<Rightarrow> place option" where
  "match_end p st = (case ends p st of [] \<Rightarrow> None | e # _ \<Rightarrow> if length (snd e) < length (snd st) then Some e else None)"

lemma match_end_shorter: "match_end p st = Some e \<Longrightarrow> length (snd e) < length (snd st)"
  by (auto simp: match_end_def split: list.splits if_splits)

text \<open>\<open>re.sub(p, rep, s)\<close> for a replacement without a backslash, and \<open>re.findall(p, s)\<close>\<close>

function psub :: "pat \<Rightarrow> string \<Rightarrow> place \<Rightarrow> string" where
  "psub p rep (c, []) = []"
| "psub p rep (c, x # s) = (case match_end p (c, x # s) of
     Some e \<Rightarrow> rep @ psub p rep e | None \<Rightarrow> x # psub p rep (Some x, s))"
  by pat_completeness auto
termination
  by (relation "measure (\<lambda>(p, rep, st). length (snd st))") (auto dest: match_end_shorter)

function pfind :: "pat \<Rightarrow> place \<Rightarrow> string list" where
  "pfind p (c, []) = []"
| "pfind p (c, x # s) = (case match_end p (c, x # s) of
     Some e \<Rightarrow> take (length (x # s) - length (snd e)) (x # s) # pfind p e | None \<Rightarrow> pfind p (Some x, s))"
  by pat_completeness auto
termination
  by (relation "measure (\<lambda>(p, st). length (snd st))") (auto dest: match_end_shorter)

definition re_sub :: "pat \<Rightarrow> string \<Rightarrow> string \<Rightarrow> string" where "re_sub p rep s = psub p rep (None, s)"
definition re_findall :: "pat \<Rightarrow> string \<Rightarrow> string list" where "re_findall p s = pfind p (None, s)"

section \<open>Building patterns\<close>

definition exactly :: "string \<Rightarrow> pat" where "exactly w = Txt (map (\<lambda>c d. d = c) w)"
definition any_case :: "string \<Rightarrow> pat" where "any_case w = Txt (map (\<lambda>c d. lower_char d = lower_char c) w)"
definition one_of_chars :: "(char \<Rightarrow> bool) \<Rightarrow> pat" where "one_of_chars p = Txt [p]"

fun cats :: "pat list \<Rightarrow> pat" where
  "cats [] = Txt []"
| "cats [p] = p"
| "cats (p # ps) = Cat p (cats ps)"

lemma ends_Txt_nil [simp]: "ends (Txt []) st = [st]"
  by (simp add: skip_def)

end
