(* ===== verification/EventStream.thy ===== *)
theory EventStream
  imports AuthApi PyDyn RedisStore
begin

text \<open>
  The event stream (\<open>app/api/websocket.py\<close>): tickets, connections with their topics and the
  broadcast of what workers publish, and the steps of the server as a relation. Parameters:
  the Redis commands, the JSON parser, the settings read here and whether a message can be sent
  to a connection. Texts are sent as JSON values. What was delivered is kept with the connection as
  it was.
\<close>

section \<open>Topics and connections\<close>

definition TOPICS :: "(string \<times> string list) list" where
  "TOPICS = [(''alerts'', [''viewer'', ''analyst'', ''admin'']), (''assets'', [''viewer'', ''analyst'', ''admin'']),
     (''scans'', [''analyst'', ''admin'']), (''self_security'', [''admin'']), (''audit'', [''admin'']),
     (''system'', [''viewer'', ''analyst'', ''admin''])]"

record ws_client =
  wc_id :: nat
  wc_user_id :: string
  wc_username :: string
  wc_role :: string
  wc_topics :: "string list"

definition can_subscribe :: "ws_client \<Rightarrow> string \<Rightarrow> bool" where
  "can_subscribe c topic = (wc_role c \<in> set (case map_of TOPICS topic of None \<Rightarrow> [] | Some rs \<Rightarrow> rs))"

record manager =
  mg_clients :: "ws_client list"
  mg_delivered :: "(ws_client \<times> pyval) list"
  mg_started :: bool
  mg_redis :: bool
  mg_listening :: bool

definition idle_manager :: manager where
  "idle_manager = \<lparr> mg_clients = [], mg_delivered = [], mg_started = False, mg_redis = False, mg_listening = False \<rparr>"

record 'r stream_env =
  se_ops :: "'r redis_ops"
  se_url_ok :: bool
  se_environment :: string
  se_origins :: "string list"
  se_json :: "string \<Rightarrow> pyval option"
  se_sends :: "nat \<Rightarrow> pyval \<Rightarrow> bool"

section \<open>The manager\<close>

definition start :: "'r stream_env \<Rightarrow> manager \<Rightarrow> manager" where
  "start env m = (if mg_started m then m
     else if se_url_ok env then m\<lparr>mg_started := True, mg_redis := True, mg_listening := True\<rparr>
     else m\<lparr>mg_started := False\<rparr>)"

definition send :: "'r stream_env \<Rightarrow> ws_client \<Rightarrow> pyval \<Rightarrow> manager \<Rightarrow> manager" where
  "send env c v m = (if se_sends env (wc_id c) v then m\<lparr>mg_delivered := mg_delivered m @ [(c, v)]\<rparr> else m)"

definition connect :: "'r stream_env \<Rightarrow> ws_client \<Rightarrow> manager \<Rightarrow> manager" where
  "connect env c m = send env c (PDict [(''type'', PStr ''connected''), (''user'', PStr (wc_username c)), (''role'', PStr (wc_role c)),
       (''available_topics'', PList (map PStr (filter (can_subscribe c) (map fst TOPICS))))])
     (m\<lparr>mg_clients := mg_clients m @ [c]\<rparr>)"

definition disconnect :: "nat \<Rightarrow> manager \<Rightarrow> manager" where
  "disconnect i m = m\<lparr>mg_clients := filter (\<lambda>c. wc_id c \<noteq> i) (mg_clients m)\<rparr>"

definition event_message :: "string \<Rightarrow> pyval \<Rightarrow> pyval" where
  "event_message topic payload = PDict [(''topic'', PStr topic), (''data'', payload)]"

definition broadcast :: "'r stream_env \<Rightarrow> string \<Rightarrow> pyval \<Rightarrow> manager \<Rightarrow> manager" where
  "broadcast env topic payload m =
     fold (\<lambda>c. send env c (event_message topic payload)) (filter (\<lambda>c. topic \<in> set (wc_topics c) \<and> can_subscribe c topic) (mg_clients m)) m"

text \<open>
  One message of the channel. One that is no JSON object is dropped, and a topic that is no text
  is no topic of a connection.
\<close>

definition hear :: "'r stream_env \<Rightarrow> string \<Rightarrow> manager \<Rightarrow> manager" where
  "hear env raw m = (case se_json env raw of
     Some (PDict ev) \<Rightarrow>
       (case (case map_of ev ''topic'' of None \<Rightarrow> PStr ''system'' | Some t \<Rightarrow> t) of
          PStr topic \<Rightarrow> broadcast env topic (case map_of ev ''data'' of None \<Rightarrow> PDict [] | Some v \<Rightarrow> v) m
        | _ \<Rightarrow> m)
   | _ \<Rightarrow> m)"

section \<open>Tickets\<close>

definition ticket_key :: "string \<Rightarrow> string" where "ticket_key ticket = ''ws:ticket:'' @ ticket"

definition issue_websocket_ticket :: "'r stream_env \<Rightarrow> int \<Rightarrow> string \<Rightarrow> user \<Rightarrow> manager \<Rightarrow> 'r \<Rightarrow> (string \<times> int) result \<times> manager \<times> 'r" where
  "issue_websocket_ticket env now ticket u m r =
     (let m = start env m
      in if \<not> mg_redis m then (Inl (RuntimeError ''WebSocket ticket service unavailable''), m, r)
         else (case rd_setex (se_ops env) now (ticket_key ticket) 30 (uuid_str (u_id u)) r of
             Inl e \<Rightarrow> (Inl e, m, r) | Inr r' \<Rightarrow> (Inr (ticket, 30), m, r')))"

definition authenticate_ws :: "'r stream_env \<Rightarrow> int \<Rightarrow> string \<Rightarrow> db \<Rightarrow> manager \<Rightarrow> 'r \<Rightarrow> (string \<times> string \<times> string) option \<times> 'r" where
  "authenticate_ws env now ticket d m r =
     (if ticket = [] \<or> \<not> mg_redis m then (None, r)
      else (case rd_getdel (se_ops env) now (ticket_key ticket) r of
          Inl e \<Rightarrow> (None, r)
        | Inr (v, r') \<Rightarrow> (case v of
            None \<Rightarrow> (None, r')
          | Some user_id \<Rightarrow>
              if user_id = [] then (None, r')
              else (case filter (\<lambda>u. uuid_str (u_id u) = user_id) (users d) of
                  [] \<Rightarrow> (None, r')
                | u # _ \<Rightarrow> (if u_is_active u then Some (uuid_str (u_id u), u_username u, u_role u) else None, r')))))"

text \<open>Opening a connection: closed with a policy violation, or a client.\<close>

definition open_events :: "'r stream_env \<Rightarrow> int \<Rightarrow> nat \<Rightarrow> string option \<Rightarrow> string \<Rightarrow> db \<Rightarrow> manager \<Rightarrow> 'r \<Rightarrow> ws_client option \<times> manager \<times> 'r" where
  "open_events env now i origin ticket d m r =
     (let m = start env m
      in if se_environment env = ''production'' \<and> (case origin of None \<Rightarrow> True | Some v \<Rightarrow> v \<notin> set (se_origins env)) then (None, m, r)
         else (case authenticate_ws env now ticket d m r of
             (None, r') \<Rightarrow> (None, m, r')
           | (Some (user_id, username, role), r') \<Rightarrow>
               let c = \<lparr> wc_id = i, wc_user_id = user_id, wc_username = username, wc_role = role, wc_topics = [] \<rparr>
               in (Some c, connect env c m, r')))"

section \<open>The loop of a connection\<close>

definition add_topic :: "string \<Rightarrow> ws_client \<Rightarrow> ws_client" where
  "add_topic t c = (if can_subscribe c t \<and> t \<notin> set (wc_topics c) then c\<lparr>wc_topics := wc_topics c @ [t]\<rparr> else c)"

definition drop_topic :: "string \<Rightarrow> ws_client \<Rightarrow> ws_client" where
  "drop_topic t c = c\<lparr>wc_topics := filter (\<lambda>s. s \<noteq> t) (wc_topics c)\<rparr>"

text \<open>The loop over the topics, until one that cannot be hashed; whether all were read.\<close>

fun each_topic :: "(string \<Rightarrow> ws_client \<Rightarrow> ws_client) \<Rightarrow> pyval list \<Rightarrow> ws_client \<Rightarrow> bool \<times> ws_client" where
  "each_topic f [] c = (True, c)"
| "each_topic f (v # vs) c = (case v of
     PList xs \<Rightarrow> (False, c) | PDict d \<Rightarrow> (False, c) | PStr t \<Rightarrow> each_topic f vs (f t c) | _ \<Rightarrow> each_topic f vs c)"

definition set_client :: "ws_client \<Rightarrow> manager \<Rightarrow> manager" where
  "set_client c m = m\<lparr>mg_clients := map (\<lambda>x. if wc_id x = wc_id c then c else x) (mg_clients m)\<rparr>"

definition topics_reply :: "string \<Rightarrow> ws_client \<Rightarrow> pyval" where
  "topics_reply kind c = PDict [(''type'', PStr kind), (''topics'', PList (map PStr (wc_topics c)))]"

definition change_topics :: "'r stream_env \<Rightarrow> string \<Rightarrow> (string \<Rightarrow> ws_client \<Rightarrow> ws_client) \<Rightarrow> jdict \<Rightarrow> ws_client \<Rightarrow> manager \<Rightarrow> manager" where
  "change_topics env kind f msg c m =
     (case dyn_iter (case map_of msg ''topics'' of None \<Rightarrow> PList [] | Some v \<Rightarrow> v) of
        Inl e \<Rightarrow> disconnect (wc_id c) m
      | Inr vs \<Rightarrow> (case each_topic f vs c of (ok, c') \<Rightarrow>
          if ok then send env c' (topics_reply kind c') (set_client c' m) else disconnect (wc_id c) (set_client c' m)))"

text \<open>A received text; an exception ends the loop and the connection.\<close>

definition receive :: "'r stream_env \<Rightarrow> ws_client \<Rightarrow> string \<Rightarrow> manager \<Rightarrow> manager" where
  "receive env c raw m = (case se_json env raw of
     None \<Rightarrow> m
   | Some (PDict msg) \<Rightarrow>
       (case map_of msg ''action'' of
          Some (PStr a) \<Rightarrow>
            if a = ''subscribe'' then change_topics env ''subscribed'' add_topic msg c m
            else if a = ''unsubscribe'' then change_topics env ''unsubscribed'' drop_topic msg c m
            else if a = ''ping'' then send env c (PDict [(''type'', PStr ''pong'')]) m else m
        | _ \<Rightarrow> m)
   | Some v \<Rightarrow> disconnect (wc_id c) m)"

section \<open>Publishing\<close>

definition event_json :: "string \<Rightarrow> pyval \<Rightarrow> pyval" where
  "event_json topic payload = PDict [(''topic'', PStr topic), (''data'', payload)]"

text \<open>The value put on the channel, if any; every failure is swallowed.\<close>

definition publish_event :: "'r stream_env \<Rightarrow> bool \<Rightarrow> string \<Rightarrow> pyval \<Rightarrow> manager \<Rightarrow> pyval option \<times> manager" where
  "publish_event env delivered topic payload m =
     (let m = (if mg_redis m then m else start env m)
      in (if mg_redis m \<and> delivered then Some (event_json topic payload) else None, m))"

definition publish_event_sync :: "'r stream_env \<Rightarrow> bool \<Rightarrow> string \<Rightarrow> pyval \<Rightarrow> pyval option" where
  "publish_event_sync env delivered topic payload = (if se_url_ok env \<and> delivered then Some (event_json topic payload) else None)"

section \<open>The server\<close>

record 'r server =
  sv_db :: db
  sv_store :: 'r
  sv_manager :: manager

text \<open>
  The steps: a ticket for an active account, a connection, a received text, the end of a
  connection, a message on the channel while the listener runs, the end of the listener,
  and any change of the database by the rest of the program.
\<close>

inductive server_step :: "'r stream_env \<Rightarrow> 'r server \<Rightarrow> 'r server \<Rightarrow> bool" for env where
  issues: "u \<in> set (users (sv_db s)) \<Longrightarrow> u_is_active u \<Longrightarrow>
    issue_websocket_ticket env now ticket u (sv_manager s) (sv_store s) = (ans, m, r) \<Longrightarrow>
    server_step env s (s\<lparr>sv_manager := m, sv_store := r\<rparr>)"
| opens: "i \<notin> wc_id ` set (mg_clients (sv_manager s)) \<Longrightarrow>
    open_events env now i origin ticket (sv_db s) (sv_manager s) (sv_store s) = (ans, m, r) \<Longrightarrow>
    server_step env s (s\<lparr>sv_manager := m, sv_store := r\<rparr>)"
| receives: "c \<in> set (mg_clients (sv_manager s)) \<Longrightarrow> server_step env s (s\<lparr>sv_manager := receive env c raw (sv_manager s)\<rparr>)"
| closes: "server_step env s (s\<lparr>sv_manager := disconnect i (sv_manager s)\<rparr>)"
| hears: "mg_listening (sv_manager s) \<Longrightarrow> server_step env s (s\<lparr>sv_manager := hear env raw (sv_manager s)\<rparr>)"
| crashes: "server_step env s (s\<lparr>sv_manager := (sv_manager s)\<lparr>mg_listening := False\<rparr>\<rparr>)"
| rest: "server_step env s (s\<lparr>sv_db := d\<rparr>)"

inductive reachable :: "'r stream_env \<Rightarrow> 'r server \<Rightarrow> bool" for env where
  begins: "mg_clients (sv_manager s) = [] \<Longrightarrow> mg_delivered (sv_manager s) = [] \<Longrightarrow> reachable env s"
| goes: "reachable env s \<Longrightarrow> server_step env s t \<Longrightarrow> reachable env t"

section \<open>Who gets which event\<close>

definition allowed :: "ws_client \<Rightarrow> bool" where
  "allowed c = (\<forall>t\<in>set (wc_topics c). can_subscribe c t)"

definition entitled :: "manager \<Rightarrow> bool" where
  "entitled m = ((\<forall>c\<in>set (mg_clients m). allowed c)
     \<and> (\<forall>c t p. (c, event_message t p) \<in> set (mg_delivered m) \<longrightarrow> can_subscribe c t \<and> t \<in> set (wc_topics c)))"

lemma send_frame [simp]:
  "mg_clients (send env c v m) = mg_clients m" "mg_started (send env c v m) = mg_started m"
  "mg_redis (send env c v m) = mg_redis m" "mg_listening (send env c v m) = mg_listening m"
  by (simp_all add: send_def)

lemma send_delivered: "set (mg_delivered (send env c v m)) \<subseteq> insert (c, v) (set (mg_delivered m))"
  by (auto simp: send_def)

lemma send_entitled:
  assumes "entitled m" "\<And>t p. v = event_message t p \<Longrightarrow> can_subscribe c t \<and> t \<in> set (wc_topics c)"
  shows "entitled (send env c v m)"
  using assms send_delivered [of env c v m] by (fastforce simp: entitled_def)

lemma replies_no_events:
  "topics_reply k c \<noteq> event_message t p" "PDict [(''type'', PStr ''pong'')] \<noteq> event_message t p"
  "PDict ((''type'', x) # xs) \<noteq> event_message t p"
  by (simp_all add: topics_reply_def event_message_def)

lemma start_frame [simp]: "mg_clients (start env m) = mg_clients m" "mg_delivered (start env m) = mg_delivered m"
  by (simp_all add: start_def)

lemma start_entitled: "entitled (start env m) = entitled m"
  by (simp add: entitled_def)

lemma connect_entitled: "entitled m \<Longrightarrow> wc_topics c = [] \<Longrightarrow> entitled (connect env c m)"
  unfolding connect_def by (rule send_entitled) (auto simp: entitled_def allowed_def replies_no_events)

lemma disconnect_entitled: "entitled m \<Longrightarrow> entitled (disconnect i m)"
  by (auto simp: entitled_def disconnect_def)

lemma broadcast_fold:
  "mg_clients (fold (\<lambda>c. send env c v) cs m) = mg_clients m" "mg_started (fold (\<lambda>c. send env c v) cs m) = mg_started m"
  "mg_redis (fold (\<lambda>c. send env c v) cs m) = mg_redis m" "mg_listening (fold (\<lambda>c. send env c v) cs m) = mg_listening m"
  by (induction cs arbitrary: m) simp_all

lemma broadcast_entitled: "entitled m \<Longrightarrow> entitled (broadcast env topic payload m)"
proof -
  have "entitled (fold (\<lambda>c. send env c (event_message topic payload)) cs m)"
    if "entitled m" "\<forall>c\<in>set cs. topic \<in> set (wc_topics c) \<and> can_subscribe c topic" for cs m
    using that
  proof (induction cs arbitrary: m)
    case (Cons c cs)
    have "entitled (send env c (event_message topic payload) m)"
      by (rule send_entitled) (use Cons.prems in \<open>auto simp: event_message_def\<close>)
    with Cons show ?case by simp
  qed simp
  then show "entitled m \<Longrightarrow> entitled (broadcast env topic payload m)" by (simp add: broadcast_def)
qed

lemma hear_entitled: "entitled m \<Longrightarrow> entitled (hear env raw m)"
  by (simp add: hear_def broadcast_entitled split: option.splits pyval.splits)

lemma each_topic_allowed:
  assumes "\<And>t c. allowed c \<Longrightarrow> allowed (f t c)" "allowed c"
  shows "allowed (snd (each_topic f vs c))"
  using assms(2)
proof (induction vs arbitrary: c)
  case (Cons v vs)
  then show ?case by (cases v) (simp_all add: assms(1))
qed simp

lemma topic_allowed: "allowed c \<Longrightarrow> allowed (add_topic t c)" "allowed c \<Longrightarrow> allowed (drop_topic t c)"
  by (auto simp: allowed_def add_topic_def drop_topic_def can_subscribe_def)

lemma set_client_entitled:
  "entitled m \<Longrightarrow> allowed c \<Longrightarrow> entitled (set_client c m)"
  by (auto simp: entitled_def set_client_def)

lemma change_topics_entitled:
  assumes "entitled m" "c \<in> set (mg_clients m)" "f = add_topic \<or> f = drop_topic"
  shows "entitled (change_topics env k f msg c m)"
proof (cases "dyn_iter (case map_of msg ''topics'' of None \<Rightarrow> PList [] | Some v \<Rightarrow> v)")
  case (Inl e)
  then show ?thesis using assms(1) by (simp add: change_topics_def disconnect_entitled)
next
  case (Inr vs)
  obtain ok c' where e: "each_topic f vs c = (ok, c')" by (cases "each_topic f vs c")
  have "allowed (snd (each_topic f vs c))"
    by (rule each_topic_allowed) (use assms topic_allowed in \<open>auto simp: entitled_def\<close>)
  then have "allowed c'" by (simp add: e)
  with set_client_entitled [OF assms(1)] have s: "entitled (set_client c' m)" by blast
  have "entitled (send env c' (topics_reply k c') (set_client c' m))" by (rule send_entitled [OF s]) (simp add: replies_no_events)
  with s show ?thesis using Inr e by (simp add: change_topics_def disconnect_entitled)
qed

lemma receive_entitled:
  assumes "entitled m" "c \<in> set (mg_clients m)"
  shows "entitled (receive env c raw m)"
proof -
  have pong: "entitled (send env c (PDict [(''type'', PStr ''pong'')]) m)" by (rule send_entitled [OF assms(1)]) (simp add: replies_no_events)
  have sub: "entitled (change_topics env k add_topic msg c m)" "entitled (change_topics env k drop_topic msg c m)" for k msg
    by (rule change_topics_entitled [OF assms], simp)+
  show ?thesis unfolding receive_def
    by (simp add: assms(1) disconnect_entitled pong sub split: option.split pyval.split)
qed

lemma issue_manager: "issue_websocket_ticket env now ticket u m r = (ans, m', r') \<Longrightarrow> m' = start env m"
  by (auto simp: issue_websocket_ticket_def Let_def split: if_splits sum.splits)

lemma open_manager:
  assumes "open_events env now i origin ticket d m r = (ans, m', r')"
  shows "(ans = None \<and> m' = start env m) \<or> (\<exists>c. ans = Some c \<and> wc_topics c = [] \<and> wc_id c = i \<and> m' = connect env c (start env m))"
  using assms by (auto simp: open_events_def Let_def split: if_splits option.splits prod.splits)

lemma step_entitled:
  assumes "server_step env s t" "entitled (sv_manager s)"
  shows "entitled (sv_manager t)"
  using assms
proof (cases rule: server_step.cases)
  case (issues u now ticket ans m r)
  with assms(2) issue_manager [OF issues(4)] show ?thesis by (simp add: start_entitled)
next
  case (opens i now origin ticket ans m r)
  with assms(2) open_manager [OF opens(3)] show ?thesis by (auto simp: start_entitled connect_entitled)
next
  case (receives c raw)
  with assms(2) receive_entitled show ?thesis by simp
next
  case (crashes)
  with assms(2) show ?thesis by (simp add: entitled_def)
qed (use assms(2) in \<open>simp_all add: disconnect_entitled hear_entitled\<close>)

lemma reachable_entitled: "reachable env s \<Longrightarrow> entitled (sv_manager s)"
proof (induction rule: reachable.induct)
  case (begins s)
  then show ?case by (simp add: entitled_def)
next
  case (goes s t)
  then show ?case by (rule_tac step_entitled)
qed

section \<open>Tickets and the listener\<close>

lemma ticket_key_inj [simp]: "ticket_key a = ticket_key b \<longleftrightarrow> a = b"
  by (simp add: ticket_key_def)

lemma authenticated:
  assumes "redis_ok (se_ops env) ent" "authenticate_ws env now ticket d m r = (Some (i, name, role), r')"
  shows "\<exists>u\<in>set (users d). u_is_active u \<and> i = uuid_str (u_id u) \<and> name = u_username u \<and> role = u_role u
    \<and> live (ent r) now (ticket_key ticket) = Some i \<and> ent r' = (ent r)(ticket_key ticket := None)"
proof -
  from assms(2) obtain v where g: "rd_getdel (se_ops env) now (ticket_key ticket) r = Inr (v, r')"
    by (auto simp: authenticate_ws_def split: if_splits sum.splits option.splits list.splits)
  from assms(2) g obtain j u us where u: "v = Some j" "filter (\<lambda>u. uuid_str (u_id u) = j) (users d) = u # us"
    "u_is_active u" "i = uuid_str (u_id u)" "name = u_username u" "role = u_role u"
    by (auto simp: authenticate_ws_def split: if_splits option.splits list.splits)
  from u(2) have "u \<in> set (users d)" "uuid_str (u_id u) = j" by (auto simp: filter_eq_Cons_iff)
  with u redis_getdel [OF assms(1) g] show ?thesis by auto
qed

lemma dead_ticket:
  assumes "redis_ok (se_ops env) ent" "live (ent r) now (ticket_key ticket) = None"
  shows "fst (authenticate_ws env now ticket d m r) = None" "fst (open_events env now i origin ticket d m' r) = None"
proof -
  have none: "fst (authenticate_ws env now ticket d m r) = None" for m
  proof (cases "rd_getdel (se_ops env) now (ticket_key ticket) r")
    case (Inr vr)
    then obtain v r' where g: "rd_getdel (se_ops env) now (ticket_key ticket) r = Inr (v, r')" by (cases vr) auto
    with redis_getdel [OF assms(1) g] assms(2) show ?thesis by (simp add: authenticate_ws_def)
  qed (simp add: authenticate_ws_def)
  then show "fst (authenticate_ws env now ticket d m r) = None" .
  from none [of "start env m'"] show "fst (open_events env now i origin ticket d m' r) = None"
    by (cases "authenticate_ws env now ticket d (start env m') r") (auto simp: open_events_def Let_def)
qed

lemma opened:
  assumes "open_events env now i origin ticket d m r = (Some c, m', r')"
  shows "authenticate_ws env now ticket d (start env m) r = (Some (wc_user_id c, wc_username c, wc_role c), r')
    \<and> (se_environment env = ''production'' \<longrightarrow> (\<exists>v\<in>set (se_origins env). origin = Some v))"
  using assms by (auto simp: open_events_def Let_def split: if_splits option.splits prod.splits)

text \<open>A step without listener delivers no event.\<close>

definition events_of :: "manager \<Rightarrow> (ws_client \<times> pyval) list" where
  "events_of m = filter (\<lambda>(c, v). \<exists>t p. v = event_message t p) (mg_delivered m)"

lemma send_events: "(\<And>t p. v \<noteq> event_message t p) \<Longrightarrow> events_of (send env c v m) = events_of m"
  by (simp add: events_of_def send_def)

definition deaf :: "manager \<Rightarrow> bool" where
  "deaf m = (mg_started m \<and> \<not> mg_listening m)"

lemma deaf_start: "deaf m \<Longrightarrow> start env m = m"
  by (simp add: deaf_def start_def)

lemma disconnect_frame [simp]: "deaf (disconnect i m) = deaf m" "events_of (disconnect i m) = events_of m"
  by (simp_all add: deaf_def disconnect_def events_of_def)

lemma set_client_frame [simp]: "deaf (set_client c m) = deaf m" "events_of (set_client c m) = events_of m"
  by (simp_all add: deaf_def set_client_def events_of_def)

lemma deaf_send [simp]: "deaf (send env c v m) = deaf m"
  by (simp add: deaf_def)

lemma quiet_ops:
  "deaf (connect env c m) = deaf m" "events_of (connect env c m) = events_of m"
  "deaf (change_topics env k f msg c m) = deaf m" "events_of (change_topics env k f msg c m) = events_of m"
proof -
  show "deaf (connect env c m) = deaf m" by (simp add: connect_def) (simp add: deaf_def)
  show "events_of (connect env c m) = events_of m"
    by (simp add: connect_def send_events replies_no_events) (simp add: events_of_def)
  show "deaf (change_topics env k f msg c m) = deaf m" "events_of (change_topics env k f msg c m) = events_of m"
    by (auto simp: change_topics_def send_events replies_no_events split: sum.split prod.split)
qed

lemma quiet_receive: "deaf (receive env c raw m) = deaf m \<and> events_of (receive env c raw m) = events_of m"
  by (auto simp: receive_def quiet_ops send_events replies_no_events split: option.split pyval.split)

lemma deaf_step:
  assumes "server_step env s t" "deaf (sv_manager s)"
  shows "deaf (sv_manager t) \<and> events_of (sv_manager t) = events_of (sv_manager s)"
  using assms
proof (cases rule: server_step.cases)
  case (issues u now ticket ans m r)
  with assms(2) issue_manager [OF issues(4)] show ?thesis by (simp add: deaf_start)
next
  case (opens i now origin ticket ans m r)
  with assms(2) open_manager [OF opens(3)] show ?thesis by (auto simp: deaf_start quiet_ops)
next
  case (receives c raw)
  with assms(2) show ?thesis by (simp add: quiet_receive)
next
  case (hears raw)
  with assms(2) show ?thesis by (simp add: deaf_def)
next
  case crashes
  with assms(2) show ?thesis by (simp add: deaf_def events_of_def)
qed (use assms(2) in simp_all)

section \<open>Properties\<close>

text \<open>
  C35: Whatever clients send, however connections and messages interleave, an event reaches only
  connections that subscribed to its topic and were opened with a role the topic is for.
\<close>

theorem stream_reaches_entitled:
  assumes "reachable env s" "(c, event_message t p) \<in> set (mg_delivered (sv_manager s))"
  shows "t \<in> set (wc_topics c) \<and> (\<exists>roles. map_of TOPICS t = Some roles \<and> wc_role c \<in> set roles)"
proof -
  have "can_subscribe c t \<and> t \<in> set (wc_topics c)" using reachable_entitled [OF assms(1)] assms(2) by (auto simp: entitled_def)
  then show ?thesis by (cases "map_of TOPICS t") (simp_all add: can_subscribe_def)
qed

text \<open>
  C36: A ticket opens one connection, within thirty seconds: a connection belongs to an active
  account, with its role of that moment, whose ticket was live, and in production to an allowed
  origin; afterwards the same ticket opens nothing, and neither does a ticket once its time is over.
\<close>

theorem ticket_opens_once:
  assumes "redis_ok (se_ops env) ent"
  shows "(\<forall>now i origin d m r c m' r'. open_events env now i origin ticket d m r = (Some c, m', r') \<longrightarrow>
      (\<exists>u\<in>set (users d). u_is_active u \<and> wc_user_id c = uuid_str (u_id u) \<and> wc_role c = u_role u
         \<and> live (ent r) now (ticket_key ticket) = Some (uuid_str (u_id u)))
      \<and> (se_environment env = ''production'' \<longrightarrow> (\<exists>v\<in>set (se_origins env). origin = Some v))
      \<and> (\<forall>later i2 origin2 d2 m2. fst (open_events env later i2 origin2 ticket d2 m2 r') = None))
    \<and> (\<forall>now u m r tk m' r' later i origin d m2. issue_websocket_ticket env now ticket u m r = (Inr tk, m', r') \<and> now + 30 \<le> later \<longrightarrow>
      fst (open_events env later i origin ticket d m2 r') = None)"
proof (intro conjI allI impI)
  fix now i origin d m r c m' r'
  assume o: "open_events env now i origin ticket d m r = (Some c, m', r')"
  note a = opened [OF o]
  from authenticated [OF assms conjunct1 [OF a]]
  show "\<exists>u\<in>set (users d). u_is_active u \<and> wc_user_id c = uuid_str (u_id u) \<and> wc_role c = u_role u
         \<and> live (ent r) now (ticket_key ticket) = Some (uuid_str (u_id u))" by auto
  show "\<exists>v\<in>set (se_origins env). origin = Some v" if "se_environment env = ''production''" using a that by blast
  fix later i2 origin2 d2 m2
  from authenticated [OF assms conjunct1 [OF a]] have "live (ent r') later (ticket_key ticket) = None" by (auto simp: live_upd_None)
  then show "fst (open_events env later i2 origin2 ticket d2 m2 r') = None" by (rule dead_ticket(2) [OF assms])
next
  fix now u m r tk m' r' later i origin d m2
  assume a: "issue_websocket_ticket env now ticket u m r = (Inr tk, m', r') \<and> now + 30 \<le> later"
  then have "rd_setex (se_ops env) now (ticket_key ticket) 30 (uuid_str (u_id u)) r = Inr r'"
    by (auto simp: issue_websocket_ticket_def Let_def split: if_splits sum.splits)
  from redis_setex [OF assms this] a have "live (ent r') later (ticket_key ticket) = None" by (simp add: live_upd)
  then show "fst (open_events env later i origin ticket d m2 r') = None" by (rule dead_ticket(2) [OF assms])
qed

text \<open>
  A listener that ended is never started again: from then on no event is delivered, whatever
  connections are opened and whatever is published, although clients connect and get replies.
\<close>

theorem ended_listener_stays_ended:
  assumes "(server_step env)\<^sup>*\<^sup>* s t" "mg_started (sv_manager s)" "\<not> mg_listening (sv_manager s)"
  shows "\<not> mg_listening (sv_manager t) \<and> events_of (sv_manager t) = events_of (sv_manager s)"
proof -
  have "deaf (sv_manager t) \<and> events_of (sv_manager t) = events_of (sv_manager s)"
    using assms
  proof (induction rule: rtranclp_induct)
    case base
    then show ?case by (simp add: deaf_def)
  next
    case (step t u)
    with deaf_step [OF step(2)] show ?case by auto
  qed
  then show ?thesis by (simp add: deaf_def)
qed

text \<open>A connection keeps its topics when its account loses the role or is closed.\<close>

lemma broadcast_reaches:
  assumes "c \<in> set (mg_clients m)" "topic \<in> set (wc_topics c)" "can_subscribe c topic" "se_sends env (wc_id c) (event_message topic payload)"
  shows "(c, event_message topic payload) \<in> set (mg_delivered (broadcast env topic payload m))"
proof -
  have keeps: "x \<in> set (mg_delivered m) \<Longrightarrow> x \<in> set (mg_delivered (fold (\<lambda>c. send env c v) cs m))" for x v cs m
    by (induction cs arbitrary: m) (auto simp: send_def)
  have "(c, v) \<in> set (mg_delivered (fold (\<lambda>c. send env c v) cs m))" if "c \<in> set cs" "se_sends env (wc_id c) v" for v cs m
    using that
  proof (induction cs arbitrary: m)
    case (Cons x cs)
    show ?case
    proof (cases "x = c")
      case True
      have "(c, v) \<in> set (mg_delivered (send env c v m))" using Cons.prems(2) by (simp add: send_def)
      with keeps True show ?thesis by simp
    next
      case False
      with Cons show ?thesis by simp
    qed
  qed simp
  with assms show ?thesis by (simp add: broadcast_def)
qed

lemma revoked_account_keeps_stream:
  assumes "c \<in> set (mg_clients (sv_manager s))" "''audit'' \<in> set (wc_topics c)" "can_subscribe c ''audit''"
    and "mg_listening (sv_manager s)" "se_sends env (wc_id c) (event_message ''audit'' payload)"
    and "se_json env raw = Some (PDict [(''topic'', PStr ''audit''), (''data'', payload)])"
  shows "\<exists>t. server_step env (s\<lparr>sv_db := d\<rparr>) t \<and> (c, event_message ''audit'' payload) \<in> set (mg_delivered (sv_manager t))"
proof (intro exI conjI)
  show "server_step env (s\<lparr>sv_db := d\<rparr>) (s\<lparr>sv_db := d\<rparr>\<lparr>sv_manager := hear env raw (sv_manager (s\<lparr>sv_db := d\<rparr>))\<rparr>)"
    by (rule server_step.hears) (use assms(4) in simp)
  show "(c, event_message ''audit'' payload) \<in> set (mg_delivered (sv_manager (s\<lparr>sv_db := d\<rparr>\<lparr>sv_manager := hear env raw (sv_manager (s\<lparr>sv_db := d\<rparr>))\<rparr>)))"
    using broadcast_reaches [of c "sv_manager s" "''audit''" env payload] assms by (simp add: hear_def)
qed

section \<open>Samples\<close>

definition sample_stream :: "(string \<rightharpoonup> entry) stream_env" where
  "sample_stream = \<lparr> se_ops = mem_ops, se_url_ok = True, se_environment = ''development'', se_origins = [],
     se_json = (\<lambda>s. if s = ''sub'' then Some (PDict [(''action'', PStr ''subscribe''), (''topics'', PList [PStr ''scans'', PStr ''audit''])])
       else Some (PDict [(''topic'', PStr ''scans''), (''data'', PInt 1)])), se_sends = (\<lambda>i v. True) \<rparr>"

definition sample_server :: "(string \<rightharpoonup> entry) server" where
  "sample_server = \<lparr> sv_db = sample_user_db, sv_store = (\<lambda>k. if k = ticket_key ''tk'' then Some (uuid_str 7, Some 30) else None), sv_manager = idle_manager \<rparr>"

definition sample_client :: ws_client where
  "sample_client = \<lparr> wc_id = 1, wc_user_id = uuid_str 7, wc_username = ''ana'', wc_role = ''analyst'', wc_topics = [] \<rparr>"

lemma sample_open:
  "open_events sample_stream 5 1 None ''tk'' sample_user_db idle_manager (sv_store sample_server)
   = (Some sample_client, connect sample_stream sample_client (start sample_stream idle_manager), (sv_store sample_server)(ticket_key ''tk'' := None))"
  by (simp add: open_events_def authenticate_ws_def sample_stream_def sample_server_def start_def idle_manager_def mem_ops_def live_def
      sample_user_db_def sample_user_def new_user_def sample_client_def uuid_str_def Let_def)

theorem ticket_opens_once_witness:
  "fst (open_events sample_stream 5 1 None ''tk'' sample_user_db idle_manager (sv_store sample_server)) = Some sample_client
   \<and> fst (open_events sample_stream 6 2 None ''tk'' sample_user_db idle_manager ((sv_store sample_server)(ticket_key ''tk'' := None))) = None"
proof -
  have "redis_ok (se_ops sample_stream) (\<lambda>m. m)" by (simp add: sample_stream_def mem_ops_ok)
  from ticket_opens_once [OF this, THEN conjunct1, rule_format, OF sample_open] sample_open show ?thesis by simp
qed

definition sample_m1 :: manager where "sample_m1 = connect sample_stream sample_client (start sample_stream idle_manager)"
definition sample_m2 :: manager where "sample_m2 = receive sample_stream sample_client ''sub'' sample_m1"
definition sample_m3 :: manager where "sample_m3 = hear sample_stream ''x'' sample_m2"

lemma sample_allowed: "can_subscribe sample_client ''scans''" "\<not> can_subscribe sample_client ''audit''"
  by (simp_all add: can_subscribe_def sample_client_def TOPICS_def)

lemma sample_clients: "mg_clients sample_m1 = [sample_client]" "mg_clients sample_m2 = [sample_client\<lparr>wc_topics := [''scans'']\<rparr>]" "mg_listening sample_m2"
  using sample_allowed
  by (simp_all add: sample_m2_def sample_m1_def connect_def start_def idle_manager_def receive_def sample_stream_def change_topics_def dyn_iter_def
      add_topic_def set_client_def can_subscribe_def) (simp_all add: sample_client_def can_subscribe_def)

lemma sample_heard: "(sample_client\<lparr>wc_topics := [''scans'']\<rparr>, event_message ''scans'' (PInt 1)) \<in> set (mg_delivered sample_m3)"
  using sample_clients sample_allowed
  by (simp add: sample_m3_def hear_def sample_stream_def broadcast_def send_def can_subscribe_def)

lemma sample_reachable: "\<exists>s. reachable sample_stream s \<and> sv_manager s = sample_m3"
proof -
  let ?s1 = "sample_server\<lparr>sv_manager := sample_m1, sv_store := (sv_store sample_server)(ticket_key ''tk'' := None)\<rparr>"
  have r0: "reachable sample_stream sample_server" by (rule reachable.begins) (simp_all add: sample_server_def idle_manager_def)
  have "server_step sample_stream sample_server ?s1"
    by (rule server_step.opens [where i = 1 and now = 5 and origin = None and ticket = "''tk''"])
       (use sample_open in \<open>simp_all add: sample_server_def sample_m1_def idle_manager_def\<close>)
  with r0 have r1: "reachable sample_stream ?s1" by (rule reachable.goes)
  have "server_step sample_stream ?s1 (?s1\<lparr>sv_manager := receive sample_stream sample_client ''sub'' (sv_manager ?s1)\<rparr>)"
    by (rule server_step.receives) (simp add: sample_clients)
  with r1 have r2: "reachable sample_stream (?s1\<lparr>sv_manager := sample_m2\<rparr>)" by (auto simp: sample_m2_def intro: reachable.goes)
  have "server_step sample_stream (?s1\<lparr>sv_manager := sample_m2\<rparr>) (?s1\<lparr>sv_manager := sample_m2\<rparr>\<lparr>sv_manager := hear sample_stream ''x'' (sv_manager (?s1\<lparr>sv_manager := sample_m2\<rparr>))\<rparr>)"
    by (rule server_step.hears) (simp add: sample_clients)
  with r2 have "reachable sample_stream (?s1\<lparr>sv_manager := sample_m2\<rparr>\<lparr>sv_manager := hear sample_stream ''x'' (sv_manager (?s1\<lparr>sv_manager := sample_m2\<rparr>))\<rparr>)"
    by (rule reachable.goes)
  then show ?thesis by (intro exI conjI) (assumption, simp add: sample_m3_def)
qed

theorem stream_reaches_entitled_witness:
  "\<exists>s c. reachable sample_stream s \<and> (c, event_message ''scans'' (PInt 1)) \<in> set (mg_delivered (sv_manager s)) \<and> ''scans'' \<in> set (wc_topics c)"
proof -
  obtain s where s: "reachable sample_stream s" "sv_manager s = sample_m3" using sample_reachable by blast
  with sample_heard have "(sample_client\<lparr>wc_topics := [''scans'']\<rparr>, event_message ''scans'' (PInt 1)) \<in> set (mg_delivered (sv_manager s))" by simp
  with s(1) stream_reaches_entitled [OF s(1) this] show ?thesis by blast
qed

theorem ended_listener_stays_ended_witness:
  "\<exists>s t. (server_step sample_stream)\<^sup>*\<^sup>* s t \<and> mg_started (sv_manager s) \<and> mg_clients (sv_manager t) \<noteq> [] \<and> events_of (sv_manager t) = events_of (sv_manager s)"
proof -
  let ?m = "(start sample_stream idle_manager)\<lparr>mg_listening := False\<rparr>"
  let ?s = "sample_server\<lparr>sv_manager := ?m\<rparr>"
  have m: "mg_started ?m" "\<not> mg_listening ?m" by (simp_all add: start_def idle_manager_def sample_stream_def)
  have "open_events sample_stream 5 1 None ''tk'' (sv_db ?s) (sv_manager ?s) (sv_store ?s)
      = (Some sample_client, connect sample_stream sample_client ?m, (sv_store sample_server)(ticket_key ''tk'' := None))"
    by (simp add: open_events_def authenticate_ws_def sample_stream_def sample_server_def start_def idle_manager_def mem_ops_def live_def
      sample_user_db_def sample_user_def new_user_def sample_client_def uuid_str_def Let_def)
  from server_step.opens [OF _ this]
  have "server_step sample_stream ?s (?s\<lparr>sv_manager := connect sample_stream sample_client ?m, sv_store := (sv_store sample_server)(ticket_key ''tk'' := None)\<rparr>)"
    by (simp add: start_def idle_manager_def sample_stream_def)
  then obtain t where t: "server_step sample_stream ?s t" "sv_manager t = connect sample_stream sample_client ?m" by fastforce
  from r_into_rtranclp [of "server_step sample_stream", OF t(1)] have st: "(server_step sample_stream)\<^sup>*\<^sup>* ?s t" .
  from ended_listener_stays_ended [OF st] m have "events_of (sv_manager t) = events_of (sv_manager ?s)" by simp
  moreover have "mg_clients (sv_manager t) \<noteq> []" by (simp add: t(2) connect_def)
  moreover have "mg_started (sv_manager ?s)" using m by simp
  ultimately show ?thesis using st by blast
qed

end
