(* ===== verification/Connectors.thy ===== *)
theory Connectors
  imports Integrations PyDyn Http
begin

text \<open>
  The connectors of \<open>app/connectors/\<close>: the requests each makes and the inventory it reads from
  the answers. Directory, cloud and HTTP transports are parameters (see \<open>Http\<close>); an HTTP transport is
  given the number of the connector's requests before this one.
\<close>

section \<open>HTTP\<close>

record http_call =
  hc_method :: string
  hc_url :: string
  hc_params :: "(string \<times> pyval) list"
  hc_headers :: "(string \<times> string) list"
  hc_auth :: "(pyval \<times> pyval) option"
  hc_body :: pyval
  hc_verify :: pyval

type_synonym http = "nat \<Rightarrow> http_call \<Rightarrow> http_exc + http_response"

definition send_call :: "http \<Rightarrow> nat \<Rightarrow> http_call \<Rightarrow> http_response result" where
  "send_call net k c = (case net k c of Inl e \<Rightarrow> Inl (as_exn e) | Inr r \<Rightarrow> Inr r)"

text \<open>A call followed by \<open>raise_for_status\<close>.\<close>

definition checked_call :: "http \<Rightarrow> nat \<Rightarrow> http_call \<Rightarrow> http_response result" where
  "checked_call net k c =
     rbind (send_call net k c) (\<lambda>r. if is_success r then Inr r else Inl (as_exn (HTTPStatusError (hr_status r))))"

definition config_item :: "jdict \<Rightarrow> string \<Rightarrow> pyval result" where
  "config_item config k = dyn_item (PDict config) k"

definition config_get :: "jdict \<Rightarrow> string \<Rightarrow> pyval \<Rightarrow> pyval" where
  "config_get config k dflt = (case map_of config k of None \<Rightarrow> dflt | Some v \<Rightarrow> v)"

text \<open>\<open>f"{self.config['base_url']}..."\<close>\<close>

definition at_base :: "(pyval \<Rightarrow> string) \<Rightarrow> jdict \<Rightarrow> string \<Rightarrow> string result" where
  "at_base show config path = rbind (config_item config ''base_url'') (\<lambda>b. Inr (py_str show b @ path))"

definition get_of :: "string \<Rightarrow> http_call" where
  "get_of url = \<lparr> hc_method = ''GET'', hc_url = url, hc_params = [], hc_headers = [], hc_auth = None,
     hc_body = PNone, hc_verify = PBool True \<rparr>"

definition with_credentials :: "jdict \<Rightarrow> (pyval \<times> pyval) result" where
  "with_credentials config =
     rbind (config_item config ''username'') (\<lambda>u. rbind (config_item config ''password'') (\<lambda>p. Inr (u, p)))"

text \<open>\<open>except Exception: return False\<close>\<close>

definition or_false :: "bool result \<Rightarrow> bool result" where
  "or_false r = (case r of Inl e \<Rightarrow> Inr False | Inr b \<Rightarrow> Inr b)"

section \<open>Leases\<close>

definition infoblox_lease :: "pyval \<Rightarrow> jdict list result" where
  "infoblox_lease lease =
     rbind (dyn_get lease ''binding_state'' PNone) (\<lambda>state.
     if state \<noteq> PStr ''ACTIVE'' then Inr []
     else let get = (\<lambda>k. jget (case lease of PDict d \<Rightarrow> d | _ \<Rightarrow> []) k)
       in Inr [[(''name'', py_or (get ''client_hostname'') (get ''address'')), (''hostname'', get ''client_hostname''),
           (''ip'', get ''address''), (''mac'', get ''hardware''), (''type'', PStr ''Unknown''), (''segment'', PStr ''DHCP''),
           (''attrs'', PDict [(''lease_start'', get ''starts''), (''lease_end'', get ''ends''), (''binding'', state)])]])"

definition kea_lease :: "pyval \<Rightarrow> jdict list result" where
  "kea_lease lease = (case lease of
     PDict d \<Rightarrow> Inr [[(''name'', py_or (jget d ''hostname'') (jget d ''ip-address'')), (''ip'', jget d ''ip-address''),
         (''mac'', jget d ''hw-address''), (''hostname'', jget d ''hostname''), (''type'', PStr ''Unknown''), (''segment'', PStr ''DHCP''),
         (''attrs'', PDict [(''state'', jget d ''state''), (''subnet_id'', jget d ''subnet-id'')])]]
   | _ \<Rightarrow> Inl AttributeError)"

definition fetch_infoblox :: "(pyval \<Rightarrow> string) \<Rightarrow> http \<Rightarrow> jdict \<Rightarrow> jdict list result" where
  "fetch_infoblox show net config =
     rbind (with_credentials config) (\<lambda>auth.
     rbind (at_base show config ''/lease'') (\<lambda>url.
     rbind (checked_call net 0 ((get_of url)\<lparr> hc_auth := Some auth, hc_verify := config_get config ''verify_ssl'' (PBool True),
         hc_params := [(''_return_fields'', PStr ''address,hardware,client_hostname,binding_state,starts,ends''),
           (''_max_results'', PInt 5000), (''binding_state'', PStr ''ACTIVE'')] \<rparr>)) (\<lambda>r.
     rbind (hr_json r) (\<lambda>v. rbind (dyn_iter v) (rcollect infoblox_lease)))))"

definition kea_response :: "pyval \<Rightarrow> jdict list result" where
  "kea_response resp =
     rbind (dyn_get resp ''arguments'' (PDict [])) (\<lambda>args. rbind (dyn_get args ''leases'' (PList [])) (\<lambda>v.
     rbind (dyn_iter v) (rcollect kea_lease)))"

definition fetch_kea :: "(pyval \<Rightarrow> string) \<Rightarrow> http \<Rightarrow> jdict \<Rightarrow> jdict list result" where
  "fetch_kea show net config =
     rbind (config_item config ''base_url'') (\<lambda>b. case b of
       PStr url \<Rightarrow>
         rbind (checked_call net 0 ((get_of url)\<lparr> hc_method := ''POST'', hc_verify := config_get config ''verify_ssl'' (PBool True),
             hc_body := PDict [(''command'', PStr ''lease4-get-all''), (''service'', PList [PStr ''dhcp4''])] \<rparr>)) (\<lambda>r.
         rbind (hr_json r) (\<lambda>v. rbind (dyn_iter v) (rcollect kea_response)))
     | _ \<Rightarrow> Inl TypeError)"

definition fetch_dhcp :: "(pyval \<Rightarrow> string) \<Rightarrow> http \<Rightarrow> jdict \<Rightarrow> jdict list result" where
  "fetch_dhcp show net config = (case config_get config ''provider'' (PStr ''infoblox'') of
     PStr p \<Rightarrow>
       if lower p = ''infoblox'' then fetch_infoblox show net config
       else if lower p = ''kea'' then fetch_kea show net config else Inr []
   | _ \<Rightarrow> Inl AttributeError)"

definition test_dhcp :: "(pyval \<Rightarrow> string) \<Rightarrow> http \<Rightarrow> jdict \<Rightarrow> bool result" where
  "test_dhcp show net config = or_false
     (if jget config ''provider'' = PStr ''infoblox''
      then rbind (at_base show config ''/network'') (\<lambda>url. rbind (with_credentials config) (\<lambda>auth.
        rbind (send_call net 0 ((get_of url)\<lparr> hc_auth := Some auth, hc_verify := config_get config ''verify_ssl'' (PBool True),
          hc_params := [(''_max_results'', PInt 1)] \<rparr>)) (\<lambda>r. Inr (hr_status r = 200))))
      else Inr True)"

section \<open>Falcon devices\<close>

definition falcon_token :: "(pyval \<Rightarrow> string) \<Rightarrow> http \<Rightarrow> jdict \<Rightarrow> pyval result" where
  "falcon_token show net config =
     rbind (at_base show config ''/oauth2/token'') (\<lambda>url.
     rbind (config_item config ''client_id'') (\<lambda>i. rbind (config_item config ''client_secret'') (\<lambda>s.
     rbind (checked_call net 0 ((get_of url)\<lparr> hc_method := ''POST'', hc_body := PDict [(''client_id'', i), (''client_secret'', s)] \<rparr>)) (\<lambda>r.
     rbind (hr_json r) (\<lambda>v. dyn_item v ''access_token'')))))"

definition device_row :: "(pyval \<Rightarrow> string) \<Rightarrow> pyval \<Rightarrow> jdict result" where
  "device_row show v = (case v of
     PDict d \<Rightarrow>
       let get = jget d; get_text = (\<lambda>k. py_str show (config_get d k (PStr [])))
       in (case config_get d ''product_type_desc'' (PStr []) of
           PStr product \<Rightarrow> Inr
             [(''name'', get ''hostname''), (''hostname'', get ''hostname''), (''ip'', py_or (get ''local_ip'') (get ''external_ip'')),
              (''mac'', get ''mac_address''), (''os'', PStr (strip (get_text ''os_version'' @ '' '' @ get_text ''os_build''))),
              (''type'', PStr (if contains ''server'' (lower product) then ''Server'' else ''Endpoint'')),
              (''edr_status'', PStr (''CrowdStrike '' @ get_text ''agent_version'')), (''control_coverage'', PStr ''full''),
              (''auth_method'', PStr ''mfa''), (''segment'', py_or (get ''site_name'') (PStr ''Corporate'')),
              (''attrs'', PDict [(''device_id'', get ''device_id''), (''first_seen'', get ''first_seen''),
                 (''last_seen'', get ''last_seen''), (''policies'', config_get d ''policies'' (PList []))])]
         | _ \<Rightarrow> Inl AttributeError)
   | _ \<Rightarrow> Inl AttributeError)"

text \<open>\<open>range(0, len(ids), 100)\<close> and the slices\<close>

function id_batches :: "'a list \<Rightarrow> 'a list list" where
  "id_batches xs = (if xs = [] then [] else take 100 xs # id_batches (drop 100 xs))"
  by auto
termination by (relation "measure length") auto

declare id_batches.simps [simp del]

definition device_ids :: "pyval \<Rightarrow> pyval list result" where
  "device_ids v = (case v of
     PList xs \<Rightarrow> Inr xs | PStr s \<Rightarrow> Inr (map (\<lambda>c. PStr [c]) s) | PDict [] \<Rightarrow> Inr [] | _ \<Rightarrow> Inl TypeError)"

definition batch_call :: "string \<Rightarrow> (string \<times> string) list \<Rightarrow> pyval list \<Rightarrow> http_call" where
  "batch_call url headers batch = (get_of url)\<lparr> hc_headers := headers, hc_params := map (\<lambda>i. (''ids'', i)) batch \<rparr>"

fun fetch_batches :: "(pyval \<Rightarrow> string) \<Rightarrow> http \<Rightarrow> string \<Rightarrow> (string \<times> string) list \<Rightarrow> nat \<Rightarrow> pyval list list \<Rightarrow> jdict list result" where
  "fetch_batches show net url headers k [] = Inr []"
| "fetch_batches show net url headers k (b # bs) =
     rbind (checked_call net k (batch_call url headers b)) (\<lambda>r.
     rbind (hr_json r) (\<lambda>v. rbind (dyn_get v ''resources'' (PList [])) (\<lambda>v. rbind (dyn_iter v) (\<lambda>ds.
     rbind (rmap (device_row show) ds) (\<lambda>rows.
     rbind (fetch_batches show net url headers (Suc k) bs) (\<lambda>rest. Inr (rows @ rest)))))))"

definition fetch_falcon :: "(pyval \<Rightarrow> string) \<Rightarrow> http \<Rightarrow> jdict \<Rightarrow> jdict list result" where
  "fetch_falcon show net config =
     rbind (falcon_token show net config) (\<lambda>token.
     let headers = [(''Authorization'', ''Bearer '' @ py_str show token)]
     in rbind (at_base show config ''/devices/queries/devices/v1'') (\<lambda>url.
        rbind (checked_call net 1 ((get_of url)\<lparr> hc_headers := headers, hc_params := [(''limit'', PInt 5000)] \<rparr>)) (\<lambda>r.
        rbind (hr_json r) (\<lambda>v. rbind (dyn_get v ''resources'' (PList [])) (\<lambda>v. rbind (device_ids v) (\<lambda>ids.
        rbind (at_base show config ''/devices/entities/devices/v2'') (\<lambda>url.
        rbind (fetch_batches show net url headers 2 (id_batches ids)) (\<lambda>rows.
          Inr (filter (\<lambda>a. py_truthy (jget a ''name'')) rows)))))))))"

definition test_falcon :: "(pyval \<Rightarrow> string) \<Rightarrow> http \<Rightarrow> jdict \<Rightarrow> bool result" where
  "test_falcon show net config = or_false (rbind (falcon_token show net config) (\<lambda>t. Inr True))"

section \<open>Nessus scans\<close>

text \<open>
  Hosts by name or address. A key must be hashable; numbers and truth values are equal when
  their values are. A host's row is kept beside the scans that saw it.
\<close>

definition dict_key :: "pyval \<Rightarrow> pyval result" where
  "dict_key v = (case v of
     PBool b \<Rightarrow> Inr (PInt (if b then 1 else 0))
   | PFloat q \<Rightarrow> Inr (if of_int \<lfloor>q\<rfloor> = q then PInt \<lfloor>q\<rfloor> else v)
   | PList xs \<Rightarrow> Inl TypeError | PDict d \<Rightarrow> Inl TypeError | _ \<Rightarrow> Inr v)"

record seen_host =
  sh_key :: pyval
  sh_row :: jdict
  sh_scans :: "pyval list"

definition nessus_row :: "jdict \<Rightarrow> jdict" where
  "nessus_row d =
     [(''name'', py_or (jget d ''hostname'') (jget d ''host-ip'')), (''ip'', jget d ''host-ip''), (''hostname'', jget d ''hostname''),
      (''type'', PStr ''Unknown''), (''os'', jget d ''operating-system''),
      (''vulnerabilities'', PDict (map (\<lambda>c. (c, config_get d c (PInt 0))) [''critical'', ''high'', ''medium'', ''low'']))]"

definition see_host :: "pyval \<Rightarrow> pyval \<Rightarrow> seen_host list \<Rightarrow> seen_host list result" where
  "see_host scan_id host seen = (case host of
     PDict d \<Rightarrow>
       let ip = py_or (jget d ''hostname'') (jget d ''host-ip'')
       in if \<not> py_truthy ip then Inr seen
          else rbind (dict_key ip) (\<lambda>key.
            if key \<in> sh_key ` set seen
            then Inr (update_where (\<lambda>h. sh_key h = key) (\<lambda>h. h\<lparr>sh_scans := sh_scans h @ [scan_id]\<rparr>) seen)
            else Inr (seen @ [\<lparr> sh_key = key, sh_row = nessus_row d, sh_scans = [scan_id] \<rparr>]))
   | _ \<Rightarrow> Inl AttributeError)"

definition nessus_headers :: "(pyval \<Rightarrow> string) \<Rightarrow> jdict \<Rightarrow> (string \<times> string) list result" where
  "nessus_headers show config =
     rbind (config_item config ''access_key'') (\<lambda>a. rbind (config_item config ''secret_key'') (\<lambda>s.
       Inr [(''X-ApiKeys'', ''accessKey='' @ py_str show a @ ''; secretKey='' @ py_str show s)]))"

definition nessus_call :: "(pyval \<Rightarrow> string) \<Rightarrow> http \<Rightarrow> jdict \<Rightarrow> nat \<Rightarrow> string \<Rightarrow> http_response result" where
  "nessus_call show net config k path =
     rbind (at_base show config path) (\<lambda>url. rbind (nessus_headers show config) (\<lambda>headers.
       send_call net k ((get_of url)\<lparr> hc_headers := headers, hc_verify := config_get config ''verify_ssl'' (PBool True) \<rparr>)))"

text \<open>One scan of the list; the number counts the requests made.\<close>

definition read_scan :: "(pyval \<Rightarrow> string) \<Rightarrow> http \<Rightarrow> jdict \<Rightarrow> pyval \<Rightarrow> nat \<times> seen_host list \<Rightarrow> (nat \<times> seen_host list) result" where
  "read_scan show net config scan st =
     rbind (dyn_get scan ''status'' PNone) (\<lambda>status.
     if status \<noteq> PStr ''completed'' then Inr st
     else rbind (dyn_item scan ''id'') (\<lambda>i.
       rbind (nessus_call show net config (fst st) (''/scans/'' @ py_str show i)) (\<lambda>r.
       if hr_status r \<noteq> 200 then Inr (Suc (fst st), snd st)
       else rbind (hr_json r) (\<lambda>v. rbind (dyn_get v ''hosts'' (PList [])) (\<lambda>v. rbind (dyn_iter v) (\<lambda>hosts.
         rbind (rfold (see_host i) hosts (snd st)) (\<lambda>seen. Inr (Suc (fst st), seen))))))))"

definition host_row :: "seen_host \<Rightarrow> jdict" where
  "host_row h = sh_row h @ [(''attrs'', PDict [(''scan_ids'', PList (sh_scans h))])]"

definition fetch_nessus :: "(pyval \<Rightarrow> string) \<Rightarrow> http \<Rightarrow> jdict \<Rightarrow> jdict list result" where
  "fetch_nessus show net config =
     rbind (nessus_call show net config 0 ''/scans'') (\<lambda>r.
     rbind (if is_success r then Inr () else Inl (as_exn (HTTPStatusError (hr_status r)))) (\<lambda>u.
     rbind (hr_json r) (\<lambda>v. rbind (dyn_get v ''scans'' (PList [])) (\<lambda>v. rbind (dyn_iter v) (\<lambda>scans.
     rbind (rfold (read_scan show net config) scans (1, [])) (\<lambda>st. Inr (map host_row (snd st))))))))"

definition test_nessus :: "(pyval \<Rightarrow> string) \<Rightarrow> http \<Rightarrow> jdict \<Rightarrow> bool result" where
  "test_nessus show net config = or_false
     (rbind (nessus_call show net config 0 ''/server/status'') (\<lambda>r. Inr (hr_status r = 200)))"

section \<open>The asset source API\<close>

definition is_retryable :: "http_exc \<Rightarrow> bool" where
  "is_retryable e = (case e of
     NetworkError \<Rightarrow> True | TimeoutException \<Rightarrow> True | HTTPStatusError n \<Rightarrow> n = 408 \<or> n = 429 \<or> 500 \<le> n | _ \<Rightarrow> False)"

text \<open>One attempt of \<open>_get\<close>: the request, if the token is configured, and its log.\<close>

definition get_once :: "(pyval \<Rightarrow> string) \<Rightarrow> http \<Rightarrow> jdict \<Rightarrow> string \<Rightarrow> http_call list \<Rightarrow> (http_exc + http_response) \<times> http_call list" where
  "get_once show net config url sent = (case config_item config ''api_token'' of
     Inl e \<Rightarrow> (Inl (OtherExc e), sent)
   | Inr token \<Rightarrow> logged net ((get_of url)\<lparr> hc_headers := [(''X-API-Key'', py_str show token)] \<rparr>) Inr sent)"

type_synonym api_retry = "(http_exc, http_response, http_call list) retrier"

record asset_api =
  aa_base :: string
  aa_path :: string

definition make_asset_api :: "(pyval \<Rightarrow> string) \<Rightarrow> (pyval \<Rightarrow> exn option) \<Rightarrow> jdict \<Rightarrow> asset_api result" where
  "make_asset_api show to_float config =
     rbind (config_item config ''base_url'') (\<lambda>b.
     case to_float (config_get config ''timeout_sec'' (PInt 10)) of
       Some e \<Rightarrow> Inl e
     | None \<Rightarrow> Inr \<lparr> aa_base = rstrip_chars (\<lambda>c. c = CHR ''/'') (py_str show b),
           aa_path = py_str show (config_get config ''inventory_path'' (PStr ''/v1/assets'')) \<rparr>)"

text \<open>The decorated \<open>_get\<close>: three attempts, of which only retryable failures are repeated.\<close>

definition api_get :: "(pyval \<Rightarrow> string) \<Rightarrow> (string \<Rightarrow> string \<Rightarrow> string) \<Rightarrow> api_retry \<Rightarrow> http \<Rightarrow> jdict \<Rightarrow> asset_api \<Rightarrow>
    (http_exc + http_response) \<times> http_call list" where
  "api_get show merge retry net config api =
     retry 3 is_retryable (get_once show net config (merge (aa_base api) (aa_path api))) []"

definition is_dict :: "pyval \<Rightarrow> bool" where
  "is_dict v = (case v of PDict d \<Rightarrow> True | _ \<Rightarrow> False)"

definition the_dict :: "pyval \<Rightarrow> jdict" where
  "the_dict v = (case v of PDict d \<Rightarrow> d | _ \<Rightarrow> [])"

definition payload_assets :: "pyval \<Rightarrow> jdict list result" where
  "payload_assets payload = (case payload of
     PDict d \<Rightarrow> (case jget d ''assets'' of
        PList xs \<Rightarrow> Inr (map the_dict (filter is_dict xs))
      | _ \<Rightarrow> Inl (ValueError ''Asset Source API response must contain an assets array''))
   | _ \<Rightarrow> Inl (ValueError ''Asset Source API response must contain an assets array''))"

definition fetch_asset_api :: "(pyval \<Rightarrow> string) \<Rightarrow> (pyval \<Rightarrow> exn option) \<Rightarrow> (string \<Rightarrow> string \<Rightarrow> string) \<Rightarrow> api_retry \<Rightarrow> http \<Rightarrow> jdict \<Rightarrow>
    jdict list result \<times> http_call list" where
  "fetch_asset_api show to_float merge retry net config = (case make_asset_api show to_float config of
     Inl e \<Rightarrow> (Inl e, [])
   | Inr api \<Rightarrow> apfst (\<lambda>r. rbind (reraised r) (\<lambda>r. rbind (hr_json r) payload_assets)) (api_get show merge retry net config api))"

definition test_asset_api :: "(pyval \<Rightarrow> string) \<Rightarrow> (pyval \<Rightarrow> exn option) \<Rightarrow> (string \<Rightarrow> string \<Rightarrow> string) \<Rightarrow> api_retry \<Rightarrow> http \<Rightarrow> jdict \<Rightarrow>
    bool result" where
  "test_asset_api show to_float merge retry net config =
     rbind (make_asset_api show to_float config) (\<lambda>api. case fst (api_get show merge retry net config api) of
       Inl (OtherExc (ValueError m)) \<Rightarrow> Inr False
     | Inl (OtherExc e) \<Rightarrow> Inl e
     | Inl e \<Rightarrow> Inr False
     | Inr r \<Rightarrow>
         (case hr_json r of
            Inl (ValueError m) \<Rightarrow> Inr False
          | Inl e \<Rightarrow> Inl e
          | Inr (PDict d) \<Rightarrow> Inr (case jget d ''assets'' of PList xs \<Rightarrow> True | _ \<Rightarrow> False)
          | Inr v \<Rightarrow> Inr False))"

section \<open>Directory computers\<close>

text \<open>
  An attribute is \<open>None\<close> where the entry has no value of it, else its text. The distinguished
  name is always there.
\<close>

record ldap_login =
  ll_server :: pyval
  ll_ca :: pyval
  ll_user :: pyval
  ll_password :: pyval

record ldap_entry =
  le_cn :: "string option"
  le_dns :: "string option"
  le_os :: "string option"
  le_version :: "string option"
  le_dn :: string

record directory =
  dir_bind :: "ldap_login \<Rightarrow> exn option"
  dir_search :: "ldap_login \<Rightarrow> pyval \<Rightarrow> pyval \<Rightarrow> ldap_entry list result"

definition tls_config :: "jdict \<Rightarrow> pyval result" where
  "tls_config config = (case jget config ''ca_certs_file'' of
     PNone \<Rightarrow> Inr PNone
   | PStr (c # s) \<Rightarrow> Inr (PStr (c # s))
   | _ \<Rightarrow> Inl (ValueError ''ca_certs_file must be a non-empty path when supplied''))"

definition bind_directory :: "directory \<Rightarrow> jdict \<Rightarrow> ldap_login result" where
  "bind_directory dir config =
     rbind (config_item config ''server'') (\<lambda>server. rbind (tls_config config) (\<lambda>ca.
     rbind (config_item config ''bind_dn'') (\<lambda>user. rbind (config_item config ''bind_password'') (\<lambda>password.
     let login = \<lparr> ll_server = server, ll_ca = ca, ll_user = user, ll_password = password \<rparr>
     in case dir_bind dir login of Some e \<Rightarrow> Inl e | None \<Rightarrow> Inr login))))"

definition classify :: "string option \<Rightarrow> string" where
  "classify os_name = (case os_name of
     None \<Rightarrow> ''Endpoint''
   | Some s \<Rightarrow> if s = [] then ''Endpoint'' else if contains ''server'' (lower s) then ''Server''
             else if contains ''windows'' (lower s) then ''Endpoint'' else ''Endpoint'')"

definition computer_row :: "ldap_entry \<Rightarrow> jdict list" where
  "computer_row entry = (case le_cn entry of
     None \<Rightarrow> []
   | Some name \<Rightarrow>
       if name = [] then []
       else [[(''name'', PStr name), (''hostname'', PStr (case le_dns entry of None \<Rightarrow> name | Some h \<Rightarrow> h)),
         (''type'', PStr (classify (le_os entry))),
         (''os'', if truthy_str (le_os entry)
                then PStr (strip (the (le_os entry) @ '' '' @ (case le_version entry of None \<Rightarrow> [] | Some v \<Rightarrow> v))) else PNone),
         (''segment'', PStr ''Corporate''),
         (''auth_method'', PStr (if contains ''DomainController'' (le_dn entry) then ''mfa'' else ''password'')),
         (''criticality'', PStr (if contains ''Domain Controller'' (case le_os entry of None \<Rightarrow> [] | Some s \<Rightarrow> s) then ''tier-1'' else ''medium'')),
         (''attrs'', PDict [(''dn'', PStr (le_dn entry))])]])"

definition fetch_directory :: "directory \<Rightarrow> jdict \<Rightarrow> jdict list result" where
  "fetch_directory dir config =
     rbind (bind_directory dir config) (\<lambda>login. rbind (config_item config ''base_dn'') (\<lambda>base.
     rbind (dir_search dir login base (config_get config ''filter'' (PStr ''(objectClass=computer)''))) (\<lambda>entries.
       Inr (concat (map computer_row entries)))))"

definition test_directory :: "directory \<Rightarrow> jdict \<Rightarrow> bool result" where
  "test_directory dir config = or_false (rbind (bind_directory dir config) (\<lambda>login. Inr True))"

section \<open>Cloud instances\<close>

text \<open>
  A session keeps the region and, where given, the credentials it was made with. Listing a
  service gives its pages and the exception that ended the paging, if one did; making the
  service's client may already raise. \<open>ServiceError\<close> stands for botocore's \<open>ClientError\<close>.
\<close>

record aws_session =
  as_region :: pyval
  as_key :: pyval
  as_secret :: pyval
  as_token :: pyval

record cloud =
  cl_open :: "aws_session \<Rightarrow> exn option"
  cl_assume_role :: "aws_session \<Rightarrow> pyval \<Rightarrow> pyval result"
  cl_pages :: "aws_session \<Rightarrow> string \<Rightarrow> (pyval list \<times> exn option) result"
  cl_identity :: "aws_session \<Rightarrow> exn option"

definition client_error :: "exn \<Rightarrow> bool" where
  "client_error e = (case e of ServiceError m \<Rightarrow> True | _ \<Rightarrow> False)"

definition open_session :: "cloud \<Rightarrow> aws_session \<Rightarrow> aws_session result" where
  "open_session cloud s = (case cl_open cloud s of Some e \<Rightarrow> Inl e | None \<Rightarrow> Inr s)"

definition aws_open :: "cloud \<Rightarrow> jdict \<Rightarrow> pyval \<Rightarrow> aws_session result" where
  "aws_open cloud config region =
     rbind (if py_truthy (jget config ''access_key_id'')
            then rbind (config_item config ''secret_access_key'') (\<lambda>secret. Inr (jget config ''access_key_id'', secret))
            else Inr (PNone, PNone)) (\<lambda>(key, secret).
     rbind (open_session cloud \<lparr> as_region = region, as_key = key, as_secret = secret, as_token = PNone \<rparr>) (\<lambda>session.
     if \<not> py_truthy (jget config ''role_arn'') then Inr session
     else rbind (cl_assume_role cloud session (jget config ''role_arn'')) (\<lambda>answer.
       rbind (dyn_item answer ''Credentials'') (\<lambda>c.
       rbind (dyn_item c ''AccessKeyId'') (\<lambda>key. rbind (dyn_item c ''SecretAccessKey'') (\<lambda>secret.
       rbind (dyn_item c ''SessionToken'') (\<lambda>token.
         open_session cloud \<lparr> as_region = region, as_key = key, as_secret = secret, as_token = token \<rparr>)))))))"

text \<open>\<open>{t["Key"]: t["Value"] for t in ...}\<close>; by the service's model a key is a text.\<close>

definition tag_dict :: "pyval \<Rightarrow> jdict result" where
  "tag_dict v = rbind (dyn_iter v) (\<lambda>ts. rfold (\<lambda>t d.
     rbind (dyn_item t ''Key'') (\<lambda>k. rbind (dyn_item t ''Value'') (\<lambda>w.
       case k of PStr k \<Rightarrow> Inr (jset k w d) | _ \<Rightarrow> Inl TypeError))) ts [])"

definition exposure_of :: "pyval \<Rightarrow> pyval" where
  "exposure_of public = PStr (if py_truthy public then ''internet-facing'' else ''cloud'')"

definition instance_row :: "(pyval \<Rightarrow> string) \<Rightarrow> pyval \<Rightarrow> pyval \<Rightarrow> jdict list result" where
  "instance_row show region inst = (case inst of
     PDict d \<Rightarrow>
       rbind (dyn_get (config_get d ''State'' (PDict [])) ''Name'' PNone) (\<lambda>state.
       if state = PStr ''terminated'' then Inr []
       else rbind (tag_dict (config_get d ''Tags'' (PList []))) (\<lambda>tags.
         rbind (dyn_item inst ''InstanceId'') (\<lambda>i.
         rbind (dyn_iter (config_get d ''SecurityGroups'' (PList []))) (\<lambda>sgs.
         rbind (rmap (\<lambda>sg. dyn_item sg ''GroupId'') sgs) (\<lambda>groups.
           Inr [[(''name'', config_get tags ''Name'' i), (''ip'', jget d ''PrivateIpAddress''), (''type'', PStr ''Cloud Instance''),
             (''os'', config_get d ''PlatformDetails'' (PStr ''Unknown'')), (''segment'', PStr (''Cloud-AWS-'' @ py_str show region)),
             (''network_exposure'', exposure_of (jget d ''PublicIpAddress'')), (''auth_method'', PStr ''certificate''),
             (''criticality'', config_get tags ''Criticality'' (PStr ''medium'')),
             (''data_classification'', config_get tags ''DataClass'' (PStr ''Internal'')),
             (''attrs'', PDict [(''instance_id'', i), (''instance_type'', jget d ''InstanceType''), (''vpc_id'', jget d ''VpcId''),
                (''public_ip'', jget d ''PublicIpAddress''), (''subnet_id'', jget d ''SubnetId''),
                (''security_groups'', PList groups), (''tags'', PDict tags)])]])))))
   | _ \<Rightarrow> Inl AttributeError)"

definition reservation_rows :: "(pyval \<Rightarrow> string) \<Rightarrow> pyval \<Rightarrow> pyval \<Rightarrow> jdict list result" where
  "reservation_rows show region res =
     rbind (dyn_get res ''Instances'' (PList [])) (\<lambda>v. rbind (dyn_iter v) (rcollect (instance_row show region)))"

definition instance_page :: "(pyval \<Rightarrow> string) \<Rightarrow> pyval \<Rightarrow> pyval \<Rightarrow> jdict list result" where
  "instance_page show region page =
     rbind (dyn_get page ''Reservations'' (PList [])) (\<lambda>v. rbind (dyn_iter v) (rcollect (reservation_rows show region)))"

definition fetch_ec2 :: "(pyval \<Rightarrow> string) \<Rightarrow> cloud \<Rightarrow> aws_session \<Rightarrow> pyval \<Rightarrow> jdict list result" where
  "fetch_ec2 show cloud session region =
     rbind (cl_pages cloud session ''ec2'') (\<lambda>(pages, stop). rbind (rcollect (instance_page show region) pages) (\<lambda>rows.
       case stop of None \<Rightarrow> Inr rows | Some e \<Rightarrow> Inl e))"

definition database_row :: "(pyval \<Rightarrow> string) \<Rightarrow> pyval \<Rightarrow> pyval \<Rightarrow> jdict result" where
  "database_row show region v = (case v of
     PDict d \<Rightarrow>
       rbind (dyn_item v ''DBInstanceIdentifier'') (\<lambda>i.
         Inr [(''name'', i), (''type'', PStr ''Database Server''),
           (''os'', PStr (py_str show (jget d ''Engine'') @ '' '' @ py_str show (jget d ''EngineVersion''))),
           (''segment'', PStr (''Cloud-AWS-'' @ py_str show region)), (''network_exposure'', exposure_of (jget d ''PubliclyAccessible'')),
           (''auth_method'', PStr ''certificate''), (''criticality'', PStr ''high''), (''data_classification'', PStr ''Confidential''),
           (''attrs'', PDict [(''engine'', jget d ''Engine''), (''engine_version'', jget d ''EngineVersion''),
              (''instance_class'', jget d ''DBInstanceClass''), (''publicly_accessible'', jget d ''PubliclyAccessible''),
              (''storage_encrypted'', jget d ''StorageEncrypted'')])])
   | _ \<Rightarrow> Inl TypeError)"

definition database_page :: "(pyval \<Rightarrow> string) \<Rightarrow> pyval \<Rightarrow> pyval \<Rightarrow> jdict list result" where
  "database_page show region page =
     rbind (dyn_get page ''DBInstances'' (PList [])) (\<lambda>v. rbind (dyn_iter v) (rmap (database_row show region)))"

text \<open>A paging error is only logged; the rows of the pages before it are kept.\<close>

definition fetch_rds :: "(pyval \<Rightarrow> string) \<Rightarrow> cloud \<Rightarrow> aws_session \<Rightarrow> pyval \<Rightarrow> jdict list result" where
  "fetch_rds show cloud session region =
     rbind (cl_pages cloud session ''rds'') (\<lambda>(pages, stop). rbind (rcollect (database_page show region) pages) (\<lambda>rows.
       case stop of None \<Rightarrow> Inr rows | Some e \<Rightarrow> if client_error e then Inr rows else Inl e))"

definition fetch_region :: "(pyval \<Rightarrow> string) \<Rightarrow> cloud \<Rightarrow> jdict \<Rightarrow> pyval \<Rightarrow> jdict list result" where
  "fetch_region show cloud config region =
     rbind (aws_open cloud config region) (\<lambda>session.
       case fetch_ec2 show cloud session region of
         Inl e \<Rightarrow> if client_error e then Inr [] else Inl e
       | Inr instances \<Rightarrow>
           (case fetch_rds show cloud session region of
              Inl e \<Rightarrow> if client_error e then Inr instances else Inl e
            | Inr databases \<Rightarrow> Inr (instances @ databases)))"

definition aws_regions :: "jdict \<Rightarrow> pyval" where
  "aws_regions config = config_get config ''regions'' (PList [PStr ''us-east-1''])"

definition fetch_aws :: "(pyval \<Rightarrow> string) \<Rightarrow> cloud \<Rightarrow> jdict \<Rightarrow> jdict list result" where
  "fetch_aws show cloud config = rbind (dyn_iter (aws_regions config)) (rcollect (fetch_region show cloud config))"

definition test_aws :: "cloud \<Rightarrow> jdict \<Rightarrow> bool result" where
  "test_aws cloud config = or_false
     (rbind (dyn_first (aws_regions config)) (\<lambda>region. rbind (aws_open cloud config region) (\<lambda>session.
       case cl_identity cloud session of Some e \<Rightarrow> Inl e | None \<Rightarrow> Inr True)))"

section \<open>The registry\<close>

text \<open>What the instances of the registered classes do; transports are given per integration.\<close>

record world =
  w_show :: "pyval \<Rightarrow> string"
  w_to_float :: "pyval \<Rightarrow> exn option"
  w_merge_url :: "string \<Rightarrow> string \<Rightarrow> string"
  w_http :: http
  w_retry :: api_retry
  w_directory :: directory
  w_cloud :: cloud

definition fetch_inventory :: "world \<Rightarrow> string \<Rightarrow> jdict \<Rightarrow> jdict list result" where
  "fetch_inventory w name config =
     (if name = ''ad_ldap'' then fetch_directory (w_directory w) config
      else if name = ''asset_api'' then fst (fetch_asset_api (w_show w) (w_to_float w) (w_merge_url w) (w_retry w) (w_http w) config)
      else if name = ''cloud_aws'' then fetch_aws (w_show w) (w_cloud w) config
      else if name = ''dhcp_dns'' then fetch_dhcp (w_show w) (w_http w) config
      else if name = ''edr_crowdstrike'' then fetch_falcon (w_show w) (w_http w) config
      else if name = ''vuln_nessus'' then fetch_nessus (w_show w) (w_http w) config
      else Inl TypeError)"

definition test_connection :: "world \<Rightarrow> string \<Rightarrow> jdict \<Rightarrow> bool result" where
  "test_connection w name config =
     (if name = ''ad_ldap'' then test_directory (w_directory w) config
      else if name = ''asset_api'' then test_asset_api (w_show w) (w_to_float w) (w_merge_url w) (w_retry w) (w_http w) config
      else if name = ''cloud_aws'' then test_aws (w_cloud w) config
      else if name = ''dhcp_dns'' then test_dhcp (w_show w) (w_http w) config
      else if name = ''edr_crowdstrike'' then test_falcon (w_show w) (w_http w) config
      else if name = ''vuln_nessus'' then test_nessus (w_show w) (w_http w) config
      else Inl TypeError)"

section \<open>Retried requests\<close>

text \<open>What the source's answers are tried again for.\<close>

definition try_again :: "http_exc + http_response \<Rightarrow> bool" where
  "try_again a = (case a of
     Inl e \<Rightarrow> e = NetworkError \<or> e = TimeoutException \<or> (\<exists>n. e = HTTPStatusError n \<and> (n = 408 \<or> n = 429 \<or> 500 \<le> n))
   | Inr r \<Rightarrow> hr_status r = 408 \<or> hr_status r = 429 \<or> 500 \<le> hr_status r)"

lemma retried_answer: "(\<exists>e. answered Inr a = Inl e \<and> is_retryable e) = try_again a"
  by (cases a) (auto simp: answered_def checked_answer_def or_exc_def is_success_def try_again_def is_retryable_def split: http_exc.splits)

text \<open>What is made of the answer to the last request.\<close>

definition inventory_of :: "http_exc + http_response \<Rightarrow> jdict list result" where
  "inventory_of a = rbind (reraised (answered Inr a)) (\<lambda>r. rbind (hr_json r) payload_assets)"

lemma inventory_error: "inventory_of (Inl e) = Inl (as_exn e)"
  by (simp add: inventory_of_def answered_def checked_answer_def reraised_def)

lemma inventory_status:
  "hr_status r < 200 \<or> 300 \<le> hr_status r \<Longrightarrow> inventory_of (Inr r) = Inl (ServiceError ''HTTPStatusError'')"
  by (auto simp: inventory_of_def answered_def checked_answer_def is_success_def reraised_def)

lemma dicts_of: "map the_dict (filter is_dict xs) = [d. PDict d \<leftarrow> xs]"
  by (induction xs) (auto simp: is_dict_def the_dict_def split: pyval.split)

lemma jget_list: "(jget d k = PList xs) = (map_of d k = Some (PList xs))"
  by (simp add: jget_def split: option.split)

lemma payload_assets_Inr:
  "payload_assets v = Inr rows \<longleftrightarrow>
   (\<exists>d xs. v = PDict d \<and> jget d ''assets'' = PList xs \<and> rows = [d. PDict d \<leftarrow> xs])"
  by (auto simp: payload_assets_def dicts_of split: pyval.split)

lemma inventory_rows:
  assumes "200 \<le> hr_status r" "hr_status r \<le> 299"
  shows "inventory_of (Inr r) = Inr rows \<longleftrightarrow>
    (\<exists>d xs. hr_json r = Inr (PDict d) \<and> map_of d ''assets'' = Some (PList xs) \<and> rows = [d. PDict d \<leftarrow> xs])"
proof -
  have "inventory_of (Inr r) = rbind (hr_json r) payload_assets"
    using assms by (simp add: inventory_of_def answered_def checked_answer_def is_success_def reraised_def or_exc_def)
  then show ?thesis by (auto simp: rbind_eq_Inr payload_assets_Inr jget_list)
qed

text \<open>
  C39: The asset source gets one and the same request, a GET of the inventory with the token, at
  most three times, and it is repeated only after a lost connection, a timeout or an answer
  408, 429 or 5xx. The last answer decides: an inventory is the list of the objects among its assets, from an
  answer with status 2xx only; every other status, 401 and 403 among them, is an error, at
  once unless it is tried again, as is every other exception of the client.
\<close>

theorem asset_source_requests:
  assumes "retry_ok retry"
    and "map_of config ''base_url'' = Some base" and "map_of config ''api_token'' = Some token"
    and "to_float (config_get config ''timeout_sec'' (PInt 10)) = None"
    and "c = \<lparr> hc_method = ''GET'',
      hc_url = merge (rstrip_chars (\<lambda>x. x = CHR ''/'') (py_str show base))
        (py_str show (config_get config ''inventory_path'' (PStr ''/v1/assets''))),
      hc_params = [], hc_headers = [(''X-API-Key'', py_str show token)], hc_auth = None, hc_body = PNone, hc_verify = PBool True \<rparr>"
    and "fetch_asset_api show to_float merge retry net config = (r, sent)"
  shows "\<exists>k<3. sent = replicate (Suc k) c \<and> (\<forall>j<k. try_again (net j c)) \<and> (k = 2 \<or> \<not> try_again (net k c))
    \<and> (case net k c of
         Inl e \<Rightarrow> r = Inl (as_exn e)
       | Inr a \<Rightarrow>
           if 200 \<le> hr_status a \<and> hr_status a \<le> 299
           then \<forall>rows. r = Inr rows \<longleftrightarrow>
             (\<exists>d xs. hr_json a = Inr (PDict d) \<and> map_of d ''assets'' = Some (PList xs) \<and> rows = [d. PDict d \<leftarrow> xs])
           else r = Inl (ServiceError ''HTTPStatusError''))"
proof -
  obtain raw where raw: "retry (Suc 2) is_retryable (logged net c Inr) [] = (raw, sent)"
    and r: "r = rbind (reraised raw) (\<lambda>r. rbind (hr_json r) payload_assets)"
    using assms(2-6)
    by (cases "retry 3 is_retryable (logged net c Inr) []")
      (auto simp: fetch_asset_api_def make_asset_api_def api_get_def get_once_def [abs_def] config_item_def dyn_item_def get_of_def)
  from retried_request [OF assms(1) raw] obtain k where k: "k \<le> 2" "sent = replicate (Suc k) c" "raw = answered Inr (net k c)"
    "\<forall>j<k. try_again (net j c)" "k = 2 \<or> \<not> try_again (net k c)"
    unfolding retried_answer by blast
  have "r = inventory_of (net k c)" unfolding r k(3) inventory_of_def ..
  with k show ?thesis
    by (intro exI [of _ k]) (auto simp: inventory_error inventory_rows inventory_status split: sum.splits)
qed

definition sample_source :: "http_exc + http_response" where
  "sample_source = Inr \<lparr> hr_status = 200,
     hr_json = Inr (PDict [(''assets'', PList [PDict [(''name'', PStr ''web1'')], PStr ''web2''])]) \<rparr>"

definition flaky :: http where
  "flaky k c = (if k = 0 then Inr \<lparr> hr_status = 503, hr_json = Inr PNone \<rparr> else if k = 1 then Inl TimeoutException else sample_source)"

definition sample_source_config :: jdict where
  "sample_source_config = [(''base_url'', PStr ''https://cmdb.example/''), (''api_token'', PStr ''t'')]"

text \<open>Two failures go unnoticed; the third answer is the inventory.\<close>

theorem asset_source_requests_witness:
  "fst (fetch_asset_api (\<lambda>v. []) (\<lambda>v. None) (@) retry_loop flaky sample_source_config) = Inr [[(''name'', PStr ''web1'')]]
   \<and> length (snd (fetch_asset_api (\<lambda>v. []) (\<lambda>v. None) (@) retry_loop flaky sample_source_config)) = 3"
proof -
  let ?fetch = "fetch_asset_api (\<lambda>v. []) (\<lambda>v. None) (@) retry_loop flaky sample_source_config"
  obtain r sent where f: "?fetch = (r, sent)" by (rule prod.exhaust)
  have config: "map_of sample_source_config ''base_url'' = Some (PStr ''https://cmdb.example/'')"
    "map_of sample_source_config ''api_token'' = Some (PStr ''t'')" by (simp_all add: sample_source_config_def)
  obtain k c where k: "k < 3" "sent = replicate (Suc k) c" "k = 2 \<or> \<not> try_again (flaky k c)"
    and r: "case flaky k c of Inl e \<Rightarrow> r = Inl (as_exn e) | Inr a \<Rightarrow> if 200 \<le> hr_status a \<and> hr_status a \<le> 299
      then \<forall>rows. r = Inr rows \<longleftrightarrow> (\<exists>d xs. hr_json a = Inr (PDict d) \<and> map_of d ''assets'' = Some (PList xs) \<and> rows = [d. PDict d \<leftarrow> xs])
      else r = Inl (ServiceError ''HTTPStatusError'')"
    using asset_source_requests [OF retry_loop_ok config HOL.refl HOL.refl f] by blast
  have "try_again (flaky 0 c)" "try_again (flaky 1 c)" by (simp_all add: flaky_def try_again_def)
  with k(1,3) have k2: "k = 2" by (auto simp: less_Suc_eq numeral_3_eq_3)
  have "r = Inr [[(''name'', PStr ''web1'')]]" using r unfolding k2 by (simp add: flaky_def sample_source_def)
  moreover have "length sent = 3" unfolding k(2) k2 by simp
  ultimately show ?thesis unfolding f by simp
qed

section \<open>Devices in batches\<close>

lemma batches_Nil [simp]: "id_batches [] = []"
  by (simp add: id_batches.simps)

lemma batches_bound: "b \<in> set (id_batches xs) \<Longrightarrow> b \<noteq> [] \<and> length b \<le> 100"
proof (induction xs rule: id_batches.induct)
  case (1 xs)
  then have "xs \<noteq> []" by auto
  with 1 have "b = take 100 xs \<or> b \<in> set (id_batches (drop 100 xs))" by (subst (asm) (2) id_batches.simps) simp
  with 1 \<open>xs \<noteq> []\<close> show ?case by auto
qed

lemma concat_batches: "concat (id_batches xs) = xs"
proof (induction xs rule: id_batches.induct)
  case (1 xs)
  then show ?case by (subst id_batches.simps) simp
qed

text \<open>What the device service promises: a batch is answered with the details of its devices, in order.\<close>

definition serves_devices :: "http \<Rightarrow> string \<Rightarrow> (pyval \<Rightarrow> pyval) \<Rightarrow> bool" where
  "serves_devices net url detail \<longleftrightarrow> (\<forall>k\<ge>2. \<forall>headers b. net k (batch_call url headers b) =
     Inr \<lparr> hr_status = 200, hr_json = Inr (PDict [(''resources'', PList (map detail b))]) \<rparr>)"

lemma fetch_batches_served:
  assumes "serves_devices net url detail" and "\<And>i. i \<in> set (concat bs) \<Longrightarrow> device_row show (detail i) = Inr (row i)"
    and "2 \<le> k"
  shows "fetch_batches show net url headers k bs = Inr (map row (concat bs))"
  using assms(2,3)
proof (induction bs arbitrary: k)
  case (Cons b bs)
  have "rmap (device_row show) (map detail b) = Inr (map row b)"
    using Cons.prems by (induction b) simp_all
  with Cons assms(1) show ?case
    by (simp add: serves_devices_def checked_call_def send_call_def is_success_def dyn_get_def dyn_iter_def)
qed simp

text \<open>
  Reading the devices in batches loses and repeats nothing: when the service answers each
  batch with the details of its devices, the inventory is that of one request for all
  devices, in the order of their ids, less those without a host name; and no request asks
  for more than a hundred of them.
\<close>

theorem falcon_inventory_complete:
  assumes "falcon_token show net config = Inr token" and "config_item config ''base_url'' = Inr base"
    and "headers = [(''Authorization'', ''Bearer '' @ py_str show token)]"
    and "net 1 ((get_of (py_str show base @ ''/devices/queries/devices/v1''))\<lparr> hc_headers := headers, hc_params := [(''limit'', PInt 5000)] \<rparr>)
       = Inr \<lparr> hr_status = 200, hr_json = Inr (PDict [(''resources'', PList ids)]) \<rparr>"
    and "serves_devices net (py_str show base @ ''/devices/entities/devices/v2'') detail"
    and "\<And>i. i \<in> set ids \<Longrightarrow> device_row show (detail i) = Inr (row i)"
  shows "fetch_falcon show net config = Inr (filter (\<lambda>a. py_truthy (jget a ''name'')) (map row ids))
    \<and> concat (id_batches ids) = ids \<and> (\<forall>b\<in>set (id_batches ids). b \<noteq> [] \<and> length b \<le> 100)"
proof (intro conjI ballI)
  have "fetch_batches show net (py_str show base @ ''/devices/entities/devices/v2'') headers 2 (id_batches ids) = Inr (map row ids)"
    using fetch_batches_served [OF assms(5), of "id_batches ids" "show" row 2] assms(6) by (simp add: concat_batches)
  with assms(1-4) show "fetch_falcon show net config = Inr (filter (\<lambda>a. py_truthy (jget a ''name'')) (map row ids))"
    by (simp add: fetch_falcon_def at_base_def checked_call_def send_call_def is_success_def dyn_get_def device_ids_def)
qed (simp_all add: concat_batches batches_bound)

definition sample_falcon :: http where
  "sample_falcon k c =
     (if k = 0 then Inr \<lparr> hr_status = 201, hr_json = Inr (PDict [(''access_token'', PStr ''k'')]) \<rparr>
      else if k = 1 then Inr \<lparr> hr_status = 200, hr_json = Inr (PDict [(''resources'', PList [PStr ''d1'', PStr ''d2''])]) \<rparr>
      else Inr \<lparr> hr_status = 200, hr_json = Inr (PDict [(''resources'', PList (map (\<lambda>i. PDict [(''hostname'', snd i)]) (hc_params c)))]) \<rparr>)"

definition sample_falcon_config :: jdict where
  "sample_falcon_config = [(''base_url'', PStr ''https://f''), (''client_id'', PStr ''i''), (''client_secret'', PStr ''s'')]"

definition sample_device :: "pyval \<Rightarrow> jdict" where
  "sample_device i = (case device_row (\<lambda>v. []) (PDict [(''hostname'', i)]) of Inr d \<Rightarrow> d | _ \<Rightarrow> [])"

theorem falcon_inventory_complete_witness:
  "fetch_falcon (\<lambda>v. []) sample_falcon sample_falcon_config
    = Inr (filter (\<lambda>a. py_truthy (jget a ''name'')) (map sample_device [PStr ''d1'', PStr ''d2'']))"
proof (rule conjunct1 [OF falcon_inventory_complete])
  show "falcon_token (\<lambda>v. []) sample_falcon sample_falcon_config = Inr (PStr ''k'')"
    "config_item sample_falcon_config ''base_url'' = Inr (PStr ''https://f'')" by code_simp+
  show "sample_falcon 1 ((get_of (py_str (\<lambda>v. []) (PStr ''https://f'') @ ''/devices/queries/devices/v1''))
      \<lparr> hc_headers := [(''Authorization'', ''Bearer '' @ py_str (\<lambda>v. []) (PStr ''k''))], hc_params := [(''limit'', PInt 5000)] \<rparr>)
    = Inr \<lparr> hr_status = 200, hr_json = Inr (PDict [(''resources'', PList [PStr ''d1'', PStr ''d2''])]) \<rparr>"
    by (simp add: sample_falcon_def)
  show "serves_devices sample_falcon (py_str (\<lambda>v. []) (PStr ''https://f'') @ ''/devices/entities/devices/v2'') (\<lambda>i. PDict [(''hostname'', i)])"
    by (simp add: serves_devices_def sample_falcon_def batch_call_def)
qed (simp_all add: sample_device_def device_row_def config_get_def Let_def)

section \<open>Names\<close>

lemma see_host_named:
  assumes "see_host i host seen = Inr seen'" and "\<forall>h\<in>set seen. py_truthy (jget (sh_row h) ''name'')"
  shows "\<forall>h\<in>set seen'. py_truthy (jget (sh_row h) ''name'')"
proof (cases host)
  case (PDict d)
  have row: "jget (nessus_row d) ''name'' = py_or (jget d ''hostname'') (jget d ''host-ip'')"
    by (simp add: nessus_row_def jget_def)
  from assms PDict show ?thesis
    by (auto simp: see_host_def Let_def rbind_eq_Inr set_update_where row split: if_splits)
qed (use assms in \<open>simp_all add: see_host_def\<close>)

abbreviation named_hosts :: "seen_host list \<Rightarrow> bool" where
  "named_hosts seen \<equiv> \<forall>h\<in>set seen. py_truthy (jget (sh_row h) ''name'')"

lemma read_scan_sees:
  "read_scan show net config scan st = Inr st' \<Longrightarrow>
   snd st' = snd st \<or> (\<exists>i hosts. rfold (see_host i) hosts (snd st) = Inr (snd st'))"
  by (auto simp: read_scan_def rbind_eq_Inr split: if_splits)

lemma read_scan_named:
  assumes "read_scan show net config scan st = Inr st'" and "named_hosts (snd st)"
  shows "named_hosts (snd st')"
  using read_scan_sees [OF assms(1)]
proof
  assume "\<exists>i hosts. rfold (see_host i) hosts (snd st) = Inr (snd st')"
  then obtain i hosts where "rfold (see_host i) hosts (snd st) = Inr (snd st')" by blast
  then show ?thesis
    by (rule rfold_invariant [where P = named_hosts, rotated]) (use assms(2) in \<open>auto dest: see_host_named\<close>)
qed (use assms(2) in simp)

lemma host_row_name: "py_truthy (jget (sh_row h) ''name'') \<Longrightarrow> jget (host_row h) ''name'' = jget (sh_row h) ''name''"
  by (auto simp: host_row_def jget_def map_of_append map_add_def split: option.splits)

lemma nessus_named:
  assumes "fetch_nessus show net config = Inr rows" and "row \<in> set rows"
  shows "py_truthy (jget row ''name'')"
proof -
  from assms(1) obtain scans st where st: "rfold (read_scan show net config) scans (1, []) = Inr st" "rows = map host_row (snd st)"
    by (auto simp: fetch_nessus_def rbind_eq_Inr)
  have "named_hosts (snd st)"
    by (rule rfold_invariant [where P = "\<lambda>s. named_hosts (snd s)", OF _ st(1)]) (simp, rule read_scan_named)
  with assms(2) st(2) show ?thesis by (auto simp: host_row_name)
qed

lemma falcon_named: "fetch_falcon show net config = Inr rows \<Longrightarrow> row \<in> set rows \<Longrightarrow> py_truthy (jget row ''name'')"
  by (auto simp: fetch_falcon_def rbind_eq_Inr Let_def)

lemma directory_named:
  assumes "fetch_directory dir config = Inr rows" and "row \<in> set rows"
  shows "py_truthy (jget row ''name'')"
proof -
  from assms obtain entry where "row \<in> set (computer_row entry)" by (auto simp: fetch_directory_def rbind_eq_Inr)
  then show ?thesis by (cases "le_cn entry") (simp_all add: computer_row_def jget_def split: if_splits)
qed

text \<open>
  Every asset the directory, the device service and the vulnerability scanner report has a
  name that is not empty, whatever their answers hold.
\<close>

theorem inventory_named:
  assumes "fetch_inventory w source config = Inr rows" and "source \<in> {''ad_ldap'', ''edr_crowdstrike'', ''vuln_nessus''}"
    and "row \<in> set rows"
  shows "py_truthy (jget row ''name'')"
proof -
  from assms(1,2) have "fetch_directory (w_directory w) config = Inr rows \<or> fetch_falcon (w_show w) (w_http w) config = Inr rows
      \<or> fetch_nessus (w_show w) (w_http w) config = Inr rows"
    unfolding fetch_inventory_def by (elim insertE emptyE) simp_all
  then show ?thesis using assms(3) directory_named falcon_named nessus_named by blast
qed

definition sample_directory :: directory where
  "sample_directory = \<lparr> dir_bind = (\<lambda>l. None), dir_search = (\<lambda>l b f. Inr
     [\<lparr> le_cn = Some ''DC01'', le_dns = Some ''dc01.example.local'', le_os = Some ''Windows Server 2022 Standard'',
        le_version = Some ''10.0'', le_dn = ''CN=DC01,OU=Domain Controllers,DC=example,DC=local'' \<rparr>,
      \<lparr> le_cn = None, le_dns = None, le_os = None, le_version = None, le_dn = ''CN=x'' \<rparr>]) \<rparr>"

definition sample_directory_config :: jdict where
  "sample_directory_config = [(''server'', PStr ''ldaps://dc''), (''base_dn'', PStr ''DC=example''), (''bind_dn'', PStr ''u''),
     (''bind_password'', PStr ''p'')]"

definition sample_cloud :: cloud where
  "sample_cloud = \<lparr> cl_open = (\<lambda>s. None), cl_assume_role = (\<lambda>s r. Inl (ServiceError ''ClientError'')),
     cl_pages = (\<lambda>s n. Inr ([], Some (ServiceError ''ClientError''))), cl_identity = (\<lambda>s. None) \<rparr>"

definition sample_world :: world where
  "sample_world = \<lparr> w_show = (\<lambda>v. []), w_to_float = (\<lambda>v. None), w_merge_url = (@), w_http = (\<lambda>k c. sample_source), w_retry = retry_loop,
     w_directory = sample_directory, w_cloud = sample_cloud \<rparr>"

definition dc01 :: jdict where
  "dc01 = [(''name'', PStr ''DC01''), (''hostname'', PStr ''dc01.example.local''), (''type'', PStr ''Server''),
     (''os'', PStr ''Windows Server 2022 Standard 10.0''), (''segment'', PStr ''Corporate''), (''auth_method'', PStr ''password''),
     (''criticality'', PStr ''medium''), (''attrs'', PDict [(''dn'', PStr ''CN=DC01,OU=Domain Controllers,DC=example,DC=local'')])]"

text \<open>
  A domain controller in its usual place is read as any other server: its distinguished name
  has a blank where the connector looks for none, and its system's name is that of the
  server edition.
\<close>

lemma domain_controller_unmarked: "fetch_inventory sample_world ''ad_ldap'' sample_directory_config = Inr [dc01]"
  by code_simp

theorem inventory_named_witness: "py_truthy (jget dc01 ''name'')"
  by (rule inventory_named [OF domain_controller_unmarked]) simp_all

section \<open>Silent and missing answers\<close>

text \<open>
  Sources whose failure looks like an empty inventory: a provider the lease connector does not
  know, and every region the cloud refuses to list. The synchronisation counts both as
  successful runs.
\<close>

lemma unknown_provider_empty:
  "config_get config ''provider'' (PStr ''infoblox'') = PStr p \<Longrightarrow> lower p \<notin> {''infoblox'', ''kea''} \<Longrightarrow>
   fetch_dhcp show net config = Inr []"
  by (simp add: fetch_dhcp_def)

lemma refused_regions_empty:
  assumes "aws_regions config = PList regions"
    and "\<And>r. r \<in> set regions \<Longrightarrow> \<exists>s. aws_open cloud config r = Inr s"
    and "\<And>s. cl_pages cloud s ''ec2'' = Inr ([], Some (ServiceError m))"
  shows "fetch_aws show cloud config = Inr []"
proof -
  have "fetch_region show cloud config r = Inr []" if "r \<in> set regions" for r
    using assms(2) [OF that] assms(3) by (auto simp: fetch_region_def fetch_ec2_def client_error_def)
  then show ?thesis by (simp add: fetch_aws_def assms(1) dyn_iter_def rcollect_empty)
qed

text \<open>
  Only the exact spelling of one provider is ever tried by the connection test; for every
  other the test succeeds without a request.
\<close>

lemma untested_provider_ok: "jget config ''provider'' \<noteq> PStr ''infoblox'' \<Longrightarrow> test_dhcp show net config = Inr True"
  by (simp add: test_dhcp_def or_false_def)

text \<open>A lease without a name and an address is reported with the name null.\<close>

lemma nameless_lease:
  "infoblox_lease (PDict [(''binding_state'', PStr ''ACTIVE''), (''hardware'', PStr m)]) = Inr [row] \<Longrightarrow>
   jget row ''name'' = PNone \<and> jget row ''mac'' = PStr m"
  by (auto simp: infoblox_lease_def dyn_get_def jget_def py_or_def Let_def)

text \<open>A device whose product is null stops the reading of all devices.\<close>

lemma null_product_fails: "map_of d ''product_type_desc'' = Some PNone \<Longrightarrow> device_row show (PDict d) = Inl AttributeError"
  by (simp add: device_row_def config_get_def Let_def)

text \<open>The numbers of a host are those of the first scan that lists it.\<close>

lemma later_scan_counts_ignored:
  assumes "see_host i (PDict d) seen = Inr seen'" and "h \<in> set seen"
  shows "\<exists>h'\<in>set seen'. sh_key h' = sh_key h \<and> sh_row h' = sh_row h"
proof -
  from assms(1) have "set seen \<subseteq> set seen'
      \<or> (\<exists>key. seen' = update_where (\<lambda>h. sh_key h = key) (\<lambda>h. h\<lparr>sh_scans := sh_scans h @ [i]\<rparr>) seen)"
    by (auto simp: see_host_def Let_def rbind_eq_Inr subset_insertI split: if_splits)
  then consider "set seen \<subseteq> set seen'"
    | key where "seen' = update_where (\<lambda>h. sh_key h = key) (\<lambda>h. h\<lparr>sh_scans := sh_scans h @ [i]\<rparr>) seen" by blast
  then show ?thesis
  proof cases
    case (2 key)
    with assms(2) have "(if sh_key h = key then h\<lparr>sh_scans := sh_scans h @ [i]\<rparr> else h) \<in> set seen'"
      by (auto simp: update_where_def)
    then show ?thesis by (rule bexI [rotated]) simp
  qed (use assms(2) in blast)
qed

end
