(* ===== verification/SelfSecurityViews.thy ===== *)
theory SelfSecurityViews
  imports SelfSecurity
begin

text \<open>
  What the self-security endpoints show (\<open>app/api/self_security.py\<close>): the settings, the
  inventory of packages, their findings, the proposals and the summary; and the manual start of
  the pipeline. \<open>stamp\<close> writes a time (\<open>isoformat\<close>).
\<close>

definition opt_time :: "(int \<Rightarrow> string) \<Rightarrow> int option \<Rightarrow> pyval" where
  "opt_time stamp t = opt_str (map_option stamp t)"

definition opt_float :: "rat option \<Rightarrow> pyval" where
  "opt_float x = (case x of None \<Rightarrow> PNone | Some q \<Rightarrow> PFloat q)"

definition str_list :: "string list \<Rightarrow> pyval" where
  "str_list xs = PList (map PStr xs)"

text \<open>\<open>ORDER BY column DESC NULLS LAST\<close>\<close>

definition highest_first :: "('a \<Rightarrow> rat option) \<Rightarrow> 'a list \<Rightarrow> 'a list" where
  "highest_first f xs = sort_key (\<lambda>x. - the (f x)) (filter (\<lambda>x. f x \<noteq> None) xs) @ filter (\<lambda>x. f x = None) xs"

section \<open>Settings\<close>

definition settings_view :: "(int \<Rightarrow> string) \<Rightarrow> self_security_settings \<Rightarrow> jdict" where
  "settings_view stamp s =
     [(''auto_scan_enabled'', PBool (ss_auto_scan_enabled s)), (''scan_cron'', PStr (ss_scan_cron s)),
      (''auto_update_enabled'', PBool (ss_auto_update_enabled s)),
      (''auto_update_severity_threshold'', PStr (ss_auto_update_severity_threshold s)),
      (''auto_update_only_patch'', PBool (ss_auto_update_only_patch s)), (''auto_update_only_kev'', PBool (ss_auto_update_only_kev s)),
      (''require_ai_validation'', PBool (ss_require_ai_validation s)), (''require_admin_approval'', PBool (ss_require_admin_approval s)),
      (''auto_rollback_on_failure'', PBool (ss_auto_rollback_on_failure s)),
      (''maintenance_window_cron'', opt_str (ss_maintenance_window_cron s)), (''notify_channels'', str_list (ss_notify_channels s)),
      (''ai_model'', PStr (ss_ai_model s)), (''excluded_packages'', str_list (ss_excluded_packages s)),
      (''last_scan_status'', PStr (ss_last_scan_status s)), (''last_scan_error'', opt_str (ss_last_scan_error s)),
      (''last_scan_at'', opt_time stamp (ss_last_scan_at s)), (''last_successful_scan_at'', opt_time stamp (ss_last_successful_scan_at s)),
      (''packages_scanned'', PInt (ss_packages_scanned s)), (''updated_at'', PStr (stamp (ss_updated_at s))),
      (''updated_by'', opt_str (ss_updated_by s))]"

text \<open>Reading the settings for the first time stores the defaults.\<close>

definition read_settings :: "(int \<Rightarrow> string) \<Rightarrow> int \<Rightarrow> db \<Rightarrow> jdict result \<times> db" where
  "read_settings stamp now d = (case scalar_one_or_none (filter (\<lambda>s. ss_id s = 1) (settings_rows d)) of
     Inl e \<Rightarrow> (Inl e, d)
   | Inr (Some s) \<Rightarrow> (Inr (settings_view stamp s), d)
   | Inr None \<Rightarrow> (let s = new_self_security_settings now
       in (Inr (settings_view stamp s), d\<lparr>settings_rows := settings_rows d @ [s]\<rparr>)))"

section \<open>Packages, findings and proposals\<close>

definition dependency_view :: "(int \<Rightarrow> string) \<Rightarrow> platform_dependency \<Rightarrow> jdict" where
  "dependency_view stamp p =
     [(''id'', PStr (uuid_str (pd_id p))), (''component'', PStr (pd_component p)), (''package_type'', PStr (pd_package_type p)),
      (''name'', PStr (pd_name p)), (''version'', PStr (pd_version p)), (''latest_version'', opt_str (pd_latest_version p)),
      (''purl'', opt_str (pd_purl p)), (''license'', opt_str (pd_license p)), (''direct'', PBool (pd_direct p)),
      (''last_checked'', PStr (stamp (pd_last_checked p))), (''cve_count'', PInt (pd_cve_count p)), (''kev_count'', PInt (pd_kev_count p)),
      (''max_cvss'', opt_float (pd_max_cvss p)), (''update_available'', PBool (pd_update_available p)),
      (''update_blocked_reason'', opt_str (pd_update_blocked_reason p))]"

definition list_dependencies :: "(int \<Rightarrow> string) \<Rightarrow> bool \<Rightarrow> db \<Rightarrow> jdict list" where
  "list_dependencies stamp vulnerable_only d =
     map (dependency_view stamp) (highest_first pd_max_cvss
       (filter (\<lambda>p. vulnerable_only \<longrightarrow> 0 < pd_cve_count p) (platform_dependencies d)))"

definition finding_view :: "(int \<Rightarrow> string) \<Rightarrow> dependency_finding \<Rightarrow> jdict" where
  "finding_view stamp f =
     [(''id'', PStr (uuid_str (df_id f))), (''cve_id'', PStr (df_cve_id f)), (''cvss'', opt_float (df_cvss f)),
      (''epss'', opt_float (df_epss f)), (''kev'', PBool (df_kev f)), (''severity'', PStr (df_severity f)),
      (''description'', opt_str (df_description f)), (''fixed_version'', opt_str (df_fixed_version f)),
      (''discovered_at'', PStr (stamp (df_discovered_at f))), (''suppressed'', PBool (df_suppressed f)),
      (''suppressed_reason'', opt_str (df_suppressed_reason f))]"

definition get_dep_findings :: "(int \<Rightarrow> string) \<Rightarrow> nat \<Rightarrow> db \<Rightarrow> jdict list" where
  "get_dep_findings stamp i d =
     map (finding_view stamp) (highest_first df_cvss (filter (\<lambda>f. df_dependency_id f = i) (dependency_findings d)))"

definition proposal_view :: "(int \<Rightarrow> string) \<Rightarrow> update_proposal \<Rightarrow> jdict" where
  "proposal_view stamp p =
     [(''id'', PStr (uuid_str (up_id p))), (''component'', PStr (up_component p)), (''package_name'', PStr (up_package_name p)),
      (''current_version'', PStr (up_current_version p)), (''target_version'', PStr (up_target_version p)),
      (''reason'', PStr (up_reason p)), (''cves_fixed'', str_list (up_cves_fixed p)),
      (''ai_recommendation'', opt_str (up_ai_recommendation p)), (''ai_risk_score'', opt_float (up_ai_risk_score p)),
      (''breaking_changes_detected'', PBool (up_breaking_changes_detected p)), (''ai_assessment'', PDict (up_ai_assessment p)),
      (''compatibility_notes'', opt_str (up_compatibility_notes p)), (''status'', PStr (up_status p)),
      (''approved_by'', opt_str (up_approved_by p)), (''approved_at'', opt_time stamp (up_approved_at p)),
      (''applied_at'', opt_time stamp (up_applied_at p)), (''error_message'', opt_str (up_error_message p)),
      (''created_at'', PStr (stamp (up_created_at p)))]"

definition list_proposals :: "(int \<Rightarrow> string) \<Rightarrow> string option \<Rightarrow> db \<Rightarrow> jdict list" where
  "list_proposals stamp status_filter d =
     map (proposal_view stamp) (sort_key (\<lambda>p. - up_created_at p)
       (filter (\<lambda>p. truthy_str status_filter \<longrightarrow> Some (up_status p) = status_filter) (update_proposals d)))"

text \<open>
  The manual start queues the three tasks: the scan at once, the proposals after two minutes
  and the assessment after four. The answer is the queue.
\<close>

definition trigger_scan :: "(string \<Rightarrow> string) \<Rightarrow> int \<Rightarrow> http_request \<Rightarrow> principal \<Rightarrow> db \<Rightarrow> (string \<times> int) list \<times> db" where
  "trigger_scan sha now rq who d =
     ([(''scan_platform_deps'', 0), (''propose_updates'', 120), (''ai_validate_proposals'', 240)],
      audit sha now rq ''self_security_manual_scan'' (Some who) None None ''info'' [] d)"

section \<open>Agreement\<close>

lemma length_highest_first [simp]: "length (highest_first f xs) = length xs"
  using sum_length_filter_compl [of "\<lambda>x. f x \<noteq> None" xs] by (simp add: highest_first_def del: not_None_eq)

lemma set_highest_first [simp]: "set (highest_first f xs) = set xs"
  by (auto simp: highest_first_def)

text \<open>The scored rows come first, from the highest to the lowest.\<close>

lemma highest_first_ordered:
  assumes "i < j" and "j < length xs"
  shows "(case (f (highest_first f xs ! i), f (highest_first f xs ! j)) of
      (Some p, Some q) \<Rightarrow> q \<le> p | (None, Some q) \<Rightarrow> False | _ \<Rightarrow> True)"
proof -
  let ?scored = "sort_key (\<lambda>x. - the (f x)) (filter (\<lambda>x. f x \<noteq> None) xs)" and ?rest = "filter (\<lambda>x. f x = None) xs"
  have len: "length ?scored + length ?rest = length xs"
    using sum_length_filter_compl [of "\<lambda>x. f x \<noteq> None" xs] by simp
  have scored: "f (?scored ! k) \<noteq> None" if "k < length ?scored" for k
    using nth_mem [OF that] by auto
  have rest: "f (?rest ! k) = None" if "k < length ?rest" for k
    using nth_mem [OF that] by auto
  show ?thesis
  proof (cases "j < length ?scored")
    case True
    have "sorted (map (\<lambda>x. - the (f x)) ?scored)" by simp
    then have "- the (f (?scored ! i)) \<le> - the (f (?scored ! j))"
      using sorted_nth_mono [of "map (\<lambda>x. - the (f x)) ?scored" i j] True assms(1) by simp
    with True scored [of i] scored [of j] assms(1) show ?thesis
      by (auto simp: highest_first_def nth_append split: option.splits)
  next
    case False
    with assms(2) len have "f (highest_first f xs ! j) = None"
      using rest [of "j - length ?scored"] by (simp add: highest_first_def nth_append)
    then show ?thesis by (simp split: option.splits)
  qed
qed

text \<open>
  The lists and the summary agree: as many packages, vulnerable packages and, over the stored
  packages, findings as the summary counts.
\<close>

lemma length_filter_dependency:
  "distinct (map pd_id ps) \<Longrightarrow>
   (\<Sum>p\<leftarrow>ps. length (filter (\<lambda>f. df_dependency_id f = pd_id p) fs)) = length (filter (\<lambda>f. df_dependency_id f \<in> pd_id ` set ps) fs)"
proof (induction ps)
  case (Cons p ps)
  have "length (filter (\<lambda>f. df_dependency_id f \<in> pd_id ` set (p # ps)) fs)
      = length (filter (\<lambda>f. df_dependency_id f = pd_id p) fs) + length (filter (\<lambda>f. df_dependency_id f \<in> pd_id ` set ps) fs)"
    using Cons.prems by (induction fs) auto
  with Cons show ?case by simp
qed simp

lemma views_agree:
  assumes "summary now d = Inr s" and "distinct (map pd_id (platform_dependencies d))"
    and "\<forall>f\<in>set (dependency_findings d). df_dependency_id f \<in> pd_id ` set (platform_dependencies d) \<and> \<not> df_suppressed f"
  shows "sm_total_dependencies s = length (list_dependencies stamp False d)
    \<and> sm_vulnerable_dependencies s = length (list_dependencies stamp True d)
    \<and> sm_total_findings s = (\<Sum>p\<leftarrow>platform_dependencies d. length (get_dep_findings stamp (pd_id p) d))
    \<and> sm_proposals_pending s = length (list_proposals stamp (Some ''proposed'') d)
        + length (list_proposals stamp (Some ''ai_validated'') d) + length (list_proposals stamp (Some ''approved'') d)"
proof -
  have s: "sm_total_dependencies s = length (platform_dependencies d)"
    "sm_vulnerable_dependencies s = length (filter (\<lambda>p. 0 < pd_cve_count p) (platform_dependencies d))"
    "sm_total_findings s = length (filter (\<lambda>f. \<not> df_suppressed f) (dependency_findings d))"
    "sm_proposals_pending s = length (filter (\<lambda>u. up_status u \<in> {''proposed'', ''ai_validated'', ''approved''}) (update_proposals d))"
    using assms(1) by (auto simp: summary_def rbind_eq_Inr Let_def)
  have pending: "length (filter (\<lambda>u. up_status u \<in> {''proposed'', ''ai_validated'', ''approved''}) us)
      = length (filter (\<lambda>u. up_status u = ''proposed'') us) + length (filter (\<lambda>u. up_status u = ''ai_validated'') us)
        + length (filter (\<lambda>u. up_status u = ''approved'') us)" for us
    by (induction us) auto
  have all: "filter (\<lambda>f. \<not> df_suppressed f) (dependency_findings d) = dependency_findings d"
    "filter (\<lambda>f. df_dependency_id f \<in> pd_id ` set (platform_dependencies d)) (dependency_findings d) = dependency_findings d"
    using assms(3) by (simp_all add: filter_id_conv)
  show ?thesis
    using length_filter_dependency [OF assms(2), of "dependency_findings d"]
    by (simp add: s pending [simplified] list_dependencies_def get_dep_findings_def list_proposals_def all)
qed

text \<open>
  Suppressing a finding leaves the counts of its package: with its only finding suppressed a
  package stays among the vulnerable ones while the summary counts no finding.
\<close>

lemma suppression_keeps_counts:
  "list_dependencies stamp b (snd (suppress_finding sha now rq who i reason d)) = list_dependencies stamp b d"
  by (auto simp: suppress_finding_def list_dependencies_def split: sum.split)

lemma suppressed_still_vulnerable:
  assumes "platform_dependencies d = [p]" "0 < pd_cve_count p" "dependency_findings d = [f]" "settings_rows d = []"
  shows "\<exists>s. summary now (snd (suppress_finding sha now rq who (df_id f) reason d)) = Inr s
    \<and> sm_total_findings s = 0 \<and> sm_vulnerable_dependencies s = 1"
  using assms by (simp add: suppress_finding_def summary_def suppress_mut_def or_404_def Let_def)

end
