(* ===== verification/Schedule.thy ===== *)
theory Schedule
  imports PyStr
begin

text \<open>
  The worker application (\<open>app/workers/celery_app.py\<close>): the modules a worker imports, the tasks
  they define, the queues tasks are sent to and the timetable of the beat process. Times are
  minutes since the epoch, a Thursday, in UTC.
\<close>

section \<open>Tasks and queues\<close>

definition INCLUDE :: "string list" where
  "INCLUDE = [''app.workers.scan_tasks'', ''app.workers.enrichment_tasks'', ''app.workers.reconcile_tasks'',
     ''app.workers.notification_tasks'', ''app.workers.compliance_tasks'', ''app.workers.self_security_tasks'']"

text \<open>The names given to \<open>@celery_app.task\<close>, with the module that defines each; no module imports another's tasks at its top.\<close>

definition TASKS :: "(string \<times> string) list" where
  "TASKS =
    [(''app.workers.scan_tasks'', ''app.workers.scan_tasks.run_all_network_scans''),
     (''app.workers.scan_tasks'', ''app.workers.scan_tasks.service_scan_host''),
     (''app.workers.enrichment_tasks'', ''app.workers.enrichment_tasks.sync_cve_feeds''),
     (''app.workers.enrichment_tasks'', ''app.workers.enrichment_tasks.enrich_pending_assets''),
     (''app.workers.enrichment_tasks'', ''app.workers.enrichment_tasks.enrich_asset''),
     (''app.workers.reconcile_tasks'', ''app.workers.reconcile_tasks.sync_all_integrations''),
     (''app.workers.reconcile_tasks'', ''app.workers.reconcile_tasks.detect_stale_and_gaps''),
     (''app.workers.reconcile_tasks'', ''app.workers.reconcile_tasks.rescore_assets''),
     (''app.workers.reconcile_tasks'', ''app.workers.reconcile_tasks.cleanup_old_data''),
     (''app.workers.notification_tasks'', ''app.workers.notification_tasks.dispatch_pending''),
     (''app.workers.compliance_tasks'', ''app.workers.compliance_tasks.run_compliance_audit''),
     (''app.workers.self_security_tasks'', ''app.workers.self_security_tasks.scan_platform_deps''),
     (''app.workers.self_security_tasks'', ''app.workers.self_security_tasks.propose_updates''),
     (''app.workers.self_security_tasks'', ''app.workers.self_security_tasks.ai_validate_proposals''),
     (''app.workers.self_security_tasks'', ''app.workers.self_security_tasks.apply_approved_updates''),
     (''app.workers.self_security_tasks'', ''app.workers.self_security_tasks.rollback_proposal''),
     (''app.workers.retention_tasks'', ''app.workers.retention_tasks.enforce_all_retention'')]"

text \<open>A worker discards the messages of tasks it does not know.\<close>

definition registered :: "string \<Rightarrow> bool" where
  "registered name = list_ex (\<lambda>(m, n). n = name \<and> m \<in> set INCLUDE) TASKS"

text \<open>The routes are patterns \<open>module.*\<close>; a task without one goes to the default queue.\<close>

definition task_routes :: "(string \<times> string) list" where
  "task_routes =
    [(''app.workers.scan_tasks.'', ''scanner''), (''app.workers.enrichment_tasks.'', ''enrichment''),
     (''app.workers.reconcile_tasks.'', ''reconciler''), (''app.workers.notification_tasks.'', ''notifications''),
     (''app.workers.compliance_tasks.'', ''reconciler''), (''app.workers.self_security_tasks.'', ''self_security'')]"

definition queue_of :: "string \<Rightarrow> string" where
  "queue_of name = (case find (\<lambda>(p, q). starts_with p name) task_routes of None \<Rightarrow> ''celery'' | Some (p, q) \<Rightarrow> q)"

text \<open>The queues the deployed workers read (\<open>docker-compose.yml\<close>).\<close>

definition WORKER_QUEUES :: "string list" where
  "WORKER_QUEUES = [''scanner'', ''enrichment'', ''reconciler'', ''notifications'', ''self_security'']"

section \<open>The timetable\<close>

datatype cron_field = Every | At nat | Step nat

record crontab =
  ct_minute :: cron_field
  ct_hour :: cron_field
  ct_day_of_week :: cron_field

fun field_matches :: "cron_field \<Rightarrow> nat \<Rightarrow> bool" where
  "field_matches Every v = True"
| "field_matches (At n) v = (v = n)"
| "field_matches (Step n) v = (v mod n = 0)"

definition minute_of :: "nat \<Rightarrow> nat" where "minute_of t = t mod 60"
definition hour_of :: "nat \<Rightarrow> nat" where "hour_of t = t div 60 mod 24"
definition weekday_of :: "nat \<Rightarrow> nat" where "weekday_of t = (t div 1440 + 4) mod 7"

definition due :: "crontab \<Rightarrow> nat \<Rightarrow> bool" where
  "due c t = (field_matches (ct_minute c) (minute_of t) \<and> field_matches (ct_hour c) (hour_of t)
     \<and> field_matches (ct_day_of_week c) (weekday_of t))"

definition crontab :: "cron_field \<Rightarrow> cron_field \<Rightarrow> cron_field \<Rightarrow> crontab" where
  "crontab m h w = \<lparr> ct_minute = m, ct_hour = h, ct_day_of_week = w \<rparr>"

record beat_entry =
  be_name :: string
  be_task :: string
  be_schedule :: crontab

definition entry :: "string \<Rightarrow> string \<Rightarrow> crontab \<Rightarrow> beat_entry" where
  "entry n t c = \<lparr> be_name = n, be_task = t, be_schedule = c \<rparr>"

definition beat_schedule :: "beat_entry list" where
  "beat_schedule =
    [entry ''daily-network-discovery'' ''app.workers.scan_tasks.run_all_network_scans'' (crontab (At 0) (At 2) Every),
     entry ''hourly-integration-sync'' ''app.workers.reconcile_tasks.sync_all_integrations'' (crontab (At 15) Every Every),
     entry ''cve-enrichment-cycle'' ''app.workers.enrichment_tasks.enrich_pending_assets'' (crontab (At 30) (Step 4) Every),
     entry ''daily-cve-feeds-sync'' ''app.workers.enrichment_tasks.sync_cve_feeds'' (crontab (At 0) (At 1) Every),
     entry ''stale-asset-detection'' ''app.workers.reconcile_tasks.detect_stale_and_gaps'' (crontab (Step 30) Every Every),
     entry ''risk-rescore'' ''app.workers.reconcile_tasks.rescore_assets'' (crontab (Step 15) Every Every),
     entry ''daily-compliance-audit'' ''app.workers.compliance_tasks.run_compliance_audit'' (crontab (At 0) (At 3) Every),
     entry ''notification-flush'' ''app.workers.notification_tasks.dispatch_pending'' (crontab (Step 5) Every Every),
     entry ''weekly-cleanup'' ''app.workers.reconcile_tasks.cleanup_old_data'' (crontab (At 0) (At 4) (At 0)),
     entry ''self-security-scan'' ''app.workers.self_security_tasks.scan_platform_deps'' (crontab (At 0) (At 1) Every),
     entry ''self-security-propose'' ''app.workers.self_security_tasks.propose_updates'' (crontab (At 15) (At 1) Every),
     entry ''self-security-ai-validate'' ''app.workers.self_security_tasks.ai_validate_proposals'' (crontab (At 30) (At 1) Every),
     entry ''self-security-apply'' ''app.workers.self_security_tasks.apply_approved_updates'' (crontab (At 0) (At 2) (At 0)),
     entry ''enforce-retention-daily'' ''app.workers.retention_tasks.enforce_all_retention'' (crontab (At 0) (At 3) Every)]"

text \<open>The tasks beat sends at a minute, and those of them a worker runs.\<close>

definition sent :: "nat \<Rightarrow> string list" where
  "sent t = map be_task (filter (\<lambda>e. due (be_schedule e) t) beat_schedule)"

definition executed :: "nat \<Rightarrow> string list" where
  "executed t = filter (\<lambda>n. registered n \<and> queue_of n \<in> set WORKER_QUEUES) (sent t)"

definition enforce_all_retention :: string where
  "enforce_all_retention = ''app.workers.retention_tasks.enforce_all_retention''"

section \<open>Weeks\<close>

lemma due_week: "due c (t mod 10080) = due c t"
proof -
  have "t mod 10080 mod 60 = t mod 60" by (rule mod_mod_cancel) simp
  moreover have "t mod 10080 div 60 mod 24 = t div 60 mod 24"
  proof -
    have "t mod (60 * 168) div 60 = t div 60 mod 168" by (rule mod_mult2_eq [THEN arg_cong, THEN trans]) simp
    then show ?thesis by (simp add: mod_mod_cancel)
  qed
  moreover have "(t mod 10080 div 1440 + 4) mod 7 = (t div 1440 + 4) mod 7"
  proof -
    have "t mod (1440 * 7) div 1440 = t div 1440 mod 7" by (rule mod_mult2_eq [THEN arg_cong, THEN trans]) simp
    then show ?thesis by (simp add: mod_add_left_eq)
  qed
  ultimately show ?thesis by (simp add: due_def minute_of_def hour_of_def weekday_of_def)
qed

fun first_match :: "cron_field \<Rightarrow> nat" where
  "first_match (At n) = n"
| "first_match f = 0"

definition in_range :: "crontab \<Rightarrow> bool" where
  "in_range c = (first_match (ct_minute c) < 60 \<and> first_match (ct_hour c) < 24 \<and> first_match (ct_day_of_week c) < 7)"

definition slot :: "crontab \<Rightarrow> nat" where
  "slot c = (first_match (ct_day_of_week c) + 3) mod 7 * 1440 + first_match (ct_hour c) * 60 + first_match (ct_minute c)"

lemma field_first_match: "field_matches f (first_match f)"
  by (cases f) simp_all

lemma due_slot:
  assumes "in_range c"
  shows "due c (slot c)" "slot c < 10080"
proof -
  define m h w where "m = first_match (ct_minute c)" and "h = first_match (ct_hour c)" and "w = first_match (ct_day_of_week c)"
  have b: "m < 60" "h < 24" "w < 7" using assms by (simp_all add: in_range_def m_def h_def w_def)
  let ?d = "(w + 3) mod 7"
  have s: "slot c = ?d * 1440 + h * 60 + m" by (simp add: slot_def m_def h_def w_def)
  have d: "?d < 7" by simp
  define q where "q = 24 * ?d + h"
  have "slot c = 60 * q + m" by (simp add: s q_def)
  then have "slot c mod 60 = m" "slot c div 60 = q" using b by simp_all
  then have "slot c mod 60 = m" "slot c div 60 = 24 * ?d + h" by (simp_all add: q_def)
  then have mh: "minute_of (slot c) = m" "hour_of (slot c) = h" using b by (simp_all add: minute_of_def hour_of_def)
  have "h * 60 + m < 1440" using b by simp
  then have "slot c div 1440 = ?d" using s by simp
  then have "weekday_of (slot c) = (w + 7) mod 7" by (simp add: weekday_of_def mod_add_left_eq)
  then have "weekday_of (slot c) = w" using b by simp
  with mh show "due c (slot c)" by (simp add: due_def field_first_match m_def h_def w_def)
  show "slot c < 10080" using s d b by linarith
qed

lemma weekly:
  assumes "in_range c"
  shows "\<exists>t\<ge>start. t < start + 10080 \<and> due c t"
proof -
  define k where "k = (slot c + (10080 - start mod 10080)) mod 10080"
  have "(start + k) mod 10080 = (start mod 10080 + (slot c + (10080 - start mod 10080))) mod 10080"
    unfolding k_def by (simp only: mod_add_right_eq mod_add_left_eq)
  also have "start mod 10080 + (slot c + (10080 - start mod 10080)) = slot c + 10080"
    using mod_less_divisor [of 10080 start] by linarith
  finally have "(start + k) mod 10080 = slot c" using due_slot(2) [OF assms] by simp
  then have "due c (start + k)" using due_week [of c "start + k"] due_slot(1) [OF assms] by simp
  moreover have "k < 10080" by (simp add: k_def)
  ultimately show ?thesis by (intro exI [of _ "start + k"]) simp
qed

section \<open>What runs\<close>

definition runnable :: "string \<Rightarrow> bool" where
  "runnable n = (registered n \<and> queue_of n \<in> set WORKER_QUEUES)"

lemma runnable_entries: "filter (\<lambda>e. \<not> runnable (be_task e)) beat_schedule
    = [entry ''enforce-retention-daily'' enforce_all_retention (crontab (At 0) (At 3) Every)]"
  by code_simp

lemma entries_in_range: "list_all (\<lambda>e. in_range (be_schedule e)) beat_schedule"
  by code_simp

lemma executed_iff: "n \<in> set (executed t) \<longleftrightarrow> runnable n \<and> (\<exists>e\<in>set beat_schedule. be_task e = n \<and> due (be_schedule e) t)"
  by (auto simp: executed_def sent_def runnable_def)

text \<open>
  C40: Every task of the timetable is run at least once in any week, but one: the message of the
  retention task is never run by a worker, since no worker imports its module and none reads
  the queue it is sent to.
\<close>

theorem scheduled_tasks_run:
  "(\<forall>e\<in>set beat_schedule. be_task e \<noteq> enforce_all_retention \<longrightarrow>
      (\<exists>t\<ge>start. t < start + 10080 \<and> be_task e \<in> set (executed t)))
   \<and> enforce_all_retention \<notin> set (executed t)"
proof
  have "\<not> runnable enforce_all_retention" by code_simp
  then show "enforce_all_retention \<notin> set (executed t)" by (simp add: executed_iff)
  show "\<forall>e\<in>set beat_schedule. be_task e \<noteq> enforce_all_retention \<longrightarrow>
      (\<exists>t\<ge>start. t < start + 10080 \<and> be_task e \<in> set (executed t))"
  proof (intro ballI impI)
    fix e assume e: "e \<in> set beat_schedule" "be_task e \<noteq> enforce_all_retention"
    have "e \<notin> set (filter (\<lambda>e. \<not> runnable (be_task e)) beat_schedule)"
      using e(2) unfolding runnable_entries by (auto simp: entry_def)
    with e(1) have run: "runnable (be_task e)" by simp
    have "in_range (be_schedule e)" using e(1) entries_in_range by (simp add: list_all_iff)
    then obtain t where "start \<le> t" "t < start + 10080" "due (be_schedule e) t" using weekly by blast
    with run e(1) show "\<exists>t\<ge>start. t < start + 10080 \<and> be_task e \<in> set (executed t)" by (auto simp: executed_iff)
  qed
qed

theorem scheduled_tasks_run_witness:
  "\<exists>t\<ge>7. t < 10087 \<and> ''app.workers.reconcile_tasks.cleanup_old_data'' \<in> set (executed t)"
proof -
  let ?e = "entry ''weekly-cleanup'' ''app.workers.reconcile_tasks.cleanup_old_data'' (crontab (At 0) (At 4) (At 0))"
  have "?e \<in> set beat_schedule" by (simp add: beat_schedule_def)
  moreover have "be_task ?e \<noteq> enforce_all_retention" by (simp add: entry_def enforce_all_retention_def)
  ultimately have "\<exists>t\<ge>7. t < 7 + 10080 \<and> be_task ?e \<in> set (executed t)"
    using scheduled_tasks_run [THEN conjunct1] by blast
  then show ?thesis by (simp add: entry_def)
qed

lemma due_daily:
  "due (crontab (At m) (At h) Every) t \<longleftrightarrow> m < 60 \<and> h < 24 \<and> t mod 1440 = 60 * h + m"
proof
  have t: "t mod (60 * 24) = 60 * (t div 60 mod 24) + t mod 60" by (rule mod_mult2_eq)
  {
    assume "due (crontab (At m) (At h) Every) t"
    then have "t mod 60 = m" "t div 60 mod 24 = h" by (simp_all add: due_def crontab_def minute_of_def hour_of_def)
    then show "m < 60 \<and> h < 24 \<and> t mod 1440 = 60 * h + m" using t by auto
  }
  assume a: "m < 60 \<and> h < 24 \<and> t mod 1440 = 60 * h + m"
  with t have eq: "60 * (t div 60 mod 24) + t mod 60 = 60 * h + m" by simp
  have "x = h \<and> r = m" if "60 * x + r = 60 * h + m" "r < 60" "m < 60" for x r :: nat
  proof
    show "x = h" using arg_cong [OF that(1), of "\<lambda>n. n div 60"] that(2,3) by simp
    with that(1) show "r = m" by simp
  qed
  from this [OF eq] a have "t div 60 mod 24 = h" "t mod 60 = m" by simp_all
  then show "due (crontab (At m) (At h) Every) t"
    by (simp add: due_def crontab_def minute_of_def hour_of_def)
qed

text \<open>
  The pipeline of the platform's own packages: on every day the scan is started first, the
  proposals a quarter of an hour later, their assessment after another, each exactly once.
\<close>

lemma pipeline_order:
  "''app.workers.self_security_tasks.scan_platform_deps'' \<in> set (executed t) \<longleftrightarrow> t mod 1440 = 60"
  "''app.workers.self_security_tasks.propose_updates'' \<in> set (executed t) \<longleftrightarrow> t mod 1440 = 75"
  "''app.workers.self_security_tasks.ai_validate_proposals'' \<in> set (executed t) \<longleftrightarrow> t mod 1440 = 90"
proof -
  have daily: "n \<in> set (executed t) \<longleftrightarrow> t mod 1440 = 60 * h + m"
    if "runnable n" "map be_schedule (filter (\<lambda>e. be_task e = n) beat_schedule) = [crontab (At m) (At h) Every]"
      "m < 60" "h < 24" for n m h
  proof -
    have "n \<in> set (executed t) \<longleftrightarrow> (\<exists>c\<in>set (map be_schedule (filter (\<lambda>e. be_task e = n) beat_schedule)). due c t)"
      using that(1) by (auto simp: executed_iff)
    then have "n \<in> set (executed t) \<longleftrightarrow> due (crontab (At m) (At h) Every) t" by (simp add: that(2))
    then show ?thesis using that(3,4) by (simp add: due_daily)
  qed
  show "''app.workers.self_security_tasks.scan_platform_deps'' \<in> set (executed t) \<longleftrightarrow> t mod 1440 = 60"
    by (rule trans [OF daily [where m = 0 and h = 1]], code_simp, code_simp) simp_all
  show "''app.workers.self_security_tasks.propose_updates'' \<in> set (executed t) \<longleftrightarrow> t mod 1440 = 75"
    by (rule trans [OF daily [where m = 15 and h = 1]], code_simp, code_simp) simp_all
  show "''app.workers.self_security_tasks.ai_validate_proposals'' \<in> set (executed t) \<longleftrightarrow> t mod 1440 = 90"
    by (rule trans [OF daily [where m = 30 and h = 1]], code_simp, code_simp) simp_all
qed

end
