(* ===== verification/WebApp.thy ===== *)
theory WebApp
  imports Models
begin

text \<open>
  The web application (\<open>app/main.py\<close>, \<open>app/core/security_headers.py\<close>): the order of its
  middleware, the headers of its answers, what it answers when a handler raises, and its health
  and readiness. The middleware of the libraries are parameters.
\<close>

section \<open>Answers\<close>

record response =
  rs_status :: nat
  rs_headers :: "string \<rightharpoonup> string"
  rs_body :: pyval

type_synonym 'q handler = "'q \<Rightarrow> response result"

definition json_response :: "nat \<Rightarrow> jdict \<Rightarrow> response" where
  "json_response status body = \<lparr> rs_status = status, rs_headers = [''content-type'' \<mapsto> ''application/json''], rs_body = PDict body \<rparr>"

text \<open>Header names are compared without regard to case, so they are kept in lower case.\<close>

definition quoted :: "string \<Rightarrow> string" where "quoted s = CHR 0x27 # s @ [CHR 0x27]"

definition security_headers :: "(string \<times> string) list" where
  "security_headers =
    [(''x-content-type-options'', ''nosniff''), (''x-frame-options'', ''DENY''), (''x-xss-protection'', ''1; mode=block''),
     (''referrer-policy'', ''strict-origin-when-cross-origin''),
     (''content-security-policy'', ''default-src '' @ quoted ''none'' @ ''; frame-ancestors '' @ quoted ''none'' @ ''; base-uri '' @ quoted ''none''
       @ ''; form-action '' @ quoted ''self''),
     (''strict-transport-security'', ''max-age=31536000; includeSubDomains; preload''),
     (''permissions-policy'', ''geolocation=(), microphone=(), camera=(), payment=(), usb=(), magnetometer=(), gyroscope=(), accelerometer=()''),
     (''cross-origin-opener-policy'', ''same-origin''), (''cross-origin-resource-policy'', ''same-site'')]"

definition put_header :: "string \<times> string \<Rightarrow> (string \<rightharpoonup> string) \<Rightarrow> string \<rightharpoonup> string" where
  "put_header h m = m(fst h \<mapsto> snd h)"

definition set_headers :: "(string \<times> string) list \<Rightarrow> response \<Rightarrow> response" where
  "set_headers hs r = r\<lparr>rs_headers := fold put_header hs (rs_headers r)\<rparr>"

text \<open>\<open>SecurityHeadersMiddleware.dispatch\<close>: an exception of the rest of the application passes through.\<close>

definition security_headers_middleware :: "'q handler \<Rightarrow> 'q handler" where
  "security_headers_middleware call_next q = rbind (call_next q) (\<lambda>r. Inr (set_headers security_headers r))"

section \<open>The stack\<close>

definition unhandled_exception_handler :: "exn \<Rightarrow> response" where
  "unhandled_exception_handler e = json_response 500 [(''error'', PStr ''internal_server_error'')]"

text \<open>
  \<open>add_middleware\<close> puts each new middleware around the earlier ones; the framework puts the
  handler of \<open>Exception\<close> around all of them.
\<close>

record 'q library =
  lb_slowapi :: "'q handler \<Rightarrow> 'q handler"
  lb_trusted_host :: "string list \<Rightarrow> 'q handler \<Rightarrow> 'q handler"
  lb_gzip :: "nat \<Rightarrow> 'q handler \<Rightarrow> 'q handler"
  lb_cors :: "string list \<Rightarrow> bool \<Rightarrow> string list \<Rightarrow> string list \<Rightarrow> nat \<Rightarrow> 'q handler \<Rightarrow> 'q handler"

record app_settings =
  CORS_ORIGINS :: "string list"
  ALLOWED_HOSTS :: "string list"
  DEBUG :: bool
  APP_NAME :: string

definition user_stack :: "'q library \<Rightarrow> app_settings \<Rightarrow> 'q handler \<Rightarrow> 'q handler" where
  "user_stack lb s router = fold (\<lambda>m h. m h)
     [lb_slowapi lb, lb_trusted_host lb (ALLOWED_HOSTS s), lb_gzip lb 1024,
      lb_cors lb (CORS_ORIGINS s) False [''GET'', ''POST'', ''PUT'', ''PATCH'', ''DELETE''] [''Authorization'', ''Content-Type''] 600,
      security_headers_middleware] router"

definition app :: "'q library \<Rightarrow> app_settings \<Rightarrow> 'q handler \<Rightarrow> 'q \<Rightarrow> response" where
  "app lb s router q = (case user_stack lb s router q of Inr r \<Rightarrow> r | Inl e \<Rightarrow> unhandled_exception_handler e)"

definition docs_url :: "app_settings \<Rightarrow> string option" where
  "docs_url s = (if DEBUG s then Some ''/api/docs'' else None)"

definition openapi_url :: "app_settings \<Rightarrow> string option" where
  "openapi_url s = (if DEBUG s then Some ''/api/openapi.json'' else None)"

section \<open>Health\<close>

definition health :: "app_settings \<Rightarrow> response" where
  "health s = json_response 200 [(''status'', PStr ''ok''), (''service'', PStr (APP_NAME s))]"

text \<open>
  What the database query and the Redis ping gave; \<open>ServiceError\<close> stands for \<open>OSError\<close>,
  \<open>SQLAlchemyError\<close> and \<open>RedisError\<close>.
\<close>

definition available :: "bool result \<Rightarrow> bool result" where
  "available r = (case r of Inl (ServiceError m) \<Rightarrow> Inr False | _ \<Rightarrow> r)"

definition state_word :: "bool \<Rightarrow> string" where
  "state_word ok = (if ok then ''ok'' else ''unavailable'')"

definition readiness :: "unit result \<Rightarrow> bool result \<Rightarrow> response result" where
  "readiness query ping =
     rbind (available (rbind query (\<lambda>u. Inr True))) (\<lambda>database_ok.
     rbind (available ping) (\<lambda>cache_ok.
       let checks = PDict [(''database'', PStr (state_word database_ok)), (''redis'', PStr (state_word cache_ok))]
       in Inr (if \<not> database_ok \<or> \<not> cache_ok then json_response 503 [(''checks'', checks)]
               else json_response 200 [(''status'', PStr ''ready''), (''checks'', checks)])))"

section \<open>What every answer carries\<close>

lemma fold_put_header_other: "k \<notin> fst ` set hs \<Longrightarrow> fold put_header hs m k = m k"
  by (induction hs arbitrary: m) (auto simp: put_header_def)

lemma fold_put_header: "distinct (map fst hs) \<Longrightarrow> h \<in> set hs \<Longrightarrow> fold put_header hs m (fst h) = Some (snd h)"
  by (induction hs arbitrary: m) (auto simp: fold_put_header_other put_header_def)

lemma set_headers_lookup: "distinct (map fst hs) \<Longrightarrow> (k, v) \<in> set hs \<Longrightarrow> rs_headers (set_headers hs r) k = Some v"
  using fold_put_header [of hs "(k, v)"] by (simp add: set_headers_def)

lemma user_stack_headers:
  "user_stack lb s router q = Inr r \<Longrightarrow> \<exists>r'. r = set_headers security_headers r'"
  by (auto simp: user_stack_def security_headers_middleware_def rbind_eq_Inr)

text \<open>
  Whatever the router and the libraries' middleware do, an answer either carries all security
  headers with their values, or it is the fixed answer to an exception nobody handled, which
  tells nothing of the exception and carries none of them.
\<close>

theorem answers_carry_headers:
  "(\<forall>(k, v)\<in>set security_headers. rs_headers (app lb s router q) k = Some v)
   \<or> (\<exists>e. user_stack lb s router q = Inl e) \<and> app lb s router q = json_response 500 [(''error'', PStr ''internal_server_error'')]
     \<and> (\<forall>(k, v)\<in>set security_headers. rs_headers (app lb s router q) k = None)"
proof (cases "user_stack lb s router q")
  case (Inl e)
  then show ?thesis
    by (intro disjI2) (simp add: app_def unhandled_exception_handler_def json_response_def security_headers_def)
next
  case (Inr r)
  moreover have "distinct (map fst security_headers)" by (simp add: security_headers_def)
  ultimately show ?thesis
    using user_stack_headers [OF Inr] by (intro disjI1) (auto simp: app_def set_headers_lookup)
qed

text \<open>The service is ready exactly when both of its stores answer.\<close>

lemma ready_iff: "readiness query ping = Inr r \<Longrightarrow> rs_status r = 200 \<longleftrightarrow> query = Inr () \<and> ping = Inr True"
  by (cases query; cases ping)
    (auto simp: readiness_def available_def json_response_def Let_def split: if_splits exn.splits)

end
