(* ===== verification/Schema.thy ===== *)
theory Schema
  imports PyStr Models
begin

text \<open>
  Database schemas and the schema operations of the migrations (\<open>alembic/versions\<close>): tables
  with their columns, unique constraints and indexes. An operation that PostgreSQL refuses is
  an exception. A schema is the list of its tables in the order of their creation.
\<close>

section \<open>Schemas\<close>

datatype col_type = TUuid | TStr nat | TBool | TInt | TFloat | TTime | TText | TJson | TInet | TMac

record column =
  cn_name :: string
  cn_type :: col_type
  cn_nullable :: bool
  cn_key :: bool
  cn_unique :: bool
  cn_default :: "string option"
  cn_ref :: "(string \<times> string \<times> string) option"

definition col :: "string \<Rightarrow> col_type \<Rightarrow> column" where
  "col n t = \<lparr> cn_name = n, cn_type = t, cn_nullable = True, cn_key = False, cn_unique = False, cn_default = None, cn_ref = None \<rparr>"

text \<open>\<open>nullable=False\<close>, \<open>primary_key=True\<close>, \<open>unique=True\<close>, \<open>server_default=\<close>, \<open>ForeignKey(..., ondelete=)\<close>\<close>

definition req :: "column \<Rightarrow> column" where "req c = c\<lparr>cn_nullable := False\<rparr>"
definition key :: "column \<Rightarrow> column" where "key c = c\<lparr>cn_nullable := False, cn_key := True\<rparr>"
definition uniq :: "column \<Rightarrow> column" where "uniq c = c\<lparr>cn_unique := True\<rparr>"
definition dflt :: "string \<Rightarrow> column \<Rightarrow> column" where "dflt v c = c\<lparr>cn_default := Some v\<rparr>"
definition ref :: "string \<Rightarrow> string \<Rightarrow> string \<Rightarrow> column \<Rightarrow> column" where
  "ref t c act x = x\<lparr>cn_ref := Some (t, c, act)\<rparr>"

record table =
  tb_name :: string
  tb_columns :: "column list"
  tb_uniques :: "(string \<times> string list) list"
  tb_indexes :: "(string \<times> string list) list"

type_synonym schema = "table list"

definition table_names :: "schema \<Rightarrow> string list" where "table_names s = map tb_name s"
definition column_names :: "table \<Rightarrow> string list" where "column_names t = map cn_name (tb_columns t)"
definition index_names :: "schema \<Rightarrow> string list" where "index_names s = concat (map (\<lambda>t. map fst (tb_indexes t)) s)"

definition find_table :: "string \<Rightarrow> schema \<Rightarrow> table option" where
  "find_table n s = find (\<lambda>t. tb_name t = n) s"

text \<open>What \<open>inspect(bind)\<close> says of a table.\<close>

definition has_column :: "schema \<Rightarrow> string \<Rightarrow> string \<Rightarrow> bool" where
  "has_column s t c = (case find_table t s of None \<Rightarrow> False | Some x \<Rightarrow> c \<in> set (column_names x))"

definition has_index :: "schema \<Rightarrow> string \<Rightarrow> string \<Rightarrow> bool" where
  "has_index s t i = (case find_table t s of None \<Rightarrow> False | Some x \<Rightarrow> i \<in> fst ` set (tb_indexes x))"

definition has_unique :: "schema \<Rightarrow> string \<Rightarrow> string \<Rightarrow> bool" where
  "has_unique s t u = (case find_table t s of None \<Rightarrow> False | Some x \<Rightarrow> u \<in> fst ` set (tb_uniques x))"

section \<open>Operations\<close>

definition refused :: exn where "refused = RuntimeError ''ProgrammingError''"

definition with_table :: "string \<Rightarrow> (table \<Rightarrow> table result) \<Rightarrow> schema \<Rightarrow> schema result" where
  "with_table n f s = (case find_table n s of
     None \<Rightarrow> Inl refused
   | Some t \<Rightarrow> rbind (f t) (\<lambda>t'. Inr (map (\<lambda>x. if tb_name x = n then t' else x) s)))"

definition refs_ok :: "schema \<Rightarrow> column list \<Rightarrow> bool" where
  "refs_ok s cs = list_all (\<lambda>c. case cn_ref c of None \<Rightarrow> True | Some (t, k, act) \<Rightarrow> has_column s t k) cs"

definition create_table :: "string \<Rightarrow> column list \<Rightarrow> (string \<times> string list) list \<Rightarrow> schema \<Rightarrow> schema result" where
  "create_table n cs us s =
     (if n \<in> set (table_names s) \<or> \<not> distinct (map cn_name cs) \<or> \<not> refs_ok s cs
        \<or> \<not> list_all (\<lambda>u. set (snd u) \<subseteq> cn_name ` set cs) us
      then Inl refused
      else Inr (s @ [\<lparr> tb_name = n, tb_columns = cs, tb_uniques = us, tb_indexes = [] \<rparr>]))"

text \<open>A table that another one refers to is not dropped.\<close>

definition refers_to :: "string \<Rightarrow> table \<Rightarrow> bool" where
  "refers_to n t = list_ex (\<lambda>c. case cn_ref c of None \<Rightarrow> False | Some (r, k, act) \<Rightarrow> r = n) (tb_columns t)"

definition drop_table :: "string \<Rightarrow> schema \<Rightarrow> schema result" where
  "drop_table n s =
     (let rest = filter (\<lambda>t. tb_name t \<noteq> n) s
      in if n \<notin> set (table_names s) \<or> list_ex (refers_to n) rest then Inl refused else Inr rest)"

definition add_column :: "string \<Rightarrow> column \<Rightarrow> schema \<Rightarrow> schema result" where
  "add_column n c = with_table n (\<lambda>t. if cn_name c \<in> set (column_names t) then Inl refused
     else Inr (t\<lparr>tb_columns := tb_columns t @ [c]\<rparr>))"

text \<open>Dropping a column drops the indexes and constraints that use it.\<close>

definition drop_column :: "string \<Rightarrow> string \<Rightarrow> schema \<Rightarrow> schema result" where
  "drop_column n c = with_table n (\<lambda>t. if c \<notin> set (column_names t) then Inl refused
     else Inr (t\<lparr>tb_columns := filter (\<lambda>x. cn_name x \<noteq> c) (tb_columns t),
       tb_indexes := filter (\<lambda>i. c \<notin> set (snd i)) (tb_indexes t), tb_uniques := filter (\<lambda>u. c \<notin> set (snd u)) (tb_uniques t)\<rparr>))"

definition alter_column :: "string \<Rightarrow> string \<Rightarrow> (column \<Rightarrow> column) \<Rightarrow> schema \<Rightarrow> schema result" where
  "alter_column n c f = with_table n (\<lambda>t. if c \<notin> set (column_names t) then Inl refused
     else Inr (t\<lparr>tb_columns := update_where (\<lambda>x. cn_name x = c) f (tb_columns t)\<rparr>))"

definition nullable :: "bool \<Rightarrow> column \<Rightarrow> column" where "nullable b c = c\<lparr>cn_nullable := b\<rparr>"
definition of_type :: "col_type \<Rightarrow> column \<Rightarrow> column" where "of_type t c = c\<lparr>cn_type := t\<rparr>"

text \<open>The names of indexes are unique in the database.\<close>

definition create_index :: "string \<Rightarrow> string \<Rightarrow> string list \<Rightarrow> schema \<Rightarrow> schema result" where
  "create_index i n cs s = with_table n (\<lambda>t. if i \<in> set (index_names s) \<or> \<not> set cs \<subseteq> set (column_names t) then Inl refused
     else Inr (t\<lparr>tb_indexes := tb_indexes t @ [(i, cs)]\<rparr>)) s"

definition create_index_if_absent :: "string \<Rightarrow> string \<Rightarrow> string list \<Rightarrow> schema \<Rightarrow> schema result" where
  "create_index_if_absent i n cs s = (if i \<in> set (index_names s) then Inr s else create_index i n cs s)"

definition drop_index :: "string \<Rightarrow> schema \<Rightarrow> schema result" where
  "drop_index i s = (if i \<notin> set (index_names s) then Inl refused
     else Inr (map (\<lambda>t. t\<lparr>tb_indexes := filter (\<lambda>x. fst x \<noteq> i) (tb_indexes t)\<rparr>) s))"

definition drop_index_if_there :: "string \<Rightarrow> schema \<Rightarrow> schema result" where
  "drop_index_if_there i s = (if i \<notin> set (index_names s) then Inr s else drop_index i s)"

definition create_unique :: "string \<Rightarrow> string \<Rightarrow> string list \<Rightarrow> schema \<Rightarrow> schema result" where
  "create_unique u n cs = with_table n (\<lambda>t. if u \<in> fst ` set (tb_uniques t) \<or> \<not> set cs \<subseteq> set (column_names t) then Inl refused
     else Inr (t\<lparr>tb_uniques := tb_uniques t @ [(u, cs)]\<rparr>))"

text \<open>A migration is its operations in order.\<close>

fun steps :: "(schema \<Rightarrow> schema result) list \<Rightarrow> schema \<Rightarrow> schema result" where
  "steps [] s = Inr s"
| "steps (f # fs) s = rbind (f s) (steps fs)"

definition unless :: "bool \<Rightarrow> (schema \<Rightarrow> schema result) \<Rightarrow> schema \<Rightarrow> schema result" where
  "unless b f s = (if b then Inr s else f s)"

lemma steps_append: "steps (fs @ gs) s = rbind (steps fs s) (steps gs)"
  by (induction fs arbitrary: s) (auto simp: rbind_def split: sum.splits)

section \<open>Agreement\<close>

text \<open>
  Two descriptions of a table agree when they have the same columns up to their order and
  their server defaults, and the same constraints and indexes up to their order.
\<close>

definition column_sig :: "column \<Rightarrow> string \<times> col_type \<times> bool \<times> bool \<times> bool \<times> (string \<times> string \<times> string) option" where
  "column_sig c = (cn_name c, cn_type c, cn_nullable c, cn_key c, cn_unique c, cn_ref c)"

definition same_set :: "'a list \<Rightarrow> 'a list \<Rightarrow> bool" where
  "same_set xs ys = (list_all (\<lambda>x. x \<in> set ys) xs \<and> list_all (\<lambda>y. y \<in> set xs) ys)"

definition agrees :: "table \<Rightarrow> table \<Rightarrow> bool" where
  "agrees t u = (tb_name t = tb_name u \<and> length (tb_columns t) = length (tb_columns u)
     \<and> same_set (map column_sig (tb_columns t)) (map column_sig (tb_columns u))
     \<and> same_set (tb_uniques t) (tb_uniques u) \<and> same_set (tb_indexes t) (tb_indexes u))"

section \<open>Altering many columns\<close>

text \<open>Altering the listed columns, table after table, changes exactly these.\<close>

definition alter_listed :: "(string \<times> string) list \<Rightarrow> (column \<Rightarrow> column) \<Rightarrow> schema \<Rightarrow> schema" where
  "alter_listed ps f s = map (\<lambda>x. x\<lparr>tb_columns :=
     map (\<lambda>c. if (tb_name x, cn_name c) \<in> set ps then f c else c) (tb_columns x)\<rparr>) s"

lemma find_table_map:
  "(\<And>x. tb_name (g x) = tb_name x) \<Longrightarrow> find_table n (map g s) = map_option g (find_table n s)"
  by (induction s) (simp_all add: find_table_def)

lemma find_table_Some: "find_table n s = Some t \<Longrightarrow> t \<in> set s \<and> tb_name t = n"
  by (induction s) (auto simp: find_table_def split: if_splits)

lemma alter_column_eq:
  assumes "has_column s t c" and "distinct (table_names s)" and "\<And>x. cn_name (f x) = cn_name x"
  shows "alter_column t c f s = Inr (alter_listed [(t, c)] f s)"
proof -
  from assms(1) obtain tb where tb: "find_table t s = Some tb" "c \<in> set (column_names tb)"
    by (auto simp: has_column_def split: option.splits)
  then have tn: "tb \<in> set s" "tb_name tb = t" using find_table_Some by blast+
  have "x = tb" if "x \<in> set s" "tb_name x = t" for x
    using assms(2) tn that by (auto simp: table_names_def distinct_map inj_on_def)
  then have "map (\<lambda>x. if tb_name x = t then tb\<lparr>tb_columns := update_where (\<lambda>x. cn_name x = c) f (tb_columns tb)\<rparr> else x) s
      = alter_listed [(t, c)] f s"
    by (auto simp: alter_listed_def update_where_def intro!: map_cong)
  with tb show ?thesis by (simp add: alter_column_def with_table_def)
qed

lemma alter_listed_Cons:
  assumes "\<And>x. f (f x) = f x" and "\<And>x. cn_name (f x) = cn_name x"
  shows "alter_listed ps f (alter_listed [p] f s) = alter_listed (p # ps) f s"
  using assms by (cases p) (auto simp: alter_listed_def comp_def intro!: map_cong)

lemma alter_listed_Nil [simp]: "alter_listed [] f s = s"
  by (simp add: alter_listed_def map_idI)

lemma alter_columns_eq:
  assumes "\<forall>(t, c)\<in>set ps. has_column s t c" and "distinct (table_names s)"
    and "\<And>x. f (f x) = f x" and "\<And>x. cn_name (f x) = cn_name x"
  shows "steps (map (\<lambda>(t, c). alter_column t c f) ps) s = Inr (alter_listed ps f s)"
  using assms(1,2)
proof (induction ps arbitrary: s)
  case (Cons p ps)
  obtain t c where p: "p = (t, c)" by (cases p)
  let ?s = "alter_listed [(t, c)] f s"
  have one: "alter_column t c f s = Inr ?s" using Cons.prems p assms(4) by (intro alter_column_eq) auto
  have names: "table_names ?s = table_names s" by (simp add: table_names_def alter_listed_def)
  have "has_column ?s t' c' = has_column s t' c'" for t' c'
  proof -
    have "find_table t' ?s = map_option (\<lambda>x. x\<lparr>tb_columns :=
        map (\<lambda>y. if (tb_name x, cn_name y) \<in> set [(t, c)] then f y else y) (tb_columns x)\<rparr>) (find_table t' s)"
      unfolding alter_listed_def by (rule find_table_map) simp
    moreover have "column_names (x\<lparr>tb_columns := map (\<lambda>y. if P y then f y else y) (tb_columns x)\<rparr>) = column_names x" for P x
      using assms(4) by (simp add: column_names_def)
    ultimately show ?thesis by (cases "find_table t' s") (simp_all only: has_column_def option.map option.case)
  qed
  then have "steps (map (\<lambda>(t, c). alter_column t c f) ps) ?s = Inr (alter_listed ps f ?s)"
    using Cons.prems names by (intro Cons.IH) auto
  with one show ?case using assms(3,4) by (simp add: p alter_listed_Cons)
qed simp

section \<open>Parts of a schema\<close>

lemma find_table_append:
  "find_table n (s @ r) = (case find_table n s of None \<Rightarrow> find_table n r | Some t \<Rightarrow> Some t)"
  by (induction s) (simp_all add: find_table_def)

lemma find_table_None: "find_table n s = None \<longleftrightarrow> n \<notin> set (table_names s)"
  by (induction s) (auto simp: find_table_def table_names_def)

lemma with_table_append:
  assumes "n \<notin> set (table_names s)"
  shows "with_table n f (s @ r) = rbind (with_table n f r) (\<lambda>r'. Inr (s @ r'))"
proof -
  have "find_table n s = None" using assms by (simp add: find_table_None)
  moreover have "map (\<lambda>x. if tb_name x = n then t else x) s = s" for t
    using assms by (intro map_idI) (auto simp: table_names_def)
  ultimately show ?thesis by (auto simp: with_table_def find_table_append rbind_def split: option.splits sum.splits)
qed

lemma has_column_append:
  "has_column (s @ r) t c = (if t \<in> set (table_names s) then has_column s t c else has_column r t c)"
  using find_table_None [of t s] by (auto simp: has_column_def find_table_append split: option.splits)

lemma alter_column_same:
  assumes "find_table n s = Some t" and "distinct (table_names s)" and "c \<in> set (column_names t)"
    and "update_where (\<lambda>x. cn_name x = c) f (tb_columns t) = tb_columns t"
  shows "alter_column n c f s = Inr s"
proof -
  from assms(1) have tn: "t \<in> set s" "tb_name t = n" using find_table_Some by blast+
  have "x = t" if "x \<in> set s" "tb_name x = n" for x
    using assms(2) tn that by (auto simp: table_names_def distinct_map inj_on_def)
  then have "map (\<lambda>x. if tb_name x = n then t else x) s = s" by (intro map_idI) auto
  then show ?thesis using assms(1,3,4) by (simp add: alter_column_def with_table_def)
qed

lemma names_append:
  "table_names (s @ r) = table_names s @ table_names r" "index_names (s @ r) = index_names s @ index_names r"
  by (simp_all add: table_names_def index_names_def)

lemma names_Cons:
  "table_names [] = []" "table_names (t # s) = tb_name t # table_names s"
  "index_names [] = []" "index_names (t # s) = map fst (tb_indexes t) @ index_names s"
  by (simp_all add: table_names_def index_names_def)

lemma find_table_Cons: "find_table n [] = None" "find_table n (t # s) = (if tb_name t = n then Some t else find_table n s)"
  by (simp_all add: find_table_def)

lemma with_table_Cons:
  "tb_name t \<noteq> n \<Longrightarrow> with_table n f (t # s) = rbind (with_table n f s) (\<lambda>r. Inr (t # r))"
  "tb_name t = n \<Longrightarrow> n \<notin> set (table_names s) \<Longrightarrow> with_table n f (t # s) = rbind (f t) (\<lambda>u. Inr (u # s))"
proof -
  show "tb_name t \<noteq> n \<Longrightarrow> with_table n f (t # s) = rbind (with_table n f s) (\<lambda>r. Inr (t # r))"
    using with_table_append [of n "[t]" f s] by (simp add: names_Cons)
  assume "tb_name t = n" "n \<notin> set (table_names s)"
  then have "map (\<lambda>x. if tb_name x = n then u else x) s = s" for u
    by (intro map_idI) (auto simp: table_names_def image_iff)
  with \<open>tb_name t = n\<close> show "with_table n f (t # s) = rbind (f t) (\<lambda>u. Inr (u # s))"
    by (simp add: with_table_def find_table_Cons)
qed

lemmas schema_simps = names_append names_Cons find_table_append find_table_Cons with_table_append with_table_Cons

end
