(* ===== verification/Migrations.thy ===== *)
theory Migrations
  imports Schema
begin

text \<open>
  The migrations of \<open>alembic/versions\<close> as operations on schemas, and the tables the models of
  \<open>app/models\<close> declare. What the migrations do to stored rows is in \<open>MigratedRows\<close>.
\<close>

section \<open>The initial schema\<close>

definition users_columns :: "column list" where
  "users_columns =
    [key (col ''id'' TUuid),
     uniq (req (col ''username'' (TStr 64))),
     uniq (req (col ''email'' (TStr 255))),
     req (col ''password_hash'' (TStr 512)),
     dflt ''viewer'' (req (col ''role'' (TStr 32))),
     col ''mfa_secret'' (TStr 1024),
     dflt ''false'' (req (col ''mfa_enabled'' TBool)),
     dflt ''0'' (req (col ''failed_attempts'' TInt)),
     col ''locked_until'' TTime,
     col ''last_login'' TTime,
     dflt ''true'' (req (col ''is_active'' TBool)),
     dflt ''now()'' (col ''created_at'' TTime)]"

definition assets_columns :: "column list" where
  "assets_columns =
    [key (col ''id'' TUuid),
     req (col ''name'' (TStr 255)),
     req (col ''type'' (TStr 64)),
     col ''os'' (TStr 255),
     col ''ip'' TInet,
     col ''mac'' TMac,
     col ''segment'' (TStr 64),
     col ''edr_status'' (TStr 128),
     dflt ''none'' (col ''control_coverage'' (TStr 16)),
     dflt ''internal'' (col ''network_exposure'' (TStr 32)),
     dflt ''password'' (col ''auth_method'' (TStr 32)),
     dflt ''medium'' (col ''criticality'' (TStr 16)),
     dflt ''Internal'' (col ''data_classification'' (TStr 32)),
     dflt ''[]'' (col ''dependencies'' TJson),
     dflt ''[]'' (col ''software_stack'' TJson),
     dflt ''[]'' (col ''cpe'' TJson),
     col ''last_patch'' (TStr 32),
     dflt ''false'' (col ''eol_status'' TBool),
     dflt ''0'' (col ''risk_score'' TFloat),
     dflt ''Informational'' (col ''risk_tier'' (TStr 16)),
     dflt ''{}'' (col ''risk_breakdown'' TJson),
     dflt ''[]'' (col ''sources'' TJson),
     dflt ''now()'' (col ''first_seen'' TTime),
     dflt ''now()'' (col ''last_seen'' TTime),
     dflt ''false'' (col ''is_shadow'' TBool),
     dflt ''false'' (col ''is_stale'' TBool),
     dflt ''[]'' (col ''tags'' TJson),
     dflt ''{}'' (col ''attrs'' TJson)]"

definition cves_columns :: "column list" where
  "cves_columns =
    [key (col ''id'' (TStr 32)),
     col ''cvss_v3'' TFloat,
     col ''cvss_vector'' (TStr 128),
     col ''epss_score'' TFloat,
     col ''epss_percentile'' TFloat,
     dflt ''false'' (col ''kev'' TBool),
     col ''kev_date_added'' TTime,
     col ''description'' TText,
     dflt ''[]'' (col ''affected_cpes'' TJson),
     col ''published'' TTime,
     col ''modified'' TTime,
     dflt ''now()'' (col ''last_synced'' TTime)]"

definition asset_cves_columns :: "column list" where
  "asset_cves_columns =
    [ref ''assets'' ''id'' ''CASCADE'' (key (col ''asset_id'' TUuid)),
     ref ''cves'' ''id'' ''NO ACTION'' (key (col ''cve_id'' (TStr 32))),
     col ''matched_cpe'' (TStr 512),
     dflt ''now()'' (col ''discovered_at'' TTime),
     dflt ''false'' (col ''suppressed'' TBool),
     dflt ''false'' (col ''remediated'' TBool)]"

definition scans_columns :: "column list" where
  "scans_columns =
    [key (col ''id'' TUuid),
     req (col ''scan_type'' (TStr 32)),
     req (col ''target'' (TStr 255)),
     dflt ''pending'' (col ''status'' (TStr 32)),
     col ''started_at'' TTime,
     col ''completed_at'' TTime,
     dflt ''0'' (col ''hosts_found'' TInt),
     col ''raw_output'' TText,
     col ''error'' TText,
     dflt ''scheduler'' (col ''triggered_by'' (TStr 64)),
     dflt ''now()'' (col ''created_at'' TTime)]"

definition alerts_columns :: "column list" where
  "alerts_columns =
    [key (col ''id'' TUuid),
     req (col ''alert_type'' (TStr 64)),
     req (col ''severity'' (TStr 16)),
     req (col ''title'' (TStr 255)),
     req (col ''description'' TText),
     ref ''assets'' ''id'' ''SET NULL'' (col ''asset_id'' TUuid),
     dflt ''{}'' (col ''details'' TJson),
     dflt ''open'' (col ''status'' (TStr 16)),
     dflt ''false'' (col ''notified'' TBool),
     dflt ''[]'' (col ''notification_channels'' TJson),
     dflt ''now()'' (col ''created_at'' TTime),
     col ''resolved_at'' TTime,
     col ''resolved_by'' (TStr 64)]"

definition audit_log_columns :: "column list" where
  "audit_log_columns =
    [key (col ''id'' TUuid),
     dflt ''now()'' (col ''timestamp'' TTime),
     col ''user_id'' TUuid,
     col ''username'' (TStr 64),
     req (col ''action'' (TStr 128)),
     col ''resource_type'' (TStr 64),
     col ''resource_id'' (TStr 64),
     col ''ip_address'' (TStr 64),
     col ''user_agent'' (TStr 512),
     dflt ''info'' (col ''severity'' (TStr 16)),
     dflt ''{}'' (col ''details'' TJson)]"

definition integrations_columns :: "column list" where
  "integrations_columns =
    [key (col ''id'' TUuid),
     uniq (req (col ''name'' (TStr 64))),
     req (col ''connector_type'' (TStr 32)),
     dflt ''true'' (col ''enabled'' TBool),
     dflt ''{}'' (col ''config'' TJson),
     dflt ''0 */6 * * *'' (col ''schedule_cron'' (TStr 64)),
     col ''last_run'' TTime,
     col ''last_status'' (TStr 32),
     dflt ''0'' (col ''assets_reported'' TInt),
     dflt ''5'' (col ''priority'' TInt),
     dflt ''0'' (col ''failure_count'' TInt),
     dflt ''now()'' (col ''created_at'' TTime)]"

definition scan_networks_columns :: "column list" where
  "scan_networks_columns =
    [key (col ''id'' TUuid),
     uniq (req (col ''cidr'' (TStr 64))),
     req (col ''name'' (TStr 128)),
     dflt ''true'' (col ''enabled'' TBool),
     dflt ''discovery'' (col ''scan_type'' (TStr 32)),
     dflt ''[]'' (col ''excluded_ips'' TJson),
     dflt ''now()'' (col ''created_at'' TTime)]"

definition compliance_mappings_columns :: "column list" where
  "compliance_mappings_columns =
    [key (col ''id'' TUuid),
     req (col ''framework'' (TStr 32)),
     req (col ''control_id'' (TStr 32)),
     ref ''assets'' ''id'' ''CASCADE'' (req (col ''asset_id'' TUuid)),
     dflt ''unknown'' (col ''status'' (TStr 16)),
     dflt ''{}'' (col ''evidence'' TJson),
     dflt ''now()'' (col ''assessed_at'' TTime)]"

definition upgrade_0001 :: "schema \<Rightarrow> schema result" where
  "upgrade_0001 = steps
    [create_table ''users'' users_columns [],
     create_index ''ix_users_username'' ''users'' [''username''],
     create_index ''ix_users_email'' ''users'' [''email''],
     create_table ''assets'' assets_columns [],
     create_index ''ix_assets_name'' ''assets'' [''name''],
     create_index ''ix_assets_ip'' ''assets'' [''ip''],
     create_index ''ix_assets_mac'' ''assets'' [''mac''],
     create_index ''ix_assets_segment'' ''assets'' [''segment''],
     create_index ''ix_assets_type'' ''assets'' [''type''],
     create_index ''ix_assets_risk_tier_score'' ''assets'' [''risk_tier'', ''risk_score''],
     create_index ''ix_assets_segment_criticality'' ''assets'' [''segment'', ''criticality''],
     create_index ''ix_assets_is_shadow'' ''assets'' [''is_shadow''],
     create_index ''ix_assets_is_stale'' ''assets'' [''is_stale''],
     create_table ''cves'' cves_columns [],
     create_index ''ix_cves_kev'' ''cves'' [''kev''],
     create_index ''ix_cves_epss'' ''cves'' [''epss_score''],
     create_table ''asset_cves'' asset_cves_columns [],
     create_table ''scans'' scans_columns [],
     create_table ''alerts'' alerts_columns [],
     create_index ''ix_alerts_type'' ''alerts'' [''alert_type''],
     create_index ''ix_alerts_severity'' ''alerts'' [''severity''],
     create_index ''ix_alerts_status'' ''alerts'' [''status''],
     create_index ''ix_alerts_created_at'' ''alerts'' [''created_at''],
     create_table ''audit_log'' audit_log_columns [],
     create_index ''ix_audit_timestamp'' ''audit_log'' [''timestamp''],
     create_index ''ix_audit_action'' ''audit_log'' [''action''],
     create_table ''integrations'' integrations_columns [],
     create_table ''scan_networks'' scan_networks_columns [],
     create_table ''compliance_mappings'' compliance_mappings_columns [],
     create_index ''ix_compliance_framework_control'' ''compliance_mappings'' [''framework'', ''control_id'']]"

definition downgrade_0001 :: "schema \<Rightarrow> schema result" where
  "downgrade_0001 = steps
    [drop_table ''compliance_mappings'',
     drop_table ''scan_networks'',
     drop_table ''integrations'',
     drop_table ''audit_log'',
     drop_table ''alerts'',
     drop_table ''scans'',
     drop_table ''asset_cves'',
     drop_table ''cves'',
     drop_table ''assets'',
     drop_table ''users'']"

section \<open>Packages, findings and proposals\<close>

definition platform_dependencies_columns :: "column list" where
  "platform_dependencies_columns =
    [key (col ''id'' TUuid),
     req (col ''component'' (TStr 64)),
     req (col ''package_type'' (TStr 16)),
     req (col ''name'' (TStr 128)),
     req (col ''version'' (TStr 64)),
     col ''latest_version'' (TStr 64),
     col ''purl'' (TStr 512),
     col ''license'' (TStr 64),
     dflt ''true'' (col ''direct'' TBool),
     dflt ''now()'' (col ''last_checked'' TTime),
     dflt ''0'' (col ''cve_count'' TInt),
     dflt ''0'' (col ''kev_count'' TInt),
     col ''max_cvss'' TFloat,
     dflt ''false'' (col ''update_available'' TBool),
     col ''update_blocked_reason'' (TStr 255)]"

definition dependency_findings_columns :: "column list" where
  "dependency_findings_columns =
    [key (col ''id'' TUuid),
     ref ''platform_dependencies'' ''id'' ''CASCADE'' (req (col ''dependency_id'' TUuid)),
     req (col ''cve_id'' (TStr 32)),
     col ''cvss'' TFloat,
     col ''epss'' TFloat,
     dflt ''false'' (col ''kev'' TBool),
     col ''description'' TText,
     col ''fixed_version'' (TStr 64),
     dflt ''medium'' (col ''severity'' (TStr 16)),
     dflt ''now()'' (col ''discovered_at'' TTime),
     dflt ''false'' (col ''suppressed'' TBool),
     col ''suppressed_reason'' (TStr 255),
     col ''suppressed_by'' (TStr 64),
     col ''suppressed_until'' TTime]"

definition update_proposals_columns :: "column list" where
  "update_proposals_columns =
    [key (col ''id'' TUuid),
     ref ''platform_dependencies'' ''id'' ''CASCADE'' (req (col ''dependency_id'' TUuid)),
     req (col ''component'' (TStr 64)),
     req (col ''package_name'' (TStr 128)),
     req (col ''current_version'' (TStr 64)),
     req (col ''target_version'' (TStr 64)),
     req (col ''reason'' (TStr 64)),
     dflt ''[]'' (col ''cves_fixed'' TJson),
     dflt ''{}'' (col ''ai_assessment'' TJson),
     col ''ai_recommendation'' (TStr 32),
     col ''ai_risk_score'' TFloat,
     dflt ''false'' (col ''breaking_changes_detected'' TBool),
     col ''compatibility_notes'' TText,
     dflt ''proposed'' (col ''status'' (TStr 32)),
     col ''approved_by'' (TStr 64),
     col ''approved_at'' TTime,
     col ''applied_at'' TTime,
     dflt ''{}'' (col ''rollback_snapshot'' TJson),
     col ''error_message'' TText,
     dflt ''now()'' (col ''created_at'' TTime)]"

definition self_security_settings_columns :: "column list" where
  "self_security_settings_columns =
    [key (col ''id'' TInt),
     dflt ''true'' (col ''auto_scan_enabled'' TBool),
     dflt ''0 1 * * *'' (col ''scan_cron'' (TStr 64)),
     dflt ''false'' (col ''auto_update_enabled'' TBool),
     dflt ''critical'' (col ''auto_update_severity_threshold'' (TStr 16)),
     dflt ''true'' (col ''auto_update_only_patch'' TBool),
     dflt ''true'' (col ''auto_update_only_kev'' TBool),
     dflt ''true'' (col ''require_ai_validation'' TBool),
     dflt ''true'' (col ''require_admin_approval'' TBool),
     dflt ''true'' (col ''auto_rollback_on_failure'' TBool),
     dflt ''0 2 * * 0'' (col ''maintenance_window_cron'' (TStr 64)),
     dflt (''['' @ [CHR 0x22] @ ''slack'' @ [CHR 0x22] @ '', '' @ [CHR 0x22] @ ''email'' @ [CHR 0x22] @ '']'') (col ''notify_channels'' TJson),
     dflt ''claude-sonnet-4-20250514'' (col ''ai_model'' (TStr 64)),
     dflt ''[]'' (col ''excluded_packages'' TJson),
     dflt ''never'' (col ''last_scan_status'' (TStr 16)),
     col ''last_scan_error'' TText,
     col ''last_scan_at'' TTime,
     col ''last_successful_scan_at'' TTime,
     dflt ''0'' (col ''packages_scanned'' TInt),
     dflt ''now()'' (col ''updated_at'' TTime),
     col ''updated_by'' (TStr 64)]"

definition upgrade_0002 :: "schema \<Rightarrow> schema result" where
  "upgrade_0002 = steps
    [create_table ''platform_dependencies'' platform_dependencies_columns [],
     create_index ''ix_pdep_component'' ''platform_dependencies'' [''component''],
     create_index ''ix_pdep_name'' ''platform_dependencies'' [''name''],
     create_index ''ix_pdep_name_version'' ''platform_dependencies'' [''name'', ''version''],
     create_table ''dependency_findings'' dependency_findings_columns [(''uq_dependency_findings_dep_cve'', [''dependency_id'', ''cve_id''])],
     create_index ''ix_dfind_cve'' ''dependency_findings'' [''cve_id''],
     create_table ''update_proposals'' update_proposals_columns [],
     create_index ''ix_uprop_status'' ''update_proposals'' [''status''],
     create_table ''self_security_settings'' self_security_settings_columns []]"

definition downgrade_0002 :: "schema \<Rightarrow> schema result" where
  "downgrade_0002 = steps
    [drop_table ''self_security_settings'',
     drop_table ''update_proposals'',
     drop_table ''dependency_findings'',
     drop_table ''platform_dependencies'']"

section \<open>Tokens and webhooks\<close>

definition api_tokens_columns :: "column list" where
  "api_tokens_columns =
    [key (col ''id'' TUuid),
     req (col ''name'' (TStr 128)),
     req (col ''token_hash'' (TStr 256)),
     req (col ''token_prefix'' (TStr 16)),
     dflt ''[]'' (col ''scopes'' TJson),
     col ''created_by'' (TStr 64),
     dflt ''now()'' (col ''created_at'' TTime),
     col ''expires_at'' TTime,
     col ''last_used'' TTime,
     dflt ''false'' (col ''revoked'' TBool),
     dflt ''0'' (col ''usage_count'' TInt)]"

definition webhooks_columns :: "column list" where
  "webhooks_columns =
    [key (col ''id'' TUuid),
     req (col ''name'' (TStr 128)),
     req (col ''url'' (TStr 512)),
     req (col ''secret_hash'' (TStr 256)),
     req (col ''secret_prefix'' (TStr 16)),
     req (col ''secret_encrypted'' (TStr 1024)),
     req (col ''secret_salt'' (TStr 64)),
     dflt ''[]'' (col ''event_types'' TJson),
     dflt ''[]'' (col ''severity_filter'' TJson),
     dflt ''true'' (col ''enabled'' TBool),
     dflt ''now()'' (col ''created_at'' TTime),
     col ''last_delivery'' TTime,
     dflt ''0'' (col ''delivery_count'' TInt),
     dflt ''0'' (col ''failure_count'' TInt),
     col ''last_status'' (TStr 32)]"

definition upgrade_0003 :: "schema \<Rightarrow> schema result" where
  "upgrade_0003 = steps
    [create_table ''api_tokens'' api_tokens_columns [],
     create_index ''ix_api_tokens_prefix'' ''api_tokens'' [''token_prefix''],
     create_table ''webhooks'' webhooks_columns [],
     create_index ''ix_webhooks_secret_prefix'' ''webhooks'' [''secret_prefix'']]"

definition downgrade_0003 :: "schema \<Rightarrow> schema result" where
  "downgrade_0003 = steps
    [drop_index ''ix_webhooks_secret_prefix'',
     drop_table ''webhooks'',
     drop_table ''api_tokens'']"

section \<open>Retention\<close>

definition upgrade_0004 :: "schema \<Rightarrow> schema result" where
  "upgrade_0004 = steps
    [add_column ''audit_log'' (dflt ''false'' (req (col ''archived'' TBool))),
     create_index ''ix_audit_log_archived_timestamp'' ''audit_log'' [''archived'', ''timestamp''],
     create_index_if_absent ''ix_asset_cves_cve_id'' ''asset_cves'' [''cve_id''],
     create_index_if_absent ''ix_dependency_findings_severity'' ''dependency_findings'' [''severity'']]"

definition downgrade_0004 :: "schema \<Rightarrow> schema result" where
  "downgrade_0004 = steps
    [drop_index ''ix_audit_log_archived_timestamp'',
     drop_column ''audit_log'' ''archived'',
     drop_index ''ix_asset_cves_cve_id'',
     drop_index ''ix_dependency_findings_severity'']"

section \<open>Remediation\<close>

text \<open>Columns that older installations lack.\<close>

definition settings_additions :: "column list" where
  "settings_additions =
    [dflt ''never'' (req (col ''last_scan_status'' (TStr 16))), col ''last_scan_error'' TText, col ''last_scan_at'' TTime,
     col ''last_successful_scan_at'' TTime, dflt ''0'' (req (col ''packages_scanned'' TInt))]"

definition secure_columns :: "column list" where
  "secure_columns =
    [col ''secret_hash'' (TStr 256), col ''secret_prefix'' (TStr 16), col ''secret_encrypted'' (TStr 1024), col ''secret_salt'' (TStr 64)]"

definition add_missing :: "string \<Rightarrow> schema \<Rightarrow> column \<Rightarrow> schema \<Rightarrow> schema result" where
  "add_missing t before c = unless (has_column before t (cn_name c)) (add_column t c)"

text \<open>The schema before the migration decides what is missing.\<close>

definition upgrade_0005 :: "schema \<Rightarrow> schema result" where
  "upgrade_0005 s = steps
    ([alter_column ''users'' ''mfa_secret'' (of_type (TStr 1024))]
     @ map (add_missing ''self_security_settings'' s) settings_additions
     @ [add_missing ''audit_log'' s (dflt ''false'' (req (col ''archived'' TBool))),
        alter_column ''audit_log'' ''ip_address'' (of_type (TStr 64))]
     @ map (add_missing ''webhooks'' s) secure_columns
     @ map (\<lambda>c. alter_column ''webhooks'' (cn_name c) (nullable False)) secure_columns
     @ [unless (\<not> has_column s ''webhooks'' ''secret'') (drop_column ''webhooks'' ''secret''),
        (\<lambda>r. unless (has_index r ''webhooks'' ''ix_webhooks_secret_prefix'')
          (create_index ''ix_webhooks_secret_prefix'' ''webhooks'' [''secret_prefix'']) r),
        (\<lambda>r. unless (has_index r ''asset_cves'' ''ix_asset_cves_cve_id'')
          (create_index ''ix_asset_cves_cve_id'' ''asset_cves'' [''cve_id'']) r),
        (\<lambda>r. unless (has_index r ''dependency_findings'' ''ix_dependency_findings_severity'')
          (create_index ''ix_dependency_findings_severity'' ''dependency_findings'' [''severity'']) r),
        (\<lambda>r. unless (has_unique r ''dependency_findings'' ''uq_dependency_findings_dep_cve'')
          (create_unique ''uq_dependency_findings_dep_cve'' ''dependency_findings'' [''dependency_id'', ''cve_id'']) r)]) s"

definition downgrade_0005 :: "schema \<Rightarrow> schema result" where
  "downgrade_0005 s = Inl (RuntimeError ''0005 removes legacy plaintext webhook secrets and cannot be safely downgraded'')"


section \<open>Alignment\<close>

text \<open>The columns that become required, with the SQL text of the value that replaces a null.\<close>

definition REQUIRED_COLUMNS :: "(string \<times> (string \<times> string) list) list" where
  "REQUIRED_COLUMNS =
    [(''alerts'', [(''details'', ([CHR 0x27] @ ''{}'' @ [CHR 0x27] @ ''::jsonb'')),
        (''status'', ([CHR 0x27] @ ''open'' @ [CHR 0x27])),
        (''notified'', ''false''),
        (''notification_channels'', ([CHR 0x27] @ ''[]'' @ [CHR 0x27] @ ''::jsonb'')),
        (''created_at'', ''now()'')]),
     (''api_tokens'', [(''scopes'', ([CHR 0x27] @ ''[]'' @ [CHR 0x27] @ ''::jsonb'')),
        (''created_by'', ([CHR 0x27] @ ''legacy_migration'' @ [CHR 0x27])),
        (''created_at'', ''now()''),
        (''revoked'', ''false''),
        (''usage_count'', ''0'')]),
     (''asset_cves'', [(''discovered_at'', ''now()''),
        (''suppressed'', ''false''),
        (''remediated'', ''false'')]),
     (''assets'', [(''control_coverage'', ([CHR 0x27] @ ''none'' @ [CHR 0x27])),
        (''network_exposure'', ([CHR 0x27] @ ''internal'' @ [CHR 0x27])),
        (''auth_method'', ([CHR 0x27] @ ''password'' @ [CHR 0x27])),
        (''criticality'', ([CHR 0x27] @ ''medium'' @ [CHR 0x27])),
        (''data_classification'', ([CHR 0x27] @ ''Internal'' @ [CHR 0x27])),
        (''dependencies'', ([CHR 0x27] @ ''[]'' @ [CHR 0x27] @ ''::jsonb'')),
        (''software_stack'', ([CHR 0x27] @ ''[]'' @ [CHR 0x27] @ ''::jsonb'')),
        (''cpe'', ([CHR 0x27] @ ''[]'' @ [CHR 0x27] @ ''::jsonb'')),
        (''eol_status'', ''false''),
        (''risk_score'', ''0''),
        (''risk_tier'', ([CHR 0x27] @ ''Informational'' @ [CHR 0x27])),
        (''risk_breakdown'', ([CHR 0x27] @ ''{}'' @ [CHR 0x27] @ ''::jsonb'')),
        (''sources'', ([CHR 0x27] @ ''[]'' @ [CHR 0x27] @ ''::jsonb'')),
        (''first_seen'', ''now()''),
        (''last_seen'', ''now()''),
        (''is_shadow'', ''false''),
        (''is_stale'', ''false''),
        (''tags'', ([CHR 0x27] @ ''[]'' @ [CHR 0x27] @ ''::jsonb'')),
        (''attrs'', ([CHR 0x27] @ ''{}'' @ [CHR 0x27] @ ''::jsonb''))]),
     (''audit_log'', [(''timestamp'', ''now()''),
        (''severity'', ([CHR 0x27] @ ''info'' @ [CHR 0x27])),
        (''details'', ([CHR 0x27] @ ''{}'' @ [CHR 0x27] @ ''::jsonb''))]),
     (''compliance_mappings'', [(''status'', ([CHR 0x27] @ ''unknown'' @ [CHR 0x27])),
        (''evidence'', ([CHR 0x27] @ ''{}'' @ [CHR 0x27] @ ''::jsonb'')),
        (''assessed_at'', ''now()'')]),
     (''cves'', [(''kev'', ''false''),
        (''affected_cpes'', ([CHR 0x27] @ ''[]'' @ [CHR 0x27] @ ''::jsonb'')),
        (''last_synced'', ''now()'')]),
     (''dependency_findings'', [(''kev'', ''false''),
        (''severity'', ([CHR 0x27] @ ''medium'' @ [CHR 0x27])),
        (''discovered_at'', ''now()''),
        (''suppressed'', ''false'')]),
     (''integrations'', [(''enabled'', ''false''),
        (''config'', ([CHR 0x27] @ ''{}'' @ [CHR 0x27] @ ''::jsonb'')),
        (''schedule_cron'', ([CHR 0x27] @ ''0 */6 * * *'' @ [CHR 0x27])),
        (''assets_reported'', ''0''),
        (''priority'', ''5''),
        (''failure_count'', ''0''),
        (''created_at'', ''now()'')]),
     (''platform_dependencies'', [(''direct'', ''true''),
        (''last_checked'', ''now()''),
        (''cve_count'', ''0''),
        (''kev_count'', ''0''),
        (''update_available'', ''false'')]),
     (''scan_networks'', [(''enabled'', ''true''),
        (''scan_type'', ([CHR 0x27] @ ''discovery'' @ [CHR 0x27])),
        (''excluded_ips'', ([CHR 0x27] @ ''[]'' @ [CHR 0x27] @ ''::jsonb'')),
        (''created_at'', ''now()'')]),
     (''scans'', [(''status'', ([CHR 0x27] @ ''pending'' @ [CHR 0x27])),
        (''hosts_found'', ''0''),
        (''triggered_by'', ([CHR 0x27] @ ''scheduler'' @ [CHR 0x27])),
        (''created_at'', ''now()'')]),
     (''self_security_settings'', [(''auto_scan_enabled'', ''true''),
        (''scan_cron'', ([CHR 0x27] @ ''0 1 * * *'' @ [CHR 0x27])),
        (''auto_update_enabled'', ''false''),
        (''auto_update_severity_threshold'', ([CHR 0x27] @ ''critical'' @ [CHR 0x27])),
        (''auto_update_only_patch'', ''true''),
        (''auto_update_only_kev'', ''true''),
        (''require_ai_validation'', ''true''),
        (''require_admin_approval'', ''true''),
        (''auto_rollback_on_failure'', ''true''),
        (''notify_channels'', ([CHR 0x27] @ ''['' @ [CHR 0x22] @ ''slack'' @ [CHR 0x22] @ '', '' @ [CHR 0x22] @ ''email'' @ [CHR 0x22] @ '']'' @ [CHR 0x27] @ ''::jsonb'')),
        (''ai_model'', ([CHR 0x27] @ ''claude-sonnet-4-20250514'' @ [CHR 0x27])),
        (''excluded_packages'', ([CHR 0x27] @ ''[]'' @ [CHR 0x27] @ ''::jsonb'')),
        (''last_scan_status'', ([CHR 0x27] @ ''never'' @ [CHR 0x27])),
        (''packages_scanned'', ''0''),
        (''updated_at'', ''now()'')]),
     (''update_proposals'', [(''cves_fixed'', ([CHR 0x27] @ ''[]'' @ [CHR 0x27] @ ''::jsonb'')),
        (''ai_assessment'', ([CHR 0x27] @ ''{}'' @ [CHR 0x27] @ ''::jsonb'')),
        (''breaking_changes_detected'', ''false''),
        (''status'', ([CHR 0x27] @ ''proposed'' @ [CHR 0x27])),
        (''rollback_snapshot'', ([CHR 0x27] @ ''{}'' @ [CHR 0x27] @ ''::jsonb'')),
        (''created_at'', ''now()'')]),
     (''users'', [(''created_at'', ''now()'')]),
     (''webhooks'', [(''event_types'', ([CHR 0x27] @ ''[]'' @ [CHR 0x27] @ ''::jsonb'')),
        (''severity_filter'', ([CHR 0x27] @ ''[]'' @ [CHR 0x27] @ ''::jsonb'')),
        (''enabled'', ''false''),
        (''created_at'', ''now()''),
        (''delivery_count'', ''0''),
        (''failure_count'', ''0'')])]"

definition require_columns :: "bool \<Rightarrow> (string \<times> (string \<times> string) list) list \<Rightarrow> (schema \<Rightarrow> schema result) list" where
  "require_columns b tcs = concat (map (\<lambda>(t, cs). map (\<lambda>(c, fallback). alter_column t c (nullable b)) cs) tcs)"

definition upgrade_0006 :: "schema \<Rightarrow> schema result" where
  "upgrade_0006 = steps (require_columns False REQUIRED_COLUMNS
     @ [create_index_if_absent ''ix_assets_risk_score'' ''assets'' [''risk_score''],
        create_index_if_absent ''ix_assets_risk_tier'' ''assets'' [''risk_tier'']])"

definition downgrade_0006 :: "schema \<Rightarrow> schema result" where
  "downgrade_0006 = steps
     ([drop_index_if_there ''ix_assets_risk_tier'', drop_index_if_there ''ix_assets_risk_score'']
      @ require_columns True (rev REQUIRED_COLUMNS))"


section \<open>Assessments and evidence\<close>

definition framework_catalogs_columns :: "column list" where
  "framework_catalogs_columns =
    [key (col ''id'' TUuid),
     req (col ''code'' (TStr 64)),
     req (col ''version'' (TStr 32)),
     req (col ''name'' (TStr 128)),
     col ''source_url'' (TStr 512),
     dflt ''true'' (req (col ''active'' TBool)),
     dflt ([CHR 0x27] @ ''{}'' @ [CHR 0x27] @ ''::jsonb'') (req (col ''metadata_json'' TJson)),
     dflt ''now()'' (req (col ''created_at'' TTime))]"

definition framework_controls_columns :: "column list" where
  "framework_controls_columns =
    [key (col ''id'' TUuid),
     ref ''framework_catalogs'' ''id'' ''CASCADE'' (req (col ''catalog_id'' TUuid)),
     req (col ''control_id'' (TStr 64)),
     req (col ''title'' (TStr 255)),
     req (col ''objective'' TText),
     col ''family'' (TStr 128),
     req (col ''rule_key'' (TStr 64)),
     dflt ''asset_observation'' (req (col ''assessment_method'' (TStr 64))),
     dflt ([CHR 0x27] @ ''[]'' @ [CHR 0x27] @ ''::jsonb'') (req (col ''evidence_requirements'' TJson)),
     dflt ''0'' (req (col ''sort_order'' TInt)),
     dflt ([CHR 0x27] @ ''{}'' @ [CHR 0x27] @ ''::jsonb'') (req (col ''metadata_json'' TJson))]"

definition assessment_runs_columns :: "column list" where
  "assessment_runs_columns =
    [key (col ''id'' TUuid),
     req (col ''framework_code'' (TStr 64)),
     req (col ''framework_version'' (TStr 32)),
     dflt ''queued'' (req (col ''status'' (TStr 32))),
     dflt ([CHR 0x27] @ ''{}'' @ [CHR 0x27] @ ''::jsonb'') (req (col ''scope'' TJson)),
     dflt ([CHR 0x27] @ ''{}'' @ [CHR 0x27] @ ''::jsonb'') (req (col ''methodology'' TJson)),
     dflt ([CHR 0x27] @ ''{}'' @ [CHR 0x27] @ ''::jsonb'') (req (col ''summary'' TJson)),
     col ''started_at'' TTime,
     col ''completed_at'' TTime,
     dflt ''scheduler'' (req (col ''initiated_by'' (TStr 64))),
     dflt ''now()'' (req (col ''created_at'' TTime))]"

definition assessment_results_columns :: "column list" where
  "assessment_results_columns =
    [key (col ''id'' TUuid),
     ref ''assessment_runs'' ''id'' ''CASCADE'' (req (col ''run_id'' TUuid)),
     ref ''framework_controls'' ''id'' ''CASCADE'' (req (col ''control_id'' TUuid)),
     ref ''assets'' ''id'' ''CASCADE'' (col ''asset_id'' TUuid),
     dflt ''not_assessed'' (req (col ''status'' (TStr 24))),
     col ''score'' TFloat,
     dflt ''1'' (req (col ''confidence'' TFloat)),
     dflt '''' (req (col ''rationale'' TText)),
     req (col ''rule_key'' (TStr 64)),
     dflt ''now()'' (req (col ''assessed_at'' TTime)),
     col ''expires_at'' TTime]"

definition evidence_items_columns :: "column list" where
  "evidence_items_columns =
    [key (col ''id'' TUuid),
     req (col ''source_type'' (TStr 64)),
     req (col ''source_ref'' (TStr 255)),
     req (col ''title'' (TStr 255)),
     dflt '''' (req (col ''description'' TText)),
     dflt ([CHR 0x27] @ ''{}'' @ [CHR 0x27] @ ''::jsonb'') (req (col ''observed'' TJson)),
     dflt ''now()'' (req (col ''captured_at'' TTime)),
     col ''observed_at'' TTime,
     col ''expires_at'' TTime,
     req (col ''integrity_sha256'' (TStr 64)),
     req (col ''collector'' (TStr 128)),
     dflt ''internal'' (req (col ''classification'' (TStr 32))),
     dflt ([CHR 0x27] @ ''{}'' @ [CHR 0x27] @ ''::jsonb'') (req (col ''metadata_json'' TJson)),
     dflt ''now()'' (req (col ''created_at'' TTime))]"

definition assessment_evidence_columns :: "column list" where
  "assessment_evidence_columns =
    [ref ''assessment_results'' ''id'' ''CASCADE'' (key (col ''result_id'' TUuid)),
     ref ''evidence_items'' ''id'' ''CASCADE'' (key (col ''evidence_id'' TUuid)),
     dflt ''supports'' (req (col ''relation'' (TStr 32))),
     dflt ''primary'' (req (col ''role'' (TStr 32))),
     dflt ''deterministic_rule'' (req (col ''extracted_by'' (TStr 64))),
     dflt ''now()'' (req (col ''created_at'' TTime))]"

definition upgrade_0007 :: "schema \<Rightarrow> schema result" where
  "upgrade_0007 = steps
    [create_table ''framework_catalogs'' framework_catalogs_columns [(''uq_framework_catalog_code_version'', [''code'', ''version''])],
     create_index ''ix_framework_catalog_active'' ''framework_catalogs'' [''active''],
     create_table ''framework_controls'' framework_controls_columns [(''uq_framework_control_catalog_id'', [''catalog_id'', ''control_id''])],
     create_index ''ix_framework_controls_rule_key'' ''framework_controls'' [''rule_key''],
     create_table ''assessment_runs'' assessment_runs_columns [],
     create_index ''ix_assessment_runs_created_at'' ''assessment_runs'' [''created_at''],
     create_index ''ix_assessment_runs_framework'' ''assessment_runs'' [''framework_code'', ''framework_version''],
     create_index ''ix_assessment_runs_status'' ''assessment_runs'' [''status''],
     create_table ''assessment_results'' assessment_results_columns [],
     create_index ''ix_assessment_results_run_status'' ''assessment_results'' [''run_id'', ''status''],
     create_index ''ix_assessment_results_status'' ''assessment_results'' [''status''],
     create_index ''ix_assessment_results_asset_control'' ''assessment_results'' [''asset_id'', ''control_id''],
     create_index ''ix_assessment_results_assessed_at'' ''assessment_results'' [''assessed_at''],
     create_table ''evidence_items'' evidence_items_columns [],
     create_index ''ix_evidence_source_ref'' ''evidence_items'' [''source_type'', ''source_ref''],
     create_index ''ix_evidence_observed_at'' ''evidence_items'' [''observed_at''],
     create_table ''assessment_evidence'' assessment_evidence_columns [],
     create_index ''ix_assessment_evidence_evidence_id'' ''assessment_evidence'' [''evidence_id'']]"

definition downgrade_0007 :: "schema \<Rightarrow> schema result" where
  "downgrade_0007 = steps
    [drop_index ''ix_assessment_evidence_evidence_id'',
     drop_table ''assessment_evidence'',
     drop_index ''ix_evidence_observed_at'',
     drop_index ''ix_evidence_source_ref'',
     drop_table ''evidence_items'',
     drop_index ''ix_assessment_results_assessed_at'',
     drop_index ''ix_assessment_results_asset_control'',
     drop_index ''ix_assessment_results_status'',
     drop_index ''ix_assessment_results_run_status'',
     drop_table ''assessment_results'',
     drop_index ''ix_assessment_runs_status'',
     drop_index ''ix_assessment_runs_framework'',
     drop_index ''ix_assessment_runs_created_at'',
     drop_table ''assessment_runs'',
     drop_index ''ix_framework_controls_rule_key'',
     drop_table ''framework_controls'',
     drop_index ''ix_framework_catalog_active'',
     drop_table ''framework_catalogs'']"

section \<open>The models\<close>

text \<open>The tables the classes of \<open>app/models\<close> declare.\<close>

definition orm_users :: table where
  "orm_users = \<lparr> tb_name = ''users'', tb_columns =
    [key (col ''id'' TUuid),
     uniq (req (col ''username'' (TStr 64))),
     uniq (req (col ''email'' (TStr 255))),
     req (col ''password_hash'' (TStr 512)),
     req (col ''role'' (TStr 32)),
     col ''mfa_secret'' (TStr 1024),
     req (col ''mfa_enabled'' TBool),
     req (col ''failed_attempts'' TInt),
     col ''locked_until'' TTime,
     col ''last_login'' TTime,
     req (col ''is_active'' TBool),
     req (col ''created_at'' TTime)],
     tb_uniques = [], tb_indexes = [(''ix_users_username'', [''username'']), (''ix_users_email'', [''email''])] \<rparr>"

definition orm_assets :: table where
  "orm_assets = \<lparr> tb_name = ''assets'', tb_columns =
    [key (col ''id'' TUuid),
     req (col ''name'' (TStr 255)),
     req (col ''type'' (TStr 64)),
     col ''os'' (TStr 255),
     col ''ip'' TInet,
     col ''mac'' TMac,
     col ''segment'' (TStr 64),
     col ''edr_status'' (TStr 128),
     req (col ''control_coverage'' (TStr 16)),
     req (col ''network_exposure'' (TStr 32)),
     req (col ''auth_method'' (TStr 32)),
     req (col ''criticality'' (TStr 16)),
     req (col ''data_classification'' (TStr 32)),
     req (col ''dependencies'' TJson),
     req (col ''software_stack'' TJson),
     req (col ''cpe'' TJson),
     col ''last_patch'' (TStr 32),
     req (col ''eol_status'' TBool),
     req (col ''risk_score'' TFloat),
     req (col ''risk_tier'' (TStr 16)),
     req (col ''risk_breakdown'' TJson),
     req (col ''sources'' TJson),
     req (col ''first_seen'' TTime),
     req (col ''last_seen'' TTime),
     req (col ''is_shadow'' TBool),
     req (col ''is_stale'' TBool),
     req (col ''tags'' TJson),
     req (col ''attrs'' TJson)],
     tb_uniques = [], tb_indexes = [(''ix_assets_name'', [''name'']), (''ix_assets_type'', [''type'']), (''ix_assets_ip'', [''ip'']), (''ix_assets_mac'', [''mac'']), (''ix_assets_segment'', [''segment'']), (''ix_assets_risk_score'', [''risk_score'']), (''ix_assets_risk_tier'', [''risk_tier'']), (''ix_assets_is_shadow'', [''is_shadow'']), (''ix_assets_is_stale'', [''is_stale'']), (''ix_assets_risk_tier_score'', [''risk_tier'', ''risk_score'']), (''ix_assets_segment_criticality'', [''segment'', ''criticality''])] \<rparr>"

definition orm_cves :: table where
  "orm_cves = \<lparr> tb_name = ''cves'', tb_columns =
    [key (col ''id'' (TStr 32)),
     col ''cvss_v3'' TFloat,
     col ''cvss_vector'' (TStr 128),
     col ''epss_score'' TFloat,
     col ''epss_percentile'' TFloat,
     req (col ''kev'' TBool),
     col ''kev_date_added'' TTime,
     col ''description'' TText,
     req (col ''affected_cpes'' TJson),
     col ''published'' TTime,
     col ''modified'' TTime,
     req (col ''last_synced'' TTime)],
     tb_uniques = [], tb_indexes = [(''ix_cves_kev'', [''kev'']), (''ix_cves_epss'', [''epss_score''])] \<rparr>"

definition orm_asset_cves :: table where
  "orm_asset_cves = \<lparr> tb_name = ''asset_cves'', tb_columns =
    [ref ''assets'' ''id'' ''CASCADE'' (key (col ''asset_id'' TUuid)),
     ref ''cves'' ''id'' ''NO ACTION'' (key (col ''cve_id'' (TStr 32))),
     col ''matched_cpe'' (TStr 512),
     req (col ''discovered_at'' TTime),
     req (col ''suppressed'' TBool),
     req (col ''remediated'' TBool)],
     tb_uniques = [], tb_indexes = [(''ix_asset_cves_cve_id'', [''cve_id''])] \<rparr>"

definition orm_scans :: table where
  "orm_scans = \<lparr> tb_name = ''scans'', tb_columns =
    [key (col ''id'' TUuid),
     req (col ''scan_type'' (TStr 32)),
     req (col ''target'' (TStr 255)),
     req (col ''status'' (TStr 32)),
     col ''started_at'' TTime,
     col ''completed_at'' TTime,
     req (col ''hosts_found'' TInt),
     col ''raw_output'' TText,
     col ''error'' TText,
     req (col ''triggered_by'' (TStr 64)),
     req (col ''created_at'' TTime)],
     tb_uniques = [], tb_indexes = [] \<rparr>"

definition orm_alerts :: table where
  "orm_alerts = \<lparr> tb_name = ''alerts'', tb_columns =
    [key (col ''id'' TUuid),
     req (col ''alert_type'' (TStr 64)),
     req (col ''severity'' (TStr 16)),
     req (col ''title'' (TStr 255)),
     req (col ''description'' TText),
     ref ''assets'' ''id'' ''SET NULL'' (col ''asset_id'' TUuid),
     req (col ''details'' TJson),
     req (col ''status'' (TStr 16)),
     req (col ''notified'' TBool),
     req (col ''notification_channels'' TJson),
     req (col ''created_at'' TTime),
     col ''resolved_at'' TTime,
     col ''resolved_by'' (TStr 64)],
     tb_uniques = [], tb_indexes = [(''ix_alerts_severity'', [''severity'']), (''ix_alerts_status'', [''status'']), (''ix_alerts_created_at'', [''created_at'']), (''ix_alerts_type'', [''alert_type''])] \<rparr>"

definition orm_audit_log :: table where
  "orm_audit_log = \<lparr> tb_name = ''audit_log'', tb_columns =
    [key (col ''id'' TUuid),
     req (col ''timestamp'' TTime),
     col ''user_id'' TUuid,
     col ''username'' (TStr 64),
     req (col ''action'' (TStr 128)),
     col ''resource_type'' (TStr 64),
     col ''resource_id'' (TStr 64),
     col ''ip_address'' (TStr 64),
     col ''user_agent'' (TStr 512),
     req (col ''severity'' (TStr 16)),
     req (col ''details'' TJson),
     req (col ''archived'' TBool)],
     tb_uniques = [], tb_indexes = [(''ix_audit_timestamp'', [''timestamp'']), (''ix_audit_action'', [''action'']), (''ix_audit_log_archived_timestamp'', [''archived'', ''timestamp''])] \<rparr>"

definition orm_api_tokens :: table where
  "orm_api_tokens = \<lparr> tb_name = ''api_tokens'', tb_columns =
    [key (col ''id'' TUuid),
     req (col ''name'' (TStr 128)),
     req (col ''token_hash'' (TStr 256)),
     req (col ''token_prefix'' (TStr 16)),
     req (col ''scopes'' TJson),
     req (col ''created_by'' (TStr 64)),
     req (col ''created_at'' TTime),
     col ''expires_at'' TTime,
     col ''last_used'' TTime,
     req (col ''revoked'' TBool),
     req (col ''usage_count'' TInt)],
     tb_uniques = [], tb_indexes = [(''ix_api_tokens_prefix'', [''token_prefix''])] \<rparr>"

definition orm_webhooks :: table where
  "orm_webhooks = \<lparr> tb_name = ''webhooks'', tb_columns =
    [key (col ''id'' TUuid),
     req (col ''name'' (TStr 128)),
     req (col ''url'' (TStr 512)),
     req (col ''secret_hash'' (TStr 256)),
     req (col ''secret_prefix'' (TStr 16)),
     req (col ''secret_encrypted'' (TStr 1024)),
     req (col ''secret_salt'' (TStr 64)),
     req (col ''event_types'' TJson),
     req (col ''severity_filter'' TJson),
     req (col ''enabled'' TBool),
     req (col ''created_at'' TTime),
     col ''last_delivery'' TTime,
     req (col ''delivery_count'' TInt),
     req (col ''failure_count'' TInt),
     col ''last_status'' (TStr 32)],
     tb_uniques = [], tb_indexes = [(''ix_webhooks_secret_prefix'', [''secret_prefix''])] \<rparr>"

definition orm_integrations :: table where
  "orm_integrations = \<lparr> tb_name = ''integrations'', tb_columns =
    [key (col ''id'' TUuid),
     uniq (req (col ''name'' (TStr 64))),
     req (col ''connector_type'' (TStr 32)),
     req (col ''enabled'' TBool),
     req (col ''config'' TJson),
     req (col ''schedule_cron'' (TStr 64)),
     col ''last_run'' TTime,
     col ''last_status'' (TStr 32),
     req (col ''assets_reported'' TInt),
     req (col ''priority'' TInt),
     req (col ''failure_count'' TInt),
     req (col ''created_at'' TTime)],
     tb_uniques = [], tb_indexes = [] \<rparr>"

definition orm_scan_networks :: table where
  "orm_scan_networks = \<lparr> tb_name = ''scan_networks'', tb_columns =
    [key (col ''id'' TUuid),
     uniq (req (col ''cidr'' (TStr 64))),
     req (col ''name'' (TStr 128)),
     req (col ''enabled'' TBool),
     req (col ''scan_type'' (TStr 32)),
     req (col ''excluded_ips'' TJson),
     req (col ''created_at'' TTime)],
     tb_uniques = [], tb_indexes = [] \<rparr>"

definition orm_compliance_mappings :: table where
  "orm_compliance_mappings = \<lparr> tb_name = ''compliance_mappings'', tb_columns =
    [key (col ''id'' TUuid),
     req (col ''framework'' (TStr 32)),
     req (col ''control_id'' (TStr 32)),
     ref ''assets'' ''id'' ''CASCADE'' (req (col ''asset_id'' TUuid)),
     req (col ''status'' (TStr 16)),
     req (col ''evidence'' TJson),
     req (col ''assessed_at'' TTime)],
     tb_uniques = [], tb_indexes = [(''ix_compliance_framework_control'', [''framework'', ''control_id''])] \<rparr>"

definition orm_framework_catalogs :: table where
  "orm_framework_catalogs = \<lparr> tb_name = ''framework_catalogs'', tb_columns =
    [key (col ''id'' TUuid),
     req (col ''code'' (TStr 64)),
     req (col ''version'' (TStr 32)),
     req (col ''name'' (TStr 128)),
     col ''source_url'' (TStr 512),
     req (col ''active'' TBool),
     req (col ''metadata_json'' TJson),
     req (col ''created_at'' TTime)],
     tb_uniques = [(''uq_framework_catalog_code_version'', [''code'', ''version''])], tb_indexes = [(''ix_framework_catalog_active'', [''active''])] \<rparr>"

definition orm_framework_controls :: table where
  "orm_framework_controls = \<lparr> tb_name = ''framework_controls'', tb_columns =
    [key (col ''id'' TUuid),
     ref ''framework_catalogs'' ''id'' ''CASCADE'' (req (col ''catalog_id'' TUuid)),
     req (col ''control_id'' (TStr 64)),
     req (col ''title'' (TStr 255)),
     req (col ''objective'' TText),
     col ''family'' (TStr 128),
     req (col ''rule_key'' (TStr 64)),
     req (col ''assessment_method'' (TStr 64)),
     req (col ''evidence_requirements'' TJson),
     req (col ''sort_order'' TInt),
     req (col ''metadata_json'' TJson)],
     tb_uniques = [(''uq_framework_control_catalog_id'', [''catalog_id'', ''control_id''])], tb_indexes = [(''ix_framework_controls_rule_key'', [''rule_key''])] \<rparr>"

definition orm_assessment_runs :: table where
  "orm_assessment_runs = \<lparr> tb_name = ''assessment_runs'', tb_columns =
    [key (col ''id'' TUuid),
     req (col ''framework_code'' (TStr 64)),
     req (col ''framework_version'' (TStr 32)),
     req (col ''status'' (TStr 32)),
     req (col ''scope'' TJson),
     req (col ''methodology'' TJson),
     req (col ''summary'' TJson),
     col ''started_at'' TTime,
     col ''completed_at'' TTime,
     req (col ''initiated_by'' (TStr 64)),
     req (col ''created_at'' TTime)],
     tb_uniques = [], tb_indexes = [(''ix_assessment_runs_status'', [''status'']), (''ix_assessment_runs_created_at'', [''created_at'']), (''ix_assessment_runs_framework'', [''framework_code'', ''framework_version''])] \<rparr>"

definition orm_assessment_results :: table where
  "orm_assessment_results = \<lparr> tb_name = ''assessment_results'', tb_columns =
    [key (col ''id'' TUuid),
     ref ''assessment_runs'' ''id'' ''CASCADE'' (req (col ''run_id'' TUuid)),
     ref ''framework_controls'' ''id'' ''CASCADE'' (req (col ''control_id'' TUuid)),
     ref ''assets'' ''id'' ''CASCADE'' (col ''asset_id'' TUuid),
     req (col ''status'' (TStr 24)),
     col ''score'' TFloat,
     req (col ''confidence'' TFloat),
     req (col ''rationale'' TText),
     req (col ''rule_key'' (TStr 64)),
     req (col ''assessed_at'' TTime),
     col ''expires_at'' TTime],
     tb_uniques = [], tb_indexes = [(''ix_assessment_results_status'', [''status'']), (''ix_assessment_results_run_status'', [''run_id'', ''status'']), (''ix_assessment_results_asset_control'', [''asset_id'', ''control_id'']), (''ix_assessment_results_assessed_at'', [''assessed_at''])] \<rparr>"

definition orm_evidence_items :: table where
  "orm_evidence_items = \<lparr> tb_name = ''evidence_items'', tb_columns =
    [key (col ''id'' TUuid),
     req (col ''source_type'' (TStr 64)),
     req (col ''source_ref'' (TStr 255)),
     req (col ''title'' (TStr 255)),
     req (col ''description'' TText),
     req (col ''observed'' TJson),
     req (col ''captured_at'' TTime),
     col ''observed_at'' TTime,
     col ''expires_at'' TTime,
     req (col ''integrity_sha256'' (TStr 64)),
     req (col ''collector'' (TStr 128)),
     req (col ''classification'' (TStr 32)),
     req (col ''metadata_json'' TJson),
     req (col ''created_at'' TTime)],
     tb_uniques = [], tb_indexes = [(''ix_evidence_source_ref'', [''source_type'', ''source_ref'']), (''ix_evidence_observed_at'', [''observed_at''])] \<rparr>"

definition orm_assessment_evidence :: table where
  "orm_assessment_evidence = \<lparr> tb_name = ''assessment_evidence'', tb_columns =
    [ref ''assessment_results'' ''id'' ''CASCADE'' (key (col ''result_id'' TUuid)),
     ref ''evidence_items'' ''id'' ''CASCADE'' (key (col ''evidence_id'' TUuid)),
     req (col ''relation'' (TStr 32)),
     req (col ''role'' (TStr 32)),
     req (col ''extracted_by'' (TStr 64)),
     req (col ''created_at'' TTime)],
     tb_uniques = [], tb_indexes = [(''ix_assessment_evidence_evidence_id'', [''evidence_id''])] \<rparr>"

definition orm_platform_dependencies :: table where
  "orm_platform_dependencies = \<lparr> tb_name = ''platform_dependencies'', tb_columns =
    [key (col ''id'' TUuid),
     req (col ''component'' (TStr 64)),
     req (col ''package_type'' (TStr 16)),
     req (col ''name'' (TStr 128)),
     req (col ''version'' (TStr 64)),
     col ''latest_version'' (TStr 64),
     col ''purl'' (TStr 512),
     col ''license'' (TStr 64),
     req (col ''direct'' TBool),
     req (col ''last_checked'' TTime),
     req (col ''cve_count'' TInt),
     req (col ''kev_count'' TInt),
     col ''max_cvss'' TFloat,
     req (col ''update_available'' TBool),
     col ''update_blocked_reason'' (TStr 255)],
     tb_uniques = [], tb_indexes = [(''ix_pdep_component'', [''component'']), (''ix_pdep_name'', [''name'']), (''ix_pdep_name_version'', [''name'', ''version''])] \<rparr>"

definition orm_dependency_findings :: table where
  "orm_dependency_findings = \<lparr> tb_name = ''dependency_findings'', tb_columns =
    [key (col ''id'' TUuid),
     ref ''platform_dependencies'' ''id'' ''CASCADE'' (req (col ''dependency_id'' TUuid)),
     req (col ''cve_id'' (TStr 32)),
     col ''cvss'' TFloat,
     col ''epss'' TFloat,
     req (col ''kev'' TBool),
     col ''description'' TText,
     col ''fixed_version'' (TStr 64),
     req (col ''severity'' (TStr 16)),
     req (col ''discovered_at'' TTime),
     req (col ''suppressed'' TBool),
     col ''suppressed_reason'' (TStr 255),
     col ''suppressed_by'' (TStr 64),
     col ''suppressed_until'' TTime],
     tb_uniques = [(''uq_dependency_findings_dep_cve'', [''dependency_id'', ''cve_id''])], tb_indexes = [(''ix_dependency_findings_severity'', [''severity'']), (''ix_dfind_cve'', [''cve_id''])] \<rparr>"

definition orm_update_proposals :: table where
  "orm_update_proposals = \<lparr> tb_name = ''update_proposals'', tb_columns =
    [key (col ''id'' TUuid),
     ref ''platform_dependencies'' ''id'' ''CASCADE'' (req (col ''dependency_id'' TUuid)),
     req (col ''component'' (TStr 64)),
     req (col ''package_name'' (TStr 128)),
     req (col ''current_version'' (TStr 64)),
     req (col ''target_version'' (TStr 64)),
     req (col ''reason'' (TStr 64)),
     req (col ''cves_fixed'' TJson),
     req (col ''ai_assessment'' TJson),
     col ''ai_recommendation'' (TStr 32),
     col ''ai_risk_score'' TFloat,
     req (col ''breaking_changes_detected'' TBool),
     col ''compatibility_notes'' TText,
     req (col ''status'' (TStr 32)),
     col ''approved_by'' (TStr 64),
     col ''approved_at'' TTime,
     col ''applied_at'' TTime,
     req (col ''rollback_snapshot'' TJson),
     col ''error_message'' TText,
     req (col ''created_at'' TTime)],
     tb_uniques = [], tb_indexes = [(''ix_uprop_status'', [''status''])] \<rparr>"

definition orm_self_security_settings :: table where
  "orm_self_security_settings = \<lparr> tb_name = ''self_security_settings'', tb_columns =
    [key (col ''id'' TInt),
     req (col ''auto_scan_enabled'' TBool),
     req (col ''scan_cron'' (TStr 64)),
     req (col ''auto_update_enabled'' TBool),
     req (col ''auto_update_severity_threshold'' (TStr 16)),
     req (col ''auto_update_only_patch'' TBool),
     req (col ''auto_update_only_kev'' TBool),
     req (col ''require_ai_validation'' TBool),
     req (col ''require_admin_approval'' TBool),
     req (col ''auto_rollback_on_failure'' TBool),
     col ''maintenance_window_cron'' (TStr 64),
     req (col ''notify_channels'' TJson),
     req (col ''ai_model'' (TStr 64)),
     req (col ''excluded_packages'' TJson),
     req (col ''last_scan_status'' (TStr 16)),
     col ''last_scan_error'' TText,
     col ''last_scan_at'' TTime,
     col ''last_successful_scan_at'' TTime,
     req (col ''packages_scanned'' TInt),
     req (col ''updated_at'' TTime),
     col ''updated_by'' (TStr 64)],
     tb_uniques = [], tb_indexes = [] \<rparr>"

definition orm_metadata :: schema where
  "orm_metadata = [orm_users, orm_assets, orm_cves, orm_asset_cves, orm_scans, orm_alerts, orm_audit_log, orm_api_tokens, orm_webhooks, orm_integrations, orm_scan_networks, orm_compliance_mappings, orm_framework_catalogs, orm_framework_controls, orm_assessment_runs, orm_assessment_results, orm_evidence_items, orm_assessment_evidence, orm_platform_dependencies, orm_dependency_findings, orm_update_proposals, orm_self_security_settings]"

end
