(* ===== verification/SchemaCheck.thy ===== *)
theory SchemaCheck
  imports Migrations
begin

text \<open>
  The migrations applied in order to an empty database, and the comparison of the schema they
  give with the one the models declare. The states between are named so that each migration is
  evaluated alone.
\<close>

lemmas column_defs = col_def req_def key_def uniq_def dflt_def ref_def

lemma names_kept [simp]:
  "map cn_name (update_where p (nullable b) cs) = map cn_name cs"
  "map cn_name (update_where p (of_type t) cs) = map cn_name cs"
  by (induction cs) (simp_all add: nullable_def of_type_def)

section \<open>Names and references\<close>

lemma users_names [simp]: "map cn_name users_columns =
    [''id'', ''username'', ''email'', ''password_hash'', ''role'', ''mfa_secret'', ''mfa_enabled'', ''failed_attempts'', ''locked_until'', ''last_login'', ''is_active'', ''created_at'']"
  by (simp add: users_columns_def column_defs)

lemmas users_set [simp] = arg_cong [OF users_names, of set, unfolded set_map]

lemma users_refs [simp]: "refs_ok s users_columns \<longleftrightarrow> True"
  by (simp add: refs_ok_def users_columns_def column_defs)

lemma assets_names [simp]: "map cn_name assets_columns =
    [''id'', ''name'', ''type'', ''os'', ''ip'', ''mac'', ''segment'', ''edr_status'', ''control_coverage'', ''network_exposure'', ''auth_method'', ''criticality'', ''data_classification'', ''dependencies'', ''software_stack'', ''cpe'', ''last_patch'', ''eol_status'', ''risk_score'', ''risk_tier'', ''risk_breakdown'', ''sources'', ''first_seen'', ''last_seen'', ''is_shadow'', ''is_stale'', ''tags'', ''attrs'']"
  by (simp add: assets_columns_def column_defs)

lemmas assets_set [simp] = arg_cong [OF assets_names, of set, unfolded set_map]

lemma assets_refs [simp]: "refs_ok s assets_columns \<longleftrightarrow> True"
  by (simp add: refs_ok_def assets_columns_def column_defs)

lemma cves_names [simp]: "map cn_name cves_columns =
    [''id'', ''cvss_v3'', ''cvss_vector'', ''epss_score'', ''epss_percentile'', ''kev'', ''kev_date_added'', ''description'', ''affected_cpes'', ''published'', ''modified'', ''last_synced'']"
  by (simp add: cves_columns_def column_defs)

lemmas cves_set [simp] = arg_cong [OF cves_names, of set, unfolded set_map]

lemma cves_refs [simp]: "refs_ok s cves_columns \<longleftrightarrow> True"
  by (simp add: refs_ok_def cves_columns_def column_defs)

lemma asset_cves_names [simp]: "map cn_name asset_cves_columns =
    [''asset_id'', ''cve_id'', ''matched_cpe'', ''discovered_at'', ''suppressed'', ''remediated'']"
  by (simp add: asset_cves_columns_def column_defs)

lemmas asset_cves_set [simp] = arg_cong [OF asset_cves_names, of set, unfolded set_map]

lemma asset_cves_refs [simp]: "refs_ok s asset_cves_columns \<longleftrightarrow> has_column s ''assets'' ''id'' \<and> has_column s ''cves'' ''id''"
  by (simp add: refs_ok_def asset_cves_columns_def column_defs)

lemma scans_names [simp]: "map cn_name scans_columns =
    [''id'', ''scan_type'', ''target'', ''status'', ''started_at'', ''completed_at'', ''hosts_found'', ''raw_output'', ''error'', ''triggered_by'', ''created_at'']"
  by (simp add: scans_columns_def column_defs)

lemmas scans_set [simp] = arg_cong [OF scans_names, of set, unfolded set_map]

lemma scans_refs [simp]: "refs_ok s scans_columns \<longleftrightarrow> True"
  by (simp add: refs_ok_def scans_columns_def column_defs)

lemma alerts_names [simp]: "map cn_name alerts_columns =
    [''id'', ''alert_type'', ''severity'', ''title'', ''description'', ''asset_id'', ''details'', ''status'', ''notified'', ''notification_channels'', ''created_at'', ''resolved_at'', ''resolved_by'']"
  by (simp add: alerts_columns_def column_defs)

lemmas alerts_set [simp] = arg_cong [OF alerts_names, of set, unfolded set_map]

lemma alerts_refs [simp]: "refs_ok s alerts_columns \<longleftrightarrow> has_column s ''assets'' ''id''"
  by (simp add: refs_ok_def alerts_columns_def column_defs)

lemma audit_log_names [simp]: "map cn_name audit_log_columns =
    [''id'', ''timestamp'', ''user_id'', ''username'', ''action'', ''resource_type'', ''resource_id'', ''ip_address'', ''user_agent'', ''severity'', ''details'']"
  by (simp add: audit_log_columns_def column_defs)

lemmas audit_log_set [simp] = arg_cong [OF audit_log_names, of set, unfolded set_map]

lemma audit_log_refs [simp]: "refs_ok s audit_log_columns \<longleftrightarrow> True"
  by (simp add: refs_ok_def audit_log_columns_def column_defs)

lemma integrations_names [simp]: "map cn_name integrations_columns =
    [''id'', ''name'', ''connector_type'', ''enabled'', ''config'', ''schedule_cron'', ''last_run'', ''last_status'', ''assets_reported'', ''priority'', ''failure_count'', ''created_at'']"
  by (simp add: integrations_columns_def column_defs)

lemmas integrations_set [simp] = arg_cong [OF integrations_names, of set, unfolded set_map]

lemma integrations_refs [simp]: "refs_ok s integrations_columns \<longleftrightarrow> True"
  by (simp add: refs_ok_def integrations_columns_def column_defs)

lemma scan_networks_names [simp]: "map cn_name scan_networks_columns =
    [''id'', ''cidr'', ''name'', ''enabled'', ''scan_type'', ''excluded_ips'', ''created_at'']"
  by (simp add: scan_networks_columns_def column_defs)

lemmas scan_networks_set [simp] = arg_cong [OF scan_networks_names, of set, unfolded set_map]

lemma scan_networks_refs [simp]: "refs_ok s scan_networks_columns \<longleftrightarrow> True"
  by (simp add: refs_ok_def scan_networks_columns_def column_defs)

lemma compliance_mappings_names [simp]: "map cn_name compliance_mappings_columns =
    [''id'', ''framework'', ''control_id'', ''asset_id'', ''status'', ''evidence'', ''assessed_at'']"
  by (simp add: compliance_mappings_columns_def column_defs)

lemmas compliance_mappings_set [simp] = arg_cong [OF compliance_mappings_names, of set, unfolded set_map]

lemma compliance_mappings_refs [simp]: "refs_ok s compliance_mappings_columns \<longleftrightarrow> has_column s ''assets'' ''id''"
  by (simp add: refs_ok_def compliance_mappings_columns_def column_defs)

lemma platform_dependencies_names [simp]: "map cn_name platform_dependencies_columns =
    [''id'', ''component'', ''package_type'', ''name'', ''version'', ''latest_version'', ''purl'', ''license'', ''direct'', ''last_checked'', ''cve_count'', ''kev_count'', ''max_cvss'', ''update_available'', ''update_blocked_reason'']"
  by (simp add: platform_dependencies_columns_def column_defs)

lemmas platform_dependencies_set [simp] = arg_cong [OF platform_dependencies_names, of set, unfolded set_map]

lemma platform_dependencies_refs [simp]: "refs_ok s platform_dependencies_columns \<longleftrightarrow> True"
  by (simp add: refs_ok_def platform_dependencies_columns_def column_defs)

lemma dependency_findings_names [simp]: "map cn_name dependency_findings_columns =
    [''id'', ''dependency_id'', ''cve_id'', ''cvss'', ''epss'', ''kev'', ''description'', ''fixed_version'', ''severity'', ''discovered_at'', ''suppressed'', ''suppressed_reason'', ''suppressed_by'', ''suppressed_until'']"
  by (simp add: dependency_findings_columns_def column_defs)

lemmas dependency_findings_set [simp] = arg_cong [OF dependency_findings_names, of set, unfolded set_map]

lemma dependency_findings_refs [simp]: "refs_ok s dependency_findings_columns \<longleftrightarrow> has_column s ''platform_dependencies'' ''id''"
  by (simp add: refs_ok_def dependency_findings_columns_def column_defs)

lemma update_proposals_names [simp]: "map cn_name update_proposals_columns =
    [''id'', ''dependency_id'', ''component'', ''package_name'', ''current_version'', ''target_version'', ''reason'', ''cves_fixed'', ''ai_assessment'', ''ai_recommendation'', ''ai_risk_score'', ''breaking_changes_detected'', ''compatibility_notes'', ''status'', ''approved_by'', ''approved_at'', ''applied_at'', ''rollback_snapshot'', ''error_message'', ''created_at'']"
  by (simp add: update_proposals_columns_def column_defs)

lemmas update_proposals_set [simp] = arg_cong [OF update_proposals_names, of set, unfolded set_map]

lemma update_proposals_refs [simp]: "refs_ok s update_proposals_columns \<longleftrightarrow> has_column s ''platform_dependencies'' ''id''"
  by (simp add: refs_ok_def update_proposals_columns_def column_defs)

lemma self_security_settings_names [simp]: "map cn_name self_security_settings_columns =
    [''id'', ''auto_scan_enabled'', ''scan_cron'', ''auto_update_enabled'', ''auto_update_severity_threshold'', ''auto_update_only_patch'', ''auto_update_only_kev'', ''require_ai_validation'', ''require_admin_approval'', ''auto_rollback_on_failure'', ''maintenance_window_cron'', ''notify_channels'', ''ai_model'', ''excluded_packages'', ''last_scan_status'', ''last_scan_error'', ''last_scan_at'', ''last_successful_scan_at'', ''packages_scanned'', ''updated_at'', ''updated_by'']"
  by (simp add: self_security_settings_columns_def column_defs)

lemmas self_security_settings_set [simp] = arg_cong [OF self_security_settings_names, of set, unfolded set_map]

lemma self_security_settings_refs [simp]: "refs_ok s self_security_settings_columns \<longleftrightarrow> True"
  by (simp add: refs_ok_def self_security_settings_columns_def column_defs)

lemma api_tokens_names [simp]: "map cn_name api_tokens_columns =
    [''id'', ''name'', ''token_hash'', ''token_prefix'', ''scopes'', ''created_by'', ''created_at'', ''expires_at'', ''last_used'', ''revoked'', ''usage_count'']"
  by (simp add: api_tokens_columns_def column_defs)

lemmas api_tokens_set [simp] = arg_cong [OF api_tokens_names, of set, unfolded set_map]

lemma api_tokens_refs [simp]: "refs_ok s api_tokens_columns \<longleftrightarrow> True"
  by (simp add: refs_ok_def api_tokens_columns_def column_defs)

lemma webhooks_names [simp]: "map cn_name webhooks_columns =
    [''id'', ''name'', ''url'', ''secret_hash'', ''secret_prefix'', ''secret_encrypted'', ''secret_salt'', ''event_types'', ''severity_filter'', ''enabled'', ''created_at'', ''last_delivery'', ''delivery_count'', ''failure_count'', ''last_status'']"
  by (simp add: webhooks_columns_def column_defs)

lemmas webhooks_set [simp] = arg_cong [OF webhooks_names, of set, unfolded set_map]

lemma webhooks_refs [simp]: "refs_ok s webhooks_columns \<longleftrightarrow> True"
  by (simp add: refs_ok_def webhooks_columns_def column_defs)

lemma framework_catalogs_names [simp]: "map cn_name framework_catalogs_columns =
    [''id'', ''code'', ''version'', ''name'', ''source_url'', ''active'', ''metadata_json'', ''created_at'']"
  by (simp add: framework_catalogs_columns_def column_defs)

lemmas framework_catalogs_set [simp] = arg_cong [OF framework_catalogs_names, of set, unfolded set_map]

lemma framework_catalogs_refs [simp]: "refs_ok s framework_catalogs_columns \<longleftrightarrow> True"
  by (simp add: refs_ok_def framework_catalogs_columns_def column_defs)

lemma framework_controls_names [simp]: "map cn_name framework_controls_columns =
    [''id'', ''catalog_id'', ''control_id'', ''title'', ''objective'', ''family'', ''rule_key'', ''assessment_method'', ''evidence_requirements'', ''sort_order'', ''metadata_json'']"
  by (simp add: framework_controls_columns_def column_defs)

lemmas framework_controls_set [simp] = arg_cong [OF framework_controls_names, of set, unfolded set_map]

lemma framework_controls_refs [simp]: "refs_ok s framework_controls_columns \<longleftrightarrow> has_column s ''framework_catalogs'' ''id''"
  by (simp add: refs_ok_def framework_controls_columns_def column_defs)

lemma assessment_runs_names [simp]: "map cn_name assessment_runs_columns =
    [''id'', ''framework_code'', ''framework_version'', ''status'', ''scope'', ''methodology'', ''summary'', ''started_at'', ''completed_at'', ''initiated_by'', ''created_at'']"
  by (simp add: assessment_runs_columns_def column_defs)

lemmas assessment_runs_set [simp] = arg_cong [OF assessment_runs_names, of set, unfolded set_map]

lemma assessment_runs_refs [simp]: "refs_ok s assessment_runs_columns \<longleftrightarrow> True"
  by (simp add: refs_ok_def assessment_runs_columns_def column_defs)

lemma assessment_results_names [simp]: "map cn_name assessment_results_columns =
    [''id'', ''run_id'', ''control_id'', ''asset_id'', ''status'', ''score'', ''confidence'', ''rationale'', ''rule_key'', ''assessed_at'', ''expires_at'']"
  by (simp add: assessment_results_columns_def column_defs)

lemmas assessment_results_set [simp] = arg_cong [OF assessment_results_names, of set, unfolded set_map]

lemma assessment_results_refs [simp]: "refs_ok s assessment_results_columns \<longleftrightarrow> has_column s ''assessment_runs'' ''id'' \<and> has_column s ''framework_controls'' ''id'' \<and> has_column s ''assets'' ''id''"
  by (simp add: refs_ok_def assessment_results_columns_def column_defs)

lemma evidence_items_names [simp]: "map cn_name evidence_items_columns =
    [''id'', ''source_type'', ''source_ref'', ''title'', ''description'', ''observed'', ''captured_at'', ''observed_at'', ''expires_at'', ''integrity_sha256'', ''collector'', ''classification'', ''metadata_json'', ''created_at'']"
  by (simp add: evidence_items_columns_def column_defs)

lemmas evidence_items_set [simp] = arg_cong [OF evidence_items_names, of set, unfolded set_map]

lemma evidence_items_refs [simp]: "refs_ok s evidence_items_columns \<longleftrightarrow> True"
  by (simp add: refs_ok_def evidence_items_columns_def column_defs)

lemma assessment_evidence_names [simp]: "map cn_name assessment_evidence_columns =
    [''result_id'', ''evidence_id'', ''relation'', ''role'', ''extracted_by'', ''created_at'']"
  by (simp add: assessment_evidence_columns_def column_defs)

lemmas assessment_evidence_set [simp] = arg_cong [OF assessment_evidence_names, of set, unfolded set_map]

lemma assessment_evidence_refs [simp]: "refs_ok s assessment_evidence_columns \<longleftrightarrow> has_column s ''assessment_results'' ''id'' \<and> has_column s ''evidence_items'' ''id''"
  by (simp add: refs_ok_def assessment_evidence_columns_def column_defs)

section \<open>The states between\<close>

definition head_0001 :: schema where
  "head_0001 =
    [\<lparr> tb_name = ''users'', tb_columns = users_columns, tb_uniques = [],
       tb_indexes = [(''ix_users_username'', [''username'']), (''ix_users_email'', [''email''])] \<rparr>,
     \<lparr> tb_name = ''assets'', tb_columns = assets_columns, tb_uniques = [],
       tb_indexes = [(''ix_assets_name'', [''name'']), (''ix_assets_ip'', [''ip'']), (''ix_assets_mac'', [''mac'']), (''ix_assets_segment'', [''segment'']), (''ix_assets_type'', [''type'']), (''ix_assets_risk_tier_score'', [''risk_tier'', ''risk_score'']), (''ix_assets_segment_criticality'', [''segment'', ''criticality'']), (''ix_assets_is_shadow'', [''is_shadow'']), (''ix_assets_is_stale'', [''is_stale''])] \<rparr>,
     \<lparr> tb_name = ''cves'', tb_columns = cves_columns, tb_uniques = [],
       tb_indexes = [(''ix_cves_kev'', [''kev'']), (''ix_cves_epss'', [''epss_score''])] \<rparr>,
     \<lparr> tb_name = ''asset_cves'', tb_columns = asset_cves_columns, tb_uniques = [],
       tb_indexes = [] \<rparr>,
     \<lparr> tb_name = ''scans'', tb_columns = scans_columns, tb_uniques = [],
       tb_indexes = [] \<rparr>,
     \<lparr> tb_name = ''alerts'', tb_columns = alerts_columns, tb_uniques = [],
       tb_indexes = [(''ix_alerts_type'', [''alert_type'']), (''ix_alerts_severity'', [''severity'']), (''ix_alerts_status'', [''status'']), (''ix_alerts_created_at'', [''created_at''])] \<rparr>,
     \<lparr> tb_name = ''audit_log'', tb_columns = audit_log_columns, tb_uniques = [],
       tb_indexes = [(''ix_audit_timestamp'', [''timestamp'']), (''ix_audit_action'', [''action''])] \<rparr>,
     \<lparr> tb_name = ''integrations'', tb_columns = integrations_columns, tb_uniques = [],
       tb_indexes = [] \<rparr>,
     \<lparr> tb_name = ''scan_networks'', tb_columns = scan_networks_columns, tb_uniques = [],
       tb_indexes = [] \<rparr>,
     \<lparr> tb_name = ''compliance_mappings'', tb_columns = compliance_mappings_columns, tb_uniques = [],
       tb_indexes = [(''ix_compliance_framework_control'', [''framework'', ''control_id''])] \<rparr>]"

definition head_0002 :: schema where
  "head_0002 =
    [\<lparr> tb_name = ''users'', tb_columns = users_columns, tb_uniques = [],
       tb_indexes = [(''ix_users_username'', [''username'']), (''ix_users_email'', [''email''])] \<rparr>,
     \<lparr> tb_name = ''assets'', tb_columns = assets_columns, tb_uniques = [],
       tb_indexes = [(''ix_assets_name'', [''name'']), (''ix_assets_ip'', [''ip'']), (''ix_assets_mac'', [''mac'']), (''ix_assets_segment'', [''segment'']), (''ix_assets_type'', [''type'']), (''ix_assets_risk_tier_score'', [''risk_tier'', ''risk_score'']), (''ix_assets_segment_criticality'', [''segment'', ''criticality'']), (''ix_assets_is_shadow'', [''is_shadow'']), (''ix_assets_is_stale'', [''is_stale''])] \<rparr>,
     \<lparr> tb_name = ''cves'', tb_columns = cves_columns, tb_uniques = [],
       tb_indexes = [(''ix_cves_kev'', [''kev'']), (''ix_cves_epss'', [''epss_score''])] \<rparr>,
     \<lparr> tb_name = ''asset_cves'', tb_columns = asset_cves_columns, tb_uniques = [],
       tb_indexes = [] \<rparr>,
     \<lparr> tb_name = ''scans'', tb_columns = scans_columns, tb_uniques = [],
       tb_indexes = [] \<rparr>,
     \<lparr> tb_name = ''alerts'', tb_columns = alerts_columns, tb_uniques = [],
       tb_indexes = [(''ix_alerts_type'', [''alert_type'']), (''ix_alerts_severity'', [''severity'']), (''ix_alerts_status'', [''status'']), (''ix_alerts_created_at'', [''created_at''])] \<rparr>,
     \<lparr> tb_name = ''audit_log'', tb_columns = audit_log_columns, tb_uniques = [],
       tb_indexes = [(''ix_audit_timestamp'', [''timestamp'']), (''ix_audit_action'', [''action''])] \<rparr>,
     \<lparr> tb_name = ''integrations'', tb_columns = integrations_columns, tb_uniques = [],
       tb_indexes = [] \<rparr>,
     \<lparr> tb_name = ''scan_networks'', tb_columns = scan_networks_columns, tb_uniques = [],
       tb_indexes = [] \<rparr>,
     \<lparr> tb_name = ''compliance_mappings'', tb_columns = compliance_mappings_columns, tb_uniques = [],
       tb_indexes = [(''ix_compliance_framework_control'', [''framework'', ''control_id''])] \<rparr>,
     \<lparr> tb_name = ''platform_dependencies'', tb_columns = platform_dependencies_columns, tb_uniques = [],
       tb_indexes = [(''ix_pdep_component'', [''component'']), (''ix_pdep_name'', [''name'']), (''ix_pdep_name_version'', [''name'', ''version''])] \<rparr>,
     \<lparr> tb_name = ''dependency_findings'', tb_columns = dependency_findings_columns, tb_uniques = [(''uq_dependency_findings_dep_cve'', [''dependency_id'', ''cve_id''])],
       tb_indexes = [(''ix_dfind_cve'', [''cve_id''])] \<rparr>,
     \<lparr> tb_name = ''update_proposals'', tb_columns = update_proposals_columns, tb_uniques = [],
       tb_indexes = [(''ix_uprop_status'', [''status''])] \<rparr>,
     \<lparr> tb_name = ''self_security_settings'', tb_columns = self_security_settings_columns, tb_uniques = [],
       tb_indexes = [] \<rparr>]"

definition head_0003 :: schema where
  "head_0003 =
    [\<lparr> tb_name = ''users'', tb_columns = users_columns, tb_uniques = [],
       tb_indexes = [(''ix_users_username'', [''username'']), (''ix_users_email'', [''email''])] \<rparr>,
     \<lparr> tb_name = ''assets'', tb_columns = assets_columns, tb_uniques = [],
       tb_indexes = [(''ix_assets_name'', [''name'']), (''ix_assets_ip'', [''ip'']), (''ix_assets_mac'', [''mac'']), (''ix_assets_segment'', [''segment'']), (''ix_assets_type'', [''type'']), (''ix_assets_risk_tier_score'', [''risk_tier'', ''risk_score'']), (''ix_assets_segment_criticality'', [''segment'', ''criticality'']), (''ix_assets_is_shadow'', [''is_shadow'']), (''ix_assets_is_stale'', [''is_stale''])] \<rparr>,
     \<lparr> tb_name = ''cves'', tb_columns = cves_columns, tb_uniques = [],
       tb_indexes = [(''ix_cves_kev'', [''kev'']), (''ix_cves_epss'', [''epss_score''])] \<rparr>,
     \<lparr> tb_name = ''asset_cves'', tb_columns = asset_cves_columns, tb_uniques = [],
       tb_indexes = [] \<rparr>,
     \<lparr> tb_name = ''scans'', tb_columns = scans_columns, tb_uniques = [],
       tb_indexes = [] \<rparr>,
     \<lparr> tb_name = ''alerts'', tb_columns = alerts_columns, tb_uniques = [],
       tb_indexes = [(''ix_alerts_type'', [''alert_type'']), (''ix_alerts_severity'', [''severity'']), (''ix_alerts_status'', [''status'']), (''ix_alerts_created_at'', [''created_at''])] \<rparr>,
     \<lparr> tb_name = ''audit_log'', tb_columns = audit_log_columns, tb_uniques = [],
       tb_indexes = [(''ix_audit_timestamp'', [''timestamp'']), (''ix_audit_action'', [''action''])] \<rparr>,
     \<lparr> tb_name = ''integrations'', tb_columns = integrations_columns, tb_uniques = [],
       tb_indexes = [] \<rparr>,
     \<lparr> tb_name = ''scan_networks'', tb_columns = scan_networks_columns, tb_uniques = [],
       tb_indexes = [] \<rparr>,
     \<lparr> tb_name = ''compliance_mappings'', tb_columns = compliance_mappings_columns, tb_uniques = [],
       tb_indexes = [(''ix_compliance_framework_control'', [''framework'', ''control_id''])] \<rparr>,
     \<lparr> tb_name = ''platform_dependencies'', tb_columns = platform_dependencies_columns, tb_uniques = [],
       tb_indexes = [(''ix_pdep_component'', [''component'']), (''ix_pdep_name'', [''name'']), (''ix_pdep_name_version'', [''name'', ''version''])] \<rparr>,
     \<lparr> tb_name = ''dependency_findings'', tb_columns = dependency_findings_columns, tb_uniques = [(''uq_dependency_findings_dep_cve'', [''dependency_id'', ''cve_id''])],
       tb_indexes = [(''ix_dfind_cve'', [''cve_id''])] \<rparr>,
     \<lparr> tb_name = ''update_proposals'', tb_columns = update_proposals_columns, tb_uniques = [],
       tb_indexes = [(''ix_uprop_status'', [''status''])] \<rparr>,
     \<lparr> tb_name = ''self_security_settings'', tb_columns = self_security_settings_columns, tb_uniques = [],
       tb_indexes = [] \<rparr>,
     \<lparr> tb_name = ''api_tokens'', tb_columns = api_tokens_columns, tb_uniques = [],
       tb_indexes = [(''ix_api_tokens_prefix'', [''token_prefix''])] \<rparr>,
     \<lparr> tb_name = ''webhooks'', tb_columns = webhooks_columns, tb_uniques = [],
       tb_indexes = [(''ix_webhooks_secret_prefix'', [''secret_prefix''])] \<rparr>]"

definition head_0004 :: schema where
  "head_0004 =
    [\<lparr> tb_name = ''users'', tb_columns = users_columns, tb_uniques = [],
       tb_indexes = [(''ix_users_username'', [''username'']), (''ix_users_email'', [''email''])] \<rparr>,
     \<lparr> tb_name = ''assets'', tb_columns = assets_columns, tb_uniques = [],
       tb_indexes = [(''ix_assets_name'', [''name'']), (''ix_assets_ip'', [''ip'']), (''ix_assets_mac'', [''mac'']), (''ix_assets_segment'', [''segment'']), (''ix_assets_type'', [''type'']), (''ix_assets_risk_tier_score'', [''risk_tier'', ''risk_score'']), (''ix_assets_segment_criticality'', [''segment'', ''criticality'']), (''ix_assets_is_shadow'', [''is_shadow'']), (''ix_assets_is_stale'', [''is_stale''])] \<rparr>,
     \<lparr> tb_name = ''cves'', tb_columns = cves_columns, tb_uniques = [],
       tb_indexes = [(''ix_cves_kev'', [''kev'']), (''ix_cves_epss'', [''epss_score''])] \<rparr>,
     \<lparr> tb_name = ''asset_cves'', tb_columns = asset_cves_columns, tb_uniques = [],
       tb_indexes = [(''ix_asset_cves_cve_id'', [''cve_id''])] \<rparr>,
     \<lparr> tb_name = ''scans'', tb_columns = scans_columns, tb_uniques = [],
       tb_indexes = [] \<rparr>,
     \<lparr> tb_name = ''alerts'', tb_columns = alerts_columns, tb_uniques = [],
       tb_indexes = [(''ix_alerts_type'', [''alert_type'']), (''ix_alerts_severity'', [''severity'']), (''ix_alerts_status'', [''status'']), (''ix_alerts_created_at'', [''created_at''])] \<rparr>,
     \<lparr> tb_name = ''audit_log'', tb_columns = audit_log_columns @ [dflt ''false'' (req (col ''archived'' TBool))], tb_uniques = [],
       tb_indexes = [(''ix_audit_timestamp'', [''timestamp'']), (''ix_audit_action'', [''action'']), (''ix_audit_log_archived_timestamp'', [''archived'', ''timestamp''])] \<rparr>,
     \<lparr> tb_name = ''integrations'', tb_columns = integrations_columns, tb_uniques = [],
       tb_indexes = [] \<rparr>,
     \<lparr> tb_name = ''scan_networks'', tb_columns = scan_networks_columns, tb_uniques = [],
       tb_indexes = [] \<rparr>,
     \<lparr> tb_name = ''compliance_mappings'', tb_columns = compliance_mappings_columns, tb_uniques = [],
       tb_indexes = [(''ix_compliance_framework_control'', [''framework'', ''control_id''])] \<rparr>,
     \<lparr> tb_name = ''platform_dependencies'', tb_columns = platform_dependencies_columns, tb_uniques = [],
       tb_indexes = [(''ix_pdep_component'', [''component'']), (''ix_pdep_name'', [''name'']), (''ix_pdep_name_version'', [''name'', ''version''])] \<rparr>,
     \<lparr> tb_name = ''dependency_findings'', tb_columns = dependency_findings_columns, tb_uniques = [(''uq_dependency_findings_dep_cve'', [''dependency_id'', ''cve_id''])],
       tb_indexes = [(''ix_dfind_cve'', [''cve_id'']), (''ix_dependency_findings_severity'', [''severity''])] \<rparr>,
     \<lparr> tb_name = ''update_proposals'', tb_columns = update_proposals_columns, tb_uniques = [],
       tb_indexes = [(''ix_uprop_status'', [''status''])] \<rparr>,
     \<lparr> tb_name = ''self_security_settings'', tb_columns = self_security_settings_columns, tb_uniques = [],
       tb_indexes = [] \<rparr>,
     \<lparr> tb_name = ''api_tokens'', tb_columns = api_tokens_columns, tb_uniques = [],
       tb_indexes = [(''ix_api_tokens_prefix'', [''token_prefix''])] \<rparr>,
     \<lparr> tb_name = ''webhooks'', tb_columns = webhooks_columns, tb_uniques = [],
       tb_indexes = [(''ix_webhooks_secret_prefix'', [''secret_prefix''])] \<rparr>]"

lemmas op_defs = create_table_def create_index_def with_table_def find_table_def table_names_def column_names_def
  index_names_def has_column_def add_column_def create_index_if_absent_def

lemma after_0001: "upgrade_0001 [] = Inr head_0001"
  by (simp add: upgrade_0001_def head_0001_def op_defs)

lemma after_0002: "upgrade_0002 head_0001 = Inr head_0002"
  by (simp add: upgrade_0002_def head_0001_def head_0002_def op_defs)

lemma after_0003: "upgrade_0003 head_0002 = Inr head_0003"
  by (simp add: upgrade_0003_def head_0002_def head_0003_def op_defs)

lemma after_0004: "upgrade_0004 head_0003 = Inr head_0004"
  by (simp add: upgrade_0004_def head_0003_def head_0004_def op_defs column_defs)

lemma head_0004_tables: "distinct (table_names head_0004)"
  by (simp add: head_0004_def table_names_def)

lemma found_users: "find_table ''users'' head_0004 = Some \<lparr> tb_name = ''users'', tb_columns = users_columns, tb_uniques = [],
       tb_indexes = [(''ix_users_username'', [''username'']), (''ix_users_email'', [''email''])] \<rparr>"
  by (simp add: head_0004_def find_table_def)

lemma found_assets: "find_table ''assets'' head_0004 = Some \<lparr> tb_name = ''assets'', tb_columns = assets_columns, tb_uniques = [],
       tb_indexes = [(''ix_assets_name'', [''name'']), (''ix_assets_ip'', [''ip'']), (''ix_assets_mac'', [''mac'']), (''ix_assets_segment'', [''segment'']), (''ix_assets_type'', [''type'']), (''ix_assets_risk_tier_score'', [''risk_tier'', ''risk_score'']), (''ix_assets_segment_criticality'', [''segment'', ''criticality'']), (''ix_assets_is_shadow'', [''is_shadow'']), (''ix_assets_is_stale'', [''is_stale''])] \<rparr>"
  by (simp add: head_0004_def find_table_def)

lemma found_cves: "find_table ''cves'' head_0004 = Some \<lparr> tb_name = ''cves'', tb_columns = cves_columns, tb_uniques = [],
       tb_indexes = [(''ix_cves_kev'', [''kev'']), (''ix_cves_epss'', [''epss_score''])] \<rparr>"
  by (simp add: head_0004_def find_table_def)

lemma found_asset_cves: "find_table ''asset_cves'' head_0004 = Some \<lparr> tb_name = ''asset_cves'', tb_columns = asset_cves_columns, tb_uniques = [],
       tb_indexes = [(''ix_asset_cves_cve_id'', [''cve_id''])] \<rparr>"
  by (simp add: head_0004_def find_table_def)

lemma found_scans: "find_table ''scans'' head_0004 = Some \<lparr> tb_name = ''scans'', tb_columns = scans_columns, tb_uniques = [],
       tb_indexes = [] \<rparr>"
  by (simp add: head_0004_def find_table_def)

lemma found_alerts: "find_table ''alerts'' head_0004 = Some \<lparr> tb_name = ''alerts'', tb_columns = alerts_columns, tb_uniques = [],
       tb_indexes = [(''ix_alerts_type'', [''alert_type'']), (''ix_alerts_severity'', [''severity'']), (''ix_alerts_status'', [''status'']), (''ix_alerts_created_at'', [''created_at''])] \<rparr>"
  by (simp add: head_0004_def find_table_def)

lemma found_audit_log: "find_table ''audit_log'' head_0004 = Some \<lparr> tb_name = ''audit_log'', tb_columns = audit_log_columns @ [dflt ''false'' (req (col ''archived'' TBool))], tb_uniques = [],
       tb_indexes = [(''ix_audit_timestamp'', [''timestamp'']), (''ix_audit_action'', [''action'']), (''ix_audit_log_archived_timestamp'', [''archived'', ''timestamp''])] \<rparr>"
  by (simp add: head_0004_def find_table_def)

lemma found_integrations: "find_table ''integrations'' head_0004 = Some \<lparr> tb_name = ''integrations'', tb_columns = integrations_columns, tb_uniques = [],
       tb_indexes = [] \<rparr>"
  by (simp add: head_0004_def find_table_def)

lemma found_scan_networks: "find_table ''scan_networks'' head_0004 = Some \<lparr> tb_name = ''scan_networks'', tb_columns = scan_networks_columns, tb_uniques = [],
       tb_indexes = [] \<rparr>"
  by (simp add: head_0004_def find_table_def)

lemma found_compliance_mappings: "find_table ''compliance_mappings'' head_0004 = Some \<lparr> tb_name = ''compliance_mappings'', tb_columns = compliance_mappings_columns, tb_uniques = [],
       tb_indexes = [(''ix_compliance_framework_control'', [''framework'', ''control_id''])] \<rparr>"
  by (simp add: head_0004_def find_table_def)

lemma found_platform_dependencies: "find_table ''platform_dependencies'' head_0004 = Some \<lparr> tb_name = ''platform_dependencies'', tb_columns = platform_dependencies_columns, tb_uniques = [],
       tb_indexes = [(''ix_pdep_component'', [''component'']), (''ix_pdep_name'', [''name'']), (''ix_pdep_name_version'', [''name'', ''version''])] \<rparr>"
  by (simp add: head_0004_def find_table_def)

lemma found_dependency_findings: "find_table ''dependency_findings'' head_0004 = Some \<lparr> tb_name = ''dependency_findings'', tb_columns = dependency_findings_columns, tb_uniques = [(''uq_dependency_findings_dep_cve'', [''dependency_id'', ''cve_id''])],
       tb_indexes = [(''ix_dfind_cve'', [''cve_id'']), (''ix_dependency_findings_severity'', [''severity''])] \<rparr>"
  by (simp add: head_0004_def find_table_def)

lemma found_update_proposals: "find_table ''update_proposals'' head_0004 = Some \<lparr> tb_name = ''update_proposals'', tb_columns = update_proposals_columns, tb_uniques = [],
       tb_indexes = [(''ix_uprop_status'', [''status''])] \<rparr>"
  by (simp add: head_0004_def find_table_def)

lemma found_self_security_settings: "find_table ''self_security_settings'' head_0004 = Some \<lparr> tb_name = ''self_security_settings'', tb_columns = self_security_settings_columns, tb_uniques = [],
       tb_indexes = [] \<rparr>"
  by (simp add: head_0004_def find_table_def)

lemma found_api_tokens: "find_table ''api_tokens'' head_0004 = Some \<lparr> tb_name = ''api_tokens'', tb_columns = api_tokens_columns, tb_uniques = [],
       tb_indexes = [(''ix_api_tokens_prefix'', [''token_prefix''])] \<rparr>"
  by (simp add: head_0004_def find_table_def)

lemma found_webhooks: "find_table ''webhooks'' head_0004 = Some \<lparr> tb_name = ''webhooks'', tb_columns = webhooks_columns, tb_uniques = [],
       tb_indexes = [(''ix_webhooks_secret_prefix'', [''secret_prefix''])] \<rparr>"
  by (simp add: head_0004_def find_table_def)

lemmas found = found_users found_assets found_cves found_asset_cves found_scans found_alerts found_audit_log found_integrations found_scan_networks found_compliance_mappings found_platform_dependencies found_dependency_findings found_update_proposals found_self_security_settings found_api_tokens found_webhooks

text \<open>On a new database the remediation finds nothing to do.\<close>

lemma remediated_columns [simp]:
  "update_where (\<lambda>x. cn_name x = ''mfa_secret'') (of_type (TStr 1024)) users_columns = users_columns"
  "update_where (\<lambda>x. cn_name x = ''ip_address'') (of_type (TStr 64)) audit_log_columns = audit_log_columns"
  "update_where (\<lambda>x. cn_name x = ''secret_hash'') (nullable False) webhooks_columns = webhooks_columns"
  "update_where (\<lambda>x. cn_name x = ''secret_prefix'') (nullable False) webhooks_columns = webhooks_columns"
  "update_where (\<lambda>x. cn_name x = ''secret_encrypted'') (nullable False) webhooks_columns = webhooks_columns"
  "update_where (\<lambda>x. cn_name x = ''secret_salt'') (nullable False) webhooks_columns = webhooks_columns"
  by (simp_all add: users_columns_def audit_log_columns_def webhooks_columns_def column_defs of_type_def nullable_def)

lemma after_0005: "upgrade_0005 head_0004 = Inr head_0004"
  by (simp add: upgrade_0005_def found has_column_def column_names_def column_defs settings_additions_def secure_columns_def
      add_missing_def unless_def has_index_def has_unique_def alter_column_same [OF _ head_0004_tables])

section \<open>Required columns\<close>

definition required :: "(string \<times> string) list" where
  "required = concat (map (\<lambda>(t, cs). map (\<lambda>(c, fallback). (t, c)) cs) REQUIRED_COLUMNS)"

lemma require_columns_listed:
  "require_columns b REQUIRED_COLUMNS = map (\<lambda>(t, c). alter_column t c (nullable b)) required"
  by (simp add: require_columns_def required_def map_concat comp_def case_prod_beta cong: map_cong)

lemma required_there: "list_all (\<lambda>(t, cs). list_all (\<lambda>(c, fallback). has_column head_0004 t c) cs) REQUIRED_COLUMNS"
  by (simp add: REQUIRED_COLUMNS_def has_column_def found column_names_def column_defs)

definition tighten :: "string \<Rightarrow> column list \<Rightarrow> column list" where
  "tighten n cs = map (\<lambda>c. if (n, cn_name c) \<in> set required then nullable False c else c) cs"

lemma tighten_names [simp]: "map cn_name (tighten n cs) = map cn_name cs"
  by (simp add: tighten_def nullable_def)

lemmas tighten_set [simp] = arg_cong [OF tighten_names, of set, unfolded set_map]

definition head_0006 :: schema where
  "head_0006 =
    [\<lparr> tb_name = ''users'', tb_columns = tighten ''users'' users_columns, tb_uniques = [],
       tb_indexes = [(''ix_users_username'', [''username'']), (''ix_users_email'', [''email''])] \<rparr>,
     \<lparr> tb_name = ''assets'', tb_columns = tighten ''assets'' assets_columns, tb_uniques = [],
       tb_indexes = [(''ix_assets_name'', [''name'']), (''ix_assets_ip'', [''ip'']), (''ix_assets_mac'', [''mac'']), (''ix_assets_segment'', [''segment'']), (''ix_assets_type'', [''type'']), (''ix_assets_risk_tier_score'', [''risk_tier'', ''risk_score'']), (''ix_assets_segment_criticality'', [''segment'', ''criticality'']), (''ix_assets_is_shadow'', [''is_shadow'']), (''ix_assets_is_stale'', [''is_stale'']), (''ix_assets_risk_score'', [''risk_score'']), (''ix_assets_risk_tier'', [''risk_tier''])] \<rparr>,
     \<lparr> tb_name = ''cves'', tb_columns = tighten ''cves'' cves_columns, tb_uniques = [],
       tb_indexes = [(''ix_cves_kev'', [''kev'']), (''ix_cves_epss'', [''epss_score''])] \<rparr>,
     \<lparr> tb_name = ''asset_cves'', tb_columns = tighten ''asset_cves'' asset_cves_columns, tb_uniques = [],
       tb_indexes = [(''ix_asset_cves_cve_id'', [''cve_id''])] \<rparr>,
     \<lparr> tb_name = ''scans'', tb_columns = tighten ''scans'' scans_columns, tb_uniques = [],
       tb_indexes = [] \<rparr>,
     \<lparr> tb_name = ''alerts'', tb_columns = tighten ''alerts'' alerts_columns, tb_uniques = [],
       tb_indexes = [(''ix_alerts_type'', [''alert_type'']), (''ix_alerts_severity'', [''severity'']), (''ix_alerts_status'', [''status'']), (''ix_alerts_created_at'', [''created_at''])] \<rparr>,
     \<lparr> tb_name = ''audit_log'', tb_columns = tighten ''audit_log'' (audit_log_columns @ [dflt ''false'' (req (col ''archived'' TBool))]), tb_uniques = [],
       tb_indexes = [(''ix_audit_timestamp'', [''timestamp'']), (''ix_audit_action'', [''action'']), (''ix_audit_log_archived_timestamp'', [''archived'', ''timestamp''])] \<rparr>,
     \<lparr> tb_name = ''integrations'', tb_columns = tighten ''integrations'' integrations_columns, tb_uniques = [],
       tb_indexes = [] \<rparr>,
     \<lparr> tb_name = ''scan_networks'', tb_columns = tighten ''scan_networks'' scan_networks_columns, tb_uniques = [],
       tb_indexes = [] \<rparr>,
     \<lparr> tb_name = ''compliance_mappings'', tb_columns = tighten ''compliance_mappings'' compliance_mappings_columns, tb_uniques = [],
       tb_indexes = [(''ix_compliance_framework_control'', [''framework'', ''control_id''])] \<rparr>,
     \<lparr> tb_name = ''platform_dependencies'', tb_columns = tighten ''platform_dependencies'' platform_dependencies_columns, tb_uniques = [],
       tb_indexes = [(''ix_pdep_component'', [''component'']), (''ix_pdep_name'', [''name'']), (''ix_pdep_name_version'', [''name'', ''version''])] \<rparr>,
     \<lparr> tb_name = ''dependency_findings'', tb_columns = tighten ''dependency_findings'' dependency_findings_columns, tb_uniques = [(''uq_dependency_findings_dep_cve'', [''dependency_id'', ''cve_id''])],
       tb_indexes = [(''ix_dfind_cve'', [''cve_id'']), (''ix_dependency_findings_severity'', [''severity''])] \<rparr>,
     \<lparr> tb_name = ''update_proposals'', tb_columns = tighten ''update_proposals'' update_proposals_columns, tb_uniques = [],
       tb_indexes = [(''ix_uprop_status'', [''status''])] \<rparr>,
     \<lparr> tb_name = ''self_security_settings'', tb_columns = tighten ''self_security_settings'' self_security_settings_columns, tb_uniques = [],
       tb_indexes = [] \<rparr>,
     \<lparr> tb_name = ''api_tokens'', tb_columns = tighten ''api_tokens'' api_tokens_columns, tb_uniques = [],
       tb_indexes = [(''ix_api_tokens_prefix'', [''token_prefix''])] \<rparr>,
     \<lparr> tb_name = ''webhooks'', tb_columns = tighten ''webhooks'' webhooks_columns, tb_uniques = [],
       tb_indexes = [(''ix_webhooks_secret_prefix'', [''secret_prefix''])] \<rparr>]"

definition assessment_tables :: schema where
  "assessment_tables =
    [\<lparr> tb_name = ''framework_catalogs'', tb_columns = framework_catalogs_columns, tb_uniques = [(''uq_framework_catalog_code_version'', [''code'', ''version''])],
       tb_indexes = [(''ix_framework_catalog_active'', [''active''])] \<rparr>,
     \<lparr> tb_name = ''framework_controls'', tb_columns = framework_controls_columns, tb_uniques = [(''uq_framework_control_catalog_id'', [''catalog_id'', ''control_id''])],
       tb_indexes = [(''ix_framework_controls_rule_key'', [''rule_key''])] \<rparr>,
     \<lparr> tb_name = ''assessment_runs'', tb_columns = assessment_runs_columns, tb_uniques = [],
       tb_indexes = [(''ix_assessment_runs_created_at'', [''created_at'']), (''ix_assessment_runs_framework'', [''framework_code'', ''framework_version'']), (''ix_assessment_runs_status'', [''status''])] \<rparr>,
     \<lparr> tb_name = ''assessment_results'', tb_columns = assessment_results_columns, tb_uniques = [],
       tb_indexes = [(''ix_assessment_results_run_status'', [''run_id'', ''status'']), (''ix_assessment_results_status'', [''status'']), (''ix_assessment_results_asset_control'', [''asset_id'', ''control_id'']), (''ix_assessment_results_assessed_at'', [''assessed_at''])] \<rparr>,
     \<lparr> tb_name = ''evidence_items'', tb_columns = evidence_items_columns, tb_uniques = [],
       tb_indexes = [(''ix_evidence_source_ref'', [''source_type'', ''source_ref'']), (''ix_evidence_observed_at'', [''observed_at''])] \<rparr>,
     \<lparr> tb_name = ''assessment_evidence'', tb_columns = assessment_evidence_columns, tb_uniques = [],
       tb_indexes = [(''ix_assessment_evidence_evidence_id'', [''evidence_id''])] \<rparr>]"

lemma tightened: "alter_listed required (nullable False) head_0004 =
    map (\<lambda>x. x\<lparr>tb_columns := tighten (tb_name x) (tb_columns x)\<rparr>) head_0004"
  by (simp add: alter_listed_def tighten_def)

lemma after_0006: "upgrade_0006 head_0004 = Inr head_0006"
proof -
  have "steps (require_columns False REQUIRED_COLUMNS) head_0004 = Inr (alter_listed required (nullable False) head_0004)"
    unfolding require_columns_listed
    by (rule alter_columns_eq [OF _ head_0004_tables])
      (use required_there in \<open>auto simp: required_def list_all_iff nullable_def\<close>)
  then show ?thesis
    by (simp add: upgrade_0006_def steps_append tightened) (simp add: head_0004_def head_0006_def op_defs)
qed

lemma head_0006_parts:
  "table_names head_0006 = [''users'', ''assets'', ''cves'', ''asset_cves'', ''scans'', ''alerts'', ''audit_log'', ''integrations'', ''scan_networks'', ''compliance_mappings'', ''platform_dependencies'', ''dependency_findings'', ''update_proposals'', ''self_security_settings'', ''api_tokens'', ''webhooks'']"
  "index_names head_0006 =
    [''ix_users_username'', ''ix_users_email'', ''ix_assets_name'', ''ix_assets_ip'', ''ix_assets_mac'', ''ix_assets_segment'', ''ix_assets_type'', ''ix_assets_risk_tier_score'', ''ix_assets_segment_criticality'', ''ix_assets_is_shadow'', ''ix_assets_is_stale'', ''ix_assets_risk_score'', ''ix_assets_risk_tier'', ''ix_cves_kev'', ''ix_cves_epss'', ''ix_asset_cves_cve_id'', ''ix_alerts_type'', ''ix_alerts_severity'', ''ix_alerts_status'', ''ix_alerts_created_at'', ''ix_audit_timestamp'', ''ix_audit_action'', ''ix_audit_log_archived_timestamp'', ''ix_compliance_framework_control'', ''ix_pdep_component'', ''ix_pdep_name'', ''ix_pdep_name_version'', ''ix_dfind_cve'', ''ix_dependency_findings_severity'', ''ix_uprop_status'', ''ix_api_tokens_prefix'', ''ix_webhooks_secret_prefix'']"
  "has_column head_0006 ''assets'' ''id''"
  by (simp_all add: head_0006_def table_names_def index_names_def has_column_def find_table_def column_names_def)

lemma after_0007: "upgrade_0007 head_0006 = Inr (head_0006 @ assessment_tables)"
  by (simp add: upgrade_0007_def create_table_def create_index_def has_column_append schema_simps head_0006_parts
      column_names_def has_column_def [of "[]"] has_column_def [of "x # xs" for x xs] assessment_tables_def)

lemma required_users: "(''users'', c) \<in> set required \<longleftrightarrow> c \<in> set [''created_at'']"
  by (auto simp: required_def REQUIRED_COLUMNS_def)

lemma agrees_users:
  "agrees \<lparr> tb_name = ''users'', tb_columns = tighten ''users'' users_columns, tb_uniques = [],
       tb_indexes = [(''ix_users_username'', [''username'']), (''ix_users_email'', [''email''])] \<rparr> orm_users"
  by (simp add: agrees_def same_set_def column_sig_def tighten_def required_users users_columns_def orm_users_def column_defs nullable_def)

lemma required_assets: "(''assets'', c) \<in> set required \<longleftrightarrow> c \<in> set [''control_coverage'', ''network_exposure'', ''auth_method'', ''criticality'', ''data_classification'', ''dependencies'', ''software_stack'', ''cpe'', ''eol_status'', ''risk_score'', ''risk_tier'', ''risk_breakdown'', ''sources'', ''first_seen'', ''last_seen'', ''is_shadow'', ''is_stale'', ''tags'', ''attrs'']"
  by (auto simp: required_def REQUIRED_COLUMNS_def)

lemma agrees_assets:
  "agrees \<lparr> tb_name = ''assets'', tb_columns = tighten ''assets'' assets_columns, tb_uniques = [],
       tb_indexes = [(''ix_assets_name'', [''name'']), (''ix_assets_ip'', [''ip'']), (''ix_assets_mac'', [''mac'']), (''ix_assets_segment'', [''segment'']), (''ix_assets_type'', [''type'']), (''ix_assets_risk_tier_score'', [''risk_tier'', ''risk_score'']), (''ix_assets_segment_criticality'', [''segment'', ''criticality'']), (''ix_assets_is_shadow'', [''is_shadow'']), (''ix_assets_is_stale'', [''is_stale'']), (''ix_assets_risk_score'', [''risk_score'']), (''ix_assets_risk_tier'', [''risk_tier''])] \<rparr> orm_assets"
  by (simp add: agrees_def same_set_def column_sig_def tighten_def required_assets assets_columns_def orm_assets_def column_defs nullable_def)

lemma required_cves: "(''cves'', c) \<in> set required \<longleftrightarrow> c \<in> set [''kev'', ''affected_cpes'', ''last_synced'']"
  by (auto simp: required_def REQUIRED_COLUMNS_def)

lemma agrees_cves:
  "agrees \<lparr> tb_name = ''cves'', tb_columns = tighten ''cves'' cves_columns, tb_uniques = [],
       tb_indexes = [(''ix_cves_kev'', [''kev'']), (''ix_cves_epss'', [''epss_score''])] \<rparr> orm_cves"
  by (simp add: agrees_def same_set_def column_sig_def tighten_def required_cves cves_columns_def orm_cves_def column_defs nullable_def)

lemma required_asset_cves: "(''asset_cves'', c) \<in> set required \<longleftrightarrow> c \<in> set [''discovered_at'', ''suppressed'', ''remediated'']"
  by (auto simp: required_def REQUIRED_COLUMNS_def)

lemma agrees_asset_cves:
  "agrees \<lparr> tb_name = ''asset_cves'', tb_columns = tighten ''asset_cves'' asset_cves_columns, tb_uniques = [],
       tb_indexes = [(''ix_asset_cves_cve_id'', [''cve_id''])] \<rparr> orm_asset_cves"
  by (simp add: agrees_def same_set_def column_sig_def tighten_def required_asset_cves asset_cves_columns_def orm_asset_cves_def column_defs nullable_def)

lemma required_scans: "(''scans'', c) \<in> set required \<longleftrightarrow> c \<in> set [''status'', ''hosts_found'', ''triggered_by'', ''created_at'']"
  by (auto simp: required_def REQUIRED_COLUMNS_def)

lemma agrees_scans:
  "agrees \<lparr> tb_name = ''scans'', tb_columns = tighten ''scans'' scans_columns, tb_uniques = [],
       tb_indexes = [] \<rparr> orm_scans"
  by (simp add: agrees_def same_set_def column_sig_def tighten_def required_scans scans_columns_def orm_scans_def column_defs nullable_def)

lemma required_alerts: "(''alerts'', c) \<in> set required \<longleftrightarrow> c \<in> set [''details'', ''status'', ''notified'', ''notification_channels'', ''created_at'']"
  by (auto simp: required_def REQUIRED_COLUMNS_def)

lemma agrees_alerts:
  "agrees \<lparr> tb_name = ''alerts'', tb_columns = tighten ''alerts'' alerts_columns, tb_uniques = [],
       tb_indexes = [(''ix_alerts_type'', [''alert_type'']), (''ix_alerts_severity'', [''severity'']), (''ix_alerts_status'', [''status'']), (''ix_alerts_created_at'', [''created_at''])] \<rparr> orm_alerts"
  by (simp add: agrees_def same_set_def column_sig_def tighten_def required_alerts alerts_columns_def orm_alerts_def column_defs nullable_def)

lemma required_audit_log: "(''audit_log'', c) \<in> set required \<longleftrightarrow> c \<in> set [''timestamp'', ''severity'', ''details'']"
  by (auto simp: required_def REQUIRED_COLUMNS_def)

lemma agrees_audit_log:
  "agrees \<lparr> tb_name = ''audit_log'', tb_columns = tighten ''audit_log'' (audit_log_columns @ [dflt ''false'' (req (col ''archived'' TBool))]), tb_uniques = [],
       tb_indexes = [(''ix_audit_timestamp'', [''timestamp'']), (''ix_audit_action'', [''action'']), (''ix_audit_log_archived_timestamp'', [''archived'', ''timestamp''])] \<rparr> orm_audit_log"
  by (simp add: agrees_def same_set_def column_sig_def tighten_def required_audit_log audit_log_columns_def orm_audit_log_def column_defs nullable_def)

lemma required_integrations: "(''integrations'', c) \<in> set required \<longleftrightarrow> c \<in> set [''enabled'', ''config'', ''schedule_cron'', ''assets_reported'', ''priority'', ''failure_count'', ''created_at'']"
  by (auto simp: required_def REQUIRED_COLUMNS_def)

lemma agrees_integrations:
  "agrees \<lparr> tb_name = ''integrations'', tb_columns = tighten ''integrations'' integrations_columns, tb_uniques = [],
       tb_indexes = [] \<rparr> orm_integrations"
  by (simp add: agrees_def same_set_def column_sig_def tighten_def required_integrations integrations_columns_def orm_integrations_def column_defs nullable_def)

lemma required_scan_networks: "(''scan_networks'', c) \<in> set required \<longleftrightarrow> c \<in> set [''enabled'', ''scan_type'', ''excluded_ips'', ''created_at'']"
  by (auto simp: required_def REQUIRED_COLUMNS_def)

lemma agrees_scan_networks:
  "agrees \<lparr> tb_name = ''scan_networks'', tb_columns = tighten ''scan_networks'' scan_networks_columns, tb_uniques = [],
       tb_indexes = [] \<rparr> orm_scan_networks"
  by (simp add: agrees_def same_set_def column_sig_def tighten_def required_scan_networks scan_networks_columns_def orm_scan_networks_def column_defs nullable_def)

lemma required_compliance_mappings: "(''compliance_mappings'', c) \<in> set required \<longleftrightarrow> c \<in> set [''status'', ''evidence'', ''assessed_at'']"
  by (auto simp: required_def REQUIRED_COLUMNS_def)

lemma agrees_compliance_mappings:
  "agrees \<lparr> tb_name = ''compliance_mappings'', tb_columns = tighten ''compliance_mappings'' compliance_mappings_columns, tb_uniques = [],
       tb_indexes = [(''ix_compliance_framework_control'', [''framework'', ''control_id''])] \<rparr> orm_compliance_mappings"
  by (simp add: agrees_def same_set_def column_sig_def tighten_def required_compliance_mappings compliance_mappings_columns_def orm_compliance_mappings_def column_defs nullable_def)

lemma required_platform_dependencies: "(''platform_dependencies'', c) \<in> set required \<longleftrightarrow> c \<in> set [''direct'', ''last_checked'', ''cve_count'', ''kev_count'', ''update_available'']"
  by (auto simp: required_def REQUIRED_COLUMNS_def)

lemma agrees_platform_dependencies:
  "agrees \<lparr> tb_name = ''platform_dependencies'', tb_columns = tighten ''platform_dependencies'' platform_dependencies_columns, tb_uniques = [],
       tb_indexes = [(''ix_pdep_component'', [''component'']), (''ix_pdep_name'', [''name'']), (''ix_pdep_name_version'', [''name'', ''version''])] \<rparr> orm_platform_dependencies"
  by (simp add: agrees_def same_set_def column_sig_def tighten_def required_platform_dependencies platform_dependencies_columns_def orm_platform_dependencies_def column_defs nullable_def)

lemma required_dependency_findings: "(''dependency_findings'', c) \<in> set required \<longleftrightarrow> c \<in> set [''kev'', ''severity'', ''discovered_at'', ''suppressed'']"
  by (auto simp: required_def REQUIRED_COLUMNS_def)

lemma agrees_dependency_findings:
  "agrees \<lparr> tb_name = ''dependency_findings'', tb_columns = tighten ''dependency_findings'' dependency_findings_columns, tb_uniques = [(''uq_dependency_findings_dep_cve'', [''dependency_id'', ''cve_id''])],
       tb_indexes = [(''ix_dfind_cve'', [''cve_id'']), (''ix_dependency_findings_severity'', [''severity''])] \<rparr> orm_dependency_findings"
  by (simp add: agrees_def same_set_def column_sig_def tighten_def required_dependency_findings dependency_findings_columns_def orm_dependency_findings_def column_defs nullable_def)

lemma required_update_proposals: "(''update_proposals'', c) \<in> set required \<longleftrightarrow> c \<in> set [''cves_fixed'', ''ai_assessment'', ''breaking_changes_detected'', ''status'', ''rollback_snapshot'', ''created_at'']"
  by (auto simp: required_def REQUIRED_COLUMNS_def)

lemma agrees_update_proposals:
  "agrees \<lparr> tb_name = ''update_proposals'', tb_columns = tighten ''update_proposals'' update_proposals_columns, tb_uniques = [],
       tb_indexes = [(''ix_uprop_status'', [''status''])] \<rparr> orm_update_proposals"
  by (simp add: agrees_def same_set_def column_sig_def tighten_def required_update_proposals update_proposals_columns_def orm_update_proposals_def column_defs nullable_def)

lemma required_self_security_settings: "(''self_security_settings'', c) \<in> set required \<longleftrightarrow> c \<in> set [''auto_scan_enabled'', ''scan_cron'', ''auto_update_enabled'', ''auto_update_severity_threshold'', ''auto_update_only_patch'', ''auto_update_only_kev'', ''require_ai_validation'', ''require_admin_approval'', ''auto_rollback_on_failure'', ''notify_channels'', ''ai_model'', ''excluded_packages'', ''last_scan_status'', ''packages_scanned'', ''updated_at'']"
  by (auto simp: required_def REQUIRED_COLUMNS_def)

lemma agrees_self_security_settings:
  "agrees \<lparr> tb_name = ''self_security_settings'', tb_columns = tighten ''self_security_settings'' self_security_settings_columns, tb_uniques = [],
       tb_indexes = [] \<rparr> orm_self_security_settings"
  by (simp add: agrees_def same_set_def column_sig_def tighten_def required_self_security_settings self_security_settings_columns_def orm_self_security_settings_def column_defs nullable_def)

lemma required_api_tokens: "(''api_tokens'', c) \<in> set required \<longleftrightarrow> c \<in> set [''scopes'', ''created_by'', ''created_at'', ''revoked'', ''usage_count'']"
  by (auto simp: required_def REQUIRED_COLUMNS_def)

lemma agrees_api_tokens:
  "agrees \<lparr> tb_name = ''api_tokens'', tb_columns = tighten ''api_tokens'' api_tokens_columns, tb_uniques = [],
       tb_indexes = [(''ix_api_tokens_prefix'', [''token_prefix''])] \<rparr> orm_api_tokens"
  by (simp add: agrees_def same_set_def column_sig_def tighten_def required_api_tokens api_tokens_columns_def orm_api_tokens_def column_defs nullable_def)

lemma required_webhooks: "(''webhooks'', c) \<in> set required \<longleftrightarrow> c \<in> set [''event_types'', ''severity_filter'', ''enabled'', ''created_at'', ''delivery_count'', ''failure_count'']"
  by (auto simp: required_def REQUIRED_COLUMNS_def)

lemma agrees_webhooks:
  "agrees \<lparr> tb_name = ''webhooks'', tb_columns = tighten ''webhooks'' webhooks_columns, tb_uniques = [],
       tb_indexes = [(''ix_webhooks_secret_prefix'', [''secret_prefix''])] \<rparr> orm_webhooks"
  by (simp add: agrees_def same_set_def column_sig_def tighten_def required_webhooks webhooks_columns_def orm_webhooks_def column_defs nullable_def)

lemma agrees_framework_catalogs:
  "agrees \<lparr> tb_name = ''framework_catalogs'', tb_columns = framework_catalogs_columns, tb_uniques = [(''uq_framework_catalog_code_version'', [''code'', ''version''])],
       tb_indexes = [(''ix_framework_catalog_active'', [''active''])] \<rparr> orm_framework_catalogs"
  by (simp add: agrees_def same_set_def column_sig_def framework_catalogs_columns_def orm_framework_catalogs_def column_defs nullable_def)

lemma agrees_framework_controls:
  "agrees \<lparr> tb_name = ''framework_controls'', tb_columns = framework_controls_columns, tb_uniques = [(''uq_framework_control_catalog_id'', [''catalog_id'', ''control_id''])],
       tb_indexes = [(''ix_framework_controls_rule_key'', [''rule_key''])] \<rparr> orm_framework_controls"
  by (simp add: agrees_def same_set_def column_sig_def framework_controls_columns_def orm_framework_controls_def column_defs nullable_def)

lemma agrees_assessment_runs:
  "agrees \<lparr> tb_name = ''assessment_runs'', tb_columns = assessment_runs_columns, tb_uniques = [],
       tb_indexes = [(''ix_assessment_runs_created_at'', [''created_at'']), (''ix_assessment_runs_framework'', [''framework_code'', ''framework_version'']), (''ix_assessment_runs_status'', [''status''])] \<rparr> orm_assessment_runs"
  by (simp add: agrees_def same_set_def column_sig_def assessment_runs_columns_def orm_assessment_runs_def column_defs nullable_def)

lemma agrees_assessment_results:
  "agrees \<lparr> tb_name = ''assessment_results'', tb_columns = assessment_results_columns, tb_uniques = [],
       tb_indexes = [(''ix_assessment_results_run_status'', [''run_id'', ''status'']), (''ix_assessment_results_status'', [''status'']), (''ix_assessment_results_asset_control'', [''asset_id'', ''control_id'']), (''ix_assessment_results_assessed_at'', [''assessed_at''])] \<rparr> orm_assessment_results"
  by (simp add: agrees_def same_set_def column_sig_def assessment_results_columns_def orm_assessment_results_def column_defs nullable_def)

lemma agrees_evidence_items:
  "agrees \<lparr> tb_name = ''evidence_items'', tb_columns = evidence_items_columns, tb_uniques = [],
       tb_indexes = [(''ix_evidence_source_ref'', [''source_type'', ''source_ref'']), (''ix_evidence_observed_at'', [''observed_at''])] \<rparr> orm_evidence_items"
  by (simp add: agrees_def same_set_def column_sig_def evidence_items_columns_def orm_evidence_items_def column_defs nullable_def)

lemma agrees_assessment_evidence:
  "agrees \<lparr> tb_name = ''assessment_evidence'', tb_columns = assessment_evidence_columns, tb_uniques = [],
       tb_indexes = [(''ix_assessment_evidence_evidence_id'', [''evidence_id''])] \<rparr> orm_assessment_evidence"
  by (simp add: agrees_def same_set_def column_sig_def assessment_evidence_columns_def orm_assessment_evidence_def column_defs nullable_def)

lemmas agreements = agrees_users agrees_assets agrees_cves agrees_asset_cves agrees_scans agrees_alerts agrees_audit_log agrees_integrations agrees_scan_networks agrees_compliance_mappings agrees_platform_dependencies agrees_dependency_findings agrees_update_proposals agrees_self_security_settings agrees_api_tokens agrees_webhooks agrees_framework_catalogs agrees_framework_controls agrees_assessment_runs agrees_assessment_results agrees_evidence_items agrees_assessment_evidence

lemma orm_names [simp]:
  "tb_name orm_users = ''users''"
  "tb_name orm_assets = ''assets''"
  "tb_name orm_cves = ''cves''"
  "tb_name orm_asset_cves = ''asset_cves''"
  "tb_name orm_scans = ''scans''"
  "tb_name orm_alerts = ''alerts''"
  "tb_name orm_audit_log = ''audit_log''"
  "tb_name orm_integrations = ''integrations''"
  "tb_name orm_scan_networks = ''scan_networks''"
  "tb_name orm_compliance_mappings = ''compliance_mappings''"
  "tb_name orm_platform_dependencies = ''platform_dependencies''"
  "tb_name orm_dependency_findings = ''dependency_findings''"
  "tb_name orm_update_proposals = ''update_proposals''"
  "tb_name orm_self_security_settings = ''self_security_settings''"
  "tb_name orm_api_tokens = ''api_tokens''"
  "tb_name orm_webhooks = ''webhooks''"
  "tb_name orm_framework_catalogs = ''framework_catalogs''"
  "tb_name orm_framework_controls = ''framework_controls''"
  "tb_name orm_assessment_runs = ''assessment_runs''"
  "tb_name orm_assessment_results = ''assessment_results''"
  "tb_name orm_evidence_items = ''evidence_items''"
  "tb_name orm_assessment_evidence = ''assessment_evidence''"
  by (simp_all add: orm_users_def orm_assets_def orm_cves_def orm_asset_cves_def orm_scans_def orm_alerts_def orm_audit_log_def orm_integrations_def orm_scan_networks_def orm_compliance_mappings_def orm_platform_dependencies_def orm_dependency_findings_def orm_update_proposals_def orm_self_security_settings_def orm_api_tokens_def orm_webhooks_def orm_framework_catalogs_def orm_framework_controls_def orm_assessment_runs_def orm_assessment_results_def orm_evidence_items_def orm_assessment_evidence_def)

section \<open>The whole chain\<close>

definition upgrade_head :: "schema \<Rightarrow> schema result" where
  "upgrade_head = steps [upgrade_0001, upgrade_0002, upgrade_0003, upgrade_0004, upgrade_0005, upgrade_0006, upgrade_0007]"

definition metadata_matches :: "schema \<Rightarrow> bool" where
  "metadata_matches s = (length s = length orm_metadata
     \<and> list_all (\<lambda>t. case find_table (tb_name t) s of None \<Rightarrow> False | Some u \<Rightarrow> agrees u t) orm_metadata)"

lemma head_reached: "upgrade_head [] = Inr (head_0006 @ assessment_tables)"
  by (simp add: upgrade_head_def after_0001 after_0002 after_0003 after_0004 after_0005 after_0006 after_0007)

lemma head_matches: "metadata_matches (head_0006 @ assessment_tables)"
  by (simp add: metadata_matches_def orm_metadata_def head_0006_def assessment_tables_def find_table_Cons agreements)

text \<open>
  C21: The migrations and the models describe the same database: applied to an empty one, every
  operation of the seven migrations is accepted, and the schema they leave has exactly the
  tables the models declare, each with the same columns, their types, nullability, keys,
  uniqueness and references, the same unique constraints and the same indexes.
\<close>

theorem migrations_reach_models: "\<exists>s. upgrade_head [] = Inr s \<and> metadata_matches s"
  using head_reached head_matches by blast

end
