(* ===== verification/MigratedRows.thy ===== *)
theory MigratedRows
  imports Migrations ConnectorSecrets
begin

text \<open>
  What the migrations do to stored rows: the removal of plaintext secrets
  (\<open>0005_foundation_remediation\<close>) and the repair of nulls before columns become required
  (\<open>0006_schema_alignment\<close>). A row is the dictionary of its columns, null is \<open>PNone\<close>; a
  constraint that the rows break is \<open>IntegrityError\<close>.
\<close>

section \<open>Secrets\<close>




definition set_not_null :: "string \<Rightarrow> jdict list \<Rightarrow> jdict list result" where
  "set_not_null c rows = (if list_ex (\<lambda>r. jget r c = PNone) rows then Inl IntegrityError else Inr rows)"



text \<open>Connector configurations that hold a credential in plain text lose all credentials.\<close>

definition LEGACY_KEYS :: "string list" where
  "LEGACY_KEYS = [''client_secret'', ''access_key'', ''secret_key'', ''bind_password'', ''access_key_id'',
     ''secret_access_key'', ''username'', ''password'']"













text \<open>What becomes of a second factor: sealed with the user's salt unless it was sealed already.\<close>

definition factor_secured :: "cipher \<Rightarrow> (nat \<Rightarrow> string) \<Rightarrow> user \<Rightarrow> user \<Rightarrow> bool" where
  "factor_secured c salts u v =
     (case u_mfa_secret u of
        None \<Rightarrow> v = u
      | Some s \<Rightarrow> if take 3 s = ''v1:'' then v = u
          else \<exists>sealed. encrypt_secret c s (salts (u_id u)) = Inr sealed
            \<and> v = u\<lparr>u_mfa_secret := Some (''v1:'' @ salts (u_id u) @ '':'' @ sealed)\<rparr>)"

lemma protected_take: "mfa_secret_is_protected s = (take 3 s = ''v1:'')"
  by (simp add: mfa_secret_is_protected_def starts_with_def numeral_3_eq_3)


text \<open>A sealed factor is still usable: with the promise of the cipher it opens to the old one.\<close>

lemma secured_factor_usable:
  assumes "factor_secured c salts u v" "cipher_ok c" "CHR '':'' \<notin> set (salts (u_id u))"
    and "u_mfa_secret u = Some s" "\<not> mfa_secret_is_protected s"
  shows "\<exists>p. u_mfa_secret v = Some p \<and> mfa_secret_is_protected p \<and> reveal_mfa_secret c p = Inr s"
proof -
  from assms(1,4,5) obtain sealed where "encrypt_secret c s (salts (u_id u)) = Inr sealed"
    "v = u\<lparr>u_mfa_secret := Some (''v1:'' @ salts (u_id u) @ '':'' @ sealed)\<rparr>"
    by (auto simp: factor_secured_def protected_take)
  moreover from this have "protect_mfa_secret c (salts (u_id u)) s = Inr (''v1:'' @ salts (u_id u) @ '':'' @ sealed)"
    by (simp add: protect_mfa_secret_def)
  ultimately show ?thesis
    using reveal_protect [OF assms(2,3)] by (simp add: protected_take)
qed






text \<open>The token of the asset source is not among the credentials the migration removes.\<close>

lemma api_token_not_purged: "list_all (\<lambda>(t, s). list_all (\<lambda>k. k \<in> set LEGACY_KEYS \<or> t = ''asset_api'') (cs_secret s)) SCHEMAS
    \<and> ''api_token'' \<notin> set LEGACY_KEYS"
  by code_simp

section \<open>Repaired nulls\<close>

type_synonym stored = "string \<Rightarrow> jdict list"

text \<open>\<open>UPDATE t SET c = fallback WHERE c IS NULL\<close> and the constraint after it; \<open>sql\<close> is the value of a literal.\<close>

definition repair :: "(string \<Rightarrow> pyval) \<Rightarrow> string \<Rightarrow> string \<Rightarrow> string \<Rightarrow> stored \<Rightarrow> stored" where
  "repair sql t c fallback rows = rows(t := map (\<lambda>r. if jget r c = PNone then jset c (sql fallback) r else r) (rows t))"

definition align_column :: "(string \<Rightarrow> pyval) \<Rightarrow> string \<times> string \<times> string \<Rightarrow> stored \<Rightarrow> stored result" where
  "align_column sql p rows = (case p of (t, c, fallback) \<Rightarrow>
     rbind (set_not_null c (repair sql t c fallback rows t)) (\<lambda>u. Inr (repair sql t c fallback rows)))"

definition required_columns :: "(string \<times> string \<times> string) list" where
  "required_columns = concat (map (\<lambda>(t, cs). map (\<lambda>(c, fallback). (t, c, fallback)) cs) REQUIRED_COLUMNS)"

definition align_rows :: "(string \<Rightarrow> pyval) \<Rightarrow> stored \<Rightarrow> stored result" where
  "align_rows sql = rfold (align_column sql) required_columns"

text \<open>Rows that keep every value they have.\<close>

definition keeps :: "stored \<Rightarrow> stored \<Rightarrow> bool" where
  "keeps rows rows' = (\<forall>t. list_all2 (\<lambda>r r'. \<forall>k. jget r k \<noteq> PNone \<longrightarrow> jget r' k = jget r k) (rows t) (rows' t))"

lemma keeps_refl: "keeps rows rows"
  by (simp add: keeps_def list.rel_refl)

lemma keeps_trans: "keeps a b \<Longrightarrow> keeps b c \<Longrightarrow> keeps a c"
proof -
  assume a: "keeps a b" and b: "keeps b c"
  show "keeps a c"
    unfolding keeps_def
  proof
    fix t
    show "list_all2 (\<lambda>r r'. \<forall>k. jget r k \<noteq> PNone \<longrightarrow> jget r' k = jget r k) (a t) (c t)"
      by (rule list_all2_trans [OF _ a [unfolded keeps_def, rule_format] b [unfolded keeps_def, rule_format]]) simp
  qed
qed

lemma align_column_total:
  assumes "sql fallback \<noteq> PNone"
  shows "\<exists>rows'. align_column sql (t, c, fallback) rows = Inr rows' \<and> keeps rows rows' \<and> list_all (\<lambda>r. jget r c \<noteq> PNone) (rows' t)"
proof -
  let ?r = "repair sql t c fallback rows"
  have "list_all (\<lambda>r. jget r c \<noteq> PNone) (?r t)" using assms by (auto simp: repair_def list_all_iff)
  moreover have "keeps rows ?r"
    by (auto simp: keeps_def repair_def list_all2_map2 intro: list.rel_refl_strong)
  ultimately show ?thesis
    by (auto simp: align_column_def set_not_null_def list_ex_iff list_all_iff)
qed

lemma keeps_not_null:
  assumes "keeps rows rows'" and "list_all (\<lambda>r. jget r c \<noteq> PNone) (rows t)"
  shows "list_all (\<lambda>r. jget r c \<noteq> PNone) (rows' t)"
proof -
  from assms(1) have "list_all2 (\<lambda>r r'. \<forall>k. jget r k \<noteq> PNone \<longrightarrow> jget r' k = jget r k) (rows t) (rows' t)"
    by (simp add: keeps_def)
  then show ?thesis using assms(2) by (induction rule: list_all2_induct) auto
qed

text \<open>
  C22: The alignment accepts whatever rows are stored: when the literals that replace nulls are
  values, no constraint is broken, no row is added, lost or moved, every value that was there
  is kept, and every required column then has a value in every row.
\<close>

theorem alignment_keeps_rows:
  assumes "\<And>t c fallback. (t, c, fallback) \<in> set required_columns \<Longrightarrow> sql fallback \<noteq> PNone"
  shows "\<exists>rows'. align_rows sql rows = Inr rows' \<and> keeps rows rows'
    \<and> (\<forall>(t, c, fallback)\<in>set required_columns. \<forall>r\<in>set (rows' t). jget r c \<noteq> PNone)"
proof -
  have "\<exists>rows'. rfold (align_column sql) ps rows = Inr rows' \<and> keeps rows rows'
      \<and> (\<forall>(t, c, fallback)\<in>set ps. list_all (\<lambda>r. jget r c \<noteq> PNone) (rows' t))"
    if "set ps \<subseteq> set required_columns" for ps
    using that
  proof (induction ps arbitrary: rows)
    case Nil
    then show ?case by (simp add: keeps_refl)
  next
    case (Cons p ps)
    obtain t c fallback where p: "p = (t, c, fallback)" by (cases p)
    with Cons.prems assms have "sql fallback \<noteq> PNone" by auto
    then obtain mid where mid: "align_column sql p rows = Inr mid" "keeps rows mid" "list_all (\<lambda>r. jget r c \<noteq> PNone) (mid t)"
      using align_column_total p by blast
    from Cons.IH [of mid] Cons.prems obtain rows' where r: "rfold (align_column sql) ps mid = Inr rows'" "keeps mid rows'"
      "\<forall>(t, c, fallback)\<in>set ps. list_all (\<lambda>r. jget r c \<noteq> PNone) (rows' t)" by auto
    have "list_all (\<lambda>r. jget r c \<noteq> PNone) (rows' t)" by (rule keeps_not_null [OF r(2) mid(3)])
    with mid r p keeps_trans [OF mid(2) r(2)] show ?case by auto
  qed
  then show ?thesis by (fastforce simp: align_rows_def list_all_iff)
qed

theorem alignment_keeps_rows_witness:
  "\<exists>rows'. align_rows (\<lambda>s. PStr s) (\<lambda>t. if t = ''users'' then [[(''username'', PStr ''eve'')]] else []) = Inr rows'
    \<and> keeps (\<lambda>t. if t = ''users'' then [[(''username'', PStr ''eve'')]] else []) rows'"
  using alignment_keeps_rows [of "\<lambda>s. PStr s"] by blast

end
