(* ===== verification/Startup.thy ===== *)
theory Startup
  imports Config Models
begin

text \<open>
  How the settings are read (\<open>app/core/config.py\<close>): the sources in their order, the lenient form
  of lists, and the settings of the database, the feeds, the scanner and the notifications. The
  JSON parser and the library's own reading of a value are parameters.
\<close>

section \<open>Lists\<close>

definition LIST_SETTINGS :: "string list" where
  "LIST_SETTINGS = [''ALLOWED_HOSTS'', ''CORS_ORIGINS'', ''SCAN_NETWORKS'', ''TRUSTED_PROXY_CIDRS'', ''MANAGEMENT_CIDRS'',
     ''CONNECTOR_ALLOWED_CIDRS'']"

definition comma_items :: "string \<Rightarrow> string list" where
  "comma_items raw = filter (\<lambda>x. x \<noteq> []) (map strip (split_on (CHR '','') raw))"

definition parse_list_setting :: "(string \<Rightarrow> pyval result) \<Rightarrow> string \<Rightarrow> pyval \<Rightarrow> pyval result" where
  "parse_list_setting loads name value =
     (if name \<notin> set LIST_SETTINGS then Inr value
      else case value of
        PStr s \<Rightarrow>
          let raw = strip s
          in if raw = [] then Inr (PList [])
             else if starts_with ''['' raw then loads raw
             else Inr (PList (map PStr (comma_items raw)))
      | _ \<Rightarrow> Inr value)"

text \<open>
  \<open>prepare_field_value\<close> of both lenient sources: a text of a list setting is always parsed to
  another object; the library reads the rest.
\<close>

definition is_list_text :: "string \<Rightarrow> pyval \<Rightarrow> bool" where
  "is_list_text name value = (name \<in> set LIST_SETTINGS \<and> (case value of PStr s \<Rightarrow> True | _ \<Rightarrow> False))"

definition prepare_field_value :: "(string \<Rightarrow> pyval result) \<Rightarrow> (string \<Rightarrow> pyval \<Rightarrow> pyval result) \<Rightarrow> string \<Rightarrow> pyval \<Rightarrow> pyval result" where
  "prepare_field_value loads library name value =
     rbind (parse_list_setting loads name value) (\<lambda>parsed.
       if is_list_text name value then Inr parsed else library name value)"

section \<open>Sources\<close>

text \<open>
  Arguments, environment, \<open>.env\<close> file and secret files, each giving raw values; every source is
  read, and the first that has a value wins.
\<close>

record sources =
  src_init :: "string \<rightharpoonup> pyval"
  src_env :: "string \<rightharpoonup> pyval"
  src_dotenv :: "string \<rightharpoonup> pyval"
  src_files :: "string \<rightharpoonup> pyval"

definition read_from :: "('a \<Rightarrow> 'b result) \<Rightarrow> 'a option \<Rightarrow> 'b option result" where
  "read_from f v = (case v of None \<Rightarrow> Inr None | Some x \<Rightarrow> rbind (f x) (\<lambda>y. Inr (Some y)))"

fun first_value :: "'a option list \<Rightarrow> 'a option" where
  "first_value [] = None"
| "first_value (None # vs) = first_value vs"
| "first_value (Some v # vs) = Some v"

definition setting_value :: "(string \<Rightarrow> pyval result) \<Rightarrow> (string \<Rightarrow> pyval \<Rightarrow> pyval result) \<Rightarrow> sources \<Rightarrow> string \<Rightarrow> pyval option result" where
  "setting_value loads library s name =
     rbind (read_from (prepare_field_value loads library name) (src_env s name)) (\<lambda>env.
     rbind (read_from (prepare_field_value loads library name) (src_dotenv s name)) (\<lambda>dotenv.
     rbind (read_from (library name) (src_files s name)) (\<lambda>files.
       Inr (first_value [src_init s name, env, dotenv, files]))))"

section \<open>The other settings\<close>

record service_settings =
  POSTGRES_HOST :: string
  POSTGRES_PORT :: int
  POSTGRES_DB :: string
  POSTGRES_USER :: string
  POSTGRES_PASSWORD :: string
  DB_POOL_SIZE :: int
  DB_MAX_OVERFLOW :: int
  REDIS_URL :: string
  AI_MAX_CONCURRENCY :: int
  NVD_API_KEY :: string
  NVD_BASE_URL :: string
  EPSS_BASE_URL :: string
  KEV_FEED_URL :: string
  OSV_BASE_URL :: string
  EOL_BASE_URL :: string
  NMAP_TIMING :: int
  SCAN_TIMEOUT_SEC :: int
  SLACK_WEBHOOK_URL :: string
  SMTP_HOST :: string
  SMTP_PORT :: int
  SMTP_USER :: string
  SMTP_PASSWORD :: string
  SMTP_FROM :: string
  PAGERDUTY_KEY :: string

definition default_services :: "string \<Rightarrow> string \<Rightarrow> service_settings" where
  "default_services password redis = \<lparr> POSTGRES_HOST = ''postgres'', POSTGRES_PORT = 5432, POSTGRES_DB = ''kepryx'',
     POSTGRES_USER = ''kepryx'', POSTGRES_PASSWORD = password, DB_POOL_SIZE = 20, DB_MAX_OVERFLOW = 10, REDIS_URL = redis,
     AI_MAX_CONCURRENCY = 2, NVD_API_KEY = [], NVD_BASE_URL = ''https://services.nvd.nist.gov/rest/json/cves/2.0'',
     EPSS_BASE_URL = ''https://api.first.org/data/v1/epss'',
     KEV_FEED_URL = ''https://www.cisa.gov/sites/default/files/feeds/known_exploited_vulnerabilities.json'',
     OSV_BASE_URL = ''https://api.osv.dev/v1/query'', EOL_BASE_URL = ''https://endoflife.date/api'', NMAP_TIMING = 4,
     SCAN_TIMEOUT_SEC = 3600, SLACK_WEBHOOK_URL = [], SMTP_HOST = [], SMTP_PORT = 587, SMTP_USER = [], SMTP_PASSWORD = [],
     SMTP_FROM = ''kepryx@example.com'', PAGERDUTY_KEY = [] \<rparr>"

definition service_limits_ok :: "service_settings \<Rightarrow> bool" where
  "service_limits_ok s = (1 \<le> AI_MAX_CONCURRENCY s \<and> AI_MAX_CONCURRENCY s \<le> 16 \<and> 0 \<le> NMAP_TIMING s \<and> NMAP_TIMING s \<le> 5
     \<and> 1 \<le> SCAN_TIMEOUT_SEC s \<and> SCAN_TIMEOUT_SEC s \<le> 86400)"

record db_address =
  da_driver :: string
  da_username :: string
  da_password :: string
  da_host :: string
  da_port :: int
  da_database :: string

definition url_create :: "string \<Rightarrow> service_settings \<Rightarrow> db_address" where
  "url_create driver s = \<lparr> da_driver = driver, da_username = POSTGRES_USER s, da_password = POSTGRES_PASSWORD s,
     da_host = POSTGRES_HOST s, da_port = POSTGRES_PORT s, da_database = POSTGRES_DB s \<rparr>"

definition db_url :: "(db_address \<Rightarrow> string) \<Rightarrow> service_settings \<Rightarrow> string" where
  "db_url render s = render (url_create ''postgresql+asyncpg'' s)"

definition db_url_sync :: "(db_address \<Rightarrow> string) \<Rightarrow> service_settings \<Rightarrow> string" where
  "db_url_sync render s = render (url_create ''postgresql+psycopg'' s)"

section \<open>What is read\<close>

lemma join_head: "join s ((c # a) # xs) = c # join s (a # xs)"
  by (cases xs) simp_all

lemma join_comma_blank: "join '', '' (x # xs) = join [CHR '',''] (x # map ((#) (CHR '' '')) xs)"
  by (induction xs arbitrary: x) (simp_all add: join_head)

definition plain_item :: "string \<Rightarrow> bool" where
  "plain_item x = (x \<noteq> [] \<and> strip x = x \<and> CHR '','' \<notin> set x)"

lemma strip_blank: "strip (CHR '' '' # x) = strip x"
  by (simp add: strip_def lstrip_chars_def is_space_def char_code_def)

lemma plain_ends: "plain_item x \<Longrightarrow> \<not> is_space (hd x) \<and> \<not> is_space (last x)"
  using strip_ends [of x] by (simp add: plain_item_def)

lemma comma_items_join:
  assumes "\<forall>x\<in>set (x # xs). plain_item x"
  shows "comma_items (join '', '' (x # xs)) = x # xs" and "strip (join '', '' (x # xs)) = join '', '' (x # xs)"
proof -
  have "split_on (CHR '','') (join '', '' (x # xs)) = x # map ((#) (CHR '' '')) xs"
    unfolding join_comma_blank by (rule split_on_join) (use assms in \<open>auto simp: plain_item_def\<close>)
  then have "comma_items (join '', '' (x # xs)) = filter (\<lambda>y. y \<noteq> []) (strip x # map strip xs)"
    by (simp add: comma_items_def comp_def strip_blank)
  also have "strip x # map strip xs = x # xs" using assms by (auto simp: plain_item_def intro: map_idI)
  finally show "comma_items (join '', '' (x # xs)) = x # xs" using assms by (auto simp: plain_item_def filter_id_conv)
  show "strip (join '', '' (x # xs)) = join '', '' (x # xs)"
  proof (rule strip_id)
    have ends: "\<not> is_space (hd (join '', '' (y # ys))) \<and> \<not> is_space (last (join '', '' (y # ys))) \<and> join '', '' (y # ys) \<noteq> []"
      if "\<forall>z\<in>set (y # ys). plain_item z" for y ys
      using that
    proof (induction ys arbitrary: y)
      case Nil
      then show ?case using plain_ends by (auto simp: plain_item_def)
    next
      case (Cons z zs)
      have "y \<noteq> []" using Cons.prems by (simp add: plain_item_def)
      with Cons.IH [of z] Cons.prems plain_ends [of y] show ?case by simp
    qed
    from ends [OF assms] show "\<not> is_space (hd (join '', '' (x # xs))) \<and> \<not> is_space (last (join '', '' (x # xs)))" by simp
  qed
qed

text \<open>
  A list setting written as its items, separated by a comma and a blank, is read back as these
  items, whatever source but the arguments it comes from and whatever the library does, when
  no item is blank at an end or holds a comma and the first does not open with a bracket.
\<close>

theorem list_setting_roundtrip:
  assumes "name \<in> set LIST_SETTINGS" and "\<forall>x\<in>set xs. plain_item x" and "xs = [] \<or> \<not> starts_with ''['' (hd xs)"
    and "src_init s name = None" and "src_env s name = Some (PStr (join '', '' xs))" and "src_dotenv s name = None"
    and "src_files s name = None"
  shows "setting_value loads library s name = Inr (Some (PList (map PStr xs)))"
proof (cases xs)
  case Nil
  with assms show ?thesis
    by (simp add: setting_value_def read_from_def prepare_field_value_def parse_list_setting_def is_list_text_def Let_def)
next
  case (Cons y ys)
  have ne: "y \<noteq> []" using assms(2) Cons by (simp add: plain_item_def)
  then have "starts_with ''['' (join '', '' (y # ys)) = starts_with ''['' y"
    by (cases ys; cases y) (simp_all add: starts_with_def)
  moreover have "join '', '' (y # ys) \<noteq> []" using ne by (cases ys) simp_all
  moreover note comma_items_join [of y ys]
  ultimately show ?thesis using assms Cons
    by (simp add: setting_value_def read_from_def prepare_field_value_def parse_list_setting_def is_list_text_def Let_def del: join.simps)
qed

text \<open>
  A first item in brackets, as an IPv6 host is written, makes the whole list be read as JSON.
\<close>

lemma bracketed_host_is_json:
  "parse_list_setting loads ''ALLOWED_HOSTS'' (PStr ''[::1], localhost'') = loads ''[::1], localhost''"
  by code_simp

theorem list_setting_roundtrip_witness:
  "setting_value (\<lambda>s. Inl TypeError) (\<lambda>n v. Inr v) \<lparr> src_init = Map.empty, src_env = [''SCAN_NETWORKS'' \<mapsto> PStr ''10.0.0.0/24, 10.1.0.0/24''],
     src_dotenv = Map.empty, src_files = Map.empty \<rparr> ''SCAN_NETWORKS'' = Inr (Some (PList [PStr ''10.0.0.0/24'', PStr ''10.1.0.0/24'']))"
proof -
  have plain: "\<forall>x\<in>set [''10.0.0.0/24'', ''10.1.0.0/24'']. plain_item x" by code_simp
  show ?thesis
    by (rule list_setting_roundtrip [OF _ plain, unfolded list.map]) (simp_all add: LIST_SETTINGS_def starts_with_def)
qed

end
