(* ===== verification/Bootstrap.thy ===== *)
theory Bootstrap
  imports Gdpr
begin

text \<open>
  The first administrator (\<open>scripts/bootstrap.py\<close>): what the script does with the answers it is
  given. \<open>SystemExit\<close> is \<open>RuntimeError\<close> with its text.
\<close>

record bootstrap_input =
  bi_env_email :: "string option"
  bi_typed_email :: string
  bi_env_password :: "string option"
  bi_typed_password :: string

definition given_or_typed :: "string option \<Rightarrow> string \<Rightarrow> string" where
  "given_or_typed given typed = (if truthy_str given then the given else typed)"

text \<open>Whether an administrator was created.\<close>

definition bootstrap :: "'r env \<Rightarrow> int \<Rightarrow> bootstrap_input \<Rightarrow> db \<Rightarrow> bool result \<times> db" where
  "bootstrap env now b d =
     (case scalar_one_or_none (filter (\<lambda>u. u_username u = ''admin'') (users d)) of
        Inl e \<Rightarrow> (Inl e, d)
      | Inr (Some u) \<Rightarrow> (Inr False, d)
      | Inr None \<Rightarrow>
          let email = given_or_typed (bi_env_email b) (strip (bi_typed_email b));
              password = given_or_typed (bi_env_password b) (bi_typed_password b)
          in if email = [] then (Inl (RuntimeError ''Admin email is required''), d)
             else case validate_password (env_cfg env) password (Some ''admin'') of
               Inl (PasswordPolicyError m) \<Rightarrow> (Inl (RuntimeError (''Admin password does not meet policy: '' @ m)), d)
             | Inl e \<Rightarrow> (Inl e, d)
             | Inr v \<Rightarrow>
                 let (i, d1) = fresh_id d;
                     u = (new_user i now)\<lparr>u_username := ''admin'', u_email := email, u_password_hash := env_hash env password,
                           u_role := ''admin''\<rparr>
                 in if \<not> user_fits u then (Inl DataError, d)
                    else if user_taken u d then (Inl IntegrityError, d)
                    else (Inr True, d1\<lparr>users := users d1 @ [u]\<rparr>))"

text \<open>
  What the script leaves: nothing changed, or one new active administrator named admin whose
  password satisfies the policy.
\<close>

lemma bootstrap_effect:
  assumes "bootstrap env now b d = (r, d')"
  shows "r \<noteq> Inr True \<and> d' = d
    \<or> r = Inr True \<and> (\<exists>u password. users d' = users d @ [u] \<and> u_id u = next_id d \<and> u_username u = ''admin'' \<and> u_role u = ''admin''
        \<and> u_is_active u \<and> u_password_hash u = env_hash env password
        \<and> validate_password (env_cfg env) password (Some ''admin'') = Inr () \<and> next_id d' = Suc (next_id d)
        \<and> (\<forall>v\<in>set (users d). u_username v \<noteq> ''admin''))"
proof (cases "filter (\<lambda>u. u_username u = ''admin'') (users d)" rule: scalar_one_or_none_cases)
  case none
  let ?email = "given_or_typed (bi_env_email b) (strip (bi_typed_email b))"
  let ?password = "given_or_typed (bi_env_password b) (bi_typed_password b)"
  show ?thesis
  proof (cases "?email = [] \<or> validate_password (env_cfg env) ?password (Some ''admin'') \<noteq> Inr ()")
    case True
    then have "r \<noteq> Inr True \<and> d' = d" using assms none(2)
      by (auto simp: bootstrap_def Let_def split: sum.splits exn.splits if_splits)
    then show ?thesis by blast
  next
    case False
    with none assms show ?thesis
      by (auto simp: bootstrap_def Let_def fresh_id_def new_user_def filter_empty_conv split: if_splits)
  qed
qed (use assms in \<open>auto simp: bootstrap_def\<close>)

text \<open>Running the script again changes nothing.\<close>

lemma bootstrap_once:
  assumes "bootstrap env now b d = (Inr True, d')" and "bootstrap env now' b' d' = (r, e)"
  shows "e = d' \<and> r \<noteq> Inr True"
proof -
  from bootstrap_effect [OF assms(1)] obtain u where "users d' = users d @ [u]" "u_username u = ''admin''" by auto
  then show ?thesis using bootstrap_effect [OF assms(2)] by auto
qed

text \<open>
  C11: A deployment keeps an administrator: after the script has created the first account of an
  empty user table, no sequence of user requests, logins and retention runs leads to a state
  without an active administrator, and the password it started with satisfies the policy.
\<close>

theorem deployment_keeps_admin:
  assumes "bootstrap env now b d = (Inr True, d1)" and "users d = []" and "(user_step env)\<^sup>*\<^sup>* d1 d2"
  shows "users_ok d2 \<and> (\<exists>u\<in>set (users d2). active_admin u)
    \<and> (\<exists>u password. users d1 = [u] \<and> u_password_hash u = env_hash env password
        \<and> validate_password (env_cfg env) password (Some ''admin'') = Inr ())"
proof -
  from bootstrap_effect [OF assms(1)] assms(2) obtain u password where u: "users d1 = [u]" "u_id u = next_id d"
      "u_role u = ''admin''" "u_is_active u" "u_password_hash u = env_hash env password" "next_id d1 = Suc (next_id d)"
      "validate_password (env_cfg env) password (Some ''admin'') = Inr ()" by auto
  then have "users_ok d1" by (simp add: users_ok_def active_admin_def)
  then have "users_ok d2" by (rule user_run_ok [OF assms(3)])
  then show ?thesis using u by (auto simp: users_ok_def list_ex_iff)
qed

definition first_run :: bootstrap_input where
  "first_run = \<lparr> bi_env_email = None, bi_typed_email = '' root@x '', bi_env_password = Some ''Str0ng-Enough!Pass'', bi_typed_password = [] \<rparr>"

lemma sample_bootstrap: "\<exists>d1. bootstrap plain_env 0 first_run empty_db = (Inr True, d1)"
  by (rule exI) code_simp

theorem deployment_keeps_admin_witness:
  "\<exists>d1. bootstrap plain_env 0 first_run empty_db = (Inr True, d1) \<and> (\<exists>u\<in>set (users d1). active_admin u)"
proof -
  obtain d1 where d1: "bootstrap plain_env 0 first_run empty_db = (Inr True, d1)" using sample_bootstrap by blast
  have "users empty_db = []" by (simp add: empty_db_def)
  from deployment_keeps_admin [OF d1 this rtranclp.rtrancl_refl] d1 show ?thesis by blast
qed

end
