(* ===== verification/Channels.thy ===== *)
theory Channels
  imports Notify
begin

text \<open>
  The Slack message and the mail of an alert (\<open>app/services/notifications.py\<close>). Glyphs beyond
  Latin-1 (the emoji of a severity, the dash) and the texts of the clock are parameters, as are
  the transports.
\<close>

record channel_env =
  ch_show :: "pyval \<Rightarrow> string"
  ch_emoji :: "string \<Rightarrow> string"
  ch_dash :: string
  ch_clock :: string
  ch_iso :: string
  ch_slack_webhook_url :: string
  ch_smtp_host :: string
  ch_smtp_port :: int
  ch_smtp_user :: string
  ch_smtp_password :: string
  ch_smtp_from :: string

definition severity_color :: "string \<Rightarrow> string" where
  "severity_color s =
     (if s = ''critical'' then ''#ef4444'' else if s = ''high'' then ''#f59e0b'' else if s = ''medium'' then ''#eab308''
      else if s = ''low'' then ''#3b82f6'' else ''#64748b'')"

text \<open>\<open>alert.get("severity", default)\<close>, on which \<open>upper\<close> is called\<close>

definition severity_of :: "jdict \<Rightarrow> string \<Rightarrow> string result" where
  "severity_of alert dflt = (case map_of alert ''severity'' of
     None \<Rightarrow> Inr dflt | Some (PStr s) \<Rightarrow> Inr s | Some v \<Rightarrow> Inl AttributeError)"

definition get_key :: "jdict \<Rightarrow> string \<Rightarrow> pyval \<Rightarrow> pyval" where
  "get_key alert k dflt = (case map_of alert k of None \<Rightarrow> dflt | Some v \<Rightarrow> v)"

definition first_true :: "pyval list \<Rightarrow> pyval" where
  "first_true vs = (case filter py_truthy (butlast vs) of [] \<Rightarrow> last vs | v # ws \<Rightarrow> v)"

section \<open>Slack\<close>

definition slack_field :: "string \<Rightarrow> pyval \<Rightarrow> pyval" where
  "slack_field title v = PDict [(''title'', PStr title), (''value'', v), (''short'', PBool True)]"

definition slack_payload :: "channel_env \<Rightarrow> jdict \<Rightarrow> jdict result" where
  "slack_payload env alert = rbind (severity_of alert ''info'') (\<lambda>sev.
     Inr [(''attachments'', PList [PDict
       [(''color'', PStr (severity_color sev)),
        (''title'', PStr (ch_emoji env sev @ '' '' @ py_str (ch_show env) (jget alert ''title''))),
        (''text'', get_key alert ''description'' (PStr [])),
        (''fields'', PList
          [slack_field ''Severity'' (PStr (upper sev)), slack_field ''Type'' (get_key alert ''alert_type'' (PStr [])),
           slack_field ''Asset'' (PStr (py_str (ch_show env)
             (first_true [jget alert ''asset_name'', jget alert ''asset_id'', PStr (ch_dash env)]))),
           slack_field ''Time'' (PStr (ch_clock env))]),
        (''footer'', PStr ''KEPRYX Asset Intelligence'')]])])"

text \<open>The post with its \<open>raise_for_status\<close> is the parameter.\<close>

definition send_slack :: "channel_env \<Rightarrow> (string \<Rightarrow> jdict \<Rightarrow> unit result) \<Rightarrow> jdict \<Rightarrow> unit result" where
  "send_slack env post alert = rbind (slack_payload env alert) (post (ch_slack_webhook_url env))"

section \<open>Mail\<close>

record mail =
  ml_subject :: string
  ml_from :: string
  ml_to :: string
  ml_body :: string

definition newline_char :: string where "newline_char = [CHR 0x0A]"

definition mail_body :: "channel_env \<Rightarrow> string \<Rightarrow> jdict \<Rightarrow> string" where
  "mail_body env sev alert =
     (let text = (\<lambda>v. py_str (ch_show env) v); nl = newline_char
      in nl @ ''KEPRYX Security Alert'' @ nl @ nl
         @ ''Severity:    '' @ upper sev @ nl
         @ ''Type:        '' @ text (jget alert ''alert_type'') @ nl
         @ ''Title:       '' @ text (jget alert ''title'') @ nl
         @ ''Asset:       '' @ text (first_true [jget alert ''asset_name'', jget alert ''asset_id'', PStr ''N/A'']) @ nl
         @ ''Time:        '' @ ch_iso env @ nl @ nl
         @ ''Description:'' @ nl @ text (get_key alert ''description'' (PStr [])) @ nl @ nl
         @ ''Details:'' @ nl @ text (get_key alert ''details'' (PDict [])) @ nl)"

definition alert_mail :: "channel_env \<Rightarrow> jdict \<Rightarrow> mail result" where
  "alert_mail env alert = rbind (severity_of alert []) (\<lambda>sev.
     Inr \<lparr> ml_subject = ''[KEPRYX '' @ upper sev @ ''] '' @ py_str (ch_show env) (jget alert ''title''),
           ml_from = ch_smtp_from env, ml_to = ch_smtp_from env, ml_body = mail_body env sev alert \<rparr>)"

text \<open>A session: encryption is started before anything is sent, and credentials follow only if a user is configured.\<close>

datatype smtp_step = Connect string int | StartTLS | Login string string | SendMessage mail

definition smtp_session :: "channel_env \<Rightarrow> mail \<Rightarrow> smtp_step list" where
  "smtp_session env m = [Connect (ch_smtp_host env) (ch_smtp_port env), StartTLS]
     @ (if ch_smtp_user env \<noteq> [] then [Login (ch_smtp_user env) (ch_smtp_password env)] else []) @ [SendMessage m]"

fun run_session :: "(smtp_step list \<Rightarrow> smtp_step \<Rightarrow> unit result) \<Rightarrow> smtp_step list \<Rightarrow> smtp_step list \<Rightarrow> unit result" where
  "run_session smtp before [] = Inr ()"
| "run_session smtp before (x # xs) = rbind (smtp before x) (\<lambda>u. run_session smtp (before @ [x]) xs)"

definition send_mail :: "channel_env \<Rightarrow> (smtp_step list \<Rightarrow> smtp_step \<Rightarrow> unit result) \<Rightarrow> jdict \<Rightarrow> unit result" where
  "send_mail env smtp alert = rbind (alert_mail env alert) (\<lambda>m. run_session smtp [] (smtp_session env m))"

section \<open>What is sent\<close>

text \<open>The payload of a stored alert can always be rendered.\<close>

lemma stored_alert_rendered:
  "\<exists>p m. slack_payload env (alert_payload al a) = Inr p \<and> alert_mail env (alert_payload al a) = Inr m
     \<and> ml_subject m = ''[KEPRYX '' @ upper (al_severity al) @ ''] '' @ al_title al"
  by (simp add: slack_payload_def alert_mail_def severity_of_def alert_payload_def jget_def py_str_def)

text \<open>Neither credentials nor the alert leave before the connection is encrypted.\<close>

lemma tls_first:
  assumes "x \<in> set (smtp_session env m)" and "\<forall>h p. x \<noteq> Connect h p" and "x \<noteq> StartTLS"
    and "smtp_session env m = before @ x # after"
  shows "StartTLS \<in> set before"
proof -
  have "before \<noteq> []" using assms(2,4) by (cases before) (auto simp: smtp_session_def)
  then obtain b bs where b: "before = b # bs" by (cases before) auto
  have "bs \<noteq> []" using assms(3,4) b by (cases bs) (auto simp: smtp_session_def)
  then show ?thesis using assms(4) b by (cases bs) (auto simp: smtp_session_def)
qed

text \<open>The channels of the flush, with the two messages of this theory.\<close>

definition with_channels :: "channel_env \<Rightarrow> (string \<Rightarrow> jdict \<Rightarrow> unit result) \<Rightarrow> (smtp_step list \<Rightarrow> smtp_step \<Rightarrow> unit result) \<Rightarrow>
    notify_env \<Rightarrow> notify_env" where
  "with_channels env post smtp ne = ne\<lparr>ne_slack := send_slack env post, ne_email := send_mail env smtp,
     ne_slack_webhook_url := ch_slack_webhook_url env, ne_smtp_host := ch_smtp_host env\<rparr>"

text \<open>
  A stored alert reaches Slack exactly when Slack is configured, chosen for its severity and
  accepts the message.
\<close>

lemma slack_notified:
  "''slack'' \<in> set (notifier_dispatch (with_channels env post smtp ne) (alert_payload al a) None) \<longleftrightarrow>
   al_severity al \<in> {''critical'', ''high'', ''medium''} \<and> ch_slack_webhook_url env \<noteq> []
     \<and> (\<exists>p. slack_payload env (alert_payload al a) = Inr p \<and> post (ch_slack_webhook_url env) p = Inr ())"
proof -
  have sev: "text_or (with_channels env post smtp ne) (alert_payload al a) ''severity'' ''info'' = al_severity al"
    by (simp add: text_or_def alert_payload_def py_str_def)
  have default: "''slack'' \<in> set (default_channels s) \<longleftrightarrow> s \<in> {''critical'', ''high'', ''medium''}" for s
    by (simp add: default_channels_def)
  have sent: "channel_sent e p ''slack'' \<longleftrightarrow> ne_slack_webhook_url e \<noteq> [] \<and> ne_slack e p = Inr ()" for e p
    by (simp add: channel_sent_def)
  have env: "ne_slack_webhook_url (with_channels env post smtp ne) = ch_slack_webhook_url env"
    "ne_slack (with_channels env post smtp ne) = send_slack env post" by (simp_all add: with_channels_def)
  have "''slack'' \<in> set (notifier_dispatch (with_channels env post smtp ne) (alert_payload al a) None) \<longleftrightarrow>
      ''slack'' \<in> set (default_channels (al_severity al)) \<and> channel_sent (with_channels env post smtp ne) (alert_payload al a) ''slack''"
    by (simp only: notifier_dispatch_def sev Let_def option.case set_filter) blast
  then show ?thesis unfolding default sent env send_slack_def rbind_eq_Inr by blast
qed

end
