(* ===== verification/Routes.thy ===== *)
theory Routes
  imports Access
begin

text \<open>
  The endpoints of the application: every route the files of \<open>app/api\<close> and \<open>app/main.py\<close>
  declare, with its path template, the guard among its dependencies and its rate limit, in the
  order in which \<open>app/main.py\<close> includes the routers. A dependency named twice for one route is
  run once, as the framework caches it. A path template is matched segment by segment, as the
  framework documents it; which texts a \<open>uuid\<close> segment takes is a parameter.
\<close>

section \<open>Routes\<close>

text \<open>What a route demands of its caller.\<close>

datatype guard =
    NoGuard
  | CurrentUser
  | RequireScope string "string list"
  | RequireAnalyst
  | RequireAdmin

datatype limit =
    PerUser string nat int
  | PerIp string nat int

record route =
  rt_method :: string
  rt_path :: string
  rt_guard :: guard
  rt_limit :: "limit option"
  rt_name :: string

definition endpoint :: "string \<Rightarrow> string \<Rightarrow> guard \<Rightarrow> limit option \<Rightarrow> string \<Rightarrow> route" where
  "endpoint m p g l n = \<lparr> rt_method = m, rt_path = p, rt_guard = g, rt_limit = l, rt_name = n \<rparr>"

definition API_V1_PREFIX :: string where "API_V1_PREFIX = ''/api/v1''"

text \<open>The scopes most reading endpoints ask for.\<close>

definition read_scope :: guard where
  "read_scope = RequireScope ''compliance:read'' [''viewer'', ''analyst'']"

subsection \<open>\<open>app/api/auth.py\<close>\<close>

definition auth_login_route :: route where
  "auth_login_route = endpoint ''POST'' ''/login'' NoGuard
     (Some (PerIp ''login'' 10 60)) ''login''"

definition auth_refresh_route :: route where
  "auth_refresh_route = endpoint ''POST'' ''/refresh'' NoGuard
     None ''refresh''"

definition auth_mfa_enroll_route :: route where
  "auth_mfa_enroll_route = endpoint ''POST'' ''/mfa/enroll'' CurrentUser
     None ''mfa_enroll''"

definition auth_mfa_confirm_route :: route where
  "auth_mfa_confirm_route = endpoint ''POST'' ''/mfa/confirm'' CurrentUser
     None ''mfa_confirm''"

definition auth_change_password_route :: route where
  "auth_change_password_route = endpoint ''POST'' ''/password'' CurrentUser
     None ''change_password''"

definition auth_me_route :: route where
  "auth_me_route = endpoint ''GET'' ''/me'' CurrentUser
     None ''me''"

definition auth_router :: "route list" where
  "auth_router = [auth_login_route, auth_refresh_route, auth_mfa_enroll_route, auth_mfa_confirm_route,
     auth_change_password_route, auth_me_route]"

subsection \<open>\<open>app/api/assets.py\<close>\<close>

definition assets_list_assets_route :: route where
  "assets_list_assets_route = endpoint ''GET'' [] (RequireScope ''assets:read'' [''viewer'', ''analyst''])
     None ''list_assets''"

definition assets_get_asset_route :: route where
  "assets_get_asset_route = endpoint ''GET'' ''/{asset_id:uuid}'' (RequireScope ''assets:read'' [''viewer'', ''analyst''])
     None ''get_asset''"

definition assets_update_asset_route :: route where
  "assets_update_asset_route = endpoint ''PATCH'' ''/{asset_id:uuid}'' (RequireScope ''assets:write'' [''analyst''])
     None ''update_asset''"

definition assets_trigger_enrichment_route :: route where
  "assets_trigger_enrichment_route = endpoint ''POST'' ''/{asset_id:uuid}/enrich'' (RequireScope ''assets:write'' [''analyst''])
     None ''trigger_enrichment''"

definition assets_ai_ingest_route :: route where
  "assets_ai_ingest_route = endpoint ''POST'' ''/ingest/ai'' (RequireScope ''assets:write'' [''analyst''])
     (Some (PerUser ''ai_ingest'' 5 60)) ''ai_ingest''"

definition assets_stats_summary_route :: route where
  "assets_stats_summary_route = endpoint ''GET'' ''/stats/summary'' (RequireScope ''assets:read'' [''viewer'', ''analyst''])
     None ''stats_summary''"

definition assets_create_asset_route :: route where
  "assets_create_asset_route = endpoint ''POST'' [] (RequireScope ''assets:write'' [''analyst''])
     None ''create_asset''"

definition assets_router :: "route list" where
  "assets_router = [assets_list_assets_route, assets_get_asset_route, assets_update_asset_route,
     assets_trigger_enrichment_route, assets_ai_ingest_route, assets_stats_summary_route,
     assets_create_asset_route]"

subsection \<open>\<open>app/api/alerts.py\<close>\<close>

definition alerts_list_alerts_route :: route where
  "alerts_list_alerts_route = endpoint ''GET'' [] (RequireScope ''alerts:read'' [''viewer'', ''analyst''])
     None ''list_alerts''"

definition alerts_resolve_alert_route :: route where
  "alerts_resolve_alert_route = endpoint ''PATCH'' ''/{alert_id:uuid}/resolve'' (RequireScope ''alerts:resolve'' [''analyst''])
     None ''resolve_alert''"

definition alerts_router :: "route list" where
  "alerts_router = [alerts_list_alerts_route, alerts_resolve_alert_route]"

subsection \<open>\<open>app/api/assistant.py\<close>\<close>

definition assistant_chat_route :: route where
  "assistant_chat_route = endpoint ''POST'' ''/chat'' (RequireScope ''assets:read'' [''viewer'', ''analyst''])
     (Some (PerIp ''assistant_chat'' 20 60)) ''chat''"

definition assistant_router :: "route list" where
  "assistant_router = [assistant_chat_route]"

subsection \<open>\<open>app/api/integrations.py\<close>\<close>

definition integrations_types_route :: route where
  "integrations_types_route = endpoint ''GET'' ''/types'' (RequireScope ''integrations:read'' [''admin''])
     None ''types''"

definition integrations_list_integrations_route :: route where
  "integrations_list_integrations_route = endpoint ''GET'' [] (RequireScope ''integrations:read'' [''admin''])
     None ''list_integrations''"

definition integrations_create_integration_route :: route where
  "integrations_create_integration_route = endpoint ''POST'' [] RequireAdmin
     None ''create_integration''"

definition integrations_update_integration_route :: route where
  "integrations_update_integration_route = endpoint ''PATCH'' ''/{integration_id}'' RequireAdmin
     None ''update_integration''"

definition integrations_test_integration_route :: route where
  "integrations_test_integration_route = endpoint ''POST'' ''/{integration_id}/test'' RequireAdmin
     None ''test_integration''"

definition integrations_run_integration_now_route :: route where
  "integrations_run_integration_now_route = endpoint ''POST'' ''/{integration_id}/run'' RequireAdmin
     None ''run_integration_now''"

definition integrations_router :: "route list" where
  "integrations_router = [integrations_types_route, integrations_list_integrations_route,
     integrations_create_integration_route, integrations_update_integration_route,
     integrations_test_integration_route, integrations_run_integration_now_route]"

subsection \<open>\<open>app/api/scans.py\<close>\<close>

definition scans_list_scans_route :: route where
  "scans_list_scans_route = endpoint ''GET'' [] (RequireScope ''scans:read'' [''analyst''])
     None ''list_scans''"

definition scans_list_networks_route :: route where
  "scans_list_networks_route = endpoint ''GET'' ''/networks'' RequireAdmin
     None ''list_networks''"

definition scans_add_network_route :: route where
  "scans_add_network_route = endpoint ''POST'' ''/networks'' RequireAdmin
     None ''add_network''"

definition scans_trigger_scan_now_route :: route where
  "scans_trigger_scan_now_route = endpoint ''POST'' ''/trigger'' (RequireScope ''scans:trigger'' [''admin''])
     None ''trigger_scan_now''"

definition scans_trigger_service_scan_route :: route where
  "scans_trigger_service_scan_route = endpoint ''POST'' ''/service'' (RequireScope ''scans:trigger'' [''admin''])
     None ''trigger_service_scan''"

definition scans_router :: "route list" where
  "scans_router = [scans_list_scans_route, scans_list_networks_route, scans_add_network_route,
     scans_trigger_scan_now_route, scans_trigger_service_scan_route]"

subsection \<open>\<open>app/api/compliance.py\<close>\<close>

definition compliance_list_compliance_route :: route where
  "compliance_list_compliance_route = endpoint ''GET'' [] read_scope
     None ''list_compliance''"

definition compliance_compliance_summary_route :: route where
  "compliance_compliance_summary_route = endpoint ''GET'' ''/summary'' read_scope
     None ''compliance_summary''"

definition compliance_list_frameworks_route :: route where
  "compliance_list_frameworks_route = endpoint ''GET'' ''/frameworks'' read_scope
     None ''list_frameworks''"

definition compliance_list_assessment_runs_route :: route where
  "compliance_list_assessment_runs_route = endpoint ''GET'' ''/runs'' read_scope
     None ''list_assessment_runs''"

definition compliance_assessment_run_detail_route :: route where
  "compliance_assessment_run_detail_route = endpoint ''GET'' ''/runs/{run_id}'' read_scope
     None ''assessment_run_detail''"

definition compliance_assessment_result_lineage_route :: route where
  "compliance_assessment_result_lineage_route = endpoint ''GET'' ''/results/{result_id}/lineage'' read_scope
     None ''assessment_result_lineage''"

definition compliance_trigger_audit_route :: route where
  "compliance_trigger_audit_route = endpoint ''POST'' ''/audit/run'' RequireAdmin
     None ''trigger_audit''"

definition compliance_ai_review_result_route :: route where
  "compliance_ai_review_result_route = endpoint ''POST'' ''/results/{result_id}/ai-review'' read_scope
     None ''ai_review_result''"

definition compliance_router :: "route list" where
  "compliance_router = [compliance_list_compliance_route, compliance_compliance_summary_route,
     compliance_list_frameworks_route, compliance_list_assessment_runs_route,
     compliance_assessment_run_detail_route, compliance_assessment_result_lineage_route,
     compliance_trigger_audit_route, compliance_ai_review_result_route]"

subsection \<open>\<open>app/api/dashboard.py\<close>\<close>

definition dashboard_dashboard_overview_route :: route where
  "dashboard_dashboard_overview_route = endpoint ''GET'' ''/overview'' (RequireScope ''assets:read'' [''viewer'', ''analyst''])
     None ''dashboard_overview''"

definition dashboard_inventory_graph_route :: route where
  "dashboard_inventory_graph_route = endpoint ''GET'' ''/graph/inventory'' (RequireScope ''assets:read'' [''viewer'', ''analyst''])
     None ''inventory_graph''"

definition dashboard_router :: "route list" where
  "dashboard_router = [dashboard_dashboard_overview_route, dashboard_inventory_graph_route]"

subsection \<open>\<open>app/api/self_security.py\<close>\<close>

definition self_security_get_settings_route :: route where
  "self_security_get_settings_route = endpoint ''GET'' ''/settings'' RequireAdmin
     None ''get_settings''"

definition self_security_update_settings_route :: route where
  "self_security_update_settings_route = endpoint ''PATCH'' ''/settings'' RequireAdmin
     None ''update_settings''"

definition self_security_list_dependencies_route :: route where
  "self_security_list_dependencies_route = endpoint ''GET'' ''/dependencies'' (RequireScope ''self_security:read'' [''viewer'', ''analyst''])
     None ''list_dependencies''"

definition self_security_get_dep_findings_route :: route where
  "self_security_get_dep_findings_route = endpoint ''GET'' ''/dependencies/{dep_id:uuid}/findings'' (RequireScope ''self_security:read'' [''viewer'', ''analyst''])
     None ''get_dep_findings''"

definition self_security_suppress_finding_route :: route where
  "self_security_suppress_finding_route = endpoint ''POST'' ''/findings/{finding_id}/suppress'' RequireAdmin
     None ''suppress_finding''"

definition self_security_list_proposals_route :: route where
  "self_security_list_proposals_route = endpoint ''GET'' ''/proposals'' (RequireScope ''self_security:read'' [''viewer'', ''analyst''])
     None ''list_proposals''"

definition self_security_approve_proposal_route :: route where
  "self_security_approve_proposal_route = endpoint ''POST'' ''/proposals/{proposal_id}/approve'' RequireAdmin
     None ''approve_proposal''"

definition self_security_reject_proposal_route :: route where
  "self_security_reject_proposal_route = endpoint ''POST'' ''/proposals/{proposal_id}/reject'' RequireAdmin
     None ''reject_proposal''"

definition self_security_apply_now_route :: route where
  "self_security_apply_now_route = endpoint ''POST'' ''/proposals/{proposal_id}/apply-now'' RequireAdmin
     None ''apply_now''"

definition self_security_rollback_route :: route where
  "self_security_rollback_route = endpoint ''POST'' ''/proposals/{proposal_id}/rollback'' RequireAdmin
     None ''rollback''"

definition self_security_trigger_scan_route :: route where
  "self_security_trigger_scan_route = endpoint ''POST'' ''/scan/trigger'' RequireAdmin
     None ''trigger_scan''"

definition self_security_summary_route :: route where
  "self_security_summary_route = endpoint ''GET'' ''/summary'' (RequireScope ''self_security:read'' [''viewer'', ''analyst''])
     None ''summary''"

definition self_security_router :: "route list" where
  "self_security_router = [self_security_get_settings_route, self_security_update_settings_route,
     self_security_list_dependencies_route, self_security_get_dep_findings_route,
     self_security_suppress_finding_route, self_security_list_proposals_route,
     self_security_approve_proposal_route, self_security_reject_proposal_route,
     self_security_apply_now_route, self_security_rollback_route,
     self_security_trigger_scan_route, self_security_summary_route]"

subsection \<open>\<open>app/api/admin.py\<close>\<close>

definition admin_list_users_route :: route where
  "admin_list_users_route = endpoint ''GET'' ''/users'' RequireAdmin
     None ''list_users''"

definition admin_create_user_route :: route where
  "admin_create_user_route = endpoint ''POST'' ''/users'' RequireAdmin
     None ''create_user''"

definition admin_delete_user_route :: route where
  "admin_delete_user_route = endpoint ''DELETE'' ''/users/{user_id}'' RequireAdmin
     None ''delete_user''"

definition admin_audit_log_route :: route where
  "admin_audit_log_route = endpoint ''GET'' ''/audit'' RequireAdmin
     None ''audit_log''"

definition admin_system_status_route :: route where
  "admin_system_status_route = endpoint ''GET'' ''/system/status'' RequireAdmin
     None ''system_status''"

definition admin_router :: "route list" where
  "admin_router = [admin_list_users_route, admin_create_user_route, admin_delete_user_route,
     admin_audit_log_route, admin_system_status_route]"

subsection \<open>\<open>app/api/api_tokens.py\<close>\<close>

definition api_tokens_create_token_route :: route where
  "api_tokens_create_token_route = endpoint ''POST'' [] RequireAdmin
     None ''create_token''"

definition api_tokens_list_tokens_route :: route where
  "api_tokens_list_tokens_route = endpoint ''GET'' [] RequireAdmin
     None ''list_tokens''"

definition api_tokens_revoke_token_route :: route where
  "api_tokens_revoke_token_route = endpoint ''POST'' ''/{token_id}/revoke'' RequireAdmin
     None ''revoke_token''"

definition api_tokens_router :: "route list" where
  "api_tokens_router = [api_tokens_create_token_route, api_tokens_list_tokens_route,
     api_tokens_revoke_token_route]"

subsection \<open>\<open>app/api/webhooks.py\<close>\<close>

definition webhooks_create_webhook_route :: route where
  "webhooks_create_webhook_route = endpoint ''POST'' [] RequireAdmin
     None ''create_webhook''"

definition webhooks_list_webhooks_route :: route where
  "webhooks_list_webhooks_route = endpoint ''GET'' [] RequireAdmin
     None ''list_webhooks''"

definition webhooks_test_webhook_route :: route where
  "webhooks_test_webhook_route = endpoint ''POST'' ''/{webhook_id}/test'' RequireAdmin
     None ''test_webhook''"

definition webhooks_rotate_secret_route :: route where
  "webhooks_rotate_secret_route = endpoint ''POST'' ''/{webhook_id}/rotate-secret'' RequireAdmin
     None ''rotate_secret''"

definition webhooks_delete_webhook_route :: route where
  "webhooks_delete_webhook_route = endpoint ''DELETE'' ''/{webhook_id}'' RequireAdmin
     None ''delete_webhook''"

definition webhooks_router :: "route list" where
  "webhooks_router = [webhooks_create_webhook_route, webhooks_list_webhooks_route,
     webhooks_test_webhook_route, webhooks_rotate_secret_route,
     webhooks_delete_webhook_route]"

subsection \<open>\<open>app/api/bulk_import.py\<close>\<close>

definition bulk_import_import_assets_csv_route :: route where
  "bulk_import_import_assets_csv_route = endpoint ''POST'' ''/import-csv'' RequireAnalyst
     (Some (PerUser ''bulk_import'' 3 60)) ''import_assets_csv''"

definition bulk_import_router :: "route list" where
  "bulk_import_router = [bulk_import_import_assets_csv_route]"

subsection \<open>\<open>app/api/exports.py\<close>\<close>

definition exports_export_inventory_route :: route where
  "exports_export_inventory_route = endpoint ''GET'' ''/inventory.csv'' (RequireScope ''assets:read'' [''viewer'', ''analyst''])
     None ''export_inventory''"

definition exports_export_alerts_route :: route where
  "exports_export_alerts_route = endpoint ''GET'' ''/alerts.csv'' (RequireScope ''alerts:read'' [''viewer'', ''analyst''])
     None ''export_alerts''"

definition exports_export_audit_route :: route where
  "exports_export_audit_route = endpoint ''GET'' ''/audit.csv'' (RequireScope ''audit:read'' [''analyst''])
     None ''export_audit''"

definition exports_export_compliance_pdf_route :: route where
  "exports_export_compliance_pdf_route = endpoint ''GET'' ''/compliance.pdf'' (RequireScope ''compliance:read'' [''viewer'', ''analyst''])
     None ''export_compliance_pdf''"

definition exports_router :: "route list" where
  "exports_router = [exports_export_inventory_route, exports_export_alerts_route,
     exports_export_audit_route, exports_export_compliance_pdf_route]"

subsection \<open>\<open>app/api/gdpr.py\<close>\<close>

definition gdpr_export_user_data_route :: route where
  "gdpr_export_user_data_route = endpoint ''GET'' ''/{user_id}/export'' CurrentUser
     None ''export_user_data''"

definition gdpr_erase_user_data_route :: route where
  "gdpr_erase_user_data_route = endpoint ''POST'' ''/{user_id}/erase'' CurrentUser
     None ''erase_user_data''"

definition gdpr_retention_info_route :: route where
  "gdpr_retention_info_route = endpoint ''GET'' ''/{user_id}/retention-info'' CurrentUser
     None ''retention_info''"

definition gdpr_router :: "route list" where
  "gdpr_router = [gdpr_export_user_data_route, gdpr_erase_user_data_route, gdpr_retention_info_route]"

subsection \<open>\<open>app/api/websocket.py\<close>\<close>

definition websocket_issue_websocket_ticket_route :: route where
  "websocket_issue_websocket_ticket_route = endpoint ''POST'' (API_V1_PREFIX @ ''/ws/ticket'') CurrentUser
     None ''issue_websocket_ticket''"

definition websocket_websocket_events_route :: route where
  "websocket_websocket_events_route = endpoint ''WEBSOCKET'' ''/ws/events'' NoGuard
     None ''websocket_events''"

definition websocket_router :: "route list" where
  "websocket_router = [websocket_issue_websocket_ticket_route, websocket_websocket_events_route]"

subsection \<open>\<open>app/main.py\<close>\<close>

definition app_health_route :: route where
  "app_health_route = endpoint ''GET'' ''/health'' NoGuard
     None ''health''"

definition app_readiness_route :: route where
  "app_readiness_route = endpoint ''GET'' ''/ready'' NoGuard
     None ''readiness''"

definition app_metrics_route :: route where
  "app_metrics_route = endpoint ''GET'' ''/metrics'' RequireAdmin
     None ''metrics''"

definition app_endpoints :: "route list" where
  "app_endpoints = [app_health_route, app_readiness_route, app_metrics_route]"

section \<open>The application\<close>

definition include_router :: "string \<Rightarrow> route list \<Rightarrow> route list" where
  "include_router prefix rs = map (\<lambda>rt. rt\<lparr>rt_path := prefix @ rt_path rt\<rparr>) rs"

definition app_routes :: "route list" where
  "app_routes = app_endpoints
     @ include_router (API_V1_PREFIX @ ''/auth'') auth_router
     @ include_router (API_V1_PREFIX @ ''/assets'') assets_router
     @ include_router (API_V1_PREFIX @ ''/alerts'') alerts_router
     @ include_router (API_V1_PREFIX @ ''/assistant'') assistant_router
     @ include_router (API_V1_PREFIX @ ''/integrations'') integrations_router
     @ include_router (API_V1_PREFIX @ ''/scans'') scans_router
     @ include_router (API_V1_PREFIX @ ''/compliance'') compliance_router
     @ include_router (API_V1_PREFIX @ ''/dashboard'') dashboard_router
     @ include_router (API_V1_PREFIX @ ''/self-security'') self_security_router
     @ include_router (API_V1_PREFIX @ ''/admin'') admin_router
     @ include_router (API_V1_PREFIX @ ''/api-tokens'') api_tokens_router
     @ include_router (API_V1_PREFIX @ ''/webhooks'') webhooks_router
     @ include_router (API_V1_PREFIX @ ''/assets'') bulk_import_router
     @ include_router (API_V1_PREFIX @ ''/exports'') exports_router
     @ include_router (API_V1_PREFIX @ ''/gdpr'') gdpr_router
     @ websocket_router"

lemmas router_defs = auth_router_def assets_router_def alerts_router_def assistant_router_def integrations_router_def scans_router_def compliance_router_def dashboard_router_def self_security_router_def admin_router_def api_tokens_router_def webhooks_router_def bulk_import_router_def exports_router_def gdpr_router_def websocket_router_def app_endpoints_def

lemmas route_defs = endpoint_def read_scope_def auth_login_route_def
  auth_refresh_route_def
  auth_mfa_enroll_route_def
  auth_mfa_confirm_route_def
  auth_change_password_route_def
  auth_me_route_def
  assets_list_assets_route_def
  assets_get_asset_route_def
  assets_update_asset_route_def
  assets_trigger_enrichment_route_def
  assets_ai_ingest_route_def
  assets_stats_summary_route_def
  assets_create_asset_route_def
  alerts_list_alerts_route_def
  alerts_resolve_alert_route_def
  assistant_chat_route_def
  integrations_types_route_def
  integrations_list_integrations_route_def
  integrations_create_integration_route_def
  integrations_update_integration_route_def
  integrations_test_integration_route_def
  integrations_run_integration_now_route_def
  scans_list_scans_route_def
  scans_list_networks_route_def
  scans_add_network_route_def
  scans_trigger_scan_now_route_def
  scans_trigger_service_scan_route_def
  compliance_list_compliance_route_def
  compliance_compliance_summary_route_def
  compliance_list_frameworks_route_def
  compliance_list_assessment_runs_route_def
  compliance_assessment_run_detail_route_def
  compliance_assessment_result_lineage_route_def
  compliance_trigger_audit_route_def
  compliance_ai_review_result_route_def
  dashboard_dashboard_overview_route_def
  dashboard_inventory_graph_route_def
  self_security_get_settings_route_def
  self_security_update_settings_route_def
  self_security_list_dependencies_route_def
  self_security_get_dep_findings_route_def
  self_security_suppress_finding_route_def
  self_security_list_proposals_route_def
  self_security_approve_proposal_route_def
  self_security_reject_proposal_route_def
  self_security_apply_now_route_def
  self_security_rollback_route_def
  self_security_trigger_scan_route_def
  self_security_summary_route_def
  admin_list_users_route_def
  admin_create_user_route_def
  admin_delete_user_route_def
  admin_audit_log_route_def
  admin_system_status_route_def
  api_tokens_create_token_route_def
  api_tokens_list_tokens_route_def
  api_tokens_revoke_token_route_def
  webhooks_create_webhook_route_def
  webhooks_list_webhooks_route_def
  webhooks_test_webhook_route_def
  webhooks_rotate_secret_route_def
  webhooks_delete_webhook_route_def
  bulk_import_import_assets_csv_route_def
  exports_export_inventory_route_def
  exports_export_alerts_route_def
  exports_export_audit_route_def
  exports_export_compliance_pdf_route_def
  gdpr_export_user_data_route_def
  gdpr_erase_user_data_route_def
  gdpr_retention_info_route_def
  websocket_issue_websocket_ticket_route_def
  websocket_websocket_events_route_def
  app_health_route_def
  app_readiness_route_def
  app_metrics_route_def

section \<open>Matching\<close>

text \<open>
  A segment of a template is a text, a parameter for any text that is not empty, or a parameter
  with the \<open>uuid\<close> convertor.
\<close>

datatype segment = Lit string | Str | Uuid

definition segment_of :: "string \<Rightarrow> segment" where
  "segment_of s =
     (if starts_with ''{'' s then if ends_with '':uuid}'' s then Uuid else Str else Lit s)"

definition segments :: "string \<Rightarrow> segment list" where
  "segments p = map segment_of (split_on CHR ''/'' p)"

fun seg_matches :: "(string \<Rightarrow> bool) \<Rightarrow> segment \<Rightarrow> string \<Rightarrow> bool" where
  "seg_matches uuid (Lit a) s = (a = s)"
| "seg_matches uuid Str s = (s \<noteq> [])"
| "seg_matches uuid Uuid s = uuid s"

definition route_matches :: "(string \<Rightarrow> bool) \<Rightarrow> string \<Rightarrow> string \<Rightarrow> route \<Rightarrow> bool" where
  "route_matches uuid m p rt =
     (rt_method rt = m \<and> list_all2 (seg_matches uuid) (segments (rt_path rt)) (split_on CHR ''/'' p))"

text \<open>The route a request is served by: the first that matches.\<close>

definition dispatch :: "(string \<Rightarrow> bool) \<Rightarrow> string \<Rightarrow> string \<Rightarrow> route option" where
  "dispatch uuid m p = find (route_matches uuid m p) app_routes"

text \<open>Templates that no path matches both of: they differ in a written segment or in length.\<close>

fun seg_apart :: "segment \<Rightarrow> segment \<Rightarrow> bool" where
  "seg_apart (Lit a) (Lit b) = (a \<noteq> b)"
| "seg_apart _ _ = False"

fun apart :: "segment list \<Rightarrow> segment list \<Rightarrow> bool" where
  "apart [] [] = False"
| "apart (x # xs) (y # ys) = (seg_apart x y \<or> apart xs ys)"
| "apart _ _ = True"

fun all_apart :: "(string \<times> segment list) list \<Rightarrow> bool" where
  "all_apart [] = True"
| "all_apart ((m, p) # rs) = (list_all (\<lambda>(n, q). m \<noteq> n \<or> apart p q) rs \<and> all_apart rs)"

lemma seg_apartD: "seg_apart x y \<Longrightarrow> seg_matches uuid x s \<Longrightarrow> seg_matches uuid y s \<Longrightarrow> False"
  by (cases x; cases y) auto

lemma apartD:
  "apart xs ys \<Longrightarrow> list_all2 (seg_matches uuid) xs ss \<Longrightarrow> list_all2 (seg_matches uuid) ys ss \<Longrightarrow> False"
  by (induction xs ys arbitrary: ss rule: apart.induct)
    (auto simp: list_all2_Cons1 dest: seg_apartD)

definition shape :: "route \<Rightarrow> string \<times> segment list" where
  "shape rt = (rt_method rt, segments (rt_path rt))"

lemma all_apart_once:
  "all_apart (map shape rs) \<Longrightarrow> length (filter (route_matches uuid m p) rs) \<le> 1"
proof (induction rs)
  case (Cons rt rs)
  show ?case
  proof (cases "route_matches uuid m p rt")
    case True
    have "\<not> route_matches uuid m p x" if "x \<in> set rs" for x
      using Cons.prems True that apartD [of "segments (rt_path rt)" "segments (rt_path x)" uuid "split_on CHR ''/'' p"]
      by (auto simp: shape_def route_matches_def list_all_iff)
    then have "filter (route_matches uuid m p) rs = []" by (simp add: filter_empty_conv)
    with True show ?thesis by simp
  next
    case False
    with Cons show ?thesis by (auto simp: shape_def)
  qed
qed simp

section \<open>Admission\<close>

text \<open>
  The guard of a route: the principal it hands to the handler, none for a route without one, or
  the exception that ends the request. A bearer token is demanded by the framework's scheme.
\<close>

definition with_bearer :: "string option \<Rightarrow> (string \<Rightarrow> user result) \<Rightarrow> principal option result" where
  "with_bearer bearer f = (case bearer of
     None \<Rightarrow> Inl (HTTPException 401 ''Not authenticated'')
   | Some b \<Rightarrow> rbind (f b) (\<lambda>u. Inr (Some (JwtUser u))))"

fun check_guard :: "'r env \<Rightarrow> int \<Rightarrow> guard \<Rightarrow> http_request \<Rightarrow> string option \<Rightarrow> string option \<Rightarrow> 'r \<Rightarrow> db \<Rightarrow>
    principal option result \<times> db" where
  "check_guard env now NoGuard rq bearer api_key r d = (Inr None, d)"
| "check_guard env now CurrentUser rq bearer api_key r d =
     (with_bearer bearer (\<lambda>b. jwt_user env now b r d), d)"
| "check_guard env now (RequireScope s roles) rq bearer api_key r d =
     (case require_scope env now s roles rq bearer api_key r d of
        (x, d') \<Rightarrow> (rbind x (\<lambda>p. Inr (Some p)), d'))"
| "check_guard env now RequireAnalyst rq bearer api_key r d =
     (with_bearer bearer (\<lambda>b. require_analyst env now rq b r d), d)"
| "check_guard env now RequireAdmin rq bearer api_key r d =
     (with_bearer bearer (\<lambda>b. require_admin env now rq b r d), d)"

text \<open>No code sets the user of the request state, so the limits per user count by address.\<close>

fun check_limit :: "'r env \<Rightarrow> int \<Rightarrow> limit option \<Rightarrow> http_request \<Rightarrow> 'r \<Rightarrow> unit result \<times> 'r" where
  "check_limit env now None rq r = (Inr (), r)"
| "check_limit env now (Some (PerUser key n window)) rq r = per_user_rate_limit env now key n window None rq r"
| "check_limit env now (Some (PerIp key n window)) rq r = per_ip_rate_limit env now key n window rq r"

text \<open>
  What happens before the handler runs. A refused request is rolled back by \<open>get_db\<close>; the
  store keeps what the limit counted.
\<close>

definition admit :: "'r env \<Rightarrow> int \<Rightarrow> route \<Rightarrow> http_request \<Rightarrow> string option \<Rightarrow> string option \<Rightarrow> 'r \<Rightarrow> db \<Rightarrow>
    principal option result \<times> db \<times> 'r" where
  "admit env now rt rq bearer api_key r d =
     (case check_guard env now (rt_guard rt) rq bearer api_key r d of
        (Inl e, _) \<Rightarrow> (Inl e, d, r)
      | (Inr who, d') \<Rightarrow>
          (case check_limit env now (rt_limit rt) rq r of
             (Inl e, r') \<Rightarrow> (Inl e, d, r')
           | (Inr _, r') \<Rightarrow> (Inr who, d', r')))"

section \<open>Who is admitted where\<close>

definition v1 :: "string \<Rightarrow> string" where "v1 p = API_V1_PREFIX @ p"

text \<open>Endpoints for everyone: signing in, probes, and the event stream, which asks for a ticket itself.\<close>

definition PUBLIC :: "(string \<times> string) list" where
  "PUBLIC = [(''POST'', v1 ''/auth/login''), (''POST'', v1 ''/auth/refresh''), (''GET'', ''/health''),
     (''GET'', ''/ready''), (''WEBSOCKET'', ''/ws/events'')]"

text \<open>What every signed-in user may send: requests about the own account, and questions to the AI.\<close>

definition ANY_USER :: "(string \<times> string) list" where
  "ANY_USER = [(''POST'', v1 ''/auth/mfa/enroll''), (''POST'', v1 ''/auth/mfa/confirm''),
     (''POST'', v1 ''/auth/password''), (''POST'', v1 ''/ws/ticket''), (''POST'', v1 ''/gdpr/{user_id}/erase''),
     (''POST'', v1 ''/assistant/chat''), (''POST'', v1 ''/compliance/results/{result_id}/ai-review'')]"

definition ANALYST_WRITES :: "(string \<times> string) list" where
  "ANALYST_WRITES = [(''POST'', v1 ''/assets''), (''PATCH'', v1 ''/assets/{asset_id:uuid}''),
     (''POST'', v1 ''/assets/{asset_id:uuid}/enrich''), (''POST'', v1 ''/assets/ingest/ai''),
     (''POST'', v1 ''/assets/import-csv''), (''PATCH'', v1 ''/alerts/{alert_id:uuid}/resolve'')]"

definition SERVICE_WRITES :: "(string \<times> string) list" where
  "SERVICE_WRITES = [(''POST'', v1 ''/assets''), (''PATCH'', v1 ''/assets/{asset_id:uuid}''),
     (''POST'', v1 ''/assets/{asset_id:uuid}/enrich''), (''POST'', v1 ''/assets/ingest/ai''),
     (''PATCH'', v1 ''/alerts/{alert_id:uuid}/resolve''), (''POST'', v1 ''/scans/trigger''),
     (''POST'', v1 ''/scans/service''), (''POST'', v1 ''/assistant/chat''),
     (''POST'', v1 ''/compliance/results/{result_id}/ai-review'')]"

definition address :: "route \<Rightarrow> string \<times> string" where "address rt = (rt_method rt, rt_path rt)"

definition scope_ok :: "string \<times> string \<Rightarrow> string \<Rightarrow> string list \<Rightarrow> bool" where
  "scope_ok k s roles = (s \<noteq> ''exports:read''
     \<and> (fst k = ''GET'' \<or> (k \<in> set SERVICE_WRITES
         \<and> (roles = [''admin''] \<or> k \<in> set ANY_USER \<or> (roles = [''analyst''] \<and> k \<in> set ANALYST_WRITES)))))"

fun guard_ok :: "string \<times> string \<Rightarrow> guard \<Rightarrow> bool" where
  "guard_ok k NoGuard = (k \<in> set PUBLIC)"
| "guard_ok k CurrentUser = (fst k = ''GET'' \<or> k \<in> set ANY_USER)"
| "guard_ok k (RequireScope s roles) = scope_ok k s roles"
| "guard_ok k RequireAnalyst = (k \<in> set ANALYST_WRITES)"
| "guard_ok k RequireAdmin = True"

lemma routes_guarded: "list_all (\<lambda>rt. guard_ok (address rt) (rt_guard rt)) app_routes"
  by code_simp

lemma routes_apart: "all_apart (map shape app_routes)"
  by code_simp

lemma guard_of: "rt \<in> set app_routes \<Longrightarrow> guard_ok (address rt) (rt_guard rt)"
  using routes_guarded by (simp add: list_all_iff)

lemma admit_Inr:
  "admit env now rt rq bearer api_key r d = (Inr who, d', r') \<Longrightarrow>
   check_guard env now (rt_guard rt) rq bearer api_key r d = (Inr who, d')"
  by (auto simp: admit_def split: prod.splits sum.splits)

lemma with_bearer_Inr:
  "with_bearer bearer f = Inr who \<longleftrightarrow> (\<exists>b u. bearer = Some b \<and> f b = Inr u \<and> who = Some (JwtUser u))"
  by (auto simp: with_bearer_def rbind_eq_Inr split: option.splits)

text \<open>The caller is inside one of the management networks.\<close>

definition from_management :: "settings \<Rightarrow> http_request \<Rightarrow> bool" where
  "from_management cfg rq = (ensure_management_network cfg rq = Inr ())"

lemma require_role_Inr:
  assumes "require_role env now roles only rq b r d = Inr u"
  shows "u \<in> set (users d)" "u_is_active u" "u_role u \<in> set roles \<or> u_role u = ''admin''"
    "only \<or> u_role u = ''admin'' \<Longrightarrow> from_management (env_cfg env) rq"
  using assms jwt_user_Inr [of env now b r d u]
  by (auto simp: require_role_def rbind_eq_Inr from_management_def split: if_splits)

lemma require_scope_user:
  assumes "require_scope env now s roles rq bearer api_key r d = (Inr (JwtUser u), d')"
  shows "u \<in> set (users d)" "u_is_active u" "u_role u \<in> set roles \<or> u_role u = ''admin''"
    "u_role u = ''admin'' \<Longrightarrow> from_management (env_cfg env) rq"
proof -
  obtain b where j: "jwt_user env now b r d = Inr u" and rest: "u_role u \<in> set roles \<or> u_role u = ''admin''"
    "u_role u = ''admin'' \<Longrightarrow> ensure_management_network (env_cfg env) rq = Inr ()"
    using assms by (auto simp: require_scope_def split: if_splits sum.splits prod.splits option.splits)
  from jwt_user_Inr [OF j] rest
  show "u \<in> set (users d)" "u_is_active u" "u_role u \<in> set roles \<or> u_role u = ''admin''"
    "u_role u = ''admin'' \<Longrightarrow> from_management (env_cfg env) rq"
    by (simp_all add: from_management_def)
qed

lemma require_scope_service:
  assumes "require_scope env now s roles rq bearer api_key r d = (Inr (ServiceToken n i), d')"
  obtains t where "t \<in> set (api_tokens d)" "tk_id t = i" "\<not> tk_revoked t"
    "''*'' \<in> set (tk_scopes t) \<or> s \<in> set (tk_scopes t)"
proof -
  obtain token where v: "verify_api_token (env_verify env) now (the api_key) d = (Some token, d')"
    and n: "tk_id token = i" "''*'' \<in> set (tk_scopes token) \<or> s \<in> set (tk_scopes token)"
    using assms by (auto simp: require_scope_def split: if_splits sum.splits prod.splits option.splits)
  from verify_api_token_Some [OF v] obtain c where "c \<in> set (api_tokens d)" "\<not> tk_revoked c" "token = touch_token now c"
    by auto
  with n show thesis by (intro that [of c]) (auto simp: touch_token_def)
qed

text \<open>What a guard lets through.\<close>

definition user_allowed :: "settings \<Rightarrow> http_request \<Rightarrow> db \<Rightarrow> route \<Rightarrow> user \<Rightarrow> bool" where
  "user_allowed cfg rq d rt u =
     (u \<in> set (users d) \<and> u_is_active u
      \<and> (u_role u = ''admin'' \<and> rt_guard rt \<noteq> CurrentUser \<longrightarrow> from_management cfg rq)
      \<and> (u_role u \<noteq> ''admin'' \<longrightarrow> rt_guard rt \<noteq> RequireAdmin
           \<and> (rt_method rt = ''GET'' \<or> address rt \<in> set ANY_USER
              \<or> (u_role u = ''analyst'' \<and> address rt \<in> set ANALYST_WRITES))))"

definition service_allowed :: "db \<Rightarrow> route \<Rightarrow> nat \<Rightarrow> bool" where
  "service_allowed d rt i =
     ((rt_method rt = ''GET'' \<or> address rt \<in> set SERVICE_WRITES)
      \<and> list_ex (\<lambda>t. tk_id t = i \<and> \<not> tk_revoked t \<and> tk_scopes t \<noteq> [''exports:read'']) (api_tokens d))"

fun who_allowed :: "settings \<Rightarrow> http_request \<Rightarrow> db \<Rightarrow> route \<Rightarrow> principal option \<Rightarrow> bool" where
  "who_allowed cfg rq d rt None = (address rt \<in> set PUBLIC)"
| "who_allowed cfg rq d rt (Some (JwtUser u)) = user_allowed cfg rq d rt u"
| "who_allowed cfg rq d rt (Some (ServiceToken n i)) = service_allowed d rt i"

text \<open>
  C4: Who can reach what over the whole interface: a request that passes the dependencies of any
  route is a public one without a principal; or comes from an active user of the table, who is
  in a management network when an administrator behind a role or scope guard, and otherwise only
  reads, acts on the own account, asks the AI, or, as an analyst, edits assets and resolves
  alerts; or holds a live service token, which beyond reading reaches nine endpoints only.
\<close>

theorem endpoint_access:
  assumes "rt \<in> set app_routes" "admit env now rt rq bearer api_key r d = (Inr who, d', r')"
  shows "who_allowed (env_cfg env) rq d rt who"
proof -
  note g = guard_of [OF assms(1)]
  have m: "fst (address rt) = rt_method rt" by (simp add: address_def)
  note c = admit_Inr [OF assms(2)]
  show ?thesis
  proof (cases "rt_guard rt")
    case NoGuard
    with c g show ?thesis by auto
  next
    case CurrentUser
    with c obtain b u where "jwt_user env now b r d = Inr u" "who = Some (JwtUser u)"
      by (auto simp: with_bearer_Inr)
    with jwt_user_Inr [of env now b r d u] g CurrentUser m show ?thesis by (auto simp: user_allowed_def)
  next
    case (RequireScope s roles)
    with g m have ok: "scope_ok (address rt) s roles" by simp
    from c RequireScope obtain p where p: "require_scope env now s roles rq bearer api_key r d = (Inr p, d')"
      "who = Some p" by (auto simp: rbind_eq_Inr split: prod.splits)
    show ?thesis
    proof (cases p)
      case (JwtUser u)
      with p(1) have "require_scope env now s roles rq bearer api_key r d = (Inr (JwtUser u), d')" by simp
      from require_scope_user [OF this] ok m RequireScope p(2) JwtUser show ?thesis
        by (auto simp: user_allowed_def scope_ok_def)
    next
      case (ServiceToken n i)
      with p(1) have "require_scope env now s roles rq bearer api_key r d = (Inr (ServiceToken n i), d')" by simp
      then obtain t where "t \<in> set (api_tokens d)" "tk_id t = i" "\<not> tk_revoked t"
        "''*'' \<in> set (tk_scopes t) \<or> s \<in> set (tk_scopes t)" by (rule require_scope_service)
      with ok m p(2) ServiceToken show ?thesis
        by (auto simp: service_allowed_def scope_ok_def list_ex_iff)
    qed
  next
    case RequireAnalyst
    with c obtain b u where "require_role env now [''admin'', ''analyst''] False rq b r d = Inr u" "who = Some (JwtUser u)"
      by (auto simp: with_bearer_Inr require_analyst_def)
    with require_role_Inr [OF this(1)] g RequireAnalyst m show ?thesis by (auto simp: user_allowed_def)
  next
    case RequireAdmin
    with c obtain b u where "require_role env now [''admin''] True rq b r d = Inr u" "who = Some (JwtUser u)"
      by (auto simp: with_bearer_Inr require_admin_def)
    with require_role_Inr [OF this(1)] show ?thesis by (auto simp: user_allowed_def)
  qed
qed

theorem endpoint_access_witness:
  "sample_user \<in> set (users sample_user_db) \<and> u_is_active sample_user
   \<and> address auth_me_route = (''GET'', ''/me'')"
proof -
  have m: "auth_me_route\<lparr>rt_path := API_V1_PREFIX @ ''/auth'' @ ''/me''\<rparr> \<in> set app_routes" (is "?rt \<in> _")
    by (simp add: app_routes_def auth_router_def include_router_def auth_me_route_def endpoint_def)
  have "check_guard sample_jwt_env 10 CurrentUser sample_request (Some ''t'') None Map.empty sample_user_db
      = (Inr (Some (JwtUser sample_user)), sample_user_db)"
    by (simp add: with_bearer_def sample_jwt_user)
  then have "admit sample_jwt_env 10 ?rt sample_request (Some ''t'') None Map.empty sample_user_db
      = (Inr (Some (JwtUser sample_user)), sample_user_db, Map.empty)"
    by (simp add: admit_def auth_me_route_def endpoint_def del: check_guard.simps)
  from endpoint_access [OF m this] show ?thesis
    by (simp add: user_allowed_def address_def auth_me_route_def endpoint_def)
qed

lemma find_filter: "find P xs = (case filter P xs of [] \<Rightarrow> None | x # _ \<Rightarrow> Some x)"
  by (induction xs) auto

text \<open>
  C12: A request matches at most one route, whatever texts the \<open>uuid\<close> segments take: no
  endpoint hides another, and the order in which the routers are included does not matter.
\<close>

theorem one_endpoint:
  "length (filter (route_matches uuid m p) app_routes) \<le> 1
   \<and> dispatch uuid m p = (case filter (route_matches uuid m p) app_routes of [] \<Rightarrow> None | rt # _ \<Rightarrow> Some rt)"
proof
  show "length (filter (route_matches uuid m p) app_routes) \<le> 1"
    by (rule all_apart_once [OF routes_apart])
  show "dispatch uuid m p = (case filter (route_matches uuid m p) app_routes of [] \<Rightarrow> None | rt # _ \<Rightarrow> Some rt)"
    by (simp add: dispatch_def find_filter)
qed

text \<open>
  The integration notes resolve an alert with \<open>POST\<close>; no route serves that. The notes of the
  token endpoints let a service token start compliance audits; that route wants an administrator.
\<close>

lemma post_resolve_unserved:
  "dispatch (\<lambda>s. s = ''7'') ''POST'' ''/api/v1/alerts/7/resolve'' = None
   \<and> map_option rt_name (dispatch (\<lambda>s. s = ''7'') ''PATCH'' ''/api/v1/alerts/7/resolve'') = Some ''resolve_alert''"
  by code_simp

lemma audit_run_needs_admin:
  assumes "admit env now (compliance_trigger_audit_route\<lparr>rt_path := p\<rparr>) rq bearer api_key r d = (Inr who, d', r')"
  shows "\<exists>u. who = Some (JwtUser u) \<and> u_role u = ''admin''"
  using admit_Inr [OF assms] require_role_Inr(3)
  by (fastforce simp: compliance_trigger_audit_route_def endpoint_def with_bearer_Inr require_admin_def)

end
