(* ===== verification/Runtime.thy ===== *)
theory Runtime
  imports Pii
begin

text \<open>
  What runs around the handlers and tasks: the logging filter of \<open>app/core/pii.py\<close> with its
  installation in the \<open>lifespan\<close> of \<open>app/main.py\<close>, and the event loop a worker process keeps
  (\<open>app/workers/_async_runner.py\<close>).
\<close>

section \<open>Log records\<close>

text \<open>
  A message or an argument of a log call is a Python value or any other object, such as an
  exception, given by the text it is written as.
\<close>

datatype log_value =
    Value pyval
  | Object string

datatype log_args =
    NoArgs
  | ArgDict jdict
  | ArgTuple "log_value list"

record log_record =
  lr_msg :: log_value
  lr_args :: log_args

definition redact_if_str :: "log_value \<Rightarrow> log_value" where
  "redact_if_str v = (case v of Value (PStr s) \<Rightarrow> Value (PStr (redact_string s)) | _ \<Rightarrow> v)"

definition has_args :: "log_args \<Rightarrow> bool" where
  "has_args a = (case a of NoArgs \<Rightarrow> False | ArgDict d \<Rightarrow> d \<noteq> [] | ArgTuple vs \<Rightarrow> vs \<noteq> [])"

text \<open>\<open>PIIRedactingFilter.filter\<close>: the record is always kept.\<close>

definition filter_record :: "(string \<Rightarrow> string) \<Rightarrow> log_record \<Rightarrow> bool \<times> log_record" where
  "filter_record sha rec =
     (let rec = rec\<lparr>lr_msg := redact_if_str (lr_msg rec)\<rparr>
      in (True,
          if \<not> has_args (lr_args rec) then rec
          else case lr_args rec of
                 ArgDict d \<Rightarrow> rec\<lparr>lr_args := ArgDict (redact_dict sha d)\<rparr>
               | ArgTuple vs \<Rightarrow> rec\<lparr>lr_args := ArgTuple (map redact_if_str vs)\<rparr>
               | NoArgs \<Rightarrow> rec))"

text \<open>The filters of the root handlers, by class name, and the start of the application.\<close>

definition REDACTING :: string where "REDACTING = ''PIIRedactingFilter''"

definition install_filter :: "string list \<Rightarrow> string list" where
  "install_filter filters = (if list_ex (\<lambda>f. f = REDACTING) filters then filters else filters @ [REDACTING])"

definition lifespan_start :: "string list list \<Rightarrow> string list list" where
  "lifespan_start handlers = map install_filter handlers"

section \<open>What the filter leaves in a record\<close>

fun bare :: "log_value \<Rightarrow> bool" where
  "bare (Value (PStr s)) = list_all (\<lambda>p. \<not> has_match p s) token_patterns"
| "bare _ = True"

fun bare_args :: "log_args \<Rightarrow> bool" where
  "bare_args NoArgs = True"
| "bare_args (ArgDict d) = clean (PDict d)"
| "bare_args (ArgTuple vs) = list_all bare vs"

lemma bare_redacted [simp]: "bare (redact_if_str v)"
proof (cases v)
  case (Value w)
  then show ?thesis
    using redact_string_no_secret by (cases w) (auto simp: redact_if_str_def list_all_iff)
qed (simp add: redact_if_str_def)

lemma clean_redact_dict: "clean (PDict (redact_dict sha d))"
  using redact_pii_clean [of sha "PDict d"] by (simp add: redact_dict_def)

lemma clean_empty: "clean (PDict [])"
  by simp

text \<open>
  Every record passes the filter, and the strings it then holds, in the message and at any
  depth of the arguments, are free of credentials.
\<close>

theorem filtered_record_bare:
  "fst (filter_record sha rec) \<and> bare (lr_msg (snd (filter_record sha rec)))
   \<and> bare_args (lr_args (snd (filter_record sha rec)))"
  by (cases "lr_args rec") (auto simp: filter_record_def Let_def has_args_def clean_redact_dict clean_empty list_all_iff simp del: clean.simps)

text \<open>
  An exception given as an argument is no string: its text is written to the log as it is,
  with the credential it may hold.
\<close>

lemma exception_text_logged:
  "lr_args (snd (filter_record sha \<lparr> lr_msg = Value (PStr ''sync failed: %s''), lr_args = ArgTuple [Object s] \<rparr>))
   = ArgTuple [Object s]"
  by (simp add: filter_record_def Let_def has_args_def redact_if_str_def)

text \<open>Each start of the application leaves exactly one more filter where none was.\<close>

lemma filter_installed_once:
  "list_all (\<lambda>fs. REDACTING \<in> set fs) (lifespan_start handlers)
   \<and> lifespan_start (lifespan_start handlers) = lifespan_start handlers
   \<and> map (filter (\<lambda>f. f \<noteq> REDACTING)) (lifespan_start handlers) = map (filter (\<lambda>f. f \<noteq> REDACTING)) handlers"
  by (auto simp: lifespan_start_def install_filter_def list_all_iff list_ex_iff)

section \<open>Names of personal data\<close>

text \<open>The table of the module, which no function reads.\<close>

definition PII_FIELDS :: "string list" where
  "PII_FIELDS = [''email'', ''Email'', ''EMAIL'', ''phone'', ''Phone'', ''phone_number'', ''ssn'', ''SSN'',
     ''social_security_number'', ''ip'', ''ip_address'', ''remote_addr'', ''mac'', ''mac_address'',
     ''user_agent'', ''useragent'', ''User-Agent'', ''first_name'', ''last_name'', ''full_name'', ''address'',
     ''street'', ''postal_code'', ''credit_card'', ''card_number'', ''cvv'', ''password'', ''passwd'', ''secret'',
     ''token'', ''api_key'']"

text \<open>The names of the table whose values are neither masked nor replaced.\<close>

lemma unprotected_fields:
  "filter (\<lambda>n. lower n \<notin> masked_names \<and> lower n \<notin> sensitive_names) PII_FIELDS
   = [''phone'', ''Phone'', ''phone_number'', ''first_name'', ''last_name'', ''full_name'', ''address'', ''street'',
      ''postal_code'']"
  by code_simp

section \<open>The event loop of a worker\<close>

text \<open>The module variable, the loops that are open, and the number of loops made.\<close>

record worker_loops =
  wl_loop :: "nat option"
  wl_open :: "nat list"
  wl_made :: nat

definition is_closed :: "worker_loops \<Rightarrow> nat \<Rightarrow> bool" where
  "is_closed w l = (l \<notin> set (wl_open w))"

definition get_loop :: "worker_loops \<Rightarrow> nat \<times> worker_loops" where
  "get_loop w = (case wl_loop w of
     Some l \<Rightarrow> if is_closed w l then (wl_made w, w\<lparr>wl_loop := Some (wl_made w), wl_open := wl_made w # wl_open w,
                                                wl_made := Suc (wl_made w)\<rparr>)
              else (l, w)
   | None \<Rightarrow> (wl_made w, w\<lparr>wl_loop := Some (wl_made w), wl_open := wl_made w # wl_open w,
                          wl_made := Suc (wl_made w)\<rparr>))"

text \<open>\<open>run_async\<close>: a coroutine is run to its end, its exception is the task's.\<close>

definition run_async :: "(nat \<Rightarrow> 'a result) \<Rightarrow> worker_loops \<Rightarrow> 'a result \<times> worker_loops" where
  "run_async coro w = (let (l, w) = get_loop w in (coro l, w))"

definition close_loop :: "worker_loops \<Rightarrow> worker_loops" where
  "close_loop w = (case wl_loop w of
     Some l \<Rightarrow> if is_closed w l then w else w\<lparr>wl_open := removeAll l (wl_open w), wl_loop := None\<rparr>
   | None \<Rightarrow> w)"

inductive worker_reaches :: "worker_loops \<Rightarrow> bool" where
  start: "worker_reaches \<lparr> wl_loop = None, wl_open = [], wl_made = 0 \<rparr>"
| ran: "worker_reaches w \<Longrightarrow> worker_reaches (snd (run_async (coro :: nat \<Rightarrow> unit result) w))"
| closed: "worker_reaches w \<Longrightarrow> worker_reaches (close_loop w)"

text \<open>
  A worker process never holds more than one open loop, however many tasks it runs, whether
  they fail, and a task after another is run in the same loop.
\<close>

lemma worker_loops_single:
  "worker_reaches w \<Longrightarrow> wl_open w = (case wl_loop w of Some l \<Rightarrow> [l] | None \<Rightarrow> [])"
  by (induction rule: worker_reaches.induct)
    (auto simp: run_async_def get_loop_def close_loop_def is_closed_def Let_def split: option.splits prod.splits)

theorem worker_keeps_loop:
  assumes "worker_reaches w"
  shows "length (wl_open w) \<le> 1
    \<and> fst (run_async Inr (snd (run_async coro w))) = Inr (fst (get_loop w))"
  using worker_loops_single [OF assms]
  by (auto simp: run_async_def get_loop_def is_closed_def Let_def split: option.splits)

end
