(* ===== verification/Feeds.thy ===== *)
theory Feeds
  imports Connectors Enrichment SelfSecurity
begin

text \<open>
  The requests behind the vulnerability feeds: NVD, EPSS and KEV of
  \<open>app/services/cve_enrichment.py\<close>, OSV and PyPI of \<open>app/services/self_security_scanner.py\<close>, with
  their retries. The HTTP clients and the retries of tenacity are parameters (see \<open>Http\<close>); waiting
  between attempts is not modelled. Turning a valid OSV answer into its entries is a parameter.
\<close>

record feed_settings =
  NVD_API_KEY :: string
  NVD_BASE_URL :: string
  EPSS_BASE_URL :: string
  KEV_FEED_URL :: string
  OSV_BASE_URL :: string

text \<open>How each service answers: by CPE, by batch of CVEs, by package, by package name.\<close>

record transports =
  tr_nvd :: "string \<Rightarrow> http"
  tr_epss :: "string list \<Rightarrow> http"
  tr_kev :: http
  tr_osv :: "dep_record \<Rightarrow> http"
  tr_pypi :: "string \<Rightarrow> http"
  tr_again :: "(http_exc, pyval, http_call list) retrier"

definition PYPI_API :: string where "PYPI_API = ''https://pypi.org/pypi''"

section \<open>Retries\<close>

text \<open>
  An attempt is the request, \<open>raise_for_status\<close> and the JSON of the answer; \<open>stop_after_attempt(3)\<close>.
\<close>

definition three_attempts :: "transports \<Rightarrow> http \<Rightarrow> http_call \<Rightarrow> http_exc + pyval" where
  "three_attempts tr net c = fst (tr_again tr 3 is_http_error (logged net c hr_json) [])"

text \<open>Without \<open>reraise\<close> a third failure is a \<open>RetryError\<close>, which is no \<open>httpx.HTTPError\<close>; with it, the failure itself.\<close>

definition or_retry_error :: "http_exc + pyval \<Rightarrow> pyval result" where
  "or_retry_error r = (case r of
     Inl e \<Rightarrow> Inl (if is_http_error e then RuntimeError ''RetryError'' else as_exn e)
   | Inr v \<Rightarrow> Inr v)"

section \<open>The requests\<close>

definition nvd_call :: "feed_settings \<Rightarrow> string \<Rightarrow> http_call" where
  "nvd_call cfg cpe = (get_of (NVD_BASE_URL cfg))\<lparr>
     hc_params := [(''cpeName'', PStr cpe), (''resultsPerPage'', PInt 100)],
     hc_headers := (if NVD_API_KEY cfg \<noteq> [] then [(''apiKey'', NVD_API_KEY cfg)] else []) \<rparr>"

definition nvd_get :: "feed_settings \<Rightarrow> transports \<Rightarrow> http \<Rightarrow> string \<Rightarrow> pyval result" where
  "nvd_get cfg tr net cpe = or_retry_error (three_attempts tr net (nvd_call cfg cpe))"

definition epss_call :: "feed_settings \<Rightarrow> string list \<Rightarrow> http_call" where
  "epss_call cfg batch = (get_of (EPSS_BASE_URL cfg))\<lparr> hc_params := [(''cve'', PStr (join '','' batch))] \<rparr>"

definition epss_get :: "feed_settings \<Rightarrow> transports \<Rightarrow> http \<Rightarrow> string list \<Rightarrow> pyval result" where
  "epss_get cfg tr net batch = or_retry_error (three_attempts tr net (epss_call cfg batch))"

text \<open>The catalog is asked for once.\<close>

definition kev_get :: "feed_settings \<Rightarrow> http \<Rightarrow> pyval result" where
  "kev_get cfg net = rbind (checked_call net 0 (get_of (KEV_FEED_URL cfg))) hr_json"

definition osv_call :: "feed_settings \<Rightarrow> dep_record \<Rightarrow> http_call" where
  "osv_call cfg dep =
     (let ecosystem = (case map_of [(''pip'', ''PyPI''), (''container'', ''Debian''), (''system'', ''Debian'')] (dr_package_type dep) of
            Some e \<Rightarrow> e | None \<Rightarrow> ''PyPI'')
      in (get_of (OSV_BASE_URL cfg))\<lparr> hc_method := ''POST'',
           hc_body := PDict [(''package'', PDict [(''name'', PStr (dr_name dep)), (''ecosystem'', PStr ecosystem)]),
             (''version'', PStr (dr_version dep))] \<rparr>)"

definition osv_query :: "feed_settings \<Rightarrow> transports \<Rightarrow> http \<Rightarrow> dep_record \<Rightarrow> pyval result" where
  "osv_query cfg tr net dep = reraised (three_attempts tr net (osv_call cfg dep))"

text \<open>A version that is no text is refused when it is stored.\<close>

definition get_latest_pypi_version :: "http \<Rightarrow> string \<Rightarrow> string option result" where
  "get_latest_pypi_version net name =
     (case net 0 (get_of (PYPI_API @ ''/'' @ name @ ''/json'')) of
        Inl e \<Rightarrow> if is_http_error e then Inr None else Inl (as_exn e)
      | Inr r \<Rightarrow>
          if hr_status r \<noteq> 200 then Inr None
          else rbind (hr_json r) (\<lambda>v. rbind (dyn_get v ''info'' (PDict [])) (\<lambda>info. rbind (dyn_get info ''version'' PNone) (\<lambda>version.
            case version of PNone \<Rightarrow> Inr None | PStr s \<Rightarrow> Inr (Some s) | _ \<Rightarrow> Inl DataError))))"

text \<open>Seconds to wait after an NVD request.\<close>

definition nvd_delay :: "feed_settings \<Rightarrow> rat" where
  "nvd_delay cfg = (if NVD_API_KEY cfg \<noteq> [] then 6 / 10 else 6)"

section \<open>The clients on these requests\<close>

definition live_feeds :: "feed_settings \<Rightarrow> transports \<Rightarrow> (pyval \<Rightarrow> rat result) \<Rightarrow> (pyval \<Rightarrow> int option) \<Rightarrow> feed_env" where
  "live_feeds cfg tr num parse_date =
     \<lparr> fe_nvd = (\<lambda>cpe. nvd_get cfg tr (tr_nvd tr cpe) cpe), fe_epss = (\<lambda>batch. epss_get cfg tr (tr_epss tr batch) batch),
       fe_kev = kev_get cfg (tr_kev tr), fe_to_float = num, fe_parse_date = parse_date \<rparr>"

text \<open>\<open>find_vulns\<close> reads no entries from an empty answer.\<close>

definition live_scanner :: "feed_settings \<Rightarrow> transports \<Rightarrow> (pyval \<Rightarrow> osv_vuln list result) \<Rightarrow> 'v ss_env \<Rightarrow> 'v ss_env" where
  "live_scanner cfg tr entries env = env\<lparr>
     se_osv := (\<lambda>dep. rbind (osv_query cfg tr (tr_osv tr dep) dep) (\<lambda>data. if \<not> py_truthy data then Inr [] else entries data)),
     se_latest := (\<lambda>name. get_latest_pypi_version (tr_pypi tr name) name) \<rparr>"

section \<open>Outages\<close>

text \<open>The service fails in a way that is tried again, \<open>n\<close> times from the first attempt on.\<close>

definition fails :: "nat \<Rightarrow> http \<Rightarrow> http_call \<Rightarrow> bool" where
  "fails n net c = (\<forall>j<n. \<exists>e. answered hr_json (net j c) = Inl e \<and> is_http_error e)"

lemma three_attempts_result:
  assumes "retry_ok (tr_again tr)"
  obtains k where "k \<le> 2" "three_attempts tr net c = answered hr_json (net k c)" "fails k net c"
    "k = 2 \<or> \<not> (\<exists>e. answered hr_json (net k c) = Inl e \<and> is_http_error e)"
proof -
  obtain r sent where r: "tr_again tr (Suc 2) is_http_error (logged net c hr_json) [] = (r, sent)" by (rule prod.exhaust)
  from retried_request [OF assms r] r that show thesis by (auto simp: three_attempts_def fails_def)
qed

lemma three_attempts_ok:
  assumes "retry_ok (tr_again tr)" "k < 3" "fails k net c" "answered hr_json (net k c) = Inr v"
  shows "three_attempts tr net c = Inr v"
proof -
  obtain i where i: "i \<le> 2" "three_attempts tr net c = answered hr_json (net i c)" "fails i net c"
    "i = 2 \<or> \<not> (\<exists>e. answered hr_json (net i c) = Inl e \<and> is_http_error e)"
    using assms(1) by (rule three_attempts_result)
  have "\<not> i < k" using i(4) assms(2,3) unfolding fails_def by auto
  moreover have "\<not> k < i" using i(3) assms(4) unfolding fails_def by auto
  ultimately show ?thesis using i(2) assms(4) by (simp add: not_less)
qed

lemma three_attempts_down:
  assumes "retry_ok (tr_again tr)" "fails 3 net c"
  obtains e where "three_attempts tr net c = Inl e" "is_http_error e"
proof -
  obtain i where "i \<le> 2" "three_attempts tr net c = answered hr_json (net i c)"
    using assms(1) by (rule three_attempts_result)
  with assms(2) that show thesis unfolding fails_def by (metis le_imp_less_Suc numeral_3_eq_3 numeral_2_eq_2)
qed

text \<open>
  NVD failing once or twice is not noticed: the asset gets the CVEs of the answer that comes. After
  three failures the asset has none, as if NVD knew no vulnerability of the product.
\<close>

theorem nvd_outages:
  assumes "retry_ok (tr_again tr)"
  shows "(k < 3 \<and> fails k (tr_nvd tr cpe) (nvd_call cfg cpe) \<and> answered hr_json (tr_nvd tr cpe k (nvd_call cfg cpe)) = Inr v
      \<longrightarrow> get_cves_for_cpe (live_feeds cfg tr num parse_date) cpe
          = get_cves_for_cpe ((live_feeds cfg tr num parse_date)\<lparr>fe_nvd := (\<lambda>c. Inr v)\<rparr>) cpe)
   \<and> (fails 3 (tr_nvd tr cpe) (nvd_call cfg cpe)
      \<longrightarrow> get_cves_for_cpe (live_feeds cfg tr num parse_date) cpe = Inr [])"
proof (intro conjI impI)
  assume "k < 3 \<and> fails k (tr_nvd tr cpe) (nvd_call cfg cpe) \<and> answered hr_json (tr_nvd tr cpe k (nvd_call cfg cpe)) = Inr v"
  then have "three_attempts tr (tr_nvd tr cpe) (nvd_call cfg cpe) = Inr v" using three_attempts_ok [OF assms] by blast
  then show "get_cves_for_cpe (live_feeds cfg tr num parse_date) cpe
      = get_cves_for_cpe ((live_feeds cfg tr num parse_date)\<lparr>fe_nvd := (\<lambda>c. Inr v)\<rparr>) cpe"
    by (simp add: get_cves_for_cpe_def live_feeds_def nvd_get_def or_retry_error_def)
next
  assume "fails 3 (tr_nvd tr cpe) (nvd_call cfg cpe)"
  with assms obtain e where "three_attempts tr (tr_nvd tr cpe) (nvd_call cfg cpe) = Inl e" by (rule three_attempts_down)
  then show "get_cves_for_cpe (live_feeds cfg tr num parse_date) cpe = Inr []"
    by (simp add: get_cves_for_cpe_def live_feeds_def nvd_get_def or_retry_error_def)
qed

text \<open>OSV is different: when it fails three times for a package, the scan fails with that error.\<close>

lemma osv_outage_fails_scan:
  assumes "retry_ok (tr_again tr)" "fails 3 (tr_osv tr dep) (osv_call cfg dep)" "dr_name dep \<notin> set excluded"
  shows "\<exists>m. query_deps (live_scanner cfg tr entries env) excluded (dep # deps) = Inl (ServiceError m)"
proof -
  obtain e where e: "three_attempts tr (tr_osv tr dep) (osv_call cfg dep) = Inl e" "is_http_error e"
    using assms(1,2) by (rule three_attempts_down)
  then obtain m where "as_exn e = ServiceError m" by (cases e) (auto simp: is_http_error_def)
  with e(1) assms(3) show ?thesis by (simp add: live_scanner_def osv_query_def reraised_def)
qed

text \<open>A KEV answer that is no success leaves the catalog that was loaded before.\<close>

lemma kev_outage_keeps_catalog:
  assumes "answered hr_json (tr_kev tr 0 (get_of (KEV_FEED_URL cfg))) = Inl e" "is_http_error e"
  shows "load_kev_catalog (live_feeds cfg tr num parse_date) now force en = Inr en"
proof -
  have "\<exists>m. kev_get cfg (tr_kev tr) = Inl (ServiceError m)"
    using assms by (cases e; auto simp: answered_def checked_answer_def or_exc_def kev_get_def checked_call_def send_call_def is_http_error_def split: sum.splits if_splits)
  then show ?thesis by (auto simp: load_kev_catalog_def live_feeds_def)
qed

end
