(* ===== verification/UpdateReview.thy ===== *)
theory UpdateReview
  imports SelfSecurity AiClient
begin

text \<open>
  The review of update proposals on the client of the language model: the schema that
  \<open>app/services/ai_update_validator.py\<close> sends with \<open>complete_json\<close>, what an answer that keeps to it
  becomes, and what an outage of the provider becomes. \<open>conforms\<close> is the part of JSON Schema the
  schema uses.
\<close>

definition VALIDATION_FIELDS :: "string list" where
  "VALIDATION_FIELDS = [''recommendation'', ''risk_score'', ''version_jump_type'', ''breaking_changes_detected'',
     ''breaking_changes'', ''compatibility_concerns'', ''security_improvement'', ''test_recommendations'', ''summary'']"

definition VALIDATION_PROPERTIES :: "(string \<times> jdict) list" where
  "VALIDATION_PROPERTIES =
     [(''recommendation'', [(''type'', PStr ''string''), (''enum'', PList (map PStr [''approve'', ''reject'', ''manual_review'']))]),
      (''risk_score'', [(''type'', PStr ''number''), (''minimum'', PInt 0), (''maximum'', PInt 10)]),
      (''version_jump_type'', [(''type'', PStr ''string''), (''enum'', PList (map PStr [''patch'', ''minor'', ''major'', ''unknown'']))]),
      (''breaking_changes_detected'', [(''type'', PStr ''boolean'')]),
      (''breaking_changes'', [(''type'', PStr ''array''), (''items'', PDict [(''type'', PStr ''string'')])]),
      (''compatibility_concerns'', [(''type'', PStr ''array''), (''items'', PDict [(''type'', PStr ''string'')])]),
      (''security_improvement'', [(''type'', PStr ''string'')]),
      (''test_recommendations'', [(''type'', PStr ''array''), (''items'', PDict [(''type'', PStr ''string'')])]),
      (''summary'', [(''type'', PStr ''string'')])]"

definition VALIDATION_SCHEMA :: jdict where
  "VALIDATION_SCHEMA = [(''type'', PStr ''object''),
     (''properties'', PDict (map (\<lambda>(k, s). (k, PDict s)) VALIDATION_PROPERTIES)),
     (''required'', PList (map PStr VALIDATION_FIELDS)), (''additionalProperties'', PBool False)]"

text \<open>\<open>assess_update\<close> asks the configured provider, with a system prompt of its own for none.\<close>

definition live_review :: "ai_settings \<Rightarrow> transport \<Rightarrow> 'v ss_env \<Rightarrow> 'v ss_env" where
  "live_review ai net env =
     env\<lparr>se_ai := (\<lambda>prompt. complete_json ai net prompt (PDict VALIDATION_SCHEMA) 2000 None)\<rparr>"

section \<open>Answers that keep to the schema\<close>

fun type_is :: "string \<Rightarrow> pyval \<Rightarrow> bool" where
  "type_is t (PStr s) = (t = ''string'')"
| "type_is t (PBool b) = (t = ''boolean'')"
| "type_is t (PInt i) = (t = ''number'')"
| "type_is t (PFloat x) = (t = ''number'')"
| "type_is t (PList xs) = (t = ''array'')"
| "type_is t (PDict d) = (t = ''object'')"
| "type_is t PNone = False"

fun number_of :: "pyval \<Rightarrow> rat" where
  "number_of (PInt i) = of_int i"
| "number_of (PFloat x) = x"
| "number_of v = 0"

definition field_conforms :: "jdict \<Rightarrow> pyval \<Rightarrow> bool" where
  "field_conforms s v =
     ((case jget s ''type'' of PStr t \<Rightarrow> type_is t v | _ \<Rightarrow> True)
      \<and> (case jget s ''enum'' of PList es \<Rightarrow> v \<in> set es | _ \<Rightarrow> True)
      \<and> (case jget s ''minimum'' of PInt m \<Rightarrow> of_int m \<le> number_of v | _ \<Rightarrow> True)
      \<and> (case jget s ''maximum'' of PInt m \<Rightarrow> number_of v \<le> of_int m | _ \<Rightarrow> True)
      \<and> (case jget s ''items'' of PDict i \<Rightarrow>
            (case (v, jget i ''type'') of (PList xs, PStr t) \<Rightarrow> list_all (type_is t) xs | _ \<Rightarrow> True) | _ \<Rightarrow> True))"

definition conforms :: "jdict \<Rightarrow> bool" where
  "conforms r =
     (list_all (\<lambda>k. map_of r k \<noteq> None) VALIDATION_FIELDS
      \<and> list_all (\<lambda>(k, v). case map_of VALIDATION_PROPERTIES k of None \<Rightarrow> False | Some s \<Rightarrow> field_conforms s v) r)"

lemma conforming_field:
  assumes "conforms r" "k \<in> set VALIDATION_FIELDS"
  obtains v s where "map_of r k = Some v" "map_of VALIDATION_PROPERTIES k = Some s" "field_conforms s v"
proof -
  from assms obtain v where v: "map_of r k = Some v" by (auto simp: conforms_def list_all_iff)
  with assms(1) have "case map_of VALIDATION_PROPERTIES k of None \<Rightarrow> False | Some s \<Rightarrow> field_conforms s v"
    using map_of_SomeD [OF v] by (fastforce simp: conforms_def list_all_iff)
  with v that show thesis by (auto split: option.splits)
qed

lemma field_names: "''recommendation'' \<in> set VALIDATION_FIELDS" "''risk_score'' \<in> set VALIDATION_FIELDS"
  "''breaking_changes_detected'' \<in> set VALIDATION_FIELDS" "''summary'' \<in> set VALIDATION_FIELDS"
  by (simp_all add: VALIDATION_FIELDS_def)

lemma conforming_values:
  assumes "conforms r"
  obtains x b t where "map_of r ''recommendation'' = Some x" "x \<in> set recommendations"
    "map_of r ''breaking_changes_detected'' = Some (PBool b)" "map_of r ''summary'' = Some (PStr t)"
proof -
  from conforming_field [OF assms field_names(1)] obtain x s where x: "map_of r ''recommendation'' = Some x"
    "map_of VALIDATION_PROPERTIES ''recommendation'' = Some s" "field_conforms s x" .
  from conforming_field [OF assms field_names(3)] obtain b sb where b: "map_of r ''breaking_changes_detected'' = Some b"
    "map_of VALIDATION_PROPERTIES ''breaking_changes_detected'' = Some sb" "field_conforms sb b" .
  from conforming_field [OF assms field_names(4)] obtain t st where t: "map_of r ''summary'' = Some t"
    "map_of VALIDATION_PROPERTIES ''summary'' = Some st" "field_conforms st t" .
  have "x \<in> set recommendations"
    using x(2,3) by (auto simp: VALIDATION_PROPERTIES_def field_conforms_def jget_def recommendations_def)
  moreover have "\<exists>b'. b = PBool b'"
    using b(2,3) by (cases b) (auto simp: VALIDATION_PROPERTIES_def field_conforms_def jget_def)
  moreover have "\<exists>t'. t = PStr t'"
    using t(2,3) by (cases t) (auto simp: VALIDATION_PROPERTIES_def field_conforms_def jget_def)
  ultimately show thesis using that x(1) b(1) t(1) by blast
qed

text \<open>A score in the range of the schema is stored as a float; an integer in it is one exactly.\<close>

lemma conforming_score:
  assumes "conforms r"
  obtains v where "map_of r ''risk_score'' = Some v" "to_float env v = Inr (number_of v)" "0 \<le> number_of v" "number_of v \<le> 10"
proof -
  from conforming_field [OF assms field_names(2)] obtain v s where v: "map_of r ''risk_score'' = Some v"
    "map_of VALIDATION_PROPERTIES ''risk_score'' = Some s" "field_conforms s v" .
  then have f: "type_is ''number'' v" "0 \<le> number_of v" "number_of v \<le> 10"
    by (auto simp: VALIDATION_PROPERTIES_def field_conforms_def jget_def)
  have "to_float env v = Inr (number_of v)"
  proof (cases v)
    case (PInt i)
    with f have "0 \<le> i" "i \<le> 10" by auto
    then have "fl (of_int i) = of_int i" by (intro fl_of_int) auto
    with PInt show ?thesis by simp
  qed (use f(1) in auto)
  with v(1) f(2,3) that show thesis by blast
qed

text \<open>
  An answer that keeps to the schema is recorded as it is: the proposal gets the recommendation,
  the score and the verdict of the answer, whatever the other fields hold.
\<close>

theorem conforming_answer_recorded:
  assumes "conforms r" "se_ai env (se_prompt env (up_package_name p) (up_current_version p) (up_target_version p) (up_reason p)
      (if up_cves_fixed p = [] then ''none'' else join '', '' (up_cves_fixed p))) = Inr answer"
    "se_json env (clean_answer answer) = Some (PDict r)"
  shows "\<exists>q x b t v. validate_one env p = Inr (q, True) \<and> up_status q = ''ai_validated''
    \<and> map_of r ''recommendation'' = Some (PStr x) \<and> up_ai_recommendation q = Some x
    \<and> map_of r ''breaking_changes_detected'' = Some (PBool b) \<and> up_breaking_changes_detected q = b
    \<and> map_of r ''summary'' = Some (PStr t) \<and> up_compatibility_notes q = Some t
    \<and> map_of r ''risk_score'' = Some v \<and> up_ai_risk_score q = Some (number_of v)"
proof -
  from assms(1) obtain x b t where f: "map_of r ''recommendation'' = Some x" "x \<in> set recommendations"
    "map_of r ''breaking_changes_detected'' = Some (PBool b)" "map_of r ''summary'' = Some (PStr t)"
    by (rule conforming_values)
  from assms(1) obtain v where v: "map_of r ''risk_score'' = Some v" "to_float env v = Inr (number_of v)"
    by (rule conforming_score)
  obtain y where y: "x = PStr y" using f(2) by (auto simp: recommendations_def)
  let ?r = "jset ''breaking_changes_detected'' (PBool b) (jset ''risk_score'' (PFloat (number_of v)) r)"
  have n: "normalize_assessment env r = Inr ?r"
    using f v by (simp add: normalize_assessment_def jget_def jget_or_def Let_def map_of_jset)
  have "map_of ?r ''recommendation'' = Some (PStr y)" "map_of ?r ''risk_score'' = Some (PFloat (number_of v))"
    "map_of ?r ''summary'' = Some (PStr t)" "map_of ?r ''breaking_changes_detected'' = Some (PBool b)"
    using f y by (simp_all add: map_of_jset)
  then have "record_assessment env ?r p = Inr (Inr (p\<lparr>up_ai_assessment := ?r, up_ai_recommendation := Some y,
      up_ai_risk_score := Some (number_of v), up_breaking_changes_detected := b, up_compatibility_notes := Some t,
      up_status := ''ai_validated''\<rparr>))"
    by (simp add: record_assessment_def jget_or_def jget_def)
  moreover have "assess_update env (up_package_name p) (up_current_version p) (up_target_version p) (up_reason p) (up_cves_fixed p) = Inr ?r"
    using assms(2,3) n by (simp add: assess_update_def Let_def)
  ultimately have "validate_one env p = Inr (p\<lparr>up_ai_assessment := ?r, up_ai_recommendation := Some y,
      up_ai_risk_score := Some (number_of v), up_breaking_changes_detected := b, up_compatibility_notes := Some t,
      up_status := ''ai_validated''\<rparr>, True)"
    by (simp add: validate_one_def)
  with f y v(1) show ?thesis by auto
qed

text \<open>A provider that fails leaves the proposal to a manual review with the highest score.\<close>

theorem outage_needs_review:
  assumes "complete_json ai net (se_prompt env (up_package_name p) (up_current_version p) (up_target_version p) (up_reason p)
      (if up_cves_fixed p = [] then ''none'' else join '', '' (up_cves_fixed p))) (PDict VALIDATION_SCHEMA) 2000 None = Inl e"
  shows "\<exists>q. validate_one (live_review ai net env) p = Inr (q, True) \<and> up_status q = ''ai_validated''
    \<and> up_ai_recommendation q = Some ''manual_review'' \<and> up_ai_risk_score q = Some (fl 10) \<and> up_breaking_changes_detected q"
  using assms
  by (simp add: validate_one_def assess_update_def live_review_def unavailable_assessment_def record_assessment_def jget_or_def
      jget_def)

end
