(* ===== verification/Spec2Isabelle.thy ===== *)
theory Spec2Isabelle
  imports Prelude PyStr PyFloat RiskEngine Models NetAddr Config NetPolicy PyRegex Pii RedisStore Tokens
    Access AuthApi Reconciler OsvScan SelfSecurity SelfSecurityFlow SelfSecurityScan PyJson UrlParse Webhooks
    Encryption ConnectorSecrets Integrations Scanner ScanTasks Retention Notify AssetRisk PyDyn Enrichment Http AiClient AiParser Assets Admin Gdpr ComplianceCatalog ComplianceAudit ComplianceApi ComplianceAi CsvFormat BulkImport Exports Dashboard PyPattern Assistant EventStream Connectors
    SelfSecurityViews Schedule WebApp Schema Migrations SchemaCheck MigratedRows Startup Bootstrap Channels Routes Runtime Feeds UpdateReview
begin

text \<open>
  Kepryx is a self-hosted platform for asset intelligence and risk. This development models its
  Python backend (\<open>app/\<close>, \<open>alembic/versions/\<close>, \<open>scripts/bootstrap.py\<close>) and proves what makes its
  parts correct. Every definition is a translation of the source named with it; definitions keep
  the names of the source where HOL allows it.

  \<^bold>\<open>The program.\<close> A FastAPI process answers requests: a request passes the middleware
  (\<open>WebApp\<close>), is matched with a route and its guard (\<open>Routes\<close>, \<open>Access\<close>) and runs a handler on a
  database session that is committed when the handler returns and rolled back when it raises.
  Celery workers run tasks on a timetable (\<open>Schedule\<close>): they synchronise sources into the asset
  inventory, scan the approved networks, enrich assets with known vulnerabilities, rate risk,
  assess compliance, scan the platform's own packages, flush alerts and apply retention. Both sides
  share the PostgreSQL database; Redis holds revoked tokens, rate limits, stream tickets and the
  channel that carries events to connected browsers.

  \<^bold>\<open>Conventions.\<close> State is passed explicitly: \<open>db\<close> (\<open>Models\<close>) is the record of the tables, each a
  list of rows, and a handler or task yields its result and the database that is committed. What
  Python raises is a value of \<open>exn\<close> (\<open>Prelude\<close>), a fallible step is \<open>exn + 'a\<close>, composed by
  \<open>rbind\<close>, \<open>rmap\<close> and \<open>rfold\<close>. Identifiers are drawn from a counter, times are numbers
  (microseconds, or the unit a theory names), Python's \<open>float\<close> is binary64 without infinities and
  NaN (\<open>PyFloat\<close>), \<open>int\<close> is \<open>int\<close>, addresses are words of 32 and 128 bits. Code outside the
  repository (HTTP, Redis, the resolver, JWT, Argon2, Fernet, HMAC, SHA-256, nmap, the language
  model, the JSON parser, the validation library, PEP 440 versions, the retries of tenacity) is a
  parameter; what a theorem relies on is a named hypothesis (\<open>redis_ok\<close>, \<open>fernet_ok\<close>, \<open>cipher_ok\<close>,
  \<open>versions_ok\<close>, \<open>set_order_ok\<close>, \<open>retry_ok\<close>) and its witness instantiates it. The order of versions is a
  weak one, since 1.0 and 1.0.0 are ties with different texts.

  \<^bold>\<open>Python and its library.\<close> \<open>PyStr\<close> (\<open>str\<close>), \<open>PyFloat\<close>, \<open>PyRegex\<close> and \<open>PyPattern\<close> (\<open>re\<close>), \<open>PyJson\<close>
  (\<open>json.dumps\<close>), \<open>PyDyn\<close> (values of unknown type), \<open>UrlParse\<close>, \<open>NetAddr\<close> (\<open>ipaddress\<close>), \<open>CsvFormat\<close>
  (\<open>csv\<close>), \<open>Http\<close> (\<open>httpx\<close> clients, the log of their requests and tenacity's \<open>retry\<close> around them),
  \<open>RedisStore\<close> (the commands the program sends, with a store in memory that satisfies
  their laws).

  \<^bold>\<open>Accounts and access.\<close>
  \<^item> \<open>Config\<close>, \<open>Startup\<close> (\<open>core/config.py\<close>): settings, the order of their sources, lenient lists, and
    the validation before start; a list setting written with commas is read back.
  \<^item> \<open>NetPolicy\<close> (\<open>core/network_policy.py\<close>, \<open>core/scan_authorization.py\<close>): the management boundary
    cannot be spoofed by headers, an authorised scan range lies inside an approved one.
  \<^item> \<open>Tokens\<close> (\<open>core/security.py\<close>, \<open>core/token_blocklist.py\<close>): a refresh token works once and a
    revocation is final, over every run of the store.
  \<^item> \<open>Access\<close>, \<open>Routes\<close> (\<open>api/deps.py\<close>, \<open>core/api_token_auth.py\<close>, \<open>core/rate_limit.py\<close>,
    \<open>core/password_policy.py\<close>, all decorators of \<open>api/\<close>): what a guard lets through, for one guard and
    over the whole interface; no endpoint hides another.
  \<^item> \<open>AuthApi\<close>, \<open>Admin\<close>, \<open>Gdpr\<close>, \<open>Bootstrap\<close> (\<open>api/auth.py\<close>, \<open>api/admin.py\<close>, \<open>api/api_tokens.py\<close>,
    \<open>api/gdpr.py\<close>, \<open>scripts/bootstrap.py\<close>): the lockout, the life of a service token, what an erasure
    removes, and that a deployment keeps an active administrator.
  \<^item> \<open>Pii\<close>, \<open>Runtime\<close> (\<open>core/pii.py\<close>, the log filter, \<open>workers/_async_runner.py\<close>): scrubbed text holds
    no credential whatever the input.

  \<^bold>\<open>Inventory and risk.\<close>
  \<^item> \<open>Reconciler\<close>, \<open>Integrations\<close>, \<open>ConnectorSecrets\<close>, \<open>Encryption\<close>, \<open>Connectors\<close>
    (\<open>services/reconciler.py\<close>, \<open>workers/reconcile_tasks.py\<close>, \<open>api/integrations.py\<close>,
    \<open>core/connector_secrets.py\<close>, \<open>core/encryption.py\<close>, \<open>connectors/\<close>): source precedence, the circuit
    breaker of a failing source, stored credentials read back, the requests of each source and
    which failures of the asset source are tried again.
  \<^item> \<open>Scanner\<close>, \<open>ScanTasks\<close> (\<open>services/scanner.py\<close>, \<open>workers/scan_tasks.py\<close>, \<open>api/scans.py\<close>): every
    nmap command stays inside the authorised networks.
  \<^item> \<open>RiskEngine\<close>, \<open>AssetRisk\<close> (\<open>services/risk_engine.py\<close>): the score is the exact weighted sum to the
    cent; its bounds, tiers and monotony.
  \<^item> \<open>Enrichment\<close>, \<open>Feeds\<close> (\<open>services/cve_enrichment.py\<close>, \<open>workers/enrichment_tasks.py\<close>): vulnerability
    feeds, what is stored of them, and what an outage does.
  \<^item> \<open>Assets\<close>, \<open>BulkImport\<close>, \<open>Exports\<close>, \<open>Dashboard\<close> (the files of these names in \<open>api/\<close>): the asset
    endpoints, imports and exports and their round trip, the overview and the inventory graph.
  \<^item> \<open>AiClient\<close>, \<open>AiParser\<close>, \<open>Assistant\<close> (\<open>services/ai_client.py\<close>, \<open>services/ai_parser.py\<close>,
    \<open>services/assistant.py\<close>): a completion sends at most three requests and returns what the last
    answer says, its records are typed, a prompt holds nothing outside
    the evidence packet, an answer changes nothing.

  \<^bold>\<open>Compliance, self-security and operations.\<close>
  \<^item> \<open>ComplianceCatalog\<close>, \<open>ComplianceAudit\<close>, \<open>ComplianceApi\<close>, \<open>ComplianceAi\<close>
    (\<open>services/compliance_catalog.py\<close>, \<open>workers/compliance_tasks.py\<close>, \<open>api/compliance.py\<close>,
    \<open>services/compliance_ai.py\<close>): results are those of the rules, evidence is traceable, gap alerts and
    summaries agree with the results.
  \<^item> \<open>OsvScan\<close>, \<open>SelfSecurity\<close>, \<open>SelfSecurityFlow\<close>, \<open>SelfSecurityScan\<close>, \<open>SelfSecurityViews\<close>,
    \<open>UpdateReview\<close>
    (\<open>services/self_security_scanner.py\<close>, \<open>services/ai_update_validator.py\<close>,
    \<open>workers/self_security_tasks.py\<close>, \<open>api/self_security.py\<close>): the pipeline of update proposals as a
    step relation that refines a workflow of stages, with the invariant that nothing is prepared
    without approval.
  \<^item> \<open>Webhooks\<close>, \<open>Notify\<close>, \<open>Channels\<close>, \<open>EventStream\<close> (\<open>api/webhooks.py\<close>,
    \<open>services/webhook_dispatcher.py\<close>, \<open>services/notifications.py\<close>, \<open>workers/notification_tasks.py\<close>,
    \<open>api/alerts.py\<close>, \<open>api/websocket.py\<close>): deliveries go to public addresses only, events reach entitled
    users only, over every interleaving of connections and messages.
  \<^item> \<open>Retention\<close>, \<open>Schedule\<close>, \<open>WebApp\<close> (\<open>workers/retention_tasks.py\<close>, \<open>workers/celery_app.py\<close>,
    \<open>main.py\<close>, \<open>core/security_headers.py\<close>): what retention removes, which scheduled tasks run, the
    headers of answers.
  \<^item> \<open>Models\<close>, \<open>Schema\<close>, \<open>Migrations\<close>, \<open>SchemaCheck\<close>, \<open>MigratedRows\<close> (\<open>models/\<close>,
    \<open>alembic/versions/\<close>): the tables, the migrations as operations on schemas and rows, and that an
    upgraded database has the schema the models declare.

  \<^bold>\<open>How the library is built.\<close> The laws several components share are locales, each interpreted on
  the model's own definitions: \<open>row_mutation\<close> (an update of one row by its key, for users, webhooks,
  sources, packages, assets), \<open>breaker\<close> (a failure counter that trips: the login lock, the
  source that is disabled after five failures, the webhook after ten), \<open>scrub_mark\<close> (a replacement
  text that cannot be part of a secret) and \<open>address_family\<close> (IPv4 and IPv6). Equations of the error
  monad are collected in \<open>res_simps\<close>, facts about rows in \<open>row_simps\<close>. Runs over arbitrary sequences
  are inductive relations (\<open>bl_run\<close>, \<open>ss_step\<close>, \<open>user_step\<close>, \<open>server_step\<close>, \<open>worker_reaches\<close>) with
  invariants by rule induction.

  \<^bold>\<open>Bounds and termination.\<close> No definition uses fuel: loops are structural recursions, folds, or
  functions with a measure. Webhook deliveries count down the three attempts of the source; the
  other retried calls hand their number of attempts to the \<open>retry\<close> parameter, whose law bounds the requests logged. The limits of the source (rows, pages, text lengths, host counts) are in the model as
  written.

  \<^bold>\<open>Not modelled.\<close> Sockets, TLS and broker delivery; time limits and prefetching of Celery; the
  layout of the PDF report; the texts of the prompts of the free-text parser and of the update validator; glyphs beyond Latin-1 and case folding beyond
  ASCII; the widths of audit columns and of the columns a source fills; collations other than byte
  order; the order of rows that SQL leaves open (table order here); concurrency between two
  database transactions (each request or task is one step); rows of duplicate findings that
  migration 0005 deletes; the environment of Alembic; Prometheus output. The manifest
  lists every component with what is left out of it.
\<close>

end
